(* ===== verification/Commons_Prelude.thy ===== *)
theory Commons_Prelude
  imports Main "HOL-Library.Char_ord" "HOL-Library.List_Lexorder" "HOL-Library.Product_Lexorder"
begin

text \<open>
  What every component of the development shares: the sentinel errors of
  \<^verbatim>\<open>src/internal/domain/errors.go\<close>, the error monad in which fallible Go code is written,
  the parts of Go's \<^verbatim>\<open>strings\<close> and \<^verbatim>\<open>unicode/utf8\<close> packages that the sources call (a Go
  string is the list of its bytes), tables of rows with the updates SQL makes on them, and
  the two interfaces (locales) that recur: an invariant of a transition system and a ledger
  that only grows.
\<close>

section \<open>Errors\<close>

text \<open>
  The sentinel errors of the domain package, and the two errors of \<^verbatim>\<open>database/sql\<close> that the
  store tells apart: no row, and a constraint that SQLite refuses. \<open>ErrCanceled\<close> and
  \<open>ErrDeadline\<close> are \<^verbatim>\<open>context.Canceled\<close> and \<^verbatim>\<open>context.DeadlineExceeded\<close>.
\<close>

datatype go_error =
    ErrNotFound | ErrConflict | ErrForbidden | ErrInvalid | ErrFutureRevision | ErrUnavailable
  | SqlNoRows | SqlConstraint
  | ErrCanceled | ErrDeadline

definition mapErr :: "go_error \<Rightarrow> go_error" where
  "mapErr e = (case e of SqlConstraint \<Rightarrow> ErrConflict | SqlNoRows \<Rightarrow> ErrNotFound | _ \<Rightarrow> e)"

lemma mapErr_simps [simp]:
  "mapErr SqlConstraint = ErrConflict" "mapErr SqlNoRows = ErrNotFound"
  "mapErr ErrNotFound = ErrNotFound" "mapErr ErrConflict = ErrConflict"
  "mapErr ErrInvalid = ErrInvalid" "mapErr ErrUnavailable = ErrUnavailable"
  by (simp_all add: mapErr_def)

section \<open>Fallible code\<close>

definition bindE :: "'e + 'a \<Rightarrow> ('a \<Rightarrow> 'e + 'b) \<Rightarrow> 'e + 'b" where
  "bindE m f = (case m of Inl e \<Rightarrow> Inl e | Inr x \<Rightarrow> f x)"

definition requireE :: "bool \<Rightarrow> 'e \<Rightarrow> 'e + unit" where
  "requireE b e = (if b then Inr () else Inl e)"

definition someE :: "'a option \<Rightarrow> 'e \<Rightarrow> 'e + 'a" where
  "someE v e = (case v of None \<Rightarrow> Inl e | Some x \<Rightarrow> Inr x)"

definition mapErrE :: "('e \<Rightarrow> 'f) \<Rightarrow> 'e + 'a \<Rightarrow> 'f + 'a" where
  "mapErrE f m = (case m of Inl e \<Rightarrow> Inl (f e) | Inr x \<Rightarrow> Inr x)"

fun foldE :: "('a \<Rightarrow> 's \<Rightarrow> 'e + 's) \<Rightarrow> 'a list \<Rightarrow> 's \<Rightarrow> 'e + 's" where
  "foldE f [] s = Inr s"
| "foldE f (x # xs) s = bindE (f x s) (foldE f xs)"

lemma bindE_simps [simp]: "bindE (Inl e) f = Inl e" "bindE (Inr x) f = f x"
  by (simp_all add: bindE_def)

lemma bindE_Inr_iff [simp]: "bindE m f = Inr y \<longleftrightarrow> (\<exists>x. m = Inr x \<and> f x = Inr y)"
  by (cases m) auto

lemma requireE_simps [simp]:
  "requireE True e = Inr ()" "requireE False e = Inl e"
  "requireE b e = Inr u \<longleftrightarrow> b"
  by (simp_all add: requireE_def)

lemma someE_simps [simp]:
  "someE None e = Inl e" "someE (Some x) e = Inr x" "someE v e = Inr x \<longleftrightarrow> v = Some x"
  by (simp_all add: someE_def split: option.split)

lemma mapErrE_simps [simp]:
  "mapErrE f (Inl e) = Inl (f e)" "mapErrE f (Inr x) = Inr x"
  "mapErrE f m = Inr x \<longleftrightarrow> m = Inr x"
  by (simp_all add: mapErrE_def split: sum.split)

lemma foldE_invariant:
  assumes "foldE f xs s = Inr t" and "P s"
    and "\<And>x s t. x \<in> set xs \<Longrightarrow> P s \<Longrightarrow> f x s = Inr t \<Longrightarrow> P t"
  shows "P t"
  using assms
proof (induction xs arbitrary: s)
  case Nil
  then show ?case by simp
next
  case (Cons x xs)
  from Cons.prems(1) obtain u where u: "f x s = Inr u" and rest: "foldE f xs u = Inr t"
    by auto
  from u Cons.prems have "P u" by (meson list.set_intros(1))
  with rest Cons.prems(3) show ?case
    by (intro Cons.IH) auto
qed

section \<open>Go strings\<close>

text \<open>
  A Go string is a sequence of bytes, here a list of \<^typ>\<open>char\<close> (256 values); \<open>len\<close> is
  \<^const>\<open>length\<close>. \<^verbatim>\<open>strings.TrimSpace\<close> removes the code points with the Unicode property
  White\_Space from both ends; on bytes these are the UTF-8 sequences listed in \<open>space1\<close>,
  \<open>space2\<close> and \<open>space3\<close>.
\<close>

type_synonym gostring = string
type_synonym time = int \<comment> \<open>nanoseconds since the Unix epoch\<close>
type_synonym duration = int \<comment> \<open>nanoseconds\<close>

text \<open>The zero \<^verbatim>\<open>time.Time\<close> is the first instant of the year 1.\<close>

definition zeroTime :: time where
  "zeroTime = - 62135596800 * 1000000000"

abbreviation byte :: "char \<Rightarrow> nat" where
  "byte c \<equiv> of_char c"

definition space1 :: "char \<Rightarrow> bool" where
  "space1 a \<longleftrightarrow> byte a = 32 \<or> (9 \<le> byte a \<and> byte a \<le> 13)"

definition space2 :: "char \<Rightarrow> char \<Rightarrow> bool" where
  "space2 a b \<longleftrightarrow> byte a = 0xC2 \<and> (byte b = 0x85 \<or> byte b = 0xA0)"

definition space3 :: "char \<Rightarrow> char \<Rightarrow> char \<Rightarrow> bool" where
  "space3 a b c \<longleftrightarrow>
     (byte a = 0xE1 \<and> byte b = 0x9A \<and> byte c = 0x80) \<or>
     (byte a = 0xE2 \<and> byte b = 0x80 \<and>
        (0x80 \<le> byte c \<and> byte c \<le> 0x8A \<or> byte c = 0xA8 \<or> byte c = 0xA9 \<or> byte c = 0xAF)) \<or>
     (byte a = 0xE2 \<and> byte b = 0x81 \<and> byte c = 0x9F) \<or>
     (byte a = 0xE3 \<and> byte b = 0x80 \<and> byte c = 0x80)"

fun trim_left :: "gostring \<Rightarrow> gostring" where
  "trim_left (a # b # c # s) =
     (if space1 a then trim_left (b # c # s)
      else if space2 a b then trim_left (c # s)
      else if space3 a b c then trim_left s
      else a # b # c # s)"
| "trim_left [a, b] =
     (if space1 a then trim_left [b] else if space2 a b then [] else [a, b])"
| "trim_left [a] = (if space1 a then [] else [a])"
| "trim_left [] = []"

fun trim_right_rev :: "gostring \<Rightarrow> gostring" where
  "trim_right_rev (c # b # a # s) =
     (if space1 c then trim_right_rev (b # a # s)
      else if space2 b c then trim_right_rev (a # s)
      else if space3 a b c then trim_right_rev s
      else c # b # a # s)"
| "trim_right_rev [c, b] =
     (if space1 c then trim_right_rev [b] else if space2 b c then [] else [c, b])"
| "trim_right_rev [c] = (if space1 c then [] else [c])"
| "trim_right_rev [] = []"

definition TrimSpace :: "gostring \<Rightarrow> gostring" where
  "TrimSpace s = rev (trim_right_rev (rev (trim_left s)))"

text \<open>\<^verbatim>\<open>utf8.ValidString\<close>: the well-formed byte sequences of RFC 3629.\<close>

definition in_range :: "nat \<Rightarrow> nat \<Rightarrow> char \<Rightarrow> bool" where
  "in_range lo hi c \<longleftrightarrow> lo \<le> byte c \<and> byte c \<le> hi"

fun utf8_valid :: "gostring \<Rightarrow> bool" where
  "utf8_valid [] = True"
| "utf8_valid (a # s) =
     (if byte a < 0x80 then utf8_valid s
      else (case s of
        [] \<Rightarrow> False
      | b # s2 \<Rightarrow>
          if in_range 0xC2 0xDF a then in_range 0x80 0xBF b \<and> utf8_valid s2
          else (case s2 of
            [] \<Rightarrow> False
          | c # s3 \<Rightarrow>
              if in_range 0xE0 0xEF a then
                (if byte a = 0xE0 then in_range 0xA0 0xBF b
                 else if byte a = 0xED then in_range 0x80 0x9F b
                 else in_range 0x80 0xBF b) \<and> in_range 0x80 0xBF c \<and> utf8_valid s3
              else (case s3 of
                [] \<Rightarrow> False
              | d # s4 \<Rightarrow>
                  in_range 0xF0 0xF4 a \<and>
                  (if byte a = 0xF0 then in_range 0x90 0xBF b
                   else if byte a = 0xF4 then in_range 0x80 0x8F b
                   else in_range 0x80 0xBF b) \<and>
                  in_range 0x80 0xBF c \<and> in_range 0x80 0xBF d \<and> utf8_valid s4))))"

definition is_digit :: "char \<Rightarrow> bool" where
  "is_digit c = in_range 48 57 c"

definition is_lower :: "char \<Rightarrow> bool" where
  "is_lower c = in_range 97 122 c"

definition is_upper :: "char \<Rightarrow> bool" where
  "is_upper c = in_range 65 90 c"

definition is_lower_hex :: "char \<Rightarrow> bool" where
  "is_lower_hex c \<longleftrightarrow> is_digit c \<or> in_range 97 102 c"

definition HasPrefix :: "gostring \<Rightarrow> gostring \<Rightarrow> bool" where
  "HasPrefix s p \<longleftrightarrow> take (length p) s = p"

definition HasSuffix :: "gostring \<Rightarrow> gostring \<Rightarrow> bool" where
  "HasSuffix s p \<longleftrightarrow> HasPrefix (rev s) (rev p)"

text \<open>\<^verbatim>\<open>strconv.Itoa\<close> on the lengths and indices the sources print: decimal digits, no sign.\<close>

fun itoa :: "nat \<Rightarrow> gostring" where
  "itoa n = (if n < 10 then [char_of (48 + n)]
             else itoa (n div 10) @ [char_of (48 + n mod 10)])"

declare itoa.simps [simp del]

lemma itoa_digits: "\<forall>c \<in> set (itoa n). is_digit c"
proof (induction n rule: itoa.induct)
  case (1 n)
  have dig: "is_digit (char_of (48 + k))" if "k < 10" for k :: nat
    using that by (simp add: is_digit_def in_range_def)
  show ?case
  proof (cases "n < 10")
    case True
    then show ?thesis by (subst itoa.simps) (simp add: dig)
  next
    case False
    with "1.IH" show ?thesis by (subst itoa.simps) (simp add: dig)
  qed
qed

section \<open>Time stamps as text\<close>

text \<open>
  The store writes times as RFC 3339 text with the trailing zeros of the fraction removed
  and sorts them as text. Date and time to the second have a fixed width, so the order of
  two stamps is that of the seconds and then of the remaining text, from the fraction (or
  its absence) to the final \<open>Z\<close>.
\<close>

definition fracDigits :: "nat \<Rightarrow> gostring" where
  "fracDigits n = map (\<lambda>k. char_of (48 + n div 10 ^ k mod 10)) [8, 7, 6, 5, 4, 3, 2, 1, 0]"

definition fracText :: "nat \<Rightarrow> gostring" where
  "fracText n =
     (if n = 0 then ''Z''
      else CHR ''.'' # rev (dropWhile (\<lambda>c. c = CHR ''0'') (rev (fracDigits n))) @ ''Z'')"

definition stampKey :: "time \<Rightarrow> int \<times> gostring" where
  "stampKey t = (t div 1000000000, fracText (nat (t mod 1000000000)))"

section \<open>Tables\<close>

text \<open>
  A table is the list of its rows in insertion order. \<open>UPDATE t SET f WHERE p\<close> is
  \<open>updWhere p f\<close>, \<open>DELETE FROM t WHERE p\<close> is \<^const>\<open>filter\<close> of the complement, and a
  one-row \<open>SELECT ... WHERE\<close> is \<^const>\<open>find\<close> (the sources use it on a primary or unique
  key, so at most one row qualifies).
\<close>

definition updWhere :: "('r \<Rightarrow> bool) \<Rightarrow> ('r \<Rightarrow> 'r) \<Rightarrow> 'r list \<Rightarrow> 'r list" where
  "updWhere p f rows = map (\<lambda>r. if p r then f r else r) rows"

definition hasRow :: "('r \<Rightarrow> bool) \<Rightarrow> 'r list \<Rightarrow> bool" where
  "hasRow p rows \<longleftrightarrow> list_ex p rows"

definition countWhere :: "('r \<Rightarrow> bool) \<Rightarrow> 'r list \<Rightarrow> nat" where
  "countWhere p rows = length (filter p rows)"

lemma hasRow_iff [simp]: "hasRow p rows \<longleftrightarrow> (\<exists>r \<in> set rows. p r)"
  by (simp add: hasRow_def list_ex_iff)

lemma set_updWhere: "set (updWhere p f rows) = (\<lambda>r. if p r then f r else r) ` set rows"
  by (simp add: updWhere_def)

lemma map_updWhere_frame:
  assumes "\<And>r. g (f r) = g r"
  shows "map g (updWhere p f rows) = map g rows"
  using assms by (simp add: updWhere_def)

lemma filter_updWhere_frame:
  assumes "\<And>r. q (f r) = q r"
  shows "filter q (updWhere p f rows) = updWhere p f (filter q rows)"
  using assms by (induction rows) (auto simp: updWhere_def)

lemma find_SomeD: "find p xs = Some x \<Longrightarrow> x \<in> set xs \<and> p x"
  by (induction xs) (auto split: if_splits)

lemma find_None_iff_all: "find p xs = None \<longleftrightarrow> (\<forall>x \<in> set xs. \<not> p x)"
  by (auto simp: find_None_iff)

lemma find_append: "find p (xs @ ys) = (case find p xs of None \<Rightarrow> find p ys | Some x \<Rightarrow> Some x)"
  by (induction xs) auto

lemma find_append_Some: "find p xs = Some x \<Longrightarrow> find p (xs @ ys) = Some x"
  by (simp add: find_append)

lemma find_unique_key:
  assumes "distinct (map key xs)" and "x \<in> set xs"
  shows "find (\<lambda>r. key r = key x) xs = Some x"
  using assms by (induction xs) (auto simp: rev_image_eqI)

lemma find_key_unique:
  assumes "distinct (map key xs)" and "x \<in> set xs" and "key x = k"
  shows "find (\<lambda>r. key r = k) xs = Some x"
  using find_unique_key [OF assms(1,2)] assms(3) by simp

lemma distinct_key_eq:
  "distinct (map key xs) \<Longrightarrow> x \<in> set xs \<Longrightarrow> y \<in> set xs \<Longrightarrow> key x = key y \<Longrightarrow> x = y"
  by (metis distinct_map inj_onD)

lemma filter_one:
  assumes "distinct (map f xs)" "x \<in> set xs" "p x" "\<And>y. p y \<Longrightarrow> f y = f x"
  shows "filter p xs = [x]"
  using assms
proof (induction xs)
  case (Cons a xs)
  show ?case
  proof (cases "a = x")
    case True
    have "\<not> p y" if "y \<in> set xs" for y
      using Cons.prems(1) Cons.prems(4) [of y] True that by (auto simp: image_iff)
    with True Cons.prems(3) show ?thesis by (simp add: filter_empty_conv)
  next
    case False
    then have "x \<in> set xs" using Cons.prems(2) by simp
    moreover have "\<not> p a"
      using Cons.prems(1) Cons.prems(4) [of a] \<open>x \<in> set xs\<close> by (auto simp: image_iff)
    ultimately show ?thesis using Cons.IH [OF _ _ Cons.prems(3,4)] Cons.prems(1) by simp
  qed
qed simp

lemma find_updWhere:
  assumes "\<And>x. p (g x) \<longleftrightarrow> p x"
  shows "find p (updWhere q g xs) = map_option (\<lambda>x. if q x then g x else x) (find p xs)"
  using assms by (induction xs) (auto simp: updWhere_def)

lemma find_map_key:
  assumes "\<And>x. p (f x) \<longleftrightarrow> q x"
  shows "find p (map f xs) = map_option f (find q xs)"
  using assms by (induction xs) auto

section \<open>Interfaces\<close>

text \<open>
  A transition system with an invariant: the client fact is that every state reached from
  an initial one satisfies it.
\<close>

locale transition_invariant =
  fixes initial :: "'s \<Rightarrow> bool"
    and step :: "'s \<Rightarrow> 's \<Rightarrow> bool"
    and inv :: "'s \<Rightarrow> bool"
  assumes initial_inv: "initial s \<Longrightarrow> inv s"
    and step_inv: "inv s \<Longrightarrow> step s t \<Longrightarrow> inv t"
begin

lemma steps_inv: "step\<^sup>*\<^sup>* s t \<Longrightarrow> inv s \<Longrightarrow> inv t"
  by (induction rule: rtranclp_induct) (auto intro: step_inv)

lemma reachable_inv: "initial s \<Longrightarrow> step\<^sup>*\<^sup>* s t \<Longrightarrow> inv t"
  by (blast intro: steps_inv initial_inv)

end

text \<open>
  A keyed ledger that the steps of a system only extend: what a key was bound to stays
  bound to it in every later state.
\<close>

locale permanent_ledger =
  fixes step :: "'s \<Rightarrow> 's \<Rightarrow> bool"
    and entry :: "'s \<Rightarrow> 'k \<Rightarrow> 'v option"
  assumes step_keeps: "step s t \<Longrightarrow> entry s k = Some v \<Longrightarrow> entry t k = Some v"
begin

lemma entry_permanent: "step\<^sup>*\<^sup>* s t \<Longrightarrow> entry s k = Some v \<Longrightarrow> entry t k = Some v"
  by (induction rule: rtranclp_induct) (auto intro: step_keeps)

end

end
