(* ===== verification/Core_Schema.thy ===== *)
theory Core_Schema
  imports Commons_Prelude
begin

text \<open>
  The SQLite tables behind projects, tasks, milestones, claims and the wiki
  (\<^verbatim>\<open>src/migrations/001_core.sql\<close>, \<^verbatim>\<open>002_general_home.sql\<close>, \<^verbatim>\<open>005_project_core.sql\<close>) as
  records, the whole database as the record \<open>db\<close>, and one definition per SQL statement
  that the store executes on them. A statement either yields the new database or the
  constraint error SQLite raises: primary keys, unique indexes, foreign keys and CHECK
  constraints are the conditions of the statement. Timestamps are kept as times: the store
  writes them with \<^verbatim>\<open>stamp\<close> and reads them with \<^verbatim>\<open>parseStamp\<close>, which is the identity on
  nanosecond times.
\<close>

section \<open>Rows\<close>

record project_row =
  p_id :: gostring
  p_name :: gostring
  p_status :: gostring
  p_purpose :: gostring
  p_milestone :: gostring
  p_now_text :: gostring
  p_revision :: int
  p_created_at :: time
  p_updated_at :: time

record topic_row =
  tp_id :: gostring
  tp_project_id :: "gostring option"
  tp_name :: gostring
  tp_created_at :: time

record milestone_row =
  m_id :: gostring
  m_project_id :: gostring
  m_title :: gostring
  m_status :: gostring
  m_position :: int
  m_target_date :: "gostring option"
  m_project_revision :: int
  m_created_at :: time
  m_updated_at :: time

record task_row =
  t_id :: gostring
  t_project_id :: gostring
  t_state :: gostring
  t_title :: gostring
  t_priority :: int
  t_owner_session_id :: "gostring option"
  t_accept_text :: gostring
  t_description :: gostring
  t_milestone_id :: "gostring option"
  t_project_revision :: int
  t_created_at :: time
  t_updated_at :: time

record claim_row =
  tc_id :: gostring
  tc_task_id :: gostring
  tc_session_id :: gostring
  tc_request_id :: gostring
  tc_claimed_at :: time
  tc_lease_until :: "time option"
  tc_project_revision :: int

record current_claim_row =
  cc_task_id :: gostring
  cc_claim_id :: gostring
  cc_lease_until :: "time option"
  cc_updated_at :: time

record task_event_row =
  te_id :: gostring
  te_task_id :: gostring
  te_project_id :: gostring
  te_project_revision :: int
  te_kind :: gostring
  te_summary :: gostring
  te_from_state :: "gostring option"
  te_to_state :: "gostring option"
  te_actor_id :: gostring
  te_session_id :: gostring
  te_created_at :: time

record change_row =
  ch_project_id :: gostring
  ch_revision :: int
  ch_kind :: gostring
  ch_ref :: gostring
  ch_summary :: gostring
  ch_created_at :: time

record activity_row =
  ac_id :: gostring
  ac_kind :: gostring
  ac_project_id :: "gostring option"
  ac_actor_id :: gostring
  ac_object_ref :: gostring
  ac_object_title :: gostring
  ac_outcome :: gostring
  ac_untrusted :: bool
  ac_occurred_at :: time
  ac_recorded_at :: time

record core_request_row =
  rq_request_key :: gostring
  rq_operation :: gostring
  rq_payload_hash :: gostring
  rq_result_id :: gostring
  rq_result_revision :: int
  rq_project_revision :: int
  rq_created_at :: time

record wiki_page_row =
  wp_id :: gostring
  wp_project_id :: gostring
  wp_slug :: gostring
  wp_title :: gostring
  wp_current_revision :: int

record wiki_revision_row =
  wv_page_id :: gostring
  wv_revision :: int
  wv_summary :: gostring
  wv_body :: gostring
  wv_author_session_id :: gostring
  wv_created_at :: time

record search_row =
  sd_project_id :: "gostring option"
  sd_ref :: gostring
  sd_kind :: gostring
  sd_revision :: int
  sd_title :: gostring
  sd_body :: gostring

record decision_row =
  dc_id :: gostring
  dc_project_id :: gostring
  dc_project_revision :: int
  dc_title :: gostring
  dc_rationale :: gostring
  dc_created_at :: time

record status_event_row =
  se_id :: gostring
  se_project_id :: gostring
  se_project_revision :: int
  se_ref :: gostring
  se_state :: gostring
  se_detail :: gostring
  se_session_id :: gostring
  se_request_id :: "gostring option"
  se_created_at :: time

record redaction_row =
  rd_id :: gostring
  rd_project_id :: gostring
  rd_object_ref :: gostring
  rd_reason :: gostring
  rd_replacement :: gostring
  rd_human_actor :: gostring
  rd_created_at :: time

record db =
  projects :: "project_row list"
  topics :: "topic_row list"
  milestones :: "milestone_row list"
  tasks :: "task_row list"
  task_dependencies :: "(gostring \<times> gostring) list"
  task_claims :: "claim_row list"
  task_current_claims :: "current_claim_row list"
  task_events :: "task_event_row list"
  changes :: "change_row list"
  activity_events :: "activity_row list"
  project_core_requests :: "core_request_row list"
  wiki_pages :: "wiki_page_row list"
  wiki_revisions :: "wiki_revision_row list"
  search_documents :: "search_row list"
  decisions :: "decision_row list"
  status_events :: "status_event_row list"
  redactions :: "redaction_row list"

text \<open>The freshly migrated database: every table empty but for the shared topic.\<close>

definition TopicGeneral :: gostring where
  "TopicGeneral = ''general''"

definition empty_db :: db where
  "empty_db = \<lparr>projects = [],
     topics = [\<lparr>tp_id = TopicGeneral, tp_project_id = None, tp_name = ''General'', tp_created_at = 0\<rparr>],
     milestones = [], tasks = [], task_dependencies = [], task_claims = [],
     task_current_claims = [], task_events = [], changes = [], activity_events = [],
     project_core_requests = [], wiki_pages = [], wiki_revisions = [], search_documents = [],
     decisions = [], status_events = [], redactions = []\<rparr>"

section \<open>Lookups\<close>

definition projectRow :: "db \<Rightarrow> gostring \<Rightarrow> project_row option" where
  "projectRow db k = find (\<lambda>r. p_id r = k) (projects db)"

definition taskRow :: "db \<Rightarrow> gostring \<Rightarrow> task_row option" where
  "taskRow db k = find (\<lambda>r. t_id r = k) (tasks db)"

definition milestoneRow :: "db \<Rightarrow> gostring \<Rightarrow> milestone_row option" where
  "milestoneRow db k = find (\<lambda>r. m_id r = k) (milestones db)"

definition wikiPageBySlug :: "db \<Rightarrow> gostring \<Rightarrow> gostring \<Rightarrow> wiki_page_row option" where
  "wikiPageBySlug db pid slug =
     find (\<lambda>r. wp_project_id r = pid \<and> wp_slug r = slug) (wiki_pages db)"

definition currentClaimRow :: "db \<Rightarrow> gostring \<Rightarrow> current_claim_row option" where
  "currentClaimRow db k = find (\<lambda>r. cc_task_id r = k) (task_current_claims db)"

definition hasProject :: "db \<Rightarrow> gostring \<Rightarrow> bool" where
  "hasProject db k = hasRow (\<lambda>r. p_id r = k) (projects db)"

definition hasTask :: "db \<Rightarrow> gostring \<Rightarrow> bool" where
  "hasTask db k = hasRow (\<lambda>r. t_id r = k) (tasks db)"

definition hasMilestone :: "db \<Rightarrow> gostring \<Rightarrow> bool" where
  "hasMilestone db k = hasRow (\<lambda>r. m_id r = k) (milestones db)"

section \<open>Statements\<close>

named_theorems sql_simps \<open>what it means that a statement succeeded\<close>

definition checked :: "bool \<Rightarrow> 'a \<Rightarrow> go_error + 'a" where
  "checked ok x = (if ok then Inr x else Inl SqlConstraint)"

lemma checked_Inr [simp, sql_simps]: "checked ok x = Inr y \<longleftrightarrow> ok \<and> y = x"
  by (auto simp: checked_def)

lemma checked_True [simp]: "checked True x = Inr x"
  by (simp add: checked_def)

lemma checked_Inl: "checked ok x = Inl e \<longleftrightarrow> \<not> ok \<and> e = SqlConstraint"
  by (auto simp: checked_def)

definition nullif :: "gostring \<Rightarrow> gostring option" where
  "nullif s = (if s = '''' then None else Some s)"

definition sqlInsertProject :: "project_row \<Rightarrow> db \<Rightarrow> go_error + db" where
  "sqlInsertProject r db =
     checked (\<not> hasProject db (p_id r) \<and> 0 \<le> p_revision r) (db\<lparr>projects := projects db @ [r]\<rparr>)"

definition sqlInsertTopic :: "topic_row \<Rightarrow> db \<Rightarrow> go_error + db" where
  "sqlInsertTopic r db =
     checked (\<not> hasRow (\<lambda>q. tp_id q = tp_id r) (topics db) \<and>
              (case tp_project_id r of None \<Rightarrow> True | Some p \<Rightarrow> hasProject db p))
             (db\<lparr>topics := topics db @ [r]\<rparr>)"

definition milestone_checks :: "milestone_row list \<Rightarrow> bool" where
  "milestone_checks ms \<longleftrightarrow>
     (\<forall>r \<in> set ms. m_status r \<in> {''planned'', ''active'', ''completed'', ''cancelled''} \<and>
                   0 \<le> m_position r \<and> 0 \<le> m_project_revision r) \<and>
     distinct (map m_project_id (filter (\<lambda>r. m_status r = ''active'') ms))"

definition sqlInsertMilestone :: "milestone_row \<Rightarrow> db \<Rightarrow> go_error + db" where
  "sqlInsertMilestone r db =
     checked (\<not> hasMilestone db (m_id r) \<and> hasProject db (m_project_id r) \<and>
              milestone_checks (milestones db @ [r]))
             (db\<lparr>milestones := milestones db @ [r]\<rparr>)"

definition sqlUpdateMilestone :: "gostring \<Rightarrow> (milestone_row \<Rightarrow> milestone_row) \<Rightarrow> db \<Rightarrow> go_error + db" where
  "sqlUpdateMilestone k f db =
     (let ms = updWhere (\<lambda>r. m_id r = k) f (milestones db)
      in checked (milestone_checks ms) (db\<lparr>milestones := ms\<rparr>))"

definition task_state_check :: "gostring \<Rightarrow> bool" where
  "task_state_check s \<longleftrightarrow> s \<in> {''ready'', ''in_progress'', ''blocked'', ''done'', ''cancelled''}"

definition task_row_check :: "db \<Rightarrow> task_row \<Rightarrow> bool" where
  "task_row_check db r \<longleftrightarrow>
     task_state_check (t_state r) \<and> 0 \<le> t_project_revision r \<and>
     (case t_milestone_id r of None \<Rightarrow> True | Some m \<Rightarrow> hasMilestone db m)"

definition sqlInsertTask :: "task_row \<Rightarrow> db \<Rightarrow> go_error + db" where
  "sqlInsertTask r db =
     checked (\<not> hasTask db (t_id r) \<and> hasProject db (t_project_id r) \<and> task_row_check db r)
             (db\<lparr>tasks := tasks db @ [r]\<rparr>)"

definition sqlUpdateTask :: "gostring \<Rightarrow> (task_row \<Rightarrow> task_row) \<Rightarrow> db \<Rightarrow> go_error + db" where
  "sqlUpdateTask k f db =
     checked (\<forall>r \<in> set (tasks db). t_id r = k \<longrightarrow> task_row_check db (f r))
             (db\<lparr>tasks := updWhere (\<lambda>r. t_id r = k) f (tasks db)\<rparr>)"

definition sqlInsertDependency :: "gostring \<Rightarrow> gostring \<Rightarrow> db \<Rightarrow> go_error + db" where
  "sqlInsertDependency a b db =
     checked ((a, b) \<notin> set (task_dependencies db) \<and> a \<noteq> b \<and> hasTask db a \<and> hasTask db b)
             (db\<lparr>task_dependencies := task_dependencies db @ [(a, b)]\<rparr>)"

definition sqlDeleteDependencies :: "gostring \<Rightarrow> db \<Rightarrow> db" where
  "sqlDeleteDependencies a db =
     db\<lparr>task_dependencies := filter (\<lambda>d. fst d \<noteq> a) (task_dependencies db)\<rparr>"

definition sqlInsertClaim :: "claim_row \<Rightarrow> db \<Rightarrow> go_error + db" where
  "sqlInsertClaim r db =
     checked (\<not> hasRow (\<lambda>q. tc_id q = tc_id r \<or> tc_request_id q = tc_request_id r) (task_claims db) \<and>
              hasTask db (tc_task_id r))
             (db\<lparr>task_claims := task_claims db @ [r]\<rparr>)"

definition sqlInsertCurrentClaim :: "current_claim_row \<Rightarrow> db \<Rightarrow> go_error + db" where
  "sqlInsertCurrentClaim r db =
     checked (\<not> hasRow (\<lambda>q. cc_task_id q = cc_task_id r \<or> cc_claim_id q = cc_claim_id r)
                       (task_current_claims db) \<and>
              hasTask db (cc_task_id r) \<and> hasRow (\<lambda>q. tc_id q = cc_claim_id r) (task_claims db))
             (db\<lparr>task_current_claims := task_current_claims db @ [r]\<rparr>)"

definition sqlDeleteCurrentClaims :: "gostring \<Rightarrow> db \<Rightarrow> db" where
  "sqlDeleteCurrentClaims k db =
     db\<lparr>task_current_claims := filter (\<lambda>r. cc_task_id r \<noteq> k) (task_current_claims db)\<rparr>"

definition task_event_kinds :: "gostring list" where
  "task_event_kinds =
     [''imported'', ''created'', ''updated'', ''state_changed'', ''claimed'', ''reclaimed'']"

definition sqlInsertTaskEvent :: "task_event_row \<Rightarrow> db \<Rightarrow> go_error + db" where
  "sqlInsertTaskEvent r db =
     checked (\<not> hasRow (\<lambda>q. te_id q = te_id r) (task_events db) \<and> hasTask db (te_task_id r) \<and>
              hasProject db (te_project_id r) \<and> 0 \<le> te_project_revision r \<and>
              te_kind r \<in> set task_event_kinds)
             (db\<lparr>task_events := task_events db @ [r]\<rparr>)"

definition sqlInsertChange :: "change_row \<Rightarrow> db \<Rightarrow> go_error + db" where
  "sqlInsertChange r db =
     checked (\<not> hasRow (\<lambda>q. ch_project_id q = ch_project_id r \<and> ch_revision q = ch_revision r) (changes db) \<and>
              hasProject db (ch_project_id r))
             (db\<lparr>changes := changes db @ [r]\<rparr>)"

definition ActivityKinds :: "gostring list" where
  "ActivityKinds =
     [''project_updated'', ''task_claimed'', ''task_status_changed'', ''decision_recorded'',
      ''wiki_revised'', ''post_published'', ''comment_added'', ''github_issue_changed'',
      ''github_pull_request_changed'', ''github_check_changed'', ''github_commit_referenced'',
      ''host_connected'', ''host_disconnected'', ''wiki_proposal_created'', ''wiki_proposal_reviewed'']"

definition sqlInsertActivity :: "activity_row \<Rightarrow> db \<Rightarrow> go_error + db" where
  "sqlInsertActivity r db =
     checked (\<not> hasRow (\<lambda>q. ac_id q = ac_id r) (activity_events db) \<and>
              (case ac_project_id r of None \<Rightarrow> True | Some p \<Rightarrow> hasProject db p) \<and>
              ac_kind r \<in> set ActivityKinds)
             (db\<lparr>activity_events := activity_events db @ [r]\<rparr>)"

definition sqlInsertCoreRequest :: "core_request_row \<Rightarrow> db \<Rightarrow> go_error + db" where
  "sqlInsertCoreRequest r db =
     checked (\<not> hasRow (\<lambda>q. rq_request_key q = rq_request_key r) (project_core_requests db) \<and>
              0 \<le> rq_result_revision r \<and> 0 \<le> rq_project_revision r)
             (db\<lparr>project_core_requests := project_core_requests db @ [r]\<rparr>)"

definition sqlInsertWikiPage :: "wiki_page_row \<Rightarrow> db \<Rightarrow> go_error + db" where
  "sqlInsertWikiPage r db =
     checked (\<not> hasRow (\<lambda>q. wp_id q = wp_id r \<or>
                           wp_project_id q = wp_project_id r \<and> wp_slug q = wp_slug r) (wiki_pages db) \<and>
              hasProject db (wp_project_id r))
             (db\<lparr>wiki_pages := wiki_pages db @ [r]\<rparr>)"

definition sqlUpdateWikiPage :: "gostring \<Rightarrow> (wiki_page_row \<Rightarrow> wiki_page_row) \<Rightarrow> db \<Rightarrow> db" where
  "sqlUpdateWikiPage k f db = db\<lparr>wiki_pages := updWhere (\<lambda>r. wp_id r = k) f (wiki_pages db)\<rparr>"

definition sqlInsertWikiRevision :: "wiki_revision_row \<Rightarrow> db \<Rightarrow> go_error + db" where
  "sqlInsertWikiRevision r db =
     checked (\<not> hasRow (\<lambda>q. wv_page_id q = wv_page_id r \<and> wv_revision q = wv_revision r) (wiki_revisions db) \<and>
              hasRow (\<lambda>q. wp_id q = wv_page_id r) (wiki_pages db))
             (db\<lparr>wiki_revisions := wiki_revisions db @ [r]\<rparr>)"

text \<open>
  \<open>INSERT INTO search_documents ... ON CONFLICT(ref) DO UPDATE SET revision, title, body\<close>,
  and the plain insert of the other callers.
\<close>

definition sqlInsertSearch :: "search_row \<Rightarrow> db \<Rightarrow> go_error + db" where
  "sqlInsertSearch r db =
     checked (\<not> hasRow (\<lambda>q. sd_ref q = sd_ref r) (search_documents db) \<and>
              (case sd_project_id r of None \<Rightarrow> True | Some p \<Rightarrow> hasProject db p))
             (db\<lparr>search_documents := search_documents db @ [r]\<rparr>)"

definition sqlUpsertSearch :: "search_row \<Rightarrow> db \<Rightarrow> go_error + db" where
  "sqlUpsertSearch r db =
     (if hasRow (\<lambda>q. sd_ref q = sd_ref r) (search_documents db)
      then Inr (db\<lparr>search_documents := updWhere (\<lambda>q. sd_ref q = sd_ref r)
             (\<lambda>q. q\<lparr>sd_revision := sd_revision r, sd_title := sd_title r, sd_body := sd_body r\<rparr>)
             (search_documents db)\<rparr>)
      else sqlInsertSearch r db)"

definition sqlInsertDecision :: "decision_row \<Rightarrow> db \<Rightarrow> go_error + db" where
  "sqlInsertDecision r db =
     checked (\<not> hasRow (\<lambda>q. dc_id q = dc_id r) (decisions db) \<and> hasProject db (dc_project_id r))
             (db\<lparr>decisions := decisions db @ [r]\<rparr>)"

definition sqlInsertStatusEvent :: "status_event_row \<Rightarrow> db \<Rightarrow> go_error + db" where
  "sqlInsertStatusEvent r db =
     checked (\<not> hasRow (\<lambda>q. se_id q = se_id r \<or>
                           se_request_id r \<noteq> None \<and> se_request_id q = se_request_id r) (status_events db) \<and>
              hasProject db (se_project_id r))
             (db\<lparr>status_events := status_events db @ [r]\<rparr>)"

definition sqlInsertRedaction :: "redaction_row \<Rightarrow> db \<Rightarrow> go_error + db" where
  "sqlInsertRedaction r db =
     checked (\<not> hasRow (\<lambda>q. rd_id q = rd_id r) (redactions db) \<and> hasProject db (rd_project_id r))
             (db\<lparr>redactions := redactions db @ [r]\<rparr>)"

lemmas sql_defs =
  sqlInsertProject_def sqlInsertTopic_def sqlInsertMilestone_def sqlUpdateMilestone_def
  sqlInsertTask_def sqlUpdateTask_def sqlInsertDependency_def sqlDeleteDependencies_def
  sqlInsertClaim_def sqlInsertCurrentClaim_def sqlDeleteCurrentClaims_def
  sqlInsertTaskEvent_def sqlInsertChange_def sqlInsertActivity_def sqlInsertCoreRequest_def
  sqlInsertWikiPage_def sqlUpdateWikiPage_def sqlInsertWikiRevision_def sqlInsertSearch_def
  sqlInsertDecision_def sqlInsertStatusEvent_def sqlInsertRedaction_def

lemma projectRow_SomeD: "projectRow db k = Some r \<Longrightarrow> r \<in> set (projects db) \<and> p_id r = k"
  unfolding projectRow_def by (drule find_SomeD) simp

lemma taskRow_SomeD: "taskRow db k = Some r \<Longrightarrow> r \<in> set (tasks db) \<and> t_id r = k"
  unfolding taskRow_def by (drule find_SomeD) simp

lemma milestoneRow_SomeD: "milestoneRow db k = Some r \<Longrightarrow> r \<in> set (milestones db) \<and> m_id r = k"
  unfolding milestoneRow_def by (drule find_SomeD) simp

lemma wikiPageBySlug_SomeD:
  "wikiPageBySlug db p s = Some r \<Longrightarrow> r \<in> set (wiki_pages db) \<and> wp_project_id r = p \<and> wp_slug r = s"
  unfolding wikiPageBySlug_def by (drule find_SomeD) simp

lemma currentClaimRow_SomeD:
  "currentClaimRow db k = Some r \<Longrightarrow> r \<in> set (task_current_claims db) \<and> cc_task_id r = k"
  unfolding currentClaimRow_def by (drule find_SomeD) simp

end
