(* ===== verification/Core_Helpers.thy ===== *)
theory Core_Helpers
  imports Core_Schema
begin

text \<open>
  The commands of \<^verbatim>\<open>src/internal/domain/project_core.go\<close> and the helpers of
  \<^verbatim>\<open>src/internal/store/project_core_helpers.go\<close>: field validation, the actor-scoped request
  key of \<^verbatim>\<open>write.go\<close>, the replay ledger \<^verbatim>\<open>project_core_requests\<close>, the revision counter, the
  task state machine and the validation of task relations with its recursive query for
  cycles. The payload fingerprint (SHA-256 over the JSON of the command) is a parameter
  \<open>hash\<close> of the definitions that use it.
\<close>

section \<open>Commands\<close>

record CoreWriteMeta =
  meta_ActorID :: gostring
  meta_SessionID :: gostring
  meta_RequestID :: gostring

record CreateProjectCommand =
  cp_ID :: gostring
  cp_Name :: gostring
  cp_Status :: gostring
  cp_Purpose :: gostring
  cp_Now :: gostring
  cp_Meta :: CoreWriteMeta

record UpdateProjectCommand =
  up_ID :: gostring
  up_Name :: gostring
  up_Status :: gostring
  up_Purpose :: gostring
  up_Now :: gostring
  up_BaseRevision :: int
  up_Meta :: CoreWriteMeta

record CreateMilestoneCommand =
  cm_ProjectID :: gostring
  cm_Title :: gostring
  cm_Status :: gostring
  cm_TargetDate :: gostring
  cm_Position :: int
  cm_Meta :: CoreWriteMeta

record UpdateMilestoneCommand =
  um_ID :: gostring
  um_Title :: gostring
  um_Status :: gostring
  um_TargetDate :: gostring
  um_Position :: int
  um_BaseRevision :: int
  um_Meta :: CoreWriteMeta

record CreateTaskCommand =
  ct_ProjectID :: gostring
  ct_Title :: gostring
  ct_Description :: gostring
  ct_Acceptance :: gostring
  ct_State :: gostring
  ct_MilestoneID :: gostring
  ct_Priority :: int
  ct_DependencyIDs :: "gostring list"
  ct_Meta :: CoreWriteMeta

record UpdateTaskCommand =
  ut_ID :: gostring
  ut_Title :: gostring
  ut_Description :: gostring
  ut_Acceptance :: gostring
  ut_MilestoneID :: gostring
  ut_Priority :: int
  ut_DependencyIDs :: "gostring list"
  ut_BaseRevision :: int
  ut_Meta :: CoreWriteMeta

record ChangeTaskStateCommand =
  cs_ID :: gostring
  cs_State :: gostring
  cs_Basis :: gostring
  cs_BaseRevision :: int
  cs_Meta :: CoreWriteMeta

record AppendWikiRevisionCommand =
  aw_ProjectID :: gostring
  aw_Slug :: gostring
  aw_Title :: gostring
  aw_Summary :: gostring
  aw_Body :: gostring
  aw_BaseRevision :: int
  aw_Meta :: CoreWriteMeta

record WriteResult =
  wr_ID :: gostring
  wr_Revision :: int

text \<open>
  The anonymous structs that the writers hand to \<^verbatim>\<open>coreFingerprint\<close>, one constructor each.
\<close>

datatype core_payload =
    ProjectPayload gostring gostring gostring gostring gostring
  | ProjectUpdatePayload gostring gostring gostring gostring gostring int
  | MilestonePayload gostring gostring gostring gostring int
  | MilestoneUpdatePayload gostring gostring gostring gostring int int
  | TaskPayload gostring gostring gostring gostring gostring gostring int "gostring list"
  | TaskUpdatePayload gostring gostring gostring gostring gostring int "gostring list" int
  | TaskStatePayload gostring gostring gostring int
  | WikiPayload gostring gostring gostring gostring gostring int

text \<open>
  What a call draws from its surroundings: the successive readings of the clock, and the
  hexadecimal strings that successive calls of \<^verbatim>\<open>newID\<close> obtain from \<^verbatim>\<open>crypto/rand\<close>. The
  canonical writers read the clock once.
\<close>

record env =
  env_clock :: "nat \<Rightarrow> time"
  env_rand :: "nat \<Rightarrow> gostring"

definition env_now :: "env \<Rightarrow> time" where
  "env_now e = env_clock e 0"

definition newID :: "env \<Rightarrow> nat \<Rightarrow> gostring \<Rightarrow> gostring" where
  "newID e k prefix = prefix @ env_rand e k"

section \<open>Validation\<close>

definition ProjectWriteStatuses :: "gostring set" where
  "ProjectWriteStatuses = {''active'', ''paused'', ''completed'', ''archived''}"

definition MilestoneStatuses :: "gostring set" where
  "MilestoneStatuses = {''planned'', ''active'', ''completed'', ''cancelled''}"

definition TaskStates :: "gostring set" where
  "TaskStates = {''ready'', ''in_progress'', ''blocked'', ''done'', ''cancelled''}"

definition boundedCoreText :: "gostring \<Rightarrow> nat \<Rightarrow> bool \<Rightarrow> bool" where
  "boundedCoreText value limit required \<longleftrightarrow>
     \<not> (\<not> utf8_valid value \<or> length value > limit \<or> CHR 0x00 \<in> set value) \<and>
     \<not> (required \<and> TrimSpace value = '''')"

definition validCoreMeta :: "CoreWriteMeta \<Rightarrow> bool" where
  "validCoreMeta m \<longleftrightarrow>
     boundedCoreText (meta_ActorID m) 200 True \<and>
     boundedCoreText (meta_SessionID m) 200 True \<and>
     boundedCoreText (meta_RequestID m) 200 True"

definition slug_char :: "char \<Rightarrow> bool" where
  "slug_char c \<longleftrightarrow> is_lower c \<or> is_digit c \<or> c = CHR ''-''"

definition projectIDPattern :: "gostring \<Rightarrow> bool" where
  "projectIDPattern s = (case s of [] \<Rightarrow> False
     | c # cs \<Rightarrow> (is_lower c \<or> is_digit c) \<and> list_all slug_char cs \<and> length cs \<le> 99)"

definition wikiSlugPattern :: "gostring \<Rightarrow> bool" where
  "wikiSlugPattern s = (case s of [] \<Rightarrow> False
     | c # cs \<Rightarrow> (is_lower c \<or> is_digit c) \<and> list_all slug_char cs \<and> length cs \<le> 119)"

text \<open>
  \<^verbatim>\<open>time.Parse("2006-01-02", value)\<close> succeeds and formats back to the same text exactly when
  the text is four digits, two digits and two digits with a month and a day that exist in
  the proleptic Gregorian calendar.
\<close>

definition digit_val :: "char \<Rightarrow> nat" where
  "digit_val c = byte c - 48"

definition isLeap :: "nat \<Rightarrow> bool" where
  "isLeap y \<longleftrightarrow> y mod 4 = 0 \<and> (y mod 100 \<noteq> 0 \<or> y mod 400 = 0)"

definition daysIn :: "nat \<Rightarrow> nat \<Rightarrow> nat" where
  "daysIn m y = (if m = 2 then (if isLeap y then 29 else 28)
                 else if m \<in> {4, 6, 9, 11} then 30 else 31)"

definition validTargetDate :: "gostring \<Rightarrow> bool" where
  "validTargetDate v = (if v = '''' then True else
     (case v of
        [y1, y2, y3, y4, s1, m1, m2, s2, d1, d2] \<Rightarrow>
          list_all is_digit [y1, y2, y3, y4, m1, m2, d1, d2] \<and> s1 = CHR ''-'' \<and> s2 = CHR ''-'' \<and>
          (let y = digit_val y1 * 1000 + digit_val y2 * 100 + digit_val y3 * 10 + digit_val y4;
               m = digit_val m1 * 10 + digit_val m2; d = digit_val d1 * 10 + digit_val d2
           in 1 \<le> m \<and> m \<le> 12 \<and> 1 \<le> d \<and> d \<le> daysIn m y)
      | _ \<Rightarrow> False))"

text \<open>
  \<^verbatim>\<open>normalizeDependencyIDs\<close> sorts a copy with \<^verbatim>\<open>sort.Strings\<close> (bytewise order, the order
  that \<open>List_Lexorder\<close> and \<open>Char_ord\<close> give lists of bytes) and rejects an unbounded
  identifier or two equal neighbours.
\<close>

fun adjacent_distinct :: "gostring list \<Rightarrow> bool" where
  "adjacent_distinct (a # b # xs) \<longleftrightarrow> a \<noteq> b \<and> adjacent_distinct (b # xs)"
| "adjacent_distinct _ \<longleftrightarrow> True"

definition normalizeDependencyIDs :: "gostring list \<Rightarrow> gostring list option" where
  "normalizeDependencyIDs values =
     (if length values > 20 then None
      else let out = sort values in
        if list_all (\<lambda>v. boundedCoreText v 200 True) out \<and> adjacent_distinct out
        then Some out else None)"

lemma adjacent_distinct_sorted: "sorted xs \<Longrightarrow> adjacent_distinct xs \<longleftrightarrow> distinct xs"
proof (induction xs rule: adjacent_distinct.induct)
  case (1 a b xs)
  have "a \<in> set (b # xs) \<longleftrightarrow> a = b"
    using "1.prems" by (auto intro: order_antisym)
  with 1 show ?case by auto
qed auto

lemma normalizeDependencyIDs_Some:
  "normalizeDependencyIDs vs = Some ds \<longleftrightarrow>
     length vs \<le> 20 \<and> ds = sort vs \<and> distinct vs \<and> (\<forall>v \<in> set vs. boundedCoreText v 200 True)"
  by (auto simp: normalizeDependencyIDs_def Let_def adjacent_distinct_sorted list_all_iff)

section \<open>Request keys\<close>

definition requestStorageKey :: "gostring \<Rightarrow> gostring \<Rightarrow> gostring \<Rightarrow> gostring" where
  "requestStorageKey actorID sessionID requestID =
     (if requestID = '''' then ''''
      else let scope = (if actorID = '''' then sessionID else actorID)
           in itoa (length scope) @ '':'' @ scope @ requestID)"

definition coreRequestKey :: "CoreWriteMeta \<Rightarrow> gostring" where
  "coreRequestKey m = requestStorageKey (meta_ActorID m) (meta_SessionID m) (meta_RequestID m)"

fun atoi_acc :: "nat \<Rightarrow> gostring \<Rightarrow> nat" where
  "atoi_acc n [] = n"
| "atoi_acc n (c # cs) = atoi_acc (10 * n + digit_val c) cs"

lemma atoi_acc_append: "atoi_acc n (xs @ ys) = atoi_acc (atoi_acc n xs) ys"
  by (induction xs arbitrary: n) auto

lemma digit_val_char_of: "k < 10 \<Longrightarrow> digit_val (char_of (48 + k)) = k"
  by (simp add: digit_val_def)

lemma atoi_itoa: "atoi_acc 0 (itoa n) = n"
proof (induction n rule: itoa.induct)
  case (1 n)
  show ?case
  proof (cases "n < 10")
    case True
    then show ?thesis by (subst itoa.simps) (simp add: digit_val_char_of)
  next
    case False
    with "1.IH" show ?thesis
      by (subst itoa.simps) (simp add: atoi_acc_append digit_val_char_of)
  qed
qed

lemma itoa_inj: "itoa m = itoa n \<longleftrightarrow> m = n"
  by (metis atoi_itoa)

text \<open>A prefix of digits up to the first colon is determined by the whole string.\<close>

lemma colon_not_digit: "\<not> is_digit CHR '':''"
  by (simp add: is_digit_def in_range_def)

lemma digit_colon_split:
  assumes "xs @ CHR '':'' # us = ys @ CHR '':'' # vs"
    and "\<forall>c \<in> set xs. is_digit c" and "\<forall>c \<in> set ys. is_digit c"
  shows "xs = ys \<and> us = vs"
proof -
  have tw: "takeWhile is_digit (zs @ CHR '':'' # ws) = zs" if "\<forall>c \<in> set zs. is_digit c" for zs ws
    using that colon_not_digit by (induction zs) auto
  have "xs = ys" using tw [OF assms(2), of us] tw [OF assms(3), of vs] assms(1) by simp
  with assms(1) show ?thesis by simp
qed

lemma scoped_key_inj:
  assumes "itoa (length s) @ '':'' @ s @ r = itoa (length s') @ '':'' @ s' @ r'"
  shows "s = s' \<and> r = r'"
proof -
  have "itoa (length s) = itoa (length s') \<and> s @ r = s' @ r'"
    using assms by (intro digit_colon_split) (auto simp: itoa_digits)
  then have "length s = length s'" and "s @ r = s' @ r'"
    by (simp_all add: itoa_inj)
  then show ?thesis by simp
qed

section \<open>The replay ledger\<close>

definition coreRequestRow :: "db \<Rightarrow> gostring \<Rightarrow> core_request_row option" where
  "coreRequestRow db key = find (\<lambda>r. rq_request_key r = key) (project_core_requests db)"

definition readCoreReplay ::
  "db \<Rightarrow> gostring \<Rightarrow> gostring \<Rightarrow> gostring \<Rightarrow> go_error + WriteResult option" where
  "readCoreReplay db key operation fingerprint =
     (case coreRequestRow db key of
        None \<Rightarrow> Inr None
      | Some r \<Rightarrow>
          if rq_operation r \<noteq> operation \<or> rq_payload_hash r \<noteq> fingerprint then Inl ErrConflict
          else Inr (Some \<lparr>wr_ID = rq_result_id r, wr_Revision = rq_result_revision r\<rparr>))"

definition recordCoreReplay ::
  "gostring \<Rightarrow> gostring \<Rightarrow> gostring \<Rightarrow> gostring \<Rightarrow> int \<Rightarrow> int \<Rightarrow> time \<Rightarrow> db \<Rightarrow> go_error + db" where
  "recordCoreReplay key operation fingerprint resultID resultRevision projectRevision createdAt =
     sqlInsertCoreRequest \<lparr>rq_request_key = key, rq_operation = operation,
       rq_payload_hash = fingerprint, rq_result_id = resultID, rq_result_revision = resultRevision,
       rq_project_revision = projectRevision, rq_created_at = createdAt\<rparr>"

definition bumpProjectRevision :: "gostring \<Rightarrow> time \<Rightarrow> db \<Rightarrow> go_error + (int \<times> db)" where
  "bumpProjectRevision projectID now db =
     (case projectRow db projectID of
        None \<Rightarrow> Inl (mapErr SqlNoRows)
      | Some p \<Rightarrow> Inr (p_revision p + 1,
          db\<lparr>projects := updWhere (\<lambda>r. p_id r = projectID)
               (\<lambda>r. r\<lparr>p_revision := p_revision r + 1, p_updated_at := now\<rparr>) (projects db)\<rparr>))"

definition insertCoreChange ::
  "gostring \<Rightarrow> int \<Rightarrow> gostring \<Rightarrow> gostring \<Rightarrow> gostring \<Rightarrow> time \<Rightarrow> db \<Rightarrow> go_error + db" where
  "insertCoreChange projectID revision kind ref summary now =
     sqlInsertChange \<lparr>ch_project_id = projectID, ch_revision = revision, ch_kind = kind,
       ch_ref = ref, ch_summary = summary, ch_created_at = now\<rparr>"

definition insertCoreActivity ::
  "gostring \<Rightarrow> gostring \<Rightarrow> gostring \<Rightarrow> gostring \<Rightarrow> gostring \<Rightarrow> gostring \<Rightarrow> gostring \<Rightarrow> time \<Rightarrow>
     db \<Rightarrow> go_error + db" where
  "insertCoreActivity newid kind projectID actorID ref title outcome now =
     sqlInsertActivity \<lparr>ac_id = newid, ac_kind = kind, ac_project_id = Some projectID,
       ac_actor_id = actorID, ac_object_ref = ref, ac_object_title = title, ac_outcome = outcome,
       ac_untrusted = True, ac_occurred_at = now, ac_recorded_at = now\<rparr>"

definition insertTaskEvent ::
  "gostring \<Rightarrow> gostring \<Rightarrow> gostring \<Rightarrow> int \<Rightarrow> gostring \<Rightarrow> gostring \<Rightarrow> gostring \<Rightarrow> gostring \<Rightarrow>
     CoreWriteMeta \<Rightarrow> time \<Rightarrow> db \<Rightarrow> go_error + db" where
  "insertTaskEvent newid taskID projectID revision kind summary fromState toState meta now =
     sqlInsertTaskEvent \<lparr>te_id = newid, te_task_id = taskID, te_project_id = projectID,
       te_project_revision = revision, te_kind = kind, te_summary = summary,
       te_from_state = nullif fromState, te_to_state = nullif toState,
       te_actor_id = meta_ActorID meta, te_session_id = meta_SessionID meta, te_created_at = now\<rparr>"

definition coreWriteFailure ::
  "db \<Rightarrow> go_error \<Rightarrow> gostring \<Rightarrow> gostring \<Rightarrow> gostring \<Rightarrow> go_error + WriteResult" where
  "coreWriteFailure db err key operation fingerprint =
     (case readCoreReplay db key operation fingerprint of
        Inr (Some r) \<Rightarrow> Inr r
      | _ \<Rightarrow> Inl (mapErr err))"

section \<open>The task state machine\<close>

definition taskTransitionAllowed :: "gostring \<Rightarrow> gostring \<Rightarrow> bool" where
  "taskTransitionAllowed from to =
     (if from = to \<or> from \<notin> TaskStates \<or> to \<notin> TaskStates \<or> to = ''in_progress'' then False
      else if from = ''ready'' then to = ''blocked'' \<or> to = ''done'' \<or> to = ''cancelled''
      else if from = ''in_progress'' then to = ''blocked'' \<or> to = ''done'' \<or> to = ''cancelled''
      else if from = ''blocked'' then to = ''ready'' \<or> to = ''cancelled''
      else False)"

section \<open>Task relations\<close>

lemma cte_measure_decreases:
  assumes "new = remdups (map snd (filter (\<lambda>d. fst d = x \<and> snd d \<notin> set seen) E))" and "new \<noteq> []"
  shows "card (snd ` set E - set (seen @ new)) < card (snd ` set E - set seen)"
proof (rule psubset_card_mono)
  show "finite (snd ` set E - set seen)" by simp
  obtain y where "y \<in> set new" using assms(2) by (cases new) auto
  moreover have "set new \<subseteq> snd ` set E - set seen" using assms(1) by auto
  ultimately show "snd ` set E - set (seen @ new) \<subset> snd ` set E - set seen" by auto
qed

text \<open>
  The recursive common table expression of \<^verbatim>\<open>validateTaskRelations\<close>, evaluated as SQLite
  evaluates it: a queue of rows still to expand and the set of rows already produced;
  \<open>UNION\<close> drops a row produced before.
\<close>

function cte_reachable ::
  "(gostring \<times> gostring) list \<Rightarrow> gostring list \<Rightarrow> gostring list \<Rightarrow> gostring list" where
  "cte_reachable E [] seen = seen"
| "cte_reachable E (x # queue) seen =
     (let new = remdups (map snd (filter (\<lambda>d. fst d = x \<and> snd d \<notin> set seen) E))
      in cte_reachable E (queue @ new) (seen @ new))"
  by pat_completeness auto

termination
proof (relation "measures [\<lambda>(E, q, seen). card (snd ` set E - set seen), \<lambda>(E, q, seen). length q]",
    goal_cases)
  case 1
  show ?case by simp
next
  case (2 E x queue seen new)
  show ?case
  proof (cases "new = []")
    case True
    then show ?thesis by simp
  next
    case False
    with cte_measure_decreases [OF 2 False] show ?thesis by simp
  qed
qed

definition dependencyReaches :: "(gostring \<times> gostring) list \<Rightarrow> gostring \<Rightarrow> gostring \<Rightarrow> bool" where
  "dependencyReaches E from to =
     (let start = remdups (map snd (filter (\<lambda>d. fst d = from) E))
      in to \<in> set (cte_reachable E start start))"

definition checkDependency ::
  "db \<Rightarrow> gostring \<Rightarrow> gostring \<Rightarrow> bool \<Rightarrow> gostring \<Rightarrow> go_error + unit" where
  "checkDependency db projectID taskID checkCycle dependencyID =
     (if dependencyID = taskID then Inl ErrInvalid
      else case taskRow db dependencyID of
        None \<Rightarrow> Inl (mapErr SqlNoRows)
      | Some t \<Rightarrow>
          if t_project_id t \<noteq> projectID then Inl ErrInvalid
          else if checkCycle \<and> dependencyReaches (task_dependencies db) dependencyID taskID
               then Inl ErrConflict
          else Inr ())"

definition validateTaskRelations ::
  "db \<Rightarrow> gostring \<Rightarrow> gostring \<Rightarrow> gostring \<Rightarrow> gostring list \<Rightarrow> bool \<Rightarrow> go_error + unit" where
  "validateTaskRelations db projectID taskID milestoneID dependencyIDs checkCycle =
     bindE (if milestoneID = '''' then Inr ()
            else case milestoneRow db milestoneID of
              None \<Rightarrow> Inl (mapErr SqlNoRows)
            | Some m \<Rightarrow> requireE (m_project_id m = projectID) ErrInvalid)
       (\<lambda>_. foldE (\<lambda>d _. checkDependency db projectID taskID checkCycle d) dependencyIDs ())"

text \<open>The query returns exactly what the dependency relation reaches in one step or more.\<close>

lemma cte_reachable_sound:
  "set seen \<subseteq> (set E)\<^sup>+ `` {s} \<Longrightarrow> set queue \<subseteq> set seen \<Longrightarrow>
   set (cte_reachable E queue seen) \<subseteq> (set E)\<^sup>+ `` {s}"
proof (induction E queue seen rule: cte_reachable.induct)
  case (1 E seen)
  then show ?case by simp
next
  case (2 E x queue seen)
  define new where "new = remdups (map snd (filter (\<lambda>d. fst d = x \<and> snd d \<notin> set seen) E))"
  have "(s, x) \<in> (set E)\<^sup>+" using "2.prems" by auto
  then have "set new \<subseteq> (set E)\<^sup>+ `` {s}"
    by (auto simp: new_def intro: trancl_into_trancl)
  with "2.prems" have "set (cte_reachable E (queue @ new) (seen @ new)) \<subseteq> (set E)\<^sup>+ `` {s}"
    by (intro "2.IH" [OF new_def]) auto
  then show ?case by (simp add: new_def Let_def)
qed

lemma cte_reachable_closed:
  "(\<forall>x \<in> set seen - set queue. set E `` {x} \<subseteq> set seen) \<Longrightarrow>
   set seen \<subseteq> set (cte_reachable E queue seen) \<and>
   set E `` set (cte_reachable E queue seen) \<subseteq> set (cte_reachable E queue seen)"
proof (induction E queue seen rule: cte_reachable.induct)
  case (1 E seen)
  then show ?case by auto
next
  case (2 E x queue seen)
  define new where "new = remdups (map snd (filter (\<lambda>d. fst d = x \<and> snd d \<notin> set seen) E))"
  have x: "set E `` {x} \<subseteq> set (seen @ new)" by (force simp: new_def)
  have "\<forall>y \<in> set (seen @ new) - set (queue @ new). set E `` {y} \<subseteq> set (seen @ new)"
  proof
    fix y assume y: "y \<in> set (seen @ new) - set (queue @ new)"
    show "set E `` {y} \<subseteq> set (seen @ new)"
    proof (cases "y = x")
      case False
      with y have "y \<in> set seen - set (x # queue)" by auto
      with "2.prems" have "set E `` {y} \<subseteq> set seen" by blast
      then show ?thesis by auto
    qed (use x in simp)
  qed
  from "2.IH" [OF new_def this] show ?case by (simp add: new_def Let_def)
qed

lemma trancl_image_closed:
  assumes "E `` {s} \<subseteq> C" and "E `` C \<subseteq> C"
  shows "E\<^sup>+ `` {s} \<subseteq> C"
proof
  fix y assume "y \<in> E\<^sup>+ `` {s}"
  then have "(s, y) \<in> E\<^sup>+" by simp
  then show "y \<in> C" using assms by (induction rule: trancl_induct) auto
qed

lemma dependencyReaches_iff: "dependencyReaches E from to \<longleftrightarrow> (from, to) \<in> (set E)\<^sup>+"
proof -
  define start where "start = remdups (map snd (filter (\<lambda>d. fst d = from) E))"
  have start: "set start = set E `` {from}" by (force simp: start_def)
  have sound: "set (cte_reachable E start start) \<subseteq> (set E)\<^sup>+ `` {from}"
    using start by (intro cte_reachable_sound) auto
  have "set start \<subseteq> set (cte_reachable E start start)"
    and "set E `` set (cte_reachable E start start) \<subseteq> set (cte_reachable E start start)"
    using cte_reachable_closed [of start start E] by auto
  then have "(set E)\<^sup>+ `` {from} \<subseteq> set (cte_reachable E start start)"
    using start by (intro trancl_image_closed) auto
  with sound show ?thesis
    by (auto simp: dependencyReaches_def start_def [symmetric] Let_def)
qed

text \<open>
  Replacing the outgoing edges of one vertex keeps a graph acyclic when none of the new
  targets reaches that vertex in the old graph.
\<close>

lemma path_avoiding_source:
  assumes "(x, y) \<in> F\<^sup>+" and "F \<subseteq> E \<union> {a} \<times> D"
    and "y = a"
  shows "x = a \<or> (x, a) \<in> E\<^sup>+"
  using assms
proof (induction rule: converse_trancl_induct)
  case (base x)
  then show ?case by auto
next
  case (step x z)
  then consider "z = a" | "(z, a) \<in> E\<^sup>+" by blast
  then show ?case using step.hyps(1) step.prems(1) by cases (auto intro: trancl_into_trancl2)
qed

lemma acyclic_replace_edges:
  assumes acyc: "acyclic E" and F: "F \<subseteq> E \<union> {a} \<times> D"
    and old: "\<And>d. d \<in> D \<Longrightarrow> d \<noteq> a \<and> (d, a) \<notin> E\<^sup>+"
    and drop: "\<And>y. (a, y) \<in> F \<Longrightarrow> y \<in> D"
  shows "acyclic F"
proof -
  have no_a: "(a, a) \<notin> F\<^sup>+"
  proof
    assume "(a, a) \<in> F\<^sup>+"
    then obtain d where d: "(a, d) \<in> F" and "d = a \<or> (d, a) \<in> F\<^sup>+"
      by (meson tranclD rtranclD)
    then have "d = a \<or> (d, a) \<in> E\<^sup>+" using path_avoiding_source [OF _ F] by blast
    with old [OF drop [OF d]] show False by blast
  qed
  have "(x, y) \<in> F\<^sup>+ \<Longrightarrow> (x, y) \<in> E\<^sup>+ \<or> (x, a) \<in> F\<^sup>* \<and> (a, y) \<in> F\<^sup>+" for x y
  proof (induction rule: trancl_induct)
    case (base y)
    then show ?case using F by (cases "x = a") auto
  next
    case (step y z)
    then show ?case
    proof (cases "y = a")
      case True
      with step.hyps show ?thesis by (auto intro: trancl_into_rtrancl)
    next
      case False
      then have "(y, z) \<in> E" using step.hyps(2) F by auto
      with step show ?thesis by (auto intro: trancl_into_trancl)
    qed
  qed
  then have "(x, x) \<notin> F\<^sup>+" for x
    using acyc no_a by (metis acyclic_def rtrancl_trancl_trancl trancl_rtrancl_trancl)
  then show ?thesis by (simp add: acyclic_def)
qed

lemma foldE_unit_iff: "foldE (\<lambda>d _. f d) xs () = Inr u \<longleftrightarrow> (\<forall>d \<in> set xs. f d = Inr ())"
  by (induction xs) auto

lemma checkDependency_Inr:
  "checkDependency db p t c d = Inr u \<longleftrightarrow>
     d \<noteq> t \<and> (\<exists>r. taskRow db d = Some r \<and> t_project_id r = p) \<and>
     (c \<longrightarrow> (d, t) \<notin> (set (task_dependencies db))\<^sup>+)"
  by (auto simp: checkDependency_def dependencyReaches_iff split: option.splits)

lemma validateTaskRelations_Inr:
  "validateTaskRelations db p t m ds c = Inr u \<longleftrightarrow>
     (m \<noteq> '''' \<longrightarrow> (\<exists>r. milestoneRow db m = Some r \<and> m_project_id r = p)) \<and>
     (\<forall>d \<in> set ds. d \<noteq> t \<and> (\<exists>r. taskRow db d = Some r \<and> t_project_id r = p) \<and>
        (c \<longrightarrow> (d, t) \<notin> (set (task_dependencies db))\<^sup>+))"
  by (auto simp: validateTaskRelations_def foldE_unit_iff checkDependency_Inr split: option.splits)

end
