(* ===== verification/Core_Write.thy ===== *)
theory Core_Write
  imports Core_Helpers
begin

text \<open>
  The canonical writers of \<^verbatim>\<open>src/internal/store/project_core_write.go\<close>. Every writer follows
  one protocol: validate, look the request key up without a lock, open a transaction, take
  the write lock, look the key up again, run the body, record the result under the key and
  commit. The protocol is \<open>coreWrite\<close>; it takes two databases, \<open>snap\<close> (what the unlocked
  read saw) and \<open>db\<close> (the state once the write lock is held), because other writers may
  commit in between. A body that fails leaves the database as it was (rollback). The SQL
  engine is taken to answer: I/O errors and lock timeouts are not modelled.
\<close>

section \<open>The write protocol\<close>

datatype tx_exit = TxFail go_error | TxWriteFailure go_error

abbreviation orFail :: "go_error + 'a \<Rightarrow> tx_exit + 'a" where
  "orFail \<equiv> mapErrE TxFail"

abbreviation orMapped :: "go_error + 'a \<Rightarrow> tx_exit + 'a" where
  "orMapped \<equiv> mapErrE (\<lambda>e. TxFail (mapErr e))"

abbreviation orWriteFailure :: "go_error + 'a \<Rightarrow> tx_exit + 'a" where
  "orWriteFailure \<equiv> mapErrE TxWriteFailure"

type_synonym tx_body = "db \<Rightarrow> tx_exit + (WriteResult \<times> db)"
type_synonym core_result = "(go_error + WriteResult) \<times> db"

definition coreTx :: "gostring \<Rightarrow> gostring \<Rightarrow> gostring \<Rightarrow> tx_body \<Rightarrow> db \<Rightarrow> core_result" where
  "coreTx key operation fingerprint body db =
     (case readCoreReplay db key operation fingerprint of
        Inl e \<Rightarrow> (Inl e, db)
      | Inr (Some r) \<Rightarrow> (Inr r, db)
      | Inr None \<Rightarrow>
          (case body db of
             Inr (r, db') \<Rightarrow> (Inr r, db')
           | Inl (TxFail e) \<Rightarrow> (Inl e, db)
           | Inl (TxWriteFailure e) \<Rightarrow> (coreWriteFailure db e key operation fingerprint, db)))"

definition coreWrite ::
  "gostring \<Rightarrow> gostring \<Rightarrow> gostring \<Rightarrow> tx_body \<Rightarrow> db \<Rightarrow> db \<Rightarrow> core_result" where
  "coreWrite key operation fingerprint body snap db =
     (case readCoreReplay snap key operation fingerprint of
        Inl e \<Rightarrow> (Inl e, db)
      | Inr (Some r) \<Rightarrow> (Inr r, db)
      | Inr None \<Rightarrow> coreTx key operation fingerprint body db)"

section \<open>Projects\<close>

definition createProjectValid :: "CreateProjectCommand \<Rightarrow> bool" where
  "createProjectValid c \<longleftrightarrow>
     projectIDPattern (cp_ID c) \<and> cp_ID c \<noteq> TopicGeneral \<and>
     boundedCoreText (cp_Name c) 200 True \<and> cp_Status c \<in> ProjectWriteStatuses \<and>
     boundedCoreText (cp_Purpose c) 4000 True \<and> boundedCoreText (cp_Now c) 4000 False \<and>
     validCoreMeta (cp_Meta c)"

definition createProjectBody ::
  "env \<Rightarrow> CreateProjectCommand \<Rightarrow> gostring \<Rightarrow> gostring \<Rightarrow> gostring \<Rightarrow> tx_body" where
  "createProjectBody e c key operation fingerprint db =
     (let now = env_now e in
      bindE (orWriteFailure (sqlInsertProject \<lparr>p_id = cp_ID c, p_name = cp_Name c,
               p_status = cp_Status c, p_purpose = cp_Purpose c, p_milestone = '''',
               p_now_text = cp_Now c, p_revision = 1, p_created_at = now, p_updated_at = now\<rparr> db)) (\<lambda>db.
      bindE (orMapped (sqlInsertTopic \<lparr>tp_id = cp_ID c, tp_project_id = Some (cp_ID c),
               tp_name = cp_Name c, tp_created_at = now\<rparr> db)) (\<lambda>db.
      bindE (orFail (insertCoreChange (cp_ID c) 1 ''project_created'' (cp_ID c) (cp_Name c) now db)) (\<lambda>db.
      bindE (orFail (insertCoreActivity (newID e 0 ''A-'') ''project_updated'' (cp_ID c)
               (meta_ActorID (cp_Meta c)) (cp_ID c) (cp_Name c) ''created'' now db)) (\<lambda>db.
      bindE (orWriteFailure (recordCoreReplay key operation fingerprint (cp_ID c) 1 1 now db)) (\<lambda>db.
      Inr (\<lparr>wr_ID = cp_ID c, wr_Revision = 1\<rparr>, db)))))))"

definition CreateCanonicalProject ::
  "(core_payload \<Rightarrow> gostring) \<Rightarrow> env \<Rightarrow> CreateProjectCommand \<Rightarrow> db \<Rightarrow> db \<Rightarrow> core_result" where
  "CreateCanonicalProject hash e command snap db =
     (let c = (if cp_Status command = '''' then command\<lparr>cp_Status := ''active''\<rparr> else command) in
      if \<not> createProjectValid c then (Inl ErrInvalid, db)
      else let fingerprint = hash (ProjectPayload (cp_ID c) (cp_Name c) (cp_Status c) (cp_Purpose c) (cp_Now c));
               key = coreRequestKey (cp_Meta c)
        in coreWrite key ''project.create'' fingerprint
             (createProjectBody e c key ''project.create'' fingerprint) snap db)"

definition updateProjectValid :: "UpdateProjectCommand \<Rightarrow> bool" where
  "updateProjectValid c \<longleftrightarrow>
     boundedCoreText (up_ID c) 200 True \<and> boundedCoreText (up_Name c) 200 True \<and>
     up_Status c \<in> ProjectWriteStatuses \<and> boundedCoreText (up_Purpose c) 4000 True \<and>
     boundedCoreText (up_Now c) 4000 False \<and> 0 \<le> up_BaseRevision c \<and> validCoreMeta (up_Meta c)"

definition updateProjectBody ::
  "env \<Rightarrow> UpdateProjectCommand \<Rightarrow> gostring \<Rightarrow> gostring \<Rightarrow> gostring \<Rightarrow> tx_body" where
  "updateProjectBody e c key operation fingerprint db =
     (let now = env_now e in
      bindE (orMapped (someE (projectRow db (up_ID c)) SqlNoRows)) (\<lambda>p.
      bindE (requireE (p_revision p = up_BaseRevision c) (TxFail ErrConflict)) (\<lambda>_.
      bindE (orFail (bumpProjectRevision (up_ID c) now db)) (\<lambda>(revision, db).
      let db = db\<lparr>projects := updWhere (\<lambda>r. p_id r = up_ID c)
                 (\<lambda>r. r\<lparr>p_name := up_Name c, p_status := up_Status c, p_purpose := up_Purpose c,
                        p_now_text := up_Now c\<rparr>) (projects db)\<rparr>;
          db = db\<lparr>topics := updWhere (\<lambda>r. tp_id r = up_ID c \<and> tp_project_id r = Some (up_ID c))
                 (\<lambda>r. r\<lparr>tp_name := up_Name c\<rparr>) (topics db)\<rparr> in
      bindE (orFail (insertCoreChange (up_ID c) revision ''project_updated'' (up_ID c) (up_Name c) now db)) (\<lambda>db.
      bindE (orFail (insertCoreActivity (newID e 0 ''A-'') ''project_updated'' (up_ID c)
               (meta_ActorID (up_Meta c)) (up_ID c) (up_Name c) ''updated'' now db)) (\<lambda>db.
      bindE (orWriteFailure (recordCoreReplay key operation fingerprint (up_ID c) revision revision now db)) (\<lambda>db.
      Inr (\<lparr>wr_ID = up_ID c, wr_Revision = revision\<rparr>, db))))))))"

definition UpdateCanonicalProject ::
  "(core_payload \<Rightarrow> gostring) \<Rightarrow> env \<Rightarrow> UpdateProjectCommand \<Rightarrow> db \<Rightarrow> db \<Rightarrow> core_result" where
  "UpdateCanonicalProject hash e c snap db =
     (if \<not> updateProjectValid c then (Inl ErrInvalid, db)
      else let fingerprint = hash (ProjectUpdatePayload (up_ID c) (up_Name c) (up_Status c)
                                     (up_Purpose c) (up_Now c) (up_BaseRevision c));
               key = coreRequestKey (up_Meta c)
        in coreWrite key ''project.update'' fingerprint
             (updateProjectBody e c key ''project.update'' fingerprint) snap db)"

section \<open>Milestones\<close>

definition createMilestoneValid :: "CreateMilestoneCommand \<Rightarrow> bool" where
  "createMilestoneValid c \<longleftrightarrow>
     boundedCoreText (cm_ProjectID c) 200 True \<and> boundedCoreText (cm_Title c) 300 True \<and>
     cm_Status c \<in> MilestoneStatuses \<and> 0 \<le> cm_Position c \<and> cm_Position c \<le> 100000 \<and>
     validTargetDate (cm_TargetDate c) \<and> validCoreMeta (cm_Meta c)"

definition createMilestoneBody ::
  "env \<Rightarrow> CreateMilestoneCommand \<Rightarrow> gostring \<Rightarrow> gostring \<Rightarrow> gostring \<Rightarrow> tx_body" where
  "createMilestoneBody e c key operation fingerprint db =
     (let now = env_now e; mid = newID e 0 ''MS-'' in
      bindE (orFail (bumpProjectRevision (cm_ProjectID c) now db)) (\<lambda>(revision, db).
      bindE (orWriteFailure (sqlInsertMilestone \<lparr>m_id = mid, m_project_id = cm_ProjectID c,
               m_title = cm_Title c, m_status = cm_Status c, m_position = cm_Position c,
               m_target_date = nullif (cm_TargetDate c), m_project_revision = revision,
               m_created_at = now, m_updated_at = now\<rparr> db)) (\<lambda>db.
      bindE (orFail (insertCoreChange (cm_ProjectID c) revision ''milestone_created'' mid (cm_Title c) now db)) (\<lambda>db.
      bindE (orFail (insertCoreActivity (newID e 1 ''A-'') ''project_updated'' (cm_ProjectID c)
               (meta_ActorID (cm_Meta c)) mid (cm_Title c) ''milestone created'' now db)) (\<lambda>db.
      bindE (orWriteFailure (recordCoreReplay key operation fingerprint mid revision revision now db)) (\<lambda>db.
      Inr (\<lparr>wr_ID = mid, wr_Revision = revision\<rparr>, db)))))))"

definition CreateMilestone ::
  "(core_payload \<Rightarrow> gostring) \<Rightarrow> env \<Rightarrow> CreateMilestoneCommand \<Rightarrow> db \<Rightarrow> db \<Rightarrow> core_result" where
  "CreateMilestone hash e c snap db =
     (if \<not> createMilestoneValid c then (Inl ErrInvalid, db)
      else let fingerprint = hash (MilestonePayload (cm_ProjectID c) (cm_Title c) (cm_Status c)
                                     (cm_TargetDate c) (cm_Position c));
               key = coreRequestKey (cm_Meta c)
        in coreWrite key ''milestone.create'' fingerprint
             (createMilestoneBody e c key ''milestone.create'' fingerprint) snap db)"

definition updateMilestoneValid :: "UpdateMilestoneCommand \<Rightarrow> bool" where
  "updateMilestoneValid c \<longleftrightarrow>
     boundedCoreText (um_ID c) 200 True \<and> boundedCoreText (um_Title c) 300 True \<and>
     um_Status c \<in> MilestoneStatuses \<and> 0 \<le> um_Position c \<and> um_Position c \<le> 100000 \<and>
     validTargetDate (um_TargetDate c) \<and> 0 \<le> um_BaseRevision c \<and> validCoreMeta (um_Meta c)"

definition updateMilestoneBody ::
  "env \<Rightarrow> UpdateMilestoneCommand \<Rightarrow> gostring \<Rightarrow> gostring \<Rightarrow> gostring \<Rightarrow> tx_body" where
  "updateMilestoneBody e c key operation fingerprint db =
     (let now = env_now e in
      bindE (orMapped (someE (milestoneRow db (um_ID c)) SqlNoRows)) (\<lambda>m.
      bindE (requireE (m_project_revision m = um_BaseRevision c) (TxFail ErrConflict)) (\<lambda>_.
      bindE (orFail (bumpProjectRevision (m_project_id m) now db)) (\<lambda>(revision, db).
      bindE (orWriteFailure (sqlUpdateMilestone (um_ID c)
               (\<lambda>r. r\<lparr>m_title := um_Title c, m_status := um_Status c, m_position := um_Position c,
                      m_target_date := nullif (um_TargetDate c), m_project_revision := revision,
                      m_updated_at := now\<rparr>) db)) (\<lambda>db.
      bindE (orFail (insertCoreChange (m_project_id m) revision ''milestone_updated'' (um_ID c) (um_Title c) now db)) (\<lambda>db.
      bindE (orFail (insertCoreActivity (newID e 0 ''A-'') ''project_updated'' (m_project_id m)
               (meta_ActorID (um_Meta c)) (um_ID c) (um_Title c) ''milestone updated'' now db)) (\<lambda>db.
      bindE (orWriteFailure (recordCoreReplay key operation fingerprint (um_ID c) revision revision now db)) (\<lambda>db.
      Inr (\<lparr>wr_ID = um_ID c, wr_Revision = revision\<rparr>, db)))))))))"

definition UpdateMilestone ::
  "(core_payload \<Rightarrow> gostring) \<Rightarrow> env \<Rightarrow> UpdateMilestoneCommand \<Rightarrow> db \<Rightarrow> db \<Rightarrow> core_result" where
  "UpdateMilestone hash e c snap db =
     (if \<not> updateMilestoneValid c then (Inl ErrInvalid, db)
      else let fingerprint = hash (MilestoneUpdatePayload (um_ID c) (um_Title c) (um_Status c)
                                     (um_TargetDate c) (um_Position c) (um_BaseRevision c));
               key = coreRequestKey (um_Meta c)
        in coreWrite key ''milestone.update'' fingerprint
             (updateMilestoneBody e c key ''milestone.update'' fingerprint) snap db)"

section \<open>Tasks\<close>

definition createTaskValid :: "CreateTaskCommand \<Rightarrow> bool" where
  "createTaskValid c \<longleftrightarrow>
     boundedCoreText (ct_ProjectID c) 200 True \<and> boundedCoreText (ct_Title c) 300 True \<and>
     boundedCoreText (ct_Description c) 12000 False \<and> boundedCoreText (ct_Acceptance c) 4000 False \<and>
     (ct_State c = ''ready'' \<or> ct_State c = ''blocked'') \<and> -1000 \<le> ct_Priority c \<and>
     ct_Priority c \<le> 1000 \<and> boundedCoreText (ct_MilestoneID c) 200 False \<and> validCoreMeta (ct_Meta c)"

definition createTaskBody ::
  "env \<Rightarrow> CreateTaskCommand \<Rightarrow> gostring list \<Rightarrow> gostring \<Rightarrow> gostring \<Rightarrow> gostring \<Rightarrow> tx_body" where
  "createTaskBody e c dependencies key operation fingerprint db =
     (let now = env_now e; tid = newID e 0 ''T-'' in
      bindE (orFail (validateTaskRelations db (ct_ProjectID c) tid (ct_MilestoneID c) dependencies False)) (\<lambda>_.
      bindE (orFail (bumpProjectRevision (ct_ProjectID c) now db)) (\<lambda>(revision, db).
      bindE (orWriteFailure (sqlInsertTask \<lparr>t_id = tid, t_project_id = ct_ProjectID c,
               t_state = ct_State c, t_title = ct_Title c, t_priority = ct_Priority c,
               t_owner_session_id = None, t_accept_text = ct_Acceptance c,
               t_description = ct_Description c, t_milestone_id = nullif (ct_MilestoneID c),
               t_project_revision = revision, t_created_at = now, t_updated_at = now\<rparr> db)) (\<lambda>db.
      bindE (orMapped (foldE (sqlInsertDependency tid) dependencies db)) (\<lambda>db.
      bindE (orFail (insertTaskEvent (newID e 1 ''TE-'') tid (ct_ProjectID c) revision ''created''
               ''Task created'' '''' (ct_State c) (ct_Meta c) now db)) (\<lambda>db.
      bindE (orFail (insertCoreChange (ct_ProjectID c) revision ''task_created'' tid (ct_Title c) now db)) (\<lambda>db.
      bindE (orFail (insertCoreActivity (newID e 2 ''A-'') ''task_status_changed'' (ct_ProjectID c)
               (meta_ActorID (ct_Meta c)) tid (ct_Title c) ''created'' now db)) (\<lambda>db.
      bindE (orWriteFailure (recordCoreReplay key operation fingerprint tid revision revision now db)) (\<lambda>db.
      Inr (\<lparr>wr_ID = tid, wr_Revision = revision\<rparr>, db))))))))))"

definition CreateCanonicalTask ::
  "(core_payload \<Rightarrow> gostring) \<Rightarrow> env \<Rightarrow> CreateTaskCommand \<Rightarrow> db \<Rightarrow> db \<Rightarrow> core_result" where
  "CreateCanonicalTask hash e command snap db =
     (let c = (if ct_State command = '''' then command\<lparr>ct_State := ''ready''\<rparr> else command) in
      case normalizeDependencyIDs (ct_DependencyIDs c) of
        None \<Rightarrow> (Inl ErrInvalid, db)
      | Some dependencies \<Rightarrow>
          if \<not> createTaskValid c then (Inl ErrInvalid, db)
          else let fingerprint = hash (TaskPayload (ct_ProjectID c) (ct_Title c) (ct_Description c)
                     (ct_Acceptance c) (ct_State c) (ct_MilestoneID c) (ct_Priority c) dependencies);
                   key = coreRequestKey (ct_Meta c)
            in coreWrite key ''task.create'' fingerprint
                 (createTaskBody e c dependencies key ''task.create'' fingerprint) snap db)"

definition updateTaskValid :: "UpdateTaskCommand \<Rightarrow> bool" where
  "updateTaskValid c \<longleftrightarrow>
     boundedCoreText (ut_ID c) 200 True \<and> boundedCoreText (ut_Title c) 300 True \<and>
     boundedCoreText (ut_Description c) 12000 False \<and> boundedCoreText (ut_Acceptance c) 4000 False \<and>
     -1000 \<le> ut_Priority c \<and> ut_Priority c \<le> 1000 \<and> boundedCoreText (ut_MilestoneID c) 200 False \<and>
     0 \<le> ut_BaseRevision c \<and> validCoreMeta (ut_Meta c)"

definition updateTaskBody ::
  "env \<Rightarrow> UpdateTaskCommand \<Rightarrow> gostring list \<Rightarrow> gostring \<Rightarrow> gostring \<Rightarrow> gostring \<Rightarrow> tx_body" where
  "updateTaskBody e c dependencies key operation fingerprint db =
     (let now = env_now e in
      bindE (orMapped (someE (taskRow db (ut_ID c)) SqlNoRows)) (\<lambda>t.
      bindE (requireE (t_project_revision t = ut_BaseRevision c) (TxFail ErrConflict)) (\<lambda>_.
      bindE (orFail (validateTaskRelations db (t_project_id t) (ut_ID c) (ut_MilestoneID c) dependencies True)) (\<lambda>_.
      bindE (orFail (bumpProjectRevision (t_project_id t) now db)) (\<lambda>(revision, db).
      bindE (orMapped (sqlUpdateTask (ut_ID c)
               (\<lambda>r. r\<lparr>t_title := ut_Title c, t_description := ut_Description c,
                      t_accept_text := ut_Acceptance c, t_priority := ut_Priority c,
                      t_milestone_id := nullif (ut_MilestoneID c), t_project_revision := revision,
                      t_updated_at := now\<rparr>) db)) (\<lambda>db.
      bindE (orMapped (foldE (sqlInsertDependency (ut_ID c)) dependencies
               (sqlDeleteDependencies (ut_ID c) db))) (\<lambda>db.
      bindE (orFail (insertTaskEvent (newID e 0 ''TE-'') (ut_ID c) (t_project_id t) revision ''updated''
               ''Task details updated'' (t_state t) (t_state t) (ut_Meta c) now db)) (\<lambda>db.
      bindE (orFail (insertCoreChange (t_project_id t) revision ''task_updated'' (ut_ID c) (ut_Title c) now db)) (\<lambda>db.
      bindE (orFail (insertCoreActivity (newID e 1 ''A-'') ''task_status_changed'' (t_project_id t)
               (meta_ActorID (ut_Meta c)) (ut_ID c) (ut_Title c) ''updated'' now db)) (\<lambda>db.
      bindE (orWriteFailure (recordCoreReplay key operation fingerprint (ut_ID c) revision revision now db)) (\<lambda>db.
      Inr (\<lparr>wr_ID = ut_ID c, wr_Revision = revision\<rparr>, db))))))))))))"

definition UpdateCanonicalTask ::
  "(core_payload \<Rightarrow> gostring) \<Rightarrow> env \<Rightarrow> UpdateTaskCommand \<Rightarrow> db \<Rightarrow> db \<Rightarrow> core_result" where
  "UpdateCanonicalTask hash e c snap db =
     (case normalizeDependencyIDs (ut_DependencyIDs c) of
        None \<Rightarrow> (Inl ErrInvalid, db)
      | Some dependencies \<Rightarrow>
          if \<not> updateTaskValid c then (Inl ErrInvalid, db)
          else let fingerprint = hash (TaskUpdatePayload (ut_ID c) (ut_Title c) (ut_Description c)
                     (ut_Acceptance c) (ut_MilestoneID c) (ut_Priority c) dependencies (ut_BaseRevision c));
                   key = coreRequestKey (ut_Meta c)
            in coreWrite key ''task.update'' fingerprint
                 (updateTaskBody e c dependencies key ''task.update'' fingerprint) snap db)"

definition changeTaskStateValid :: "ChangeTaskStateCommand \<Rightarrow> bool" where
  "changeTaskStateValid c \<longleftrightarrow>
     boundedCoreText (cs_ID c) 200 True \<and> cs_State c \<in> TaskStates \<and>
     boundedCoreText (cs_Basis c) 2000 True \<and> 0 \<le> cs_BaseRevision c \<and> validCoreMeta (cs_Meta c)"

definition changeTaskStateBody ::
  "env \<Rightarrow> ChangeTaskStateCommand \<Rightarrow> gostring \<Rightarrow> gostring \<Rightarrow> gostring \<Rightarrow> tx_body" where
  "changeTaskStateBody e c key operation fingerprint db =
     (let now = env_now e in
      bindE (orMapped (someE (taskRow db (cs_ID c)) SqlNoRows)) (\<lambda>t.
      bindE (requireE (t_project_revision t = cs_BaseRevision c \<and>
                       taskTransitionAllowed (t_state t) (cs_State c)) (TxFail ErrConflict)) (\<lambda>_.
      bindE (orFail (bumpProjectRevision (t_project_id t) now db)) (\<lambda>(revision, db).
      bindE (orMapped (sqlUpdateTask (cs_ID c)
               (\<lambda>r. r\<lparr>t_state := cs_State c, t_project_revision := revision, t_updated_at := now,
                      t_owner_session_id := (if cs_State c = ''ready'' then None
                                             else t_owner_session_id r)\<rparr>) db)) (\<lambda>db.
      let db = (if cs_State c = ''ready'' \<or> cs_State c = ''done'' \<or> cs_State c = ''cancelled''
                then sqlDeleteCurrentClaims (cs_ID c) db else db) in
      bindE (orFail (insertTaskEvent (newID e 0 ''TE-'') (cs_ID c) (t_project_id t) revision
               ''state_changed'' (cs_Basis c) (t_state t) (cs_State c) (cs_Meta c) now db)) (\<lambda>db.
      bindE (orFail (insertCoreChange (t_project_id t) revision ''task_state_changed'' (cs_ID c) (cs_State c) now db)) (\<lambda>db.
      bindE (orFail (insertCoreActivity (newID e 1 ''A-'') ''task_status_changed'' (t_project_id t)
               (meta_ActorID (cs_Meta c)) (cs_ID c) (t_title t) (cs_State c) now db)) (\<lambda>db.
      bindE (orWriteFailure (recordCoreReplay key operation fingerprint (cs_ID c) revision revision now db)) (\<lambda>db.
      Inr (\<lparr>wr_ID = cs_ID c, wr_Revision = revision\<rparr>, db))))))))))"

definition ChangeCanonicalTaskState ::
  "(core_payload \<Rightarrow> gostring) \<Rightarrow> env \<Rightarrow> ChangeTaskStateCommand \<Rightarrow> db \<Rightarrow> db \<Rightarrow> core_result" where
  "ChangeCanonicalTaskState hash e c snap db =
     (if \<not> changeTaskStateValid c then (Inl ErrInvalid, db)
      else let fingerprint = hash (TaskStatePayload (cs_ID c) (cs_State c) (cs_Basis c) (cs_BaseRevision c));
               key = coreRequestKey (cs_Meta c)
        in coreWrite key ''task.state'' fingerprint
             (changeTaskStateBody e c key ''task.state'' fingerprint) snap db)"

section \<open>Wiki\<close>

definition appendWikiValid :: "AppendWikiRevisionCommand \<Rightarrow> bool" where
  "appendWikiValid c \<longleftrightarrow>
     boundedCoreText (aw_ProjectID c) 200 True \<and> wikiSlugPattern (aw_Slug c) \<and>
     boundedCoreText (aw_Title c) 300 True \<and> boundedCoreText (aw_Summary c) 1000 True \<and>
     boundedCoreText (aw_Body c) 24000 True \<and> 0 \<le> aw_BaseRevision c \<and> validCoreMeta (aw_Meta c)"

definition appendWikiBody ::
  "env \<Rightarrow> AppendWikiRevisionCommand \<Rightarrow> gostring \<Rightarrow> gostring \<Rightarrow> gostring \<Rightarrow> tx_body" where
  "appendWikiBody e c key operation fingerprint db =
     (let now = env_now e in
      bindE (case wikiPageBySlug db (aw_ProjectID c) (aw_Slug c) of
               None \<Rightarrow> (if aw_BaseRevision c \<noteq> 0 then Inl (TxFail ErrConflict)
                        else Inr (newID e 0 ''W-'', 0))
             | Some w \<Rightarrow> (if wp_current_revision w \<noteq> aw_BaseRevision c then Inl (TxFail ErrConflict)
                        else Inr (wp_id w, wp_current_revision w))) (\<lambda>(pageID, current).
      bindE (orFail (bumpProjectRevision (aw_ProjectID c) now db)) (\<lambda>(projectRevision, db).
      let pageRevision = current + 1 in
      bindE (if current = 0
             then orWriteFailure (sqlInsertWikiPage \<lparr>wp_id = pageID, wp_project_id = aw_ProjectID c,
                    wp_slug = aw_Slug c, wp_title = aw_Title c, wp_current_revision = pageRevision\<rparr> db)
             else Inr (sqlUpdateWikiPage pageID
                    (\<lambda>r. r\<lparr>wp_title := aw_Title c, wp_current_revision := pageRevision\<rparr>) db)) (\<lambda>db.
      bindE (orMapped (sqlInsertWikiRevision \<lparr>wv_page_id = pageID, wv_revision = pageRevision,
               wv_summary = aw_Summary c, wv_body = aw_Body c,
               wv_author_session_id = meta_SessionID (aw_Meta c), wv_created_at = now\<rparr> db)) (\<lambda>db.
      bindE (orFail (sqlUpsertSearch \<lparr>sd_project_id = Some (aw_ProjectID c), sd_ref = pageID,
               sd_kind = ''wiki'', sd_revision = projectRevision, sd_title = aw_Title c,
               sd_body = aw_Summary c @ '' '' @ aw_Body c\<rparr> db)) (\<lambda>db.
      bindE (orFail (insertCoreChange (aw_ProjectID c) projectRevision ''wiki_revised'' pageID (aw_Summary c) now db)) (\<lambda>db.
      bindE (orFail (insertCoreActivity (newID e 1 ''A-'') ''wiki_revised'' (aw_ProjectID c)
               (meta_ActorID (aw_Meta c)) pageID (aw_Title c) ''revision appended'' now db)) (\<lambda>db.
      bindE (orWriteFailure (recordCoreReplay key operation fingerprint pageID pageRevision projectRevision now db)) (\<lambda>db.
      Inr (\<lparr>wr_ID = pageID, wr_Revision = pageRevision\<rparr>, db))))))))))"

definition AppendWikiRevision ::
  "(core_payload \<Rightarrow> gostring) \<Rightarrow> env \<Rightarrow> AppendWikiRevisionCommand \<Rightarrow> db \<Rightarrow> db \<Rightarrow> core_result" where
  "AppendWikiRevision hash e c snap db =
     (if \<not> appendWikiValid c then (Inl ErrInvalid, db)
      else let fingerprint = hash (WikiPayload (aw_ProjectID c) (aw_Slug c) (aw_Title c)
                                     (aw_Summary c) (aw_Body c) (aw_BaseRevision c));
               key = coreRequestKey (aw_Meta c)
        in coreWrite key ''wiki.append'' fingerprint
             (appendWikiBody e c key ''wiki.append'' fingerprint) snap db)"

end
