(* ===== verification/Task_Claims.thy ===== *)
theory Task_Claims
  imports Core_Write
begin

text \<open>
  Claiming a task (\<^verbatim>\<open>src/internal/store/write.go\<close>, \<^verbatim>\<open>claim_query.go\<close>). A claim may carry a
  lease; a task whose current lease has run out may be handed to another session. The claim
  history \<^verbatim>\<open>task_claims\<close> doubles as the replay ledger: its \<^verbatim>\<open>request_id\<close> column is unique.
\<close>

section \<open>Requests and results\<close>

record ClaimRequest =
  cl_ActorID :: gostring
  cl_TaskID :: gostring
  cl_SessionID :: gostring
  cl_RequestID :: gostring
  cl_LeaseUntil :: "time option"

record Claim =
  claim_ID :: gostring
  claim_TaskID :: gostring
  claim_SessionID :: gostring
  claim_RequestID :: gostring
  claim_Revision :: int
  claim_ClaimedAt :: time
  claim_LeaseUntil :: "time option"

definition sameLease :: "time option \<Rightarrow> time option \<Rightarrow> bool" where
  "sameLease a b = (case (a, b) of (Some x, Some y) \<Rightarrow> x = y | (None, None) \<Rightarrow> True | _ \<Rightarrow> False)"

definition claimByRequest :: "db \<Rightarrow> gostring \<Rightarrow> gostring \<Rightarrow> Claim option" where
  "claimByRequest db storageKey requestID =
     map_option (\<lambda>r. \<lparr>claim_ID = tc_id r, claim_TaskID = tc_task_id r,
         claim_SessionID = tc_session_id r, claim_RequestID = requestID,
         claim_Revision = tc_project_revision r, claim_ClaimedAt = tc_claimed_at r,
         claim_LeaseUntil = tc_lease_until r\<rparr>)
       (find (\<lambda>r. tc_request_id r = storageKey) (task_claims db))"

definition sameClaim :: "Claim \<Rightarrow> ClaimRequest \<Rightarrow> bool" where
  "sameClaim prior req \<longleftrightarrow>
     \<not> (claim_TaskID prior \<noteq> cl_TaskID req \<or> claim_SessionID prior \<noteq> cl_SessionID req \<or>
        \<not> sameLease (claim_LeaseUntil prior) (cl_LeaseUntil req))"

section \<open>The transaction\<close>

text \<open>
  Who may take the task: the task is ready and unclaimed, or its current lease has run out
  and it is ready or in progress. The result says whether this is a handover
  (\<^verbatim>\<open>reclaim\<close>), with the claim and lease it replaces.
\<close>

definition claimAdmission ::
  "db \<Rightarrow> task_row \<Rightarrow> time \<Rightarrow> go_error + (gostring \<times> time) option" where
  "claimAdmission db t claimedAt =
     (case currentClaimRow db (t_id t) of
        None \<Rightarrow> if t_state t \<noteq> ''ready'' then Inl ErrConflict else Inr None
      | Some cc \<Rightarrow>
          (case cc_lease_until cc of
             None \<Rightarrow> Inl ErrConflict
           | Some lease \<Rightarrow>
               if lease > claimedAt then Inl ErrConflict
               else if t_state t \<noteq> ''ready'' \<and> t_state t \<noteq> ''in_progress'' then Inl ErrConflict
               else Inr (Some (cc_claim_id cc, lease))))"

text \<open>
  \<open>UPDATE task_current_claims SET ... WHERE task_id=? AND claim_id=? AND lease_until=?\<close>,
  which must hit exactly one row; the claim id is unique and references a claim.
\<close>

definition handOverClaim ::
  "gostring \<Rightarrow> gostring \<Rightarrow> time \<Rightarrow> gostring \<Rightarrow> time option \<Rightarrow> time \<Rightarrow> db \<Rightarrow> go_error + db" where
  "handOverClaim taskID oldID oldLease newid lease now db =
     (let hit = (\<lambda>r. cc_task_id r = taskID \<and> cc_claim_id r = oldID \<and> cc_lease_until r = Some oldLease);
          rows = updWhere hit (\<lambda>r. r\<lparr>cc_claim_id := newid, cc_lease_until := lease, cc_updated_at := now\<rparr>)
                   (task_current_claims db)
      in if \<not> distinct (map cc_claim_id rows) \<or> \<not> hasRow (\<lambda>q. tc_id q = newid) (task_claims db)
         then Inl (mapErr SqlConstraint)
         else if countWhere hit (task_current_claims db) \<noteq> 1 then Inl ErrConflict
         else Inr (db\<lparr>task_current_claims := rows\<rparr>))"

definition claimBody :: "env \<Rightarrow> ClaimRequest \<Rightarrow> gostring \<Rightarrow> db \<Rightarrow> tx_exit + (Claim \<times> db)" where
  "claimBody e req storageKey db =
     (let claimedAt = env_now e; cid = newID e 0 ''C-'';
          meta = \<lparr>meta_ActorID = cl_ActorID req, meta_SessionID = cl_SessionID req,
                  meta_RequestID = cl_RequestID req\<rparr> in
      bindE (orMapped (someE (taskRow db (cl_TaskID req)) SqlNoRows)) (\<lambda>t.
      bindE (orFail (claimAdmission db t claimedAt)) (\<lambda>reclaim.
      bindE (orFail (bumpProjectRevision (t_project_id t) claimedAt db)) (\<lambda>(revision, db).
      bindE (orWriteFailure (sqlInsertClaim \<lparr>tc_id = cid, tc_task_id = cl_TaskID req,
               tc_session_id = cl_SessionID req, tc_request_id = storageKey, tc_claimed_at = claimedAt,
               tc_lease_until = cl_LeaseUntil req, tc_project_revision = revision\<rparr> db)) (\<lambda>db.
      bindE (case reclaim of
               Some (oldID, oldLease) \<Rightarrow>
                 orFail (handOverClaim (cl_TaskID req) oldID oldLease cid (cl_LeaseUntil req) claimedAt db)
             | None \<Rightarrow>
                 orMapped (sqlInsertCurrentClaim \<lparr>cc_task_id = cl_TaskID req, cc_claim_id = cid,
                   cc_lease_until = cl_LeaseUntil req, cc_updated_at = claimedAt\<rparr> db)) (\<lambda>db.
      bindE (orMapped (sqlUpdateTask (cl_TaskID req)
               (\<lambda>r. r\<lparr>t_state := ''in_progress'', t_owner_session_id := Some (cl_SessionID req),
                      t_project_revision := revision, t_updated_at := claimedAt\<rparr>) db)) (\<lambda>db.
      let kind = (if reclaim \<noteq> None then ''reclaimed'' else ''claimed'');
          summary = (if reclaim \<noteq> None then ''Expired task claim handed off'' else ''Task claimed'') in
      bindE (orFail (insertTaskEvent (newID e 1 ''TE-'') (cl_TaskID req) (t_project_id t) revision
               kind summary (t_state t) ''in_progress'' meta claimedAt db)) (\<lambda>db.
      bindE (orFail (insertCoreChange (t_project_id t) revision ''claim'' (cl_TaskID req) summary claimedAt db)) (\<lambda>db.
      bindE (orFail (insertCoreActivity (newID e 2 ''A-'') ''task_claimed'' (t_project_id t)
               (cl_ActorID req) (cl_TaskID req) (t_title t) kind claimedAt db)) (\<lambda>db.
      Inr (\<lparr>claim_ID = cid, claim_TaskID = cl_TaskID req, claim_SessionID = cl_SessionID req,
             claim_RequestID = cl_RequestID req, claim_Revision = revision,
             claim_ClaimedAt = claimedAt, claim_LeaseUntil = cl_LeaseUntil req\<rparr>, db)))))))))))"

definition claimTx :: "env \<Rightarrow> ClaimRequest \<Rightarrow> gostring \<Rightarrow> db \<Rightarrow> (go_error + Claim) \<times> db" where
  "claimTx e req storageKey db =
     (if \<not> hasTask db (cl_TaskID req) then (Inl ErrNotFound, db)
      else case claimByRequest db storageKey (cl_RequestID req) of
        Some prior \<Rightarrow> (if sameClaim prior req then Inr prior else Inl ErrConflict, db)
      | None \<Rightarrow>
          (case claimBody e req storageKey db of
             Inr (c, db') \<Rightarrow> (Inr c, db')
           | Inl (TxFail err) \<Rightarrow> (Inl err, db)
           | Inl (TxWriteFailure err) \<Rightarrow>
               (case claimByRequest db storageKey (cl_RequestID req) of
                  Some prior \<Rightarrow> if sameClaim prior req then Inr prior else Inl (mapErr err)
                | None \<Rightarrow> Inl (mapErr err), db)))"

definition Claim :: "env \<Rightarrow> ClaimRequest \<Rightarrow> db \<Rightarrow> db \<Rightarrow> (go_error + Claim) \<times> db" where
  "Claim e req snap db =
     (if cl_TaskID req = '''' \<or> cl_SessionID req = '''' \<or> cl_RequestID req = ''''
      then (Inl ErrInvalid, db)
      else let storageKey = requestStorageKey (cl_ActorID req) (cl_SessionID req) (cl_RequestID req) in
        (case claimByRequest snap storageKey (cl_RequestID req) of
           Some prior \<Rightarrow> (if sameClaim prior req then Inr prior else Inl ErrConflict, db)
         | None \<Rightarrow> claimTx e req storageKey db))"

lemma sameLease_iff [simp]: "sameLease a b \<longleftrightarrow> a = b"
  by (auto simp: sameLease_def split: option.splits)

end
