(* ===== verification/Store_Mutations.thy ===== *)
theory Store_Mutations
  imports Task_Claims
begin

text \<open>
  The writers of \<^verbatim>\<open>src/internal/store/store.go\<close> and \<^verbatim>\<open>write.go\<close> that predate the canonical ones
  and stay in use: the imports \<^verbatim>\<open>CreateProject\<close>, \<^verbatim>\<open>CreateTopic\<close> and \<^verbatim>\<open>CreateTask\<close>, and the
  writers that go through \<^verbatim>\<open>mutate\<close> (bump the project revision, run a function, append the
  change): \<^verbatim>\<open>AddDecision\<close>, \<^verbatim>\<open>Status\<close> and \<^verbatim>\<open>Redact\<close>.
\<close>

section \<open>Imports\<close>

record Project =
  pr_ID :: gostring
  pr_Name :: gostring
  pr_Status :: gostring
  pr_Purpose :: gostring
  pr_Milestone :: gostring
  pr_Now :: gostring
  pr_Revision :: int

record Topic =
  to_ID :: gostring
  to_ProjectID :: gostring
  to_Name :: gostring

record Task =
  ta_ID :: gostring
  ta_ProjectID :: gostring
  ta_State :: gostring
  ta_Title :: gostring
  ta_Priority :: int
  ta_OwnerSessionID :: gostring
  ta_Accept :: gostring

definition commit :: "db \<Rightarrow> go_error + ('a \<times> db) \<Rightarrow> (go_error + 'a) \<times> db" where
  "commit db m = (case m of Inl err \<Rightarrow> (Inl err, db) | Inr (y, db') \<Rightarrow> (Inr y, db'))"

definition CreateProject :: "env \<Rightarrow> Project \<Rightarrow> db \<Rightarrow> (go_error + unit) \<times> db" where
  "CreateProject e p db =
     (if pr_ID p = '''' \<or> pr_Name p = '''' \<or> pr_Purpose p = '''' then (Inl ErrInvalid, db)
      else let now = env_now e in
        commit db (mapErrE mapErr (
          bindE (sqlInsertProject \<lparr>p_id = pr_ID p, p_name = pr_Name p, p_status = pr_Status p,
                   p_purpose = pr_Purpose p, p_milestone = pr_Milestone p, p_now_text = pr_Now p,
                   p_revision = pr_Revision p, p_created_at = now, p_updated_at = now\<rparr> db) (\<lambda>db.
          bindE (if pr_Milestone p = '''' then Inr db
                 else sqlInsertMilestone \<lparr>m_id = ''MS-legacy-'' @ pr_ID p, m_project_id = pr_ID p,
                   m_title = pr_Milestone p, m_status = ''active'', m_position = 0,
                   m_target_date = None, m_project_revision = pr_Revision p,
                   m_created_at = now, m_updated_at = now\<rparr> db) (\<lambda>db.
          Inr ((), db))))))"

definition CreateTopic :: "env \<Rightarrow> Topic \<Rightarrow> db \<Rightarrow> (go_error + unit) \<times> db" where
  "CreateTopic e t db =
     (if to_ID t = '''' \<or> to_ProjectID t = '''' \<or> to_Name t = '''' \<or> to_ID t = TopicGeneral
      then (Inl ErrInvalid, db)
      else commit db (mapErrE mapErr (
        bindE (sqlInsertTopic \<lparr>tp_id = to_ID t, tp_project_id = Some (to_ProjectID t),
                 tp_name = to_Name t, tp_created_at = env_now e\<rparr> db) (\<lambda>db. Inr ((), db)))))"

definition CreateTask :: "env \<Rightarrow> Task \<Rightarrow> db \<Rightarrow> (go_error + unit) \<times> db" where
  "CreateTask e t db =
     (if ta_ID t = '''' \<or> ta_ProjectID t = '''' \<or> ta_Title t = '''' then (Inl ErrInvalid, db)
      else let now = env_now e in
        commit db (mapErrE mapErr (
          bindE (sqlInsertTask \<lparr>t_id = ta_ID t, t_project_id = ta_ProjectID t, t_state = ta_State t,
                   t_title = ta_Title t, t_priority = ta_Priority t,
                   t_owner_session_id = nullif (ta_OwnerSessionID t), t_accept_text = ta_Accept t,
                   t_description = '''', t_milestone_id = None, t_project_revision = 0,
                   t_created_at = now, t_updated_at = now\<rparr> db) (\<lambda>db.
          bindE (sqlInsertTaskEvent \<lparr>te_id = newID e 0 ''TE-'', te_task_id = ta_ID t,
                   te_project_id = ta_ProjectID t, te_project_revision = 0, te_kind = ''imported'',
                   te_summary = ''Imported through compatibility API'', te_from_state = None,
                   te_to_state = Some (ta_State t), te_actor_id = '''', te_session_id = '''',
                   te_created_at = now\<rparr> db) (\<lambda>db.
          Inr ((), db))))))"

section \<open>Revision-bumping mutations\<close>

text \<open>
  \<open>mutate\<close> hands its function the new revision and the database inside the transaction;
  reading \<open>k\<close> of the clock is the first the function leaves unused.
\<close>

definition mutate ::
  "env \<Rightarrow> nat \<Rightarrow> gostring \<Rightarrow> gostring \<Rightarrow> gostring \<Rightarrow> gostring \<Rightarrow> (int \<Rightarrow> db \<Rightarrow> go_error + db) \<Rightarrow>
     db \<Rightarrow> (go_error + int) \<times> db" where
  "mutate e k projectID kind ref summary fn db =
     commit db (
       bindE (case projectRow db projectID of
                None \<Rightarrow> Inl ErrNotFound
              | Some p \<Rightarrow> Inr (p_revision p + 1,
                  db\<lparr>projects := updWhere (\<lambda>r. p_id r = projectID)
                       (\<lambda>r. r\<lparr>p_revision := p_revision r + 1, p_updated_at := env_clock e 0\<rparr>)
                       (projects db)\<rparr>)) (\<lambda>(rev, db).
       bindE (mapErrE mapErr (fn rev db)) (\<lambda>db.
       bindE (mapErrE mapErr (sqlInsertChange \<lparr>ch_project_id = projectID, ch_revision = rev,
                ch_kind = kind, ch_ref = ref, ch_summary = summary, ch_created_at = env_clock e k\<rparr> db)) (\<lambda>db.
       Inr (rev, db)))))"

record Decision =
  de_ID :: gostring
  de_ProjectID :: gostring
  de_Title :: gostring
  de_Rationale :: gostring

definition AddDecision :: "env \<Rightarrow> Decision \<Rightarrow> db \<Rightarrow> (go_error + int) \<times> db" where
  "AddDecision e d db =
     mutate e 2 (de_ProjectID d) ''decision'' (de_ID d) (de_Title d) (\<lambda>rev db.
       bindE (sqlInsertDecision \<lparr>dc_id = de_ID d, dc_project_id = de_ProjectID d,
                dc_project_revision = rev, dc_title = de_Title d, dc_rationale = de_Rationale d,
                dc_created_at = env_clock e 1\<rparr> db) (\<lambda>db.
       sqlInsertSearch \<lparr>sd_project_id = Some (de_ProjectID d), sd_ref = de_ID d,
         sd_kind = ''decision'', sd_revision = rev, sd_title = de_Title d,
         sd_body = de_Rationale d\<rparr> db)) db"

record StatusRequest =
  sr_ProjectID :: gostring
  sr_Ref :: gostring
  sr_State :: gostring
  sr_Detail :: gostring
  sr_ActorID :: gostring
  sr_SessionID :: gostring
  sr_RequestID :: gostring

definition statusByRequest :: "db \<Rightarrow> gostring \<Rightarrow> (status_event_row \<times> WriteResult) option" where
  "statusByRequest db storageKey =
     map_option (\<lambda>r. (r, \<lparr>wr_ID = se_id r, wr_Revision = se_project_revision r\<rparr>))
       (find (\<lambda>r. se_request_id r = Some storageKey) (status_events db))"

definition sameStatus :: "status_event_row \<Rightarrow> StatusRequest \<Rightarrow> bool" where
  "sameStatus a b \<longleftrightarrow>
     se_project_id a = sr_ProjectID b \<and> se_ref a = sr_Ref b \<and> se_state a = sr_State b \<and>
     se_detail a = sr_Detail b \<and> se_session_id a = sr_SessionID b"

definition Status :: "env \<Rightarrow> StatusRequest \<Rightarrow> db \<Rightarrow> db \<Rightarrow> core_result" where
  "Status e req snap db =
     (if sr_ProjectID req = '''' \<or> sr_Ref req = '''' \<or> sr_State req = '''' \<or> sr_SessionID req = ''''
      then (Inl ErrInvalid, db)
      else let storageKey = requestStorageKey (sr_ActorID req) (sr_SessionID req) (sr_RequestID req) in
        (case (if storageKey = '''' then None else statusByRequest snap storageKey) of
           Some (prior, result) \<Rightarrow> (if sameStatus prior req then Inr result else Inl ErrConflict, db)
         | None \<Rightarrow>
             (let eid = newID e 0 ''E-'' in
              case mutate e 2 (sr_ProjectID req) ''status'' (sr_Ref req) (sr_State req) (\<lambda>r.
                sqlInsertStatusEvent \<lparr>se_id = eid, se_project_id = sr_ProjectID req,
                  se_project_revision = r, se_ref = sr_Ref req, se_state = sr_State req,
                  se_detail = sr_Detail req, se_session_id = sr_SessionID req,
                  se_request_id = nullif storageKey, se_created_at = env_clock e 1\<rparr>) db of
                (Inr r, db') \<Rightarrow> (Inr \<lparr>wr_ID = eid, wr_Revision = r\<rparr>, db')
              | (Inl err, db') \<Rightarrow>
                  (case (if storageKey = '''' then None else statusByRequest db' storageKey) of
                     Some (prior, replay) \<Rightarrow> if sameStatus prior req then Inr replay else Inl err
                   | None \<Rightarrow> Inl err, db'))))"

definition Redact ::
  "env \<Rightarrow> gostring \<Rightarrow> gostring \<Rightarrow> gostring \<Rightarrow> gostring \<Rightarrow> gostring \<Rightarrow> db \<Rightarrow> (go_error + WriteResult) \<times> db" where
  "Redact e projectID ref reason replacement humanActor db =
     (if projectID = '''' \<or> ref = '''' \<or> reason = '''' \<or> humanActor = '''' then (Inl ErrInvalid, db)
      else let xid = newID e 0 ''X-'' in
        case mutate e 2 projectID ''redaction'' ref ''human audited redaction'' (\<lambda>r.
          sqlInsertRedaction \<lparr>rd_id = xid, rd_project_id = projectID, rd_object_ref = ref,
            rd_reason = reason, rd_replacement = replacement, rd_human_actor = humanActor,
            rd_created_at = env_clock e 1\<rparr>) db of
          (Inr r, db') \<Rightarrow> (Inr \<lparr>wr_ID = xid, wr_Revision = r\<rparr>, db')
        | (Inl err, db') \<Rightarrow> (Inl err, db'))"

end
