(* ===== verification/Core_Effects.thy ===== *)
theory Core_Effects
  imports Store_Mutations
begin

text \<open>
  What a committed write does to the database: for every writer, the tables it extends or
  updates and the facts its guards established. The invariants of \<open>Core_Invariants\<close> are
  proved from these lemmas alone.
\<close>

section \<open>The write protocol\<close>

lemma coreWriteFailure_fresh:
  "readCoreReplay db key operation fp = Inr None \<Longrightarrow>
   coreWriteFailure db err key operation fp = Inl (mapErr err)"
  by (simp add: coreWriteFailure_def)

lemma coreTx_cases:
  assumes "coreTx key operation fp body db = (res, db')"
  obtains (refused) err where "res = Inl err" "db' = db"
  | (replayed) r where "res = Inr r" "db' = db" "readCoreReplay db key operation fp = Inr (Some r)"
  | (committed) r where "res = Inr r" "readCoreReplay db key operation fp = Inr None"
      "body db = Inr (r, db')"
  using assms unfolding coreTx_def
  by (auto simp: coreWriteFailure_fresh split: sum.splits option.splits tx_exit.splits prod.splits)

lemma coreWrite_cases:
  assumes "coreWrite key operation fp body snap db = (res, db')"
  obtains (refused) err where "res = Inl err" "db' = db"
  | (replayed) r s where "res = Inr r" "db' = db" "s \<in> {snap, db}"
      "readCoreReplay s key operation fp = Inr (Some r)"
  | (committed) r where "res = Inr r" "readCoreReplay snap key operation fp = Inr None"
      "readCoreReplay db key operation fp = Inr None" "body db = Inr (r, db')"
proof (cases "readCoreReplay snap key operation fp")
  case (Inl err)
  with assms that(1) show ?thesis by (auto simp: coreWrite_def)
next
  case (Inr o')
  show ?thesis
  proof (cases o')
    case None
    with Inr assms have "coreTx key operation fp body db = (res, db')" by (simp add: coreWrite_def)
    then show ?thesis by (cases rule: coreTx_cases) (use that Inr None in auto)
  next
    case (Some r)
    with Inr assms that(2) [of r snap] show ?thesis by (auto simp: coreWrite_def)
  qed
qed

section \<open>Statements and helpers\<close>

definition bumped :: "gostring \<Rightarrow> time \<Rightarrow> project_row list \<Rightarrow> project_row list" where
  "bumped pid now =
     updWhere (\<lambda>r. p_id r = pid) (\<lambda>r. r\<lparr>p_revision := p_revision r + 1, p_updated_at := now\<rparr>)"

definition released :: "bool \<Rightarrow> gostring \<Rightarrow> current_claim_row list \<Rightarrow> current_claim_row list" where
  "released b k rows = (if b then filter (\<lambda>r. cc_task_id r \<noteq> k) rows else rows)"

lemma delete_if:
  "(if b then sqlDeleteCurrentClaims k db else db) =
   db\<lparr>task_current_claims := released b k (task_current_claims db)\<rparr>"
  by (simp add: sqlDeleteCurrentClaims_def released_def)

lemma bumpProjectRevision_Inr:
  "bumpProjectRevision pid now db = Inr (revision, db') \<longleftrightarrow>
   (\<exists>p. projectRow db pid = Some p \<and> revision = p_revision p + 1 \<and>
        db' = db\<lparr>projects := bumped pid now (projects db)\<rparr>)"
  by (auto simp: bumpProjectRevision_def bumped_def split: option.splits)

lemma foldE_sqlInsertDependency:
  "foldE (sqlInsertDependency a) ds db = Inr db' \<Longrightarrow>
   (\<forall>d \<in> set ds. hasTask db d) \<and>
   db' = db\<lparr>task_dependencies := task_dependencies db @ map (Pair a) ds\<rparr>"
proof (induction ds arbitrary: db)
  case (Cons d ds)
  from Cons.prems obtain db1 where "sqlInsertDependency a d db = Inr db1"
    and "foldE (sqlInsertDependency a) ds db1 = Inr db'" by auto
  then show ?case by (auto simp: sqlInsertDependency_def hasTask_def dest!: Cons.IH)
qed simp

lemma insertTaskEvent_eff:
  "insertTaskEvent i t p rv k s f g m now db = Inr db' \<Longrightarrow>
   \<exists>ev. db' = db\<lparr>task_events := task_events db @ [ev]\<rparr> \<and>
        te_task_id ev = t \<and> te_kind ev = k \<and> te_from_state ev = nullif f \<and> te_to_state ev = nullif g"
  by (force simp: insertTaskEvent_def sqlInsertTaskEvent_def)

lemma insertCoreChange_eff:
  "insertCoreChange p rv k ref s now db = Inr db' \<Longrightarrow>
   \<exists>ch. db' = db\<lparr>changes := changes db @ [ch]\<rparr> \<and> ch_project_id ch = p \<and> ch_revision ch = rv"
  by (force simp: insertCoreChange_def sqlInsertChange_def)

lemma insertCoreActivity_eff:
  "insertCoreActivity i k p a ref t g now db = Inr db' \<Longrightarrow>
   \<exists>ac. db' = db\<lparr>activity_events := activity_events db @ [ac]\<rparr>"
  by (force simp: insertCoreActivity_def sqlInsertActivity_def)

definition ledgerRow :: "gostring \<Rightarrow> gostring \<Rightarrow> gostring \<Rightarrow> WriteResult \<Rightarrow> core_request_row \<Rightarrow> bool" where
  "ledgerRow key operation fp r q \<longleftrightarrow>
     rq_request_key q = key \<and> rq_operation q = operation \<and> rq_payload_hash q = fp \<and>
     rq_result_id q = wr_ID r \<and> rq_result_revision q = wr_Revision r"

lemma recordCoreReplay_eff:
  "recordCoreReplay key operation fp rid rrev prev now db = Inr db' \<Longrightarrow>
   \<exists>q. db' = db\<lparr>project_core_requests := project_core_requests db @ [q]\<rparr> \<and>
       ledgerRow key operation fp \<lparr>wr_ID = rid, wr_Revision = rrev\<rparr> q \<and> coreRequestRow db key = None"
  by (force simp: recordCoreReplay_def sqlInsertCoreRequest_def ledgerRow_def coreRequestRow_def
      find_None_iff_all)

lemma sqlUpdateTask_eff:
  "sqlUpdateTask k f db = Inr db' \<Longrightarrow> db' = db\<lparr>tasks := updWhere (\<lambda>r. t_id r = k) f (tasks db)\<rparr>"
  by (simp add: sqlUpdateTask_def)

lemma sqlInsertTask_eff:
  "sqlInsertTask r db = Inr db' \<Longrightarrow>
   db' = db\<lparr>tasks := tasks db @ [r]\<rparr> \<and> \<not> hasTask db (t_id r) \<and> hasProject db (t_project_id r)"
  by (simp add: sqlInsertTask_def)

lemma sqlInsertProject_eff:
  "sqlInsertProject r db = Inr db' \<Longrightarrow>
   db' = db\<lparr>projects := projects db @ [r]\<rparr> \<and> \<not> hasProject db (p_id r) \<and> 0 \<le> p_revision r"
  by (simp add: sqlInsertProject_def)

lemma sqlInsertTopic_eff:
  "sqlInsertTopic r db = Inr db' \<Longrightarrow> db' = db\<lparr>topics := topics db @ [r]\<rparr>"
  by (simp add: sqlInsertTopic_def)

lemma sqlInsertMilestone_eff:
  "sqlInsertMilestone r db = Inr db' \<Longrightarrow>
   db' = db\<lparr>milestones := milestones db @ [r]\<rparr> \<and> \<not> hasMilestone db (m_id r) \<and>
   hasProject db (m_project_id r) \<and> milestone_checks (milestones db @ [r])"
  by (simp add: sqlInsertMilestone_def)

lemma sqlUpdateMilestone_eff:
  "sqlUpdateMilestone k f db = Inr db' \<Longrightarrow>
   db' = db\<lparr>milestones := updWhere (\<lambda>r. m_id r = k) f (milestones db)\<rparr> \<and>
   milestone_checks (updWhere (\<lambda>r. m_id r = k) f (milestones db))"
  by (simp add: sqlUpdateMilestone_def Let_def)

lemma sqlInsertWikiRevision_eff:
  "sqlInsertWikiRevision r db = Inr db' \<Longrightarrow> db' = db\<lparr>wiki_revisions := wiki_revisions db @ [r]\<rparr>"
  by (simp add: sqlInsertWikiRevision_def)

lemma sqlUpsertSearch_eff:
  "sqlUpsertSearch r db = Inr db' \<Longrightarrow> \<exists>sd. db' = db\<lparr>search_documents := sd\<rparr>"
  by (auto simp: sqlUpsertSearch_def sqlInsertSearch_def split: if_splits)

lemma sqlInsertClaim_eff:
  "sqlInsertClaim r db = Inr db' \<Longrightarrow>
   db' = db\<lparr>task_claims := task_claims db @ [r]\<rparr> \<and>
   \<not> hasRow (\<lambda>q. tc_id q = tc_id r \<or> tc_request_id q = tc_request_id r) (task_claims db)"
  by (simp add: sqlInsertClaim_def)

lemmas effects =
  foldE_sqlInsertDependency insertTaskEvent_eff insertCoreChange_eff insertCoreActivity_eff
  recordCoreReplay_eff sqlUpdateTask_eff sqlInsertTask_eff sqlInsertProject_eff sqlInsertTopic_eff
  sqlInsertMilestone_eff sqlUpdateMilestone_eff sqlInsertWikiRevision_eff sqlUpsertSearch_eff
  sqlInsertClaim_eff

lemmas body_simps =
  bindE_Inr_iff mapErrE_simps someE_simps requireE_simps bumpProjectRevision_Inr
  prod.case split_paired_Ex

section \<open>Writers\<close>

lemma createProjectBody_Inr:
  assumes "createProjectBody e c key operation fp db = Inr (r, db')"
  shows "\<exists>p tp ch ac q.
    db' = db\<lparr>projects := projects db @ [p], topics := topics db @ [tp], changes := changes db @ [ch],
      activity_events := activity_events db @ [ac],
      project_core_requests := project_core_requests db @ [q]\<rparr> \<and>
    p_id p = cp_ID c \<and> p_revision p = 1 \<and> ch_project_id ch = cp_ID c \<and> ch_revision ch = 1 \<and>
    \<not> hasProject db (cp_ID c) \<and> ledgerRow key operation fp r q \<and> coreRequestRow db key = None"
  using assms unfolding createProjectBody_def Let_def
  by (clarsimp simp only: body_simps dest!: effects) (force simp: coreRequestRow_def)

lemma changeTaskStateBody_Inr:
  assumes "changeTaskStateBody e c key operation fp db = Inr (r, db')"
  shows "\<exists>t p ev ch ac q.
    db' = db\<lparr>projects := bumped (t_project_id t) (env_now e) (projects db),
      tasks := updWhere (\<lambda>r. t_id r = cs_ID c)
        (\<lambda>r. r\<lparr>t_state := cs_State c, t_project_revision := p_revision p + 1, t_updated_at := env_now e,
               t_owner_session_id := (if cs_State c = ''ready'' then None else t_owner_session_id r)\<rparr>)
        (tasks db),
      task_current_claims := released (cs_State c = ''ready'' \<or> cs_State c = ''done'' \<or> cs_State c = ''cancelled'')
        (cs_ID c) (task_current_claims db),
      task_events := task_events db @ [ev], changes := changes db @ [ch],
      activity_events := activity_events db @ [ac],
      project_core_requests := project_core_requests db @ [q]\<rparr> \<and>
    taskRow db (cs_ID c) = Some t \<and> projectRow db (t_project_id t) = Some p \<and>
    t_project_revision t = cs_BaseRevision c \<and> taskTransitionAllowed (t_state t) (cs_State c) \<and>
    r = \<lparr>wr_ID = cs_ID c, wr_Revision = p_revision p + 1\<rparr> \<and>
    ch_project_id ch = t_project_id t \<and> ch_revision ch = p_revision p + 1 \<and>
    te_task_id ev = cs_ID c \<and> te_from_state ev = nullif (t_state t) \<and> te_to_state ev = nullif (cs_State c) \<and>
    ledgerRow key operation fp r q \<and> coreRequestRow db key = None"
  using assms unfolding changeTaskStateBody_def Let_def delete_if
  by (clarsimp simp only: body_simps dest!: effects) (force simp: coreRequestRow_def)


lemma updateProjectBody_Inr:
  assumes "updateProjectBody e c key operation fp db = Inr (r, db')"
  shows "\<exists>p tps ch ac q.
    db' = db\<lparr>projects := updWhere (\<lambda>r. p_id r = up_ID c)
          (\<lambda>r. r\<lparr>p_name := up_Name c, p_status := up_Status c, p_purpose := up_Purpose c,
                 p_now_text := up_Now c\<rparr>) (bumped (up_ID c) (env_now e) (projects db)),
      topics := tps, changes := changes db @ [ch], activity_events := activity_events db @ [ac],
      project_core_requests := project_core_requests db @ [q]\<rparr> \<and>
    projectRow db (up_ID c) = Some p \<and> p_revision p = up_BaseRevision c \<and>
    r = \<lparr>wr_ID = up_ID c, wr_Revision = p_revision p + 1\<rparr> \<and>
    ch_project_id ch = up_ID c \<and> ch_revision ch = p_revision p + 1 \<and>
    ledgerRow key operation fp r q \<and> coreRequestRow db key = None"
  using assms unfolding updateProjectBody_def Let_def
  by (clarsimp simp only: body_simps dest!: effects) (force simp: coreRequestRow_def)

lemma createMilestoneBody_Inr:
  assumes "createMilestoneBody e c key operation fp db = Inr (r, db')"
  shows "\<exists>p m ch ac q.
    db' = db\<lparr>projects := bumped (cm_ProjectID c) (env_now e) (projects db),
      milestones := milestones db @ [m], changes := changes db @ [ch],
      activity_events := activity_events db @ [ac],
      project_core_requests := project_core_requests db @ [q]\<rparr> \<and>
    projectRow db (cm_ProjectID c) = Some p \<and> \<not> hasMilestone db (wr_ID r) \<and>
    m_id m = wr_ID r \<and> m_project_id m = cm_ProjectID c \<and> m_project_revision m = p_revision p + 1 \<and>
    milestone_checks (milestones db @ [m]) \<and> wr_Revision r = p_revision p + 1 \<and>
    ch_project_id ch = cm_ProjectID c \<and> ch_revision ch = p_revision p + 1 \<and>
    ledgerRow key operation fp r q \<and> coreRequestRow db key = None"
  using assms unfolding createMilestoneBody_def Let_def
  by (clarsimp simp only: body_simps dest!: effects) (force simp: coreRequestRow_def hasMilestone_def)

lemma updateMilestoneBody_Inr:
  assumes "updateMilestoneBody e c key operation fp db = Inr (r, db')"
  shows "\<exists>m p ch ac q.
    db' = db\<lparr>projects := bumped (m_project_id m) (env_now e) (projects db),
      milestones := updWhere (\<lambda>r. m_id r = um_ID c)
        (\<lambda>r. r\<lparr>m_title := um_Title c, m_status := um_Status c, m_position := um_Position c,
               m_target_date := nullif (um_TargetDate c), m_project_revision := p_revision p + 1,
               m_updated_at := env_now e\<rparr>) (milestones db),
      changes := changes db @ [ch], activity_events := activity_events db @ [ac],
      project_core_requests := project_core_requests db @ [q]\<rparr> \<and>
    milestoneRow db (um_ID c) = Some m \<and> projectRow db (m_project_id m) = Some p \<and>
    m_project_revision m = um_BaseRevision c \<and>
    r = \<lparr>wr_ID = um_ID c, wr_Revision = p_revision p + 1\<rparr> \<and>
    ch_project_id ch = m_project_id m \<and> ch_revision ch = p_revision p + 1 \<and>
    milestone_checks (milestones db') \<and>
    ledgerRow key operation fp r q \<and> coreRequestRow db key = None"
  using assms unfolding updateMilestoneBody_def Let_def
  by (clarsimp simp only: body_simps dest!: effects) (force simp: coreRequestRow_def)

lemma createTaskBody_Inr:
  assumes "createTaskBody e c ds key operation fp db = Inr (r, db')"
  shows "\<exists>p t ev ch ac q.
    db' = db\<lparr>projects := bumped (ct_ProjectID c) (env_now e) (projects db),
      tasks := tasks db @ [t], task_dependencies := task_dependencies db @ map (Pair (wr_ID r)) ds,
      task_events := task_events db @ [ev], changes := changes db @ [ch],
      activity_events := activity_events db @ [ac],
      project_core_requests := project_core_requests db @ [q]\<rparr> \<and>
    projectRow db (ct_ProjectID c) = Some p \<and> \<not> hasTask db (wr_ID r) \<and>
    t_id t = wr_ID r \<and> t_project_id t = ct_ProjectID c \<and> t_project_revision t = p_revision p + 1 \<and>
    t_state t = ct_State c \<and> t_owner_session_id t = None \<and> wr_Revision r = p_revision p + 1 \<and>
    validateTaskRelations db (ct_ProjectID c) (wr_ID r) (ct_MilestoneID c) ds False = Inr () \<and>
    ch_project_id ch = ct_ProjectID c \<and> ch_revision ch = p_revision p + 1 \<and>
    ledgerRow key operation fp r q \<and> coreRequestRow db key = None"
  using assms unfolding createTaskBody_def Let_def
  by (clarsimp simp only: body_simps dest!: effects)
     (simp add: coreRequestRow_def hasTask_def, intro exI conjI, rule refl, simp_all)

lemma updateTaskBody_Inr:
  assumes "updateTaskBody e c ds key operation fp db = Inr (r, db')"
  shows "\<exists>t p ev ch ac q.
    db' = db\<lparr>projects := bumped (t_project_id t) (env_now e) (projects db),
      tasks := updWhere (\<lambda>r. t_id r = ut_ID c)
        (\<lambda>r. r\<lparr>t_title := ut_Title c, t_description := ut_Description c,
               t_accept_text := ut_Acceptance c, t_priority := ut_Priority c,
               t_milestone_id := nullif (ut_MilestoneID c), t_project_revision := p_revision p + 1,
               t_updated_at := env_now e\<rparr>) (tasks db),
      task_dependencies := filter (\<lambda>d. fst d \<noteq> ut_ID c) (task_dependencies db) @ map (Pair (ut_ID c)) ds,
      task_events := task_events db @ [ev], changes := changes db @ [ch],
      activity_events := activity_events db @ [ac],
      project_core_requests := project_core_requests db @ [q]\<rparr> \<and>
    taskRow db (ut_ID c) = Some t \<and> projectRow db (t_project_id t) = Some p \<and>
    t_project_revision t = ut_BaseRevision c \<and>
    r = \<lparr>wr_ID = ut_ID c, wr_Revision = p_revision p + 1\<rparr> \<and>
    validateTaskRelations db (t_project_id t) (ut_ID c) (ut_MilestoneID c) ds True = Inr () \<and>
    ch_project_id ch = t_project_id t \<and> ch_revision ch = p_revision p + 1 \<and>
    ledgerRow key operation fp r q \<and> coreRequestRow db key = None"
  using assms unfolding updateTaskBody_def Let_def
  by (clarsimp simp only: body_simps sqlDeleteDependencies_def dest!: effects)
     (force simp: coreRequestRow_def)

lemma appendWikiBody_Inr:
  assumes "appendWikiBody e c key operation fp db = Inr (r, db')"
  shows "\<exists>p wps wvs sd ch ac q.
    db' = db\<lparr>projects := bumped (aw_ProjectID c) (env_now e) (projects db),
      wiki_pages := wps, wiki_revisions := wvs, search_documents := sd,
      changes := changes db @ [ch], activity_events := activity_events db @ [ac],
      project_core_requests := project_core_requests db @ [q]\<rparr> \<and>
    projectRow db (aw_ProjectID c) = Some p \<and>
    ch_project_id ch = aw_ProjectID c \<and> ch_revision ch = p_revision p + 1 \<and>
    ledgerRow key operation fp r q \<and> coreRequestRow db key = None \<and>
    wr_Revision r = aw_BaseRevision c + 1 \<and>
    (case wikiPageBySlug db (aw_ProjectID c) (aw_Slug c) of
       None \<Rightarrow> aw_BaseRevision c = 0 \<and> wps = wiki_pages db @ [\<lparr>wp_id = wr_ID r,
         wp_project_id = aw_ProjectID c, wp_slug = aw_Slug c, wp_title = aw_Title c, wp_current_revision = 1\<rparr>] \<and>
         \<not> hasRow (\<lambda>q. wp_id q = wr_ID r) (wiki_pages db)
     | Some w \<Rightarrow> aw_BaseRevision c = wp_current_revision w \<and> wr_ID r = wp_id w \<and>
         wp_current_revision w \<noteq> 0 \<and>
         wps = updWhere (\<lambda>r. wp_id r = wp_id w)
                 (\<lambda>r. r\<lparr>wp_title := aw_Title c, wp_current_revision := wp_current_revision w + 1\<rparr>)
                 (wiki_pages db)) \<and>
    wvs = wiki_revisions db @ [\<lparr>wv_page_id = wr_ID r, wv_revision = wr_Revision r,
            wv_summary = aw_Summary c, wv_body = aw_Body c,
            wv_author_session_id = meta_SessionID (aw_Meta c), wv_created_at = env_now e\<rparr>]"
  using assms unfolding appendWikiBody_def Let_def
  by (clarsimp simp only: body_simps dest!: effects)
     (clarsimp simp: coreRequestRow_def sqlInsertWikiPage_def sqlUpdateWikiPage_def
        split: option.splits if_splits;
      ((intro exI conjI, rule refl, assumption+) | fastforce dest: wikiPageBySlug_SomeD))

definition claimRow :: "env \<Rightarrow> ClaimRequest \<Rightarrow> gostring \<Rightarrow> int \<Rightarrow> claim_row" where
  "claimRow e req key revision = \<lparr>tc_id = newID e 0 ''C-'', tc_task_id = cl_TaskID req,
     tc_session_id = cl_SessionID req, tc_request_id = key, tc_claimed_at = env_now e,
     tc_lease_until = cl_LeaseUntil req, tc_project_revision = revision\<rparr>"

definition claimResult :: "env \<Rightarrow> ClaimRequest \<Rightarrow> int \<Rightarrow> Claim" where
  "claimResult e req revision = \<lparr>claim_ID = newID e 0 ''C-'', claim_TaskID = cl_TaskID req,
     claim_SessionID = cl_SessionID req, claim_RequestID = cl_RequestID req,
     claim_Revision = revision, claim_ClaimedAt = env_now e, claim_LeaseUntil = cl_LeaseUntil req\<rparr>"

lemma handOverClaim_eff:
  "handOverClaim taskID oldID oldLease newid lease now db = Inr db' \<Longrightarrow>
   \<exists>hit. hit = (\<lambda>r. cc_task_id r = taskID \<and> cc_claim_id r = oldID \<and> cc_lease_until r = Some oldLease) \<and>
   db' = db\<lparr>task_current_claims := updWhere hit
     (\<lambda>r. r\<lparr>cc_claim_id := newid, cc_lease_until := lease, cc_updated_at := now\<rparr>)
     (task_current_claims db)\<rparr> \<and> countWhere hit (task_current_claims db) = 1"
  by (auto simp: handOverClaim_def Let_def split: if_splits)

lemma claimAdmission_Inr:
  "claimAdmission db t now = Inr v \<longleftrightarrow>
     (case currentClaimRow db (t_id t) of
        None \<Rightarrow> t_state t = ''ready'' \<and> v = None
      | Some cc \<Rightarrow> \<exists>lease. cc_lease_until cc = Some lease \<and> lease \<le> now \<and>
          (t_state t = ''ready'' \<or> t_state t = ''in_progress'') \<and> v = Some (cc_claim_id cc, lease))"
  by (auto simp: claimAdmission_def split: option.splits)

definition reassigned :: "env \<Rightarrow> ClaimRequest \<Rightarrow> (gostring \<times> time) option \<Rightarrow> current_claim_row list \<Rightarrow> current_claim_row list" where
  "reassigned e req v rows = (case v of
     None \<Rightarrow> rows @ [\<lparr>cc_task_id = cl_TaskID req, cc_claim_id = newID e 0 ''C-'',
                   cc_lease_until = cl_LeaseUntil req, cc_updated_at = env_now e\<rparr>]
   | Some (oldID, oldLease) \<Rightarrow>
       updWhere (\<lambda>r. cc_task_id r = cl_TaskID req \<and> cc_claim_id r = oldID \<and> cc_lease_until r = Some oldLease)
         (\<lambda>r. r\<lparr>cc_claim_id := newID e 0 ''C-'', cc_lease_until := cl_LeaseUntil req, cc_updated_at := env_now e\<rparr>)
         rows)"

lemma claim_assignment_eff:
  assumes "(case v of
             Some (oldID, oldLease) \<Rightarrow>
               orFail (handOverClaim (cl_TaskID req) oldID oldLease (newID e 0 ''C-'') (cl_LeaseUntil req) (env_now e) db)
           | None \<Rightarrow>
               orMapped (sqlInsertCurrentClaim \<lparr>cc_task_id = cl_TaskID req, cc_claim_id = newID e 0 ''C-'',
                 cc_lease_until = cl_LeaseUntil req, cc_updated_at = env_now e\<rparr> db)) = Inr db'"
  shows "db' = db\<lparr>task_current_claims := reassigned e req v (task_current_claims db)\<rparr> \<and>
    (v = None \<longrightarrow> currentClaimRow db (cl_TaskID req) = None)"
  using assms
  by (auto simp: sqlInsertCurrentClaim_def reassigned_def currentClaimRow_def find_None_iff_all
      split: option.splits dest: handOverClaim_eff)

lemma claimBody_Inr:
  assumes "claimBody e req key db = Inr (c, db')"
  shows "\<exists>t p v ev ch ac.
    db' = db\<lparr>projects := bumped (t_project_id t) (env_now e) (projects db),
      task_claims := task_claims db @ [claimRow e req key (p_revision p + 1)],
      task_current_claims := reassigned e req v (task_current_claims db),
      tasks := updWhere (\<lambda>r. t_id r = cl_TaskID req)
        (\<lambda>r. r\<lparr>t_state := ''in_progress'', t_owner_session_id := Some (cl_SessionID req),
               t_project_revision := p_revision p + 1, t_updated_at := env_now e\<rparr>) (tasks db),
      task_events := task_events db @ [ev], changes := changes db @ [ch],
      activity_events := activity_events db @ [ac]\<rparr> \<and>
    taskRow db (cl_TaskID req) = Some t \<and> projectRow db (t_project_id t) = Some p \<and>
    claimAdmission db t (env_now e) = Inr v \<and>
    c = claimResult e req (p_revision p + 1) \<and>
    \<not> hasRow (\<lambda>q. tc_id q = newID e 0 ''C-'' \<or> tc_request_id q = key) (task_claims db) \<and>
    ch_project_id ch = t_project_id t \<and> ch_revision ch = p_revision p + 1 \<and>
    te_task_id ev = cl_TaskID req \<and> te_from_state ev = nullif (t_state t) \<and>
    te_to_state ev = nullif ''in_progress'' \<and>
    te_kind ev = (if v \<noteq> None then ''reclaimed'' else ''claimed'')"
  using assms unfolding claimBody_def Let_def
  by (clarsimp simp only: body_simps dest!: effects claim_assignment_eff)
     (simp add: claimRow_def claimResult_def split del: if_split,
      intro exI conjI, rule refl, simp_all split del: if_split)

lemma mutate_cases:
  assumes "mutate e k pid kind ref summary fn db = (res, db')"
  obtains (refused) err where "res = Inl err" "db' = db"
  | (committed) p db1 ch where "res = Inr (p_revision p + 1)" "projectRow db pid = Some p"
      "fn (p_revision p + 1) (db\<lparr>projects := bumped pid (env_clock e 0) (projects db)\<rparr>) = Inr db1"
      "db' = db1\<lparr>changes := changes db1 @ [ch]\<rparr>" "ch_project_id ch = pid"
      "ch_revision ch = p_revision p + 1"
proof (cases res)
  case (Inl err)
  with assms that(1) show ?thesis
    by (auto simp: mutate_def commit_def split: sum.splits)
next
  case (Inr v)
  with assms that(2) show ?thesis
    by (auto simp: mutate_def commit_def bumped_def sqlInsertChange_def split: sum.splits option.splits)
qed

text \<open>The imports and the writers over \<open>mutate\<close>.\<close>

lemma commit_Inr [simp]: "commit db m = (Inr x, db') \<longleftrightarrow> m = Inr (x, db')"
  by (auto simp: commit_def split: sum.splits)

lemma commit_Inl: "commit db m = (Inl err, db') \<Longrightarrow> db' = db"
  by (auto simp: commit_def split: sum.splits)

lemma CreateProject_Inr:
  assumes "CreateProject e p db = (Inr u, db')"
  shows "\<exists>r ms. db' = db\<lparr>projects := projects db @ [r], milestones := milestones db @ ms\<rparr> \<and>
    p_id r = pr_ID p \<and> p_revision r = pr_Revision p \<and> \<not> hasProject db (pr_ID p) \<and> 0 \<le> pr_Revision p \<and>
    (\<forall>m \<in> set ms. \<not> hasMilestone db (m_id m) \<and> m_project_id m = pr_ID p \<and>
       m_project_revision m = pr_Revision p) \<and>
    length ms \<le> 1 \<and> (ms \<noteq> [] \<longrightarrow> milestone_checks (milestones db @ ms))"
proof (cases "pr_Milestone p = ''''")
  case True
  with assms show ?thesis unfolding CreateProject_def Let_def
    by (intro exI [of _ "\<lparr>p_id = pr_ID p, p_name = pr_Name p, p_status = pr_Status p,
          p_purpose = pr_Purpose p, p_milestone = pr_Milestone p, p_now_text = pr_Now p,
          p_revision = pr_Revision p, p_created_at = env_now e, p_updated_at = env_now e\<rparr>"] exI [of _ "[]"])
      (auto split: if_splits dest!: sqlInsertProject_eff)
next
  case False
  with assms show ?thesis unfolding CreateProject_def Let_def
    by (clarsimp split: if_splits dest!: sqlInsertProject_eff sqlInsertMilestone_eff)
      (simp add: hasMilestone_def, intro exI conjI, rule refl, simp_all)
qed

lemma CreateTopic_Inr:
  assumes "CreateTopic e t db = (Inr u, db')"
  shows "\<exists>tp. db' = db\<lparr>topics := topics db @ [tp]\<rparr>"
  using assms unfolding CreateTopic_def
  by (auto split: if_splits dest!: sqlInsertTopic_eff)

lemma CreateTask_Inr:
  assumes "CreateTask e t db = (Inr u, db')"
  shows "\<exists>r ev. db' = db\<lparr>tasks := tasks db @ [r], task_events := task_events db @ [ev]\<rparr> \<and>
    t_id r = ta_ID t \<and> t_project_id r = ta_ProjectID t \<and> t_project_revision r = 0 \<and>
    \<not> hasTask db (ta_ID t) \<and> hasProject db (ta_ProjectID t)"
  using assms unfolding CreateTask_def Let_def
  by (fastforce simp: sqlInsertTaskEvent_def split: if_splits dest!: sqlInsertTask_eff)

lemma AddDecision_Inr:
  assumes "AddDecision e d db = (Inr v, db')"
  shows "\<exists>p ds sd ch. db' = db\<lparr>projects := bumped (de_ProjectID d) (env_clock e 0) (projects db),
      decisions := ds, search_documents := sd, changes := changes db @ [ch]\<rparr> \<and>
    projectRow db (de_ProjectID d) = Some p \<and> v = p_revision p + 1 \<and>
    ch_project_id ch = de_ProjectID d \<and> ch_revision ch = p_revision p + 1"
  using assms unfolding AddDecision_def
  by (fastforce simp: sqlInsertDecision_def sqlInsertSearch_def elim!: mutate_cases)

lemma Redact_Inr:
  assumes "Redact e pid ref reason replacement actor db = (Inr v, db')"
  shows "\<exists>p rds ch. db' = db\<lparr>projects := bumped pid (env_clock e 0) (projects db),
      redactions := rds, changes := changes db @ [ch]\<rparr> \<and>
    projectRow db pid = Some p \<and> wr_Revision v = p_revision p + 1 \<and>
    ch_project_id ch = pid \<and> ch_revision ch = p_revision p + 1"
  using assms unfolding Redact_def Let_def
  by (fastforce simp: sqlInsertRedaction_def split: if_splits prod.splits sum.splits elim!: mutate_cases)

lemma Status_cases:
  assumes "Status e req snap db = (res, db')"
  obtains (same) "db' = db"
  | (committed) p ev ch where "db' = db\<lparr>projects := bumped (sr_ProjectID req) (env_clock e 0) (projects db),
        status_events := status_events db @ [ev], changes := changes db @ [ch]\<rparr>"
      "projectRow db (sr_ProjectID req) = Some p" "ch_project_id ch = sr_ProjectID req"
      "ch_revision ch = p_revision p + 1" "res = Inr \<lparr>wr_ID = se_id ev, wr_Revision = se_project_revision ev\<rparr>"
      "sameStatus ev req" "se_project_revision ev = p_revision p + 1"
      "se_request_id ev = nullif (requestStorageKey (sr_ActorID req) (sr_SessionID req) (sr_RequestID req))"
      "se_request_id ev \<noteq> None \<longrightarrow> (\<forall>q \<in> set (status_events db). se_request_id q \<noteq> se_request_id ev)"
  using assms unfolding Status_def Let_def
  by (fastforce simp: sqlInsertStatusEvent_def sameStatus_def
      split: if_splits prod.splits sum.splits option.splits elim!: mutate_cases)

end
