(* ===== verification/Core_Invariants.thy ===== *)
theory Core_Invariants
  imports Core_Effects
begin

text \<open>
  The project core as a transition system: one step is one call of a writer, canonical,
  claiming or importing, with any clock, any random identifiers and any earlier snapshot.
  Three abstract machines describe what a step may do to the revision log, to the task
  graph and to the claims; every step is a step of each of them, and the invariants are
  proved on the abstract machines.
\<close>

section \<open>Steps\<close>

inductive core_step :: "(core_payload \<Rightarrow> gostring) \<Rightarrow> db \<Rightarrow> db \<Rightarrow> bool" for hash where
  create_project: "CreateCanonicalProject hash e c1 snap db = (res, db') \<Longrightarrow> core_step hash db db'"
| update_project: "UpdateCanonicalProject hash e c2 snap db = (res, db') \<Longrightarrow> core_step hash db db'"
| create_milestone: "CreateMilestone hash e c3 snap db = (res, db') \<Longrightarrow> core_step hash db db'"
| update_milestone: "UpdateMilestone hash e c4 snap db = (res, db') \<Longrightarrow> core_step hash db db'"
| create_task: "CreateCanonicalTask hash e c5 snap db = (res, db') \<Longrightarrow> core_step hash db db'"
| update_task: "UpdateCanonicalTask hash e c6 snap db = (res, db') \<Longrightarrow> core_step hash db db'"
| change_state: "ChangeCanonicalTaskState hash e c7 snap db = (res, db') \<Longrightarrow> core_step hash db db'"
| append_wiki: "AppendWikiRevision hash e c8 snap db = (res, db') \<Longrightarrow> core_step hash db db'"
| claim: "Claim e req snap db = (resc, db') \<Longrightarrow> core_step hash db db'"
| import_project: "CreateProject e p db = (resu, db') \<Longrightarrow> core_step hash db db'"
| import_topic: "CreateTopic e tp db = (resu, db') \<Longrightarrow> core_step hash db db'"
| import_task: "CreateTask e t db = (resu, db') \<Longrightarrow> core_step hash db db'"
| add_decision: "AddDecision e d db = (resi, db') \<Longrightarrow> core_step hash db db'"
| status: "Status e sreq snap db = (res, db') \<Longrightarrow> core_step hash db db'"
| redact: "Redact e pid ref reason replacement actor db = (res, db') \<Longrightarrow> core_step hash db db'"

text \<open>The committed writes, by the body that committed.\<close>

inductive core_commit :: "db \<Rightarrow> db \<Rightarrow> bool" where
  "createProjectBody e c1 key operation fp db = Inr (r, db') \<Longrightarrow> core_commit db db'"
| "updateProjectBody e c2 key operation fp db = Inr (r, db') \<Longrightarrow> core_commit db db'"
| "createMilestoneBody e c3 key operation fp db = Inr (r, db') \<Longrightarrow> core_commit db db'"
| "updateMilestoneBody e c4 key operation fp db = Inr (r, db') \<Longrightarrow> core_commit db db'"
| "createTaskBody e c5 ds key operation fp db = Inr (r, db') \<Longrightarrow>
   ct_State c5 \<in> {''ready'', ''blocked''} \<Longrightarrow> core_commit db db'"
| "updateTaskBody e c6 ds key operation fp db = Inr (r, db') \<Longrightarrow> core_commit db db'"
| "changeTaskStateBody e c7 key operation fp db = Inr (r, db') \<Longrightarrow> core_commit db db'"
| "appendWikiBody e c8 key operation fp db = Inr (r, db') \<Longrightarrow> core_commit db db'"
| "claimBody e req key db = Inr (cl, db') \<Longrightarrow> core_commit db db'"
| "CreateProject e p db = (Inr u, db') \<Longrightarrow> core_commit db db'"
| "CreateTopic e tp db = (Inr u, db') \<Longrightarrow> core_commit db db'"
| "CreateTask e t db = (Inr u, db') \<Longrightarrow> core_commit db db'"
| "AddDecision e d db = (Inr v, db') \<Longrightarrow> core_commit db db'"
| "Status e sreq snap db = (Inr r, db') \<Longrightarrow> db' \<noteq> db \<Longrightarrow> core_commit db db'"
| "Redact e pid ref reason replacement actor db = (Inr r, db') \<Longrightarrow> core_commit db db'"

lemma claimTx_cases:
  assumes "claimTx e req key db = (res, db')"
  obtains (refused) err where "res = Inl err" "db' = db"
  | (replayed) c where "res = Inr c" "db' = db" "claimByRequest db key (cl_RequestID req) = Some c" "sameClaim c req"
  | (committed) c where "res = Inr c" "claimByRequest db key (cl_RequestID req) = None"
      "claimBody e req key db = Inr (c, db')"
  using assms unfolding claimTx_def
  by (auto split: if_splits option.splits sum.splits tx_exit.splits prod.splits)

lemma Claim_cases:
  assumes "Claim e req snap db = (res, db')"
  obtains (refused) err where "res = Inl err" "db' = db"
  | (replayed) c s where "res = Inr c" "db' = db" "s \<in> {snap, db}"
      "claimByRequest s (requestStorageKey (cl_ActorID req) (cl_SessionID req) (cl_RequestID req)) (cl_RequestID req) = Some c"
      "sameClaim c req"
  | (committed) c where "res = Inr c"
      "claimByRequest db (requestStorageKey (cl_ActorID req) (cl_SessionID req) (cl_RequestID req)) (cl_RequestID req) = None"
      "claimBody e req (requestStorageKey (cl_ActorID req) (cl_SessionID req) (cl_RequestID req)) db = Inr (c, db')"
  using assms unfolding Claim_def Let_def
  by (auto split: if_splits option.splits elim!: claimTx_cases)

lemma CreateCanonicalTask_commit:
  assumes "CreateCanonicalTask hash e c snap db = (res, db')"
  shows "db' = db \<or> core_commit db db'"
  using assms unfolding CreateCanonicalTask_def Let_def
  by (auto simp: createTaskValid_def split: if_splits option.splits elim!: coreWrite_cases
      intro: core_commit.intros(5))

lemma legacy_refused:
  "CreateProject e p db = (Inl err, db') \<Longrightarrow> db' = db"
  "CreateTopic e tp db = (Inl err, db') \<Longrightarrow> db' = db"
  "CreateTask e t db = (Inl err, db') \<Longrightarrow> db' = db"
  "AddDecision e d db = (Inl err, db') \<Longrightarrow> db' = db"
  "Redact e pid ref reason replacement actor db = (Inl err, db') \<Longrightarrow> db' = db"
  "Status e sreq snap db = (Inl err, db') \<Longrightarrow> db' = db"
  by (auto simp: CreateProject_def CreateTopic_def CreateTask_def AddDecision_def Redact_def Let_def
      split: if_splits prod.splits sum.splits dest: commit_Inl elim!: mutate_cases Status_cases)

lemma core_step_commit: "core_step hash db db' \<Longrightarrow> db' = db \<or> core_commit db db'"
proof (induction rule: core_step.cases)
  case (create_project e c snap db res db')
  then show ?case
    by (auto simp: CreateCanonicalProject_def Let_def split: if_splits elim!: coreWrite_cases
        intro: core_commit.intros(1))
next
  case (update_project e c snap db res db')
  then show ?case
    by (auto simp: UpdateCanonicalProject_def Let_def split: if_splits elim!: coreWrite_cases
        intro: core_commit.intros(2))
next
  case (create_milestone e c snap db res db')
  then show ?case
    by (auto simp: CreateMilestone_def Let_def split: if_splits elim!: coreWrite_cases
        intro: core_commit.intros(3))
next
  case (update_milestone e c snap db res db')
  then show ?case
    by (auto simp: UpdateMilestone_def Let_def split: if_splits elim!: coreWrite_cases
        intro: core_commit.intros(4))
next
  case (create_task e c snap db res db')
  then show ?case using CreateCanonicalTask_commit by blast
next
  case (update_task e c snap db res db')
  then show ?case
    by (auto simp: UpdateCanonicalTask_def Let_def split: if_splits option.splits elim!: coreWrite_cases
        intro: core_commit.intros(6))
next
  case (change_state e c snap db res db')
  then show ?case
    by (auto simp: ChangeCanonicalTaskState_def Let_def split: if_splits elim!: coreWrite_cases
        intro: core_commit.intros(7))
next
  case (append_wiki e c snap db res db')
  then show ?case
    by (auto simp: AppendWikiRevision_def Let_def split: if_splits elim!: coreWrite_cases
        intro: core_commit.intros(8))
next
  case (claim e req snap db res db')
  then show ?case by (auto elim!: Claim_cases intro: core_commit.intros(9))
next
  case (import_project e p db res db')
  then show ?case by (cases res) (auto dest: legacy_refused intro: core_commit.intros(10))
next
  case (import_topic e tp db res db')
  then show ?case by (cases res) (auto dest: legacy_refused intro: core_commit.intros(11))
next
  case (import_task e t db res db')
  then show ?case by (cases res) (auto dest: legacy_refused intro: core_commit.intros(12))
next
  case (add_decision e d db res db')
  then show ?case by (cases res) (auto dest: legacy_refused intro: core_commit.intros(13))
next
  case (status e sreq snap db res db')
  then show ?case by (cases res; cases "db' = db") (auto dest: legacy_refused intro: core_commit.intros(14))
next
  case (redact e pid ref reason replacement actor db res db')
  then show ?case by (cases res) (auto dest: legacy_refused intro: core_commit.intros(15))
qed

section \<open>The revision log\<close>

text \<open>
  The abstract log machine: a project is entered with a revision (and, by the canonical
  writer, with change 1), or one project's revision grows by one together with exactly one
  change that carries the new revision, or nothing happens.
\<close>

inductive log_step ::
  "project_row list \<times> change_row list \<Rightarrow> project_row list \<times> change_row list \<Rightarrow> bool" where
  log_stay: "log_step s s"
| log_enter: "p_id p \<notin> p_id ` set ps \<Longrightarrow> 0 \<le> p_revision p \<Longrightarrow> log_step (ps, cs) (ps @ [p], cs)"
| log_create: "p_id p \<notin> p_id ` set ps \<Longrightarrow> p_revision p = 1 \<Longrightarrow> ch_project_id c = p_id p \<Longrightarrow>
    ch_revision c = 1 \<Longrightarrow> log_step (ps, cs) (ps @ [p], cs @ [c])"
| log_bump: "find (\<lambda>r. p_id r = pid) ps = Some p \<Longrightarrow>
    (\<And>r. p_id (f r) = p_id r \<and> p_revision (f r) = p_revision r + 1) \<Longrightarrow>
    ch_project_id c = pid \<Longrightarrow> ch_revision c = p_revision p + 1 \<Longrightarrow>
    log_step (ps, cs) (updWhere (\<lambda>r. p_id r = pid) f ps, cs @ [c])"

definition changesOf :: "change_row list \<Rightarrow> gostring \<Rightarrow> int list" where
  "changesOf cs pid = map ch_revision (filter (\<lambda>c. ch_project_id c = pid) cs)"

text \<open>
  The invariant: identifiers are unique, changes belong to projects, and the changes of a
  project are numbered without gap or repetition up to its revision.
\<close>

definition contiguous :: "change_row list \<Rightarrow> project_row \<Rightarrow> bool" where
  "contiguous cs p \<longleftrightarrow> 0 \<le> p_revision p \<and>
     (\<exists>b. 0 \<le> b \<and> b \<le> p_revision p \<and> changesOf cs (p_id p) = [b + 1..p_revision p])"

definition log_ok :: "project_row list \<times> change_row list \<Rightarrow> bool" where
  "log_ok s \<longleftrightarrow> distinct (map p_id (fst s)) \<and>
     (\<forall>c \<in> set (snd s). ch_project_id c \<in> p_id ` set (fst s)) \<and>
     (\<forall>p \<in> set (fst s). contiguous (snd s) p)"

lemma changesOf_append: "changesOf (cs @ ds) pid = changesOf cs pid @ changesOf ds pid"
  by (simp add: changesOf_def)

lemma changesOf_single: "changesOf [c] pid = (if ch_project_id c = pid then [ch_revision c] else [])"
  by (simp add: changesOf_def)

lemma changesOf_fresh: "\<forall>c \<in> set cs. ch_project_id c \<noteq> pid \<Longrightarrow> changesOf cs pid = []"
  by (simp add: changesOf_def filter_empty_conv)

lemma contiguous_extend:
  assumes "contiguous cs p" and "p_id q = p_id p" and "p_revision q = p_revision p + 1"
    and "ch_project_id c = p_id p" and "ch_revision c = p_revision p + 1"
  shows "contiguous (cs @ [c]) q"
proof -
  from assms(1) obtain b where "0 \<le> b" "b \<le> p_revision p" "0 \<le> p_revision p"
    and "changesOf cs (p_id p) = [b + 1..p_revision p]" by (auto simp: contiguous_def)
  moreover from this have "[b + 1..p_revision p + 1] = [b + 1..p_revision p] @ [p_revision p + 1]"
    using upto_rec2 [of "b + 1" "p_revision p + 1"] by simp
  ultimately show ?thesis using assms(2-)
    by (intro contiguous_def [THEN iffD2] conjI exI [of _ b])
       (simp_all add: changesOf_append changesOf_single)
qed

lemma contiguous_other:
  "contiguous cs p \<Longrightarrow> ch_project_id c \<noteq> p_id p \<Longrightarrow> contiguous (cs @ [c]) p"
  by (simp add: contiguous_def changesOf_append changesOf_single)

lemma log_ok_bump:
  assumes ok: "log_ok (ps, cs)" and p: "find (\<lambda>r. p_id r = pid) ps = Some p"
    and f: "\<And>r. p_id (f r) = p_id r \<and> p_revision (f r) = p_revision r + 1"
    and c: "ch_project_id c = pid" "ch_revision c = p_revision p + 1"
  shows "log_ok (updWhere (\<lambda>r. p_id r = pid) f ps, cs @ [c])"
proof -
  have ids: "map p_id (updWhere (\<lambda>r. p_id r = pid) f ps) = map p_id ps"
    using f by (simp add: map_updWhere_frame)
  then have idset: "p_id ` set (updWhere (\<lambda>r. p_id r = pid) f ps) = p_id ` set ps"
    by (metis list.set_map)
  from p have pin: "p \<in> set ps" "p_id p = pid" by (auto dest: find_SomeD)
  have dist: "distinct (map p_id ps)" and cont: "\<And>q. q \<in> set ps \<Longrightarrow> contiguous cs q"
    using ok by (auto simp: log_ok_def)
  have "contiguous (cs @ [c]) r" if "r \<in> set (updWhere (\<lambda>r. p_id r = pid) f ps)" for r
  proof -
    from that obtain q where q: "q \<in> set ps" "r = (if p_id q = pid then f q else q)"
      by (auto simp: set_updWhere)
    show ?thesis
    proof (cases "p_id q = pid")
      case True
      with q pin dist have "q = p" by (auto intro: distinct_key_eq)
      with q True cont [OF pin(1)] f c show ?thesis by (auto intro: contiguous_extend)
    next
      case False
      with q cont c show ?thesis by (auto intro: contiguous_other)
    qed
  qed
  with ok ids idset pin c show ?thesis by (auto simp: log_ok_def)
qed

lemma log_step_ok: "log_step s t \<Longrightarrow> log_ok s \<Longrightarrow> log_ok t"
proof (induction rule: log_step.cases)
  case (log_enter p ps cs)
  then have "\<forall>c \<in> set cs. ch_project_id c \<noteq> p_id p" by (simp add: log_ok_def) metis
  then have "contiguous cs p" using log_enter
    by (auto simp: contiguous_def changesOf_fresh intro!: exI [of _ "p_revision p"])
  with log_enter show ?case by (auto simp: log_ok_def)
next
  case (log_create p ps c cs)
  then have "\<forall>c \<in> set cs. ch_project_id c \<noteq> p_id p" by (simp add: log_ok_def) metis
  then have "contiguous (cs @ [c]) p" using log_create
    by (auto simp: contiguous_def changesOf_append changesOf_single changesOf_fresh intro!: exI [of _ 0])
  moreover have "contiguous (cs @ [c]) q" if "q \<in> set ps" for q
  proof (rule contiguous_other)
    show "contiguous cs q" using log_create that by (simp add: log_ok_def)
    show "ch_project_id c \<noteq> p_id q" using log_create that by (metis imageI)
  qed
  ultimately show ?case using log_create by (auto simp: log_ok_def)
next
  case (log_bump pid ps p f c cs)
  then show ?case using log_ok_bump by blast
qed simp

lemma updWhere_fuse:
  "(\<And>r. P r \<Longrightarrow> P (f r)) \<Longrightarrow> updWhere P g (updWhere P f xs) = updWhere P (g \<circ> f) xs"
  by (simp add: updWhere_def)

lemma log_bumped:
  "projectRow db pid = Some p \<Longrightarrow> ch_project_id c = pid \<Longrightarrow> ch_revision c = p_revision p + 1 \<Longrightarrow>
   log_step (projects db, cs) (bumped pid now (projects db), cs @ [c])"
  unfolding bumped_def projectRow_def by (rule log_bump) auto

lemma hasProject_iff: "hasProject db k \<longleftrightarrow> k \<in> p_id ` set (projects db)"
  by (auto simp: hasProject_def)

lemma hasTask_iff: "hasTask db k \<longleftrightarrow> k \<in> t_id ` set (tasks db)"
  by (auto simp: hasTask_def)

lemma core_commit_log:
  assumes "core_commit db db'"
  shows "log_step (projects db, changes db) (projects db', changes db')"
  using assms
proof cases
  case 1
  from createProjectBody_Inr [OF this] show ?thesis by (auto simp: hasProject_def intro!: log_create)
next
  case 2
  from updateProjectBody_Inr [OF this] show ?thesis
    by (auto simp: bumped_def updWhere_fuse projectRow_def intro!: log_bump)
next
  case 10
  from CreateProject_Inr [OF this] show ?thesis by (auto simp: hasProject_def intro!: log_enter)
next
  case (14 e sreq snap r)
  from 14(1) show ?thesis by (cases rule: Status_cases) (auto intro: log_bumped log_stay)
qed (auto intro: log_bumped log_stay
       dest!: createMilestoneBody_Inr updateMilestoneBody_Inr createTaskBody_Inr updateTaskBody_Inr
         changeTaskStateBody_Inr appendWikiBody_Inr claimBody_Inr CreateTopic_Inr CreateTask_Inr
         AddDecision_Inr Redact_Inr)

section \<open>The task graph\<close>

text \<open>
  The abstract graph machine: a fresh task enters with edges to tasks of its project, a
  task is edited without touching its identity, or its outgoing edges are replaced by
  edges to tasks of its project from which it cannot be reached.
\<close>

type_synonym task_graph = "task_row list \<times> (gostring \<times> gostring) list"

definition taskIn :: "task_row list \<Rightarrow> gostring \<Rightarrow> gostring \<Rightarrow> bool" where
  "taskIn ts pid k \<longleftrightarrow> (\<exists>r \<in> set ts. t_id r = k \<and> t_project_id r = pid)"

definition keepsIdentity :: "(task_row \<Rightarrow> task_row) \<Rightarrow> bool" where
  "keepsIdentity f \<longleftrightarrow> (\<forall>r. t_id (f r) = t_id r \<and> t_project_id (f r) = t_project_id r)"

inductive graph_step :: "task_graph \<Rightarrow> task_graph \<Rightarrow> bool" where
  graph_stay: "graph_step s s"
| graph_add: "t_id t \<notin> t_id ` set ts \<Longrightarrow> (\<And>d. d \<in> set ds \<Longrightarrow> taskIn ts (t_project_id t) d) \<Longrightarrow>
    graph_step (ts, E) (ts @ [t], E @ map (Pair (t_id t)) ds)"
| graph_edit: "keepsIdentity f \<Longrightarrow> graph_step (ts, E) (updWhere (\<lambda>r. t_id r = k) f ts, E)"
| graph_relink: "keepsIdentity f \<Longrightarrow> taskIn ts pid k \<Longrightarrow>
    (\<And>d. d \<in> set ds \<Longrightarrow> d \<noteq> k \<and> taskIn ts pid d \<and> (d, k) \<notin> (set E)\<^sup>+) \<Longrightarrow>
    graph_step (ts, E) (updWhere (\<lambda>r. t_id r = k) f ts, filter (\<lambda>d. fst d \<noteq> k) E @ map (Pair k) ds)"

definition graph_ok :: "task_graph \<Rightarrow> bool" where
  "graph_ok s \<longleftrightarrow> distinct (map t_id (fst s)) \<and>
     (\<forall>(a, b) \<in> set (snd s). \<exists>pid. taskIn (fst s) pid a \<and> taskIn (fst s) pid b) \<and>
     acyclic (set (snd s))"

lemma taskIn_updWhere: "keepsIdentity f \<Longrightarrow> taskIn (updWhere P f ts) pid k = taskIn ts pid k"
  by (auto simp: taskIn_def keepsIdentity_def set_updWhere)

lemma taskIn_append: "taskIn (ts @ us) pid k \<longleftrightarrow> taskIn ts pid k \<or> taskIn us pid k"
  by (auto simp: taskIn_def)

lemma taskIn_id: "taskIn ts pid k \<Longrightarrow> k \<in> t_id ` set ts"
  by (auto simp: taskIn_def)

lemma ids_updWhere: "keepsIdentity f \<Longrightarrow> map t_id (updWhere P f ts) = map t_id ts"
  by (simp add: keepsIdentity_def map_updWhere_frame)

lemma trancl_target_in: "(a, b) \<in> E\<^sup>+ \<Longrightarrow> \<exists>c. (c, b) \<in> E"
  by (meson tranclE)

lemma graph_ok_add:
  assumes ok: "graph_ok (ts, E)" and new: "t_id t \<notin> t_id ` set ts"
    and ds: "\<And>d. d \<in> set ds \<Longrightarrow> taskIn ts (t_project_id t) d"
  shows "graph_ok (ts @ [t], E @ map (Pair (t_id t)) ds)"
proof -
  have ends: "a \<in> t_id ` set ts \<and> b \<in> t_id ` set ts" if "(a, b) \<in> set E" for a b
    using ok that by (auto simp: graph_ok_def dest: taskIn_id)
  have "acyclic (set E \<union> {t_id t} \<times> set ds)"
  proof (rule acyclic_replace_edges [of "set E" _ "t_id t" "set ds"])
    show "acyclic (set E)" using ok by (simp add: graph_ok_def)
    show "d \<noteq> t_id t \<and> (d, t_id t) \<notin> (set E)\<^sup>+" if "d \<in> set ds" for d
      using taskIn_id [OF ds [OF that]] new ends by (metis trancl_target_in)
    show "y \<in> set ds" if "(t_id t, y) \<in> set E \<union> {t_id t} \<times> set ds" for y
      using that new ends by blast
  qed simp
  moreover have "set (E @ map (Pair (t_id t)) ds) = set E \<union> {t_id t} \<times> set ds" by auto
  moreover have "taskIn [t] (t_project_id t) (t_id t)" by (simp add: taskIn_def)
  ultimately show ?thesis using ok new ds
    by (fastforce simp: graph_ok_def taskIn_append)
qed

lemma graph_ok_relink:
  assumes ok: "graph_ok (ts, E)" and f: "keepsIdentity f" and k: "taskIn ts pid k"
    and ds: "\<And>d. d \<in> set ds \<Longrightarrow> d \<noteq> k \<and> taskIn ts pid d \<and> (d, k) \<notin> (set E)\<^sup>+"
  shows "graph_ok (updWhere (\<lambda>r. t_id r = k) f ts, filter (\<lambda>d. fst d \<noteq> k) E @ map (Pair k) ds)"
proof -
  let ?F = "set (filter (\<lambda>d. fst d \<noteq> k) E @ map (Pair k) ds)"
  have "acyclic ?F"
  proof (rule acyclic_replace_edges [of "set E" _ k "set ds"])
    show "acyclic (set E)" using ok by (simp add: graph_ok_def)
  qed (use ds in auto)
  with ok f k ds show ?thesis
    by (fastforce simp: graph_ok_def ids_updWhere taskIn_updWhere)
qed

lemma graph_step_ok: "graph_step s t \<Longrightarrow> graph_ok s \<Longrightarrow> graph_ok t"
proof (induction rule: graph_step.cases)
  case (graph_add t ts ds E)
  then show ?case using graph_ok_add by blast
next
  case (graph_edit f ts E k)
  then show ?case by (simp add: graph_ok_def ids_updWhere taskIn_updWhere)
next
  case (graph_relink f ts pid k ds E)
  then show ?case using graph_ok_relink by blast
qed simp

lemma taskRow_taskIn: "taskRow db k = Some r \<Longrightarrow> t_project_id r = pid \<Longrightarrow> taskIn (tasks db) pid k"
  by (auto simp: taskIn_def dest: taskRow_SomeD)

lemma validated_taskIn:
  "validateTaskRelations db pid k m ds c = Inr u \<Longrightarrow> d \<in> set ds \<Longrightarrow>
   d \<noteq> k \<and> taskIn (tasks db) pid d \<and> (c \<longrightarrow> (d, k) \<notin> (set (task_dependencies db))\<^sup>+)"
  by (fastforce simp: validateTaskRelations_Inr intro: taskRow_taskIn)

text \<open>Only five of the writers touch tasks, their edges or their claims.\<close>

lemma core_commit_task_cases:
  assumes "core_commit db db'"
  obtains (frame) "tasks db' = tasks db" "task_dependencies db' = task_dependencies db"
      "task_claims db' = task_claims db" "task_current_claims db' = task_current_claims db"
  | (create_task) e c ds key operation fp r where
      "createTaskBody e c ds key operation fp db = Inr (r, db')" "ct_State c \<in> {''ready'', ''blocked''}"
  | (update_task) e c ds key operation fp r where
      "updateTaskBody e c ds key operation fp db = Inr (r, db')"
  | (change_state) e c key operation fp r where
      "changeTaskStateBody e c key operation fp db = Inr (r, db')"
  | (claim) e req key cl where "claimBody e req key db = Inr (cl, db')"
  | (import_task) e t u where "CreateTask e t db = (Inr u, db')"
  using assms
proof cases
  case (14 e sreq snap r)
  from 14(1) show ?thesis by (cases rule: Status_cases) (auto intro: frame)
qed (auto intro: that dest!: createProjectBody_Inr updateProjectBody_Inr createMilestoneBody_Inr
       updateMilestoneBody_Inr appendWikiBody_Inr CreateProject_Inr CreateTopic_Inr AddDecision_Inr
       Redact_Inr)

lemma core_commit_graph:
  assumes "core_commit db db'"
  shows "graph_step (tasks db, task_dependencies db) (tasks db', task_dependencies db')"
  using assms
proof (cases rule: core_commit_task_cases)
  case frame
  then show ?thesis by (simp add: graph_stay)
next
  case (create_task e c ds key operation fp r)
  from createTaskBody_Inr [OF create_task(1)] obtain t where
    "tasks db' = tasks db @ [t]" "task_dependencies db' = task_dependencies db @ map (Pair (t_id t)) ds"
    "t_id t \<notin> t_id ` set (tasks db)"
    "validateTaskRelations db (t_project_id t) (t_id t) (ct_MilestoneID c) ds False = Inr ()"
    by (fastforce simp: hasTask_iff)
  then show ?thesis by (auto intro!: graph_add dest: validated_taskIn)
next
  case update_task
  from updateTaskBody_Inr [OF this] show ?thesis
    by (elim exE conjE, simp)
       (rule graph_relink, auto simp: keepsIdentity_def intro: taskRow_taskIn dest: validated_taskIn)
next
  case change_state
  from changeTaskStateBody_Inr [OF this] show ?thesis
    by (auto simp: keepsIdentity_def intro!: graph_edit)
next
  case claim
  from claimBody_Inr [OF this] show ?thesis by (auto simp: keepsIdentity_def intro!: graph_edit)
next
  case (import_task e t u)
  from CreateTask_Inr [OF this] obtain r where
    "tasks db' = tasks db @ [r]" "task_dependencies db' = task_dependencies db"
    "t_id r \<notin> t_id ` set (tasks db)" by (fastforce simp: hasTask_iff)
  with graph_add [of r "tasks db" "[]" "task_dependencies db"] show ?thesis by simp
qed

end
