(* ===== verification/Claim_Invariants.thy ===== *)
theory Claim_Invariants
  imports Core_Invariants
begin

text \<open>
  Who holds a task. The abstract claim machine describes what a step of the project core
  may do to the tasks, the claim history and the current claims; its invariant is that a
  current claim belongs to one task in progress or blocked, names a recorded claim on that
  very task with the same lease, and that the session of that claim owns the task.
\<close>

section \<open>The claim machine\<close>

type_synonym holdings = "task_row list \<times> claim_row list \<times> current_claim_row list"

definition keepsHolding :: "(task_row \<Rightarrow> task_row) \<Rightarrow> bool" where
  "keepsHolding f \<longleftrightarrow> (\<forall>r. t_id (f r) = t_id r \<and> t_state (f r) = t_state r \<and>
                          t_owner_session_id (f r) = t_owner_session_id r)"

definition takenOver :: "gostring \<Rightarrow> claim_row \<Rightarrow> current_claim_row \<Rightarrow> bool" where
  "takenOver k c r \<longleftrightarrow> cc_task_id r = k \<and> cc_claim_id r = tc_id c \<and> cc_lease_until r = tc_lease_until c"

inductive claim_step :: "holdings \<Rightarrow> holdings \<Rightarrow> bool" where
  claim_stay: "claim_step s s"
| claim_add: "t_id t \<notin> t_id ` set ts \<Longrightarrow> claim_step (ts, cs, ccs) (ts @ [t], cs, ccs)"
| claim_edit: "keepsHolding f \<Longrightarrow> claim_step (ts, cs, ccs) (updWhere (\<lambda>r. t_id r = k) f ts, cs, ccs)"
| claim_move: "(\<And>r. t_id (f r) = t_id r \<and> t_state (f r) = s) \<Longrightarrow>
    (\<And>r. s \<noteq> ''ready'' \<Longrightarrow> t_owner_session_id (f r) = t_owner_session_id r) \<Longrightarrow>
    s \<in> {''ready'', ''blocked'', ''done'', ''cancelled''} \<Longrightarrow>
    claim_step (ts, cs, ccs) (updWhere (\<lambda>r. t_id r = k) f ts, cs,
      released (s = ''ready'' \<or> s = ''done'' \<or> s = ''cancelled'') k ccs)"
| claim_take: "(\<And>r. t_id (f r) = t_id r \<and> t_state (f r) = ''in_progress'' \<and>
                     t_owner_session_id (f r) = Some (tc_session_id c)) \<Longrightarrow>
    tc_task_id c = k \<Longrightarrow> k \<in> t_id ` set ts \<Longrightarrow>
    (\<And>q. q \<in> set cs \<Longrightarrow> tc_id q \<noteq> tc_id c \<and> tc_request_id q \<noteq> tc_request_id c) \<Longrightarrow>
    ccs' = ccs @ [r] \<and> takenOver k c r \<and> k \<notin> cc_task_id ` set ccs \<or>
    ccs' = updWhere (\<lambda>r. cc_task_id r = k) g ccs \<and> (\<forall>r. cc_task_id r = k \<longrightarrow> takenOver k c (g r)) \<Longrightarrow>
    claim_step (ts, cs, ccs) (updWhere (\<lambda>r. t_id r = k) f ts, cs @ [c], ccs')"

definition holds :: "task_row list \<Rightarrow> claim_row list \<Rightarrow> current_claim_row \<Rightarrow> bool" where
  "holds ts cs cc \<longleftrightarrow>
     (\<exists>t \<in> set ts. \<exists>c \<in> set cs. t_id t = cc_task_id cc \<and> t_state t \<in> {''in_progress'', ''blocked''} \<and>
        tc_id c = cc_claim_id cc \<and> tc_task_id c = cc_task_id cc \<and>
        tc_lease_until c = cc_lease_until cc \<and> t_owner_session_id t = Some (tc_session_id c))"

definition claims_ok :: "holdings \<Rightarrow> bool" where
  "claims_ok s = (case s of (ts, cs, ccs) \<Rightarrow>
     distinct (map tc_id cs) \<and> distinct (map tc_request_id cs) \<and>
     distinct (map cc_task_id ccs) \<and> (\<forall>cc \<in> set ccs. holds ts cs cc))"

lemma claims_okI:
  "\<lbrakk>distinct (map tc_id cs); distinct (map tc_request_id cs); distinct (map cc_task_id ccs);
    \<And>cc. cc \<in> set ccs \<Longrightarrow> holds ts cs cc\<rbrakk> \<Longrightarrow> claims_ok (ts, cs, ccs)"
  by (simp add: claims_ok_def)

lemma claims_okD:
  assumes "claims_ok (ts, cs, ccs)"
  shows "distinct (map tc_id cs)" "distinct (map tc_request_id cs)" "distinct (map cc_task_id ccs)"
    "cc \<in> set ccs \<Longrightarrow> holds ts cs cc"
  using assms by (simp_all add: claims_ok_def)

lemma holds_mono: "holds ts cs cc \<Longrightarrow> set ts \<subseteq> set ts' \<Longrightarrow> set cs \<subseteq> set cs' \<Longrightarrow> holds ts' cs' cc"
  unfolding holds_def by blast

lemma holds_updWhere:
  assumes "holds ts cs cc"
    and "\<And>t. t \<in> set ts \<Longrightarrow> P t \<Longrightarrow> t_id t = cc_task_id cc \<Longrightarrow> t_id (f t) = t_id t \<and>
           (t_state t \<in> {''in_progress'', ''blocked''} \<longrightarrow> t_state (f t) \<in> {''in_progress'', ''blocked''}) \<and>
           t_owner_session_id (f t) = t_owner_session_id t"
  shows "holds (updWhere P f ts) cs cc"
proof -
  from assms(1) obtain u c where uc: "u \<in> set ts" "c \<in> set cs" "t_id u = cc_task_id cc"
    "t_state u \<in> {''in_progress'', ''blocked''}" "tc_id c = cc_claim_id cc"
    "tc_task_id c = cc_task_id cc" "tc_lease_until c = cc_lease_until cc"
    "t_owner_session_id u = Some (tc_session_id c)" unfolding holds_def by blast
  define u' where "u' = (if P u then f u else u)"
  have "u' \<in> set (updWhere P f ts)" using uc(1) by (auto simp: set_updWhere u'_def)
  moreover have "t_id u' = t_id u" "t_state u' \<in> {''in_progress'', ''blocked''}"
    "t_owner_session_id u' = t_owner_session_id u"
    using assms(2) [OF uc(1)] uc(3,4) by (auto simp: u'_def)
  ultimately show ?thesis using uc unfolding holds_def by metis
qed

lemma holds_taken:
  assumes "takenOver k c cc" and "tc_task_id c = k" and "k \<in> t_id ` set ts"
    and f: "\<And>r. t_id (f r) = t_id r \<and> t_state (f r) = ''in_progress'' \<and>
                t_owner_session_id (f r) = Some (tc_session_id c)"
  shows "holds (updWhere (\<lambda>r. t_id r = k) f ts) (cs @ [c]) cc"
proof -
  from assms(3) obtain u where u: "u \<in> set ts" "t_id u = k" by auto
  then have "f u \<in> set (updWhere (\<lambda>r. t_id r = k) f ts)" by (auto simp: set_updWhere image_iff)
  with u assms show ?thesis unfolding holds_def takenOver_def
    by (intro bexI [of _ "f u"] bexI [of _ c]) auto
qed

lemma claim_step_ok: "claim_step s t \<Longrightarrow> claims_ok s \<Longrightarrow> claims_ok t"
proof (induction rule: claim_step.cases)
  case (claim_add t ts cs ccs)
  then show ?case by (auto simp: claims_ok_def intro: holds_mono)
next
  case (claim_edit f ts cs ccs k)
  then show ?case by (auto simp: claims_ok_def keepsHolding_def intro!: holds_updWhere)
next
  case (claim_move f st ts cs ccs k)
  note ok = claims_okD [OF claim_move(6) [unfolded claim_move(1)]]
  show ?case unfolding claim_move(2)
  proof (rule claims_okI)
    show "distinct (map cc_task_id (released (st = ''ready'' \<or> st = ''done'' \<or> st = ''cancelled'') k ccs))"
      using ok(3) by (simp add: released_def distinct_map_filter)
    fix cc assume cc: "cc \<in> set (released (st = ''ready'' \<or> st = ''done'' \<or> st = ''cancelled'') k ccs)"
    then have "cc \<in> set ccs" by (auto simp: released_def split: if_splits)
    then have "holds ts cs cc" by (rule ok(4))
    moreover have "cc_task_id cc \<noteq> k \<or> st = ''blocked''"
      using cc claim_move(5) by (auto simp: released_def split: if_splits)
    ultimately show "holds (updWhere (\<lambda>r. t_id r = k) f ts) cs cc"
      using claim_move(3,4) by (auto intro!: holds_updWhere)
  qed (use ok in auto)
next
  case (claim_take f c k ts cs ccs' ccs r g)
  note ok = claims_okD [OF claim_take(8) [unfolded claim_take(1)]]
  have keys: "distinct (map tc_id (cs @ [c]))" "distinct (map tc_request_id (cs @ [c]))"
    using ok(1,2) by (auto dest!: claim_take(6))
  have other: "holds (updWhere (\<lambda>r. t_id r = k) f ts) (cs @ [c]) cc"
    if "cc \<in> set ccs" "cc_task_id cc \<noteq> k" for cc
    using ok(4) [OF that(1)] that(2) by (auto intro!: holds_updWhere elim: holds_mono)
  have taken: "holds (updWhere (\<lambda>r. t_id r = k) f ts) (cs @ [c]) cc" if "takenOver k c cc" for cc
    using holds_taken [OF that claim_take(4,5)] claim_take(3) by blast
  from claim_take(7) show ?case
  proof
    assume new: "ccs' = ccs @ [r] \<and> takenOver k c r \<and> k \<notin> cc_task_id ` set ccs"
    then have "cc_task_id cc \<noteq> k" if "cc \<in> set ccs" for cc using that by auto
    with new show ?thesis unfolding claim_take(2) using keys ok(3) other taken
      by (intro claims_okI) (auto simp: takenOver_def)
  next
    assume upd: "ccs' = updWhere (\<lambda>r. cc_task_id r = k) g ccs \<and> (\<forall>r. cc_task_id r = k \<longrightarrow> takenOver k c (g r))"
    then have "map cc_task_id ccs' = map cc_task_id ccs" by (auto simp: updWhere_def takenOver_def)
    with upd show ?thesis unfolding claim_take(2) using keys ok(3) other taken
      by (intro claims_okI) (auto simp: set_updWhere)
  qed
qed simp

section \<open>Every writer is a claim step\<close>

lemma reassigned_cases:
  assumes admitted: "claimAdmission db t (env_now e) = Inr v" and t: "t_id t = cl_TaskID req"
    and dist: "distinct (map cc_task_id (task_current_claims db))"
  shows "\<exists>r. reassigned e req v (task_current_claims db) = task_current_claims db @ [r] \<and>
           takenOver (cl_TaskID req) (claimRow e req key rv) r \<and>
           cl_TaskID req \<notin> cc_task_id ` set (task_current_claims db) \<or>
         (\<exists>g. reassigned e req v (task_current_claims db) =
             updWhere (\<lambda>r. cc_task_id r = cl_TaskID req) g (task_current_claims db) \<and>
           (\<forall>r. cc_task_id r = cl_TaskID req \<longrightarrow> takenOver (cl_TaskID req) (claimRow e req key rv) (g r)) \<and>
           currentClaimRow db (cl_TaskID req) \<noteq> None)"
proof (cases "currentClaimRow db (cl_TaskID req)")
  case None
  with admitted t have "v = None" by (simp add: claimAdmission_Inr)
  with None show ?thesis
    by (auto simp: reassigned_def takenOver_def claimRow_def currentClaimRow_def find_None_iff_all)
next
  case (Some cc)
  with admitted t obtain lease where v: "v = Some (cc_claim_id cc, lease)"
    and lease: "cc_lease_until cc = Some lease" by (auto simp: claimAdmission_Inr)
  from Some have cc: "cc \<in> set (task_current_claims db)" "cc_task_id cc = cl_TaskID req"
    by (auto dest: currentClaimRow_SomeD)
  have "r = cc" if "r \<in> set (task_current_claims db)" "cc_task_id r = cl_TaskID req" for r
    using distinct_key_eq [OF dist that(1) cc(1)] that(2) cc(2) by simp
  then have "reassigned e req v (task_current_claims db) =
      updWhere (\<lambda>r. cc_task_id r = cl_TaskID req)
        (\<lambda>r. r\<lparr>cc_claim_id := newID e 0 ''C-'', cc_lease_until := cl_LeaseUntil req,
               cc_updated_at := env_now e\<rparr>) (task_current_claims db)"
    unfolding reassigned_def v updWhere_def using lease by (auto intro!: map_cong)
  then show ?thesis using Some by (auto simp: takenOver_def claimRow_def)
qed

lemma claimBody_holding:
  assumes "claimBody e req key db = Inr (c, db')"
  shows "\<exists>t v rv f. c = claimResult e req rv \<and>
    tasks db' = updWhere (\<lambda>r. t_id r = cl_TaskID req) f (tasks db) \<and>
    task_claims db' = task_claims db @ [claimRow e req key rv] \<and>
    task_current_claims db' = reassigned e req v (task_current_claims db) \<and>
    (\<forall>r. t_id (f r) = t_id r \<and> t_state (f r) = ''in_progress'' \<and>
         t_owner_session_id (f r) = Some (cl_SessionID req)) \<and>
    taskRow db (cl_TaskID req) = Some t \<and> claimAdmission db t (env_now e) = Inr v \<and>
    \<not> hasRow (\<lambda>q. tc_id q = newID e 0 ''C-'' \<or> tc_request_id q = key) (task_claims db)"
  using claimBody_Inr [OF assms]
  by (elim exE conjE) (simp, intro exI conjI, rule refl, rule refl, rule refl, rule refl, simp_all)

lemma claim_take_commit:
  assumes "claimBody e req key db = Inr (cl, db')"
    and "distinct (map cc_task_id (task_current_claims db))"
  shows "claim_step (tasks db, task_claims db, task_current_claims db)
           (tasks db', task_claims db', task_current_claims db')"
proof -
  from claimBody_holding [OF assms(1)] obtain t v rv f where
    db': "tasks db' = updWhere (\<lambda>r. t_id r = cl_TaskID req) f (tasks db)"
      "task_claims db' = task_claims db @ [claimRow e req key rv]"
      "task_current_claims db' = reassigned e req v (task_current_claims db)"
    and f: "\<And>r. t_id (f r) = t_id r \<and> t_state (f r) = ''in_progress'' \<and>
                 t_owner_session_id (f r) = Some (cl_SessionID req)"
    and t: "taskRow db (cl_TaskID req) = Some t" "claimAdmission db t (env_now e) = Inr v"
    and fresh: "\<not> hasRow (\<lambda>q. tc_id q = newID e 0 ''C-'' \<or> tc_request_id q = key) (task_claims db)"
    by blast
  obtain r g where "task_current_claims db' = task_current_claims db @ [r] \<and>
        takenOver (cl_TaskID req) (claimRow e req key rv) r \<and>
        cl_TaskID req \<notin> cc_task_id ` set (task_current_claims db) \<or>
      task_current_claims db' = updWhere (\<lambda>r. cc_task_id r = cl_TaskID req) g (task_current_claims db) \<and>
        (\<forall>r. cc_task_id r = cl_TaskID req \<longrightarrow> takenOver (cl_TaskID req) (claimRow e req key rv) (g r))"
    using reassigned_cases [OF t(2) _ assms(2), of req key rv] taskRow_SomeD [OF t(1)] db'(3) by metis
  moreover have "cl_TaskID req \<in> t_id ` set (tasks db)"
    using taskRow_SomeD [OF t(1)] by (metis imageI)
  ultimately show ?thesis unfolding db' using f fresh
    by (intro claim_take) (auto simp: claimRow_def)
qed

lemma core_commit_claims:
  assumes "core_commit db db'" and "distinct (map cc_task_id (task_current_claims db))"
  shows "claim_step (tasks db, task_claims db, task_current_claims db)
           (tasks db', task_claims db', task_current_claims db')"
  using assms(1)
proof (cases rule: core_commit_task_cases)
  case frame
  then show ?thesis by (simp add: claim_stay)
next
  case create_task
  from createTaskBody_Inr [OF this(1)] show ?thesis by (auto simp: hasTask_def intro!: claim_add)
next
  case update_task
  from updateTaskBody_Inr [OF this] show ?thesis
    by (auto simp: keepsHolding_def intro!: claim_edit)
next
  case (change_state e c)
  have "s \<in> {''ready'', ''blocked'', ''done'', ''cancelled''}" if "taskTransitionAllowed f s" for f s
    using that by (auto simp: taskTransitionAllowed_def split: if_splits)
  with changeTaskStateBody_Inr [OF change_state] show ?thesis
    by (elim exE conjE, simp) (rule claim_move, auto)
next
  case claim
  then show ?thesis using assms(2) by (rule claim_take_commit)
next
  case import_task
  from CreateTask_Inr [OF this] show ?thesis by (auto simp: hasTask_def intro!: claim_add)
qed

end
