(* ===== verification/Core_System.thy ===== *)
theory Core_System
  imports Claim_Invariants "HOL-Library.Sublist"
begin

text \<open>
  The invariants of the project core put together, with the interfaces they instantiate:
  every state reached from the migrated database satisfies \<open>core_inv\<close>, and the history
  tables, among them the replay ledgers, only grow.
\<close>

section \<open>History only grows\<close>

definition history_grows :: "db \<Rightarrow> db \<Rightarrow> bool" where
  "history_grows db db' \<longleftrightarrow>
     prefix (project_core_requests db) (project_core_requests db') \<and>
     prefix (task_claims db) (task_claims db') \<and> prefix (status_events db) (status_events db') \<and>
     prefix (changes db) (changes db') \<and> prefix (task_events db) (task_events db') \<and>
     prefix (activity_events db) (activity_events db') \<and>
     prefix (wiki_revisions db) (wiki_revisions db')"

lemma history_grows_refl: "history_grows db db"
  by (simp add: history_grows_def)

lemma history_grows_trans: "history_grows a b \<Longrightarrow> history_grows b c \<Longrightarrow> history_grows a c"
  by (auto simp: history_grows_def intro: prefix_order.trans)

lemma core_commit_grows:
  assumes "core_commit db db'"
  shows "history_grows db db'"
  using assms
proof cases
  case (14 e sreq snap r)
  from 14(1) show ?thesis by (cases rule: Status_cases) (auto simp: history_grows_def)
qed (auto simp: history_grows_def
       dest!: createProjectBody_Inr updateProjectBody_Inr createMilestoneBody_Inr updateMilestoneBody_Inr
         createTaskBody_Inr updateTaskBody_Inr changeTaskStateBody_Inr appendWikiBody_Inr claimBody_Inr
         CreateProject_Inr CreateTopic_Inr CreateTask_Inr AddDecision_Inr Redact_Inr)

lemma core_step_grows: "core_step hash db db' \<Longrightarrow> history_grows db db'"
  using core_step_commit core_commit_grows history_grows_refl by blast

lemma core_steps_grow: "(core_step hash)\<^sup>*\<^sup>* db db' \<Longrightarrow> history_grows db db'"
  by (induction rule: rtranclp_induct)
     (auto intro: history_grows_refl history_grows_trans core_step_grows)

lemma find_prefix: "prefix xs ys \<Longrightarrow> find P xs = Some x \<Longrightarrow> find P ys = Some x"
  by (auto simp: prefix_def find_append_Some)

interpretation requests: permanent_ledger "core_step hash" coreRequestRow
  by unfold_locales
     (auto simp: coreRequestRow_def history_grows_def dest!: core_step_grows intro: find_prefix)

interpretation claims: permanent_ledger "core_step hash"
  "\<lambda>db k. find (\<lambda>r. tc_request_id r = k) (task_claims db)"
  by unfold_locales (auto simp: history_grows_def dest!: core_step_grows intro: find_prefix)

interpretation statuses: permanent_ledger "core_step hash"
  "\<lambda>db k. find (\<lambda>r. se_request_id r = Some k) (status_events db)"
  by unfold_locales (auto simp: history_grows_def dest!: core_step_grows intro: find_prefix)

section \<open>Milestones and revisions\<close>

definition revision_bound :: "project_row list \<Rightarrow> gostring \<Rightarrow> int \<Rightarrow> bool" where
  "revision_bound ps pid rv \<longleftrightarrow> (\<exists>p \<in> set ps. p_id p = pid \<and> rv \<le> p_revision p)"

definition revisions_ok :: "db \<Rightarrow> bool" where
  "revisions_ok db \<longleftrightarrow>
     (\<forall>t \<in> set (tasks db). revision_bound (projects db) (t_project_id t) (t_project_revision t)) \<and>
     (\<forall>m \<in> set (milestones db). revision_bound (projects db) (m_project_id m) (m_project_revision m))"

definition milestones_ok :: "db \<Rightarrow> bool" where
  "milestones_ok db \<longleftrightarrow> distinct (map m_id (milestones db)) \<and> milestone_checks (milestones db)"

lemma log_step_bound:
  assumes "log_step s t" and "revision_bound (fst s) pid rv"
  shows "revision_bound (fst t) pid rv"
  using assms
proof (induction rule: log_step.cases)
  case (log_bump k ps p f c cs)
  then obtain q where q: "q \<in> set ps" "p_id q = pid" "rv \<le> p_revision q"
    by (auto simp: revision_bound_def)
  have "(if p_id q = k then f q else q) \<in> set (updWhere (\<lambda>r. p_id r = k) f ps)"
    using q(1) by (auto simp: set_updWhere)
  with q log_bump(4) show ?case
    unfolding revision_bound_def log_bump(1,2) fst_conv
    by (intro bexI [of _ "if p_id q = k then f q else q"]) (auto simp: add_increasing2)
qed (auto simp: revision_bound_def)

lemma bumped_bound:
  assumes "projectRow db pid = Some p"
  shows "revision_bound (bumped pid now (projects db)) pid (p_revision p + 1)"
proof -
  from assms have "p \<in> set (projects db)" "p_id p = pid" by (auto dest: projectRow_SomeD)
  then have "p\<lparr>p_revision := p_revision p + 1, p_updated_at := now\<rparr> \<in> set (bumped pid now (projects db))"
    by (auto simp: bumped_def set_updWhere image_iff)
  then show ?thesis using \<open>p_id p = pid\<close> unfolding revision_bound_def
    by (intro bexI [of _ "p\<lparr>p_revision := p_revision p + 1, p_updated_at := now\<rparr>"]) auto
qed

text \<open>
  A task or milestone of the new state is an old one, or carries the revision its
  transaction drew.
\<close>

lemma updWhere_bound:
  assumes "r \<in> set (updWhere (\<lambda>r. idf r = k) f rows)" and "distinct (map idf rows)"
    and "t \<in> set rows" "idf t = k"
  shows "r \<in> set rows \<or> r = f t"
  using assms distinct_key_eq [OF assms(2)] by (auto simp: set_updWhere split: if_splits)

lemma core_commit_task_bound:
  assumes "core_commit db db'" and "distinct (map t_id (tasks db))" and "t \<in> set (tasks db')"
  shows "t \<in> set (tasks db) \<or> revision_bound (projects db') (t_project_id t) (t_project_revision t) \<or>
         t_project_revision t = 0 \<and> hasProject db' (t_project_id t)"
  using assms(1)
proof (cases rule: core_commit_task_cases)
  case create_task
  from createTaskBody_Inr [OF this(1)] assms(3) show ?thesis
    by (elim exE conjE) (auto simp: bumped_bound)
next
  case update_task
  from updateTaskBody_Inr [OF this] assms(2,3) show ?thesis
    by (elim exE conjE) (auto simp: bumped_bound dest!: updWhere_bound taskRow_SomeD)
next
  case change_state
  from changeTaskStateBody_Inr [OF this] assms(2,3) show ?thesis
    by (elim exE conjE) (auto simp: bumped_bound dest!: updWhere_bound taskRow_SomeD)
next
  case claim
  from claimBody_Inr [OF this] assms(2,3) show ?thesis
    by (elim exE conjE) (auto simp: bumped_bound dest!: updWhere_bound taskRow_SomeD)
next
  case import_task
  from CreateTask_Inr [OF this] assms(3) show ?thesis by (auto simp: hasProject_def)
qed (use assms(3) in auto)

lemma core_commit_milestone_cases:
  assumes "core_commit db db'"
  obtains (frame) "milestones db' = milestones db"
  | (create) e c key operation fp r where "createMilestoneBody e c key operation fp db = Inr (r, db')"
  | (update) e c key operation fp r where "updateMilestoneBody e c key operation fp db = Inr (r, db')"
  | (import_one) e p u where "CreateProject e p db = (Inr u, db')"
  using assms
proof cases
  case (14 e sreq snap r)
  from 14(1) show ?thesis by (cases rule: Status_cases) (auto intro: frame)
qed (auto intro: that dest!: createProjectBody_Inr updateProjectBody_Inr createTaskBody_Inr updateTaskBody_Inr
       changeTaskStateBody_Inr appendWikiBody_Inr claimBody_Inr CreateTopic_Inr CreateTask_Inr
       AddDecision_Inr Redact_Inr)

lemma core_commit_milestones:
  assumes "core_commit db db'" and "milestones_ok db"
  shows "milestones_ok db'"
  using assms(1)
proof (cases rule: core_commit_milestone_cases)
  case create
  from createMilestoneBody_Inr [OF this] assms(2) show ?thesis
    by (elim exE conjE) (simp add: milestones_ok_def hasMilestone_def, metis imageE)
next
  case update
  from updateMilestoneBody_Inr [OF this] assms(2) show ?thesis
    by (auto simp: milestones_ok_def map_updWhere_frame)
next
  case (import_one e p u)
  from CreateProject_Inr [OF this] obtain ms where
    "milestones db' = milestones db @ ms" "length ms \<le> 1" "\<forall>m \<in> set ms. \<not> hasMilestone db (m_id m)"
    "ms \<noteq> [] \<longrightarrow> milestone_checks (milestones db @ ms)" by auto
  with assms(2) show ?thesis
    by (cases ms) (auto simp: milestones_ok_def hasMilestone_def)
qed (use assms(2) in \<open>simp add: milestones_ok_def\<close>)

lemma core_commit_milestone_bound:
  assumes "core_commit db db'" and "distinct (map m_id (milestones db))" and "m \<in> set (milestones db')"
  shows "m \<in> set (milestones db) \<or> revision_bound (projects db') (m_project_id m) (m_project_revision m)"
  using assms(1)
proof (cases rule: core_commit_milestone_cases)
  case create
  from createMilestoneBody_Inr [OF this] assms(3) show ?thesis
    by (elim exE conjE) (auto simp: bumped_bound)
next
  case update
  from updateMilestoneBody_Inr [OF this] assms(2,3) show ?thesis
    by (elim exE conjE) (auto simp: bumped_bound dest!: updWhere_bound milestoneRow_SomeD)
next
  case import_one
  from CreateProject_Inr [OF this] assms(3) show ?thesis by (auto simp: revision_bound_def)
qed (use assms(3) in auto)

section \<open>Wiki revisions\<close>

definition wiki_ok :: "db \<Rightarrow> bool" where
  "wiki_ok db \<longleftrightarrow> distinct (map wp_id (wiki_pages db)) \<and>
     (\<forall>v \<in> set (wiki_revisions db). wv_page_id v \<in> wp_id ` set (wiki_pages db)) \<and>
     (\<forall>w \<in> set (wiki_pages db). 1 \<le> wp_current_revision w \<and>
        map wv_revision (filter (\<lambda>v. wv_page_id v = wp_id w) (wiki_revisions db)) = [1..wp_current_revision w])"

lemma upto_snoc: "a \<le> n + 1 \<Longrightarrow> [a..n] @ [n + 1] = [a..n + (1::int)]"
  using upto_rec2 [of a "n + 1"] by simp

lemma wiki_ok_create:
  assumes ok: "wiki_ok db" and new: "\<not> hasRow (\<lambda>q. wp_id q = wp_id w) (wiki_pages db)"
    and w: "wp_current_revision w = 1" and v: "wv_page_id v = wp_id w" "wv_revision v = 1"
    and db': "wiki_pages db' = wiki_pages db @ [w]" "wiki_revisions db' = wiki_revisions db @ [v]"
  shows "wiki_ok db'"
proof -
  have old: "wp_id x \<noteq> wp_id w" if "x \<in> set (wiki_pages db)" for x using new that by auto
  have "\<forall>u \<in> set (wiki_revisions db). wv_page_id u \<in> wp_id ` set (wiki_pages db)"
    using ok by (simp add: wiki_ok_def)
  then have none: "filter (\<lambda>u. wv_page_id u = wp_id w) (wiki_revisions db) = []"
    unfolding filter_empty_conv using old by (metis imageE)
  show ?thesis unfolding wiki_ok_def db'
  proof (intro conjI ballI)
    show "distinct (map wp_id (wiki_pages db @ [w]))" using ok old by (fastforce simp: wiki_ok_def)
  next
    fix x assume "x \<in> set (wiki_pages db @ [w])"
    then consider (old) "x \<in> set (wiki_pages db)" | (new) "x = w" by auto
    then have "1 \<le> wp_current_revision x \<and> map wv_revision (filter (\<lambda>u. wv_page_id u = wp_id x)
        (wiki_revisions db @ [v])) = [1..wp_current_revision x]"
    proof cases
      case old
      then have "wv_page_id v \<noteq> wp_id x" using \<open>\<And>x. x \<in> set (wiki_pages db) \<Longrightarrow> wp_id x \<noteq> wp_id w\<close> v by metis
      with old ok show ?thesis by (simp add: wiki_ok_def)
    qed (simp add: none w v)
    then show "1 \<le> wp_current_revision x" "map wv_revision (filter (\<lambda>u. wv_page_id u = wp_id x)
        (wiki_revisions db @ [v])) = [1..wp_current_revision x]" by simp_all
  qed (use ok v in \<open>auto simp: wiki_ok_def\<close>)
qed

lemma wiki_ok_revise:
  assumes ok: "wiki_ok db" and w: "w \<in> set (wiki_pages db)"
    and v: "wv_page_id v = wp_id w" "wv_revision v = wp_current_revision w + 1"
    and f: "\<And>r. wp_id (f r) = wp_id r \<and> wp_current_revision (f r) = wp_current_revision w + 1"
    and db': "wiki_pages db' = updWhere (\<lambda>r. wp_id r = wp_id w) f (wiki_pages db)"
      "wiki_revisions db' = wiki_revisions db @ [v]"
  shows "wiki_ok db'"
proof -
  have ids: "map wp_id (wiki_pages db') = map wp_id (wiki_pages db)"
    unfolding db' using f by (intro map_updWhere_frame) simp
  have "1 \<le> wp_current_revision x \<and> map wv_revision
      (filter (\<lambda>u. wv_page_id u = wp_id x) (wiki_revisions db')) = [1..wp_current_revision x]"
    if x: "x \<in> set (wiki_pages db')" for x
  proof (cases "wp_id x = wp_id w")
    case True
    then have "wp_current_revision x = wp_current_revision w + 1"
      using x f unfolding db' by (auto simp: set_updWhere split: if_splits)
    moreover have "1 \<le> wp_current_revision w" "map wv_revision
        (filter (\<lambda>u. wv_page_id u = wp_id w) (wiki_revisions db)) = [1..wp_current_revision w]"
      using ok w by (auto simp: wiki_ok_def)
    ultimately show ?thesis using v True by (simp add: db' upto_snoc)
  next
    case False
    then have "x \<in> set (wiki_pages db)" using x f unfolding db' by (auto simp: set_updWhere split: if_splits)
    with False ok v show ?thesis unfolding db' wiki_ok_def by auto
  qed
  moreover have "wp_id ` set (wiki_pages db') = wp_id ` set (wiki_pages db)"
    using ids by (metis list.set_map)
  ultimately show ?thesis using ok ids w v by (auto simp: wiki_ok_def db'(2))
qed

lemma core_commit_wiki:
  assumes "core_commit db db'" and "wiki_ok db"
  shows "wiki_ok db'"
  using assms(1)
proof cases
  case (8 e c key operation fp r)
  from appendWikiBody_Inr [OF 8] show ?thesis
  proof (cases "wikiPageBySlug db (aw_ProjectID c) (aw_Slug c)")
    case None
    with appendWikiBody_Inr [OF 8] show ?thesis
      by (elim exE conjE) (rule wiki_ok_create [OF assms(2)], auto)
  next
    case (Some w)
    then have "w \<in> set (wiki_pages db)" by (auto dest: wikiPageBySlug_SomeD)
    with Some appendWikiBody_Inr [OF 8] show ?thesis
      by (elim exE conjE) (rule wiki_ok_revise [OF assms(2), of w], auto)
  qed
next
  case (14 e sreq snap r)
  from 14(1) assms(2) show ?thesis by (cases rule: Status_cases) (auto simp: wiki_ok_def)
qed (use assms(2) in \<open>auto simp: wiki_ok_def
       dest!: createProjectBody_Inr updateProjectBody_Inr createMilestoneBody_Inr updateMilestoneBody_Inr
         createTaskBody_Inr updateTaskBody_Inr changeTaskStateBody_Inr claimBody_Inr
         CreateProject_Inr CreateTopic_Inr CreateTask_Inr AddDecision_Inr Redact_Inr\<close>)

section \<open>The invariant of the project core\<close>

definition core_inv :: "db \<Rightarrow> bool" where
  "core_inv db \<longleftrightarrow>
     log_ok (projects db, changes db) \<and> graph_ok (tasks db, task_dependencies db) \<and>
     claims_ok (tasks db, task_claims db, task_current_claims db) \<and>
     milestones_ok db \<and> revisions_ok db \<and> wiki_ok db"

lemma core_inv_empty: "core_inv empty_db"
  by (simp add: core_inv_def empty_db_def log_ok_def graph_ok_def claims_ok_def milestones_ok_def
      revisions_ok_def milestone_checks_def wiki_ok_def acyclic_def)

lemma core_commit_revisions:
  assumes step: "core_commit db db'" and inv: "core_inv db"
  shows "revisions_ok db'"
proof -
  have mono: "revision_bound (projects db) pid rv \<Longrightarrow> revision_bound (projects db') pid rv" for pid rv
    using log_step_bound [OF core_commit_log [OF step]] by simp
  have "log_ok (projects db', changes db')"
    using log_step_ok [OF core_commit_log [OF step]] inv by (simp add: core_inv_def)
  then have zero: "revision_bound (projects db') pid 0" if "hasProject db' pid" for pid
    using that by (auto simp: log_ok_def contiguous_def hasProject_def revision_bound_def)
  show ?thesis
    unfolding revisions_ok_def
  proof (intro conjI ballI)
    fix t assume "t \<in> set (tasks db')"
    with core_commit_task_bound [OF step] inv mono zero
    show "revision_bound (projects db') (t_project_id t) (t_project_revision t)"
      by (fastforce simp: core_inv_def graph_ok_def revisions_ok_def)
  next
    fix m assume "m \<in> set (milestones db')"
    with core_commit_milestone_bound [OF step] inv mono
    show "revision_bound (projects db') (m_project_id m) (m_project_revision m)"
      by (fastforce simp: core_inv_def milestones_ok_def revisions_ok_def)
  qed
qed

lemma core_commit_inv:
  assumes step: "core_commit db db'" and inv: "core_inv db"
  shows "core_inv db'"
  unfolding core_inv_def
proof (intro conjI)
  show "log_ok (projects db', changes db')"
    using log_step_ok [OF core_commit_log [OF step]] inv by (simp add: core_inv_def)
  show "graph_ok (tasks db', task_dependencies db')"
    using graph_step_ok [OF core_commit_graph [OF step]] inv by (simp add: core_inv_def)
  have "distinct (map cc_task_id (task_current_claims db))"
    using inv by (simp add: core_inv_def claims_ok_def)
  then show "claims_ok (tasks db', task_claims db', task_current_claims db')"
    using claim_step_ok [OF core_commit_claims [OF step]] inv by (simp add: core_inv_def)
  show "milestones_ok db'" using core_commit_milestones [OF step] inv by (simp add: core_inv_def)
  show "revisions_ok db'" using core_commit_revisions [OF step inv] .
  show "wiki_ok db'" using core_commit_wiki [OF step] inv by (simp add: core_inv_def)
qed

interpretation core: transition_invariant "\<lambda>db. db = empty_db" "core_step hash" core_inv
  by unfold_locales (auto simp: core_inv_empty dest!: core_step_commit intro: core_commit_inv)

end
