(* ===== verification/Core_Properties.thy ===== *)
theory Core_Properties
  imports Core_System
begin

text \<open>
  The contract of the canonical writers seen by a client: a request is performed once, its
  repetition returns the recorded result, the same key for another request is a conflict,
  the unlocked look-up changes no answer, and a write based on a stale revision is refused.
\<close>

section \<open>Commands\<close>

datatype core_command =
    CmdCreateProject CreateProjectCommand
  | CmdUpdateProject UpdateProjectCommand
  | CmdCreateMilestone CreateMilestoneCommand
  | CmdUpdateMilestone UpdateMilestoneCommand
  | CmdCreateTask CreateTaskCommand
  | CmdUpdateTask UpdateTaskCommand
  | CmdChangeTaskState ChangeTaskStateCommand
  | CmdAppendWiki AppendWikiRevisionCommand

fun runCore :: "(core_payload \<Rightarrow> gostring) \<Rightarrow> env \<Rightarrow> core_command \<Rightarrow> db \<Rightarrow> db \<Rightarrow> core_result" where
  "runCore hash e (CmdCreateProject c) = CreateCanonicalProject hash e c"
| "runCore hash e (CmdUpdateProject c) = UpdateCanonicalProject hash e c"
| "runCore hash e (CmdCreateMilestone c) = CreateMilestone hash e c"
| "runCore hash e (CmdUpdateMilestone c) = UpdateMilestone hash e c"
| "runCore hash e (CmdCreateTask c) = CreateCanonicalTask hash e c"
| "runCore hash e (CmdUpdateTask c) = UpdateCanonicalTask hash e c"
| "runCore hash e (CmdChangeTaskState c) = ChangeCanonicalTaskState hash e c"
| "runCore hash e (CmdAppendWiki c) = AppendWikiRevision hash e c"

text \<open>What a command is reduced to before the protocol starts: its request or a refusal.\<close>

definition defaultStatus :: "CreateProjectCommand \<Rightarrow> CreateProjectCommand" where
  "defaultStatus c = (if cp_Status c = '''' then c\<lparr>cp_Status := ''active''\<rparr> else c)"

definition defaultState :: "CreateTaskCommand \<Rightarrow> CreateTaskCommand" where
  "defaultState c = (if ct_State c = '''' then c\<lparr>ct_State := ''ready''\<rparr> else c)"

fun commandMeta :: "core_command \<Rightarrow> CoreWriteMeta" where
  "commandMeta (CmdCreateProject c) = cp_Meta c"
| "commandMeta (CmdUpdateProject c) = up_Meta c"
| "commandMeta (CmdCreateMilestone c) = cm_Meta c"
| "commandMeta (CmdUpdateMilestone c) = um_Meta c"
| "commandMeta (CmdCreateTask c) = ct_Meta c"
| "commandMeta (CmdUpdateTask c) = ut_Meta c"
| "commandMeta (CmdChangeTaskState c) = cs_Meta c"
| "commandMeta (CmdAppendWiki c) = aw_Meta c"

fun commandOperation :: "core_command \<Rightarrow> gostring" where
  "commandOperation (CmdCreateProject c) = ''project.create''"
| "commandOperation (CmdUpdateProject c) = ''project.update''"
| "commandOperation (CmdCreateMilestone c) = ''milestone.create''"
| "commandOperation (CmdUpdateMilestone c) = ''milestone.update''"
| "commandOperation (CmdCreateTask c) = ''task.create''"
| "commandOperation (CmdUpdateTask c) = ''task.update''"
| "commandOperation (CmdChangeTaskState c) = ''task.state''"
| "commandOperation (CmdAppendWiki c) = ''wiki.append''"

fun commandPayload :: "core_command \<Rightarrow> core_payload option" where
  "commandPayload (CmdCreateProject c) = (let c = defaultStatus c in
     if createProjectValid c
     then Some (ProjectPayload (cp_ID c) (cp_Name c) (cp_Status c) (cp_Purpose c) (cp_Now c)) else None)"
| "commandPayload (CmdUpdateProject c) =
     (if updateProjectValid c then Some (ProjectUpdatePayload (up_ID c) (up_Name c) (up_Status c)
        (up_Purpose c) (up_Now c) (up_BaseRevision c)) else None)"
| "commandPayload (CmdCreateMilestone c) =
     (if createMilestoneValid c then Some (MilestonePayload (cm_ProjectID c) (cm_Title c) (cm_Status c)
        (cm_TargetDate c) (cm_Position c)) else None)"
| "commandPayload (CmdUpdateMilestone c) =
     (if updateMilestoneValid c then Some (MilestoneUpdatePayload (um_ID c) (um_Title c) (um_Status c)
        (um_TargetDate c) (um_Position c) (um_BaseRevision c)) else None)"
| "commandPayload (CmdCreateTask c) = (let c = defaultState c in
     case normalizeDependencyIDs (ct_DependencyIDs c) of None \<Rightarrow> None
     | Some ds \<Rightarrow> if createTaskValid c
        then Some (TaskPayload (ct_ProjectID c) (ct_Title c) (ct_Description c) (ct_Acceptance c)
               (ct_State c) (ct_MilestoneID c) (ct_Priority c) ds) else None)"
| "commandPayload (CmdUpdateTask c) =
     (case normalizeDependencyIDs (ut_DependencyIDs c) of None \<Rightarrow> None
     | Some ds \<Rightarrow> if updateTaskValid c
        then Some (TaskUpdatePayload (ut_ID c) (ut_Title c) (ut_Description c) (ut_Acceptance c)
               (ut_MilestoneID c) (ut_Priority c) ds (ut_BaseRevision c)) else None)"
| "commandPayload (CmdChangeTaskState c) =
     (if changeTaskStateValid c
      then Some (TaskStatePayload (cs_ID c) (cs_State c) (cs_Basis c) (cs_BaseRevision c)) else None)"
| "commandPayload (CmdAppendWiki c) =
     (if appendWikiValid c then Some (WikiPayload (aw_ProjectID c) (aw_Slug c) (aw_Title c)
        (aw_Summary c) (aw_Body c) (aw_BaseRevision c)) else None)"

fun commandBody :: "env \<Rightarrow> core_command \<Rightarrow> gostring \<Rightarrow> gostring \<Rightarrow> gostring \<Rightarrow> tx_body" where
  "commandBody e (CmdCreateProject c) = createProjectBody e (defaultStatus c)"
| "commandBody e (CmdUpdateProject c) = updateProjectBody e c"
| "commandBody e (CmdCreateMilestone c) = createMilestoneBody e c"
| "commandBody e (CmdUpdateMilestone c) = updateMilestoneBody e c"
| "commandBody e (CmdCreateTask c) = createTaskBody e (defaultState c) (sort (ct_DependencyIDs c))"
| "commandBody e (CmdUpdateTask c) = updateTaskBody e c (sort (ut_DependencyIDs c))"
| "commandBody e (CmdChangeTaskState c) = changeTaskStateBody e c"
| "commandBody e (CmdAppendWiki c) = appendWikiBody e c"

lemma default_Meta [simp]:
  "cp_Meta (defaultStatus c) = cp_Meta c" "ct_Meta (defaultState t) = ct_Meta t"
  "ct_DependencyIDs (defaultState t) = ct_DependencyIDs t"
  by (simp_all add: defaultStatus_def defaultState_def)

lemma sort_is_normalized: "normalizeDependencyIDs vs = Some ds \<Longrightarrow> sort vs = ds"
  by (simp add: normalizeDependencyIDs_Some)

lemma runCore_protocol:
  "runCore hash e cmd snap db =
     (case commandPayload cmd of
        None \<Rightarrow> (Inl ErrInvalid, db)
      | Some p \<Rightarrow> let key = coreRequestKey (commandMeta cmd); operation = commandOperation cmd in
          coreWrite key operation (hash p) (commandBody e cmd key operation (hash p)) snap db)"
proof (cases cmd)
  case (CmdCreateProject c)
  then show ?thesis
    by (simp add: CreateCanonicalProject_def Let_def defaultStatus_def [symmetric])
next
  case (CmdCreateTask c)
  then show ?thesis
    by (cases "normalizeDependencyIDs (ct_DependencyIDs c)")
       (simp_all add: CreateCanonicalTask_def Let_def defaultState_def [symmetric] sort_is_normalized)
next
  case (CmdUpdateTask c)
  then show ?thesis
    by (cases "normalizeDependencyIDs (ut_DependencyIDs c)")
       (simp_all add: UpdateCanonicalTask_def Let_def sort_is_normalized)
qed (simp_all add: UpdateCanonicalProject_def CreateMilestone_def UpdateMilestone_def
       ChangeCanonicalTaskState_def AppendWikiRevision_def Let_def)

lemma commandBody_ledger:
  assumes "commandBody e cmd key operation fp db = Inr (r, db')"
  shows "coreRequestRow db key = None \<and>
    (\<exists>q. project_core_requests db' = project_core_requests db @ [q] \<and> ledgerRow key operation fp r q)"
  using assms
  by (cases cmd) (auto dest!: createProjectBody_Inr updateProjectBody_Inr createMilestoneBody_Inr
      updateMilestoneBody_Inr createTaskBody_Inr updateTaskBody_Inr changeTaskStateBody_Inr appendWikiBody_Inr)

lemma runCore_step: "runCore hash e cmd snap db = (res, db') \<Longrightarrow> core_step hash db db'"
  by (cases cmd) (auto intro: core_step.intros)

section \<open>The replay contract\<close>

lemma readCoreReplay_Some:
  "readCoreReplay db key operation fp = Inr (Some r) \<longleftrightarrow>
     (\<exists>q. coreRequestRow db key = Some q \<and> ledgerRow key operation fp r q)"
proof -
  have "q \<in> set (project_core_requests db) \<and> rq_request_key q = key" if "coreRequestRow db key = Some q" for q
    using that unfolding coreRequestRow_def by (rule find_SomeD)
  then show ?thesis
    by (cases r; cases "coreRequestRow db key") (auto simp: readCoreReplay_def ledgerRow_def)
qed

lemma committed_replay:
  assumes "commandBody e cmd key operation fp db = Inr (r, db')"
  shows "readCoreReplay db' key operation fp = Inr (Some r)"
proof -
  from commandBody_ledger [OF assms] obtain q where "coreRequestRow db key = None"
    "project_core_requests db' = project_core_requests db @ [q]" "ledgerRow key operation fp r q" by blast
  then show ?thesis unfolding readCoreReplay_Some coreRequestRow_def
    by (auto simp: find_append ledgerRow_def)
qed

lemma replay_permanent:
  assumes "(core_step hash)\<^sup>*\<^sup>* db db'" and "readCoreReplay db key operation fp = Inr (Some r)"
  shows "readCoreReplay db' key operation fp = Inr (Some r)"
  using assms requests.entry_permanent [OF assms(1)] by (auto simp: readCoreReplay_Some)

lemma replay_earlier:
  assumes "(core_step hash)\<^sup>*\<^sup>* snap db" and "readCoreReplay db key operation fp = Inr (Some r)"
  shows "readCoreReplay snap key operation fp \<in> {Inr None, Inr (Some r)}"
proof (cases "coreRequestRow snap key")
  case None
  then show ?thesis by (simp add: readCoreReplay_def)
next
  case (Some q)
  then have "coreRequestRow db key = Some q" using requests.entry_permanent [OF assms(1)] by blast
  with assms(2) Some show ?thesis by (simp add: readCoreReplay_def)
qed

lemma coreWrite_replays:
  assumes "(core_step hash)\<^sup>*\<^sup>* snap db" and "readCoreReplay db key operation fp = Inr (Some r)"
  shows "coreWrite key operation fp body snap db = (Inr r, db)"
  using replay_earlier [OF assms] assms(2) by (auto simp: coreWrite_def coreTx_def)

lemma runCore_recorded:
  assumes "(core_step hash)\<^sup>*\<^sup>* snap db" and "runCore hash e cmd snap db = (Inr r, db')"
  obtains p where "commandPayload cmd = Some p"
    "readCoreReplay db' (coreRequestKey (commandMeta cmd)) (commandOperation cmd) (hash p) = Inr (Some r)"
proof -
  from assms(2) obtain p where p: "commandPayload cmd = Some p"
    and w: "coreWrite (coreRequestKey (commandMeta cmd)) (commandOperation cmd) (hash p)
      (commandBody e cmd (coreRequestKey (commandMeta cmd)) (commandOperation cmd) (hash p)) snap db = (Inr r, db')"
    by (auto simp: runCore_protocol Let_def split: option.splits)
  from w show ?thesis
  proof (cases rule: coreWrite_cases)
    case (replayed r' s)
    with replay_permanent [OF assms(1)] p show ?thesis by (auto intro: that)
  next
    case (committed r')
    with p that committed_replay [OF committed(4)] show ?thesis by simp
  qed simp
qed

end
