(* ===== verification/Core_Demo.thy ===== *)
theory Core_Demo
  imports Core_Properties
begin

text \<open>
  A small run of the project core, evaluated by the simplifier: a project is created, a
  task is added, claimed and finished. Its states show that the hypotheses of the
  properties can be met.
\<close>

definition demo_env :: "nat \<Rightarrow> env" where
  "demo_env n = \<lparr>env_clock = (\<lambda>k. int (100 * n + k)), env_rand = (\<lambda>k. itoa (10 * n + k))\<rparr>"

definition demo_hash :: "core_payload \<Rightarrow> gostring" where
  "demo_hash p = (case p of TaskStatePayload a b c d \<Rightarrow> b | TaskPayload a b c d e f g h \<Rightarrow> b | _ \<Rightarrow> ''h'')"

definition demo_meta :: "gostring \<Rightarrow> CoreWriteMeta" where
  "demo_meta r = \<lparr>meta_ActorID = ''u'', meta_SessionID = ''s'', meta_RequestID = r\<rparr>"

definition demo_project :: CreateProjectCommand where
  "demo_project = \<lparr>cp_ID = ''p'', cp_Name = ''P'', cp_Status = '''', cp_Purpose = ''x'', cp_Now = '''',
     cp_Meta = demo_meta ''1''\<rparr>"

definition demo_task :: "gostring \<Rightarrow> CreateTaskCommand" where
  "demo_task title = \<lparr>ct_ProjectID = ''p'', ct_Title = title, ct_Description = '''', ct_Acceptance = '''',
     ct_State = '''', ct_MilestoneID = '''', ct_Priority = 0, ct_DependencyIDs = [], ct_Meta = demo_meta ''2''\<rparr>"

definition demo_claim :: "gostring \<Rightarrow> gostring \<Rightarrow> ClaimRequest" where
  "demo_claim session request = \<lparr>cl_ActorID = session, cl_TaskID = ''T-20'', cl_SessionID = session,
     cl_RequestID = request, cl_LeaseUntil = Some 400\<rparr>"

definition demo_state :: "gostring \<Rightarrow> int \<Rightarrow> ChangeTaskStateCommand" where
  "demo_state st base = \<lparr>cs_ID = ''T-20'', cs_State = st, cs_Basis = ''b'', cs_BaseRevision = base,
     cs_Meta = demo_meta ''4''\<rparr>"

definition demo1 :: db where
  "demo1 = snd (CreateCanonicalProject demo_hash (demo_env 1) demo_project empty_db empty_db)"

definition demo2 :: db where
  "demo2 = snd (CreateCanonicalTask demo_hash (demo_env 2) (demo_task ''t'') demo1 demo1)"

definition demo3 :: db where
  "demo3 = snd (Claim (demo_env 3) (demo_claim ''s'' ''3'') demo2 demo2)"

definition demo4 :: db where
  "demo4 = snd (ChangeCanonicalTaskState demo_hash (demo_env 4) (demo_state ''done'' 3) demo3 demo3)"

lemma demo1_code [code]: "demo1 =
  \<lparr>projects =
      [\<lparr>p_id = ''p'', p_name = ''P'', p_status = ''active'',
          p_purpose = ''x'', p_milestone = [], p_now_text = [],
          p_revision = 1, p_created_at = 100, p_updated_at = 100\<rparr>],
      topics =
        [\<lparr>tp_id = ''general'', tp_project_id = None, tp_name = ''General'',
            tp_created_at = 0\<rparr>,
         \<lparr>tp_id = ''p'', tp_project_id = Some ''p'', tp_name = ''P'',
            tp_created_at = 100\<rparr>],
      milestones = [], tasks = [], task_dependencies = [], task_claims = [],
      task_current_claims = [], task_events = [],
      changes =
        [\<lparr>ch_project_id = ''p'', ch_revision = 1,
            ch_kind = ''project_created'', ch_ref = ''p'', ch_summary = ''P'',
            ch_created_at = 100\<rparr>],
      activity_events =
        [\<lparr>ac_id = ''A-10'', ac_kind = ''project_updated'',
            ac_project_id = Some ''p'', ac_actor_id = ''u'',
            ac_object_ref = ''p'', ac_object_title = ''P'',
            ac_outcome = ''created'', ac_untrusted = True,
            ac_occurred_at = 100, ac_recorded_at = 100\<rparr>],
      project_core_requests =
        [\<lparr>rq_request_key = ''1:u1'', rq_operation = ''project.create'',
            rq_payload_hash = ''h'', rq_result_id = ''p'',
            rq_result_revision = 1, rq_project_revision = 1,
            rq_created_at = 100\<rparr>],
      wiki_pages = [], wiki_revisions = [], search_documents = [],
      decisions = [], status_events = [], redactions = []\<rparr>"
  by code_simp

lemma demo2_code [code]: "demo2 =
  \<lparr>projects =
      [\<lparr>p_id = ''p'', p_name = ''P'', p_status = ''active'',
          p_purpose = ''x'', p_milestone = [], p_now_text = [],
          p_revision = 2, p_created_at = 100, p_updated_at = 200\<rparr>],
      topics =
        [\<lparr>tp_id = ''general'', tp_project_id = None, tp_name = ''General'',
            tp_created_at = 0\<rparr>,
         \<lparr>tp_id = ''p'', tp_project_id = Some ''p'', tp_name = ''P'',
            tp_created_at = 100\<rparr>],
      milestones = [],
      tasks =
        [\<lparr>t_id = ''T-20'', t_project_id = ''p'', t_state = ''ready'',
            t_title = ''t'', t_priority = 0, t_owner_session_id = None,
            t_accept_text = [], t_description = [], t_milestone_id = None,
            t_project_revision = 2, t_created_at = 200, t_updated_at = 200\<rparr>],
      task_dependencies = [], task_claims = [], task_current_claims = [],
      task_events =
        [\<lparr>te_id = ''TE-21'', te_task_id = ''T-20'', te_project_id = ''p'',
            te_project_revision = 2, te_kind = ''created'',
            te_summary = ''Task created'', te_from_state = None,
            te_to_state = Some ''ready'', te_actor_id = ''u'',
            te_session_id = ''s'', te_created_at = 200\<rparr>],
      changes =
        [\<lparr>ch_project_id = ''p'', ch_revision = 1,
            ch_kind = ''project_created'', ch_ref = ''p'', ch_summary = ''P'',
            ch_created_at = 100\<rparr>,
         \<lparr>ch_project_id = ''p'', ch_revision = 2, ch_kind = ''task_created'',
            ch_ref = ''T-20'', ch_summary = ''t'', ch_created_at = 200\<rparr>],
      activity_events =
        [\<lparr>ac_id = ''A-10'', ac_kind = ''project_updated'',
            ac_project_id = Some ''p'', ac_actor_id = ''u'',
            ac_object_ref = ''p'', ac_object_title = ''P'',
            ac_outcome = ''created'', ac_untrusted = True,
            ac_occurred_at = 100, ac_recorded_at = 100\<rparr>,
         \<lparr>ac_id = ''A-22'', ac_kind = ''task_status_changed'',
            ac_project_id = Some ''p'', ac_actor_id = ''u'',
            ac_object_ref = ''T-20'', ac_object_title = ''t'',
            ac_outcome = ''created'', ac_untrusted = True,
            ac_occurred_at = 200, ac_recorded_at = 200\<rparr>],
      project_core_requests =
        [\<lparr>rq_request_key = ''1:u1'', rq_operation = ''project.create'',
            rq_payload_hash = ''h'', rq_result_id = ''p'',
            rq_result_revision = 1, rq_project_revision = 1,
            rq_created_at = 100\<rparr>,
         \<lparr>rq_request_key = ''1:u2'', rq_operation = ''task.create'',
            rq_payload_hash = ''t'', rq_result_id = ''T-20'',
            rq_result_revision = 2, rq_project_revision = 2,
            rq_created_at = 200\<rparr>],
      wiki_pages = [], wiki_revisions = [], search_documents = [],
      decisions = [], status_events = [], redactions = []\<rparr>"
  by code_simp

lemma demo3_code [code]: "demo3 =
  \<lparr>projects =
      [\<lparr>p_id = ''p'', p_name = ''P'', p_status = ''active'',
          p_purpose = ''x'', p_milestone = [], p_now_text = [],
          p_revision = 3, p_created_at = 100, p_updated_at = 300\<rparr>],
      topics =
        [\<lparr>tp_id = ''general'', tp_project_id = None, tp_name = ''General'',
            tp_created_at = 0\<rparr>,
         \<lparr>tp_id = ''p'', tp_project_id = Some ''p'', tp_name = ''P'',
            tp_created_at = 100\<rparr>],
      milestones = [],
      tasks =
        [\<lparr>t_id = ''T-20'', t_project_id = ''p'', t_state = ''in_progress'',
            t_title = ''t'', t_priority = 0, t_owner_session_id = Some ''s'',
            t_accept_text = [], t_description = [], t_milestone_id = None,
            t_project_revision = 3, t_created_at = 200, t_updated_at = 300\<rparr>],
      task_dependencies = [],
      task_claims =
        [\<lparr>tc_id = ''C-30'', tc_task_id = ''T-20'', tc_session_id = ''s'',
            tc_request_id = ''1:s3'', tc_claimed_at = 300,
            tc_lease_until = Some 400, tc_project_revision = 3\<rparr>],
      task_current_claims =
        [\<lparr>cc_task_id = ''T-20'', cc_claim_id = ''C-30'',
            cc_lease_until = Some 400, cc_updated_at = 300\<rparr>],
      task_events =
        [\<lparr>te_id = ''TE-21'', te_task_id = ''T-20'', te_project_id = ''p'',
            te_project_revision = 2, te_kind = ''created'',
            te_summary = ''Task created'', te_from_state = None,
            te_to_state = Some ''ready'', te_actor_id = ''u'',
            te_session_id = ''s'', te_created_at = 200\<rparr>,
         \<lparr>te_id = ''TE-31'', te_task_id = ''T-20'', te_project_id = ''p'',
            te_project_revision = 3, te_kind = ''claimed'',
            te_summary = ''Task claimed'', te_from_state = Some ''ready'',
            te_to_state = Some ''in_progress'', te_actor_id = ''s'',
            te_session_id = ''s'', te_created_at = 300\<rparr>],
      changes =
        [\<lparr>ch_project_id = ''p'', ch_revision = 1,
            ch_kind = ''project_created'', ch_ref = ''p'', ch_summary = ''P'',
            ch_created_at = 100\<rparr>,
         \<lparr>ch_project_id = ''p'', ch_revision = 2, ch_kind = ''task_created'',
            ch_ref = ''T-20'', ch_summary = ''t'', ch_created_at = 200\<rparr>,
         \<lparr>ch_project_id = ''p'', ch_revision = 3, ch_kind = ''claim'',
            ch_ref = ''T-20'', ch_summary = ''Task claimed'',
            ch_created_at = 300\<rparr>],
      activity_events =
        [\<lparr>ac_id = ''A-10'', ac_kind = ''project_updated'',
            ac_project_id = Some ''p'', ac_actor_id = ''u'',
            ac_object_ref = ''p'', ac_object_title = ''P'',
            ac_outcome = ''created'', ac_untrusted = True,
            ac_occurred_at = 100, ac_recorded_at = 100\<rparr>,
         \<lparr>ac_id = ''A-22'', ac_kind = ''task_status_changed'',
            ac_project_id = Some ''p'', ac_actor_id = ''u'',
            ac_object_ref = ''T-20'', ac_object_title = ''t'',
            ac_outcome = ''created'', ac_untrusted = True,
            ac_occurred_at = 200, ac_recorded_at = 200\<rparr>,
         \<lparr>ac_id = ''A-32'', ac_kind = ''task_claimed'',
            ac_project_id = Some ''p'', ac_actor_id = ''s'',
            ac_object_ref = ''T-20'', ac_object_title = ''t'',
            ac_outcome = ''claimed'', ac_untrusted = True,
            ac_occurred_at = 300, ac_recorded_at = 300\<rparr>],
      project_core_requests =
        [\<lparr>rq_request_key = ''1:u1'', rq_operation = ''project.create'',
            rq_payload_hash = ''h'', rq_result_id = ''p'',
            rq_result_revision = 1, rq_project_revision = 1,
            rq_created_at = 100\<rparr>,
         \<lparr>rq_request_key = ''1:u2'', rq_operation = ''task.create'',
            rq_payload_hash = ''t'', rq_result_id = ''T-20'',
            rq_result_revision = 2, rq_project_revision = 2,
            rq_created_at = 200\<rparr>],
      wiki_pages = [], wiki_revisions = [], search_documents = [],
      decisions = [], status_events = [], redactions = []\<rparr>"
  by code_simp

lemma demo4_code [code]: "demo4 =
  \<lparr>projects =
      [\<lparr>p_id = ''p'', p_name = ''P'', p_status = ''active'',
          p_purpose = ''x'', p_milestone = [], p_now_text = [],
          p_revision = 4, p_created_at = 100, p_updated_at = 400\<rparr>],
      topics =
        [\<lparr>tp_id = ''general'', tp_project_id = None, tp_name = ''General'',
            tp_created_at = 0\<rparr>,
         \<lparr>tp_id = ''p'', tp_project_id = Some ''p'', tp_name = ''P'',
            tp_created_at = 100\<rparr>],
      milestones = [],
      tasks =
        [\<lparr>t_id = ''T-20'', t_project_id = ''p'', t_state = ''done'',
            t_title = ''t'', t_priority = 0, t_owner_session_id = Some ''s'',
            t_accept_text = [], t_description = [], t_milestone_id = None,
            t_project_revision = 4, t_created_at = 200, t_updated_at = 400\<rparr>],
      task_dependencies = [],
      task_claims =
        [\<lparr>tc_id = ''C-30'', tc_task_id = ''T-20'', tc_session_id = ''s'',
            tc_request_id = ''1:s3'', tc_claimed_at = 300,
            tc_lease_until = Some 400, tc_project_revision = 3\<rparr>],
      task_current_claims = [],
      task_events =
        [\<lparr>te_id = ''TE-21'', te_task_id = ''T-20'', te_project_id = ''p'',
            te_project_revision = 2, te_kind = ''created'',
            te_summary = ''Task created'', te_from_state = None,
            te_to_state = Some ''ready'', te_actor_id = ''u'',
            te_session_id = ''s'', te_created_at = 200\<rparr>,
         \<lparr>te_id = ''TE-31'', te_task_id = ''T-20'', te_project_id = ''p'',
            te_project_revision = 3, te_kind = ''claimed'',
            te_summary = ''Task claimed'', te_from_state = Some ''ready'',
            te_to_state = Some ''in_progress'', te_actor_id = ''s'',
            te_session_id = ''s'', te_created_at = 300\<rparr>,
         \<lparr>te_id = ''TE-40'', te_task_id = ''T-20'', te_project_id = ''p'',
            te_project_revision = 4, te_kind = ''state_changed'',
            te_summary = ''b'', te_from_state = Some ''in_progress'',
            te_to_state = Some ''done'', te_actor_id = ''u'',
            te_session_id = ''s'', te_created_at = 400\<rparr>],
      changes =
        [\<lparr>ch_project_id = ''p'', ch_revision = 1,
            ch_kind = ''project_created'', ch_ref = ''p'', ch_summary = ''P'',
            ch_created_at = 100\<rparr>,
         \<lparr>ch_project_id = ''p'', ch_revision = 2, ch_kind = ''task_created'',
            ch_ref = ''T-20'', ch_summary = ''t'', ch_created_at = 200\<rparr>,
         \<lparr>ch_project_id = ''p'', ch_revision = 3, ch_kind = ''claim'',
            ch_ref = ''T-20'', ch_summary = ''Task claimed'',
            ch_created_at = 300\<rparr>,
         \<lparr>ch_project_id = ''p'', ch_revision = 4,
            ch_kind = ''task_state_changed'', ch_ref = ''T-20'',
            ch_summary = ''done'', ch_created_at = 400\<rparr>],
      activity_events =
        [\<lparr>ac_id = ''A-10'', ac_kind = ''project_updated'',
            ac_project_id = Some ''p'', ac_actor_id = ''u'',
            ac_object_ref = ''p'', ac_object_title = ''P'',
            ac_outcome = ''created'', ac_untrusted = True,
            ac_occurred_at = 100, ac_recorded_at = 100\<rparr>,
         \<lparr>ac_id = ''A-22'', ac_kind = ''task_status_changed'',
            ac_project_id = Some ''p'', ac_actor_id = ''u'',
            ac_object_ref = ''T-20'', ac_object_title = ''t'',
            ac_outcome = ''created'', ac_untrusted = True,
            ac_occurred_at = 200, ac_recorded_at = 200\<rparr>,
         \<lparr>ac_id = ''A-32'', ac_kind = ''task_claimed'',
            ac_project_id = Some ''p'', ac_actor_id = ''s'',
            ac_object_ref = ''T-20'', ac_object_title = ''t'',
            ac_outcome = ''claimed'', ac_untrusted = True,
            ac_occurred_at = 300, ac_recorded_at = 300\<rparr>,
         \<lparr>ac_id = ''A-41'', ac_kind = ''task_status_changed'',
            ac_project_id = Some ''p'', ac_actor_id = ''u'',
            ac_object_ref = ''T-20'', ac_object_title = ''t'',
            ac_outcome = ''done'', ac_untrusted = True, ac_occurred_at = 400,
            ac_recorded_at = 400\<rparr>],
      project_core_requests =
        [\<lparr>rq_request_key = ''1:u1'', rq_operation = ''project.create'',
            rq_payload_hash = ''h'', rq_result_id = ''p'',
            rq_result_revision = 1, rq_project_revision = 1,
            rq_created_at = 100\<rparr>,
         \<lparr>rq_request_key = ''1:u2'', rq_operation = ''task.create'',
            rq_payload_hash = ''t'', rq_result_id = ''T-20'',
            rq_result_revision = 2, rq_project_revision = 2,
            rq_created_at = 200\<rparr>,
         \<lparr>rq_request_key = ''1:u4'', rq_operation = ''task.state'',
            rq_payload_hash = ''done'', rq_result_id = ''T-20'',
            rq_result_revision = 4, rq_project_revision = 4,
            rq_created_at = 400\<rparr>],
      wiki_pages = [], wiki_revisions = [], search_documents = [],
      decisions = [], status_events = [], redactions = []\<rparr>"
  by code_simp

lemma demo_reaches:
  "(core_step demo_hash)\<^sup>*\<^sup>* empty_db demo1" "(core_step demo_hash)\<^sup>*\<^sup>* empty_db demo2"
  "(core_step demo_hash)\<^sup>*\<^sup>* empty_db demo3" "(core_step demo_hash)\<^sup>*\<^sup>* empty_db demo4"
proof -
  have steps: "core_step demo_hash empty_db demo1" "core_step demo_hash demo1 demo2"
    "core_step demo_hash demo2 demo3" "core_step demo_hash demo3 demo4"
    unfolding demo1_def demo2_def demo3_def demo4_def
    by (rule core_step.intros, rule surjective_pairing)+
  from steps show "(core_step demo_hash)\<^sup>*\<^sup>* empty_db demo1" by auto
  from this steps(2) show "(core_step demo_hash)\<^sup>*\<^sup>* empty_db demo2" by (rule rtranclp.rtrancl_into_rtrancl)
  from this steps(3) show "(core_step demo_hash)\<^sup>*\<^sup>* empty_db demo3" by (rule rtranclp.rtrancl_into_rtrancl)
  from this steps(4) show "(core_step demo_hash)\<^sup>*\<^sup>* empty_db demo4" by (rule rtranclp.rtrancl_into_rtrancl)
qed

lemma demo_runs:
  "CreateCanonicalTask demo_hash (demo_env 2) (demo_task ''t'') demo1 demo1 =
     (Inr \<lparr>wr_ID = ''T-20'', wr_Revision = 2\<rparr>, demo2)"
  "ChangeCanonicalTaskState demo_hash (demo_env 4) (demo_state ''done'' 3) demo3 demo3 =
     (Inr \<lparr>wr_ID = ''T-20'', wr_Revision = 4\<rparr>, demo4)"
proof -
  have "fst (CreateCanonicalTask demo_hash (demo_env 2) (demo_task ''t'') demo1 demo1) =
      Inr \<lparr>wr_ID = ''T-20'', wr_Revision = 2\<rparr>" by code_simp
  then show "CreateCanonicalTask demo_hash (demo_env 2) (demo_task ''t'') demo1 demo1 =
     (Inr \<lparr>wr_ID = ''T-20'', wr_Revision = 2\<rparr>, demo2)" unfolding demo2_def by (metis prod.collapse)
  have "fst (ChangeCanonicalTaskState demo_hash (demo_env 4) (demo_state ''done'' 3) demo3 demo3) =
      Inr \<lparr>wr_ID = ''T-20'', wr_Revision = 4\<rparr>" by code_simp
  then show "ChangeCanonicalTaskState demo_hash (demo_env 4) (demo_state ''done'' 3) demo3 demo3 =
     (Inr \<lparr>wr_ID = ''T-20'', wr_Revision = 4\<rparr>, demo4)" unfolding demo4_def by (metis prod.collapse)
qed

end
