(* ===== verification/Core_Contract.thy ===== *)
theory Core_Contract
  imports Core_Demo
begin

text \<open>
  The properties of the project core that a client relies on, each for every state that
  the writers can reach.
\<close>

section \<open>Replay\<close>

text \<open>
  Property C1 (idempotent replay). Once a canonical write has returned a result, the same
  command submitted again, at any later time, with any clock and any snapshot, returns
  that very result and leaves the database as it is.
\<close>

theorem replay_idempotent:
  assumes "(core_step hash)\<^sup>*\<^sup>* snap db" and "runCore hash e cmd snap db = (Inr r, db')"
    and "(core_step hash)\<^sup>*\<^sup>* db' later" and "(core_step hash)\<^sup>*\<^sup>* snap2 later"
  shows "runCore hash e2 cmd snap2 later = (Inr r, later)"
proof -
  from runCore_recorded [OF assms(1,2)] obtain p where p: "commandPayload cmd = Some p"
    "readCoreReplay db' (coreRequestKey (commandMeta cmd)) (commandOperation cmd) (hash p) = Inr (Some r)" .
  show ?thesis
    using coreWrite_replays [OF assms(4) replay_permanent [OF assms(3) p(2)]] p(1)
    by (simp add: runCore_protocol Let_def)
qed

theorem replay_idempotent_witness:
  "runCore demo_hash (demo_env 9) (CmdCreateTask (demo_task ''t'')) demo2 demo2 =
     (Inr \<lparr>wr_ID = ''T-20'', wr_Revision = 2\<rparr>, demo2)"
  by (rule replay_idempotent [of demo_hash demo1 demo1 "demo_env 2" _ _ demo2])
     (simp_all add: demo_runs)

text \<open>
  A request key names one request. Once a canonical write has returned a
  result, a valid command with the same request key but another operation or another
  payload fingerprint is refused as a conflict and changes nothing.
\<close>

lemma request_key_conflict:
  assumes "(core_step hash)\<^sup>*\<^sup>* snap db" and "runCore hash e cmd snap db = (Inr r, db')"
    and "(core_step hash)\<^sup>*\<^sup>* db' later" and "(core_step hash)\<^sup>*\<^sup>* snap2 later"
    and "coreRequestKey (commandMeta cmd2) = coreRequestKey (commandMeta cmd)"
    and "commandPayload cmd = Some p" and "commandPayload cmd2 = Some p2"
    and "commandOperation cmd2 \<noteq> commandOperation cmd \<or> hash p2 \<noteq> hash p"
  shows "runCore hash e2 cmd2 snap2 later = (Inl ErrConflict, later)"
proof -
  let ?key = "coreRequestKey (commandMeta cmd)"
  from runCore_recorded [OF assms(1,2)] assms(6)
  have "readCoreReplay db' ?key (commandOperation cmd) (hash p) = Inr (Some r)" by auto
  then obtain q where q: "coreRequestRow later ?key = Some q" "ledgerRow ?key (commandOperation cmd) (hash p) r q"
    using replay_permanent [OF assms(3)] unfolding readCoreReplay_Some by blast
  have "readCoreReplay s ?key (commandOperation cmd2) (hash p2) = Inl ErrConflict"
    if "coreRequestRow s ?key = Some q" for s
    using that q(2) assms(8) by (auto simp: readCoreReplay_def ledgerRow_def)
  moreover have "coreRequestRow snap2 ?key \<in> {None, Some q}"
    using requests.entry_permanent [OF assms(4)] q(1) by (cases "coreRequestRow snap2 ?key") auto
  ultimately show ?thesis using q(1) assms(5,7)
    by (auto simp: runCore_protocol Let_def coreWrite_def coreTx_def readCoreReplay_def split: option.splits)
qed

text \<open>
  Property C2 (the unlocked look-up is invisible). Whatever earlier state the look-up before
  the transaction saw, a canonical write answers and acts exactly as if it had run alone
  on the state it finds under the write lock.
\<close>

theorem canonical_write_atomic:
  assumes "(core_step hash)\<^sup>*\<^sup>* snap db"
  shows "runCore hash e cmd snap db = runCore hash e cmd db db"
proof (cases "commandPayload cmd")
  case (Some p)
  let ?key = "coreRequestKey (commandMeta cmd)"
  show ?thesis
  proof (cases "coreRequestRow snap ?key")
    case None
    then have "readCoreReplay snap ?key op' fp' = Inr None" for op' fp' by (simp add: readCoreReplay_def)
    then show ?thesis using Some
      by (cases "readCoreReplay db ?key (commandOperation cmd) (hash p)")
         (auto simp: runCore_protocol Let_def coreWrite_def coreTx_def split: option.splits)
  next
    case (Some q)
    then have "coreRequestRow db ?key = Some q" using requests.entry_permanent [OF assms] by blast
    with Some have "readCoreReplay snap ?key = readCoreReplay db ?key"
      by (intro ext) (simp add: readCoreReplay_def)
    then show ?thesis
      by (simp add: runCore_protocol Let_def coreWrite_def split: option.splits)
  qed
qed (simp add: runCore_protocol)

theorem canonical_write_atomic_witness:
  "runCore demo_hash (demo_env 9) (CmdChangeTaskState (demo_state ''done'' 3)) demo1 demo3 =
   runCore demo_hash (demo_env 9) (CmdChangeTaskState (demo_state ''done'' 3)) demo3 demo3"
proof (rule canonical_write_atomic)
  have "core_step demo_hash demo1 demo2" "core_step demo_hash demo2 demo3"
    unfolding demo2_def demo3_def by (rule core_step.intros, rule surjective_pairing)+
  then show "(core_step demo_hash)\<^sup>*\<^sup>* demo1 demo3" by auto
qed

section \<open>Reachable states\<close>

text \<open>
  Property C3 (the change log has no gaps). In every reachable state project identifiers are
  unique, every change belongs to a project, and the revisions of a project's changes are
  consecutive integers ending at the project's revision.
\<close>

theorem change_log_contiguous:
  assumes "(core_step hash)\<^sup>*\<^sup>* empty_db db"
  shows "log_ok (projects db, changes db)"
  using core.reachable_inv [OF refl assms] by (simp add: core_inv_def)

theorem change_log_contiguous_witness: "log_ok (projects demo4, changes demo4)"
  by (rule change_log_contiguous [OF demo_reaches(4)])

text \<open>
  Property C4 (dependencies form an acyclic graph within a project). In every reachable state
  task identifiers are unique, both ends of a dependency are tasks of one project, and no
  task depends on itself through any chain.
\<close>

theorem dependencies_acyclic:
  assumes "(core_step hash)\<^sup>*\<^sup>* empty_db db"
  shows "graph_ok (tasks db, task_dependencies db)"
  using core.reachable_inv [OF refl assms] by (simp add: core_inv_def)

theorem dependencies_acyclic_witness: "graph_ok (tasks demo4, task_dependencies demo4)"
  by (rule dependencies_acyclic [OF demo_reaches(4)])

text \<open>
  Property C5 (a current claim is real). In every reachable state a task has at most one
  current claim; the claim is recorded for that task with the same lease, the task is in
  progress or blocked, and the session that claimed it owns it.
\<close>

theorem current_claims_consistent:
  assumes "(core_step hash)\<^sup>*\<^sup>* empty_db db"
  shows "claims_ok (tasks db, task_claims db, task_current_claims db)"
  using core.reachable_inv [OF refl assms] by (simp add: core_inv_def)

theorem current_claims_consistent_witness:
  "claims_ok (tasks demo3, task_claims demo3, task_current_claims demo3)"
  by (rule current_claims_consistent [OF demo_reaches(3)])

text \<open>
  Milestones and wiki pages. In every reachable state a project has at most one
  active milestone, milestone identifiers are unique, and the revisions of a wiki page are
  exactly 1 up to its current revision.
\<close>

lemma milestones_and_wiki_consistent:
  assumes "(core_step hash)\<^sup>*\<^sup>* empty_db db"
  shows "milestones_ok db \<and> wiki_ok db"
  using core.reachable_inv [OF refl assms] by (simp add: core_inv_def)

section \<open>Claims\<close>

text \<open>
  Property C6 (a held task cannot be taken). While a task has a current claim whose lease is
  open-ended or still runs, every further claim request on it under a new request key is
  refused as a conflict, whoever asks, and nothing changes.
\<close>

theorem held_task_not_claimable:
  assumes "cl_TaskID req \<noteq> ''''" "cl_SessionID req \<noteq> ''''" "cl_RequestID req \<noteq> ''''"
    and "taskRow db (cl_TaskID req) = Some t"
    and "currentClaimRow db (cl_TaskID req) = Some cc"
    and "cc_lease_until cc = None \<or> (\<exists>lease. cc_lease_until cc = Some lease \<and> env_now e < lease)"
    and "\<And>s. s \<in> {snap, db} \<Longrightarrow> claimByRequest s
           (requestStorageKey (cl_ActorID req) (cl_SessionID req) (cl_RequestID req)) (cl_RequestID req) = None"
  shows "Claim e req snap db = (Inl ErrConflict, db)"
proof -
  from assms(4) have t: "t_id t = cl_TaskID req" "hasTask db (cl_TaskID req)"
    by (auto simp: hasTask_def dest!: taskRow_SomeD)
  with assms(5,6) have "claimAdmission db t (env_now e) = Inl ErrConflict"
    by (auto simp: claimAdmission_def)
  then have "claimBody e req key db = Inl (TxFail ErrConflict)" for key
    using assms(4) by (simp add: claimBody_def Let_def)
  then show ?thesis using assms(1-3,7) t(2) by (simp add: Claim_def claimTx_def Let_def)
qed

theorem held_task_not_claimable_witness:
  "Claim (demo_env 3) (demo_claim ''x'' ''9'') demo3 demo3 = (Inl ErrConflict, demo3)"
proof (rule held_task_not_claimable)
  show "taskRow demo3 (cl_TaskID (demo_claim ''x'' ''9'')) = Some (hd (tasks demo3))" by code_simp
  show "currentClaimRow demo3 (cl_TaskID (demo_claim ''x'' ''9'')) = Some (hd (task_current_claims demo3))"
    by code_simp
  have "cc_lease_until (hd (task_current_claims demo3)) = Some 400 \<and> env_now (demo_env 3) < 400" by code_simp
  then show "cc_lease_until (hd (task_current_claims demo3)) = None \<or>
      (\<exists>lease. cc_lease_until (hd (task_current_claims demo3)) = Some lease \<and> env_now (demo_env 3) < lease)" by blast
  have "claimByRequest demo3 (requestStorageKey (cl_ActorID (demo_claim ''x'' ''9'')) (cl_SessionID (demo_claim ''x'' ''9''))
      (cl_RequestID (demo_claim ''x'' ''9''))) (cl_RequestID (demo_claim ''x'' ''9'')) = None" by code_simp
  then show "\<And>s. s \<in> {demo3, demo3} \<Longrightarrow> claimByRequest s (requestStorageKey (cl_ActorID (demo_claim ''x'' ''9''))
      (cl_SessionID (demo_claim ''x'' ''9'')) (cl_RequestID (demo_claim ''x'' ''9''))) (cl_RequestID (demo_claim ''x'' ''9'')) = None"
    by simp
qed (simp_all add: demo_claim_def)

lemma taskRow_updated:
  assumes "taskRow db k = Some t" and "\<And>r. t_id (f r) = t_id r"
    and "tasks db' = updWhere (\<lambda>r. t_id r = k) f (tasks db)"
  shows "taskRow db' k = Some (f t)"
proof -
  have "find (\<lambda>r. t_id r = k) rows = Some t \<Longrightarrow>
      find (\<lambda>r. t_id r = k) (updWhere (\<lambda>r. t_id r = k) f rows) = Some (f t)" for rows
    using assms(2) by (induction rows) (auto simp: updWhere_def)
  then show ?thesis using assms(1,3) by (simp add: taskRow_def)
qed

lemma reassigned_current:
  assumes "claimAdmission db t (env_now e) = Inr v" and "t_id t = cl_TaskID req"
    and "distinct (map cc_task_id (task_current_claims db))"
    and "task_current_claims db' = reassigned e req v (task_current_claims db)"
  shows "\<exists>cc. currentClaimRow db' (cl_TaskID req) = Some cc \<and> cc_claim_id cc = newID e 0 ''C-''"
proof -
  let ?k = "cl_TaskID req"
  have upd: "find (\<lambda>r. cc_task_id r = ?k) rows = Some cc \<Longrightarrow> (\<And>r. cc_task_id r = ?k \<Longrightarrow> cc_task_id (g r) = ?k) \<Longrightarrow>
      find (\<lambda>r. cc_task_id r = ?k) (updWhere (\<lambda>r. cc_task_id r = ?k) g rows) = Some (g cc)" for rows cc and g :: "current_claim_row \<Rightarrow> current_claim_row"
    by (induction rows) (auto simp: updWhere_def)
  from reassigned_cases [OF assms(1-3), of "''''" 0] consider
      (new) r where "reassigned e req v (task_current_claims db) = task_current_claims db @ [r]"
        "takenOver ?k (claimRow e req '''' 0) r" "?k \<notin> cc_task_id ` set (task_current_claims db)"
    | (over) g where "reassigned e req v (task_current_claims db) =
          updWhere (\<lambda>r. cc_task_id r = ?k) g (task_current_claims db)"
        "\<forall>r. cc_task_id r = ?k \<longrightarrow> takenOver ?k (claimRow e req '''' 0) (g r)" "currentClaimRow db ?k \<noteq> None"
    by blast
  then show ?thesis
  proof cases
    case new
    then have "find (\<lambda>r. cc_task_id r = ?k) (task_current_claims db) = None"
      unfolding find_None_iff_all by (metis imageI)
    with new show ?thesis
      unfolding currentClaimRow_def assms(4) by (simp add: find_append takenOver_def claimRow_def)
  next
    case over
    then obtain cc where "find (\<lambda>r. cc_task_id r = ?k) (task_current_claims db) = Some cc"
      by (auto simp: currentClaimRow_def)
    with over upd [of "task_current_claims db" cc g] show ?thesis
      unfolding currentClaimRow_def assms(4) by (auto simp: takenOver_def claimRow_def dest: find_SomeD)
  qed
qed

lemma holds_task:
  "holds ts cs cc \<Longrightarrow> \<exists>t \<in> set ts. t_id t = cc_task_id cc \<and> t_state t \<in> {''in_progress'', ''blocked''}"
  unfolding holds_def by (elim bexE conjE) (intro bexI conjI)

text \<open>
  What a granted claim does. A claim granted for the first time leaves the task
  in progress, owned by the claiming session, with the new claim as its only current claim;
  before, the task was ready and unclaimed, or its lease had run out.
\<close>

lemma granted_claim_effect:
  assumes "(core_step hash)\<^sup>*\<^sup>* empty_db db" and "Claim e req snap db = (Inr c, db')" and "db' \<noteq> db"
  shows "\<exists>t t' cc. taskRow db (cl_TaskID req) = Some t \<and> taskRow db' (cl_TaskID req) = Some t' \<and>
     t_state t' = ''in_progress'' \<and> t_owner_session_id t' = Some (cl_SessionID req) \<and>
     currentClaimRow db' (cl_TaskID req) = Some cc \<and> cc_claim_id cc = claim_ID c \<and>
     (case currentClaimRow db (cl_TaskID req) of
        None \<Rightarrow> t_state t = ''ready''
      | Some old \<Rightarrow> t_state t = ''in_progress'' \<and>
          (\<exists>lease. cc_lease_until old = Some lease \<and> lease \<le> env_now e))"
proof -
  have inv: "claims_ok (tasks db, task_claims db, task_current_claims db)" "distinct (map t_id (tasks db))"
    using core.reachable_inv [OF refl assms(1)] by (auto simp: core_inv_def graph_ok_def)
  from assms(2,3) obtain key where body: "claimBody e req key db = Inr (c, db')"
    by (auto elim: Claim_cases)
  from claimBody_holding [OF body] obtain t v rv f where
    t: "taskRow db (cl_TaskID req) = Some t" "claimAdmission db t (env_now e) = Inr v"
    and c: "c = claimResult e req rv"
    and f: "tasks db' = updWhere (\<lambda>r. t_id r = cl_TaskID req) f (tasks db)"
      "\<And>r. t_id (f r) = t_id r \<and> t_state (f r) = ''in_progress'' \<and> t_owner_session_id (f r) = Some (cl_SessionID req)"
    and cc: "task_current_claims db' = reassigned e req v (task_current_claims db)"
    by blast
  have tid: "t_id t = cl_TaskID req" "t \<in> set (tasks db)" using taskRow_SomeD [OF t(1)] by auto
  have "t_state t \<in> {''in_progress'', ''blocked''}" if "currentClaimRow db (cl_TaskID req) = Some old" for old
  proof -
    from currentClaimRow_SomeD [OF that] have "holds (tasks db) (task_claims db) old"
      and "cc_task_id old = cl_TaskID req" by (auto intro: claims_okD(4) [OF inv(1)])
    then obtain u where "u \<in> set (tasks db)" "t_id u = cl_TaskID req" "t_state u \<in> {''in_progress'', ''blocked''}"
      using holds_task by metis
    then show ?thesis using distinct_key_eq [OF inv(2) _ tid(2)] tid(1) by metis
  qed
  with t(2) tid have "case currentClaimRow db (cl_TaskID req) of
        None \<Rightarrow> t_state t = ''ready''
      | Some old \<Rightarrow> t_state t = ''in_progress'' \<and>
          (\<exists>lease. cc_lease_until old = Some lease \<and> lease \<le> env_now e)"
    by (auto simp: claimAdmission_Inr split: option.splits)
  moreover from reassigned_current [OF t(2) tid(1) claims_okD(3) [OF inv(1)] cc] obtain cc' where
    "currentClaimRow db' (cl_TaskID req) = Some cc'" "cc_claim_id cc' = newID e 0 ''C-''" by blast
  moreover have "taskRow db' (cl_TaskID req) = Some (f t)"
    by (rule taskRow_updated [OF t(1) _ f(1)]) (simp add: f(2))
  ultimately show ?thesis using t(1) f(2) c
    by (intro exI [of _ t] exI [of _ "f t"] exI [of _ cc']) (simp add: claimResult_def)
qed

section \<open>Tasks over time\<close>

text \<open>The moves of a task: none, a transition a human or agent asked for, or a claim.\<close>

definition task_moves :: "gostring \<Rightarrow> gostring \<Rightarrow> bool" where
  "task_moves from to \<longleftrightarrow> from = to \<or> taskTransitionAllowed from to \<or>
     (from = ''ready'' \<or> from = ''in_progress'') \<and> to = ''in_progress''"

lemma task_moves_final: "from \<in> {''done'', ''cancelled''} \<Longrightarrow> task_moves from to \<Longrightarrow> to = from"
  by (auto simp: task_moves_def taskTransitionAllowed_def split: if_splits)

definition task_edited :: "db \<Rightarrow> task_row list \<Rightarrow> bool" where
  "task_edited db ts \<longleftrightarrow> (\<exists>k f t p. ts = updWhere (\<lambda>r. t_id r = k) f (tasks db) \<and>
     taskRow db k = Some t \<and> projectRow db (t_project_id t) = Some p \<and>
     (\<forall>r. t_id (f r) = t_id r \<and> t_project_revision (f r) = p_revision p + 1) \<and>
     task_moves (t_state t) (t_state (f t)))"

lemma task_editedI:
  "taskRow db k = Some t \<Longrightarrow> projectRow db (t_project_id t) = Some p \<Longrightarrow>
   (\<And>r. t_id (f r) = t_id r \<and> t_project_revision (f r) = p_revision p + 1) \<Longrightarrow>
   task_moves (t_state t) (t_state (f t)) \<Longrightarrow> task_edited db (updWhere (\<lambda>r. t_id r = k) f (tasks db))"
  unfolding task_edited_def by blast

lemma core_commit_tasks:
  assumes "core_commit db db'"
  shows "(\<exists>new. tasks db' = tasks db @ new) \<or> task_edited db (tasks db')"
  using assms
proof (cases rule: core_commit_task_cases)
  case update_task
  from updateTaskBody_Inr [OF this] show ?thesis
    by (elim exE conjE) (simp, rule disjI2, rule task_editedI, auto simp: task_moves_def)
next
  case change_state
  from changeTaskStateBody_Inr [OF this] show ?thesis
    by (elim exE conjE) (simp, rule disjI2, rule task_editedI, auto simp: task_moves_def)
next
  case claim
  have "t_state t = ''ready'' \<or> t_state t = ''in_progress''"
    if "claimAdmission db t now = Inr v" for t now v
    using that by (auto simp: claimAdmission_Inr split: option.splits)
  with claimBody_Inr [OF claim] show ?thesis
    by (elim exE conjE) (simp, rule disjI2, rule task_editedI, auto simp: task_moves_def)
qed (auto dest!: createTaskBody_Inr CreateTask_Inr)

lemma core_commit_survives:
  assumes step: "core_commit db db'" and inv: "core_inv db" and t: "t \<in> set (tasks db)"
  shows "\<exists>t' \<in> set (tasks db'). t_id t' = t_id t \<and> t_project_revision t \<le> t_project_revision t' \<and>
     task_moves (t_state t) (t_state t')"
  using core_commit_tasks [OF step, unfolded task_edited_def]
proof (elim disjE exE conjE)
  fix new assume "tasks db' = tasks db @ new"
  with t show ?thesis by (auto simp: task_moves_def)
next
  fix k f u p
  assume upd: "tasks db' = updWhere (\<lambda>r. t_id r = k) f (tasks db)" and u: "taskRow db k = Some u"
    and p: "projectRow db (t_project_id u) = Some p"
    and f: "\<forall>r. t_id (f r) = t_id r \<and> t_project_revision (f r) = p_revision p + 1"
    and move: "task_moves (t_state u) (t_state (f u))"
  have dist: "distinct (map t_id (tasks db))" "distinct (map p_id (projects db))"
    using inv by (simp_all add: core_inv_def graph_ok_def log_ok_def)
  show ?thesis
  proof (cases "t_id t = k")
    case True
    with u t have ut: "u = t" using distinct_key_eq [OF dist(1)] taskRow_SomeD [OF u] by metis
    from inv t obtain q where "q \<in> set (projects db)" "p_id q = t_project_id t" "t_project_revision t \<le> p_revision q"
      unfolding core_inv_def revisions_ok_def revision_bound_def by metis
    with p ut have "t_project_revision t \<le> p_revision p"
      using projectRow_SomeD [OF p] distinct_key_eq [OF dist(2)] by metis
    moreover have "f t \<in> set (tasks db')" using True t upd by (auto simp: set_updWhere image_iff)
    ultimately show ?thesis using f move ut by (intro bexI [of _ "f t"]) auto
  next
    case False
    then have "t \<in> set (tasks db')" using t upd by (auto simp: set_updWhere image_iff)
    then show ?thesis by (auto simp: task_moves_def)
  qed
qed

lemma core_step_survives:
  assumes "core_step hash db db'" and "core_inv db" and "t \<in> set (tasks db)"
  shows "\<exists>t' \<in> set (tasks db'). t_id t' = t_id t \<and> t_project_revision t \<le> t_project_revision t' \<and>
     task_moves (t_state t) (t_state t')"
  using core_step_commit [OF assms(1)]
proof
  assume "db' = db"
  with assms(3) show ?thesis by (intro bexI [of _ t]) (simp_all add: task_moves_def)
qed (rule core_commit_survives [OF _ assms(2,3)])

lemma core_steps_survive:
  assumes "(core_step hash)\<^sup>*\<^sup>* db db'" and "core_inv db" and "t \<in> set (tasks db)"
  shows "\<exists>t' \<in> set (tasks db'). t_id t' = t_id t \<and> t_project_revision t \<le> t_project_revision t' \<and>
     (t_state t \<in> {''done'', ''cancelled''} \<longrightarrow> t_state t' = t_state t)"
  using assms(1)
proof (induction rule: rtranclp_induct)
  case base
  show ?case using assms(3) by auto
next
  case (step db1 db2)
  then obtain u where u: "u \<in> set (tasks db1)" "t_id u = t_id t" "t_project_revision t \<le> t_project_revision u"
    "t_state t \<in> {''done'', ''cancelled''} \<longrightarrow> t_state u = t_state t" by blast
  have "core_inv db1" using core.steps_inv [OF step(1) assms(2)] .
  then obtain v where v: "v \<in> set (tasks db2)" "t_id v = t_id u"
    "t_project_revision u \<le> t_project_revision v" "task_moves (t_state u) (t_state v)"
    using core_step_survives [OF step(2)] u(1) by blast
  have "t_state v = t_state t" if "t_state t \<in> {''done'', ''cancelled''}"
  proof -
    have "t_state u = t_state t" using u(4) that by (rule mp)
    with task_moves_final [OF _ v(4)] that show ?thesis by metis
  qed
  with u(2,3) v show ?case by (intro bexI [of _ v]) simp_all
qed

text \<open>
  Property C7 (done and cancelled are final). Once a task is done or cancelled in a
  reachable state, no sequence of writes, claims included, ever takes it out of that state
  or removes it.
\<close>

theorem finished_tasks_stay_finished:
  assumes "(core_step hash)\<^sup>*\<^sup>* empty_db db" and "(core_step hash)\<^sup>*\<^sup>* db later"
    and "taskRow db k = Some t" and "t_state t \<in> {''done'', ''cancelled''}"
  shows "\<exists>t'. taskRow later k = Some t' \<and> t_state t' = t_state t"
proof -
  have inv: "core_inv db" using core.reachable_inv [OF refl assms(1)] .
  then have "distinct (map t_id (tasks later))"
    using core.steps_inv [OF assms(2)] by (simp add: core_inv_def graph_ok_def)
  moreover from core_steps_survive [OF assms(2) inv] taskRow_SomeD [OF assms(3)] assms(4)
  obtain t' where "t' \<in> set (tasks later)" "t_id t' = k" "t_state t' = t_state t" by metis
  ultimately show ?thesis unfolding taskRow_def using find_key_unique by metis
qed

theorem finished_tasks_stay_finished_witness:
  "\<exists>t'. taskRow demo4 ''T-20'' = Some t' \<and> t_state t' = t_state (hd (tasks demo4))"
proof (rule finished_tasks_stay_finished [OF demo_reaches(4) rtranclp.rtrancl_refl])
  show "taskRow demo4 ''T-20'' = Some (hd (tasks demo4))" by code_simp
  show "t_state (hd (tasks demo4)) \<in> {''done'', ''cancelled''}" by code_simp
qed

text \<open>The commands that edit an existing task, with the revision they are based on.\<close>

fun editsTask :: "core_command \<Rightarrow> (gostring \<times> int) option" where
  "editsTask (CmdUpdateTask c) = Some (ut_ID c, ut_BaseRevision c)"
| "editsTask (CmdChangeTaskState c) = Some (cs_ID c, cs_BaseRevision c)"
| "editsTask _ = None"

lemma edit_advances:
  assumes "core_inv db" and "commandBody e cmd key operation fp db = Inr (r, db')"
    and "editsTask cmd = Some (k, base)"
  shows "\<exists>t' \<in> set (tasks db'). t_id t' = k \<and> base < t_project_revision t'"
proof -
  obtain t p f where t: "taskRow db k = Some t" "t_project_revision t = base"
      "projectRow db (t_project_id t) = Some p"
    and db': "tasks db' = updWhere (\<lambda>r. t_id r = k) f (tasks db)"
    and f: "\<And>r. t_id (f r) = t_id r \<and> t_project_revision (f r) = p_revision p + 1"
  proof (cases cmd)
    case (CmdUpdateTask c)
    with assms(2,3) that show thesis
      by (auto dest!: updateTaskBody_Inr)
  next
    case (CmdChangeTaskState c)
    with assms(2,3) that show thesis
      by (auto dest!: changeTaskStateBody_Inr)
  qed (use assms(3) in auto)
  have tk: "t \<in> set (tasks db)" "t_id t = k" using taskRow_SomeD [OF t(1)] by auto
  from assms(1) tk obtain q where "q \<in> set (projects db)" "p_id q = t_project_id t" "base \<le> p_revision q"
    unfolding core_inv_def revisions_ok_def revision_bound_def using t(2) by metis
  moreover have "distinct (map p_id (projects db))" using assms(1) by (simp add: core_inv_def log_ok_def)
  ultimately have "base \<le> p_revision p"
    using projectRow_SomeD [OF t(3)] distinct_key_eq by metis
  moreover have "f t \<in> set (tasks db')" using tk db' by (auto simp: set_updWhere image_iff)
  ultimately show ?thesis using f tk by (intro bexI [of _ "f t"]) auto
qed

lemma stale_edit:
  assumes "taskRow db k = Some t" and "t_project_revision t \<noteq> base" and "editsTask cmd = Some (k, base)"
  shows "commandBody e cmd key operation fp db = Inl (TxFail ErrConflict)"
  using assms by (cases cmd) (auto simp: updateTaskBody_def changeTaskStateBody_def Let_def)

text \<open>
  Property C8 (no lost update). After an edit of a task has been committed, any other edit
  of that task that is based on the same revision is refused as a conflict in every later
  state, and changes nothing.
\<close>

theorem stale_edit_refused:
  assumes "(core_step hash)\<^sup>*\<^sup>* empty_db db" and "runCore hash e cmd db db = (Inr r, db')" and "db' \<noteq> db"
    and "editsTask cmd = Some (k, base)" and "(core_step hash)\<^sup>*\<^sup>* db' later"
    and "editsTask cmd2 = Some (k, base)" and "commandPayload cmd2 = Some p2"
    and "coreRequestRow later (coreRequestKey (commandMeta cmd2)) = None"
  shows "runCore hash e2 cmd2 later later = (Inl ErrConflict, later)"
proof -
  have inv: "core_inv db" using core.reachable_inv [OF refl assms(1)] .
  then have inv': "core_inv db'" using core.step_inv [OF _ runCore_step [OF assms(2)]] by blast
  from assms(2,3) obtain key operation fp where "commandBody e cmd key operation fp db = Inr (r, db')"
    by (auto simp: runCore_protocol Let_def split: option.splits elim!: coreWrite_cases)
  from edit_advances [OF inv this assms(4)] obtain t where
    t: "t \<in> set (tasks db')" "t_id t = k" "base < t_project_revision t" by blast
  from core_steps_survive [OF assms(5) inv' t(1)] obtain t' where
    t': "t' \<in> set (tasks later)" "t_id t' = k" "base < t_project_revision t'" using t(2,3) by force
  have "distinct (map t_id (tasks later))"
    using core.steps_inv [OF assms(5) inv'] by (simp add: core_inv_def graph_ok_def)
  then have "taskRow later k = Some t'" unfolding taskRow_def using find_key_unique t'(1,2) by metis
  then have "commandBody e2 cmd2 key operation fp later = Inl (TxFail ErrConflict)" for key operation fp
    using stale_edit [OF _ _ assms(6)] t'(3) by auto
  then show ?thesis using assms(7,8)
    by (simp add: runCore_protocol Let_def coreWrite_def coreTx_def readCoreReplay_def)
qed

theorem stale_edit_refused_witness:
  "runCore demo_hash (demo_env 9) (CmdChangeTaskState ((demo_state ''cancelled'' 3)\<lparr>cs_Meta := demo_meta ''9''\<rparr>))
     demo4 demo4 = (Inl ErrConflict, demo4)"
proof (rule stale_edit_refused [OF demo_reaches(3)])
  show "runCore demo_hash (demo_env 4) (CmdChangeTaskState (demo_state ''done'' 3)) demo3 demo3 =
     (Inr \<lparr>wr_ID = ''T-20'', wr_Revision = 4\<rparr>, demo4)" by (simp add: demo_runs)
  have "length (changes demo4) \<noteq> length (changes demo3)" by code_simp
  then show "demo4 \<noteq> demo3" by auto
  show "editsTask (CmdChangeTaskState (demo_state ''done'' 3)) = Some (''T-20'', 3)" by code_simp
  show "(core_step demo_hash)\<^sup>*\<^sup>* demo4 demo4" by simp
  show "editsTask (CmdChangeTaskState ((demo_state ''cancelled'' 3)\<lparr>cs_Meta := demo_meta ''9''\<rparr>)) = Some (''T-20'', 3)"
    by code_simp
  show "commandPayload (CmdChangeTaskState ((demo_state ''cancelled'' 3)\<lparr>cs_Meta := demo_meta ''9''\<rparr>)) =
    Some (TaskStatePayload ''T-20'' ''cancelled'' ''b'' 3)" by code_simp
  show "coreRequestRow demo4 (coreRequestKey (commandMeta
    (CmdChangeTaskState ((demo_state ''cancelled'' 3)\<lparr>cs_Meta := demo_meta ''9''\<rparr>)))) = None" by code_simp
qed

section \<open>Keys\<close>

text \<open>
  Request keys are scoped. Two requests with non-empty request identifiers get
  the same storage key only if they come from the same scope (the actor, or the session
  when there is no actor) and carry the same request identifier.
\<close>

lemma requestStorageKey_inj:
  assumes "requestStorageKey a s r = requestStorageKey a' s' r'" and "r \<noteq> ''''" and "r' \<noteq> ''''"
  shows "(if a = '''' then s else a) = (if a' = '''' then s' else a') \<and> r = r'"
proof -
  define sc where "sc = (if a = '''' then s else a)"
  define sc' where "sc' = (if a' = '''' then s' else a')"
  have "itoa (length sc) @ '':'' @ sc @ r = itoa (length sc') @ '':'' @ sc' @ r'"
    using assms by (simp add: requestStorageKey_def Let_def sc_def sc'_def)
  from scoped_key_inj [OF this] show ?thesis by (simp add: sc_def sc'_def)
qed

end
