(* ===== verification/Archaeology_Policy.thy ===== *)
theory Archaeology_Policy
  imports Core_Helpers
begin

text \<open>
  What a historian may report (\<^verbatim>\<open>src/internal/domain/project_archaeology.go\<close>,
  \<^verbatim>\<open>src/internal/store/project_archaeology_policy.go\<close>, the outcome checks of
  \<^verbatim>\<open>project_archaeology_runner.go\<close> and the source checks of \<^verbatim>\<open>historical_import.go\<close>): the
  limits of an execution policy, the identifiers by which sources may be named, and the
  validation of proposals and outcomes. Decoding JSON is a parameter.
\<close>

section \<open>Execution policy\<close>

record ArchaeologySources =
  src_Git :: bool
  src_Docs :: bool
  src_CodexHistory :: bool

record ArchaeologyExecutionPolicy =
  pol_Depth :: gostring
  pol_Sources :: ArchaeologySources

record ArchaeologyExecutionLimits =
  lim_MaxOutcomes :: nat
  lim_MaxProvenancePerOutcome :: nat
  lim_MaxContributorsPerOutcome :: nat
  lim_MaxHistoricalAliases :: nat
  lim_MaxHistoricalTasks :: nat
  lim_MaxSourcesExamined :: int

definition Limits :: "ArchaeologyExecutionPolicy \<Rightarrow> ArchaeologyExecutionLimits option" where
  "Limits p =
     (let s = pol_Sources p in
      if \<not> src_Git s \<and> \<not> src_Docs s \<and> \<not> src_CodexHistory s then None
      else if pol_Depth p = ''quick'' then
        Some \<lparr>lim_MaxOutcomes = 2, lim_MaxProvenancePerOutcome = 4, lim_MaxContributorsPerOutcome = 1,
              lim_MaxHistoricalAliases = 2, lim_MaxHistoricalTasks = 2, lim_MaxSourcesExamined = 50\<rparr>
      else if pol_Depth p = ''standard'' then
        Some \<lparr>lim_MaxOutcomes = 2, lim_MaxProvenancePerOutcome = 4, lim_MaxContributorsPerOutcome = 1,
              lim_MaxHistoricalAliases = 3, lim_MaxHistoricalTasks = 3, lim_MaxSourcesExamined = 250\<rparr>
      else if pol_Depth p = ''deep'' then
        Some \<lparr>lim_MaxOutcomes = 2, lim_MaxProvenancePerOutcome = 4, lim_MaxContributorsPerOutcome = 1,
              lim_MaxHistoricalAliases = 3, lim_MaxHistoricalTasks = 4, lim_MaxSourcesExamined = 1000\<rparr>
      else None)"

definition Allows :: "ArchaeologyExecutionPolicy \<Rightarrow> gostring \<Rightarrow> bool" where
  "Allows p kind =
     (if kind = ''git'' then src_Git (pol_Sources p)
      else if kind = ''docs'' then src_Docs (pol_Sources p)
      else if kind = ''codex_history'' then src_CodexHistory (pol_Sources p)
      else False)"

section \<open>Strings\<close>

text \<open>
  \<^verbatim>\<open>strings.Contains\<close>, \<^verbatim>\<open>strings.Split\<close> on one byte, \<^verbatim>\<open>path.Clean\<close>, and \<^verbatim>\<open>unicode.IsControl\<close> on
  the runes of a valid UTF-8 string. \<^verbatim>\<open>strings.ToLower\<close> is needed only to look for ASCII
  words, so \<open>lowerASCII\<close> lowers the letters A to Z and the two code points outside ASCII
  whose lower case is an ASCII letter (U+212A KELVIN SIGN and U+0130).
\<close>

fun Contains :: "gostring \<Rightarrow> gostring \<Rightarrow> bool" where
  "Contains [] p \<longleftrightarrow> p = []"
| "Contains (c # s) p \<longleftrightarrow> HasPrefix (c # s) p \<or> Contains s p"

fun Split :: "char \<Rightarrow> gostring \<Rightarrow> gostring list" where
  "Split sep [] = [[]]"
| "Split sep (c # s) = (if c = sep then [] # Split sep s
     else (case Split sep s of [] \<Rightarrow> [[c]] | w # ws \<Rightarrow> (c # w) # ws))"

fun Join :: "char \<Rightarrow> gostring list \<Rightarrow> gostring" where
  "Join sep [] = []"
| "Join sep [w] = w"
| "Join sep (w # v # ws) = w @ sep # Join sep (v # ws)"

fun has_control :: "gostring \<Rightarrow> bool" where
  "has_control [] = False"
| "has_control (a # s) \<longleftrightarrow> byte a < 32 \<or> byte a = 127 \<or>
     (byte a = 0xC2 \<and> (case s of [] \<Rightarrow> False | b # _ \<Rightarrow> in_range 0x80 0x9F b)) \<or> has_control s"

definition lower_byte :: "char \<Rightarrow> char" where
  "lower_byte c = (if is_upper c then char_of (byte c + 32) else c)"

fun lowerASCII :: "gostring \<Rightarrow> gostring" where
  "lowerASCII (a # b # c # s) =
     (if byte a = 0xE2 \<and> byte b = 0x84 \<and> byte c = 0xAA then CHR ''k'' # lowerASCII s
      else if byte a = 0xC4 \<and> byte b = 0xB0 then CHR ''i'' # lowerASCII (c # s)
      else lower_byte a # lowerASCII (b # c # s))"
| "lowerASCII [a, b] = (if byte a = 0xC4 \<and> byte b = 0xB0 then ''i'' else [lower_byte a, lower_byte b])"
| "lowerASCII [a] = [lower_byte a]"
| "lowerASCII [] = []"

definition clean_step :: "bool \<Rightarrow> gostring \<Rightarrow> gostring list \<Rightarrow> gostring list" where
  "clean_step rooted e acc =
     (if e = '''' \<or> e = ''.'' then acc
      else if e = ''..'' then
        (if acc \<noteq> [] \<and> last acc \<noteq> ''..'' then butlast acc
         else if rooted then acc else acc @ [e])
      else acc @ [e])"

definition pathClean :: "gostring \<Rightarrow> gostring" where
  "pathClean v =
     (let rooted = HasPrefix v ''/'';
          out = (if rooted then ''/'' else []) @ Join (CHR ''/'') (fold (clean_step rooted) (Split (CHR ''/'') v) [])
      in if out = [] then ''.'' else out)"

section \<open>Stable identifiers\<close>

definition is_alnum :: "char \<Rightarrow> bool" where
  "is_alnum c \<longleftrightarrow> is_lower c \<or> is_upper c \<or> is_digit c"

definition nativeGitObjectID :: "gostring \<Rightarrow> bool" where
  "nativeGitObjectID v \<longleftrightarrow>
     list_ex (\<lambda>p. HasPrefix v p \<and>
       (let h = drop (length p) v in list_all is_lower_hex h \<and> (length h = 40 \<or> length h = 64)))
     [''commit:'', ''tree:'', ''blob:'', ''tag:'']"

definition nativeCodexID :: "gostring \<Rightarrow> bool" where
  "nativeCodexID v \<longleftrightarrow>
     list_ex (\<lambda>p. HasPrefix v p \<and>
       (case drop (length p) v of [] \<Rightarrow> False
        | c # cs \<Rightarrow> is_alnum c \<and> list_all (\<lambda>d. is_alnum d \<or> d = CHR ''_'' \<or> d = CHR ''-'') cs \<and>
                    7 \<le> length cs \<and> length cs \<le> 119))
     [''task:'', ''thread:'']"

definition forbiddenWords :: "gostring list" where
  "forbiddenWords = [''/home/'', [CHR 0x5C, CHR 0x5C], ''prompt'', ''transcript'', ''secret'', ''private'',
     ''credential'', ''password'', ''token'', ''.env'', ''id_rsa'', ''id_ed25519'']"

definition opaqueNativeStableID :: "gostring \<Rightarrow> bool" where
  "opaqueNativeStableID value =
     (if \<not> boundedCoreText value 300 True \<or> TrimSpace value \<noteq> value then False
      else if has_control value then False
      else \<not> list_ex (Contains (lowerASCII value)) forbiddenWords)"

definition git_ref_char :: "char \<Rightarrow> bool" where
  "git_ref_char c \<longleftrightarrow> is_alnum c \<or> c \<in> set ''-_.+''"

definition validNativeGitRef :: "gostring \<Rightarrow> bool" where
  "validNativeGitRef value =
     (if \<not> HasPrefix value ''ref:refs/'' then False
      else let ref = drop (length ''ref:'') value in
        if Contains ref ''..'' \<or> Contains ref (CHR ''@'' # ''{'') \<or> Contains ref ''//'' \<or> HasSuffix ref ''/'' \<or>
           HasSuffix ref ''.'' \<or> HasSuffix ref ''.lock'' then False
        else list_all (\<lambda>segment. \<not> (segment = '''' \<or> segment = ''.'' \<or> segment = ''..'' \<or>
                 HasPrefix segment ''.'' \<or> HasSuffix segment ''.lock'') \<and>
               list_all git_ref_char segment) (Split (CHR ''/'') ref))"

definition validNativeDocumentPath :: "gostring \<Rightarrow> bool" where
  "validNativeDocumentPath value =
     (if \<not> opaqueNativeStableID value \<or> HasPrefix value ''/'' \<or> HasPrefix value ''~'' \<or>
         Contains value '':'' \<or> pathClean value \<noteq> value \<or> value = ''.'' then False
      else list_all (\<lambda>segment. \<not> (segment = '''' \<or> segment = ''.'' \<or> segment = ''..'' \<or>
             HasPrefix segment ''.'')) (Split (CHR ''/'') value))"

definition validNativeStableID :: "gostring \<Rightarrow> gostring \<Rightarrow> bool" where
  "validNativeStableID kind value =
     (if \<not> opaqueNativeStableID value then False
      else if kind = ''git'' then nativeGitObjectID value \<or> validNativeGitRef value
      else if kind = ''docs'' then validNativeDocumentPath value
      else if kind = ''codex_history'' then nativeCodexID value
      else False)"

section \<open>Proposals\<close>

definition historicalKeyPattern :: "gostring \<Rightarrow> bool" where
  "historicalKeyPattern s = (case s of [] \<Rightarrow> False
     | c # cs \<Rightarrow> (is_lower c \<or> is_digit c) \<and>
         list_all (\<lambda>d. is_lower d \<or> is_digit d \<or> d \<in> set ''._-'') cs \<and> length cs \<le> 63)"

definition historicalDigestPattern :: "gostring \<Rightarrow> bool" where
  "historicalDigestPattern s \<longleftrightarrow> HasPrefix s ''sha256:'' \<and>
     (let h = drop 7 s in length h = 64 \<and> list_all is_lower_hex h)"

record HistoricalSource =
  hs_Kind :: gostring
  hs_StableID :: gostring
  hs_Digest :: gostring
  hs_OccurredAt :: time

definition fiveMinutes :: duration where
  "fiveMinutes = 5 * 60 * 1000000000"

definition validHistoricalSource :: "HistoricalSource \<Rightarrow> time \<Rightarrow> bool" where
  "validHistoricalSource s now \<longleftrightarrow>
     boundedCoreText (hs_Kind s) 40 True \<and> boundedCoreText (hs_StableID s) 300 True \<and>
     historicalDigestPattern (hs_Digest s) \<and> hs_OccurredAt s \<noteq> zeroTime \<and>
     \<not> hs_OccurredAt s > now + fiveMinutes"

definition HistoricalRoles :: "gostring set" where
  "HistoricalRoles = {''originator'', ''implementer'', ''reviewer'', ''evaluator''}"

definition HistoricalConfidences :: "gostring set" where
  "HistoricalConfidences = {''verified'', ''supported'', ''uncertain''}"

definition HistoricalEventKinds :: "gostring set" where
  "HistoricalEventKinds = {''completed'', ''reviewed'', ''failed'', ''retried'', ''remediated'', ''evaluated''}"

record nativeProposalAlias =
  al_Alias :: gostring
  al_Session :: gostring
  al_Source :: HistoricalSource

record nativeProposalAttribution =
  at_Session :: gostring
  at_Role :: gostring
  at_Confidence :: gostring
  at_Source :: HistoricalSource

record nativeProposalEvent =
  ev_Key :: gostring
  ev_Kind :: gostring
  ev_Session :: gostring
  ev_Confidence :: gostring
  ev_Source :: HistoricalSource

record nativeProposalTask =
  pt_Key :: gostring
  pt_Source :: HistoricalSource
  pt_Attributions :: "nativeProposalAttribution list"
  pt_Events :: "nativeProposalEvent list"

record nativeProposal =
  np_SchemaVersion :: int
  np_BatchID :: gostring
  np_SourceDigest :: gostring
  np_CollisionPolicy :: gostring
  np_Aliases :: "nativeProposalAlias list"
  np_Tasks :: "nativeProposalTask list"

text \<open>What the code asks of \<^verbatim>\<open>encoding/json\<close>.\<close>

record json_lib =
  json_Valid :: "gostring \<Rightarrow> bool"
  json_Unmarshal :: "gostring \<Rightarrow> nativeProposal option"

definition validNativeSource :: "HistoricalSource \<Rightarrow> ArchaeologyExecutionPolicy \<Rightarrow> time \<Rightarrow> bool" where
  "validNativeSource source policy now \<longleftrightarrow>
     Allows policy (hs_Kind source) \<and> validNativeStableID (hs_Kind source) (hs_StableID source) \<and>
     validHistoricalSource source now"

text \<open>
  The loops of \<^verbatim>\<open>validNativeProposal\<close>. Its maps are kept as lists: the sessions, the pieces of
  evidence (a source is its own key; the code formats the time, which is injective), the
  aliases, their sessions and the task keys seen so far.
\<close>

record proposal_scan =
  ps_sessions :: "gostring list"
  ps_evidence :: "HistoricalSource list"
  ps_aliases :: "gostring list"
  ps_aliasSessions :: "gostring list"
  ps_taskKeys :: "gostring list"
  ps_attributions :: nat
  ps_events :: nat

definition scanAlias ::
  "ArchaeologyExecutionPolicy \<Rightarrow> time \<Rightarrow> nativeProposalAlias \<Rightarrow> proposal_scan \<Rightarrow> unit + proposal_scan" where
  "scanAlias policy now alias st =
     (if \<not> historicalKeyPattern (al_Alias alias) \<or> al_Alias alias \<in> set (ps_aliases st) \<or>
         \<not> boundedCoreText (al_Session alias) 200 True \<or> al_Session alias \<in> set (ps_aliasSessions st) \<or>
         \<not> validNativeSource (al_Source alias) policy now
      then Inl ()
      else Inr (st\<lparr>ps_evidence := al_Source alias # ps_evidence st,
                   ps_aliases := al_Alias alias # ps_aliases st,
                   ps_aliasSessions := al_Session alias # ps_aliasSessions st,
                   ps_sessions := al_Session alias # ps_sessions st\<rparr>))"

definition scanAttribution ::
  "ArchaeologyExecutionPolicy \<Rightarrow> time \<Rightarrow> nativeProposalAttribution \<Rightarrow>
     gostring list \<times> proposal_scan \<Rightarrow> unit + (gostring list \<times> proposal_scan)" where
  "scanAttribution policy now a = (\<lambda>(attributed, st).
     if \<not> boundedCoreText (at_Session a) 200 True \<or> at_Session a \<in> set (ps_aliasSessions st) \<or>
        at_Role a \<notin> HistoricalRoles \<or> at_Confidence a \<notin> HistoricalConfidences \<or>
        \<not> validNativeSource (at_Source a) policy now
     then Inl ()
     else Inr (at_Session a # attributed,
               st\<lparr>ps_evidence := at_Source a # ps_evidence st,
                  ps_sessions := at_Session a # ps_sessions st\<rparr>))"

definition scanEvent ::
  "ArchaeologyExecutionPolicy \<Rightarrow> time \<Rightarrow> gostring list \<Rightarrow> nativeProposalEvent \<Rightarrow>
     gostring list \<times> proposal_scan \<Rightarrow> unit + (gostring list \<times> proposal_scan)" where
  "scanEvent policy now attributed v = (\<lambda>(eventKeys, st).
     if \<not> historicalKeyPattern (ev_Key v) \<or> ev_Key v \<in> set eventKeys \<or>
        ev_Kind v \<notin> HistoricalEventKinds \<or> \<not> boundedCoreText (ev_Session v) 200 False \<or>
        ev_Session v \<in> set (ps_aliasSessions st) \<or>
        (ev_Session v \<noteq> '''' \<and> ev_Session v \<notin> set attributed) \<or>
        ev_Confidence v \<notin> HistoricalConfidences \<or> \<not> validNativeSource (ev_Source v) policy now
     then Inl ()
     else Inr (ev_Key v # eventKeys,
               st\<lparr>ps_evidence := ev_Source v # ps_evidence st,
                  ps_sessions := (if ev_Session v \<noteq> '''' then ev_Session v # ps_sessions st
                                  else ps_sessions st)\<rparr>))"

definition scanTask ::
  "ArchaeologyExecutionPolicy \<Rightarrow> time \<Rightarrow> nativeProposalTask \<Rightarrow> proposal_scan \<Rightarrow> unit + proposal_scan" where
  "scanTask policy now task st =
     (if \<not> historicalKeyPattern (pt_Key task) \<or> pt_Key task \<in> set (ps_taskKeys st) \<or>
         length (pt_Attributions task) < 1 \<or> length (pt_Attributions task) > 2 \<or>
         length (pt_Events task) > 1 \<or> \<not> validNativeSource (pt_Source task) policy now
      then Inl ()
      else let st = st\<lparr>ps_evidence := pt_Source task # ps_evidence st,
                       ps_taskKeys := pt_Key task # ps_taskKeys st,
                       ps_attributions := ps_attributions st + length (pt_Attributions task),
                       ps_events := ps_events st + length (pt_Events task)\<rparr> in
        if ps_attributions st > 200 \<or> ps_events st > 500 then Inl ()
        else bindE (foldE (scanAttribution policy now) (pt_Attributions task) ([], st)) (\<lambda>(attributed, st).
             bindE (foldE (scanEvent policy now attributed) (pt_Events task) ([], st)) (\<lambda>(_, st). Inr st)))"

definition validNativeProposal ::
  "json_lib \<Rightarrow> gostring \<Rightarrow> ArchaeologyExecutionPolicy \<Rightarrow> ArchaeologyExecutionLimits \<Rightarrow> time \<Rightarrow>
     (gostring list \<times> HistoricalSource list) option" where
  "validNativeProposal J value policy limits now =
     (case json_Unmarshal J value of
        None \<Rightarrow> None
      | Some p \<Rightarrow>
          if np_SchemaVersion p \<noteq> 1 \<or> \<not> historicalKeyPattern (np_BatchID p) \<or>
             \<not> historicalDigestPattern (np_SourceDigest p) \<or> np_CollisionPolicy p \<noteq> ''current_wins'' \<or>
             length (np_Tasks p) < 1 \<or> length (np_Tasks p) > lim_MaxHistoricalTasks limits \<or>
             length (np_Aliases p) > lim_MaxHistoricalAliases limits then None
          else (case bindE (foldE (scanAlias policy now) (np_Aliases p)
                        \<lparr>ps_sessions = [], ps_evidence = [], ps_aliases = [], ps_aliasSessions = [],
                         ps_taskKeys = [], ps_attributions = 0, ps_events = 0\<rparr>)
                      (foldE (scanTask policy now) (np_Tasks p)) of
                  Inl _ \<Rightarrow> None
                | Inr st \<Rightarrow> Some (ps_sessions st, ps_evidence st)))"

section \<open>Outcomes\<close>

record ArchaeologyContributor =
  co_SessionID :: gostring
  co_Contribution :: gostring
  co_DemonstratedStrength :: gostring
  co_Uncertainty :: gostring
  co_Confidence :: gostring

record ArchaeologyOutcome =
  oc_ID :: gostring
  oc_Title :: gostring
  oc_Summary :: gostring
  oc_ProjectID :: gostring
  oc_SourceCount :: int
  oc_Provenance :: "HistoricalSource list"
  oc_Contributors :: "ArchaeologyContributor list"
  oc_ProposalJSON :: gostring

definition provenanceKey :: "HistoricalSource \<Rightarrow> gostring \<times> gostring \<times> gostring" where
  "provenanceKey s = (hs_Kind s, hs_StableID s, hs_Digest s)"

definition quoted :: "gostring \<Rightarrow> gostring" where
  "quoted w = CHR 0x22 # w @ [CHR 0x22]"

definition validArchaeologyOutcome :: "json_lib \<Rightarrow> ArchaeologyOutcome \<Rightarrow> time \<Rightarrow> bool" where
  "validArchaeologyOutcome J outcome now =
     (if \<not> boundedCoreText (oc_ID outcome) 120 False \<or> \<not> boundedCoreText (oc_ProjectID outcome) 120 True \<or>
         \<not> boundedCoreText (oc_Title outcome) 300 True \<or> \<not> boundedCoreText (oc_Summary outcome) 4000 True \<or>
         oc_SourceCount outcome < 1 \<or> oc_SourceCount outcome > 1000 \<or>
         length (oc_Provenance outcome) < 1 \<or> length (oc_Provenance outcome) > 100 \<or>
         int (length (oc_Provenance outcome)) > oc_SourceCount outcome \<or>
         length (oc_Contributors outcome) > 100 \<or> length (oc_ProposalJSON outcome) > 32768 \<or>
         \<not> json_Valid J (oc_ProposalJSON outcome) \<or> \<not> HasPrefix (TrimSpace (oc_ProposalJSON outcome)) ''{''
      then False
      else if list_ex (\<lambda>w. Contains (lowerASCII (oc_ProposalJSON outcome)) (quoted w))
                [''prompt'', ''reasoning'', ''transcript'', ''secret'', ''private_data''] then False
      else list_all (\<lambda>s. (hs_Kind s = ''git'' \<or> hs_Kind s = ''docs'' \<or> hs_Kind s = ''codex_history'') \<and>
               validHistoricalSource s now) (oc_Provenance outcome) \<and>
           distinct (map provenanceKey (oc_Provenance outcome)) \<and>
           list_all (\<lambda>m. boundedCoreText (co_SessionID m) 200 True \<and> boundedCoreText (co_Contribution m) 1000 True \<and>
               boundedCoreText (co_DemonstratedStrength m) 300 False \<and>
               boundedCoreText (co_Uncertainty m) 500 False \<and> co_Confidence m \<in> HistoricalConfidences)
             (oc_Contributors outcome) \<and>
           distinct (map co_SessionID (oc_Contributors outcome)))"

definition validNativeOutcome ::
  "json_lib \<Rightarrow> ArchaeologyOutcome \<Rightarrow> ArchaeologyExecutionPolicy \<Rightarrow> ArchaeologyExecutionLimits \<Rightarrow> time \<Rightarrow> bool" where
  "validNativeOutcome J outcome policy limits now =
     (if \<not> validArchaeologyOutcome J outcome now \<or> oc_SourceCount outcome > lim_MaxSourcesExamined limits \<or>
         length (oc_Provenance outcome) > lim_MaxProvenancePerOutcome limits \<or>
         length (oc_Contributors outcome) > lim_MaxContributorsPerOutcome limits then False
      else case validNativeProposal J (oc_ProposalJSON outcome) policy limits now of
        None \<Rightarrow> False
      | Some (sessions, evidence) \<Rightarrow>
          list_all (\<lambda>s. Allows policy (hs_Kind s) \<and> validNativeStableID (hs_Kind s) (hs_StableID s))
            (oc_Provenance outcome) \<and>
          filter (\<lambda>v. v \<notin> set (oc_Provenance outcome)) evidence = [] \<and>
          list_all (\<lambda>m. co_SessionID m \<in> set sessions) (oc_Contributors outcome))"

end
