(* ===== verification/Archaeology_Schema.thy ===== *)
theory Archaeology_Schema
  imports Archaeology_Policy
begin

text \<open>
  The tables of project archaeology (\<^verbatim>\<open>src/migrations/010_project_archaeology.sql\<close> to
  \<^verbatim>\<open>016_archaeology_native_persistence.sql\<close>) as records, the database as the record \<open>arch\<close>
  that extends the canonical tables, and the statements on it that a constraint can
  refuse. The columns with a \<^verbatim>\<open>CHECK (state IN ...)\<close> are datatypes whose constructors are
  the admitted values. Foreign keys of the rows below are satisfied by the reads that
  precede each insertion; the length checks repeat bounds that the callers have
  validated.
\<close>

section \<open>Rows\<close>

datatype session_state =
    S_draft | S_running | S_pause_requested | S_paused | S_cancel_requested | S_canceled
  | S_completed | S_failed

datatype batch_state =
    B_queued | B_running | B_cancel_requested | B_canceled | B_completed | B_attention

datatype job_state =
    J_queued | J_starting | J_active | J_report_ready | J_cancel_requested | J_completed
  | J_failed | J_interrupted | J_uncertain | J_attention

datatype run_state =
    R_queued | R_running | R_pause_requested | R_paused | R_cancel_requested | R_canceled
  | R_completed | R_failed

datatype launch_state =
    L_preparing | L_starting_codex | L_task_created | L_claimed | L_running | L_report_ready
  | L_completed | L_failed | L_uncertain

datatype intent_state = I_pending | I_leased | I_applied | I_superseded | I_blocked

record session_row =
  ss_id :: gostring
  ss_principal :: gostring
  ss_state :: session_state
  ss_discovery_state :: gostring
  ss_source_roots_scanned :: int
  ss_tasks_examined :: int
  ss_projects_grouped :: int
  ss_catalog_truncated :: bool
  ss_app_server_identity :: gostring
  ss_depth :: gostring
  ss_sources :: ArchaeologySources
  ss_max_concurrency :: int
  ss_revision :: int
  ss_discovered_at :: "time option"
  ss_created_at :: time
  ss_updated_at :: time

record candidate_row =
  ca_session_id :: gostring
  ca_id :: gostring
  ca_canonical_project_id :: gostring
  ca_name :: gostring
  ca_path_label :: gostring
  ca_repository_label :: gostring
  ca_last_activity_at :: "time option"
  ca_has_git :: bool
  ca_has_docs :: bool
  ca_has_codex_history :: bool
  ca_duration_min_seconds :: int
  ca_duration_max_seconds :: int
  ca_relative_cost :: gostring
  ca_privacy_note :: gostring
  ca_selected :: bool
  ca_from_codex_metadata :: bool
  ca_from_configured_root :: bool
  ca_codex_thread_count :: int

record run_row =
  ru_id :: gostring
  ru_session_id :: gostring
  ru_candidate_id :: gostring
  ru_state :: run_state
  ru_phase_label :: gostring
  ru_updated_at :: time

record launch_row =
  la_id :: gostring
  la_session_id :: gostring
  la_candidate_id :: gostring
  la_state :: launch_state
  la_error :: gostring
  la_updated_at :: time

record arch_request_row =
  ar_principal :: gostring
  ar_request_key :: gostring
  ar_operation :: gostring
  ar_request_digest :: gostring
  ar_session_id :: gostring
  ar_recorded_at :: time

record handoff_row =
  ho_id :: gostring
  ho_session_id :: gostring
  ho_state :: gostring
  ho_pack_json :: gostring
  ho_claimed_by :: gostring
  ho_claimed_at :: "time option"
  ho_created_at :: time
  ho_updated_at :: time

record batch_row =
  ba_id :: gostring
  ba_session_id :: gostring
  ba_request_key :: gostring
  ba_request_digest :: gostring
  ba_state :: batch_state
  ba_max_concurrency :: int
  ba_policy :: ArchaeologyExecutionPolicy
  ba_policy_attested :: bool
  ba_large_batch_acknowledged_at :: "time option"
  ba_large_batch_acknowledged_by :: gostring
  ba_created_at :: time
  ba_updated_at :: time

record candidate_project_row =
  cj_session_id :: gostring
  cj_candidate_id :: gostring
  cj_project_id :: gostring
  cj_mapped_by_principal :: gostring
  cj_purpose :: gostring
  cj_created_project :: bool
  cj_mapped_at :: time

text \<open>
  The digest of a report is NULL or 32 bytes, so \<open>len(prior) > 0\<close> of the code is that the
  column is not NULL.
\<close>

record job_row =
  nj_id :: gostring
  nj_batch_id :: gostring
  nj_session_id :: gostring
  nj_candidate_id :: gostring
  nj_project_id :: gostring
  nj_project_name :: gostring
  nj_state :: job_state
  nj_thread_id :: gostring
  nj_codex_session_id :: gostring
  nj_turn_id :: gostring
  nj_phase_label :: gostring
  nj_sources_examined :: int
  nj_duration_ms :: "int option"
  nj_report_digest :: "gostring option"
  nj_error_code :: gostring
  nj_created_at :: time
  nj_started_at :: "time option"
  nj_reported_at :: "time option"
  nj_terminal_at :: "time option"
  nj_updated_at :: time

record outcome_row =
  no_id :: gostring
  no_job_id :: gostring
  no_project_id :: gostring
  no_title :: gostring
  no_summary :: gostring
  no_source_count :: int
  no_proposal_json :: gostring
  no_created_at :: time

record provenance_row =
  nv_outcome_id :: gostring
  nv_position :: nat
  nv_source :: HistoricalSource

record contributor_row =
  nc_outcome_id :: gostring
  nc_member :: ArchaeologyContributor

record resolution_row =
  re_id :: gostring
  re_session_id :: gostring
  re_job_id :: gostring
  re_principal :: gostring
  re_request_key :: gostring
  re_request_digest :: gostring
  re_resolution :: gostring
  re_thread_id :: gostring
  re_turn_id :: gostring
  re_created_at :: time

record intent_row =
  in_id :: gostring
  in_job_id :: gostring
  in_operation :: gostring
  in_payload_digest :: gostring
  in_payload_json :: gostring
  in_state :: intent_state
  in_attempts :: int
  in_next_attempt_at :: "time option"
  in_lease_owner :: gostring
  in_lease_expires_at :: "time option"
  in_last_error_code :: gostring
  in_applied_at :: "time option"
  in_created_at :: time
  in_updated_at :: time

record arch =
  a_core :: db
  a_sessions :: "session_row list"
  a_candidates :: "candidate_row list"
  a_runs :: "run_row list"
  a_launches :: "launch_row list"
  a_requests :: "arch_request_row list"
  a_handoffs :: "handoff_row list"
  a_handoff_requests :: "(gostring \<times> gostring) list"
  a_legacy_outcomes :: "(gostring \<times> gostring) list"
  a_batches :: "batch_row list"
  a_candidate_projects :: "candidate_project_row list"
  a_jobs :: "job_row list"
  a_outcomes :: "outcome_row list"
  a_provenance :: "provenance_row list"
  a_contributors :: "contributor_row list"
  a_resolutions :: "resolution_row list"
  a_intents :: "intent_row list"

text \<open>
  \<open>a_handoff_requests\<close> keeps the pair of handoff and request key, \<open>a_legacy_outcomes\<close> the
  pair of outcome and run: only their number is read here.
\<close>

definition empty_arch :: arch where
  "empty_arch = \<lparr>a_core = empty_db, a_sessions = [], a_candidates = [], a_runs = [], a_launches = [],
     a_requests = [], a_handoffs = [], a_handoff_requests = [], a_legacy_outcomes = [], a_batches = [],
     a_candidate_projects = [], a_jobs = [], a_outcomes = [], a_provenance = [], a_contributors = [],
     a_resolutions = [], a_intents = []\<rparr>"

section \<open>What the code takes from other packages\<close>

text \<open>
  The anonymous structs handed to \<^verbatim>\<open>archaeologyDigest\<close> with their operation, the SHA-256
  of their JSON, the hexadecimal of the first twelve bytes of the SHA-256 of a string, and
  \<^verbatim>\<open>encoding/json\<close>.
\<close>

record ArchaeologyConfig =
  cf_SelectedProjectIDs :: "gostring list"
  cf_Depth :: gostring
  cf_Sources :: ArchaeologySources
  cf_MaxConcurrency :: int

datatype arch_payload =
    NativeStart int ArchaeologyExecutionPolicy int bool
  | NativeStartLegacy int
  | NativeResolve int gostring gostring gostring gostring
  | RevisionOnly int
  | ConfigurePayload int ArchaeologyConfig
  | NilPayload

record arch_lib =
  lib_digest :: "gostring \<Rightarrow> arch_payload \<Rightarrow> gostring"
  lib_sha12 :: "gostring \<Rightarrow> gostring"
  lib_json :: json_lib

definition deterministicHistoricalID :: "arch_lib \<Rightarrow> gostring \<Rightarrow> gostring list \<Rightarrow> gostring" where
  "deterministicHistoricalID L prefix parts = prefix @ lib_sha12 L (Join (CHR 0x00) parts)"

section \<open>Reads and updates\<close>

definition sessionOf :: "arch \<Rightarrow> gostring \<Rightarrow> session_row option" where
  "sessionOf s who = find (\<lambda>r. ss_principal r = who) (a_sessions s)"

definition jobRow :: "arch \<Rightarrow> gostring \<Rightarrow> job_row option" where
  "jobRow s k = find (\<lambda>r. nj_id r = k) (a_jobs s)"

definition batchRow :: "arch \<Rightarrow> gostring \<Rightarrow> batch_row option" where
  "batchRow s k = find (\<lambda>r. ba_id r = k) (a_batches s)"

definition updSessions :: "(session_row \<Rightarrow> bool) \<Rightarrow> (session_row \<Rightarrow> session_row) \<Rightarrow> arch \<Rightarrow> arch" where
  "updSessions p f s = s\<lparr>a_sessions := updWhere p f (a_sessions s)\<rparr>"

definition updBatches :: "(batch_row \<Rightarrow> bool) \<Rightarrow> (batch_row \<Rightarrow> batch_row) \<Rightarrow> arch \<Rightarrow> arch" where
  "updBatches p f s = s\<lparr>a_batches := updWhere p f (a_batches s)\<rparr>"

definition updJobs :: "(job_row \<Rightarrow> bool) \<Rightarrow> (job_row \<Rightarrow> job_row) \<Rightarrow> arch \<Rightarrow> arch" where
  "updJobs p f s = s\<lparr>a_jobs := updWhere p f (a_jobs s)\<rparr>"

definition nextRevision :: "session_state \<Rightarrow> time \<Rightarrow> session_row \<Rightarrow> session_row" where
  "nextRevision st now r = r\<lparr>ss_state := st, ss_revision := ss_revision r + 1, ss_updated_at := now\<rparr>"

definition coalesce :: "'a option \<Rightarrow> 'a \<Rightarrow> 'a option" where
  "coalesce x y = (case x of None \<Rightarrow> Some y | Some _ \<Rightarrow> x)"

text \<open>The two partial unique indexes on the identity of a job.\<close>

definition nonempty :: "gostring list \<Rightarrow> gostring list" where
  "nonempty = filter (\<lambda>v. v \<noteq> '''')"

definition identities_unique :: "job_row list \<Rightarrow> bool" where
  "identities_unique js \<longleftrightarrow>
     distinct (nonempty (map nj_thread_id js)) \<and> distinct (nonempty (map nj_turn_id js))"

definition sqlBindJobs :: "(job_row \<Rightarrow> bool) \<Rightarrow> (job_row \<Rightarrow> job_row) \<Rightarrow> arch \<Rightarrow> go_error + arch" where
  "sqlBindJobs p f s =
     (let js = updWhere p f (a_jobs s) in checked (identities_unique js) (s\<lparr>a_jobs := js\<rparr>))"

definition sqlInsertBatch :: "batch_row \<Rightarrow> arch \<Rightarrow> go_error + arch" where
  "sqlInsertBatch r s =
     checked (\<not> hasRow (\<lambda>q. ba_id q = ba_id r \<or>
                 ba_session_id q = ba_session_id r \<and> ba_request_key q = ba_request_key r) (a_batches s))
       (s\<lparr>a_batches := a_batches s @ [r]\<rparr>)"

definition sqlInsertJob :: "job_row \<Rightarrow> arch \<Rightarrow> go_error + arch" where
  "sqlInsertJob r s =
     checked (\<not> hasRow (\<lambda>q. nj_id q = nj_id r \<or>
                 nj_batch_id q = nj_batch_id r \<and>
                 (nj_candidate_id q = nj_candidate_id r \<or> nj_project_id q = nj_project_id r)) (a_jobs s))
       (s\<lparr>a_jobs := a_jobs s @ [r]\<rparr>)"

definition sqlInsertCandidateProject :: "candidate_project_row \<Rightarrow> arch \<Rightarrow> go_error + arch" where
  "sqlInsertCandidateProject r s =
     checked (\<not> hasRow (\<lambda>q. cj_session_id q = cj_session_id r \<and>
                 (cj_candidate_id q = cj_candidate_id r \<or> cj_project_id q = cj_project_id r))
                (a_candidate_projects s))
       (s\<lparr>a_candidate_projects := a_candidate_projects s @ [r]\<rparr>)"

definition sqlInsertResolution :: "resolution_row \<Rightarrow> arch \<Rightarrow> go_error + arch" where
  "sqlInsertResolution r s =
     checked (\<not> hasRow (\<lambda>q. re_id q = re_id r \<or> re_job_id q = re_job_id r \<or>
                 re_session_id q = re_session_id r \<and> re_request_key q = re_request_key r) (a_resolutions s))
       (s\<lparr>a_resolutions := a_resolutions s @ [r]\<rparr>)"

definition sqlInsertOutcome :: "outcome_row \<Rightarrow> arch \<Rightarrow> go_error + arch" where
  "sqlInsertOutcome r s =
     checked (\<not> hasRow (\<lambda>q. no_id q = no_id r) (a_outcomes s)) (s\<lparr>a_outcomes := a_outcomes s @ [r]\<rparr>)"

definition sqlInsertProvenance :: "provenance_row \<Rightarrow> arch \<Rightarrow> go_error + arch" where
  "sqlInsertProvenance r s =
     checked (\<not> hasRow (\<lambda>q. nv_outcome_id q = nv_outcome_id r \<and> nv_position q = nv_position r) (a_provenance s))
       (s\<lparr>a_provenance := a_provenance s @ [r]\<rparr>)"

definition sqlInsertContributor :: "contributor_row \<Rightarrow> arch \<Rightarrow> go_error + arch" where
  "sqlInsertContributor r s =
     checked (\<not> hasRow (\<lambda>q. nc_outcome_id q = nc_outcome_id r \<and>
                 co_SessionID (nc_member q) = co_SessionID (nc_member r)) (a_contributors s))
       (s\<lparr>a_contributors := a_contributors s @ [r]\<rparr>)"

definition sqlInsertRequest :: "arch_request_row \<Rightarrow> arch \<Rightarrow> go_error + arch" where
  "sqlInsertRequest r s =
     checked (\<not> hasRow (\<lambda>q. ar_principal q = ar_principal r \<and> ar_request_key q = ar_request_key r) (a_requests s))
       (s\<lparr>a_requests := a_requests s @ [r]\<rparr>)"

definition onCore :: "(db \<Rightarrow> go_error + db) \<Rightarrow> arch \<Rightarrow> go_error + arch" where
  "onCore f s = bindE (f (a_core s)) (\<lambda>d. Inr (s\<lparr>a_core := d\<rparr>))"

lemmas arch_sql_defs =
  sqlBindJobs_def sqlInsertBatch_def sqlInsertJob_def sqlInsertCandidateProject_def
  sqlInsertResolution_def sqlInsertOutcome_def sqlInsertProvenance_def sqlInsertContributor_def
  sqlInsertRequest_def onCore_def

lemma sessionOf_SomeD: "sessionOf s p = Some r \<Longrightarrow> r \<in> set (a_sessions s) \<and> ss_principal r = p"
  unfolding sessionOf_def by (drule find_SomeD) simp

lemma jobRow_SomeD: "jobRow s k = Some r \<Longrightarrow> r \<in> set (a_jobs s) \<and> nj_id r = k"
  unfolding jobRow_def by (drule find_SomeD) simp

lemma batchRow_SomeD: "batchRow s k = Some r \<Longrightarrow> r \<in> set (a_batches s) \<and> ba_id r = k"
  unfolding batchRow_def by (drule find_SomeD) simp

section \<open>The ledger of session requests\<close>

definition claimArchaeologyRequest ::
  "gostring \<Rightarrow> gostring \<Rightarrow> gostring \<Rightarrow> gostring \<Rightarrow> gostring \<Rightarrow> time \<Rightarrow> arch \<Rightarrow> go_error + (bool \<times> arch)" where
  "claimArchaeologyRequest who key operation sessionID digest now s =
     (case find (\<lambda>r. ar_principal r = who \<and> ar_request_key r = key) (a_requests s) of
        Some r \<Rightarrow>
          if ar_operation r \<noteq> operation \<or> ar_request_digest r \<noteq> digest then Inl ErrConflict
          else Inr (True, s)
      | None \<Rightarrow>
          bindE (mapErrE mapErr (sqlInsertRequest \<lparr>ar_principal = who, ar_request_key = key,
                    ar_operation = operation, ar_request_digest = digest, ar_session_id = sessionID,
                    ar_recorded_at = now\<rparr> s))
            (\<lambda>s. Inr (False, s)))"

text \<open>
  The value that the session operations return after their commit: the row that
  \<^verbatim>\<open>ArchaeologySession\<close> reads first (the lists it adds are pages of the other tables).
\<close>

definition ArchaeologySession :: "arch \<Rightarrow> gostring \<Rightarrow> go_error + session_row" where
  "ArchaeologySession s who =
     (if TrimSpace who = '''' then Inl ErrInvalid
      else mapErrE mapErr (someE (sessionOf s who) SqlNoRows))"

end
