(* ===== verification/Archaeology_Native.thy ===== *)
theory Archaeology_Native
  imports Archaeology_Schema
begin

text \<open>
  The durable scheduler of historian jobs, \<^verbatim>\<open>src/internal/store/project_archaeology_native.go\<close>,
  and the restart transaction \<^verbatim>\<open>ReconcileArchaeology\<close> of \<^verbatim>\<open>project_archaeology.go\<close>: a batch of
  jobs is queued for the selected candidates, a job is claimed, bound to the identity of a
  Codex thread and turn, activated, reports, and ends. An operation maps the state to its
  result and the state after it; a transaction that fails leaves the state as it was.
  \<^verbatim>\<open>BindArchaeologyNativeIdentity\<close>, \<^verbatim>\<open>ActivateArchaeologyNativeJob\<close> and
  \<^verbatim>\<open>UpdateArchaeologyNativeProgress\<close> read outside a transaction and then execute one
  guarded update, so they take the state they read and the state they update.
\<close>

section \<open>Requests\<close>

record ArchaeologyNativeBatchRequest =
  nb_Principal :: gostring
  nb_RequestID :: gostring
  nb_BaseRevision :: int
  nb_AcknowledgeLargeBatch :: bool

record ArchaeologyNativeResolution =
  nr_Principal :: gostring
  nr_RequestID :: gostring
  nr_JobID :: gostring
  nr_ThreadID :: gostring
  nr_TurnID :: gostring
  nr_Resolution :: gostring
  nr_BaseRevision :: int

record ArchaeologyNativeProgress =
  ng_JobID :: gostring
  ng_ThreadID :: gostring
  ng_TurnID :: gostring
  ng_PhaseLabel :: gostring
  ng_SourcesExamined :: int

record ArchaeologyNativeReport =
  rp_JobID :: gostring
  rp_ThreadID :: gostring
  rp_TurnID :: gostring
  rp_Digest :: gostring
  rp_Outcomes :: "ArchaeologyOutcome list"

record ArchaeologyNativeTerminal =
  nt_JobID :: gostring
  nt_ThreadID :: gostring
  nt_TurnID :: gostring
  nt_Status :: gostring
  nt_DurationMS :: "int option"

record ArchaeologyLaunchResult =
  lr_LaunchID :: gostring
  lr_ProjectID :: gostring
  lr_State :: gostring
  lr_ThreadID :: gostring
  lr_CodexSessionID :: gostring
  lr_TurnID :: gostring
  lr_Error :: gostring

type_synonym 'a outcome = "(go_error + 'a) \<times> arch"

definition inTx :: "(arch \<Rightarrow> go_error + 'a \<times> arch) \<Rightarrow> arch \<Rightarrow> 'a outcome" where
  "inTx body s = (case body s of Inl e \<Rightarrow> (Inl e, s) | Inr (r, t) \<Rightarrow> (Inr r, t))"

definition thenRead :: "gostring \<Rightarrow> 'a outcome \<Rightarrow> ('a \<times> session_row) outcome" where
  "thenRead who out = (case out of
     (Inl e, s) \<Rightarrow> (Inl e, s)
   | (Inr r, s) \<Rightarrow> (bindE (ArchaeologySession s who) (\<lambda>v. Inr (r, v)), s))"

definition changedOne :: "(job_row \<Rightarrow> bool) \<Rightarrow> arch \<Rightarrow> bool" where
  "changedOne p s \<longleftrightarrow> countWhere p (a_jobs s) = 1"

section \<open>Queueing a batch\<close>

definition nativePurpose :: gostring where
  "nativePurpose = ''Added from the Codex project catalog; history pending review.''"

definition ArchaeologyNativeMaxProjects :: nat where
  "ArchaeologyNativeMaxProjects = 30"

definition sessionPolicy :: "session_row \<Rightarrow> ArchaeologyExecutionPolicy" where
  "sessionPolicy r = \<lparr>pol_Depth = ss_depth r, pol_Sources = ss_sources r\<rparr>"

definition selectedCandidates :: "arch \<Rightarrow> gostring \<Rightarrow> candidate_row list" where
  "selectedCandidates s sid =
     take 101 (sort_key ca_id (filter (\<lambda>c. ca_session_id c = sid \<and> ca_selected c) (a_candidates s)))"

definition selectableCandidate :: "candidate_row \<Rightarrow> bool" where
  "selectableCandidate c \<longleftrightarrow>
     boundedCoreText (ca_id c) 120 True \<and> projectIDPattern (ca_canonical_project_id c) \<and>
     ca_canonical_project_id c \<noteq> TopicGeneral \<and> boundedCoreText (ca_name c) 200 True"

text \<open>
  One round of the loop over the selected candidates; the counter numbers the calls of
  \<^verbatim>\<open>newID\<close> made so far.
\<close>

definition ensureCandidateProject ::
  "env \<Rightarrow> gostring \<Rightarrow> candidate_row \<Rightarrow> gostring \<Rightarrow> nat \<times> arch \<Rightarrow> go_error + (bool \<times> nat \<times> arch)" where
  "ensureCandidateProject e who c mapped = (\<lambda>(k, s).
     let pid = ca_canonical_project_id c; now = env_now e in
     case projectRow (a_core s) pid of
       None \<Rightarrow>
         bindE (mapErrE mapErr (onCore (sqlInsertProject \<lparr>p_id = pid, p_name = ca_name c, p_status = ''active'',
                  p_purpose = nativePurpose, p_milestone = '''', p_now_text = '''', p_revision = 1,
                  p_created_at = now, p_updated_at = now\<rparr>) s)) (\<lambda>s.
         bindE (mapErrE mapErr (onCore (sqlInsertTopic \<lparr>tp_id = pid, tp_project_id = Some pid,
                  tp_name = ca_name c, tp_created_at = now\<rparr>) s)) (\<lambda>s.
         bindE (onCore (insertCoreChange pid 1 ''project_created'' pid (ca_name c) now) s) (\<lambda>s.
         bindE (onCore (insertCoreActivity (newID e k ''A-'') ''project_updated'' pid who pid (ca_name c)
                  ''created'' now) s) (\<lambda>s. Inr (True, Suc k, s)))))
     | Some _ \<Rightarrow>
         if mapped = '''' \<and> \<not> ca_from_configured_root c then Inl ErrConflict
         else (case find (\<lambda>t. tp_id t = pid) (topics (a_core s)) of
                 Some t \<Rightarrow> if tp_project_id t = Some pid then Inr (False, k, s) else Inl ErrConflict
               | None \<Rightarrow> Inl ErrConflict))"

definition queuedJob :: "arch_lib \<Rightarrow> time \<Rightarrow> gostring \<Rightarrow> gostring \<Rightarrow> candidate_row \<Rightarrow> job_row" where
  "queuedJob L at sid bid c =
     \<lparr>nj_id = deterministicHistoricalID L ''ARJ-'' [bid, ca_id c], nj_batch_id = bid,
      nj_session_id = sid, nj_candidate_id = ca_id c, nj_project_id = ca_canonical_project_id c,
      nj_project_name = ca_name c, nj_state = J_queued, nj_thread_id = '''',
      nj_codex_session_id = '''', nj_turn_id = '''', nj_phase_label = '''',
      nj_sources_examined = 0, nj_duration_ms = None, nj_report_digest = None,
      nj_error_code = '''', nj_created_at = at, nj_started_at = None,
      nj_reported_at = None, nj_terminal_at = None, nj_updated_at = at\<rparr>"

definition queueCandidate ::
  "arch_lib \<Rightarrow> env \<Rightarrow> gostring \<Rightarrow> gostring \<Rightarrow> gostring \<Rightarrow> candidate_row \<Rightarrow> nat \<times> arch \<Rightarrow> go_error + (nat \<times> arch)" where
  "queueCandidate L e who sid bid c = (\<lambda>(k, s).
     let pid = ca_canonical_project_id c; at = env_now e;
         mapped = (case find (\<lambda>r. cj_session_id r = sid \<and> cj_candidate_id r = ca_id c) (a_candidate_projects s) of
                     None \<Rightarrow> '''' | Some r \<Rightarrow> cj_project_id r);
         found = hasRow (\<lambda>r. cj_session_id r = sid \<and> cj_candidate_id r = ca_id c) (a_candidate_projects s) in
     if found \<and> mapped \<noteq> pid then Inl ErrConflict
     else bindE (ensureCandidateProject e who c mapped (k, s)) (\<lambda>(created, k, s).
          bindE (if mapped = '''' then mapErrE mapErr (sqlInsertCandidateProject
                   \<lparr>cj_session_id = sid, cj_candidate_id = ca_id c, cj_project_id = pid,
                    cj_mapped_by_principal = who, cj_purpose = nativePurpose,
                    cj_created_project = created, cj_mapped_at = at\<rparr> s) else Inr s) (\<lambda>s.
          bindE (mapErrE mapErr (sqlInsertJob (queuedJob L at sid bid c) s)) (\<lambda>s.
          Inr (k, s)))))"

definition queueTx ::
  "arch_lib \<Rightarrow> env \<Rightarrow> ArchaeologyNativeBatchRequest \<Rightarrow> arch \<Rightarrow> go_error + unit \<times> arch" where
  "queueTx L e cmd s =
     bindE (mapErrE mapErr (someE (sessionOf s (nb_Principal cmd)) SqlNoRows)) (\<lambda>ses.
     let sid = ss_id ses; policy = sessionPolicy ses; maximum = ss_max_concurrency ses in
     bindE (requireE (Limits policy \<noteq> None) ErrInvalid) (\<lambda>_.
     let digest = lib_digest L ''native_start''
           (NativeStart (nb_BaseRevision cmd) policy maximum (nb_AcknowledgeLargeBatch cmd));
         legacy = lib_digest L ''native_start'' (NativeStartLegacy (nb_BaseRevision cmd)) in
     case find (\<lambda>b. ba_session_id b = sid \<and> ba_request_key b = nb_RequestID cmd) (a_batches s) of
       Some b \<Rightarrow>
         if ba_request_digest b \<noteq> digest \<and> ba_request_digest b \<noteq> legacy then Inl ErrConflict else Inr ((), s)
     | None \<Rightarrow>
       bindE (requireE (ss_state ses = S_draft \<and> ss_revision ses = nb_BaseRevision cmd) ErrConflict) (\<lambda>_.
       let selected = selectedCandidates s sid in
       bindE (requireE (list_all selectableCandidate selected) ErrInvalid) (\<lambda>_.
       bindE (requireE (1 \<le> length selected \<and> length selected \<le> ArchaeologyNativeMaxProjects) ErrInvalid) (\<lambda>_.
       bindE (requireE (\<not> (length selected > 5 \<and> \<not> nb_AcknowledgeLargeBatch cmd)) ErrInvalid) (\<lambda>_.
       let bid = deterministicHistoricalID L ''ARB-'' [sid, nb_RequestID cmd]; at = env_now e in
       bindE (mapErrE mapErr (sqlInsertBatch
          \<lparr>ba_id = bid, ba_session_id = sid, ba_request_key = nb_RequestID cmd, ba_request_digest = digest,
           ba_state = B_queued, ba_max_concurrency = maximum, ba_policy = policy, ba_policy_attested = True,
           ba_large_batch_acknowledged_at = (if length selected > 5 then Some at else None),
           ba_large_batch_acknowledged_by = (if length selected > 5 then nb_Principal cmd else ''''),
           ba_created_at = at, ba_updated_at = at\<rparr> s)) (\<lambda>s.
       bindE (foldE (queueCandidate L e (nb_Principal cmd) sid bid) selected (0, s)) (\<lambda>(_, s).
       Inr ((), updSessions (\<lambda>r. ss_id r = sid) (nextRevision S_running at) s)))))))))"

definition QueueArchaeologyNativeBatch ::
  "arch_lib \<Rightarrow> env \<Rightarrow> ArchaeologyNativeBatchRequest \<Rightarrow> arch \<Rightarrow> (unit \<times> session_row) outcome" where
  "QueueArchaeologyNativeBatch L e cmd s =
     (if \<not> boundedCoreText (nb_Principal cmd) 200 True \<or> \<not> boundedCoreText (nb_RequestID cmd) 200 True
      then (Inl ErrInvalid, s)
      else thenRead (nb_Principal cmd) (inTx (queueTx L e cmd) s))"

section \<open>Claiming a job\<close>

definition claimableJobs :: "arch \<Rightarrow> (job_row \<times> batch_row) list" where
  "claimableJobs s =
     (if hasRow (\<lambda>u. nj_state u = J_uncertain) (a_jobs s) \<or>
         hasRow (\<lambda>p. in_state p \<in> {I_pending, I_leased, I_blocked}) (a_intents s) then []
      else [(j, b). j \<leftarrow> a_jobs s, b \<leftarrow> a_batches s, ba_id b = nj_batch_id j,
              nj_state j = J_queued, ba_state b \<in> {B_queued, B_running}, ba_policy_attested b])"

definition claimOrder :: "job_row \<times> batch_row \<Rightarrow> (int \<times> gostring) \<times> (int \<times> gostring) \<times> gostring" where
  "claimOrder p = (stampKey (ba_created_at (snd p)), stampKey (nj_created_at (fst p)), nj_id (fst p))"

definition startJob :: "time \<Rightarrow> job_row \<Rightarrow> job_row" where
  "startJob now r = r\<lparr>nj_state := J_starting, nj_started_at := Some now, nj_updated_at := now\<rparr>"

definition claimJobTx :: "env \<Rightarrow> arch \<Rightarrow> go_error + job_row \<times> arch" where
  "claimJobTx e s =
     (case sort_key claimOrder (claimableJobs s) of
        [] \<Rightarrow> Inl ErrConflict
      | (j, b) # _ \<Rightarrow>
          let now = env_now e; p = (\<lambda>r. nj_id r = nj_id j \<and> nj_state r = J_queued) in
          bindE (requireE (changedOne p s) ErrConflict) (\<lambda>_.
          Inr (startJob now j, updBatches (\<lambda>r. ba_id r = nj_batch_id j)
                      (\<lambda>r. r\<lparr>ba_state := B_running, ba_updated_at := now\<rparr>) (updJobs p (startJob now) s))))"

definition ClaimArchaeologyNativeJob :: "env \<Rightarrow> arch \<Rightarrow> job_row outcome" where
  "ClaimArchaeologyNativeJob e s = inTx (claimJobTx e) s"

section \<open>Binding an identity\<close>

definition sameOrUnset :: "gostring \<Rightarrow> gostring \<Rightarrow> bool" where
  "sameOrUnset current value \<longleftrightarrow> current = '''' \<or> current = value"

definition bindTarget :: "job_state set \<Rightarrow> gostring \<Rightarrow> gostring \<Rightarrow> gostring \<Rightarrow> gostring \<Rightarrow> job_row \<Rightarrow> bool" where
  "bindTarget states jobID thread session turn r \<longleftrightarrow>
     nj_id r = jobID \<and> nj_state r \<in> states \<and> sameOrUnset (nj_thread_id r) thread \<and>
     sameOrUnset (nj_codex_session_id r) session \<and> sameOrUnset (nj_turn_id r) turn"

definition bindTo :: "gostring \<Rightarrow> gostring \<Rightarrow> gostring \<Rightarrow> gostring \<Rightarrow> time \<Rightarrow> job_row \<Rightarrow> job_row" where
  "bindTo thread session turn label now r =
     r\<lparr>nj_thread_id := thread, nj_codex_session_id := session, nj_turn_id := turn,
       nj_phase_label := label, nj_updated_at := now\<rparr>"

definition BindArchaeologyNativeIdentity ::
  "env \<Rightarrow> gostring \<Rightarrow> gostring \<Rightarrow> gostring \<Rightarrow> gostring \<Rightarrow> arch \<Rightarrow> arch \<Rightarrow> unit outcome" where
  "BindArchaeologyNativeIdentity e jobID thread session turn snap s =
     (if \<not> boundedCoreText jobID 120 True \<or> \<not> boundedCoreText thread 120 True \<or>
         \<not> boundedCoreText session 120 True \<or> \<not> boundedCoreText turn 120 True then (Inl ErrInvalid, s)
      else case jobRow snap jobID of
        None \<Rightarrow> (Inl ErrNotFound, s)
      | Some j \<Rightarrow>
          if \<not> sameOrUnset (nj_thread_id j) thread \<or> \<not> sameOrUnset (nj_codex_session_id j) session \<or>
             \<not> sameOrUnset (nj_turn_id j) turn then (Inl ErrConflict, s)
          else if nj_thread_id j = thread \<and> nj_codex_session_id j = session \<and> nj_turn_id j = turn then (Inr (), s)
          else if nj_state j \<noteq> J_starting \<and> nj_state j \<noteq> J_uncertain then (Inl ErrConflict, s)
          else let p = bindTarget {J_starting, J_uncertain} jobID thread session turn in
            (case mapErrE mapErr (sqlBindJobs p
                   (bindTo thread session turn ''Codex identity durably bound'' (env_now e)) s) of
               Inl err \<Rightarrow> (Inl err, s)
             | Inr t \<Rightarrow> if changedOne p s then (Inr (), t) else (Inl ErrConflict, t)))"

definition ActivateArchaeologyNativeJob ::
  "env \<Rightarrow> gostring \<Rightarrow> gostring \<Rightarrow> gostring \<Rightarrow> arch \<Rightarrow> arch \<Rightarrow> unit outcome" where
  "ActivateArchaeologyNativeJob e jobID thread turn snap s =
     (if \<not> boundedCoreText jobID 120 True \<or> \<not> boundedCoreText thread 120 True \<or>
         \<not> boundedCoreText turn 120 True then (Inl ErrInvalid, s)
      else case jobRow snap jobID of
        None \<Rightarrow> (Inl ErrNotFound, s)
      | Some j \<Rightarrow>
          if \<not> sameOrUnset (nj_thread_id j) thread \<or> \<not> sameOrUnset (nj_turn_id j) turn then (Inl ErrConflict, s)
          else if nj_state j = J_active \<and> nj_thread_id j = thread \<and> nj_turn_id j = turn then (Inr (), s)
          else if nj_state j \<noteq> J_starting then (Inl ErrConflict, s)
          else let p = (\<lambda>r. nj_id r = jobID \<and> nj_thread_id r = thread \<and> nj_turn_id r = turn \<and> nj_state r = J_starting);
                   t = updJobs p (\<lambda>r. r\<lparr>nj_state := J_active, nj_phase_label := ''Visible in Codex'',
                                         nj_updated_at := env_now e\<rparr>) s in
            if changedOne p s then (Inr (), t) else (Inl ErrConflict, t))"

text \<open>
  \<^verbatim>\<open>BindArchaeologyNativeJob\<close>: other writers may run between the four accesses, so the states
  that the two reads and the second update see are arguments.
\<close>

definition BindArchaeologyNativeJob ::
  "env \<Rightarrow> env \<Rightarrow> gostring \<Rightarrow> gostring \<Rightarrow> gostring \<Rightarrow> gostring \<Rightarrow> arch \<Rightarrow> arch \<Rightarrow> arch \<Rightarrow> (arch \<Rightarrow> arch) \<Rightarrow> unit outcome" where
  "BindArchaeologyNativeJob e e' jobID thread session turn snap s snap' others =
     (case BindArchaeologyNativeIdentity e jobID thread session turn snap s of
        (Inl err, t) \<Rightarrow> (Inl err, t)
      | (Inr _, t) \<Rightarrow> ActivateArchaeologyNativeJob e' jobID thread turn snap' (others t))"

definition BindArchaeologyNativeUncertainty ::
  "env \<Rightarrow> gostring \<Rightarrow> ArchaeologyLaunchResult \<Rightarrow> arch \<Rightarrow> unit outcome" where
  "BindArchaeologyNativeUncertainty e jobID launch s =
     (let thread = lr_ThreadID launch; session = lr_CodexSessionID launch; turn = lr_TurnID launch in
      if \<not> boundedCoreText jobID 120 True \<or> \<not> boundedCoreText thread 120 True \<or>
         \<not> boundedCoreText session 120 True \<or> \<not> boundedCoreText turn 120 True then (Inl ErrInvalid, s)
      else let p = bindTarget {J_uncertain} jobID thread session turn in
        (case mapErrE mapErr (sqlBindJobs p
                (bindTo thread session turn ''Recovered exact Codex task identity'' (env_now e)) s) of
           Inl err \<Rightarrow> (Inl err, s)
         | Inr t \<Rightarrow> if changedOne p s then (Inr (), t) else (Inl ErrConflict, t)))"

section \<open>Failing a start\<close>

definition openJob :: "job_state \<Rightarrow> bool" where
  "openJob st \<longleftrightarrow> st \<in> {J_queued, J_starting, J_active, J_report_ready, J_cancel_requested}"

definition failedJob :: "job_state \<Rightarrow> bool" where
  "failedJob st \<longleftrightarrow> st \<in> {J_failed, J_interrupted, J_attention}"

definition batchCount :: "(job_state \<Rightarrow> bool) \<Rightarrow> gostring \<Rightarrow> arch \<Rightarrow> nat" where
  "batchCount p bid s = countWhere (\<lambda>r. nj_batch_id r = bid \<and> p (nj_state r)) (a_jobs s)"

definition stageLabels :: "gostring \<Rightarrow> gostring" where
  "stageLabels stage =
     (if stage = ''thread_effective'' then ''Codex launch uncertain at thread policy check''
      else if stage = ''name_set'' then ''Codex launch uncertain while naming task''
      else if stage = ''thread_read'' then ''Codex launch uncertain at task identity check''
      else if stage = ''turn_start'' then ''Codex launch uncertain while starting turn''
      else if stage = ''settings_wait'' then ''Codex launch uncertain awaiting turn settings''
      else if stage = ''settings_exact'' then ''Codex launch uncertain at turn policy check''
      else if stage = ''visibility'' then ''Codex launch uncertain at task visibility check''
      else '''')"

definition orElse :: "gostring \<Rightarrow> gostring \<Rightarrow> gostring" where
  "orElse current value = (if current = '''' then value else current)"

definition identityClash :: "job_row \<Rightarrow> ArchaeologyLaunchResult \<Rightarrow> bool" where
  "identityClash j launch \<longleftrightarrow>
     nj_thread_id j \<noteq> '''' \<and> lr_ThreadID launch \<noteq> '''' \<and> nj_thread_id j \<noteq> lr_ThreadID launch \<or>
     nj_codex_session_id j \<noteq> '''' \<and> lr_CodexSessionID launch \<noteq> '''' \<and>
       nj_codex_session_id j \<noteq> lr_CodexSessionID launch \<or>
     nj_turn_id j \<noteq> '''' \<and> lr_TurnID launch \<noteq> '''' \<and> nj_turn_id j \<noteq> lr_TurnID launch"

definition needsIdentity :: "job_row \<Rightarrow> ArchaeologyLaunchResult \<Rightarrow> bool" where
  "needsIdentity j launch \<longleftrightarrow>
     lr_ThreadID launch \<noteq> '''' \<and> nj_thread_id j = '''' \<or>
     lr_CodexSessionID launch \<noteq> '''' \<and> nj_codex_session_id j = '''' \<or>
     lr_TurnID launch \<noteq> '''' \<and> nj_turn_id j = ''''"

definition failStartRow ::
  "job_row \<Rightarrow> ArchaeologyLaunchResult \<Rightarrow> bool \<Rightarrow> time \<Rightarrow> job_row \<Rightarrow> job_row" where
  "failStartRow j launch uncertain now r =
     (let thread = orElse (nj_thread_id j) (lr_ThreadID launch) in
      r\<lparr>nj_state := (if uncertain then J_uncertain else J_failed),
        nj_thread_id := thread,
        nj_codex_session_id := orElse (nj_codex_session_id j) (lr_CodexSessionID launch),
        nj_turn_id := orElse (nj_turn_id j) (lr_TurnID launch),
        nj_phase_label :=
          (if stageLabels (lr_Error launch) \<noteq> '''' then stageLabels (lr_Error launch)
           else if thread \<noteq> '''' then ''Codex task identity retained for review'' else ''''),
        nj_error_code :=
          (if nj_state j = J_uncertain \<and> nj_error_code j \<noteq> '''' then nj_error_code j
           else if uncertain then ''codex_acceptance_uncertain'' else ''codex_start_failed''),
        nj_terminal_at := coalesce (nj_terminal_at r) now, nj_updated_at := now\<rparr>)"

definition failStartSettle :: "job_row \<Rightarrow> time \<Rightarrow> arch \<Rightarrow> arch" where
  "failStartSettle j now s =
     (let bid = nj_batch_id j; remaining = batchCount openJob bid s;
          attention = batchCount failedJob bid s; uncertainCount = batchCount (\<lambda>st. st = J_uncertain) bid s;
          batchState = (if uncertainCount > 0 \<or> remaining = 0 \<and> attention > 0 then B_attention
                        else if remaining = 0 then B_completed else B_running);
          s = updBatches (\<lambda>b. ba_id b = bid) (\<lambda>b. b\<lparr>ba_state := batchState, ba_updated_at := now\<rparr>) s in
      if (batchState = B_completed \<or> batchState = B_attention) \<and> uncertainCount = 0
      then updSessions (\<lambda>r. ss_id r = nj_session_id j) (nextRevision S_draft now) s else s)"

definition failStartTx ::
  "env \<Rightarrow> gostring \<Rightarrow> ArchaeologyLaunchResult \<Rightarrow> bool \<Rightarrow> arch \<Rightarrow> go_error + unit \<times> arch" where
  "failStartTx e jobID launch uncertain s =
     (let now = env_now e in
      bindE (mapErrE mapErr (someE (jobRow s jobID) SqlNoRows)) (\<lambda>j.
      if identityClash j launch then Inl ErrConflict
      else if nj_state j = J_uncertain \<and> \<not> uncertain then Inl ErrConflict
      else if nj_state j = J_uncertain \<and> \<not> needsIdentity j launch then Inr ((), s)
      else if nj_state j = J_failed \<and> \<not> uncertain \<and> nj_error_code j = ''codex_start_failed'' then Inr ((), s)
      else if nj_state j \<noteq> J_starting \<and> nj_state j \<noteq> J_uncertain then Inl ErrConflict
      else bindE (mapErrE mapErr (sqlBindJobs (\<lambda>r. nj_id r = jobID) (failStartRow j launch uncertain now) s)) (\<lambda>s.
           Inr ((), failStartSettle j now s))))"

definition FailArchaeologyNativeStart ::
  "env \<Rightarrow> gostring \<Rightarrow> ArchaeologyLaunchResult \<Rightarrow> bool \<Rightarrow> arch \<Rightarrow> unit outcome" where
  "FailArchaeologyNativeStart e jobID launch uncertain s =
     (let ok = (\<lambda>v. v = '''' \<or> boundedCoreText v 120 True) in
      if \<not> boundedCoreText jobID 120 True \<or> \<not> ok (lr_ThreadID launch) \<or> \<not> ok (lr_CodexSessionID launch) \<or>
         \<not> ok (lr_TurnID launch) then (Inl ErrInvalid, s)
      else inTx (failStartTx e jobID launch
             (uncertain \<or> lr_ThreadID launch \<noteq> '''' \<or> lr_CodexSessionID launch \<noteq> '''' \<or> lr_TurnID launch \<noteq> '''')) s)"

section \<open>Progress and report\<close>

definition activeJobAt :: "gostring \<Rightarrow> gostring \<Rightarrow> gostring \<Rightarrow> job_row \<Rightarrow> bool" where
  "activeJobAt jobID thread turn r \<longleftrightarrow> nj_id r = jobID \<and> nj_thread_id r = thread \<and> nj_turn_id r = turn"

definition jobWithBatch :: "gostring \<Rightarrow> gostring \<Rightarrow> gostring \<Rightarrow> arch \<Rightarrow> (job_row \<times> batch_row) option" where
  "jobWithBatch jobID thread turn s =
     (case find (activeJobAt jobID thread turn) (a_jobs s) of
        None \<Rightarrow> None
      | Some j \<Rightarrow> map_option (Pair j) (batchRow s (nj_batch_id j)))"

definition UpdateArchaeologyNativeProgress ::
  "env \<Rightarrow> ArchaeologyNativeProgress \<Rightarrow> arch \<Rightarrow> arch \<Rightarrow> unit outcome" where
  "UpdateArchaeologyNativeProgress e p snap s =
     (if \<not> boundedCoreText (ng_JobID p) 120 True \<or> \<not> boundedCoreText (ng_ThreadID p) 120 True \<or>
         \<not> boundedCoreText (ng_TurnID p) 120 True \<or> \<not> boundedCoreText (ng_PhaseLabel p) 120 True \<or>
         ng_SourcesExamined p < 0 \<or> ng_SourcesExamined p > 10000 then (Inl ErrInvalid, s)
      else case jobWithBatch (ng_JobID p) (ng_ThreadID p) (ng_TurnID p) snap of
        None \<Rightarrow> (Inl ErrNotFound, s)
      | Some (j, b) \<Rightarrow>
          if nj_state j \<noteq> J_active \<or> \<not> ba_policy_attested b then (Inl ErrConflict, s)
          else (case Limits (ba_policy b) of
            None \<Rightarrow> (Inl ErrInvalid, s)
          | Some limits \<Rightarrow>
              if ng_SourcesExamined p > lim_MaxSourcesExamined limits then (Inl ErrInvalid, s)
              else let q = (\<lambda>r. activeJobAt (ng_JobID p) (ng_ThreadID p) (ng_TurnID p) r \<and> nj_state r = J_active);
                       t = updJobs q (\<lambda>r. r\<lparr>nj_phase_label := ng_PhaseLabel p,
                             nj_sources_examined := ng_SourcesExamined p, nj_updated_at := env_now e\<rparr>) s in
                if changedOne q s then (Inr (), t) else (Inl ErrConflict, t)))"

definition insertOutcome ::
  "arch_lib \<Rightarrow> gostring \<Rightarrow> gostring \<Rightarrow> time \<Rightarrow> nat \<times> ArchaeologyOutcome \<Rightarrow> arch \<Rightarrow> go_error + arch" where
  "insertOutcome L jobID digest now = (\<lambda>(index, oc) s.
     let oid = deterministicHistoricalID L ''ARON-'' [jobID, digest, itoa index] in
     bindE (mapErrE mapErr (sqlInsertOutcome \<lparr>no_id = oid, no_job_id = jobID, no_project_id = oc_ProjectID oc,
        no_title = oc_Title oc, no_summary = oc_Summary oc, no_source_count = oc_SourceCount oc,
        no_proposal_json = oc_ProposalJSON oc, no_created_at = now\<rparr> s)) (\<lambda>s.
     bindE (foldE (\<lambda>(position, source) s. mapErrE mapErr (sqlInsertProvenance
        \<lparr>nv_outcome_id = oid, nv_position = position, nv_source = source\<rparr> s))
        (enumerate 0 (oc_Provenance oc)) s) (\<lambda>s.
     foldE (\<lambda>member s. mapErrE mapErr (sqlInsertContributor \<lparr>nc_outcome_id = oid, nc_member = member\<rparr> s))
        (oc_Contributors oc) s)))"

definition reportRow :: "gostring \<Rightarrow> time \<Rightarrow> job_row \<Rightarrow> job_row" where
  "reportRow digest now r =
     r\<lparr>nj_state := J_report_ready, nj_report_digest := Some digest, nj_reported_at := Some now,
       nj_phase_label := ''Report ready for human review'', nj_updated_at := now\<rparr>"

definition reportTx ::
  "arch_lib \<Rightarrow> env \<Rightarrow> ArchaeologyNativeReport \<Rightarrow> arch \<Rightarrow> go_error + unit \<times> arch" where
  "reportTx L e cmd s =
     (let now = env_now e in
      case jobWithBatch (rp_JobID cmd) (rp_ThreadID cmd) (rp_TurnID cmd) s of
        None \<Rightarrow> Inl ErrNotFound
      | Some (j, b) \<Rightarrow>
          if \<not> ba_policy_attested b then Inl ErrNotFound
          else (case Limits (ba_policy b) of
            None \<Rightarrow> Inl ErrInvalid
          | Some limits \<Rightarrow>
              if length (rp_Outcomes cmd) > lim_MaxOutcomes limits then Inl ErrInvalid
              else if \<not> list_all (\<lambda>oc. validNativeOutcome (lib_json L) oc (ba_policy b) limits now \<and>
                        oc_ProjectID oc = nj_project_id j) (rp_Outcomes cmd) then Inl ErrInvalid
              else (case nj_report_digest j of
                Some prior \<Rightarrow> if prior \<noteq> rp_Digest cmd then Inl ErrConflict else Inr ((), s)
              | None \<Rightarrow>
                  if nj_state j \<noteq> J_active then Inl ErrConflict
                  else bindE (foldE (insertOutcome L (rp_JobID cmd) (rp_Digest cmd) now)
                                (enumerate 0 (rp_Outcomes cmd)) s) (\<lambda>s.
                    Inr ((), updSessions (\<lambda>r. ss_id r = nj_session_id j)
                          (\<lambda>r. r\<lparr>ss_revision := ss_revision r + 1, ss_updated_at := now\<rparr>)
                        (updBatches (\<lambda>r. ba_id r = nj_batch_id j) (\<lambda>r. r\<lparr>ba_updated_at := now\<rparr>)
                        (updJobs (\<lambda>r. nj_id r = rp_JobID cmd) (reportRow (rp_Digest cmd) now) s)))))))"

definition ReportArchaeologyNativeJob ::
  "arch_lib \<Rightarrow> env \<Rightarrow> ArchaeologyNativeReport \<Rightarrow> arch \<Rightarrow> unit outcome" where
  "ReportArchaeologyNativeJob L e cmd s =
     (if \<not> boundedCoreText (rp_JobID cmd) 120 True \<or> \<not> boundedCoreText (rp_ThreadID cmd) 120 True \<or>
         \<not> boundedCoreText (rp_TurnID cmd) 120 True \<or> rp_Digest cmd = replicate 32 (CHR 0x00) \<or>
         length (rp_Outcomes cmd) < 1 \<or> length (rp_Outcomes cmd) > 20 then (Inl ErrInvalid, s)
      else inTx (reportTx L e cmd) s)"

section \<open>The end of a turn\<close>

definition terminalState :: "gostring \<Rightarrow> job_state" where
  "terminalState status =
     (if status = ''completed'' then J_completed
      else if status = ''interrupted'' then J_interrupted else J_failed)"

definition completeRow :: "job_row \<Rightarrow> ArchaeologyNativeTerminal \<Rightarrow> time \<Rightarrow> job_row \<Rightarrow> job_row" where
  "completeRow j terminal now r =
     (let reported = (nj_report_digest j \<noteq> None);
          (next, code) =
            (if nt_Status terminal = ''interrupted'' then (J_interrupted, ''codex_turn_interrupted'')
             else if nt_Status terminal = ''completed'' \<and> reported then (J_completed, '''')
             else if nt_Status terminal = ''completed'' then (J_attention, ''completed_without_report'')
             else (J_failed, ''codex_turn_failed''))
      in r\<lparr>nj_state := next, nj_error_code := code, nj_duration_ms := nt_DurationMS terminal,
           nj_terminal_at := Some now, nj_updated_at := now\<rparr>)"

definition completeSettle :: "job_row \<Rightarrow> batch_row \<Rightarrow> time \<Rightarrow> arch \<Rightarrow> arch" where
  "completeSettle j b now s =
     (let bid = nj_batch_id j; remaining = batchCount openJob bid s;
          attention = batchCount failedJob bid s; uncertain = batchCount (\<lambda>st. st = J_uncertain) bid s;
          batchState =
            (if uncertain > 0 then B_attention
             else if remaining = 0 then
               (if ba_state b = B_cancel_requested then B_canceled
                else if attention > 0 then B_attention else B_completed)
             else if ba_state b = B_cancel_requested then B_cancel_requested else B_running);
          s = updBatches (\<lambda>r. ba_id r = bid) (\<lambda>r. r\<lparr>ba_state := batchState, ba_updated_at := now\<rparr>) s in
      if batchState \<in> {B_completed, B_canceled, B_attention} \<and> uncertain = 0
      then updSessions (\<lambda>r. ss_id r = nj_session_id j) (nextRevision S_draft now) s else s)"

definition completeTx :: "env \<Rightarrow> ArchaeologyNativeTerminal \<Rightarrow> arch \<Rightarrow> go_error + unit \<times> arch" where
  "completeTx e terminal s =
     (let now = env_now e in
      case jobWithBatch (nt_JobID terminal) (nt_ThreadID terminal) (nt_TurnID terminal) s of
        None \<Rightarrow> Inl ErrNotFound
      | Some (j, b) \<Rightarrow>
          if nj_state j \<in> {J_completed, J_failed, J_interrupted, J_attention} then
            (let expected = (if nt_Status terminal = ''completed'' \<and> nj_report_digest j = None then J_attention
                             else terminalState (nt_Status terminal)) in
             if nj_state j = expected \<and> nt_DurationMS terminal = nj_duration_ms j then Inr ((), s)
             else Inl ErrConflict)
          else
            let p = (\<lambda>r. activeJobAt (nt_JobID terminal) (nt_ThreadID terminal) (nt_TurnID terminal) r \<and>
                         nj_state r = nj_state j) in
            bindE (requireE (changedOne p s) ErrConflict) (\<lambda>_.
            Inr ((), completeSettle j b now (updJobs p (completeRow j terminal now) s))))"

definition CompleteArchaeologyNativeTurn ::
  "env \<Rightarrow> ArchaeologyNativeTerminal \<Rightarrow> arch \<Rightarrow> unit outcome" where
  "CompleteArchaeologyNativeTurn e terminal s =
     (if \<not> boundedCoreText (nt_JobID terminal) 120 True \<or> \<not> boundedCoreText (nt_ThreadID terminal) 120 True \<or>
         \<not> boundedCoreText (nt_TurnID terminal) 120 True \<or>
         (nt_Status terminal \<noteq> ''completed'' \<and> nt_Status terminal \<noteq> ''interrupted'' \<and> nt_Status terminal \<noteq> ''failed'') \<or>
         (case nt_DurationMS terminal of None \<Rightarrow> False | Some d \<Rightarrow> d < 0 \<or> d > 604800000)
      then (Inl ErrInvalid, s)
      else inTx (completeTx e terminal) s)"

definition loseRow :: "time \<Rightarrow> job_row \<Rightarrow> job_row" where
  "loseRow now r =
     (if nj_state r = J_uncertain then r\<lparr>nj_error_code := ''codex_process_unavailable'', nj_updated_at := now\<rparr>
      else r\<lparr>nj_state := J_uncertain, nj_error_code := ''codex_process_unavailable'',
             nj_terminal_at := Some now, nj_updated_at := now\<rparr>)"

definition loseTx :: "env \<Rightarrow> gostring \<Rightarrow> gostring \<Rightarrow> gostring \<Rightarrow> arch \<Rightarrow> go_error + unit \<times> arch" where
  "loseTx e jobID thread turn s =
     (let now = env_now e in
      bindE (mapErrE mapErr (someE (jobRow s jobID) SqlNoRows)) (\<lambda>j.
      let exact = (nj_thread_id j = thread \<and> nj_turn_id j = turn) in
      if \<not> sameOrUnset (nj_thread_id j) thread \<or> \<not> sameOrUnset (nj_turn_id j) turn then Inl ErrConflict
      else if nj_state j = J_uncertain \<and> nj_error_code j = ''codex_process_unavailable'' \<and> exact then Inr ((), s)
      else
        let states = (if nj_state j = J_uncertain \<and> exact then {J_uncertain}
                      else {J_active, J_report_ready, J_cancel_requested});
            p = (\<lambda>r. activeJobAt jobID thread turn r \<and> nj_state r \<in> states) in
        bindE (requireE (changedOne p s) ErrConflict) (\<lambda>_.
        Inr ((), updBatches (\<lambda>r. ba_id r = nj_batch_id j)
               (\<lambda>r. r\<lparr>ba_state := B_attention, ba_updated_at := now\<rparr>) (updJobs p (loseRow now) s)))))"

definition LoseArchaeologyNativeTurn ::
  "env \<Rightarrow> gostring \<Rightarrow> gostring \<Rightarrow> gostring \<Rightarrow> arch \<Rightarrow> unit outcome" where
  "LoseArchaeologyNativeTurn e jobID thread turn s =
     (if \<not> boundedCoreText jobID 120 True \<or> \<not> boundedCoreText thread 120 True \<or> \<not> boundedCoreText turn 120 True
      then (Inl ErrInvalid, s) else inTx (loseTx e jobID thread turn) s)"

section \<open>Resolving uncertainty\<close>

definition interruptJob :: "gostring \<Rightarrow> time \<Rightarrow> job_row \<Rightarrow> job_row" where
  "interruptJob code now r =
     r\<lparr>nj_state := J_interrupted, nj_error_code := code,
       nj_terminal_at := coalesce (nj_terminal_at r) now, nj_updated_at := now\<rparr>"

definition resolveSettle :: "gostring \<Rightarrow> gostring \<Rightarrow> time \<Rightarrow> arch \<Rightarrow> arch" where
  "resolveSettle sid bid now s =
     (if batchCount (\<lambda>st. st = J_uncertain) bid s = 0 then
        updSessions (\<lambda>r. ss_id r = sid) (nextRevision S_draft now)
       (updBatches (\<lambda>r. ba_id r = bid \<and> ba_state r = B_attention)
          (\<lambda>r. r\<lparr>ba_state := B_canceled, ba_updated_at := now\<rparr>)
       (updJobs (\<lambda>r. nj_batch_id r = bid \<and> nj_state r = J_queued)
          (interruptJob ''batch_abandoned_after_reconciliation'' now) s))
      else s)"

definition resolveTx ::
  "arch_lib \<Rightarrow> env \<Rightarrow> ArchaeologyNativeResolution \<Rightarrow> arch \<Rightarrow> go_error + unit \<times> arch" where
  "resolveTx L e cmd s =
     bindE (mapErrE mapErr (someE (sessionOf s (nr_Principal cmd)) SqlNoRows)) (\<lambda>ses.
     let sid = ss_id ses;
         digest = lib_digest L ''native_resolve''
           (NativeResolve (nr_BaseRevision cmd) (nr_JobID cmd) (nr_ThreadID cmd) (nr_TurnID cmd) (nr_Resolution cmd)) in
     case find (\<lambda>r. re_session_id r = sid \<and> re_request_key r = nr_RequestID cmd) (a_resolutions s) of
       Some r \<Rightarrow> if re_request_digest r \<noteq> digest then Inl ErrConflict else Inr ((), s)
     | None \<Rightarrow>
       bindE (requireE (ss_revision ses = nr_BaseRevision cmd) ErrConflict) (\<lambda>_.
       bindE (mapErrE mapErr (someE (find (\<lambda>r. nj_id r = nr_JobID cmd \<and> nj_session_id r = sid) (a_jobs s)) SqlNoRows)) (\<lambda>j.
       if nj_state j \<noteq> J_uncertain \<or> nj_thread_id j = '''' \<or> nj_turn_id j = '''' \<or>
          nj_thread_id j \<noteq> nr_ThreadID cmd \<or> nj_turn_id j \<noteq> nr_TurnID cmd then Inl ErrConflict
       else if countWhere (\<lambda>r. nj_batch_id r = nj_batch_id j \<and> nj_id r \<noteq> nr_JobID cmd \<and>
                 nj_state r \<in> {J_starting, J_active, J_report_ready, J_cancel_requested}) (a_jobs s) \<noteq> 0
       then Inl ErrConflict
       else
         let now = env_now e; bid = nj_batch_id j in
         bindE (mapErrE mapErr (sqlInsertResolution
           \<lparr>re_id = deterministicHistoricalID L ''ARR-'' [sid, nr_RequestID cmd], re_session_id = sid,
            re_job_id = nr_JobID cmd, re_principal = nr_Principal cmd, re_request_key = nr_RequestID cmd,
            re_request_digest = digest, re_resolution = nr_Resolution cmd, re_thread_id = nr_ThreadID cmd,
            re_turn_id = nr_TurnID cmd, re_created_at = now\<rparr> s)) (\<lambda>s.
         Inr ((), resolveSettle sid bid now
           (updJobs (\<lambda>r. nj_id r = nr_JobID cmd \<and> nj_state r = J_uncertain)
              (interruptJob ''human_confirmed_stopped'' now) s))))))"

definition ResolveArchaeologyNativeUncertainty ::
  "arch_lib \<Rightarrow> env \<Rightarrow> ArchaeologyNativeResolution \<Rightarrow> arch \<Rightarrow> (unit \<times> session_row) outcome" where
  "ResolveArchaeologyNativeUncertainty L e cmd s =
     (if \<not> boundedCoreText (nr_Principal cmd) 200 True \<or> \<not> boundedCoreText (nr_RequestID cmd) 200 True \<or>
         \<not> boundedCoreText (nr_JobID cmd) 120 True \<or> \<not> boundedCoreText (nr_ThreadID cmd) 120 True \<or>
         \<not> boundedCoreText (nr_TurnID cmd) 120 True \<or> nr_Resolution cmd \<noteq> ''confirmed_stopped'' \<or>
         nr_BaseRevision cmd < 0 then (Inl ErrInvalid, s)
      else thenRead (nr_Principal cmd) (inTx (resolveTx L e cmd) s))"

section \<open>Cancelling and restarting\<close>

definition liveJob :: "job_state \<Rightarrow> bool" where
  "liveJob st \<longleftrightarrow> st \<in> {J_starting, J_active, J_report_ready, J_cancel_requested, J_uncertain}"

definition cancelJobs :: "gostring \<Rightarrow> time \<Rightarrow> arch \<Rightarrow> arch" where
  "cancelJobs sid now s =
     updJobs (\<lambda>r. nj_session_id r = sid \<and> nj_state r = J_starting)
       (\<lambda>r. r\<lparr>nj_state := J_uncertain, nj_error_code := ''canceled_during_ambiguous_start'', nj_updated_at := now\<rparr>)
    (updJobs (\<lambda>r. nj_session_id r = sid \<and> nj_state r \<in> {J_active, J_report_ready, J_cancel_requested})
       (\<lambda>r. r\<lparr>nj_state := J_cancel_requested, nj_error_code := ''human_cancel_requested'', nj_updated_at := now\<rparr>)
    (updJobs (\<lambda>r. nj_session_id r = sid \<and> nj_state r = J_queued)
       (\<lambda>r. r\<lparr>nj_state := J_interrupted, nj_error_code := ''canceled_before_start'',
             nj_terminal_at := Some now, nj_updated_at := now\<rparr>) s))"

definition cancelSettle :: "gostring \<Rightarrow> time \<Rightarrow> arch \<Rightarrow> arch" where
  "cancelSettle sid now s =
     (let live = countWhere (\<lambda>r. nj_session_id r = sid \<and> liveJob (nj_state r)) (a_jobs s) in
      updSessions (\<lambda>r. ss_id r = sid) (nextRevision (if live = 0 then S_draft else S_cancel_requested) now)
     (updBatches (\<lambda>r. ba_session_id r = sid \<and> ba_state r \<in> {B_queued, B_running})
        (\<lambda>r. r\<lparr>ba_state := (if live = 0 then B_canceled else B_cancel_requested), ba_updated_at := now\<rparr>) s))"

definition cancelTx ::
  "arch_lib \<Rightarrow> env \<Rightarrow> gostring \<Rightarrow> gostring \<Rightarrow> int \<Rightarrow> arch \<Rightarrow> go_error + job_row list \<times> arch" where
  "cancelTx L e who requestID baseRevision s =
     bindE (mapErrE mapErr (someE (sessionOf s who) SqlNoRows)) (\<lambda>ses.
     let sid = ss_id ses in
     bindE (claimArchaeologyRequest who requestID ''native_cancel'' sid
              (lib_digest L ''native_cancel'' (RevisionOnly baseRevision)) (env_clock e 0) s) (\<lambda>(replay, s).
     if replay then Inr ([], s)
     else bindE (requireE (ss_revision ses = baseRevision \<and> ss_state ses = S_running) ErrConflict) (\<lambda>_.
       let s = cancelSettle sid (env_clock e 1) (cancelJobs sid (env_clock e 1) s) in
       Inr (sort_key nj_id (filter (\<lambda>r. nj_session_id r = sid \<and> nj_state r = J_cancel_requested) (a_jobs s)), s))))"

definition CancelArchaeologyNativeBatch ::
  "arch_lib \<Rightarrow> env \<Rightarrow> gostring \<Rightarrow> gostring \<Rightarrow> int \<Rightarrow> arch \<Rightarrow> (job_row list \<times> session_row) outcome" where
  "CancelArchaeologyNativeBatch L e who requestID baseRevision s =
     (if \<not> boundedCoreText who 200 True \<or> \<not> boundedCoreText requestID 200 True then (Inl ErrInvalid, s)
      else thenRead who (inTx (cancelTx L e who requestID baseRevision) s))"

definition updRuns :: "(run_row \<Rightarrow> bool) \<Rightarrow> (run_row \<Rightarrow> run_row) \<Rightarrow> arch \<Rightarrow> arch" where
  "updRuns p f s = s\<lparr>a_runs := updWhere p f (a_runs s)\<rparr>"

definition updLaunches :: "(launch_row \<Rightarrow> bool) \<Rightarrow> (launch_row \<Rightarrow> launch_row) \<Rightarrow> arch \<Rightarrow> arch" where
  "updLaunches p f s = s\<lparr>a_launches := updWhere p f (a_launches s)\<rparr>"

definition reconcileJobs :: "time \<Rightarrow> arch \<Rightarrow> arch" where
  "reconcileJobs now s =
     updJobs (\<lambda>r. nj_state r \<in> {J_starting, J_active, J_report_ready})
       (\<lambda>r. r\<lparr>nj_state := J_uncertain, nj_error_code := ''server_restarted_during_active_task'',
             nj_terminal_at := Some now, nj_updated_at := now\<rparr>)
    (updJobs (\<lambda>r. nj_state r = J_cancel_requested)
       (interruptJob ''server_restarted_after_cancel_request'' now) s)"

definition unfinishedJob :: "job_state \<Rightarrow> bool" where
  "unfinishedJob st \<longleftrightarrow> openJob st \<or> st = J_uncertain"

definition hasBatch :: "(batch_state \<Rightarrow> bool) \<Rightarrow> gostring \<Rightarrow> arch \<Rightarrow> bool" where
  "hasBatch p sid s = hasRow (\<lambda>b. ba_session_id b = sid \<and> p (ba_state b)) (a_batches s)"

definition ReconcileArchaeology :: "env \<Rightarrow> arch \<Rightarrow> arch" where
  "ReconcileArchaeology e s =
     (let now = env_now e;
          s = updRuns (\<lambda>r. ru_state r \<in> {R_running, R_pause_requested})
                (\<lambda>r. r\<lparr>ru_state := R_paused, ru_phase_label := ''Paused after server restart'', ru_updated_at := now\<rparr>) s;
          s = updRuns (\<lambda>r. ru_state r = R_cancel_requested)
                (\<lambda>r. r\<lparr>ru_state := R_canceled, ru_phase_label := ''Canceled'', ru_updated_at := now\<rparr>) s;
          s = updSessions (\<lambda>r. ss_state r \<in> {S_running, S_pause_requested}) (nextRevision S_paused now) s;
          s = updLaunches (\<lambda>r. la_state r = L_starting_codex)
                (\<lambda>r. r\<lparr>la_state := L_uncertain,
                      la_error := ''Server restarted before Codex task creation was confirmed.'',
                      la_updated_at := now\<rparr>) s;
          s = reconcileJobs now s;
          s = updBatches (\<lambda>b. ba_state b = B_cancel_requested \<and> batchCount unfinishedJob (ba_id b) s = 0)
                (\<lambda>b. b\<lparr>ba_state := B_canceled, ba_updated_at := now\<rparr>) s;
          s = updSessions (\<lambda>r. ss_state r = S_cancel_requested \<and> hasBatch (\<lambda>st. st = B_canceled) (ss_id r) s \<and>
                  \<not> hasBatch (\<lambda>st. st \<in> {B_queued, B_running, B_cancel_requested, B_attention}) (ss_id r) s)
                (nextRevision S_draft now) s;
          s = updSessions (\<lambda>r. ss_state r = S_cancel_requested \<and> \<not> hasBatch (\<lambda>_. True) (ss_id r) s)
                (nextRevision S_canceled now) s
      in updBatches (\<lambda>b. hasRow (\<lambda>j. nj_batch_id j = ba_id b \<and> nj_state j = J_uncertain) (a_jobs s))
           (\<lambda>b. b\<lparr>ba_state := B_attention, ba_updated_at := now\<rparr>) s)"

end
