(* ===== verification/Archaeology_Persistence.thy ===== *)
theory Archaeology_Persistence
  imports Archaeology_Native "HOL-Library.Option_ord"
begin

text \<open>
  The ledger of repository writes, \<^verbatim>\<open>src/internal/store/project_archaeology_persistence.go\<close>:
  before the scheduler records what happened to a native job it commits an intent; the
  intent is leased, the write is made, and the intent is acknowledged, superseded, blocked
  or scheduled again.

  A call reads and writes the database several times, and other writers may run in
  between. What they do before the \<open>k\<close>-th access of a call is the argument \<open>w k\<close>, a function
  on the state; a transaction is one access. JSON and SHA-256 are the argument \<open>P\<close>.
\<close>

section \<open>Constants and time stamps\<close>

definition archaeologyPersistenceMaxAttempts :: int where
  "archaeologyPersistenceMaxAttempts = 8"

definition archaeologyPersistenceMaxRows :: int where
  "archaeologyPersistenceMaxRows = 32"

definition archaeologyPersistenceLease :: duration where
  "archaeologyPersistenceLease = 30 * 1000000000"

definition archaeologyPersistenceRetryBase :: duration where
  "archaeologyPersistenceRetryBase = 100 * 1000000"

definition archaeologyPersistenceRetryMax :: duration where
  "archaeologyPersistenceRetryMax = 30 * 1000000000"

text \<open>
  The fixed-width text of a time: date and time to the second, and then always nine digits.
  As in \<^const>\<open>stampKey\<close>, the part up to the second is represented by its number, since it
  has a fixed width; statements compare stamps as text.
\<close>

definition archaeologyPersistenceStamp :: "time \<Rightarrow> int \<times> gostring" where
  "archaeologyPersistenceStamp t =
     (t div 1000000000, CHR ''.'' # fracDigits (nat (t mod 1000000000)) @ ''Z'')"

definition stampedBy :: "time option \<Rightarrow> time \<Rightarrow> bool" where
  "stampedBy column now \<longleftrightarrow>
     (case column of None \<Rightarrow> False | Some t \<Rightarrow> archaeologyPersistenceStamp t \<le> archaeologyPersistenceStamp now)"

section \<open>Intents and payloads\<close>

abbreviation op_fail_start :: gostring where "op_fail_start \<equiv> ''fail_start''"
abbreviation op_bind_identity :: gostring where "op_bind_identity \<equiv> ''bind_identity''"
abbreviation op_activate :: gostring where "op_activate \<equiv> ''activate''"
abbreviation op_lose_turn :: gostring where "op_lose_turn \<equiv> ''lose_turn''"
abbreviation op_complete_turn :: gostring where "op_complete_turn \<equiv> ''complete_turn''"

record ArchaeologyNativePersistenceIntent =
  pi_JobID :: gostring
  pi_Operation :: gostring
  pi_Launch :: ArchaeologyLaunchResult
  pi_Uncertain :: bool
  pi_ThreadID :: gostring
  pi_CodexSessionID :: gostring
  pi_TurnID :: gostring
  pi_Status :: gostring
  pi_DurationMS :: "int option"

record archaeologyNativeFailStartPayload =
  fp_Launch :: ArchaeologyLaunchResult
  fp_Uncertain :: bool

record archaeologyNativeIdentityPayload =
  ip_ThreadID :: gostring
  ip_CodexSessionID :: gostring
  ip_TurnID :: gostring

record archaeologyNativeTurnPayload =
  tp_ThreadID :: gostring
  tp_TurnID :: gostring

record archaeologyNativeCompletePayload =
  cp_ThreadID :: gostring
  cp_TurnID :: gostring
  cp_Status :: gostring
  cp_DurationMS :: "int option"

datatype persistence_payload =
    FailStartPayload archaeologyNativeFailStartPayload
  | IdentityPayload archaeologyNativeIdentityPayload
  | TurnPayload archaeologyNativeTurnPayload
  | CompletePayload archaeologyNativeCompletePayload

text \<open>\<^verbatim>\<open>json.Marshal\<close> and \<^verbatim>\<open>json.Unmarshal\<close> on the four closed structs, and SHA-256.\<close>

record persistence_lib =
  pl_marshal :: "persistence_payload \<Rightarrow> gostring"
  pl_failStart :: "gostring \<Rightarrow> archaeologyNativeFailStartPayload option"
  pl_identity :: "gostring \<Rightarrow> archaeologyNativeIdentityPayload option"
  pl_turn :: "gostring \<Rightarrow> archaeologyNativeTurnPayload option"
  pl_complete :: "gostring \<Rightarrow> archaeologyNativeCompletePayload option"
  pl_sha256 :: "gostring \<Rightarrow> gostring"

definition validatePersistenceLaunch :: "ArchaeologyLaunchResult \<Rightarrow> bool" where
  "validatePersistenceLaunch launch \<longleftrightarrow>
     boundedCoreText (lr_LaunchID launch) 200 False \<and> boundedCoreText (lr_ProjectID launch) 200 False \<and>
     boundedCoreText (lr_State launch) 120 False \<and> boundedCoreText (lr_ThreadID launch) 120 False \<and>
     boundedCoreText (lr_CodexSessionID launch) 120 False \<and> boundedCoreText (lr_TurnID launch) 120 False \<and>
     boundedCoreText (lr_Error launch) 200 False"

definition emptyLaunch :: ArchaeologyLaunchResult where
  "emptyLaunch = \<lparr>lr_LaunchID = '''', lr_ProjectID = '''', lr_State = '''', lr_ThreadID = '''',
     lr_CodexSessionID = '''', lr_TurnID = '''', lr_Error = ''''\<rparr>"

definition emptyPersistenceLaunch :: "ArchaeologyLaunchResult \<Rightarrow> bool" where
  "emptyPersistenceLaunch launch \<longleftrightarrow> launch = emptyLaunch"

definition validPersistenceDuration :: "int option \<Rightarrow> bool" where
  "validPersistenceDuration d \<longleftrightarrow> (case d of None \<Rightarrow> True | Some v \<Rightarrow> 0 \<le> v \<and> v \<le> 604800000)"

definition persistencePayload :: "ArchaeologyNativePersistenceIntent \<Rightarrow> go_error + persistence_payload" where
  "persistencePayload i =
     (let opn = pi_Operation i;
          bare = (emptyPersistenceLaunch (pi_Launch i) \<and> \<not> pi_Uncertain i \<and> pi_Status i = '''' \<and> pi_DurationMS i = None) in
      if opn = op_fail_start then
        (if \<not> validatePersistenceLaunch (pi_Launch i) \<or> \<not> boundedCoreText (pi_ThreadID i) 120 False \<or>
            \<not> boundedCoreText (pi_CodexSessionID i) 120 False \<or> \<not> boundedCoreText (pi_TurnID i) 120 False \<or>
            \<not> boundedCoreText (pi_Status i) 120 False \<or> \<not> validPersistenceDuration (pi_DurationMS i) then Inl ErrInvalid
         else if pi_ThreadID i \<noteq> '''' \<or> pi_CodexSessionID i \<noteq> '''' \<or> pi_TurnID i \<noteq> '''' \<or>
            pi_Status i \<noteq> '''' \<or> pi_DurationMS i \<noteq> None then Inl ErrInvalid
         else Inr (FailStartPayload \<lparr>fp_Launch = pi_Launch i, fp_Uncertain = pi_Uncertain i\<rparr>))
      else if opn = op_bind_identity then
        (if \<not> boundedCoreText (pi_ThreadID i) 120 True \<or> \<not> boundedCoreText (pi_CodexSessionID i) 120 True \<or>
            \<not> boundedCoreText (pi_TurnID i) 120 True \<or> \<not> bare then Inl ErrInvalid
         else Inr (IdentityPayload \<lparr>ip_ThreadID = pi_ThreadID i, ip_CodexSessionID = pi_CodexSessionID i,
                                    ip_TurnID = pi_TurnID i\<rparr>))
      else if opn = op_activate \<or> opn = op_lose_turn then
        (if \<not> boundedCoreText (pi_ThreadID i) 120 True \<or> \<not> boundedCoreText (pi_TurnID i) 120 True \<or>
            pi_CodexSessionID i \<noteq> '''' \<or> \<not> bare then Inl ErrInvalid
         else Inr (TurnPayload \<lparr>tp_ThreadID = pi_ThreadID i, tp_TurnID = pi_TurnID i\<rparr>))
      else if opn = op_complete_turn then
        (if \<not> boundedCoreText (pi_ThreadID i) 120 True \<or> \<not> boundedCoreText (pi_TurnID i) 120 True \<or>
            \<not> boundedCoreText (pi_Status i) 32 True \<or>
            (pi_Status i \<noteq> ''completed'' \<and> pi_Status i \<noteq> ''interrupted'' \<and> pi_Status i \<noteq> ''failed'') \<or>
            \<not> validPersistenceDuration (pi_DurationMS i) \<or> pi_CodexSessionID i \<noteq> '''' \<or>
            \<not> emptyPersistenceLaunch (pi_Launch i) \<or> pi_Uncertain i then Inl ErrInvalid
         else Inr (CompletePayload \<lparr>cp_ThreadID = pi_ThreadID i, cp_TurnID = pi_TurnID i,
                                    cp_Status = pi_Status i, cp_DurationMS = pi_DurationMS i\<rparr>))
      else Inl ErrInvalid)"

text \<open>The operation, the stored bytes and their digest.\<close>

definition canonicalArchaeologyNativePersistence ::
  "persistence_lib \<Rightarrow> ArchaeologyNativePersistenceIntent \<Rightarrow> go_error + gostring \<times> gostring \<times> gostring" where
  "canonicalArchaeologyNativePersistence P i =
     (if \<not> boundedCoreText (pi_JobID i) 120 True then Inl ErrInvalid
      else bindE (persistencePayload i) (\<lambda>payload.
           let payloadJSON = pl_marshal P payload in
           Inr (pi_Operation i, payloadJSON, pl_sha256 P payloadJSON)))"

definition decodeArchaeologyPersistenceIntent ::
  "persistence_lib \<Rightarrow> intent_row \<Rightarrow> go_error + ArchaeologyNativePersistenceIntent" where
  "decodeArchaeologyPersistenceIntent P row =
     (let opn = in_operation row; json = in_payload_json row;
          intent = \<lparr>pi_JobID = in_job_id row, pi_Operation = opn, pi_Launch = emptyLaunch, pi_Uncertain = False,
                    pi_ThreadID = '''', pi_CodexSessionID = '''', pi_TurnID = '''', pi_Status = '''',
                    pi_DurationMS = None\<rparr> in
      if opn = op_fail_start then
        bindE (someE (pl_failStart P json) ErrInvalid) (\<lambda>p.
        Inr (intent\<lparr>pi_Launch := fp_Launch p, pi_Uncertain := fp_Uncertain p\<rparr>))
      else if opn = op_bind_identity then
        bindE (someE (pl_identity P json) ErrInvalid) (\<lambda>p.
        Inr (intent\<lparr>pi_ThreadID := ip_ThreadID p, pi_CodexSessionID := ip_CodexSessionID p, pi_TurnID := ip_TurnID p\<rparr>))
      else if opn = op_activate \<or> opn = op_lose_turn then
        bindE (someE (pl_turn P json) ErrInvalid) (\<lambda>p.
        Inr (intent\<lparr>pi_ThreadID := tp_ThreadID p, pi_TurnID := tp_TurnID p\<rparr>))
      else if opn = op_complete_turn then
        bindE (someE (pl_complete P json) ErrInvalid) (\<lambda>p.
        Inr (intent\<lparr>pi_ThreadID := cp_ThreadID p, pi_TurnID := cp_TurnID p, pi_Status := cp_Status p,
                    pi_DurationMS := cp_DurationMS p\<rparr>))
      else Inl ErrInvalid)"

section \<open>Writing an intent\<close>

record ArchaeologyNativePersistenceIntentRecord =
  pr_ID :: gostring
  pr_JobID :: gostring
  pr_Operation :: gostring
  pr_PayloadDigest :: gostring
  pr_State :: intent_state
  pr_Attempts :: int
  pr_NextAttemptAt :: "time option"
  pr_LeaseOwner :: gostring
  pr_LeaseExpiresAt :: "time option"
  pr_LastErrorCode :: gostring
  pr_AppliedAt :: "time option"
  pr_CreatedAt :: time
  pr_UpdatedAt :: time

definition persistenceRecordFromRow :: "intent_row \<Rightarrow> ArchaeologyNativePersistenceIntentRecord" where
  "persistenceRecordFromRow row =
     \<lparr>pr_ID = in_id row, pr_JobID = in_job_id row, pr_Operation = in_operation row,
      pr_PayloadDigest = in_payload_digest row, pr_State = in_state row, pr_Attempts = in_attempts row,
      pr_NextAttemptAt = in_next_attempt_at row, pr_LeaseOwner = in_lease_owner row,
      pr_LeaseExpiresAt = in_lease_expires_at row, pr_LastErrorCode = in_last_error_code row,
      pr_AppliedAt = in_applied_at row, pr_CreatedAt = in_created_at row, pr_UpdatedAt = in_updated_at row\<rparr>"

definition intentRow :: "arch \<Rightarrow> gostring \<Rightarrow> intent_row option" where
  "intentRow s k = find (\<lambda>r. in_id r = k) (a_intents s)"

definition updIntents :: "(intent_row \<Rightarrow> bool) \<Rightarrow> (intent_row \<Rightarrow> intent_row) \<Rightarrow> arch \<Rightarrow> arch" where
  "updIntents p f s = s\<lparr>a_intents := updWhere p f (a_intents s)\<rparr>"

definition changedIntents :: "(intent_row \<Rightarrow> bool) \<Rightarrow> arch \<Rightarrow> nat" where
  "changedIntents p s = countWhere p (a_intents s)"

text \<open>
  The primary key, the unique pair of job and operation, and the reference to the job. The
  other checks of the table repeat what the code has established: the operation is one of
  the five, the digest has 32 bytes, the payload is JSON of bounded length.
\<close>

definition sqlInsertIntent :: "intent_row \<Rightarrow> arch \<Rightarrow> go_error + arch" where
  "sqlInsertIntent r s =
     checked (\<not> hasRow (\<lambda>q. in_id q = in_id r \<or>
                 in_job_id q = in_job_id r \<and> in_operation q = in_operation r) (a_intents s) \<and>
              hasRow (\<lambda>j. nj_id j = in_job_id r) (a_jobs s))
       (s\<lparr>a_intents := a_intents s @ [r]\<rparr>)"

definition pendingIntent ::
  "gostring \<Rightarrow> gostring \<Rightarrow> gostring \<Rightarrow> gostring \<Rightarrow> gostring \<Rightarrow> time \<Rightarrow> intent_row" where
  "pendingIntent k jobID operation digest payload now =
     \<lparr>in_id = k, in_job_id = jobID, in_operation = operation, in_payload_digest = digest,
      in_payload_json = payload, in_state = I_pending, in_attempts = 0, in_next_attempt_at = Some now,
      in_lease_owner = '''', in_lease_expires_at = None, in_last_error_code = '''', in_applied_at = None,
      in_created_at = now, in_updated_at = now\<rparr>"

definition EnsureArchaeologyNativePersistenceIntent ::
  "arch_lib \<Rightarrow> persistence_lib \<Rightarrow> env \<Rightarrow> (nat \<Rightarrow> arch \<Rightarrow> arch) \<Rightarrow> ArchaeologyNativePersistenceIntent \<Rightarrow> arch \<Rightarrow>
   ArchaeologyNativePersistenceIntentRecord outcome" where
  "EnsureArchaeologyNativePersistenceIntent L P e w intent s =
     (case canonicalArchaeologyNativePersistence P intent of
        Inl err \<Rightarrow> (Inl err, s)
      | Inr (operation, payload, digest) \<Rightarrow>
          let now = env_now e; s = w 0 s in
          (case find (\<lambda>r. in_job_id r = pi_JobID intent \<and> in_operation r = operation) (a_intents s) of
             Some row \<Rightarrow>
               if in_payload_digest row \<noteq> digest \<or> in_payload_json row \<noteq> payload then (Inl ErrConflict, s)
               else (Inr (persistenceRecordFromRow row), s)
           | None \<Rightarrow>
               let k = deterministicHistoricalID L ''ARPI-'' [pi_JobID intent, operation];
                   r = pendingIntent k (pi_JobID intent) operation digest payload now; s = w 1 s in
               (case sqlInsertIntent r s of
                  Inr t \<Rightarrow> (Inr (persistenceRecordFromRow r), t)
                | Inl err \<Rightarrow>
                    if mapErr err = ErrConflict then
                      let s = w 2 s in
                      (case intentRow s k of
                         Some prior \<Rightarrow>
                           if in_payload_digest prior = digest \<and> in_payload_json prior = payload
                           then (Inr (persistenceRecordFromRow prior), s) else (Inl (mapErr err), s)
                       | None \<Rightarrow> (Inl (mapErr err), s))
                    else (Inl (mapErr err), s))))"

definition persistenceIntentByID ::
  "gostring \<Rightarrow> arch \<Rightarrow> go_error + ArchaeologyNativePersistenceIntentRecord" where
  "persistenceIntentByID k s =
     (if \<not> boundedCoreText k 200 True then Inl ErrInvalid
      else bindE (mapErrE mapErr (someE (intentRow s k) SqlNoRows)) (\<lambda>row. Inr (persistenceRecordFromRow row)))"

section \<open>The health of the ledger\<close>

record ArchaeologyNativePersistenceStatus =
  ps_Pending :: nat
  ps_Leased :: nat
  ps_Blocked :: nat
  ps_Applied :: nat
  ps_Superseded :: nat
  ps_NextAttemptAt :: "time option"

definition Healthy :: "ArchaeologyNativePersistenceStatus \<Rightarrow> bool" where
  "Healthy st \<longleftrightarrow> ps_Pending st = 0 \<and> ps_Leased st = 0 \<and> ps_Blocked st = 0"

text \<open>\<open>ORDER BY next_attempt_at,created_at,id\<close> on the stored text; NULL sorts first.\<close>

definition stampColumn :: "time option \<Rightarrow> (int \<times> gostring) option" where
  "stampColumn = map_option archaeologyPersistenceStamp"

definition dueOrder :: "intent_row \<Rightarrow> (int \<times> gostring) option \<times> (int \<times> gostring) \<times> gostring" where
  "dueOrder r = (stampColumn (in_next_attempt_at r), archaeologyPersistenceStamp (in_created_at r), in_id r)"

text \<open>The status reads the counts in the state \<open>s\<close> and the next attempt in the state \<open>s'\<close>.\<close>

definition ArchaeologyNativePersistenceStatusOf :: "arch \<Rightarrow> arch \<Rightarrow> ArchaeologyNativePersistenceStatus" where
  "ArchaeologyNativePersistenceStatusOf s s' =
     (let count = (\<lambda>st. countWhere (\<lambda>r. in_state r = st) (a_intents s)) in
      \<lparr>ps_Pending = count I_pending, ps_Leased = count I_leased, ps_Blocked = count I_blocked,
       ps_Applied = count I_applied, ps_Superseded = count I_superseded,
       ps_NextAttemptAt =
         (case sort_key dueOrder (filter (\<lambda>r. in_state r = I_pending) (a_intents s')) of
            [] \<Rightarrow> None | r # _ \<Rightarrow> in_next_attempt_at r)\<rparr>)"

section \<open>Leases\<close>

fun doubleDelay :: "nat \<Rightarrow> duration \<Rightarrow> duration" where
  "doubleDelay 0 delay = delay"
| "doubleDelay (Suc n) delay =
     (if delay < archaeologyPersistenceRetryMax then doubleDelay n (delay * 2) else delay)"

text \<open>\<open>for i := 1; i < attempt && delay < max; i++ { delay *= 2 }\<close> runs at most \<open>attempt - 1\<close> times.\<close>

definition archaeologyPersistenceRetryDelay :: "int \<Rightarrow> duration" where
  "archaeologyPersistenceRetryDelay attempt =
     (let attempt = (if attempt < 1 then 1 else attempt);
          delay = doubleDelay (nat (attempt - 1)) archaeologyPersistenceRetryBase in
      if delay > archaeologyPersistenceRetryMax then archaeologyPersistenceRetryMax else delay)"

definition expiredLease :: "time \<Rightarrow> intent_row \<Rightarrow> bool" where
  "expiredLease now r \<longleftrightarrow> in_state r = I_leased \<and> stampedBy (in_lease_expires_at r) now"

definition expiredOrder :: "intent_row \<Rightarrow> (int \<times> gostring) option \<times> (int \<times> gostring) \<times> gostring" where
  "expiredOrder r = (stampColumn (in_lease_expires_at r), archaeologyPersistenceStamp (in_created_at r), in_id r)"

definition recoverLease :: "time \<Rightarrow> intent_row \<Rightarrow> arch \<Rightarrow> arch" where
  "recoverLease now lease s =
     (let attempts = in_attempts lease + 1;
          p = (\<lambda>r. in_id r = in_id lease \<and> expiredLease now r) in
      if attempts \<ge> archaeologyPersistenceMaxAttempts then
        updIntents p (\<lambda>r. r\<lparr>in_state := I_blocked, in_attempts := archaeologyPersistenceMaxAttempts,
          in_next_attempt_at := None, in_lease_owner := '''', in_lease_expires_at := None,
          in_last_error_code := ''lease_expired'', in_updated_at := now\<rparr>) s
      else
        updIntents p (\<lambda>r. r\<lparr>in_state := I_pending, in_attempts := attempts,
          in_next_attempt_at := Some (now + archaeologyPersistenceRetryDelay attempts),
          in_lease_owner := '''', in_lease_expires_at := None,
          in_last_error_code := ''lease_expired'', in_updated_at := now\<rparr>) s)"

definition recoverExpiredArchaeologyPersistenceLeases :: "time \<Rightarrow> arch \<Rightarrow> arch" where
  "recoverExpiredArchaeologyPersistenceLeases now s =
     fold (recoverLease now) (sort_key expiredOrder (filter (expiredLease now) (a_intents s))) s"

definition dueIntent :: "time \<Rightarrow> intent_row \<Rightarrow> bool" where
  "dueIntent now r \<longleftrightarrow> in_state r = I_pending \<and> in_attempts r < archaeologyPersistenceMaxAttempts \<and>
     stampedBy (in_next_attempt_at r) now"

definition leaseRow :: "gostring \<Rightarrow> time \<Rightarrow> intent_row \<Rightarrow> intent_row" where
  "leaseRow owner now r =
     r\<lparr>in_state := I_leased, in_lease_owner := owner,
       in_lease_expires_at := Some (now + archaeologyPersistenceLease), in_updated_at := now\<rparr>"

fun leaseRows :: "gostring \<Rightarrow> time \<Rightarrow> intent_row list \<Rightarrow> arch \<Rightarrow> intent_row list \<times> arch" where
  "leaseRows owner now [] s = ([], s)"
| "leaseRows owner now (c # cs) s =
     (let p = (\<lambda>r. in_id r = in_id c \<and> dueIntent now r);
          (leased, t) = leaseRows owner now cs (updIntents p (leaseRow owner now) s) in
      (if changedIntents p s = 1 then leaseRow owner now c # leased else leased, t))"

definition leaseDueArchaeologyPersistence :: "env \<Rightarrow> time \<Rightarrow> int \<Rightarrow> arch \<Rightarrow> intent_row list \<times> arch" where
  "leaseDueArchaeologyPersistence e now limit s =
     (if limit < 1 then ([], s)
      else
        let s = updIntents (\<lambda>r. in_state r = I_pending \<and> in_attempts r \<ge> archaeologyPersistenceMaxAttempts \<and>
                  stampedBy (in_next_attempt_at r) now)
                (\<lambda>r. r\<lparr>in_state := I_blocked, in_next_attempt_at := None, in_lease_owner := '''',
                  in_lease_expires_at := None, in_last_error_code := ''max_attempts'', in_updated_at := now\<rparr>) s;
            candidates = take (nat limit) (sort_key dueOrder (filter (dueIntent now) (a_intents s))) in
        if candidates = [] then ([], s)
        else leaseRows (newID e 0 ''ARPI-'') now candidates s)"

section \<open>The repository write and its read-back\<close>

definition applyArchaeologyPersistenceMutation ::
  "env \<Rightarrow> ArchaeologyNativePersistenceIntent \<Rightarrow> arch \<Rightarrow> arch \<Rightarrow> unit outcome" where
  "applyArchaeologyPersistenceMutation e i snap s =
     (let opn = pi_Operation i in
      if opn = op_fail_start then FailArchaeologyNativeStart e (pi_JobID i) (pi_Launch i) (pi_Uncertain i) s
      else if opn = op_bind_identity then
        BindArchaeologyNativeIdentity e (pi_JobID i) (pi_ThreadID i) (pi_CodexSessionID i) (pi_TurnID i) snap s
      else if opn = op_activate then ActivateArchaeologyNativeJob e (pi_JobID i) (pi_ThreadID i) (pi_TurnID i) snap s
      else if opn = op_lose_turn then LoseArchaeologyNativeTurn e (pi_JobID i) (pi_ThreadID i) (pi_TurnID i) s
      else if opn = op_complete_turn then
        CompleteArchaeologyNativeTurn e \<lparr>nt_JobID = pi_JobID i, nt_ThreadID = pi_ThreadID i,
          nt_TurnID = pi_TurnID i, nt_Status = pi_Status i, nt_DurationMS = pi_DurationMS i\<rparr> s
      else (Inl ErrInvalid, s))"

datatype persistenceReadbackOutcome =
    persistenceReadbackRetry | persistenceReadbackApplied | persistenceReadbackSuperseded | persistenceReadbackBlocked

definition persistenceIdentityCompatible :: "gostring \<Rightarrow> gostring \<Rightarrow> bool" where
  "persistenceIdentityCompatible current desired \<longleftrightarrow> current = '''' \<or> desired = '''' \<or> current = desired"

definition persistenceIdentityExact :: "gostring \<Rightarrow> gostring \<Rightarrow> bool" where
  "persistenceIdentityExact current desired \<longleftrightarrow> desired \<noteq> '''' \<and> current = desired"

definition stateText :: "job_state \<Rightarrow> gostring" where
  "stateText st = (case st of
     J_queued \<Rightarrow> ''queued'' | J_starting \<Rightarrow> ''starting'' | J_active \<Rightarrow> ''active'' | J_report_ready \<Rightarrow> ''report_ready''
   | J_cancel_requested \<Rightarrow> ''cancel_requested'' | J_completed \<Rightarrow> ''completed'' | J_failed \<Rightarrow> ''failed''
   | J_interrupted \<Rightarrow> ''interrupted'' | J_uncertain \<Rightarrow> ''uncertain'' | J_attention \<Rightarrow> ''attention'')"

definition classifyFailStart :: "ArchaeologyNativePersistenceIntent \<Rightarrow> job_row \<Rightarrow> persistenceReadbackOutcome" where
  "classifyFailStart i j =
     (let launch = pi_Launch i;
          wantUncertain = (pi_Uncertain i \<or> lr_ThreadID launch \<noteq> '''' \<or> lr_CodexSessionID launch \<noteq> '''' \<or>
                           lr_TurnID launch \<noteq> '''') in
      if nj_state j = J_uncertain \<and> wantUncertain then
        (if persistenceIdentityCompatible (nj_thread_id j) (lr_ThreadID launch) \<and>
            persistenceIdentityCompatible (nj_codex_session_id j) (lr_CodexSessionID launch) \<and>
            persistenceIdentityCompatible (nj_turn_id j) (lr_TurnID launch) \<and>
            (lr_ThreadID launch = '''' \<or> persistenceIdentityExact (nj_thread_id j) (lr_ThreadID launch)) \<and>
            (lr_CodexSessionID launch = '''' \<or> persistenceIdentityExact (nj_codex_session_id j) (lr_CodexSessionID launch)) \<and>
            (lr_TurnID launch = '''' \<or> persistenceIdentityExact (nj_turn_id j) (lr_TurnID launch))
         then persistenceReadbackApplied else persistenceReadbackRetry)
      else if nj_state j = J_failed \<and> \<not> wantUncertain \<and> nj_error_code j = ''codex_start_failed''
      then persistenceReadbackApplied
      else if nj_state j = J_starting then persistenceReadbackRetry else persistenceReadbackSuperseded)"

definition classifyLoseTurn :: "ArchaeologyNativePersistenceIntent \<Rightarrow> job_row \<Rightarrow> persistenceReadbackOutcome" where
  "classifyLoseTurn i j =
     (let exact = (persistenceIdentityExact (nj_thread_id j) (pi_ThreadID i) \<and>
                   persistenceIdentityExact (nj_turn_id j) (pi_TurnID i)) in
      if nj_state j = J_uncertain \<and> nj_error_code j = ''codex_process_unavailable'' \<and> exact
      then persistenceReadbackApplied
      else if nj_state j = J_uncertain \<and> nj_error_code j = ''server_restarted_during_active_task'' \<and> exact
      then persistenceReadbackRetry
      else if nj_state j = J_active \<or> nj_state j = J_report_ready \<or> nj_state j = J_cancel_requested
      then persistenceReadbackRetry else persistenceReadbackSuperseded)"

definition classifyCompleteTurn :: "ArchaeologyNativePersistenceIntent \<Rightarrow> job_row \<Rightarrow> persistenceReadbackOutcome" where
  "classifyCompleteTurn i j =
     (if nj_state j = J_uncertain then persistenceReadbackRetry
      else let wantState = (if pi_Status i = ''completed'' \<and> nj_report_digest j = None then ''attention'' else pi_Status i) in
        if stateText (nj_state j) = wantState \<and> pi_DurationMS i = nj_duration_ms j then persistenceReadbackApplied
        else if nj_state j = J_starting \<or> nj_state j = J_active \<or> nj_state j = J_report_ready \<or>
                nj_state j = J_cancel_requested
        then persistenceReadbackRetry else persistenceReadbackSuperseded)"

definition classifyArchaeologyPersistenceReadback ::
  "ArchaeologyNativePersistenceIntent \<Rightarrow> arch \<Rightarrow> persistenceReadbackOutcome" where
  "classifyArchaeologyPersistenceReadback i s =
     (case jobRow s (pi_JobID i) of
        None \<Rightarrow> persistenceReadbackBlocked
      | Some j \<Rightarrow>
          if \<not> persistenceIdentityCompatible (nj_thread_id j) (pi_ThreadID i) \<or>
             \<not> persistenceIdentityCompatible (nj_turn_id j) (pi_TurnID i) \<or>
             (pi_CodexSessionID i \<noteq> '''' \<and> \<not> persistenceIdentityCompatible (nj_codex_session_id j) (pi_CodexSessionID i))
          then persistenceReadbackBlocked
          else if pi_Operation i = op_bind_identity then
            (if persistenceIdentityExact (nj_thread_id j) (pi_ThreadID i) \<and>
                persistenceIdentityExact (nj_codex_session_id j) (pi_CodexSessionID i) \<and>
                persistenceIdentityExact (nj_turn_id j) (pi_TurnID i) then persistenceReadbackApplied
             else if nj_state j = J_starting \<or> nj_state j = J_uncertain then persistenceReadbackRetry
             else persistenceReadbackSuperseded)
          else if pi_Operation i = op_activate then
            (if nj_state j = J_active \<and> persistenceIdentityExact (nj_thread_id j) (pi_ThreadID i) \<and>
                persistenceIdentityExact (nj_turn_id j) (pi_TurnID i) then persistenceReadbackApplied
             else if nj_state j = J_starting then persistenceReadbackRetry else persistenceReadbackSuperseded)
          else if pi_Operation i = op_fail_start then classifyFailStart i j
          else if pi_Operation i = op_lose_turn then classifyLoseTurn i j
          else if pi_Operation i = op_complete_turn then classifyCompleteTurn i j
          else persistenceReadbackBlocked)"

section \<open>Settling an intent\<close>

definition ownedIntent :: "gostring \<Rightarrow> gostring \<Rightarrow> intent_row \<Rightarrow> bool" where
  "ownedIntent k owner r \<longleftrightarrow> in_id r = k \<and> in_state r = I_leased \<and> in_lease_owner r = owner"

definition appliedRow :: "time \<Rightarrow> intent_row \<Rightarrow> intent_row" where
  "appliedRow now r =
     r\<lparr>in_state := I_applied, in_next_attempt_at := None, in_lease_owner := '''', in_lease_expires_at := None,
       in_last_error_code := '''', in_applied_at := Some now, in_updated_at := now\<rparr>"

definition markArchaeologyPersistenceApplied ::
  "(nat \<Rightarrow> arch \<Rightarrow> arch) \<Rightarrow> gostring \<Rightarrow> gostring \<Rightarrow> time \<Rightarrow> arch \<Rightarrow> unit outcome" where
  "markArchaeologyPersistenceApplied w k owner now s =
     (let s = w 0 s; p = ownedIntent k owner; t = updIntents p (appliedRow now) s in
      if changedIntents p s = 1 then (Inr (), t)
      else let t = w 1 t in
        (case intentRow t k of
           None \<Rightarrow> (Inl (mapErr SqlNoRows), t)
         | Some r \<Rightarrow> if in_state r = I_applied then (Inr (), t) else (Inl ErrConflict, t)))"

definition terminalRow :: "intent_state \<Rightarrow> gostring \<Rightarrow> time \<Rightarrow> intent_row \<Rightarrow> intent_row" where
  "terminalRow st code now r =
     r\<lparr>in_state := st, in_next_attempt_at := None, in_lease_owner := '''', in_lease_expires_at := None,
       in_last_error_code := code, in_applied_at := None, in_updated_at := now\<rparr>"

definition markArchaeologyPersistenceTerminal ::
  "(nat \<Rightarrow> arch \<Rightarrow> arch) \<Rightarrow> gostring \<Rightarrow> gostring \<Rightarrow> intent_state \<Rightarrow> gostring \<Rightarrow> time \<Rightarrow> arch \<Rightarrow> unit outcome" where
  "markArchaeologyPersistenceTerminal w k owner st code now s =
     (if st \<noteq> I_superseded \<and> st \<noteq> I_blocked then (Inl ErrInvalid, s)
      else let s = w 0 s; p = ownedIntent k owner; t = updIntents p (terminalRow st code now) s in
        if changedIntents p s = 1 then (Inr (), t)
        else let t = w 1 t in
          (case intentRow t k of
             None \<Rightarrow> (Inl (mapErr SqlNoRows), t)
           | Some r \<Rightarrow> if in_state r = st then (Inr (), t) else (Inl ErrConflict, t)))"

definition retryRow :: "gostring \<Rightarrow> time \<Rightarrow> time \<Rightarrow> intent_row \<Rightarrow> intent_row" where
  "retryRow code when now r =
     r\<lparr>in_state := I_pending, in_attempts := in_attempts r + 1, in_next_attempt_at := Some when,
       in_lease_owner := '''', in_lease_expires_at := None, in_last_error_code := code,
       in_applied_at := None, in_updated_at := now\<rparr>"

definition exhaustedRow :: "time \<Rightarrow> intent_row \<Rightarrow> intent_row" where
  "exhaustedRow now r =
     r\<lparr>in_state := I_blocked, in_attempts := in_attempts r + 1, in_next_attempt_at := None,
       in_lease_owner := '''', in_lease_expires_at := None, in_last_error_code := ''max_attempts'',
       in_applied_at := None, in_updated_at := now\<rparr>"

definition markArchaeologyPersistenceRetry ::
  "(nat \<Rightarrow> arch \<Rightarrow> arch) \<Rightarrow> gostring \<Rightarrow> gostring \<Rightarrow> gostring \<Rightarrow> int \<Rightarrow> time \<Rightarrow> arch \<Rightarrow> unit outcome" where
  "markArchaeologyPersistenceRetry w k owner code attempts now s =
     (let attempts = (if attempts < 1 then 1 else attempts); expected = attempts - 1; s = w 0 s in
      if attempts \<ge> archaeologyPersistenceMaxAttempts then
        let p = (\<lambda>r. ownedIntent k owner r \<and> in_attempts r = expected \<and>
                     in_attempts r + 1 \<ge> archaeologyPersistenceMaxAttempts \<and>
                     in_attempts r < archaeologyPersistenceMaxAttempts) in
        (if changedIntents p s = 1 then Inr () else Inl ErrConflict, updIntents p (exhaustedRow now) s)
      else
        let when = now + archaeologyPersistenceRetryDelay attempts; code = take 200 code;
            p = (\<lambda>r. ownedIntent k owner r \<and> in_attempts r = expected \<and>
                     in_attempts r + 1 < archaeologyPersistenceMaxAttempts) in
        (if changedIntents p s \<noteq> 1 then Inl ErrConflict else Inr (), updIntents p (retryRow code when now) s))"

definition persistenceErrorCode :: "go_error \<Rightarrow> gostring" where
  "persistenceErrorCode err =
     (if err = ErrUnavailable then ''unavailable'' else if err = ErrConflict then ''conflict''
      else if err = ErrInvalid then ''invalid'' else if err = ErrNotFound then ''not_found''
      else ''repository_error'')"

text \<open>
  The accesses of one row: 0 and 1 are those of the repository write, 2 is the read-back,
  3 and 4 those of the acknowledgement.
\<close>

definition processArchaeologyPersistenceRow ::
  "persistence_lib \<Rightarrow> env \<Rightarrow> (nat \<Rightarrow> arch \<Rightarrow> arch) \<Rightarrow> intent_row \<Rightarrow> gostring \<Rightarrow> time \<Rightarrow> arch \<Rightarrow>
   (persistenceReadbackOutcome \<times> go_error option) \<times> arch" where
  "processArchaeologyPersistenceRow P e w row owner now s =
     (let w' = (\<lambda>k. w (k + 3));
          settle = (\<lambda>out (r, t). ((out, case r of Inl err \<Rightarrow> Some err | Inr _ \<Rightarrow> None), t)) in
      case decodeArchaeologyPersistenceIntent P row of
        Inl _ \<Rightarrow> settle persistenceReadbackBlocked
          (markArchaeologyPersistenceTerminal w' (in_id row) owner I_blocked ''invalid_payload'' now s)
      | Inr intent \<Rightarrow>
          (case applyArchaeologyPersistenceMutation e intent (w 0 s) (w 1 (w 0 s)) of
             (Inr _, s) \<Rightarrow> settle persistenceReadbackApplied (markArchaeologyPersistenceApplied w' (in_id row) owner now s)
           | (Inl err, s) \<Rightarrow>
               let s = (if err = ErrConflict then w 2 s else s);
                   outcome = (if err = ErrConflict then classifyArchaeologyPersistenceReadback intent s
                              else persistenceReadbackRetry) in
               (case outcome of
                  persistenceReadbackApplied \<Rightarrow>
                    settle outcome (markArchaeologyPersistenceApplied w' (in_id row) owner now s)
                | persistenceReadbackSuperseded \<Rightarrow>
                    settle outcome (markArchaeologyPersistenceTerminal w' (in_id row) owner I_superseded ''stale_state'' now s)
                | persistenceReadbackBlocked \<Rightarrow>
                    settle outcome (markArchaeologyPersistenceTerminal w' (in_id row) owner I_blocked ''identity_mismatch'' now s)
                | persistenceReadbackRetry \<Rightarrow>
                    if err = ErrCanceled \<or> err = ErrDeadline then ((persistenceReadbackRetry, Some err), s)
                    else if err = ErrInvalid \<or> err = ErrNotFound then
                      settle persistenceReadbackBlocked (markArchaeologyPersistenceTerminal w' (in_id row) owner I_blocked
                             (persistenceErrorCode err) now s)
                    else settle persistenceReadbackRetry (markArchaeologyPersistenceRetry w' (in_id row) owner
                             (persistenceErrorCode err) (in_attempts row + 1) now s))))"

section \<open>Retrying what is due\<close>

record ArchaeologyNativePersistenceRetryReport =
  rr_Leased :: nat
  rr_Processed :: nat
  rr_Applied :: nat
  rr_Superseded :: nat
  rr_Retried :: nat
  rr_Blocked :: nat

definition countOutcome ::
  "persistenceReadbackOutcome \<Rightarrow> ArchaeologyNativePersistenceRetryReport \<Rightarrow> ArchaeologyNativePersistenceRetryReport" where
  "countOutcome out report =
     (let report = report\<lparr>rr_Processed := rr_Processed report + 1\<rparr> in
      case out of
        persistenceReadbackApplied \<Rightarrow> report\<lparr>rr_Applied := rr_Applied report + 1\<rparr>
      | persistenceReadbackSuperseded \<Rightarrow> report\<lparr>rr_Superseded := rr_Superseded report + 1\<rparr>
      | persistenceReadbackBlocked \<Rightarrow> report\<lparr>rr_Blocked := rr_Blocked report + 1\<rparr>
      | persistenceReadbackRetry \<Rightarrow> report\<lparr>rr_Retried := rr_Retried report + 1\<rparr>)"

text \<open>
  What surrounds a retry: the clock and random values of the call, those of the write of
  each row, and what other writers do before access \<open>k\<close> of the call itself (\<open>wo_others 0 k\<close>)
  and of its \<open>i\<close>-th row (\<open>wo_others (i + 1) k\<close>).
\<close>

record world =
  wo_env :: env
  wo_row_env :: "nat \<Rightarrow> env"
  wo_others :: "nat \<Rightarrow> nat \<Rightarrow> arch \<Rightarrow> arch"

fun processRows ::
  "persistence_lib \<Rightarrow> world \<Rightarrow> nat \<Rightarrow> time \<Rightarrow> intent_row list \<Rightarrow> ArchaeologyNativePersistenceRetryReport \<Rightarrow> arch \<Rightarrow>
   (ArchaeologyNativePersistenceRetryReport \<times> go_error option) \<times> arch" where
  "processRows P wo i now [] report s = ((report, None), s)"
| "processRows P wo i now (row # rows) report s =
     (case processArchaeologyPersistenceRow P (wo_row_env wo i) (wo_others wo (i + 1)) row (in_lease_owner row) now s of
        ((_, Some err), t) \<Rightarrow> ((report, Some err), t)
      | ((out, None), t) \<Rightarrow> processRows P wo (i + 1) now rows (countOutcome out report) t)"

definition retryLimit :: "int list \<Rightarrow> int" where
  "retryLimit limits =
     (let limit = (case limits of [] \<Rightarrow> archaeologyPersistenceMaxRows | l # _ \<Rightarrow> l) in
      if limit \<le> 0 then archaeologyPersistenceMaxRows
      else if limit > archaeologyPersistenceMaxRows then archaeologyPersistenceMaxRows else limit)"

definition RetryArchaeologyNativePersistence ::
  "persistence_lib \<Rightarrow> world \<Rightarrow> int list \<Rightarrow> arch \<Rightarrow>
   (ArchaeologyNativePersistenceRetryReport \<times> go_error option) \<times> arch" where
  "RetryArchaeologyNativePersistence P wo limits s =
     (let now = env_now (wo_env wo);
          s = recoverExpiredArchaeologyPersistenceLeases now (wo_others wo 0 0 s);
          (rows, s) = leaseDueArchaeologyPersistence (wo_env wo) now (retryLimit limits) (wo_others wo 0 1 s) in
      processRows P wo 0 now rows
        \<lparr>rr_Leased = length rows, rr_Processed = 0, rr_Applied = 0, rr_Superseded = 0, rr_Retried = 0, rr_Blocked = 0\<rparr> s)"

section \<open>The synchronous path\<close>

definition leaseOneArchaeologyPersistenceIntent ::
  "env \<Rightarrow> gostring \<Rightarrow> time \<Rightarrow> arch \<Rightarrow> (intent_row \<times> gostring) outcome" where
  "leaseOneArchaeologyPersistenceIntent e k now s =
     (case intentRow s k of
        None \<Rightarrow> (Inl (mapErr SqlNoRows), s)
      | Some row \<Rightarrow>
          if in_state row \<noteq> I_pending then
            (if in_state row = I_leased then (Inl ErrUnavailable, s) else (Inr (row, ''''), s))
          else if in_attempts row \<ge> archaeologyPersistenceMaxAttempts then (Inl ErrConflict, s)
          else if (case in_next_attempt_at row of None \<Rightarrow> True | Some t \<Rightarrow> now < t) then (Inl ErrUnavailable, s)
          else let owner = newID e 0 ''ARPI-'';
                   p = (\<lambda>r. in_id r = k \<and> dueIntent now r \<and> in_attempts r = in_attempts row) in
            if changedIntents p s \<noteq> 1 then (Inl ErrUnavailable, s)
            else (Inr (leaseRow owner now row, owner), updIntents p (leaseRow owner now) s))"

text \<open>\<open>e\<close> serves the call (its second reading of the clock dates the settlement), \<open>em\<close> the write.\<close>

definition ApplyArchaeologyNativePersistenceIntent ::
  "persistence_lib \<Rightarrow> env \<Rightarrow> env \<Rightarrow> (nat \<Rightarrow> arch \<Rightarrow> arch) \<Rightarrow> gostring \<Rightarrow> arch \<Rightarrow> unit outcome" where
  "ApplyArchaeologyNativePersistenceIntent P e em w k s =
     (if \<not> boundedCoreText k 200 True then (Inl ErrInvalid, s)
      else case leaseOneArchaeologyPersistenceIntent e k (env_now e) (w 0 s) of
        (Inl err, s) \<Rightarrow> (Inl err, s)
      | (Inr (row, owner), s) \<Rightarrow>
          if in_state row = I_applied \<or> in_state row = I_superseded then (Inr (), s)
          else if in_state row = I_blocked then (Inl ErrConflict, s)
          else (case processArchaeologyPersistenceRow P em (\<lambda>i. w (i + 1)) row owner (env_clock e 1) s of
              ((_, Some err), s) \<Rightarrow> (Inl err, s)
            | ((_, None), s) \<Rightarrow> (Inr (), s)))"

definition EnsureAndApplyArchaeologyNativePersistence ::
  "arch_lib \<Rightarrow> persistence_lib \<Rightarrow> env \<Rightarrow> env \<Rightarrow> env \<Rightarrow> (nat \<Rightarrow> arch \<Rightarrow> arch) \<Rightarrow> (nat \<Rightarrow> arch \<Rightarrow> arch) \<Rightarrow>
   ArchaeologyNativePersistenceIntent \<Rightarrow> arch \<Rightarrow> ArchaeologyNativePersistenceIntentRecord outcome" where
  "EnsureAndApplyArchaeologyNativePersistence L P e e' em w w' intent s =
     (case EnsureArchaeologyNativePersistenceIntent L P e w intent s of
        (Inl err, s) \<Rightarrow> (Inl err, s)
      | (Inr record, s) \<Rightarrow>
          (case ApplyArchaeologyNativePersistenceIntent P e' em w' (pr_ID record) s of
             (Inl err, s) \<Rightarrow> (Inl err, s)
           | (Inr _, s) \<Rightarrow> let s = w 3 s in (persistenceIntentByID (pr_ID record) s, s)))"

section \<open>Reconciling the ledger\<close>

text \<open>
  One round of the loop: the error to return, \<open>Some None\<close> for success, or \<open>None\<close> to go on.
  The accesses 2 and 3 of the round are the two reads of the status.
\<close>

definition reconcileRound :: "persistence_lib \<Rightarrow> world \<Rightarrow> arch \<Rightarrow> go_error option option \<times> arch" where
  "reconcileRound P wo s =
     (case RetryArchaeologyNativePersistence P wo [archaeologyPersistenceMaxRows] s of
        ((_, Some err), s) \<Rightarrow> (Some (Some err), s)
      | ((_, None), s) \<Rightarrow>
          let s1 = wo_others wo 0 2 s; s2 = wo_others wo 0 3 s1;
              status = ArchaeologyNativePersistenceStatusOf s1 s2 in
          if Healthy status then (Some None, s2)
          else if ps_Pending status = 0 \<and> ps_Leased status > 0 then (Some (Some ErrUnavailable), s2)
          else if ps_Blocked status > 0 then (Some (Some ErrUnavailable), s2)
          else if ps_Pending status > 0 \<and>
                  (case ps_NextAttemptAt status of None \<Rightarrow> False | Some t \<Rightarrow> env_clock (wo_env wo) 1 < t)
          then (Some (Some ErrUnavailable), s2)
          else (None, s2))"

fun reconcileLoop :: "persistence_lib \<Rightarrow> (nat \<Rightarrow> world) \<Rightarrow> nat \<Rightarrow> nat \<Rightarrow> arch \<Rightarrow> unit outcome" where
  "reconcileLoop P wos i 0 s = (Inl ErrUnavailable, s)"
| "reconcileLoop P wos i (Suc n) s =
     (case reconcileRound P (wos i) s of
        (Some (Some err), t) \<Rightarrow> (Inl err, t)
      | (Some None, t) \<Rightarrow> (Inr (), t)
      | (None, t) \<Rightarrow> reconcileLoop P wos (i + 1) n t)"

definition ReconcileArchaeologyNativePersistence ::
  "persistence_lib \<Rightarrow> (nat \<Rightarrow> world) \<Rightarrow> arch \<Rightarrow> unit outcome" where
  "ReconcileArchaeologyNativePersistence P wos s =
     reconcileLoop P wos 0 (nat (archaeologyPersistenceMaxAttempts + 1)) s"

end
