(* ===== verification/Archaeology_Sessions.thy ===== *)
theory Archaeology_Sessions
  imports Archaeology_Native
begin

text \<open>
  The session of a principal, \<^verbatim>\<open>src/internal/store/project_archaeology.go\<close>: the catalogue of
  candidates that a discovery replaces, the configuration with its selection, and the
  legacy transitions, which the code refuses once the session has a native batch.
\<close>

record ArchaeologyMutation =
  am_Principal :: gostring
  am_RequestID :: gostring
  am_BaseRevision :: int
  am_Config :: ArchaeologyConfig

record ArchaeologyCandidate =
  cd_ID :: gostring
  cd_CanonicalProjectID :: gostring
  cd_Name :: gostring
  cd_PathLabel :: gostring
  cd_RepositoryLabel :: gostring
  cd_RelativeCost :: gostring
  cd_PrivacyNote :: gostring
  cd_LastActivityAt :: time
  cd_HasGit :: bool
  cd_HasDocs :: bool
  cd_HasCodexHistory :: bool
  cd_FromCodexMetadata :: bool
  cd_FromConfiguredRoot :: bool
  cd_DurationMinSeconds :: int
  cd_DurationMaxSeconds :: int
  cd_CodexThreadCount :: int

record ArchaeologyDiscovery =
  ad_Candidates :: "ArchaeologyCandidate list"
  ad_SourceRootsScanned :: int
  ad_TasksExamined :: int
  ad_ProjectsGrouped :: int
  ad_Truncated :: bool
  ad_AppServerIdentity :: gostring

section \<open>The session row\<close>

definition archaeologySessionID :: "arch_lib \<Rightarrow> gostring \<Rightarrow> gostring" where
  "archaeologySessionID L who = deterministicHistoricalID L ''AR-'' [who]"

definition newSession :: "arch_lib \<Rightarrow> gostring \<Rightarrow> time \<Rightarrow> session_row" where
  "newSession L who now =
     \<lparr>ss_id = archaeologySessionID L who, ss_principal = who, ss_state = S_draft, ss_discovery_state = ''idle'',
      ss_source_roots_scanned = 0, ss_tasks_examined = 0, ss_projects_grouped = 0,
      ss_catalog_truncated = False, ss_app_server_identity = '''', ss_depth = ''standard'',
      ss_sources = \<lparr>src_Git = True, src_Docs = True, src_CodexHistory = False\<rparr>,
      ss_max_concurrency = 2, ss_revision = 1, ss_discovered_at = None,
      ss_created_at = now, ss_updated_at = now\<rparr>"

definition ensureArchaeologySession ::
  "arch_lib \<Rightarrow> gostring \<Rightarrow> time \<Rightarrow> arch \<Rightarrow> go_error + gostring \<times> arch" where
  "ensureArchaeologySession L who now s =
     (let sid = archaeologySessionID L who in
      if hasRow (\<lambda>r. ss_principal r = who) (a_sessions s) then Inr (sid, s)
      else bindE (mapErrE mapErr (checked (\<not> hasRow (\<lambda>r. ss_id r = sid) (a_sessions s))
        (s\<lparr>a_sessions := a_sessions s @ [newSession L who now]\<rparr>))) (\<lambda>s. Inr (sid, s)))"

section \<open>Discovery\<close>

definition validArchaeologyCandidate :: "ArchaeologyCandidate \<Rightarrow> bool" where
  "validArchaeologyCandidate c \<longleftrightarrow>
     boundedCoreText (cd_ID c) 120 True \<and> projectIDPattern (cd_CanonicalProjectID c) \<and>
     cd_CanonicalProjectID c \<noteq> TopicGeneral \<and> boundedCoreText (cd_Name c) 200 True \<and>
     boundedCoreText (cd_PathLabel c) 300 True \<and> boundedCoreText (cd_RepositoryLabel c) 300 False \<and>
     (cd_RelativeCost c = ''low'' \<or> cd_RelativeCost c = ''medium'' \<or> cd_RelativeCost c = ''high'') \<and>
     cd_DurationMinSeconds c \<ge> 0 \<and> cd_DurationMaxSeconds c \<ge> cd_DurationMinSeconds c \<and>
     cd_DurationMaxSeconds c \<le> 86400 \<and> boundedCoreText (cd_PrivacyNote c) 500 False"

definition defaultCanonical :: "ArchaeologyCandidate \<Rightarrow> ArchaeologyCandidate" where
  "defaultCanonical c =
     (if cd_CanonicalProjectID c = '''' then c\<lparr>cd_CanonicalProjectID := cd_ID c\<rparr> else c)"

definition candidateRow :: "gostring \<Rightarrow> ArchaeologyCandidate \<Rightarrow> candidate_row" where
  "candidateRow sid c =
     \<lparr>ca_session_id = sid, ca_id = cd_ID c, ca_canonical_project_id = cd_CanonicalProjectID c,
      ca_name = cd_Name c, ca_path_label = cd_PathLabel c, ca_repository_label = cd_RepositoryLabel c,
      ca_last_activity_at = (if cd_LastActivityAt c = zeroTime then None else Some (cd_LastActivityAt c)),
      ca_has_git = cd_HasGit c, ca_has_docs = cd_HasDocs c, ca_has_codex_history = cd_HasCodexHistory c,
      ca_duration_min_seconds = cd_DurationMinSeconds c, ca_duration_max_seconds = cd_DurationMaxSeconds c,
      ca_relative_cost = cd_RelativeCost c, ca_privacy_note = cd_PrivacyNote c, ca_selected = False,
      ca_from_codex_metadata = cd_FromCodexMetadata c, ca_from_configured_root = cd_FromConfiguredRoot c,
      ca_codex_thread_count = cd_CodexThreadCount c\<rparr>"

definition threadCountCheck :: "ArchaeologyCandidate \<Rightarrow> bool" where
  "threadCountCheck c \<longleftrightarrow> 0 \<le> cd_CodexThreadCount c \<and> cd_CodexThreadCount c \<le> 1000000"

definition candidateKey :: "gostring \<Rightarrow> gostring \<Rightarrow> candidate_row \<Rightarrow> bool" where
  "candidateKey sid cid r \<longleftrightarrow> ca_session_id r = sid \<and> ca_id r = cid"

definition upsertCandidate :: "gostring \<Rightarrow> ArchaeologyCandidate \<Rightarrow> arch \<Rightarrow> go_error + arch" where
  "upsertCandidate sid c s =
     (let prior = find (candidateKey sid (cd_ID c)) (a_candidates s) in
      if (case prior of None \<Rightarrow> False
          | Some r \<Rightarrow> ca_canonical_project_id r \<noteq> '''' \<and> ca_canonical_project_id r \<noteq> cd_CanonicalProjectID c)
      then Inl ErrConflict
      else mapErrE mapErr (checked (threadCountCheck c)
        (s\<lparr>a_candidates := (case prior of
             None \<Rightarrow> a_candidates s @ [candidateRow sid c]
           | Some _ \<Rightarrow> updWhere (candidateKey sid (cd_ID c)) (\<lambda>_. candidateRow sid c) (a_candidates s))\<rparr>)))"

definition insertCandidate :: "gostring \<Rightarrow> ArchaeologyCandidate \<Rightarrow> arch \<Rightarrow> go_error + arch" where
  "insertCandidate sid c s =
     mapErrE mapErr (checked (threadCountCheck c \<and> \<not> hasRow (candidateKey sid (cd_ID c)) (a_candidates s))
       (s\<lparr>a_candidates := a_candidates s @ [candidateRow sid c]\<rparr>))"

definition referencedSession :: "gostring \<Rightarrow> arch \<Rightarrow> bool" where
  "referencedSession sid s \<longleftrightarrow>
     countWhere (\<lambda>r. ru_session_id r = sid) (a_runs s) + countWhere (\<lambda>r. la_session_id r = sid) (a_launches s) +
     countWhere (\<lambda>r. cj_session_id r = sid) (a_candidate_projects s) +
     countWhere (\<lambda>r. nj_session_id r = sid) (a_jobs s) > 0"

definition retireCandidate :: "candidate_row \<Rightarrow> candidate_row" where
  "retireCandidate r =
     r\<lparr>ca_selected := False, ca_from_codex_metadata := False, ca_from_configured_root := False,
       ca_codex_thread_count := 0,
       ca_privacy_note := ''Retained for historical audit; refresh metadata before selecting.''\<rparr>"

definition replaceCandidates :: "gostring \<Rightarrow> ArchaeologyCandidate list \<Rightarrow> arch \<Rightarrow> go_error + arch" where
  "replaceCandidates sid cs s =
     (if referencedSession sid s
      then foldE (upsertCandidate sid) cs
             (s\<lparr>a_candidates := updWhere (\<lambda>r. ca_session_id r = sid) retireCandidate (a_candidates s)\<rparr>)
      else foldE (insertCandidate sid) cs
             (s\<lparr>a_candidates := filter (\<lambda>r. ca_session_id r \<noteq> sid) (a_candidates s)\<rparr>))"

definition discoveryTx ::
  "arch_lib \<Rightarrow> env \<Rightarrow> ArchaeologyMutation \<Rightarrow> ArchaeologyDiscovery \<Rightarrow> ArchaeologyCandidate list \<Rightarrow> arch \<Rightarrow>
     go_error + unit \<times> arch" where
  "discoveryTx L e m d cs s =
     (let now = env_now e in
      bindE (ensureArchaeologySession L (am_Principal m) now s) (\<lambda>(sid, s).
      bindE (claimArchaeologyRequest (am_Principal m) (am_RequestID m) ''discover'' sid
               (lib_digest L ''discover'' NilPayload) now s) (\<lambda>(replay, s).
      if replay then Inr ((), s)
      else bindE (replaceCandidates sid cs s) (\<lambda>s.
        Inr ((), updSessions (\<lambda>r. ss_id r = sid)
          (\<lambda>r. r\<lparr>ss_discovery_state := ''ready'', ss_source_roots_scanned := ad_SourceRootsScanned d,
                ss_tasks_examined := ad_TasksExamined d, ss_projects_grouped := ad_ProjectsGrouped d,
                ss_catalog_truncated := ad_Truncated d, ss_app_server_identity := ad_AppServerIdentity d,
                ss_discovered_at := Some now, ss_updated_at := now, ss_revision := ss_revision r + 1\<rparr>) s)))))"

definition ReplaceArchaeologyDiscovery ::
  "arch_lib \<Rightarrow> env \<Rightarrow> ArchaeologyMutation \<Rightarrow> ArchaeologyDiscovery \<Rightarrow> arch \<Rightarrow> (unit \<times> session_row) outcome" where
  "ReplaceArchaeologyDiscovery L e m d s =
     (let cs = map defaultCanonical (ad_Candidates d) in
      if am_Principal m = '''' \<or> am_RequestID m = '''' \<or> length (ad_Candidates d) > 10000 \<or>
         ad_SourceRootsScanned d < 0 \<or> ad_SourceRootsScanned d > 100 \<or> ad_TasksExamined d < 0 \<or>
         ad_TasksExamined d > 10000 \<or> ad_ProjectsGrouped d < 0 \<or> ad_ProjectsGrouped d > 10000 \<or>
         length (ad_AppServerIdentity d) > 200 then (Inl ErrInvalid, s)
      else if \<not> list_all validArchaeologyCandidate cs \<or> \<not> distinct (map cd_ID cs) then (Inl ErrInvalid, s)
      else thenRead (am_Principal m) (inTx (discoveryTx L e m d (sort_key cd_ID cs)) s))"

section \<open>Configuration\<close>

definition validArchaeologyConfig :: "ArchaeologyConfig \<Rightarrow> bool" where
  "validArchaeologyConfig c \<longleftrightarrow>
     (cf_Depth c = ''quick'' \<or> cf_Depth c = ''standard'' \<or> cf_Depth c = ''deep'') \<and>
     cf_MaxConcurrency c \<ge> 1 \<and> cf_MaxConcurrency c \<le> 2 \<and>
     (src_Git (cf_Sources c) \<or> src_Docs (cf_Sources c) \<or> src_CodexHistory (cf_Sources c))"

definition sourceCovered :: "ArchaeologySources \<Rightarrow> candidate_row \<Rightarrow> bool" where
  "sourceCovered sr c \<longleftrightarrow>
     src_Git sr \<and> ca_has_git c \<or> src_Docs sr \<and> ca_has_docs c \<or> src_CodexHistory sr \<and> ca_has_codex_history c"

definition configureTx ::
  "arch_lib \<Rightarrow> env \<Rightarrow> ArchaeologyMutation \<Rightarrow> gostring list \<Rightarrow> arch \<Rightarrow> go_error + unit \<times> arch" where
  "configureTx L e m ids s =
     (let now = env_now e; cfg = (am_Config m)\<lparr>cf_SelectedProjectIDs := ids\<rparr> in
      bindE (ensureArchaeologySession L (am_Principal m) now s) (\<lambda>(sid, s).
      bindE (claimArchaeologyRequest (am_Principal m) (am_RequestID m) ''configure'' sid
               (lib_digest L ''configure'' (ConfigurePayload (am_BaseRevision m) cfg)) now s) (\<lambda>(replay, s).
      if replay then Inr ((), s)
      else
        bindE (mapErrE mapErr (someE (find (\<lambda>r. ss_id r = sid) (a_sessions s)) SqlNoRows)) (\<lambda>ses.
        bindE (requireE (ss_revision ses = am_BaseRevision m \<and> ss_state ses = S_draft) ErrConflict) (\<lambda>_.
        bindE (requireE (list_all (\<lambda>cid. case find (candidateKey sid cid) (a_candidates s) of
                   None \<Rightarrow> False | Some c \<Rightarrow> sourceCovered (cf_Sources cfg) c) ids) ErrInvalid) (\<lambda>_.
        let s = s\<lparr>a_candidates := updWhere (\<lambda>r. ca_session_id r = sid) (\<lambda>r. r\<lparr>ca_selected := False\<rparr>) (a_candidates s)\<rparr>;
            s = fold (\<lambda>cid s. s\<lparr>a_candidates :=
                   updWhere (candidateKey sid cid) (\<lambda>r. r\<lparr>ca_selected := True\<rparr>) (a_candidates s)\<rparr>) ids s in
        Inr ((), updSessions (\<lambda>r. ss_id r = sid)
          (\<lambda>r. r\<lparr>ss_depth := cf_Depth cfg, ss_sources := cf_Sources cfg,
                ss_max_concurrency := cf_MaxConcurrency cfg, ss_revision := ss_revision r + 1,
                ss_updated_at := now\<rparr>) s)))))))"

definition ConfigureArchaeology ::
  "arch_lib \<Rightarrow> env \<Rightarrow> ArchaeologyMutation \<Rightarrow> arch \<Rightarrow> (unit \<times> session_row) outcome" where
  "ConfigureArchaeology L e m s =
     (let ids = sort (cf_SelectedProjectIDs (am_Config m)) in
      if am_Principal m = '''' \<or> am_RequestID m = '''' \<or> \<not> validArchaeologyConfig (am_Config m) \<or>
         length (cf_SelectedProjectIDs (am_Config m)) > ArchaeologyNativeMaxProjects then (Inl ErrInvalid, s)
      else if \<not> list_all (\<lambda>cid. boundedCoreText cid 120 True) ids \<or> \<not> adjacent_distinct ids then (Inl ErrInvalid, s)
      else thenRead (am_Principal m) (inTx (configureTx L e m ids) s))"

section \<open>Legacy transitions\<close>

text \<open>The four operations of the legacy control plane, and the handoff that \<open>start\<close> opens.\<close>

definition legacyOutcomes :: "gostring \<Rightarrow> arch \<Rightarrow> nat" where
  "legacyOutcomes sid s =
     countWhere (\<lambda>(_, run). hasRow (\<lambda>r. ru_id r = run \<and> ru_session_id r = sid) (a_runs s)) (a_legacy_outcomes s)"

definition startLegacy :: "arch_lib \<Rightarrow> gostring \<Rightarrow> time \<Rightarrow> session_row \<Rightarrow> arch \<Rightarrow> go_error + session_state \<times> arch" where
  "startLegacy L sid now ses s =
     (if ss_state ses \<noteq> S_draft then Inl ErrConflict
      else if countWhere (\<lambda>c. ca_session_id c = sid \<and> ca_selected c) (a_candidates s) = 0 then Inl ErrInvalid
      else let hid = deterministicHistoricalID L ''ARH-'' [sid] in
        case find (\<lambda>h. ho_id h = hid \<and> ho_session_id h = sid) (a_handoffs s) of
          None \<Rightarrow>
            bindE (mapErrE mapErr (checked (\<not> hasRow (\<lambda>h. ho_id h = hid \<or> ho_session_id h = sid) (a_handoffs s))
              (s\<lparr>a_handoffs := a_handoffs s @
                 [\<lparr>ho_id = hid, ho_session_id = sid, ho_state = ''ready_to_claim'', ho_pack_json = ''{}'',
                   ho_claimed_by = '''', ho_claimed_at = None, ho_created_at = now, ho_updated_at = now\<rparr>]\<rparr>)))
              (\<lambda>s. Inr (S_draft, s))
        | Some h \<Rightarrow>
            if ho_state h \<noteq> ''ready_to_claim'' \<or> ho_claimed_by h \<noteq> '''' \<or> ho_claimed_at h \<noteq> None \<or>
               countWhere (\<lambda>(k, _). k = hid) (a_handoff_requests s) \<noteq> 0 \<or>
               countWhere (\<lambda>r. la_session_id r = sid) (a_launches s) \<noteq> 0 \<or> legacyOutcomes sid s \<noteq> 0
            then Inl ErrConflict else Inr (S_draft, s))"

definition setRuns :: "gostring \<Rightarrow> (run_state \<Rightarrow> bool) \<Rightarrow> run_state \<Rightarrow> time \<Rightarrow> arch \<Rightarrow> arch" where
  "setRuns sid p st now s =
     updRuns (\<lambda>r. ru_session_id r = sid \<and> p (ru_state r)) (\<lambda>r. r\<lparr>ru_state := st, ru_updated_at := now\<rparr>) s"

definition legacyStep ::
  "arch_lib \<Rightarrow> gostring \<Rightarrow> gostring \<Rightarrow> time \<Rightarrow> session_row \<Rightarrow> arch \<Rightarrow> go_error + session_state \<times> arch" where
  "legacyStep L operation sid now ses s =
     (if operation = ''start'' then startLegacy L sid now ses s
      else if operation = ''pause'' then
        (if ss_state ses \<noteq> S_running then Inl ErrConflict
         else Inr (S_pause_requested, setRuns sid (\<lambda>st. st \<in> {R_queued, R_running}) R_pause_requested now s))
      else if operation = ''resume'' then
        (if ss_state ses \<noteq> S_paused \<and> ss_state ses \<noteq> S_pause_requested then Inl ErrConflict
         else Inr (S_running, setRuns sid (\<lambda>st. st \<in> {R_paused, R_pause_requested}) R_queued now s))
      else
        (if ss_state ses = S_completed \<or> ss_state ses = S_canceled then Inl ErrConflict
         else Inr (S_cancel_requested,
                setRuns sid (\<lambda>st. st \<notin> {R_completed, R_failed, R_canceled}) R_cancel_requested now s)))"

definition transitionTx ::
  "arch_lib \<Rightarrow> env \<Rightarrow> ArchaeologyMutation \<Rightarrow> gostring \<Rightarrow> arch \<Rightarrow> go_error + unit \<times> arch" where
  "transitionTx L e m operation s =
     (let now = env_now e in
      bindE (ensureArchaeologySession L (am_Principal m) now s) (\<lambda>(sid, s).
      bindE (claimArchaeologyRequest (am_Principal m) (am_RequestID m) operation sid
               (lib_digest L operation (RevisionOnly (am_BaseRevision m))) now s) (\<lambda>(replay, s).
      if replay then Inr ((), s)
      else
        bindE (mapErrE mapErr (someE (find (\<lambda>r. ss_id r = sid) (a_sessions s)) SqlNoRows)) (\<lambda>ses.
        bindE (requireE (ss_revision ses = am_BaseRevision m) ErrConflict) (\<lambda>_.
        bindE (requireE (countWhere (\<lambda>b. ba_session_id b = sid) (a_batches s) = 0) ErrUnavailable) (\<lambda>_.
        bindE (requireE (\<not> (operation \<noteq> ''start'' \<and>
                 countWhere (\<lambda>h. ho_session_id h = sid) (a_handoffs s) > 0)) ErrUnavailable) (\<lambda>_.
        bindE (legacyStep L operation sid now ses s) (\<lambda>(st, s).
        Inr ((), updSessions (\<lambda>r. ss_id r = sid) (nextRevision st now) s)))))))))"

definition transitionArchaeology ::
  "arch_lib \<Rightarrow> env \<Rightarrow> ArchaeologyMutation \<Rightarrow> gostring \<Rightarrow> arch \<Rightarrow> (unit \<times> session_row) outcome" where
  "transitionArchaeology L e m operation s =
     (if am_Principal m = '''' \<or> am_RequestID m = '''' then (Inl ErrInvalid, s)
      else thenRead (am_Principal m) (inTx (transitionTx L e m operation) s))"

definition StartArchaeology where
  "StartArchaeology L e m = transitionArchaeology L e m ''start''"

definition PauseArchaeology where
  "PauseArchaeology L e m = transitionArchaeology L e m ''pause''"

definition ResumeArchaeology where
  "ResumeArchaeology L e m = transitionArchaeology L e m ''resume''"

definition CancelArchaeology where
  "CancelArchaeology L e m = transitionArchaeology L e m ''cancel''"

end
