(* ===== verification/Archaeology_Effects.thy ===== *)
theory Archaeology_Effects
  imports Archaeology_Sessions
begin

text \<open>
  What a committed transaction of project archaeology does: frame rules for the updates of
  single tables, and for every transaction the exact state it commits, from which the
  invariants are proved.
\<close>

section \<open>Frames\<close>

named_theorems arch_frames \<open>tables that an update leaves alone\<close>

lemma updSessions_frame [simp, arch_frames]:
  "a_core (updSessions p f s) = a_core s" "a_sessions (updSessions p f s) = updWhere p f (a_sessions s)"
  "a_candidates (updSessions p f s) = a_candidates s" "a_requests (updSessions p f s) = a_requests s"
  "a_batches (updSessions p f s) = a_batches s" "a_jobs (updSessions p f s) = a_jobs s"
  "a_resolutions (updSessions p f s) = a_resolutions s" "a_intents (updSessions p f s) = a_intents s"
  "a_outcomes (updSessions p f s) = a_outcomes s" "a_runs (updSessions p f s) = a_runs s"
  "a_candidate_projects (updSessions p f s) = a_candidate_projects s"
  by (simp_all add: updSessions_def)

lemma updBatches_frame [simp, arch_frames]:
  "a_core (updBatches p g s) = a_core s" "a_sessions (updBatches p g s) = a_sessions s"
  "a_candidates (updBatches p g s) = a_candidates s" "a_requests (updBatches p g s) = a_requests s"
  "a_batches (updBatches p g s) = updWhere p g (a_batches s)" "a_jobs (updBatches p g s) = a_jobs s"
  "a_resolutions (updBatches p g s) = a_resolutions s" "a_intents (updBatches p g s) = a_intents s"
  "a_outcomes (updBatches p g s) = a_outcomes s" "a_runs (updBatches p g s) = a_runs s"
  "a_candidate_projects (updBatches p g s) = a_candidate_projects s"
  by (simp_all add: updBatches_def)

lemma updJobs_frame [simp, arch_frames]:
  "a_core (updJobs p h s) = a_core s" "a_sessions (updJobs p h s) = a_sessions s"
  "a_candidates (updJobs p h s) = a_candidates s" "a_requests (updJobs p h s) = a_requests s"
  "a_batches (updJobs p h s) = a_batches s" "a_jobs (updJobs p h s) = updWhere p h (a_jobs s)"
  "a_resolutions (updJobs p h s) = a_resolutions s" "a_intents (updJobs p h s) = a_intents s"
  "a_outcomes (updJobs p h s) = a_outcomes s" "a_runs (updJobs p h s) = a_runs s"
  "a_candidate_projects (updJobs p h s) = a_candidate_projects s"
  by (simp_all add: updJobs_def)

lemma updRuns_frame [simp, arch_frames]:
  "a_sessions (updRuns p f s) = a_sessions s" "a_batches (updRuns p f s) = a_batches s"
  "a_jobs (updRuns p f s) = a_jobs s" "a_requests (updRuns p f s) = a_requests s"
  "a_resolutions (updRuns p f s) = a_resolutions s"
  by (simp_all add: updRuns_def)

lemma updLaunches_frame [simp, arch_frames]:
  "a_sessions (updLaunches p f s) = a_sessions s" "a_batches (updLaunches p f s) = a_batches s"
  "a_jobs (updLaunches p f s) = a_jobs s" "a_requests (updLaunches p f s) = a_requests s"
  "a_resolutions (updLaunches p f s) = a_resolutions s"
  by (simp_all add: updLaunches_def)

lemma nextRevision_simps [simp]:
  "ss_id (nextRevision st now r) = ss_id r" "ss_principal (nextRevision st now r) = ss_principal r"
  "ss_state (nextRevision st now r) = st" "ss_revision (nextRevision st now r) = ss_revision r + 1"
  "ss_depth (nextRevision st now r) = ss_depth r" "ss_sources (nextRevision st now r) = ss_sources r"
  "ss_max_concurrency (nextRevision st now r) = ss_max_concurrency r"
  by (simp_all add: nextRevision_def)

lemma interruptJob_simps [simp]:
  "nj_id (interruptJob c now r) = nj_id r" "nj_state (interruptJob c now r) = J_interrupted"
  "nj_batch_id (interruptJob c now r) = nj_batch_id r" "nj_session_id (interruptJob c now r) = nj_session_id r"
  "nj_thread_id (interruptJob c now r) = nj_thread_id r" "nj_turn_id (interruptJob c now r) = nj_turn_id r"
  "nj_codex_session_id (interruptJob c now r) = nj_codex_session_id r"
  "nj_report_digest (interruptJob c now r) = nj_report_digest r"
  "nj_candidate_id (interruptJob c now r) = nj_candidate_id r"
  "nj_project_id (interruptJob c now r) = nj_project_id r"
  by (simp_all add: interruptJob_def)

lemma bindTo_simps [simp]:
  "nj_id (bindTo th se tu lb now r) = nj_id r" "nj_state (bindTo th se tu lb now r) = nj_state r"
  "nj_batch_id (bindTo th se tu lb now r) = nj_batch_id r"
  "nj_session_id (bindTo th se tu lb now r) = nj_session_id r"
  "nj_thread_id (bindTo th se tu lb now r) = th" "nj_turn_id (bindTo th se tu lb now r) = tu"
  "nj_codex_session_id (bindTo th se tu lb now r) = se"
  "nj_report_digest (bindTo th se tu lb now r) = nj_report_digest r"
  "nj_candidate_id (bindTo th se tu lb now r) = nj_candidate_id r"
  "nj_project_id (bindTo th se tu lb now r) = nj_project_id r"
  by (simp_all add: bindTo_def)

section \<open>Transactions\<close>

lemma inTx_simps [simp]:
  "body s = Inl e \<Longrightarrow> inTx body s = (Inl e, s)" "body s = Inr (r, t) \<Longrightarrow> inTx body s = (Inr r, t)"
  by (simp_all add: inTx_def)

lemma inTx_cases:
  assumes "inTx body s = (res, t)"
  obtains e where "res = Inl e" "t = s" "body s = Inl e"
  | r where "res = Inr r" "body s = Inr (r, t)"
  using assms by (auto simp: inTx_def split: sum.splits)

lemma snd_thenRead [simp]: "snd (thenRead who out) = snd out"
  by (auto simp: thenRead_def split: prod.splits sum.splits)

lemma thenRead_Inr:
  "fst (thenRead who out) = Inr (r, v) \<longleftrightarrow> fst out = Inr r \<and> ArchaeologySession (snd out) who = Inr v"
  by (auto simp: thenRead_def split: prod.splits sum.splits)

text \<open>An operation that runs one transaction changes the state only by committing it.\<close>

lemma tx_cases:
  assumes "snd (inTx body s) = t"
  obtains "t = s" | r where "body s = Inr (r, t)"
  using assms by (auto simp: inTx_def split: sum.splits)

lemma claimArchaeologyRequest_Inr:
  assumes "claimArchaeologyRequest who key op sid dg now s = Inr (replay, t)"
  obtains r where "replay" "t = s" "r \<in> set (a_requests s)" "ar_principal r = who" "ar_request_key r = key"
      "ar_operation r = op" "ar_request_digest r = dg"
  | r where "\<not> replay" "t = s\<lparr>a_requests := a_requests s @ [r]\<rparr>" "ar_principal r = who" "ar_request_key r = key"
      "ar_operation r = op" "ar_request_digest r = dg"
      "\<forall>q \<in> set (a_requests s). ar_principal q = who \<longrightarrow> ar_request_key q \<noteq> key"
proof (cases "find (\<lambda>r. ar_principal r = who \<and> ar_request_key r = key) (a_requests s)")
  case None
  then have none: "\<forall>q \<in> set (a_requests s). ar_principal q = who \<longrightarrow> ar_request_key q \<noteq> key"
    by (auto simp: find_None_iff_all)
  show ?thesis
    by (rule that(2)) (use assms None none in \<open>auto simp: claimArchaeologyRequest_def sqlInsertRequest_def\<close>)
next
  case (Some r)
  then have r: "r \<in> set (a_requests s)" "ar_principal r = who" "ar_request_key r = key"
    by (auto dest: find_SomeD)
  show ?thesis
    by (rule that(1)) (use assms Some r in \<open>auto simp: claimArchaeologyRequest_def split: if_splits\<close>)
qed

lemma claimableJobs_iff:
  "(j, b) \<in> set (claimableJobs s) \<longleftrightarrow>
     j \<in> set (a_jobs s) \<and> b \<in> set (a_batches s) \<and> ba_id b = nj_batch_id j \<and> nj_state j = J_queued \<and>
     ba_state b \<in> {B_queued, B_running} \<and> ba_policy_attested b \<and>
     (\<forall>u \<in> set (a_jobs s). nj_state u \<noteq> J_uncertain) \<and>
     (\<forall>p \<in> set (a_intents s). in_state p \<notin> {I_pending, I_leased, I_blocked})"
  by (auto simp: claimableJobs_def)

lemma claimJobTx_Inr:
  assumes "claimJobTx e s = Inr (r, t)"
  obtains j b where "(j, b) \<in> set (claimableJobs s)"
    "\<forall>x \<in> set (claimableJobs s). claimOrder (j, b) \<le> claimOrder x"
    "r = startJob (env_now e) j"
    "t = updBatches (\<lambda>q. ba_id q = nj_batch_id j) (\<lambda>q. q\<lparr>ba_state := B_running, ba_updated_at := env_now e\<rparr>)
           (updJobs (\<lambda>q. nj_id q = nj_id j \<and> nj_state q = J_queued) (startJob (env_now e)) s)"
proof -
  from assms obtain j b rest where xs: "sort_key claimOrder (claimableJobs s) = (j, b) # rest"
    by (auto simp: claimJobTx_def split: list.splits)
  have mem: "(j, b) \<in> set (claimableJobs s)"
    by (metis xs list.set_intros(1) set_sort)
  have "sorted (map claimOrder ((j, b) # rest))"
    by (metis xs sorted_sort_key)
  moreover have "set ((j, b) # rest) = set (claimableJobs s)"
    by (metis xs set_sort)
  ultimately have least: "\<forall>x \<in> set (claimableJobs s). claimOrder (j, b) \<le> claimOrder x"
    by (metis list.simps(9) order_refl set_ConsD sorted_simps(2) image_eqI list.set_map)
  show ?thesis
    by (rule that [OF mem least]) (use assms xs in \<open>auto simp: claimJobTx_def Let_def\<close>)
qed

lemma sqlBindJobs_Inr: "sqlBindJobs p f s = Inr t \<longleftrightarrow> identities_unique (a_jobs t) \<and> t = updJobs p f s"
  by (auto simp: sqlBindJobs_def updJobs_def Let_def)

lemma failStartTx_Inr:
  assumes "failStartTx e jobID launch uncertain s = Inr (r, t)"
  obtains (unchanged) "t = s"
  | (changed) j where "jobRow s jobID = Some j" "nj_state j = J_starting \<or> nj_state j = J_uncertain"
      "nj_state j = J_uncertain \<longrightarrow> uncertain"
      "identities_unique (a_jobs (updJobs (\<lambda>r. nj_id r = jobID) (failStartRow j launch uncertain (env_now e)) s))"
      "t = failStartSettle j (env_now e)
             (updJobs (\<lambda>r. nj_id r = jobID) (failStartRow j launch uncertain (env_now e)) s)"
  using assms
  by (auto simp: failStartTx_def Let_def sqlBindJobs_Inr split: if_splits)

lemma jobWithBatch_SomeD:
  assumes "jobWithBatch jobID thread turn s = Some (j, b)"
  shows "j \<in> set (a_jobs s)" "nj_id j = jobID" "nj_thread_id j = thread" "nj_turn_id j = turn"
    "batchRow s (nj_batch_id j) = Some b"
  using assms
  by (auto simp: jobWithBatch_def activeJobAt_def dest!: find_SomeD split: option.splits)

definition finishedJob :: "job_state \<Rightarrow> bool" where
  "finishedJob st \<longleftrightarrow> st \<in> {J_completed, J_failed, J_interrupted, J_attention}"

lemma unfinishedJob_iff [simp]: "unfinishedJob st \<longleftrightarrow> \<not> finishedJob st"
  by (cases st) (auto simp: unfinishedJob_def openJob_def finishedJob_def)

lemma completeTx_Inr:
  assumes "completeTx e terminal s = Inr (r, t)"
  obtains (unchanged) "t = s"
  | (changed) j b where "jobWithBatch (nt_JobID terminal) (nt_ThreadID terminal) (nt_TurnID terminal) s = Some (j, b)"
      "\<not> finishedJob (nj_state j)"
      "t = completeSettle j b (env_now e)
             (updJobs (\<lambda>q. activeJobAt (nt_JobID terminal) (nt_ThreadID terminal) (nt_TurnID terminal) q \<and>
                           nj_state q = nj_state j) (completeRow j terminal (env_now e)) s)"
  using assms
  by (auto simp: completeTx_def Let_def finishedJob_def split: if_splits option.splits)

lemma loseTx_Inr:
  assumes "loseTx e jobID thread turn s = Inr (r, t)"
  obtains (unchanged) "t = s"
  | (changed) j states where "jobRow s jobID = Some j"
      "states = {J_uncertain} \<or> states = {J_active, J_report_ready, J_cancel_requested}"
      "changedOne (\<lambda>r. activeJobAt jobID thread turn r \<and> nj_state r \<in> states) s"
      "t = updBatches (\<lambda>r. ba_id r = nj_batch_id j) (\<lambda>r. r\<lparr>ba_state := B_attention, ba_updated_at := env_now e\<rparr>)
             (updJobs (\<lambda>r. activeJobAt jobID thread turn r \<and> nj_state r \<in> states) (loseRow (env_now e)) s)"
proof -
  from assms obtain j where j: "jobRow s jobID = Some j"
    by (auto simp: loseTx_def Let_def)
  show ?thesis
  proof (cases "nj_state j = J_uncertain \<and> nj_thread_id j = thread \<and> nj_turn_id j = turn")
    case True
    show ?thesis
    proof (cases "t = s")
      case False
      show ?thesis
        by (rule changed [OF j, of "{J_uncertain}"])
          (use assms j True False in \<open>auto simp: loseTx_def Let_def split: if_splits\<close>)
    qed (rule unchanged)
  next
    case no: False
    show ?thesis
    proof (cases "t = s")
      case False
      show ?thesis
        by (rule changed [OF j, of "{J_active, J_report_ready, J_cancel_requested}"])
          (use assms j no False in \<open>auto simp: loseTx_def Let_def split: if_splits\<close>)
    qed (rule unchanged)
  qed
qed

lemma resolveTx_Inr:
  assumes "resolveTx L e cmd s = Inr (r, t)"
  obtains (replayed) q ses where "t = s" "sessionOf s (nr_Principal cmd) = Some ses" "q \<in> set (a_resolutions s)"
  | (changed) ses j q where "sessionOf s (nr_Principal cmd) = Some ses" "j \<in> set (a_jobs s)"
      "nj_id j = nr_JobID cmd" "nj_session_id j = ss_id ses" "nj_state j = J_uncertain"
      "nj_thread_id j = nr_ThreadID cmd" "nj_turn_id j = nr_TurnID cmd" "ss_revision ses = nr_BaseRevision cmd"
      "\<forall>x \<in> set (a_jobs s). nj_batch_id x = nj_batch_id j \<and> nj_id x \<noteq> nj_id j \<longrightarrow>
          nj_state x \<notin> {J_starting, J_active, J_report_ready, J_cancel_requested}"
      "t = resolveSettle (ss_id ses) (nj_batch_id j) (env_now e)
             (updJobs (\<lambda>r. nj_id r = nr_JobID cmd \<and> nj_state r = J_uncertain)
                (interruptJob ''human_confirmed_stopped'' (env_now e)) (s\<lparr>a_resolutions := a_resolutions s @ [q]\<rparr>))"
      "re_session_id q = ss_id ses" "re_request_key q = nr_RequestID cmd" "re_job_id q = nj_id j"
      "re_request_digest q = lib_digest L ''native_resolve'' (NativeResolve (nr_BaseRevision cmd) (nr_JobID cmd)
         (nr_ThreadID cmd) (nr_TurnID cmd) (nr_Resolution cmd))"
      "\<forall>x \<in> set (a_resolutions s). re_session_id x = re_session_id q \<longrightarrow> re_request_key x \<noteq> re_request_key q"
proof -
  from assms obtain ses where ses: "sessionOf s (nr_Principal cmd) = Some ses"
    by (auto simp: resolveTx_def)
  show ?thesis
  proof (cases "find (\<lambda>r. re_session_id r = ss_id ses \<and> re_request_key r = nr_RequestID cmd) (a_resolutions s)")
    case (Some q)
    show ?thesis
      by (rule replayed [of ses q])
        (use assms ses Some in \<open>auto simp: resolveTx_def Let_def dest: find_SomeD split: if_splits\<close>)
  next
    case None
    from assms None ses obtain j where
      find: "find (\<lambda>r. nj_id r = nr_JobID cmd \<and> nj_session_id r = ss_id ses) (a_jobs s) = Some j"
      by (auto simp: resolveTx_def Let_def split: if_splits)
    then have j: "j \<in> set (a_jobs s)" "nj_id j = nr_JobID cmd" "nj_session_id j = ss_id ses"
      by (auto dest: find_SomeD)
    define q where "q = \<lparr>re_id = deterministicHistoricalID L ''ARR-'' [ss_id ses, nr_RequestID cmd],
        re_session_id = ss_id ses, re_job_id = nr_JobID cmd, re_principal = nr_Principal cmd,
        re_request_key = nr_RequestID cmd,
        re_request_digest = lib_digest L ''native_resolve'' (NativeResolve (nr_BaseRevision cmd) (nr_JobID cmd)
          (nr_ThreadID cmd) (nr_TurnID cmd) (nr_Resolution cmd)),
        re_resolution = nr_Resolution cmd, re_thread_id = nr_ThreadID cmd,
        re_turn_id = nr_TurnID cmd, re_created_at = env_now e\<rparr>"
    note facts = assms None ses find j
    show ?thesis
      by (rule changed [OF ses j, of q])
        (use facts in \<open>auto simp: resolveTx_def Let_def countWhere_def filter_empty_conv q_def
           sqlInsertResolution_def find_None_iff_all split: if_splits\<close>)
  qed
qed

lemma cancelTx_Inr:
  assumes "cancelTx L e who rid base s = Inr (js, t)"
  obtains (replayed) ses where "t = s" "js = []" "sessionOf s who = Some ses"
  | (changed) ses q where "sessionOf s who = Some ses" "ss_revision ses = base" "ss_state ses = S_running"
      "ar_principal q = who" "ar_request_key q = rid" "ar_operation q = ''native_cancel''"
      "ar_request_digest q = lib_digest L ''native_cancel'' (RevisionOnly base)"
      "\<forall>x \<in> set (a_requests s). ar_principal x = who \<longrightarrow> ar_request_key x \<noteq> rid"
      "t = cancelSettle (ss_id ses) (env_clock e 1)
             (cancelJobs (ss_id ses) (env_clock e 1) (s\<lparr>a_requests := a_requests s @ [q]\<rparr>))"
      "js = sort_key nj_id (filter (\<lambda>r. nj_session_id r = ss_id ses \<and> nj_state r = J_cancel_requested) (a_jobs t))"
proof -
  from assms obtain ses replay s' where ses: "sessionOf s who = Some ses"
    and claim: "claimArchaeologyRequest who rid ''native_cancel'' (ss_id ses)
      (lib_digest L ''native_cancel'' (RevisionOnly base)) (env_clock e 0) s = Inr (replay, s')"
    by (auto simp: cancelTx_def Let_def)
  from claim show ?thesis
  proof (cases rule: claimArchaeologyRequest_Inr)
    case (1 r)
    show ?thesis
      by (rule replayed) (use assms ses claim 1 in \<open>auto simp: cancelTx_def Let_def\<close>)
  next
    case (2 q)
    show ?thesis
      by (rule changed [OF ses, of q]) (use assms ses claim 2 in \<open>auto simp: cancelTx_def Let_def\<close>)
  qed
qed

section \<open>Reports\<close>

text \<open>The tables that only the scheduler itself writes: none of them changes when outcomes are stored.\<close>

definition sameScheduler :: "arch \<Rightarrow> arch \<Rightarrow> bool" where
  "sameScheduler s t \<longleftrightarrow> a_sessions t = a_sessions s \<and> a_batches t = a_batches s \<and> a_jobs t = a_jobs s \<and>
     a_requests t = a_requests s \<and> a_resolutions t = a_resolutions s \<and> a_intents t = a_intents s"

lemma sameScheduler_refl [simp]: "sameScheduler s s"
  by (simp add: sameScheduler_def)

lemma sameScheduler_trans [trans]: "sameScheduler s t \<Longrightarrow> sameScheduler t u \<Longrightarrow> sameScheduler s u"
  by (simp add: sameScheduler_def)

lemma foldE_sameScheduler:
  assumes "foldE f xs s = Inr t" and "\<And>x s t. f x s = Inr t \<Longrightarrow> sameScheduler s t"
  shows "sameScheduler s t"
  by (rule foldE_invariant [where P = "sameScheduler s", OF assms(1)])
    (auto intro: sameScheduler_trans assms(2))

lemma insertOutcome_sameScheduler:
  assumes "insertOutcome L jobID digest now x s = Inr t"
  shows "sameScheduler s t"
proof -
  obtain index oc where x: "x = (index, oc)" by (cases x)
  from assms obtain u v where
    u: "\<exists>r. sqlInsertOutcome r s = Inr u" and
    v: "foldE (\<lambda>(position, source) s. mapErrE mapErr (sqlInsertProvenance
        \<lparr>nv_outcome_id = deterministicHistoricalID L ''ARON-'' [jobID, digest, itoa index],
         nv_position = position, nv_source = source\<rparr> s)) (enumerate 0 (oc_Provenance oc)) u = Inr v" and
    t: "foldE (\<lambda>member s. mapErrE mapErr (sqlInsertContributor
        \<lparr>nc_outcome_id = deterministicHistoricalID L ''ARON-'' [jobID, digest, itoa index],
         nc_member = member\<rparr> s)) (oc_Contributors oc) v = Inr t"
    by (auto simp: insertOutcome_def x Let_def)
  from u have "sameScheduler s u"
    by (auto simp: sqlInsertOutcome_def sameScheduler_def)
  also have "sameScheduler u v"
    by (rule foldE_sameScheduler [OF v]) (auto simp: sqlInsertProvenance_def sameScheduler_def)
  also have "sameScheduler v t"
    by (rule foldE_sameScheduler [OF t]) (auto simp: sqlInsertContributor_def sameScheduler_def)
  finally show ?thesis .
qed

lemma reportTx_Inr:
  assumes "reportTx L e cmd s = Inr (r, t)"
  obtains (replayed) j b where "t = s"
      "jobWithBatch (rp_JobID cmd) (rp_ThreadID cmd) (rp_TurnID cmd) s = Some (j, b)"
      "nj_report_digest j = Some (rp_Digest cmd)"
  | (changed) j b limits u where "jobWithBatch (rp_JobID cmd) (rp_ThreadID cmd) (rp_TurnID cmd) s = Some (j, b)"
      "ba_policy_attested b" "Limits (ba_policy b) = Some limits" "length (rp_Outcomes cmd) \<le> lim_MaxOutcomes limits"
      "\<forall>oc \<in> set (rp_Outcomes cmd). validNativeOutcome (lib_json L) oc (ba_policy b) limits (env_now e) \<and>
         oc_ProjectID oc = nj_project_id j"
      "nj_report_digest j = None" "nj_state j = J_active"
      "foldE (insertOutcome L (rp_JobID cmd) (rp_Digest cmd) (env_now e)) (enumerate 0 (rp_Outcomes cmd)) s = Inr u"
      "t = updSessions (\<lambda>r. ss_id r = nj_session_id j)
             (\<lambda>r. r\<lparr>ss_revision := ss_revision r + 1, ss_updated_at := env_now e\<rparr>)
           (updBatches (\<lambda>r. ba_id r = nj_batch_id j) (\<lambda>r. r\<lparr>ba_updated_at := env_now e\<rparr>)
           (updJobs (\<lambda>r. nj_id r = rp_JobID cmd) (reportRow (rp_Digest cmd) (env_now e)) u))"
proof -
  from assms obtain j b where jb: "jobWithBatch (rp_JobID cmd) (rp_ThreadID cmd) (rp_TurnID cmd) s = Some (j, b)"
    by (auto simp: reportTx_def Let_def split: option.splits)
  with assms obtain limits where limits: "Limits (ba_policy b) = Some limits"
    by (auto simp: reportTx_def Let_def split: option.splits if_splits)
  show ?thesis
  proof (cases "nj_report_digest j")
    case (Some d)
    show ?thesis
      by (rule replayed [OF _ jb]) (use assms jb limits Some in \<open>auto simp: reportTx_def Let_def split: if_splits\<close>)
  next
    case None
    from assms jb limits None show ?thesis
      by (auto simp: reportTx_def Let_def list_all_iff split: if_splits intro: changed [OF jb _ limits _ _ None])
  qed
qed

section \<open>Queueing\<close>

definition freshJob :: "gostring \<Rightarrow> gostring \<Rightarrow> job_row \<Rightarrow> bool" where
  "freshJob sid bid j \<longleftrightarrow> nj_session_id j = sid \<and> nj_batch_id j = bid \<and> nj_state j = J_queued \<and>
     nj_thread_id j = '''' \<and> nj_codex_session_id j = '''' \<and> nj_turn_id j = '''' \<and> nj_report_digest j = None"

lemma freshJob_queuedJob: "freshJob sid bid (queuedJob L at sid bid c)"
  by (simp add: freshJob_def queuedJob_def)

text \<open>\<open>addedJobs sid bid s t\<close>: from s to t only fresh jobs of one batch were appended.\<close>

definition addedJobs :: "gostring \<Rightarrow> gostring \<Rightarrow> arch \<Rightarrow> arch \<Rightarrow> bool" where
  "addedJobs sid bid s t \<longleftrightarrow> a_sessions t = a_sessions s \<and> a_batches t = a_batches s \<and>
     a_requests t = a_requests s \<and> a_resolutions t = a_resolutions s \<and> a_intents t = a_intents s \<and>
     (\<exists>js. a_jobs t = a_jobs s @ js \<and> list_all (freshJob sid bid) js \<and>
        distinct (map nj_id js) \<and> set (map nj_id js) \<inter> set (map nj_id (a_jobs s)) = {})"

lemma addedJobs_refl: "sameScheduler s t \<Longrightarrow> addedJobs sid bid s t"
  by (simp add: addedJobs_def sameScheduler_def)

lemma addedJobs_trans:
  assumes "addedJobs sid bid s t" and "addedJobs sid bid t u"
  shows "addedJobs sid bid s u"
proof -
  from assms(1) obtain js where js: "a_jobs t = a_jobs s @ js" "list_all (freshJob sid bid) js"
      "distinct (map nj_id js)" "set (map nj_id js) \<inter> set (map nj_id (a_jobs s)) = {}"
    by (auto simp: addedJobs_def)
  from assms(2) obtain ks where ks: "a_jobs u = a_jobs t @ ks" "list_all (freshJob sid bid) ks"
      "distinct (map nj_id ks)" "set (map nj_id ks) \<inter> set (map nj_id (a_jobs t)) = {}"
    by (auto simp: addedJobs_def)
  have "a_jobs u = a_jobs s @ (js @ ks) \<and> list_all (freshJob sid bid) (js @ ks) \<and>
        distinct (map nj_id (js @ ks)) \<and> set (map nj_id (js @ ks)) \<inter> set (map nj_id (a_jobs s)) = {}"
    using js ks by (simp add: Int_Un_distrib Int_Un_distrib2 Int_commute)
  then have "\<exists>xs. a_jobs u = a_jobs s @ xs \<and> list_all (freshJob sid bid) xs \<and>
        distinct (map nj_id xs) \<and> set (map nj_id xs) \<inter> set (map nj_id (a_jobs s)) = {}"
    by (rule exI)
  with assms show ?thesis
    by (simp add: addedJobs_def)
qed

lemma ensureCandidateProject_sameScheduler:
  assumes "ensureCandidateProject e who c mapped (k, s) = Inr (created, k', t)"
  shows "sameScheduler s t"
  using assms
  by (auto simp: ensureCandidateProject_def Let_def onCore_def sameScheduler_def split: option.splits if_splits)

lemma queueCandidate_addedJobs:
  assumes "queueCandidate L e who sid bid c (k, s) = Inr (k', t)"
  shows "addedJobs sid bid s t"
proof -
  define mapped where "mapped = (case find (\<lambda>r. cj_session_id r = sid \<and> cj_candidate_id r = ca_id c)
      (a_candidate_projects s) of None \<Rightarrow> '''' | Some r \<Rightarrow> cj_project_id r)"
  from assms obtain created k1 s1 s2 where
    s1: "ensureCandidateProject e who c mapped (k, s) = Inr (created, k1, s1)" and
    s2: "s2 = s1 \<or> (\<exists>r. sqlInsertCandidateProject r s1 = Inr s2)" and
    t: "sqlInsertJob (queuedJob L (env_now e) sid bid c) s2 = Inr t"
    unfolding queueCandidate_def mapped_def [symmetric] Let_def prod.case
    by (cases "mapped = ''''"; auto simp del: hasRow_iff split: if_split_asm; blast)
  from s1 have "sameScheduler s s1"
    by (rule ensureCandidateProject_sameScheduler)
  also from s2 have "sameScheduler s1 s2"
    by (auto simp: sqlInsertCandidateProject_def sameScheduler_def split: if_splits)
  finally have "addedJobs sid bid s s2"
    by (rule addedJobs_refl)
  moreover have "addedJobs sid bid s2 t"
    using t by (auto simp: sqlInsertJob_def addedJobs_def freshJob_queuedJob)
  ultimately show ?thesis
    by (rule addedJobs_trans)
qed

lemma queueCandidates_addedJobs:
  assumes "foldE (queueCandidate L e who sid bid) cs (k, s) = Inr (k', t)"
  shows "addedJobs sid bid s t"
proof -
  have "addedJobs sid bid s (snd (k', t))"
    by (rule foldE_invariant [where P = "\<lambda>x. addedJobs sid bid s (snd x)", OF assms])
      (auto intro: addedJobs_refl addedJobs_trans [OF _ queueCandidate_addedJobs])
  then show ?thesis by simp
qed

lemma queueTx_Inr:
  assumes "queueTx L e cmd s = Inr (r, t)"
  obtains (replayed) ses b where "t = s" "sessionOf s (nb_Principal cmd) = Some ses" "b \<in> set (a_batches s)"
      "ba_session_id b = ss_id ses" "ba_request_key b = nb_RequestID cmd"
  | (changed) ses b u where "sessionOf s (nb_Principal cmd) = Some ses" "ss_state ses = S_draft"
      "ss_revision ses = nb_BaseRevision cmd"
      "ba_session_id b = ss_id ses" "ba_request_key b = nb_RequestID cmd" "ba_state b = B_queued"
      "ba_policy b = sessionPolicy ses" "ba_policy_attested b" "ba_max_concurrency b = ss_max_concurrency ses"
      "ba_request_digest b = lib_digest L ''native_start''
         (NativeStart (nb_BaseRevision cmd) (sessionPolicy ses) (ss_max_concurrency ses) (nb_AcknowledgeLargeBatch cmd))"
      "\<forall>q \<in> set (a_batches s). ba_id q \<noteq> ba_id b"
      "\<forall>q \<in> set (a_batches s). ba_session_id q = ba_session_id b \<longrightarrow> ba_request_key q \<noteq> ba_request_key b"
      "addedJobs (ss_id ses) (ba_id b) (s\<lparr>a_batches := a_batches s @ [b]\<rparr>) u"
      "t = updSessions (\<lambda>r. ss_id r = ss_id ses) (nextRevision S_running (env_now e)) u"
proof -
  from assms obtain ses where ses: "sessionOf s (nb_Principal cmd) = Some ses"
    by (auto simp: queueTx_def)
  show ?thesis
  proof (cases "find (\<lambda>b. ba_session_id b = ss_id ses \<and> ba_request_key b = nb_RequestID cmd) (a_batches s)")
    case (Some b)
    show ?thesis
      by (rule replayed [OF _ ses, of b])
        (use assms ses Some in \<open>auto simp: queueTx_def Let_def dest: find_SomeD split: if_splits\<close>)
  next
    case None
    define b where "b = \<lparr>ba_id = deterministicHistoricalID L ''ARB-'' [ss_id ses, nb_RequestID cmd],
       ba_session_id = ss_id ses, ba_request_key = nb_RequestID cmd,
       ba_request_digest = lib_digest L ''native_start''
         (NativeStart (nb_BaseRevision cmd) (sessionPolicy ses) (ss_max_concurrency ses) (nb_AcknowledgeLargeBatch cmd)),
       ba_state = B_queued, ba_max_concurrency = ss_max_concurrency ses, ba_policy = sessionPolicy ses,
       ba_policy_attested = True,
       ba_large_batch_acknowledged_at =
         (if length (selectedCandidates s (ss_id ses)) > 5 then Some (env_now e) else None),
       ba_large_batch_acknowledged_by =
         (if length (selectedCandidates s (ss_id ses)) > 5 then nb_Principal cmd else ''''),
       ba_created_at = env_now e, ba_updated_at = env_now e\<rparr>"
    from assms ses None obtain s1 k u where
      s1: "sqlInsertBatch b s = Inr s1" and
      u: "foldE (queueCandidate L e (nb_Principal cmd) (ss_id ses) (ba_id b))
            (selectedCandidates s (ss_id ses)) (0, s1) = Inr (k, u)" and
      t: "t = updSessions (\<lambda>r. ss_id r = ss_id ses) (nextRevision S_running (env_now e)) u" and
      guard: "ss_state ses = S_draft" "ss_revision ses = nb_BaseRevision cmd"
      by (auto simp: queueTx_def Let_def b_def split: if_splits)
    have s1': "s1 = s\<lparr>a_batches := a_batches s @ [b]\<rparr>"
      and fresh: "\<forall>q \<in> set (a_batches s). ba_id q \<noteq> ba_id b"
        "\<forall>q \<in> set (a_batches s). ba_session_id q = ba_session_id b \<longrightarrow> ba_request_key q \<noteq> ba_request_key b"
      using s1 by (auto simp: sqlInsertBatch_def)
    show ?thesis
      by (rule changed [OF ses guard _ _ _ _ _ _ _ fresh _ t])
        (use queueCandidates_addedJobs [OF u] in \<open>auto simp: s1' b_def\<close>)
  qed
qed

end
