(* ===== verification/Archaeology_Lifecycle.thy ===== *)
theory Archaeology_Lifecycle
  imports Archaeology_Effects
begin

text \<open>
  How the row of a historian job may change. \<open>jobNext\<close> is the state machine of jobs that
  the code implements, \<open>job_change\<close> adds what happens to the identity and the report of a
  job, and the lemmas show that every operation of the scheduler changes every row in this
  way only.
\<close>

section \<open>The state machine of a job\<close>

fun jobNext :: "job_state \<Rightarrow> job_state set" where
  "jobNext J_queued = {J_queued, J_starting, J_interrupted}"
| "jobNext J_starting = {J_starting, J_active, J_uncertain, J_failed, J_interrupted, J_attention}"
| "jobNext J_active = {J_active, J_report_ready, J_cancel_requested, J_uncertain, J_failed, J_interrupted, J_attention}"
| "jobNext J_report_ready = {J_report_ready, J_cancel_requested, J_uncertain, J_completed, J_failed, J_interrupted}"
| "jobNext J_cancel_requested = {J_cancel_requested, J_uncertain, J_completed, J_failed, J_interrupted, J_attention}"
| "jobNext J_uncertain = {J_uncertain, J_completed, J_failed, J_interrupted, J_attention}"
| "jobNext J_completed = {J_completed}"
| "jobNext J_failed = {J_failed}"
| "jobNext J_interrupted = {J_interrupted}"
| "jobNext J_attention = {J_attention}"

definition unbound :: "job_row \<Rightarrow> bool" where
  "unbound j \<longleftrightarrow> nj_thread_id j = '''' \<and> nj_codex_session_id j = '''' \<and> nj_turn_id j = ''''"

definition job_ok :: "job_row \<Rightarrow> bool" where
  "job_ok j \<longleftrightarrow>
     (nj_state j = J_queued \<longrightarrow> unbound j) \<and>
     (nj_state j \<in> {J_queued, J_starting, J_active} \<longrightarrow> nj_report_digest j = None) \<and>
     (nj_state j \<in> {J_report_ready, J_completed} \<longrightarrow> nj_report_digest j \<noteq> None)"

definition job_keys :: "job_row \<Rightarrow> gostring \<times> gostring \<times> gostring \<times> gostring \<times> gostring" where
  "job_keys j = (nj_id j, nj_batch_id j, nj_session_id j, nj_candidate_id j, nj_project_id j)"

definition job_change :: "job_row \<Rightarrow> job_row \<Rightarrow> bool" where
  "job_change j k \<longleftrightarrow>
     job_keys k = job_keys j \<and> nj_state k \<in> jobNext (nj_state j) \<and> (finishedJob (nj_state j) \<longrightarrow> k = j) \<and>
     sameOrUnset (nj_thread_id j) (nj_thread_id k) \<and>
     sameOrUnset (nj_codex_session_id j) (nj_codex_session_id k) \<and>
     sameOrUnset (nj_turn_id j) (nj_turn_id k) \<and>
     (nj_report_digest k = nj_report_digest j \<or>
      nj_report_digest j = None \<and> nj_state j = J_active \<and> nj_state k = J_report_ready) \<and>
     job_ok k"

abbreviation jobs_change :: "job_row list \<Rightarrow> job_row list \<Rightarrow> bool" where
  "jobs_change \<equiv> list_all2 job_change"

lemma sameOrUnset_simps [simp]: "sameOrUnset x x" "sameOrUnset x (orElse x y)" "sameOrUnset '''' y"
  by (simp_all add: sameOrUnset_def orElse_def)

lemma job_changeI:
  assumes "job_keys k = job_keys j" "nj_state k \<in> jobNext (nj_state j)" "\<not> finishedJob (nj_state j)"
    "sameOrUnset (nj_thread_id j) (nj_thread_id k)"
    "sameOrUnset (nj_codex_session_id j) (nj_codex_session_id k)"
    "sameOrUnset (nj_turn_id j) (nj_turn_id k)"
    "nj_report_digest k = nj_report_digest j \<or>
      nj_report_digest j = None \<and> nj_state j = J_active \<and> nj_state k = J_report_ready"
    "job_ok k"
  shows "job_change j k"
  using assms by (simp add: job_change_def)

lemmas row_simps = job_keys_def finishedJob_def job_ok_def unbound_def

lemma job_change_refl: "job_ok j \<Longrightarrow> job_change j j"
  by (cases "nj_state j") (auto simp: job_change_def)

lemma jobs_change_refl: "\<forall>j \<in> set js. job_ok j \<Longrightarrow> jobs_change js js"
  by (auto simp: list_all2_same job_change_refl)

lemma jobs_change_map:
  assumes "\<And>j. j \<in> set js \<Longrightarrow> job_change j (f j)"
  shows "jobs_change js (map f js)"
  using assms by (simp add: list.rel_map list_all2_same)

lemma jobs_change_updWhere:
  assumes "\<forall>j \<in> set js. job_ok j" and "\<And>j. j \<in> set js \<Longrightarrow> p j \<Longrightarrow> job_change j (f j)"
  shows "jobs_change js (updWhere p f js)"
  unfolding updWhere_def by (rule jobs_change_map) (use assms in \<open>auto intro: job_change_refl\<close>)

lemma updWhere_updWhere:
  "updWhere p f (updWhere q g xs) = map (\<lambda>x. let y = (if q x then g x else x) in if p y then f y else y) xs"
  by (simp add: updWhere_def Let_def)

lemma jobs_changeD:
  assumes "jobs_change js ks"
  shows "map job_keys ks = map job_keys js" "\<forall>k \<in> set ks. job_ok k"
  using assms by (induction rule: list_all2_induct) (auto simp: job_change_def)

lemma map_via_keys:
  assumes "map job_keys ks = map job_keys js"
  shows "map nj_id ks = map nj_id js" "map nj_batch_id ks = map nj_batch_id js"
    "map nj_session_id ks = map nj_session_id js"
proof -
  have via: "map (g \<circ> job_keys) ks = map (g \<circ> job_keys) js" for g :: "_ \<Rightarrow> gostring"
    using arg_cong [OF assms, of "map g"] by simp
  have g: "nj_id = fst \<circ> job_keys" "nj_batch_id = (fst \<circ> snd) \<circ> job_keys"
      "nj_session_id = (fst \<circ> snd \<circ> snd) \<circ> job_keys"
    by (simp_all add: job_keys_def fun_eq_iff)
  show "map nj_id ks = map nj_id js" "map nj_batch_id ks = map nj_batch_id js"
      "map nj_session_id ks = map nj_session_id js"
    unfolding g by (rule via)+
qed

section \<open>The rows written by the operations\<close>

lemma startJob_change:
  assumes "job_ok j" "nj_state j = J_queued"
  shows "job_change j (startJob now j)"
  by (rule job_changeI) (use assms in \<open>simp_all add: row_simps startJob_def\<close>)

lemma bindTo_change:
  assumes "job_ok j" "bindTarget states (nj_id j) th se tu j" "states \<subseteq> {J_starting, J_uncertain}"
  shows "job_change j (bindTo th se tu lb now j)"
proof -
  from assms(2,3) have "nj_state j = J_starting \<or> nj_state j = J_uncertain"
    by (auto simp: bindTarget_def)
  then show ?thesis
    by (intro job_changeI; elim disjE) (use assms in \<open>simp_all add: row_simps bindTarget_def\<close>)
qed

lemma failStartRow_frame:
  "job_keys (failStartRow j launch unc now r) = job_keys r"
  "nj_state (failStartRow j launch unc now r) = (if unc then J_uncertain else J_failed)"
  "nj_thread_id (failStartRow j launch unc now r) = orElse (nj_thread_id j) (lr_ThreadID launch)"
  "nj_codex_session_id (failStartRow j launch unc now r) = orElse (nj_codex_session_id j) (lr_CodexSessionID launch)"
  "nj_turn_id (failStartRow j launch unc now r) = orElse (nj_turn_id j) (lr_TurnID launch)"
  "nj_report_digest (failStartRow j launch unc now r) = nj_report_digest r"
  by (simp_all add: failStartRow_def Let_def job_keys_def)

lemma failStartRow_change:
  assumes "job_ok j" "nj_state j = J_starting \<or> nj_state j = J_uncertain" "nj_state j = J_uncertain \<longrightarrow> uncertain"
  shows "job_change j (failStartRow j launch uncertain now j)"
  by (rule job_changeI; cases "nj_state j")
    (use assms in \<open>simp_all add: failStartRow_frame finishedJob_def job_ok_def\<close>)

lemma activate_change:
  assumes "job_ok j" "nj_state j = J_starting"
  shows "job_change j (j\<lparr>nj_state := J_active, nj_phase_label := l, nj_updated_at := now\<rparr>)"
  by (rule job_changeI) (use assms in \<open>simp_all add: row_simps\<close>)

lemma progress_change:
  assumes "job_ok j" "nj_state j = J_active"
  shows "job_change j (j\<lparr>nj_phase_label := l, nj_sources_examined := n, nj_updated_at := now\<rparr>)"
  by (rule job_changeI) (use assms in \<open>simp_all add: row_simps\<close>)

lemma reportRow_change:
  assumes "job_ok j" "nj_state j = J_active"
  shows "job_change j (reportRow d now j)"
  by (rule job_changeI) (use assms in \<open>simp_all add: row_simps reportRow_def\<close>)

lemma completeRow_state:
  "nj_state (completeRow j terminal now r) =
     (if nt_Status terminal = ''interrupted'' then J_interrupted
      else if nt_Status terminal = ''completed'' \<and> nj_report_digest j \<noteq> None then J_completed
      else if nt_Status terminal = ''completed'' then J_attention else J_failed)"
  by (simp add: completeRow_def Let_def)

lemma completeRow_frame:
  "job_keys (completeRow j terminal now r) = job_keys r"
  "nj_thread_id (completeRow j terminal now r) = nj_thread_id r"
  "nj_codex_session_id (completeRow j terminal now r) = nj_codex_session_id r"
  "nj_turn_id (completeRow j terminal now r) = nj_turn_id r"
  "nj_report_digest (completeRow j terminal now r) = nj_report_digest r"
  by (simp_all add: completeRow_def Let_def job_keys_def split: prod.split)

lemma completeRow_change:
  assumes "job_ok j" "\<not> finishedJob (nj_state j)" "nj_state j \<noteq> J_queued"
  shows "job_change j (completeRow j terminal now j)"
  by (rule job_changeI; cases "nj_state j")
    (use assms in \<open>simp_all add: completeRow_frame completeRow_state finishedJob_def job_ok_def\<close>)

lemma loseRow_frame:
  "job_keys (loseRow now r) = job_keys r" "nj_state (loseRow now r) = J_uncertain"
  "nj_thread_id (loseRow now r) = nj_thread_id r" "nj_turn_id (loseRow now r) = nj_turn_id r"
  "nj_codex_session_id (loseRow now r) = nj_codex_session_id r"
  "nj_report_digest (loseRow now r) = nj_report_digest r"
  by (simp_all add: loseRow_def job_keys_def)

lemma loseRow_change:
  assumes "job_ok j" "nj_state j \<in> {J_uncertain, J_active, J_report_ready, J_cancel_requested}"
  shows "job_change j (loseRow now j)"
  by (rule job_changeI; cases "nj_state j")
    (use assms in \<open>simp_all add: loseRow_frame finishedJob_def job_ok_def\<close>)

lemma interruptJob_change:
  assumes "job_ok j" "\<not> finishedJob (nj_state j)"
  shows "job_change j (interruptJob c now j)"
  by (rule job_changeI; cases "nj_state j") (use assms in \<open>simp_all add: row_simps\<close>)

lemma markJob_change:
  assumes "job_ok j" "\<not> finishedJob (nj_state j)" "st \<in> jobNext (nj_state j)"
    "st \<in> {J_interrupted, J_cancel_requested, J_uncertain}"
  shows "job_change j (j\<lparr>nj_state := st, nj_error_code := c, nj_updated_at := now\<rparr>)"
    "job_change j (j\<lparr>nj_state := st, nj_error_code := c, nj_terminal_at := at, nj_updated_at := now\<rparr>)"
  by (rule job_changeI; cases st; use assms in \<open>simp add: row_simps\<close>)+

section \<open>The operations\<close>

locale scheduler_state =
  fixes s :: arch
  assumes ids: "distinct (map nj_id (a_jobs s))"
    and rows_ok: "\<forall>j \<in> set (a_jobs s). job_ok j"
begin

lemma same_job: "j \<in> set (a_jobs s) \<Longrightarrow> k \<in> set (a_jobs s) \<Longrightarrow> nj_id j = nj_id k \<Longrightarrow> j = k"
  using distinct_key_eq [OF ids] by blast

lemma claim_jobs:
  assumes "claimJobTx e s = Inr (r, t)"
  shows "jobs_change (a_jobs s) (a_jobs t)"
  using assms by (cases rule: claimJobTx_Inr)
    (auto intro!: jobs_change_updWhere rows_ok startJob_change simp: rows_ok)

lemma bind_jobs:
  assumes "states \<subseteq> {J_starting, J_uncertain}"
  shows "jobs_change (a_jobs s) (updWhere (bindTarget states jid th se tu) (bindTo th se tu lb now) (a_jobs s))"
  by (intro jobs_change_updWhere rows_ok bindTo_change [OF _ _ assms])
    (auto simp: rows_ok bindTarget_def)

lemma failStart_jobs:
  assumes "failStartTx e jid launch unc s = Inr (r, t)"
  shows "jobs_change (a_jobs s) (a_jobs t)"
  using assms
proof (cases rule: failStartTx_Inr)
  case unchanged
  then show ?thesis by (simp add: jobs_change_refl rows_ok)
next
  case (changed j)
  have jobs: "a_jobs t = updWhere (\<lambda>r. nj_id r = jid) (failStartRow j launch unc (env_now e)) (a_jobs s)"
    by (simp add: changed(5) failStartSettle_def Let_def)
  have "job_change q (failStartRow j launch unc (env_now e) q)" if "q \<in> set (a_jobs s)" "nj_id q = jid" for q
  proof -
    have "q = j"
      using jobRow_SomeD [OF changed(1)] that by (intro same_job) simp_all
    moreover have "job_ok j"
      using jobRow_SomeD [OF changed(1)] rows_ok by blast
    ultimately show ?thesis
      using failStartRow_change [OF _ changed(2,3)] by simp
  qed
  then show ?thesis
    unfolding jobs by (intro jobs_change_updWhere rows_ok) auto
qed

lemma report_jobs:
  assumes "reportTx L e cmd s = Inr (r, t)"
  shows "jobs_change (a_jobs s) (a_jobs t)"
  using assms
proof (cases rule: reportTx_Inr)
  case replayed
  then show ?thesis by (simp add: jobs_change_refl rows_ok)
next
  case (changed j b limits u)
  have "a_jobs u = a_jobs s"
    using foldE_sameScheduler [OF changed(8) insertOutcome_sameScheduler] by (simp add: sameScheduler_def)
  moreover have "job_change q (reportRow (rp_Digest cmd) (env_now e) q)"
    if "q \<in> set (a_jobs s)" "nj_id q = rp_JobID cmd" for q
  proof -
    from that jobWithBatch_SomeD [OF changed(1)] have "q = j" using same_job [of q j] by simp
    with changed(7) that rows_ok show ?thesis by (simp add: reportRow_change)
  qed
  ultimately show ?thesis
    by (auto simp: changed(9) intro!: jobs_change_updWhere rows_ok)
qed

lemma complete_jobs:
  assumes "completeTx e terminal s = Inr (r, t)" and "nt_ThreadID terminal \<noteq> ''''"
  shows "jobs_change (a_jobs s) (a_jobs t)"
  using assms(1)
proof (cases rule: completeTx_Inr)
  case unchanged
  then show ?thesis by (simp add: jobs_change_refl rows_ok)
next
  case (changed j b)
  note jb = jobWithBatch_SomeD [OF changed(1)]
  have "nj_state j \<noteq> J_queued"
    using jb assms(2) rows_ok by (auto simp: job_ok_def unbound_def)
  moreover have "q = j" if "q \<in> set (a_jobs s)" "nj_id q = nt_JobID terminal" for q
    using that jb same_job [of q j] by simp
  moreover have "a_jobs t = updWhere (\<lambda>q. activeJobAt (nt_JobID terminal) (nt_ThreadID terminal) (nt_TurnID terminal) q \<and>
      nj_state q = nj_state j) (completeRow j terminal (env_now e)) (a_jobs s)"
    by (simp add: changed(3) completeSettle_def Let_def)
  ultimately show ?thesis
    using changed(2) jb(1) rows_ok
    by (auto intro!: jobs_change_updWhere rows_ok completeRow_change simp: activeJobAt_def)
qed

lemma lose_jobs:
  assumes "loseTx e jid th tu s = Inr (r, t)"
  shows "jobs_change (a_jobs s) (a_jobs t)"
  using assms
proof (cases rule: loseTx_Inr)
  case unchanged
  then show ?thesis by (simp add: jobs_change_refl rows_ok)
next
  case (changed j states)
  then show ?thesis
    by (auto intro!: jobs_change_updWhere rows_ok loseRow_change simp: rows_ok)
qed

lemma resolve_jobs:
  assumes "resolveTx L e cmd s = Inr (r, t)"
  shows "jobs_change (a_jobs s) (a_jobs t)"
  using assms
proof (cases rule: resolveTx_Inr)
  case replayed
  then show ?thesis by (simp add: jobs_change_refl rows_ok)
next
  case (changed ses j q)
  then show ?thesis
    by (auto simp: resolveSettle_def updWhere_updWhere updWhere_def Let_def rows_ok finishedJob_def
        intro!: jobs_change_map interruptJob_change job_change_refl)
qed

lemma cancelJobs_jobs: "jobs_change (a_jobs s) (a_jobs (cancelJobs sid now s))"
  by (auto simp: cancelJobs_def updWhere_def rows_ok finishedJob_def
      intro!: jobs_change_map markJob_change job_change_refl)

lemma reconcileJobs_jobs: "jobs_change (a_jobs s) (a_jobs (reconcileJobs now s))"
  by (auto simp: reconcileJobs_def updWhere_def rows_ok finishedJob_def
      intro!: jobs_change_map markJob_change job_change_refl interruptJob_change)

end

end
