(* ===== verification/Archaeology_System.thy ===== *)
theory Archaeology_System
  imports Archaeology_Lifecycle
begin

text \<open>
  The operations of project archaeology as a transition system and its invariant: keys are
  unique, jobs refer to their batch and session, bound identities are unique, and open work
  is confined: a session has open jobs in one batch at most, a session in draft has none,
  and neither has a batch that is completed or canceled. The rule \<open>elsewhere\<close> stands for the
  writers outside these theories: they leave jobs, batches, resolutions and requests alone
  and never move a session to draft.
\<close>

section \<open>Steps\<close>

definition session_change :: "session_row \<Rightarrow> session_row \<Rightarrow> bool" where
  "session_change r q \<longleftrightarrow> ss_id q = ss_id r \<and> ss_principal q = ss_principal r \<and>
     (ss_state q = ss_state r \<or> ss_state q \<noteq> S_draft)"

inductive arch_step :: "arch_lib \<Rightarrow> arch \<Rightarrow> arch \<Rightarrow> bool" for L where
  queue: "snd (QueueArchaeologyNativeBatch L e cmd s) = t \<Longrightarrow> arch_step L s t"
| claim: "snd (ClaimArchaeologyNativeJob e s) = t \<Longrightarrow> arch_step L s t"
| bind: "snd (BindArchaeologyNativeIdentity e jid th se tu snap s) = t \<Longrightarrow> arch_step L s t"
| activate: "snd (ActivateArchaeologyNativeJob e jid th tu snap s) = t \<Longrightarrow> arch_step L s t"
| failStart: "snd (FailArchaeologyNativeStart e jid launch unc s) = t \<Longrightarrow> arch_step L s t"
| bindUncertainty: "snd (BindArchaeologyNativeUncertainty e jid launch s) = t \<Longrightarrow> arch_step L s t"
| progress: "snd (UpdateArchaeologyNativeProgress e p snap s) = t \<Longrightarrow> arch_step L s t"
| report: "snd (ReportArchaeologyNativeJob L e rp s) = t \<Longrightarrow> arch_step L s t"
| complete: "snd (CompleteArchaeologyNativeTurn e nt s) = t \<Longrightarrow> arch_step L s t"
| lose: "snd (LoseArchaeologyNativeTurn e jid th tu s) = t \<Longrightarrow> arch_step L s t"
| resolve: "snd (ResolveArchaeologyNativeUncertainty L e nr s) = t \<Longrightarrow> arch_step L s t"
| cancel: "snd (CancelArchaeologyNativeBatch L e who rid base s) = t \<Longrightarrow> arch_step L s t"
| reconcile: "ReconcileArchaeology e s = t \<Longrightarrow> arch_step L s t"
| discover: "snd (ReplaceArchaeologyDiscovery L e m d s) = t \<Longrightarrow> arch_step L s t"
| configure: "snd (ConfigureArchaeology L e m s) = t \<Longrightarrow> arch_step L s t"
| transition: "snd (transitionArchaeology L e m operation s) = t \<Longrightarrow> arch_step L s t"
| elsewhere: "a_jobs t = a_jobs s \<Longrightarrow> a_batches t = a_batches s \<Longrightarrow> a_requests t = a_requests s \<Longrightarrow>
    a_resolutions t = a_resolutions s \<Longrightarrow> list_all2 session_change (a_sessions s) (a_sessions t) \<Longrightarrow> arch_step L s t"

section \<open>The invariant\<close>

definition open_keys :: "arch \<Rightarrow> (gostring \<times> gostring) set" where
  "open_keys s = {(nj_session_id j, nj_batch_id j) |j. j \<in> set (a_jobs s) \<and> \<not> finishedJob (nj_state j)}"

definition doneBatch :: "batch_row \<Rightarrow> bool" where
  "doneBatch b \<longleftrightarrow> ba_state b \<in> {B_completed, B_canceled}"

definition confined :: "arch \<Rightarrow> bool" where
  "confined s \<longleftrightarrow>
     (\<forall>a b c. (a, b) \<in> open_keys s \<longrightarrow> (a, c) \<in> open_keys s \<longrightarrow> b = c) \<and>
     (\<forall>r \<in> set (a_sessions s). ss_state r = S_draft \<longrightarrow> ss_id r \<notin> fst ` open_keys s) \<and>
     (\<forall>b \<in> set (a_batches s). doneBatch b \<longrightarrow> ba_id b \<notin> snd ` open_keys s)"

definition refs_ok :: "arch \<Rightarrow> bool" where
  "refs_ok s \<longleftrightarrow> (\<forall>j \<in> set (a_jobs s).
     (nj_batch_id j, nj_session_id j) \<in> (\<lambda>b. (ba_id b, ba_session_id b)) ` set (a_batches s) \<and>
     nj_session_id j \<in> ss_id ` set (a_sessions s))"

definition arch_inv :: "arch \<Rightarrow> bool" where
  "arch_inv s \<longleftrightarrow>
     distinct (map nj_id (a_jobs s)) \<and> (\<forall>j \<in> set (a_jobs s). job_ok j) \<and> identities_unique (a_jobs s) \<and>
     distinct (map ba_id (a_batches s)) \<and> distinct (map ss_id (a_sessions s)) \<and>
     distinct (map ss_principal (a_sessions s)) \<and> refs_ok s \<and> confined s"

lemma arch_inv_scheduler: "arch_inv s \<Longrightarrow> scheduler_state s"
  by (simp add: arch_inv_def scheduler_state_def)

lemma arch_invD:
  assumes "arch_inv s"
  shows "distinct (map nj_id (a_jobs s))" "\<forall>j \<in> set (a_jobs s). job_ok j" "identities_unique (a_jobs s)"
    "distinct (map ba_id (a_batches s))" "distinct (map ss_id (a_sessions s))"
    "distinct (map ss_principal (a_sessions s))" "refs_ok s" "confined s"
  using assms by (simp_all add: arch_inv_def)

lemma arch_inv_empty: "arch_inv empty_arch"
  by (simp add: arch_inv_def empty_arch_def identities_unique_def nonempty_def refs_ok_def confined_def open_keys_def)

section \<open>Keeping the invariant\<close>

lemma open_keysI: "j \<in> set (a_jobs s) \<Longrightarrow> \<not> finishedJob (nj_state j) \<Longrightarrow> (nj_session_id j, nj_batch_id j) \<in> open_keys s"
  by (auto simp: open_keys_def)

lemma open_keys_jobs: "a_jobs t = a_jobs s \<Longrightarrow> open_keys t = open_keys s"
  by (simp add: open_keys_def)

lemma list_all2_mem2: "list_all2 P xs ys \<Longrightarrow> y \<in> set ys \<Longrightarrow> \<exists>x \<in> set xs. P x y"
  by (induction rule: list_all2_induct) auto

lemma list_all2_mem1: "list_all2 P xs ys \<Longrightarrow> x \<in> set xs \<Longrightarrow> \<exists>y \<in> set ys. P x y"
  by (induction rule: list_all2_induct) auto

lemma open_keys_shrink:
  assumes "jobs_change (a_jobs s) (a_jobs t)"
  shows "open_keys t \<subseteq> open_keys s"
proof
  fix x assume "x \<in> open_keys t"
  then obtain k where k: "k \<in> set (a_jobs t)" "\<not> finishedJob (nj_state k)" "x = (nj_session_id k, nj_batch_id k)"
    by (auto simp: open_keys_def)
  from list_all2_mem2 [OF assms k(1)] obtain j where j: "j \<in> set (a_jobs s)" "job_change j k" by blast
  then have "\<not> finishedJob (nj_state j)" "nj_session_id k = nj_session_id j" "nj_batch_id k = nj_batch_id j"
    using k(2) by (auto simp: job_change_def job_keys_def)
  with j(1) k(3) show "x \<in> open_keys s"
    by (auto intro: open_keysI)
qed

text \<open>Every operation but the queueing of a batch keeps the keys of batches and sessions.\<close>

definition ba_keys :: "batch_row \<Rightarrow> gostring \<times> gostring \<times> gostring \<times> gostring" where
  "ba_keys b = (ba_id b, ba_session_id b, ba_request_key b, ba_request_digest b)"

definition ss_keys :: "session_row \<Rightarrow> gostring \<times> gostring" where
  "ss_keys r = (ss_id r, ss_principal r)"

lemma map_via:
  assumes "map f ys = map f xs" and "\<And>x. g x = h (f x)"
  shows "map g ys = map g xs"
proof -
  have "g = h \<circ> f" using assms(2) by (simp add: fun_eq_iff)
  then show ?thesis using arg_cong [OF assms(1), of "map h"] by simp
qed

lemma refs_ok_keep:
  assumes "refs_ok s" "map job_keys (a_jobs t) = map job_keys (a_jobs s)"
    and "map ba_keys (a_batches t) = map ba_keys (a_batches s)"
    and "map ss_keys (a_sessions t) = map ss_keys (a_sessions s)"
  shows "refs_ok t"
proof -
  have b: "map (\<lambda>b. (ba_id b, ba_session_id b)) (a_batches t) = map (\<lambda>b. (ba_id b, ba_session_id b)) (a_batches s)"
    by (rule map_via [OF assms(3), where h = "\<lambda>x. (fst x, fst (snd x))"]) (simp add: ba_keys_def)
  have r: "map ss_id (a_sessions t) = map ss_id (a_sessions s)"
    by (rule map_via [OF assms(4), where h = fst]) (simp add: ss_keys_def)
  have j: "map (\<lambda>j. (nj_batch_id j, nj_session_id j)) (a_jobs t) = map (\<lambda>j. (nj_batch_id j, nj_session_id j)) (a_jobs s)"
    by (rule map_via [OF assms(2), where h = "\<lambda>x. (fst (snd x), fst (snd (snd x)))"]) (simp add: job_keys_def)
  have eq: "refs_ok s \<longleftrightarrow> (\<forall>x \<in> set (map (\<lambda>j. (nj_batch_id j, nj_session_id j)) (a_jobs s)).
      x \<in> set (map (\<lambda>b. (ba_id b, ba_session_id b)) (a_batches s)) \<and> snd x \<in> set (map ss_id (a_sessions s)))" for s
    by (simp add: refs_ok_def)
  show ?thesis using assms(1) unfolding eq b r j .
qed

lemma arch_inv_stepI:
  assumes inv: "arch_inv s" and jobs: "jobs_change (a_jobs s) (a_jobs t)"
    and idents: "identities_unique (a_jobs t)"
    and batches: "map ba_keys (a_batches t) = map ba_keys (a_batches s)"
    and sessions: "map ss_keys (a_sessions t) = map ss_keys (a_sessions s)"
    and drafts: "\<And>r. r \<in> set (a_sessions t) \<Longrightarrow> ss_state r = S_draft \<Longrightarrow>
        (\<exists>q \<in> set (a_sessions s). ss_id q = ss_id r \<and> ss_state q = S_draft) \<or> ss_id r \<notin> fst ` open_keys t"
    and finished: "\<And>b. b \<in> set (a_batches t) \<Longrightarrow> doneBatch b \<Longrightarrow>
        (\<exists>q \<in> set (a_batches s). ba_id q = ba_id b \<and> doneBatch q) \<or> ba_id b \<notin> snd ` open_keys t"
  shows "arch_inv t"
proof -
  note shrink = open_keys_shrink [OF jobs]
  note D = arch_invD [OF inv]
  have conf: "confined t"
    unfolding confined_def
  proof (intro conjI ballI allI impI)
    fix a b c assume "(a, b) \<in> open_keys t" "(a, c) \<in> open_keys t"
    with shrink D(8) show "b = c" unfolding confined_def by blast
  next
    fix r assume "r \<in> set (a_sessions t)" "ss_state r = S_draft"
    with drafts shrink D(8) show "ss_id r \<notin> fst ` open_keys t"
      unfolding confined_def by (metis image_mono subsetD)
  next
    fix b assume "b \<in> set (a_batches t)" "doneBatch b"
    with finished shrink D(8) show "ba_id b \<notin> snd ` open_keys t"
      unfolding confined_def by (metis image_mono subsetD)
  qed
  have "map ba_id (a_batches t) = map ba_id (a_batches s)"
    by (rule map_via [OF batches, where h = fst]) (simp add: ba_keys_def)
  moreover have "map ss_id (a_sessions t) = map ss_id (a_sessions s)"
    by (rule map_via [OF sessions, where h = fst]) (simp add: ss_keys_def)
  moreover have "map ss_principal (a_sessions t) = map ss_principal (a_sessions s)"
    by (rule map_via [OF sessions, where h = snd]) (simp add: ss_keys_def)
  ultimately show ?thesis
    using conf refs_ok_keep [OF D(7) jobs_changeD(1) [OF jobs] batches sessions] D idents
      jobs_changeD(2) [OF jobs] map_via_keys(1) [OF jobs_changeD(1) [OF jobs]]
    by (simp add: arch_inv_def)
qed

lemma settled_session:
  assumes "arch_inv s" "open_keys t \<subseteq> open_keys s" "(sid, bid) \<in> open_keys s" "bid \<notin> snd ` open_keys t"
  shows "sid \<notin> fst ` open_keys t"
proof
  assume "sid \<in> fst ` open_keys t"
  then obtain c where c: "(sid, c) \<in> open_keys t" by auto
  with assms(2) have "(sid, c) \<in> open_keys s" by blast
  with assms(1,3) have "c = bid" using arch_invD(8) unfolding confined_def by blast
  with c assms(4) show False by force
qed

lemma batchCount_zero:
  assumes "batchCount openJob bid s = 0" "batchCount (\<lambda>st. st = J_uncertain) bid s = 0"
  shows "bid \<notin> snd ` open_keys s"
proof
  assume "bid \<in> snd ` open_keys s"
  then obtain j where j: "j \<in> set (a_jobs s)" "\<not> finishedJob (nj_state j)" "nj_batch_id j = bid"
    by (auto simp: open_keys_def)
  then have "openJob (nj_state j) \<or> nj_state j = J_uncertain"
    using unfinishedJob_iff [of "nj_state j"] by (simp only: unfinishedJob_def simp_thms)
  with assms j show False
    by (auto simp: batchCount_def countWhere_def filter_empty_conv)
qed

lemma keys_updBatches:
  assumes "\<And>b. ba_keys (f b) = ba_keys b"
  shows "map ba_keys (updWhere p f bs) = map ba_keys bs"
  using assms by (rule map_updWhere_frame)

lemma keys_updSessions:
  assumes "\<And>r. ss_keys (f r) = ss_keys r"
  shows "map ss_keys (updWhere p f rs) = map ss_keys rs"
  using assms by (rule map_updWhere_frame)

lemma ss_keys_nextRevision [simp]: "ss_keys (nextRevision st now r) = ss_keys r"
  by (simp add: ss_keys_def)

lemma identities_updWhere:
  assumes "identities_unique js" "\<And>j. nj_thread_id (f j) = nj_thread_id j" "\<And>j. nj_turn_id (f j) = nj_turn_id j"
  shows "identities_unique (updWhere p f js)"
  using assms map_updWhere_frame [of nj_thread_id f p js] map_updWhere_frame [of nj_turn_id f p js]
  by (simp add: identities_unique_def)

end
