(* ===== verification/Archaeology_Invariants.thy ===== *)
theory Archaeology_Invariants
  imports Archaeology_System
begin

text \<open>
  Every step of project archaeology keeps the invariant, one lemma per operation; the
  interfaces of the prelude are interpreted on the transition system.
\<close>

section \<open>Operations on one job\<close>

text \<open>An operation that leaves sessions and the states of batches alone, or moves batches to an open state.\<close>

lemma arch_inv_jobs_only:
  assumes "arch_inv s" "jobs_change (a_jobs s) (a_jobs t)" "identities_unique (a_jobs t)"
    and "a_batches t = a_batches s" "a_sessions t = a_sessions s"
  shows "arch_inv t"
  by (rule arch_inv_stepI [OF assms(1-3)]) (use assms(4,5) in auto)

lemma arch_inv_open_batch:
  assumes inv: "arch_inv s" and jobs: "jobs_change (a_jobs s) (a_jobs t)" "identities_unique (a_jobs t)"
    and b: "a_batches t = updWhere p (\<lambda>b. b\<lparr>ba_state := st, ba_updated_at := now\<rparr>) (a_batches s)"
    and st: "st \<notin> {B_completed, B_canceled}" and ses: "a_sessions t = a_sessions s"
  shows "arch_inv t"
proof (rule arch_inv_stepI [OF inv jobs])
  show "map ba_keys (a_batches t) = map ba_keys (a_batches s)"
    unfolding b by (rule keys_updBatches) (simp add: ba_keys_def)
next
  fix r assume "r \<in> set (a_batches t)" "doneBatch r"
  with st show "(\<exists>q \<in> set (a_batches s). ba_id q = ba_id r \<and> doneBatch q) \<or> ba_id r \<notin> snd ` open_keys t"
    by (auto simp: b set_updWhere doneBatch_def split: if_splits)
qed (use ses in auto)

lemma claim_inv:
  assumes "arch_inv s" "claimJobTx e s = Inr (r, t)"
  shows "arch_inv t"
  using assms(2)
proof (cases rule: claimJobTx_Inr)
  case (1 j b)
  have idents: "identities_unique (a_jobs t)"
    by (simp add: 1(4), rule identities_updWhere [OF arch_invD(3) [OF assms(1)]]) (simp_all add: startJob_def)
  show ?thesis
    by (rule arch_inv_open_batch [OF assms(1) scheduler_state.claim_jobs [OF arch_inv_scheduler [OF assms(1)] assms(2)]
          idents, where st = B_running]) (simp_all add: 1(4))
qed

lemma bindJobs_inv:
  assumes inv: "arch_inv s" and st: "states \<subseteq> {J_starting, J_uncertain}"
    and bind: "sqlBindJobs (bindTarget states jid th se tu) (bindTo th se tu lb now) s = Inr t"
  shows "arch_inv t"
proof (rule arch_inv_jobs_only [OF inv])
  from bind have t: "t = updJobs (bindTarget states jid th se tu) (bindTo th se tu lb now) s"
    and u: "identities_unique (a_jobs t)"
    unfolding sqlBindJobs_Inr by blast+
  show "jobs_change (a_jobs s) (a_jobs t)"
    by (simp add: t scheduler_state.bind_jobs [OF arch_inv_scheduler [OF inv] st])
  show "identities_unique (a_jobs t)" by (rule u)
  show "a_batches t = a_batches s" "a_sessions t = a_sessions s" by (simp_all add: t)
qed

lemma bindIdentity_inv:
  assumes "arch_inv s"
  shows "arch_inv (snd (BindArchaeologyNativeIdentity e jid th se tu snap s))"
  using assms
  by (auto simp: BindArchaeologyNativeIdentity_def Let_def intro: bindJobs_inv
      split: option.splits sum.splits)

lemma bindUncertainty_inv:
  assumes "arch_inv s"
  shows "arch_inv (snd (BindArchaeologyNativeUncertainty e jid launch s))"
  using assms
  by (auto simp: BindArchaeologyNativeUncertainty_def Let_def intro: bindJobs_inv split: sum.splits)

lemma updJobs_inv:
  assumes inv: "arch_inv s" and row: "\<And>j. j \<in> set (a_jobs s) \<Longrightarrow> p j \<Longrightarrow> job_change j (f j)"
    and "\<And>j. nj_thread_id (f j) = nj_thread_id j" "\<And>j. nj_turn_id (f j) = nj_turn_id j"
  shows "arch_inv (updJobs p f s)"
  by (rule arch_inv_jobs_only [OF inv])
    (simp_all add: jobs_change_updWhere [OF arch_invD(2) [OF inv] row] identities_updWhere [OF arch_invD(3) [OF inv] assms(3,4)])

lemma activate_inv:
  assumes "arch_inv s"
  shows "arch_inv (snd (ActivateArchaeologyNativeJob e jid th tu snap s))"
proof -
  have "arch_inv (updJobs (\<lambda>r. nj_id r = jid \<and> nj_thread_id r = th \<and> nj_turn_id r = tu \<and> nj_state r = J_starting)
      (\<lambda>r. r\<lparr>nj_state := J_active, nj_phase_label := ''Visible in Codex'', nj_updated_at := env_now e\<rparr>) s)"
    by (rule updJobs_inv [OF assms]) (use arch_invD(2) [OF assms] activate_change in auto)
  with assms show ?thesis
    by (simp add: ActivateArchaeologyNativeJob_def Let_def split: option.split)
qed

lemma progress_inv:
  assumes "arch_inv s"
  shows "arch_inv (snd (UpdateArchaeologyNativeProgress e p snap s))"
proof -
  have "arch_inv (updJobs (\<lambda>r. activeJobAt (ng_JobID p) (ng_ThreadID p) (ng_TurnID p) r \<and> nj_state r = J_active)
      (\<lambda>r. r\<lparr>nj_phase_label := ng_PhaseLabel p, nj_sources_examined := ng_SourcesExamined p,
            nj_updated_at := env_now e\<rparr>) s)"
    by (rule updJobs_inv [OF assms]) (use arch_invD(2) [OF assms] progress_change in auto)
  with assms show ?thesis
    by (simp add: UpdateArchaeologyNativeProgress_def Let_def split: option.split prod.split)
qed

lemma lose_inv:
  assumes inv: "arch_inv s" and tx: "loseTx e jid th tu s = Inr (r, t)"
  shows "arch_inv t"
  using tx
proof (cases rule: loseTx_Inr)
  case unchanged
  with inv show ?thesis by simp
next
  case (changed j states)
  have idents: "identities_unique (a_jobs t)"
    by (simp add: changed(4), rule identities_updWhere [OF arch_invD(3) [OF inv]]) (simp_all add: loseRow_frame)
  show ?thesis
    by (rule arch_inv_open_batch [OF inv scheduler_state.lose_jobs [OF arch_inv_scheduler [OF inv] tx] idents,
          where st = B_attention]) (simp_all add: changed(4))
qed

lemma report_inv:
  assumes inv: "arch_inv s" and tx: "reportTx L e cmd s = Inr (r, t)"
  shows "arch_inv t"
  using tx
proof (cases rule: reportTx_Inr)
  case replayed
  with inv show ?thesis by simp
next
  case (changed j b limits u)
  have u: "a_jobs u = a_jobs s" "a_batches u = a_batches s" "a_sessions u = a_sessions s"
    using foldE_sameScheduler [OF changed(8) insertOutcome_sameScheduler] by (simp_all add: sameScheduler_def)
  show ?thesis
  proof (rule arch_inv_stepI [OF inv scheduler_state.report_jobs [OF arch_inv_scheduler [OF inv] tx]])
    show "identities_unique (a_jobs t)"
      by (simp add: changed(9) u, rule identities_updWhere [OF arch_invD(3) [OF inv]]) (simp_all add: reportRow_def)
    show "map ba_keys (a_batches t) = map ba_keys (a_batches s)"
      by (simp add: changed(9) u, rule keys_updBatches) (simp add: ba_keys_def)
    show "map ss_keys (a_sessions t) = map ss_keys (a_sessions s)"
      by (simp add: changed(9) u, rule keys_updSessions) (simp add: ss_keys_def)
  qed (auto simp: changed(9) u set_updWhere doneBatch_def split: if_splits)
qed

section \<open>Operations that settle a batch\<close>

text \<open>
  A transaction that ends a job then recomputes the state of its batch from the counts; if
  it closes the batch or returns the session to draft, the batch has no open job left.
\<close>

lemma arch_inv_settleI:
  assumes inv: "arch_inv s" and jobs: "jobs_change (a_jobs s) (a_jobs t)" "identities_unique (a_jobs t)"
    and key: "(sid, bid) \<in> open_keys s"
    and b: "a_batches t = updWhere (\<lambda>b. ba_id b = bid \<and> q b) (\<lambda>b. b\<lparr>ba_state := st, ba_updated_at := now\<rparr>) (a_batches s)"
    and ses: "a_sessions t = (if c then updWhere (\<lambda>r. ss_id r = sid) (nextRevision S_draft now) (a_sessions s)
                              else a_sessions s)"
    and closed: "st \<in> {B_completed, B_canceled} \<and> (\<exists>b. q b) \<or> c \<Longrightarrow> bid \<notin> snd ` open_keys t"
  shows "arch_inv t"
proof (rule arch_inv_stepI [OF inv jobs])
  show "map ba_keys (a_batches t) = map ba_keys (a_batches s)"
    unfolding b by (rule keys_updBatches) (simp add: ba_keys_def)
  show "map ss_keys (a_sessions t) = map ss_keys (a_sessions s)"
    unfolding ses by (simp add: keys_updSessions)
next
  fix r assume r: "r \<in> set (a_sessions t)" "ss_state r = S_draft"
  have sid: "sid \<notin> fst ` open_keys t" if c
    by (rule settled_session [OF inv open_keys_shrink [OF jobs(1)] key closed]) (simp add: that)
  from r obtain x where x: "x \<in> set (a_sessions s)" "ss_id r = ss_id x" "r = x \<or> c \<and> ss_id x = sid"
    by (auto simp: ses set_updWhere split: if_splits)
  with sid r show "(\<exists>q \<in> set (a_sessions s). ss_id q = ss_id r \<and> ss_state q = S_draft) \<or> ss_id r \<notin> fst ` open_keys t"
    by metis
next
  fix r assume r: "r \<in> set (a_batches t)" "doneBatch r"
  then obtain x where x: "x \<in> set (a_batches s)" "ba_id r = ba_id x"
      "r = x \<or> ba_id x = bid \<and> q x \<and> st \<in> {B_completed, B_canceled}"
    by (auto simp: b set_updWhere doneBatch_def split: if_splits)
  with r closed show "(\<exists>q \<in> set (a_batches s). ba_id q = ba_id r \<and> doneBatch q) \<or> ba_id r \<notin> snd ` open_keys t"
    by metis
qed

lemma failStart_inv:
  assumes inv: "arch_inv s" and tx: "failStartTx e jid launch unc s = Inr (r, t)"
  shows "arch_inv t"
  using tx
proof (cases rule: failStartTx_Inr)
  case unchanged
  with inv show ?thesis by simp
next
  case (changed j)
  define s1 where "s1 = updJobs (\<lambda>r. nj_id r = jid) (failStartRow j launch unc (env_now e)) s"
  define bid where "bid = nj_batch_id j"
  define n where "n = batchCount openJob bid s1"
  define m where "m = batchCount failedJob bid s1"
  define u where "u = batchCount (\<lambda>st. st = J_uncertain) bid s1"
  define st where "st = (if u > 0 \<or> n = 0 \<and> m > 0 then B_attention else if n = 0 then B_completed else B_running)"
  have jobs: "a_jobs t = a_jobs s1" and b: "a_batches t = updWhere (\<lambda>b. ba_id b = bid \<and> True)
        (\<lambda>b. b\<lparr>ba_state := st, ba_updated_at := env_now e\<rparr>) (a_batches s)"
    and ses: "a_sessions t = (if (st = B_completed \<or> st = B_attention) \<and> u = 0
        then updWhere (\<lambda>r. ss_id r = nj_session_id j) (nextRevision S_draft (env_now e)) (a_sessions s)
        else a_sessions s)"
    unfolding changed(5) s1_def [symmetric] failStartSettle_def bid_def [symmetric] n_def [symmetric] m_def [symmetric]
      u_def [symmetric] Let_def st_def [symmetric]
    by (simp_all add: s1_def)
  have "(nj_session_id j, bid) \<in> open_keys s"
    using changed(1,2) unfolding bid_def by (intro open_keysI) (auto simp: finishedJob_def dest: jobRow_SomeD)
  moreover have "bid \<notin> snd ` open_keys t" if "st \<in> {B_completed, B_canceled} \<and> (\<exists>b :: batch_row. True) \<or> (st = B_completed \<or> st = B_attention) \<and> u = 0"
  proof -
    from that have "n = 0" "u = 0" by (auto simp: st_def split: if_splits)
    then show ?thesis
      using batchCount_zero [of bid s1] by (simp add: n_def u_def open_keys_jobs [OF jobs])
  qed
  moreover have "identities_unique (a_jobs t)"
    using changed(4) jobs by (simp add: s1_def)
  ultimately show ?thesis
    by (intro arch_inv_settleI [OF inv scheduler_state.failStart_jobs [OF arch_inv_scheduler [OF inv] tx] _ _ b ses])
qed

lemma complete_inv:
  assumes inv: "arch_inv s" and tx: "completeTx e terminal s = Inr (r, t)" and "nt_ThreadID terminal \<noteq> ''''"
  shows "arch_inv t"
  using tx
proof (cases rule: completeTx_Inr)
  case unchanged
  with inv show ?thesis by simp
next
  case (changed j b)
  define s1 where "s1 = updJobs (\<lambda>q. activeJobAt (nt_JobID terminal) (nt_ThreadID terminal) (nt_TurnID terminal) q \<and>
      nj_state q = nj_state j) (completeRow j terminal (env_now e)) s"
  define bid where "bid = nj_batch_id j"
  define n where "n = batchCount openJob bid s1"
  define m where "m = batchCount failedJob bid s1"
  define u where "u = batchCount (\<lambda>st. st = J_uncertain) bid s1"
  define st where "st = (if u > 0 then B_attention else if n = 0 then
      (if ba_state b = B_cancel_requested then B_canceled else if m > 0 then B_attention else B_completed)
      else if ba_state b = B_cancel_requested then B_cancel_requested else B_running)"
  have jobs: "a_jobs t = a_jobs s1" and b: "a_batches t = updWhere (\<lambda>b. ba_id b = bid \<and> True)
        (\<lambda>b. b\<lparr>ba_state := st, ba_updated_at := env_now e\<rparr>) (a_batches s)"
    and ses: "a_sessions t = (if st \<in> {B_completed, B_canceled, B_attention} \<and> u = 0
        then updWhere (\<lambda>r. ss_id r = nj_session_id j) (nextRevision S_draft (env_now e)) (a_sessions s)
        else a_sessions s)"
    unfolding changed(3) s1_def [symmetric] completeSettle_def bid_def [symmetric] n_def [symmetric] m_def [symmetric]
      u_def [symmetric] Let_def st_def [symmetric]
    by (simp_all add: s1_def)
  have "(nj_session_id j, bid) \<in> open_keys s"
    using changed(2) jobWithBatch_SomeD(1) [OF changed(1)] unfolding bid_def by (intro open_keysI)
  moreover have "bid \<notin> snd ` open_keys t"
    if "st \<in> {B_completed, B_canceled} \<and> (\<exists>b :: batch_row. True) \<or> st \<in> {B_completed, B_canceled, B_attention} \<and> u = 0"
  proof -
    from that have "n = 0" "u = 0" by (auto simp: st_def split: if_splits)
    then show ?thesis
      using batchCount_zero [of bid s1] by (simp add: n_def u_def open_keys_jobs [OF jobs])
  qed
  moreover have "identities_unique (a_jobs t)"
    by (simp add: jobs s1_def, rule identities_updWhere [OF arch_invD(3) [OF inv]]) (simp_all add: completeRow_frame)
  ultimately show ?thesis
    by (intro arch_inv_settleI [OF inv scheduler_state.complete_jobs [OF arch_inv_scheduler [OF inv] tx assms(3)] _ _ b ses])
qed

lemma not_interrupted:
  assumes "x \<in> set (updWhere p (interruptJob c now) js)" "\<not> finishedJob (nj_state x)"
  shows "x \<in> set js" "\<not> p x"
  using assms by (auto simp: updWhere_def finishedJob_def split: if_splits)

lemma resolve_inv:
  assumes inv: "arch_inv s" and tx: "resolveTx L e cmd s = Inr (r, t)"
  shows "arch_inv t"
  using tx
proof (cases rule: resolveTx_Inr)
  case replayed
  with inv show ?thesis by simp
next
  case (changed ses j q)
  define bid where "bid = nj_batch_id j"
  define s1 where "s1 = updJobs (\<lambda>r. nj_id r = nr_JobID cmd \<and> nj_state r = J_uncertain)
      (interruptJob ''human_confirmed_stopped'' (env_now e)) (s\<lparr>a_resolutions := a_resolutions s @ [q]\<rparr>)"
  define c where "c \<longleftrightarrow> batchCount (\<lambda>st. st = J_uncertain) bid s1 = 0"
  have t: "t = resolveSettle (ss_id ses) bid (env_now e) s1"
    unfolding changed(10) s1_def bid_def ..
  have b: "a_batches t = updWhere (\<lambda>b. ba_id b = bid \<and> (ba_state b = B_attention \<and> c))
      (\<lambda>b. b\<lparr>ba_state := B_canceled, ba_updated_at := env_now e\<rparr>) (a_batches s)"
    by (simp add: t resolveSettle_def c_def s1_def updWhere_def)
  have ses: "a_sessions t = (if c then updWhere (\<lambda>r. ss_id r = nj_session_id j) (nextRevision S_draft (env_now e)) (a_sessions s)
      else a_sessions s)"
    by (simp add: t resolveSettle_def c_def s1_def changed(4))
  have "identities_unique (a_jobs t)"
    by (auto simp: t resolveSettle_def s1_def intro!: identities_updWhere arch_invD(3) [OF inv])
  moreover have "bid \<notin> snd ` open_keys t" if c
  proof
    assume "bid \<in> snd ` open_keys t"
    then obtain x where x: "x \<in> set (a_jobs t)" "\<not> finishedJob (nj_state x)" "nj_batch_id x = bid"
      by (auto simp: open_keys_def)
    have jobs: "a_jobs t = updWhere (\<lambda>r. nj_batch_id r = bid \<and> nj_state r = J_queued)
        (interruptJob ''batch_abandoned_after_reconciliation'' (env_now e)) (a_jobs s1)"
      using that by (simp add: t resolveSettle_def c_def)
    have x1: "x \<in> set (a_jobs s1)" "nj_state x \<noteq> J_queued"
      using not_interrupted [OF x(1) [unfolded jobs] x(2)] x(3) by blast+
    with that x have "nj_state x \<noteq> J_uncertain"
      by (auto simp: c_def batchCount_def countWhere_def filter_empty_conv)
    moreover have "x \<in> set (a_jobs s)"
      using not_interrupted [of x _ _ _ "a_jobs s"] x1(1) x(2) by (simp add: s1_def)
    moreover have "nj_id x \<noteq> nj_id j"
      using calculation(1,2) changed(2,5) distinct_key_eq [OF arch_invD(1) [OF inv], of x j] by auto
    ultimately show False
      using changed(9) x(2,3) x1(2) by (cases "nj_state x") (auto simp: bid_def finishedJob_def)
  qed
  moreover have "(nj_session_id j, bid) \<in> open_keys s"
    using changed(2,5) unfolding bid_def by (intro open_keysI) (simp_all add: finishedJob_def)
  ultimately show ?thesis
    by (intro arch_inv_settleI [OF inv scheduler_state.resolve_jobs [OF arch_inv_scheduler [OF inv] tx] _ _ b ses])
      blast+
qed

section \<open>Cancelling and restarting\<close>

definition cancelRow :: "gostring \<Rightarrow> time \<Rightarrow> job_row \<Rightarrow> job_row" where
  "cancelRow sid now r =
     (if nj_session_id r \<noteq> sid then r
      else if nj_state r = J_queued then r\<lparr>nj_state := J_interrupted, nj_error_code := ''canceled_before_start'',
             nj_terminal_at := Some now, nj_updated_at := now\<rparr>
      else if nj_state r \<in> {J_active, J_report_ready, J_cancel_requested}
        then r\<lparr>nj_state := J_cancel_requested, nj_error_code := ''human_cancel_requested'', nj_updated_at := now\<rparr>
      else if nj_state r = J_starting
        then r\<lparr>nj_state := J_uncertain, nj_error_code := ''canceled_during_ambiguous_start'', nj_updated_at := now\<rparr>
      else r)"

lemma a_jobs_cancelJobs: "a_jobs (cancelJobs sid now s) = map (cancelRow sid now) (a_jobs s)"
  by (simp add: cancelJobs_def updWhere_def cancelRow_def)

lemma cancelRow_frame:
  "nj_session_id (cancelRow sid now r) = nj_session_id r" "nj_thread_id (cancelRow sid now r) = nj_thread_id r"
  "nj_turn_id (cancelRow sid now r) = nj_turn_id r"
  by (simp_all add: cancelRow_def)

lemma cancelRow_state:
  assumes "nj_session_id r = sid"
  shows "nj_state (cancelRow sid now r) =
    (if nj_state r = J_queued then J_interrupted
     else if nj_state r \<in> {J_active, J_report_ready, J_cancel_requested} then J_cancel_requested
     else if nj_state r = J_starting then J_uncertain else nj_state r)"
  using assms by (simp add: cancelRow_def)

lemma cancelJobs_state:
  assumes "x \<in> set (a_jobs (cancelJobs sid now s))" "nj_session_id x = sid"
  shows "nj_state x \<in> {J_cancel_requested, J_uncertain} \<or> finishedJob (nj_state x)"
proof -
  from assms obtain r where r: "x = cancelRow sid now r" by (auto simp: a_jobs_cancelJobs)
  with assms(2) have "nj_session_id r = sid" by (simp add: cancelRow_frame)
  then show ?thesis
    unfolding r by (cases "nj_state r") (simp_all add: cancelRow_state finishedJob_def)
qed

lemma cancelJobs_frame [simp]:
  "a_sessions (cancelJobs sid now s) = a_sessions s" "a_batches (cancelJobs sid now s) = a_batches s"
  "a_requests (cancelJobs sid now s) = a_requests s" "a_resolutions (cancelJobs sid now s) = a_resolutions s"
  by (simp_all add: cancelJobs_def)

lemma cancel_inv:
  assumes inv: "arch_inv s" and tx: "cancelTx L e who rid base s = Inr (js, t)"
  shows "arch_inv t"
  using tx
proof (cases rule: cancelTx_Inr)
  case replayed
  with inv show ?thesis by simp
next
  case (changed ses q)
  define now where "now = env_clock e 1"
  define sid where "sid = ss_id ses"
  define live where "live = countWhere (\<lambda>r. nj_session_id r = sid \<and> liveJob (nj_state r)) (a_jobs (cancelJobs sid now s))"
  have jobs: "a_jobs t = a_jobs (cancelJobs sid now s)"
    by (simp add: changed(9) now_def sid_def cancelSettle_def Let_def a_jobs_cancelJobs)
  have b: "a_batches t = updWhere (\<lambda>r. ba_session_id r = sid \<and> ba_state r \<in> {B_queued, B_running})
      (\<lambda>r. r\<lparr>ba_state := (if live = 0 then B_canceled else B_cancel_requested), ba_updated_at := now\<rparr>) (a_batches s)"
    and r: "a_sessions t = updWhere (\<lambda>r. ss_id r = sid)
      (nextRevision (if live = 0 then S_draft else S_cancel_requested) now) (a_sessions s)"
    by (simp_all add: changed(9) now_def sid_def cancelSettle_def Let_def live_def a_jobs_cancelJobs)
  have none: "sid \<notin> fst ` open_keys t" if "live = 0"
  proof
    assume "sid \<in> fst ` open_keys t"
    then obtain x where x: "x \<in> set (a_jobs (cancelJobs sid now s))" "\<not> finishedJob (nj_state x)" "nj_session_id x = sid"
      by (auto simp: open_keys_def jobs)
    with cancelJobs_state [OF x(1,3)] that show False
      by (auto simp: live_def countWhere_def filter_empty_conv liveJob_def)
  qed
  show ?thesis
  proof (rule arch_inv_stepI [OF inv])
    show "jobs_change (a_jobs s) (a_jobs t)"
      unfolding jobs by (rule scheduler_state.cancelJobs_jobs [OF arch_inv_scheduler [OF inv]])
    show "identities_unique (a_jobs t)"
      using arch_invD(3) [OF inv] by (simp add: jobs a_jobs_cancelJobs identities_unique_def comp_def cancelRow_frame)
    show "map ba_keys (a_batches t) = map ba_keys (a_batches s)"
      unfolding b by (rule keys_updBatches) (simp add: ba_keys_def)
    show "map ss_keys (a_sessions t) = map ss_keys (a_sessions s)"
      unfolding r by (rule keys_updSessions) simp
  next
    fix x assume x: "x \<in> set (a_sessions t)" "ss_state x = S_draft"
    then obtain y where "y \<in> set (a_sessions s)" "ss_id x = ss_id y" "x = y \<or> ss_id y = sid \<and> live = 0"
      by (auto simp: r set_updWhere split: if_splits)
    with none x show "(\<exists>q \<in> set (a_sessions s). ss_id q = ss_id x \<and> ss_state q = S_draft) \<or> ss_id x \<notin> fst ` open_keys t"
      by metis
  next
    fix x assume x: "x \<in> set (a_batches t)" "doneBatch x"
    then obtain y where y: "y \<in> set (a_batches s)" "ba_id x = ba_id y" "x = y \<or> ba_session_id y = sid \<and> live = 0"
      by (auto simp: b set_updWhere doneBatch_def split: if_splits)
    have "ba_id y \<notin> snd ` open_keys t" if "ba_session_id y = sid" "live = 0"
    proof
      assume "ba_id y \<in> snd ` open_keys t"
      then obtain a where a: "(a, ba_id y) \<in> open_keys t" by auto
      have "open_keys t \<subseteq> open_keys s"
        by (rule open_keys_shrink, unfold jobs, rule scheduler_state.cancelJobs_jobs [OF arch_inv_scheduler [OF inv]])
      with a obtain j where j: "j \<in> set (a_jobs s)" "nj_session_id j = a" "nj_batch_id j = ba_id y"
        by (auto simp: open_keys_def)
      with arch_invD(7) [OF inv] obtain z where "z \<in> set (a_batches s)" "ba_id z = ba_id y" "ba_session_id z = a"
        by (auto simp: refs_ok_def)
      with y(1) distinct_key_eq [OF arch_invD(4) [OF inv]] have "a = ba_session_id y" by blast
      with a none [OF that(2)] that(1) show False by force
    qed
    with x y show "(\<exists>q \<in> set (a_batches s). ba_id q = ba_id x \<and> doneBatch q) \<or> ba_id x \<notin> snd ` open_keys t"
      by metis
  qed
qed

lemma reconcileJobs_frame [simp]:
  "a_sessions (reconcileJobs now s) = a_sessions s" "a_batches (reconcileJobs now s) = a_batches s"
  "a_requests (reconcileJobs now s) = a_requests s" "a_resolutions (reconcileJobs now s) = a_resolutions s"
  by (simp_all add: reconcileJobs_def)

definition reconciledBatches :: "time \<Rightarrow> job_row list \<Rightarrow> batch_row list \<Rightarrow> batch_row list" where
  "reconciledBatches now js bs =
     updWhere (\<lambda>b. ba_state b = B_cancel_requested \<and>
         countWhere (\<lambda>j. nj_batch_id j = ba_id b \<and> unfinishedJob (nj_state j)) js = 0)
       (\<lambda>b. b\<lparr>ba_state := B_canceled, ba_updated_at := now\<rparr>) bs"

text \<open>The tables after the restart transaction, each in terms of the tables before it.\<close>

lemma reconcile_jobs_tables:
  fixes s e defines "js \<equiv> a_jobs (reconcileJobs (env_now e) s)"
  shows "a_jobs (ReconcileArchaeology e s) = js"
    and "a_batches (ReconcileArchaeology e s) =
      updWhere (\<lambda>b. hasRow (\<lambda>j. nj_batch_id j = ba_id b \<and> nj_state j = J_uncertain) js)
        (\<lambda>b. b\<lparr>ba_state := B_attention, ba_updated_at := env_now e\<rparr>)
        (reconciledBatches (env_now e) js (a_batches s))"
    and "a_requests (ReconcileArchaeology e s) = a_requests s"
    and "a_resolutions (ReconcileArchaeology e s) = a_resolutions s"
  by (simp_all add: ReconcileArchaeology_def Let_def js_def reconciledBatches_def batchCount_def
      reconcileJobs_def cong: if_cong del: unfinishedJob_iff hasRow_iff)

lemma reconcile_sessions_table:
  fixes s e defines "bs \<equiv> reconciledBatches (env_now e) (a_jobs (reconcileJobs (env_now e) s)) (a_batches s)"
  shows "a_sessions (ReconcileArchaeology e s) =
    updWhere (\<lambda>r. ss_state r = S_cancel_requested \<and> \<not> hasRow (\<lambda>b. ba_session_id b = ss_id r) bs)
      (nextRevision S_canceled (env_now e))
   (updWhere (\<lambda>r. ss_state r = S_cancel_requested \<and>
        hasRow (\<lambda>b. ba_session_id b = ss_id r \<and> ba_state b = B_canceled) bs \<and>
        \<not> hasRow (\<lambda>b. ba_session_id b = ss_id r \<and>
             ba_state b \<in> {B_queued, B_running, B_cancel_requested, B_attention}) bs)
      (nextRevision S_draft (env_now e))
   (updWhere (\<lambda>r. ss_state r \<in> {S_running, S_pause_requested}) (nextRevision S_paused (env_now e)) (a_sessions s)))"
  by (simp add: ReconcileArchaeology_def Let_def bs_def reconciledBatches_def batchCount_def hasBatch_def
      reconcileJobs_def cong: if_cong del: unfinishedJob_iff hasRow_iff)

lemma reconcile_draft:
  assumes "x \<in> set (a_sessions (ReconcileArchaeology e s))" "ss_state x = S_draft"
  obtains (before) "x \<in> set (a_sessions s)"
  | (drained) y where "y \<in> set (a_sessions s)" "ss_id x = ss_id y"
      "\<forall>b \<in> set (reconciledBatches (env_now e) (a_jobs (reconcileJobs (env_now e) s)) (a_batches s)).
         ba_session_id b = ss_id y \<longrightarrow> doneBatch b"
proof -
  define bs where "bs = reconciledBatches (env_now e) (a_jobs (reconcileJobs (env_now e) s)) (a_batches s)"
  have done_: "ba_state b \<in> {B_queued, B_running, B_cancel_requested, B_attention} \<or> doneBatch b" for b
    by (cases "ba_state b") (simp_all add: doneBatch_def)
  from assms have "x \<in> set (a_sessions s) \<or> (\<exists>y \<in> set (a_sessions s). ss_id x = ss_id y \<and>
      \<not> hasRow (\<lambda>b. ba_session_id b = ss_id y \<and> ba_state b \<in> {B_queued, B_running, B_cancel_requested, B_attention}) bs)"
    unfolding reconcile_sessions_table bs_def [symmetric]
    by (auto simp: set_updWhere simp del: hasRow_iff insert_iff split: if_splits)
  then show ?thesis
  proof
    assume "x \<in> set (a_sessions s)"
    then show ?thesis by (rule before)
  next
    assume "\<exists>y \<in> set (a_sessions s). ss_id x = ss_id y \<and>
      \<not> hasRow (\<lambda>b. ba_session_id b = ss_id y \<and> ba_state b \<in> {B_queued, B_running, B_cancel_requested, B_attention}) bs"
    then obtain y where y: "y \<in> set (a_sessions s)" "ss_id x = ss_id y" and
      none: "\<forall>b \<in> set bs. ba_session_id b = ss_id y \<longrightarrow>
         ba_state b \<notin> {B_queued, B_running, B_cancel_requested, B_attention}"
      unfolding hasRow_iff by blast
    from none done_ have "\<forall>b \<in> set bs. ba_session_id b = ss_id y \<longrightarrow> doneBatch b" by blast
    then show ?thesis unfolding bs_def by (rule drained [OF y])
  qed
qed

lemma reconciledBatches_done:
  assumes "b \<in> set (reconciledBatches now js bs)" "doneBatch b"
  obtains c where "c \<in> set bs" "ba_id c = ba_id b" "ba_session_id c = ba_session_id b"
    "doneBatch c \<or> (\<forall>j \<in> set js. nj_batch_id j = ba_id b \<longrightarrow> finishedJob (nj_state j))"
  using assms
  by (auto simp: reconciledBatches_def set_updWhere doneBatch_def countWhere_def filter_empty_conv split: if_splits)

lemma reconciledBatches_keys: "map ba_keys (reconciledBatches now js bs) = map ba_keys bs"
  unfolding reconciledBatches_def by (rule keys_updBatches) (simp add: ba_keys_def)

lemma reconcile_inv:
  assumes inv: "arch_inv s"
  shows "arch_inv (ReconcileArchaeology e s)"
proof -
  define t where "t = ReconcileArchaeology e s"
  define js where "js = a_jobs (reconcileJobs (env_now e) s)"
  define bs where "bs = reconciledBatches (env_now e) js (a_batches s)"
  have jobs: "a_jobs t = js" and batches: "a_batches t =
      updWhere (\<lambda>b. hasRow (\<lambda>j. nj_batch_id j = ba_id b \<and> nj_state j = J_uncertain) js)
        (\<lambda>b. b\<lparr>ba_state := B_attention, ba_updated_at := env_now e\<rparr>) bs"
    by (simp_all add: t_def js_def bs_def reconcile_jobs_tables)
  have change: "jobs_change (a_jobs s) (a_jobs t)"
    unfolding jobs js_def by (rule scheduler_state.reconcileJobs_jobs [OF arch_inv_scheduler [OF inv]])
  note shrink = open_keys_shrink [OF change]
  have closed: "ba_id b \<notin> snd ` open_keys t" if b: "b \<in> set bs" "doneBatch b" for b
  proof -
    from b obtain c where c: "c \<in> set (a_batches s)" "ba_id c = ba_id b"
        "doneBatch c \<or> (\<forall>j \<in> set js. nj_batch_id j = ba_id b \<longrightarrow> finishedJob (nj_state j))"
      unfolding bs_def by (rule reconciledBatches_done)
    show ?thesis
    proof (cases "doneBatch c")
      case True
      with c(1,2) arch_invD(8) [OF inv] have "ba_id b \<notin> snd ` open_keys s" unfolding confined_def by metis
      with shrink show ?thesis by blast
    next
      case False
      with c show ?thesis by (auto simp: open_keys_def jobs)
    qed
  qed
  have "arch_inv t"
  proof (rule arch_inv_stepI [OF inv change])
    show "identities_unique (a_jobs t)"
      unfolding jobs js_def reconcileJobs_def updJobs_frame
      by (intro identities_updWhere arch_invD(3) [OF inv]) simp_all
    have "map ba_keys (a_batches t) = map ba_keys bs"
      unfolding batches by (rule keys_updBatches) (simp add: ba_keys_def)
    then show "map ba_keys (a_batches t) = map ba_keys (a_batches s)"
      by (simp add: bs_def reconciledBatches_keys)
    show "map ss_keys (a_sessions t) = map ss_keys (a_sessions s)"
      unfolding t_def reconcile_sessions_table by (simp add: keys_updSessions)
  next
    fix x assume x: "x \<in> set (a_sessions t)" and d: "ss_state x = S_draft"
    from x [unfolded t_def] d
    show "(\<exists>q \<in> set (a_sessions s). ss_id q = ss_id x \<and> ss_state q = S_draft) \<or> ss_id x \<notin> fst ` open_keys t"
    proof (cases rule: reconcile_draft)
      case before
      with d show ?thesis by blast
    next
      case (drained y)
      have "ss_id x \<notin> fst ` open_keys t"
      proof
        assume "ss_id x \<in> fst ` open_keys t"
        then obtain k where k: "(ss_id x, k) \<in> open_keys t" by auto
        with shrink have "(ss_id x, k) \<in> open_keys s" by blast
        then obtain j where "j \<in> set (a_jobs s)" "nj_session_id j = ss_id x" "nj_batch_id j = k"
          by (auto simp: open_keys_def)
        with k have j: "j \<in> set (a_jobs s)" "nj_session_id j = ss_id x" "(ss_id x, nj_batch_id j) \<in> open_keys t"
          by simp_all
        then obtain b where "b \<in> set (a_batches s)" "ba_id b = nj_batch_id j" "ba_session_id b = ss_id x"
          using arch_invD(7) [OF inv] by (auto simp: refs_ok_def)
        then have "ba_keys b \<in> set (map ba_keys bs)"
          using reconciledBatches_keys [of "env_now e" js "a_batches s"] by (auto simp: bs_def)
        with \<open>ba_id b = nj_batch_id j\<close> \<open>ba_session_id b = ss_id x\<close>
        obtain c where "c \<in> set bs" "ba_id c = nj_batch_id j" "ba_session_id c = ss_id x"
          by (auto simp: ba_keys_def)
        with drained(2,3) closed j(3) show False unfolding bs_def js_def by force
      qed
      then show ?thesis ..
    qed
  next
    fix x assume x: "x \<in> set (a_batches t)" "doneBatch x"
    then have "x \<in> set bs"
      by (auto simp: batches set_updWhere doneBatch_def simp del: hasRow_iff split: if_splits)
    with x(2) closed show "(\<exists>q \<in> set (a_batches s). ba_id q = ba_id x \<and> doneBatch q) \<or> ba_id x \<notin> snd ` open_keys t"
      by blast
  qed
  then show ?thesis by (simp add: t_def)
qed

section \<open>Queueing a batch\<close>

lemma freshJob_ok: "freshJob sid bid j \<Longrightarrow> job_ok j"
  by (simp add: freshJob_def job_ok_def unbound_def)

lemma identities_unique_fresh:
  assumes "identities_unique js" "list_all (freshJob sid bid) ks"
  shows "identities_unique (js @ ks)"
proof -
  from assms(2) have "nonempty (map nj_thread_id ks) = []" "nonempty (map nj_turn_id ks) = []"
    by (auto simp: nonempty_def filter_empty_conv list_all_iff freshJob_def)
  with assms(1) show ?thesis
    by (simp add: identities_unique_def nonempty_def)
qed

lemma queue_confined:
  assumes inv: "arch_inv s" and ses: "ses \<in> set (a_sessions s)" "ss_state ses = S_draft"
    and b: "\<forall>q \<in> set (a_batches s). ba_id q \<noteq> ba_id b" "ba_state b = B_queued"
    and keys: "open_keys t \<subseteq> insert (ss_id ses, ba_id b) (open_keys s)"
    and batches: "a_batches t = a_batches s @ [b]"
    and sessions: "a_sessions t = updWhere (\<lambda>r. ss_id r = ss_id ses) (nextRevision S_running now) (a_sessions s)"
  shows "confined t"
proof -
  note conf = arch_invD(8) [OF inv, unfolded confined_def]
  have free: "ss_id ses \<notin> fst ` open_keys s" using conf ses by blast
  show ?thesis
    unfolding confined_def
  proof (intro conjI ballI allI impI)
    fix x y z assume "(x, y) \<in> open_keys t" "(x, z) \<in> open_keys t"
    then have "(x, y) = (ss_id ses, ba_id b) \<or> (x, y) \<in> open_keys s"
        "(x, z) = (ss_id ses, ba_id b) \<or> (x, z) \<in> open_keys s"
      using keys by blast+
    with free conf show "y = z" by (metis fst_conv image_eqI prod.inject)
  next
    fix r assume r: "r \<in> set (a_sessions t)" "ss_state r = S_draft"
    then have "r \<in> set (a_sessions s)" "ss_id r \<noteq> ss_id ses"
      by (auto simp: sessions set_updWhere split: if_splits)
    then have "ss_id r \<notin> fst ` open_keys s" "ss_id r \<noteq> ss_id ses" using r(2) conf by blast+
    with keys show "ss_id r \<notin> fst ` open_keys t" by fastforce
  next
    fix q assume q: "q \<in> set (a_batches t)" "doneBatch q"
    then have "q \<in> set (a_batches s)" using b(2) by (auto simp: batches doneBatch_def)
    then have "ba_id q \<notin> snd ` open_keys s" "ba_id q \<noteq> ba_id b" using q(2) conf b(1) by blast+
    with keys show "ba_id q \<notin> snd ` open_keys t" by fastforce
  qed
qed

lemma queue_inv:
  assumes inv: "arch_inv s" and tx: "queueTx L e cmd s = Inr (r, t)"
  shows "arch_inv t"
  using tx
proof (cases rule: queueTx_Inr)
  case replayed
  with inv show ?thesis by simp
next
  case (changed ses b u)
  note D = arch_invD [OF inv]
  have ses: "ses \<in> set (a_sessions s)" using changed(1) sessionOf_SomeD by blast
  from changed(13) obtain js where js: "a_jobs u = a_jobs s @ js" "list_all (freshJob (ss_id ses) (ba_id b)) js"
      "distinct (map nj_id js)" "set (map nj_id js) \<inter> set (map nj_id (a_jobs s)) = {}"
    and u: "a_sessions u = a_sessions s" "a_batches u = a_batches s @ [b]"
    by (auto simp: addedJobs_def)
  have t: "a_jobs t = a_jobs s @ js" "a_batches t = a_batches s @ [b]"
      "a_sessions t = updWhere (\<lambda>r. ss_id r = ss_id ses) (nextRevision S_running (env_now e)) (a_sessions s)"
    by (simp_all add: changed(14) js(1) u)
  have fresh: "nj_session_id j = ss_id ses" "nj_batch_id j = ba_id b" "job_ok j" if "j \<in> set js" for j
    using js(2) that by (auto simp: list_all_iff freshJob_def job_ok_def unbound_def)
  have ids: "map ss_id (a_sessions t) = map ss_id (a_sessions s)"
      "map ss_principal (a_sessions t) = map ss_principal (a_sessions s)"
    unfolding t by (simp_all add: map_updWhere_frame)
  have "open_keys t \<subseteq> insert (ss_id ses, ba_id b) (open_keys s)"
    by (auto simp: open_keys_def t fresh)
  then have "confined t"
    by (rule queue_confined [OF inv ses changed(2) changed(11) changed(6) _ t(2,3)])
  moreover have "refs_ok t"
  proof -
    have "ss_id ` set (a_sessions t) = ss_id ` set (a_sessions s)"
      using arg_cong [OF ids(1), of set] by simp
    then show ?thesis
      using D(7) ses by (auto simp: refs_ok_def t fresh changed(4))
  qed
  moreover have "identities_unique (a_jobs t)"
    unfolding t by (rule identities_unique_fresh [OF D(3) js(2)])
  moreover have "distinct (map nj_id (a_jobs t))"
    using D(1) js(3,4) by (auto simp: t)
  moreover have "distinct (map ba_id (a_batches t))"
    using D(4) changed(11) by (auto simp: t)
  moreover have "\<forall>j \<in> set (a_jobs t). job_ok j"
    using D(2) fresh(3) by (auto simp: t)
  ultimately show ?thesis
    using D(5,6) ids by (simp add: arch_inv_def)
qed

section \<open>Operations on a session\<close>

lemma arch_inv_cong:
  assumes "arch_inv s" "a_jobs t = a_jobs s" "a_batches t = a_batches s" "a_sessions t = a_sessions s"
  shows "arch_inv t"
  by (rule arch_inv_jobs_only [OF assms(1) _ _ assms(3,4)])
    (simp_all only: assms(2) jobs_change_refl [OF arch_invD(2) [OF assms(1)]] arch_invD(3) [OF assms(1)])

lemma arch_inv_session:
  assumes inv: "arch_inv s" and "a_jobs t = a_jobs s" "a_batches t = a_batches s"
    and ses: "a_sessions t = updWhere (\<lambda>r. ss_id r = sid) f (a_sessions s)"
    and keys: "\<And>r. ss_keys (f r) = ss_keys r"
    and state: "(\<forall>r. ss_state (f r) = ss_state r) \<or> sid \<notin> fst ` open_keys s"
  shows "arch_inv t"
proof (rule arch_inv_stepI [OF inv])
  show "jobs_change (a_jobs s) (a_jobs t)" "identities_unique (a_jobs t)"
    using arch_invD(2,3) [OF inv] by (simp_all add: assms(2) jobs_change_refl)
  show "map ss_keys (a_sessions t) = map ss_keys (a_sessions s)"
    unfolding ses by (rule keys_updSessions) (rule keys)
next
  fix x assume x: "x \<in> set (a_sessions t)" "ss_state x = S_draft"
  then obtain y where y: "y \<in> set (a_sessions s)" "x = y \<or> ss_id y = sid \<and> x = f y"
    by (auto simp: ses set_updWhere split: if_splits)
  have "ss_id x = ss_id y" using y(2) keys [of y] by (auto simp: ss_keys_def)
  moreover have "ss_state y = S_draft \<or> ss_id y \<notin> fst ` open_keys s"
    using x(2) y(2) state by metis
  ultimately show "(\<exists>q \<in> set (a_sessions s). ss_id q = ss_id x \<and> ss_state q = S_draft) \<or> ss_id x \<notin> fst ` open_keys t"
    using y(1) unfolding open_keys_jobs [OF assms(2)] by auto
qed (use assms(3) in auto)

lemma ensure_inv:
  assumes inv: "arch_inv s" and tx: "ensureArchaeologySession L who now s = Inr (sid, t)"
  shows "arch_inv t \<and> a_jobs t = a_jobs s \<and> a_batches t = a_batches s \<and> a_requests t = a_requests s \<and>
    a_resolutions t = a_resolutions s \<and> (\<exists>xs. map ss_keys (a_sessions t) = map ss_keys (a_sessions s) @ xs)"
proof (cases "t = s")
  case True
  with inv show ?thesis by simp
next
  case False
  define r where "r = newSession L who now"
  have new: "\<forall>q \<in> set (a_sessions s). ss_id q \<noteq> ss_id r" "\<forall>q \<in> set (a_sessions s). ss_principal q \<noteq> ss_principal r"
    using tx False by (auto simp: ensureArchaeologySession_def r_def newSession_def Let_def split: if_splits)
  have t: "t = s\<lparr>a_sessions := a_sessions s @ [r]\<rparr>"
    using tx False by (auto simp: ensureArchaeologySession_def r_def Let_def split: if_splits)
  have free: "ss_id r \<notin> fst ` open_keys s"
    using arch_invD(7) [OF inv] new(1) by (fastforce simp: open_keys_def refs_ok_def)
  have "open_keys t = open_keys s" by (rule open_keys_jobs) (simp add: t)
  then have "confined t"
    using arch_invD(8) [OF inv] free by (auto simp: confined_def t)
  moreover have "refs_ok t"
    using arch_invD(7) [OF inv] by (auto simp: refs_ok_def t)
  ultimately have "arch_inv t"
    using arch_invD [OF inv] new by (auto simp: arch_inv_def t)
  then show ?thesis by (simp add: t)
qed

lemma foldE_candidates:
  assumes "foldE f cs s = Inr t" and "\<And>c s t. f c s = Inr t \<Longrightarrow> \<exists>xs. t = s\<lparr>a_candidates := xs\<rparr>"
  shows "\<exists>xs. t = s\<lparr>a_candidates := xs\<rparr>"
proof (rule foldE_invariant [where P = "\<lambda>u. \<exists>xs. u = s\<lparr>a_candidates := xs\<rparr>", OF assms(1)])
  show "\<exists>xs. s = s\<lparr>a_candidates := xs\<rparr>" by (rule exI [of _ "a_candidates s"]) simp
next
  fix c u v assume "\<exists>xs. u = s\<lparr>a_candidates := xs\<rparr>" "f c u = Inr v"
  with assms(2) show "\<exists>xs. v = s\<lparr>a_candidates := xs\<rparr>" by fastforce
qed

lemma replaceCandidates_frame:
  assumes "replaceCandidates sid cs s = Inr t"
  shows "\<exists>xs. t = s\<lparr>a_candidates := xs\<rparr>"
proof (cases "referencedSession sid s")
  case True
  define u where "u = s\<lparr>a_candidates := updWhere (\<lambda>r. ca_session_id r = sid) retireCandidate (a_candidates s)\<rparr>"
  have "foldE (upsertCandidate sid) cs u = Inr t"
    using assms True by (simp add: replaceCandidates_def u_def)
  then have "\<exists>xs. t = u\<lparr>a_candidates := xs\<rparr>"
    by (rule foldE_candidates) (auto simp: upsertCandidate_def Let_def split: if_splits)
  then show ?thesis by (simp add: u_def)
next
  case False
  define u where "u = s\<lparr>a_candidates := filter (\<lambda>r. ca_session_id r \<noteq> sid) (a_candidates s)\<rparr>"
  have "foldE (insertCandidate sid) cs u = Inr t"
    using assms False by (simp add: replaceCandidates_def u_def)
  then have "\<exists>xs. t = u\<lparr>a_candidates := xs\<rparr>"
    by (rule foldE_candidates) (auto simp: insertCandidate_def)
  then show ?thesis by (simp add: u_def)
qed

lemma claimRequest_frame:
  assumes "claimArchaeologyRequest who key op sid dg now s = Inr (replay, t)"
  shows "\<exists>xs. t = s\<lparr>a_requests := a_requests s @ xs\<rparr>"
  using assms
proof (cases rule: claimArchaeologyRequest_Inr)
  case 1
  then show ?thesis by (intro exI [of _ "[]"]) simp
qed blast

lemma arch_inv_request:
  assumes "arch_inv s" "claimArchaeologyRequest who key op sid dg now s = Inr (replay, t)"
  shows "arch_inv t"
  using claimRequest_frame [OF assms(2)] arch_inv_cong [OF assms(1), of t] by auto

text \<open>
  The three session transactions begin alike: the session row is ensured and the request is
  claimed. What follows runs in a state with the invariant, and only when the request is new.
\<close>

definition same_work :: "arch \<Rightarrow> arch \<Rightarrow> bool" where
  "same_work s t \<longleftrightarrow> a_jobs t = a_jobs s \<and> a_batches t = a_batches s \<and> a_resolutions t = a_resolutions s \<and>
     (\<exists>xs. a_requests t = a_requests s @ xs) \<and>
     (\<exists>xs. map ss_keys (a_sessions t) = map ss_keys (a_sessions s) @ xs)"

lemma same_work_cong:
  assumes "same_work s u" "a_jobs t = a_jobs u" "a_batches t = a_batches u"
    "a_resolutions t = a_resolutions u" "a_requests t = a_requests u"
    "map ss_keys (a_sessions t) = map ss_keys (a_sessions u)"
  shows "same_work s t"
  using assms by (simp add: same_work_def)

lemma session_prologue:
  assumes inv: "arch_inv s"
    and "bindE (ensureArchaeologySession L who now s) (\<lambda>(sid, s).
           bindE (claimArchaeologyRequest who key op sid (dg sid) now s) (\<lambda>(replay, s).
             if replay then Inr ((), s) else body sid s)) = Inr (r, t)"
  obtains (replayed) "arch_inv t" "same_work s t"
  | (fresh) sid u where "arch_inv u" "same_work s u" "body sid u = Inr (r, t)"
proof -
  from assms(2) obtain sid s1 where s1: "ensureArchaeologySession L who now s = Inr (sid, s1)" by auto
  with assms(2) obtain replay s2 where s2: "claimArchaeologyRequest who key op sid (dg sid) now s1 = Inr (replay, s2)"
    by auto
  have "arch_inv s2"
    using arch_inv_request [OF _ s2] ensure_inv [OF inv s1] by blast
  moreover have "same_work s s2"
    using ensure_inv [OF inv s1] claimRequest_frame [OF s2] by (auto simp: same_work_def)
  ultimately show ?thesis
    using that assms(2) s1 s2 by (cases replay) auto
qed

definition discoveredRow :: "ArchaeologyDiscovery \<Rightarrow> time \<Rightarrow> session_row \<Rightarrow> session_row" where
  "discoveredRow d now r = r\<lparr>ss_discovery_state := ''ready'', ss_source_roots_scanned := ad_SourceRootsScanned d,
     ss_tasks_examined := ad_TasksExamined d, ss_projects_grouped := ad_ProjectsGrouped d,
     ss_catalog_truncated := ad_Truncated d, ss_app_server_identity := ad_AppServerIdentity d,
     ss_discovered_at := Some now, ss_updated_at := now, ss_revision := ss_revision r + 1\<rparr>"

lemma discovery_inv:
  assumes inv: "arch_inv s" and tx: "discoveryTx L e m d cs s = Inr (r, t)"
  shows "arch_inv t \<and> same_work s t"
  using inv tx [unfolded discoveryTx_def Let_def]
proof (cases rule: session_prologue)
  case (fresh sid u)
  then obtain v where v: "replaceCandidates sid cs u = Inr v"
    and t: "t = updSessions (\<lambda>r. ss_id r = sid) (discoveredRow d (env_now e)) v"
    by (auto simp: discoveredRow_def [abs_def])
  from replaceCandidates_frame [OF v] have "arch_inv v" "same_work s v"
    by (auto intro: arch_inv_cong [OF fresh(1)] same_work_cong [OF fresh(2)])
  moreover have "arch_inv t" if "arch_inv v"
    by (rule arch_inv_session [OF that, of t sid "discoveredRow d (env_now e)"])
      (simp_all add: t discoveredRow_def ss_keys_def)
  moreover have "same_work s t" if "same_work s v"
    by (rule same_work_cong [OF that])
      (simp_all add: t keys_updSessions discoveredRow_def ss_keys_def)
  ultimately show ?thesis by blast
qed blast

lemma fold_candidates_frame:
  "\<exists>xs. fold (\<lambda>cid s. s\<lparr>a_candidates := g cid (a_candidates s)\<rparr>) ids s = s\<lparr>a_candidates := xs\<rparr>"
proof (induction ids arbitrary: s)
  case Nil
  then show ?case by (intro exI [of _ "a_candidates s"]) simp
next
  case (Cons c ids)
  from Cons.IH [of "s\<lparr>a_candidates := g c (a_candidates s)\<rparr>"] show ?case by auto
qed

definition configuredRow :: "ArchaeologyConfig \<Rightarrow> time \<Rightarrow> session_row \<Rightarrow> session_row" where
  "configuredRow cfg now r = r\<lparr>ss_depth := cf_Depth cfg, ss_sources := cf_Sources cfg,
     ss_max_concurrency := cf_MaxConcurrency cfg, ss_revision := ss_revision r + 1, ss_updated_at := now\<rparr>"

lemma configure_inv:
  assumes inv: "arch_inv s" and tx: "configureTx L e m ids s = Inr (r, t)"
  shows "arch_inv t \<and> same_work s t"
  using inv tx [unfolded configureTx_def Let_def]
proof (cases rule: session_prologue)
  case (fresh sid u)
  then obtain xs where "t = updSessions (\<lambda>r. ss_id r = sid)
      (configuredRow ((am_Config m)\<lparr>cf_SelectedProjectIDs := ids\<rparr>) (env_now e))
      (fold (\<lambda>cid s. s\<lparr>a_candidates := updWhere (candidateKey sid cid) (\<lambda>r. r\<lparr>ca_selected := True\<rparr>) (a_candidates s)\<rparr>)
         ids (u\<lparr>a_candidates := xs\<rparr>))"
    by (auto simp: configuredRow_def [abs_def])
  moreover obtain ys where
    "fold (\<lambda>cid s. s\<lparr>a_candidates := updWhere (candidateKey sid cid) (\<lambda>r. r\<lparr>ca_selected := True\<rparr>) (a_candidates s)\<rparr>)
       ids (u\<lparr>a_candidates := xs\<rparr>) = u\<lparr>a_candidates := xs, a_candidates := ys\<rparr>"
    using fold_candidates_frame [of "\<lambda>cid. updWhere (candidateKey sid cid) (\<lambda>r. r\<lparr>ca_selected := True\<rparr>)" ids] by blast
  ultimately have t: "t = updSessions (\<lambda>r. ss_id r = sid)
      (configuredRow ((am_Config m)\<lparr>cf_SelectedProjectIDs := ids\<rparr>) (env_now e)) (u\<lparr>a_candidates := ys\<rparr>)" by simp
  have "arch_inv t"
    by (rule arch_inv_session [OF fresh(1), of t sid "configuredRow ((am_Config m)\<lparr>cf_SelectedProjectIDs := ids\<rparr>) (env_now e)"])
      (simp_all add: t configuredRow_def ss_keys_def)
  then show ?thesis
    by (auto simp: t configuredRow_def ss_keys_def intro!: same_work_cong [OF fresh(2)] keys_updSessions)
qed blast

lemma legacyStep_frame:
  assumes "legacyStep L operation sid now ses s = Inr (st, t)"
  shows "a_jobs t = a_jobs s" "a_batches t = a_batches s" "a_sessions t = a_sessions s"
    "a_requests t = a_requests s" "a_resolutions t = a_resolutions s"
  using assms
  by (auto simp: legacyStep_def startLegacy_def setRuns_def Let_def split: if_splits option.splits)

lemma transition_inv:
  assumes inv: "arch_inv s" and tx: "transitionTx L e m operation s = Inr (r, t)"
  shows "arch_inv t \<and> same_work s t"
  using inv tx [unfolded transitionTx_def Let_def]
proof (cases rule: session_prologue)
  case (fresh sid u)
  then obtain ses st v where none: "countWhere (\<lambda>b. ba_session_id b = sid) (a_batches u) = 0"
    and v: "legacyStep L operation sid (env_now e) ses u = Inr (st, v)"
    and t: "t = updSessions (\<lambda>r. ss_id r = sid) (nextRevision st (env_now e)) v"
    by auto
  have "sid \<notin> fst ` open_keys u"
    using arch_invD(7) [OF fresh(1)] none
    by (auto simp: open_keys_def refs_ok_def countWhere_def filter_empty_conv)
  then have "arch_inv t"
    by (intro arch_inv_session [OF fresh(1), of t sid "nextRevision st (env_now e)"])
      (simp_all add: t legacyStep_frame [OF v])
  then show ?thesis
    by (auto simp: t legacyStep_frame [OF v] intro!: same_work_cong [OF fresh(2)] keys_updSessions)
qed blast

section \<open>The transition system\<close>

lemma elsewhere_inv:
  assumes inv: "arch_inv s" and jobs: "a_jobs t = a_jobs s" and batches: "a_batches t = a_batches s"
    and ses: "list_all2 session_change (a_sessions s) (a_sessions t)"
  shows "arch_inv t"
proof (rule arch_inv_stepI [OF inv])
  show "jobs_change (a_jobs s) (a_jobs t)" "identities_unique (a_jobs t)"
    using arch_invD(2,3) [OF inv] by (simp_all add: jobs jobs_change_refl)
  show "map ss_keys (a_sessions t) = map ss_keys (a_sessions s)"
    using ses by (induction rule: list_all2_induct) (auto simp: session_change_def ss_keys_def)
next
  fix r assume "r \<in> set (a_sessions t)" "ss_state r = S_draft"
  with list_all2_mem2 [OF ses] show "(\<exists>q \<in> set (a_sessions s). ss_id q = ss_id r \<and> ss_state q = S_draft) \<or>
      ss_id r \<notin> fst ` open_keys t"
    unfolding session_change_def by metis
qed (use batches in auto)

lemma boundedText_nonempty: "boundedCoreText v n True \<Longrightarrow> v \<noteq> ''''"
  by (auto simp: boundedCoreText_def TrimSpace_def)

lemma tx_inv:
  assumes "arch_inv s" and "\<And>r t. body s = Inr (r, t) \<Longrightarrow> arch_inv t"
  shows "arch_inv (snd (inTx body s))"
  using assms by (auto simp: inTx_def split: sum.split)

lemma arch_step_inv:
  assumes step: "arch_step L s t" and inv: "arch_inv s"
  shows "arch_inv t"
  using step
proof cases
  case (queue e cmd)
  then show ?thesis using inv
    by (auto simp: QueueArchaeologyNativeBatch_def intro: tx_inv queue_inv split: if_splits)
next
  case (claim e)
  then show ?thesis using inv
    by (auto simp: ClaimArchaeologyNativeJob_def intro: tx_inv claim_inv)
next
  case (bind e jid th se tu snap)
  then show ?thesis using bindIdentity_inv [OF inv] by blast
next
  case (activate e jid th tu snap)
  then show ?thesis using activate_inv [OF inv] by blast
next
  case (failStart e jid launch unc)
  then show ?thesis using inv
    by (auto simp: FailArchaeologyNativeStart_def Let_def intro: tx_inv failStart_inv split: if_splits)
next
  case (bindUncertainty e jid launch)
  then show ?thesis using bindUncertainty_inv [OF inv] by blast
next
  case (progress e p snap)
  then show ?thesis using progress_inv [OF inv] by blast
next
  case (report e rp)
  then show ?thesis using inv
    by (auto simp: ReportArchaeologyNativeJob_def intro: tx_inv report_inv split: if_splits)
next
  case (complete e nt)
  show ?thesis
  proof (cases "t = s")
    case False
    with complete have th: "nt_ThreadID nt \<noteq> ''''"
      by (auto simp: CompleteArchaeologyNativeTurn_def dest: boundedText_nonempty split: if_splits)
    with complete False inv show ?thesis
      by (auto simp: CompleteArchaeologyNativeTurn_def intro: tx_inv complete_inv split: if_splits)
  qed (use inv in simp)
next
  case (lose e jid th tu)
  then show ?thesis using inv
    by (auto simp: LoseArchaeologyNativeTurn_def intro: tx_inv lose_inv split: if_splits)
next
  case (resolve e nr)
  then show ?thesis using inv
    by (auto simp: ResolveArchaeologyNativeUncertainty_def intro: tx_inv resolve_inv split: if_splits)
next
  case (cancel e who rid base)
  then show ?thesis using inv
    by (auto simp: CancelArchaeologyNativeBatch_def intro: tx_inv cancel_inv split: if_splits)
next
  case (reconcile e)
  then show ?thesis using reconcile_inv [OF inv] by blast
next
  case (discover e m d)
  then show ?thesis using inv
    by (auto simp: ReplaceArchaeologyDiscovery_def Let_def intro: tx_inv dest: discovery_inv split: if_splits)
next
  case (configure e m)
  then show ?thesis using inv
    by (auto simp: ConfigureArchaeology_def Let_def intro: tx_inv dest: configure_inv split: if_splits)
next
  case (transition e m operation)
  then show ?thesis using inv
    by (auto simp: transitionArchaeology_def intro: tx_inv dest: transition_inv split: if_splits)
next
  case elsewhere
  then show ?thesis using elsewhere_inv [OF inv] by blast
qed

interpretation archaeology: transition_invariant "\<lambda>s. s = empty_arch" "arch_step L" arch_inv for L
  by unfold_locales (auto intro: arch_inv_empty arch_step_inv)

end
