(* ===== verification/Archaeology_History.thy ===== *)
theory Archaeology_History
  imports Archaeology_Invariants
begin

text \<open>
  What the steps of project archaeology never undo: a job row changes by \<open>job_change\<close> only,
  and the three ledgers of requests (batches, resolutions, session requests) grow. The
  interface \<open>permanent_ledger\<close> is interpreted for each of them.
\<close>

definition grows :: "arch \<Rightarrow> arch \<Rightarrow> bool" where
  "grows s t \<longleftrightarrow>
     (\<exists>ks js. a_jobs t = ks @ js \<and> jobs_change (a_jobs s) ks) \<and>
     (\<exists>xs. map ba_keys (a_batches t) = map ba_keys (a_batches s) @ xs) \<and>
     (\<exists>xs. a_resolutions t = a_resolutions s @ xs) \<and> (\<exists>xs. a_requests t = a_requests s @ xs) \<and>
     (\<exists>xs. map ss_keys (a_sessions t) = map ss_keys (a_sessions s) @ xs)"

lemma growsI:
  assumes "jobs_change (a_jobs s) (a_jobs t)" "map ba_keys (a_batches t) = map ba_keys (a_batches s)"
    "a_resolutions t = a_resolutions s" "a_requests t = a_requests s"
    "map ss_keys (a_sessions t) = map ss_keys (a_sessions s)"
  shows "grows s t"
  unfolding grows_def
proof (intro conjI exI)
  show "a_jobs t = a_jobs t @ []" by simp
qed (use assms in simp_all)

lemma grows_refl: "arch_inv s \<Longrightarrow> grows s s"
  by (rule growsI) (simp_all add: jobs_change_refl arch_invD(2))

lemma grows_same_work: "arch_inv s \<Longrightarrow> same_work s t \<Longrightarrow> grows s t"
  using jobs_change_refl [OF arch_invD(2), of s] unfolding same_work_def grows_def
  by (metis append_Nil2)

lemma keys_upd [simp]:
  "map ba_keys (updWhere p (\<lambda>b. b\<lparr>ba_state := st, ba_updated_at := now\<rparr>) bs) = map ba_keys bs"
  "map ba_keys (updWhere p (ba_updated_at_update (\<lambda>_. now)) bs) = map ba_keys bs"
  by (rule map_updWhere_frame; simp add: ba_keys_def)+

lemma session_keys_upd [simp]:
  "map ss_keys (updWhere p (nextRevision st now) rs) = map ss_keys rs"
  "map ss_keys (updWhere p (\<lambda>r. r\<lparr>ss_revision := ss_revision r + 1, ss_updated_at := now\<rparr>) rs) = map ss_keys rs"
  by (rule map_updWhere_frame; simp add: ss_keys_def)+

lemma settle_frames [simp]:
  "map ba_keys (a_batches (failStartSettle j now u)) = map ba_keys (a_batches u)"
  "a_resolutions (failStartSettle j now u) = a_resolutions u" "a_requests (failStartSettle j now u) = a_requests u"
  "map ss_keys (a_sessions (failStartSettle j now u)) = map ss_keys (a_sessions u)"
  "map ba_keys (a_batches (completeSettle j b now u)) = map ba_keys (a_batches u)"
  "a_resolutions (completeSettle j b now u) = a_resolutions u" "a_requests (completeSettle j b now u) = a_requests u"
  "map ss_keys (a_sessions (completeSettle j b now u)) = map ss_keys (a_sessions u)"
  "map ba_keys (a_batches (resolveSettle sid bid now u)) = map ba_keys (a_batches u)"
  "a_resolutions (resolveSettle sid bid now u) = a_resolutions u" "a_requests (resolveSettle sid bid now u) = a_requests u"
  "map ss_keys (a_sessions (resolveSettle sid bid now u)) = map ss_keys (a_sessions u)"
  "map ba_keys (a_batches (cancelSettle sid now u)) = map ba_keys (a_batches u)"
  "a_resolutions (cancelSettle sid now u) = a_resolutions u" "a_requests (cancelSettle sid now u) = a_requests u"
  "map ss_keys (a_sessions (cancelSettle sid now u)) = map ss_keys (a_sessions u)"
  by (simp_all add: failStartSettle_def completeSettle_def resolveSettle_def cancelSettle_def Let_def)

lemma tx_grows:
  assumes "arch_inv s" and "\<And>r t. body s = Inr (r, t) \<Longrightarrow> grows s t"
  shows "grows s (snd (inTx body s))"
  using assms by (auto simp: inTx_def grows_refl split: sum.split)

context scheduler_state
begin

lemma claim_grows: "claimJobTx e s = Inr (r, t) \<Longrightarrow> grows s t"
  by (rule growsI, rule claim_jobs, assumption; erule claimJobTx_Inr)
    simp_all

lemma lose_grows: "loseTx e jid th tu s = Inr (r, t) \<Longrightarrow> grows s t"
  by (rule growsI, rule lose_jobs, assumption; erule loseTx_Inr) simp_all

lemma failStart_grows: "failStartTx e jid launch unc s = Inr (r, t) \<Longrightarrow> grows s t"
  by (rule growsI, rule failStart_jobs, assumption; erule failStartTx_Inr)
    simp_all

lemma complete_grows:
  "completeTx e terminal s = Inr (r, t) \<Longrightarrow> nt_ThreadID terminal \<noteq> '''' \<Longrightarrow> grows s t"
  by (rule growsI, rule complete_jobs, assumption+; erule completeTx_Inr)
    simp_all

lemma report_grows: 
  assumes "reportTx L e cmd s = Inr (r, t)"
  shows "grows s t"
proof (rule growsI [OF report_jobs [OF assms]])
  have "sameScheduler s u" if "foldE (insertOutcome L j d now) xs s = Inr u" for j d now xs u
    by (rule foldE_sameScheduler [OF that insertOutcome_sameScheduler])
  with assms show "map ba_keys (a_batches t) = map ba_keys (a_batches s)"
      "a_resolutions t = a_resolutions s" "a_requests t = a_requests s"
      "map ss_keys (a_sessions t) = map ss_keys (a_sessions s)"
    by (auto elim!: reportTx_Inr simp: sameScheduler_def)
qed

lemma resolve_grows:
  assumes "resolveTx L e cmd s = Inr (r, t)"
  shows "grows s t"
  using assms
proof (cases rule: resolveTx_Inr)
  case replayed
  with resolve_jobs [OF assms] show ?thesis by (intro growsI) simp_all
next
  case (changed ses j q)
  have "map ba_keys (a_batches t) = map ba_keys (a_batches s)" "a_resolutions t = a_resolutions s @ [q]"
      "a_requests t = a_requests s" "map ss_keys (a_sessions t) = map ss_keys (a_sessions s)"
    by (simp_all add: changed(10))
  with resolve_jobs [OF assms] show ?thesis
    unfolding grows_def by (metis append_Nil2)
qed

lemma cancel_grows:
  assumes "cancelTx L e who rid base s = Inr (js, t)"
  shows "grows s t"
  using assms
proof (cases rule: cancelTx_Inr)
  case replayed
  then show ?thesis by (intro growsI) (simp_all add: jobs_change_refl rows_ok)
next
  case (changed ses q)
  have "a_jobs t = a_jobs (cancelJobs (ss_id ses) (env_clock e 1) s)"
      "map ba_keys (a_batches t) = map ba_keys (a_batches s)" "a_resolutions t = a_resolutions s"
      "a_requests t = a_requests s @ [q]" "map ss_keys (a_sessions t) = map ss_keys (a_sessions s)"
    by (simp_all add: changed(9) cancelSettle_def Let_def a_jobs_cancelJobs)
  with cancelJobs_jobs show ?thesis
    unfolding grows_def by (metis append_Nil2)
qed

lemma reconcile_grows: "grows s (ReconcileArchaeology e s)"
  by (rule growsI)
    (simp_all add: reconcile_jobs_tables reconcileJobs_jobs reconciledBatches_keys reconcile_sessions_table del: hasRow_iff)

lemma queue_grows:
  assumes "queueTx L e cmd s = Inr (r, t)"
  shows "grows s t"
  using assms
proof (cases rule: queueTx_Inr)
  case replayed
  then show ?thesis by (intro growsI) (simp_all add: jobs_change_refl rows_ok)
next
  case (changed ses b u)
  then obtain js where "a_jobs t = a_jobs s @ js" "a_batches t = a_batches s @ [b]"
      "a_resolutions t = a_resolutions s" "a_requests t = a_requests s"
      "map ss_keys (a_sessions t) = map ss_keys (a_sessions s)"
    by (auto simp: addedJobs_def)
  with jobs_change_refl [OF rows_ok] show ?thesis
    unfolding grows_def by (metis append_Nil2 map_append)
qed

lemma bind_grows:
  assumes "states \<subseteq> {J_starting, J_uncertain}"
    and "sqlBindJobs (bindTarget states jid th se tu) (bindTo th se tu lb now) s = Inr t"
  shows "grows s t"
  using bind_jobs [OF assms(1)] assms(2) by (intro growsI) (auto simp: sqlBindJobs_Inr)

lemma upd_grows:
  assumes "\<And>j. j \<in> set (a_jobs s) \<Longrightarrow> p j \<Longrightarrow> job_change j (f j)"
  shows "grows s (updJobs p f s)"
  by (rule growsI) (simp_all add: jobs_change_updWhere [OF rows_ok assms])

end

lemmas bind_growsI = scheduler_state.bind_grows [OF arch_inv_scheduler]

lemma bindIdentity_grows:
  assumes "arch_inv s"
  shows "grows s (snd (BindArchaeologyNativeIdentity e jid th se tu snap s))"
  using assms
  by (auto simp: BindArchaeologyNativeIdentity_def Let_def grows_refl intro: bind_growsI [OF assms]
      split: option.splits sum.splits)

lemma bindUncertainty_grows:
  assumes "arch_inv s"
  shows "grows s (snd (BindArchaeologyNativeUncertainty e jid launch s))"
  using assms
  by (auto simp: BindArchaeologyNativeUncertainty_def Let_def grows_refl intro: bind_growsI [OF assms] split: sum.splits)

lemma activate_grows:
  assumes "arch_inv s"
  shows "grows s (snd (ActivateArchaeologyNativeJob e jid th tu snap s))"
proof -
  have "grows s (updJobs (\<lambda>r. nj_id r = jid \<and> nj_thread_id r = th \<and> nj_turn_id r = tu \<and> nj_state r = J_starting)
      (\<lambda>r. r\<lparr>nj_state := J_active, nj_phase_label := ''Visible in Codex'', nj_updated_at := env_now e\<rparr>) s)"
    by (rule scheduler_state.upd_grows [OF arch_inv_scheduler [OF assms]])
      (use arch_invD(2) [OF assms] activate_change in auto)
  with assms show ?thesis
    by (simp add: ActivateArchaeologyNativeJob_def Let_def grows_refl split: option.split)
qed

lemma progress_grows:
  assumes "arch_inv s"
  shows "grows s (snd (UpdateArchaeologyNativeProgress e p snap s))"
proof -
  have "grows s (updJobs (\<lambda>r. activeJobAt (ng_JobID p) (ng_ThreadID p) (ng_TurnID p) r \<and> nj_state r = J_active)
      (\<lambda>r. r\<lparr>nj_phase_label := ng_PhaseLabel p, nj_sources_examined := ng_SourcesExamined p,
            nj_updated_at := env_now e\<rparr>) s)"
    by (rule scheduler_state.upd_grows [OF arch_inv_scheduler [OF assms]])
      (use arch_invD(2) [OF assms] progress_change in auto)
  with assms show ?thesis
    by (simp add: UpdateArchaeologyNativeProgress_def Let_def grows_refl split: option.split prod.split)
qed

lemma session_change_keys: "list_all2 session_change rs qs \<Longrightarrow> map ss_keys qs = map ss_keys rs"
  by (induction rule: list_all2_induct) (auto simp: session_change_def ss_keys_def)

lemma arch_step_grows:
  assumes step: "arch_step L s t" and inv: "arch_inv s"
  shows "grows s t"
proof -
  note S = arch_inv_scheduler [OF inv]
  from step show ?thesis
  proof cases
    case (queue e cmd)
    then show ?thesis using inv scheduler_state.queue_grows [OF S]
      by (auto simp: QueueArchaeologyNativeBatch_def intro: tx_grows grows_refl split: if_splits)
  next
    case (claim e)
    then show ?thesis using inv scheduler_state.claim_grows [OF S]
      by (auto simp: ClaimArchaeologyNativeJob_def intro: tx_grows)
  next
    case (bind e jid th se tu snap)
    then show ?thesis using bindIdentity_grows [OF inv] by blast
  next
    case (activate e jid th tu snap)
    then show ?thesis using activate_grows [OF inv] by blast
  next
    case (failStart e jid launch unc)
    then show ?thesis using inv scheduler_state.failStart_grows [OF S]
      by (auto simp: FailArchaeologyNativeStart_def Let_def intro: tx_grows grows_refl split: if_splits)
  next
    case (bindUncertainty e jid launch)
    then show ?thesis using bindUncertainty_grows [OF inv] by blast
  next
    case (progress e p snap)
    then show ?thesis using progress_grows [OF inv] by blast
  next
    case (report e rp)
    then show ?thesis using inv scheduler_state.report_grows [OF S]
      by (auto simp: ReportArchaeologyNativeJob_def intro: tx_grows grows_refl split: if_splits)
  next
    case (complete e nt)
    show ?thesis
    proof (cases "boundedCoreText (nt_ThreadID nt) 120 True")
      case True
      with complete inv scheduler_state.complete_grows [OF S, of e nt] boundedText_nonempty [OF True] show ?thesis
        by (auto simp: CompleteArchaeologyNativeTurn_def intro: tx_grows grows_refl split: if_splits)
    next
      case False
      with complete inv show ?thesis by (simp add: CompleteArchaeologyNativeTurn_def grows_refl)
    qed
  next
    case (lose e jid th tu)
    then show ?thesis using inv scheduler_state.lose_grows [OF S]
      by (auto simp: LoseArchaeologyNativeTurn_def intro: tx_grows grows_refl split: if_splits)
  next
    case (resolve e nr)
    then show ?thesis using inv scheduler_state.resolve_grows [OF S]
      by (auto simp: ResolveArchaeologyNativeUncertainty_def intro: tx_grows grows_refl split: if_splits)
  next
    case (cancel e who rid base)
    then show ?thesis using inv scheduler_state.cancel_grows [OF S]
      by (auto simp: CancelArchaeologyNativeBatch_def intro: tx_grows grows_refl split: if_splits)
  next
    case (reconcile e)
    then show ?thesis using scheduler_state.reconcile_grows [OF S] by blast
  next
    case (discover e m d)
    then show ?thesis using inv
      by (auto simp: ReplaceArchaeologyDiscovery_def Let_def grows_refl
          intro!: tx_grows dest: discovery_inv intro: grows_same_work split: if_splits)
  next
    case (configure e m)
    then show ?thesis using inv
      by (auto simp: ConfigureArchaeology_def Let_def grows_refl
          intro!: tx_grows dest: configure_inv intro: grows_same_work split: if_splits)
  next
    case (transition e m operation)
    then show ?thesis using inv
      by (auto simp: transitionArchaeology_def grows_refl
          intro!: tx_grows dest: transition_inv intro: grows_same_work split: if_splits)
  next
    case elsewhere
    then show ?thesis using inv
      by (intro growsI) (simp_all add: jobs_change_refl arch_invD(2) session_change_keys)
  qed
qed

section \<open>Reachable states\<close>

abbreviation arch_steps :: "arch_lib \<Rightarrow> arch \<Rightarrow> arch \<Rightarrow> bool" where
  "arch_steps L \<equiv> (arch_step L)\<^sup>*\<^sup>*"

definition arch_reachable :: "arch_lib \<Rightarrow> arch \<Rightarrow> bool" where
  "arch_reachable L s \<longleftrightarrow> arch_steps L empty_arch s"

lemma reachable_arch_inv: "arch_reachable L s \<Longrightarrow> arch_inv s"
  unfolding arch_reachable_def by (rule archaeology.reachable_inv [OF refl])

text \<open>What a step keeps of a job holds along every run from a state with the invariant.\<close>

definition job_kept :: "job_row \<Rightarrow> job_row \<Rightarrow> bool" where
  "job_kept j k \<longleftrightarrow> job_keys k = job_keys j \<and> (finishedJob (nj_state j) \<longrightarrow> k = j) \<and>
     sameOrUnset (nj_thread_id j) (nj_thread_id k) \<and>
     sameOrUnset (nj_codex_session_id j) (nj_codex_session_id k) \<and>
     sameOrUnset (nj_turn_id j) (nj_turn_id k) \<and>
     (nj_report_digest j \<noteq> None \<longrightarrow> nj_report_digest k = nj_report_digest j)"

lemma sameOrUnset_trans: "sameOrUnset a b \<Longrightarrow> sameOrUnset b c \<Longrightarrow> sameOrUnset a c"
  by (auto simp: sameOrUnset_def)

lemma job_kept_step: "job_kept i j \<Longrightarrow> job_change j k \<Longrightarrow> job_kept i k"
  unfolding job_kept_def job_change_def by (auto intro: sameOrUnset_trans)

lemma step_job:
  assumes "arch_step L s t" "arch_inv s" "j \<in> set (a_jobs s)"
  shows "\<exists>k \<in> set (a_jobs t). job_change j k"
  using arch_step_grows [OF assms(1,2)] assms(3) list_all2_mem1 by (fastforce simp: grows_def)

lemma steps_job:
  assumes "arch_steps L s t" "arch_inv s" "j \<in> set (a_jobs s)"
  shows "\<exists>k \<in> set (a_jobs t). job_kept j k \<and> (nj_state j, nj_state k) \<in> {(x, y). y \<in> jobNext x}\<^sup>*"
  using assms(1)
proof (induction rule: rtranclp_induct)
  case base
  with assms(3) show ?case by (auto simp: job_kept_def)
next
  case (step u v)
  then obtain k where k: "k \<in> set (a_jobs u)" "job_kept j k" "(nj_state j, nj_state k) \<in> {(x, y). y \<in> jobNext x}\<^sup>*"
    by blast
  have "arch_inv u" using archaeology.steps_inv [OF step.hyps(1) assms(2)] .
  from step_job [OF step.hyps(2) this k(1)] obtain l where l: "l \<in> set (a_jobs v)" "job_change k l" by blast
  then have "(nj_state k, nj_state l) \<in> {(x, y). y \<in> jobNext x}" by (simp add: job_change_def)
  with k(3) have "(nj_state j, nj_state l) \<in> {(x, y). y \<in> jobNext x}\<^sup>*" by (rule rtrancl_into_rtrancl)
  with l k(2) show ?case by (blast intro: job_kept_step)
qed

section \<open>Ledgers\<close>

definition requestEntry :: "arch \<Rightarrow> gostring \<times> gostring \<Rightarrow> (gostring \<times> gostring) option" where
  "requestEntry s k = map_option (\<lambda>r. (ar_operation r, ar_request_digest r))
     (find (\<lambda>r. (ar_principal r, ar_request_key r) = k) (a_requests s))"

definition resolutionEntry :: "arch \<Rightarrow> gostring \<times> gostring \<Rightarrow> gostring option" where
  "resolutionEntry s k = map_option re_request_digest
     (find (\<lambda>r. (re_session_id r, re_request_key r) = k) (a_resolutions s))"

definition batchEntry :: "arch \<Rightarrow> gostring \<times> gostring \<Rightarrow> gostring option" where
  "batchEntry s k = map_option (snd \<circ> snd \<circ> snd)
     (find (\<lambda>x. (fst (snd x), fst (snd (snd x))) = k) (map ba_keys (a_batches s)))"

definition valid_step :: "arch_lib \<Rightarrow> arch \<Rightarrow> arch \<Rightarrow> bool" where
  "valid_step L s t \<longleftrightarrow> arch_inv s \<and> arch_step L s t"

lemma valid_step_grows: "valid_step L s t \<Longrightarrow> grows s t"
  by (auto simp: valid_step_def intro: arch_step_grows)

lemma valid_steps:
  assumes "arch_steps L s t" "arch_inv s"
  shows "(valid_step L)\<^sup>*\<^sup>* s t"
  using assms(1)
proof (induction rule: rtranclp_induct)
  case (step u v)
  have "arch_inv u" using archaeology.steps_inv [OF step.hyps(1) assms(2)] .
  with step show ?case by (auto simp: valid_step_def intro: rtranclp.rtrancl_into_rtrancl)
qed simp

interpretation requests_ledger: permanent_ledger "valid_step L" requestEntry for L
proof
  fix s t k v assume st: "valid_step L s t" and "requestEntry s k = Some v"
  from valid_step_grows [OF st] obtain xs where "a_requests t = a_requests s @ xs" by (auto simp: grows_def)
  with \<open>requestEntry s k = Some v\<close> show "requestEntry t k = Some v"
    by (auto simp: requestEntry_def find_append split: option.splits)
qed

interpretation resolutions_ledger: permanent_ledger "valid_step L" resolutionEntry for L
proof
  fix s t k v assume st: "valid_step L s t" and "resolutionEntry s k = Some v"
  from valid_step_grows [OF st] obtain xs where "a_resolutions t = a_resolutions s @ xs" by (auto simp: grows_def)
  with \<open>resolutionEntry s k = Some v\<close> show "resolutionEntry t k = Some v"
    by (auto simp: resolutionEntry_def find_append split: option.splits)
qed

interpretation batches_ledger: permanent_ledger "valid_step L" batchEntry for L
proof
  fix s t k v assume st: "valid_step L s t" and "batchEntry s k = Some v"
  from valid_step_grows [OF st] obtain xs where "map ba_keys (a_batches t) = map ba_keys (a_batches s) @ xs"
    by (auto simp: grows_def)
  with \<open>batchEntry s k = Some v\<close> show "batchEntry t k = Some v"
    by (auto simp: batchEntry_def find_append split: option.splits)
qed

end
