(* ===== verification/Archaeology_Ledger.thy ===== *)
theory Archaeology_Ledger
  imports Archaeology_Persistence Archaeology_History
begin

text \<open>
  The ledger as a transition system. A step is one access to the database: another table is
  written, an intent is inserted, expired leases are recovered, what is due is leased, one
  intent is leased, or its owner settles it. The calls of the store are shown to be
  sequences of such steps, whatever other writers do between their accesses, so that what
  holds of the steps holds of the calls. The invariant of the table and the history of its
  rows are proved on the steps.
\<close>

section \<open>Updates by key\<close>

lemma fold_keyed_updates:
  assumes "distinct (map key xs)" "set ls \<subseteq> set xs" "distinct (map key ls)" "\<forall>l \<in> set ls. p l"
    and "\<And>l r. key (g l r) = key r"
  shows "fold (\<lambda>l. updWhere (\<lambda>r. key r = key l \<and> p r) (g l)) ls xs =
    updWhere (\<lambda>r. r \<in> set ls) (\<lambda>r. g r r) xs"
  using assms(1-4)
proof (induction ls arbitrary: xs)
  case Nil
  then show ?case by (simp add: updWhere_def)
next
  case (Cons l ls)
  let ?ys = "updWhere (\<lambda>r. key r = key l \<and> p r) (g l) xs"
  have l: "l \<in> set xs" "p l" using Cons.prems by simp_all
  have keys: "map key ?ys = map key xs" using assms(5) by (simp add: updWhere_def)
  have one: "r = l" if "r \<in> set xs" "key r = key l" for r
    using distinct_key_eq [OF Cons.prems(1) that(1) l(1) that(2)] .
  have ys: "?ys = updWhere (\<lambda>r. r = l) (\<lambda>r. g r r) xs"
    using one l(2) by (auto simp: updWhere_def)
  have other: "x \<noteq> l" "key x \<noteq> key l" if "x \<in> set ls" for x
    using Cons.prems(3) that by (auto simp: image_iff)
  have "set ls \<subseteq> set ?ys"
    using Cons.prems(2) other(1) by (force simp: ys set_updWhere image_iff)
  then have "fold (\<lambda>l. updWhere (\<lambda>r. key r = key l \<and> p r) (g l)) ls ?ys =
      updWhere (\<lambda>r. r \<in> set ls) (\<lambda>r. g r r) ?ys"
    using Cons.prems keys by (intro Cons.IH) simp_all
  also have "\<dots> = updWhere (\<lambda>r. r \<in> set (l # ls)) (\<lambda>r. g r r) xs"
    unfolding ys using other assms(5) by (auto simp: updWhere_def dest: other(2))
  finally show ?case by simp
qed

lemma updIntents_intents [simp]:
  "a_intents (updIntents p f s) = updWhere p f (a_intents s)"
  "a_jobs (updIntents p f s) = a_jobs s" "a_batches (updIntents p f s) = a_batches s"
  "a_sessions (updIntents p f s) = a_sessions s" "a_requests (updIntents p f s) = a_requests s"
  "a_resolutions (updIntents p f s) = a_resolutions s"
  by (simp_all add: updIntents_def)

lemma fold_updIntents:
  "fold (\<lambda>l. updIntents (p l) (f l)) ls s = s\<lparr>a_intents := fold (\<lambda>l. updWhere (p l) (f l)) ls (a_intents s)\<rparr>"
  by (induction ls arbitrary: s) (simp_all add: updIntents_def)

section \<open>Recovery and leasing as single updates\<close>

definition recoveredRow :: "time \<Rightarrow> intent_row \<Rightarrow> intent_row" where
  "recoveredRow now r =
     (let attempts = in_attempts r + 1 in
      if attempts \<ge> archaeologyPersistenceMaxAttempts then
        r\<lparr>in_state := I_blocked, in_attempts := archaeologyPersistenceMaxAttempts,
          in_next_attempt_at := None, in_lease_owner := '''', in_lease_expires_at := None,
          in_last_error_code := ''lease_expired'', in_updated_at := now\<rparr>
      else
        r\<lparr>in_state := I_pending, in_attempts := attempts,
          in_next_attempt_at := Some (now + archaeologyPersistenceRetryDelay attempts),
          in_lease_owner := '''', in_lease_expires_at := None,
          in_last_error_code := ''lease_expired'', in_updated_at := now\<rparr>)"

definition recoverTo :: "time \<Rightarrow> intent_row \<Rightarrow> intent_row \<Rightarrow> intent_row" where
  "recoverTo now lease r = (recoveredRow now (r\<lparr>in_attempts := in_attempts lease\<rparr>))"

lemma recoverLease_eq:
  "recoverLease now =
     (\<lambda>lease. updIntents (\<lambda>r. in_id r = in_id lease \<and> expiredLease now r) (recoverTo now lease))"
  by (intro ext) (simp add: recoverLease_def recoverTo_def [abs_def] recoveredRow_def [abs_def] Let_def)

lemma recoverExpired_eq:
  assumes "distinct (map in_id (a_intents s))"
  shows "recoverExpiredArchaeologyPersistenceLeases now s = updIntents (expiredLease now) (recoveredRow now) s"
proof -
  let ?ls = "sort_key expiredOrder (filter (expiredLease now) (a_intents s))"
  have "distinct (map in_id ?ls)"
    using assms by (simp add: distinct_map inj_on_def)
  then have "fold (\<lambda>l. updWhere (\<lambda>r. in_id r = in_id l \<and> expiredLease now r) (recoverTo now l)) ?ls (a_intents s) =
      updWhere (\<lambda>r. r \<in> set ?ls) (\<lambda>r. recoverTo now r r) (a_intents s)"
    using assms by (intro fold_keyed_updates) (auto simp: recoverTo_def recoveredRow_def Let_def)
  also have "\<dots> = updWhere (expiredLease now) (recoveredRow now) (a_intents s)"
    by (simp add: updWhere_def recoverTo_def)
  finally show ?thesis
    by (simp add: recoverExpiredArchaeologyPersistenceLeases_def recoverLease_eq fold_updIntents updIntents_def)
qed

lemma leaseRow_frame [simp]:
  "in_id (leaseRow o' now r) = in_id r" "in_state (leaseRow o' now r) = I_leased"
  "in_lease_owner (leaseRow o' now r) = o'" "in_attempts (leaseRow o' now r) = in_attempts r"
  "\<not> dueIntent now' (leaseRow o' now r)"
  by (simp_all add: leaseRow_def dueIntent_def)

lemma leaseRows_eq:
  assumes "distinct (map in_id (a_intents s))" "set cs \<subseteq> set (a_intents s)" "distinct (map in_id cs)"
    and "\<forall>c \<in> set cs. dueIntent now c"
  shows "leaseRows o' now cs s = (map (leaseRow o' now) cs, updIntents (\<lambda>r. r \<in> set cs) (leaseRow o' now) s)"
  using assms
proof (induction cs arbitrary: s)
  case Nil
  then show ?case by (simp add: updIntents_def updWhere_def)
next
  case (Cons c cs)
  let ?p = "\<lambda>r. in_id r = in_id c \<and> dueIntent now r"
  let ?t = "updIntents ?p (leaseRow o' now) s"
  have c: "c \<in> set (a_intents s)" "dueIntent now c" using Cons.prems by simp_all
  have one: "r = c" if "r \<in> set (a_intents s)" "in_id r = in_id c" for r
    using distinct_key_eq [OF Cons.prems(1) that(1) c(1) that(2)] .
  have t: "?t = updIntents (\<lambda>r. r = c) (leaseRow o' now) s"
    using one c(2) by (auto simp: updIntents_def updWhere_def)
  have other: "x \<noteq> c" "in_id x \<noteq> in_id c" if "x \<in> set cs" for x
    using Cons.prems(3) that by (auto simp: image_iff)
  have "set cs \<subseteq> set (a_intents ?t)"
    unfolding t using Cons.prems(2) other(1) by (force simp: set_updWhere image_iff)
  moreover have "map in_id (a_intents ?t) = map in_id (a_intents s)"
    by (simp add: updWhere_def)
  ultimately have ih: "leaseRows o' now cs ?t =
      (map (leaseRow o' now) cs, updIntents (\<lambda>r. r \<in> set cs) (leaseRow o' now) ?t)"
    using Cons.prems by (intro Cons.IH) simp_all
  have "leaseRow o' now c \<notin> set cs" using other(2) [of "leaseRow o' now c"] by auto
  then have both: "(\<lambda>r. if r \<in> set cs then leaseRow o' now r else r) \<circ> (\<lambda>r. if r = c then leaseRow o' now r else r) =
      (\<lambda>r. if r = c \<or> r \<in> set cs then leaseRow o' now r else r)"
    using other(1) by (auto simp: fun_eq_iff)
  have "updIntents (\<lambda>r. r \<in> set cs) (leaseRow o' now) ?t = updIntents (\<lambda>r. r \<in> set (c # cs)) (leaseRow o' now) s"
    unfolding t by (simp add: updIntents_def updWhere_def both)
  moreover have "filter ?p (a_intents s) = [c]"
    using filter_one [OF Cons.prems(1) c(1), of ?p] c(2) by simp
  ultimately show ?case
    using ih by (simp add: changedIntents_def countWhere_def Let_def)
qed

definition exhaustedIntent :: "time \<Rightarrow> intent_row \<Rightarrow> bool" where
  "exhaustedIntent now r \<longleftrightarrow> in_state r = I_pending \<and> in_attempts r \<ge> archaeologyPersistenceMaxAttempts \<and>
     stampedBy (in_next_attempt_at r) now"

definition blockRow :: "time \<Rightarrow> intent_row \<Rightarrow> intent_row" where
  "blockRow now r = r\<lparr>in_state := I_blocked, in_next_attempt_at := None, in_lease_owner := '''',
     in_lease_expires_at := None, in_last_error_code := ''max_attempts'', in_updated_at := now\<rparr>"

definition dueRows :: "time \<Rightarrow> int \<Rightarrow> arch \<Rightarrow> intent_row list" where
  "dueRows now limit s = take (nat limit) (sort_key dueOrder (filter (dueIntent now) (a_intents s)))"

lemma leaseDue_unfold:
  "leaseDueArchaeologyPersistence e now limit s =
     (if limit < 1 then ([], s)
      else let s = updIntents (exhaustedIntent now) (blockRow now) s in
           if dueRows now limit s = [] then ([], s)
           else leaseRows (newID e 0 ''ARPI-'') now (dueRows now limit s) s)"
  by (simp add: leaseDueArchaeologyPersistence_def exhaustedIntent_def [abs_def] blockRow_def [abs_def]
      dueRows_def Let_def)

lemma dueRows_props:
  assumes "distinct (map in_id (a_intents s))"
  shows "set (dueRows now limit s) \<subseteq> set (a_intents s)" "distinct (map in_id (dueRows now limit s))"
    "\<forall>c \<in> set (dueRows now limit s). dueIntent now c"
proof -
  have sub: "set (dueRows now limit s) \<subseteq> {r \<in> set (a_intents s). dueIntent now r}"
    unfolding dueRows_def using set_take_subset [of "nat limit"] by fastforce
  then show "set (dueRows now limit s) \<subseteq> set (a_intents s)" "\<forall>c \<in> set (dueRows now limit s). dueIntent now c"
    by auto
  have "distinct (map in_id (sort_key dueOrder (filter (dueIntent now) (a_intents s))))"
    using assms by (simp add: distinct_map inj_on_def)
  then show "distinct (map in_id (dueRows now limit s))"
    unfolding dueRows_def take_map [symmetric] by (rule distinct_take)
qed

lemma leaseDue_eq:
  assumes "distinct (map in_id (a_intents s))" "1 \<le> limit"
    and u_def: "u = updIntents (exhaustedIntent now) (blockRow now) s"
  shows "leaseDueArchaeologyPersistence e now limit s =
    (map (leaseRow (newID e 0 ''ARPI-'') now) (dueRows now limit u),
     updIntents (\<lambda>r. r \<in> set (dueRows now limit u)) (leaseRow (newID e 0 ''ARPI-'') now) u)"
proof -
  have "map in_id (a_intents u) = map in_id (a_intents s)"
    by (simp add: u_def updWhere_def blockRow_def)
  then have d: "distinct (map in_id (a_intents u))" using assms(1) by simp
  show ?thesis
  proof (cases "dueRows now limit u = []")
    case True
    have "updIntents (\<lambda>r. False) g u = u" for g by (simp add: updIntents_def updWhere_def)
    with True assms(2) show ?thesis unfolding leaseDue_unfold u_def [symmetric] by (simp add: Let_def)
  next
    case False
    with leaseRows_eq [OF d dueRows_props [OF d, of now limit]] assms(2) show ?thesis
      unfolding leaseDue_unfold u_def [symmetric] by (simp add: Let_def)
  qed
qed

section \<open>Steps\<close>

definition retryGuard :: "gostring \<Rightarrow> gostring \<Rightarrow> int \<Rightarrow> intent_row \<Rightarrow> bool" where
  "retryGuard k owner n r \<longleftrightarrow> ownedIntent k owner r \<and> in_attempts r = n \<and>
     in_attempts r + 1 < archaeologyPersistenceMaxAttempts"

definition exhaustGuard :: "gostring \<Rightarrow> gostring \<Rightarrow> int \<Rightarrow> intent_row \<Rightarrow> bool" where
  "exhaustGuard k owner n r \<longleftrightarrow> ownedIntent k owner r \<and> in_attempts r = n \<and>
     in_attempts r + 1 \<ge> archaeologyPersistenceMaxAttempts \<and> in_attempts r < archaeologyPersistenceMaxAttempts"

definition oneGuard :: "gostring \<Rightarrow> time \<Rightarrow> int \<Rightarrow> intent_row \<Rightarrow> bool" where
  "oneGuard k now n r \<longleftrightarrow> in_id r = k \<and> dueIntent now r \<and> in_attempts r = n"

inductive ledger_step :: "arch \<Rightarrow> arch \<Rightarrow> bool" where
  elsewhere: "a_intents t = a_intents s \<Longrightarrow> ledger_step s t"
| insert: "sqlInsertIntent (pendingIntent k jobID operation digest payload now) s = Inr t \<Longrightarrow> ledger_step s t"
| recover: "recoverExpiredArchaeologyPersistenceLeases now s = t \<Longrightarrow> ledger_step s t"
| leaseDue: "snd (leaseDueArchaeologyPersistence e now limit s) = t \<Longrightarrow> ledger_step s t"
| leaseOne: "updIntents (oneGuard k now n) (leaseRow owner now) s = t \<Longrightarrow> ledger_step s t"
| acknowledge: "updIntents (ownedIntent k owner) (appliedRow now) s = t \<Longrightarrow> ledger_step s t"
| terminate: "st = I_superseded \<or> st = I_blocked \<Longrightarrow>
    updIntents (ownedIntent k owner) (terminalRow st code now) s = t \<Longrightarrow> ledger_step s t"
| again: "updIntents (retryGuard k owner n) (retryRow code when now) s = t \<Longrightarrow> ledger_step s t"
| exhaust: "updIntents (exhaustGuard k owner n) (exhaustedRow now) s = t \<Longrightarrow> ledger_step s t"

section \<open>What a step does to a row\<close>

definition settledIntent :: "intent_state \<Rightarrow> bool" where
  "settledIntent st \<longleftrightarrow> st \<in> {I_applied, I_superseded, I_blocked}"

definition intentNext :: "intent_state \<Rightarrow> intent_state set" where
  "intentNext st = (case st of
     I_pending \<Rightarrow> {I_pending, I_leased, I_blocked}
   | I_leased \<Rightarrow> {I_leased, I_pending, I_applied, I_superseded, I_blocked}
   | st' \<Rightarrow> {st'})"

definition intentKeys :: "intent_row \<Rightarrow> gostring \<times> gostring \<times> gostring \<times> gostring \<times> gostring \<times> time" where
  "intentKeys r = (in_id r, in_job_id r, in_operation r, in_payload_digest r, in_payload_json r, in_created_at r)"

definition intentChange :: "intent_row \<Rightarrow> intent_row \<Rightarrow> bool" where
  "intentChange r q \<longleftrightarrow> intentKeys q = intentKeys r \<and> in_attempts r \<le> in_attempts q \<and>
     in_state q \<in> intentNext (in_state r) \<and> (settledIntent (in_state r) \<longrightarrow> q = r)"

text \<open>The checks of the table and the budget of attempts.\<close>

definition intentOk :: "intent_row \<Rightarrow> bool" where
  "intentOk r \<longleftrightarrow> 0 \<le> in_attempts r \<and> in_attempts r \<le> archaeologyPersistenceMaxAttempts \<and>
     (settledIntent (in_state r) \<longleftrightarrow> in_next_attempt_at r = None) \<and>
     (\<not> settledIntent (in_state r) \<longrightarrow> in_attempts r < archaeologyPersistenceMaxAttempts) \<and>
     (in_state r = I_applied \<longleftrightarrow> in_applied_at r \<noteq> None) \<and>
     (in_state r = I_leased \<longleftrightarrow> in_lease_expires_at r \<noteq> None) \<and>
     (in_state r \<noteq> I_leased \<longrightarrow> in_lease_owner r = '''')"

definition ledger_inv :: "arch \<Rightarrow> bool" where
  "ledger_inv s \<longleftrightarrow> (\<forall>r \<in> set (a_intents s). intentOk r) \<and> distinct (map in_id (a_intents s)) \<and>
     distinct (map (\<lambda>r. (in_job_id r, in_operation r)) (a_intents s))"

definition ledgerGrows :: "arch \<Rightarrow> arch \<Rightarrow> bool" where
  "ledgerGrows s t \<longleftrightarrow>
     (\<exists>rows fresh. a_intents t = rows @ fresh \<and> list_all2 intentChange (a_intents s) rows) \<and> ledger_inv t"

lemma intentChange_refl [simp]: "intentChange r r"
  by (cases "in_state r") (simp_all add: intentChange_def intentNext_def)

lemma ledger_grows_same: "ledger_inv s \<Longrightarrow> a_intents t = a_intents s \<Longrightarrow> ledgerGrows s t"
  unfolding ledgerGrows_def ledger_inv_def
  using list_all2_refl [of intentChange "a_intents s"] by (metis append_Nil2 intentChange_refl)

lemma ledger_update:
  assumes "ledger_inv s" and "\<And>r. r \<in> set (a_intents s) \<Longrightarrow> intentOk r \<Longrightarrow> p r \<Longrightarrow> intentChange r (f r) \<and> intentOk (f r)"
  shows "ledgerGrows s (updIntents p f s)"
proof -
  have ch: "list_all2 intentChange (a_intents s) (updWhere p f (a_intents s))"
    using assms unfolding ledger_inv_def updWhere_def by (auto simp: list_all2_conv_all_nth)
  have keys: "map intentKeys (updWhere p f (a_intents s)) = map intentKeys (a_intents s)"
    using assms unfolding ledger_inv_def updWhere_def by (auto simp: intentChange_def)
  have "map in_id (updWhere p f (a_intents s)) = map in_id (a_intents s)"
    by (rule map_via [OF keys, where h = fst]) (simp add: intentKeys_def)
  moreover have "map (\<lambda>r. (in_job_id r, in_operation r)) (updWhere p f (a_intents s)) =
      map (\<lambda>r. (in_job_id r, in_operation r)) (a_intents s)"
    by (rule map_via [OF keys, where h = "\<lambda>x. (fst (snd x), fst (snd (snd x)))"]) (simp add: intentKeys_def)
  moreover have "\<forall>r \<in> set (updWhere p f (a_intents s)). intentOk r"
    using assms by (auto simp: ledger_inv_def set_updWhere)
  ultimately have "ledger_inv (updIntents p f s)" using assms(1) by (simp add: ledger_inv_def)
  with ch show ?thesis unfolding ledgerGrows_def by (metis append_Nil2 updIntents_intents(1))
qed

lemmas row_effect_defs = intentChange_def intentKeys_def intentOk_def intentNext_def settledIntent_def
  archaeologyPersistenceMaxAttempts_def

lemma leased_row_effects:
  assumes "ownedIntent k owner r" "intentOk r"
  shows "intentChange r (appliedRow now r) \<and> intentOk (appliedRow now r)"
    and "st = I_superseded \<or> st = I_blocked \<Longrightarrow>
      intentChange r (terminalRow st code now r) \<and> intentOk (terminalRow st code now r)"
  using assms by (auto simp: row_effect_defs ownedIntent_def appliedRow_def terminalRow_def)

lemma attempt_effects:
  assumes "intentOk r"
  shows "retryGuard k owner n r \<Longrightarrow> intentChange r (retryRow code when now r) \<and> intentOk (retryRow code when now r)"
    and "exhaustGuard k owner n r \<Longrightarrow> intentChange r (exhaustedRow now r) \<and> intentOk (exhaustedRow now r)"
    and "expiredLease now r \<Longrightarrow> intentChange r (recoveredRow now r) \<and> intentOk (recoveredRow now r)"
    and "dueIntent now r \<Longrightarrow> intentChange r (leaseRow owner now r) \<and> intentOk (leaseRow owner now r)"
    and "\<not> exhaustedIntent now r"
  using assms
  by (auto simp: row_effect_defs retryGuard_def exhaustGuard_def ownedIntent_def retryRow_def exhaustedRow_def
      expiredLease_def recoveredRow_def dueIntent_def leaseRow_def exhaustedIntent_def Let_def)

lemma ledger_inv_distinct: "ledger_inv s \<Longrightarrow> distinct (map in_id (a_intents s))"
  by (simp add: ledger_inv_def)

lemma exhausted_none: "ledger_inv s \<Longrightarrow> updIntents (exhaustedIntent now) f s = s"
  using attempt_effects(5) by (simp add: ledger_inv_def updIntents_def updWhere_def map_idI)

lemma insert_grows:
  assumes "ledger_inv s" "sqlInsertIntent (pendingIntent k jobID operation digest payload now) s = Inr t"
  shows "ledgerGrows s t"
proof -
  let ?r = "pendingIntent k jobID operation digest payload now"
  have new: "in_id ?r \<notin> in_id ` set (a_intents s)"
      "(in_job_id ?r, in_operation ?r) \<notin> (\<lambda>r. (in_job_id r, in_operation r)) ` set (a_intents s)"
    and t: "a_intents t = a_intents s @ [?r]"
    using assms(2) by (auto simp: sqlInsertIntent_def checked_def split: if_splits)
  have "intentOk ?r" by (simp add: row_effect_defs pendingIntent_def)
  with new assms(1) have "ledger_inv t" by (simp add: ledger_inv_def t)
  with t show ?thesis
    unfolding ledgerGrows_def using list_all2_refl [of intentChange "a_intents s"] by auto
qed

lemma leaseDue_grows:
  assumes "ledger_inv s"
  shows "ledgerGrows s (snd (leaseDueArchaeologyPersistence e now limit s))"
proof (cases "1 \<le> limit")
  case True
  note D = ledger_inv_distinct [OF assms]
  show ?thesis
    unfolding leaseDue_eq [OF D True, OF exhausted_none [OF assms, symmetric]] snd_conv
    by (rule ledger_update [OF assms]) (use dueRows_props(3) [OF D] attempt_effects(4) in blast)
next
  case False
  then show ?thesis using ledger_grows_same [OF assms] by (simp add: leaseDue_unfold)
qed

lemma ledger_step_grows: "ledger_step s t \<Longrightarrow> ledger_inv s \<Longrightarrow> ledgerGrows s t"
proof (induction rule: ledger_step.induct)
  case (elsewhere t s)
  then show ?case using ledger_grows_same by blast
next
  case (insert k jobID operation digest payload now s t)
  then show ?case by (blast intro: insert_grows)
next
  case (recover now s t)
  then show ?case
    using ledger_update [OF recover(2)] attempt_effects(3) recoverExpired_eq [OF ledger_inv_distinct, OF recover(2)]
    by metis
next
  case (leaseDue e now limit s t)
  then show ?case using leaseDue_grows by blast
next
  case (leaseOne k now n owner s t)
  then show ?case using ledger_update [OF leaseOne(2)] attempt_effects(4) oneGuard_def by metis
next
  case (acknowledge k owner now s t)
  then show ?case using ledger_update [OF acknowledge(2)] leased_row_effects(1) by metis
next
  case (terminate st k owner code now s t)
  then show ?case using ledger_update [OF terminate(3)] leased_row_effects(2) by metis
next
  case (again k owner n code "when" now s t)
  then show ?case using ledger_update [OF again(2)] attempt_effects(1) by metis
next
  case (exhaust k owner n now s t)
  then show ?case using ledger_update [OF exhaust(2)] attempt_effects(2) by metis
qed

interpretation ledger: transition_invariant "\<lambda>s. s = empty_arch" ledger_step ledger_inv
proof
  show "ledger_inv s" if "s = empty_arch" for s
    using that by (simp add: ledger_inv_def empty_arch_def)
  show "ledger_inv t" if "ledger_inv s" "ledger_step s t" for s t
    using ledger_step_grows that unfolding ledgerGrows_def by blast
qed

section \<open>The calls as sequences of steps\<close>

text \<open>One access: a step of the archaeology tables that is also a step of the ledger.\<close>

definition persist_step :: "arch_lib \<Rightarrow> arch \<Rightarrow> arch \<Rightarrow> bool" where
  "persist_step L s t \<longleftrightarrow> arch_step L s t \<and> ledger_step s t"

abbreviation persist_steps :: "arch_lib \<Rightarrow> arch \<Rightarrow> arch \<Rightarrow> bool" where
  "persist_steps L \<equiv> (persist_step L)\<^sup>*\<^sup>*"

definition interleaved :: "arch_lib \<Rightarrow> (nat \<Rightarrow> arch \<Rightarrow> arch) \<Rightarrow> bool" where
  "interleaved L w \<longleftrightarrow> (\<forall>k s. persist_steps L s (w k s))"

lemma interleavedD: "interleaved L w \<Longrightarrow> persist_steps L s (w k s)"
  by (simp add: interleaved_def)

lemma interleaved_shift: "interleaved L w \<Longrightarrow> interleaved L (\<lambda>k. w (k + n))"
  by (simp add: interleaved_def)

lemma ledger_only_step:
  assumes "ledger_step s t" "a_jobs t = a_jobs s" "a_batches t = a_batches s" "a_requests t = a_requests s"
    and "a_resolutions t = a_resolutions s" "a_sessions t = a_sessions s"
  shows "persist_steps L s t"
proof -
  have "list_all2 session_change (a_sessions s) (a_sessions t)"
    unfolding assms(6) by (rule list_all2_refl) (simp add: session_change_def)
  with assms show ?thesis
    unfolding persist_step_def by (intro r_into_rtranclp) (auto intro: arch_step.elsewhere)
qed

lemma updIntents_step: "ledger_step s (updIntents p f s) \<Longrightarrow> persist_steps L s (updIntents p f s)"
  by (rule ledger_only_step) simp_all

lemma native_step: "arch_step L s t \<Longrightarrow> a_intents t = a_intents s \<Longrightarrow> persist_steps L s t"
  unfolding persist_step_def by (intro r_into_rtranclp) (auto intro: ledger_step.elsewhere)

lemma sqlBindJobs_intents: "sqlBindJobs p f s = Inr t \<Longrightarrow> a_intents t = a_intents s"
  by (auto simp: sqlBindJobs_def checked_def Let_def split: if_splits)

lemma settle_intents:
  "a_intents (failStartSettle j now s) = a_intents s" "a_intents (completeSettle j b now s) = a_intents s"
  by (simp_all add: failStartSettle_def completeSettle_def Let_def)

lemma tx_intents:
  assumes "\<And>r t. body s = Inr (r, t) \<Longrightarrow> a_intents t = a_intents s"
  shows "a_intents (snd (inTx body s)) = a_intents s"
  using assms by (auto simp: inTx_def split: sum.split)

lemma native_intents:
  "a_intents (snd (FailArchaeologyNativeStart e jid launch unc s)) = a_intents s"
  "a_intents (snd (BindArchaeologyNativeIdentity e jid th se tu snap s)) = a_intents s"
  "a_intents (snd (ActivateArchaeologyNativeJob e jid th tu snap s)) = a_intents s"
  "a_intents (snd (LoseArchaeologyNativeTurn e jid th tu s)) = a_intents s"
  "a_intents (snd (CompleteArchaeologyNativeTurn e nt s)) = a_intents s"
proof -
  have "a_intents t = a_intents s" if "failStartTx e jid launch u s = Inr (r, t)" for u r t
    using that sqlBindJobs_intents
    by (auto simp: failStartTx_def Let_def settle_intents split: if_splits)
  then show "a_intents (snd (FailArchaeologyNativeStart e jid launch unc s)) = a_intents s"
    by (auto simp: FailArchaeologyNativeStart_def Let_def intro!: tx_intents)
  show "a_intents (snd (BindArchaeologyNativeIdentity e jid th se tu snap s)) = a_intents s"
    by (auto simp: BindArchaeologyNativeIdentity_def Let_def mapErrE_def dest: sqlBindJobs_intents
        split: option.split sum.split)
  show "a_intents (snd (ActivateArchaeologyNativeJob e jid th tu snap s)) = a_intents s"
    by (simp add: ActivateArchaeologyNativeJob_def Let_def split: option.split)
  have "a_intents t = a_intents s" if "loseTx e jid th tu s = Inr (r, t)" for r t
    using that by (auto simp: loseTx_def Let_def split: if_splits)
  then show "a_intents (snd (LoseArchaeologyNativeTurn e jid th tu s)) = a_intents s"
    by (auto simp: LoseArchaeologyNativeTurn_def intro!: tx_intents)
  have "a_intents t = a_intents s" if "completeTx e nt s = Inr (r, t)" for r t
    using that by (auto simp: completeTx_def Let_def settle_intents split: if_splits option.splits)
  then show "a_intents (snd (CompleteArchaeologyNativeTurn e nt s)) = a_intents s"
    by (auto simp: CompleteArchaeologyNativeTurn_def intro!: tx_intents)
qed

lemma mutation_steps: "persist_steps L s (snd (applyArchaeologyPersistenceMutation e i snap s))"
  unfolding applyArchaeologyPersistenceMutation_def Let_def
  by (auto intro!: native_step native_intents
      intro: arch_step.failStart [OF refl] arch_step.bind [OF refl] arch_step.activate [OF refl]
        arch_step.lose [OF refl] arch_step.complete [OF refl])

lemma markApplied_steps:
  assumes "interleaved L w"
  shows "persist_steps L s (snd (markArchaeologyPersistenceApplied w k owner now s))"
proof -
  let ?t = "updIntents (ownedIntent k owner) (appliedRow now) (w 0 s)"
  have "persist_steps L s ?t"
    using interleavedD [OF assms, of s 0] updIntents_step [OF ledger_step.acknowledge [OF refl]] rtranclp_trans by metis
  moreover from this have "persist_steps L s (w 1 ?t)" using interleavedD [OF assms, of ?t 1] rtranclp_trans by metis
  ultimately show ?thesis
    by (simp add: markArchaeologyPersistenceApplied_def Let_def split: option.split)
qed

lemma markTerminal_steps:
  assumes "interleaved L w"
  shows "persist_steps L s (snd (markArchaeologyPersistenceTerminal w k owner st code now s))"
proof (cases "st = I_superseded \<or> st = I_blocked")
  case True
  let ?t = "updIntents (ownedIntent k owner) (terminalRow st code now) (w 0 s)"
  have "persist_steps L s ?t"
    using interleavedD [OF assms, of s 0] updIntents_step [OF ledger_step.terminate [OF True refl]] rtranclp_trans by metis
  moreover from this have "persist_steps L s (w 1 ?t)" using interleavedD [OF assms, of ?t 1] rtranclp_trans by metis
  ultimately show ?thesis
    by (auto simp: markArchaeologyPersistenceTerminal_def Let_def split: option.split)
qed (simp add: markArchaeologyPersistenceTerminal_def)

lemma markRetry_steps:
  assumes "interleaved L w"
  shows "persist_steps L s (snd (markArchaeologyPersistenceRetry w k owner code n now s))"
proof -
  have "persist_steps L s (updIntents (exhaustGuard k owner m) (exhaustedRow now) (w 0 s))"
    "persist_steps L s (updIntents (retryGuard k owner m) (retryRow code' when now) (w 0 s))" for m code' "when"
    using interleavedD [OF assms, of s 0] updIntents_step [OF ledger_step.exhaust [OF refl]]
      updIntents_step [OF ledger_step.again [OF refl]] rtranclp_trans by metis+
  then show ?thesis
    by (simp add: markArchaeologyPersistenceRetry_def Let_def exhaustGuard_def [abs_def] retryGuard_def [abs_def])
qed

lemma processRow_steps:
  assumes "interleaved L w"
  shows "persist_steps L s (snd (processArchaeologyPersistenceRow P e w row owner now s))"
proof (cases "decodeArchaeologyPersistenceIntent P row")
  case (Inl err)
  have "persist_steps L s (snd (markArchaeologyPersistenceTerminal (\<lambda>k. w (k + 3)) (in_id row) owner I_blocked
      ''invalid_payload'' now s))"
    by (rule markTerminal_steps [OF interleaved_shift [OF assms]])
  with Inl show ?thesis
    by (auto simp: processArchaeologyPersistenceRow_def Let_def split: prod.split)
next
  case (Inr i)
  obtain r u where u: "applyArchaeologyPersistenceMutation e i (w 0 s) (w 1 (w 0 s)) = (r, u)" by fastforce
  have "persist_steps L s (w 1 (w 0 s))"
    using interleavedD [OF assms] rtranclp_trans by metis
  with mutation_steps [of L "w 1 (w 0 s)" e i "w 0 s"] u have su: "persist_steps L s u"
    using rtranclp_trans by fastforce
  note marks = markApplied_steps [OF interleaved_shift [OF assms, of 3]]
    markTerminal_steps [OF interleaved_shift [OF assms, of 3]] markRetry_steps [OF interleaved_shift [OF assms, of 3]]
  have su2: "persist_steps L s (w 2 u)" using su interleavedD [OF assms] rtranclp_trans by metis
  have settle: "persist_steps L s (snd (case x of (a, t) \<Rightarrow> (f a, t)))"
    if "persist_steps L v (snd x)" "persist_steps L s v" for x f v
    using that by (cases x) (auto intro: rtranclp_trans)
  show ?thesis
    unfolding processArchaeologyPersistenceRow_def Let_def Inr u sum.case prod.case
    using su su2
    by (cases r) (auto split: persistenceReadbackOutcome.split intro!: settle [OF marks(1)] settle [OF marks(2)] settle [OF marks(3)])
qed

lemma processRows_steps:
  assumes "\<And>i. interleaved L (wo_others wo i)"
  shows "persist_steps L s (snd (processRows P wo i now rows report s))"
proof (induction rows arbitrary: i report s)
  case (Cons row rows)
  obtain out err t where t: "processArchaeologyPersistenceRow P (wo_row_env wo i) (wo_others wo (i + 1)) row
      (in_lease_owner row) now s = ((out, err), t)" by (metis prod.collapse)
  then have "persist_steps L s t"
    using processRow_steps [OF assms, of s P "wo_row_env wo i" "i + 1" row "in_lease_owner row" now] by simp
  with t Cons.IH show ?case by (cases err) (auto intro: rtranclp_trans)
qed simp

lemma leaseDue_frame:
  "a_jobs (snd (leaseDueArchaeologyPersistence e now limit s)) = a_jobs s"
  "a_batches (snd (leaseDueArchaeologyPersistence e now limit s)) = a_batches s"
  "a_sessions (snd (leaseDueArchaeologyPersistence e now limit s)) = a_sessions s"
  "a_requests (snd (leaseDueArchaeologyPersistence e now limit s)) = a_requests s"
  "a_resolutions (snd (leaseDueArchaeologyPersistence e now limit s)) = a_resolutions s"
proof -
  have rows: "a_jobs (snd (leaseRows o' now cs u)) = a_jobs u \<and> a_batches (snd (leaseRows o' now cs u)) = a_batches u \<and>
      a_sessions (snd (leaseRows o' now cs u)) = a_sessions u \<and> a_requests (snd (leaseRows o' now cs u)) = a_requests u \<and>
      a_resolutions (snd (leaseRows o' now cs u)) = a_resolutions u" for o' cs u
    by (induction cs arbitrary: u) (simp_all add: Let_def split_beta)
  then show "a_jobs (snd (leaseDueArchaeologyPersistence e now limit s)) = a_jobs s"
    "a_batches (snd (leaseDueArchaeologyPersistence e now limit s)) = a_batches s"
    "a_sessions (snd (leaseDueArchaeologyPersistence e now limit s)) = a_sessions s"
    "a_requests (snd (leaseDueArchaeologyPersistence e now limit s)) = a_requests s"
    "a_resolutions (snd (leaseDueArchaeologyPersistence e now limit s)) = a_resolutions s"
    by (simp_all add: leaseDue_unfold Let_def)
qed

lemma leaseDue_steps: "persist_steps L s (snd (leaseDueArchaeologyPersistence e now limit s))"
  by (rule ledger_only_step [OF ledger_step.leaseDue [OF refl]]) (simp_all add: leaseDue_frame)

lemma recover_steps: "persist_steps L s (recoverExpiredArchaeologyPersistenceLeases now s)"
  by (rule ledger_only_step [OF ledger_step.recover [OF refl]])
    (simp_all add: recoverExpiredArchaeologyPersistenceLeases_def recoverLease_eq fold_updIntents)

lemma retry_steps:
  assumes "\<And>i. interleaved L (wo_others wo i)"
  shows "persist_steps L s (snd (RetryArchaeologyNativePersistence P wo limits s))"
proof -
  note w = interleavedD [OF assms]
  let ?now = "env_now (wo_env wo)"
  let ?u = "wo_others wo 0 1 (recoverExpiredArchaeologyPersistenceLeases ?now (wo_others wo 0 0 s))"
  obtain rows t where t: "leaseDueArchaeologyPersistence (wo_env wo) ?now (retryLimit limits) ?u = (rows, t)" by fastforce
  have "persist_steps L s ?u" using w recover_steps rtranclp_trans by metis
  moreover have "persist_steps L ?u t" using leaseDue_steps [of L ?u "wo_env wo" ?now "retryLimit limits"] t by simp
  ultimately have "persist_steps L s t" using rtranclp_trans by metis
  then show ?thesis
    unfolding RetryArchaeologyNativePersistence_def Let_def t prod.case
    using processRows_steps [OF assms] rtranclp_trans by metis
qed

lemma insert_frame:
  assumes "sqlInsertIntent r s = Inr t"
  shows "a_jobs t = a_jobs s" "a_batches t = a_batches s" "a_sessions t = a_sessions s"
    "a_requests t = a_requests s" "a_resolutions t = a_resolutions s"
  using assms by (auto simp: sqlInsertIntent_def checked_def split: if_splits)

lemma ensure_steps:
  assumes "interleaved L w"
  shows "persist_steps L s (snd (EnsureArchaeologyNativePersistenceIntent L P e w intent s))"
proof -
  note w = interleavedD [OF assms]
  have s1: "persist_steps L s (w 1 (w 0 s))" using w rtranclp_trans by metis
  then have s2: "persist_steps L s (w 2 (w 1 (w 0 s)))" using w rtranclp_trans by metis
  have ins: "persist_steps L s t"
    if "sqlInsertIntent (pendingIntent k jobID operation digest payload now) (w 1 (w 0 s)) = Inr t"
    for k jobID operation digest payload now t
    using s1 ledger_only_step [OF ledger_step.insert [OF that] insert_frame(1,2,4,5,3) [OF that]] rtranclp_trans by metis
  show ?thesis
    using w [of s 0] s1 s2 ins
    by (auto simp: EnsureArchaeologyNativePersistenceIntent_def Let_def split: sum.split option.split)
qed

lemma leaseOne_steps: "persist_steps L s (snd (leaseOneArchaeologyPersistenceIntent e k now s))"
proof -
  have "persist_steps L s (updIntents (oneGuard k now n) (leaseRow owner now) s)" for n owner
    by (rule updIntents_step [OF ledger_step.leaseOne [OF refl]])
  then show ?thesis
    by (simp add: leaseOneArchaeologyPersistenceIntent_def Let_def oneGuard_def [abs_def] split: option.split)
qed

lemma apply_steps:
  assumes "interleaved L w"
  shows "persist_steps L s (snd (ApplyArchaeologyNativePersistenceIntent P e em w k s))"
proof -
  obtain r t where t: "leaseOneArchaeologyPersistenceIntent e k (env_now e) (w 0 s) = (r, t)" by fastforce
  have st: "persist_steps L s t"
    using interleavedD [OF assms, of s 0] leaseOne_steps [of L "w 0 s" e k "env_now e"] t by (auto intro: rtranclp_trans)
  show ?thesis
  proof (cases r)
    case (Inl err)
    then show ?thesis by (simp add: ApplyArchaeologyNativePersistenceIntent_def t st)
  next
    case (Inr x)
    obtain row owner where x: "x = (row, owner)" by fastforce
    obtain out err v where v: "processArchaeologyPersistenceRow P em (\<lambda>i. w (i + 1)) row owner (env_clock e 1) t =
        ((out, err), v)" by (metis prod.collapse)
    then have "persist_steps L t v"
      using processRow_steps [OF interleaved_shift [OF assms, of 1], of t P em row owner "env_clock e 1"] by simp
    with st have "persist_steps L s v" by (rule rtranclp_trans)
    with st Inr x v show ?thesis
      by (cases err) (simp_all add: ApplyArchaeologyNativePersistenceIntent_def t)
  qed
qed

lemma ensureAndApply_steps:
  assumes "interleaved L w" "interleaved L w'"
  shows "persist_steps L s (snd (EnsureAndApplyArchaeologyNativePersistence L P e e' em w w' intent s))"
proof -
  obtain r t where t: "EnsureArchaeologyNativePersistenceIntent L P e w intent s = (r, t)" by fastforce
  have st: "persist_steps L s t" using ensure_steps [OF assms(1), of s P e intent] t by simp
  have ap: "persist_steps L s v" if "ApplyArchaeologyNativePersistenceIntent P e' em w' k t = (x, v)" for k x v
    using st apply_steps [OF assms(2), of t P e' em k] that by (auto intro: rtranclp_trans)
  have ap3: "persist_steps L s (w 3 v)" if "ApplyArchaeologyNativePersistenceIntent P e' em w' k t = (x, v)" for k x v
    using ap [OF that] interleavedD [OF assms(1), of v 3] rtranclp_trans by metis
  show ?thesis
    unfolding EnsureAndApplyArchaeologyNativePersistence_def t
    by (auto simp: st Let_def dest: ap ap3 split: sum.split prod.split)
qed

lemma reconcile_steps:
  assumes "\<And>n i. interleaved L (wo_others (wos n) i)"
  shows "persist_steps L s (snd (ReconcileArchaeologyNativePersistence P wos s))"
proof -
  have round: "persist_steps L u (snd (reconcileRound P (wos n) u))" for n u
  proof -
    obtain x v where v: "RetryArchaeologyNativePersistence P (wos n) [archaeologyPersistenceMaxRows] u = (x, v)" by fastforce
    have uv: "persist_steps L u v"
      using retry_steps [where wo = "wos n", OF assms, of u P "[archaeologyPersistenceMaxRows]"] v by simp
    then have "persist_steps L u (wo_others (wos n) 0 3 (wo_others (wos n) 0 2 v))"
      using interleavedD [OF assms] rtranclp_trans by metis
    with uv v show ?thesis
      by (auto simp: reconcileRound_def Let_def split: prod.split option.split)
  qed
  have "persist_steps L u (snd (reconcileLoop P wos i n u))" for i n u
  proof (induction n arbitrary: i u)
    case (Suc n)
    obtain x v where v: "reconcileRound P (wos i) u = (x, v)" by fastforce
    with round [of u i] have "persist_steps L u v" by simp
    with v Suc.IH [of v "i + 1"] show ?case
      by (auto split: option.split intro: rtranclp_trans)
  qed simp
  then show ?thesis by (simp add: ReconcileArchaeologyNativePersistence_def)
qed

end
