(* ===== verification/Archaeology_Demo.thy ===== *)
theory Archaeology_Demo
  imports Archaeology_History
begin

text \<open>
  Concrete runs of project archaeology, evaluated by the simplifier: one job from discovery
  to a completed report, a cancellation while the job is starting, and a restart while it
  is queued. Their states show that the hypotheses of the properties can be met. The
  digest, the identifier hash and the JSON decoder are instantiated by simple functions.
\<close>

definition arch_demo_digest :: "gostring \<Rightarrow> arch_payload \<Rightarrow> gostring" where
  "arch_demo_digest op p = op @ (case p of NativeResolve a b c d e \<Rightarrow> b | RevisionOnly n \<Rightarrow> itoa (nat n) | _ \<Rightarrow> '''')"

definition arch_demo_source :: HistoricalSource where
  "arch_demo_source = \<lparr>hs_Kind = ''docs'', hs_StableID = ''R.md'',
     hs_Digest = ''sha256:'' @ replicate 64 (CHR ''0''), hs_OccurredAt = 0\<rparr>"

definition arch_demo_proposal :: nativeProposal where
  "arch_demo_proposal = \<lparr>np_SchemaVersion = 1, np_BatchID = ''b'', np_SourceDigest = hs_Digest arch_demo_source,
     np_CollisionPolicy = ''current_wins'', np_Aliases = [],
     np_Tasks = [\<lparr>pt_Key = ''k'', pt_Source = arch_demo_source,
       pt_Attributions = [\<lparr>at_Session = ''s'', at_Role = ''reviewer'', at_Confidence = ''verified'',
          at_Source = arch_demo_source\<rparr>], pt_Events = []\<rparr>]\<rparr>"

definition arch_demo_lib :: arch_lib where
  "arch_demo_lib = \<lparr>lib_digest = arch_demo_digest, lib_sha12 = filter (\<lambda>c. c \<noteq> CHR 0x00),
     lib_json = \<lparr>json_Valid = (\<lambda>_. True), json_Unmarshal = (\<lambda>v. if v = ''{}'' then Some arch_demo_proposal else None)\<rparr>\<rparr>"

definition arch_demo_env :: "nat \<Rightarrow> env" where
  "arch_demo_env n = \<lparr>env_clock = (\<lambda>k. int (100 * n + k)), env_rand = (\<lambda>k. itoa (10 * n + k))\<rparr>"

definition arch_demo_candidate :: ArchaeologyCandidate where
  "arch_demo_candidate = \<lparr>cd_ID = ''c'', cd_CanonicalProjectID = '''', cd_Name = ''C'', cd_PathLabel = ''l'',
     cd_RepositoryLabel = '''', cd_RelativeCost = ''low'', cd_PrivacyNote = '''', cd_LastActivityAt = 0,
     cd_HasGit = False, cd_HasDocs = True, cd_HasCodexHistory = False, cd_FromCodexMetadata = False,
     cd_FromConfiguredRoot = True, cd_DurationMinSeconds = 0, cd_DurationMaxSeconds = 1, cd_CodexThreadCount = 0\<rparr>"

definition arch_demo_config :: "gostring list \<Rightarrow> ArchaeologyConfig" where
  "arch_demo_config ids = \<lparr>cf_SelectedProjectIDs = ids, cf_Depth = ''quick'',
     cf_Sources = \<lparr>src_Git = False, src_Docs = True, src_CodexHistory = False\<rparr>, cf_MaxConcurrency = 1\<rparr>"

definition arch_demo_mutation :: "gostring \<Rightarrow> int \<Rightarrow> ArchaeologyMutation" where
  "arch_demo_mutation rid base = \<lparr>am_Principal = ''u'', am_RequestID = rid, am_BaseRevision = base,
     am_Config = arch_demo_config [''c'']\<rparr>"

definition arch_demo_discovery :: ArchaeologyDiscovery where
  "arch_demo_discovery = \<lparr>ad_Candidates = [arch_demo_candidate], ad_SourceRootsScanned = 1, ad_TasksExamined = 0,
     ad_ProjectsGrouped = 0, ad_Truncated = False, ad_AppServerIdentity = ''''\<rparr>"

definition arch_demo_request :: "gostring \<Rightarrow> int \<Rightarrow> ArchaeologyNativeBatchRequest" where
  "arch_demo_request rid base = \<lparr>nb_Principal = ''u'', nb_RequestID = rid, nb_BaseRevision = base,
     nb_AcknowledgeLargeBatch = False\<rparr>"

definition arch_demo_launch :: ArchaeologyLaunchResult where
  "arch_demo_launch = \<lparr>lr_LaunchID = '''', lr_ProjectID = '''', lr_State = '''', lr_ThreadID = ''th'', lr_CodexSessionID = ''se'', lr_TurnID = ''tu'', lr_Error = ''''\<rparr>"

definition arch_demo_resolution :: ArchaeologyNativeResolution where
  "arch_demo_resolution = \<lparr>nr_Principal = ''u'', nr_RequestID = ''5'', nr_JobID = ''ARJ-ARB-AR-u3c'',
     nr_ThreadID = ''th'', nr_TurnID = ''tu'', nr_Resolution = ''confirmed_stopped'', nr_BaseRevision = 5\<rparr>"

definition arch_demo_report :: ArchaeologyNativeReport where
  "arch_demo_report = \<lparr>rp_JobID = ''ARJ-ARB-AR-u3c'', rp_ThreadID = ''th'', rp_TurnID = ''tu'',
     rp_Digest = replicate 32 (CHR ''d''),
     rp_Outcomes = [\<lparr>oc_ID = '''', oc_Title = ''t'', oc_Summary = ''y'', oc_ProjectID = ''c'', oc_SourceCount = 1,
       oc_Provenance = [arch_demo_source], oc_Contributors = [], oc_ProposalJSON = ''{}''\<rparr>]\<rparr>"

text \<open>The run: discovery, configuration, a queued batch, the claimed job.\<close>

definition ad1 :: arch where
  "ad1 = snd (ReplaceArchaeologyDiscovery arch_demo_lib (arch_demo_env 1) (arch_demo_mutation ''1'' 0)
     arch_demo_discovery empty_arch)"

definition ad2 :: arch where
  "ad2 = snd (ConfigureArchaeology arch_demo_lib (arch_demo_env 2) (arch_demo_mutation ''2'' 2) ad1)"

definition ad3 :: arch where
  "ad3 = snd (QueueArchaeologyNativeBatch arch_demo_lib (arch_demo_env 3) (arch_demo_request ''3'' 3) ad2)"

definition ad4 :: arch where
  "ad4 = snd (ClaimArchaeologyNativeJob (arch_demo_env 4) ad3)"

text \<open>From there the job is bound, activated and reports.\<close>

definition ad5 :: arch where
  "ad5 = snd (BindArchaeologyNativeIdentity (arch_demo_env 5) ''ARJ-ARB-AR-u3c'' ''th'' ''se'' ''tu'' ad4 ad4)"

definition ad6 :: arch where
  "ad6 = snd (ActivateArchaeologyNativeJob (arch_demo_env 6) ''ARJ-ARB-AR-u3c'' ''th'' ''tu'' ad5 ad5)"

definition ad7 :: arch where
  "ad7 = snd (ReportArchaeologyNativeJob arch_demo_lib (arch_demo_env 7) arch_demo_report ad6)"

definition ad8 :: arch where
  "ad8 = snd (CompleteArchaeologyNativeTurn (arch_demo_env 8)
     \<lparr>nt_JobID = ''ARJ-ARB-AR-u3c'', nt_ThreadID = ''th'', nt_TurnID = ''tu'', nt_Status = ''completed'',
      nt_DurationMS = Some 5\<rparr> ad7)"

text \<open>Or the batch is cancelled while the job is starting, and the uncertainty is resolved.\<close>

definition ax5 :: arch where
  "ax5 = snd (CancelArchaeologyNativeBatch arch_demo_lib (arch_demo_env 5) ''u'' ''4'' 4 ad4)"

definition ax6 :: arch where
  "ax6 = snd (BindArchaeologyNativeUncertainty (arch_demo_env 6) ''ARJ-ARB-AR-u3c'' arch_demo_launch ax5)"

definition ax7 :: arch where
  "ax7 = snd (ResolveArchaeologyNativeUncertainty arch_demo_lib (arch_demo_env 7) arch_demo_resolution ax6)"

text \<open>Or the server restarts while the job is queued.\<close>

definition ar4 :: arch where
  "ar4 = ReconcileArchaeology (arch_demo_env 4) ad3"

definition ar5 :: arch where
  "ar5 = snd (ClaimArchaeologyNativeJob (arch_demo_env 5) ar4)"

lemma ad1_code [code]: "ad1 =
  \<lparr>a_core =
    \<lparr>projects = [],
       topics =
         [\<lparr>tp_id = ''general'', tp_project_id = None, tp_name = ''General'',
             tp_created_at = 0\<rparr>],
       milestones = [], tasks = [], task_dependencies = [],
       task_claims = [], task_current_claims = [], task_events = [],
       changes = [], activity_events = [], project_core_requests = [],
       wiki_pages = [], wiki_revisions = [], search_documents = [],
       decisions = [], status_events = [], redactions = []\<rparr>,
    a_sessions =
      [\<lparr>ss_id = ''AR-u'', ss_principal = ''u'', ss_state = S_draft,
          ss_discovery_state = ''ready'', ss_source_roots_scanned = 1,
          ss_tasks_examined = 0, ss_projects_grouped = 0,
          ss_catalog_truncated = False, ss_app_server_identity = [],
          ss_depth = ''standard'',
          ss_sources =
            \<lparr>src_Git = True, src_Docs = True, src_CodexHistory = False\<rparr>,
          ss_max_concurrency = 2, ss_revision = 2,
          ss_discovered_at = Some 100, ss_created_at = 100,
          ss_updated_at = 100\<rparr>],
    a_candidates =
      [\<lparr>ca_session_id = ''AR-u'', ca_id = ''c'',
          ca_canonical_project_id = ''c'', ca_name = ''C'',
          ca_path_label = ''l'', ca_repository_label = [],
          ca_last_activity_at = Some 0, ca_has_git = False,
          ca_has_docs = True, ca_has_codex_history = False,
          ca_duration_min_seconds = 0, ca_duration_max_seconds = 1,
          ca_relative_cost = ''low'', ca_privacy_note = [],
          ca_selected = False, ca_from_codex_metadata = False,
          ca_from_configured_root = True, ca_codex_thread_count = 0\<rparr>],
    a_runs = [], a_launches = [],
    a_requests =
      [\<lparr>ar_principal = ''u'', ar_request_key = ''1'',
          ar_operation = ''discover'', ar_request_digest = ''discover'',
          ar_session_id = ''AR-u'', ar_recorded_at = 100\<rparr>],
    a_handoffs = [], a_handoff_requests = [], a_legacy_outcomes = [],
    a_batches = [], a_candidate_projects = [], a_jobs = [], a_outcomes = [],
    a_provenance = [], a_contributors = [], a_resolutions = [],
    a_intents = []\<rparr>"
  by code_simp

lemma ad2_code [code]: "ad2 =
  \<lparr>a_core =
    \<lparr>projects = [],
       topics =
         [\<lparr>tp_id = ''general'', tp_project_id = None, tp_name = ''General'',
             tp_created_at = 0\<rparr>],
       milestones = [], tasks = [], task_dependencies = [],
       task_claims = [], task_current_claims = [], task_events = [],
       changes = [], activity_events = [], project_core_requests = [],
       wiki_pages = [], wiki_revisions = [], search_documents = [],
       decisions = [], status_events = [], redactions = []\<rparr>,
    a_sessions =
      [\<lparr>ss_id = ''AR-u'', ss_principal = ''u'', ss_state = S_draft,
          ss_discovery_state = ''ready'', ss_source_roots_scanned = 1,
          ss_tasks_examined = 0, ss_projects_grouped = 0,
          ss_catalog_truncated = False, ss_app_server_identity = [],
          ss_depth = ''quick'',
          ss_sources =
            \<lparr>src_Git = False, src_Docs = True, src_CodexHistory = False\<rparr>,
          ss_max_concurrency = 1, ss_revision = 3,
          ss_discovered_at = Some 100, ss_created_at = 100,
          ss_updated_at = 200\<rparr>],
    a_candidates =
      [\<lparr>ca_session_id = ''AR-u'', ca_id = ''c'',
          ca_canonical_project_id = ''c'', ca_name = ''C'',
          ca_path_label = ''l'', ca_repository_label = [],
          ca_last_activity_at = Some 0, ca_has_git = False,
          ca_has_docs = True, ca_has_codex_history = False,
          ca_duration_min_seconds = 0, ca_duration_max_seconds = 1,
          ca_relative_cost = ''low'', ca_privacy_note = [],
          ca_selected = True, ca_from_codex_metadata = False,
          ca_from_configured_root = True, ca_codex_thread_count = 0\<rparr>],
    a_runs = [], a_launches = [],
    a_requests =
      [\<lparr>ar_principal = ''u'', ar_request_key = ''1'',
          ar_operation = ''discover'', ar_request_digest = ''discover'',
          ar_session_id = ''AR-u'', ar_recorded_at = 100\<rparr>,
       \<lparr>ar_principal = ''u'', ar_request_key = ''2'',
          ar_operation = ''configure'', ar_request_digest = ''configure'',
          ar_session_id = ''AR-u'', ar_recorded_at = 200\<rparr>],
    a_handoffs = [], a_handoff_requests = [], a_legacy_outcomes = [],
    a_batches = [], a_candidate_projects = [], a_jobs = [], a_outcomes = [],
    a_provenance = [], a_contributors = [], a_resolutions = [],
    a_intents = []\<rparr>"
  by code_simp

lemma ad3_code [code]: "ad3 =
  \<lparr>a_core =
    \<lparr>projects =
       [\<lparr>p_id = ''c'', p_name = ''C'', p_status = ''active'',
           p_purpose =
             ''Added from the Codex project catalog; history pending review.'',
           p_milestone = [], p_now_text = [], p_revision = 1,
           p_created_at = 300, p_updated_at = 300\<rparr>],
       topics =
         [\<lparr>tp_id = ''general'', tp_project_id = None, tp_name = ''General'',
             tp_created_at = 0\<rparr>,
          \<lparr>tp_id = ''c'', tp_project_id = Some ''c'', tp_name = ''C'',
             tp_created_at = 300\<rparr>],
       milestones = [], tasks = [], task_dependencies = [],
       task_claims = [], task_current_claims = [], task_events = [],
       changes =
         [\<lparr>ch_project_id = ''c'', ch_revision = 1,
             ch_kind = ''project_created'', ch_ref = ''c'',
             ch_summary = ''C'', ch_created_at = 300\<rparr>],
       activity_events =
         [\<lparr>ac_id = ''A-30'', ac_kind = ''project_updated'',
             ac_project_id = Some ''c'', ac_actor_id = ''u'',
             ac_object_ref = ''c'', ac_object_title = ''C'',
             ac_outcome = ''created'', ac_untrusted = True,
             ac_occurred_at = 300, ac_recorded_at = 300\<rparr>],
       project_core_requests = [], wiki_pages = [], wiki_revisions = [],
       search_documents = [], decisions = [], status_events = [],
       redactions = []\<rparr>,
    a_sessions =
      [\<lparr>ss_id = ''AR-u'', ss_principal = ''u'', ss_state = S_running,
          ss_discovery_state = ''ready'', ss_source_roots_scanned = 1,
          ss_tasks_examined = 0, ss_projects_grouped = 0,
          ss_catalog_truncated = False, ss_app_server_identity = [],
          ss_depth = ''quick'',
          ss_sources =
            \<lparr>src_Git = False, src_Docs = True, src_CodexHistory = False\<rparr>,
          ss_max_concurrency = 1, ss_revision = 4,
          ss_discovered_at = Some 100, ss_created_at = 100,
          ss_updated_at = 300\<rparr>],
    a_candidates =
      [\<lparr>ca_session_id = ''AR-u'', ca_id = ''c'',
          ca_canonical_project_id = ''c'', ca_name = ''C'',
          ca_path_label = ''l'', ca_repository_label = [],
          ca_last_activity_at = Some 0, ca_has_git = False,
          ca_has_docs = True, ca_has_codex_history = False,
          ca_duration_min_seconds = 0, ca_duration_max_seconds = 1,
          ca_relative_cost = ''low'', ca_privacy_note = [],
          ca_selected = True, ca_from_codex_metadata = False,
          ca_from_configured_root = True, ca_codex_thread_count = 0\<rparr>],
    a_runs = [], a_launches = [],
    a_requests =
      [\<lparr>ar_principal = ''u'', ar_request_key = ''1'',
          ar_operation = ''discover'', ar_request_digest = ''discover'',
          ar_session_id = ''AR-u'', ar_recorded_at = 100\<rparr>,
       \<lparr>ar_principal = ''u'', ar_request_key = ''2'',
          ar_operation = ''configure'', ar_request_digest = ''configure'',
          ar_session_id = ''AR-u'', ar_recorded_at = 200\<rparr>],
    a_handoffs = [], a_handoff_requests = [], a_legacy_outcomes = [],
    a_batches =
      [\<lparr>ba_id = ''ARB-AR-u3'', ba_session_id = ''AR-u'',
          ba_request_key = ''3'', ba_request_digest = ''native_start'',
          ba_state = B_queued, ba_max_concurrency = 1,
          ba_policy =
            \<lparr>pol_Depth = ''quick'',
               pol_Sources =
                 \<lparr>src_Git = False, src_Docs = True,
                    src_CodexHistory = False\<rparr>\<rparr>,
          ba_policy_attested = True, ba_large_batch_acknowledged_at = None,
          ba_large_batch_acknowledged_by = [], ba_created_at = 300,
          ba_updated_at = 300\<rparr>],
    a_candidate_projects =
      [\<lparr>cj_session_id = ''AR-u'', cj_candidate_id = ''c'',
          cj_project_id = ''c'', cj_mapped_by_principal = ''u'',
          cj_purpose =
            ''Added from the Codex project catalog; history pending review.'',
          cj_created_project = True, cj_mapped_at = 300\<rparr>],
    a_jobs =
      [\<lparr>nj_id = ''ARJ-ARB-AR-u3c'', nj_batch_id = ''ARB-AR-u3'',
          nj_session_id = ''AR-u'', nj_candidate_id = ''c'',
          nj_project_id = ''c'', nj_project_name = ''C'',
          nj_state = J_queued, nj_thread_id = [], nj_codex_session_id = [],
          nj_turn_id = [], nj_phase_label = [], nj_sources_examined = 0,
          nj_duration_ms = None, nj_report_digest = None,
          nj_error_code = [], nj_created_at = 300, nj_started_at = None,
          nj_reported_at = None, nj_terminal_at = None,
          nj_updated_at = 300\<rparr>],
    a_outcomes = [], a_provenance = [], a_contributors = [],
    a_resolutions = [], a_intents = []\<rparr>"
  by code_simp

lemma ad4_code [code]: "ad4 =
  \<lparr>a_core =
    \<lparr>projects =
       [\<lparr>p_id = ''c'', p_name = ''C'', p_status = ''active'',
           p_purpose =
             ''Added from the Codex project catalog; history pending review.'',
           p_milestone = [], p_now_text = [], p_revision = 1,
           p_created_at = 300, p_updated_at = 300\<rparr>],
       topics =
         [\<lparr>tp_id = ''general'', tp_project_id = None, tp_name = ''General'',
             tp_created_at = 0\<rparr>,
          \<lparr>tp_id = ''c'', tp_project_id = Some ''c'', tp_name = ''C'',
             tp_created_at = 300\<rparr>],
       milestones = [], tasks = [], task_dependencies = [],
       task_claims = [], task_current_claims = [], task_events = [],
       changes =
         [\<lparr>ch_project_id = ''c'', ch_revision = 1,
             ch_kind = ''project_created'', ch_ref = ''c'',
             ch_summary = ''C'', ch_created_at = 300\<rparr>],
       activity_events =
         [\<lparr>ac_id = ''A-30'', ac_kind = ''project_updated'',
             ac_project_id = Some ''c'', ac_actor_id = ''u'',
             ac_object_ref = ''c'', ac_object_title = ''C'',
             ac_outcome = ''created'', ac_untrusted = True,
             ac_occurred_at = 300, ac_recorded_at = 300\<rparr>],
       project_core_requests = [], wiki_pages = [], wiki_revisions = [],
       search_documents = [], decisions = [], status_events = [],
       redactions = []\<rparr>,
    a_sessions =
      [\<lparr>ss_id = ''AR-u'', ss_principal = ''u'', ss_state = S_running,
          ss_discovery_state = ''ready'', ss_source_roots_scanned = 1,
          ss_tasks_examined = 0, ss_projects_grouped = 0,
          ss_catalog_truncated = False, ss_app_server_identity = [],
          ss_depth = ''quick'',
          ss_sources =
            \<lparr>src_Git = False, src_Docs = True, src_CodexHistory = False\<rparr>,
          ss_max_concurrency = 1, ss_revision = 4,
          ss_discovered_at = Some 100, ss_created_at = 100,
          ss_updated_at = 300\<rparr>],
    a_candidates =
      [\<lparr>ca_session_id = ''AR-u'', ca_id = ''c'',
          ca_canonical_project_id = ''c'', ca_name = ''C'',
          ca_path_label = ''l'', ca_repository_label = [],
          ca_last_activity_at = Some 0, ca_has_git = False,
          ca_has_docs = True, ca_has_codex_history = False,
          ca_duration_min_seconds = 0, ca_duration_max_seconds = 1,
          ca_relative_cost = ''low'', ca_privacy_note = [],
          ca_selected = True, ca_from_codex_metadata = False,
          ca_from_configured_root = True, ca_codex_thread_count = 0\<rparr>],
    a_runs = [], a_launches = [],
    a_requests =
      [\<lparr>ar_principal = ''u'', ar_request_key = ''1'',
          ar_operation = ''discover'', ar_request_digest = ''discover'',
          ar_session_id = ''AR-u'', ar_recorded_at = 100\<rparr>,
       \<lparr>ar_principal = ''u'', ar_request_key = ''2'',
          ar_operation = ''configure'', ar_request_digest = ''configure'',
          ar_session_id = ''AR-u'', ar_recorded_at = 200\<rparr>],
    a_handoffs = [], a_handoff_requests = [], a_legacy_outcomes = [],
    a_batches =
      [\<lparr>ba_id = ''ARB-AR-u3'', ba_session_id = ''AR-u'',
          ba_request_key = ''3'', ba_request_digest = ''native_start'',
          ba_state = B_running, ba_max_concurrency = 1,
          ba_policy =
            \<lparr>pol_Depth = ''quick'',
               pol_Sources =
                 \<lparr>src_Git = False, src_Docs = True,
                    src_CodexHistory = False\<rparr>\<rparr>,
          ba_policy_attested = True, ba_large_batch_acknowledged_at = None,
          ba_large_batch_acknowledged_by = [], ba_created_at = 300,
          ba_updated_at = 400\<rparr>],
    a_candidate_projects =
      [\<lparr>cj_session_id = ''AR-u'', cj_candidate_id = ''c'',
          cj_project_id = ''c'', cj_mapped_by_principal = ''u'',
          cj_purpose =
            ''Added from the Codex project catalog; history pending review.'',
          cj_created_project = True, cj_mapped_at = 300\<rparr>],
    a_jobs =
      [\<lparr>nj_id = ''ARJ-ARB-AR-u3c'', nj_batch_id = ''ARB-AR-u3'',
          nj_session_id = ''AR-u'', nj_candidate_id = ''c'',
          nj_project_id = ''c'', nj_project_name = ''C'',
          nj_state = J_starting, nj_thread_id = [],
          nj_codex_session_id = [], nj_turn_id = [], nj_phase_label = [],
          nj_sources_examined = 0, nj_duration_ms = None,
          nj_report_digest = None, nj_error_code = [], nj_created_at = 300,
          nj_started_at = Some 400, nj_reported_at = None,
          nj_terminal_at = None, nj_updated_at = 400\<rparr>],
    a_outcomes = [], a_provenance = [], a_contributors = [],
    a_resolutions = [], a_intents = []\<rparr>"
  by code_simp

lemma ad5_code [code]: "ad5 =
  \<lparr>a_core =
    \<lparr>projects =
       [\<lparr>p_id = ''c'', p_name = ''C'', p_status = ''active'',
           p_purpose =
             ''Added from the Codex project catalog; history pending review.'',
           p_milestone = [], p_now_text = [], p_revision = 1,
           p_created_at = 300, p_updated_at = 300\<rparr>],
       topics =
         [\<lparr>tp_id = ''general'', tp_project_id = None, tp_name = ''General'',
             tp_created_at = 0\<rparr>,
          \<lparr>tp_id = ''c'', tp_project_id = Some ''c'', tp_name = ''C'',
             tp_created_at = 300\<rparr>],
       milestones = [], tasks = [], task_dependencies = [],
       task_claims = [], task_current_claims = [], task_events = [],
       changes =
         [\<lparr>ch_project_id = ''c'', ch_revision = 1,
             ch_kind = ''project_created'', ch_ref = ''c'',
             ch_summary = ''C'', ch_created_at = 300\<rparr>],
       activity_events =
         [\<lparr>ac_id = ''A-30'', ac_kind = ''project_updated'',
             ac_project_id = Some ''c'', ac_actor_id = ''u'',
             ac_object_ref = ''c'', ac_object_title = ''C'',
             ac_outcome = ''created'', ac_untrusted = True,
             ac_occurred_at = 300, ac_recorded_at = 300\<rparr>],
       project_core_requests = [], wiki_pages = [], wiki_revisions = [],
       search_documents = [], decisions = [], status_events = [],
       redactions = []\<rparr>,
    a_sessions =
      [\<lparr>ss_id = ''AR-u'', ss_principal = ''u'', ss_state = S_running,
          ss_discovery_state = ''ready'', ss_source_roots_scanned = 1,
          ss_tasks_examined = 0, ss_projects_grouped = 0,
          ss_catalog_truncated = False, ss_app_server_identity = [],
          ss_depth = ''quick'',
          ss_sources =
            \<lparr>src_Git = False, src_Docs = True, src_CodexHistory = False\<rparr>,
          ss_max_concurrency = 1, ss_revision = 4,
          ss_discovered_at = Some 100, ss_created_at = 100,
          ss_updated_at = 300\<rparr>],
    a_candidates =
      [\<lparr>ca_session_id = ''AR-u'', ca_id = ''c'',
          ca_canonical_project_id = ''c'', ca_name = ''C'',
          ca_path_label = ''l'', ca_repository_label = [],
          ca_last_activity_at = Some 0, ca_has_git = False,
          ca_has_docs = True, ca_has_codex_history = False,
          ca_duration_min_seconds = 0, ca_duration_max_seconds = 1,
          ca_relative_cost = ''low'', ca_privacy_note = [],
          ca_selected = True, ca_from_codex_metadata = False,
          ca_from_configured_root = True, ca_codex_thread_count = 0\<rparr>],
    a_runs = [], a_launches = [],
    a_requests =
      [\<lparr>ar_principal = ''u'', ar_request_key = ''1'',
          ar_operation = ''discover'', ar_request_digest = ''discover'',
          ar_session_id = ''AR-u'', ar_recorded_at = 100\<rparr>,
       \<lparr>ar_principal = ''u'', ar_request_key = ''2'',
          ar_operation = ''configure'', ar_request_digest = ''configure'',
          ar_session_id = ''AR-u'', ar_recorded_at = 200\<rparr>],
    a_handoffs = [], a_handoff_requests = [], a_legacy_outcomes = [],
    a_batches =
      [\<lparr>ba_id = ''ARB-AR-u3'', ba_session_id = ''AR-u'',
          ba_request_key = ''3'', ba_request_digest = ''native_start'',
          ba_state = B_running, ba_max_concurrency = 1,
          ba_policy =
            \<lparr>pol_Depth = ''quick'',
               pol_Sources =
                 \<lparr>src_Git = False, src_Docs = True,
                    src_CodexHistory = False\<rparr>\<rparr>,
          ba_policy_attested = True, ba_large_batch_acknowledged_at = None,
          ba_large_batch_acknowledged_by = [], ba_created_at = 300,
          ba_updated_at = 400\<rparr>],
    a_candidate_projects =
      [\<lparr>cj_session_id = ''AR-u'', cj_candidate_id = ''c'',
          cj_project_id = ''c'', cj_mapped_by_principal = ''u'',
          cj_purpose =
            ''Added from the Codex project catalog; history pending review.'',
          cj_created_project = True, cj_mapped_at = 300\<rparr>],
    a_jobs =
      [\<lparr>nj_id = ''ARJ-ARB-AR-u3c'', nj_batch_id = ''ARB-AR-u3'',
          nj_session_id = ''AR-u'', nj_candidate_id = ''c'',
          nj_project_id = ''c'', nj_project_name = ''C'',
          nj_state = J_starting, nj_thread_id = ''th'',
          nj_codex_session_id = ''se'', nj_turn_id = ''tu'',
          nj_phase_label = ''Codex identity durably bound'',
          nj_sources_examined = 0, nj_duration_ms = None,
          nj_report_digest = None, nj_error_code = [], nj_created_at = 300,
          nj_started_at = Some 400, nj_reported_at = None,
          nj_terminal_at = None, nj_updated_at = 500\<rparr>],
    a_outcomes = [], a_provenance = [], a_contributors = [],
    a_resolutions = [], a_intents = []\<rparr>"
  by code_simp

lemma ad6_code [code]: "ad6 =
  \<lparr>a_core =
    \<lparr>projects =
       [\<lparr>p_id = ''c'', p_name = ''C'', p_status = ''active'',
           p_purpose =
             ''Added from the Codex project catalog; history pending review.'',
           p_milestone = [], p_now_text = [], p_revision = 1,
           p_created_at = 300, p_updated_at = 300\<rparr>],
       topics =
         [\<lparr>tp_id = ''general'', tp_project_id = None, tp_name = ''General'',
             tp_created_at = 0\<rparr>,
          \<lparr>tp_id = ''c'', tp_project_id = Some ''c'', tp_name = ''C'',
             tp_created_at = 300\<rparr>],
       milestones = [], tasks = [], task_dependencies = [],
       task_claims = [], task_current_claims = [], task_events = [],
       changes =
         [\<lparr>ch_project_id = ''c'', ch_revision = 1,
             ch_kind = ''project_created'', ch_ref = ''c'',
             ch_summary = ''C'', ch_created_at = 300\<rparr>],
       activity_events =
         [\<lparr>ac_id = ''A-30'', ac_kind = ''project_updated'',
             ac_project_id = Some ''c'', ac_actor_id = ''u'',
             ac_object_ref = ''c'', ac_object_title = ''C'',
             ac_outcome = ''created'', ac_untrusted = True,
             ac_occurred_at = 300, ac_recorded_at = 300\<rparr>],
       project_core_requests = [], wiki_pages = [], wiki_revisions = [],
       search_documents = [], decisions = [], status_events = [],
       redactions = []\<rparr>,
    a_sessions =
      [\<lparr>ss_id = ''AR-u'', ss_principal = ''u'', ss_state = S_running,
          ss_discovery_state = ''ready'', ss_source_roots_scanned = 1,
          ss_tasks_examined = 0, ss_projects_grouped = 0,
          ss_catalog_truncated = False, ss_app_server_identity = [],
          ss_depth = ''quick'',
          ss_sources =
            \<lparr>src_Git = False, src_Docs = True, src_CodexHistory = False\<rparr>,
          ss_max_concurrency = 1, ss_revision = 4,
          ss_discovered_at = Some 100, ss_created_at = 100,
          ss_updated_at = 300\<rparr>],
    a_candidates =
      [\<lparr>ca_session_id = ''AR-u'', ca_id = ''c'',
          ca_canonical_project_id = ''c'', ca_name = ''C'',
          ca_path_label = ''l'', ca_repository_label = [],
          ca_last_activity_at = Some 0, ca_has_git = False,
          ca_has_docs = True, ca_has_codex_history = False,
          ca_duration_min_seconds = 0, ca_duration_max_seconds = 1,
          ca_relative_cost = ''low'', ca_privacy_note = [],
          ca_selected = True, ca_from_codex_metadata = False,
          ca_from_configured_root = True, ca_codex_thread_count = 0\<rparr>],
    a_runs = [], a_launches = [],
    a_requests =
      [\<lparr>ar_principal = ''u'', ar_request_key = ''1'',
          ar_operation = ''discover'', ar_request_digest = ''discover'',
          ar_session_id = ''AR-u'', ar_recorded_at = 100\<rparr>,
       \<lparr>ar_principal = ''u'', ar_request_key = ''2'',
          ar_operation = ''configure'', ar_request_digest = ''configure'',
          ar_session_id = ''AR-u'', ar_recorded_at = 200\<rparr>],
    a_handoffs = [], a_handoff_requests = [], a_legacy_outcomes = [],
    a_batches =
      [\<lparr>ba_id = ''ARB-AR-u3'', ba_session_id = ''AR-u'',
          ba_request_key = ''3'', ba_request_digest = ''native_start'',
          ba_state = B_running, ba_max_concurrency = 1,
          ba_policy =
            \<lparr>pol_Depth = ''quick'',
               pol_Sources =
                 \<lparr>src_Git = False, src_Docs = True,
                    src_CodexHistory = False\<rparr>\<rparr>,
          ba_policy_attested = True, ba_large_batch_acknowledged_at = None,
          ba_large_batch_acknowledged_by = [], ba_created_at = 300,
          ba_updated_at = 400\<rparr>],
    a_candidate_projects =
      [\<lparr>cj_session_id = ''AR-u'', cj_candidate_id = ''c'',
          cj_project_id = ''c'', cj_mapped_by_principal = ''u'',
          cj_purpose =
            ''Added from the Codex project catalog; history pending review.'',
          cj_created_project = True, cj_mapped_at = 300\<rparr>],
    a_jobs =
      [\<lparr>nj_id = ''ARJ-ARB-AR-u3c'', nj_batch_id = ''ARB-AR-u3'',
          nj_session_id = ''AR-u'', nj_candidate_id = ''c'',
          nj_project_id = ''c'', nj_project_name = ''C'',
          nj_state = J_active, nj_thread_id = ''th'',
          nj_codex_session_id = ''se'', nj_turn_id = ''tu'',
          nj_phase_label = ''Visible in Codex'', nj_sources_examined = 0,
          nj_duration_ms = None, nj_report_digest = None,
          nj_error_code = [], nj_created_at = 300, nj_started_at = Some 400,
          nj_reported_at = None, nj_terminal_at = None,
          nj_updated_at = 600\<rparr>],
    a_outcomes = [], a_provenance = [], a_contributors = [],
    a_resolutions = [], a_intents = []\<rparr>"
  by code_simp

lemma ad7_code [code]: "ad7 =
  \<lparr>a_core =
    \<lparr>projects =
       [\<lparr>p_id = ''c'', p_name = ''C'', p_status = ''active'',
           p_purpose =
             ''Added from the Codex project catalog; history pending review.'',
           p_milestone = [], p_now_text = [], p_revision = 1,
           p_created_at = 300, p_updated_at = 300\<rparr>],
       topics =
         [\<lparr>tp_id = ''general'', tp_project_id = None, tp_name = ''General'',
             tp_created_at = 0\<rparr>,
          \<lparr>tp_id = ''c'', tp_project_id = Some ''c'', tp_name = ''C'',
             tp_created_at = 300\<rparr>],
       milestones = [], tasks = [], task_dependencies = [],
       task_claims = [], task_current_claims = [], task_events = [],
       changes =
         [\<lparr>ch_project_id = ''c'', ch_revision = 1,
             ch_kind = ''project_created'', ch_ref = ''c'',
             ch_summary = ''C'', ch_created_at = 300\<rparr>],
       activity_events =
         [\<lparr>ac_id = ''A-30'', ac_kind = ''project_updated'',
             ac_project_id = Some ''c'', ac_actor_id = ''u'',
             ac_object_ref = ''c'', ac_object_title = ''C'',
             ac_outcome = ''created'', ac_untrusted = True,
             ac_occurred_at = 300, ac_recorded_at = 300\<rparr>],
       project_core_requests = [], wiki_pages = [], wiki_revisions = [],
       search_documents = [], decisions = [], status_events = [],
       redactions = []\<rparr>,
    a_sessions =
      [\<lparr>ss_id = ''AR-u'', ss_principal = ''u'', ss_state = S_running,
          ss_discovery_state = ''ready'', ss_source_roots_scanned = 1,
          ss_tasks_examined = 0, ss_projects_grouped = 0,
          ss_catalog_truncated = False, ss_app_server_identity = [],
          ss_depth = ''quick'',
          ss_sources =
            \<lparr>src_Git = False, src_Docs = True, src_CodexHistory = False\<rparr>,
          ss_max_concurrency = 1, ss_revision = 5,
          ss_discovered_at = Some 100, ss_created_at = 100,
          ss_updated_at = 700\<rparr>],
    a_candidates =
      [\<lparr>ca_session_id = ''AR-u'', ca_id = ''c'',
          ca_canonical_project_id = ''c'', ca_name = ''C'',
          ca_path_label = ''l'', ca_repository_label = [],
          ca_last_activity_at = Some 0, ca_has_git = False,
          ca_has_docs = True, ca_has_codex_history = False,
          ca_duration_min_seconds = 0, ca_duration_max_seconds = 1,
          ca_relative_cost = ''low'', ca_privacy_note = [],
          ca_selected = True, ca_from_codex_metadata = False,
          ca_from_configured_root = True, ca_codex_thread_count = 0\<rparr>],
    a_runs = [], a_launches = [],
    a_requests =
      [\<lparr>ar_principal = ''u'', ar_request_key = ''1'',
          ar_operation = ''discover'', ar_request_digest = ''discover'',
          ar_session_id = ''AR-u'', ar_recorded_at = 100\<rparr>,
       \<lparr>ar_principal = ''u'', ar_request_key = ''2'',
          ar_operation = ''configure'', ar_request_digest = ''configure'',
          ar_session_id = ''AR-u'', ar_recorded_at = 200\<rparr>],
    a_handoffs = [], a_handoff_requests = [], a_legacy_outcomes = [],
    a_batches =
      [\<lparr>ba_id = ''ARB-AR-u3'', ba_session_id = ''AR-u'',
          ba_request_key = ''3'', ba_request_digest = ''native_start'',
          ba_state = B_running, ba_max_concurrency = 1,
          ba_policy =
            \<lparr>pol_Depth = ''quick'',
               pol_Sources =
                 \<lparr>src_Git = False, src_Docs = True,
                    src_CodexHistory = False\<rparr>\<rparr>,
          ba_policy_attested = True, ba_large_batch_acknowledged_at = None,
          ba_large_batch_acknowledged_by = [], ba_created_at = 300,
          ba_updated_at = 700\<rparr>],
    a_candidate_projects =
      [\<lparr>cj_session_id = ''AR-u'', cj_candidate_id = ''c'',
          cj_project_id = ''c'', cj_mapped_by_principal = ''u'',
          cj_purpose =
            ''Added from the Codex project catalog; history pending review.'',
          cj_created_project = True, cj_mapped_at = 300\<rparr>],
    a_jobs =
      [\<lparr>nj_id = ''ARJ-ARB-AR-u3c'', nj_batch_id = ''ARB-AR-u3'',
          nj_session_id = ''AR-u'', nj_candidate_id = ''c'',
          nj_project_id = ''c'', nj_project_name = ''C'',
          nj_state = J_report_ready, nj_thread_id = ''th'',
          nj_codex_session_id = ''se'', nj_turn_id = ''tu'',
          nj_phase_label = ''Report ready for human review'',
          nj_sources_examined = 0, nj_duration_ms = None,
          nj_report_digest = Some ''dddddddddddddddddddddddddddddddd'',
          nj_error_code = [], nj_created_at = 300, nj_started_at = Some 400,
          nj_reported_at = Some 700, nj_terminal_at = None,
          nj_updated_at = 700\<rparr>],
    a_outcomes =
      [\<lparr>no_id = ''ARON-ARJ-ARB-AR-u3cdddddddddddddddddddddddddddddddd0'',
          no_job_id = ''ARJ-ARB-AR-u3c'', no_project_id = ''c'',
          no_title = ''t'', no_summary = ''y'', no_source_count = 1,
          no_proposal_json = ''{}'', no_created_at = 700\<rparr>],
    a_provenance =
      [\<lparr>nv_outcome_id =
          ''ARON-ARJ-ARB-AR-u3cdddddddddddddddddddddddddddddddd0'',
          nv_position = 0,
          nv_source =
            \<lparr>hs_Kind = ''docs'', hs_StableID = ''R.md'',
               hs_Digest =
                 ''sha256:0000000000000000000000000000000000000000000000000000000000000000'',
               hs_OccurredAt = 0\<rparr>\<rparr>],
    a_contributors = [], a_resolutions = [], a_intents = []\<rparr>"
  by code_simp

lemma ad8_code [code]: "ad8 =
  \<lparr>a_core =
    \<lparr>projects =
       [\<lparr>p_id = ''c'', p_name = ''C'', p_status = ''active'',
           p_purpose =
             ''Added from the Codex project catalog; history pending review.'',
           p_milestone = [], p_now_text = [], p_revision = 1,
           p_created_at = 300, p_updated_at = 300\<rparr>],
       topics =
         [\<lparr>tp_id = ''general'', tp_project_id = None, tp_name = ''General'',
             tp_created_at = 0\<rparr>,
          \<lparr>tp_id = ''c'', tp_project_id = Some ''c'', tp_name = ''C'',
             tp_created_at = 300\<rparr>],
       milestones = [], tasks = [], task_dependencies = [],
       task_claims = [], task_current_claims = [], task_events = [],
       changes =
         [\<lparr>ch_project_id = ''c'', ch_revision = 1,
             ch_kind = ''project_created'', ch_ref = ''c'',
             ch_summary = ''C'', ch_created_at = 300\<rparr>],
       activity_events =
         [\<lparr>ac_id = ''A-30'', ac_kind = ''project_updated'',
             ac_project_id = Some ''c'', ac_actor_id = ''u'',
             ac_object_ref = ''c'', ac_object_title = ''C'',
             ac_outcome = ''created'', ac_untrusted = True,
             ac_occurred_at = 300, ac_recorded_at = 300\<rparr>],
       project_core_requests = [], wiki_pages = [], wiki_revisions = [],
       search_documents = [], decisions = [], status_events = [],
       redactions = []\<rparr>,
    a_sessions =
      [\<lparr>ss_id = ''AR-u'', ss_principal = ''u'', ss_state = S_draft,
          ss_discovery_state = ''ready'', ss_source_roots_scanned = 1,
          ss_tasks_examined = 0, ss_projects_grouped = 0,
          ss_catalog_truncated = False, ss_app_server_identity = [],
          ss_depth = ''quick'',
          ss_sources =
            \<lparr>src_Git = False, src_Docs = True, src_CodexHistory = False\<rparr>,
          ss_max_concurrency = 1, ss_revision = 6,
          ss_discovered_at = Some 100, ss_created_at = 100,
          ss_updated_at = 800\<rparr>],
    a_candidates =
      [\<lparr>ca_session_id = ''AR-u'', ca_id = ''c'',
          ca_canonical_project_id = ''c'', ca_name = ''C'',
          ca_path_label = ''l'', ca_repository_label = [],
          ca_last_activity_at = Some 0, ca_has_git = False,
          ca_has_docs = True, ca_has_codex_history = False,
          ca_duration_min_seconds = 0, ca_duration_max_seconds = 1,
          ca_relative_cost = ''low'', ca_privacy_note = [],
          ca_selected = True, ca_from_codex_metadata = False,
          ca_from_configured_root = True, ca_codex_thread_count = 0\<rparr>],
    a_runs = [], a_launches = [],
    a_requests =
      [\<lparr>ar_principal = ''u'', ar_request_key = ''1'',
          ar_operation = ''discover'', ar_request_digest = ''discover'',
          ar_session_id = ''AR-u'', ar_recorded_at = 100\<rparr>,
       \<lparr>ar_principal = ''u'', ar_request_key = ''2'',
          ar_operation = ''configure'', ar_request_digest = ''configure'',
          ar_session_id = ''AR-u'', ar_recorded_at = 200\<rparr>],
    a_handoffs = [], a_handoff_requests = [], a_legacy_outcomes = [],
    a_batches =
      [\<lparr>ba_id = ''ARB-AR-u3'', ba_session_id = ''AR-u'',
          ba_request_key = ''3'', ba_request_digest = ''native_start'',
          ba_state = B_completed, ba_max_concurrency = 1,
          ba_policy =
            \<lparr>pol_Depth = ''quick'',
               pol_Sources =
                 \<lparr>src_Git = False, src_Docs = True,
                    src_CodexHistory = False\<rparr>\<rparr>,
          ba_policy_attested = True, ba_large_batch_acknowledged_at = None,
          ba_large_batch_acknowledged_by = [], ba_created_at = 300,
          ba_updated_at = 800\<rparr>],
    a_candidate_projects =
      [\<lparr>cj_session_id = ''AR-u'', cj_candidate_id = ''c'',
          cj_project_id = ''c'', cj_mapped_by_principal = ''u'',
          cj_purpose =
            ''Added from the Codex project catalog; history pending review.'',
          cj_created_project = True, cj_mapped_at = 300\<rparr>],
    a_jobs =
      [\<lparr>nj_id = ''ARJ-ARB-AR-u3c'', nj_batch_id = ''ARB-AR-u3'',
          nj_session_id = ''AR-u'', nj_candidate_id = ''c'',
          nj_project_id = ''c'', nj_project_name = ''C'',
          nj_state = J_completed, nj_thread_id = ''th'',
          nj_codex_session_id = ''se'', nj_turn_id = ''tu'',
          nj_phase_label = ''Report ready for human review'',
          nj_sources_examined = 0, nj_duration_ms = Some 5,
          nj_report_digest = Some ''dddddddddddddddddddddddddddddddd'',
          nj_error_code = [], nj_created_at = 300, nj_started_at = Some 400,
          nj_reported_at = Some 700, nj_terminal_at = Some 800,
          nj_updated_at = 800\<rparr>],
    a_outcomes =
      [\<lparr>no_id = ''ARON-ARJ-ARB-AR-u3cdddddddddddddddddddddddddddddddd0'',
          no_job_id = ''ARJ-ARB-AR-u3c'', no_project_id = ''c'',
          no_title = ''t'', no_summary = ''y'', no_source_count = 1,
          no_proposal_json = ''{}'', no_created_at = 700\<rparr>],
    a_provenance =
      [\<lparr>nv_outcome_id =
          ''ARON-ARJ-ARB-AR-u3cdddddddddddddddddddddddddddddddd0'',
          nv_position = 0,
          nv_source =
            \<lparr>hs_Kind = ''docs'', hs_StableID = ''R.md'',
               hs_Digest =
                 ''sha256:0000000000000000000000000000000000000000000000000000000000000000'',
               hs_OccurredAt = 0\<rparr>\<rparr>],
    a_contributors = [], a_resolutions = [], a_intents = []\<rparr>"
  by code_simp

lemma ax5_code [code]: "ax5 =
  \<lparr>a_core =
    \<lparr>projects =
       [\<lparr>p_id = ''c'', p_name = ''C'', p_status = ''active'',
           p_purpose =
             ''Added from the Codex project catalog; history pending review.'',
           p_milestone = [], p_now_text = [], p_revision = 1,
           p_created_at = 300, p_updated_at = 300\<rparr>],
       topics =
         [\<lparr>tp_id = ''general'', tp_project_id = None, tp_name = ''General'',
             tp_created_at = 0\<rparr>,
          \<lparr>tp_id = ''c'', tp_project_id = Some ''c'', tp_name = ''C'',
             tp_created_at = 300\<rparr>],
       milestones = [], tasks = [], task_dependencies = [],
       task_claims = [], task_current_claims = [], task_events = [],
       changes =
         [\<lparr>ch_project_id = ''c'', ch_revision = 1,
             ch_kind = ''project_created'', ch_ref = ''c'',
             ch_summary = ''C'', ch_created_at = 300\<rparr>],
       activity_events =
         [\<lparr>ac_id = ''A-30'', ac_kind = ''project_updated'',
             ac_project_id = Some ''c'', ac_actor_id = ''u'',
             ac_object_ref = ''c'', ac_object_title = ''C'',
             ac_outcome = ''created'', ac_untrusted = True,
             ac_occurred_at = 300, ac_recorded_at = 300\<rparr>],
       project_core_requests = [], wiki_pages = [], wiki_revisions = [],
       search_documents = [], decisions = [], status_events = [],
       redactions = []\<rparr>,
    a_sessions =
      [\<lparr>ss_id = ''AR-u'', ss_principal = ''u'',
          ss_state = S_cancel_requested, ss_discovery_state = ''ready'',
          ss_source_roots_scanned = 1, ss_tasks_examined = 0,
          ss_projects_grouped = 0, ss_catalog_truncated = False,
          ss_app_server_identity = [], ss_depth = ''quick'',
          ss_sources =
            \<lparr>src_Git = False, src_Docs = True, src_CodexHistory = False\<rparr>,
          ss_max_concurrency = 1, ss_revision = 5,
          ss_discovered_at = Some 100, ss_created_at = 100,
          ss_updated_at = 501\<rparr>],
    a_candidates =
      [\<lparr>ca_session_id = ''AR-u'', ca_id = ''c'',
          ca_canonical_project_id = ''c'', ca_name = ''C'',
          ca_path_label = ''l'', ca_repository_label = [],
          ca_last_activity_at = Some 0, ca_has_git = False,
          ca_has_docs = True, ca_has_codex_history = False,
          ca_duration_min_seconds = 0, ca_duration_max_seconds = 1,
          ca_relative_cost = ''low'', ca_privacy_note = [],
          ca_selected = True, ca_from_codex_metadata = False,
          ca_from_configured_root = True, ca_codex_thread_count = 0\<rparr>],
    a_runs = [], a_launches = [],
    a_requests =
      [\<lparr>ar_principal = ''u'', ar_request_key = ''1'',
          ar_operation = ''discover'', ar_request_digest = ''discover'',
          ar_session_id = ''AR-u'', ar_recorded_at = 100\<rparr>,
       \<lparr>ar_principal = ''u'', ar_request_key = ''2'',
          ar_operation = ''configure'', ar_request_digest = ''configure'',
          ar_session_id = ''AR-u'', ar_recorded_at = 200\<rparr>,
       \<lparr>ar_principal = ''u'', ar_request_key = ''4'',
          ar_operation = ''native_cancel'',
          ar_request_digest = ''native_cancel4'', ar_session_id = ''AR-u'',
          ar_recorded_at = 500\<rparr>],
    a_handoffs = [], a_handoff_requests = [], a_legacy_outcomes = [],
    a_batches =
      [\<lparr>ba_id = ''ARB-AR-u3'', ba_session_id = ''AR-u'',
          ba_request_key = ''3'', ba_request_digest = ''native_start'',
          ba_state = B_cancel_requested, ba_max_concurrency = 1,
          ba_policy =
            \<lparr>pol_Depth = ''quick'',
               pol_Sources =
                 \<lparr>src_Git = False, src_Docs = True,
                    src_CodexHistory = False\<rparr>\<rparr>,
          ba_policy_attested = True, ba_large_batch_acknowledged_at = None,
          ba_large_batch_acknowledged_by = [], ba_created_at = 300,
          ba_updated_at = 501\<rparr>],
    a_candidate_projects =
      [\<lparr>cj_session_id = ''AR-u'', cj_candidate_id = ''c'',
          cj_project_id = ''c'', cj_mapped_by_principal = ''u'',
          cj_purpose =
            ''Added from the Codex project catalog; history pending review.'',
          cj_created_project = True, cj_mapped_at = 300\<rparr>],
    a_jobs =
      [\<lparr>nj_id = ''ARJ-ARB-AR-u3c'', nj_batch_id = ''ARB-AR-u3'',
          nj_session_id = ''AR-u'', nj_candidate_id = ''c'',
          nj_project_id = ''c'', nj_project_name = ''C'',
          nj_state = J_uncertain, nj_thread_id = [],
          nj_codex_session_id = [], nj_turn_id = [], nj_phase_label = [],
          nj_sources_examined = 0, nj_duration_ms = None,
          nj_report_digest = None,
          nj_error_code = ''canceled_during_ambiguous_start'',
          nj_created_at = 300, nj_started_at = Some 400,
          nj_reported_at = None, nj_terminal_at = None,
          nj_updated_at = 501\<rparr>],
    a_outcomes = [], a_provenance = [], a_contributors = [],
    a_resolutions = [], a_intents = []\<rparr>"
  by code_simp

lemma ax6_code [code]: "ax6 =
  \<lparr>a_core =
    \<lparr>projects =
       [\<lparr>p_id = ''c'', p_name = ''C'', p_status = ''active'',
           p_purpose =
             ''Added from the Codex project catalog; history pending review.'',
           p_milestone = [], p_now_text = [], p_revision = 1,
           p_created_at = 300, p_updated_at = 300\<rparr>],
       topics =
         [\<lparr>tp_id = ''general'', tp_project_id = None, tp_name = ''General'',
             tp_created_at = 0\<rparr>,
          \<lparr>tp_id = ''c'', tp_project_id = Some ''c'', tp_name = ''C'',
             tp_created_at = 300\<rparr>],
       milestones = [], tasks = [], task_dependencies = [],
       task_claims = [], task_current_claims = [], task_events = [],
       changes =
         [\<lparr>ch_project_id = ''c'', ch_revision = 1,
             ch_kind = ''project_created'', ch_ref = ''c'',
             ch_summary = ''C'', ch_created_at = 300\<rparr>],
       activity_events =
         [\<lparr>ac_id = ''A-30'', ac_kind = ''project_updated'',
             ac_project_id = Some ''c'', ac_actor_id = ''u'',
             ac_object_ref = ''c'', ac_object_title = ''C'',
             ac_outcome = ''created'', ac_untrusted = True,
             ac_occurred_at = 300, ac_recorded_at = 300\<rparr>],
       project_core_requests = [], wiki_pages = [], wiki_revisions = [],
       search_documents = [], decisions = [], status_events = [],
       redactions = []\<rparr>,
    a_sessions =
      [\<lparr>ss_id = ''AR-u'', ss_principal = ''u'',
          ss_state = S_cancel_requested, ss_discovery_state = ''ready'',
          ss_source_roots_scanned = 1, ss_tasks_examined = 0,
          ss_projects_grouped = 0, ss_catalog_truncated = False,
          ss_app_server_identity = [], ss_depth = ''quick'',
          ss_sources =
            \<lparr>src_Git = False, src_Docs = True, src_CodexHistory = False\<rparr>,
          ss_max_concurrency = 1, ss_revision = 5,
          ss_discovered_at = Some 100, ss_created_at = 100,
          ss_updated_at = 501\<rparr>],
    a_candidates =
      [\<lparr>ca_session_id = ''AR-u'', ca_id = ''c'',
          ca_canonical_project_id = ''c'', ca_name = ''C'',
          ca_path_label = ''l'', ca_repository_label = [],
          ca_last_activity_at = Some 0, ca_has_git = False,
          ca_has_docs = True, ca_has_codex_history = False,
          ca_duration_min_seconds = 0, ca_duration_max_seconds = 1,
          ca_relative_cost = ''low'', ca_privacy_note = [],
          ca_selected = True, ca_from_codex_metadata = False,
          ca_from_configured_root = True, ca_codex_thread_count = 0\<rparr>],
    a_runs = [], a_launches = [],
    a_requests =
      [\<lparr>ar_principal = ''u'', ar_request_key = ''1'',
          ar_operation = ''discover'', ar_request_digest = ''discover'',
          ar_session_id = ''AR-u'', ar_recorded_at = 100\<rparr>,
       \<lparr>ar_principal = ''u'', ar_request_key = ''2'',
          ar_operation = ''configure'', ar_request_digest = ''configure'',
          ar_session_id = ''AR-u'', ar_recorded_at = 200\<rparr>,
       \<lparr>ar_principal = ''u'', ar_request_key = ''4'',
          ar_operation = ''native_cancel'',
          ar_request_digest = ''native_cancel4'', ar_session_id = ''AR-u'',
          ar_recorded_at = 500\<rparr>],
    a_handoffs = [], a_handoff_requests = [], a_legacy_outcomes = [],
    a_batches =
      [\<lparr>ba_id = ''ARB-AR-u3'', ba_session_id = ''AR-u'',
          ba_request_key = ''3'', ba_request_digest = ''native_start'',
          ba_state = B_cancel_requested, ba_max_concurrency = 1,
          ba_policy =
            \<lparr>pol_Depth = ''quick'',
               pol_Sources =
                 \<lparr>src_Git = False, src_Docs = True,
                    src_CodexHistory = False\<rparr>\<rparr>,
          ba_policy_attested = True, ba_large_batch_acknowledged_at = None,
          ba_large_batch_acknowledged_by = [], ba_created_at = 300,
          ba_updated_at = 501\<rparr>],
    a_candidate_projects =
      [\<lparr>cj_session_id = ''AR-u'', cj_candidate_id = ''c'',
          cj_project_id = ''c'', cj_mapped_by_principal = ''u'',
          cj_purpose =
            ''Added from the Codex project catalog; history pending review.'',
          cj_created_project = True, cj_mapped_at = 300\<rparr>],
    a_jobs =
      [\<lparr>nj_id = ''ARJ-ARB-AR-u3c'', nj_batch_id = ''ARB-AR-u3'',
          nj_session_id = ''AR-u'', nj_candidate_id = ''c'',
          nj_project_id = ''c'', nj_project_name = ''C'',
          nj_state = J_uncertain, nj_thread_id = ''th'',
          nj_codex_session_id = ''se'', nj_turn_id = ''tu'',
          nj_phase_label = ''Recovered exact Codex task identity'',
          nj_sources_examined = 0, nj_duration_ms = None,
          nj_report_digest = None,
          nj_error_code = ''canceled_during_ambiguous_start'',
          nj_created_at = 300, nj_started_at = Some 400,
          nj_reported_at = None, nj_terminal_at = None,
          nj_updated_at = 600\<rparr>],
    a_outcomes = [], a_provenance = [], a_contributors = [],
    a_resolutions = [], a_intents = []\<rparr>"
  by code_simp

lemma ax7_code [code]: "ax7 =
  \<lparr>a_core =
    \<lparr>projects =
       [\<lparr>p_id = ''c'', p_name = ''C'', p_status = ''active'',
           p_purpose =
             ''Added from the Codex project catalog; history pending review.'',
           p_milestone = [], p_now_text = [], p_revision = 1,
           p_created_at = 300, p_updated_at = 300\<rparr>],
       topics =
         [\<lparr>tp_id = ''general'', tp_project_id = None, tp_name = ''General'',
             tp_created_at = 0\<rparr>,
          \<lparr>tp_id = ''c'', tp_project_id = Some ''c'', tp_name = ''C'',
             tp_created_at = 300\<rparr>],
       milestones = [], tasks = [], task_dependencies = [],
       task_claims = [], task_current_claims = [], task_events = [],
       changes =
         [\<lparr>ch_project_id = ''c'', ch_revision = 1,
             ch_kind = ''project_created'', ch_ref = ''c'',
             ch_summary = ''C'', ch_created_at = 300\<rparr>],
       activity_events =
         [\<lparr>ac_id = ''A-30'', ac_kind = ''project_updated'',
             ac_project_id = Some ''c'', ac_actor_id = ''u'',
             ac_object_ref = ''c'', ac_object_title = ''C'',
             ac_outcome = ''created'', ac_untrusted = True,
             ac_occurred_at = 300, ac_recorded_at = 300\<rparr>],
       project_core_requests = [], wiki_pages = [], wiki_revisions = [],
       search_documents = [], decisions = [], status_events = [],
       redactions = []\<rparr>,
    a_sessions =
      [\<lparr>ss_id = ''AR-u'', ss_principal = ''u'', ss_state = S_draft,
          ss_discovery_state = ''ready'', ss_source_roots_scanned = 1,
          ss_tasks_examined = 0, ss_projects_grouped = 0,
          ss_catalog_truncated = False, ss_app_server_identity = [],
          ss_depth = ''quick'',
          ss_sources =
            \<lparr>src_Git = False, src_Docs = True, src_CodexHistory = False\<rparr>,
          ss_max_concurrency = 1, ss_revision = 6,
          ss_discovered_at = Some 100, ss_created_at = 100,
          ss_updated_at = 700\<rparr>],
    a_candidates =
      [\<lparr>ca_session_id = ''AR-u'', ca_id = ''c'',
          ca_canonical_project_id = ''c'', ca_name = ''C'',
          ca_path_label = ''l'', ca_repository_label = [],
          ca_last_activity_at = Some 0, ca_has_git = False,
          ca_has_docs = True, ca_has_codex_history = False,
          ca_duration_min_seconds = 0, ca_duration_max_seconds = 1,
          ca_relative_cost = ''low'', ca_privacy_note = [],
          ca_selected = True, ca_from_codex_metadata = False,
          ca_from_configured_root = True, ca_codex_thread_count = 0\<rparr>],
    a_runs = [], a_launches = [],
    a_requests =
      [\<lparr>ar_principal = ''u'', ar_request_key = ''1'',
          ar_operation = ''discover'', ar_request_digest = ''discover'',
          ar_session_id = ''AR-u'', ar_recorded_at = 100\<rparr>,
       \<lparr>ar_principal = ''u'', ar_request_key = ''2'',
          ar_operation = ''configure'', ar_request_digest = ''configure'',
          ar_session_id = ''AR-u'', ar_recorded_at = 200\<rparr>,
       \<lparr>ar_principal = ''u'', ar_request_key = ''4'',
          ar_operation = ''native_cancel'',
          ar_request_digest = ''native_cancel4'', ar_session_id = ''AR-u'',
          ar_recorded_at = 500\<rparr>],
    a_handoffs = [], a_handoff_requests = [], a_legacy_outcomes = [],
    a_batches =
      [\<lparr>ba_id = ''ARB-AR-u3'', ba_session_id = ''AR-u'',
          ba_request_key = ''3'', ba_request_digest = ''native_start'',
          ba_state = B_cancel_requested, ba_max_concurrency = 1,
          ba_policy =
            \<lparr>pol_Depth = ''quick'',
               pol_Sources =
                 \<lparr>src_Git = False, src_Docs = True,
                    src_CodexHistory = False\<rparr>\<rparr>,
          ba_policy_attested = True, ba_large_batch_acknowledged_at = None,
          ba_large_batch_acknowledged_by = [], ba_created_at = 300,
          ba_updated_at = 501\<rparr>],
    a_candidate_projects =
      [\<lparr>cj_session_id = ''AR-u'', cj_candidate_id = ''c'',
          cj_project_id = ''c'', cj_mapped_by_principal = ''u'',
          cj_purpose =
            ''Added from the Codex project catalog; history pending review.'',
          cj_created_project = True, cj_mapped_at = 300\<rparr>],
    a_jobs =
      [\<lparr>nj_id = ''ARJ-ARB-AR-u3c'', nj_batch_id = ''ARB-AR-u3'',
          nj_session_id = ''AR-u'', nj_candidate_id = ''c'',
          nj_project_id = ''c'', nj_project_name = ''C'',
          nj_state = J_interrupted, nj_thread_id = ''th'',
          nj_codex_session_id = ''se'', nj_turn_id = ''tu'',
          nj_phase_label = ''Recovered exact Codex task identity'',
          nj_sources_examined = 0, nj_duration_ms = None,
          nj_report_digest = None,
          nj_error_code = ''human_confirmed_stopped'', nj_created_at = 300,
          nj_started_at = Some 400, nj_reported_at = None,
          nj_terminal_at = Some 700, nj_updated_at = 700\<rparr>],
    a_outcomes = [], a_provenance = [], a_contributors = [],
    a_resolutions =
      [\<lparr>re_id = ''ARR-AR-u5'', re_session_id = ''AR-u'',
          re_job_id = ''ARJ-ARB-AR-u3c'', re_principal = ''u'',
          re_request_key = ''5'',
          re_request_digest = ''native_resolveARJ-ARB-AR-u3c'',
          re_resolution = ''confirmed_stopped'', re_thread_id = ''th'',
          re_turn_id = ''tu'', re_created_at = 700\<rparr>],
    a_intents = []\<rparr>"
  by code_simp

lemma ar4_code [code]: "ar4 =
  \<lparr>a_core =
    \<lparr>projects =
       [\<lparr>p_id = ''c'', p_name = ''C'', p_status = ''active'',
           p_purpose =
             ''Added from the Codex project catalog; history pending review.'',
           p_milestone = [], p_now_text = [], p_revision = 1,
           p_created_at = 300, p_updated_at = 300\<rparr>],
       topics =
         [\<lparr>tp_id = ''general'', tp_project_id = None, tp_name = ''General'',
             tp_created_at = 0\<rparr>,
          \<lparr>tp_id = ''c'', tp_project_id = Some ''c'', tp_name = ''C'',
             tp_created_at = 300\<rparr>],
       milestones = [], tasks = [], task_dependencies = [],
       task_claims = [], task_current_claims = [], task_events = [],
       changes =
         [\<lparr>ch_project_id = ''c'', ch_revision = 1,
             ch_kind = ''project_created'', ch_ref = ''c'',
             ch_summary = ''C'', ch_created_at = 300\<rparr>],
       activity_events =
         [\<lparr>ac_id = ''A-30'', ac_kind = ''project_updated'',
             ac_project_id = Some ''c'', ac_actor_id = ''u'',
             ac_object_ref = ''c'', ac_object_title = ''C'',
             ac_outcome = ''created'', ac_untrusted = True,
             ac_occurred_at = 300, ac_recorded_at = 300\<rparr>],
       project_core_requests = [], wiki_pages = [], wiki_revisions = [],
       search_documents = [], decisions = [], status_events = [],
       redactions = []\<rparr>,
    a_sessions =
      [\<lparr>ss_id = ''AR-u'', ss_principal = ''u'', ss_state = S_paused,
          ss_discovery_state = ''ready'', ss_source_roots_scanned = 1,
          ss_tasks_examined = 0, ss_projects_grouped = 0,
          ss_catalog_truncated = False, ss_app_server_identity = [],
          ss_depth = ''quick'',
          ss_sources =
            \<lparr>src_Git = False, src_Docs = True, src_CodexHistory = False\<rparr>,
          ss_max_concurrency = 1, ss_revision = 5,
          ss_discovered_at = Some 100, ss_created_at = 100,
          ss_updated_at = 400\<rparr>],
    a_candidates =
      [\<lparr>ca_session_id = ''AR-u'', ca_id = ''c'',
          ca_canonical_project_id = ''c'', ca_name = ''C'',
          ca_path_label = ''l'', ca_repository_label = [],
          ca_last_activity_at = Some 0, ca_has_git = False,
          ca_has_docs = True, ca_has_codex_history = False,
          ca_duration_min_seconds = 0, ca_duration_max_seconds = 1,
          ca_relative_cost = ''low'', ca_privacy_note = [],
          ca_selected = True, ca_from_codex_metadata = False,
          ca_from_configured_root = True, ca_codex_thread_count = 0\<rparr>],
    a_runs = [], a_launches = [],
    a_requests =
      [\<lparr>ar_principal = ''u'', ar_request_key = ''1'',
          ar_operation = ''discover'', ar_request_digest = ''discover'',
          ar_session_id = ''AR-u'', ar_recorded_at = 100\<rparr>,
       \<lparr>ar_principal = ''u'', ar_request_key = ''2'',
          ar_operation = ''configure'', ar_request_digest = ''configure'',
          ar_session_id = ''AR-u'', ar_recorded_at = 200\<rparr>],
    a_handoffs = [], a_handoff_requests = [], a_legacy_outcomes = [],
    a_batches =
      [\<lparr>ba_id = ''ARB-AR-u3'', ba_session_id = ''AR-u'',
          ba_request_key = ''3'', ba_request_digest = ''native_start'',
          ba_state = B_queued, ba_max_concurrency = 1,
          ba_policy =
            \<lparr>pol_Depth = ''quick'',
               pol_Sources =
                 \<lparr>src_Git = False, src_Docs = True,
                    src_CodexHistory = False\<rparr>\<rparr>,
          ba_policy_attested = True, ba_large_batch_acknowledged_at = None,
          ba_large_batch_acknowledged_by = [], ba_created_at = 300,
          ba_updated_at = 300\<rparr>],
    a_candidate_projects =
      [\<lparr>cj_session_id = ''AR-u'', cj_candidate_id = ''c'',
          cj_project_id = ''c'', cj_mapped_by_principal = ''u'',
          cj_purpose =
            ''Added from the Codex project catalog; history pending review.'',
          cj_created_project = True, cj_mapped_at = 300\<rparr>],
    a_jobs =
      [\<lparr>nj_id = ''ARJ-ARB-AR-u3c'', nj_batch_id = ''ARB-AR-u3'',
          nj_session_id = ''AR-u'', nj_candidate_id = ''c'',
          nj_project_id = ''c'', nj_project_name = ''C'',
          nj_state = J_queued, nj_thread_id = [], nj_codex_session_id = [],
          nj_turn_id = [], nj_phase_label = [], nj_sources_examined = 0,
          nj_duration_ms = None, nj_report_digest = None,
          nj_error_code = [], nj_created_at = 300, nj_started_at = None,
          nj_reported_at = None, nj_terminal_at = None,
          nj_updated_at = 300\<rparr>],
    a_outcomes = [], a_provenance = [], a_contributors = [],
    a_resolutions = [], a_intents = []\<rparr>"
  by code_simp

lemma ar5_code [code]: "ar5 =
  \<lparr>a_core =
    \<lparr>projects =
       [\<lparr>p_id = ''c'', p_name = ''C'', p_status = ''active'',
           p_purpose =
             ''Added from the Codex project catalog; history pending review.'',
           p_milestone = [], p_now_text = [], p_revision = 1,
           p_created_at = 300, p_updated_at = 300\<rparr>],
       topics =
         [\<lparr>tp_id = ''general'', tp_project_id = None, tp_name = ''General'',
             tp_created_at = 0\<rparr>,
          \<lparr>tp_id = ''c'', tp_project_id = Some ''c'', tp_name = ''C'',
             tp_created_at = 300\<rparr>],
       milestones = [], tasks = [], task_dependencies = [],
       task_claims = [], task_current_claims = [], task_events = [],
       changes =
         [\<lparr>ch_project_id = ''c'', ch_revision = 1,
             ch_kind = ''project_created'', ch_ref = ''c'',
             ch_summary = ''C'', ch_created_at = 300\<rparr>],
       activity_events =
         [\<lparr>ac_id = ''A-30'', ac_kind = ''project_updated'',
             ac_project_id = Some ''c'', ac_actor_id = ''u'',
             ac_object_ref = ''c'', ac_object_title = ''C'',
             ac_outcome = ''created'', ac_untrusted = True,
             ac_occurred_at = 300, ac_recorded_at = 300\<rparr>],
       project_core_requests = [], wiki_pages = [], wiki_revisions = [],
       search_documents = [], decisions = [], status_events = [],
       redactions = []\<rparr>,
    a_sessions =
      [\<lparr>ss_id = ''AR-u'', ss_principal = ''u'', ss_state = S_paused,
          ss_discovery_state = ''ready'', ss_source_roots_scanned = 1,
          ss_tasks_examined = 0, ss_projects_grouped = 0,
          ss_catalog_truncated = False, ss_app_server_identity = [],
          ss_depth = ''quick'',
          ss_sources =
            \<lparr>src_Git = False, src_Docs = True, src_CodexHistory = False\<rparr>,
          ss_max_concurrency = 1, ss_revision = 5,
          ss_discovered_at = Some 100, ss_created_at = 100,
          ss_updated_at = 400\<rparr>],
    a_candidates =
      [\<lparr>ca_session_id = ''AR-u'', ca_id = ''c'',
          ca_canonical_project_id = ''c'', ca_name = ''C'',
          ca_path_label = ''l'', ca_repository_label = [],
          ca_last_activity_at = Some 0, ca_has_git = False,
          ca_has_docs = True, ca_has_codex_history = False,
          ca_duration_min_seconds = 0, ca_duration_max_seconds = 1,
          ca_relative_cost = ''low'', ca_privacy_note = [],
          ca_selected = True, ca_from_codex_metadata = False,
          ca_from_configured_root = True, ca_codex_thread_count = 0\<rparr>],
    a_runs = [], a_launches = [],
    a_requests =
      [\<lparr>ar_principal = ''u'', ar_request_key = ''1'',
          ar_operation = ''discover'', ar_request_digest = ''discover'',
          ar_session_id = ''AR-u'', ar_recorded_at = 100\<rparr>,
       \<lparr>ar_principal = ''u'', ar_request_key = ''2'',
          ar_operation = ''configure'', ar_request_digest = ''configure'',
          ar_session_id = ''AR-u'', ar_recorded_at = 200\<rparr>],
    a_handoffs = [], a_handoff_requests = [], a_legacy_outcomes = [],
    a_batches =
      [\<lparr>ba_id = ''ARB-AR-u3'', ba_session_id = ''AR-u'',
          ba_request_key = ''3'', ba_request_digest = ''native_start'',
          ba_state = B_running, ba_max_concurrency = 1,
          ba_policy =
            \<lparr>pol_Depth = ''quick'',
               pol_Sources =
                 \<lparr>src_Git = False, src_Docs = True,
                    src_CodexHistory = False\<rparr>\<rparr>,
          ba_policy_attested = True, ba_large_batch_acknowledged_at = None,
          ba_large_batch_acknowledged_by = [], ba_created_at = 300,
          ba_updated_at = 500\<rparr>],
    a_candidate_projects =
      [\<lparr>cj_session_id = ''AR-u'', cj_candidate_id = ''c'',
          cj_project_id = ''c'', cj_mapped_by_principal = ''u'',
          cj_purpose =
            ''Added from the Codex project catalog; history pending review.'',
          cj_created_project = True, cj_mapped_at = 300\<rparr>],
    a_jobs =
      [\<lparr>nj_id = ''ARJ-ARB-AR-u3c'', nj_batch_id = ''ARB-AR-u3'',
          nj_session_id = ''AR-u'', nj_candidate_id = ''c'',
          nj_project_id = ''c'', nj_project_name = ''C'',
          nj_state = J_starting, nj_thread_id = [],
          nj_codex_session_id = [], nj_turn_id = [], nj_phase_label = [],
          nj_sources_examined = 0, nj_duration_ms = None,
          nj_report_digest = None, nj_error_code = [], nj_created_at = 300,
          nj_started_at = Some 500, nj_reported_at = None,
          nj_terminal_at = None, nj_updated_at = 500\<rparr>],
    a_outcomes = [], a_provenance = [], a_contributors = [],
    a_resolutions = [], a_intents = []\<rparr>"
  by code_simp

end
