(* ===== verification/Archaeology_Contract.thy ===== *)
theory Archaeology_Contract
  imports Archaeology_Demo
begin

text \<open>
  The properties of project archaeology, each with a witness on the runs of
  \<open>Archaeology_Demo\<close>: where open work may be, how a job evolves, when a job is handed out,
  what a cancellation and a restart leave behind, replays, and the bounds on what a report
  may contain.
\<close>

section \<open>The runs are runs of the transition system\<close>

lemma arch_steps_next: "arch_steps L s t \<Longrightarrow> arch_step L t u \<Longrightarrow> arch_steps L s u"
  by (rule rtranclp.rtrancl_into_rtrancl)

lemma demo_run:
  "arch_step arch_demo_lib empty_arch ad1" "arch_step arch_demo_lib ad1 ad2" "arch_step arch_demo_lib ad2 ad3"
  "arch_step arch_demo_lib ad3 ad4" "arch_step arch_demo_lib ad4 ad5" "arch_step arch_demo_lib ad5 ad6"
  "arch_step arch_demo_lib ad6 ad7" "arch_step arch_demo_lib ad7 ad8"
  "arch_step arch_demo_lib ad4 ax5" "arch_step arch_demo_lib ax5 ax6" "arch_step arch_demo_lib ax6 ax7"
  "arch_step arch_demo_lib ad3 ar4" "arch_step arch_demo_lib ar4 ar5"
proof -
  show "arch_step arch_demo_lib empty_arch ad1" unfolding ad1_def by (rule arch_step.discover [OF refl])
  show "arch_step arch_demo_lib ad1 ad2" unfolding ad2_def by (rule arch_step.configure [OF refl])
  show "arch_step arch_demo_lib ad2 ad3" unfolding ad3_def by (rule arch_step.queue [OF refl])
  show "arch_step arch_demo_lib ad3 ad4" unfolding ad4_def by (rule arch_step.claim [OF refl])
  show "arch_step arch_demo_lib ad4 ad5" unfolding ad5_def by (rule arch_step.bind [OF refl])
  show "arch_step arch_demo_lib ad5 ad6" unfolding ad6_def by (rule arch_step.activate [OF refl])
  show "arch_step arch_demo_lib ad6 ad7" unfolding ad7_def by (rule arch_step.report [OF refl])
  show "arch_step arch_demo_lib ad7 ad8" unfolding ad8_def by (rule arch_step.complete [OF refl])
  show "arch_step arch_demo_lib ad4 ax5" unfolding ax5_def by (rule arch_step.cancel [OF refl])
  show "arch_step arch_demo_lib ax5 ax6" unfolding ax6_def by (rule arch_step.bindUncertainty [OF refl])
  show "arch_step arch_demo_lib ax6 ax7" unfolding ax7_def by (rule arch_step.resolve [OF refl])
  show "arch_step arch_demo_lib ad3 ar4" unfolding ar4_def by (rule arch_step.reconcile [OF refl])
  show "arch_step arch_demo_lib ar4 ar5" unfolding ar5_def by (rule arch_step.claim [OF refl])
qed

lemma demo_reachable:
  "arch_reachable arch_demo_lib ad3" "arch_reachable arch_demo_lib ad4" "arch_reachable arch_demo_lib ad6"
  "arch_reachable arch_demo_lib ad7" "arch_reachable arch_demo_lib ad8" "arch_reachable arch_demo_lib ax6"
  "arch_reachable arch_demo_lib ax7" "arch_reachable arch_demo_lib ar4"
proof -
  have 3: "arch_reachable arch_demo_lib ad3"
    unfolding arch_reachable_def using demo_run(1-3) by (metis r_into_rtranclp arch_steps_next)
  then show 3: "arch_reachable arch_demo_lib ad3" and 4: "arch_reachable arch_demo_lib ad4"
      and "arch_reachable arch_demo_lib ar4"
    unfolding arch_reachable_def using demo_run(4,12) by (metis arch_steps_next)+
  show 6: "arch_reachable arch_demo_lib ad6"
    using 4 demo_run(5,6) unfolding arch_reachable_def by (metis arch_steps_next)
  show 7: "arch_reachable arch_demo_lib ad7"
    using 6 demo_run(7) unfolding arch_reachable_def by (metis arch_steps_next)
  show "arch_reachable arch_demo_lib ad8"
    using 7 demo_run(8) unfolding arch_reachable_def by (metis arch_steps_next)
  show 6: "arch_reachable arch_demo_lib ax6"
    using 4 demo_run(9,10) unfolding arch_reachable_def by (metis arch_steps_next)
  show "arch_reachable arch_demo_lib ax7"
    using 6 demo_run(11) unfolding arch_reachable_def by (metis arch_steps_next)
qed

section \<open>Open work\<close>

text \<open>
  Property C17. In every reachable state, a session that is in draft has no unfinished
  job, a batch marked completed or canceled has none, and the unfinished jobs of one
  session all belong to one batch: a new batch can be queued only when the work of the
  last one has ended.
\<close>

theorem open_work_confined:
  assumes "arch_reachable L s" and "j \<in> set (a_jobs s)" and "\<not> finishedJob (nj_state j)"
  shows "(\<forall>r \<in> set (a_sessions s). ss_id r = nj_session_id j \<longrightarrow> ss_state r \<noteq> S_draft) \<and>
    (\<forall>b \<in> set (a_batches s). ba_id b = nj_batch_id j \<longrightarrow> ba_state b \<notin> {B_completed, B_canceled}) \<and>
    (\<forall>k \<in> set (a_jobs s). nj_session_id k = nj_session_id j \<and> \<not> finishedJob (nj_state k) \<longrightarrow>
       nj_batch_id k = nj_batch_id j)"
proof -
  have conf: "confined s" using arch_invD(8) [OF reachable_arch_inv [OF assms(1)]] .
  note key = open_keysI [OF assms(2,3)]
  have "ss_state r \<noteq> S_draft" if "r \<in> set (a_sessions s)" "ss_id r = nj_session_id j" for r
    using conf key that unfolding confined_def by (metis fst_conv image_eqI)
  moreover have "ba_state b \<notin> {B_completed, B_canceled}" if "b \<in> set (a_batches s)" "ba_id b = nj_batch_id j" for b
    using conf key that unfolding confined_def doneBatch_def by (metis snd_conv image_eqI)
  moreover have "nj_batch_id k = nj_batch_id j"
    if "k \<in> set (a_jobs s)" "nj_session_id k = nj_session_id j" "\<not> finishedJob (nj_state k)" for k
    using conf key open_keysI [OF that(1,3)] that(2) unfolding confined_def by metis
  ultimately show ?thesis by blast
qed

lemma demo_jobs:
  "a_jobs ad4 \<noteq> []" "\<not> finishedJob (nj_state (hd (a_jobs ad4)))" "a_jobs ad8 \<noteq> []"
  "finishedJob (nj_state (hd (a_jobs ad8)))" "a_jobs ad7 \<noteq> []"
  by code_simp+

theorem open_work_confined_witness: "ss_state (hd (a_sessions ad4)) \<noteq> S_draft"
proof -
  have "hd (a_sessions ad4) \<in> set (a_sessions ad4)" "ss_id (hd (a_sessions ad4)) = nj_session_id (hd (a_jobs ad4))"
    by code_simp+
  with open_work_confined [OF demo_reachable(2) hd_in_set demo_jobs(2), OF demo_jobs(1)] show ?thesis by blast
qed

section \<open>The life of a job\<close>

text \<open>
  Property C18. The rows of the job table implement the state machine \<open>jobNext\<close>: whatever
  step is taken in a reachable state, every job is still there with the same batch, session,
  candidate and project, in a state that \<open>jobNext\<close> allows; a job that is queued has no Codex
  identity, a job has a report exactly when it has reported, and only a reported job is
  completed.
\<close>

theorem job_lifecycle:
  assumes "arch_reachable L s" and "arch_step L s t" and "j \<in> set (a_jobs s)"
  shows "\<exists>k \<in> set (a_jobs t). job_keys k = job_keys j \<and> nj_state k \<in> jobNext (nj_state j) \<and>
    (nj_state k = J_queued \<longrightarrow> nj_thread_id k = '''' \<and> nj_turn_id k = '''') \<and>
    (nj_state k \<in> {J_queued, J_starting, J_active} \<longrightarrow> nj_report_digest k = None) \<and>
    (nj_state k \<in> {J_report_ready, J_completed} \<longrightarrow> nj_report_digest k \<noteq> None)"
proof -
  from step_job [OF assms(2) reachable_arch_inv [OF assms(1)] assms(3)]
  obtain k where "k \<in> set (a_jobs t)" "job_change j k" by blast
  then show ?thesis
    by (intro bexI [of _ k]) (auto simp: job_change_def job_ok_def unbound_def)
qed

theorem job_lifecycle_witness: "\<exists>k \<in> set (a_jobs ad8). nj_state k \<in> jobNext (nj_state (hd (a_jobs ad7)))"
  using job_lifecycle [OF demo_reachable(4) demo_run(8) hd_in_set, OF demo_jobs(5)] by blast

text \<open>
  What has ended is history: after any further run, the row of a completed,
  failed, interrupted or attention job is what it was, field by field.
\<close>

lemma finished_jobs_frozen:
  assumes "arch_reachable L s" and "arch_steps L s t" and "j \<in> set (a_jobs s)" and "finishedJob (nj_state j)"
  shows "j \<in> set (a_jobs t)"
  using steps_job [OF assms(2) reachable_arch_inv [OF assms(1)] assms(3)] assms(4)
  by (auto simp: job_kept_def)

lemma unique_job:
  assumes "arch_inv s" "j \<in> set (a_jobs s)" "k \<in> set (a_jobs s)" "nj_id k = nj_id j"
  shows "k = j"
  using arch_invD(1) [OF assms(1)] assms(2-) by (auto simp: distinct_map inj_on_def)

lemma nonempty_inj:
  assumes "distinct (nonempty (map f xs))" "x \<in> set xs" "y \<in> set xs" "f x = f y" "f x \<noteq> ''''"
  shows "x = y"
proof -
  have "distinct (map f (filter (\<lambda>x. f x \<noteq> '''') xs))"
    using assms(1) by (simp add: nonempty_def filter_map comp_def)
  with assms(2-) show ?thesis by (auto simp: distinct_map inj_on_def)
qed

text \<open>
  A Codex identity belongs to one job for good: once a job is bound to a
  thread and a turn, it keeps both through every further run, and no other job ever carries
  either of them.
\<close>

lemma job_identity_permanent:
  assumes "arch_reachable L s" and "arch_steps L s t" and "j \<in> set (a_jobs s)"
  shows "\<exists>k \<in> set (a_jobs t). nj_id k = nj_id j \<and>
    (nj_thread_id j \<noteq> '''' \<longrightarrow> nj_thread_id k = nj_thread_id j \<and>
       (\<forall>q \<in> set (a_jobs t). nj_thread_id q = nj_thread_id j \<longrightarrow> q = k)) \<and>
    (nj_turn_id j \<noteq> '''' \<longrightarrow> nj_turn_id k = nj_turn_id j \<and>
       (\<forall>q \<in> set (a_jobs t). nj_turn_id q = nj_turn_id j \<longrightarrow> q = k))"
proof -
  have inv: "arch_inv t" using archaeology.steps_inv [OF assms(2) reachable_arch_inv [OF assms(1)]] .
  from steps_job [OF assms(2) reachable_arch_inv [OF assms(1)] assms(3)]
  obtain k where k: "k \<in> set (a_jobs t)" "job_kept j k" by blast
  then have same: "nj_id k = nj_id j" "nj_thread_id j \<noteq> '''' \<longrightarrow> nj_thread_id k = nj_thread_id j"
      "nj_turn_id j \<noteq> '''' \<longrightarrow> nj_turn_id k = nj_turn_id j"
    by (auto simp: job_kept_def job_keys_def sameOrUnset_def)
  note ids = arch_invD(3) [OF inv, unfolded identities_unique_def]
  show ?thesis
    by (rule bexI [OF _ k(1)], intro conjI impI ballI)
      (use same k(1) nonempty_inj [OF ids [THEN conjunct1]] nonempty_inj [OF ids [THEN conjunct2]] in metis)+
qed

section \<open>Reports\<close>

text \<open>
  Property C19. A report is recorded once: when a job has a report, every later attempt to
  file another one for it, at any time and with any outcomes, is refused and changes nothing.
\<close>

theorem report_recorded_once:
  assumes "arch_reachable L s" and "arch_steps L s t" and "j \<in> set (a_jobs s)"
    and "nj_report_digest j = Some d" and "rp_JobID cmd = nj_id j" and "rp_Digest cmd \<noteq> d"
  shows "\<exists>err. ReportArchaeologyNativeJob L e cmd t = (Inl err, t)"
proof -
  have inv: "arch_inv t" using archaeology.steps_inv [OF assms(2) reachable_arch_inv [OF assms(1)]] .
  from steps_job [OF assms(2) reachable_arch_inv [OF assms(1)] assms(3)]
  obtain k where k: "k \<in> set (a_jobs t)" "nj_id k = nj_id j" "nj_report_digest k = Some d"
    using assms(4) by (auto simp: job_kept_def job_keys_def)
  have mine: "q = k" if "jobWithBatch (rp_JobID cmd) (rp_ThreadID cmd) (rp_TurnID cmd) t = Some (q, b)" for q b
    using unique_job [OF inv k(1)] jobWithBatch_SomeD [OF that] k(2) assms(5) by metis
  have "reportTx L e cmd t \<noteq> Inr (r, u)" for r u
  proof
    assume "reportTx L e cmd t = Inr (r, u)"
    then show False
      by (cases rule: reportTx_Inr) (use mine k(3) assms(6) in fastforce)+
  qed
  then obtain err where "reportTx L e cmd t = Inl err"
    by (metis sumE surj_pair)
  then show ?thesis by (simp add: ReportArchaeologyNativeJob_def)
qed

theorem report_recorded_once_witness:
  "\<exists>err. ReportArchaeologyNativeJob arch_demo_lib (arch_demo_env 9)
     (arch_demo_report\<lparr>rp_Digest := ''another''\<rparr>) ad8 = (Inl err, ad8)"
proof (rule report_recorded_once [OF demo_reachable(4) r_into_rtranclp, OF demo_run(8) hd_in_set, OF demo_jobs(5)])
  show "nj_report_digest (hd (a_jobs ad7)) = Some (replicate 32 (CHR ''d''))" by code_simp
  show "rp_JobID (arch_demo_report\<lparr>rp_Digest := ''another''\<rparr>) = nj_id (hd (a_jobs ad7))" by code_simp
  have "length ''another'' \<noteq> length (replicate 32 (CHR ''d''))" by simp
  then show "rp_Digest (arch_demo_report\<lparr>rp_Digest := ''another''\<rparr>) \<noteq> replicate 32 (CHR ''d'')"
    unfolding arch_demo_report_def by (metis ArchaeologyNativeReport.select_convs(4)
        ArchaeologyNativeReport.update_convs(4))
qed

text \<open>
  What a report may contain: when a report is accepted for the first time,
  the batch carries an attested policy, the outcomes are between one and the limit of the
  policy's depth, each of them is valid under that policy and about the project of the job,
  the job was active and is now ready for review with that digest, and every other job is
  as it was.
\<close>

lemma report_within_policy:
  assumes "arch_reachable L s" and "ReportArchaeologyNativeJob L e cmd s = (Inr (), t)"
    and "jobRow s (rp_JobID cmd) = Some j" and "nj_report_digest j = None"
  shows "\<exists>b \<in> set (a_batches s). \<exists>limits. ba_id b = nj_batch_id j \<and> ba_policy_attested b \<and>
    Limits (ba_policy b) = Some limits \<and>
    1 \<le> length (rp_Outcomes cmd) \<and> length (rp_Outcomes cmd) \<le> lim_MaxOutcomes limits \<and>
    (\<forall>oc \<in> set (rp_Outcomes cmd). validNativeOutcome (lib_json L) oc (ba_policy b) limits (env_now e) \<and>
       oc_ProjectID oc = nj_project_id j) \<and>
    nj_state j = J_active \<and>
    a_jobs t = updWhere (\<lambda>k. nj_id k = nj_id j) (reportRow (rp_Digest cmd) (env_now e)) (a_jobs s)"
proof -
  from assms(2) have tx: "reportTx L e cmd s = Inr ((), t)" and many: "1 \<le> length (rp_Outcomes cmd)"
    by (auto simp: ReportArchaeologyNativeJob_def Suc_le_eq elim!: inTx_cases split: if_splits)
  have j: "j \<in> set (a_jobs s)" "nj_id j = rp_JobID cmd"
    using assms(3) by (auto simp: jobRow_def dest: find_SomeD)
  have mine: "q = j" if "jobWithBatch (rp_JobID cmd) (rp_ThreadID cmd) (rp_TurnID cmd) s = Some (q, b)" for q b
    using unique_job [OF reachable_arch_inv [OF assms(1)] j(1)] jobWithBatch_SomeD [OF that] j(2) by metis
  from tx show ?thesis
  proof (cases rule: reportTx_Inr)
    case (replayed q b)
    with mine assms(4) show ?thesis by auto
  next
    case (changed q b limits u)
    have q: "q = j" using mine changed(1) .
    have b: "b \<in> set (a_batches s)" "ba_id b = nj_batch_id j"
      using jobWithBatch_SomeD(5) [OF changed(1)] q by (auto simp: batchRow_def dest: find_SomeD)
    have "sameScheduler s u"
      by (rule foldE_sameScheduler [OF changed(8) insertOutcome_sameScheduler])
    then have "a_jobs t = updWhere (\<lambda>k. nj_id k = nj_id j) (reportRow (rp_Digest cmd) (env_now e)) (a_jobs s)"
      by (simp add: changed(9) j(2) sameScheduler_def)
    with changed(2-7) b q many show ?thesis by blast
  qed
qed

section \<open>Handing out jobs\<close>

lemma updWhere_cong:
  assumes "\<And>x. x \<in> set xs \<Longrightarrow> p x \<longleftrightarrow> q x"
  shows "updWhere p f xs = updWhere q f xs"
  using assms by (simp add: updWhere_def)

text \<open>
  Property C20. When a job is handed out, no job anywhere is uncertain and no persistence
  intent is pending, leased or blocked; the job was queued in an attested batch that is
  queued or running; among all such jobs it is the first by the creation of the batch, the
  creation of the job and the id; it is returned as it is stored. Its row is started and its
  batch is set running; no other job, no other batch and no other table changes.
\<close>

theorem claim_gate:
  assumes "arch_reachable L s" and "ClaimArchaeologyNativeJob e s = (Inr r, t)"
  shows "(\<forall>k \<in> set (a_jobs s). nj_state k \<noteq> J_uncertain) \<and>
    (\<forall>p \<in> set (a_intents s). in_state p \<notin> {I_pending, I_leased, I_blocked}) \<and>
    (\<exists>j \<in> set (a_jobs s). \<exists>b \<in> set (a_batches s). ba_id b = nj_batch_id j \<and> nj_state j = J_queued \<and>
       ba_state b \<in> {B_queued, B_running} \<and> ba_policy_attested b \<and> r = startJob (env_now e) j \<and>
       t = s\<lparr>a_jobs := updWhere (\<lambda>k. nj_id k = nj_id j) (startJob (env_now e)) (a_jobs s),
         a_batches := updWhere (\<lambda>c. ba_id c = ba_id b) (\<lambda>c. c\<lparr>ba_state := B_running, ba_updated_at := env_now e\<rparr>) (a_batches s)\<rparr> \<and>
       (\<forall>k \<in> set (a_jobs s). \<forall>c \<in> set (a_batches s). ba_id c = nj_batch_id k \<and> nj_state k = J_queued \<and>
          ba_state c \<in> {B_queued, B_running} \<and> ba_policy_attested c \<longrightarrow> claimOrder (j, b) \<le> claimOrder (k, c)))"
proof -
  from assms(2) have "claimJobTx e s = Inr (r, t)"
    by (auto simp: ClaimArchaeologyNativeJob_def elim!: inTx_cases)
  then obtain j b where c: "(j, b) \<in> set (claimableJobs s)"
      and least: "\<forall>x \<in> set (claimableJobs s). claimOrder (j, b) \<le> claimOrder x"
      and r: "r = startJob (env_now e) j"
      and t: "t = updBatches (\<lambda>q. ba_id q = nj_batch_id j) (\<lambda>q. q\<lparr>ba_state := B_running, ba_updated_at := env_now e\<rparr>)
           (updJobs (\<lambda>q. nj_id q = nj_id j \<and> nj_state q = J_queued) (startJob (env_now e)) s)"
    by (rule claimJobTx_Inr)
  note D = c [unfolded claimableJobs_iff]
  have only: "nj_state k = J_queued" if "k \<in> set (a_jobs s)" "nj_id k = nj_id j" for k
    using unique_job [OF reachable_arch_inv [OF assms(1)] _ that(1)] that(2) D by metis
  have "updWhere (\<lambda>q. nj_id q = nj_id j \<and> nj_state q = J_queued) (startJob (env_now e)) (a_jobs s) =
      updWhere (\<lambda>k. nj_id k = nj_id j) (startJob (env_now e)) (a_jobs s)" by (rule updWhere_cong) (use only in auto)
  moreover have "ba_id b = nj_batch_id j" using D by blast
  ultimately have jobs: "t = s\<lparr>a_jobs := updWhere (\<lambda>k. nj_id k = nj_id j) (startJob (env_now e)) (a_jobs s),
      a_batches := updWhere (\<lambda>c. ba_id c = ba_id b) (\<lambda>c. c\<lparr>ba_state := B_running, ba_updated_at := env_now e\<rparr>) (a_batches s)\<rparr>"
    by (simp add: t updBatches_def updJobs_def)
  show ?thesis
    using D r jobs least by (intro conjI bexI [of _ j] bexI [of _ b] ballI impI) (auto simp: claimableJobs_iff)
qed

theorem claim_gate_witness: "\<exists>j \<in> set (a_jobs ad3). nj_state j = J_queued"
proof -
  have "\<not> isl (fst (ClaimArchaeologyNativeJob (arch_demo_env 4) ad3))" by code_simp
  then obtain r where "ClaimArchaeologyNativeJob (arch_demo_env 4) ad3 = (Inr r, ad4)"
    by (metis ad4_def prod.collapse sum.collapse(2))
  from claim_gate [OF demo_reachable(1) this] show ?thesis by blast
qed

text \<open>
  The scheduler does not starve: in a reachable state without uncertain jobs
  and without open persistence intents, as long as a job is queued in an attested batch that
  is queued or running, a claim succeeds.
\<close>

lemma claim_progress:
  assumes "arch_reachable L s" and "\<forall>k \<in> set (a_jobs s). nj_state k \<noteq> J_uncertain"
    and "\<forall>p \<in> set (a_intents s). in_state p \<notin> {I_pending, I_leased, I_blocked}"
    and "j \<in> set (a_jobs s)" and "nj_state j = J_queued" and "b \<in> set (a_batches s)" and "ba_id b = nj_batch_id j"
    and "ba_state b \<in> {B_queued, B_running}" and "ba_policy_attested b"
  shows "\<exists>r t. ClaimArchaeologyNativeJob e s = (Inr r, t)"
proof -
  have "(j, b) \<in> set (sort_key claimOrder (claimableJobs s))"
    using assms(2-) by (simp add: claimableJobs_iff)
  then obtain k c rest where xs: "sort_key claimOrder (claimableJobs s) = (k, c) # rest"
    by (cases "sort_key claimOrder (claimableJobs s)") auto
  then have "(k, c) \<in> set (claimableJobs s)" by (metis list.set_intros(1) set_sort)
  then have k: "k \<in> set (a_jobs s)" "nj_state k = J_queued" by (auto simp: claimableJobs_iff)
  have "filter (\<lambda>r. nj_id r = nj_id k \<and> nj_state r = J_queued) (a_jobs s) = [k]"
    by (rule filter_one [OF arch_invD(1) [OF reachable_arch_inv [OF assms(1)]] k(1)]) (use k(2) in auto)
  then have "changedOne (\<lambda>r. nj_id r = nj_id k \<and> nj_state r = J_queued) s"
    by (simp add: changedOne_def countWhere_def)
  then show ?thesis
    by (simp add: ClaimArchaeologyNativeJob_def claimJobTx_def xs Let_def inTx_def)
qed

section \<open>Cancelling\<close>

lemma outcome_Inr:
  assumes "thenRead who (inTx body s) = (Inr (r, v), t)"
  shows "body s = Inr (r, t)" "sessionOf t who = Some v"
proof -
  have "fst (inTx body s) = Inr r" and "ArchaeologySession t who = Inr v" and "snd (inTx body s) = t"
    using assms by (metis fst_conv snd_conv snd_thenRead thenRead_Inr)+
  then show "body s = Inr (r, t)" "sessionOf t who = Some v"
    by (auto simp: inTx_def ArchaeologySession_def split: sum.splits if_splits)
qed

definition canceledRow :: "time \<Rightarrow> job_row \<Rightarrow> job_row" where
  "canceledRow now r =
     (if nj_state r = J_queued then r\<lparr>nj_state := J_interrupted, nj_error_code := ''canceled_before_start'',
             nj_terminal_at := Some now, nj_updated_at := now\<rparr>
      else if nj_state r \<in> {J_active, J_report_ready, J_cancel_requested}
      then r\<lparr>nj_state := J_cancel_requested, nj_error_code := ''human_cancel_requested'', nj_updated_at := now\<rparr>
      else if nj_state r = J_starting
      then r\<lparr>nj_state := J_uncertain, nj_error_code := ''canceled_during_ambiguous_start'', nj_updated_at := now\<rparr>
      else r)"

lemma cancelJobs_rows:
  "a_jobs (cancelJobs sid now s) = updWhere (\<lambda>r. nj_session_id r = sid) (canceledRow now) (a_jobs s)"
  unfolding cancelJobs_def updJobs_frame updWhere_def map_map comp_def
proof (rule map_cong [OF refl], goal_cases)
  case (1 r)
  show ?case
    by (cases "nj_state r"; cases "nj_session_id r = sid") (simp_all add: canceledRow_def)
qed

lemma canceledRow_state:
  "nj_state (canceledRow now r) \<notin> {J_queued, J_starting, J_active, J_report_ready}"
  "nj_id (canceledRow now r) = nj_id r" "nj_session_id (canceledRow now r) = nj_session_id r"
  by (cases "nj_state r"; simp add: canceledRow_def)+

text \<open>
  Property C21. A first cancellation by the owner of a running session stops the whole
  session: afterwards no job of it is queued, starting, active or ready to report; the jobs
  whose turn has to be interrupted are exactly those returned; the session is in draft if
  nothing is left to wait for and otherwise cancellation is requested; jobs of other
  sessions are not touched.
\<close>

theorem cancel_stops_session:
  assumes "arch_reachable L s" and "CancelArchaeologyNativeBatch L e who rid base s = (Inr (js, ses), t)"
    and "requestEntry s (who, rid) = None"
  shows "sessionOf t who = Some ses \<and>
    (\<forall>k \<in> set (a_jobs t). nj_session_id k = ss_id ses \<longrightarrow>
       nj_state k \<notin> {J_queued, J_starting, J_active, J_report_ready}) \<and>
    set js = {k \<in> set (a_jobs t). nj_session_id k = ss_id ses \<and> nj_state k = J_cancel_requested} \<and>
    ss_state ses = (if \<exists>k \<in> set (a_jobs t). nj_session_id k = ss_id ses \<and> \<not> finishedJob (nj_state k)
                    then S_cancel_requested else S_draft) \<and>
    (\<forall>k \<in> set (a_jobs s). nj_session_id k \<noteq> ss_id ses \<longrightarrow> k \<in> set (a_jobs t))"
proof -
  from assms(2) have tx: "cancelTx L e who rid base s = Inr (js, t)" and ses: "sessionOf t who = Some ses"
    by (auto simp: CancelArchaeologyNativeBatch_def dest: outcome_Inr split: if_splits)
  from tx show ?thesis
  proof (cases rule: cancelTx_Inr)
    case (replayed r)
    from tx assms(3) replayed(3) have "a_requests t \<noteq> a_requests s"
      by (auto simp: cancelTx_def Let_def claimArchaeologyRequest_def requestEntry_def sqlInsertRequest_def
          cancelJobs_def)
    with replayed(1) show ?thesis by simp
  next
    case (changed r q)
    let ?now = "env_clock e 1"
    have jobs: "a_jobs t = updWhere (\<lambda>k. nj_session_id k = ss_id r) (canceledRow ?now) (a_jobs s)"
      by (simp add: changed(9) cancelSettle_def Let_def cancelJobs_rows)
    have live: "liveJob (nj_state k) \<longleftrightarrow> \<not> finishedJob (nj_state k)"
      if "k \<in> set (a_jobs t)" "nj_session_id k = ss_id r" for k
      using that canceledRow_state(1)
      by (cases "nj_state k") (auto simp: jobs set_updWhere liveJob_def finishedJob_def canceledRow_state)
    define st where "st = (if countWhere (\<lambda>k. nj_session_id k = ss_id r \<and> liveJob (nj_state k)) (a_jobs t) = 0
      then S_draft else S_cancel_requested)"
    have "a_sessions t = updWhere (\<lambda>q. ss_id q = ss_id r) (nextRevision st ?now) (a_sessions s)"
      unfolding st_def by (simp add: changed(9) cancelSettle_def Let_def cancelJobs_def)
    then have v: "ses = nextRevision st ?now r"
      using ses changed(1) by (simp add: sessionOf_def find_updWhere)
    then have id: "ss_id ses = ss_id r" and state: "ss_state ses = st" by (simp_all add: nextRevision_def)
    have "st = (if \<exists>k \<in> set (a_jobs t). nj_session_id k = ss_id r \<and> \<not> finishedJob (nj_state k)
                    then S_cancel_requested else S_draft)"
      unfolding st_def using live by (auto simp: countWhere_def filter_empty_conv)
    moreover have "nj_state k \<notin> {J_queued, J_starting, J_active, J_report_ready}"
      if "k \<in> set (a_jobs t)" "nj_session_id k = ss_id r" for k
      using that canceledRow_state by (auto simp: jobs set_updWhere split: if_splits)
    moreover have "set js = {k \<in> set (a_jobs t). nj_session_id k = ss_id r \<and> nj_state k = J_cancel_requested}"
      by (auto simp: changed(10))
    moreover have "k \<in> set (a_jobs t)" if "k \<in> set (a_jobs s)" "nj_session_id k \<noteq> ss_id r" for k
      using that by (force simp: jobs set_updWhere)
    ultimately show ?thesis unfolding id state using ses by blast
  qed
qed

theorem cancel_stops_session_witness:
  "sessionOf ax5 ''u'' \<noteq> None \<and> nj_state (hd (a_jobs ad4)) = J_starting \<and> nj_state (hd (a_jobs ax5)) \<noteq> J_starting"
proof -
  have "\<not> isl (fst (CancelArchaeologyNativeBatch arch_demo_lib (arch_demo_env 5) ''u'' ''4'' 4 ad4))"
    by code_simp
  then obtain js ses where
    "CancelArchaeologyNativeBatch arch_demo_lib (arch_demo_env 5) ''u'' ''4'' 4 ad4 = (Inr (js, ses), ax5)"
    by (metis ax5_def prod.collapse sum.collapse(2))
  moreover have "requestEntry ad4 (''u'', ''4'') = None" by code_simp
  ultimately have stops: "sessionOf ax5 ''u'' = Some ses" "\<forall>k \<in> set (a_jobs ax5). nj_session_id k = ss_id ses \<longrightarrow>
       nj_state k \<notin> {J_queued, J_starting, J_active, J_report_ready}"
    using cancel_stops_session [OF demo_reachable(2)] by blast+
  have "map_option ss_id (sessionOf ax5 ''u'') = Some (nj_session_id (hd (a_jobs ax5)))"
      "hd (a_jobs ax5) \<in> set (a_jobs ax5)" "nj_state (hd (a_jobs ad4)) = J_starting"
    by code_simp+
  with stops show ?thesis by auto
qed

section \<open>Restarting\<close>

definition restartedRow :: "time \<Rightarrow> job_row \<Rightarrow> job_row" where
  "restartedRow now r =
     (if nj_state r = J_cancel_requested then interruptJob ''server_restarted_after_cancel_request'' now r
      else if nj_state r \<in> {J_starting, J_active, J_report_ready}
      then r\<lparr>nj_state := J_uncertain, nj_error_code := ''server_restarted_during_active_task'',
             nj_terminal_at := Some now, nj_updated_at := now\<rparr>
      else r)"

lemma reconcileJobs_rows: "a_jobs (reconcileJobs now s) = map (restartedRow now) (a_jobs s)"
  unfolding reconcileJobs_def updJobs_frame updWhere_def map_map comp_def
proof (rule map_cong [OF refl], goal_cases)
  case (1 r)
  show ?case
    by (cases "nj_state r") (simp_all add: restartedRow_def interruptJob_def)
qed

lemma restartedRow_state:
  "nj_state (restartedRow now r) \<in> {J_queued, J_uncertain} \<or> finishedJob (nj_state (restartedRow now r))"
  "nj_state r \<in> {J_queued, J_uncertain} \<or> finishedJob (nj_state r) \<Longrightarrow> restartedRow now r = r"
  by (cases "nj_state r"; simp add: restartedRow_def interruptJob_def finishedJob_def)+

text \<open>
  A restart leaves nothing running that the server does not run: afterwards
  every job is queued, uncertain or finished, those that were so before are untouched, a
  batch with an uncertain job needs attention, and no session, legacy run or launch is
  marked as running or starting.
\<close>

lemma restart_leaves_no_live_job:
  fixes s e defines "t \<equiv> ReconcileArchaeology e s"
  shows "(\<forall>k \<in> set (a_jobs t). nj_state k \<in> {J_queued, J_uncertain} \<or> finishedJob (nj_state k)) \<and>
    (\<forall>k \<in> set (a_jobs s). nj_state k \<in> {J_queued, J_uncertain} \<or> finishedJob (nj_state k) \<longrightarrow> k \<in> set (a_jobs t)) \<and>
    (\<forall>b \<in> set (a_batches t). \<forall>k \<in> set (a_jobs t). nj_batch_id k = ba_id b \<and> nj_state k = J_uncertain \<longrightarrow>
       ba_state b = B_attention) \<and>
    (\<forall>r \<in> set (a_sessions t). ss_state r \<notin> {S_running, S_pause_requested}) \<and>
    (\<forall>r \<in> set (a_runs t). ru_state r \<notin> {R_running, R_pause_requested, R_cancel_requested}) \<and>
    (\<forall>l \<in> set (a_launches t). la_state l \<noteq> L_starting_codex)"
proof (intro conjI)
  note jobs = reconcile_jobs_tables(1) [of e s, folded t_def, unfolded reconcileJobs_rows]
  show "\<forall>k \<in> set (a_jobs t). nj_state k \<in> {J_queued, J_uncertain} \<or> finishedJob (nj_state k)"
    using restartedRow_state(1) by (auto simp: jobs)
  show "\<forall>k \<in> set (a_jobs s). nj_state k \<in> {J_queued, J_uncertain} \<or> finishedJob (nj_state k) \<longrightarrow> k \<in> set (a_jobs t)"
    unfolding jobs set_map using restartedRow_state(2) by (metis image_eqI)
  show "\<forall>b \<in> set (a_batches t). \<forall>k \<in> set (a_jobs t). nj_batch_id k = ba_id b \<and> nj_state k = J_uncertain \<longrightarrow>
       ba_state b = B_attention"
    unfolding reconcile_jobs_tables [of e s, folded t_def] set_updWhere by auto
  show "\<forall>r \<in> set (a_sessions t). ss_state r \<notin> {S_running, S_pause_requested}"
    unfolding t_def reconcile_sessions_table set_updWhere by (auto simp: nextRevision_def)
  show "\<forall>r \<in> set (a_runs t). ru_state r \<notin> {R_running, R_pause_requested, R_cancel_requested}"
    by (auto simp: t_def ReconcileArchaeology_def Let_def updRuns_def updLaunches_def updSessions_def updBatches_def
        updJobs_def reconcileJobs_def set_updWhere)
  show "\<forall>l \<in> set (a_launches t). la_state l \<noteq> L_starting_codex"
    by (auto simp: t_def ReconcileArchaeology_def Let_def updRuns_def updLaunches_def updSessions_def updBatches_def
        updJobs_def reconcileJobs_def set_updWhere)
qed

lemma tx_refused: "isl (body s) \<Longrightarrow> \<exists>err. thenRead who (inTx body s) = (Inl err, s)"
  by (cases "body s") (simp_all add: thenRead_def)

text \<open>
  After a restart a queued native batch can be neither cancelled nor moved by
  any legacy control: the restart pauses its session, and every new request to cancel the
  native batch, and every new request to start, pause, resume or cancel the session, is
  refused and changes nothing, although its queued jobs are still handed out.
\<close>

lemma paused_batch_not_cancelable:
  assumes "sessionOf s who = Some ses" and "ss_state ses = S_paused" and "ss_id ses = archaeologySessionID L who"
    and "b \<in> set (a_batches s)" and "ba_session_id b = ss_id ses" and "requestEntry s (who, rid) = None"
  shows "(\<exists>err. CancelArchaeologyNativeBatch L e who rid base s = (Inl err, s)) \<and>
    (\<forall>m operation. am_Principal m = who \<and> am_RequestID m = rid \<longrightarrow>
       (\<exists>err. transitionArchaeology L e m operation s = (Inl err, s)))"
proof (intro conjI allI impI)
  have fresh: "find (\<lambda>r. ar_principal r = who \<and> ar_request_key r = rid) (a_requests s) = None"
    using assms(6) by (simp add: requestEntry_def)
  have claim: "claimArchaeologyRequest who rid op sid dg now s = Inr (replay, t) \<Longrightarrow> \<not> replay \<and> a_batches t = a_batches s"
    for op sid dg now replay t
    using fresh by (auto simp: claimArchaeologyRequest_def sqlInsertRequest_def)
  have "isl (cancelTx L e who rid base s)"
    by (cases "claimArchaeologyRequest who rid ''native_cancel'' (ss_id ses)
          (lib_digest L ''native_cancel'' (RevisionOnly base)) (env_clock e 0) s")
      (use assms(1,2) in \<open>auto simp: cancelTx_def Let_def dest: claim\<close>)
  then show "\<exists>err. CancelArchaeologyNativeBatch L e who rid base s = (Inl err, s)"
    by (auto simp: CancelArchaeologyNativeBatch_def intro: tx_refused)
  fix m :: ArchaeologyMutation and operation assume m: "am_Principal m = who \<and> am_RequestID m = rid"
  have "hasRow (\<lambda>r. ss_principal r = who) (a_sessions s)"
    using sessionOf_SomeD [OF assms(1)] by auto
  then have ensure: "ensureArchaeologySession L who now s = Inr (archaeologySessionID L who, s)" for now
    by (simp add: ensureArchaeologySession_def Let_def del: hasRow_iff)
  have "countWhere (\<lambda>b. ba_session_id b = archaeologySessionID L who) (a_batches s) \<noteq> 0"
    using assms(3-5) by (auto simp: countWhere_def filter_empty_conv)
  moreover have "countWhere (\<lambda>b. ba_session_id b = archaeologySessionID L who) (a_batches s) = 0"
    if "transitionTx L e m operation s = Inr (r, t)" for r t
  proof -
    from that m ensure obtain replay u where u: "claimArchaeologyRequest who rid operation (archaeologySessionID L who)
          (lib_digest L operation (RevisionOnly (am_BaseRevision m))) (env_now e) s = Inr (replay, u)"
      by (auto simp: transitionTx_def Let_def)
    with that m ensure claim [OF u] show ?thesis by (auto simp: transitionTx_def Let_def)
  qed
  ultimately have "isl (transitionTx L e m operation s)"
    by (cases "transitionTx L e m operation s") auto
  then show "\<exists>err. transitionArchaeology L e m operation s = (Inl err, s)"
    by (auto simp: transitionArchaeology_def intro: tx_refused)
qed

section \<open>Replays\<close>

lemma sessionOf_keys: "map_option ss_keys (sessionOf s who) = find (\<lambda>k. snd k = who) (map ss_keys (a_sessions s))"
  unfolding sessionOf_def by (rule find_map_key [symmetric]) (simp add: ss_keys_def)

lemma session_permanent:
  assumes "arch_steps L s t" "arch_inv s" "sessionOf s who = Some ses"
  shows "\<exists>r. sessionOf t who = Some r \<and> ss_id r = ss_id ses"
proof -
  have "\<exists>xs. map ss_keys (a_sessions t) = map ss_keys (a_sessions s) @ xs"
    using valid_steps [OF assms(1,2)]
  proof (induction rule: rtranclp_induct)
    case (step u v)
    then show ?case using valid_step_grows [OF step.hyps(2)] by (auto simp: grows_def)
  qed simp
  then obtain xs where xs: "map ss_keys (a_sessions t) = map ss_keys (a_sessions s) @ xs" ..
  have "find (\<lambda>k. snd k = who) (map ss_keys (a_sessions s)) = Some (ss_keys ses)"
    using sessionOf_keys [of s who] assms(3) by simp
  then have "map_option ss_keys (sessionOf t who) = Some (ss_keys ses)"
    unfolding sessionOf_keys xs by (rule find_append_Some)
  then show ?thesis by (auto simp: ss_keys_def)
qed

lemma claim_entry:
  assumes "claimArchaeologyRequest who key op sid dg now s = Inr (replay, t)"
  shows "requestEntry t (who, key) = Some (op, dg)"
proof (cases "find (\<lambda>r. ar_principal r = who \<and> ar_request_key r = key) (a_requests s)")
  case None
  with assms show ?thesis
    by (auto simp: claimArchaeologyRequest_def sqlInsertRequest_def requestEntry_def find_append)
next
  case (Some r)
  with assms show ?thesis
    by (auto simp: claimArchaeologyRequest_def requestEntry_def split: if_splits)
qed

lemma cancel_entry:
  assumes "cancelTx L e who rid base s = Inr (js, t)"
  shows "requestEntry t (who, rid) = Some (''native_cancel'', lib_digest L ''native_cancel'' (RevisionOnly base))"
    and "\<exists>ses. sessionOf s who = Some ses"
proof -
  from assms obtain ses replay u where ses: "sessionOf s who = Some ses"
    and u: "claimArchaeologyRequest who rid ''native_cancel'' (ss_id ses)
      (lib_digest L ''native_cancel'' (RevisionOnly base)) (env_clock e 0) s = Inr (replay, u)"
    by (auto simp: cancelTx_def Let_def)
  with assms have "a_requests t = a_requests u"
    by (cases replay) (auto simp: cancelTx_def Let_def cancelJobs_def)
  with claim_entry [OF u] show "requestEntry t (who, rid) =
      Some (''native_cancel'', lib_digest L ''native_cancel'' (RevisionOnly base))"
    by (simp add: requestEntry_def)
  from ses show "\<exists>ses. sessionOf s who = Some ses" by blast
qed

lemma resolve_entry:
  assumes "resolveTx L e cmd s = Inr (r, t)"
  obtains ses where "sessionOf s (nr_Principal cmd) = Some ses"
    "resolutionEntry t (ss_id ses, nr_RequestID cmd) = Some (lib_digest L ''native_resolve'' (NativeResolve
       (nr_BaseRevision cmd) (nr_JobID cmd) (nr_ThreadID cmd) (nr_TurnID cmd) (nr_Resolution cmd)))"
proof (cases "sessionOf s (nr_Principal cmd)")
  case None
  with assms show ?thesis by (simp add: resolveTx_def)
next
  case (Some ses)
  show ?thesis
  proof (rule that [OF Some], cases "find (\<lambda>r. re_session_id r = ss_id ses \<and> re_request_key r = nr_RequestID cmd) (a_resolutions s)")
    case (Some q)
    with assms \<open>sessionOf s (nr_Principal cmd) = Some ses\<close>
    show "resolutionEntry t (ss_id ses, nr_RequestID cmd) = Some (lib_digest L ''native_resolve'' (NativeResolve
       (nr_BaseRevision cmd) (nr_JobID cmd) (nr_ThreadID cmd) (nr_TurnID cmd) (nr_Resolution cmd)))"
      by (auto simp: resolveTx_def Let_def resolutionEntry_def split: if_splits)
  next
    case None
    from assms None \<open>sessionOf s (nr_Principal cmd) = Some ses\<close> obtain u q where
      "sqlInsertResolution q s = Inr u" "a_resolutions t = a_resolutions u"
      "re_session_id q = ss_id ses" "re_request_key q = nr_RequestID cmd"
      "re_request_digest q = lib_digest L ''native_resolve'' (NativeResolve (nr_BaseRevision cmd) (nr_JobID cmd)
         (nr_ThreadID cmd) (nr_TurnID cmd) (nr_Resolution cmd))"
      by (auto simp: resolveTx_def Let_def split: if_splits)
    with None show "resolutionEntry t (ss_id ses, nr_RequestID cmd) = Some (lib_digest L ''native_resolve''
       (NativeResolve (nr_BaseRevision cmd) (nr_JobID cmd) (nr_ThreadID cmd) (nr_TurnID cmd) (nr_Resolution cmd)))"
      by (auto simp: resolutionEntry_def find_append sqlInsertResolution_def)
  qed
qed

text \<open>
  A cancellation and a resolution may be repeated safely: when one has been
  accepted, sending the same command again after any further run succeeds, changes nothing
  and asks for no turn to be interrupted.
\<close>

lemma native_commands_replay:
  assumes "arch_reachable L s" and "arch_steps L t u"
  shows "(CancelArchaeologyNativeBatch L e who rid base s = (Inr (js, ses), t) \<longrightarrow>
      (\<exists>r. CancelArchaeologyNativeBatch L e' who rid base u = (Inr ([], r), u))) \<and>
    (ResolveArchaeologyNativeUncertainty L e cmd s = (Inr ((), ses), t) \<longrightarrow>
      (\<exists>r. ResolveArchaeologyNativeUncertainty L e' cmd u = (Inr ((), r), u)))"
proof -
  have bounded: "TrimSpace v \<noteq> ''''" if "boundedCoreText v n True" for v n
    using that by (simp add: boundedCoreText_def)
  have inv: "arch_inv s" by (rule reachable_arch_inv [OF assms(1)])
  have run: "arch_steps L s u" if "arch_step L s t" using that assms(2) by (rule converse_rtranclp_into_rtranclp)
  show ?thesis
  proof (intro conjI impI)
    assume ok: "CancelArchaeologyNativeBatch L e who rid base s = (Inr (js, ses), t)"
    then have tx: "cancelTx L e who rid base s = Inr (js, t)" "boundedCoreText who 200 True" "boundedCoreText rid 200 True"
      by (auto simp: CancelArchaeologyNativeBatch_def dest: outcome_Inr split: if_splits)
    have step: "arch_step L s t" using ok by (metis arch_step.cancel snd_conv)
    with inv have "arch_inv t" by (blast intro: arch_step_inv)
    from cancel_entry(2) [OF tx(1)] obtain q where q: "sessionOf u who = Some q"
      using session_permanent [OF run [OF step] inv] by blast
    have "requestEntry u (who, rid) = Some (''native_cancel'', lib_digest L ''native_cancel'' (RevisionOnly base))"
      using requests_ledger.entry_permanent [OF valid_steps [OF assms(2) \<open>arch_inv t\<close>] cancel_entry(1) [OF tx(1)]] .
    with q tx(2,3) bounded [OF tx(2)] show "\<exists>r. CancelArchaeologyNativeBatch L e' who rid base u = (Inr ([], r), u)"
      by (auto simp: CancelArchaeologyNativeBatch_def cancelTx_def claimArchaeologyRequest_def requestEntry_def
          thenRead_def inTx_def ArchaeologySession_def Let_def)
  next
    assume ok: "ResolveArchaeologyNativeUncertainty L e cmd s = (Inr ((), ses), t)"
    then have tx: "resolveTx L e cmd s = Inr ((), t)" and who: "boundedCoreText (nr_Principal cmd) 200 True"
      by (auto simp: ResolveArchaeologyNativeUncertainty_def dest: outcome_Inr split: if_splits)
    have step: "arch_step L s t" using ok by (metis arch_step.resolve snd_conv)
    with inv have "arch_inv t" by (blast intro: arch_step_inv)
    define dg where "dg = lib_digest L ''native_resolve'' (NativeResolve (nr_BaseRevision cmd) (nr_JobID cmd)
        (nr_ThreadID cmd) (nr_TurnID cmd) (nr_Resolution cmd))"
    from resolve_entry [OF tx] obtain r where r: "sessionOf s (nr_Principal cmd) = Some r"
        "resolutionEntry t (ss_id r, nr_RequestID cmd) = Some dg"
      unfolding dg_def by blast
    from session_permanent [OF run [OF step] inv r(1)] obtain q where
      q: "sessionOf u (nr_Principal cmd) = Some q" "ss_id q = ss_id r" by blast
    have "resolutionEntry u (ss_id q, nr_RequestID cmd) = Some dg"
      using resolutions_ledger.entry_permanent [OF valid_steps [OF assms(2) \<open>arch_inv t\<close>] r(2)] q(2) by simp
    then have "resolveTx L e' cmd u = Inr ((), u)"
      by (auto simp: resolveTx_def q(1) resolutionEntry_def dg_def Let_def)
    moreover have "ResolveArchaeologyNativeUncertainty L e' cmd u =
        thenRead (nr_Principal cmd) (inTx (resolveTx L e' cmd) u)"
      using ok by (auto simp: ResolveArchaeologyNativeUncertainty_def split: if_splits)
    ultimately show "\<exists>r. ResolveArchaeologyNativeUncertainty L e' cmd u = (Inr ((), r), u)"
      using q(1) bounded [OF who] by (simp add: thenRead_def ArchaeologySession_def)
  qed
qed

text \<open>
  A cancellation that meets a starting job leaves the batch marked as waiting
  for the cancellation although nothing is left to wait for: there is a run in which the
  session is back in draft, every job has ended, and the batch is still in the state
  \<open>cancel_requested\<close>, which the next restart only turns into \<open>canceled\<close>.
\<close>

lemma cancel_during_start_not_settled:
  "arch_reachable arch_demo_lib ax7 \<and> map ss_state (a_sessions ax7) = [S_draft] \<and>
   map nj_state (a_jobs ax7) = [J_interrupted] \<and> map ba_state (a_batches ax7) = [B_cancel_requested] \<and>
   map ba_state (a_batches (ReconcileArchaeology (arch_demo_env 8) ax7)) = [B_canceled]"
proof (intro conjI)
  show "arch_reachable arch_demo_lib ax7" by (rule demo_reachable(7))
qed code_simp+

end
