(* ===== verification/Persistence_Contract.thy ===== *)
theory Persistence_Contract
  imports Archaeology_Ledger Archaeology_Contract
begin

text \<open>
  What the ledger of repository writes promises: its stamps sort by time, the delay between
  attempts, the round trip of a stored intent, that a repository write may be repeated, the
  history of an intent, that the calls of the store are sequences of steps, that a retry
  settles what is due, and what an unsettled intent means for the scheduler.
\<close>

section \<open>Time stamps\<close>

fun digitsZ :: "nat \<Rightarrow> nat \<Rightarrow> gostring" where
  "digitsZ 0 n = ''Z''"
| "digitsZ (Suc k) n = char_of (48 + n div 10 ^ k mod 10) # digitsZ k n"

lemma digitsZ_mod: "digitsZ k (n mod 10 ^ k) = digitsZ k n"
proof -
  have "digitsZ j (n mod 10 ^ k) = digitsZ j n" if "j \<le> k" for j
    using that
  proof (induction j)
    case (Suc j)
    then obtain d where "k = Suc j + d" using le_Suc_ex by blast
    then have "n mod 10 ^ k div 10 ^ j mod 10 = n div 10 ^ j mod (10 :: nat)"
      by (simp add: mod_mult2_eq power_add mult.assoc [symmetric] mult.commute [of _ "10 ^ j"])
        (simp add: mult.assoc mod_mult2_eq)
    with Suc show ?case by simp
  qed simp
  then show ?thesis by simp
qed

lemma digitsZ_less: "n < m \<Longrightarrow> m < 10 ^ k \<Longrightarrow> digitsZ k n < digitsZ k m"
proof (induction k arbitrary: n m)
  case (Suc k)
  have d: "n div 10 ^ k < 10" "m div 10 ^ k < 10" using Suc.prems by (simp_all add: less_mult_imp_div_less mult.commute)
  have le: "n div 10 ^ k \<le> m div 10 ^ k" using Suc.prems(1) by (simp add: div_le_mono)
  have ch: "of_char (char_of (48 + a) :: char) = 48 + a" if "a < 10" for a :: nat using that by simp
  show ?case
  proof (cases "n div 10 ^ k = m div 10 ^ k")
    case True
    then have "n mod 10 ^ k < m mod 10 ^ k"
      using Suc.prems(1) by (metis add_less_cancel_left div_mult_mod_eq)
    then have "digitsZ k (n mod 10 ^ k) < digitsZ k (m mod 10 ^ k)" by (rule Suc.IH) simp
    with True show ?thesis by (simp add: digitsZ_mod)
  next
    case False
    with le have "n div 10 ^ k < m div 10 ^ k" by simp
    with d show ?thesis by (simp add: less_char_def ch)
  qed
qed simp

lemma digitsZ_map: "digitsZ k n = map (\<lambda>j. char_of (48 + n div 10 ^ j mod 10)) (rev [0..<k]) @ ''Z''"
  by (induction k) simp_all

lemma fracDigits_digitsZ: "fracDigits n @ ''Z'' = digitsZ 9 n"
proof -
  have "rev [0..<9] = [8, 7, 6, 5, 4, 3, 2, 1, 0 :: nat]" by code_simp
  then show ?thesis by (simp only: fracDigits_def digitsZ_map)
qed

lemma stamp_less:
  assumes "t < u"
  shows "archaeologyPersistenceStamp t < archaeologyPersistenceStamp u"
proof (cases "t div 1000000000 = u div 1000000000")
  case True
  then have "t mod 1000000000 < u mod 1000000000"
    using assms by (metis add_less_cancel_left div_mult_mod_eq)
  then have "digitsZ 9 (nat (t mod 1000000000)) < digitsZ 9 (nat (u mod 1000000000))"
    by (intro digitsZ_less) (simp_all add: nat_less_iff)
  with True show ?thesis
    by (simp add: archaeologyPersistenceStamp_def fracDigits_digitsZ)
next
  case False
  then have "t div 1000000000 < u div 1000000000"
    using assms by (simp add: order_less_le zdiv_mono1)
  then show ?thesis by (simp add: archaeologyPersistenceStamp_def)
qed

lemma stamp_text_order:
  "archaeologyPersistenceStamp t \<le> archaeologyPersistenceStamp u \<longleftrightarrow> t \<le> u"
  by (metis linorder_not_le order_le_less stamp_less)

lemma stampedBy_iff: "stampedBy column now \<longleftrightarrow> (case column of None \<Rightarrow> False | Some t \<Rightarrow> t \<le> now)"
  by (simp add: stampedBy_def stamp_text_order split: option.split)

text \<open>
  The fixed-width stamps of the ledger sort as text exactly as the times they
  stand for. The variable-width stamps of the other tables do not: of two batches created in
  the same second, the one created 100 milliseconds after the full second comes before the one
  created at the full second when a job is claimed.
\<close>

lemma stamps_sort:
  "(archaeologyPersistenceStamp t \<le> archaeologyPersistenceStamp u \<longleftrightarrow> t \<le> u) \<and>
   claimOrder (j, b\<lparr>ba_created_at := 1100000000\<rparr>) < claimOrder (j, b\<lparr>ba_created_at := 1000000000\<rparr>)"
  by (simp add: stamp_text_order claimOrder_def stampKey_def fracText_def less_char_def)

section \<open>The delay between attempts\<close>

lemma doubleDelay_closed:
  assumes "0 < d"
  shows "min archaeologyPersistenceRetryMax (doubleDelay n d) = min archaeologyPersistenceRetryMax (d * 2 ^ n)"
  using assms
proof (induction n arbitrary: d)
  case (Suc n)
  show ?case
  proof (cases "d < archaeologyPersistenceRetryMax")
    case True
    with Suc show ?thesis by (simp add: ac_simps)
  next
    case False
    moreover have "d \<le> d * 2 ^ Suc n" using Suc.prems one_le_power [of "2 :: int" "Suc n"] by (simp only: mult_le_cancel_left1) simp
    ultimately show ?thesis by simp
  qed
qed simp

lemma retryDelay_closed:
  "archaeologyPersistenceRetryDelay n =
     min archaeologyPersistenceRetryMax (archaeologyPersistenceRetryBase * 2 ^ nat (max n 1 - 1))"
proof -
  have "archaeologyPersistenceRetryDelay n =
      min archaeologyPersistenceRetryMax (doubleDelay (nat (max n 1 - 1)) archaeologyPersistenceRetryBase)"
    by (simp add: archaeologyPersistenceRetryDelay_def Let_def min_def max_def)
  also have "\<dots> = min archaeologyPersistenceRetryMax (archaeologyPersistenceRetryBase * 2 ^ nat (max n 1 - 1))"
    by (rule doubleDelay_closed) (simp add: archaeologyPersistenceRetryBase_def)
  finally show ?thesis .
qed

text \<open>
  The delay before the next attempt is 100 milliseconds doubled with every
  attempt made, and at most 30 seconds; for the attempts that are retried, 1 to 7, the cap is
  never reached.
\<close>

lemma retry_delay:
  "archaeologyPersistenceRetryDelay n = min 30000000000 (100000000 * 2 ^ nat (max n 1 - 1)) \<and>
   (\<forall>k. archaeologyPersistenceRetryDelay (int (Suc k)) =
      (if k \<le> 8 then 100000000 * 2 ^ k else 30000000000))"
proof -
  have *: "archaeologyPersistenceRetryDelay (int (Suc k)) = min 30000000000 (100000000 * 2 ^ k)" for k
    by (simp add: retryDelay_closed archaeologyPersistenceRetryMax_def archaeologyPersistenceRetryBase_def)
  have small: "(2 :: int) ^ k \<le> 2 ^ 8" if "k \<le> 8" for k :: nat using that by (intro power_increasing) simp_all
  have large: "(2 :: int) ^ 9 \<le> 2 ^ k" if "\<not> k \<le> 8" for k :: nat using that by (intro power_increasing) simp_all
  have "archaeologyPersistenceRetryDelay (int (Suc k)) = (if k \<le> 8 then 100000000 * 2 ^ k else 30000000000)" for k
    unfolding * using small [of k] large [of k] by (cases "k \<le> 8") (simp_all add: min_def)
  then show ?thesis
    by (simp add: retryDelay_closed archaeologyPersistenceRetryMax_def archaeologyPersistenceRetryBase_def)
qed

section \<open>Round trip of a stored intent\<close>

definition launchTexts :: "ArchaeologyLaunchResult \<Rightarrow> gostring list" where
  "launchTexts l = [lr_LaunchID l, lr_ProjectID l, lr_State l, lr_ThreadID l, lr_CodexSessionID l, lr_TurnID l, lr_Error l]"

definition payloadTexts :: "persistence_payload \<Rightarrow> gostring list" where
  "payloadTexts p = (case p of
     FailStartPayload f \<Rightarrow> launchTexts (fp_Launch f)
   | IdentityPayload i \<Rightarrow> [ip_ThreadID i, ip_CodexSessionID i, ip_TurnID i]
   | TurnPayload t \<Rightarrow> [tp_ThreadID t, tp_TurnID t]
   | CompletePayload c \<Rightarrow> [cp_ThreadID c, cp_TurnID c, cp_Status c])"

text \<open>Decoding the encoding of a struct whose texts are valid UTF-8 gives the struct back.\<close>

definition jsonFaithful :: "persistence_lib \<Rightarrow> bool" where
  "jsonFaithful P \<longleftrightarrow> (\<forall>p. list_all utf8_valid (payloadTexts p) \<longrightarrow>
     (case p of
        FailStartPayload f \<Rightarrow> pl_failStart P (pl_marshal P p) = Some f
      | IdentityPayload i \<Rightarrow> pl_identity P (pl_marshal P p) = Some i
      | TurnPayload t \<Rightarrow> pl_turn P (pl_marshal P p) = Some t
      | CompletePayload c \<Rightarrow> pl_complete P (pl_marshal P p) = Some c))"

lemma boundedCoreText_utf8: "boundedCoreText v n b \<Longrightarrow> utf8_valid v"
  by (simp add: boundedCoreText_def)

lemma persistencePayload_texts:
  assumes "persistencePayload i = Inr p"
  shows "list_all utf8_valid (payloadTexts p)"
  using assms
  by (auto simp: persistencePayload_def Let_def payloadTexts_def launchTexts_def validatePersistenceLaunch_def
      boundedCoreText_utf8 split: if_splits)

lemma persistencePayload_cases [consumes 1, case_names fail_start bind_identity turn complete_turn]:
  assumes "persistencePayload i = Inr p"
  obtains
    "pi_Operation i = op_fail_start" "pi_ThreadID i = ''''" "pi_CodexSessionID i = ''''" "pi_TurnID i = ''''"
    "pi_Status i = ''''" "pi_DurationMS i = None"
    "p = FailStartPayload \<lparr>fp_Launch = pi_Launch i, fp_Uncertain = pi_Uncertain i\<rparr>"
  | "pi_Operation i = op_bind_identity" "boundedCoreText (pi_ThreadID i) 120 True"
    "boundedCoreText (pi_CodexSessionID i) 120 True" "boundedCoreText (pi_TurnID i) 120 True"
    "pi_Launch i = emptyLaunch" "\<not> pi_Uncertain i" "pi_Status i = ''''" "pi_DurationMS i = None"
    "p = IdentityPayload \<lparr>ip_ThreadID = pi_ThreadID i, ip_CodexSessionID = pi_CodexSessionID i, ip_TurnID = pi_TurnID i\<rparr>"
  | "pi_Operation i = op_activate \<or> pi_Operation i = op_lose_turn" "boundedCoreText (pi_ThreadID i) 120 True"
    "boundedCoreText (pi_TurnID i) 120 True" "pi_CodexSessionID i = ''''"
    "pi_Launch i = emptyLaunch" "\<not> pi_Uncertain i" "pi_Status i = ''''" "pi_DurationMS i = None"
    "p = TurnPayload \<lparr>tp_ThreadID = pi_ThreadID i, tp_TurnID = pi_TurnID i\<rparr>"
  | "pi_Operation i = op_complete_turn" "boundedCoreText (pi_ThreadID i) 120 True"
    "boundedCoreText (pi_TurnID i) 120 True" "pi_CodexSessionID i = ''''"
    "pi_Launch i = emptyLaunch" "\<not> pi_Uncertain i"
    "pi_Status i = ''completed'' \<or> pi_Status i = ''interrupted'' \<or> pi_Status i = ''failed''"
    "p = CompletePayload \<lparr>cp_ThreadID = pi_ThreadID i, cp_TurnID = pi_TurnID i, cp_Status = pi_Status i,
       cp_DurationMS = pi_DurationMS i\<rparr>"
proof -
  note D = assms [unfolded persistencePayload_def Let_def emptyPersistenceLaunch_def]
  consider "pi_Operation i = op_fail_start" | "pi_Operation i = op_bind_identity"
    | "pi_Operation i = op_activate \<or> pi_Operation i = op_lose_turn" | "pi_Operation i = op_complete_turn"
    using D by (simp split: if_splits)
  then show ?thesis
  proof cases
    case 1
    with D show ?thesis by (intro that(1)) (simp_all split: if_splits)
  next
    case 2
    with D show ?thesis by (intro that(2)) (simp_all split: if_splits)
  next
    case 3
    then have "\<not> pi_Operation i = op_fail_start" "\<not> pi_Operation i = op_bind_identity" by auto
    with 3 D show ?thesis by (intro that(3)) (simp_all split: if_splits)
  next
    case 4
    with D show ?thesis by (intro that(4)) (simp_all split: if_splits)
  qed
qed

lemma jsonFaithfulD:
  assumes "jsonFaithful P" "persistencePayload i = Inr p"
  shows "(case p of
        FailStartPayload f \<Rightarrow> pl_failStart P (pl_marshal P p) = Some f
      | IdentityPayload i \<Rightarrow> pl_identity P (pl_marshal P p) = Some i
      | TurnPayload t \<Rightarrow> pl_turn P (pl_marshal P p) = Some t
      | CompletePayload c \<Rightarrow> pl_complete P (pl_marshal P p) = Some c)"
  using assms persistencePayload_texts unfolding jsonFaithful_def by blast

text \<open>
  Property C24. What a retry after a crash decodes from the stored row is the intent that was
  recorded: every field that the operation uses comes back, and the others were required to
  be empty.
\<close>

theorem intent_roundtrip:
  assumes "jsonFaithful P"
    and "canonicalArchaeologyNativePersistence P i = Inr (operation, payload, digest)"
  shows "decodeArchaeologyPersistenceIntent P (pendingIntent k (pi_JobID i) operation digest payload now) = Inr i"
proof -
  from assms(2) obtain p where p: "persistencePayload i = Inr p" "operation = pi_Operation i" "payload = pl_marshal P p"
    by (auto simp: canonicalArchaeologyNativePersistence_def Let_def split: if_splits)
  note J = jsonFaithfulD [OF assms(1) p(1)] and E = decodeArchaeologyPersistenceIntent_def pendingIntent_def Let_def
  from p(1) show ?thesis
  proof (cases rule: persistencePayload_cases)
    case fail_start
    with J p(2,3) show ?thesis by (simp add: E)
  next
    case bind_identity
    with J p(2,3) show ?thesis by (simp add: E)
  next
    case turn
    with J p(2,3) show ?thesis by (auto simp: E)
  next
    case complete_turn
    with J p(2,3) show ?thesis by (simp add: E)
  qed
qed

text \<open>A self-delimiting code for lists of texts, to instantiate the JSON package.\<close>

fun encodeText :: "gostring \<Rightarrow> gostring" where
  "encodeText [] = ''.''"
| "encodeText (c # s) = CHR ''x'' # c # encodeText s"

fun decodeText :: "gostring \<Rightarrow> (gostring \<times> gostring) option" where
  "decodeText (a # s) =
     (if a = CHR ''.'' then Some ('''', s)
      else (case s of [] \<Rightarrow> None | c # s' \<Rightarrow> map_option (\<lambda>(t, r). (c # t, r)) (decodeText s')))"
| "decodeText [] = None"

fun decodeTexts :: "nat \<Rightarrow> gostring \<Rightarrow> gostring list option" where
  "decodeTexts 0 s = Some []"
| "decodeTexts (Suc n) s = (case decodeText s of None \<Rightarrow> None | Some (t, r) \<Rightarrow> map_option ((#) t) (decodeTexts n r))"

lemma decode_encode: "decodeText (encodeText s @ r) = Some (s, r)"
  by (induction s) simp_all

definition durationText :: "int option \<Rightarrow> gostring" where
  "durationText d = (case d of None \<Rightarrow> '''' | Some v \<Rightarrow>
     (if v < 0 then CHR ''-'' else CHR ''+'') # replicate (nat \<bar>v\<bar>) CHR ''1'')"

definition textDuration :: "gostring \<Rightarrow> int option" where
  "textDuration s = (case s of [] \<Rightarrow> None | c # r \<Rightarrow>
     Some (if c = CHR ''-'' then - int (length r) else int (length r)))"

lemma duration_text: "textDuration (durationText d) = d"
  by (auto simp: textDuration_def durationText_def split: option.split)

definition tinyTexts :: "persistence_payload \<Rightarrow> gostring list" where
  "tinyTexts p = (case p of
     FailStartPayload f \<Rightarrow> launchTexts (fp_Launch f) @ [if fp_Uncertain f then ''t'' else '''']
   | CompletePayload c \<Rightarrow> [cp_ThreadID c, cp_TurnID c, cp_Status c, durationText (cp_DurationMS c)]
   | _ \<Rightarrow> payloadTexts p)"

definition tinyJSON :: persistence_lib where
  "tinyJSON = \<lparr>pl_marshal = (\<lambda>p. concat (map encodeText (tinyTexts p))),
     pl_failStart = (\<lambda>s. map_option (\<lambda>v.
       \<lparr>fp_Launch = \<lparr>lr_LaunchID = v ! 0, lr_ProjectID = v ! 1, lr_State = v ! 2, lr_ThreadID = v ! 3,
          lr_CodexSessionID = v ! 4, lr_TurnID = v ! 5, lr_Error = v ! 6\<rparr>, fp_Uncertain = (v ! 7 = ''t'')\<rparr>) (decodeTexts 8 s)),
     pl_identity = (\<lambda>s. map_option (\<lambda>v. \<lparr>ip_ThreadID = v ! 0, ip_CodexSessionID = v ! 1, ip_TurnID = v ! 2\<rparr>) (decodeTexts 3 s)),
     pl_turn = (\<lambda>s. map_option (\<lambda>v. \<lparr>tp_ThreadID = v ! 0, tp_TurnID = v ! 1\<rparr>) (decodeTexts 2 s)),
     pl_complete = (\<lambda>s. map_option (\<lambda>v. \<lparr>cp_ThreadID = v ! 0, cp_TurnID = v ! 1, cp_Status = v ! 2,
       cp_DurationMS = textDuration (v ! 3)\<rparr>) (decodeTexts 4 s)),
     pl_sha256 = (\<lambda>s. s)\<rparr>"

lemma decodeTexts_encode: "decodeTexts (length ts) (concat (map encodeText ts)) = Some ts"
  by (induction ts) (simp_all add: decode_encode)

lemma tiny_selectors:
  "pl_failStart tinyJSON s = map_option (\<lambda>v.
     \<lparr>fp_Launch = \<lparr>lr_LaunchID = v ! 0, lr_ProjectID = v ! 1, lr_State = v ! 2, lr_ThreadID = v ! 3,
        lr_CodexSessionID = v ! 4, lr_TurnID = v ! 5, lr_Error = v ! 6\<rparr>, fp_Uncertain = (v ! 7 = ''t'')\<rparr>) (decodeTexts 8 s)"
  "pl_identity tinyJSON s = map_option (\<lambda>v. \<lparr>ip_ThreadID = v ! 0, ip_CodexSessionID = v ! 1, ip_TurnID = v ! 2\<rparr>) (decodeTexts 3 s)"
  "pl_turn tinyJSON s = map_option (\<lambda>v. \<lparr>tp_ThreadID = v ! 0, tp_TurnID = v ! 1\<rparr>) (decodeTexts 2 s)"
  "pl_complete tinyJSON s = map_option (\<lambda>v. \<lparr>cp_ThreadID = v ! 0, cp_TurnID = v ! 1, cp_Status = v ! 2,
     cp_DurationMS = textDuration (v ! 3)\<rparr>) (decodeTexts 4 s)"
  by (simp_all add: tinyJSON_def)

lemma tiny_decode: "length (tinyTexts p) = n \<Longrightarrow> decodeTexts n (pl_marshal tinyJSON p) = Some (tinyTexts p)"
  using decodeTexts_encode [of "tinyTexts p"] by (simp add: tinyJSON_def)

lemma tinyJSON_faithful: "jsonFaithful tinyJSON"
  unfolding jsonFaithful_def
proof (intro allI impI)
  fix p
  show "case p of
        FailStartPayload f \<Rightarrow> pl_failStart tinyJSON (pl_marshal tinyJSON p) = Some f
      | IdentityPayload i \<Rightarrow> pl_identity tinyJSON (pl_marshal tinyJSON p) = Some i
      | TurnPayload t \<Rightarrow> pl_turn tinyJSON (pl_marshal tinyJSON p) = Some t
      | CompletePayload c \<Rightarrow> pl_complete tinyJSON (pl_marshal tinyJSON p) = Some c"
  proof (cases p)
    case (FailStartPayload f)
    have "decodeTexts 8 (pl_marshal tinyJSON (FailStartPayload f)) = Some (tinyTexts (FailStartPayload f))"
      by (rule tiny_decode) (simp add: tinyTexts_def launchTexts_def)
    with FailStartPayload show ?thesis by (simp add: tiny_selectors tinyTexts_def launchTexts_def)
  next
    case (IdentityPayload i)
    have "decodeTexts 3 (pl_marshal tinyJSON (IdentityPayload i)) = Some (tinyTexts (IdentityPayload i))"
      by (rule tiny_decode) (simp add: tinyTexts_def payloadTexts_def)
    with IdentityPayload show ?thesis by (simp add: tiny_selectors tinyTexts_def payloadTexts_def)
  next
    case (TurnPayload t)
    have "decodeTexts 2 (pl_marshal tinyJSON (TurnPayload t)) = Some (tinyTexts (TurnPayload t))"
      by (rule tiny_decode) (simp add: tinyTexts_def payloadTexts_def)
    with TurnPayload show ?thesis by (simp add: tiny_selectors tinyTexts_def payloadTexts_def)
  next
    case (CompletePayload c)
    have "decodeTexts 4 (pl_marshal tinyJSON (CompletePayload c)) = Some (tinyTexts (CompletePayload c))"
      by (rule tiny_decode) (simp add: tinyTexts_def)
    with CompletePayload show ?thesis by (simp add: tiny_selectors tinyTexts_def duration_text)
  qed
qed

definition demo_intent :: "gostring \<Rightarrow> ArchaeologyNativePersistenceIntent" where
  "demo_intent k = \<lparr>pi_JobID = k, pi_Operation = op_bind_identity, pi_Launch = emptyLaunch,
     pi_Uncertain = False, pi_ThreadID = ''th'', pi_CodexSessionID = ''se'', pi_TurnID = ''tu'', pi_Status = '''',
     pi_DurationMS = None\<rparr>"

definition demo_payload :: gostring where
  "demo_payload = ''xtxh.xsxe.xtxu.''"

lemma demo_canonical:
  "canonicalArchaeologyNativePersistence tinyJSON (demo_intent ''j'') = Inr (op_bind_identity, demo_payload, demo_payload)"
  by code_simp

theorem intent_roundtrip_witness:
  "decodeArchaeologyPersistenceIntent tinyJSON (pendingIntent ''k'' ''j'' op_bind_identity demo_payload demo_payload 5) =
     Inr (demo_intent ''j'')"
  using intent_roundtrip [OF tinyJSON_faithful demo_canonical, of "''k''" 5] by (simp add: demo_intent_def)

section \<open>Repeating a repository write\<close>

text \<open>
  The interface between the ledger and the writes it retries. A write that succeeded is
  confirmed by the read-back and may be repeated at any later time without effect, so a
  ledger that lost the acknowledgement can always repeat it.
\<close>

locale replayable_write =
  fixes valid :: "'s \<Rightarrow> bool"
    and accepted :: "'c \<Rightarrow> bool"
    and perform :: "'e \<Rightarrow> 'c \<Rightarrow> 's \<Rightarrow> bool \<times> 's"
    and confirmed :: "'c \<Rightarrow> 's \<Rightarrow> bool"
  assumes perform_valid: "valid s \<Longrightarrow> valid (snd (perform e c s))"
    and perform_confirmed: "valid s \<Longrightarrow> accepted c \<Longrightarrow> perform e c s = (True, t) \<Longrightarrow> confirmed c t"
    and perform_again: "valid s \<Longrightarrow> accepted c \<Longrightarrow> perform e c s = (True, t) \<Longrightarrow> perform e' c t = (True, t)"
begin

lemma repeats_change_nothing:
  assumes "valid s" "accepted c" "perform e c s = (True, t)"
  shows "fold (\<lambda>e u. snd (perform e c u)) es t = t"
  using perform_again [OF assms] by (induction es) simp_all

end

lemma jobRow_upd:
  assumes "jobRow s k = Some j" "\<And>r. nj_id (f r) = nj_id r"
  shows "jobRow (updJobs p f s) k = Some (if p j then f j else j)"
  using assms find_updWhere [of "\<lambda>r. nj_id r = k" f p "a_jobs s"] by (simp add: jobRow_def updJobs_def)

lemma jobRow_cong: "a_jobs t = a_jobs s \<Longrightarrow> jobRow t k = jobRow s k"
  by (simp add: jobRow_def)

lemma sqlBindJobs_updJobs: "sqlBindJobs p f s = Inr t \<Longrightarrow> t = updJobs p f s"
  by (auto simp: sqlBindJobs_def checked_def updJobs_def Let_def split: if_splits)

lemma bind_effect:
  assumes "BindArchaeologyNativeIdentity e k th se tu s s = (Inr (), t)"
  shows "\<exists>j. jobRow t k = Some j \<and> nj_thread_id j = th \<and> nj_codex_session_id j = se \<and> nj_turn_id j = tu"
    and "BindArchaeologyNativeIdentity e' k th se tu t t = (Inr (), t)"
proof -
  have "boundedCoreText k 120 True \<and> boundedCoreText th 120 True \<and> boundedCoreText se 120 True \<and> boundedCoreText tu 120 True"
    using assms by (simp add: BindArchaeologyNativeIdentity_def split: if_splits)
  note B = this
  from assms obtain j where j: "jobRow s k = Some j"
    by (auto simp: BindArchaeologyNativeIdentity_def split: if_splits option.splits)
  let ?f = "bindTo th se tu ''Codex identity durably bound'' (env_now e)"
  let ?p = "bindTarget {J_starting, J_uncertain} k th se tu"
  consider "t = s" "nj_thread_id j = th" "nj_codex_session_id j = se" "nj_turn_id j = tu"
    | "t = updJobs ?p ?f s" "?p j"
    using assms j jobRow_SomeD [OF j] sqlBindJobs_updJobs [of ?p ?f s]
    by (auto simp: BindArchaeologyNativeIdentity_def B Let_def bindTarget_def mapErrE_def split: if_splits sum.splits)
  then have "\<exists>j. jobRow t k = Some j \<and> nj_thread_id j = th \<and> nj_codex_session_id j = se \<and> nj_turn_id j = tu"
  proof cases
    case 2
    with jobRow_upd [OF j, of ?f ?p] show ?thesis by (simp add: bindTo_def)
  qed (use j in simp)
  then show "\<exists>j. jobRow t k = Some j \<and> nj_thread_id j = th \<and> nj_codex_session_id j = se \<and> nj_turn_id j = tu"
    "BindArchaeologyNativeIdentity e' k th se tu t t = (Inr (), t)"
    using B by (auto simp: BindArchaeologyNativeIdentity_def sameOrUnset_def)
qed

lemma changedOne_row:
  assumes "changedOne p s" "distinct (map nj_id (a_jobs s))" "jobRow s k = Some j" "\<And>r. p r \<Longrightarrow> nj_id r = k"
  shows "p j"
proof -
  from assms(1) obtain r where r: "r \<in> set (a_jobs s)" "p r"
    unfolding changedOne_def countWhere_def by (metis filter_False length_0_conv zero_neq_one)
  with assms(2-4) jobRow_SomeD [OF assms(3)] have "r = j" by (metis distinct_key_eq)
  with r show ?thesis by simp
qed

lemma activate_effect:
  assumes "ActivateArchaeologyNativeJob e k th tu s s = (Inr (), t)" "distinct (map nj_id (a_jobs s))"
  shows "\<exists>j. jobRow t k = Some j \<and> nj_state j = J_active \<and> nj_thread_id j = th \<and> nj_turn_id j = tu"
    and "ActivateArchaeologyNativeJob e' k th tu t t = (Inr (), t)"
proof -
  have B: "boundedCoreText k 120 True" "boundedCoreText th 120 True" "boundedCoreText tu 120 True"
    using assms(1) by (simp_all add: ActivateArchaeologyNativeJob_def split: if_splits)
  from assms(1) obtain j where j: "jobRow s k = Some j"
    by (auto simp: ActivateArchaeologyNativeJob_def split: if_splits option.splits)
  let ?f = "\<lambda>r. r\<lparr>nj_state := J_active, nj_phase_label := ''Visible in Codex'', nj_updated_at := env_now e\<rparr>"
  let ?p = "\<lambda>r. nj_id r = k \<and> nj_thread_id r = th \<and> nj_turn_id r = tu \<and> nj_state r = J_starting"
  consider "t = s" "nj_state j = J_active" "nj_thread_id j = th" "nj_turn_id j = tu"
    | "t = updJobs ?p ?f s" "changedOne ?p s"
    using assms(1) j by (auto simp: ActivateArchaeologyNativeJob_def B Let_def split: if_splits)
  then have "\<exists>j. jobRow t k = Some j \<and> nj_state j = J_active \<and> nj_thread_id j = th \<and> nj_turn_id j = tu"
  proof cases
    case 2
    with changedOne_row [OF 2(2) assms(2) j] jobRow_upd [OF j, of ?f ?p] show ?thesis by simp
  qed (use j in simp)
  then show "\<exists>j. jobRow t k = Some j \<and> nj_state j = J_active \<and> nj_thread_id j = th \<and> nj_turn_id j = tu"
    "ActivateArchaeologyNativeJob e' k th tu t t = (Inr (), t)"
    using B by (auto simp: ActivateArchaeologyNativeJob_def sameOrUnset_def)
qed

lemma lose_effect:
  assumes "LoseArchaeologyNativeTurn e k th tu s = (Inr (), t)" "distinct (map nj_id (a_jobs s))"
  shows "\<exists>j. jobRow t k = Some j \<and> nj_state j = J_uncertain \<and> nj_error_code j = ''codex_process_unavailable'' \<and>
      nj_thread_id j = th \<and> nj_turn_id j = tu"
    and "LoseArchaeologyNativeTurn e' k th tu t = (Inr (), t)"
proof -
  have B: "boundedCoreText k 120 True" "boundedCoreText th 120 True" "boundedCoreText tu 120 True"
    and tx: "loseTx e k th tu s = Inr ((), t)"
    using assms(1) by (auto simp: LoseArchaeologyNativeTurn_def inTx_def split: if_splits sum.splits)
  from tx obtain j where j: "jobRow s k = Some j" by (auto simp: loseTx_def Let_def)
  define st where "st = (if nj_state j = J_uncertain \<and> nj_thread_id j = th \<and> nj_turn_id j = tu then {J_uncertain}
     else {J_active, J_report_ready, J_cancel_requested})"
  let ?p = "\<lambda>r. activeJobAt k th tu r \<and> nj_state r \<in> st"
  have "(t = s \<and> nj_state j = J_uncertain \<and> nj_error_code j = ''codex_process_unavailable'' \<and> nj_thread_id j = th \<and>
      nj_turn_id j = tu) \<or> (changedOne ?p s \<and> a_jobs t = a_jobs (updJobs ?p (loseRow (env_now e)) s))"
    using tx unfolding loseTx_def Let_def j someE_simps mapErrE_simps bindE_simps st_def [symmetric]
    by (auto split: if_split_asm)
  then have "\<exists>j. jobRow t k = Some j \<and> nj_state j = J_uncertain \<and> nj_error_code j = ''codex_process_unavailable'' \<and>
      nj_thread_id j = th \<and> nj_turn_id j = tu"
  proof
    assume *: "changedOne ?p s \<and> a_jobs t = a_jobs (updJobs ?p (loseRow (env_now e)) s)"
    then have "?p j" using changedOne_row [OF _ assms(2) j, of ?p] by (simp add: activeJobAt_def)
    moreover have "jobRow t k = Some (if ?p j then loseRow (env_now e) j else j)"
      unfolding jobRow_cong [OF conjunct2 [OF *]] by (rule jobRow_upd [OF j]) (simp add: loseRow_def)
    ultimately show ?thesis by (auto simp: loseRow_def activeJobAt_def)
  qed (use j in blast)
  then show "\<exists>j. jobRow t k = Some j \<and> nj_state j = J_uncertain \<and> nj_error_code j = ''codex_process_unavailable'' \<and>
      nj_thread_id j = th \<and> nj_turn_id j = tu"
    "LoseArchaeologyNativeTurn e' k th tu t = (Inr (), t)"
    using B by (auto simp: LoseArchaeologyNativeTurn_def loseTx_def inTx_def sameOrUnset_def Let_def)
qed

definition failStartDone :: "ArchaeologyLaunchResult \<Rightarrow> bool \<Rightarrow> job_row \<Rightarrow> bool" where
  "failStartDone launch unc j \<longleftrightarrow>
     (if unc then nj_state j = J_uncertain \<and> \<not> identityClash j launch \<and> \<not> needsIdentity j launch
      else nj_state j = J_failed \<and> nj_error_code j = ''codex_start_failed'' \<and> \<not> identityClash j launch)"

lemma orElse_merged:
  assumes "\<not> (a \<noteq> '''' \<and> b \<noteq> '''' \<and> a \<noteq> b)"
  shows "\<not> (orElse a b \<noteq> '''' \<and> b \<noteq> '''' \<and> orElse a b \<noteq> b)" "\<not> (b \<noteq> '''' \<and> orElse a b = '''')"
  using assms by (auto simp: orElse_def)

lemma failStartRow_identity:
  assumes "\<not> identityClash j launch"
  shows "\<not> identityClash (failStartRow j launch unc now r) launch"
    "\<not> needsIdentity (failStartRow j launch unc now r) launch"
proof -
  have c: "\<not> (nj_thread_id j \<noteq> '''' \<and> lr_ThreadID launch \<noteq> '''' \<and> nj_thread_id j \<noteq> lr_ThreadID launch)"
    "\<not> (nj_codex_session_id j \<noteq> '''' \<and> lr_CodexSessionID launch \<noteq> '''' \<and> nj_codex_session_id j \<noteq> lr_CodexSessionID launch)"
    "\<not> (nj_turn_id j \<noteq> '''' \<and> lr_TurnID launch \<noteq> '''' \<and> nj_turn_id j \<noteq> lr_TurnID launch)"
    using assms unfolding identityClash_def by blast+
  have f: "nj_thread_id (failStartRow j launch unc now r) = orElse (nj_thread_id j) (lr_ThreadID launch)"
    "nj_codex_session_id (failStartRow j launch unc now r) = orElse (nj_codex_session_id j) (lr_CodexSessionID launch)"
    "nj_turn_id (failStartRow j launch unc now r) = orElse (nj_turn_id j) (lr_TurnID launch)"
    by (simp_all add: failStartRow_def Let_def)
  show "\<not> identityClash (failStartRow j launch unc now r) launch"
    unfolding identityClash_def f using orElse_merged(1) [OF c(1)] orElse_merged(1) [OF c(2)] orElse_merged(1) [OF c(3)] by blast
  show "\<not> needsIdentity (failStartRow j launch unc now r) launch"
    unfolding needsIdentity_def f using orElse_merged(2) [OF c(1)] orElse_merged(2) [OF c(2)] orElse_merged(2) [OF c(3)] by blast
qed

lemma failStartTx_effect:
  assumes "failStartTx e k launch unc s = Inr ((), t)"
  shows "\<exists>j. jobRow t k = Some j \<and> failStartDone launch unc j"
proof -
  from assms obtain j where j: "jobRow s k = Some j" by (auto simp: failStartTx_def Let_def)
  let ?f = "failStartRow j launch unc (env_now e)"
  note D = assms [unfolded failStartTx_def Let_def j someE_simps mapErrE_simps(2) bindE_simps]
  have nc: "\<not> identityClash j launch" and unc: "nj_state j = J_uncertain \<longrightarrow> unc"
    using D by (simp_all split: if_split_asm)
  consider
      (same) "t = s" "failStartDone launch unc j"
    | (moved) u where "sqlBindJobs (\<lambda>r. nj_id r = k) ?f s = Inr u" "t = failStartSettle j (env_now e) u"
        "\<not> identityClash j launch" "nj_state j = J_starting \<or> nj_state j = J_uncertain" "nj_state j = J_uncertain \<longrightarrow> unc"
  proof (cases "nj_state j = J_uncertain \<and> \<not> needsIdentity j launch \<or>
      nj_state j = J_failed \<and> \<not> unc \<and> nj_error_code j = ''codex_start_failed''")
    case True
    with D nc unc have "t = s" by (auto split: if_split_asm)
    with True nc unc show ?thesis by (intro same) (auto simp: failStartDone_def)
  next
    case False
    with D nc unc show ?thesis by (auto split: if_split_asm intro: moved)
  qed
  then show ?thesis
  proof cases
    case same
    with j show ?thesis by blast
  next
    case moved
    have "a_jobs t = a_jobs (updJobs (\<lambda>r. nj_id r = k) ?f s)"
      using moved(2) sqlBindJobs_updJobs [OF moved(1)] by (simp add: failStartSettle_def Let_def)
    then have "jobRow t k = jobRow (updJobs (\<lambda>r. nj_id r = k) ?f s) k" by (rule jobRow_cong)
    also have "\<dots> = Some (if nj_id j = k then ?f j else j)"
      by (rule jobRow_upd [OF j]) (simp add: failStartRow_def Let_def)
    finally have "jobRow t k = Some (?f j)" using jobRow_SomeD [OF j] by simp
    moreover have "failStartDone launch unc (?f j)"
      using moved(3-5) failStartRow_identity [OF moved(3), of unc "env_now e" j]
      by (cases unc) (auto simp: failStartDone_def failStartRow_def Let_def)
    ultimately show ?thesis by blast
  qed
qed

lemma failStartTx_again:
  assumes "jobRow t k = Some j" "failStartDone launch unc j"
  shows "failStartTx e k launch unc t = Inr ((), t)"
  using assms by (cases unc) (auto simp: failStartTx_def failStartDone_def Let_def)

lemma failStart_effect:
  assumes "FailArchaeologyNativeStart e k launch unc s = (Inr (), t)"
  shows "\<exists>j. jobRow t k = Some j \<and> failStartDone launch
      (unc \<or> lr_ThreadID launch \<noteq> '''' \<or> lr_CodexSessionID launch \<noteq> '''' \<or> lr_TurnID launch \<noteq> '''') j"
    and "FailArchaeologyNativeStart e' k launch unc t = (Inr (), t)"
proof -
  let ?u = "unc \<or> lr_ThreadID launch \<noteq> '''' \<or> lr_CodexSessionID launch \<noteq> '''' \<or> lr_TurnID launch \<noteq> ''''"
  have tx: "failStartTx e k launch ?u s = Inr ((), t)"
    and v: "FailArchaeologyNativeStart e' k launch unc t = inTx (failStartTx e' k launch ?u) t"
    using assms by (auto simp: FailArchaeologyNativeStart_def Let_def inTx_def split: if_splits sum.splits)
  from failStartTx_effect [OF tx] show "\<exists>j. jobRow t k = Some j \<and> failStartDone launch ?u j" .
  with failStartTx_effect [OF tx] have "failStartTx e' k launch ?u t = Inr ((), t)" using failStartTx_again by blast
  with v show "FailArchaeologyNativeStart e' k launch unc t = (Inr (), t)" by (simp add: inTx_def)
qed

definition completedState :: "ArchaeologyNativeTerminal \<Rightarrow> job_row \<Rightarrow> job_state" where
  "completedState nt j = (if nt_Status nt = ''completed'' \<and> nj_report_digest j = None then J_attention
     else terminalState (nt_Status nt))"

lemma completeRow_keeps:
  "activeJobAt k th tu (completeRow j nt now r) = activeJobAt k th tu r" "nj_batch_id (completeRow j nt now r) = nj_batch_id r"
  "nj_report_digest (completeRow j nt now r) = nj_report_digest r" "nj_duration_ms (completeRow j nt now r) = nt_DurationMS nt"
  by (simp_all add: completeRow_def activeJobAt_def split_beta Let_def)

lemma completeRow_completed:
  assumes "nt_Status nt = ''completed'' \<or> nt_Status nt = ''interrupted'' \<or> nt_Status nt = ''failed''"
  shows "nj_state (completeRow j nt now j) = completedState nt j"
  using assms by (auto simp: completeRow_def completedState_def terminalState_def Let_def)

lemma completeTx_effect:
  assumes "completeTx e nt s = Inr ((), t)" "distinct (map nj_id (a_jobs s))"
    and st: "nt_Status nt = ''completed'' \<or> nt_Status nt = ''interrupted'' \<or> nt_Status nt = ''failed''"
  shows "\<exists>j b. jobWithBatch (nt_JobID nt) (nt_ThreadID nt) (nt_TurnID nt) t = Some (j, b) \<and>
    nj_state j = completedState nt j \<and> nj_duration_ms j = nt_DurationMS nt"
proof -
  let ?k = "nt_JobID nt" and ?th = "nt_ThreadID nt" and ?tu = "nt_TurnID nt"
  from assms(1) obtain j b where jb: "jobWithBatch ?k ?th ?tu s = Some (j, b)"
    by (auto simp: completeTx_def Let_def split: option.splits)
  then have j: "find (activeJobAt ?k ?th ?tu) (a_jobs s) = Some j" and b: "batchRow s (nj_batch_id j) = Some b"
    by (auto simp: jobWithBatch_def split: option.splits)
  note D = assms(1) [unfolded completeTx_def Let_def jb option.case prod.case completedState_def [symmetric]]
  show ?thesis
  proof (cases "nj_state j \<in> {J_completed, J_failed, J_interrupted, J_attention}")
    case True
    with D have "t = s" "nj_state j = completedState nt j" "nj_duration_ms j = nt_DurationMS nt"
      by (simp_all split: if_split_asm)
    with jb show ?thesis by blast
  next
    case False
    let ?p = "\<lambda>r. activeJobAt ?k ?th ?tu r \<and> nj_state r = nj_state j"
    let ?f = "completeRow j nt (env_now e)"
    have t: "t = completeSettle j b (env_now e) (updJobs ?p ?f s)" using D False by (simp split: if_split_asm)
    have "a_jobs t = updWhere ?p ?f (a_jobs s)" by (simp add: t completeSettle_def Let_def)
    then have "find (activeJobAt ?k ?th ?tu) (a_jobs t) = Some (?f j)"
      using find_updWhere [of "activeJobAt ?k ?th ?tu" ?f ?p "a_jobs s"] j find_SomeD [OF j]
      by (simp add: completeRow_keeps)
    moreover have "map ba_id (a_batches t) = map ba_id (a_batches s)"
      by (simp add: t completeSettle_def Let_def updWhere_def)
    then have "batchRow t (nj_batch_id j) \<noteq> None"
      using batchRow_SomeD [OF b] unfolding batchRow_def find_None_iff by (metis image_iff list.set_map)
    ultimately show ?thesis
      using completeRow_completed [OF st, of j "env_now e"]
      by (auto simp: jobWithBatch_def completeRow_keeps completedState_def)
  qed
qed

lemma complete_effect:
  assumes "CompleteArchaeologyNativeTurn e nt s = (Inr (), t)" "distinct (map nj_id (a_jobs s))"
  shows "\<exists>j b. jobWithBatch (nt_JobID nt) (nt_ThreadID nt) (nt_TurnID nt) t = Some (j, b) \<and>
      nj_state j = completedState nt j \<and> nj_duration_ms j = nt_DurationMS nt"
    and "CompleteArchaeologyNativeTurn e' nt t = (Inr (), t)"
proof -
  have tx: "completeTx e nt s = Inr ((), t)"
    and v: "CompleteArchaeologyNativeTurn e' nt t = inTx (completeTx e' nt) t"
    and st: "nt_Status nt = ''completed'' \<or> nt_Status nt = ''interrupted'' \<or> nt_Status nt = ''failed''"
    using assms(1) by (auto simp: CompleteArchaeologyNativeTurn_def inTx_def split: if_split_asm sum.splits)
  from completeTx_effect [OF tx assms(2) st] obtain j b where
    jb: "jobWithBatch (nt_JobID nt) (nt_ThreadID nt) (nt_TurnID nt) t = Some (j, b)"
      "nj_state j = completedState nt j" "nj_duration_ms j = nt_DurationMS nt" by blast
  then show "\<exists>j b. jobWithBatch (nt_JobID nt) (nt_ThreadID nt) (nt_TurnID nt) t = Some (j, b) \<and>
      nj_state j = completedState nt j \<and> nj_duration_ms j = nt_DurationMS nt" by blast
  have "completedState nt j \<in> {J_completed, J_failed, J_interrupted, J_attention}"
    by (simp add: completedState_def terminalState_def)
  then have "completeTx e' nt t = Inr ((), t)"
    using jb by (simp add: completeTx_def completedState_def [symmetric] Let_def)
  with v show "CompleteArchaeologyNativeTurn e' nt t = (Inr (), t)" by (simp add: inTx_def)
qed

text \<open>A write that succeeded is confirmed by the read-back, and repeating it changes nothing.\<close>

definition performIntent :: "env \<Rightarrow> ArchaeologyNativePersistenceIntent \<Rightarrow> arch \<Rightarrow> bool \<times> arch" where
  "performIntent e i s = (case applyArchaeologyPersistenceMutation e i s s of (r, t) \<Rightarrow> (r = Inr (), t))"

definition acceptedIntent :: "ArchaeologyNativePersistenceIntent \<Rightarrow> bool" where
  "acceptedIntent i \<longleftrightarrow> \<not> isl (persistencePayload i)"

lemma performIntent_True:
  "performIntent e i s = (True, t) \<longleftrightarrow> applyArchaeologyPersistenceMutation e i s s = (Inr (), t)"
  by (auto simp: performIntent_def split: prod.split)

lemma identity_nonempty: "boundedCoreText v n True \<Longrightarrow> persistenceIdentityExact v v"
  by (auto simp: persistenceIdentityExact_def dest: boundedText_nonempty)

lemma compatible_refl [simp]: "persistenceIdentityCompatible v v" "persistenceIdentityCompatible v ''''"
  by (simp_all add: persistenceIdentityCompatible_def)

lemma failStartDone_classified:
  assumes "jobRow t (pi_JobID i) = Some j" "pi_Operation i = op_fail_start"
    and "pi_ThreadID i = ''''" "pi_CodexSessionID i = ''''" "pi_TurnID i = ''''"
    and "failStartDone (pi_Launch i) (pi_Uncertain i \<or> lr_ThreadID (pi_Launch i) \<noteq> '''' \<or>
      lr_CodexSessionID (pi_Launch i) \<noteq> '''' \<or> lr_TurnID (pi_Launch i) \<noteq> '''') j"
  shows "classifyArchaeologyPersistenceReadback i t = persistenceReadbackApplied"
proof -
  have ident: "persistenceIdentityCompatible v w \<and> (w = '''' \<or> persistenceIdentityExact v w)"
    if "\<not> (v \<noteq> '''' \<and> w \<noteq> '''' \<and> v \<noteq> w)" "\<not> (w \<noteq> '''' \<and> v = '''')" for v w
    using that by (auto simp: persistenceIdentityCompatible_def persistenceIdentityExact_def)
  have "classifyFailStart i j = persistenceReadbackApplied"
  proof (cases "pi_Uncertain i \<or> lr_ThreadID (pi_Launch i) \<noteq> '''' \<or> lr_CodexSessionID (pi_Launch i) \<noteq> '''' \<or>
      lr_TurnID (pi_Launch i) \<noteq> ''''")
    case True
    with assms(6) have j: "nj_state j = J_uncertain" "\<not> identityClash j (pi_Launch i)" "\<not> needsIdentity j (pi_Launch i)"
      by (simp_all only: failStartDone_def if_True simp_thms)
    note c = j(2) [unfolded identityClash_def de_Morgan_disj] and n = j(3) [unfolded needsIdentity_def de_Morgan_disj]
    have "persistenceIdentityCompatible (nj_thread_id j) (lr_ThreadID (pi_Launch i)) \<and>
        (lr_ThreadID (pi_Launch i) = '''' \<or> persistenceIdentityExact (nj_thread_id j) (lr_ThreadID (pi_Launch i)))"
      "persistenceIdentityCompatible (nj_codex_session_id j) (lr_CodexSessionID (pi_Launch i)) \<and>
        (lr_CodexSessionID (pi_Launch i) = '''' \<or> persistenceIdentityExact (nj_codex_session_id j) (lr_CodexSessionID (pi_Launch i)))"
      "persistenceIdentityCompatible (nj_turn_id j) (lr_TurnID (pi_Launch i)) \<and>
        (lr_TurnID (pi_Launch i) = '''' \<or> persistenceIdentityExact (nj_turn_id j) (lr_TurnID (pi_Launch i)))"
      using c n by (blast intro!: ident)+
    with True j(1) show ?thesis by (simp only: classifyFailStart_def Let_def simp_thms if_True)
  next
    case False
    with assms(6) have "nj_state j = J_failed" "nj_error_code j = ''codex_start_failed''"
      by (simp_all only: failStartDone_def if_False simp_thms)
    with False show ?thesis by (simp add: classifyFailStart_def Let_def)
  qed
  with assms(1-5) show ?thesis by (simp add: classifyArchaeologyPersistenceReadback_def)
qed

lemma find_active_jobRow:
  assumes "find (activeJobAt k th tu) (a_jobs s) = Some j" "distinct (map nj_id (a_jobs s))"
  shows "jobRow s k = Some j" "nj_thread_id j = th" "nj_turn_id j = tu"
  using find_SomeD [OF assms(1)] find_key_unique [OF assms(2), of j k] by (auto simp: jobRow_def activeJobAt_def)

lemma perform_valid: "arch_inv s \<Longrightarrow> arch_inv (snd (performIntent e i s))"
proof -
  fix L assume "arch_inv s"
  have "(arch_step L)\<^sup>*\<^sup>* s (snd (applyArchaeologyPersistenceMutation e i s s))"
    using mutation_steps [of L s e i s] by (rule rtranclp_mono [THEN predicate2D, rotated]) (auto simp: persist_step_def)
  from archaeology.steps_inv [OF this \<open>arch_inv s\<close>] show ?thesis
    by (simp add: performIntent_def split_beta)
qed

lemma mutation_settles:
  assumes "arch_inv s" "acceptedIntent i" "applyArchaeologyPersistenceMutation e i s s = (Inr (), t)"
  shows "classifyArchaeologyPersistenceReadback i t = persistenceReadbackApplied \<and>
    applyArchaeologyPersistenceMutation e' i t t = (Inr (), t)"
proof -
  note D = arch_invD(1) [OF assms(1)]
  have "arch_inv t"
    using perform_valid [OF assms(1), of e i] assms(3) by (simp add: performIntent_def)
  note Dt = arch_invD(1) [OF this]
  from assms(2) obtain p where p: "persistencePayload i = Inr p"
    unfolding acceptedIntent_def by (metis sum.collapse(2))
  note A = applyArchaeologyPersistenceMutation_def Let_def
  note C = classifyArchaeologyPersistenceReadback_def
  from p show ?thesis
  proof (cases rule: persistencePayload_cases)
    case fail_start
    note F = failStart_effect [of e "pi_JobID i" "pi_Launch i" "pi_Uncertain i" s t]
    have m: "FailArchaeologyNativeStart e (pi_JobID i) (pi_Launch i) (pi_Uncertain i) s = (Inr (), t)"
      using assms(3) fail_start(1) by (simp add: A)
    from F(1) [OF m] failStartDone_classified [OF _ fail_start(1-4)]
    have "classifyArchaeologyPersistenceReadback i t = persistenceReadbackApplied" by blast
    with F(2) [OF m, of e'] fail_start(1) show ?thesis by (simp add: A)
  next
    case bind_identity
    have m: "BindArchaeologyNativeIdentity e (pi_JobID i) (pi_ThreadID i) (pi_CodexSessionID i) (pi_TurnID i) s s = (Inr (), t)"
      using assms(3) bind_identity(1) by (simp add: A)
    from bind_effect(1) [OF m] bind_effect(2) [OF m, of e'] bind_identity show ?thesis
      by (auto simp: A C identity_nonempty)
  next
    case turn
    show ?thesis
    proof (cases "pi_Operation i = op_activate")
      case True
      have m: "ActivateArchaeologyNativeJob e (pi_JobID i) (pi_ThreadID i) (pi_TurnID i) s s = (Inr (), t)"
        using assms(3) True by (simp add: A)
      from activate_effect(1) [OF m D] activate_effect(2) [OF m D, of e'] turn True show ?thesis
        by (auto simp: A C identity_nonempty)
    next
      case False
      with turn have o: "pi_Operation i = op_lose_turn" by simp
      have m: "LoseArchaeologyNativeTurn e (pi_JobID i) (pi_ThreadID i) (pi_TurnID i) s = (Inr (), t)"
        using assms(3) o by (simp add: A)
      from lose_effect(1) [OF m D] lose_effect(2) [OF m D, of e'] turn o show ?thesis
        by (auto simp: A C classifyLoseTurn_def identity_nonempty Let_def)
    qed
  next
    case complete_turn
    let ?nt = "\<lparr>nt_JobID = pi_JobID i, nt_ThreadID = pi_ThreadID i, nt_TurnID = pi_TurnID i,
      nt_Status = pi_Status i, nt_DurationMS = pi_DurationMS i\<rparr>"
    have m: "CompleteArchaeologyNativeTurn e ?nt s = (Inr (), t)"
      using assms(3) complete_turn(1) by (simp add: A)
    from complete_effect(1) [OF m D] obtain j b where
      jb: "jobWithBatch (pi_JobID i) (pi_ThreadID i) (pi_TurnID i) t = Some (j, b)"
        "nj_state j = completedState ?nt j" "nj_duration_ms j = pi_DurationMS i" by auto
    then have j: "find (activeJobAt (pi_JobID i) (pi_ThreadID i) (pi_TurnID i)) (a_jobs t) = Some j"
      by (auto simp: jobWithBatch_def split: option.splits)
    have "classifyCompleteTurn i j = persistenceReadbackApplied"
      using jb(2,3) complete_turn(7)
      by (auto simp: classifyCompleteTurn_def completedState_def terminalState_def stateText_def)
    with find_active_jobRow [OF j Dt] complete_turn(1,4) complete_effect(2) [OF m D, of e'] show ?thesis
      by (simp add: A C)
  qed
qed

interpretation repository_write: replayable_write arch_inv acceptedIntent performIntent
  "\<lambda>i s. classifyArchaeologyPersistenceReadback i s = persistenceReadbackApplied"
proof
  show "arch_inv (snd (performIntent e i s))" if "arch_inv s" for s e i
    using that by (rule perform_valid)
  show "classifyArchaeologyPersistenceReadback i t = persistenceReadbackApplied"
    if "arch_inv s" "acceptedIntent i" "performIntent e i s = (True, t)" for s i e t
    using mutation_settles [OF that(1,2)] that(3) unfolding performIntent_True by blast
  show "performIntent e' i t = (True, t)"
    if "arch_inv s" "acceptedIntent i" "performIntent e i s = (True, t)" for s i e t e'
    using mutation_settles [OF that(1,2)] that(3) unfolding performIntent_True by blast
qed

text \<open>
  A repository write is safe to repeat: after it has succeeded once, the
  read-back confirms it, and however often and whenever it is repeated it succeeds again and
  changes nothing.
\<close>

lemma repository_write_replays:
  assumes "arch_reachable L s" and "canonicalArchaeologyNativePersistence P i = Inr x"
    and "applyArchaeologyPersistenceMutation e i s s = (Inr (), t)"
  shows "classifyArchaeologyPersistenceReadback i t = persistenceReadbackApplied \<and>
    applyArchaeologyPersistenceMutation e' i t t = (Inr (), t) \<and>
    fold (\<lambda>e u. snd (applyArchaeologyPersistenceMutation e i u u)) es t = t"
proof -
  have inv: "arch_inv s" using assms(1) by (rule reachable_arch_inv)
  have acc: "acceptedIntent i"
    using assms(2) by (auto simp: canonicalArchaeologyNativePersistence_def acceptedIntent_def bindE_def split: if_splits sum.splits)
  have perf: "performIntent e i s = (True, t)" using assms(3) by (simp add: performIntent_True)
  have "snd (performIntent e i u) = snd (applyArchaeologyPersistenceMutation e i u u)" for e u
    by (simp add: performIntent_def split_beta)
  with repository_write.repeats_change_nothing [OF inv acc perf, of es]
  have "fold (\<lambda>e u. snd (applyArchaeologyPersistenceMutation e i u u)) es t = t" by simp
  with repository_write.perform_confirmed [OF inv acc perf] repository_write.perform_again [OF inv acc perf, of e']
  show ?thesis by (simp add: performIntent_True)
qed

section \<open>The history of an intent\<close>

abbreviation persist_reachable :: "arch_lib \<Rightarrow> arch \<Rightarrow> bool" where
  "persist_reachable L \<equiv> persist_steps L empty_arch"

lemma persist_arch_steps: "persist_steps L s t \<Longrightarrow> arch_steps L s t"
  by (rule rtranclp_mono [THEN predicate2D, rotated]) (auto simp: persist_step_def)

lemma persist_ledger_steps: "persist_steps L s t \<Longrightarrow> ledger_step\<^sup>*\<^sup>* s t"
  by (rule rtranclp_mono [THEN predicate2D, rotated]) (auto simp: persist_step_def)

lemma persist_reachable_arch: "persist_reachable L s \<Longrightarrow> arch_reachable L s"
  unfolding arch_reachable_def by (rule persist_arch_steps)

lemma persist_reachable_ledger: "persist_reachable L s \<Longrightarrow> ledger_inv s"
  using ledger.reachable_inv [OF refl persist_ledger_steps] .

definition intentKept :: "intent_row \<Rightarrow> intent_row \<Rightarrow> bool" where
  "intentKept r q \<longleftrightarrow> intentKeys q = intentKeys r \<and> in_attempts r \<le> in_attempts q \<and>
     (settledIntent (in_state r) \<longrightarrow> q = r)"

lemma intentKept_step: "intentKept r p \<Longrightarrow> intentChange p q \<Longrightarrow> intentKept r q"
  by (auto simp: intentKept_def intentChange_def)

lemma ledger_steps_row:
  assumes "ledger_step\<^sup>*\<^sup>* s t" "ledger_inv s" "r \<in> set (a_intents s)"
  shows "\<exists>q \<in> set (a_intents t). intentKept r q"
  using assms(1)
proof (induction rule: rtranclp_induct)
  case base
  show ?case using assms(3) by (auto simp: intentKept_def)
next
  case (step u v)
  then obtain p where p: "p \<in> set (a_intents u)" "intentKept r p" by blast
  have "ledgerGrows u v"
    using ledger_step_grows [OF step.hyps(2)] ledger.steps_inv [OF step.hyps(1) assms(2)] by blast
  then obtain rows fresh where "a_intents v = rows @ fresh" "list_all2 intentChange (a_intents u) rows"
    unfolding ledgerGrows_def by blast
  with list_all2_mem1 [OF this(2) p(1)] p(2) show ?case by (auto intro: intentKept_step)
qed

text \<open>
  Property C22. An intent is never lost, altered or duplicated: in every later state the
  ledger has exactly one row for its job and operation, with the same id, payload and
  digest; the attempts only grow and never exceed eight; and a row that is applied,
  superseded or blocked never changes again.
\<close>

theorem ledger_history:
  assumes "persist_reachable L s" and "persist_steps L s t" and "r \<in> set (a_intents s)"
  shows "\<exists>q \<in> set (a_intents t). in_id q = in_id r \<and> in_job_id q = in_job_id r \<and> in_operation q = in_operation r \<and>
    in_payload_json q = in_payload_json r \<and> in_payload_digest q = in_payload_digest r \<and>
    in_attempts r \<le> in_attempts q \<and> in_attempts q \<le> 8 \<and>
    (in_state r \<in> {I_applied, I_superseded, I_blocked} \<longrightarrow> q = r) \<and>
    (\<forall>p \<in> set (a_intents t). in_job_id p = in_job_id r \<and> in_operation p = in_operation r \<longrightarrow> p = q)"
proof -
  note inv = persist_reachable_ledger [OF assms(1)]
  from ledger_steps_row [OF persist_ledger_steps [OF assms(2)] inv assms(3)]
  obtain q where q: "q \<in> set (a_intents t)" "intentKept r q" by blast
  have t: "ledger_inv t" using ledger.steps_inv [OF persist_ledger_steps [OF assms(2)] inv] .
  have "in_attempts q \<le> 8"
    using t q(1) by (auto simp: ledger_inv_def intentOk_def archaeologyPersistenceMaxAttempts_def)
  moreover have "p = q" if "p \<in> set (a_intents t)" "in_job_id p = in_job_id r \<and> in_operation p = in_operation r" for p
  proof (rule distinct_key_eq [of "\<lambda>r. (in_job_id r, in_operation r)", OF _ that(1) q(1)])
    show "distinct (map (\<lambda>r. (in_job_id r, in_operation r)) (a_intents t))" using t by (simp add: ledger_inv_def)
    show "(in_job_id p, in_operation p) = (in_job_id q, in_operation q)"
      using that(2) q(2) by (simp add: intentKept_def intentKeys_def)
  qed
  moreover have "in_id q = in_id r \<and> in_job_id q = in_job_id r \<and> in_operation q = in_operation r \<and>
      in_payload_json q = in_payload_json r \<and> in_payload_digest q = in_payload_digest r \<and> in_attempts r \<le> in_attempts q \<and>
      (in_state r \<in> {I_applied, I_superseded, I_blocked} \<longrightarrow> q = r)"
    using q(2) unfolding intentKept_def intentKeys_def settledIntent_def prod.inject by blast
  ultimately show ?thesis using q(1) by blast
qed

text \<open>
  Every call of the ledger is a sequence of single accesses, each of which is a
  step of the scheduler's tables and of the ledger, whatever other writers do between them as
  long as they take such steps too. Hence what holds of the steps, the invariants of the jobs
  and the history of the intents, holds of any interleaving of calls.
\<close>

lemma calls_are_steps:
  assumes "interleaved L w" and "interleaved L w'" and "\<And>i. interleaved L (wo_others wo i)"
    and "\<And>n i. interleaved L (wo_others (wos n) i)"
  shows "persist_steps L s (snd (EnsureArchaeologyNativePersistenceIntent L P e w intent s)) \<and>
    persist_steps L s (snd (ApplyArchaeologyNativePersistenceIntent P e em w k s)) \<and>
    persist_steps L s (snd (EnsureAndApplyArchaeologyNativePersistence L P e e' em w w' intent s)) \<and>
    persist_steps L s (snd (RetryArchaeologyNativePersistence P wo limits s)) \<and>
    persist_steps L s (snd (ReconcileArchaeologyNativePersistence P wos s))"
  using ensure_steps [OF assms(1)] apply_steps [OF assms(1)] ensureAndApply_steps [OF assms(1,2)]
    retry_steps [OF assms(3)] reconcile_steps [of L wos, OF assms(4)] by blast

section \<open>Unsettled intents and the scheduler\<close>

text \<open>
  An intent that is blocked stops the scheduler for good: no operation of the
  store unblocks it, and in every later state a claim of a job is refused.
\<close>

lemma blocked_intent_stops_claims:
  assumes "persist_reachable L s" and "r \<in> set (a_intents s)" and "in_state r = I_blocked" and "persist_steps L s t"
  shows "r \<in> set (a_intents t) \<and> ClaimArchaeologyNativeJob e t = (Inl ErrConflict, t)"
proof -
  from ledger_steps_row [OF persist_ledger_steps [OF assms(4)] persist_reachable_ledger [OF assms(1)] assms(2)]
  have r: "r \<in> set (a_intents t)" using assms(3) by (auto simp: intentKept_def settledIntent_def)
  with assms(3) have "claimableJobs t = []" by (auto simp: claimableJobs_def)
  with r show ?thesis by (simp add: ClaimArchaeologyNativeJob_def claimJobTx_def inTx_def)
qed

lemma healthy_settled:
  assumes "Healthy (ArchaeologyNativePersistenceStatusOf u v)" "r \<in> set (a_intents u)"
  shows "in_state r \<in> {I_applied, I_superseded}"
  using assms
  by (cases "in_state r") (auto simp: Healthy_def ArchaeologyNativePersistenceStatusOf_def Let_def countWhere_def filter_empty_conv)

lemma round_success:
  assumes "reconcileRound P wo v = (Some None, y)"
  shows "\<exists>u. y = wo_others wo 0 3 u \<and> Healthy (ArchaeologyNativePersistenceStatusOf u y)"
proof -
  obtain r e u where R: "RetryArchaeologyNativePersistence P wo [archaeologyPersistenceMaxRows] v = ((r, e), u)"
    by (metis prod.collapse)
  note D = assms [unfolded reconcileRound_def R prod.case Let_def]
  show ?thesis
  proof (cases e)
    case None
    with D show ?thesis by (intro exI [of _ "wo_others wo 0 2 u"]) (simp split: if_split_asm)
  qed (use D in simp)
qed

text \<open>
  When the reconciliation of the ledger reports success, there was a moment at
  its last look at the table when every intent was applied or superseded, so that none of
  them kept the scheduler from handing out a job; without other writers this holds of the
  state it leaves.
\<close>

lemma reconcile_success_settled:
  assumes "ReconcileArchaeologyNativePersistence P wos s = (Inr (), t)"
  shows "\<exists>n u. t = wo_others (wos n) 0 3 u \<and> (\<forall>r \<in> set (a_intents u). in_state r \<in> {I_applied, I_superseded})"
proof -
  have "\<exists>n u. t = wo_others (wos n) 0 3 u \<and> (\<forall>r \<in> set (a_intents u). in_state r \<in> {I_applied, I_superseded})"
    if "reconcileLoop P wos i m v = (Inr (), t)" for i m v
    using that
  proof (induction m arbitrary: i v)
    case (Suc m)
    obtain x y where xy: "reconcileRound P (wos i) v = (x, y)" by fastforce
    show ?case
    proof (cases x)
      case None
      with Suc xy show ?thesis by simp
    next
      case (Some z)
      with Suc.prems xy have z: "z = None" "t = y" by (cases z; simp)+
      with Some xy round_success [of P "wos i" v y] healthy_settled show ?thesis by blast
    qed
  qed simp
  with assms show ?thesis unfolding ReconcileArchaeologyNativePersistence_def by blast
qed

end
