(* ===== verification/Persistence_Retry.thy ===== *)
theory Persistence_Retry
  imports Persistence_Contract
begin

text \<open>
  A retry of the ledger settles what is due. The theory also holds the runs on which the
  properties of the ledger are witnessed.
\<close>

section \<open>A retry settles what is due\<close>

abbreviation quiet :: "nat \<Rightarrow> arch \<Rightarrow> arch" where
  "quiet \<equiv> \<lambda>_ s. s"

lemma interleaved_quiet: "interleaved L quiet"
  by (simp add: interleaved_def)

lemma mutation_errors:
  assumes "applyArchaeologyPersistenceMutation e i snap s = (Inl err, t)"
  shows "err \<in> {ErrInvalid, ErrNotFound, ErrConflict}"
proof -
  have sql: "sqlBindJobs p f u = Inl x \<Longrightarrow> x = SqlConstraint" for p f u x
    by (auto simp: sqlBindJobs_def checked_def Let_def split: if_splits)
  have fail: "err \<in> {ErrInvalid, ErrNotFound, ErrConflict}" if "failStartTx e k l unc s = Inl err" for k l unc
    using that
    by (auto simp: failStartTx_def Let_def bindE_def mapErrE_def someE_def dest: sql split: if_splits sum.splits option.splits)
  have lose: "err \<in> {ErrInvalid, ErrNotFound, ErrConflict}" if "loseTx e k th tu s = Inl err" for k th tu
    using that
    by (auto simp: loseTx_def Let_def bindE_def mapErrE_def someE_def requireE_def split: if_splits sum.splits option.splits)
  have complete: "err \<in> {ErrInvalid, ErrNotFound, ErrConflict}" if "completeTx e nt s = Inl err" for nt
    using that by (auto simp: completeTx_def Let_def bindE_def requireE_def split: if_splits option.splits)
  have tx: "inTx body s = (Inl err, t) \<Longrightarrow> body s = Inl err" for body :: "arch \<Rightarrow> go_error + unit \<times> arch"
    by (auto simp: inTx_def split: sum.splits)
  have bind: "err \<in> {ErrInvalid, ErrNotFound, ErrConflict}"
    if "BindArchaeologyNativeIdentity e k th se tu snap s = (Inl err, t)" for k th se tu
    using that
    by (auto simp: BindArchaeologyNativeIdentity_def Let_def mapErrE_def dest: sql split: if_splits option.splits sum.splits)
  have act: "err \<in> {ErrInvalid, ErrNotFound, ErrConflict}"
    if "ActivateArchaeologyNativeJob e k th tu snap s = (Inl err, t)" for k th tu
    using that by (auto simp: ActivateArchaeologyNativeJob_def Let_def split: if_splits option.splits)
  have F: "err \<in> {ErrInvalid, ErrNotFound, ErrConflict}"
    if "FailArchaeologyNativeStart e k l unc s = (Inl err, t)" for k l unc
    using that fail tx unfolding FailArchaeologyNativeStart_def Let_def by (auto split: if_split_asm)
  have G: "err \<in> {ErrInvalid, ErrNotFound, ErrConflict}"
    if "LoseArchaeologyNativeTurn e k th tu s = (Inl err, t)" for k th tu
    using that lose tx unfolding LoseArchaeologyNativeTurn_def by (auto split: if_split_asm)
  have H: "err \<in> {ErrInvalid, ErrNotFound, ErrConflict}"
    if "CompleteArchaeologyNativeTurn e nt s = (Inl err, t)" for nt
    using that complete tx unfolding CompleteArchaeologyNativeTurn_def by (auto split: if_split_asm)
  show ?thesis
    using assms bind act F G H unfolding applyArchaeologyPersistenceMutation_def Let_def by (auto split: if_split_asm)
qed

lemma mutation_intents: "a_intents (snd (applyArchaeologyPersistenceMutation e i snap s)) = a_intents s"
  by (simp add: applyArchaeologyPersistenceMutation_def Let_def native_intents)

lemma owned_row:
  assumes "distinct (map in_id (a_intents s))" "row \<in> set (a_intents s)" "ownedIntent (in_id row) owner row" "q row"
    and "\<And>r. p r \<longleftrightarrow> ownedIntent (in_id row) owner r \<and> q r"
  shows "changedIntents p s = 1" "a_intents (updIntents p f s) = updWhere (\<lambda>r. r = row) (\<lambda>_. f row) (a_intents s)"
proof -
  have row: "p row" using assms(3,4) unfolding assms(5) by simp
  have same: "in_id r = in_id row" if "p r" for r using that unfolding assms(5) by (simp add: ownedIntent_def)
  have "filter p (a_intents s) = [row]" by (rule filter_one [where p = p, OF assms(1,2) row same])
  then show "changedIntents p s = 1" by (simp add: changedIntents_def countWhere_def)
  have "p r \<longleftrightarrow> r = row" if "r \<in> set (a_intents s)" for r
    using distinct_key_eq [OF assms(1) that assms(2)] row same by blast
  then show "a_intents (updIntents p f s) = updWhere (\<lambda>r. r = row) (\<lambda>_. f row) (a_intents s)"
    by (simp add: updWhere_def)
qed

definition settledAs :: "persistenceReadbackOutcome \<Rightarrow> time \<Rightarrow> intent_row \<Rightarrow> intent_row \<Rightarrow> bool" where
  "settledAs out now row q \<longleftrightarrow> intentKeys q = intentKeys row \<and> \<not> dueIntent now q \<and>
     (case out of
        persistenceReadbackApplied \<Rightarrow> in_state q = I_applied
      | persistenceReadbackSuperseded \<Rightarrow> in_state q = I_superseded
      | persistenceReadbackBlocked \<Rightarrow> in_state q = I_blocked
      | persistenceReadbackRetry \<Rightarrow> in_attempts q = in_attempts row + 1 \<and> in_state q \<in> {I_pending, I_blocked})"

definition settlesRow ::
  "arch \<Rightarrow> intent_row \<Rightarrow> time \<Rightarrow> (persistenceReadbackOutcome \<times> go_error option) \<times> arch \<Rightarrow> bool" where
  "settlesRow s row now res \<longleftrightarrow> (\<exists>out q t. res = ((out, None), t) \<and> settledAs out now row q \<and>
     a_intents t = updWhere (\<lambda>r. r = row) (\<lambda>_. q) (a_intents s))"

lemma retryDelay_pos: "0 < archaeologyPersistenceRetryDelay n"
  by (simp add: retryDelay_closed archaeologyPersistenceRetryMax_def archaeologyPersistenceRetryBase_def)

lemma marks_settle:
  assumes "ledger_inv u" "row \<in> set (a_intents u)" "ownedIntent (in_id row) owner row" "a_intents u = a_intents s"
  defines "fin \<equiv> \<lambda>out (r :: go_error + unit, t). ((out, case r of Inl err \<Rightarrow> Some err | Inr _ \<Rightarrow> None), t)"
  shows "settlesRow s row now (fin persistenceReadbackApplied (markArchaeologyPersistenceApplied quiet (in_id row) owner now u))"
    and "settlesRow s row now (fin persistenceReadbackSuperseded
      (markArchaeologyPersistenceTerminal quiet (in_id row) owner I_superseded code now u))"
    and "settlesRow s row now (fin persistenceReadbackBlocked
      (markArchaeologyPersistenceTerminal quiet (in_id row) owner I_blocked code now u))"
    and "settlesRow s row now (fin persistenceReadbackRetry
      (markArchaeologyPersistenceRetry quiet (in_id row) owner code (in_attempts row + 1) now u))"
proof -
  note d = ledger_inv_distinct [OF assms(1)]
  note O = owned_row [OF d assms(2,3), of "\<lambda>_. True" "ownedIntent (in_id row) owner"]
  have ok: "0 \<le> in_attempts row" "in_attempts row < 8"
    using assms(1-3) by (auto simp: ledger_inv_def intentOk_def ownedIntent_def settledIntent_def archaeologyPersistenceMaxAttempts_def)
  show "settlesRow s row now (fin persistenceReadbackApplied (markArchaeologyPersistenceApplied quiet (in_id row) owner now u))"
    using O assms(4) unfolding settlesRow_def fin_def
    by (auto simp: markArchaeologyPersistenceApplied_def Let_def settledAs_def intentKeys_def appliedRow_def dueIntent_def
        intro!: exI [of _ "appliedRow now row"])
  show "settlesRow s row now (fin persistenceReadbackSuperseded
      (markArchaeologyPersistenceTerminal quiet (in_id row) owner I_superseded code now u))"
    using O assms(4) unfolding settlesRow_def fin_def
    by (auto simp: markArchaeologyPersistenceTerminal_def Let_def settledAs_def intentKeys_def terminalRow_def dueIntent_def
        intro!: exI [of _ "terminalRow I_superseded code now row"])
  show "settlesRow s row now (fin persistenceReadbackBlocked
      (markArchaeologyPersistenceTerminal quiet (in_id row) owner I_blocked code now u))"
    using O assms(4) unfolding settlesRow_def fin_def
    by (auto simp: markArchaeologyPersistenceTerminal_def Let_def settledAs_def intentKeys_def terminalRow_def dueIntent_def
        intro!: exI [of _ "terminalRow I_blocked code now row"])
  show "settlesRow s row now (fin persistenceReadbackRetry
      (markArchaeologyPersistenceRetry quiet (in_id row) owner code (in_attempts row + 1) now u))"
  proof (cases "in_attempts row + 1 \<ge> 8")
    case True
    let ?p = "\<lambda>r. ownedIntent (in_id row) owner r \<and> in_attempts r = in_attempts row \<and>
       in_attempts r + 1 \<ge> archaeologyPersistenceMaxAttempts \<and> in_attempts r < archaeologyPersistenceMaxAttempts"
    note R = owned_row [OF d assms(2,3), of "\<lambda>r. in_attempts r = in_attempts row \<and>
       in_attempts r + 1 \<ge> archaeologyPersistenceMaxAttempts \<and> in_attempts r < archaeologyPersistenceMaxAttempts" ?p]
    have "markArchaeologyPersistenceRetry quiet (in_id row) owner code (in_attempts row + 1) now u =
        (Inr (), updIntents ?p (exhaustedRow now) u)"
      using True ok R(1) by (simp add: markArchaeologyPersistenceRetry_def Let_def archaeologyPersistenceMaxAttempts_def)
    moreover have "a_intents (updIntents ?p (exhaustedRow now) u) =
        updWhere (\<lambda>r. r = row) (\<lambda>_. exhaustedRow now row) (a_intents s)"
      using R(2) [of "exhaustedRow now"] True ok assms(4) by (simp add: archaeologyPersistenceMaxAttempts_def)
    moreover have "settledAs persistenceReadbackRetry now row (exhaustedRow now row)"
      by (simp add: settledAs_def intentKeys_def exhaustedRow_def dueIntent_def)
    ultimately show ?thesis unfolding settlesRow_def fin_def by auto
  next
    case False
    let ?p = "\<lambda>r. ownedIntent (in_id row) owner r \<and> in_attempts r = in_attempts row \<and>
       in_attempts r + 1 < archaeologyPersistenceMaxAttempts"
    let ?when = "now + archaeologyPersistenceRetryDelay (in_attempts row + 1)"
    let ?f = "retryRow (take 200 code) ?when now"
    note R = owned_row [OF d assms(2,3), of "\<lambda>r. in_attempts r = in_attempts row \<and>
       in_attempts r + 1 < archaeologyPersistenceMaxAttempts" ?p]
    have "markArchaeologyPersistenceRetry quiet (in_id row) owner code (in_attempts row + 1) now u = (Inr (), updIntents ?p ?f u)"
      using False ok R(1) by (simp add: markArchaeologyPersistenceRetry_def Let_def archaeologyPersistenceMaxAttempts_def)
    moreover have "a_intents (updIntents ?p ?f u) = updWhere (\<lambda>r. r = row) (\<lambda>_. ?f row) (a_intents s)"
      using R(2) [of ?f] False ok assms(4) by (simp add: archaeologyPersistenceMaxAttempts_def)
    moreover have "settledAs persistenceReadbackRetry now row (?f row)"
      using retryDelay_pos [of "in_attempts row + 1"]
      by (simp add: settledAs_def intentKeys_def retryRow_def dueIntent_def stampedBy_iff)
    ultimately show ?thesis unfolding settlesRow_def fin_def by auto
  qed
qed

lemma processRow_quiet:
  assumes "ledger_inv s" "row \<in> set (a_intents s)" "ownedIntent (in_id row) owner row"
  shows "settlesRow s row now (processArchaeologyPersistenceRow P e quiet row owner now s)"
proof (cases "decodeArchaeologyPersistenceIntent P row")
  case (Inl err)
  then show ?thesis
    using marks_settle(3) [OF assms refl, of now "''invalid_payload''"]
    by (simp add: processArchaeologyPersistenceRow_def Let_def)
next
  case (Inr i)
  obtain r u where u: "applyArchaeologyPersistenceMutation e i s s = (r, u)" by fastforce
  have same: "a_intents u = a_intents s" using mutation_intents [of e i s s] u by simp
  then have inv: "ledger_inv u" "row \<in> set (a_intents u)" using assms(1,2) by (simp_all add: ledger_inv_def)
  note M = marks_settle [OF inv assms(3) same, of now]
  show ?thesis
  proof (cases r)
    case (Inl err)
    then have "err \<in> {ErrInvalid, ErrNotFound, ErrConflict}" using mutation_errors u by blast
    then show ?thesis
      unfolding processArchaeologyPersistenceRow_def Let_def Inr u Inl sum.case prod.case
      using M by (auto split: persistenceReadbackOutcome.split)
  qed (use M(1) in \<open>simp add: processArchaeologyPersistenceRow_def Let_def Inr u\<close>)
qed

lemma updWhere_replace_mem:
  "r \<in> set (updWhere (\<lambda>r. r = x) (\<lambda>_. q) xs) \<Longrightarrow> r \<in> set xs \<and> r \<noteq> x \<or> r = q"
  by (auto simp: set_updWhere split: if_splits)

lemma settlesRow_ledger:
  assumes "settlesRow s row now (processArchaeologyPersistenceRow P e quiet row owner now s)" "ledger_inv s"
  obtains out q t where "processArchaeologyPersistenceRow P e quiet row owner now s = ((out, None), t)"
    "settledAs out now row q" "a_intents t = updWhere (\<lambda>r. r = row) (\<lambda>_. q) (a_intents s)" "ledger_inv t"
proof -
  from assms(1) obtain out q t where *: "processArchaeologyPersistenceRow P e quiet row owner now s = ((out, None), t)"
    "settledAs out now row q" "a_intents t = updWhere (\<lambda>r. r = row) (\<lambda>_. q) (a_intents s)"
    unfolding settlesRow_def by blast
  fix L
  have "persist_steps L s t" using processRow_steps [OF interleaved_quiet, of L s P e row owner now] *(1) by simp
  from ledger.steps_inv [OF persist_ledger_steps [OF this] assms(2)] show ?thesis using * that by blast
qed

definition reportSum :: "ArchaeologyNativePersistenceRetryReport \<Rightarrow> nat" where
  "reportSum r = rr_Applied r + rr_Superseded r + rr_Retried r + rr_Blocked r"

lemma countOutcome_counts:
  "rr_Leased (countOutcome out r) = rr_Leased r" "rr_Processed (countOutcome out r) = Suc (rr_Processed r)"
  "reportSum (countOutcome out r) = Suc (reportSum r)"
  "rr_Applied (countOutcome out r) = rr_Applied r + of_bool (out = persistenceReadbackApplied)"
  "rr_Superseded (countOutcome out r) = rr_Superseded r + of_bool (out = persistenceReadbackSuperseded)"
  by (cases out; simp add: countOutcome_def reportSum_def)+

text \<open>The rows a worker was given, with the outcome of each and the row it is left as.\<close>

abbreviation settledRows :: "time \<Rightarrow> intent_row list \<Rightarrow> (persistenceReadbackOutcome \<times> intent_row) list \<Rightarrow> bool" where
  "settledRows now \<equiv> list_all2 (\<lambda>row (out, q). settledAs out now row q)"

definition outcomes :: "persistenceReadbackOutcome \<Rightarrow> (persistenceReadbackOutcome \<times> intent_row) list \<Rightarrow> nat" where
  "outcomes out fs = length (filter (\<lambda>f. fst f = out) fs)"

definition reportsRows ::
  "ArchaeologyNativePersistenceRetryReport \<Rightarrow> (persistenceReadbackOutcome \<times> intent_row) list \<Rightarrow> ArchaeologyNativePersistenceRetryReport \<Rightarrow> bool" where
  "reportsRows report fs rep \<longleftrightarrow> rr_Leased rep = rr_Leased report \<and> rr_Processed rep = rr_Processed report + length fs \<and>
     reportSum rep = reportSum report + length fs \<and> rr_Applied rep = rr_Applied report + outcomes persistenceReadbackApplied fs \<and>
     rr_Superseded rep = rr_Superseded report + outcomes persistenceReadbackSuperseded fs"

lemma settledAs_free: "settledAs out now row q \<Longrightarrow> in_state q \<noteq> I_leased"
  by (cases out) (auto simp: settledAs_def)

lemma processRows_quiet:
  assumes "\<And>i. wo_others wo i = quiet" "ledger_inv s" "distinct (map in_id rows)" "set rows \<subseteq> set (a_intents s)"
    and "\<forall>r \<in> set rows. in_state r = I_leased"
  shows "\<exists>rep fs t. processRows P wo i now rows report s = ((rep, None), t) \<and> reportsRows report fs rep \<and> settledRows now rows fs \<and>
    ledger_inv t \<and> snd ` set fs \<subseteq> set (a_intents t) \<and> set (a_intents s) - set rows \<subseteq> set (a_intents t) \<and>
    (\<forall>r \<in> set (a_intents t). r \<in> set (a_intents s) \<and> r \<notin> set rows \<or> \<not> dueIntent now r)"
  using assms(2-5)
proof (induction rows arbitrary: i report s)
  case Nil
  then show ?case by (intro exI [of _ report] exI [of _ "[]"] exI [of _ s]) (simp add: reportsRows_def outcomes_def)
next
  case (Cons row rows)
  have row: "row \<in> set (a_intents s)" "ownedIntent (in_id row) (in_lease_owner row) row"
    using Cons.prems by (simp_all add: ownedIntent_def)
  from processRow_quiet [OF Cons.prems(1) row, of now P "wo_row_env wo i"]
  obtain out q t where t: "processArchaeologyPersistenceRow P (wo_row_env wo i) quiet row (in_lease_owner row) now s = ((out, None), t)"
    "settledAs out now row q" "a_intents t = updWhere (\<lambda>r. r = row) (\<lambda>_. q) (a_intents s)" "ledger_inv t"
    using settlesRow_ledger [OF _ Cons.prems(1)] by metis
  have "set rows \<subseteq> set (a_intents t)"
    using Cons.prems(2,3) unfolding t(3) set_updWhere by (force simp: image_iff)
  from Cons.IH [OF t(4) _ this, of "Suc i" "countOutcome out report"] Cons.prems(2,4)
  obtain rep fs u where u: "processRows P wo (Suc i) now rows (countOutcome out report) t = ((rep, None), u)"
    "reportsRows (countOutcome out report) fs rep" "settledRows now rows fs" "ledger_inv u" "snd ` set fs \<subseteq> set (a_intents u)"
    "set (a_intents t) - set rows \<subseteq> set (a_intents u)"
    "\<forall>r \<in> set (a_intents u). r \<in> set (a_intents t) \<and> r \<notin> set rows \<or> \<not> dueIntent now r"
    by auto
  have kept: "set (a_intents s) - {row} \<subseteq> set (a_intents t)" unfolding t(3) set_updWhere by (force simp: image_iff)
  have "q \<in> set (a_intents t)" using row(1) unfolding t(3) set_updWhere by (force simp: image_iff)
  moreover have "q \<notin> set rows" using settledAs_free [OF t(2)] Cons.prems(4) by auto
  ultimately have q: "q \<in> set (a_intents u)" using u(6) by blast
  have "r \<in> set (a_intents s) \<and> r \<notin> set (row # rows) \<or> \<not> dueIntent now r" if "r \<in> set (a_intents u)" for r
  proof (cases "dueIntent now r")
    case True
    with u(7) that have r: "r \<in> set (a_intents t)" "r \<notin> set rows" by blast+
    have "r \<noteq> q" using t(2) True by (auto simp: settledAs_def)
    with updWhere_replace_mem [OF r(1) [unfolded t(3)]] r(2) show ?thesis by auto
  qed simp
  moreover have "processRows P wo i now (row # rows) report s = ((rep, None), u)" using u(1) t(1) assms(1) by simp
  moreover have "reportsRows report ((out, q) # fs) rep" using u(2) by (simp add: reportsRows_def outcomes_def countOutcome_counts)
  moreover have "settledRows now (row # rows) ((out, q) # fs)" using t(2) u(3) by simp
  moreover have "snd ` set ((out, q) # fs) \<subseteq> set (a_intents u)" using q u(5) by simp
  moreover have "set (a_intents s) - set (row # rows) \<subseteq> set (a_intents u)" using kept u(6) by auto
  ultimately show ?case using u(4) by blast
qed

lemma recovered_due:
  "filter (dueIntent now) (updWhere (expiredLease now) (recoveredRow now) rows) = filter (dueIntent now) rows"
proof (induction rows)
  case (Cons r rows)
  have "\<not> dueIntent now (recoveredRow now r)"
    using retryDelay_pos [of "in_attempts r + 1"]
    by (simp add: recoveredRow_def dueIntent_def stampedBy_iff Let_def)
  moreover have "\<not> dueIntent now r" if "expiredLease now r"
    using that by (simp add: expiredLease_def dueIntent_def)
  ultimately show ?case using Cons by (auto simp: updWhere_def)
qed (simp add: updWhere_def)

lemma dueRows_all:
  assumes "length (filter (dueIntent now) (a_intents s)) \<le> nat limit"
  shows "set (dueRows now limit s) = {r \<in> set (a_intents s). dueIntent now r}"
  using assms by (simp add: dueRows_def)

text \<open>What became of a leased row, read from the table.\<close>

definition endsAs :: "arch \<Rightarrow> intent_state \<Rightarrow> intent_row \<Rightarrow> bool" where
  "endsAs t st r \<longleftrightarrow> (\<exists>q \<in> set (a_intents t). in_id q = in_id r \<and> in_state q = st)"

definition settledIn :: "time \<Rightarrow> arch \<Rightarrow> intent_row \<Rightarrow> bool" where
  "settledIn now t r \<longleftrightarrow> (\<exists>q \<in> set (a_intents t). intentKeys q = intentKeys r \<and> \<not> dueIntent now q \<and>
     (in_state q \<in> {I_applied, I_superseded, I_blocked} \<or> in_state q = I_pending \<and> in_attempts q = in_attempts r + 1))"

lemma length_filter_all2:
  "list_all2 R xs ys \<Longrightarrow> (\<And>x y. x \<in> set xs \<Longrightarrow> y \<in> set ys \<Longrightarrow> R x y \<Longrightarrow> P x \<longleftrightarrow> Q y) \<Longrightarrow> length (filter P xs) = length (filter Q ys)"
  by (induction rule: list_all2_induct) auto

lemma intentKeys_id: "intentKeys q = intentKeys r \<Longrightarrow> in_id q = in_id r"
  by (simp add: intentKeys_def)

lemma endsAs_settled:
  assumes "settledAs out now row q" "q \<in> set (a_intents t)" "ledger_inv t"
  shows "endsAs t I_applied row \<longleftrightarrow> out = persistenceReadbackApplied" "endsAs t I_superseded row \<longleftrightarrow> out = persistenceReadbackSuperseded"
proof -
  have "intentKeys q = intentKeys row" using assms(1) by (simp add: settledAs_def)
  then have "in_id q = in_id row" by (rule intentKeys_id)
  then have "endsAs t st row \<longleftrightarrow> in_state q = st" for st
    unfolding endsAs_def using distinct_key_eq [OF ledger_inv_distinct [OF assms(3)] _ assms(2)] assms(2) by metis
  then show "endsAs t I_applied row \<longleftrightarrow> out = persistenceReadbackApplied" "endsAs t I_superseded row \<longleftrightarrow> out = persistenceReadbackSuperseded"
    using assms(1) by (cases out; auto simp: settledAs_def)+
qed

lemma settledRows_settled:
  assumes "settledRows now rows fs" "snd ` set fs \<subseteq> set (a_intents t)" "r \<in> set rows"
  shows "settledIn now t r"
proof -
  obtain k where k: "k < length rows" "rows ! k = r" using assms(3) by (auto simp: in_set_conv_nth)
  then have q: "settledAs (fst (fs ! k)) now r (snd (fs ! k))" using list_all2_nthD [OF assms(1) k(1)] by (simp add: split_def)
  have "fs ! k \<in> set fs" using k(1) list_all2_lengthD [OF assms(1)] by simp
  then have "snd (fs ! k) \<in> set (a_intents t)" using assms(2) by (simp add: image_subset_iff)
  with q show ?thesis by (cases "fst (fs ! k)") (auto simp: settledIn_def settledAs_def)
qed

lemma settledRows_counted:
  assumes "settledRows now rows fs" "snd ` set fs \<subseteq> set (a_intents t)" "ledger_inv t"
  shows "length (filter (endsAs t I_applied) rows) = outcomes persistenceReadbackApplied fs"
    "length (filter (endsAs t I_superseded) rows) = outcomes persistenceReadbackSuperseded fs"
proof -
  have ends: "endsAs t I_applied r \<longleftrightarrow> fst f = persistenceReadbackApplied" "endsAs t I_superseded r \<longleftrightarrow> fst f = persistenceReadbackSuperseded"
    if "f \<in> set fs" "case f of (out, q) \<Rightarrow> settledAs out now r q" for f r
  proof -
    have "settledAs (fst f) now r (snd f)" using that(2) by (simp add: split_def)
    moreover have "snd f \<in> set (a_intents t)" using that(1) assms(2) by (simp add: image_subset_iff)
    ultimately show "endsAs t I_applied r \<longleftrightarrow> fst f = persistenceReadbackApplied" "endsAs t I_superseded r \<longleftrightarrow> fst f = persistenceReadbackSuperseded"
      using endsAs_settled [OF _ _ assms(3)] by blast+
  qed
  show "length (filter (endsAs t I_applied) rows) = outcomes persistenceReadbackApplied fs"
    unfolding outcomes_def by (rule length_filter_all2 [OF assms(1)]) (rule ends(1))
  show "length (filter (endsAs t I_superseded) rows) = outcomes persistenceReadbackSuperseded fs"
    unfolding outcomes_def by (rule length_filter_all2 [OF assms(1)]) (rule ends(2))
qed

lemma leased_ends: "endsAs t st (leaseRow owner now r) = endsAs t st r" "settledIn now' t (leaseRow owner now r) = settledIn now' t r"
  by (simp_all add: endsAs_def settledIn_def leaseRow_def intentKeys_def)

text \<open>A run of a retry: the rows that are due are leased by one owner and processed, and no other row becomes due.\<close>

lemma retry_run:
  fixes s :: arch and wo :: world and limits :: "int list"
  assumes "ledger_inv s" and "\<And>i. wo_others wo i = quiet"
  defines "now \<equiv> env_now (wo_env wo)"
  defines "cs \<equiv> dueRows now (retryLimit limits) s"
  obtains rep fs t owner where "RetryArchaeologyNativePersistence P wo limits s = ((rep, None), t)"
    "reportsRows \<lparr>rr_Leased = length cs, rr_Processed = 0, rr_Applied = 0, rr_Superseded = 0, rr_Retried = 0, rr_Blocked = 0\<rparr> fs rep"
    "settledRows now (map (leaseRow owner now) cs) fs" "ledger_inv t" "snd ` set fs \<subseteq> set (a_intents t)"
    "\<And>r. r \<in> set (a_intents t) \<Longrightarrow> dueIntent now r \<Longrightarrow> r \<in> set (a_intents s) \<and> r \<notin> set cs"
proof -
  let ?o = "newID (wo_env wo) 0 ''ARPI-''" and ?k = "retryLimit limits"
  define u where "u = recoverExpiredArchaeologyPersistenceLeases now s"
  have inv: "ledger_inv u"
    using ledger_step_grows [OF ledger_step.recover [OF u_def [symmetric]] assms(1)] by (simp add: ledgerGrows_def)
  have due: "filter (dueIntent now) (a_intents u) = filter (dueIntent now) (a_intents s)"
    by (simp add: u_def recoverExpired_eq [OF ledger_inv_distinct [OF assms(1)]] recovered_due)
  then have cs: "cs = dueRows now ?k u" by (simp add: cs_def dueRows_def)
  define v where "v = updIntents (\<lambda>r. r \<in> set cs) (leaseRow ?o now) u"
  note C = dueRows_props [OF ledger_inv_distinct [OF inv], of now ?k, folded cs]
  have "1 \<le> ?k" by (simp add: retryLimit_def archaeologyPersistenceMaxRows_def Let_def)
  then have lease: "leaseDueArchaeologyPersistence (wo_env wo) now ?k u = (map (leaseRow ?o now) cs, v)"
    unfolding v_def cs by (rule leaseDue_eq [OF ledger_inv_distinct [OF inv]]) (simp add: exhausted_none [OF inv])
  have "ledger_inv v"
    using leaseDue_grows [OF inv, of "wo_env wo" now ?k] unfolding lease by (simp add: ledgerGrows_def)
  moreover have "distinct (map in_id (map (leaseRow ?o now) cs))" using C(2) by (simp add: comp_def)
  moreover have "set (map (leaseRow ?o now) cs) \<subseteq> set (a_intents v)"
    using C(1) by (auto simp: v_def set_updWhere image_iff)
  ultimately obtain rep fs t where t:
    "processRows P wo 0 now (map (leaseRow ?o now) cs) \<lparr>rr_Leased = length cs, rr_Processed = 0, rr_Applied = 0,
       rr_Superseded = 0, rr_Retried = 0, rr_Blocked = 0\<rparr> v = ((rep, None), t)"
    "reportsRows \<lparr>rr_Leased = length cs, rr_Processed = 0, rr_Applied = 0, rr_Superseded = 0, rr_Retried = 0, rr_Blocked = 0\<rparr> fs rep"
    "settledRows now (map (leaseRow ?o now) cs) fs" "ledger_inv t" "snd ` set fs \<subseteq> set (a_intents t)"
    "\<forall>r \<in> set (a_intents t). r \<in> set (a_intents v) \<and> r \<notin> set (map (leaseRow ?o now) cs) \<or> \<not> dueIntent now r"
    using processRows_quiet [OF assms(2), of v "map (leaseRow ?o now) cs" P 0 now "\<lparr>rr_Leased = length cs,
      rr_Processed = 0, rr_Applied = 0, rr_Superseded = 0, rr_Retried = 0, rr_Blocked = 0\<rparr>"]
    by auto
  have "RetryArchaeologyNativePersistence P wo limits s = ((rep, None), t)"
    using t(1) lease by (simp add: RetryArchaeologyNativePersistence_def Let_def assms(2) now_def u_def)
  moreover have "r \<in> set (a_intents s) \<and> r \<notin> set cs" if "r \<in> set (a_intents t)" "dueIntent now r" for r
  proof -
    have "r \<in> set (a_intents v)" using t(6) that by blast
    then have "r \<in> set (a_intents u)" "r \<notin> set cs" using that(2) by (auto simp: v_def set_updWhere split: if_splits)
    moreover have "r \<in> set (filter (dueIntent now) (a_intents s))" using calculation(1) that(2) unfolding due [symmetric] by simp
    ultimately show ?thesis by simp
  qed
  ultimately show ?thesis using that t(2-5) by blast
qed

text \<open>
  Property C23. A retry that runs without other writers returns without an error. It leases the
  intents that are due, in their order and at most the limit of the call (32 at most) of them.
  Afterwards the row of each of them is applied, superseded or blocked, or it is pending
  again with one more attempt and not due; the report counts them, and counts as applied and as
  superseded exactly the rows that ended so. If no more intents were due than the limit, none is due afterwards.
\<close>

theorem retry_settles_due:
  assumes "persist_reachable L s" and "\<And>i. wo_others wo i = (\<lambda>_ s. s)"
  shows "\<exists>rep t. RetryArchaeologyNativePersistence P wo limits s = ((rep, None), t) \<and>
    rr_Leased rep = length (dueRows (env_now (wo_env wo)) (retryLimit limits) s) \<and> rr_Processed rep = rr_Leased rep \<and>
    (\<forall>r \<in> set (dueRows (env_now (wo_env wo)) (retryLimit limits) s). settledIn (env_now (wo_env wo)) t r) \<and>
    rr_Applied rep = length (filter (endsAs t I_applied) (dueRows (env_now (wo_env wo)) (retryLimit limits) s)) \<and>
    rr_Superseded rep = length (filter (endsAs t I_superseded) (dueRows (env_now (wo_env wo)) (retryLimit limits) s)) \<and>
    rr_Applied rep + rr_Superseded rep + rr_Retried rep + rr_Blocked rep = rr_Leased rep \<and>
    (length (filter (dueIntent (env_now (wo_env wo))) (a_intents s)) \<le> nat (retryLimit limits) \<longrightarrow>
       rr_Leased rep = length (filter (dueIntent (env_now (wo_env wo))) (a_intents s)) \<and>
       (\<forall>r \<in> set (a_intents t). \<not> dueIntent (env_now (wo_env wo)) r))"
proof -
  let ?now = "env_now (wo_env wo)" and ?k = "retryLimit limits"
  let ?cs = "dueRows ?now ?k s"
  obtain rep fs t owner where t: "RetryArchaeologyNativePersistence P wo limits s = ((rep, None), t)"
    "reportsRows \<lparr>rr_Leased = length ?cs, rr_Processed = 0, rr_Applied = 0, rr_Superseded = 0, rr_Retried = 0, rr_Blocked = 0\<rparr> fs rep"
    "settledRows ?now (map (leaseRow owner ?now) ?cs) fs" "ledger_inv t" "snd ` set fs \<subseteq> set (a_intents t)"
    "\<And>r. r \<in> set (a_intents t) \<Longrightarrow> dueIntent ?now r \<Longrightarrow> r \<in> set (a_intents s) \<and> r \<notin> set ?cs"
    by (rule retry_run [where P = P and limits = limits, OF persist_reachable_ledger [OF assms(1)] assms(2)]) (rule that)
  have size: "length fs = length ?cs" using list_all2_lengthD [OF t(3)] by simp
  have settled: "settledIn ?now t r" if "r \<in> set ?cs" for r
    using settledRows_settled [OF t(3,5), of "leaseRow owner ?now r"] that by (simp add: leased_ends)
  have counted: "rr_Applied rep = length (filter (endsAs t I_applied) ?cs)" "rr_Superseded rep = length (filter (endsAs t I_superseded) ?cs)"
    using t(2) settledRows_counted [OF t(3,5,4)] by (simp_all add: reportsRows_def filter_map comp_def leased_ends)
  have none: "\<not> dueIntent ?now r" if "length (filter (dueIntent ?now) (a_intents s)) \<le> nat ?k" "r \<in> set (a_intents t)" for r
    using t(6) [OF that(2)] dueRows_all [OF that(1)] by blast
  have len: "length ?cs = length (filter (dueIntent ?now) (a_intents s))"
    if "length (filter (dueIntent ?now) (a_intents s)) \<le> nat ?k" using that by (simp add: dueRows_def)
  have sums: "rr_Leased rep = length ?cs" "rr_Processed rep = rr_Leased rep"
    "rr_Applied rep + rr_Superseded rep + rr_Retried rep + rr_Blocked rep = rr_Leased rep"
    using t(2) size by (simp_all add: reportsRows_def reportSum_def)
  show ?thesis
    by (intro exI [of _ rep] exI [of _ t] conjI impI ballI t(1) settled counted none sums) (simp_all add: sums(1) len)
qed

section \<open>Witnesses\<close>

text \<open>
  The claimed job of \<open>Archaeology_Demo\<close>: the intent to bind its identity is recorded and
  retried; or an intent to activate it under another thread is recorded and applied.
\<close>

definition demo_job :: gostring where
  "demo_job = ''ARJ-ARB-AR-u3c''"

definition demo_world :: "nat \<Rightarrow> world" where
  "demo_world n = \<lparr>wo_env = arch_demo_env n, wo_row_env = (\<lambda>_. arch_demo_env n), wo_others = (\<lambda>_ _ s. s)\<rparr>"

definition ae5 :: arch where
  "ae5 = snd (EnsureArchaeologyNativePersistenceIntent arch_demo_lib tinyJSON (arch_demo_env 5) quiet (demo_intent demo_job) ad4)"

definition ae6 :: arch where
  "ae6 = snd (RetryArchaeologyNativePersistence tinyJSON (demo_world 6) [] ae5)"

definition demo_wrong_thread :: ArchaeologyNativePersistenceIntent where
  "demo_wrong_thread = (demo_intent demo_job)\<lparr>pi_Operation := op_activate, pi_CodexSessionID := '''', pi_ThreadID := ''zz''\<rparr>"

definition ab6 :: arch where
  "ab6 = snd (EnsureArchaeologyNativePersistenceIntent arch_demo_lib tinyJSON (arch_demo_env 6) quiet demo_wrong_thread ad5)"

definition ab7 :: arch where
  "ab7 = snd (ApplyArchaeologyNativePersistenceIntent tinyJSON (arch_demo_env 7) (arch_demo_env 7) quiet
     (in_id (hd (a_intents ab6))) ab6)"

declare stampedBy_iff [code]

lemma demo_intents:
  "a_intents ad1 = []" "a_intents ad2 = []" "a_intents ad3 = []" "a_intents ad4 = []" "a_intents ad5 = []"
  by code_simp+

lemma demo_persist:
  "persist_reachable arch_demo_lib ad4" "persist_reachable arch_demo_lib ad5"
proof -
  have 1: "persist_reachable arch_demo_lib ad1"
    by (rule native_step [OF demo_run(1)]) (simp add: demo_intents empty_arch_def)
  have 2: "persist_steps arch_demo_lib ad1 ad2" "persist_steps arch_demo_lib ad2 ad3"
    "persist_steps arch_demo_lib ad3 ad4" "persist_steps arch_demo_lib ad4 ad5"
    by (rule native_step [OF demo_run(2)] native_step [OF demo_run(3)] native_step [OF demo_run(4)]
        native_step [OF demo_run(5)], simp add: demo_intents)+
  show "persist_reachable arch_demo_lib ad4" "persist_reachable arch_demo_lib ad5"
    using 1 2 by (meson rtranclp_trans)+
qed

lemma demo_world_quiet: "interleaved arch_demo_lib (wo_others (demo_world n) i)" "wo_others (demo_world n) i = quiet"
  by (simp_all add: demo_world_def interleaved_quiet)

lemma demo_ledger:
  "persist_reachable arch_demo_lib ae5" "persist_steps arch_demo_lib ae5 ae6" "persist_reachable arch_demo_lib ab7"
proof -
  show "persist_reachable arch_demo_lib ae5"
    using demo_persist(1) ensure_steps [OF interleaved_quiet] unfolding ae5_def by (rule rtranclp_trans)
  show "persist_steps arch_demo_lib ae5 ae6" unfolding ae6_def by (rule retry_steps) (rule demo_world_quiet)
  have "persist_reachable arch_demo_lib ab6"
    using demo_persist(2) ensure_steps [OF interleaved_quiet] unfolding ab6_def by (rule rtranclp_trans)
  then show "persist_reachable arch_demo_lib ab7"
    using apply_steps [OF interleaved_quiet] unfolding ab7_def by (rule rtranclp_trans)
qed

lemma demo_bound: "applyArchaeologyPersistenceMutation (arch_demo_env 5) (demo_intent demo_job) ad4 ad4 = (Inr (), ad5)"
  by (simp add: applyArchaeologyPersistenceMutation_def demo_intent_def demo_job_def ad5_def prod_eq_iff) code_simp

lemma demo_job_canonical:
  "canonicalArchaeologyNativePersistence tinyJSON (demo_intent demo_job) = Inr (op_bind_identity, demo_payload, demo_payload)"
  by code_simp

lemma ae5_intents:
  "a_intents ae5 = [pendingIntent (''ARPI-'' @ demo_job @ op_bind_identity) demo_job op_bind_identity demo_payload demo_payload 500]"
  by code_simp

theorem ledger_history_witness:
  "\<exists>q \<in> set (a_intents ae6). in_id q = ''ARPI-'' @ demo_job @ op_bind_identity \<and> in_attempts q \<le> 8"
proof -
  have "hd (a_intents ae5) \<in> set (a_intents ae5)" "in_id (hd (a_intents ae5)) = ''ARPI-'' @ demo_job @ op_bind_identity"
    by (simp_all add: ae5_intents pendingIntent_def)
  with ledger_history [OF demo_ledger(1,2), of "hd (a_intents ae5)"] show ?thesis by metis
qed

theorem retry_settles_due_witness:
  "\<exists>rep t. RetryArchaeologyNativePersistence tinyJSON (demo_world 6) [] ae5 = ((rep, None), t) \<and> rr_Processed rep = rr_Leased rep"
  using retry_settles_due [OF demo_ledger(1), of "demo_world 6" tinyJSON "[]"] demo_world_quiet(2) by blast

end
