(* ===== verification/Jobs_Types.thy ===== *)
theory Jobs_Types
  imports Commons_Prelude
begin

text \<open>
  The vocabulary of background jobs, \<^verbatim>\<open>src/internal/jobs/types.go\<close>: definitions (the authority
  envelope of a job), requests, receipts, and the interface of the state store as a record
  of its two operations. What an operation observes of its \<^verbatim>\<open>context.Context\<close> is the error
  that \<^verbatim>\<open>ctx.Err()\<close> returns there. Errors wrapped by \<^verbatim>\<open>fmt.Errorf\<close> are the error they wrap.
\<close>

type_synonym JobName = gostring
type_synonym Capability = gostring
type_synonym OutputType = gostring

definition GitHubWatcher :: JobName where "GitHubWatcher = ''github_watcher''"
definition WikiCurator :: JobName where "WikiCurator = ''wiki_curator''"
definition CapabilityGitHubRead :: Capability where "CapabilityGitHubRead = ''github.read''"
definition CapabilityInterpret :: Capability where "CapabilityInterpret = ''model.interpret''"
definition CapabilityWikiPropose :: Capability where "CapabilityWikiPropose = ''wiki.propose''"
definition CapabilityCreateJobs :: Capability where "CapabilityCreateJobs = ''jobs.create''"
definition CapabilityWakeAgents :: Capability where "CapabilityWakeAgents = ''agents.wake''"
definition OutputSyncReceipt :: OutputType where "OutputSyncReceipt = ''sync_receipt''"
definition OutputWikiRevisionProposal :: OutputType where "OutputWikiRevisionProposal = ''wiki_revision_proposal''"
definition watcherInputScope :: gostring where "watcherInputScope = ''one project and one upstream cursor''"
definition curatorInputScope :: gostring where "curatorInputScope = ''one resolved task and its bounded resolution evidence''"

lemmas job_constants = GitHubWatcher_def WikiCurator_def CapabilityGitHubRead_def CapabilityInterpret_def
  CapabilityWikiPropose_def CapabilityCreateJobs_def CapabilityWakeAgents_def OutputSyncReceipt_def
  OutputWikiRevisionProposal_def watcherInputScope_def curatorInputScope_def

text \<open>
  \<open>NilDereference\<close> stands for the panic of a nil pointer; \<open>ErrOther\<close> for any error of a
  reader, an interpreter or the JSON encoder that is none of the errors the package names.
\<close>

datatype job_error =
    ErrInvalidDefinition | ErrInvalidInput | ErrDisabled | ErrCapability | ErrBudget | ErrAlreadyRunning
  | ErrTooSoon | ErrIdempotencyConflict
  | ContextCanceled | DeadlineExceeded | ErrOther | NilDereference

record Definition =
  df_Name :: JobName
  df_InputScope :: gostring
  df_Capabilities :: "Capability list"
  df_MaxWallRuntime :: duration
  df_TokenBudget :: int
  df_MinimumInterval :: duration
  df_AllowedOutput :: OutputType

fun validCapabilities :: "Capability set \<Rightarrow> Capability list \<Rightarrow> bool" where
  "validCapabilities seen [] = True"
| "validCapabilities seen (c # cs) =
     (if c = '''' \<or> c \<in> seen \<or> c = CapabilityCreateJobs \<or> c = CapabilityWakeAgents then False
      else validCapabilities (insert c seen) cs)"

definition Validate :: "Definition \<Rightarrow> job_error + unit" where
  "Validate d =
     (if df_Name d = '''' \<or> df_InputScope d = '''' \<or> df_MaxWallRuntime d \<le> 0 \<or> df_TokenBudget d < 0 \<or>
         df_MinimumInterval d < 0 \<or> df_AllowedOutput d = '''' then Inl ErrInvalidDefinition
      else requireE (validCapabilities {} (df_Capabilities d)) ErrInvalidDefinition)"

definition WatcherDefinition :: "duration \<Rightarrow> duration \<Rightarrow> Definition" where
  "WatcherDefinition minimumInterval maxRuntime =
     \<lparr>df_Name = GitHubWatcher, df_InputScope = watcherInputScope, df_Capabilities = [CapabilityGitHubRead],
      df_MaxWallRuntime = maxRuntime, df_TokenBudget = 0, df_MinimumInterval = minimumInterval,
      df_AllowedOutput = OutputSyncReceipt\<rparr>"

definition CuratorDefinition :: "duration \<Rightarrow> duration \<Rightarrow> int \<Rightarrow> Definition" where
  "CuratorDefinition minimumInterval maxRuntime tokenBudget =
     \<lparr>df_Name = WikiCurator, df_InputScope = curatorInputScope,
      df_Capabilities = [CapabilityInterpret, CapabilityWikiPropose],
      df_MaxWallRuntime = maxRuntime, df_TokenBudget = tokenBudget, df_MinimumInterval = minimumInterval,
      df_AllowedOutput = OutputWikiRevisionProposal\<rparr>"

record WatchInput =
  wi_Project :: gostring
  wi_Cursor :: gostring

record ResolvedTask =
  rt_Project :: gostring
  rt_TaskID :: gostring
  rt_State :: gostring
  rt_ResolutionRevision :: int
  rt_Title :: gostring
  rt_Resolution :: gostring
  rt_Evidence :: "gostring list"

record RunRequest =
  rr_RunID :: gostring
  rr_Job :: JobName
  rr_Watch :: "WatchInput option"
  rr_Resolved :: "ResolvedTask option"

record WikiProposal =
  wp_Project :: gostring
  wp_TaskID :: gostring
  wp_Page :: gostring
  wp_BaseRevision :: int
  wp_ProposedTitle :: gostring
  wp_ProposedBody :: gostring
  wp_Basis :: gostring
  wp_RequiresReview :: bool

record Receipt =
  rc_RunID :: gostring
  rc_Job :: JobName
  rc_Status :: gostring
  rc_OutputType :: OutputType
  rc_StartedAt :: time
  rc_FinishedAt :: time
  rc_Cursor :: gostring
  rc_Changed :: bool
  rc_TokensUsed :: int
  rc_Error :: gostring
  rc_Proposal :: "WikiProposal option"

record SyncResult =
  sr_Cursor :: gostring
  sr_Changed :: bool

record AcquireResult =
  aq_Acquired :: bool
  aq_Existing :: "Receipt option"

text \<open>
  The interface \<^verbatim>\<open>StateStore\<close> over a state of type \<open>'s\<close>. The first argument of \<open>Acquire\<close> is
  the error of the context there; \<open>Finish\<close> is called with a context that is never cancelled.
\<close>

record 's StateStore =
  st_Acquire :: "job_error option \<Rightarrow> Definition \<Rightarrow> gostring \<Rightarrow> gostring \<Rightarrow> time \<Rightarrow> time \<Rightarrow> 's \<Rightarrow> (job_error + AcquireResult) \<times> 's"
  st_Finish :: "Receipt \<Rightarrow> 's \<Rightarrow> (job_error + unit) \<times> 's"

lemma validCapabilities_iff:
  "validCapabilities seen cs \<longleftrightarrow>
     distinct cs \<and> set cs \<inter> (seen \<union> {'''', CapabilityCreateJobs, CapabilityWakeAgents}) = {}"
  by (induction seen cs rule: validCapabilities.induct) auto

end
