(* ===== verification/Jobs_Store.thy ===== *)
theory Jobs_Store
  imports Jobs_Types
begin

text \<open>
  The state store of background jobs: the contract that the comment on \<^verbatim>\<open>StateStore\<close> asks of
  every implementation (acquisition atomically enforces the lease, the interval and the
  idempotency of completed runs) as a locale, the implementation \<^verbatim>\<open>MemoryStore\<close> of
  \<^verbatim>\<open>src/internal/jobs/memory_store.go\<close>, and the proof that it meets the contract. A Go map is
  a partial function; the mutex makes each method one atomic step.
\<close>

section \<open>The memory store\<close>

record lease =
  ls_runID :: gostring
  ls_until :: time

record MemoryStore =
  ms_active :: "JobName \<Rightarrow> lease option"
  ms_lastStart :: "JobName \<Rightarrow> time option"
  ms_bindings :: "gostring \<Rightarrow> gostring option"
  ms_completed :: "gostring \<Rightarrow> Receipt option"

definition NewMemoryStore :: MemoryStore where
  "NewMemoryStore = \<lparr>ms_active = Map.empty, ms_lastStart = Map.empty, ms_bindings = Map.empty, ms_completed = Map.empty\<rparr>"

definition runKey :: "JobName \<Rightarrow> gostring \<Rightarrow> gostring" where
  "runKey job runID = job @ [CHR 0x00] @ runID"

definition memoryAcquire ::
  "job_error option \<Rightarrow> Definition \<Rightarrow> gostring \<Rightarrow> gostring \<Rightarrow> time \<Rightarrow> time \<Rightarrow> MemoryStore \<Rightarrow>
     (job_error + AcquireResult) \<times> MemoryStore" where
  "memoryAcquire ctxErr d runID inputDigest now leaseUntil s =
     (case ctxErr of Some err \<Rightarrow> (Inl err, s)
      | None \<Rightarrow>
        let job = df_Name d; key = runKey job runID in
        if (case ms_bindings s key of None \<Rightarrow> False | Some bound \<Rightarrow> bound \<noteq> inputDigest)
        then (Inl ErrIdempotencyConflict, s)
        else case ms_completed s key of
          Some receipt \<Rightarrow> (Inr \<lparr>aq_Acquired = False, aq_Existing = Some receipt\<rparr>, s)
        | None \<Rightarrow>
            if (case ms_active s job of None \<Rightarrow> False | Some current \<Rightarrow> now < ls_until current)
            then (Inl ErrAlreadyRunning, s)
            else if (case ms_lastStart s job of None \<Rightarrow> False | Some prev \<Rightarrow> now < prev + df_MinimumInterval d)
            then (Inl ErrTooSoon, s)
            else (Inr \<lparr>aq_Acquired = True, aq_Existing = None\<rparr>,
              s\<lparr>ms_bindings := (ms_bindings s)(key \<mapsto> inputDigest),
                ms_active := (ms_active s)(job \<mapsto> \<lparr>ls_runID = runID, ls_until = leaseUntil\<rparr>),
                ms_lastStart := (ms_lastStart s)(job \<mapsto> now)\<rparr>))"

definition memoryFinish :: "Receipt \<Rightarrow> MemoryStore \<Rightarrow> (job_error + unit) \<times> MemoryStore" where
  "memoryFinish receipt s =
     (let key = runKey (rc_Job receipt) (rc_RunID receipt) in
      case ms_completed s key of
        Some existing \<Rightarrow> if existing = receipt then (Inr (), s) else (Inl ErrInvalidInput, s)
      | None \<Rightarrow>
          (case ms_active s (rc_Job receipt) of
             None \<Rightarrow> (Inl ErrAlreadyRunning, s)
           | Some current \<Rightarrow>
               if ls_runID current \<noteq> rc_RunID receipt then (Inl ErrAlreadyRunning, s)
               else (Inr (), s\<lparr>ms_completed := (ms_completed s)(key \<mapsto> receipt),
                               ms_active := (ms_active s)(rc_Job receipt := None)\<rparr>)))"

definition memory_store :: "MemoryStore StateStore" where
  "memory_store = \<lparr>st_Acquire = memoryAcquire, st_Finish = memoryFinish\<rparr>"

section \<open>The contract of a state store\<close>

text \<open>
  Names of jobs contain no NUL byte, so a job and a run have a key of their own. The views
  \<open>binding\<close>, \<open>completed\<close>, \<open>holder\<close> and \<open>lastStart\<close> say what a state knows of a run and of a
  job; \<open>inv\<close> is the invariant of the implementation.
\<close>

definition plainName :: "JobName \<Rightarrow> bool" where
  "plainName job \<longleftrightarrow> CHR 0x00 \<notin> set job"

text \<open>Steps of a store that is used for jobs with plain names only.\<close>

inductive store_step :: "'s StateStore \<Rightarrow> 's \<Rightarrow> 's \<Rightarrow> bool" for S where
  acquire: "plainName (df_Name d) \<Longrightarrow> snd (st_Acquire S c d run dg now until s) = t \<Longrightarrow> store_step S s t"
| finish: "plainName (rc_Job r) \<Longrightarrow> snd (st_Finish S r s) = t \<Longrightarrow> store_step S s t"

locale state_store =
  fixes S :: "'s StateStore"
    and inv :: "'s \<Rightarrow> bool"
    and binding :: "'s \<Rightarrow> JobName \<times> gostring \<Rightarrow> gostring option"
    and completed :: "'s \<Rightarrow> JobName \<times> gostring \<Rightarrow> Receipt option"
    and holder :: "'s \<Rightarrow> JobName \<Rightarrow> lease option"
    and lastStart :: "'s \<Rightarrow> JobName \<Rightarrow> time option"
  assumes acquired: "inv s \<Longrightarrow> plainName (df_Name d) \<Longrightarrow>
      st_Acquire S None d run dg now until s = (Inr a, t) \<Longrightarrow> aq_Acquired a \<Longrightarrow>
      completed s (df_Name d, run) = None \<and> binding s (df_Name d, run) \<in> {None, Some dg} \<and>
      (\<forall>l. holder s (df_Name d) = Some l \<longrightarrow> ls_until l \<le> now) \<and>
      (\<forall>p. lastStart s (df_Name d) = Some p \<longrightarrow> p + df_MinimumInterval d \<le> now) \<and>
      inv t \<and> aq_Existing a = None \<and>
      binding t = (binding s)((df_Name d, run) \<mapsto> dg) \<and> completed t = completed s \<and>
      holder t = (holder s)(df_Name d \<mapsto> \<lparr>ls_runID = run, ls_until = until\<rparr>) \<and>
      lastStart t = (lastStart s)(df_Name d \<mapsto> now)"
    and not_acquired: "inv s \<Longrightarrow> plainName (df_Name d) \<Longrightarrow>
      st_Acquire S c d run dg now until s = (res, t) \<Longrightarrow> \<forall>a. res = Inr a \<longrightarrow> \<not> aq_Acquired a \<Longrightarrow>
      t = s \<and> (\<forall>a. res = Inr a \<longrightarrow> c = None \<and> aq_Existing a \<noteq> None \<and>
        aq_Existing a = completed s (df_Name d, run) \<and> binding s (df_Name d, run) \<in> {None, Some dg})"
    and acquire_context: "st_Acquire S (Some err) d run dg now until s = (Inl err, s)"
    and replayed: "inv s \<Longrightarrow> plainName (df_Name d) \<Longrightarrow> completed s (df_Name d, run) = Some r \<Longrightarrow>
      binding s (df_Name d, run) = Some dg \<Longrightarrow>
      st_Acquire S None d run dg now until s = (Inr \<lparr>aq_Acquired = False, aq_Existing = Some r\<rparr>, s)"
    and finished: "inv s \<Longrightarrow> plainName (rc_Job r) \<Longrightarrow> st_Finish S r s = (Inr (), t) \<Longrightarrow>
      inv t \<and> completed t (rc_Job r, rc_RunID r) = Some r \<and> binding t = binding s \<and> lastStart t = lastStart s \<and>
      (completed s (rc_Job r, rc_RunID r) = Some r \<and> t = s \<or>
       completed s (rc_Job r, rc_RunID r) = None \<and>
       completed t = (completed s)((rc_Job r, rc_RunID r) \<mapsto> r) \<and>
       (\<exists>l. holder s (rc_Job r) = Some l \<and> ls_runID l = rc_RunID r) \<and> holder t = (holder s)(rc_Job r := None))"
    and not_finished: "st_Finish S r s = (Inl err, t) \<Longrightarrow> t = s"
    and finishes: "inv s \<Longrightarrow> plainName (rc_Job r) \<Longrightarrow> completed s (rc_Job r, rc_RunID r) = None \<Longrightarrow>
      holder s (rc_Job r) = Some l \<Longrightarrow> ls_runID l = rc_RunID r \<Longrightarrow> fst (st_Finish S r s) = Inr ()"
    and bound: "inv s \<Longrightarrow> completed s k \<noteq> None \<Longrightarrow> plainName (fst k) \<Longrightarrow> binding s k \<noteq> None"
begin

lemma acquire_cases:
  assumes "inv s" "plainName (df_Name d)" "st_Acquire S c d run dg now until s = (res, t)"
  obtains (granted) a where "c = None" "res = Inr a" "aq_Acquired a"
  | (kept) "t = s"
proof (cases "\<exists>a. res = Inr a \<and> aq_Acquired a")
  case True
  then obtain a where a: "res = Inr a" "aq_Acquired a" by blast
  show ?thesis
  proof (cases c)
    case None
    then show ?thesis using granted a by blast
  next
    case (Some err)
    with assms(3) acquire_context [of err d run dg now until s] a show ?thesis by simp
  qed
next
  case False
  then show ?thesis using kept not_acquired [OF assms] by blast
qed

lemma store_step_keeps:
  assumes "inv s" "store_step S s t"
  shows "inv t \<and> (\<forall>k r. completed s k = Some r \<longrightarrow> completed t k = Some r) \<and>
    (\<forall>k dg. binding s k = Some dg \<longrightarrow> binding t k = Some dg)"
  using assms(2)
proof cases
  case (acquire d c run dg now until)
  obtain res where res: "st_Acquire S c d run dg now until s = (res, t)"
    using acquire(2) by (metis prod.collapse)
  from assms(1) acquire(1) res show ?thesis
  proof (cases rule: acquire_cases)
    case (granted a)
    with res have "st_Acquire S None d run dg now until s = (Inr a, t)" by simp
    from acquired [OF assms(1) acquire(1) this granted(3)] show ?thesis by auto
  qed (use assms(1) in simp)
next
  case (finish r)
  show ?thesis
  proof (cases "fst (st_Finish S r s)")
    case (Inl err)
    with finish(2) not_finished [of r s err t] assms(1) show ?thesis by (metis prod.collapse)
  next
    case (Inr u)
    then have "st_Finish S r s = (Inr (), t)" using finish(2) by (simp add: prod_eq_iff)
    from finished [OF assms(1) finish(1) this] show ?thesis by auto
  qed
qed

end

section \<open>The memory store meets the contract\<close>

lemma runKey_inj: "plainName a \<Longrightarrow> plainName b \<Longrightarrow> runKey a r = runKey b q \<longleftrightarrow> a = b \<and> r = q"
  by (auto simp: runKey_def plainName_def append_eq_append_conv2 append_eq_Cons_conv Cons_eq_append_conv)

definition memory_inv :: "MemoryStore \<Rightarrow> bool" where
  "memory_inv s \<longleftrightarrow> (\<forall>k. ms_completed s k \<noteq> None \<longrightarrow> ms_bindings s k \<noteq> None) \<and>
     (\<forall>job l. plainName job \<longrightarrow> ms_active s job = Some l \<longrightarrow>
        ms_bindings s (runKey job (ls_runID l)) \<noteq> None \<and> ms_completed s (runKey job (ls_runID l)) = None \<and>
        ms_lastStart s job \<noteq> None) \<and>
     (\<forall>job. \<not> plainName job \<longrightarrow> ms_active s job = None)"

definition memory_binding :: "MemoryStore \<Rightarrow> JobName \<times> gostring \<Rightarrow> gostring option" where
  "memory_binding s k = (if plainName (fst k) then ms_bindings s (runKey (fst k) (snd k)) else None)"

definition memory_completed :: "MemoryStore \<Rightarrow> JobName \<times> gostring \<Rightarrow> Receipt option" where
  "memory_completed s k = (if plainName (fst k) then ms_completed s (runKey (fst k) (snd k)) else None)"

lemmas memory_views = memory_binding_def memory_completed_def

lemma memory_inv_new: "memory_inv NewMemoryStore"
  by (simp add: memory_inv_def NewMemoryStore_def)

lemma memory_store_simps [simp]: "st_Acquire memory_store = memoryAcquire" "st_Finish memory_store = memoryFinish"
  by (simp_all add: memory_store_def)

text \<open>A granted acquisition, as a state and as a condition.\<close>

definition granted :: "Definition \<Rightarrow> gostring \<Rightarrow> gostring \<Rightarrow> time \<Rightarrow> time \<Rightarrow> MemoryStore \<Rightarrow> MemoryStore" where
  "granted d run dg now until s =
     s\<lparr>ms_bindings := (ms_bindings s)(runKey (df_Name d) run \<mapsto> dg),
       ms_active := (ms_active s)(df_Name d \<mapsto> \<lparr>ls_runID = run, ls_until = until\<rparr>),
       ms_lastStart := (ms_lastStart s)(df_Name d \<mapsto> now)\<rparr>"

lemma memoryAcquire_granted:
  assumes "memoryAcquire c d run dg now until s = (Inr a, t)" "aq_Acquired a"
  shows "c = None" "aq_Existing a = None" "ms_completed s (runKey (df_Name d) run) = None"
    "ms_bindings s (runKey (df_Name d) run) \<in> {None, Some dg}"
    "\<forall>l. ms_active s (df_Name d) = Some l \<longrightarrow> ls_until l \<le> now"
    "\<forall>p. ms_lastStart s (df_Name d) = Some p \<longrightarrow> p + df_MinimumInterval d \<le> now"
    "t = granted d run dg now until s"
  using assms by (auto simp: memoryAcquire_def Let_def granted_def split: option.splits if_splits)

lemma memory_inv_granted:
  assumes "memory_inv s" "plainName (df_Name d)" "ms_completed s (runKey (df_Name d) run) = None"
  shows "memory_inv (granted d run dg now until s)"
  using assms by (auto simp: memory_inv_def granted_def runKey_inj)

lemma memoryFinish_Inr:
  assumes "memoryFinish r s = (Inr (), t)"
  obtains (again) "t = s" "ms_completed s (runKey (rc_Job r) (rc_RunID r)) = Some r"
  | (first) l where "ms_completed s (runKey (rc_Job r) (rc_RunID r)) = None" "ms_active s (rc_Job r) = Some l"
      "ls_runID l = rc_RunID r"
      "t = s\<lparr>ms_completed := (ms_completed s)(runKey (rc_Job r) (rc_RunID r) \<mapsto> r),
             ms_active := (ms_active s)(rc_Job r := None)\<rparr>"
  using assms by (auto simp: memoryFinish_def Let_def split: option.splits if_splits)

lemma memory_inv_finished:
  assumes "memory_inv s" "plainName (rc_Job r)" "ms_active s (rc_Job r) = Some l" "ls_runID l = rc_RunID r"
  shows "memory_inv (s\<lparr>ms_completed := (ms_completed s)(runKey (rc_Job r) (rc_RunID r) \<mapsto> r),
             ms_active := (ms_active s)(rc_Job r := None)\<rparr>)"
  using assms by (auto simp: memory_inv_def runKey_inj)

interpretation memory: state_store memory_store memory_inv memory_binding memory_completed ms_active ms_lastStart
proof (unfold_locales, goal_cases)
  case (1 s d run dg now until a t)
  then have g: "memoryAcquire None d run dg now until s = (Inr a, t)" by simp
  note G = memoryAcquire_granted [OF g 1(4)]
  have "memory_inv t" unfolding G(7) using memory_inv_granted [OF 1(1,2) G(3)] .
  then show ?case
    using G(2-6) 1(2) unfolding G(7) by (auto simp: granted_def runKey_inj fun_eq_iff memory_views)
next
  case (2 s d c run dg now until res t)
  then show ?case
    by (auto simp: memoryAcquire_def Let_def memory_views split: option.splits if_splits)
next
  case (3 err d run dg now until s)
  then show ?case by (simp add: memoryAcquire_def)
next
  case (4 s d run r dg now until)
  then show ?case by (simp add: memoryAcquire_def Let_def memory_views)
next
  case (5 s r t)
  then have "memoryFinish r s = (Inr (), t)" by simp
  then show ?case
  proof (cases rule: memoryFinish_Inr)
    case again
    with 5 show ?thesis by (simp add: memory_views)
  next
    case (first l)
    with 5 memory_inv_finished [OF 5(1,2) first(2,3)] show ?thesis
      by (auto simp: runKey_inj fun_eq_iff memory_views)
  qed
next
  case (6 r s err t)
  then show ?case
    by (auto simp: memoryFinish_def Let_def split: option.splits if_splits)
next
  case (7 s r l)
  then show ?case by (simp add: memoryFinish_def Let_def memory_views)
next
  case (8 s k)
  then show ?case by (auto simp: memory_inv_def memory_views)
qed

text \<open>What a store has bound or completed stays: two ledgers of the memory store.\<close>

definition valid_store_step :: "MemoryStore \<Rightarrow> MemoryStore \<Rightarrow> bool" where
  "valid_store_step s t \<longleftrightarrow> memory_inv s \<and> store_step memory_store s t"

interpretation memory_system: transition_invariant "\<lambda>s. s = NewMemoryStore" "store_step memory_store" memory_inv
  by unfold_locales (use memory_inv_new memory.store_step_keeps in auto)

interpretation receipts: permanent_ledger valid_store_step memory_completed
  by unfold_locales (use memory.store_step_keeps in \<open>unfold valid_store_step_def, blast\<close>)

interpretation bindings: permanent_ledger valid_store_step memory_binding
  by unfold_locales (use memory.store_step_keeps in \<open>unfold valid_store_step_def, blast\<close>)

end
