(* ===== verification/Jobs_Runner.thy ===== *)
theory Jobs_Runner
  imports Jobs_Store
begin

text \<open>
  The runner of background jobs, \<^verbatim>\<open>src/internal/jobs/runner.go\<close>, over any state store. The
  GitHub reader, the interpreter, the kill switch, the granted capabilities and the clock
  are what the caller passes to \<^verbatim>\<open>NewRunner\<close>; the JSON encoder and SHA-256 are parameters.
  A run acquires the job, executes outside the store and finishes, so what other runs do to
  the store in between is an argument.
\<close>

definition maxIdentifier :: nat where "maxIdentifier = 200"
definition maxText :: nat where "maxText = 16 * 1024"
definition maxEvidence :: nat where "maxEvidence = 32"

record jobs_lib =
  jl_marshalWatch :: "int \<Rightarrow> WatchInput \<Rightarrow> job_error + gostring"
  jl_marshalResolved :: "int \<Rightarrow> ResolvedTask \<Rightarrow> job_error + gostring"
  jl_sha256hex :: "gostring \<Rightarrow> gostring"

record Runner =
  rn_github :: "(WatchInput \<Rightarrow> job_error + SyncResult) option"
  rn_interpreter :: "(ResolvedTask \<Rightarrow> int \<Rightarrow> job_error + WikiProposal \<times> int) option"
  rn_disabled :: "JobName \<Rightarrow> bool"
  rn_granted :: "Capability \<Rightarrow> bool"
  rn_definitions :: "JobName \<Rightarrow> Definition option"

section \<open>Construction\<close>

definition hasExactly :: "Definition \<Rightarrow> Capability list \<Rightarrow> bool" where
  "hasExactly d want \<longleftrightarrow> length (df_Capabilities d) = length want \<and> set want \<subseteq> set (df_Capabilities d)"

definition validateBuiltinDefinition :: "Definition \<Rightarrow> job_error + unit" where
  "validateBuiltinDefinition d =
     (if df_Name d = GitHubWatcher then
        (if df_InputScope d \<noteq> watcherInputScope \<or> df_TokenBudget d \<noteq> 0 \<or> df_AllowedOutput d \<noteq> OutputSyncReceipt \<or>
            \<not> hasExactly d [CapabilityGitHubRead] then Inl ErrInvalidDefinition else Inr ())
      else if df_Name d = WikiCurator then
        (if df_InputScope d \<noteq> curatorInputScope \<or> df_TokenBudget d \<le> 0 \<or>
            df_AllowedOutput d \<noteq> OutputWikiRevisionProposal \<or>
            \<not> hasExactly d [CapabilityInterpret, CapabilityWikiPropose] then Inl ErrInvalidDefinition else Inr ())
      else Inl ErrInvalidDefinition)"

fun addDefinitions ::
  "Definition list \<Rightarrow> (JobName \<Rightarrow> Definition option) \<Rightarrow> job_error + (JobName \<Rightarrow> Definition option)" where
  "addDefinitions [] m = Inr m"
| "addDefinitions (d # ds) m =
     bindE (Validate d) (\<lambda>_.
     bindE (validateBuiltinDefinition d) (\<lambda>_.
     if m (df_Name d) \<noteq> None then Inl ErrInvalidDefinition
     else addDefinitions ds (m(df_Name d \<mapsto> d))))"

text \<open>
  \<^verbatim>\<open>NewRunner\<close>; that the clock, the store and the kill switch are not nil is a flag. The
  number of definitions kept is the number of definitions passed, since none is repeated.
\<close>

definition NewRunner ::
  "bool \<Rightarrow> (WatchInput \<Rightarrow> job_error + SyncResult) option \<Rightarrow>
   (ResolvedTask \<Rightarrow> int \<Rightarrow> job_error + WikiProposal \<times> int) option \<Rightarrow> (JobName \<Rightarrow> bool) \<Rightarrow> (Capability \<Rightarrow> bool) \<Rightarrow>
   Definition list \<Rightarrow> job_error + Runner" where
  "NewRunner present github interpreter disabled capabilities ds =
     (if \<not> present then Inl ErrInvalidDefinition
      else bindE (addDefinitions ds Map.empty) (\<lambda>m.
        if length ds \<noteq> 2 \<or> m GitHubWatcher = None \<or> m WikiCurator = None then Inl ErrInvalidDefinition
        else Inr \<lparr>rn_github = github, rn_interpreter = interpreter, rn_disabled = disabled,
                  rn_granted = capabilities, rn_definitions = m\<rparr>))"

section \<open>Running\<close>

definition validID :: "gostring \<Rightarrow> bool" where
  "validID value \<longleftrightarrow> value \<noteq> '''' \<and> length value \<le> maxIdentifier \<and> TrimSpace value = value"

definition validateInput :: "RunRequest \<Rightarrow> job_error + unit" where
  "validateInput request =
     (if rr_Job request = GitHubWatcher then
        (case rr_Watch request of
           None \<Rightarrow> Inl ErrInvalidInput
         | Some w \<Rightarrow> if rr_Resolved request \<noteq> None \<or> \<not> validID (wi_Project w) \<or> length (wi_Cursor w) > maxIdentifier
                      then Inl ErrInvalidInput else Inr ())
      else if rr_Job request = WikiCurator then
        (case rr_Resolved request of
           None \<Rightarrow> Inl ErrInvalidInput
         | Some v \<Rightarrow>
             if rr_Watch request \<noteq> None \<or> \<not> validID (rt_Project v) \<or> \<not> validID (rt_TaskID v) \<or>
                rt_State v \<noteq> ''resolved'' \<or> rt_ResolutionRevision v \<le> 0 \<or> rt_Title v = '''' \<or>
                length (rt_Title v) > maxText \<or> rt_Resolution v = '''' \<or> length (rt_Resolution v) > maxText \<or>
                length (rt_Evidence v) > maxEvidence then Inl ErrInvalidInput
             else requireE (list_all (\<lambda>e. \<not> (e = '''' \<or> length e > maxText)) (rt_Evidence v)) ErrInvalidInput)
      else Inl ErrInvalidInput)"

definition semanticInputDigest :: "jobs_lib \<Rightarrow> RunRequest \<Rightarrow> job_error + gostring" where
  "semanticInputDigest L request =
     bindE (if rr_Job request = GitHubWatcher then
              (case rr_Watch request of None \<Rightarrow> Inl NilDereference | Some w \<Rightarrow> jl_marshalWatch L 1 w)
            else if rr_Job request = WikiCurator then
              (case rr_Resolved request of None \<Rightarrow> Inl NilDereference | Some v \<Rightarrow> jl_marshalResolved L 1 v)
            else Inl ErrInvalidInput)
       (\<lambda>canonical. Inr (jl_sha256hex L canonical))"

definition goodProposal :: "ResolvedTask \<Rightarrow> WikiProposal \<Rightarrow> bool" where
  "goodProposal v p \<longleftrightarrow> \<not> (wp_Project p \<noteq> rt_Project v \<or> wp_TaskID p \<noteq> rt_TaskID v \<or> wp_Page p = '''' \<or>
     length (wp_Page p) > maxIdentifier \<or> wp_ProposedTitle p = '''' \<or> length (wp_ProposedTitle p) > maxText \<or>
     wp_ProposedBody p = '''' \<or> length (wp_ProposedBody p) > maxText \<or> length (wp_Basis p) > maxText \<or>
     wp_BaseRevision p < 0 \<or> \<not> wp_RequiresReview p)"

text \<open>\<^verbatim>\<open>execute\<close> returns the error and the receipt, which it fills only when there is none.\<close>

definition execute :: "Runner \<Rightarrow> Definition \<Rightarrow> RunRequest \<Rightarrow> Receipt \<Rightarrow> job_error option \<times> Receipt" where
  "execute r d request receipt =
     (if rr_Job request = GitHubWatcher then
        (case rn_github r of
           None \<Rightarrow> (Some ErrInvalidDefinition, receipt)
         | Some check \<Rightarrow>
             if df_TokenBudget d \<noteq> 0 \<or> df_AllowedOutput d \<noteq> OutputSyncReceipt then (Some ErrInvalidDefinition, receipt)
             else case rr_Watch request of
               None \<Rightarrow> (Some NilDereference, receipt)
             | Some w \<Rightarrow>
                 (case check w of
                    Inl err \<Rightarrow> (Some err, receipt)
                  | Inr result \<Rightarrow>
                      if length (sr_Cursor result) > maxIdentifier then (Some ErrInvalidInput, receipt)
                      else (None, receipt\<lparr>rc_Cursor := sr_Cursor result, rc_Changed := sr_Changed result\<rparr>)))
      else if rr_Job request = WikiCurator then
        (case rn_interpreter r of
           None \<Rightarrow> (Some ErrInvalidDefinition, receipt)
         | Some propose \<Rightarrow>
             if df_TokenBudget d \<le> 0 \<or> df_AllowedOutput d \<noteq> OutputWikiRevisionProposal
             then (Some ErrInvalidDefinition, receipt)
             else case rr_Resolved request of
               None \<Rightarrow> (Some NilDereference, receipt)
             | Some v \<Rightarrow>
                 (case propose v (df_TokenBudget d) of
                    Inl err \<Rightarrow> (Some err, receipt)
                  | Inr (proposal, tokens) \<Rightarrow>
                      if tokens < 0 \<or> tokens > df_TokenBudget d then (Some ErrBudget, receipt)
                      else if \<not> goodProposal v proposal then (Some ErrInvalidInput, receipt)
                      else (None, receipt\<lparr>rc_TokensUsed := tokens, rc_Proposal := Some proposal\<rparr>)))
      else (Some ErrInvalidInput, receipt))"

definition stableError :: "job_error \<Rightarrow> gostring" where
  "stableError err = (case err of ContextCanceled \<Rightarrow> ''canceled'' | DeadlineExceeded \<Rightarrow> ''deadline_exceeded''
     | ErrBudget \<Rightarrow> ''budget_exceeded'' | ErrInvalidInput \<Rightarrow> ''invalid_output'' | _ \<Rightarrow> ''unavailable'')"

text \<open>\<^verbatim>\<open>Time.Sub\<close> saturates at the bounds of a 64-bit duration.\<close>

definition Sub :: "time \<Rightarrow> time \<Rightarrow> duration" where
  "Sub t u = max (- (2 ^ 63)) (min (2 ^ 63 - 1) (t - u))"

text \<open>
  What a run observes: the errors of the context at its start, at the acquisition and of the
  run context after the execution, and the two readings of the clock.
\<close>

record run_env =
  re_startErr :: "job_error option"
  re_acquireErr :: "job_error option"
  re_runErr :: "job_error option"
  re_started :: time
  re_finished :: time

definition admitRun :: "Runner \<Rightarrow> run_env \<Rightarrow> RunRequest \<Rightarrow> job_error + Definition" where
  "admitRun r e request =
     (case rn_definitions r (rr_Job request) of
        None \<Rightarrow> Inl ErrInvalidInput
      | Some d \<Rightarrow>
          if rr_RunID request = '''' \<or> length (rr_RunID request) > maxIdentifier \<or>
             TrimSpace (rr_RunID request) \<noteq> rr_RunID request then Inl ErrInvalidInput
          else case re_startErr e of
            Some err \<Rightarrow> Inl err
          | None \<Rightarrow>
              if rn_disabled r (rr_Job request) then Inl ErrDisabled
              else if \<not> list_all (rn_granted r) (df_Capabilities d) then Inl ErrCapability
              else bindE (validateInput request) (\<lambda>_. Inr d))"

definition finalReceipt :: "Runner \<Rightarrow> run_env \<Rightarrow> RunRequest \<Rightarrow> Definition \<Rightarrow> job_error option \<times> Receipt" where
  "finalReceipt r e request d =
     (let (executionErr, receipt) = execute r d request
            \<lparr>rc_RunID = rr_RunID request, rc_Job = rr_Job request, rc_Status = ''failed'',
             rc_OutputType = df_AllowedOutput d, rc_StartedAt = re_started e, rc_FinishedAt = zeroTime,
             rc_Cursor = '''', rc_Changed = False, rc_TokensUsed = 0, rc_Error = '''', rc_Proposal = None\<rparr>;
          executionErr = (if executionErr = None then re_runErr e else executionErr);
          executionErr = (if Sub (re_finished e) (re_started e) > df_MaxWallRuntime d then Some DeadlineExceeded
                          else executionErr);
          receipt = (case executionErr of None \<Rightarrow> receipt\<lparr>rc_Status := ''succeeded''\<rparr>
                     | Some err \<Rightarrow> receipt\<lparr>rc_Error := stableError err\<rparr>)
      in (executionErr, receipt\<lparr>rc_FinishedAt := re_finished e\<rparr>))"

definition Run ::
  "jobs_lib \<Rightarrow> 's StateStore \<Rightarrow> Runner \<Rightarrow> run_env \<Rightarrow> RunRequest \<Rightarrow> ('s \<Rightarrow> 's) \<Rightarrow> 's \<Rightarrow>
     (Receipt option \<times> job_error option) \<times> 's" where
  "Run L S r e request others s =
     (case bindE (admitRun r e request) (\<lambda>d. bindE (semanticInputDigest L request) (\<lambda>digest. Inr (d, digest))) of
        Inl err \<Rightarrow> ((None, Some err), s)
      | Inr (d, digest) \<Rightarrow>
          (case st_Acquire S (re_acquireErr e) d (rr_RunID request) digest (re_started e)
                  (re_started e + df_MaxWallRuntime d) s of
             (Inl err, s) \<Rightarrow> ((None, Some err), s)
           | (Inr acquired, s) \<Rightarrow>
               (case aq_Existing acquired of
                  Some receipt \<Rightarrow> ((Some receipt, None), s)
                | None \<Rightarrow>
                    if \<not> aq_Acquired acquired then ((None, Some ErrAlreadyRunning), s)
                    else let (executionErr, receipt) = finalReceipt r e request d in
                      (case st_Finish S receipt (others s) of
                         (Inl err, s) \<Rightarrow> ((None, Some err), s)
                       | (Inr _, s) \<Rightarrow> ((Some receipt, executionErr), s)))))"

end
