(* ===== verification/Jobs_Contract.thy ===== *)
theory Jobs_Contract
  imports Jobs_Runner
begin

text \<open>
  The properties of background jobs: the authority that a runner can have, what a receipt may
  say, replays, the distance between two grants of a job, and the error paths. The lemmas
  about runs are proved for every state store that meets the contract and used for the
  memory store.
\<close>

section \<open>Definitions that a runner accepts\<close>

definition builtin :: "Definition \<Rightarrow> bool" where
  "builtin d \<longleftrightarrow> Validate d = Inr () \<and> validateBuiltinDefinition d = Inr ()"

lemma addDefinitions_Inr:
  assumes "addDefinitions ds m = Inr m'" and "\<forall>k d. m k = Some d \<longrightarrow> df_Name d = k \<and> builtin d"
  shows "\<forall>k d. m' k = Some d \<longrightarrow> df_Name d = k \<and> builtin d"
  using assms
proof (induction ds arbitrary: m)
  case (Cons d ds)
  then have d: "builtin d" and rest: "addDefinitions ds (m(df_Name d \<mapsto> d)) = Inr m'"
    by (simp_all add: builtin_def split: if_splits)
  show ?case by (rule Cons.IH [OF rest]) (use Cons.prems(2) d in simp)
qed simp

lemma NewRunner_definitions:
  assumes "NewRunner present github interpreter disabled capabilities ds = Inr r" "rn_definitions r k = Some d"
  shows "df_Name d = k" "builtin d"
  using assms addDefinitions_Inr [of ds Map.empty] by (auto simp: NewRunner_def split: if_splits)

lemma builtin_cases:
  assumes "builtin d"
  obtains (watcher) "df_Name d = GitHubWatcher" "df_TokenBudget d = 0" "df_AllowedOutput d = OutputSyncReceipt"
      "set (df_Capabilities d) = {CapabilityGitHubRead}"
  | (curator) "df_Name d = WikiCurator" "0 < df_TokenBudget d" "df_AllowedOutput d = OutputWikiRevisionProposal"
      "set (df_Capabilities d) = {CapabilityInterpret, CapabilityWikiPropose}"
proof -
  have exact: "set (df_Capabilities d) = set want" if "hasExactly d want" "distinct want" for want
    using that by (metis hasExactly_def card_subset_eq distinct_card finite_set card_length le_antisym card_mono)
  show ?thesis
  proof (cases "df_Name d = GitHubWatcher")
    case True
    then have "hasExactly d [CapabilityGitHubRead]"
      using assms by (auto simp: builtin_def validateBuiltinDefinition_def split: if_splits)
    from exact [OF this] True show ?thesis
      using assms watcher by (auto simp: builtin_def validateBuiltinDefinition_def split: if_splits)
  next
    case False
    then have c: "hasExactly d [CapabilityInterpret, CapabilityWikiPropose]" "df_Name d = WikiCurator"
      using assms by (auto simp: builtin_def validateBuiltinDefinition_def split: if_splits)
    have "distinct [CapabilityInterpret, CapabilityWikiPropose]" by (simp add: job_constants)
    from exact [OF c(1) this] c(2) False show ?thesis
      using assms curator by (auto simp: builtin_def validateBuiltinDefinition_def split: if_splits)
  qed
qed

lemma builtin_plain: "builtin d \<Longrightarrow> plainName (df_Name d)"
  by (erule builtin_cases) (simp_all add: plainName_def job_constants)

section \<open>Runs over any store\<close>

lemma admitRun_Inr:
  assumes "admitRun r e request = Inr d"
  shows "rn_definitions r (rr_Job request) = Some d" "\<not> rn_disabled r (rr_Job request)"
    "list_all (rn_granted r) (df_Capabilities d)" "validateInput request = Inr ()"
  using assms by (auto simp: admitRun_def split: option.splits if_splits)

lemma execute_Some:
  assumes "execute r d request c = (Some err, q)"
  shows "q = c"
  using assms unfolding execute_def by (simp split: if_split_asm option.split_asm sum.split_asm prod.split_asm)

lemma execute_None:
  assumes "execute r d request c = (None, q)"
  obtains (watched) cu ch where "rr_Job request = GitHubWatcher" "length cu \<le> maxIdentifier"
      "q = c\<lparr>rc_Cursor := cu, rc_Changed := ch\<rparr>"
  | (proposed) v p n where "rr_Job request = WikiCurator" "rr_Resolved request = Some v" "0 \<le> n" "n \<le> df_TokenBudget d"
      "goodProposal v p" "q = c\<lparr>rc_TokensUsed := n, rc_Proposal := Some p\<rparr>"
  using assms unfolding execute_def
  by (simp add: not_less split: if_split_asm option.split_asm sum.split_asm prod.split_asm; blast)

lemma execute_frame:
  "rc_RunID (snd (execute r d request c)) = rc_RunID c" "rc_Job (snd (execute r d request c)) = rc_Job c"
  "rc_OutputType (snd (execute r d request c)) = rc_OutputType c"
  "rc_StartedAt (snd (execute r d request c)) = rc_StartedAt c"
proof -
  obtain x q where q: "execute r d request c = (x, q)" by (cases "execute r d request c")
  consider "q = c" | cu ch where "q = c\<lparr>rc_Cursor := cu, rc_Changed := ch\<rparr>"
    | n p where "q = c\<lparr>rc_TokensUsed := n, rc_Proposal := p\<rparr>"
    using q by (cases x) (blast dest: execute_Some elim: execute_None)+
  then show "rc_RunID (snd (execute r d request c)) = rc_RunID c" "rc_Job (snd (execute r d request c)) = rc_Job c"
      "rc_OutputType (snd (execute r d request c)) = rc_OutputType c"
      "rc_StartedAt (snd (execute r d request c)) = rc_StartedAt c"
    by (cases; simp add: q)+
qed

lemma finalReceipt_frame:
  assumes "finalReceipt r e request d = (err, receipt)"
  shows "rc_RunID receipt = rr_RunID request" "rc_Job receipt = rr_Job request"
    "rc_OutputType receipt = df_AllowedOutput d" "rc_StartedAt receipt = re_started e"
    "rc_FinishedAt receipt = re_finished e"
proof -
  define c where "c = \<lparr>rc_RunID = rr_RunID request, rc_Job = rr_Job request, rc_Status = ''failed'',
      rc_OutputType = df_AllowedOutput d, rc_StartedAt = re_started e, rc_FinishedAt = zeroTime,
      rc_Cursor = '''', rc_Changed = False, rc_TokensUsed = 0, rc_Error = '''', rc_Proposal = None\<rparr>"
  obtain x q where q: "execute r d request c = (x, q)" by (cases "execute r d request c")
  then have "rc_RunID q = rr_RunID request" "rc_Job q = rr_Job request" "rc_OutputType q = df_AllowedOutput d"
      "rc_StartedAt q = re_started e"
    using execute_frame(1-4) [of r d request c] by (simp_all add: c_def)
  with assms q show "rc_RunID receipt = rr_RunID request" "rc_Job receipt = rr_Job request"
    "rc_OutputType receipt = df_AllowedOutput d" "rc_StartedAt receipt = re_started e"
    "rc_FinishedAt receipt = re_finished e"
    unfolding finalReceipt_def c_def [symmetric] Let_def by (auto split: option.splits if_splits)
qed

lemma final_success:
  assumes "finalReceipt r e request d = (None, receipt)"
  shows "rc_Status receipt = ''succeeded'' \<and> Sub (re_finished e) (re_started e) \<le> df_MaxWallRuntime d \<and>
    (rr_Job request = GitHubWatcher \<and> rc_TokensUsed receipt = 0 \<and> rc_Proposal receipt = None \<or>
     rr_Job request = WikiCurator \<and> (\<exists>v p n. rr_Resolved request = Some v \<and> 0 \<le> n \<and> n \<le> df_TokenBudget d \<and>
       goodProposal v p \<and> rc_TokensUsed receipt = n \<and> rc_Proposal receipt = Some p))"
proof -
  define c where "c = \<lparr>rc_RunID = rr_RunID request, rc_Job = rr_Job request, rc_Status = ''failed'',
      rc_OutputType = df_AllowedOutput d, rc_StartedAt = re_started e, rc_FinishedAt = zeroTime,
      rc_Cursor = '''', rc_Changed = False, rc_TokensUsed = 0, rc_Error = '''', rc_Proposal = None\<rparr>"
  obtain x q where q: "execute r d request c = (x, q)" by (cases "execute r d request c")
  from assms q have x: "x = None" "\<not> Sub (re_finished e) (re_started e) > df_MaxWallRuntime d"
      and receipt: "receipt = q\<lparr>rc_Status := ''succeeded'', rc_FinishedAt := re_finished e\<rparr>"
    unfolding finalReceipt_def c_def [symmetric] Let_def by (auto split: option.splits if_splits)
  from q x(1) have "execute r d request c = (None, q)" by simp
  then show ?thesis
    by (cases rule: execute_None) (use x(2) in \<open>auto simp: receipt c_def\<close>)
qed

text \<open>Steps of a store at non-decreasing times.\<close>

inductive timed_step :: "'s StateStore \<Rightarrow> 's \<times> time \<Rightarrow> 's \<times> time \<Rightarrow> bool" for S where
  acquire: "plainName (df_Name d) \<Longrightarrow> T \<le> now \<Longrightarrow> snd (st_Acquire S c d run dg now until s) = t \<Longrightarrow>
    timed_step S (s, T) (t, now)"
| finish: "plainName (rc_Job r) \<Longrightarrow> snd (st_Finish S r s) = t \<Longrightarrow> timed_step S (s, T) (t, T)"

context state_store
begin

definition after_grant :: "JobName \<Rightarrow> gostring \<Rightarrow> time \<Rightarrow> time \<Rightarrow> 's \<times> time \<Rightarrow> bool" where
  "after_grant job run start until x \<longleftrightarrow> inv (fst x) \<and> start \<le> snd x \<and>
     (completed (fst x) (job, run) \<noteq> None \<or> holder (fst x) job = Some \<lparr>ls_runID = run, ls_until = until\<rparr> \<or> until \<le> snd x) \<and>
     (\<exists>p. lastStart (fst x) job = Some p \<and> start \<le> p)"

lemma after_grant_step:
  assumes "timed_step S x y" "after_grant job run start until x"
  shows "after_grant job run start until y"
  using assms(1)
proof cases
  case (acquire d T now c run' dg until' s t)
  have inv: "inv s" using assms(2) acquire(1) by (simp add: after_grant_def)
  obtain res where res: "st_Acquire S c d run' dg now until' s = (res, t)"
    using acquire(5) by (metis prod.collapse)
  from inv acquire(3) res show ?thesis
  proof (cases rule: acquire_cases)
    case (granted a)
    with res have "st_Acquire S None d run' dg now until' s = (Inr a, t)" by simp
    from acquired [OF inv acquire(3) this granted(3)] show ?thesis
      using assms(2) acquire(1,2,4) by (auto simp: after_grant_def)
  next
    case kept
    then show ?thesis using assms(2) acquire(1,2,4) by (auto simp: after_grant_def)
  qed
next
  case (finish r s t T)
  have inv: "inv s" using assms(2) finish(1) by (simp add: after_grant_def)
  show ?thesis
  proof (cases "fst (st_Finish S r s)")
    case (Inl err)
    then have "t = s" using finish(4) not_finished [of r s err t] by (metis prod.collapse)
    then show ?thesis using assms(2) finish(1,2) by simp
  next
    case (Inr u)
    then have "st_Finish S r s = (Inr (), t)" using finish(4) by (simp add: prod_eq_iff)
    from finished [OF inv finish(3) this] show ?thesis
      using assms(2) finish(1,2) by (auto simp: after_grant_def split: if_splits)
  qed
qed

lemma grants_distance:
  assumes "inv s" "plainName (df_Name d)" "st_Acquire S None d run dg now until s = (Inr a, t)" "aq_Acquired a"
    and "(timed_step S)\<^sup>*\<^sup>* (t, now) (u, T)" "T \<le> now'" "df_Name d' = df_Name d"
    and "st_Acquire S None d' run' dg' now' until' u = (Inr b, v)" "aq_Acquired b"
  shows "now + df_MinimumInterval d' \<le> now' \<and> (until \<le> now' \<or> completed u (df_Name d, run) \<noteq> None)"
proof -
  have "after_grant (df_Name d) run now until (t, now)"
    using acquired [OF assms(1-4)] by (simp add: after_grant_def)
  with assms(5) have after: "after_grant (df_Name d) run now until (u, T)"
    by (induction rule: rtranclp_induct) (auto intro: after_grant_step)
  then have "inv u" by (simp add: after_grant_def)
  from acquired [OF this _ assms(8,9)] assms(2,7) after assms(6) show ?thesis
    by (fastforce simp: after_grant_def)
qed

lemma run_fresh:
  assumes "inv s" "admitRun r e request = Inr d" "df_Name d = rr_Job request" "plainName (df_Name d)"
    "semanticInputDigest L request = Inr dg"
  obtains (refused) err where "Run L S r e request others s = ((None, Some err), s)"
  | (existing) c where "Run L S r e request others s = ((Some c, None), s)" "completed s (rr_Job request, rr_RunID request) = Some c"
      "binding s (rr_Job request, rr_RunID request) = Some dg"
  | (executed) t err receipt where "inv t" "holder t (rr_Job request) = Some \<lparr>ls_runID = rr_RunID request,
         ls_until = re_started e + df_MaxWallRuntime d\<rparr>" "binding t (rr_Job request, rr_RunID request) = Some dg"
      "completed t = completed s" "completed s (rr_Job request, rr_RunID request) = None"
      "store_step S s t"
      "finalReceipt r e request d = (err, receipt)"
      "Run L S r e request others s = (case st_Finish S receipt (others t) of
         (Inl ferr, u) \<Rightarrow> ((None, Some ferr), u) | (Inr _, u) \<Rightarrow> ((Some receipt, err), u))"
proof -
  obtain res t where acq: "st_Acquire S (re_acquireErr e) d (rr_RunID request) dg (re_started e)
      (re_started e + df_MaxWallRuntime d) s = (res, t)" by fastforce
  have run: "Run L S r e request others s = (case (res, t) of
             (Inl err, s) \<Rightarrow> ((None, Some err), s)
           | (Inr acquired, s) \<Rightarrow>
               (case aq_Existing acquired of
                  Some receipt \<Rightarrow> ((Some receipt, None), s)
                | None \<Rightarrow>
                    if \<not> aq_Acquired acquired then ((None, Some ErrAlreadyRunning), s)
                    else let (executionErr, receipt) = finalReceipt r e request d in
                      (case st_Finish S receipt (others s) of
                         (Inl err, s) \<Rightarrow> ((None, Some err), s)
                       | (Inr _, s) \<Rightarrow> ((Some receipt, executionErr), s))))"
    by (simp add: Run_def assms(2,5) acq)
  show ?thesis
  proof (cases "\<exists>a. res = Inr a \<and> aq_Acquired a")
    case True
    then obtain a where a: "res = Inr a" "aq_Acquired a" by blast
    from assms(1,4) acq a have none: "re_acquireErr e = None"
      using acquire_context by (cases "re_acquireErr e") auto
    from acq a none have got: "st_Acquire S None d (rr_RunID request) dg (re_started e)
      (re_started e + df_MaxWallRuntime d) s = (Inr a, t)" by simp
    note G = acquired [OF assms(1,4) got a(2)]
    obtain err receipt where fin: "finalReceipt r e request d = (err, receipt)" by fastforce
    have step: "store_step S s t"
      by (rule store_step.acquire [OF assms(4), of S None "rr_RunID request" dg "re_started e"
            "re_started e + df_MaxWallRuntime d"]) (simp add: got)
    show ?thesis
      by (rule executed [of t err receipt]) (use G fin step run a assms(3) in \<open>simp_all\<close>)
  next
    case False
    note N = not_acquired [OF assms(1,4) acq]
    show ?thesis
    proof (cases res)
      case (Inl err)
      with N show ?thesis by (intro refused [of err]) (simp add: run)
    next
      case (Inr a)
      with N False obtain c where c: "aq_Existing a = Some c" "completed s (df_Name d, rr_RunID request) = Some c" "t = s"
          "binding s (df_Name d, rr_RunID request) \<in> {None, Some dg}"
        by auto
      moreover have "binding s (df_Name d, rr_RunID request) \<noteq> None"
        using bound [OF assms(1), of "(df_Name d, rr_RunID request)"] c(2) assms(4) by simp
      ultimately show ?thesis using Inr by (intro existing [of c]) (auto simp: run assms(3))
    qed
  qed
qed

lemma run_quiet:
  assumes "inv s" "\<And>d. rn_definitions r (rr_Job request) = Some d \<Longrightarrow> df_Name d = rr_Job request \<and> plainName (df_Name d)"
    and "Run L S r e request (\<lambda>s. s) s = ((None, Some err), t)"
  shows "t = s"
proof (cases "bindE (admitRun r e request) (\<lambda>d. bindE (semanticInputDigest L request) (\<lambda>digest. Inr (d, digest)))")
  case (Inl x)
  with assms(3) show ?thesis by (simp add: Run_def)
next
  case (Inr x)
  then obtain d dg where d: "admitRun r e request = Inr d" "semanticInputDigest L request = Inr dg" by auto
  note name = assms(2) [OF admitRun_Inr(1) [OF d(1)]]
  from assms(1) d(1) name [THEN conjunct1] name [THEN conjunct2] d(2) show ?thesis
  proof (cases rule: run_fresh [where others = "\<lambda>s. s"])
    case (executed u err' receipt)
    note F = finalReceipt_frame [OF executed(7)]
    have "plainName (rc_Job receipt)" using name F(2) by metis
    then have "fst (st_Finish S receipt u) = Inr ()"
      using finishes [OF executed(1), of receipt] executed(2,4,5) F(1,2) by simp
    then show ?thesis using executed(8) assms(3) by (auto split: prod.splits sum.splits)
  qed (use assms(3) in auto)
qed

lemma steps_keep:
  assumes "inv s" "(store_step S)\<^sup>*\<^sup>* s t"
  shows "inv t \<and> (\<forall>k r. completed s k = Some r \<longrightarrow> completed t k = Some r) \<and>
    (\<forall>k dg. binding s k = Some dg \<longrightarrow> binding t k = Some dg)"
  using assms(2)
proof (induction rule: rtranclp_induct)
  case (step u v)
  with store_step_keeps [of u v] show ?case by blast
qed (use assms(1) in blast)

lemma run_recorded:
  assumes "inv s" "\<And>d. rn_definitions r (rr_Job request) = Some d \<Longrightarrow> df_Name d = rr_Job request \<and> plainName (df_Name d)"
    and others: "\<And>t. inv t \<Longrightarrow> (store_step S)\<^sup>*\<^sup>* t (others t)"
    and "Run L S r e request others s = ((Some receipt, err), t)"
  obtains d dg where "inv t" "completed t (rr_Job request, rr_RunID request) = Some receipt"
    "admitRun r e request = Inr d" "semanticInputDigest L request = Inr dg"
    "binding t (rr_Job request, rr_RunID request) = Some dg"
    "completed s (rr_Job request, rr_RunID request) = Some receipt \<and> t = s \<or>
     completed s (rr_Job request, rr_RunID request) = None \<and> finalReceipt r e request d = (err, receipt)"
proof -
  from assms(4) obtain d dg where d: "admitRun r e request = Inr d" "semanticInputDigest L request = Inr dg"
    by (cases "bindE (admitRun r e request) (\<lambda>d. bindE (semanticInputDigest L request) (\<lambda>digest. Inr (d, digest)))")
      (auto simp: Run_def)
  note name = assms(2) [OF admitRun_Inr(1) [OF d(1)]]
  from assms(1) d(1) name [THEN conjunct1] name [THEN conjunct2] d(2) show ?thesis
  proof (cases rule: run_fresh [where others = others])
    case (existing c)
    then show ?thesis using that d assms(1,4) by simp
  next
    case (executed u err' c)
    note F = finalReceipt_frame [OF executed(7)]
    have keep: "inv (others u)" "binding (others u) (rr_Job request, rr_RunID request) = Some dg"
      using steps_keep [OF executed(1) others [OF executed(1)]] executed(3) by blast+
    from executed(8) assms(4) have fin: "st_Finish S c (others u) = (Inr (), t)" and c: "c = receipt" "err' = err"
      by (auto split: prod.splits sum.splits)
    have "plainName (rc_Job c)" using name F(2) by metis
    from finished [OF keep(1) this fin] that d executed(5,7) c keep(2) F(1,2) show ?thesis by auto
  qed (use assms(4) in auto)
qed

lemma run_again:
  assumes "inv s" "admitRun r e request = Inr d" "df_Name d = rr_Job request" "plainName (df_Name d)"
    "semanticInputDigest L request = Inr dg" "re_acquireErr e = None"
    "completed s (rr_Job request, rr_RunID request) = Some receipt" "binding s (rr_Job request, rr_RunID request) = Some dg"
  shows "Run L S r e request others s = ((Some receipt, None), s)"
  using replayed [OF assms(1,4), of "rr_RunID request" receipt dg] assms(3,7,8)
  by (simp add: Run_def assms(2,5,6))

end

section \<open>Properties\<close>

text \<open>
  A runner that could be constructed has exactly the two built-in jobs; the
  watcher can only read GitHub and has no token budget, the curator can only interpret and
  propose, and no job has the capability to create jobs or to wake agents.
\<close>

lemma new_runner_authority:
  assumes "NewRunner present github interpreter disabled capabilities ds = Inr r"
  shows "dom (rn_definitions r) = {GitHubWatcher, WikiCurator} \<and>
    (\<forall>d. rn_definitions r GitHubWatcher = Some d \<longrightarrow> df_TokenBudget d = 0 \<and>
       set (df_Capabilities d) = {CapabilityGitHubRead} \<and> df_AllowedOutput d = OutputSyncReceipt) \<and>
    (\<forall>d. rn_definitions r WikiCurator = Some d \<longrightarrow> 0 < df_TokenBudget d \<and>
       set (df_Capabilities d) = {CapabilityInterpret, CapabilityWikiPropose} \<and>
       df_AllowedOutput d = OutputWikiRevisionProposal) \<and>
    (\<forall>k d. rn_definitions r k = Some d \<longrightarrow>
       CapabilityCreateJobs \<notin> set (df_Capabilities d) \<and> CapabilityWakeAgents \<notin> set (df_Capabilities d))"
proof -
  have kinds: "k = GitHubWatcher \<and> df_TokenBudget d = 0 \<and> set (df_Capabilities d) = {CapabilityGitHubRead} \<and>
        df_AllowedOutput d = OutputSyncReceipt \<or>
      k = WikiCurator \<and> 0 < df_TokenBudget d \<and> set (df_Capabilities d) = {CapabilityInterpret, CapabilityWikiPropose} \<and>
        df_AllowedOutput d = OutputWikiRevisionProposal" if "rn_definitions r k = Some d" for k d
    using NewRunner_definitions [OF assms that] by (auto elim: builtin_cases)
  moreover have "rn_definitions r GitHubWatcher \<noteq> None" "rn_definitions r WikiCurator \<noteq> None"
    using assms by (auto simp: NewRunner_def split: if_splits)
  moreover have "GitHubWatcher \<noteq> WikiCurator" "CapabilityCreateJobs \<notin> {CapabilityGitHubRead, CapabilityInterpret, CapabilityWikiPropose}"
      "CapabilityWakeAgents \<notin> {CapabilityGitHubRead, CapabilityInterpret, CapabilityWikiPropose}"
    by (simp_all add: job_constants)
  ultimately show ?thesis by (intro conjI allI impI) (fastforce dest: kinds)+
qed

definition demo_jobs_lib :: jobs_lib where
  "demo_jobs_lib = \<lparr>jl_marshalWatch = (\<lambda>_ w. Inr (wi_Project w)), jl_marshalResolved = (\<lambda>_ v. Inr (rt_Project v)),
     jl_sha256hex = (\<lambda>x. x)\<rparr>"

definition demo_runner :: "job_error + Runner" where
  "demo_runner = NewRunner True (Some (\<lambda>w. Inr \<lparr>sr_Cursor = ''c1'', sr_Changed = True\<rparr>)) None (\<lambda>_. False)
     (\<lambda>c. c = CapabilityGitHubRead) [WatcherDefinition 5 100, CuratorDefinition 5 100 10]"

definition demo_request :: RunRequest where
  "demo_request = \<lparr>rr_RunID = ''r1'', rr_Job = GitHubWatcher, rr_Watch = Some \<lparr>wi_Project = ''p'', wi_Cursor = ''''\<rparr>,
     rr_Resolved = None\<rparr>"

definition demo_run_env :: "time \<Rightarrow> run_env" where
  "demo_run_env t = \<lparr>re_startErr = None, re_acquireErr = None, re_runErr = None, re_started = t, re_finished = t + 1\<rparr>"

lemma demo_runner_ok: "demo_runner = Inr (projr demo_runner)"
  by (rule sum.collapse(2) [symmetric]) code_simp

text \<open>
  What a successful run that was executed can have produced: the job was
  enabled and its capabilities granted, the run took no longer than its definition allows,
  and the receipt is either the watcher's (no tokens, no proposal) or the curator's, with at
  most the budget of tokens and a proposal for the task of the request that requires review.
\<close>

lemma receipt_within_authority:
  assumes "NewRunner present github interpreter disabled capabilities ds = Inr r"
    and "(store_step memory_store)\<^sup>*\<^sup>* NewMemoryStore s"
    and "\<And>t. (store_step memory_store)\<^sup>*\<^sup>* t (others t)"
    and "Run L memory_store r e request others s = ((Some receipt, None), t)"
    and "ms_completed s (runKey (rr_Job request) (rr_RunID request)) = None"
  shows "\<exists>d. rn_definitions r (rr_Job request) = Some d \<and> \<not> disabled (rr_Job request) \<and>
    (\<forall>c \<in> set (df_Capabilities d). capabilities c) \<and> rc_Status receipt = ''succeeded'' \<and>
    rc_OutputType receipt = df_AllowedOutput d \<and> Sub (rc_FinishedAt receipt) (rc_StartedAt receipt) \<le> df_MaxWallRuntime d \<and>
    (rr_Job request = GitHubWatcher \<and> rc_TokensUsed receipt = 0 \<and> rc_Proposal receipt = None \<or>
     rr_Job request = WikiCurator \<and> 0 \<le> rc_TokensUsed receipt \<and> rc_TokensUsed receipt \<le> df_TokenBudget d \<and>
       (\<exists>v p. rr_Resolved request = Some v \<and> rc_Proposal receipt = Some p \<and> wp_RequiresReview p \<and>
          wp_Project p = rt_Project v \<and> wp_TaskID p = rt_TaskID v))"
proof -
  have inv: "memory_inv s" using memory_system.reachable_inv [OF refl assms(2)] .
  have names: "df_Name d = rr_Job request \<and> plainName (df_Name d)" if "rn_definitions r (rr_Job request) = Some d" for d
    using NewRunner_definitions [OF assms(1) that] builtin_plain by metis
  from memory.run_recorded [OF inv names assms(3,4)]
  obtain d where d: "admitRun r e request = Inr d" and key: "memory_completed s (rr_Job request, rr_RunID request) = Some receipt \<or>
      finalReceipt r e request d = (None, receipt)" by blast
  from key assms(5) have fin: "finalReceipt r e request d = (None, receipt)"
    by (auto simp: memory_completed_def split: if_splits)
  have r: "rn_disabled r = disabled" "rn_granted r = capabilities"
    using assms(1) by (auto simp: NewRunner_def split: if_splits)
  note F = finalReceipt_frame [OF fin] and A = admitRun_Inr [OF d]
  from final_success [OF fin] A F r show ?thesis
    by (intro exI [of _ d]) (auto simp: list_all_iff goodProposal_def)
qed

lemma demo_run_ok:
  "fst (Run demo_jobs_lib memory_store (projr demo_runner) (demo_run_env 7) demo_request (\<lambda>s. s) NewMemoryStore) =
   (Some \<lparr>rc_RunID = ''r1'', rc_Job = GitHubWatcher, rc_Status = ''succeeded'', rc_OutputType = OutputSyncReceipt,
      rc_StartedAt = 7, rc_FinishedAt = 8, rc_Cursor = ''c1'', rc_Changed = True, rc_TokensUsed = 0, rc_Error = '''',
      rc_Proposal = None\<rparr>, None)"
  by code_simp

lemma pair_from_fst: "fst x = a \<Longrightarrow> x = (a, snd x)"
  by (simp add: prod_eq_iff)

text \<open>
  Property C30. A run is executed at most once: when a run has returned a receipt, running
  the same request again after whatever has happened to the store since returns that receipt
  and changes nothing, whatever the reader, the interpreter and the clock would say now.
\<close>

theorem run_replays:
  assumes "NewRunner present github interpreter disabled capabilities ds = Inr r"
    and "NewRunner present' github' interpreter' disabled' capabilities' ds' = Inr r'"
    and "(store_step memory_store)\<^sup>*\<^sup>* NewMemoryStore s"
    and "\<And>t. (store_step memory_store)\<^sup>*\<^sup>* t (others t)"
    and "Run L memory_store r e request others s = ((Some receipt, err), t)"
    and "(store_step memory_store)\<^sup>*\<^sup>* t u"
    and "admitRun r' e' request = Inr d'" and "re_acquireErr e' = None"
  shows "Run L memory_store r' e' request others' u = ((Some receipt, None), u)"
proof -
  have inv: "memory_inv s" using memory_system.reachable_inv [OF refl assms(3)] .
  have names: "df_Name d = rr_Job request \<and> plainName (df_Name d)" if "rn_definitions r (rr_Job request) = Some d" for d
    using NewRunner_definitions [OF assms(1) that] builtin_plain by metis
  from memory.run_recorded [OF inv names assms(4,5)] obtain dg where
    t: "memory_inv t" "memory_completed t (rr_Job request, rr_RunID request) = Some receipt"
      "semanticInputDigest L request = Inr dg" "memory_binding t (rr_Job request, rr_RunID request) = Some dg" by blast
  have u: "memory_inv u" "memory_completed u (rr_Job request, rr_RunID request) = Some receipt"
      "memory_binding u (rr_Job request, rr_RunID request) = Some dg"
    using memory.steps_keep [OF t(1) assms(6)] t(2,4) by blast+
  have "df_Name d' = rr_Job request" "plainName (df_Name d')"
    using NewRunner_definitions [OF assms(2) admitRun_Inr(1) [OF assms(7)]] builtin_plain by metis+
  from memory.run_again [OF u(1) assms(7) this t(3) assms(8) u(2,3)] show ?thesis .
qed

theorem run_replays_witness:
  "fst (Run demo_jobs_lib memory_store (projr demo_runner) (demo_run_env 20) demo_request (\<lambda>s. s)
     (snd (Run demo_jobs_lib memory_store (projr demo_runner) (demo_run_env 7) demo_request (\<lambda>s. s) NewMemoryStore))) =
   fst (Run demo_jobs_lib memory_store (projr demo_runner) (demo_run_env 7) demo_request (\<lambda>s. s) NewMemoryStore)"
proof -
  have "\<not> isl (admitRun (projr demo_runner) (demo_run_env 20) demo_request)" by code_simp
  then obtain d where d: "admitRun (projr demo_runner) (demo_run_env 20) demo_request = Inr d"
    by (metis sum.collapse(2))
  have "re_acquireErr (demo_run_env 20) = None" by (simp add: demo_run_env_def)
  note again = run_replays [OF demo_runner_ok [unfolded demo_runner_def] demo_runner_ok [unfolded demo_runner_def]
      rtranclp.rtrancl_refl rtranclp.rtrancl_refl pair_from_fst [OF demo_run_ok [unfolded demo_runner_def]]
      rtranclp.rtrancl_refl d [unfolded demo_runner_def] this, folded demo_runner_def]
  show ?thesis using again [of "\<lambda>s. s"] demo_run_ok by simp
qed

text \<open>
  Property C31. Two grants of one job are apart: after a grant, at later times and whatever
  else the store does, the next grant of the job comes no earlier than the minimum interval
  after the first, and only once the lease of the first has expired or its run is recorded
  as completed.
\<close>

theorem grants_apart:
  assumes "(store_step memory_store)\<^sup>*\<^sup>* NewMemoryStore s" and "plainName (df_Name d)"
    and "memoryAcquire None d run dg now until s = (Inr a, t)" and "aq_Acquired a"
    and "(timed_step memory_store)\<^sup>*\<^sup>* (t, now) (u, T)" and "T \<le> now'" and "df_Name d' = df_Name d"
    and "memoryAcquire None d' run' dg' now' until' u = (Inr b, v)" and "aq_Acquired b"
  shows "now + df_MinimumInterval d' \<le> now' \<and>
    (until \<le> now' \<or> ms_completed u (runKey (df_Name d) run) \<noteq> None)"
  using memory.grants_distance [OF memory_system.reachable_inv [OF refl assms(1)] assms(2), of run dg now until a t u T now']
    assms(2-) by (simp add: memory_completed_def)

theorem grants_apart_witness:
  "fst (memoryAcquire None (WatcherDefinition 5 10) ''b'' ''y'' 20 30
     (snd (memoryAcquire None (WatcherDefinition 5 10) ''a'' ''x'' 0 10 NewMemoryStore))) =
     Inr \<lparr>aq_Acquired = True, aq_Existing = None\<rparr> \<and> 0 + df_MinimumInterval (WatcherDefinition 5 10) \<le> 20"
proof -
  define t where "t = snd (memoryAcquire None (WatcherDefinition 5 10) ''a'' ''x'' 0 10 NewMemoryStore)"
  have first: "memoryAcquire None (WatcherDefinition 5 10) ''a'' ''x'' 0 10 NewMemoryStore =
      (Inr \<lparr>aq_Acquired = True, aq_Existing = None\<rparr>, t)"
    unfolding t_def by (rule pair_from_fst) code_simp
  have second: "memoryAcquire None (WatcherDefinition 5 10) ''b'' ''y'' 20 30 t =
      (Inr \<lparr>aq_Acquired = True, aq_Existing = None\<rparr>, snd (memoryAcquire None (WatcherDefinition 5 10) ''b'' ''y'' 20 30 t))"
    unfolding t_def by (rule pair_from_fst) code_simp
  have "plainName (df_Name (WatcherDefinition 5 10))" by code_simp
  from grants_apart [OF rtranclp.rtrancl_refl this first _ rtranclp.rtrancl_refl _ refl second]
    second [THEN arg_cong, of fst] show ?thesis by (simp add: t_def)
qed

text \<open>
  Without interference a run that fails before it has a receipt leaves the
  store as it was: no lease, binding or start is left behind by a refused request.
\<close>

lemma failed_run_leaves_no_trace:
  assumes "NewRunner present github interpreter disabled capabilities ds = Inr r"
    and "(store_step memory_store)\<^sup>*\<^sup>* NewMemoryStore s"
    and "Run L memory_store r e request (\<lambda>s. s) s = ((None, Some err), t)"
  shows "t = s"
proof (rule memory.run_quiet [OF memory_system.reachable_inv [OF refl assms(2)] _ assms(3)])
  show "df_Name d = rr_Job request \<and> plainName (df_Name d)" if "rn_definitions r (rr_Job request) = Some d" for d
    using NewRunner_definitions [OF assms(1) that] builtin_plain by metis
qed

text \<open>
  A run never dereferences a nil input, neither when it computes the digest of
  the request nor when it executes it, provided the encoder, the reader, the interpreter and
  the context report no such panic themselves.
\<close>

lemma run_no_panic:
  assumes "\<And>n w. jl_marshalWatch L n w \<noteq> Inl NilDereference" and "\<And>n v. jl_marshalResolved L n v \<noteq> Inl NilDereference"
    and "\<And>f w. rn_github r = Some f \<Longrightarrow> f w \<noteq> Inl NilDereference"
    and "\<And>f v n. rn_interpreter r = Some f \<Longrightarrow> f v n \<noteq> Inl NilDereference"
    and "re_startErr e \<noteq> Some NilDereference" and "re_acquireErr e \<noteq> Some NilDereference"
    and "re_runErr e \<noteq> Some NilDereference"
  shows "snd (fst (Run L memory_store r e request others s)) \<noteq> Some NilDereference"
proof -
  have "admitRun r e request \<noteq> Inl NilDereference"
    using assms(5) by (auto simp: admitRun_def validateInput_def requireE_def bindE_def
        split: option.splits if_splits sum.splits)
  moreover have "semanticInputDigest L request \<noteq> Inl NilDereference" if "admitRun r e request = Inr d" for d
    using admitRun_Inr(4) [OF that] assms(1,2)
    by (auto simp: semanticInputDigest_def validateInput_def bindE_def split: option.splits if_splits sum.splits)
  moreover have "fst (execute r d request c) \<noteq> Some NilDereference" if "admitRun r e request = Inr d'" for d d' c
    using admitRun_Inr(4) [OF that] assms(3,4)
    by (auto simp: execute_def validateInput_def split: option.splits if_splits sum.splits)
  moreover have "fst (finalReceipt r e request d) \<noteq> Some NilDereference"
    if "\<And>c. fst (execute r d request c) \<noteq> Some NilDereference" for d
    using that assms(7) unfolding finalReceipt_def Let_def
    by (auto split: prod.split option.split) (metis fst_conv)
  moreover have "fst (memoryAcquire (re_acquireErr e) d run dg now until s) \<noteq> Inl NilDereference" for d run dg now until s
    using assms(6) by (auto simp: memoryAcquire_def Let_def split: option.split)
  moreover have "fst (memoryFinish c s) \<noteq> Inl NilDereference" for c s
    by (auto simp: memoryFinish_def Let_def split: option.split)
  ultimately show ?thesis
    unfolding Run_def memory_store_simps
    by (auto split: sum.splits prod.splits option.splits simp: bindE_def; metis fst_conv)
qed

end
