(* ===== verification/Presence_Registry.thy ===== *)
theory Presence_Registry
  imports Commons_Prelude "HOL-Library.Multiset" "HOL-Library.AList"
begin

text \<open>
  The registry of live presence, \<^verbatim>\<open>src/internal/presence/registry.go\<close>. The Go map of sessions is
  an association list without repeated keys; the mutex makes each method one atomic step;
  the reading of the clock is an argument. \<^verbatim>\<open>range\<close> over a map visits its entries in any order,
  so \<open>List\<close> takes the order it visits them in.
\<close>

record presence_record =
  pr_Session :: gostring
  pr_Actor :: gostring
  pr_Host :: gostring
  pr_Project :: gostring
  pr_HostConnected :: bool
  pr_LastActivity :: time
  pr_LoadedFact :: "gostring option"
  pr_LeaseExpires :: time

record Snapshot =
  sn_Session :: gostring
  sn_Actor :: gostring
  sn_Host :: gostring
  sn_Project :: gostring
  sn_HostConnected :: bool
  sn_Execution :: gostring
  sn_LeaseExpires :: "time option"
  sn_LastActivity :: time
  sn_LoadedFact :: "gostring option"

record Session =
  se_ID :: gostring
  se_Actor :: gostring
  se_Host :: gostring
  se_Project :: gostring

type_synonym Registry = "(gostring \<times> presence_record) list"

definition New :: Registry where
  "New = []"

definition zero_record :: presence_record where
  "zero_record = \<lparr>pr_Session = '''', pr_Actor = '''', pr_Host = '''', pr_Project = '''', pr_HostConnected = False,
     pr_LastActivity = zeroTime, pr_LoadedFact = None, pr_LeaseExpires = zeroTime\<rparr>"

definition Connect :: "Session \<Rightarrow> time \<Rightarrow> Registry \<Rightarrow> Registry" where
  "Connect s now r =
     (let rec = (case map_of r (se_ID s) of None \<Rightarrow> zero_record | Some rec \<Rightarrow> rec) in
      AList.update (se_ID s) (rec\<lparr>pr_Session := se_ID s, pr_Actor := se_Actor s, pr_Host := se_Host s,
        pr_Project := se_Project s, pr_HostConnected := True, pr_LastActivity := now\<rparr>) r)"

definition Disconnect :: "gostring \<Rightarrow> time \<Rightarrow> Registry \<Rightarrow> Registry" where
  "Disconnect session now r =
     (case map_of r session of
        None \<Rightarrow> r
      | Some rec \<Rightarrow> AList.update session (rec\<lparr>pr_HostConnected := False, pr_LastActivity := now\<rparr>) r)"

definition Touch :: "gostring \<Rightarrow> time \<Rightarrow> Registry \<Rightarrow> bool \<times> Registry" where
  "Touch session now r =
     (case map_of r session of
        None \<Rightarrow> (False, r)
      | Some rec \<Rightarrow> (True, AList.update session (rec\<lparr>pr_LastActivity := now\<rparr>) r))"

definition SetLoaded :: "gostring \<Rightarrow> gostring option \<Rightarrow> time \<Rightarrow> Registry \<Rightarrow> bool \<times> Registry" where
  "SetLoaded session loaded now r =
     (case map_of r session of
        None \<Rightarrow> (False, r)
      | Some rec \<Rightarrow> (True, AList.update session (rec\<lparr>pr_LoadedFact := loaded, pr_LastActivity := now\<rparr>) r))"

definition LeaseExecution :: "gostring \<Rightarrow> duration \<Rightarrow> time \<Rightarrow> Registry \<Rightarrow> bool \<times> Registry" where
  "LeaseExecution session dur now r =
     (if dur \<le> 0 then (False, r)
      else case map_of r session of
        None \<Rightarrow> (False, r)
      | Some rec \<Rightarrow> (True, AList.update session (rec\<lparr>pr_LeaseExpires := now + dur, pr_LastActivity := now\<rparr>) r))"

definition snapshot :: "presence_record \<Rightarrow> time \<Rightarrow> Snapshot" where
  "snapshot rec now =
     (let executing = (pr_LeaseExpires rec \<noteq> zeroTime \<and> now < pr_LeaseExpires rec) in
      \<lparr>sn_Session = pr_Session rec, sn_Actor = pr_Actor rec, sn_Host = pr_Host rec, sn_Project = pr_Project rec,
       sn_HostConnected = pr_HostConnected rec, sn_Execution = (if executing then ''executing'' else ''not_running''),
       sn_LeaseExpires = (if executing then Some (pr_LeaseExpires rec) else None),
       sn_LastActivity = pr_LastActivity rec, sn_LoadedFact = pr_LoadedFact rec\<rparr>)"

definition Get :: "gostring \<Rightarrow> time \<Rightarrow> Registry \<Rightarrow> Snapshot option" where
  "Get session now r = map_option (\<lambda>rec. snapshot rec now) (map_of r session)"

text \<open>\<open>visited\<close> is the order in which the iteration over the map meets its entries.\<close>

definition List :: "gostring \<Rightarrow> time \<Rightarrow> (gostring \<times> presence_record) list \<Rightarrow> Snapshot list" where
  "List project now visited =
     sort_key sn_Session (map (\<lambda>(_, rec). snapshot rec now)
       (filter (\<lambda>(_, rec). project = '''' \<or> pr_Project rec = project) visited))"

section \<open>The registry as a transition system\<close>

datatype presence_op =
    OpConnect Session | OpDisconnect gostring | OpTouch gostring | OpSetLoaded gostring "gostring option"
  | OpLease gostring duration

fun apply_op :: "presence_op \<Rightarrow> time \<Rightarrow> Registry \<Rightarrow> Registry" where
  "apply_op (OpConnect s) now r = Connect s now r"
| "apply_op (OpDisconnect s) now r = Disconnect s now r"
| "apply_op (OpTouch s) now r = snd (Touch s now r)"
| "apply_op (OpSetLoaded s f) now r = snd (SetLoaded s f now r)"
| "apply_op (OpLease s d) now r = snd (LeaseExecution s d now r)"

definition apply_ops :: "(presence_op \<times> time) list \<Rightarrow> Registry \<Rightarrow> Registry" where
  "apply_ops ops r = fold (\<lambda>(op, now). apply_op op now) ops r"

definition registry_inv :: "Registry \<Rightarrow> bool" where
  "registry_inv r \<longleftrightarrow> distinct (map fst r) \<and> (\<forall>k rec. map_of r k = Some rec \<longrightarrow> pr_Session rec = k)"

lemma registry_inv_update:
  assumes "registry_inv r" "pr_Session rec = k"
  shows "registry_inv (AList.update k rec r)"
  using assms by (simp add: registry_inv_def update_conv' distinct_update)

lemma registry_inv_lookup: "registry_inv r \<Longrightarrow> map_of r k = Some rec \<Longrightarrow> pr_Session rec = k"
  by (simp add: registry_inv_def)

lemma apply_op_inv: "registry_inv r \<Longrightarrow> registry_inv (apply_op op now r)"
  by (cases op) (auto simp: Connect_def Disconnect_def Touch_def SetLoaded_def LeaseExecution_def Let_def
      dest: registry_inv_lookup intro!: registry_inv_update split: option.split)

interpretation presence: transition_invariant "\<lambda>r. r = New" "\<lambda>r t. \<exists>op now. t = apply_op op now r" registry_inv
proof
  show "registry_inv s" if "s = New" for s using that by (simp add: New_def registry_inv_def)
qed (auto intro: apply_op_inv)

lemma apply_ops_inv: "registry_inv r \<Longrightarrow> registry_inv (apply_ops ops r)"
  unfolding apply_ops_def by (induction ops arbitrary: r) (auto intro: apply_op_inv)

lemma sn_Session_snapshot [simp]: "sn_Session (snapshot rec now) = pr_Session rec"
  by (simp add: snapshot_def Let_def)

section \<open>Properties\<close>

text \<open>
  Listing is deterministic although Go iterates over the map in any order:
  whatever the order of the visit, the result is the same list, strictly ordered by session,
  of the snapshots of exactly the sessions of the project (of all sessions when no project
  is named).
\<close>

lemma presence_list_deterministic:
  assumes "mset visited = mset (apply_ops ops New)"
  shows "List project now visited = List project now (apply_ops ops New) \<and>
    sorted_wrt (<) (map sn_Session (List project now visited)) \<and>
    set (List project now visited) =
      {snapshot rec now |k rec. map_of (apply_ops ops New) k = Some rec \<and> (project = '''' \<or> pr_Project rec = project)}"
proof -
  define r where "r = apply_ops ops New"
  have inv: "registry_inv r"
    unfolding r_def by (rule apply_ops_inv) (simp add: New_def registry_inv_def)
  have keys: "distinct (map sn_Session (List project now xs))" if "mset xs = mset r" for xs
  proof -
    have "mset (map fst xs) = mset (map fst r)" using that by simp
    then have "distinct (map fst xs)" using inv by (metis registry_inv_def mset_eq_imp_distinct_iff)
    moreover have "pr_Session rec = k" if "(k, rec) \<in> set xs" for k rec
      using inv that mset_eq_setD [OF \<open>mset xs = mset r\<close>] by (simp add: registry_inv_def map_of_eq_Some_iff)
    then have "map (\<lambda>(_, rec). pr_Session rec) xs = map fst xs" by (auto intro: map_cong)
    ultimately have "distinct (map (\<lambda>(_, rec). pr_Session rec) xs)" by metis
    then have "distinct (map (\<lambda>(_, rec). pr_Session rec) (filter (\<lambda>(_, rec). project = '''' \<or> pr_Project rec = project) xs))"
      by (rule distinct_map_filter)
    moreover have "mset (map sn_Session (List project now xs)) =
        mset (map (\<lambda>(_, rec). pr_Session rec) (filter (\<lambda>(_, rec). project = '''' \<or> pr_Project rec = project) xs))"
      by (simp add: List_def case_prod_unfold multiset.map_comp comp_def)
    ultimately show ?thesis by (metis mset_eq_imp_distinct_iff)
  qed
  have elems: "set (List project now xs) = {snapshot rec now |k rec. map_of r k = Some rec \<and> (project = '''' \<or> pr_Project rec = project)}"
    if "mset xs = mset r" for xs
    using inv mset_eq_setD [OF that] by (auto simp: List_def registry_inv_def map_of_eq_Some_iff)
  have sorted: "sorted (map sn_Session (List project now xs))" for xs by (simp add: List_def)
  have same: "List project now visited = List project now r"
    by (rule map_sorted_distinct_set_unique [of sn_Session])
      (use keys elems sorted assms in \<open>auto simp: r_def distinct_map\<close>)
  moreover have "sorted_wrt (<) (map sn_Session (List project now visited))"
    using sorted [of visited] keys [of visited] assms by (simp add: strict_sorted_iff r_def)
  ultimately show ?thesis using elems [of visited] assms by (simp add: r_def)
qed

text \<open>
  Property C32. Only a lease decides whether a session executes: after a lease of positive
  duration is granted, whatever is connected, disconnected, touched, observed or leased for
  other sessions afterwards, the session is reported as executing exactly until the lease
  expires.
\<close>

definition re_leases :: "gostring \<Rightarrow> presence_op \<Rightarrow> bool" where
  "re_leases session op \<longleftrightarrow> (\<exists>d. op = OpLease session d)"

lemma apply_op_lease:
  assumes "map_of r session = Some rec" "\<not> re_leases session op"
  shows "\<exists>rec'. map_of (apply_op op now r) session = Some rec' \<and> pr_LeaseExpires rec' = pr_LeaseExpires rec"
  using assms by (cases op) (auto simp: Connect_def Disconnect_def Touch_def SetLoaded_def LeaseExecution_def Let_def
      re_leases_def update_conv' split: option.split)

lemma apply_ops_lease:
  assumes "map_of r session = Some rec" "\<forall>(op, t) \<in> set ops. \<not> re_leases session op"
  shows "\<exists>rec'. map_of (apply_ops ops r) session = Some rec' \<and> pr_LeaseExpires rec' = pr_LeaseExpires rec"
  using assms
proof (induction ops arbitrary: r rec)
  case (Cons x ops)
  obtain op t where x: "x = (op, t)" by (cases x)
  with Cons.prems obtain q where "map_of (apply_op op t r) session = Some q" "pr_LeaseExpires q = pr_LeaseExpires rec"
    using apply_op_lease [of r session rec op t] by auto
  with Cons.IH [of "apply_op op t r" q] Cons.prems(2) show ?case by (auto simp: apply_ops_def x)
qed (simp add: apply_ops_def)

theorem lease_decides_execution:
  assumes "LeaseExecution session dur now r = (True, t)" and "zeroTime < now"
    and "\<forall>(op, at) \<in> set ops. \<not> re_leases session op"
  shows "\<exists>sn. Get session later (apply_ops ops t) = Some sn \<and>
    (sn_Execution sn = ''executing'' \<longleftrightarrow> later < now + dur) \<and>
    (sn_Execution sn = ''not_running'' \<longleftrightarrow> now + dur \<le> later)"
proof -
  from assms(1) obtain rec where "map_of t session = Some rec" "pr_LeaseExpires rec = now + dur" "0 < dur"
    by (auto simp: LeaseExecution_def update_conv' split: if_splits option.splits)
  moreover from apply_ops_lease [OF this(1) assms(3)] this obtain q where
    "map_of (apply_ops ops t) session = Some q" "pr_LeaseExpires q = now + dur" by auto
  ultimately show ?thesis using assms(2)
    by (intro exI [of _ "snapshot q later"]) (auto simp: Get_def snapshot_def Let_def split: if_splits)
qed

definition demo_session :: Session where
  "demo_session = \<lparr>se_ID = ''s'', se_Actor = ''a'', se_Host = ''h'', se_Project = ''p''\<rparr>"

theorem lease_decides_execution_witness:
  "\<exists>sn. Get ''s'' 14 (apply_ops [(OpDisconnect ''s'', 7)] (snd (LeaseExecution ''s'' 10 5 (apply_ops [(OpConnect demo_session, 1)] New)))) =
     Some sn \<and> sn_Execution sn = ''executing''"
proof -
  have "fst (LeaseExecution ''s'' 10 5 (apply_ops [(OpConnect demo_session, 1)] New))" by code_simp
  then have lease: "LeaseExecution ''s'' 10 5 (apply_ops [(OpConnect demo_session, 1)] New) =
      (True, snd (LeaseExecution ''s'' 10 5 (apply_ops [(OpConnect demo_session, 1)] New)))"
    by (simp add: prod_eq_iff)
  from lease_decides_execution [OF this, of "[(OpDisconnect ''s'', 7)]" 14] show ?thesis
    by (auto simp: re_leases_def zeroTime_def)
qed

end
