(* ===== verification/Bridge_Observer.thy ===== *)
theory Bridge_Observer
  imports Commons_Prelude
begin

text \<open>
  The passive observer of the App Server protocol, \<^verbatim>\<open>src/internal/appserverbridge/observer.go\<close>.
  The JSON decoder is a parameter: how a line decodes into an envelope and whether more
  follows it, whether a raw id is a string or a number, and how the three payloads decode.
  The map of pending requests is a partial function with its finite domain as a list of
  keys; the mutex makes the two accesses to it atomic, and what other calls do between the
  decoding and the access does not matter, since only the access reads the state.
\<close>

definition MaxLineBytes :: nat where "MaxLineBytes = 2 ^ 20"
definition maxPendingRequests :: nat where "maxPendingRequests = 1024"
definition maxInventoryItems :: nat where "maxInventoryItems = 1000"

datatype Direction = ToServer | FromServer | OtherDirection gostring

datatype bridge_error = ErrInvalidMessage

record Status =
  st_Type :: gostring
  st_ActiveFlags :: "gostring list"

record Thread =
  th_ID :: gostring
  th_SessionID :: gostring
  th_Name :: gostring
  th_Preview :: gostring
  th_Status :: Status

definition Purpose :: "Thread \<Rightarrow> gostring" where
  "Purpose t = th_Name t"

record Event =
  ev_Kind :: gostring
  ev_Threads :: "Thread list"
  ev_ThreadIDs :: "gostring list"
  ev_ThreadID :: gostring
  ev_Status :: Status

record envelope =
  en_JSONRPC :: gostring
  en_ID :: gostring
  en_Method :: gostring
  en_Params :: gostring
  en_Result :: gostring
  en_Error :: gostring

text \<open>
  \<open>br_decode\<close>: the first value of a line, if it decodes, and whether the end of the input
  follows it. \<open>br_scalar\<close>: a raw value decodes to a string or a number.
\<close>

record bridge_lib =
  br_decode :: "gostring \<Rightarrow> (envelope \<times> bool) option"
  br_scalar :: "gostring \<Rightarrow> bool"
  br_status :: "gostring \<Rightarrow> (gostring \<times> Status) option"
  br_threads :: "gostring \<Rightarrow> Thread list option"
  br_ids :: "gostring \<Rightarrow> gostring list option"

record Observer =
  ob_pending :: "(gostring \<times> gostring) list"

definition NewObserver :: Observer where
  "NewObserver = \<lparr>ob_pending = []\<rparr>"

definition noStatus :: Status where
  "noStatus = \<lparr>st_Type = '''', st_ActiveFlags = []\<rparr>"

definition validStatus :: "Status \<Rightarrow> bool" where
  "validStatus s =
     (if length (st_ActiveFlags s) > 32 then False
      else if st_Type s \<in> {''notLoaded'', ''idle'', ''systemError''} then st_ActiveFlags s = []
      else st_Type s = ''active'')"

definition requestKey :: "bridge_lib \<Rightarrow> gostring \<Rightarrow> bridge_error + gostring" where
  "requestKey B raw = (if br_scalar B raw then Inr raw else Inl ErrInvalidMessage)"

text \<open>The part of \<^verbatim>\<open>Process\<close> for requests to the server, and its two answers to list requests.\<close>

definition processRequest :: "bridge_lib \<Rightarrow> envelope \<Rightarrow> Observer \<Rightarrow> (bridge_error + Event list) \<times> Observer" where
  "processRequest B m o' =
     (if en_ID m = '''' \<or> en_Method m = '''' then (Inr [], o')
      else if en_Method m \<noteq> ''thread/list'' \<and> en_Method m \<noteq> ''thread/loaded/list'' then (Inr [], o')
      else case requestKey B (en_ID m) of
        Inl err \<Rightarrow> (Inl err, o')
      | Inr key \<Rightarrow>
          if map_of (ob_pending o') key \<noteq> None \<or> length (ob_pending o') \<ge> maxPendingRequests
          then (Inl ErrInvalidMessage, o')
          else (Inr [], o'\<lparr>ob_pending := (key, en_Method m) # ob_pending o'\<rparr>))"

definition inventory :: "bridge_lib \<Rightarrow> gostring \<Rightarrow> gostring \<Rightarrow> bridge_error + Event list" where
  "inventory B methodName result =
     (if methodName = ''thread/list'' then
        (case br_threads B result of
           None \<Rightarrow> Inl ErrInvalidMessage
         | Some threads \<Rightarrow>
             if length threads > maxInventoryItems \<or>
                \<not> list_all (\<lambda>t. \<not> (th_ID t = '''' \<or> th_SessionID t = '''' \<or> \<not> validStatus (th_Status t))) threads
             then Inl ErrInvalidMessage
             else Inr [\<lparr>ev_Kind = ''thread_inventory'', ev_Threads = threads, ev_ThreadIDs = [], ev_ThreadID = '''',
                        ev_Status = noStatus\<rparr>])
      else if methodName = ''thread/loaded/list'' then
        (case br_ids B result of
           None \<Rightarrow> Inl ErrInvalidMessage
         | Some ids \<Rightarrow>
             if length ids > maxInventoryItems \<or> \<not> list_all (\<lambda>i. i \<noteq> '''') ids then Inl ErrInvalidMessage
             else Inr [\<lparr>ev_Kind = ''loaded_inventory'', ev_Threads = [], ev_ThreadIDs = ids, ev_ThreadID = '''',
                        ev_Status = noStatus\<rparr>])
      else Inr [])"

definition processReply :: "bridge_lib \<Rightarrow> envelope \<Rightarrow> Observer \<Rightarrow> (bridge_error + Event list) \<times> Observer" where
  "processReply B m o' =
     (if en_Method m = ''thread/status/changed'' then
        (case br_status B (en_Params m) of
           None \<Rightarrow> (Inl ErrInvalidMessage, o')
         | Some (thread, status) \<Rightarrow>
             if thread = '''' \<or> \<not> validStatus status then (Inl ErrInvalidMessage, o')
             else (Inr [\<lparr>ev_Kind = ''thread_status'', ev_Threads = [], ev_ThreadIDs = [], ev_ThreadID = thread,
                         ev_Status = status\<rparr>], o'))
      else if en_ID m = '''' then (Inr [], o')
      else case requestKey B (en_ID m) of
        Inl err \<Rightarrow> (Inl err, o')
      | Inr key \<Rightarrow>
          let methodName = (case map_of (ob_pending o') key of None \<Rightarrow> '''' | Some v \<Rightarrow> v);
              o'' = o'\<lparr>ob_pending := filter (\<lambda>(k, _). k \<noteq> key) (ob_pending o')\<rparr> in
          if methodName = '''' \<or> en_Error m \<noteq> '''' \<and> en_Error m \<noteq> ''null'' then (Inr [], o'')
          else (inventory B methodName (en_Result m), o''))"

definition Process :: "bridge_lib \<Rightarrow> Direction \<Rightarrow> gostring \<Rightarrow> Observer \<Rightarrow> (bridge_error + Event list) \<times> Observer" where
  "Process B direction line o' =
     (if direction \<noteq> ToServer \<and> direction \<noteq> FromServer \<or> line = '''' \<or> length line > MaxLineBytes \<or>
         CHR 0x0D \<in> set line \<or> CHR 0x0A \<in> set line then (Inl ErrInvalidMessage, o')
      else case br_decode B line of
        None \<Rightarrow> (Inl ErrInvalidMessage, o')
      | Some (m, atEOF) \<Rightarrow>
          if \<not> atEOF \<or> en_JSONRPC m \<noteq> ''2.0'' then (Inl ErrInvalidMessage, o')
          else if direction = ToServer then processRequest B m o' else processReply B m o')"

section \<open>Invariant\<close>

definition observer_inv :: "Observer \<Rightarrow> bool" where
  "observer_inv o' \<longleftrightarrow> distinct (map fst (ob_pending o')) \<and> length (ob_pending o') \<le> maxPendingRequests \<and>
     (\<forall>(k, v) \<in> set (ob_pending o'). v = ''thread/list'' \<or> v = ''thread/loaded/list'')"

lemma processRequest_inv:
  assumes "observer_inv o'"
  shows "observer_inv (snd (processRequest B m o'))"
  using assms
  by (auto simp: processRequest_def observer_inv_def map_of_eq_None_iff split: sum.split)

lemma processReply_inv:
  assumes "observer_inv o'"
  shows "observer_inv (snd (processReply B m o'))"
proof -
  have "observer_inv (o'\<lparr>ob_pending := filter p (ob_pending o')\<rparr>)" for p
    using assms by (auto simp: observer_inv_def distinct_map_filter intro: le_trans [OF length_filter_le])
  with assms show ?thesis
    by (simp add: processReply_def Let_def split: option.split sum.split prod.split)
qed

lemma Process_inv: "observer_inv o' \<Longrightarrow> observer_inv (snd (Process B dir line o'))"
  by (simp add: Process_def processRequest_inv processReply_inv split: option.split prod.split)

interpretation observer: transition_invariant "\<lambda>o'. o' = NewObserver"
    "\<lambda>o' o''. \<exists>B dir line. o'' = snd (Process B dir line o')" observer_inv
proof
  show "observer_inv s" if "s = NewObserver" for s using that by (simp add: NewObserver_def observer_inv_def)
qed (auto intro: Process_inv)

lemma processReply_Inr:
  assumes "processReply B m o' = (Inr evs, o'')"
  obtains (silent) "evs = []"
  | (status) ev where "evs = [ev]" "ev_Kind ev = ''thread_status''"
  | (answer) v where "map_of (ob_pending o') (en_ID m) = Some v" "inventory B v (en_Result m) = Inr evs"
      "o'' = o'\<lparr>ob_pending := filter (\<lambda>(k, _). k \<noteq> en_ID m) (ob_pending o')\<rparr>"
proof (cases "en_Method m = ''thread/status/changed''")
  case True
  with assms status show ?thesis
    by (simp add: processReply_def split: option.split_asm prod.split_asm if_split_asm) force
next
  case other: False
  show ?thesis
  proof (cases "en_ID m = '''' \<or> \<not> br_scalar B (en_ID m)")
    case True
    with assms other silent show ?thesis
      by (simp add: processReply_def requestKey_def split: if_split_asm)
  next
    case False
    with assms other silent answer show ?thesis
      by (cases "map_of (ob_pending o') (en_ID m)")
        (simp_all add: processReply_def requestKey_def Let_def split: if_split_asm)
  qed
qed

lemma inventory_Inr:
  assumes "inventory B v result = Inr evs" "ev \<in> set evs"
  shows "v = ''thread/list'' \<and> ev_Kind ev = ''thread_inventory'' \<and> length (ev_Threads ev) \<le> maxInventoryItems \<and>
       (\<forall>t \<in> set (ev_Threads ev). th_ID t \<noteq> '''' \<and> th_SessionID t \<noteq> '''' \<and> validStatus (th_Status t)) \<or>
     v = ''thread/loaded/list'' \<and> ev_Kind ev = ''loaded_inventory'' \<and> length (ev_ThreadIDs ev) \<le> maxInventoryItems \<and>
       '''' \<notin> set (ev_ThreadIDs ev)"
proof (cases "v = ''thread/list''")
  case True
  with assms show ?thesis
    by (simp add: inventory_def list_all_iff not_less split: option.split_asm if_split_asm) auto
next
  case False
  with assms show ?thesis
    by (simp add: inventory_def list_all_iff not_less split: option.split_asm if_split_asm) auto
qed

section \<open>Properties\<close>

abbreviation observer_reachable :: "Observer \<Rightarrow> bool" where
  "observer_reachable o' \<equiv> (\<lambda>o' o''. \<exists>B dir line. o'' = snd (Process B dir line o'))\<^sup>*\<^sup>* NewObserver o'"

text \<open>
  Whatever traffic is observed, at most 1024 requests are remembered, each key
  once, and only requests that list threads or loaded threads.
\<close>

lemma pending_bounded:
  assumes "observer_reachable o'"
  shows "length (ob_pending o') \<le> 1024 \<and> distinct (map fst (ob_pending o')) \<and>
    snd ` set (ob_pending o') \<subseteq> {''thread/list'', ''thread/loaded/list''}"
  using observer.reachable_inv [OF refl assms] by (auto simp: observer_inv_def maxPendingRequests_def)

text \<open>
  Property C33. An inventory is reported only as the answer to an observed list request with
  the same id, which it consumes, so a request yields at most one inventory; it has at most
  1000 entries, each with an id, and every thread in it a session and a valid status.
\<close>

theorem inventory_answers_request:
  assumes "observer_reachable o'" and "Process B dir line o' = (Inr evs, o'')" and "ev \<in> set evs"
    and "ev_Kind ev \<noteq> ''thread_status''"
  shows "\<exists>m. br_decode B line = Some (m, True) \<and> dir = FromServer \<and>
    map_of (ob_pending o'') (en_ID m) = None \<and>
    (map_of (ob_pending o') (en_ID m) = Some ''thread/list'' \<and> ev_Kind ev = ''thread_inventory'' \<and>
       length (ev_Threads ev) \<le> 1000 \<and>
       (\<forall>t \<in> set (ev_Threads ev). th_ID t \<noteq> '''' \<and> th_SessionID t \<noteq> '''' \<and> validStatus (th_Status t)) \<or>
     map_of (ob_pending o') (en_ID m) = Some ''thread/loaded/list'' \<and> ev_Kind ev = ''loaded_inventory'' \<and>
       length (ev_ThreadIDs ev) \<le> 1000 \<and> '''' \<notin> set (ev_ThreadIDs ev))"
proof -
  from assms(2) obtain m where m: "br_decode B line = Some (m, True)"
      "dir = ToServer \<and> processRequest B m o' = (Inr evs, o'') \<or> dir = FromServer \<and> processReply B m o' = (Inr evs, o'')"
    by (cases dir) (auto simp: Process_def split: if_split_asm option.split_asm)
  have "\<not> processRequest B m o' = (Inr evs, o'')"
    using assms(3) by (auto simp: processRequest_def split: if_split_asm sum.split_asm)
  with m(2) have reply: "dir = FromServer" "processReply B m o' = (Inr evs, o'')" by auto
  from reply(2) show ?thesis
  proof (cases rule: processReply_Inr)
    case (answer v)
    have "map_of (ob_pending o'') (en_ID m) = None"
      by (auto simp: answer(3) map_of_eq_None_iff)
    with inventory_Inr [OF answer(2) assms(3)] m(1) reply(1) answer(1) show ?thesis
      by (auto simp: maxInventoryItems_def)
  qed (use assms(3,4) in auto)
qed

definition demo_bridge :: bridge_lib where
  "demo_bridge = \<lparr>br_decode = (\<lambda>l. if l = ''q'' then
        Some (\<lparr>en_JSONRPC = ''2.0'', en_ID = ''1'', en_Method = ''thread/loaded/list'', en_Params = '''',
               en_Result = '''', en_Error = ''''\<rparr>, True)
      else Some (\<lparr>en_JSONRPC = ''2.0'', en_ID = ''1'', en_Method = '''', en_Params = '''', en_Result = ''r'',
               en_Error = ''''\<rparr>, True)),
     br_scalar = (\<lambda>_. True), br_status = (\<lambda>_. None), br_threads = (\<lambda>_. None), br_ids = (\<lambda>_. Some [''t''])\<rparr>"

definition demo_observed :: Observer where
  "demo_observed = snd (Process demo_bridge ToServer ''q'' NewObserver)"

lemma demo_observed_value: "demo_observed = \<lparr>ob_pending = [(''1'', ''thread/loaded/list'')]\<rparr>"
  by (simp add: demo_observed_def Process_def demo_bridge_def processRequest_def requestKey_def NewObserver_def
      MaxLineBytes_def maxPendingRequests_def)

lemma demo_observed_reachable: "observer_reachable demo_observed"
  unfolding demo_observed_def by (rule r_into_rtranclp) blast

theorem inventory_answers_request_witness:
  "\<exists>m. br_decode demo_bridge ''a'' = Some (m, True) \<and> map_of (ob_pending demo_observed) (en_ID m) \<noteq> None"
proof -
  obtain evs o'' where p: "Process demo_bridge FromServer ''a'' demo_observed = (Inr evs, o'')" "evs \<noteq> []"
      "ev_Kind (hd evs) \<noteq> ''thread_status''"
  proof -
    have "Process demo_bridge FromServer ''a'' demo_observed = (Inr [\<lparr>ev_Kind = ''loaded_inventory'', ev_Threads = [],
        ev_ThreadIDs = [''t''], ev_ThreadID = '''', ev_Status = noStatus\<rparr>], NewObserver)"
      by (simp add: demo_observed_value Process_def demo_bridge_def processReply_def requestKey_def inventory_def
          NewObserver_def MaxLineBytes_def maxInventoryItems_def)
    with that show thesis by simp
  qed
  from inventory_answers_request [OF demo_observed_reachable p(1) hd_in_set [OF p(2)] p(3)] show ?thesis by auto
qed

end
