(* ===== verification/Human_Store.thy ===== *)
theory Human_Store
  imports Core_Helpers
begin

text \<open>
  The human side of the store: the browser sessions of
  \<^verbatim>\<open>src/internal/store/human_sessions.go\<close> and the account binding, profile and security events of
  \<^verbatim>\<open>src/internal/store/human_auth.go\<close>, on the tables of \<^verbatim>\<open>src/migrations/009_codex_human_auth.sql\<close> and
  \<^verbatim>\<open>015_continuous_dogfood.sql\<close>. Each operation is one statement or one transaction. SHA-256 is an
  argument, and so is the part of \<^verbatim>\<open>strings.ToLower\<close> that treats text beyond ASCII.
\<close>

section \<open>Tables\<close>

record browser_session_row =
  hb_token_digest :: gostring
  hb_csrf_digest :: gostring
  hb_principal :: gostring
  hb_auth_method :: gostring
  hb_binding_revision :: int
  hb_created_at :: time
  hb_expires_at :: time
  hb_revoked_at :: "time option"

record HumanAccountBinding =
  bi_Principal :: gostring
  bi_Provider :: gostring
  bi_ProviderSubjectDigest :: gostring
  bi_DisplayName :: gostring
  bi_Handle :: gostring
  bi_Revision :: int
  bi_CreatedAt :: time
  bi_UpdatedAt :: time

record human_event_row =
  he_id :: gostring
  he_principal :: gostring
  he_event_type :: gostring
  he_binding_revision :: int
  he_request_key :: gostring
  he_request_digest :: gostring
  he_recorded_at :: time

text \<open>
  The primary key of the bindings admits the single value \<^verbatim>\<open>human:local-admin\<close>, so the table holds one
  row at most; \<open>hd_pending\<close> is the latch of the row \<^verbatim>\<open>id=1\<close> of the installation status, if there is one.
\<close>

record human_db =
  hd_sessions :: "browser_session_row list"
  hd_binding :: "HumanAccountBinding option"
  hd_events :: "human_event_row list"
  hd_pending :: "bool option"

definition empty_human_db :: human_db where
  "empty_human_db = \<lparr>hd_sessions = [], hd_binding = None, hd_events = [], hd_pending = Some False\<rparr>"

definition HumanLocalPrincipal :: gostring where
  "HumanLocalPrincipal = ''human:local-admin''"

text \<open>
  SQLite's \<^verbatim>\<open>trim\<close> removes spaces only, and \<^verbatim>\<open>length\<close> counts the characters before a zero byte
  (of valid UTF-8, the bytes that do not continue a character). The check
  \<^verbatim>\<open>length(trim(x)) BETWEEN 1 AND 200\<close> stands on the display name and on the principal of a session.
\<close>

definition sqlTrim :: "gostring \<Rightarrow> gostring" where
  "sqlTrim s = rev (dropWhile (\<lambda>c. c = CHR '' '') (rev (dropWhile (\<lambda>c. c = CHR '' '') s)))"

definition sqlLength :: "gostring \<Rightarrow> nat" where
  "sqlLength s = length (filter (\<lambda>c. byte c div 64 \<noteq> 2) (takeWhile (\<lambda>c. byte c \<noteq> 0) s))"

definition checkName :: "gostring \<Rightarrow> bool" where
  "checkName s \<longleftrightarrow> 1 \<le> sqlLength (sqlTrim s) \<and> sqlLength (sqlTrim s) \<le> 200"

section \<open>Browser sessions\<close>

record HumanBrowserSession =
  bs_TokenDigest :: gostring
  bs_CSRFDigest :: gostring
  bs_Principal :: gostring
  bs_AuthMethod :: gostring
  bs_BindingRevision :: int
  bs_CreatedAt :: time
  bs_ExpiresAt :: time

text \<open>\<open>ORDER BY created_at DESC,hex(token_digest) DESC\<close>; hexadecimal digits sort as the bytes do.\<close>

definition sessionOrder :: "browser_session_row \<Rightarrow> (int \<times> gostring) \<times> gostring" where
  "sessionOrder r = (stampKey (hb_created_at r), hb_token_digest r)"

definition beyondLimit :: "gostring \<Rightarrow> browser_session_row list \<Rightarrow> browser_session_row list" where
  "beyondLimit who rows = drop 8 (rev (sort_key sessionOrder (filter (\<lambda>r. hb_principal r = who) rows)))"

definition SaveHumanBrowserSession :: "HumanBrowserSession \<Rightarrow> human_db \<Rightarrow> go_error option \<times> human_db" where
  "SaveHumanBrowserSession v s =
     (if length (bs_TokenDigest v) \<noteq> 32 \<or> length (bs_CSRFDigest v) \<noteq> 32 \<or> bs_Principal v = '''' \<or>
         (bs_AuthMethod v \<noteq> ''codex'' \<and> bs_AuthMethod v \<noteq> ''recovery'') \<or> bs_BindingRevision v < 0 \<or>
         \<not> bs_CreatedAt v < bs_ExpiresAt v then (Some ErrInvalid, s)
      else
        let rows = filter (\<lambda>r. \<not> (hb_revoked_at r \<noteq> None \<or> stampKey (hb_expires_at r) \<le> stampKey (bs_CreatedAt v)))
                     (hd_sessions s) in
        if hasRow (\<lambda>r. hb_token_digest r = bs_TokenDigest v) rows \<or> \<not> checkName (bs_Principal v) then (Some (mapErr SqlConstraint), s)
        else
          let rows = rows @ [\<lparr>hb_token_digest = bs_TokenDigest v, hb_csrf_digest = bs_CSRFDigest v,
                       hb_principal = bs_Principal v, hb_auth_method = bs_AuthMethod v,
                       hb_binding_revision = bs_BindingRevision v, hb_created_at = bs_CreatedAt v,
                       hb_expires_at = bs_ExpiresAt v, hb_revoked_at = None\<rparr>];
              gone = map hb_token_digest (beyondLimit (bs_Principal v) rows) in
          (None, s\<lparr>hd_sessions := filter (\<lambda>r. hb_token_digest r \<notin> set gone) rows\<rparr>))"

definition liveSession :: "gostring \<Rightarrow> time \<Rightarrow> browser_session_row \<Rightarrow> bool" where
  "liveSession digest now r \<longleftrightarrow>
     hb_token_digest r = digest \<and> hb_revoked_at r = None \<and> stampKey now < stampKey (hb_expires_at r)"

text \<open>The name of the method clashes with that of the struct it returns. A zero time is a stamp that does not parse.\<close>

definition HumanBrowserSessionByToken :: "gostring \<Rightarrow> time \<Rightarrow> human_db \<Rightarrow> go_error + HumanBrowserSession" where
  "HumanBrowserSessionByToken digest now s =
     (case find (liveSession digest now) (hd_sessions s) of
        None \<Rightarrow> Inl ErrNotFound
      | Some r \<Rightarrow>
          if hb_created_at r = zeroTime \<or> hb_expires_at r = zeroTime then Inl ErrConflict
          else Inr \<lparr>bs_TokenDigest = hb_token_digest r, bs_CSRFDigest = hb_csrf_digest r,
             bs_Principal = hb_principal r, bs_AuthMethod = hb_auth_method r,
             bs_BindingRevision = hb_binding_revision r, bs_CreatedAt = hb_created_at r,
             bs_ExpiresAt = hb_expires_at r\<rparr>)"

definition updBrowserSessions ::
  "(browser_session_row \<Rightarrow> bool) \<Rightarrow> (browser_session_row \<Rightarrow> browser_session_row) \<Rightarrow> human_db \<Rightarrow> human_db" where
  "updBrowserSessions p f s = s\<lparr>hd_sessions := updWhere p f (hd_sessions s)\<rparr>"

definition RevokeHumanBrowserSession :: "gostring \<Rightarrow> time \<Rightarrow> human_db \<Rightarrow> go_error option \<times> human_db" where
  "RevokeHumanBrowserSession digest now s =
     (None, updBrowserSessions (\<lambda>r. hb_token_digest r = digest \<and> hb_revoked_at r = None)
              (\<lambda>r. r\<lparr>hb_revoked_at := Some now\<rparr>) s)"

definition RevokeHumanBrowserSessionsByMethod :: "gostring \<Rightarrow> time \<Rightarrow> human_db \<Rightarrow> go_error option \<times> human_db" where
  "RevokeHumanBrowserSessionsByMethod m now s =
     (None, updBrowserSessions (\<lambda>r. hb_auth_method r = m \<and> hb_revoked_at r = None)
              (\<lambda>r. r\<lparr>hb_revoked_at := Some now\<rparr>) s)"

definition UpdateHumanBrowserSessionCSRF :: "gostring \<Rightarrow> gostring \<Rightarrow> human_db \<Rightarrow> go_error option \<times> human_db" where
  "UpdateHumanBrowserSessionCSRF digest csrf s =
     (let p = (\<lambda>r. hb_token_digest r = digest \<and> hb_revoked_at r = None) in
      (if countWhere p (hd_sessions s) \<noteq> 1 then Some ErrNotFound else None,
       updBrowserSessions p (\<lambda>r. r\<lparr>hb_csrf_digest := csrf\<rparr>) s))"

definition UpdateHumanBrowserSessionRevisions :: "gostring \<Rightarrow> int \<Rightarrow> human_db \<Rightarrow> go_error option \<times> human_db" where
  "UpdateHumanBrowserSessionRevisions who revision s =
     (if who = '''' \<or> revision < 0 then (Some ErrInvalid, s)
      else (None, updBrowserSessions (\<lambda>r. hb_principal r = who \<and> hb_revoked_at r = None)
                    (\<lambda>r. r\<lparr>hb_binding_revision := revision\<rparr>) s))"

definition SetCodexSessionRevocationPending :: "bool \<Rightarrow> human_db \<Rightarrow> go_error option \<times> human_db" where
  "SetCodexSessionRevocationPending pending s =
     (case hd_pending s of
        None \<Rightarrow> (Some ErrNotFound, s)
      | Some _ \<Rightarrow> (None, s\<lparr>hd_pending := Some pending\<rparr>))"

definition CodexSessionRevocationPending :: "human_db \<Rightarrow> go_error + bool" where
  "CodexSessionRevocationPending s = someE (hd_pending s) SqlNoRows"

section \<open>Account binding and profile\<close>

definition lower1 :: "char \<Rightarrow> char" where
  "lower1 c = (if is_upper c then char_of (byte c + 32) else c)"

definition ToLower :: "(gostring \<Rightarrow> gostring) \<Rightarrow> gostring \<Rightarrow> gostring" where
  "ToLower unicode s = (if list_all (\<lambda>c. byte c < 0x80) s then map lower1 s else unicode s)"

definition handleChar :: "char \<Rightarrow> bool" where
  "handleChar c \<longleftrightarrow> is_lower c \<or> is_digit c"

text \<open>\<^verbatim>\<open>^[a-z0-9](?:[a-z0-9-]{1,62}[a-z0-9])?$\<close>\<close>

definition humanHandlePattern :: "gostring \<Rightarrow> bool" where
  "humanHandlePattern h \<longleftrightarrow>
     (case h of
        [] \<Rightarrow> False
      | c # r \<Rightarrow> handleChar c \<and>
          (r = [] \<or>
           (let mid = butlast r in 1 \<le> length mid \<and> length mid \<le> 62 \<and>
              list_all (\<lambda>x. handleChar x \<or> x = CHR ''-'') mid \<and> handleChar (List.last r))))"

definition validHumanProfile :: "(gostring \<Rightarrow> gostring) \<Rightarrow> gostring \<Rightarrow> gostring \<Rightarrow> bool" where
  "validHumanProfile unicode displayName handle \<longleftrightarrow>
     1 \<le> length displayName \<and> length displayName \<le> 200 \<and> displayName = TrimSpace displayName \<and>
     3 \<le> length handle \<and> length handle \<le> 64 \<and> handle = ToLower unicode handle \<and> humanHandlePattern handle"

record BindHumanAccountRequest =
  bq_ProviderSubjectDigest :: gostring
  bq_DisplayName :: gostring
  bq_Handle :: gostring

record UpdateHumanProfileRequest =
  uq_Principal :: gostring
  uq_DisplayName :: gostring
  uq_Handle :: gostring
  uq_BaseRevision :: int
  uq_IdempotencyKey :: gostring

record HumanAuthEventRequest =
  eq_Principal :: gostring
  eq_EventType :: gostring
  eq_BindingRevision :: int
  eq_IdempotencyKey :: gostring

text \<open>\<^verbatim>\<open>binary.BigEndian.PutUint64\<close>, and what the digest of a profile request is taken of.\<close>

definition be64 :: "nat \<Rightarrow> gostring" where
  "be64 n = map (\<lambda>k. char_of (n div 256 ^ k mod 256)) [7, 6, 5, 4, 3, 2, 1, 0]"

definition framed :: "gostring \<Rightarrow> gostring" where
  "framed v = be64 (length v) @ v"

definition profilePreimage :: "UpdateHumanProfileRequest \<Rightarrow> gostring" where
  "profilePreimage q = framed (uq_Principal q) @ be64 (nat (uq_BaseRevision q mod 2 ^ 64)) @
     framed (uq_DisplayName q) @ framed (uq_Handle q)"

definition humanProfileRequestDigest :: "(gostring \<Rightarrow> gostring) \<Rightarrow> UpdateHumanProfileRequest \<Rightarrow> gostring" where
  "humanProfileRequestDigest sha q = sha (profilePreimage q)"

definition GetHumanAccountBinding :: "human_db \<Rightarrow> go_error + HumanAccountBinding" where
  "GetHumanAccountBinding s = mapErrE mapErr (someE (hd_binding s) SqlNoRows)"

definition sqlInsertHumanEvent :: "human_event_row \<Rightarrow> human_db \<Rightarrow> go_error + human_db" where
  "sqlInsertHumanEvent r s =
     checked (\<not> hasRow (\<lambda>q. he_id q = he_id r \<or>
                 he_request_key r \<noteq> '''' \<and> he_principal q = he_principal r \<and> he_event_type q = he_event_type r \<and>
                 he_request_key q = he_request_key r) (hd_events s))
       (s\<lparr>hd_events := hd_events s @ [r]\<rparr>)"

definition BindHumanAccount ::
  "(gostring \<Rightarrow> gostring) \<Rightarrow> env \<Rightarrow> BindHumanAccountRequest \<Rightarrow> human_db \<Rightarrow> (go_error + HumanAccountBinding) \<times> human_db" where
  "BindHumanAccount unicode e q s =
     (if length (bq_ProviderSubjectDigest q) \<noteq> 32 \<or> \<not> validHumanProfile unicode (bq_DisplayName q) (bq_Handle q)
      then (Inl ErrInvalid, s)
      else case hd_binding s of
        Some current \<Rightarrow>
          (if bi_ProviderSubjectDigest current = bq_ProviderSubjectDigest q then Inr current else Inl ErrConflict, s)
      | None \<Rightarrow>
          if \<not> checkName (bq_DisplayName q) then (Inl (mapErr SqlConstraint), s)
          else
          let now = env_now e;
              t = s\<lparr>hd_binding := Some \<lparr>bi_Principal = HumanLocalPrincipal, bi_Provider = ''chatgpt'',
                     bi_ProviderSubjectDigest = bq_ProviderSubjectDigest q, bi_DisplayName = bq_DisplayName q,
                     bi_Handle = bq_Handle q, bi_Revision = 1, bi_CreatedAt = now, bi_UpdatedAt = now\<rparr>\<rparr> in
          (case mapErrE mapErr (sqlInsertHumanEvent \<lparr>he_id = newID e 0 ''HAE-'', he_principal = HumanLocalPrincipal,
                   he_event_type = ''account_bound'', he_binding_revision = 1, he_request_key = '''',
                   he_request_digest = '''', he_recorded_at = now\<rparr> t) of
             Inl err \<Rightarrow> (Inl err, s)
           | Inr t \<Rightarrow> (GetHumanAccountBinding t, t)))"

definition UpdateHumanProfile ::
  "(gostring \<Rightarrow> gostring) \<Rightarrow> (gostring \<Rightarrow> gostring) \<Rightarrow> env \<Rightarrow> UpdateHumanProfileRequest \<Rightarrow> human_db \<Rightarrow>
   (go_error + HumanAccountBinding) \<times> human_db" where
  "UpdateHumanProfile sha unicode e q s =
     (if uq_Principal q \<noteq> HumanLocalPrincipal \<or> uq_BaseRevision q < 1 \<or>
         \<not> validHumanProfile unicode (uq_DisplayName q) (uq_Handle q) \<or> uq_IdempotencyKey q = '''' \<or>
         length (uq_IdempotencyKey q) > 200 \<or> TrimSpace (uq_IdempotencyKey q) \<noteq> uq_IdempotencyKey q
      then (Inl ErrInvalid, s)
      else
        let digest = humanProfileRequestDigest sha q in
        case find (\<lambda>r. he_principal r = HumanLocalPrincipal \<and> he_event_type r = ''profile_updated'' \<and>
                       he_request_key r = uq_IdempotencyKey q) (hd_events s) of
          Some r \<Rightarrow>
            (if length (he_request_digest r) \<noteq> 32 \<or> he_request_digest r \<noteq> digest then Inl ErrConflict
             else GetHumanAccountBinding s, s)
        | None \<Rightarrow>
            (case GetHumanAccountBinding s of
               Inl err \<Rightarrow> (Inl err, s)
             | Inr current \<Rightarrow>
                 if bi_Revision current \<noteq> uq_BaseRevision q then (Inl ErrConflict, s)
                 else if \<not> checkName (uq_DisplayName q) then (Inl (mapErr SqlConstraint), s)
                 else
                   let now = env_now e;
                       t = s\<lparr>hd_binding := Some (current\<lparr>bi_DisplayName := uq_DisplayName q, bi_Handle := uq_Handle q,
                              bi_Revision := bi_Revision current + 1, bi_UpdatedAt := now\<rparr>)\<rparr> in
                   (case mapErrE mapErr (sqlInsertHumanEvent \<lparr>he_id = newID e 0 ''HAE-'',
                            he_principal = HumanLocalPrincipal, he_event_type = ''profile_updated'',
                            he_binding_revision = uq_BaseRevision q + 1, he_request_key = uq_IdempotencyKey q,
                            he_request_digest = digest, he_recorded_at = now\<rparr> t) of
                      Inl err \<Rightarrow> (Inl err, s)
                    | Inr t \<Rightarrow> (GetHumanAccountBinding t, t))))"

definition RecordHumanAuthEvent ::
  "env \<Rightarrow> HumanAuthEventRequest \<Rightarrow> human_db \<Rightarrow> go_error option \<times> human_db" where
  "RecordHumanAuthEvent e q s =
     (if eq_Principal q \<noteq> HumanLocalPrincipal \<or> eq_EventType q \<noteq> ''recovery_login'' \<or> eq_BindingRevision q < 0 \<or>
         eq_IdempotencyKey q = '''' \<or> length (eq_IdempotencyKey q) > 200 \<or>
         TrimSpace (eq_IdempotencyKey q) \<noteq> eq_IdempotencyKey q then (Some ErrInvalid, s)
      else if hasRow (\<lambda>r. he_principal r = eq_Principal q \<and> he_event_type r = eq_EventType q \<and>
                 he_request_key r = eq_IdempotencyKey q) (hd_events s) then (None, s)
      else (case mapErrE mapErr (sqlInsertHumanEvent \<lparr>he_id = newID e 0 ''HAE-'', he_principal = eq_Principal q,
                    he_event_type = eq_EventType q, he_binding_revision = eq_BindingRevision q,
                    he_request_key = eq_IdempotencyKey q, he_request_digest = '''', he_recorded_at = env_now e\<rparr> s) of
              Inl err \<Rightarrow> (Some err, s)
            | Inr t \<Rightarrow> (None, t)))"

end
