(* ===== verification/Human_Auth.thy ===== *)
theory Human_Auth
  imports Human_Store "HOL-Library.AList"
begin

text \<open>
  The human sessions of the HTTP server (\<^verbatim>\<open>src/internal/httpapi/auth.go\<close>): a cache of sessions in
  memory in front of the stored ones, the limit on failed logins, and the revocation of all sessions
  that were opened with a Codex account. The store is reached through the interface
  \<^verbatim>\<open>HumanSessionStore\<close>, a record of operations here, so that the model also runs on a store whose
  database fails. An operation that gives up the mutex between two parts is the composition of the
  parts, which are definitions of their own. SHA-256 and the bytes drawn from the random source are
  arguments. A Go map is an association list.
\<close>

section \<open>Interface of the store\<close>

record 'st HumanSessionStore =
  st_Save :: "HumanBrowserSession \<Rightarrow> 'st \<Rightarrow> go_error option \<times> 'st"
  st_Get :: "gostring \<Rightarrow> time \<Rightarrow> 'st \<Rightarrow> (go_error + HumanBrowserSession) \<times> 'st"
  st_Revoke :: "gostring \<Rightarrow> time \<Rightarrow> 'st \<Rightarrow> go_error option \<times> 'st"
  st_RevokeByMethod :: "gostring \<Rightarrow> time \<Rightarrow> 'st \<Rightarrow> go_error option \<times> 'st"
  st_UpdateCSRF :: "gostring \<Rightarrow> gostring \<Rightarrow> 'st \<Rightarrow> go_error option \<times> 'st"
  st_UpdateRevisions :: "gostring \<Rightarrow> int \<Rightarrow> 'st \<Rightarrow> go_error option \<times> 'st"
  st_SetPending :: "bool \<Rightarrow> 'st \<Rightarrow> go_error option \<times> 'st"
  st_Pending :: "'st \<Rightarrow> (go_error + bool) \<times> 'st"

definition sessionStore :: "human_db HumanSessionStore" where
  "sessionStore = \<lparr>st_Save = SaveHumanBrowserSession,
     st_Get = (\<lambda>digest now s. (HumanBrowserSessionByToken digest now s, s)),
     st_Revoke = RevokeHumanBrowserSession,
     st_RevokeByMethod = RevokeHumanBrowserSessionsByMethod,
     st_UpdateCSRF = UpdateHumanBrowserSessionCSRF,
     st_UpdateRevisions = UpdateHumanBrowserSessionRevisions,
     st_SetPending = SetCodexSessionRevocationPending,
     st_Pending = (\<lambda>s. (CodexSessionRevocationPending s, s))\<rparr>"

text \<open>
  The same operations on a database that refuses some statements: the list says of the calls to come
  whether the database fails, which leaves the tables as they are and is reported as an error.
\<close>

type_synonym 's failing = "bool list \<times> 's"

definition failing :: "(go_error \<Rightarrow> 'r) \<Rightarrow> ('s \<Rightarrow> 'r \<times> 's) \<Rightarrow> 's failing \<Rightarrow> 'r \<times> 's failing" where
  "failing err f s =
     (case fst s of
        True # later \<Rightarrow> (err ErrUnavailable, (later, snd s))
      | _ \<Rightarrow> (fst (f (snd s)), (tl (fst s), snd (f (snd s)))))"

definition failingStore :: "'s HumanSessionStore \<Rightarrow> 's failing HumanSessionStore" where
  "failingStore st = \<lparr>st_Save = (\<lambda>v. failing Some (st_Save st v)),
     st_Get = (\<lambda>digest now. failing Inl (st_Get st digest now)),
     st_Revoke = (\<lambda>digest now. failing Some (st_Revoke st digest now)),
     st_RevokeByMethod = (\<lambda>m now. failing Some (st_RevokeByMethod st m now)),
     st_UpdateCSRF = (\<lambda>digest csrf. failing Some (st_UpdateCSRF st digest csrf)),
     st_UpdateRevisions = (\<lambda>who revision. failing Some (st_UpdateRevisions st who revision)),
     st_SetPending = (\<lambda>pending. failing Some (st_SetPending st pending)),
     st_Pending = failing Inl (st_Pending st)\<rparr>"

section \<open>Configuration and state\<close>

record HumanAuthConfig =
  hc_AdminSecret :: gostring
  hc_DisplayName :: gostring
  hc_Handle :: gostring
  hc_Actor :: gostring
  hc_Principal :: gostring
  hc_Session :: gostring
  hc_Host :: gostring
  hc_SessionTTL :: duration
  hc_RecoveryEnabled :: bool
  hc_CodexEnabled :: bool

record humanSession =
  se_csrf :: gostring
  se_createdAt :: time
  se_expiresAt :: time
  se_authMethod :: gostring
  se_bindingRevision :: int

record 'st humanAuth =
  ha_secretDigest :: gostring
  ha_displayName :: gostring
  ha_principalID :: gostring
  ha_handle :: gostring
  ha_actor :: gostring
  ha_session :: gostring
  ha_host :: gostring
  ha_ttl :: duration
  ha_recoveryEnabled :: bool
  ha_codexEnabled :: bool
  ha_sessions :: "(gostring \<times> humanSession) list"
  ha_failures :: "time list"
  ha_store :: "'st HumanSessionStore option"

definition Second :: duration where "Second = 1000000000"
definition Minute :: duration where "Minute = 60 * Second"
definition Hour :: duration where "Hour = 60 * Minute"

definition newHumanAuth ::
  "(gostring \<Rightarrow> gostring) \<Rightarrow> HumanAuthConfig option \<Rightarrow> 'st HumanSessionStore option \<Rightarrow> 'st humanAuth option" where
  "newHumanAuth sha config store =
     (case config of
        None \<Rightarrow> None
      | Some c \<Rightarrow>
          if \<not> hc_RecoveryEnabled c \<and> \<not> hc_CodexEnabled c then None
          else Some \<lparr>ha_secretDigest = sha (hc_AdminSecret c), ha_displayName = hc_DisplayName c,
             ha_principalID = (if hc_Principal c = '''' then ''human:local-admin'' else hc_Principal c),
             ha_handle = (if hc_Handle c = '''' then ''local-admin'' else hc_Handle c),
             ha_actor = hc_Actor c, ha_session = hc_Session c, ha_host = hc_Host c,
             ha_ttl = (if hc_SessionTTL c \<le> 0 then 12 * Hour else hc_SessionTTL c),
             ha_recoveryEnabled = hc_RecoveryEnabled c, ha_codexEnabled = hc_CodexEnabled c,
             ha_sessions = [], ha_failures = [], ha_store = store\<rparr>)"

section \<open>Failed logins\<close>

definition zeroDigest :: gostring where
  "zeroDigest = replicate 32 (char_of (0 :: nat))"

definition verifySecret :: "(gostring \<Rightarrow> gostring) \<Rightarrow> 'st humanAuth \<Rightarrow> gostring \<Rightarrow> bool" where
  "verifySecret sha a v \<longleftrightarrow>
     ha_recoveryEnabled a \<and> ha_secretDigest a \<noteq> zeroDigest \<and> sha v = ha_secretDigest a"

definition rateLimited :: "time \<Rightarrow> 'st humanAuth \<Rightarrow> (bool \<times> duration) \<times> 'st humanAuth" where
  "rateLimited now a =
     (let kept = filter (\<lambda>f. now - Minute < f) (ha_failures a);
          a' = a\<lparr>ha_failures := kept\<rparr> in
      if length kept < 5 then ((False, 0), a')
      else ((True, max (kept ! 0 + Minute - now) Second), a'))"

definition recordFailure :: "time \<Rightarrow> 'st humanAuth \<Rightarrow> 'st humanAuth" where
  "recordFailure now a =
     (let fs = ha_failures a @ [now] in
      a\<lparr>ha_failures := (if length fs > 5 then drop (length fs - 5) fs else fs)\<rparr>)"

section \<open>Sessions\<close>

text \<open>
  \<^verbatim>\<open>base64.RawURLEncoding\<close>, and the token made of the bytes that the random source delivered, if it
  did. The second half of an operation runs under the mutex.
\<close>

definition sixBits :: "nat \<Rightarrow> char" where
  "sixBits n =
     (if n < 26 then char_of (65 + n) else if n < 52 then char_of (97 + (n - 26))
      else if n < 62 then char_of (48 + (n - 52)) else if n = 62 then CHR ''-'' else CHR ''_'')"

fun RawURLEncoding :: "gostring \<Rightarrow> gostring" where
  "RawURLEncoding (a # b # c # s) =
     sixBits (byte a div 4) # sixBits (byte a mod 4 * 16 + byte b div 16) #
     sixBits (byte b mod 16 * 4 + byte c div 64) # sixBits (byte c mod 64) # RawURLEncoding s"
| "RawURLEncoding [a, b] =
     [sixBits (byte a div 4), sixBits (byte a mod 4 * 16 + byte b div 16), sixBits (byte b mod 16 * 4)]"
| "RawURLEncoding [a] = [sixBits (byte a div 4), sixBits (byte a mod 4 * 16)]"
| "RawURLEncoding [] = []"

definition randomAuthToken :: "gostring option \<Rightarrow> gostring option" where
  "randomAuthToken raw = map_option RawURLEncoding raw"

fun oldestSession :: "(gostring \<times> humanSession) list \<Rightarrow> gostring \<Rightarrow> time \<Rightarrow> gostring" where
  "oldestSession [] oldestKey oldest = oldestKey"
| "oldestSession ((key, v) # rest) oldestKey oldest =
     (if oldestKey = '''' \<or> se_createdAt v < oldest \<or> se_createdAt v = oldest \<and> key < oldestKey
      then oldestSession rest key (se_createdAt v) else oldestSession rest oldestKey oldest)"

definition cacheNew :: "time \<Rightarrow> gostring \<Rightarrow> humanSession \<Rightarrow> 'st humanAuth \<Rightarrow> 'st humanAuth" where
  "cacheNew now token session a =
     (let live = filter (\<lambda>(_, v). now < se_expiresAt v) (ha_sessions a);
          kept = (if length live \<ge> 8 then AList.delete (oldestSession live '''' zeroTime) live else live) in
      a\<lparr>ha_failures := [], ha_sessions := AList.update token session kept\<rparr>)"

definition saveSession ::
  "(gostring \<Rightarrow> gostring) \<Rightarrow> time \<Rightarrow> gostring \<Rightarrow> gostring \<Rightarrow> humanSession \<Rightarrow> 'st humanAuth \<Rightarrow> 'st \<Rightarrow> go_error option \<times> 'st" where
  "saveSession sha now token csrf session a s =
     (case ha_store a of
        None \<Rightarrow> (None, s)
      | Some st \<Rightarrow> st_Save st \<lparr>bs_TokenDigest = sha token, bs_CSRFDigest = sha csrf, bs_Principal = ha_principalID a,
            bs_AuthMethod = se_authMethod session, bs_BindingRevision = se_bindingRevision session,
            bs_CreatedAt = now, bs_ExpiresAt = se_expiresAt session\<rparr> s)"

definition create ::
  "(gostring \<Rightarrow> gostring) \<Rightarrow> time \<Rightarrow> gostring option \<Rightarrow> gostring option \<Rightarrow> gostring \<Rightarrow> int \<Rightarrow> 'st humanAuth \<Rightarrow> 'st \<Rightarrow>
   (gostring \<times> humanSession) option \<times> 'st humanAuth \<times> 'st" where
  "create sha now raw1 raw2 m revision a s =
     (case randomAuthToken raw1 of
        None \<Rightarrow> (None, a, s)
      | Some token \<Rightarrow>
          (case randomAuthToken raw2 of
             None \<Rightarrow> (None, a, s)
           | Some csrf \<Rightarrow>
               let session = \<lparr>se_csrf = csrf, se_createdAt = now, se_expiresAt = now + ha_ttl a,
                     se_authMethod = (if m \<noteq> '''' then m else ''recovery''),
                     se_bindingRevision = (if revision \<ge> 0 then revision else 0)\<rparr> in
               (case saveSession sha now token csrf session a s of
                  (Some _, s') \<Rightarrow> (None, a, s')
                | (None, s') \<Rightarrow> (Some (token, session), cacheNew now token session a, s'))))"

definition lookup ::
  "(gostring \<Rightarrow> gostring) \<Rightarrow> time \<Rightarrow> gostring \<Rightarrow> 'st humanAuth \<Rightarrow> 'st \<Rightarrow> humanSession option \<times> 'st humanAuth \<times> 'st" where
  "lookup sha now token a s =
     (if token = '''' then (None, a, s)
      else
        let (found, a', s') =
          (case map_of (ha_sessions a) token of
             Some v \<Rightarrow> (Some v, a, s)
           | None \<Rightarrow>
               (case ha_store a of
                  None \<Rightarrow> (None, a, s)
                | Some st \<Rightarrow>
                    (case st_Get st (sha token) now s of
                       (Inl _, s') \<Rightarrow> (None, a, s')
                     | (Inr v, s') \<Rightarrow>
                         if bs_Principal v = ha_principalID a then
                           let session = \<lparr>se_csrf = '''', se_createdAt = bs_CreatedAt v, se_expiresAt = bs_ExpiresAt v,
                                 se_authMethod = bs_AuthMethod v, se_bindingRevision = bs_BindingRevision v\<rparr> in
                           (Some session, a\<lparr>ha_sessions := AList.update token session (ha_sessions a)\<rparr>, s')
                         else (None, a, s')))) in
        case found of
          None \<Rightarrow> (None, a', s')
        | Some session \<Rightarrow>
            if \<not> now < se_expiresAt session
            then (None, a'\<lparr>ha_sessions := AList.delete token (ha_sessions a')\<rparr>, s')
            else (Some session, a', s'))"

definition removeStored ::
  "(gostring \<Rightarrow> gostring) \<Rightarrow> time \<Rightarrow> gostring \<Rightarrow> 'st humanAuth \<Rightarrow> 'st \<Rightarrow> go_error option \<times> 'st" where
  "removeStored sha now token a s =
     (case ha_store a of None \<Rightarrow> (None, s) | Some st \<Rightarrow> st_Revoke st (sha token) now s)"

definition removeCached :: "gostring \<Rightarrow> 'st humanAuth \<Rightarrow> 'st humanAuth" where
  "removeCached token a = a\<lparr>ha_sessions := AList.delete token (ha_sessions a)\<rparr>"

definition remove ::
  "(gostring \<Rightarrow> gostring) \<Rightarrow> time \<Rightarrow> gostring \<Rightarrow> 'st humanAuth \<Rightarrow> 'st \<Rightarrow> go_error option \<times> 'st humanAuth \<times> 'st" where
  "remove sha now token a s =
     (if token = '''' then (None, a, s)
      else case removeStored sha now token a s of
        (Some err, s') \<Rightarrow> (Some err, a, s')
      | (None, s') \<Rightarrow> (None, removeCached token a, s'))"

section \<open>Revocation of Codex sessions\<close>

definition dropCodexSessions :: "'st humanAuth \<Rightarrow> 'st humanAuth" where
  "dropCodexSessions a = a\<lparr>ha_sessions := filter (\<lambda>(_, v). se_authMethod v \<noteq> ''codex'') (ha_sessions a)\<rparr>"

fun revokeAttempts :: "nat \<Rightarrow> time \<Rightarrow> 'st HumanSessionStore \<Rightarrow> go_error option \<Rightarrow> 'st \<Rightarrow> go_error option \<times> 'st" where
  "revokeAttempts 0 now st err s = (err, s)"
| "revokeAttempts (Suc n) now st err s =
     (case st_RevokeByMethod st ''codex'' now s of
        (None, s') \<Rightarrow> (None, s')
      | (Some err', s') \<Rightarrow> revokeAttempts n now st (Some err') s')"

definition revokeStored :: "time \<Rightarrow> 'st humanAuth \<Rightarrow> 'st \<Rightarrow> go_error option \<times> 'st" where
  "revokeStored now a s =
     (case ha_store a of None \<Rightarrow> (None, s) | Some st \<Rightarrow> revokeAttempts 3 now st None s)"

text \<open>The argument \<open>w\<close> is what other requests do between the two parts, while the mutex is free.\<close>

definition revokeCodexSessions ::
  "('st humanAuth \<times> 'st \<Rightarrow> 'st humanAuth \<times> 'st) \<Rightarrow> time \<Rightarrow> 'st humanAuth \<Rightarrow> 'st \<Rightarrow> go_error option \<times> 'st humanAuth \<times> 'st" where
  "revokeCodexSessions w now a s =
     (let (a', s') = w (dropCodexSessions a, s); (err, s'') = revokeStored now a' s' in (err, a', s''))"

definition setCodexRevocationPending :: "bool \<Rightarrow> 'st humanAuth \<Rightarrow> 'st \<Rightarrow> go_error option \<times> 'st" where
  "setCodexRevocationPending pending a s =
     (case ha_store a of None \<Rightarrow> (None, s) | Some st \<Rightarrow> st_SetPending st pending s)"

definition codexRevocationPending :: "'st humanAuth \<Rightarrow> 'st \<Rightarrow> bool \<times> 'st" where
  "codexRevocationPending a s =
     (case ha_store a of
        None \<Rightarrow> (False, s)
      | Some st \<Rightarrow>
          (case st_Pending st s of (Inl _, s') \<Rightarrow> (True, s') | (Inr pending, s') \<Rightarrow> (pending, s')))"

section \<open>Changes to a session\<close>

definition rotateCSRF ::
  "(gostring \<Rightarrow> gostring) \<Rightarrow> time \<Rightarrow> gostring option \<Rightarrow> gostring \<Rightarrow> 'st humanAuth \<Rightarrow> 'st \<Rightarrow>
   humanSession option \<times> 'st humanAuth \<times> 'st" where
  "rotateCSRF sha now raw token a s =
     (case lookup sha now token a s of
        (None, a, s) \<Rightarrow> (None, a, s)
      | (Some session, a, s) \<Rightarrow>
          (case randomAuthToken raw of
             None \<Rightarrow> (None, a, s)
           | Some csrf \<Rightarrow>
               let (err, s) = (case ha_store a of None \<Rightarrow> (None, s)
                                | Some st \<Rightarrow> st_UpdateCSRF st (sha token) (sha csrf) s) in
               if err \<noteq> None then (None, a, s)
               else
                 let session = session\<lparr>se_csrf := csrf\<rparr> in
                 (Some session, a\<lparr>ha_sessions := AList.update token session (ha_sessions a)\<rparr>, s)))"

definition withRevision :: "int \<Rightarrow> humanSession \<Rightarrow> humanSession" where
  "withRevision revision v =
     (if revision > 0 \<and> (se_authMethod v = ''codex'' \<or> se_authMethod v = ''recovery'')
      then v\<lparr>se_bindingRevision := revision\<rparr> else v)"

definition updateIdentity ::
  "gostring \<Rightarrow> gostring \<Rightarrow> int \<Rightarrow> 'st humanAuth \<Rightarrow> 'st \<Rightarrow> go_error option \<times> 'st humanAuth \<times> 'st" where
  "updateIdentity displayName handle revision a s =
     (if TrimSpace displayName = '''' \<or> handle = '''' then (Some ErrInvalid, a, s)
      else case (case ha_store a of None \<Rightarrow> (None, s)
                 | Some st \<Rightarrow> st_UpdateRevisions st (ha_principalID a) revision s) of
        (Some err, s') \<Rightarrow> (Some err, a, s')
      | (None, s') \<Rightarrow>
          (None, a\<lparr>ha_displayName := displayName, ha_handle := handle,
             ha_sessions := map (\<lambda>(token, v). (token, withRevision revision v)) (ha_sessions a)\<rparr>, s'))"

section \<open>What the handlers see\<close>

record Credential =
  cr_BearerToken :: gostring
  cr_HostCredential :: gostring
  cr_Actor :: gostring
  cr_Session :: gostring
  cr_Host :: gostring
  cr_Project :: gostring
  cr_Purpose :: gostring

record authPrincipal =
  ap_Credential :: Credential
  ap_Kind :: gostring
  ap_Principal :: gostring
  ap_csrfToken :: gostring
  ap_cookie :: gostring
  ap_authMethod :: gostring
  ap_bindingRevision :: int

record authPrincipalView =
  pv_Kind :: gostring
  pv_Principal :: gostring
  pv_Handle :: gostring
  pv_DisplayName :: gostring

record authSessionResult =
  as_Authenticated :: bool
  as_Principal :: "authPrincipalView option"
  as_CSRFToken :: gostring
  as_AuthMethod :: gostring
  as_ProfileRevision :: int

definition humanPrincipal :: "'st humanAuth \<Rightarrow> authPrincipal" where
  "humanPrincipal a =
     \<lparr>ap_Credential = \<lparr>cr_BearerToken = '''', cr_HostCredential = '''', cr_Actor = ha_actor a,
        cr_Session = ha_session a, cr_Host = ha_host a, cr_Project = '''', cr_Purpose = ''''\<rparr>,
      ap_Kind = ''human'', ap_Principal = ha_principalID a, ap_csrfToken = '''', ap_cookie = '''',
      ap_authMethod = '''', ap_bindingRevision = 0\<rparr>"

definition unauthenticated :: authSessionResult where
  "unauthenticated = \<lparr>as_Authenticated = False, as_Principal = None, as_CSRFToken = '''',
     as_AuthMethod = '''', as_ProfileRevision = 0\<rparr>"

definition result :: "humanSession \<Rightarrow> 'st humanAuth \<Rightarrow> authSessionResult" where
  "result session a =
     \<lparr>as_Authenticated = True,
      as_Principal = Some \<lparr>pv_Kind = ''human'', pv_Principal = ha_principalID a, pv_Handle = ha_handle a,
        pv_DisplayName = ha_displayName a\<rparr>,
      as_CSRFToken = se_csrf session,
      as_AuthMethod = (if se_authMethod session = '''' then ''recovery'' else se_authMethod session),
      as_ProfileRevision = se_bindingRevision session\<rparr>"

end
