(* ===== verification/Codex_Pairing.thy ===== *)
theory Codex_Pairing
  imports Human_Auth
begin

text \<open>
  The sign-in attempts with a Codex account (\<^verbatim>\<open>src/internal/httpapi/codex_routes.go\<close>, the
  \<^verbatim>\<open>pairingManager\<close>). An attempt is created for the pairing cookie of a browser, waits for the user
  once the device code is known, and either ends or, on an installation that no account is bound to,
  waits for a profile. Every operation runs under the mutex of the manager; its three maps are
  association lists. The time is an argument, and so are the bytes of the random source.
\<close>

section \<open>State\<close>

datatype pairingState =
    pairingCreated | pairingWaiting | pairingNeedsProfile | pairingCompleted | pairingCancelled
  | pairingExpired | pairingFailed

definition pairingTTL :: duration where "pairingTTL = 10 * Minute"
definition maxPairings :: nat where "maxPairings = 4"
definition maxPairingPolls :: nat where "maxPairingPolls = 60"
definition minPollInterval :: duration where "minPollInterval = Second"

record pairingAttempt =
  pa_id :: gostring
  pa_cookieHash :: gostring
  pa_loginID :: gostring
  pa_verificationURL :: gostring
  pa_userCode :: gostring
  pa_createdAt :: time
  pa_expiresAt :: time
  pa_state :: pairingState
  pa_digest :: gostring
  pa_hasDigest :: bool
  pa_errorCode :: gostring
  pa_polls :: nat
  pa_lastPoll :: time
  pa_polling :: bool

record pairingManager =
  pm_attempts :: "(gostring \<times> pairingAttempt) list"
  pm_byCookie :: "(gostring \<times> gostring) list"
  pm_starts :: "(gostring \<times> time list) list"

datatype pairingError = PairingConflict | PairingLimit gostring duration | NoRandomness

datatype pollError = PollNotFound | PollActive | PollTooSoon

definition newPairingManager :: pairingManager where
  "newPairingManager = \<lparr>pm_attempts = [], pm_byCookie = [], pm_starts = []\<rparr>"

section \<open>Operations\<close>

text \<open>Reading a missing key of \<^verbatim>\<open>byCookie\<close> gives the empty string, of \<^verbatim>\<open>starts\<close> the empty slice.\<close>

definition cookieAttempt :: "gostring \<Rightarrow> pairingManager \<Rightarrow> gostring" where
  "cookieAttempt cookieHash m = (case map_of (pm_byCookie m) cookieHash of None \<Rightarrow> '''' | Some k \<Rightarrow> k)"

definition remoteStarts :: "gostring \<Rightarrow> pairingManager \<Rightarrow> time list" where
  "remoteStarts remote m = (case map_of (pm_starts m) remote of None \<Rightarrow> [] | Some ts \<Rightarrow> ts)"

definition removeLocked :: "gostring \<Rightarrow> pairingManager \<Rightarrow> gostring \<times> pairingManager" where
  "removeLocked k m =
     (case map_of (pm_attempts m) k of
        None \<Rightarrow> ('''', m)
      | Some attempt \<Rightarrow>
          (pa_loginID attempt,
           m\<lparr>pm_attempts := AList.delete k (pm_attempts m),
             pm_byCookie := (if cookieAttempt (pa_cookieHash attempt) m = k
                             then AList.delete (pa_cookieHash attempt) (pm_byCookie m) else pm_byCookie m)\<rparr>))"

definition cleanupLocked :: "time \<Rightarrow> pairingManager \<Rightarrow> pairingManager" where
  "cleanupLocked now m =
     (let gone = filter (\<lambda>(_, a). \<not> now < pa_expiresAt a) (pm_attempts m);
          entries = map (\<lambda>(remote, ts). (remote, filter (\<lambda>t. now - 10 * Minute < t) ts)) (pm_starts m) in
      m\<lparr>pm_attempts := filter (\<lambda>(_, a). now < pa_expiresAt a) (pm_attempts m),
        pm_byCookie := filter (\<lambda>(c, k). \<not> hasRow (\<lambda>(k', a). k' = k \<and> pa_cookieHash a = c) gone) (pm_byCookie m),
        pm_starts := filter (\<lambda>(_, ts). ts \<noteq> []) entries\<rparr>)"

definition newAttempt :: "gostring \<Rightarrow> gostring \<Rightarrow> time \<Rightarrow> pairingAttempt" where
  "newAttempt k cookieHash now =
     \<lparr>pa_id = k, pa_cookieHash = cookieHash, pa_loginID = '''', pa_verificationURL = '''', pa_userCode = '''',
      pa_createdAt = now, pa_expiresAt = now + pairingTTL, pa_state = pairingCreated, pa_digest = zeroDigest,
      pa_hasDigest = False, pa_errorCode = '''', pa_polls = 0, pa_lastPoll = zeroTime, pa_polling = False\<rparr>"

definition reserve ::
  "time \<Rightarrow> gostring option \<Rightarrow> gostring \<Rightarrow> gostring \<Rightarrow> pairingManager \<Rightarrow> (pairingError + pairingAttempt) \<times> pairingManager" where
  "reserve now raw cookieHash remote m0 =
     (let m = cleanupLocked now m0 in
      if cookieAttempt cookieHash m \<noteq> '''' then (Inl PairingConflict, m)
      else if length (pm_attempts m) \<ge> maxPairings
      then (Inl (PairingLimit ''pairing_capacity_limited'' Minute), m)
      else
        let entries = remoteStarts remote m in
        if length entries \<ge> 3
        then (Inl (PairingLimit ''auth_start_limited'' (entries ! 0 + 10 * Minute - now)), m)
        else case randomAuthToken raw of
          None \<Rightarrow> (Inl NoRandomness, m)
        | Some k \<Rightarrow>
            let attempt = newAttempt k cookieHash now in
            (Inr attempt,
             m\<lparr>pm_attempts := AList.update k attempt (pm_attempts m),
               pm_byCookie := AList.update cookieHash k (pm_byCookie m),
               pm_starts := AList.update remote (entries @ [now]) (pm_starts m)\<rparr>))"

definition putAttempt :: "gostring \<Rightarrow> pairingAttempt \<Rightarrow> pairingManager \<Rightarrow> pairingManager" where
  "putAttempt k attempt m = m\<lparr>pm_attempts := AList.update k attempt (pm_attempts m)\<rparr>"

definition attachLogin ::
  "gostring \<Rightarrow> gostring \<Rightarrow> gostring \<Rightarrow> gostring \<Rightarrow> pairingManager \<Rightarrow> bool \<times> pairingManager" where
  "attachLogin k loginID verificationURL userCode m =
     (case map_of (pm_attempts m) k of
        None \<Rightarrow> (False, m)
      | Some attempt \<Rightarrow>
          if pa_state attempt \<noteq> pairingCreated \<or> loginID = '''' \<or> verificationURL = '''' \<or> userCode = ''''
          then (False, m)
          else (True, putAttempt k (attempt\<lparr>pa_loginID := loginID, pa_verificationURL := verificationURL,
                        pa_userCode := userCode, pa_state := pairingWaiting\<rparr>) m))"

definition activeForCookie :: "time \<Rightarrow> gostring \<Rightarrow> pairingManager \<Rightarrow> pairingAttempt option \<times> pairingManager" where
  "activeForCookie now cookieHash m0 =
     (let m = cleanupLocked now m0 in
      (case map_of (pm_attempts m) (cookieAttempt cookieHash m) of
         None \<Rightarrow> (None, m)
       | Some attempt \<Rightarrow>
           if pa_verificationURL attempt = '''' \<or> pa_userCode attempt = '''' then (None, m)
           else if pa_state attempt \<noteq> pairingWaiting \<and> pa_state attempt \<noteq> pairingNeedsProfile then (None, m)
           else (Some attempt, m)))"

text \<open>The pair of an attempt and whether it has expired; \<open>None\<close> when the attempt is not that of the cookie.\<close>

definition pairingLookup ::
  "time \<Rightarrow> gostring \<Rightarrow> gostring \<Rightarrow> pairingManager \<Rightarrow> (pairingAttempt \<times> bool) option \<times> pairingManager" where
  "pairingLookup now k cookieHash m =
     (case map_of (pm_attempts m) k of
        None \<Rightarrow> (None, m)
      | Some attempt \<Rightarrow>
          if pa_cookieHash attempt \<noteq> cookieHash then (None, m)
          else if \<not> now < pa_expiresAt attempt
          then (Some (attempt\<lparr>pa_state := pairingExpired\<rparr>, True), snd (removeLocked k m))
          else (Some (attempt, False), m))"

definition expiredAttempt :: pairingAttempt where
  "expiredAttempt = (newAttempt '''' '''' zeroTime)\<lparr>pa_createdAt := zeroTime, pa_expiresAt := zeroTime, pa_state := pairingExpired\<rparr>"

definition beginPoll ::
  "time \<Rightarrow> gostring \<Rightarrow> pairingManager \<Rightarrow> (pollError + pairingAttempt \<times> gostring) \<times> pairingManager" where
  "beginPoll now k m =
     (case map_of (pm_attempts m) k of
        None \<Rightarrow> (Inl PollNotFound, m)
      | Some attempt \<Rightarrow>
          if \<not> now < pa_expiresAt attempt then (Inr (expiredAttempt, ''''), snd (removeLocked k m))
          else if pa_state attempt \<noteq> pairingWaiting then (Inr (attempt, ''''), m)
          else if pa_polling attempt then (Inl PollActive, m)
          else if pa_lastPoll attempt \<noteq> zeroTime \<and> now - pa_lastPoll attempt < minPollInterval
          then (Inl PollTooSoon, m)
          else
            let attempt = attempt\<lparr>pa_polls := pa_polls attempt + 1\<rparr>;
                m = putAttempt k attempt m in
            if pa_polls attempt > maxPairingPolls
            then (Inr (expiredAttempt, ''''), snd (removeLocked k m))
            else
              let attempt = attempt\<lparr>pa_lastPoll := now, pa_polling := True\<rparr> in
              (Inr (attempt, pa_loginID attempt), putAttempt k attempt m))"

definition finishPoll :: "gostring \<Rightarrow> pairingManager \<Rightarrow> pairingManager" where
  "finishPoll k m =
     (case map_of (pm_attempts m) k of
        None \<Rightarrow> m
      | Some attempt \<Rightarrow> putAttempt k (attempt\<lparr>pa_polling := False\<rparr>) m)"

definition needsProfile :: "gostring \<Rightarrow> gostring \<Rightarrow> pairingManager \<Rightarrow> bool \<times> pairingManager" where
  "needsProfile k digest m =
     (case map_of (pm_attempts m) k of
        None \<Rightarrow> (False, m)
      | Some attempt \<Rightarrow>
          if pa_state attempt \<noteq> pairingWaiting then (False, m)
          else (True, putAttempt k (attempt\<lparr>pa_state := pairingNeedsProfile, pa_digest := digest,
                        pa_hasDigest := True, pa_polling := False\<rparr>) m))"

text \<open>The state set just before the removal is not seen again: only the removal is left of it.\<close>

definition markFailed :: "gostring \<Rightarrow> gostring \<Rightarrow> pairingManager \<Rightarrow> pairingManager" where
  "markFailed k code m =
     (case map_of (pm_attempts m) k of
        None \<Rightarrow> m
      | Some attempt \<Rightarrow>
          snd (removeLocked k (putAttempt k (attempt\<lparr>pa_state := pairingFailed, pa_errorCode := code\<rparr>) m)))"

definition pairingComplete :: "gostring \<Rightarrow> pairingManager \<Rightarrow> bool \<times> pairingManager" where
  "pairingComplete k m =
     (case map_of (pm_attempts m) k of
        None \<Rightarrow> (False, m)
      | Some attempt \<Rightarrow>
          (True, snd (removeLocked k (putAttempt k (attempt\<lparr>pa_state := pairingCompleted\<rparr>) m))))"

section \<open>Runs of the manager\<close>

text \<open>
  The operations that change the manager, in any order, with a clock that does not run backwards.
  The log records the attempts that were started and the polls that were let through. The identifier
  of a new attempt is one that was never drawn before.
\<close>

datatype pairing_event = Started gostring gostring time | Polled gostring time

definition startLog :: "gostring \<Rightarrow> time \<Rightarrow> (pairingError + pairingAttempt) \<Rightarrow> pairing_event list" where
  "startLog remote now r = (case r of Inl _ \<Rightarrow> [] | Inr a \<Rightarrow> [Started remote (pa_id a) now])"

definition pollLog :: "gostring \<Rightarrow> time \<Rightarrow> (pollError + pairingAttempt \<times> gostring) \<Rightarrow> pairing_event list" where
  "pollLog k now r = (case r of Inr (_, login) \<Rightarrow> if login = '''' then [] else [Polled k now] | Inl _ \<Rightarrow> [])"

definition startedIDs :: "pairing_event list \<Rightarrow> gostring list" where
  "startedIDs l = concat (map (\<lambda>e. case e of Started _ k _ \<Rightarrow> [k] | _ \<Rightarrow> []) l)"

type_synonym pairing_run = "time \<times> pairingManager \<times> pairing_event list"

inductive pairing_step :: "pairing_run \<Rightarrow> pairing_run \<Rightarrow> bool" where
  tick: "now \<le> now' \<Longrightarrow> pairing_step (now, m, l) (now', m, l)"
| start: "(case randomAuthToken raw of None \<Rightarrow> True | Some k \<Rightarrow> k \<noteq> '''' \<and> k \<notin> set (startedIDs l)) \<Longrightarrow>
    reserve now raw cookieHash remote m = (r, m') \<Longrightarrow>
    pairing_step (now, m, l) (now, m', l @ startLog remote now r)"
| attach: "pairing_step (now, m, l) (now, snd (attachLogin k loginID url code m), l)"
| active: "pairing_step (now, m, l) (now, snd (activeForCookie now cookieHash m), l)"
| find: "pairing_step (now, m, l) (now, snd (pairingLookup now k cookieHash m), l)"
| poll: "beginPoll now k m = (r, m') \<Longrightarrow> pairing_step (now, m, l) (now, m', l @ pollLog k now r)"
| polled: "pairing_step (now, m, l) (now, finishPoll k m, l)"
| profile: "pairing_step (now, m, l) (now, snd (needsProfile k digest m), l)"
| failed: "pairing_step (now, m, l) (now, markFailed k code m, l)"
| completed: "pairing_step (now, m, l) (now, snd (pairingComplete k m), l)"
| removed: "pairing_step (now, m, l) (now, snd (removeLocked k m), l)"

definition pairing_start :: "pairing_run \<Rightarrow> bool" where
  "pairing_start r \<longleftrightarrow> zeroTime < fst r \<and> snd r = (newPairingManager, [])"

end
