(* ===== verification/Auth_Routes.thy ===== *)
theory Auth_Routes
  imports Codex_Pairing
begin

text \<open>
  The authentication routes of the HTTP server and the admission of a request
  (\<^verbatim>\<open>src/internal/httpapi/auth_routes.go\<close>, the handlers of \<^verbatim>\<open>codex_routes.go\<close>, and of \<^verbatim>\<open>handler.go\<close>
  the account update, the authentication and \<^verbatim>\<open>ServeHTTP\<close>). A handler returns what it does to the
  response, in order, and the new state of the server. Arguments stand for the parsers of addresses
  and URLs, for SHA-256 and HMAC, for Unicode case mapping, for the decoding of the body, and for the
  answers of the Codex client, a child process: where a handler calls it without holding a mutex it is
  split in two, so that other requests can be served in between. The texts of the messages and the
  request identifier in the envelope are left out of a response.
\<close>

section \<open>Parameters, requests and responses\<close>

record URL =
  ur_Scheme :: gostring
  ur_Host :: gostring
  ur_Hostname :: gostring
  ur_Port :: gostring
  ur_User :: bool
  ur_Path :: gostring
  ur_RawQuery :: gostring
  ur_Fragment :: gostring

record lib =
  lb_sha :: "gostring \<Rightarrow> gostring"
  lb_hmac :: "gostring \<Rightarrow> gostring \<Rightarrow> gostring"
  lb_lower :: "gostring \<Rightarrow> gostring"
  lb_fold :: "gostring \<Rightarrow> gostring \<Rightarrow> bool"
  lb_parseURL :: "gostring \<Rightarrow> URL option"
  lb_splitHostPort :: "gostring \<Rightarrow> gostring option"
  lb_loopback :: "gostring \<Rightarrow> bool"

definition EqualFold :: "lib \<Rightarrow> gostring \<Rightarrow> gostring \<Rightarrow> bool" where
  "EqualFold lb s t \<longleftrightarrow>
     (if list_all (\<lambda>c. byte c < 0x80) (s @ t) then map lower1 s = map lower1 t else lb_fold lb s t)"

text \<open>
  The clock before and after a call of the Codex client, the draws from the random source, and the
  clock and identifiers of the store.
\<close>

record auth_env =
  ae_now :: time
  ae_later :: time
  ae_raw :: "nat \<Rightarrow> gostring option"
  ae_env :: env

datatype decode_error = BodyTooLarge | BodyInvalid | BodyTrailing

text \<open>What decoding left in the fields a route knows, and whether it failed.\<close>

record request_body =
  rb_error :: "decode_error option"
  rb_Secret :: gostring
  rb_AttemptID :: gostring
  rb_DisplayName :: gostring
  rb_Handle :: gostring
  rb_BaseRevision :: int

record http_request =
  rq_Method :: gostring
  rq_Path :: gostring
  rq_Host :: gostring
  rq_RemoteAddr :: gostring
  rq_TLS :: bool
  rq_Header :: "gostring \<Rightarrow> gostring"
  rq_session :: "gostring option"
  rq_pairing :: "gostring option"
  rq_Body :: request_body

record codexStatusResult =
  cs_Available :: bool
  cs_BindingState :: gostring
  cs_AccountState :: gostring
  cs_FirstBindAllowed :: bool

record codexStartResult =
  ct_AttemptID :: gostring
  ct_VerificationURL :: gostring
  ct_UserCode :: gostring
  ct_ExpiresAt :: time
  ct_Resumed :: bool

record codexPollResult =
  cp_State :: pairingState
  cp_Code :: gostring
  cp_PollAfterMS :: int

datatype payload =
    ErrorPayload gostring
  | CooldownPayload gostring int time
  | SessionPayload authSessionResult
  | StatusPayload codexStatusResult
  | StartPayload codexStartResult
  | PollPayload codexPollResult

text \<open>
  Besides what is written to the response: the call that cancels a login at the Codex client and the
  call-back on a changed identity.
\<close>

datatype effect =
    Write nat payload
  | RetryAfter int
  | Challenge
  | SetHumanCookie gostring time int bool
  | SetPairingCookie gostring int bool
  | ClearPairingCookie bool
  | CancelLogin gostring
  | IdentityUpdated gostring gostring int

section \<open>Server state\<close>

record 'st HumanAccountBindingStore =
  bn_Get :: "'st \<Rightarrow> (go_error + HumanAccountBinding) \<times> 'st"
  bn_Bind :: "env \<Rightarrow> BindHumanAccountRequest \<Rightarrow> 'st \<Rightarrow> (go_error + HumanAccountBinding) \<times> 'st"
  bn_Update :: "env \<Rightarrow> UpdateHumanProfileRequest \<Rightarrow> 'st \<Rightarrow> (go_error + HumanAccountBinding) \<times> 'st"

record 'st HumanAuthEventStore =
  ev_Record :: "env \<Rightarrow> HumanAuthEventRequest \<Rightarrow> 'st \<Rightarrow> go_error option \<times> 'st"

record CodexAuthConfig =
  cx_Client :: bool
  cx_BindingKey :: gostring
  cx_AllowFirstBindLAN :: bool

record 'st Config =
  cf_Credentials :: "Credential list"
  cf_ExpectedHost :: gostring
  cf_PublicOrigin :: gostring
  cf_InternalReadinessHost :: gostring
  cf_HumanAuth :: "HumanAuthConfig option"
  cf_HumanBindingStore :: "'st HumanAccountBindingStore option"
  cf_HumanAuthEvents :: "'st HumanAuthEventStore option"
  cf_HumanSessionStore :: "'st HumanSessionStore option"
  cf_OnHumanIdentityUpdated :: bool
  cf_CodexAuth :: "CodexAuthConfig option"

record 'st handler =
  hn_config :: "'st Config"
  hn_humanAuth :: "'st humanAuth option"
  hn_pairings :: pairingManager
  hn_serial :: nat
  hn_codexRevocationFailed :: bool
  hn_store :: 'st

definition NewHandler :: "lib \<Rightarrow> 'st Config \<Rightarrow> 'st \<Rightarrow> 'st handler" where
  "NewHandler lb config s =
     \<lparr>hn_config = config, hn_humanAuth = newHumanAuth (lb_sha lb) (cf_HumanAuth config) (cf_HumanSessionStore config),
      hn_pairings = newPairingManager, hn_serial = 0, hn_codexRevocationFailed = False, hn_store = s\<rparr>"

definition bindingStore :: "(gostring \<Rightarrow> gostring) \<Rightarrow> (gostring \<Rightarrow> gostring) \<Rightarrow> human_db HumanAccountBindingStore" where
  "bindingStore sha unicode = \<lparr>bn_Get = (\<lambda>s. (GetHumanAccountBinding s, s)), bn_Bind = BindHumanAccount unicode,
     bn_Update = UpdateHumanProfile sha unicode\<rparr>"

definition eventStore :: "human_db HumanAuthEventStore" where
  "eventStore = \<lparr>ev_Record = RecordHumanAuthEvent\<rparr>"

type_synonym 'st served = "effect list \<times> 'st handler"

section \<open>Checks on a request\<close>

definition writeError :: "nat \<Rightarrow> gostring \<Rightarrow> effect list" where
  "writeError status code = [Write status (ErrorPayload code)]"

definition writeCooldownError :: "time \<Rightarrow> gostring \<Rightarrow> duration \<Rightarrow> effect list" where
  "writeCooldownError now code retry =
     (let seconds = max 1 ((retry + Second - 1) div Second) in
      [RetryAfter seconds, Write 429 (CooldownPayload code seconds (now + seconds * Second))])"

definition secureRequest :: "lib \<Rightarrow> http_request \<Rightarrow> gostring \<Rightarrow> bool" where
  "secureRequest lb r publicOrigin =
     (if publicOrigin \<noteq> ''''
      then (case lb_parseURL lb publicOrigin of None \<Rightarrow> False | Some u \<Rightarrow> ur_Scheme u = ''https'')
      else rq_TLS r)"

definition setHumanCookie :: "lib \<Rightarrow> http_request \<Rightarrow> gostring \<Rightarrow> gostring \<Rightarrow> time \<Rightarrow> int \<Rightarrow> effect list" where
  "setHumanCookie lb r publicOrigin token expires maxAge =
     [SetHumanCookie token expires maxAge (secureRequest lb r publicOrigin)]"

definition setPairingCookie :: "lib \<Rightarrow> http_request \<Rightarrow> gostring \<Rightarrow> gostring \<Rightarrow> int \<Rightarrow> effect list" where
  "setPairingCookie lb r publicOrigin v maxAge = [SetPairingCookie v maxAge (secureRequest lb r publicOrigin)]"

definition clearPairingCookie :: "lib \<Rightarrow> http_request \<Rightarrow> gostring \<Rightarrow> effect list" where
  "clearPairingCookie lb r publicOrigin = [ClearPairingCookie (secureRequest lb r publicOrigin)]"

definition sameOrigin :: "lib \<Rightarrow> http_request \<Rightarrow> gostring \<Rightarrow> bool" where
  "sameOrigin lb r publicOrigin =
     (let origin = TrimSpace (rq_Header r ''Origin'');
          source = (if origin = '''' then TrimSpace (rq_Header r ''Referer'') else origin) in
      if source = '''' \<or> source = ''null'' then False
      else case lb_parseURL lb source of
        None \<Rightarrow> False
      | Some parsed \<Rightarrow>
          if ur_User parsed then False
          else
            let expected =
              (if publicOrigin \<noteq> '''' then
                 (case lb_parseURL lb publicOrigin of
                    None \<Rightarrow> None
                  | Some c \<Rightarrow> if ur_User c \<or> ur_Path c \<noteq> '''' \<or> ur_RawQuery c \<noteq> '''' \<or> ur_Fragment c \<noteq> ''''
                              then None else Some (ur_Scheme c, ur_Host c))
               else Some (if rq_TLS r then ''https'' else ''http'', rq_Host r)) in
            case expected of
              None \<Rightarrow> False
            | Some (scheme, host) \<Rightarrow> EqualFold lb (ur_Scheme parsed) scheme \<and> EqualFold lb (ur_Host parsed) host)"

definition isHumanWritePath :: "gostring \<Rightarrow> bool" where
  "isHumanWritePath path \<longleftrightarrow>
     path = ''/v1/projects'' \<or> HasPrefix path ''/v1/projects/'' \<or> HasPrefix path ''/v1/project-archaeology/'' \<or>
     HasPrefix path ''/v1/milestones/'' \<or> HasPrefix path ''/v1/tasks/'' \<or>
     path \<in> {''/v1/notification-reads'', ''/v1/posts'', ''/v1/comments'', ''/v1/post-states'',
             ''/v1/post-perspective-scopes'', ''/v1/topic-requests''}"

definition visible :: "gostring \<Rightarrow> bool" where
  "visible s \<longleftrightarrow> list_all (\<lambda>c. 0x21 \<le> byte c \<and> byte c \<le> 0x7e) s"

definition validIdempotencyKey :: "gostring \<Rightarrow> bool" where
  "validIdempotencyKey v \<longleftrightarrow> length v \<le> 200 \<and> TrimSpace v = v \<and> visible v"

definition constantTimeTokenEqual :: "lib \<Rightarrow> gostring \<Rightarrow> gostring \<Rightarrow> bool" where
  "constantTimeTokenEqual lb a b \<longleftrightarrow>
     a \<noteq> '''' \<and> b \<noteq> '''' \<and> length a \<le> 256 \<and> length b \<le> 256 \<and> lb_sha lb a = lb_sha lb b"

definition validDeviceCode :: "gostring \<Rightarrow> bool" where
  "validDeviceCode v \<longleftrightarrow> 1 \<le> length v \<and> length v \<le> 64 \<and> TrimSpace v = v \<and> visible v"

definition validateVerificationURL :: "lib \<Rightarrow> gostring \<Rightarrow> bool" where
  "validateVerificationURL lb v =
     (if length v = 0 \<or> length v > 2048 then False
      else case lb_parseURL lb v of
        None \<Rightarrow> False
      | Some u \<Rightarrow>
          if ur_Scheme u \<noteq> ''https'' \<or> ur_User u \<or> ur_Fragment u \<noteq> '''' \<or> ur_Hostname u \<noteq> ''auth.openai.com'' \<or>
             ur_Port u \<noteq> '''' then False
          else ur_Path u \<noteq> '''' \<and> list_all (\<lambda>c. byte c \<noteq> 13 \<and> byte c \<noteq> 10) v)"

definition validHumanProfileInput :: "(gostring \<Rightarrow> gostring) \<Rightarrow> gostring \<Rightarrow> gostring \<Rightarrow> bool" where
  "validHumanProfileInput unicode displayName handle \<longleftrightarrow>
     \<not> (length displayName < 1 \<or> length displayName > 200 \<or> TrimSpace displayName = '''' \<or> length handle < 3 \<or>
        length handle > 64 \<or> handle \<noteq> ToLower unicode handle \<or> HasPrefix handle ''@'') \<and>
     list_all (\<lambda>i. \<not> (\<not> is_lower (handle ! i) \<and> \<not> is_digit (handle ! i) \<and> handle ! i \<noteq> CHR ''-'' \<or>
        i = 0 \<and> handle ! i = CHR ''-'' \<or> i = length handle - 1 \<and> handle ! i = CHR ''-'')) [0 ..< length handle]"

text \<open>
  Decoding a body: the answer it writes, none when it succeeded, and the value it leaves, which is
  the zero value when the content type is refused.
\<close>

definition zeroBody :: request_body where
  "zeroBody = \<lparr>rb_error = None, rb_Secret = '''', rb_AttemptID = '''', rb_DisplayName = '''', rb_Handle = '''',
     rb_BaseRevision = 0\<rparr>"

definition decode :: "http_request \<Rightarrow> effect list \<times> request_body" where
  "decode r =
     (if \<not> HasPrefix (rq_Header r ''Content-Type'') ''application/json''
      then (writeError 415 ''content_type'', zeroBody)
      else (case rb_error (rq_Body r) of
              None \<Rightarrow> []
            | Some BodyTooLarge \<Rightarrow> writeError 413 ''too_large''
            | Some BodyInvalid \<Rightarrow> writeError 400 ''bad_body''
            | Some BodyTrailing \<Rightarrow> writeError 400 ''bad_body'', rq_Body r))"

definition requestRemoteKey :: "lib \<Rightarrow> http_request \<Rightarrow> gostring" where
  "requestRemoteKey lb r =
     (if rq_RemoteAddr r = '''' then ''unknown''
      else case lb_splitHostPort lb (rq_RemoteAddr r) of None \<Rightarrow> rq_RemoteAddr r | Some host \<Rightarrow> host)"

definition trimBrackets :: "gostring \<Rightarrow> gostring" where
  "trimBrackets s =
     rev (dropWhile (\<lambda>c. c = CHR ''['' \<or> c = CHR '']'') (rev (dropWhile (\<lambda>c. c = CHR ''['' \<or> c = CHR '']'') s)))"

definition requestIsLoopback :: "lib \<Rightarrow> http_request \<Rightarrow> bool" where
  "requestIsLoopback lb r =
     (let host = requestRemoteKey lb r in host = ''localhost'' \<or> lb_loopback lb (trimBrackets host))"

definition pairingCookieValue :: "http_request \<Rightarrow> gostring option" where
  "pairingCookieValue r = (case rq_pairing r of None \<Rightarrow> None | Some v \<Rightarrow> if v = '''' then None else Some v)"

section \<open>Binding and revocation\<close>

definition codexConfig :: "'st handler \<Rightarrow> CodexAuthConfig option" where
  "codexConfig h =
     (case cf_CodexAuth (hn_config h) of
        None \<Rightarrow> None
      | Some c \<Rightarrow>
          if \<not> cx_Client c then None
          else case hn_humanAuth h of None \<Rightarrow> None | Some a \<Rightarrow> if ha_codexEnabled a then Some c else None)"

definition binding :: "'st handler \<Rightarrow> (go_error + HumanAccountBinding) \<times> 'st handler" where
  "binding h =
     (case cf_HumanBindingStore (hn_config h) of
        None \<Rightarrow> (Inl ErrNotFound, h)
      | Some st \<Rightarrow> (case bn_Get st (hn_store h) of (v, s) \<Rightarrow> (v, h\<lparr>hn_store := s\<rparr>)))"

definition firstBindAllowed :: "lib \<Rightarrow> http_request \<Rightarrow> 'st handler \<Rightarrow> (go_error + bool) \<times> 'st handler" where
  "firstBindAllowed lb r h0 =
     (case binding h0 of
        (Inr _, h) \<Rightarrow> (Inr True, h)
      | (Inl err, h) \<Rightarrow>
          if err \<noteq> ErrNotFound then (Inl err, h)
          else
            let lan = (case codexConfig h of None \<Rightarrow> False | Some c \<Rightarrow> cx_AllowFirstBindLAN c) in
            if cf_PublicOrigin (hn_config h) \<noteq> '''' then (Inr lan, h)
            else (Inr (requestIsLoopback lb r \<or> lan), h))"

definition revokeCodexSessionsAfterAccountUpdate ::
  "('st humanAuth \<times> 'st \<Rightarrow> 'st humanAuth \<times> 'st) \<Rightarrow> time \<Rightarrow> 'st handler \<Rightarrow> 'st handler" where
  "revokeCodexSessionsAfterAccountUpdate w now h =
     (case hn_humanAuth h of
        None \<Rightarrow> h
      | Some a0 \<Rightarrow>
          let (pendingErr, s) = setCodexRevocationPending True a0 (hn_store h);
              (revokeErr, a, s) = revokeCodexSessions w now a0 s;
              (pendingErr, s) = (if pendingErr \<noteq> None \<and> revokeErr \<noteq> None
                                 then setCodexRevocationPending True a s else (pendingErr, s));
              (cleared, s) = (if pendingErr = None \<and> revokeErr = None
                              then (case setCodexRevocationPending False a s of (err, s) \<Rightarrow> (err = None, s))
                              else (False, s)) in
          h\<lparr>hn_humanAuth := Some a, hn_store := s, hn_codexRevocationFailed := \<not> cleared\<rparr>)"

section \<open>Authentication\<close>

definition authenticateHuman :: "lib \<Rightarrow> time \<Rightarrow> http_request \<Rightarrow> 'st handler \<Rightarrow> authPrincipal option \<times> 'st handler" where
  "authenticateHuman lb now r h =
     (case hn_humanAuth h of
        None \<Rightarrow> (None, h)
      | Some a0 \<Rightarrow>
          (case rq_session r of
             None \<Rightarrow> (None, h)
           | Some cookie \<Rightarrow>
               (case lookup (lb_sha lb) now cookie a0 (hn_store h) of
                  (None, a, s) \<Rightarrow> (None, h\<lparr>hn_humanAuth := Some a, hn_store := s\<rparr>)
                | (Some session, a, s) \<Rightarrow>
                    let (blocked, s) =
                      (if se_authMethod session = ''codex'' then
                         (if hn_codexRevocationFailed h then (True, s) else codexRevocationPending a s)
                       else (False, s));
                        h' = h\<lparr>hn_humanAuth := Some a, hn_store := s\<rparr> in
                    if blocked then (None, h')
                    else (Some ((humanPrincipal a)\<lparr>ap_csrfToken := se_csrf session, ap_cookie := cookie,
                             ap_authMethod := se_authMethod session,
                             ap_bindingRevision := se_bindingRevision session\<rparr>), h'))))"

definition bearerToken :: "http_request \<Rightarrow> gostring" where
  "bearerToken r =
     (let v = rq_Header r ''Authorization'' in if HasPrefix v ''Bearer '' then drop 7 v else '''')"

definition credentialMatches :: "http_request \<Rightarrow> Credential \<Rightarrow> bool" where
  "credentialMatches r c \<longleftrightarrow>
     (cr_BearerToken c \<noteq> '''' \<and> bearerToken r = cr_BearerToken c \<or>
      cr_HostCredential c \<noteq> '''' \<and> rq_Header r ''X-Commons-Host-Credential'' = cr_HostCredential c) \<and>
     cr_Actor c \<noteq> '''' \<and> cr_Session c \<noteq> '''' \<and> cr_Host c \<noteq> ''''"

definition authenticate :: "lib \<Rightarrow> time \<Rightarrow> http_request \<Rightarrow> 'st handler \<Rightarrow> authPrincipal option \<times> 'st handler" where
  "authenticate lb now r h =
     (case find (credentialMatches r) (cf_Credentials (hn_config h)) of
        Some c \<Rightarrow> (Some \<lparr>ap_Credential = c, ap_Kind = ''agent'', ap_Principal = cr_Session c, ap_csrfToken = '''',
                     ap_cookie = '''', ap_authMethod = '''', ap_bindingRevision = 0\<rparr>, h)
      | None \<Rightarrow> authenticateHuman lb now r h)"

end
