(* ===== verification/Auth_Handlers.thy ===== *)
theory Auth_Handlers
  imports Auth_Routes
begin

text \<open>
  The handlers of \<^verbatim>\<open>src/internal/httpapi/auth_routes.go\<close> and \<^verbatim>\<open>codex_routes.go\<close>, the table of routes
  below \<^verbatim>\<open>/v1/auth/\<close>, and \<^verbatim>\<open>ServeHTTP\<close>, which decides what becomes of a request.
\<close>

section \<open>Recovery login and logout\<close>

text \<open>
  A session opened by a handler: the cookie and the answer, or the answer when none could be created.
  The draws \<open>i\<close> and \<open>i + 1\<close> from the random source are the tokens.
\<close>

definition openSession ::
  "lib \<Rightarrow> auth_env \<Rightarrow> nat \<Rightarrow> gostring \<Rightarrow> int \<Rightarrow> http_request \<Rightarrow> effect list \<Rightarrow> 'st humanAuth \<Rightarrow> 'st handler \<Rightarrow> 'st served" where
  "openSession lb e i m revision r clear a0 h =
     (case create (lb_sha lb) (ae_later e) (ae_raw e i) (ae_raw e (i + 1)) m revision a0 (hn_store h) of
        (None, a, s) \<Rightarrow> (writeError 503 ''unavailable'', h\<lparr>hn_humanAuth := Some a, hn_store := s\<rparr>)
      | (Some (token, session), a, s) \<Rightarrow>
          (setHumanCookie lb r (cf_PublicOrigin (hn_config h)) token (se_expiresAt session) (ha_ttl a div Second) @
           clear @ [Write 200 (SessionPayload (result session a))],
           h\<lparr>hn_humanAuth := Some a, hn_store := s\<rparr>))"

definition login :: "lib \<Rightarrow> auth_env \<Rightarrow> http_request \<Rightarrow> 'st handler \<Rightarrow> 'st served" where
  "login lb e r h =
     (case hn_humanAuth h of
        None \<Rightarrow> (writeError 404 ''recovery_disabled'', h)
      | Some a0 \<Rightarrow>
          if \<not> ha_recoveryEnabled a0 \<or> ha_secretDigest a0 = zeroDigest then (writeError 404 ''recovery_disabled'', h)
          else if \<not> sameOrigin lb r (cf_PublicOrigin (hn_config h)) then (writeError 403 ''origin_forbidden'', h)
          else
            let ((limited, retry), a) = rateLimited (ae_now e) a0;
                h = h\<lparr>hn_humanAuth := Some a\<rparr> in
            if limited then
              ([RetryAfter ((retry + Second - 1) div Second)] @ writeError 429 ''rate_limited'', h)
            else
              let (refused, input) = decode r in
              if refused \<noteq> [] then (refused, h)
              else if rb_Secret input = '''' \<or> \<not> verifySecret (lb_sha lb) a (rb_Secret input) then
                (writeError 401 ''unauthorized'', h\<lparr>hn_humanAuth := Some (recordFailure (ae_later e) a)\<rparr>)
              else
                let (bound, h) = binding h in
                if (case bound of Inl err \<Rightarrow> err \<noteq> ErrNotFound | Inr _ \<Rightarrow> False)
                then (writeError 503 ''unavailable'', h)
                else
                  let revision = (case bound of Inl _ \<Rightarrow> 0 | Inr b \<Rightarrow> bi_Revision b) in
                  case randomAuthToken (ae_raw e 0) of
                    None \<Rightarrow> (writeError 503 ''unavailable'', h)
                  | Some auditKey \<Rightarrow>
                      let (err, s) =
                        (case cf_HumanAuthEvents (hn_config h) of
                           None \<Rightarrow> (None, hn_store h)
                         | Some ev \<Rightarrow> ev_Record ev (ae_env e) \<lparr>eq_Principal = HumanLocalPrincipal,
                             eq_EventType = ''recovery_login'', eq_BindingRevision = revision,
                             eq_IdempotencyKey = ''recovery:'' @ auditKey\<rparr> (hn_store h));
                          h = h\<lparr>hn_store := s\<rparr> in
                      if err \<noteq> None then (writeError 503 ''unavailable'', h)
                      else openSession lb e 1 ''recovery'' revision r [] a h)"

definition logout :: "lib \<Rightarrow> auth_env \<Rightarrow> http_request \<Rightarrow> 'st handler \<Rightarrow> 'st served" where
  "logout lb e r h0 =
     (case authenticateHuman lb (ae_now e) r h0 of
        (None, h) \<Rightarrow> (writeError 401 ''unauthorized'', h)
      | (Some who, h) \<Rightarrow>
          if \<not> sameOrigin lb r (cf_PublicOrigin (hn_config h)) then (writeError 403 ''origin_forbidden'', h)
          else if \<not> constantTimeTokenEqual lb (rq_Header r ''X-Commons-CSRF'') (ap_csrfToken who)
          then (writeError 403 ''csrf_failed'', h)
          else
            let (refused, _) = decode r in
            if refused \<noteq> [] then (refused, h)
            else (case hn_humanAuth h of
                None \<Rightarrow> (writeError 401 ''unauthorized'', h)
              | Some a0 \<Rightarrow>
                  (case remove (lb_sha lb) (ae_later e) (ap_cookie who) a0 (hn_store h) of
                     (Some _, a, s) \<Rightarrow> (writeError 503 ''unavailable'', h\<lparr>hn_humanAuth := Some a, hn_store := s\<rparr>)
                   | (None, a, s) \<Rightarrow>
                       (setHumanCookie lb r (cf_PublicOrigin (hn_config h)) '''' Second (- 1) @
                        [Write 200 (SessionPayload unauthenticated)],
                        h\<lparr>hn_humanAuth := Some a, hn_store := s\<rparr>))))"

definition authSession :: "lib \<Rightarrow> auth_env \<Rightarrow> http_request \<Rightarrow> 'st handler \<Rightarrow> 'st served" where
  "authSession lb e r h0 =
     (case authenticateHuman lb (ae_now e) r h0 of
        (None, h) \<Rightarrow> ([Write 200 (SessionPayload unauthenticated)], h)
      | (Some who, h) \<Rightarrow>
          (case hn_humanAuth h of
             None \<Rightarrow> ([Write 200 (SessionPayload unauthenticated)], h)
           | Some a0 \<Rightarrow>
               if ap_csrfToken who \<noteq> '''' then
                 ([Write 200 (SessionPayload (result \<lparr>se_csrf = ap_csrfToken who, se_createdAt = zeroTime,
                     se_expiresAt = zeroTime, se_authMethod = ap_authMethod who,
                     se_bindingRevision = ap_bindingRevision who\<rparr> a0))], h)
               else
                 (case rotateCSRF (lb_sha lb) (ae_later e) (ae_raw e 0) (ap_cookie who) a0 (hn_store h) of
                    (None, a, s) \<Rightarrow> (writeError 503 ''unavailable'', h\<lparr>hn_humanAuth := Some a, hn_store := s\<rparr>)
                  | (Some session, a, s) \<Rightarrow>
                      ([Write 200 (SessionPayload (result session a))], h\<lparr>hn_humanAuth := Some a, hn_store := s\<rparr>))))"

section \<open>Signing in with Codex\<close>

record DeviceCode =
  dc_LoginID :: gostring
  dc_VerificationURL :: gostring
  dc_UserCode :: gostring

record Account =
  ac_Type :: gostring
  ac_Email :: "gostring option"

record LoginResult =
  lr_State :: gostring
  lr_Account :: "Account option"

definition codexStatus ::
  "lib \<Rightarrow> bool \<Rightarrow> (go_error + gostring) \<Rightarrow> http_request \<Rightarrow> 'st handler \<Rightarrow> 'st served" where
  "codexStatus lb available accountState r h0 =
     (let (bound, h) = binding h0 in
      if (case bound of Inl err \<Rightarrow> err \<noteq> ErrNotFound | Inr _ \<Rightarrow> False) then (writeError 503 ''unavailable'', h)
      else
        let state = (case bound of Inl _ \<Rightarrow> ''unbound'' | Inr _ \<Rightarrow> ''bound'') in
        case codexConfig h of
          None \<Rightarrow> ([Write 200 (StatusPayload \<lparr>cs_Available = False, cs_BindingState = state,
                     cs_AccountState = ''unavailable'', cs_FirstBindAllowed = False\<rparr>)], h)
        | Some _ \<Rightarrow>
            let (allowed, h) = firstBindAllowed lb r h in
            ([Write 200 (StatusPayload \<lparr>cs_Available = available, cs_BindingState = state,
                cs_AccountState = (if available then (case accountState of Inl _ \<Rightarrow> ''unknown'' | Inr v \<Rightarrow> v)
                                   else ''unavailable''),
                cs_FirstBindAllowed = (case allowed of Inl _ \<Rightarrow> False | Inr v \<Rightarrow> v)\<rparr>)], h))"

text \<open>
  Starting an attempt, up to the call that asks Codex for a device code: an answer, or the attempt
  with the value of the pairing cookie and whether the cookie is new.
\<close>

definition codexStartBegin ::
  "lib \<Rightarrow> bool \<Rightarrow> auth_env \<Rightarrow> http_request \<Rightarrow> 'st handler \<Rightarrow> (effect list + pairingAttempt \<times> gostring \<times> bool) \<times> 'st handler" where
  "codexStartBegin lb available e r h0 =
     (if codexConfig h0 = None \<or> \<not> available then (Inl (writeError 503 ''codex_unavailable''), h0)
      else if \<not> sameOrigin lb r (cf_PublicOrigin (hn_config h0)) then (Inl (writeError 403 ''origin_forbidden''), h0)
      else
        let (refused, _) = decode r in
        if refused \<noteq> [] then (Inl refused, h0)
        else
          let (allowed, h) = firstBindAllowed lb r h0 in
          case allowed of
            Inl _ \<Rightarrow> (Inl (writeError 503 ''unavailable''), h)
          | Inr False \<Rightarrow> (Inl (writeError 403 ''first_bind_lan_forbidden''), h)
          | Inr True \<Rightarrow>
              let cookie = pairingCookieValue r in
              case (case cookie of Some v \<Rightarrow> Some v | None \<Rightarrow> randomAuthToken (ae_raw e 0)) of
                None \<Rightarrow> (Inl (writeError 503 ''randomness_unavailable''), h)
              | Some pairingValue \<Rightarrow>
                  let cookieHash = lb_sha lb pairingValue;
                      (active, m) = (if cookie \<noteq> None then activeForCookie (ae_now e) cookieHash (hn_pairings h)
                                     else (None, hn_pairings h)) in
                  case active of
                    Some a \<Rightarrow> (Inl [Write 200 (StartPayload \<lparr>ct_AttemptID = pa_id a,
                        ct_VerificationURL = pa_verificationURL a, ct_UserCode = pa_userCode a,
                        ct_ExpiresAt = pa_expiresAt a, ct_Resumed = True\<rparr>)], h\<lparr>hn_pairings := m\<rparr>)
                  | None \<Rightarrow>
                      (case reserve (ae_now e) (ae_raw e 1) cookieHash (requestRemoteKey lb r) m of
                         (Inl PairingConflict, m) \<Rightarrow> (Inl (writeError 409 ''pairing_attempt_active''), h\<lparr>hn_pairings := m\<rparr>)
                       | (Inl (PairingLimit code retry), m) \<Rightarrow>
                           (Inl (writeCooldownError (ae_now e) code retry), h\<lparr>hn_pairings := m\<rparr>)
                       | (Inl NoRandomness, m) \<Rightarrow> (Inl (writeError 503 ''randomness_unavailable''), h\<lparr>hn_pairings := m\<rparr>)
                       | (Inr attempt, m) \<Rightarrow> (Inr (attempt, pairingValue, cookie = None), h\<lparr>hn_pairings := m\<rparr>)))"

definition codexStartFinish ::
  "lib \<Rightarrow> (go_error + DeviceCode) \<Rightarrow> http_request \<Rightarrow> pairingAttempt \<times> gostring \<times> bool \<Rightarrow> 'st handler \<Rightarrow> 'st served" where
  "codexStartFinish lb device r p h =
     (case p of (attempt, pairingValue, setCookie) \<Rightarrow>
        let failed = (writeError 503 ''codex_unavailable'',
                      h\<lparr>hn_pairings := snd (removeLocked (pa_id attempt) (hn_pairings h))\<rparr>) in
        case device of
          Inl _ \<Rightarrow> failed
        | Inr d \<Rightarrow>
            if \<not> validateVerificationURL lb (dc_VerificationURL d) \<or> \<not> validDeviceCode (dc_UserCode d) then failed
            else
              let (ok, m) = attachLogin (pa_id attempt) (dc_LoginID d) (dc_VerificationURL d) (dc_UserCode d) (hn_pairings h) in
              if \<not> ok then failed
              else
                ((if setCookie then setPairingCookie lb r (cf_PublicOrigin (hn_config h)) pairingValue (pairingTTL div Second)
                  else []) @
                 [Write 200 (StartPayload \<lparr>ct_AttemptID = pa_id attempt, ct_VerificationURL = dc_VerificationURL d,
                    ct_UserCode = dc_UserCode d, ct_ExpiresAt = pa_expiresAt attempt, ct_Resumed = False\<rparr>)],
                 h\<lparr>hn_pairings := m\<rparr>))"

definition codexStart ::
  "lib \<Rightarrow> bool \<Rightarrow> (go_error + DeviceCode) \<Rightarrow> auth_env \<Rightarrow> http_request \<Rightarrow> 'st handler \<Rightarrow> 'st served" where
  "codexStart lb available device e r h0 =
     (case codexStartBegin lb available e r h0 of
        (Inl answer, h) \<Rightarrow> (answer, h)
      | (Inr p, h) \<Rightarrow> codexStartFinish lb device r p h)"

text \<open>Polling: the checks and the reservation of the poll, and what becomes of the answer of Codex.\<close>

definition pollAnswer :: "pairingState \<Rightarrow> gostring \<Rightarrow> int \<Rightarrow> effect list" where
  "pollAnswer state code after = [Write 200 (PollPayload \<lparr>cp_State = state, cp_Code = code, cp_PollAfterMS = after\<rparr>)]"

text \<open>
  The refusal of a failed decoding is followed by a second one when the attempt identifier is empty.
  A poll that is too soon is told how long after the poll that the first look-up saw.
\<close>

definition codexPollBegin ::
  "lib \<Rightarrow> auth_env \<Rightarrow> http_request \<Rightarrow> 'st handler \<Rightarrow> (effect list + gostring) \<times> 'st handler" where
  "codexPollBegin lb e r h =
     (if codexConfig h = None then (Inl (writeError 503 ''codex_unavailable''), h)
      else if \<not> sameOrigin lb r (cf_PublicOrigin (hn_config h)) then (Inl (writeError 403 ''origin_forbidden''), h)
      else
        let (refused, input) = decode r; k = rb_AttemptID input in
        if refused \<noteq> [] \<or> k = '''' then
          (Inl (refused @ (if k = '''' then writeError 400 ''bad_body'' else [])), h)
        else case pairingCookieValue r of
          None \<Rightarrow> (Inl (writeError 404 ''pairing_not_found''), h)
        | Some pairingValue \<Rightarrow>
            let clear = clearPairingCookie lb r (cf_PublicOrigin (hn_config h));
                (found, m) = pairingLookup (ae_now e) k (lb_sha lb pairingValue) (hn_pairings h);
                h = h\<lparr>hn_pairings := m\<rparr> in
            case found of
              None \<Rightarrow> (Inl (writeError 404 ''pairing_not_found''), h)
            | Some (attempt, expired) \<Rightarrow>
                if expired \<or> pa_state attempt = pairingExpired
                then (Inl (clear @ pollAnswer pairingExpired '''' 0), h)
                else if pa_state attempt = pairingNeedsProfile then (Inl (pollAnswer pairingNeedsProfile '''' 0), h)
                else if pa_state attempt \<noteq> pairingWaiting
                then (Inl (pollAnswer (pa_state attempt) (pa_errorCode attempt) 0), h)
                else (case beginPoll (ae_now e) k m of
                    (Inl PollTooSoon, m) \<Rightarrow>
                      (Inl (writeCooldownError (ae_now e) ''auth_poll_wait''
                              (minPollInterval - (ae_now e - pa_lastPoll attempt))), h\<lparr>hn_pairings := m\<rparr>)
                  | (Inl PollActive, m) \<Rightarrow> (Inl (writeError 409 ''poll_active''), h\<lparr>hn_pairings := m\<rparr>)
                  | (Inl PollNotFound, m) \<Rightarrow> (Inl (writeError 404 ''pairing_not_found''), h\<lparr>hn_pairings := m\<rparr>)
                  | (Inr (active, loginID), m) \<Rightarrow>
                      if pa_state active = pairingExpired \<or> loginID = ''''
                      then (Inl (clear @ pollAnswer pairingExpired '''' 0), h\<lparr>hn_pairings := m\<rparr>)
                      else (Inr loginID, h\<lparr>hn_pairings := m\<rparr>)))"

definition bindableEmail :: "LoginResult \<Rightarrow> gostring option" where
  "bindableEmail v =
     (if lr_State v \<noteq> ''success'' then None
      else case lr_Account v of
        None \<Rightarrow> None
      | Some a \<Rightarrow>
          if ac_Type a \<noteq> ''chatgpt'' then None
          else case ac_Email a of None \<Rightarrow> None | Some m \<Rightarrow> if TrimSpace m = '''' then None else Some m)"

definition subjectDigest :: "lib \<Rightarrow> CodexAuthConfig \<Rightarrow> gostring \<Rightarrow> gostring" where
  "subjectDigest lb c email = lb_hmac lb (cx_BindingKey c) (ToLower (lb_lower lb) (TrimSpace email))"

definition failPairing :: "lib \<Rightarrow> http_request \<Rightarrow> gostring \<Rightarrow> gostring \<Rightarrow> effect list \<Rightarrow> 'st handler \<Rightarrow> 'st served" where
  "failPairing lb r k code answer h =
     (clearPairingCookie lb r (cf_PublicOrigin (hn_config h)) @ answer,
      h\<lparr>hn_pairings := markFailed k code (hn_pairings h)\<rparr>)"

definition codexPollAnswer ::
  "lib \<Rightarrow> (go_error + LoginResult) \<Rightarrow> auth_env \<Rightarrow> http_request \<Rightarrow> CodexAuthConfig \<Rightarrow> 'st humanAuth \<Rightarrow> gostring \<Rightarrow>
   'st handler \<Rightarrow> 'st served" where
  "codexPollAnswer lb polled e r config a0 k h0 =
     (case polled of
        Inl _ \<Rightarrow> failPairing lb r k ''codex_unavailable'' (writeError 503 ''codex_unavailable'') h0
      | Inr v \<Rightarrow>
          if lr_State v = ''pending'' then (pollAnswer pairingWaiting '''' 1500, h0)
          else if lr_State v = ''cancelled'' \<or> lr_State v = ''failed'' then
            failPairing lb r k ''authorization_cancelled''
              (pollAnswer pairingFailed
                 (if lr_State v = ''cancelled'' then ''authorization_cancelled'' else ''authorization_failed'') 0) h0
          else case bindableEmail v of
            None \<Rightarrow> failPairing lb r k ''codex_identity_unavailable''
                      (pollAnswer pairingFailed ''codex_identity_unavailable'' 0) h0
          | Some email \<Rightarrow>
              let subject = subjectDigest lb config email; (bound, h) = binding h0 in
              case bound of
                Inr b \<Rightarrow>
                  if bi_ProviderSubjectDigest b \<noteq> subject then
                    failPairing lb r k ''account_mismatch'' (pollAnswer pairingFailed ''account_mismatch'' 0) h
                  else
                    let (ok, m) = pairingComplete k (hn_pairings h) in
                    if \<not> ok then (writeError 409 ''pairing_not_found'', h)
                    else openSession lb e 0 ''codex'' (bi_Revision b) r
                           (clearPairingCookie lb r (cf_PublicOrigin (hn_config h))) a0 (h\<lparr>hn_pairings := m\<rparr>)
              | Inl err \<Rightarrow>
                  if err \<noteq> ErrNotFound then failPairing lb r k ''unavailable'' (writeError 503 ''unavailable'') h
                  else
                    let (allowed, h) = firstBindAllowed lb r h in
                    if (case allowed of Inl _ \<Rightarrow> True | Inr v \<Rightarrow> \<not> v) then
                      failPairing lb r k ''first_bind_lan_forbidden''
                        (pollAnswer pairingFailed ''first_bind_lan_forbidden'' 0) h
                    else
                      let (ok, m) = needsProfile k subject (hn_pairings h) in
                      if \<not> ok then ([], h)
                      else (pollAnswer pairingNeedsProfile '''' 0, h\<lparr>hn_pairings := m\<rparr>))"

definition codexPollFinish ::
  "lib \<Rightarrow> (go_error + LoginResult) \<Rightarrow> auth_env \<Rightarrow> http_request \<Rightarrow> 'st handler \<Rightarrow> 'st served" where
  "codexPollFinish lb polled e r h0 =
     (case (codexConfig h0, hn_humanAuth h0) of
        (Some config, Some a0) \<Rightarrow>
          let k = rb_AttemptID (rq_Body r); (answer, h) = codexPollAnswer lb polled e r config a0 k h0 in
          (answer, h\<lparr>hn_pairings := finishPoll k (hn_pairings h)\<rparr>)
      | _ \<Rightarrow> ([], h0))"

definition codexPoll ::
  "lib \<Rightarrow> (go_error + LoginResult) \<Rightarrow> auth_env \<Rightarrow> http_request \<Rightarrow> 'st handler \<Rightarrow> 'st served" where
  "codexPoll lb polled e r h0 =
     (case codexPollBegin lb e r h0 of
        (Inl answer, h) \<Rightarrow> (answer, h)
      | (Inr _, h) \<Rightarrow> codexPollFinish lb polled e r h)"

section \<open>Profiles\<close>

definition identityUpdated :: "HumanAccountBinding \<Rightarrow> 'st handler \<Rightarrow> effect list" where
  "identityUpdated b h =
     (if cf_OnHumanIdentityUpdated (hn_config h)
      then [IdentityUpdated (bi_DisplayName b) (bi_Handle b) (bi_Revision b)] else [])"

definition codexProfile :: "lib \<Rightarrow> auth_env \<Rightarrow> http_request \<Rightarrow> 'st handler \<Rightarrow> 'st served" where
  "codexProfile lb e r h =
     (case (codexConfig h, hn_humanAuth h) of
        (Some _, Some a0) \<Rightarrow>
          if \<not> sameOrigin lb r (cf_PublicOrigin (hn_config h)) then (writeError 403 ''origin_forbidden'', h)
          else
            let (refused, input) = decode r; k = rb_AttemptID input in
            if refused \<noteq> [] then (refused, h)
            else if k = '''' then (writeError 400 ''bad_body'', h)
            else (case pairingCookieValue r of
              None \<Rightarrow> (writeError 404 ''pairing_not_found'', h)
            | Some pairingValue \<Rightarrow>
                let clear = clearPairingCookie lb r (cf_PublicOrigin (hn_config h));
                    (found, m) = pairingLookup (ae_now e) k (lb_sha lb pairingValue) (hn_pairings h);
                    h = h\<lparr>hn_pairings := m\<rparr> in
                (case found of
                  None \<Rightarrow> (writeError 409 ''profile_unavailable'', h)
                | Some (attempt, expired) \<Rightarrow>
                    if expired \<or> pa_state attempt \<noteq> pairingNeedsProfile \<or> \<not> pa_hasDigest attempt then
                      ((if expired then clear else []) @ writeError 409 ''profile_unavailable'', h)
                    else
                      let displayName = TrimSpace (rb_DisplayName input);
                          handle = ToLower (lb_lower lb) (TrimSpace (rb_Handle input)) in
                      if \<not> validHumanProfileInput (lb_lower lb) displayName handle
                      then (writeError 400 ''invalid_profile'', h)
                      else (case cf_HumanBindingStore (hn_config h) of
                        None \<Rightarrow> (writeError 503 ''unavailable'', h)
                      | Some st \<Rightarrow>
                          (case bn_Bind st (ae_env e) \<lparr>bq_ProviderSubjectDigest = pa_digest attempt,
                                 bq_DisplayName = displayName, bq_Handle = handle\<rparr> (hn_store h) of
                             (Inl err, s) \<Rightarrow>
                               ((if err = ErrConflict then writeError 409 ''profile_conflict''
                                 else if err = ErrInvalid then writeError 400 ''invalid_profile''
                                 else writeError 503 ''unavailable''), h\<lparr>hn_store := s\<rparr>)
                           | (Inr b, s) \<Rightarrow>
                               let (ok, m) = pairingComplete k m in
                               if \<not> ok then (writeError 409 ''profile_unavailable'', h\<lparr>hn_store := s\<rparr>)
                               else
                                 (case updateIdentity (bi_DisplayName b) (bi_Handle b) (bi_Revision b) a0 s of
                                    (Some _, a, s) \<Rightarrow>
                                      (writeError 503 ''unavailable'',
                                       h\<lparr>hn_pairings := m, hn_humanAuth := Some a, hn_store := s\<rparr>)
                                  | (None, a, s) \<Rightarrow>
                                      (case openSession lb e 0 ''codex'' (bi_Revision b) r clear a
                                          (h\<lparr>hn_pairings := m, hn_humanAuth := Some a, hn_store := s\<rparr>) of
                                         (answer, h) \<Rightarrow> (identityUpdated b h @ answer, h)))))))
      | _ \<Rightarrow> (writeError 503 ''codex_unavailable'', h))"

definition codexCancel :: "lib \<Rightarrow> auth_env \<Rightarrow> http_request \<Rightarrow> 'st handler \<Rightarrow> 'st served" where
  "codexCancel lb e r h =
     (if codexConfig h = None then (writeError 503 ''codex_unavailable'', h)
      else if \<not> sameOrigin lb r (cf_PublicOrigin (hn_config h)) then (writeError 403 ''origin_forbidden'', h)
      else
        let (refused, input) = decode r; k = rb_AttemptID input in
        if refused \<noteq> [] then (refused, h)
        else if k = '''' then (writeError 400 ''bad_body'', h)
        else case pairingCookieValue r of
          None \<Rightarrow> (writeError 404 ''pairing_not_found'', h)
        | Some pairingValue \<Rightarrow>
            let (found, m) = pairingLookup (ae_now e) k (lb_sha lb pairingValue) (hn_pairings h);
                answer = clearPairingCookie lb r (cf_PublicOrigin (hn_config h)) @ [Write 200 (SessionPayload unauthenticated)] in
            case found of
              None \<Rightarrow> (answer, h\<lparr>hn_pairings := m\<rparr>)
            | Some (attempt, _) \<Rightarrow>
                ((if pa_loginID attempt \<noteq> '''' then [CancelLogin (pa_loginID attempt)] else []) @ answer,
                 h\<lparr>hn_pairings := snd (removeLocked k m)\<rparr>))"

definition updateProfile :: "lib \<Rightarrow> auth_env \<Rightarrow> http_request \<Rightarrow> 'st handler \<Rightarrow> 'st served" where
  "updateProfile lb e r h0 =
     (case authenticateHuman lb (ae_now e) r h0 of
        (None, h) \<Rightarrow> (writeError 401 ''unauthorized'', h)
      | (Some who, h) \<Rightarrow>
          if \<not> sameOrigin lb r (cf_PublicOrigin (hn_config h)) then (writeError 403 ''origin_forbidden'', h)
          else if \<not> constantTimeTokenEqual lb (rq_Header r ''X-Commons-CSRF'') (ap_csrfToken who)
          then (writeError 403 ''csrf_failed'', h)
          else
            let key = rq_Header r ''Idempotency-Key'' in
            if \<not> validIdempotencyKey key \<or> key = '''' then (writeError 400 ''bad_idempotency_key'', h)
            else
              let (refused, input) = decode r in
              if refused \<noteq> [] then (refused, h)
              else
                let displayName = TrimSpace (rb_DisplayName input);
                    handle = ToLower (lb_lower lb) (TrimSpace (rb_Handle input)) in
                if \<not> validHumanProfileInput (lb_lower lb) displayName handle \<or> rb_BaseRevision input < 1
                then (writeError 400 ''invalid_profile'', h)
                else (case (cf_HumanBindingStore (hn_config h), hn_humanAuth h) of
                  (Some st, Some a0) \<Rightarrow>
                    (case bn_Update st (ae_env e) \<lparr>uq_Principal = HumanLocalPrincipal, uq_DisplayName = displayName,
                           uq_Handle = handle, uq_BaseRevision = rb_BaseRevision input, uq_IdempotencyKey = key\<rparr>
                           (hn_store h) of
                       (Inl err, s) \<Rightarrow>
                         ((if err = ErrConflict then writeError 409 ''profile_conflict''
                           else if err = ErrNotFound then writeError 404 ''profile_unavailable''
                           else writeError 400 ''invalid_profile''), h\<lparr>hn_store := s\<rparr>)
                     | (Inr b, s) \<Rightarrow>
                         (case updateIdentity (bi_DisplayName b) (bi_Handle b) (bi_Revision b) a0 s of
                            (Some _, a, s) \<Rightarrow> (writeError 503 ''unavailable'', h\<lparr>hn_humanAuth := Some a, hn_store := s\<rparr>)
                          | (None, a, s) \<Rightarrow>
                              (identityUpdated b h @
                               [Write 200 (SessionPayload (result \<lparr>se_csrf = ap_csrfToken who, se_createdAt = zeroTime,
                                  se_expiresAt = zeroTime, se_authMethod = ap_authMethod who,
                                  se_bindingRevision = bi_Revision b\<rparr> a))], h\<lparr>hn_humanAuth := Some a, hn_store := s\<rparr>)))
                | _ \<Rightarrow> (writeError 503 ''unavailable'', h)))"

section \<open>Routes and admission\<close>

record client_answers =
  cl_available :: bool
  cl_accountState :: "go_error + gostring"
  cl_device :: "go_error + DeviceCode"
  cl_polled :: "go_error + LoginResult"

definition authRoute ::
  "lib \<Rightarrow> client_answers \<Rightarrow> auth_env \<Rightarrow> http_request \<Rightarrow> 'st handler \<Rightarrow> 'st served option" where
  "authRoute lb cl e r h =
     (let get = rq_Method r = ''GET''; post = rq_Method r = ''POST''; path = rq_Path r in
      if get \<and> path = ''/v1/auth/session'' then Some (authSession lb e r h)
      else if get \<and> path = ''/v1/auth/codex/status''
      then Some (codexStatus lb (cl_available cl) (cl_accountState cl) r h)
      else if post \<and> path = ''/v1/auth/codex/start''
      then Some (codexStart lb (cl_available cl) (cl_device cl) e r h)
      else if post \<and> path = ''/v1/auth/codex/poll'' then Some (codexPoll lb (cl_polled cl) e r h)
      else if post \<and> path = ''/v1/auth/codex/profile'' then Some (codexProfile lb e r h)
      else if post \<and> path = ''/v1/auth/codex/cancel'' then Some (codexCancel lb e r h)
      else if rq_Method r = ''PUT'' \<and> path = ''/v1/auth/profile'' then Some (updateProfile lb e r h)
      else if post \<and> path = ''/v1/auth/login'' then Some (login lb e r h)
      else if post \<and> path = ''/v1/auth/logout'' then Some (logout lb e r h)
      else if HasPrefix path ''/v1/auth/'' then Some (writeError 404 ''not_found'', h)
      else None)"

record RequestMeta =
  mt_PrincipalKind :: gostring
  mt_Principal :: gostring
  mt_Actor :: gostring
  mt_Session :: gostring
  mt_Host :: gostring
  mt_RequestID :: gostring
  mt_IdempotencyKey :: gostring

text \<open>
  What becomes of a request: it is answered, or handed to the readiness or health report, to the
  routes of archaeology tasks (which authenticate by the grant in the body), or to the table of routes
  with the identity of the caller.
\<close>

datatype disposition = Answered "effect list" | Readiness | Health | TaskGrant | Routed RequestMeta

definition requestID :: "gostring \<Rightarrow> 'st handler \<Rightarrow> (bool \<times> gostring) \<times> 'st handler" where
  "requestID v h =
     (let n = Suc (hn_serial h); serial = ''req-'' @ itoa n; h' = h\<lparr>hn_serial := n\<rparr> in
      if v = '''' then ((True, serial), h')
      else if length v > 128 \<or> TrimSpace v \<noteq> v \<or> \<not> visible v then ((False, serial), h')
      else ((True, v), h))"

definition readinessRequest :: "lib \<Rightarrow> http_request \<Rightarrow> 'st handler \<Rightarrow> bool" where
  "readinessRequest lb r h \<longleftrightarrow>
     (case lb_splitHostPort lb (rq_RemoteAddr r) of None \<Rightarrow> False | Some host \<Rightarrow> lb_loopback lb host) \<and>
     EqualFold lb (rq_Host r) (cf_InternalReadinessHost (hn_config h)) \<and> rq_Header r ''Forwarded'' = '''' \<and>
     rq_Header r ''X-Forwarded-For'' = '''' \<and> rq_Header r ''X-Forwarded-Host'' = '''' \<and>
     rq_Header r ''X-Forwarded-Proto'' = ''''"

definition humanWriteRefused :: "lib \<Rightarrow> http_request \<Rightarrow> authPrincipal \<Rightarrow> 'st handler \<Rightarrow> effect list option" where
  "humanWriteRefused lb r who h =
     (if ap_Kind who = ''human'' \<and> rq_Method r \<noteq> ''GET'' \<and> rq_Method r \<noteq> ''HEAD'' then
        (if \<not> isHumanWritePath (rq_Path r) then Some (writeError 403 ''forbidden'')
         else if \<not> sameOrigin lb r (cf_PublicOrigin (hn_config h)) then Some (writeError 403 ''origin_forbidden'')
         else if \<not> constantTimeTokenEqual lb (rq_Header r ''X-Commons-CSRF'') (ap_csrfToken who)
         then Some (writeError 403 ''csrf_failed'')
         else if rq_Header r ''Idempotency-Key'' = '''' then Some (writeError 400 ''bad_idempotency_key'')
         else None)
      else None)"

definition ServeHTTP ::
  "lib \<Rightarrow> client_answers \<Rightarrow> auth_env \<Rightarrow> http_request \<Rightarrow> 'st handler \<Rightarrow> disposition \<times> 'st handler" where
  "ServeHTTP lb cl e r0 h0 =
     (let r = (if rq_Method r0 = ''HEAD'' then r0\<lparr>rq_Method := ''GET''\<rparr> else r0);
          ((ok, rid), h) = requestID (rq_Header r ''X-Request-ID'') h0 in
      if \<not> ok then (Answered (writeError 400 ''bad_request_id''), h)
      else if rq_Method r = ''GET'' \<and> rq_Path r = ''/v1/internal/readiness'' then
        (if readinessRequest lb r h then (Readiness, h) else (Answered (writeError 404 ''not_found''), h))
      else if cf_ExpectedHost (hn_config h) \<noteq> '''' \<and> \<not> EqualFold lb (rq_Host r) (cf_ExpectedHost (hn_config h))
      then (Answered (writeError 421 ''misdirected_request''), h)
      else (case authRoute lb cl e r h of
          Some (answer, h) \<Rightarrow> (Answered answer, h)
        | None \<Rightarrow>
            if rq_Path r = ''/v1/health'' then (Health, h)
            else if rq_Method r = ''POST'' \<and> (rq_Path r = ''/v1/project-archaeology/task/claim'' \<or>
                    rq_Path r = ''/v1/project-archaeology/task/report'') then (TaskGrant, h)
            else (case authenticate lb (ae_now e) r h of
                (None, h) \<Rightarrow> (Answered (Challenge # writeError 401 ''unauthorized''), h)
              | (Some who, h) \<Rightarrow>
                  let key = rq_Header r ''Idempotency-Key'' in
                  if \<not> validIdempotencyKey key then (Answered (writeError 400 ''bad_idempotency_key''), h)
                  else case humanWriteRefused lb r who h of
                    Some answer \<Rightarrow> (Answered answer, h)
                  | None \<Rightarrow> (Routed \<lparr>mt_PrincipalKind = ap_Kind who, mt_Principal = ap_Principal who,
                        mt_Actor = cr_Actor (ap_Credential who), mt_Session = cr_Session (ap_Credential who),
                        mt_Host = cr_Host (ap_Credential who), mt_RequestID = rid, mt_IdempotencyKey = key\<rparr>, h))))"

end
