(* ===== verification/Session_Contract.thy ===== *)
theory Session_Contract
  imports Auth_Handlers
begin

text \<open>
  The contract of the session store as a locale, its implementation by the database and by a database
  that may fail, and what it gives the HTTP server: a revocation of all Codex sessions that fails
  closed, and a logout that is final. The last section shows the one window in which a revoked session
  comes back.
\<close>

lemma set_update_subset: "set (AList.update k v xs) \<subseteq> insert (k, v) (set xs)"
  by (induction xs) auto

lemma set_delete_subset: "set (AList.delete k xs) \<subseteq> set xs"
  by (induction xs) auto

section \<open>Contract of the store\<close>

text \<open>
  \<open>live\<close> are the pairs of a digest and a sign-in method for which the store still has a session;
  \<open>latched\<close> says that Codex sessions must not be accepted.
\<close>

locale session_store =
  fixes st :: "'s HumanSessionStore"
    and live :: "'s \<Rightarrow> (gostring \<times> gostring) set"
    and latched :: "'s \<Rightarrow> bool"
  assumes get_live: "st_Get st d now s = (Inr v, s') \<Longrightarrow> (d, bs_AuthMethod v) \<in> live s"
    and get_frame: "st_Get st d now s = (r, s') \<Longrightarrow> live s' = live s \<and> latched s' = latched s"
    and save_live: "st_Save st v s = (err, s') \<Longrightarrow>
      live s' \<subseteq> insert (bs_TokenDigest v, bs_AuthMethod v) (live s) \<and> latched s' = latched s"
    and revoke_live: "st_Revoke st d now s = (err, s') \<Longrightarrow>
      live s' \<subseteq> live s \<and> latched s' = latched s \<and> (err = None \<longrightarrow> (\<forall>m. (d, m) \<notin> live s'))"
    and revoke_method_live: "st_RevokeByMethod st m now s = (err, s') \<Longrightarrow>
      live s' \<subseteq> live s \<and> latched s' = latched s \<and> (err = None \<longrightarrow> (\<forall>d. (d, m) \<notin> live s'))"
    and csrf_frame: "st_UpdateCSRF st d c s = (err, s') \<Longrightarrow> live s' \<subseteq> live s \<and> latched s' = latched s"
    and revisions_frame: "st_UpdateRevisions st who k s = (err, s') \<Longrightarrow> live s' \<subseteq> live s \<and> latched s' = latched s"
    and set_pending: "st_SetPending st p s = (err, s') \<Longrightarrow>
      live s' = live s \<and> (err = None \<and> p \<longrightarrow> latched s') \<and> (err \<noteq> None \<longrightarrow> latched s' = latched s)"
    and pending: "st_Pending st s = (answer, s') \<Longrightarrow>
      live s' = live s \<and> latched s' = latched s \<and> (answer = Inr False \<longrightarrow> \<not> latched s)"
begin

lemma revokeAttempts_live:
  "revokeAttempts n now st err s = (err', s') \<Longrightarrow>
   live s' \<subseteq> live s \<and> latched s' = latched s \<and> (err' = None \<longrightarrow> (n = 0 \<and> err = None) \<or> (\<forall>d. (d, ''codex'') \<notin> live s'))"
proof (induction n arbitrary: err s)
  case (Suc n)
  obtain e t where step: "st_RevokeByMethod st ''codex'' now s = (e, t)" by fastforce
  show ?case
  proof (cases e)
    case None
    then show ?thesis using Suc.prems step revoke_method_live [OF step] by simp
  next
    case (Some x)
    then have "revokeAttempts n now st (Some x) t = (err', s')" using Suc.prems step by simp
    from Suc.IH [OF this] show ?thesis using revoke_method_live [OF step] by auto
  qed
qed auto

lemma revokeStored_live:
  assumes "ha_store a = Some st" "revokeStored now a s = (err, s')"
  shows "live s' \<subseteq> live s" "latched s' = latched s" "err = None \<Longrightarrow> (d, ''codex'') \<notin> live s'"
  using assms revokeAttempts_live [of 3 now None s err s'] by (auto simp: revokeStored_def)

text \<open>
  No Codex session can be used: the store is latched, or neither the cache nor the store has one.
\<close>

definition codex_gone :: "'s humanAuth \<Rightarrow> 's \<Rightarrow> bool" where
  "codex_gone a s \<longleftrightarrow> ha_store a = Some st \<and>
     (latched s \<or> ((\<forall>k v. (k, v) \<in> set (ha_sessions a) \<longrightarrow> se_authMethod v \<noteq> ''codex'') \<and> (\<forall>d. (d, ''codex'') \<notin> live s)))"

lemma lookup_session:
  assumes "ha_store a = Some st" "lookup sha now token a s = (r, a', s')"
  shows "ha_store a' = Some st" "live s' = live s" "latched s' = latched s"
    and "set (ha_sessions a') \<subseteq> set (ha_sessions a) \<union> {(token, v) |v. (sha token, se_authMethod v) \<in> live s}"
    and "r = Some v \<Longrightarrow> (\<exists>k. (k, v) \<in> set (ha_sessions a)) \<or> (sha token, se_authMethod v) \<in> live s"
proof -
  have "ha_store a' = Some st \<and> live s' = live s \<and> latched s' = latched s \<and>
    set (ha_sessions a') \<subseteq> set (ha_sessions a) \<union> {(token, v) |v. (sha token, se_authMethod v) \<in> live s} \<and>
    (\<forall>v. r = Some v \<longrightarrow> (\<exists>k. (k, v) \<in> set (ha_sessions a)) \<or> (sha token, se_authMethod v) \<in> live s)"
  proof (cases "token = ''''")
    case True
    then show ?thesis using assms by (auto simp: lookup_def)
  next
    case False
    show ?thesis
    proof (cases "map_of (ha_sessions a) token")
      case (Some v)
      then have "(token, v) \<in> set (ha_sessions a)" by (rule map_of_SomeD)
      then show ?thesis
        using assms False Some set_delete_subset [of token "ha_sessions a"]
        by (auto simp: lookup_def Let_def split: if_splits dest: subsetD)
    next
      case None
      obtain g t where get: "st_Get st (sha token) now s = (g, t)" by fastforce
      have frame: "live t = live s" "latched t = latched s" using get_frame [OF get] by simp_all
      show ?thesis
      proof (cases g)
        case (Inl e)
        then show ?thesis using assms False None get frame by (auto simp: lookup_def)
      next
        case (Inr b)
        have lv: "(sha token, bs_AuthMethod b) \<in> live s" using get Inr by (auto intro: get_live)
        show ?thesis
          using assms False None get frame Inr lv set_update_subset
          by (auto simp: lookup_def Let_def split: if_splits dest!: subsetD [OF set_delete_subset] subsetD [OF set_update_subset])
      qed
    qed
  qed
  then show "ha_store a' = Some st" "live s' = live s" "latched s' = latched s"
    "set (ha_sessions a') \<subseteq> set (ha_sessions a) \<union> {(token, v) |v. (sha token, se_authMethod v) \<in> live s}"
    "r = Some v \<Longrightarrow> (\<exists>k. (k, v) \<in> set (ha_sessions a)) \<or> (sha token, se_authMethod v) \<in> live s"
    by blast+
qed

lemma dropCodexSessions_none: "(k, v) \<in> set (ha_sessions (dropCodexSessions a)) \<Longrightarrow> se_authMethod v \<noteq> ''codex''"
  by (auto simp: dropCodexSessions_def)

lemma codex_refused:
  assumes "hn_humanAuth h = Some a" "ha_store a = Some st" "hn_codexRevocationFailed h \<or> codex_gone a (hn_store h)"
    and "authenticateHuman lb now r h = (Some who, h')"
  shows "ap_authMethod who \<noteq> ''codex''"
proof
  assume codex: "ap_authMethod who = ''codex''"
  obtain cookie session a' s' where look: "lookup (lb_sha lb) now cookie a (hn_store h) = (Some session, a', s')"
    and m: "se_authMethod session = ap_authMethod who"
    and free: "\<not> hn_codexRevocationFailed h" "fst (codexRevocationPending a' s') = False"
    using assms(1,4) codex
    by (auto simp: authenticateHuman_def Let_def split: option.splits prod.splits if_splits)
  note keep = lookup_session [OF assms(2) look]
  have gone: "codex_gone a (hn_store h)" using assms(3) free(1) by simp
  have "st_Pending st s' = (Inr False, snd (st_Pending st s'))"
    using free(2) keep(1) by (auto simp: codexRevocationPending_def split: prod.splits sum.splits)
  from pending [OF this] have "\<not> latched (hn_store h)" using keep(3) by simp
  then have "(k, v) \<in> set (ha_sessions a) \<Longrightarrow> se_authMethod v \<noteq> ''codex''" "(d, ''codex'') \<notin> live (hn_store h)" for k v d
    using gone by (auto simp: codex_gone_def)
  then show False using keep(5) [OF refl] m codex by auto
qed

lemma setPending_live:
  assumes "ha_store a = Some st" "setCodexRevocationPending p a s = (err, s')"
  shows "live s' = live s" "err = None \<Longrightarrow> p \<Longrightarrow> latched s'" "err \<noteq> None \<Longrightarrow> latched s' = latched s"
  using assms set_pending [of p s err s'] by (simp_all add: setCodexRevocationPending_def)

text \<open>What a revocation that nobody interferes with leaves behind.\<close>

lemma revocation_result:
  assumes "hn_humanAuth h = Some a" "ha_store a = Some st"
    and h': "h' = revokeCodexSessionsAfterAccountUpdate (\<lambda>p. p) now h"
    and e1: "setCodexRevocationPending True a (hn_store h) = (e1, s1)"
    and e2: "revokeStored now a s1 = (e2, s2)" and e3: "setCodexRevocationPending True a s2 = (e3, s3)"
  shows "hn_humanAuth h' = Some (dropCodexSessions a)" "hn_config h' = hn_config h"
    and "hn_codexRevocationFailed h' \<or> codex_gone (dropCodexSessions a) (hn_store h')"
    and "e1 = None \<or> e2 = None \<or> e3 = None \<or> latched (hn_store h) \<Longrightarrow>
         latched (hn_store h') \<or> (\<forall>d. (d, ''codex'') \<notin> live (hn_store h'))"
proof -
  let ?a = "dropCodexSessions a"
  have st: "ha_store ?a = Some st" using assms(2) by (simp add: dropCodexSessions_def)
  have same: "revokeStored now ?a = revokeStored now a" "setCodexRevocationPending p ?a = setCodexRevocationPending p a" for p
    by (simp_all add: revokeStored_def setCodexRevocationPending_def dropCodexSessions_def fun_eq_iff)
  obtain e4 s4 where e4: "setCodexRevocationPending False a s2 = (e4, s4)" by fastforce
  note l1 = setPending_live [OF assms(2) e1] and l2 = revokeStored_live [OF assms(2) e2]
    and l3 = setPending_live [OF assms(2) e3] and l4 = setPending_live [OF assms(2) e4]
  have l3': "latched s2 \<Longrightarrow> latched s3" using l3(2,3) by (cases e3) simp_all
  have gone: "(d, ''codex'') \<notin> live s2" if "e2 = None" for d using l2(3) that .
  have "e1 \<noteq> None \<and> e2 \<noteq> None \<and> h' = h\<lparr>hn_humanAuth := Some ?a, hn_store := s3, hn_codexRevocationFailed := True\<rparr> \<or>
        (e1 = None) \<noteq> (e2 = None) \<and> h' = h\<lparr>hn_humanAuth := Some ?a, hn_store := s2, hn_codexRevocationFailed := True\<rparr> \<or>
        e1 = None \<and> e2 = None \<and>
          h' = h\<lparr>hn_humanAuth := Some ?a, hn_store := s4, hn_codexRevocationFailed := (e4 \<noteq> None)\<rparr>"
    using assms(1) e1 e2 e3 e4 same
    by (auto simp: h' revokeCodexSessionsAfterAccountUpdate_def revokeCodexSessions_def Let_def)
  then show "hn_humanAuth h' = Some ?a" "hn_config h' = hn_config h"
    "hn_codexRevocationFailed h' \<or> codex_gone ?a (hn_store h')"
    "e1 = None \<or> e2 = None \<or> e3 = None \<or> latched (hn_store h) \<Longrightarrow>
       latched (hn_store h') \<or> (\<forall>d. (d, ''codex'') \<notin> live (hn_store h'))"
    using gone l1 l2(2) l3(1,2) l3' l4(1) st
    by (auto simp: codex_gone_def dest: dropCodexSessions_none)
qed

text \<open>A database that may fail keeps the contract.\<close>

lemma failing_cases:
  assumes "failing err f s = (r, s')"
  obtains "fst s \<noteq> [] \<and> hd (fst s)" "r = err ErrUnavailable" "snd s' = snd s"
  | "\<not> (fst s \<noteq> [] \<and> hd (fst s))" "f (snd s) = (r, snd s')"
  using assms by (auto simp: failing_def split: list.splits bool.splits if_splits)

lemma failing_session_store: "session_store (failingStore st) (\<lambda>s. live (snd s)) (\<lambda>s. latched (snd s))"
proof unfold_locales
  show "(d, bs_AuthMethod v) \<in> live (snd s)" if "st_Get (failingStore st) d now s = (Inr v, s')" for d now s v s'
    using that by (auto simp: failingStore_def elim!: failing_cases intro: get_live)
  show "live (snd s') = live (snd s) \<and> latched (snd s') = latched (snd s)"
    if "st_Get (failingStore st) d now s = (r, s')" for d now s r s'
    using that by (auto simp: failingStore_def elim!: failing_cases dest: get_frame)
  show "live (snd s') \<subseteq> insert (bs_TokenDigest v, bs_AuthMethod v) (live (snd s)) \<and> latched (snd s') = latched (snd s)"
    if "st_Save (failingStore st) v s = (err, s')" for v s err s'
    using that by (auto simp: failingStore_def elim!: failing_cases dest: save_live)
  show "live (snd s') \<subseteq> live (snd s) \<and> latched (snd s') = latched (snd s) \<and> (err = None \<longrightarrow> (\<forall>m. (d, m) \<notin> live (snd s')))"
    if "st_Revoke (failingStore st) d now s = (err, s')" for d now s err s'
    using that by (auto simp: failingStore_def elim!: failing_cases dest: revoke_live)
  show "live (snd s') \<subseteq> live (snd s) \<and> latched (snd s') = latched (snd s) \<and> (err = None \<longrightarrow> (\<forall>d. (d, m) \<notin> live (snd s')))"
    if "st_RevokeByMethod (failingStore st) m now s = (err, s')" for m now s err s'
    using that by (auto simp: failingStore_def elim!: failing_cases dest: revoke_method_live)
  show "live (snd s') \<subseteq> live (snd s) \<and> latched (snd s') = latched (snd s)"
    if "st_UpdateCSRF (failingStore st) d c s = (err, s')" for d c s err s'
    using that by (auto simp: failingStore_def elim!: failing_cases dest: csrf_frame)
  show "live (snd s') \<subseteq> live (snd s) \<and> latched (snd s') = latched (snd s)"
    if "st_UpdateRevisions (failingStore st) who k s = (err, s')" for who k s err s'
    using that by (auto simp: failingStore_def elim!: failing_cases dest: revisions_frame)
  show "live (snd s') = live (snd s) \<and> (err = None \<and> p \<longrightarrow> latched (snd s')) \<and> (err \<noteq> None \<longrightarrow> latched (snd s') = latched (snd s))"
    if "st_SetPending (failingStore st) p s = (err, s')" for p s err s'
    using that by (auto simp: failingStore_def elim!: failing_cases dest: set_pending)
  show "live (snd s') = live (snd s) \<and> latched (snd s') = latched (snd s) \<and> (answer = Inr False \<longrightarrow> \<not> latched (snd s))"
    if "st_Pending (failingStore st) s = (answer, s')" for s answer s'
    using that by (auto simp: failingStore_def elim!: failing_cases dest: pending)
qed

end

section \<open>The database keeps the contract\<close>

definition store_live :: "human_db \<Rightarrow> (gostring \<times> gostring) set" where
  "store_live s = {(hb_token_digest r, hb_auth_method r) |r. r \<in> set (hd_sessions s) \<and> hb_revoked_at r = None}"

definition store_latched :: "human_db \<Rightarrow> bool" where
  "store_latched s \<longleftrightarrow> hd_pending s \<noteq> Some False"

lemma updBrowserSessions_live:
  assumes "\<And>r. hb_token_digest (f r) = hb_token_digest r" "\<And>r. hb_auth_method (f r) = hb_auth_method r"
    "\<And>r. hb_revoked_at (f r) = None \<Longrightarrow> hb_revoked_at r = None"
  shows "store_live (updBrowserSessions p f s) \<subseteq> store_live s" "store_latched (updBrowserSessions p f s) = store_latched s"
  using assms by (auto simp: store_live_def store_latched_def updBrowserSessions_def set_updWhere split: if_splits)

lemma revoked_not_live:
  assumes "\<And>r. (hb_token_digest r, hb_auth_method r) = x \<Longrightarrow> hb_revoked_at r = None \<Longrightarrow> p r"
  shows "x \<notin> store_live (updBrowserSessions p (\<lambda>r. r\<lparr>hb_revoked_at := Some now\<rparr>) s)"
  using assms by (auto simp: store_live_def updBrowserSessions_def set_updWhere split: if_splits)

lemma save_rows:
  assumes "SaveHumanBrowserSession v s = (err, s')" "r \<in> set (hd_sessions s')"
  shows "r \<in> set (hd_sessions s) \<or> (hb_token_digest r = bs_TokenDigest v \<and> hb_auth_method r = bs_AuthMethod v)"
  using assms unfolding SaveHumanBrowserSession_def Let_def by (simp split: if_split_asm) auto

lemma save_pending: "SaveHumanBrowserSession v s = (err, s') \<Longrightarrow> hd_pending s' = hd_pending s"
  unfolding SaveHumanBrowserSession_def Let_def by (simp split: if_split_asm) auto

interpretation database: session_store sessionStore store_live store_latched
proof unfold_locales
  show "(d, bs_AuthMethod v) \<in> store_live s" if "st_Get sessionStore d now s = (Inr v, s')" for d now s v s'
    using that
    by (auto simp: sessionStore_def HumanBrowserSessionByToken_def store_live_def liveSession_def
        split: option.splits if_splits dest!: find_SomeD)
  show "store_live s' = store_live s \<and> store_latched s' = store_latched s"
    if "st_Get sessionStore d now s = (r, s')" for d now s r s'
    using that by (simp add: sessionStore_def)
  show "store_live s' \<subseteq> insert (bs_TokenDigest v, bs_AuthMethod v) (store_live s) \<and> store_latched s' = store_latched s"
    if "st_Save sessionStore v s = (err, s')" for v s err s'
    using that save_rows [of v s err s'] save_pending [of v s err s']
    by (auto simp: sessionStore_def store_live_def store_latched_def)
  show "store_live s' \<subseteq> store_live s \<and> store_latched s' = store_latched s \<and> (err = None \<longrightarrow> (\<forall>m. (d, m) \<notin> store_live s'))"
    if "st_Revoke sessionStore d now s = (err, s')" for d now s err s'
    using that updBrowserSessions_live [of "\<lambda>r. r\<lparr>hb_revoked_at := Some now\<rparr>"] revoked_not_live
    by (auto simp: sessionStore_def RevokeHumanBrowserSession_def)
  show "store_live s' \<subseteq> store_live s \<and> store_latched s' = store_latched s \<and> (err = None \<longrightarrow> (\<forall>d. (d, m) \<notin> store_live s'))"
    if "st_RevokeByMethod sessionStore m now s = (err, s')" for m now s err s'
    using that updBrowserSessions_live [of "\<lambda>r. r\<lparr>hb_revoked_at := Some now\<rparr>"] revoked_not_live
    by (auto simp: sessionStore_def RevokeHumanBrowserSessionsByMethod_def)
  show "store_live s' \<subseteq> store_live s \<and> store_latched s' = store_latched s"
    if "st_UpdateCSRF sessionStore d c s = (err, s')" for d c s err s'
    using that updBrowserSessions_live [of "\<lambda>r. r\<lparr>hb_csrf_digest := c\<rparr>"]
    by (auto simp: sessionStore_def UpdateHumanBrowserSessionCSRF_def Let_def)
  show "store_live s' \<subseteq> store_live s \<and> store_latched s' = store_latched s"
    if "st_UpdateRevisions sessionStore who k s = (err, s')" for who k s err s'
    using that updBrowserSessions_live [of "\<lambda>r. r\<lparr>hb_binding_revision := k\<rparr>"]
    by (auto simp: sessionStore_def UpdateHumanBrowserSessionRevisions_def split: if_splits)
  show "store_live s' = store_live s \<and> (err = None \<and> p \<longrightarrow> store_latched s') \<and> (err \<noteq> None \<longrightarrow> store_latched s' = store_latched s)"
    if "st_SetPending sessionStore p s = (err, s')" for p s err s'
    using that
    by (auto simp: sessionStore_def SetCodexSessionRevocationPending_def store_live_def store_latched_def split: option.splits)
  show "store_live s' = store_live s \<and> store_latched s' = store_latched s \<and> (answer = Inr False \<longrightarrow> \<not> store_latched s)"
    if "st_Pending sessionStore s = (answer, s')" for s answer s'
    using that
    by (auto simp: sessionStore_def CodexSessionRevocationPending_def store_latched_def someE_def split: option.splits)
qed

interpretation failing_database: session_store "failingStore sessionStore" "\<lambda>s. store_live (snd s)" "\<lambda>s. store_latched (snd s)"
  by (rule database.failing_session_store)

end
