(* ===== verification/Auth_Contract.thy ===== *)
theory Auth_Contract
  imports Session_Contract
begin

text \<open>
  Properties of human authentication as a whole: revocation and logout, the limit on failed logins,
  who is given a session, and which requests of a human are let through.
\<close>

section \<open>Revocation of Codex sessions\<close>

lemma failing_ok: "\<not> (fst s \<noteq> [] \<and> hd (fst s)) \<Longrightarrow> failing err f s = (fst (f (snd s)), (tl (fst s), snd (f (snd s))))"
  by (auto simp: failing_def split: list.splits bool.splits)

lemma failing_refused: "failing err f (True # later, s) = (err ErrUnavailable, (later, s))"
  by (simp add: failing_def)

lemma failing_setPending:
  assumes "ha_store a = Some (failingStore sessionStore)" "setCodexRevocationPending True a s = (Some err, s')"
    "\<not> store_latched (snd s)"
  obtains later where "fst s = True # later" "s' = (later, snd s)"
proof (cases "fst s \<noteq> [] \<and> hd (fst s)")
  case True
  then show ?thesis
    using assms that
    by (cases s; cases "fst s") (auto simp: setCodexRevocationPending_def failingStore_def failing_refused)
next
  case False
  then have "fst (setCodexRevocationPending True a s) = None"
    using assms(1,3)
    by (simp add: setCodexRevocationPending_def failingStore_def failing_ok sessionStore_def
          SetCodexSessionRevocationPending_def store_latched_def)
  then show ?thesis using assms(2) by simp
qed

lemma failing_revoke:
  assumes "st_RevokeByMethod (failingStore sessionStore) m now s = (Some err, s')"
  obtains later where "fst s = True # later" "s' = (later, snd s)"
proof (cases "fst s \<noteq> [] \<and> hd (fst s)")
  case True
  then show ?thesis using assms that by (cases s; cases "fst s") (auto simp: failingStore_def failing_refused)
next
  case False
  then show ?thesis using assms
    by (simp add: failingStore_def failing_ok sessionStore_def RevokeHumanBrowserSessionsByMethod_def)
qed

lemma failing_revokeAttempts:
  assumes "revokeAttempts n now (failingStore sessionStore) (Some err0) s = (Some err, s')"
  shows "\<exists>later. fst s = replicate n True @ later \<and> s' = (later, snd s)"
  using assms
proof (induction n arbitrary: s err0)
  case 0
  then show ?case by (cases s) auto
next
  case (Suc n)
  obtain e t where step: "st_RevokeByMethod (failingStore sessionStore) ''codex'' now s = (e, t)" by (meson surj_pair)
  show ?case
  proof (cases e)
    case None
    then show ?thesis using Suc.prems step by simp
  next
    case (Some x)
    then obtain later where "fst s = True # later" "t = (later, snd s)" using step failing_revoke by blast
    moreover have "revokeAttempts n now (failingStore sessionStore) (Some x) t = (Some err, s')"
      using Suc.prems step Some by simp
    ultimately show ?thesis using Suc.IH by fastforce
  qed
qed

text \<open>All five writes of a revocation fail only if the database refuses all five.\<close>

lemma five_refused:
  assumes st: "ha_store a = Some (failingStore sessionStore)"
    and "setCodexRevocationPending True a s = (Some e1, s1)" "revokeStored now a s1 = (Some e2, s2)"
    and "setCodexRevocationPending True a s2 = (Some e3, s3)" "\<not> store_latched (snd s)"
  shows "take 5 (fst s) = replicate 5 True"
proof -
  obtain l1 where l1: "fst s = True # l1" "s1 = (l1, snd s)" using failing_setPending [OF st assms(2,5)] .
  have "revokeAttempts 3 now (failingStore sessionStore) None s1 = (Some e2, s2)"
    using assms(3) st by (simp add: revokeStored_def)
  then have "revokeAttempts 3 now (failingStore sessionStore) (Some ErrUnavailable) s1 = (Some e2, s2)"
    by (simp add: numeral_3_eq_3 split: prod.splits option.splits)
  then obtain l2 where l2: "l1 = replicate 3 True @ l2" "s2 = (l2, snd s)"
    using failing_revokeAttempts l1(2) by fastforce
  obtain l3 where "l2 = True # l3" using failing_setPending [OF st assms(4)] assms(5) l2(2) by auto
  then show ?thesis using l1 l2 by (simp add: numeral_3_eq_3 eval_nat_numeral)
qed

text \<open>
  Property C27. After an account update that no other request interferes with, no request is authenticated
  by a session that was opened with Codex, whichever statements the database refuses. The same holds after the
  server has been restarted, unless the database refused all five writes of the revocation.
\<close>

theorem revocation_fail_closed:
  fixes h :: "human_db failing handler"
  assumes "hn_humanAuth h = Some a" "ha_store a = Some (failingStore sessionStore)"
    and h': "h' = revokeCodexSessionsAfterAccountUpdate (\<lambda>p. p) now h"
  shows "(fst (authenticateHuman lb t r h') = Some who \<longrightarrow> ap_authMethod who \<noteq> ''codex'') \<and>
    (take 5 (fst (hn_store h)) \<noteq> replicate 5 True \<and> cf_HumanSessionStore config = Some (failingStore sessionStore) \<and>
       fst (authenticateHuman lb t r (NewHandler lb config (hn_store h'))) = Some who \<longrightarrow> ap_authMethod who \<noteq> ''codex'')"
proof -
  obtain e1 s1 e2 s2 e3 s3 where es: "setCodexRevocationPending True a (hn_store h) = (e1, s1)"
    "revokeStored now a s1 = (e2, s2)" "setCodexRevocationPending True a s2 = (e3, s3)" by (meson surj_pair)
  note res = failing_database.revocation_result [OF assms es]
  have a': "ha_store (dropCodexSessions a) = Some (failingStore sessionStore)"
    using assms(2) by (simp add: dropCodexSessions_def)
  have running: "ap_authMethod who \<noteq> ''codex''" if "fst (authenticateHuman lb t r h') = Some who"
    using failing_database.codex_refused [OF res(1) a' res(3)] that by (metis prod.collapse)
  let ?h = "NewHandler lb config (hn_store h')"
  have "ap_authMethod who \<noteq> ''codex''"
    if some: "take 5 (fst (hn_store h)) \<noteq> replicate 5 True"
    and config: "cf_HumanSessionStore config = Some (failingStore sessionStore)"
    and auth: "fst (authenticateHuman lb t r ?h) = Some who"
  proof -
  obtain b where b: "hn_humanAuth ?h = Some b"
    using auth by (cases "hn_humanAuth ?h") (simp_all add: authenticateHuman_def)
  have new: "ha_store b = Some (failingStore sessionStore)" "ha_sessions b = []"
    using b config by (auto simp: NewHandler_def newHumanAuth_def split: option.splits if_splits)
  have "e1 = None \<or> e2 = None \<or> e3 = None \<or> store_latched (snd (hn_store h))"
    using five_refused [OF assms(2), of "hn_store h" _ s1 now _ s2 _ s3] es some
    by (cases e1; cases e2; cases e3) auto
  from res(4) [OF this] have "failing_database.codex_gone b (hn_store h')"
    using new by (simp add: failing_database.codex_gone_def)
  then show ?thesis
    using failing_database.codex_refused [OF b new(1)] auth by (metis NewHandler_def handler.select_convs(6) prod.collapse)
  qed
  with running show ?thesis by blast
qed


definition demo_config :: HumanAuthConfig where
  "demo_config = \<lparr>hc_AdminSecret = ''secret'', hc_DisplayName = ''Admin'', hc_Handle = '''', hc_Actor = ''admin'',
     hc_Principal = '''', hc_Session = ''s'', hc_Host = ''h'', hc_SessionTTL = 0, hc_RecoveryEnabled = True,
     hc_CodexEnabled = True\<rparr>"

definition demo_lib :: lib where
  "demo_lib = \<lparr>lb_sha = (\<lambda>s. take 32 (s @ replicate 32 (CHR ''#''))), lb_hmac = (\<lambda>k s. take 32 (s @ replicate 32 (CHR ''#''))),
     lb_lower = (\<lambda>s. s), lb_fold = (=),
     lb_parseURL = (\<lambda>s. Some \<lparr>ur_Scheme = ''http'', ur_Host = s, ur_Hostname = s, ur_Port = '''', ur_User = False,
        ur_Path = '''', ur_RawQuery = '''', ur_Fragment = ''''\<rparr>),
     lb_splitHostPort = Some, lb_loopback = (\<lambda>s. s = ''127.0.0.1'')\<rparr>"

definition demo_row :: browser_session_row where
  "demo_row = \<lparr>hb_token_digest = lb_sha demo_lib ''tok'', hb_csrf_digest = lb_sha demo_lib ''csrf'',
     hb_principal = ''human:local-admin'', hb_auth_method = ''codex'', hb_binding_revision = 1, hb_created_at = Second,
     hb_expires_at = 5 * Second, hb_revoked_at = None\<rparr>"

definition demo_db :: human_db where
  "demo_db = empty_human_db\<lparr>hd_sessions := [demo_row]\<rparr>"

definition demo_request :: http_request where
  "demo_request = \<lparr>rq_Method = ''GET'', rq_Path = ''/v1/projects'', rq_Host = ''commons'', rq_RemoteAddr = ''127.0.0.1'',
     rq_TLS = False, rq_Header = (\<lambda>k. ''''), rq_session = Some ''tok'', rq_pairing = None, rq_Body = zeroBody\<rparr>"

definition demo_server :: "'st HumanSessionStore \<Rightarrow> 'st \<Rightarrow> 'st handler" where
  "demo_server st s = NewHandler demo_lib
     \<lparr>cf_Credentials = [], cf_ExpectedHost = '''', cf_PublicOrigin = '''', cf_InternalReadinessHost = '''',
      cf_HumanAuth = Some demo_config, cf_HumanBindingStore = None, cf_HumanAuthEvents = None,
      cf_HumanSessionStore = Some st, cf_OnHumanIdentityUpdated = False, cf_CodexAuth = None\<rparr> s"

lemma demo_server_auth:
  "hn_humanAuth (demo_server st s) = newHumanAuth (lb_sha demo_lib) (Some demo_config) (Some st)"
  "hn_store (demo_server st s) = s" "hn_codexRevocationFailed (demo_server st s) = False"
  by (simp_all add: demo_server_def NewHandler_def)

lemma demo_auth:
  obtains a where "hn_humanAuth (demo_server st s) = Some a" "ha_store a = Some st" "ha_sessions a = []"
    "ha_principalID a = ''human:local-admin''"
  by (simp add: demo_server_auth newHumanAuth_def demo_config_def)

theorem revocation_fail_closed_witness:
  "fst (authenticateHuman demo_lib (2 * Second) demo_request (demo_server (failingStore sessionStore) ([], demo_db))) \<noteq> None \<and>
   map_option ap_authMethod (fst (authenticateHuman demo_lib (2 * Second) demo_request
     (revokeCodexSessionsAfterAccountUpdate (\<lambda>p. p) (2 * Second) (demo_server (failingStore sessionStore) ([False, True, True, True], demo_db)))))
     \<noteq> Some ''codex''"
proof
  let ?h = "demo_server (failingStore sessionStore) ([False, True, True, True], demo_db)"
  obtain a where a: "hn_humanAuth ?h = Some a" "ha_store a = Some (failingStore sessionStore)"
    by (rule demo_auth)
  show "map_option ap_authMethod (fst (authenticateHuman demo_lib (2 * Second) demo_request
     (revokeCodexSessionsAfterAccountUpdate (\<lambda>p. p) (2 * Second) ?h))) \<noteq> Some ''codex''"
    using revocation_fail_closed [OF a refl, of demo_lib "2 * Second" demo_request "2 * Second"] by (auto simp: map_option_case split: option.splits)
  show "fst (authenticateHuman demo_lib (2 * Second) demo_request (demo_server (failingStore sessionStore) ([], demo_db))) \<noteq> None"
    by code_simp
qed

section \<open>A session that survives its revocation\<close>

text \<open>
  The cache is emptied before the stored sessions are revoked, and it is refilled from the store.
  If a request with a Codex session is served in between, the revocation succeeds, the session is revoked in the
  store, and the server goes on to authenticate by it until it expires.
\<close>

lemma revocation_race:
  fixes h :: "human_db handler"
  assumes "hn_humanAuth h = Some a" "ha_store a = Some sessionStore" "hd_pending (hn_store h) = Some p"
    and "\<And>v. (token, v) \<in> set (ha_sessions a) \<Longrightarrow> se_authMethod v = ''codex''" "token \<noteq> ''''"
    and "find (liveSession (lb_sha lb token) t) (hd_sessions (hn_store h)) = Some row" "hb_auth_method row = ''codex''"
    and "hb_principal row = ha_principalID a" "hb_created_at row \<noteq> zeroTime" "hb_expires_at row \<noteq> zeroTime"
    and "t < hb_expires_at row" "t' < hb_expires_at row" "rq_session r = Some token"
    and h': "h' = revokeCodexSessionsAfterAccountUpdate (\<lambda>(a, s). snd (lookup (lb_sha lb) t token a s)) now h"
  shows "\<not> hn_codexRevocationFailed h' \<and> (lb_sha lb token, ''codex'') \<notin> store_live (hn_store h') \<and>
    (\<exists>who. fst (authenticateHuman lb t' r h') = Some who \<and> ap_authMethod who = ''codex'')"
proof -
  define s where "s = (hn_store h)\<lparr>hd_pending := Some True\<rparr>"
  define session where "session = \<lparr>se_csrf = '''', se_createdAt = hb_created_at row, se_expiresAt = hb_expires_at row,
     se_authMethod = hb_auth_method row, se_bindingRevision = hb_binding_revision row\<rparr>"
  define b where "b = (dropCodexSessions a)\<lparr>ha_sessions := AList.update token session (ha_sessions (dropCodexSessions a))\<rparr>"
  define s' where "s' = updBrowserSessions (\<lambda>r. hb_auth_method r = ''codex'' \<and> hb_revoked_at r = None)
     (\<lambda>r. r\<lparr>hb_revoked_at := Some now\<rparr>) s\<lparr>hd_pending := Some False\<rparr>"
  have out: "map_of (ha_sessions (dropCodexSessions a)) token = None"
    using assms(4) by (auto simp: dropCodexSessions_def map_of_eq_None_iff)
  have drop: "ha_store (dropCodexSessions a) = Some sessionStore" "ha_principalID (dropCodexSessions a) = ha_principalID a"
    using assms(2) by (simp_all add: dropCodexSessions_def)
  have look: "lookup (lb_sha lb) t token (dropCodexSessions a) s = (Some session, b, s)"
    using assms(5-11) out drop
    by (simp add: lookup_def sessionStore_def HumanBrowserSessionByToken_def s_def b_def session_def Let_def)
  have b: "ha_store b = Some sessionStore" "map_of (ha_sessions b) token = Some session"
    using drop by (simp_all add: b_def update_conv')
  have eq: "h' = h\<lparr>hn_humanAuth := Some b, hn_store := s', hn_codexRevocationFailed := False\<rparr>"
    using assms(1-3) look b(1)
    by (simp add: h' revokeCodexSessionsAfterAccountUpdate_def setCodexRevocationPending_def sessionStore_def
          SetCodexSessionRevocationPending_def revokeCodexSessions_def revokeStored_def numeral_3_eq_3
          RevokeHumanBrowserSessionsByMethod_def s_def s'_def updBrowserSessions_def Let_def)
  have ok: "\<not> hn_codexRevocationFailed h'" by (simp add: eq)
  have gone: "(lb_sha lb token, ''codex'') \<notin> store_live (hn_store h')"
  proof -
    have "store_live (u\<lparr>hd_pending := q\<rparr>) = store_live u" for u q by (simp add: store_live_def)
    then show ?thesis unfolding eq s'_def by (simp, intro revoked_not_live) auto
  qed
  have "lookup (lb_sha lb) t' token b s' = (Some session, b, s')"
    using assms(5,12) b(2) by (simp add: lookup_def session_def)
  then have "\<exists>who. fst (authenticateHuman lb t' r h') = Some who \<and> ap_authMethod who = ''codex''"
    using assms(7,13) b(1)
    by (simp add: eq authenticateHuman_def codexRevocationPending_def sessionStore_def CodexSessionRevocationPending_def
          s'_def session_def updBrowserSessions_def)
  with ok gone show ?thesis by blast
qed

section \<open>Logout\<close>

text \<open>The operations on sessions that the handlers make, and the token a new session is given.\<close>

datatype auth_op =
    Op_lookup time gostring
  | Op_create time "gostring option" "gostring option" gostring int
  | Op_remove time gostring
  | Op_rotate time "gostring option" gostring
  | Op_identity gostring gostring int
  | Op_revoke time
  | Op_latch bool
  | Op_limit time
  | Op_fail time

fun authOp :: "(gostring \<Rightarrow> gostring) \<Rightarrow> auth_op \<Rightarrow> 'st humanAuth \<times> 'st \<Rightarrow> 'st humanAuth \<times> 'st" where
  "authOp sha (Op_lookup now token) (a, s) = snd (lookup sha now token a s)"
| "authOp sha (Op_create now raw1 raw2 m k) (a, s) = snd (create sha now raw1 raw2 m k a s)"
| "authOp sha (Op_remove now token) (a, s) = snd (remove sha now token a s)"
| "authOp sha (Op_rotate now raw token) (a, s) = snd (rotateCSRF sha now raw token a s)"
| "authOp sha (Op_identity name handle k) (a, s) = snd (updateIdentity name handle k a s)"
| "authOp sha (Op_revoke now) (a, s) = snd (revokeCodexSessions (\<lambda>p. p) now a s)"
| "authOp sha (Op_latch p) (a, s) = (a, snd (setCodexRevocationPending p a s))"
| "authOp sha (Op_limit now) (a, s) = (snd (rateLimited now a), s)"
| "authOp sha (Op_fail now) (a, s) = (recordFailure now a, s)"

fun drawn :: "auth_op \<Rightarrow> gostring option" where
  "drawn (Op_create now raw1 raw2 m k) = randomAuthToken raw1"
| "drawn _ = None"

context session_store
begin

text \<open>A token nobody can use: it is not cached and no stored session has its digest.\<close>

definition dead :: "(gostring \<Rightarrow> gostring) \<Rightarrow> gostring \<Rightarrow> 's humanAuth \<times> 's \<Rightarrow> bool" where
  "dead sha token p \<longleftrightarrow> ha_store (fst p) = Some st \<and> (\<forall>v. (token, v) \<notin> set (ha_sessions (fst p))) \<and>
     (\<forall>m. (sha token, m) \<notin> live (snd p))"

lemma dead_mono:
  assumes "dead sha token (a, s)" "ha_store a' = Some st" "\<And>v. (token, v) \<in> set (ha_sessions a') \<Longrightarrow> \<exists>w. (token, w) \<in> set (ha_sessions a)"
    "\<And>m. (sha token, m) \<in> live s' \<Longrightarrow> (sha token, m) \<in> live s"
  shows "dead sha token (a', s')"
  using assms by (fastforce simp: dead_def)

lemma lookup_dead:
  assumes "dead sha token (a, s)"
  shows "dead sha token (snd (lookup sha now k a s))" "fst (lookup sha now token a s) = None"
proof -
  have st: "ha_store a = Some st" using assms by (simp add: dead_def)
  obtain r a' s' where l: "lookup sha now k a s = (r, a', s')" by (metis prod.exhaust)
  note keep = lookup_session [OF st l]
  have "\<not> ((token, v) \<in> set (ha_sessions a'))" for v
    using keep(4) assms by (fastforce simp: dead_def)
  then show "dead sha token (snd (lookup sha now k a s))"
    using keep(1,2) assms by (simp add: l dead_def)
  obtain r a' s' where l: "lookup sha now token a s = (r, a', s')" by (metis prod.exhaust)
  show "fst (lookup sha now token a s) = None"
  proof (cases r)
    case (Some v)
    have none: "map_of (ha_sessions a) token = None"
      using assms by (auto simp: dead_def map_of_eq_None_iff)
    obtain g t where g: "st_Get st (sha token) now s = (g, t)" by (meson surj_pair)
    have "\<exists>b. g = Inr b"
      using l none st g Some by (cases g) (auto simp: lookup_def split: if_splits)
    then have "\<exists>m. (sha token, m) \<in> live s" using get_live g by blast
    then show ?thesis using assms by (simp add: dead_def)
  qed (simp add: l)
qed

lemma create_dead:
  assumes "dead sha token (a, s)" "case randomAuthToken raw1 of None \<Rightarrow> True | Some k \<Rightarrow> sha k \<noteq> sha token"
  shows "dead sha token (snd (create sha now raw1 raw2 m k a s))"
proof (cases "randomAuthToken raw1")
  case (Some tok)
  have st: "ha_store a = Some st" using assms by (simp add: dead_def)
  show ?thesis
  proof (cases "randomAuthToken raw2")
    case (Some csrf)
    define session where "session = \<lparr>se_csrf = csrf, se_createdAt = now, se_expiresAt = now + ha_ttl a,
         se_authMethod = (if m \<noteq> '''' then m else ''recovery''), se_bindingRevision = (if k \<ge> 0 then k else 0)\<rparr>"
    obtain err s' where save: "saveSession sha now tok csrf session a s = (err, s')" by (meson surj_pair)
    have live': "live s' \<subseteq> insert (sha tok, se_authMethod session) (live s)"
      using save st by (auto simp: saveSession_def dest!: save_live)
    have sub: "set (ha_sessions (cacheNew now tok session a)) \<subseteq> insert (tok, session) (set (ha_sessions a))"
      unfolding cacheNew_def Let_def
      by (auto dest!: subsetD [OF set_update_subset] subsetD [OF set_delete_subset] split: if_splits)
    have "snd (create sha now raw1 raw2 m k a s) = (a, s') \<or>
          snd (create sha now raw1 raw2 m k a s) = (cacheNew now tok session a, s')"
      using \<open>randomAuthToken raw1 = Some tok\<close> Some save
      by (cases err) (simp_all add: create_def session_def [symmetric] Let_def)
    moreover have kept: "dead sha token (a', s')"
      if "ha_store a' = Some st" "set (ha_sessions a') \<subseteq> insert (tok, session) (set (ha_sessions a))" for a'
    proof (rule dead_mono [OF assms(1) that(1)])
      have "tok \<noteq> token" "sha tok \<noteq> sha token" using assms(2) \<open>randomAuthToken raw1 = Some tok\<close> by auto
      then show "\<exists>w. (token, w) \<in> set (ha_sessions a)" if "(token, v) \<in> set (ha_sessions a')" for v
        using that \<open>set (ha_sessions a') \<subseteq> _\<close> by auto
      show "(sha token, m) \<in> live s" if "(sha token, m) \<in> live s'" for m
        using that live' \<open>sha tok \<noteq> sha token\<close> by auto
    qed
    moreover have "dead sha token (a, s')" by (rule kept) (use st in auto)
    moreover have "dead sha token (cacheNew now tok session a, s')"
      by (rule kept [OF _ sub]) (use st in \<open>simp add: cacheNew_def Let_def\<close>)
    ultimately show ?thesis by auto
  qed (use assms(1) \<open>randomAuthToken raw1 = Some tok\<close> in \<open>simp add: create_def\<close>)
qed (use assms(1) in \<open>simp add: create_def\<close>)

lemma remove_dead:
  assumes "ha_store a = Some st" "remove sha now token a s = (None, p)" "token \<noteq> ''''"
  shows "dead sha token p"
proof -
  obtain err s' where r: "st_Revoke st (sha token) now s = (err, s')" by (meson surj_pair)
  have "err = None" "p = (removeCached token a, s')"
    using assms r by (auto simp: remove_def removeStored_def split: option.splits)
  then show ?thesis
    using revoke_live [OF r] assms(1) set_delete_subset delete_notin_dom [of token "ha_sessions a"]
    by (auto simp: dead_def removeCached_def image_iff)
qed

lemma remove_keeps_dead:
  assumes "dead sha token (a, s)"
  shows "dead sha token (snd (remove sha now k a s))"
proof -
  obtain err s' where r: "st_Revoke st (sha k) now s = (err, s')" by (meson surj_pair)
  have sub: "set (ha_sessions (removeCached k a)) \<subseteq> set (ha_sessions a)"
    using set_delete_subset by (simp add: removeCached_def)
  have "snd (remove sha now k a s) = (a, s) \<or> snd (remove sha now k a s) = (a, s') \<or>
        snd (remove sha now k a s) = (removeCached k a, s')"
    using assms r by (cases err) (auto simp: dead_def remove_def removeStored_def)
  then show ?thesis
    using revoke_live [OF r] sub assms by (auto simp: dead_def) (simp_all add: removeCached_def)
qed

lemma rotate_dead:
  assumes "dead sha token (a, s)"
  shows "dead sha token (snd (rotateCSRF sha now raw k a s))"
proof -
  obtain r b u where l: "lookup sha now k a s = (r, b, u)" by (metis prod.exhaust)
  have dead: "dead sha token (b, u)" using lookup_dead(1) [OF assms, of now k] l by simp
  show ?thesis
  proof (cases r)
    case None
    then show ?thesis using dead l by (simp add: rotateCSRF_def)
  next
    case (Some session)
    then have k: "k \<noteq> token" using lookup_dead(2) [OF assms, of now] l by auto
    show ?thesis
    proof (cases "randomAuthToken raw")
      case None
      then show ?thesis using dead l Some by (simp add: rotateCSRF_def)
    next
      case (Some csrf)
      obtain err u' where c: "st_UpdateCSRF st (sha k) (sha csrf) u = (err, u')" by (meson surj_pair)
      have st: "ha_store b = Some st" using dead by (simp add: dead_def)
      have "snd (rotateCSRF sha now raw k a s) = (b, u') \<or>
            snd (rotateCSRF sha now raw k a s) =
              (b\<lparr>ha_sessions := AList.update k (session\<lparr>se_csrf := csrf\<rparr>) (ha_sessions b)\<rparr>, u')"
        using l \<open>r = Some session\<close> Some c st by (cases err) (simp_all add: rotateCSRF_def Let_def)
      then show ?thesis
        using dead k csrf_frame [OF c] by (auto simp: dead_def dest!: subsetD [OF set_update_subset])
    qed
  qed
qed

lemma identity_dead:
  assumes "dead sha token (a, s)"
  shows "dead sha token (snd (updateIdentity name handle k a s))"
proof -
  obtain err u where c: "st_UpdateRevisions st (ha_principalID a) k s = (err, u)" by (meson surj_pair)
  have st: "ha_store a = Some st" using assms by (simp add: dead_def)
  show ?thesis
    using assms revisions_frame [OF c] c st by (cases err) (auto simp: updateIdentity_def dead_def)
qed

lemma revoke_dead:
  assumes "dead sha token (a, s)"
  shows "dead sha token (snd (revokeCodexSessions (\<lambda>p. p) now a s))"
proof -
  have st: "ha_store (dropCodexSessions a) = Some st" using assms by (simp add: dead_def dropCodexSessions_def)
  obtain err u where c: "revokeStored now (dropCodexSessions a) s = (err, u)" by (meson surj_pair)
  show ?thesis
    using revokeStored_live(1) [OF st c] assms st c
    by (auto simp: revokeCodexSessions_def dead_def) (auto simp: dropCodexSessions_def)
qed

lemma latch_dead:
  assumes "dead sha token (a, s)"
  shows "dead sha token (a, snd (setCodexRevocationPending p a s))"
proof -
  have st: "ha_store a = Some st" using assms by (simp add: dead_def)
  obtain err u where c: "setCodexRevocationPending p a s = (err, u)" by (meson surj_pair)
  show ?thesis using setPending_live(1) [OF st c] assms c by (simp add: dead_def)
qed

lemma authOp_dead:
  assumes "dead sha token p" "case drawn op of None \<Rightarrow> True | Some k \<Rightarrow> sha k \<noteq> sha token"
  shows "dead sha token (authOp sha op p)"
proof (cases p)
  case (Pair a s)
  then have d: "dead sha token (a, s)" using assms(1) by simp
  show ?thesis
    unfolding Pair using d assms(2)
    by (cases op) (simp_all add: lookup_dead create_dead remove_keeps_dead rotate_dead identity_dead revoke_dead latch_dead,
        simp_all add: dead_def rateLimited_def recordFailure_def Let_def)
qed

lemma authOps_dead:
  "dead sha token p \<Longrightarrow> \<forall>op \<in> set ops. case drawn op of None \<Rightarrow> True | Some k \<Rightarrow> sha k \<noteq> sha token \<Longrightarrow>
   dead sha token (fold (authOp sha) ops p)"
  by (induction ops arbitrary: p) (simp_all add: authOp_dead)

end

lemma authenticateHuman_cookie:
  assumes "authenticateHuman lb now r h = (Some who, h')"
  shows "rq_session r = Some (ap_cookie who)" "ap_cookie who \<noteq> ''''" "hn_config h' = hn_config h"
    "\<exists>a a' s' session. hn_humanAuth h = Some a \<and> hn_humanAuth h' = Some a' \<and>
       lookup (lb_sha lb) now (ap_cookie who) a (hn_store h) = (Some session, a', s') \<and> ap_csrfToken who = se_csrf session"
  using assms
  by (auto simp: authenticateHuman_def Let_def split: option.splits prod.splits if_splits)
     (auto simp: lookup_def)

lemma logout_removes:
  assumes "logout lb e r h = (es, h')" "Write 200 (SessionPayload unauthenticated) \<in> set es"
  obtains who h1 a a' s' where "authenticateHuman lb (ae_now e) r h = (Some who, h1)" "hn_humanAuth h1 = Some a"
    "remove (lb_sha lb) (ae_later e) (ap_cookie who) a (hn_store h1) = (None, a', s')"
    "hn_humanAuth h' = Some a'" "hn_store h' = s'" "hn_config h' = hn_config h1"
  using assms unfolding logout_def
  by (auto simp: writeError_def setHumanCookie_def decode_def Let_def
      split: prod.splits option.splits if_splits decode_error.splits)

text \<open>
  After a logout that was confirmed, no sequence of operations on sessions brings the session
  back: a request with its cookie is not authenticated, unless a new session happens to be given a token with the same
  digest. This holds whichever statements the database refuses.
\<close>

lemma logout_final:
  fixes h :: "human_db failing handler"
  assumes "hn_humanAuth h = Some a" "ha_store a = Some (failingStore sessionStore)" "rq_session r = Some token"
    and out: "logout lb e r h = (es, h')" "Write 200 (SessionPayload unauthenticated) \<in> set es"
    and a': "hn_humanAuth h' = Some a'" and ops: "fold (authOp (lb_sha lb)) ops (a', hn_store h') = (b, s)"
    and fresh: "\<forall>op \<in> set ops. case drawn op of None \<Rightarrow> True | Some k \<Rightarrow> lb_sha lb k \<noteq> lb_sha lb token"
    and req: "rq_session q = Some token"
  shows "fst (authenticateHuman lb t q (h'\<lparr>hn_humanAuth := Some b, hn_store := s\<rparr>)) = None"
proof -
  obtain who h1 a1 a2 s2 where auth: "authenticateHuman lb (ae_now e) r h = (Some who, h1)" "hn_humanAuth h1 = Some a1"
    and rem: "remove (lb_sha lb) (ae_later e) (ap_cookie who) a1 (hn_store h1) = (None, a2, s2)"
    and h': "hn_humanAuth h' = Some a2" "hn_store h' = s2"
    using logout_removes [OF out] by metis
  note cookie = authenticateHuman_cookie [OF auth(1)]
  obtain u v where "lookup (lb_sha lb) (ae_now e) (ap_cookie who) a (hn_store h) = (Some v, a1, u)"
    using cookie(4) assms(1) auth(2) by auto
  from failing_database.lookup_session(1) [OF assms(2) this]
  have "failing_database.dead (lb_sha lb) token (a2, s2)"
    using failing_database.remove_dead [OF _ rem] cookie(1,2) assms(3) by simp
  then have "failing_database.dead (lb_sha lb) token (b, s)"
    using failing_database.authOps_dead [OF _ fresh] ops a' h' by fastforce
  from failing_database.lookup_dead(2) [OF this] have "fst (lookup (lb_sha lb) t token b s) = None" .
  then show ?thesis using req by (auto simp: authenticateHuman_def split: prod.splits option.splits)
qed


end
