(* ===== verification/Pairing_Contract.thy ===== *)
theory Pairing_Contract
  imports Codex_Pairing
begin

text \<open>
  What the manager of sign-in attempts guarantees over any run: the life cycle of an attempt, the
  agreement of its two maps, and the limits on attempts, starts and polls.
\<close>

section \<open>Removal\<close>

lemma map_of_filter_value:
  "distinct (map fst xs) \<Longrightarrow>
   map_of (filter (\<lambda>(k, v). p v) xs) k = (case map_of xs k of None \<Rightarrow> None | Some v \<Rightarrow> if p v then Some v else None)"
  by (induction xs) (auto split: option.splits simp: map_of_eq_None_iff image_iff)

lemma map_of_filter_pair:
  "distinct (map fst xs) \<Longrightarrow>
   map_of (filter (\<lambda>(k, v). p k v) xs) k = (case map_of xs k of None \<Rightarrow> None | Some v \<Rightarrow> if p k v then Some v else None)"
  by (induction xs) (auto split: option.splits simp: map_of_eq_None_iff image_iff)

lemma distinct_fst_filter: "distinct (map fst xs) \<Longrightarrow> distinct (map fst (filter p xs))"
  by (induction xs) auto

lemma distinct_fst_delete: "distinct (map fst xs) \<Longrightarrow> distinct (map fst (AList.delete k xs))"
  by (simp add: distinct_delete)

lemma length_delete_le: "length (AList.delete k xs) \<le> length xs"
  by (induction xs) auto

lemma length_update: "length (AList.update k v xs) = (if k \<in> fst ` set xs then length xs else Suc (length xs))"
  by (induction xs) auto

lemma delete_update_same: "AList.delete k (AList.update k v xs) = AList.delete k xs"
  by (induction xs) auto

lemma removeLocked_put:
  assumes "map_of (pm_attempts m) k = Some a" "pa_cookieHash b = pa_cookieHash a"
  shows "snd (removeLocked k (putAttempt k b m)) = snd (removeLocked k m)"
  using assms
  by (simp add: removeLocked_def putAttempt_def cookieAttempt_def update_conv' delete_update_same)

lemma markFailed_removes: "markFailed k code m = snd (removeLocked k m)"
  by (cases "map_of (pm_attempts m) k") (simp_all add: markFailed_def removeLocked_put, simp add: removeLocked_def)

lemma pairingComplete_removes:
  "pairingComplete k m = (map_of (pm_attempts m) k \<noteq> None, snd (removeLocked k m))"
  by (cases "map_of (pm_attempts m) k") (simp_all add: pairingComplete_def removeLocked_put, simp add: removeLocked_def)

section \<open>Invariant\<close>

definition attempt_ok :: "time \<Rightarrow> gostring \<Rightarrow> pairingAttempt \<Rightarrow> bool" where
  "attempt_ok now k a \<longleftrightarrow>
     pa_id a = k \<and> k \<noteq> '''' \<and> pa_createdAt a \<le> now \<and> pa_expiresAt a = pa_createdAt a + pairingTTL \<and>
     pa_polls a \<le> maxPairingPolls \<and>
     (pa_state a = pairingCreated \<and> pa_loginID a = '''' \<or>
      (pa_state a = pairingWaiting \<or> pa_state a = pairingNeedsProfile) \<and> pa_loginID a \<noteq> '''') \<and>
     (pa_hasDigest a \<longleftrightarrow> pa_state a = pairingNeedsProfile) \<and> (pa_polling a \<longrightarrow> pa_state a = pairingWaiting)"

definition startTimes :: "gostring \<Rightarrow> pairing_event list \<Rightarrow> time list" where
  "startTimes remote l = concat (map (\<lambda>e. case e of Started r _ t \<Rightarrow> if r = remote then [t] else [] | _ \<Rightarrow> []) l)"

definition pollTimes :: "gostring \<Rightarrow> pairing_event list \<Rightarrow> time list" where
  "pollTimes k l = concat (map (\<lambda>e. case e of Polled k' t \<Rightarrow> if k' = k then [t] else [] | _ \<Rightarrow> []) l)"

definition attempts_inv :: "time \<Rightarrow> pairingManager \<Rightarrow> pairing_event list \<Rightarrow> bool" where
  "attempts_inv now m l \<longleftrightarrow>
     distinct (map fst (pm_attempts m)) \<and> length (pm_attempts m) \<le> maxPairings \<and>
     (\<forall>k a. map_of (pm_attempts m) k = Some a \<longrightarrow> attempt_ok now k a \<and> k \<in> set (startedIDs l))"

definition cookies_inv :: "pairingManager \<Rightarrow> bool" where
  "cookies_inv m \<longleftrightarrow> distinct (map fst (pm_byCookie m)) \<and>
     (\<forall>c k. map_of (pm_byCookie m) c = Some k \<longleftrightarrow>
            (\<exists>a. map_of (pm_attempts m) k = Some a \<and> pa_cookieHash a = c))"

definition starts_inv :: "time \<Rightarrow> pairingManager \<Rightarrow> pairing_event list \<Rightarrow> bool" where
  "starts_inv now m l \<longleftrightarrow> distinct (map fst (pm_starts m)) \<and>
     (\<forall>remote. filter (\<lambda>t. now - 10 * Minute < t) (startTimes remote l)
               = filter (\<lambda>t. now - 10 * Minute < t) (remoteStarts remote m) \<and>
        (\<forall>t \<in> set (startTimes remote l). t \<le> now) \<and>
        (\<forall>t. length (filter (\<lambda>x. t - 10 * Minute < x \<and> x \<le> t) (startTimes remote l)) \<le> 3))"

definition spaced :: "duration \<Rightarrow> time list \<Rightarrow> bool" where
  "spaced d ts \<longleftrightarrow> (\<forall>i. Suc i < length ts \<longrightarrow> ts ! i + d \<le> ts ! Suc i)"

definition polls_ok :: "time \<Rightarrow> pairing_event list \<Rightarrow> gostring \<Rightarrow> bool" where
  "polls_ok now l k \<longleftrightarrow>
     spaced minPollInterval (pollTimes k l) \<and> length (pollTimes k l) \<le> maxPairingPolls \<and>
     (\<forall>t \<in> set (pollTimes k l). zeroTime < t \<and> t \<le> now) \<and> (k \<notin> set (startedIDs l) \<longrightarrow> pollTimes k l = [])"

definition polls_agree :: "pairing_event list \<Rightarrow> gostring \<Rightarrow> pairingAttempt \<Rightarrow> bool" where
  "polls_agree l k a \<longleftrightarrow> length (pollTimes k l) = pa_polls a \<and>
     pa_lastPoll a = (if pollTimes k l = [] then zeroTime else List.last (pollTimes k l))"

definition polls_inv :: "time \<Rightarrow> pairingManager \<Rightarrow> pairing_event list \<Rightarrow> bool" where
  "polls_inv now m l \<longleftrightarrow> zeroTime < now \<and> (\<forall>k. polls_ok now l k) \<and>
     (\<forall>k a. map_of (pm_attempts m) k = Some a \<longrightarrow> polls_agree l k a)"

definition pairing_inv :: "pairing_run \<Rightarrow> bool" where
  "pairing_inv r \<longleftrightarrow>
     (case r of (now, m, l) \<Rightarrow> attempts_inv now m l \<and> cookies_inv m \<and> starts_inv now m l \<and> polls_inv now m l)"

subsection \<open>Removing and expiring attempts\<close>

text \<open>The attempts that are kept, and the two maps cut down to them.\<close>

definition keeps :: "pairingManager \<Rightarrow> pairingManager \<Rightarrow> bool" where
  "keeps m m' \<longleftrightarrow>
     (\<forall>k a. map_of (pm_attempts m') k = Some a \<longrightarrow> map_of (pm_attempts m) k = Some a) \<and>
     distinct (map fst (pm_attempts m')) \<and> length (pm_attempts m') \<le> length (pm_attempts m) \<and> cookies_inv m'"

lemma keeps_refl: "attempts_inv now m l \<Longrightarrow> cookies_inv m \<Longrightarrow> keeps m m"
  unfolding keeps_def attempts_inv_def by blast

lemma keeps_attempts:
  assumes "keeps m m'" "attempts_inv now m l"
  shows "attempts_inv now m' l"
  using assms unfolding keeps_def attempts_inv_def by (meson order_trans)

lemma keeps_polls: "keeps m m' \<Longrightarrow> polls_inv now m l \<Longrightarrow> polls_inv now m' l"
  unfolding keeps_def polls_inv_def by blast

lemma cookies_inv_iff:
  "cookies_inv m \<Longrightarrow>
   map_of (pm_byCookie m) c = Some k \<longleftrightarrow> (\<exists>a. map_of (pm_attempts m) k = Some a \<and> pa_cookieHash a = c)"
  unfolding cookies_inv_def by (elim conjE allE)

lemma cookie_of_attempt:
  assumes "cookies_inv m" "map_of (pm_attempts m) k = Some a"
  shows "cookieAttempt (pa_cookieHash a) m = k"
proof -
  have "map_of (pm_byCookie m) (pa_cookieHash a) = Some k" using assms unfolding cookies_inv_def by blast
  then show ?thesis by (simp add: cookieAttempt_def)
qed

lemma cookies_invI:
  assumes "cookies_inv m" "distinct (map fst (pm_byCookie m'))"
    and "\<And>k a. map_of (pm_attempts m') k = Some a \<longleftrightarrow> map_of (pm_attempts m) k = Some a \<and> \<not> gone k"
    and "\<And>c k. map_of (pm_byCookie m') c = Some k \<longleftrightarrow> map_of (pm_byCookie m) c = Some k \<and> \<not> gone k"
  shows "cookies_inv m'"
  using assms(1,2) unfolding cookies_inv_def assms(3,4) by blast

lemma removeLocked_keeps:
  assumes "attempts_inv now m l" "cookies_inv m"
  shows "keeps m (snd (removeLocked k m)) \<and> pm_starts (snd (removeLocked k m)) = pm_starts m \<and>
         map_of (pm_attempts (snd (removeLocked k m))) = (map_of (pm_attempts m))(k := None)"
proof (cases "map_of (pm_attempts m) k")
  case None
  then have "(map_of (pm_attempts m))(k := None) = map_of (pm_attempts m)" by auto
  with None keeps_refl [OF assms] show ?thesis by (simp add: removeLocked_def)
next
  case (Some a)
  let ?m = "m\<lparr>pm_attempts := AList.delete k (pm_attempts m),
              pm_byCookie := AList.delete (pa_cookieHash a) (pm_byCookie m)\<rparr>"
  have eq: "snd (removeLocked k m) = ?m"
    using Some cookie_of_attempt [OF assms(2) Some] by (simp add: removeLocked_def)
  have "cookies_inv ?m"
  proof (rule cookies_invI [OF assms(2), where gone = "\<lambda>k'. k' = k"])
    show "distinct (map fst (pm_byCookie ?m))"
      using assms(2) by (simp add: cookies_inv_def distinct_fst_delete)
    show "map_of (pm_attempts ?m) k' = Some a' \<longleftrightarrow> map_of (pm_attempts m) k' = Some a' \<and> \<not> k' = k" for k' a'
      by (simp add: delete_conv')
    show "map_of (pm_byCookie ?m) c = Some k' \<longleftrightarrow> map_of (pm_byCookie m) c = Some k' \<and> \<not> k' = k" for c k'
    proof -
      have "map_of (pm_byCookie m) c = Some k \<longleftrightarrow> c = pa_cookieHash a"
        using assms(2) Some unfolding cookies_inv_def by (metis option.inject)
      then show ?thesis by (auto simp: delete_conv')
    qed
  qed
  moreover have "distinct (map fst (pm_attempts m))" using assms(1) by (simp add: attempts_inv_def)
  ultimately show ?thesis
    unfolding eq keeps_def by (simp add: delete_conv' distinct_fst_delete length_delete_le)
qed

lemma cleanupLocked_keeps:
  assumes "attempts_inv now m l" "cookies_inv m"
  shows "keeps m (cleanupLocked now' m)"
proof -
  have d: "distinct (map fst (pm_attempts m))" "distinct (map fst (pm_byCookie m))"
    using assms by (simp_all add: attempts_inv_def cookies_inv_def)
  let ?gone = "\<lambda>k. \<exists>a. map_of (pm_attempts m) k = Some a \<and> \<not> now' < pa_expiresAt a"
  let ?m = "cleanupLocked now' m"
  have att: "map_of (pm_attempts ?m) k = Some a \<longleftrightarrow> map_of (pm_attempts m) k = Some a \<and> \<not> ?gone k" for k a
    by (auto simp: cleanupLocked_def map_of_filter_value [OF d(1)] split: option.splits)
  have by_cookie: "map_of (pm_byCookie ?m) c = Some k \<longleftrightarrow> map_of (pm_byCookie m) c = Some k \<and> \<not> ?gone k" for c k
  proof -
    have "hasRow (\<lambda>(k', a). k' = k \<and> pa_cookieHash a = c) (filter (\<lambda>(_, a). \<not> now' < pa_expiresAt a) (pm_attempts m))
          \<longleftrightarrow> ?gone k" if cookie: "map_of (pm_byCookie m) c = Some k"
    proof -
      obtain a where "map_of (pm_attempts m) k = Some a" "pa_cookieHash a = c"
        using cookie cookies_inv_iff [OF assms(2), of c k] by blast
      then show ?thesis
        unfolding hasRow_iff map_of_eq_Some_iff [OF d(1)]
        by (auto simp: map_of_eq_Some_iff [OF d(1), symmetric])
    qed
    note row = this
    have "map_of (pm_byCookie ?m) c =
        (case map_of (pm_byCookie m) c of None \<Rightarrow> None | Some k \<Rightarrow>
           if \<not> hasRow (\<lambda>(k', a). k' = k \<and> pa_cookieHash a = c)
                 (filter (\<lambda>(_, a). \<not> now' < pa_expiresAt a) (pm_attempts m)) then Some k else None)"
      unfolding cleanupLocked_def Let_def using map_of_filter_pair [OF d(2)] by (simp del: hasRow_iff)
    then show ?thesis using row by (cases "map_of (pm_byCookie m) c") (simp_all del: hasRow_iff, blast)
  qed
  have "cookies_inv ?m"
    by (rule cookies_invI [OF assms(2) _ att by_cookie])
       (simp add: cleanupLocked_def distinct_fst_filter d(2))
  then show ?thesis
    using att by (simp add: keeps_def) (simp add: cleanupLocked_def distinct_fst_filter d(1))
qed

lemma remoteStarts_cleanup:
  assumes "distinct (map fst (pm_starts m))"
  shows "remoteStarts remote (cleanupLocked now m) = filter (\<lambda>t. now - 10 * Minute < t) (remoteStarts remote m)"
proof -
  have "map_of (map (\<lambda>(r, ts). (r, filter (\<lambda>t. now - 10 * Minute < t) ts)) xs) remote
        = map_option (filter (\<lambda>t. now - 10 * Minute < t)) (map_of xs remote)" for xs
    by (induction xs) auto
  moreover have "distinct (map fst (map (\<lambda>(r, ts). (r, filter (\<lambda>t. now - 10 * Minute < t) ts)) (pm_starts m)))"
    using assms by (simp add: comp_def case_prod_unfold)
  ultimately show ?thesis
    by (simp add: cleanupLocked_def remoteStarts_def map_of_filter_value split: option.splits)
qed

lemma starts_inv_cleanup: "starts_inv now m l \<Longrightarrow> starts_inv now (cleanupLocked now m) l"
  unfolding starts_inv_def
  by (simp add: remoteStarts_cleanup) (simp add: cleanupLocked_def distinct_fst_filter comp_def case_prod_unfold)

lemma starts_inv_same: "starts_inv now m l \<Longrightarrow> pm_starts m' = pm_starts m \<Longrightarrow> starts_inv now m' l"
  by (simp add: starts_inv_def remoteStarts_def)

lemma inv_removeLocked:
  assumes "pairing_inv (now, m, l)"
  shows "pairing_inv (now, snd (removeLocked k m), l)"
proof -
  have inv: "attempts_inv now m l" "cookies_inv m" "starts_inv now m l" "polls_inv now m l"
    using assms by (simp_all add: pairing_inv_def)
  have k: "keeps m (snd (removeLocked k m))" "pm_starts (snd (removeLocked k m)) = pm_starts m"
    using removeLocked_keeps [OF inv(1,2), of k] by simp_all
  then show ?thesis
    using keeps_attempts [OF k(1) inv(1)] keeps_polls [OF k(1) inv(4)] starts_inv_same [OF inv(3) k(2)]
    by (simp add: pairing_inv_def keeps_def)
qed

lemma inv_cleanup:
  assumes "pairing_inv (now, m, l)"
  shows "pairing_inv (now, cleanupLocked now m, l)"
proof -
  have inv: "attempts_inv now m l" "cookies_inv m" "starts_inv now m l" "polls_inv now m l"
    using assms by (simp_all add: pairing_inv_def)
  have k: "keeps m (cleanupLocked now m)" by (rule cleanupLocked_keeps [OF inv(1,2)])
  then show ?thesis
    using keeps_attempts [OF k inv(1)] keeps_polls [OF k inv(4)] starts_inv_cleanup [OF inv(3)]
    by (simp add: pairing_inv_def keeps_def)
qed

subsection \<open>Changing an attempt\<close>

lemma fst_update: "distinct (map fst xs) \<Longrightarrow> distinct (map fst (AList.update k v xs))"
  by (simp add: distinct_update)

lemma map_of_in_keys: "map_of xs k = Some v \<Longrightarrow> k \<in> fst ` set xs"
  by (metis map_of_eq_None_iff option.distinct(1))

lemma cookies_put:
  assumes "cookies_inv m" "map_of (pm_attempts m) k = Some a" "pa_cookieHash b = pa_cookieHash a"
  shows "cookies_inv (putAttempt k b m)"
proof -
  have "(\<exists>a'. map_of (pm_attempts (putAttempt k b m)) k' = Some a' \<and> pa_cookieHash a' = c) \<longleftrightarrow>
        (\<exists>a'. map_of (pm_attempts m) k' = Some a' \<and> pa_cookieHash a' = c)" for k' c
    using assms(2,3) by (auto simp: putAttempt_def update_conv')
  then show ?thesis using assms(1) by (simp add: cookies_inv_def putAttempt_def)
qed

lemma attempts_put:
  assumes "attempts_inv now m l" "map_of (pm_attempts m) k = Some a" "attempt_ok now k b"
  shows "attempts_inv now (putAttempt k b m) l"
  using assms
  by (auto simp: attempts_inv_def putAttempt_def update_conv' fst_update length_update map_of_in_keys
        simp del: map_of_eq_Some_iff)

lemma polls_put:
  assumes "polls_inv now m l" "map_of (pm_attempts m) k = Some a" "pa_polls b = pa_polls a" "pa_lastPoll b = pa_lastPoll a"
  shows "polls_inv now (putAttempt k b m) l"
  using assms unfolding polls_inv_def polls_agree_def
  by (elim conjE, intro conjI) (simp_all add: putAttempt_def update_conv')

lemma inv_put:
  assumes "pairing_inv (now, m, l)" "map_of (pm_attempts m) k = Some a" "attempt_ok now k b"
    and "pa_cookieHash b = pa_cookieHash a" "pa_polls b = pa_polls a" "pa_lastPoll b = pa_lastPoll a"
  shows "pairing_inv (now, putAttempt k b m, l)"
  using assms starts_inv_same [of now m l "putAttempt k b m"] unfolding pairing_inv_def
  by (auto intro: attempts_put cookies_put polls_put simp: putAttempt_def [THEN arg_cong, of pm_starts])

lemma inv_attempt_ok: "pairing_inv (now, m, l) \<Longrightarrow> map_of (pm_attempts m) k = Some a \<Longrightarrow> attempt_ok now k a"
  unfolding pairing_inv_def attempts_inv_def by (auto simp del: map_of_eq_Some_iff)

lemma inv_attach: "pairing_inv (now, m, l) \<Longrightarrow> pairing_inv (now, snd (attachLogin k loginID url code m), l)"
  unfolding attachLogin_def
  by (auto split: option.splits intro!: inv_put dest: inv_attempt_ok simp: attempt_ok_def)

lemma inv_finishPoll: "pairing_inv (now, m, l) \<Longrightarrow> pairing_inv (now, finishPoll k m, l)"
  unfolding finishPoll_def
  by (auto split: option.splits intro!: inv_put dest: inv_attempt_ok simp: attempt_ok_def)

lemma inv_needsProfile: "pairing_inv (now, m, l) \<Longrightarrow> pairing_inv (now, snd (needsProfile k digest m), l)"
  unfolding needsProfile_def
  by (auto split: option.splits intro!: inv_put dest: inv_attempt_ok simp: attempt_ok_def)

lemma inv_active: "pairing_inv (now, m, l) \<Longrightarrow> pairing_inv (now, snd (activeForCookie now c m), l)"
  using inv_cleanup by (auto simp: activeForCookie_def Let_def split: option.splits)

lemma inv_lookup: "pairing_inv (now, m, l) \<Longrightarrow> pairing_inv (now, snd (pairingLookup now k c m), l)"
  using inv_removeLocked by (auto simp: pairingLookup_def split: option.splits)

subsection \<open>Starting an attempt\<close>

lemma log_append [simp]:
  "startedIDs (l @ l') = startedIDs l @ startedIDs l'" "startTimes r (l @ l') = startTimes r l @ startTimes r l'"
  "pollTimes k (l @ l') = pollTimes k l @ pollTimes k l'"
  by (simp_all add: startedIDs_def startTimes_def pollTimes_def)

lemma log_single [simp]:
  "startedIDs [] = []" "startTimes r [] = []" "pollTimes k [] = []"
  "startedIDs [Started r' k' t] = [k']" "startTimes r [Started r' k' t] = (if r' = r then [t] else [])"
  "pollTimes k [Started r' k' t] = []"
  "startedIDs [Polled k' t] = []" "startTimes r [Polled k' t] = []" "pollTimes k [Polled k' t] = (if k' = k then [t] else [])"
  by (simp_all add: startedIDs_def startTimes_def pollTimes_def)

lemma window_le:
  fixes now :: int
  assumes "length (filter (\<lambda>x. now - w < x) ts) < 3" "\<forall>x \<in> set ts. x \<le> now"
    "\<And>t. length (filter (\<lambda>x. t - w < x \<and> x \<le> t) ts) \<le> 3"
  shows "length (filter (\<lambda>x. t - w < x \<and> x \<le> t) (ts @ [now])) \<le> 3"
proof (cases "t - w < now \<and> now \<le> t")
  case True
  have "length (filter (\<lambda>x. t - w < x \<and> x \<le> t) ts) \<le> length (filter (\<lambda>x. now - w < x) ts)"
    using True by (induction ts) auto
  then show ?thesis using True assms(1) by simp
qed (use assms(3) in auto)

lemma reserve_starts:
  assumes "starts_inv now m l" "length (remoteStarts remote m) < 3" "pm_starts m' = AList.update remote (remoteStarts remote m @ [now]) (pm_starts m)"
  shows "starts_inv now m' (l @ [Started remote k now])"
proof -
  have starts: "remoteStarts r m' = (if r = remote then remoteStarts remote m @ [now] else remoteStarts r m)" for r
    by (simp add: remoteStarts_def assms(3) update_conv')
  have "length (filter (\<lambda>x. now - 10 * Minute < x) (startTimes remote l)) < 3"
    using assms(1,2) unfolding starts_inv_def by (metis length_filter_le order_le_less_trans)
  then have "length (filter (\<lambda>x. t - 10 * Minute < x \<and> x \<le> t) (startTimes remote l @ [now])) \<le> 3" for t
    using assms(1) unfolding starts_inv_def by (intro window_le) auto
  then show ?thesis
    using assms(1,3) by (auto simp: starts_inv_def starts fst_update)
qed

lemma reserve_polls:
  assumes "polls_inv now m l" "k \<notin> set (startedIDs l)" "pm_attempts m' = AList.update k (newAttempt k c now) (pm_attempts m)"
  shows "polls_inv now m' (l @ [Started remote k now])"
proof -
  have "pollTimes k l = []" using assms(1,2) by (simp add: polls_inv_def polls_ok_def)
  then show ?thesis
    using assms(1,3)
    by (simp add: polls_inv_def polls_ok_def polls_agree_def update_conv') (simp add: newAttempt_def)
qed

lemma newAttempt_ok: "k \<noteq> '''' \<Longrightarrow> attempt_ok now k (newAttempt k c now)"
  by (simp add: attempt_ok_def newAttempt_def)

lemma reserve_attempts:
  assumes "attempts_inv now m l" "k \<noteq> ''''" "length (pm_attempts m) < maxPairings"
    "pm_attempts m' = AList.update k (newAttempt k c now) (pm_attempts m)"
  shows "attempts_inv now m' (l @ [Started remote k now])"
  using assms newAttempt_ok [OF assms(2)]
  by (auto simp: attempts_inv_def update_conv' fst_update length_update simp del: map_of_eq_Some_iff)

lemma reserve_cookies:
  assumes "cookies_inv m" "map_of (pm_attempts m) k = None" "map_of (pm_byCookie m) c = None"
    "pm_attempts m' = AList.update k (newAttempt k c now) (pm_attempts m)"
    "pm_byCookie m' = AList.update c k (pm_byCookie m)"
  shows "cookies_inv m'"
proof -
  have h: "pa_cookieHash (newAttempt k c now) = c" by (simp add: newAttempt_def)
  have none: "\<not> (\<exists>a. map_of (pm_attempts m) k' = Some a \<and> pa_cookieHash a = c)" for k'
    using cookies_inv_iff [OF assms(1), of c k'] assms(3) by simp
  have "map_of (pm_byCookie m') c' = Some k' \<longleftrightarrow> (\<exists>a. map_of (pm_attempts m') k' = Some a \<and> pa_cookieHash a = c')" for c' k'
    using cookies_inv_iff [OF assms(1), of c' k'] none [of k'] assms(2) h
    by (cases "c' = c"; cases "k' = k") (auto simp: assms(4,5) update_conv')
  then show ?thesis using assms(1) by (simp add: cookies_inv_def assms(5) fst_update)
qed

lemma inv_reserve:
  assumes "pairing_inv (now, m0, l)" "reserve now raw c remote m0 = (r, m')"
    "case randomAuthToken raw of None \<Rightarrow> True | Some k \<Rightarrow> k \<noteq> '''' \<and> k \<notin> set (startedIDs l)"
  shows "pairing_inv (now, m', l @ startLog remote now r)"
proof (cases r)
  case (Inl err)
  then have "m' = cleanupLocked now m0"
    using assms(2) by (auto simp: reserve_def Let_def split: if_splits option.splits)
  then show ?thesis using inv_cleanup [OF assms(1)] Inl by (simp add: startLog_def)
next
  case (Inr a)
  define m where "m = cleanupLocked now m0"
  have inv: "pairing_inv (now, m, l)" unfolding m_def by (rule inv_cleanup [OF assms(1)])
  have free: "cookieAttempt c m = ''''" "length (pm_attempts m) < maxPairings" "length (remoteStarts remote m) < 3"
    and drawn: "randomAuthToken raw = Some (pa_id a)" "a = newAttempt (pa_id a) c now"
    and m': "m' = m\<lparr>pm_attempts := AList.update (pa_id a) (newAttempt (pa_id a) c now) (pm_attempts m),
               pm_byCookie := AList.update c (pa_id a) (pm_byCookie m),
               pm_starts := AList.update remote (remoteStarts remote m @ [now]) (pm_starts m)\<rparr>"
    using assms(2) Inr
    by (auto simp: reserve_def Let_def m_def newAttempt_def split: if_splits option.splits)
  have fresh: "pa_id a \<noteq> ''''" "pa_id a \<notin> set (startedIDs l)" using assms(3) drawn(1) by auto
  have none: "map_of (pm_attempts m) (pa_id a) = None"
    using inv fresh(2) unfolding pairing_inv_def attempts_inv_def
    by (cases "map_of (pm_attempts m) (pa_id a)") (auto simp del: map_of_eq_Some_iff)
  have "map_of (pm_byCookie m) c = None"
  proof (cases "map_of (pm_byCookie m) c")
    case (Some k)
    then obtain b where "map_of (pm_attempts m) k = Some b"
      using inv cookies_inv_iff [of m c k] unfolding pairing_inv_def by auto
    then have "k \<noteq> ''''" using inv_attempt_ok [OF inv] by (auto simp: attempt_ok_def)
    then show ?thesis using free(1) Some by (simp add: cookieAttempt_def)
  qed
  then show ?thesis
    using inv free(2,3) fresh none Inr unfolding pairing_inv_def m'
    by (auto simp: startLog_def intro: reserve_attempts reserve_cookies reserve_starts reserve_polls)
qed

subsection \<open>Polling\<close>

lemma spaced_snoc: "spaced d ts \<Longrightarrow> (ts \<noteq> [] \<Longrightarrow> List.last ts + d \<le> t) \<Longrightarrow> spaced d (ts @ [t])"
  unfolding spaced_def by (auto simp: nth_append last_conv_nth less_Suc_eq) (metis diff_Suc_Suc diff_zero list.size(3) nat.distinct(1))

lemma beginPoll_cases:
  assumes "beginPoll now k m = (r, m')"
  obtains "pollLog k now r = []" "m' = m \<or> m' = snd (removeLocked k m)"
  | a where "map_of (pm_attempts m) k = Some a" "now < pa_expiresAt a" "pa_state a = pairingWaiting"
      "pa_lastPoll a = zeroTime \<or> minPollInterval \<le> now - pa_lastPoll a" "pa_polls a < maxPairingPolls"
      "pollLog k now r = (if pa_loginID a = '''' then [] else [Polled k now])"
      "m' = putAttempt k (a\<lparr>pa_polls := pa_polls a + 1, pa_lastPoll := now, pa_polling := True\<rparr>) m"
proof (cases "map_of (pm_attempts m) k")
  case None
  then show ?thesis using assms that(1) by (auto simp: beginPoll_def pollLog_def)
next
  case (Some a)
  have same: "snd (removeLocked k (putAttempt k (a\<lparr>pa_polls := pa_polls a + 1\<rparr>) m)) = snd (removeLocked k m)"
    by (rule removeLocked_put [OF Some]) simp
  have twice: "putAttempt k b (putAttempt k c m) = putAttempt k b m" for b c
    by (simp add: putAttempt_def)
  show ?thesis
  proof (cases "now < pa_expiresAt a \<and> pa_state a = pairingWaiting \<and> \<not> pa_polling a \<and>
                \<not> (pa_lastPoll a \<noteq> zeroTime \<and> now - pa_lastPoll a < minPollInterval) \<and> pa_polls a < maxPairingPolls")
    case True
    then have "r = Inr (a\<lparr>pa_polls := pa_polls a + 1, pa_lastPoll := now, pa_polling := True\<rparr>, pa_loginID a)"
      "m' = putAttempt k (a\<lparr>pa_polls := pa_polls a + 1, pa_lastPoll := now, pa_polling := True\<rparr>) m"
      using assms Some by (auto simp: beginPoll_def Let_def twice)
    then show ?thesis using that(2) Some True by (auto simp: pollLog_def)
  next
    case False
    then show ?thesis
      using that(1) assms Some same by (auto simp: beginPoll_def pollLog_def Let_def split: if_splits)
  qed
qed

lemma inv_beginPoll:
  assumes inv: "pairing_inv (now, m, l)" and poll: "beginPoll now k m = (r, m')"
  shows "pairing_inv (now, m', l @ pollLog k now r)"
  using poll
proof (cases rule: beginPoll_cases)
  case 1
  then show ?thesis using inv inv_removeLocked [OF inv] by auto
next
  case (2 a)
  let ?b = "a\<lparr>pa_polls := pa_polls a + 1, pa_lastPoll := now, pa_polling := True\<rparr>"
  have ok: "attempt_ok now k a" by (rule inv_attempt_ok [OF inv 2(1)])
  have log: "pollLog k now r = [Polled k now]" using 2(3,6) ok by (auto simp: attempt_ok_def)
  have okb: "attempt_ok now k ?b" using ok 2(3,5) by (simp add: attempt_ok_def)
  have polls: "polls_inv now m l" "starts_inv now m l" "attempts_inv now m l" "cookies_inv m"
    using inv by (simp_all add: pairing_inv_def)
  have agree: "polls_agree l k a" and pok: "polls_ok now l k'" and t0: "zeroTime < now" for k'
    using polls(1) 2(1) by (simp_all add: polls_inv_def)
  have started: "k \<in> set (startedIDs l)" using polls(3) 2(1) by (simp add: attempts_inv_def)
  have spaced: "spaced minPollInterval (pollTimes k l @ [now])"
  proof (rule spaced_snoc)
    assume "pollTimes k l \<noteq> []"
    then have "pa_lastPoll a = List.last (pollTimes k l)" "List.last (pollTimes k l) \<in> set (pollTimes k l)"
      using agree by (simp_all add: polls_agree_def)
    moreover have "pa_lastPoll a \<noteq> zeroTime"
      using calculation pok [of k] by (auto simp: polls_ok_def)
    ultimately show "List.last (pollTimes k l) + minPollInterval \<le> now" using 2(4) by simp
  qed (use pok [of k] in \<open>simp add: polls_ok_def\<close>)
  have "polls_ok now (l @ [Polled k now]) k'" for k'
    using pok [of k'] spaced agree 2(5) started t0 by (auto simp: polls_ok_def polls_agree_def)
  moreover have "polls_agree (l @ [Polled k now]) k' a'"
    if "map_of (pm_attempts (putAttempt k ?b m)) k' = Some a'" for k' a'
    using that agree polls(1)
    by (auto simp: putAttempt_def update_conv' polls_agree_def polls_inv_def split: if_splits simp del: map_of_eq_Some_iff)
  ultimately have "polls_inv now m' (l @ [Polled k now])" using t0 2(7) by (simp add: polls_inv_def)
  moreover have "starts_inv now m' (l @ [Polled k now])"
    using polls(2) 2(7) by (simp add: starts_inv_def putAttempt_def remoteStarts_def)
  moreover have "attempts_inv now m' (l @ [Polled k now])"
    using attempts_put [OF polls(3) 2(1) okb] 2(7) by (simp add: attempts_inv_def)
  moreover have "cookies_inv m'" unfolding 2(7) by (rule cookies_put [OF polls(4) 2(1)]) simp
  ultimately show ?thesis by (simp add: pairing_inv_def log)
qed

section \<open>Every run keeps the invariant\<close>

lemma filter_later:
  fixes now now' :: int
  assumes "filter (\<lambda>t. now < t) xs = filter (\<lambda>t. now < t) ys" "now \<le> now'"
  shows "filter (\<lambda>t. now' < t) xs = filter (\<lambda>t. now' < t) ys"
proof -
  have "filter (\<lambda>t. now' < t) zs = filter (\<lambda>t. now' < t) (filter (\<lambda>t. now < t) zs)" for zs
    using assms(2) by (induction zs) auto
  then show ?thesis using assms(1) by metis
qed

lemma inv_tick:
  assumes "pairing_inv (now, m, l)" "now \<le> now'"
  shows "pairing_inv (now', m, l)"
proof -
  have "attempt_ok now k a \<Longrightarrow> attempt_ok now' k a" for k a using assms(2) by (auto simp: attempt_ok_def)
  then have "attempts_inv now' m l" using assms(1) by (auto simp: pairing_inv_def attempts_inv_def)
  moreover have "starts_inv now' m l"
  proof -
    have s: "starts_inv now m l" using assms(1) by (simp add: pairing_inv_def)
    have "filter (\<lambda>t. now' - 10 * Minute < t) (startTimes remote l)
          = filter (\<lambda>t. now' - 10 * Minute < t) (remoteStarts remote m)" for remote
      by (rule filter_later [where now = "now - 10 * Minute"]) (use s assms(2) in \<open>simp_all add: starts_inv_def\<close>)
    moreover have "t \<le> now'" if "t \<in> set (startTimes remote l)" for remote t
      using that s assms(2) unfolding starts_inv_def by (meson order_trans)
    ultimately show ?thesis using s unfolding starts_inv_def by blast
  qed
  moreover have "polls_inv now' m l"
    using assms by (auto simp: pairing_inv_def polls_inv_def polls_ok_def) (meson order_trans)
  ultimately show ?thesis using assms(1) by (simp add: pairing_inv_def)
qed

lemma pairing_inv_step: "pairing_step r r' \<Longrightarrow> pairing_inv r \<Longrightarrow> pairing_inv r'"
proof (induction rule: pairing_step.induct)
  case (tick now now' m l) then show ?case by (blast intro: inv_tick)
next
  case (start raw l now c remote m r m') then show ?case by (blast intro: inv_reserve)
next
  case (poll now k m r m' l) then show ?case by (blast intro: inv_beginPoll)
qed (simp_all only: inv_attach inv_active inv_lookup inv_finishPoll inv_needsProfile inv_removeLocked
       markFailed_removes pairingComplete_removes snd_conv)

interpretation pairing: transition_invariant pairing_start pairing_step pairing_inv
proof
  show "pairing_start r \<Longrightarrow> pairing_inv r" for r
    by (cases r) (auto simp: pairing_start_def pairing_inv_def attempts_inv_def cookies_inv_def starts_inv_def
        polls_inv_def polls_ok_def newPairingManager_def remoteStarts_def spaced_def)
qed (rule pairing_inv_step)


text \<open>
  Property C29. In every run at most four attempts are alive, at most one of them per pairing cookie,
  each in a state that fits its data and expiring ten minutes after its start; in any ten minutes at most three are
  started from one address; and an attempt is polled at most sixty times, at intervals of a second. The maps of the
  manager agree: the cookies that are remembered are exactly those of the attempts that are alive, each with its
  attempt, so an attempt that is gone keeps no browser out; and the starts that are remembered of an address are,
  within the last ten minutes, exactly those that were made from it.
\<close>

theorem pairing_limits:
  assumes "pairing_start r" "pairing_step\<^sup>*\<^sup>* r (now, m, l)"
  shows "length (pm_attempts m) \<le> maxPairings \<and>
    (\<forall>k a. map_of (pm_attempts m) k = Some a \<longrightarrow> attempt_ok now k a) \<and>
    (\<forall>k a k' a'. map_of (pm_attempts m) k = Some a \<and> map_of (pm_attempts m) k' = Some a' \<and>
       pa_cookieHash a = pa_cookieHash a' \<longrightarrow> k = k') \<and>
    (\<forall>remote t. length (filter (\<lambda>x. t - 10 * Minute < x \<and> x \<le> t) (startTimes remote l)) \<le> 3) \<and>
    (\<forall>k. length (pollTimes k l) \<le> maxPairingPolls \<and> spaced minPollInterval (pollTimes k l)) \<and>
    (\<forall>c k. map_of (pm_byCookie m) c = Some k \<longleftrightarrow> (\<exists>a. map_of (pm_attempts m) k = Some a \<and> pa_cookieHash a = c)) \<and>
    (\<forall>remote. filter (\<lambda>t. now - 10 * Minute < t) (remoteStarts remote m) = filter (\<lambda>t. now - 10 * Minute < t) (startTimes remote l))"
proof -
  have inv: "pairing_inv (now, m, l)" by (rule pairing.reachable_inv [OF assms])
  have bound: "length (pm_attempts m) \<le> maxPairings" using inv by (simp add: pairing_inv_def attempts_inv_def)
  have cookie: "k = k'" if "map_of (pm_attempts m) k = Some a" "map_of (pm_attempts m) k' = Some a'"
    "pa_cookieHash a = pa_cookieHash a'" for k a k' a'
    using that inv cookie_of_attempt [of m k a] cookie_of_attempt [of m k' a'] by (simp add: pairing_inv_def)
  have starts: "length (filter (\<lambda>x. t - 10 * Minute < x \<and> x \<le> t) (startTimes remote l)) \<le> 3" for remote t
    using inv by (simp add: pairing_inv_def starts_inv_def)
  have polls: "length (pollTimes k l) \<le> maxPairingPolls" "spaced minPollInterval (pollTimes k l)" for k
    using inv by (simp_all add: pairing_inv_def polls_inv_def polls_ok_def)
  have maps: "map_of (pm_byCookie m) c = Some k \<longleftrightarrow> (\<exists>a. map_of (pm_attempts m) k = Some a \<and> pa_cookieHash a = c)"
    "filter (\<lambda>t. now - 10 * Minute < t) (remoteStarts remote m) = filter (\<lambda>t. now - 10 * Minute < t) (startTimes remote l)" for c k remote
    using inv by (simp_all add: pairing_inv_def cookies_inv_def starts_inv_def)
  from bound inv_attempt_ok [OF inv] cookie starts polls maps show ?thesis by blast
qed

theorem pairing_limits_witness:
  "length (pm_attempts (snd (reserve 0 (Some ''abc'') ''c'' ''r'' newPairingManager))) \<le> maxPairings \<and>
   length (filter (\<lambda>x. 5 - 10 * Minute < x \<and> x \<le> 5) (startTimes ''r'' [Started ''r'' ''YWJj'' 0])) \<le> 3"
proof -
  have tok: "randomAuthToken (Some ''abc'') = Some ''YWJj''"
    by code_simp
  have start: "pairing_start (0, newPairingManager, [])"
    by (simp add: pairing_start_def zeroTime_def)
  have "reserve 0 (Some ''abc'') ''c'' ''r'' newPairingManager =
      (Inr (newAttempt ''YWJj'' ''c'' 0), snd (reserve 0 (Some ''abc'') ''c'' ''r'' newPairingManager))"
    by (simp add: reserve_def cleanupLocked_def newPairingManager_def cookieAttempt_def remoteStarts_def
          maxPairings_def tok Let_def)
  then have "pairing_step (0, newPairingManager, [])
      (0, snd (reserve 0 (Some ''abc'') ''c'' ''r'' newPairingManager), [] @ startLog ''r'' 0 (Inr (newAttempt ''YWJj'' ''c'' 0)))"
    by (intro pairing_step.start) (simp_all add: tok)
  then have "pairing_step (0, newPairingManager, [])
      (0, snd (reserve 0 (Some ''abc'') ''c'' ''r'' newPairingManager), [Started ''r'' ''YWJj'' 0])"
    by (simp add: startLog_def newAttempt_def)
  then show ?thesis using pairing_limits [OF start r_into_rtranclp] by blast
qed

end
