(* ===== verification/Admission_Contract.thy ===== *)
theory Admission_Contract
  imports Auth_Contract Pairing_Contract
begin

text \<open>
  Which requests are let through, and who is given a session.
\<close>

section \<open>Admission of a request\<close>

lemma lookup_cached:
  assumes "lookup sha now token a s = (Some session, a', s')"
  shows "map_of (ha_sessions a') token = Some session" "now < se_expiresAt session" "token \<noteq> ''''"
    "ha_principalID a' = ha_principalID a"
  using assms
  by (auto simp: lookup_def Let_def update_conv' split: if_splits option.splits sum.splits prod.splits)

lemma authenticateHuman_cases:
  assumes "authenticateHuman lb now r h = (Some who, h')"
  obtains a0 a session s s' where "hn_humanAuth h = Some a0" "rq_session r = Some (ap_cookie who)"
    "lookup (lb_sha lb) now (ap_cookie who) a0 (hn_store h) = (Some session, a, s)"
    "who = (humanPrincipal a)\<lparr>ap_csrfToken := se_csrf session, ap_cookie := ap_cookie who,
       ap_authMethod := se_authMethod session, ap_bindingRevision := se_bindingRevision session\<rparr>"
    "h' = h\<lparr>hn_humanAuth := Some a, hn_store := s'\<rparr>"
    "se_authMethod session = ''codex'' \<longrightarrow> \<not> hn_codexRevocationFailed h"
  using assms
  by (auto simp: authenticateHuman_def Let_def split: option.splits prod.splits if_splits)

lemma authenticateHuman_session:
  assumes "authenticateHuman lb now r h = (Some who, h')"
  shows "\<exists>a session. hn_humanAuth h' = Some a \<and> rq_session r = Some (ap_cookie who) \<and>
    map_of (ha_sessions a) (ap_cookie who) = Some session \<and> now < se_expiresAt session \<and>
    ap_csrfToken who = se_csrf session \<and> ap_Principal who = ha_principalID a \<and>
    (se_authMethod session = ''codex'' \<longrightarrow> \<not> hn_codexRevocationFailed h)"
    and "ap_Kind who = ''human''" "hn_config h' = hn_config h"
proof -
  obtain a0 a session s s' where c: "rq_session r = Some (ap_cookie who)"
    "lookup (lb_sha lb) now (ap_cookie who) a0 (hn_store h) = (Some session, a, s)"
    "who = (humanPrincipal a)\<lparr>ap_csrfToken := se_csrf session, ap_cookie := ap_cookie who,
       ap_authMethod := se_authMethod session, ap_bindingRevision := se_bindingRevision session\<rparr>"
    "h' = h\<lparr>hn_humanAuth := Some a, hn_store := s'\<rparr>"
    "se_authMethod session = ''codex'' \<longrightarrow> \<not> hn_codexRevocationFailed h"
    by (rule authenticateHuman_cases [OF assms])
  have "ap_csrfToken who = se_csrf session" "ap_Principal who = ha_principalID a" "ap_Kind who = ''human''"
    by (subst c(3), simp add: humanPrincipal_def)+
  then show "\<exists>a session. hn_humanAuth h' = Some a \<and> rq_session r = Some (ap_cookie who) \<and>
    map_of (ha_sessions a) (ap_cookie who) = Some session \<and> now < se_expiresAt session \<and>
    ap_csrfToken who = se_csrf session \<and> ap_Principal who = ha_principalID a \<and>
    (se_authMethod session = ''codex'' \<longrightarrow> \<not> hn_codexRevocationFailed h)"
    "ap_Kind who = ''human''" "hn_config h' = hn_config h"
    using c(1,4,5) lookup_cached [OF c(2)] by simp_all
qed

lemma requestID_frame: "requestID v h = (x, h') \<Longrightarrow> hn_config h' = hn_config h \<and> hn_humanAuth h' = hn_humanAuth h \<and>
   hn_codexRevocationFailed h' = hn_codexRevocationFailed h"
  by (auto simp: requestID_def Let_def split: if_splits)

lemma ServeHTTP_routed:
  assumes "ServeHTTP lb cl e r0 h0 = (Routed meta, h')"
  obtains r h who rid where "r = (if rq_Method r0 = ''HEAD'' then r0\<lparr>rq_Method := ''GET''\<rparr> else r0)"
    "requestID (rq_Header r ''X-Request-ID'') h0 = ((True, rid), h)" "authenticate lb (ae_now e) r h = (Some who, h')"
    "validIdempotencyKey (rq_Header r ''Idempotency-Key'')" "humanWriteRefused lb r who h' = None"
    "meta = \<lparr>mt_PrincipalKind = ap_Kind who, mt_Principal = ap_Principal who,
       mt_Actor = cr_Actor (ap_Credential who), mt_Session = cr_Session (ap_Credential who),
       mt_Host = cr_Host (ap_Credential who), mt_RequestID = rid, mt_IdempotencyKey = rq_Header r ''Idempotency-Key''\<rparr>"
proof -
  define r where "r = (if rq_Method r0 = ''HEAD'' then r0\<lparr>rq_Method := ''GET''\<rparr> else r0)"
  obtain ok rid h where q: "requestID (rq_Header r ''X-Request-ID'') h0 = ((ok, rid), h)" by (metis surj_pair)
  have "ok \<and> (\<exists>who. authenticate lb (ae_now e) r h = (Some who, h') \<and>
    validIdempotencyKey (rq_Header r ''Idempotency-Key'') \<and> humanWriteRefused lb r who h' = None \<and>
    meta = \<lparr>mt_PrincipalKind = ap_Kind who, mt_Principal = ap_Principal who,
       mt_Actor = cr_Actor (ap_Credential who), mt_Session = cr_Session (ap_Credential who),
       mt_Host = cr_Host (ap_Credential who), mt_RequestID = rid, mt_IdempotencyKey = rq_Header r ''Idempotency-Key''\<rparr>)"
    using assms unfolding ServeHTTP_def Let_def r_def [symmetric] q prod.case
    by (auto split: if_split_asm option.splits prod.splits)
  then show ?thesis using that [OF r_def] q by auto
qed

text \<open>
  Property C26. A request reaches the table of routes as that of an agent only with a configured credential, and as that
  of a human only with the cookie of a session that is cached and has not expired, not one opened with Codex after a
  revocation failed. Unless it only reads, it must besides go to one of the paths open to humans, come from the
  same origin, carry the CSRF token of the session, which is not empty, and name an idempotency key.
\<close>

theorem request_admitted:
  assumes "ServeHTTP lb cl e r h = (Routed meta, h')"
  shows "mt_PrincipalKind meta = ''agent'' \<and> (\<exists>c \<in> set (cf_Credentials (hn_config h)).
      credentialMatches r c \<and> mt_Principal meta = cr_Session c \<and> mt_Actor meta = cr_Actor c \<and> mt_Host meta = cr_Host c) \<or>
    mt_PrincipalKind meta = ''human'' \<and> (\<exists>a token session. hn_humanAuth h' = Some a \<and> mt_Principal meta = ha_principalID a \<and>
      rq_session r = Some token \<and> map_of (ha_sessions a) token = Some session \<and> ae_now e < se_expiresAt session \<and>
      (se_authMethod session = ''codex'' \<longrightarrow> \<not> hn_codexRevocationFailed h) \<and>
      (rq_Method r \<noteq> ''GET'' \<and> rq_Method r \<noteq> ''HEAD'' \<longrightarrow>
         isHumanWritePath (rq_Path r) \<and> sameOrigin lb r (cf_PublicOrigin (hn_config h)) \<and>
         mt_IdempotencyKey meta \<noteq> '''' \<and> validIdempotencyKey (mt_IdempotencyKey meta) \<and> se_csrf session \<noteq> '''' \<and>
         lb_sha lb (rq_Header r ''X-Commons-CSRF'') = lb_sha lb (se_csrf session)))"
proof -
  obtain r' h1 who rid where r': "r' = (if rq_Method r = ''HEAD'' then r\<lparr>rq_Method := ''GET''\<rparr> else r)"
    and q: "requestID (rq_Header r' ''X-Request-ID'') h = ((True, rid), h1)"
    and auth: "authenticate lb (ae_now e) r' h1 = (Some who, h')"
    and adm: "validIdempotencyKey (rq_Header r' ''Idempotency-Key'')" "humanWriteRefused lb r' who h' = None"
    and meta: "meta = \<lparr>mt_PrincipalKind = ap_Kind who, mt_Principal = ap_Principal who,
       mt_Actor = cr_Actor (ap_Credential who), mt_Session = cr_Session (ap_Credential who),
       mt_Host = cr_Host (ap_Credential who), mt_RequestID = rid, mt_IdempotencyKey = rq_Header r' ''Idempotency-Key''\<rparr>"
    by (rule ServeHTTP_routed [OF assms])
  note frame = requestID_frame [OF q]
  have same: "rq_Header r' = rq_Header r" "rq_session r' = rq_session r" "rq_Path r' = rq_Path r"
    "credentialMatches r' = credentialMatches r" "rq_Method r \<noteq> ''HEAD'' \<Longrightarrow> r' = r"
    by (auto simp: r' credentialMatches_def bearerToken_def fun_eq_iff)
  show ?thesis
  proof (cases "find (credentialMatches r') (cf_Credentials (hn_config h1))")
    case (Some c)
    then have "c \<in> set (cf_Credentials (hn_config h))" "credentialMatches r c"
      using find_SomeD [OF Some] frame same by auto
    moreover have "who = \<lparr>ap_Credential = c, ap_Kind = ''agent'', ap_Principal = cr_Session c, ap_csrfToken = '''',
                     ap_cookie = '''', ap_authMethod = '''', ap_bindingRevision = 0\<rparr>"
      using auth Some by (simp add: authenticate_def)
    ultimately show ?thesis by (auto simp: meta)
  next
    case None
    then have "authenticateHuman lb (ae_now e) r' h1 = (Some who, h')" using auth by (simp add: authenticate_def)
    note who = authenticateHuman_session [OF this]
    from who(1) obtain a session where s: "hn_humanAuth h' = Some a" "rq_session r = Some (ap_cookie who)"
      "map_of (ha_sessions a) (ap_cookie who) = Some session" "ae_now e < se_expiresAt session"
      "ap_csrfToken who = se_csrf session" "ap_Principal who = ha_principalID a"
      "se_authMethod session = ''codex'' \<longrightarrow> \<not> hn_codexRevocationFailed h"
      using same frame by auto
    have "isHumanWritePath (rq_Path r) \<and> sameOrigin lb r (cf_PublicOrigin (hn_config h)) \<and>
         mt_IdempotencyKey meta \<noteq> '''' \<and> validIdempotencyKey (mt_IdempotencyKey meta) \<and> se_csrf session \<noteq> '''' \<and>
         lb_sha lb (rq_Header r ''X-Commons-CSRF'') = lb_sha lb (se_csrf session)"
      if "rq_Method r \<noteq> ''GET''" "rq_Method r \<noteq> ''HEAD''"
      using adm that who(2,3) same frame s(5)
      by (simp add: meta humanWriteRefused_def constantTimeTokenEqual_def split: if_split_asm)
    then show ?thesis using s who(2) by (simp add: meta)
  qed
qed


section \<open>Who is given a session\<close>

text \<open>The response sets a session cookie that is not empty.\<close>

definition issues_session :: "effect list \<Rightarrow> bool" where
  "issues_session es = list_ex (\<lambda>x. case x of SetHumanCookie token _ _ _ \<Rightarrow> token \<noteq> [] | _ \<Rightarrow> False) es"

lemma issues_session_simps [simp]:
  "issues_session [] = False" "issues_session (Write k p # es) = issues_session es" "issues_session (RetryAfter z # es) = issues_session es"
  "issues_session (CancelLogin x # es) = issues_session es"
  "issues_session (xs @ ys) \<longleftrightarrow> issues_session xs \<or> issues_session ys" "\<not> issues_session (writeError n code)"
  "\<not> issues_session (writeCooldownError now code retry)" "\<not> issues_session (pollAnswer st code y)"
  "\<not> issues_session (clearPairingCookie lb r orig)" "\<not> issues_session (setPairingCookie lb r orig v y)"
  "\<not> issues_session (setHumanCookie lb r orig '''' t y)" "\<not> issues_session (identityUpdated b h)" "\<not> issues_session (fst (decode r))"
  by (auto simp: issues_session_def writeError_def writeCooldownError_def pollAnswer_def clearPairingCookie_def setPairingCookie_def
      setHumanCookie_def identityUpdated_def decode_def Let_def split: option.splits decode_error.splits)

lemma decode_refuses: "decode r = (x, y) \<Longrightarrow> \<not> issues_session x"
  using issues_session_simps(13) [of r] by simp

lemma decode_value: "decode r = ([], y) \<Longrightarrow> y = rq_Body r"
  by (auto simp: decode_def writeError_def split: if_splits)

lemma openSession_keeps:
  assumes "openSession lb e i m k r clear a h = (es, h')"
  shows "hn_pairings h' = hn_pairings h" "hn_config h' = hn_config h"
  using assms by (auto simp: openSession_def split: option.splits prod.splits)

text \<open>Login: the secret was right and the request came from the same origin.\<close>

lemma login_issues:
  assumes "login lb e r h = (es, h')" "issues_session es"
  shows "\<exists>a. hn_humanAuth h = Some a \<and> verifySecret (lb_sha lb) a (rb_Secret (rq_Body r)) \<and>
    sameOrigin lb r (cf_PublicOrigin (hn_config h))"
proof (cases "hn_humanAuth h")
  case None
  then show ?thesis using assms by (auto simp: login_def)
next
  case (Some a)
  obtain limited retry a' where rl: "rateLimited (ae_now e) a = ((limited, retry), a')" by (metis surj_pair)
  have keep: "verifySecret (lb_sha lb) a' v = verifySecret (lb_sha lb) a v" for v
    using rl by (auto simp: rateLimited_def verifySecret_def Let_def split: if_splits)
  obtain refused input where d: "decode r = (refused, input)" by fastforce
  have "\<not> issues_session refused" by (rule decode_refuses [OF d])
  moreover have "refused = [] \<Longrightarrow> input = rq_Body r" using d decode_value by simp
  ultimately show ?thesis
    using assms Some unfolding login_def by (auto simp: Let_def rl d keep split: if_split_asm)
qed


text \<open>Poll: Codex reports the account the installation is bound to, and the attempt is used up.\<close>

definition attemptOf :: "lib \<Rightarrow> http_request \<Rightarrow> time \<Rightarrow> pairingManager \<Rightarrow> pairingAttempt \<Rightarrow> bool" where
  "attemptOf lb r now m attempt \<longleftrightarrow> map_of (pm_attempts m) (rb_AttemptID (rq_Body r)) = Some attempt \<and> now < pa_expiresAt attempt \<and>
     (case pairingCookieValue r of None \<Rightarrow> False | Some v \<Rightarrow> pa_cookieHash attempt = lb_sha lb v)"

lemma pairingLookup_found:
  assumes "pairingLookup now k c m = (Some (attempt, False), m')"
  shows "m' = m" "map_of (pm_attempts m) k = Some attempt" "pa_cookieHash attempt = c" "now < pa_expiresAt attempt"
  using assms by (auto simp: pairingLookup_def split: option.splits if_splits)

lemma codexPollBegin_cases:
  assumes "codexPollBegin lb e r h = (x, h1)"
  shows "case x of Inl es \<Rightarrow> \<not> issues_session es
    | Inr _ \<Rightarrow> (\<exists>attempt m. attemptOf lb r (ae_now e) (hn_pairings h) attempt \<and> pa_state attempt = pairingWaiting \<and>
                 h1 = h\<lparr>hn_pairings := m\<rparr>)"
proof -
  obtain refused input where d: "decode r = (refused, input)" by fastforce
  have no: "\<not> issues_session refused" by (rule decode_refuses [OF d])
  have input: "refused = [] \<Longrightarrow> input = rq_Body r" using d decode_value by simp
  show ?thesis
  proof (cases "pairingCookieValue r")
    case None
    then show ?thesis using assms no by (auto simp: codexPollBegin_def d Let_def split: if_split_asm)
  next
    case (Some v)
    obtain found m where f: "pairingLookup (ae_now e) (rb_AttemptID input) (lb_sha lb v) (hn_pairings h) = (found, m)" by fastforce
    obtain y m' where b: "beginPoll (ae_now e) (rb_AttemptID input) m = (y, m')" by fastforce
    show ?thesis
    proof (cases x)
      case (Inl es)
      then show ?thesis
        using assms no Some f b
        by (auto simp: codexPollBegin_def d Let_def split: if_split_asm option.splits prod.splits sum.splits pollError.splits)
    next
      case (Inr l)
      obtain attempt where "found = Some (attempt, False)" "pa_state attempt = pairingWaiting" "refused = []" "h1 = h\<lparr>hn_pairings := m'\<rparr>"
        using assms Some f b Inr
        by (auto simp: codexPollBegin_def d Let_def split: if_split_asm option.splits prod.splits sum.splits pollError.splits)
      then show ?thesis
        using pairingLookup_found [of "ae_now e" "rb_AttemptID input" "lb_sha lb v" "hn_pairings h" attempt m] f input Some Inr
        by (auto simp: attemptOf_def)
    qed
  qed
qed

lemma failPairing_issues [simp]: "failPairing lb r k code answer h = (es, h') \<Longrightarrow> issues_session es = issues_session answer"
  by (auto simp: failPairing_def)

lemma removed_attempt: "map_of (pm_attempts (finishPoll k (snd (removeLocked k m)))) k = None"
proof -
  have "map_of (pm_attempts (snd (removeLocked k m))) k = None"
    by (auto simp: removeLocked_def delete_conv' split: option.splits)
  then show ?thesis by (simp add: finishPoll_def)
qed

lemma codexPollFinish_issues:
  assumes "codexPollFinish lb polled e r h = (es, h')" "issues_session es"
    "cf_HumanBindingStore (hn_config h) = Some (bindingStore sha u)"
  shows "\<exists>c v email b. codexConfig h = Some c \<and> polled = Inr v \<and> bindableEmail v = Some email \<and> hd_binding (hn_store h) = Some b \<and>
    bi_ProviderSubjectDigest b = subjectDigest lb c email \<and> map_of (pm_attempts (hn_pairings h')) (rb_AttemptID (rq_Body r)) = None"
proof -
  let ?k = "rb_AttemptID (rq_Body r)"
  obtain c a where ca: "codexConfig h = Some c" "hn_humanAuth h = Some a"
    using assms(1,2) by (auto simp: codexPollFinish_def split: option.splits)
  obtain h1 where ans: "codexPollAnswer lb polled e r c a ?k h = (es, h1)"
    and h': "h' = h1\<lparr>hn_pairings := finishPoll ?k (hn_pairings h1)\<rparr>"
    using assms(1) ca by (auto simp: codexPollFinish_def Let_def split: prod.splits)
  have bind: "binding h = (GetHumanAccountBinding (hn_store h), h)"
    using assms(3) by (simp add: binding_def bindingStore_def)
  obtain v where v: "polled = Inr v"
    using ans assms(2) by (cases polled) (auto simp: codexPollAnswer_def)
  obtain email where email: "bindableEmail v = Some email"
    using ans assms(2) v by (cases "bindableEmail v") (auto simp: codexPollAnswer_def split: if_split_asm)
  show ?thesis
  proof (cases "GetHumanAccountBinding (hn_store h)")
    case (Inl err)
    then show ?thesis
      using ans assms(2) v email bind
      by (auto simp: codexPollAnswer_def Let_def split: if_split_asm prod.splits sum.splits)
  next
    case (Inr b)
    then have b: "hd_binding (hn_store h) = Some b"
      by (simp add: GetHumanAccountBinding_def someE_def split: option.splits)
    have "bi_ProviderSubjectDigest b = subjectDigest lb c email \<and>
      openSession lb e 0 ''codex'' (bi_Revision b) r (clearPairingCookie lb r (cf_PublicOrigin (hn_config h))) a
        (h\<lparr>hn_pairings := snd (removeLocked ?k (hn_pairings h))\<rparr>) = (es, h1)"
      using ans assms(2) v email bind Inr
      by (auto simp: codexPollAnswer_def Let_def pairingComplete_removes split: if_split_asm)
    then show ?thesis
      using ca(1) v email b openSession_keeps(1) [of lb e 0 "''codex''"] removed_attempt by (fastforce simp: h')
  qed
qed


text \<open>Profile: the attempt of the browser had been confirmed, and its account is the one now bound.\<close>

lemma bind_result:
  assumes "BindHumanAccount u e q s = (Inr b, s')"
  shows "hd_binding s' = Some b \<and> bi_ProviderSubjectDigest b = bq_ProviderSubjectDigest q"
  using assms
  by (auto simp: BindHumanAccount_def Let_def GetHumanAccountBinding_def sqlInsertHumanEvent_def checked_def mapErrE_def
      split: option.splits sum.splits if_splits)

lemma codexProfile_issues:
  assumes "codexProfile lb e r h = (es, h')" "issues_session es"
    "cf_HumanBindingStore (hn_config h) = Some (bindingStore sha u)"
  shows "\<exists>attempt b s. attemptOf lb r (ae_now e) (hn_pairings h) attempt \<and> pa_state attempt = pairingNeedsProfile \<and> pa_hasDigest attempt \<and>
    BindHumanAccount u (ae_env e) \<lparr>bq_ProviderSubjectDigest = pa_digest attempt, bq_DisplayName = TrimSpace (rb_DisplayName (rq_Body r)),
      bq_Handle = ToLower (lb_lower lb) (TrimSpace (rb_Handle (rq_Body r)))\<rparr> (hn_store h) = (Inr b, s) \<and>
    bi_ProviderSubjectDigest b = pa_digest attempt \<and> map_of (pm_attempts (hn_pairings h')) (rb_AttemptID (rq_Body r)) = None"
proof -
  obtain c a where ca: "codexConfig h = Some c" "hn_humanAuth h = Some a"
    using assms(1,2) by (auto simp: codexProfile_def split: option.splits)
  obtain refused input where d: "decode r = (refused, input)" by fastforce
  have no: "\<not> issues_session refused" by (rule decode_refuses [OF d])
  then have ok: "refused = []" "rb_AttemptID input \<noteq> ''''"
    using assms(1,2) ca by (auto simp: codexProfile_def d Let_def split: if_split_asm)
  then have input: "input = rq_Body r" using d decode_value by simp
  let ?k = "rb_AttemptID (rq_Body r)"
  obtain v where v: "pairingCookieValue r = Some v"
    using assms(1,2) ca no by (cases "pairingCookieValue r") (auto simp: codexProfile_def d Let_def split: if_split_asm)
  obtain found m where f: "pairingLookup (ae_now e) ?k (lb_sha lb v) (hn_pairings h) = (found, m)" by fastforce
  obtain attempt where at: "found = Some (attempt, False)" "pa_state attempt = pairingNeedsProfile" "pa_hasDigest attempt"
    using assms(1,2) ca no v f ok
    by (cases found) (auto simp: codexProfile_def d Let_def input split: if_split_asm)
  have look: "m = hn_pairings h" "attemptOf lb r (ae_now e) (hn_pairings h) attempt"
    using pairingLookup_found f at(1) v by (auto simp: attemptOf_def)
  define q where "q = \<lparr>bq_ProviderSubjectDigest = pa_digest attempt, bq_DisplayName = TrimSpace (rb_DisplayName (rq_Body r)),
      bq_Handle = ToLower (lb_lower lb) (TrimSpace (rb_Handle (rq_Body r)))\<rparr>"
  obtain res s where bind: "BindHumanAccount u (ae_env e) q (hn_store h) = (res, s)" by fastforce
  have st: "bn_Bind (bindingStore sha u) = BindHumanAccount u" by (simp add: bindingStore_def)
  obtain b where b: "res = Inr b"
    using assms ca no v f ok at bind
    by (cases res) (auto simp: codexProfile_def d Let_def input st q_def [symmetric] split: if_split_asm)
  obtain err a' s' where upd: "updateIdentity (bi_DisplayName b) (bi_Handle b) (bi_Revision b) a s = (err, a', s')"
    by (metis surj_pair)
  have "\<exists>clear es' h1. openSession lb e 0 ''codex'' (bi_Revision b) r clear a'
      (h\<lparr>hn_pairings := snd (removeLocked ?k (hn_pairings h)), hn_humanAuth := Some a', hn_store := s'\<rparr>) = (es', h1) \<and> h' = h1"
    using assms ca no v f ok at bind b upd look(1)
    by (cases err) (auto simp: codexProfile_def d Let_def input st q_def [symmetric] pairingComplete_removes split: if_split_asm prod.splits)
  then have "hn_pairings h' = snd (removeLocked ?k (hn_pairings h))" using openSession_keeps(1) by fastforce
  then have "map_of (pm_attempts (hn_pairings h')) ?k = None"
    by (auto simp: removeLocked_def delete_conv' split: option.splits)
  moreover have "bi_ProviderSubjectDigest b = pa_digest attempt" using bind_result bind b q_def by fastforce
  ultimately show ?thesis using look(2) at(2,3) bind b q_def by blast
qed

text \<open>The other handlers give no session.\<close>

lemma no_issue:
  "\<not> issues_session (fst (authSession lb e r h))" "\<not> issues_session (fst (codexStatus lb av acc r h))"
  "\<not> issues_session (fst (logout lb e r h))" "\<not> issues_session (fst (codexCancel lb e r h))"
  using decode_refuses [of r]
  by (auto simp: authSession_def codexStatus_def logout_def codexCancel_def Let_def split: option.splits prod.splits sum.splits)


lemma codexStart_no_issue: "\<not> issues_session (fst (codexStart lb av device e r h))"
proof -
  obtain x h1 where b: "codexStartBegin lb av e r h = (x, h1)" by fastforce
  have "\<not> issues_session es" if "x = Inl es" for es
    using b that decode_refuses [of r] unfolding codexStartBegin_def
    by (auto simp: Let_def split: if_split_asm prod.splits sum.splits bool.splits option.splits pairingError.splits)
  moreover have "\<not> issues_session (fst (codexStartFinish lb device r p h1))" for p
    by (auto simp: codexStartFinish_def Let_def split: prod.splits sum.splits)
  ultimately show ?thesis by (auto simp: codexStart_def b split: sum.splits)
qed

lemma updateProfile_no_issue: "\<not> issues_session (fst (updateProfile lb e r h))"
proof -
  obtain x h1 where a: "authenticateHuman lb (ae_now e) r h = (x, h1)" by fastforce
  obtain refused input where d: "decode r = (refused, input)" by fastforce
  have "\<not> issues_session refused" by (rule decode_refuses [OF d])
  then show ?thesis
    by (auto simp: updateProfile_def a d Let_def split: option.splits prod.splits sum.splits)
qed

lemma codexPoll_issues:
  assumes "codexPoll lb polled e r h = (es, h')" "issues_session es"
    "cf_HumanBindingStore (hn_config h) = Some (bindingStore sha u)"
  shows "\<exists>attempt c v email b. attemptOf lb r (ae_now e) (hn_pairings h) attempt \<and> pa_state attempt = pairingWaiting \<and> codexConfig h = Some c \<and>
    polled = Inr v \<and> bindableEmail v = Some email \<and> hd_binding (hn_store h) = Some b \<and>
    bi_ProviderSubjectDigest b = subjectDigest lb c email \<and> map_of (pm_attempts (hn_pairings h')) (rb_AttemptID (rq_Body r)) = None"
proof -
  obtain x h1 where b: "codexPollBegin lb e r h = (x, h1)" by fastforce
  note first = codexPollBegin_cases [OF b]
  obtain l where x: "x = Inr l" using first assms(1,2) b by (cases x) (auto simp: codexPoll_def)
  then obtain attempt m where at: "attemptOf lb r (ae_now e) (hn_pairings h) attempt" "pa_state attempt = pairingWaiting"
    and h1: "h1 = h\<lparr>hn_pairings := m\<rparr>" using first by auto
  have fin: "codexPollFinish lb polled e r h1 = (es, h')" using assms(1) b x by (simp add: codexPoll_def)
  have eqs: "codexConfig h1 = codexConfig h" "cf_HumanBindingStore (hn_config h1) = Some (bindingStore sha u)"
    "hn_store h1 = hn_store h"
    using assms(3) by (simp_all add: h1 codexConfig_def split: option.split)
  show ?thesis
    using codexPollFinish_issues [OF fin assms(2) eqs(2)] at unfolding eqs(1,3) by blast
qed

lemma authRoute_issues:
  assumes "authRoute lb cl e r h = Some p"
  shows "rq_Path r = ''/v1/auth/login'' \<and> p = login lb e r h \<or>
    rq_Path r = ''/v1/auth/codex/poll'' \<and> p = codexPoll lb (cl_polled cl) e r h \<or>
    rq_Path r = ''/v1/auth/codex/profile'' \<and> p = codexProfile lb e r h \<or> \<not> issues_session (fst p)"
  using assms unfolding authRoute_def Let_def
  by (simp split: if_split_asm) (hypsubst, simp add: no_issue codexStart_no_issue updateProfile_no_issue)+

text \<open>
  Property C25. A route below /v1/auth/ gives a session in three cases only: to a login with the right recovery
  secret from the same origin; to a poll of a live attempt by the browser that started it, when Codex reports the account
  that the installation is bound to; and to a profile for such an attempt, when the account Codex had reported is the one
  that the installation is bound to from then on. The attempt can be used for no second session.
\<close>

theorem session_only_for_owner:
  fixes h :: "human_db handler"
  assumes "authRoute lb cl e r h = Some (es, h')" "issues_session es"
    and "cf_HumanBindingStore (hn_config h) = Some (bindingStore sha u)"
  shows "rq_Path r = ''/v1/auth/login'' \<and> sameOrigin lb r (cf_PublicOrigin (hn_config h)) \<and>
      (\<exists>a. hn_humanAuth h = Some a \<and> verifySecret (lb_sha lb) a (rb_Secret (rq_Body r))) \<or>
    rq_Path r = ''/v1/auth/codex/poll'' \<and> map_of (pm_attempts (hn_pairings h')) (rb_AttemptID (rq_Body r)) = None \<and>
      (\<exists>attempt c v email b. attemptOf lb r (ae_now e) (hn_pairings h) attempt \<and> pa_state attempt = pairingWaiting \<and> codexConfig h = Some c \<and>
         cl_polled cl = Inr v \<and> bindableEmail v = Some email \<and> hd_binding (hn_store h) = Some b \<and>
         bi_ProviderSubjectDigest b = subjectDigest lb c email) \<or>
    rq_Path r = ''/v1/auth/codex/profile'' \<and> map_of (pm_attempts (hn_pairings h')) (rb_AttemptID (rq_Body r)) = None \<and>
      (\<exists>attempt b s. attemptOf lb r (ae_now e) (hn_pairings h) attempt \<and> pa_state attempt = pairingNeedsProfile \<and> pa_hasDigest attempt \<and>
         BindHumanAccount u (ae_env e) \<lparr>bq_ProviderSubjectDigest = pa_digest attempt, bq_DisplayName = TrimSpace (rb_DisplayName (rq_Body r)),
           bq_Handle = ToLower (lb_lower lb) (TrimSpace (rb_Handle (rq_Body r)))\<rparr> (hn_store h) = (Inr b, s) \<and>
         bi_ProviderSubjectDigest b = pa_digest attempt)"
proof -
  consider "rq_Path r = ''/v1/auth/login''" "login lb e r h = (es, h')"
    | "rq_Path r = ''/v1/auth/codex/poll''" "codexPoll lb (cl_polled cl) e r h = (es, h')"
    | "rq_Path r = ''/v1/auth/codex/profile''" "codexProfile lb e r h = (es, h')"
    using authRoute_issues [OF assms(1)] assms(2) by auto
  then show ?thesis
  proof cases
    case 1
    then show ?thesis using login_issues [OF 1(2) assms(2)] by blast
  next
    case 2
    then show ?thesis using codexPoll_issues [OF 2(2) assms(2,3)] by blast
  next
    case 3
    then show ?thesis using codexProfile_issues [OF 3(2) assms(2,3)] by blast
  qed
qed

end
