(* ===== verification/Login_Contract.thy ===== *)
theory Login_Contract
  imports Auth_Contract
begin

text \<open>
  The limit on failed logins, and the agreement of the two checks of a profile.
\<close>

section \<open>Failed logins\<close>

text \<open>A sequence of logins, and the times at which a secret was checked and refused.\<close>

fun logins :: "lib \<Rightarrow> (auth_env \<times> http_request) list \<Rightarrow> 'st handler \<Rightarrow> time list \<times> 'st handler" where
  "logins lb [] h = ([], h)"
| "logins lb ((e, r) # rest) h =
     (let (es, h1) = login lb e r h; (ts, h2) = logins lb rest h1 in
      ((if Write 401 (ErrorPayload ''unauthorized'') \<in> set es then [ae_later e] else []) @ ts, h2))"

fun in_sequence :: "time \<Rightarrow> (auth_env \<times> http_request) list \<Rightarrow> bool" where
  "in_sequence t [] \<longleftrightarrow> True"
| "in_sequence t ((e, r) # rest) \<longleftrightarrow> t \<le> ae_now e \<and> ae_now e \<le> ae_later e \<and> in_sequence (ae_later e) rest"

definition failures_inv :: "time \<Rightarrow> time list \<Rightarrow> time list \<Rightarrow> bool" where
  "failures_inv now ts fs \<longleftrightarrow>
     sorted ts \<and> (\<forall>t \<in> set ts. t \<le> now) \<and>
     (\<exists>before. ts = before @ fs \<and> (length fs < 5 \<longrightarrow> (\<forall>t \<in> set before. t + Minute \<le> now))) \<and>
     (\<forall>i. i + 5 < length ts \<longrightarrow> ts ! i + Minute \<le> ts ! (i + 5))"

lemma sorted_filter_suffix:
  fixes fs :: "int list"
  assumes "sorted fs"
  shows "\<exists>old. fs = old @ filter (\<lambda>f. c < f) fs \<and> (\<forall>t \<in> set old. t \<le> c)"
  using assms
proof (induction fs)
  case (Cons x xs)
  show ?case
  proof (cases "c < x")
    case True
    then have "filter (\<lambda>f. c < f) (x # xs) = x # xs" using Cons.prems by (intro filter_True) auto
    then show ?thesis by (intro exI [of _ "[]"]) simp
  next
    case False
    obtain old where old: "xs = old @ filter (\<lambda>f. c < f) xs" "\<forall>t \<in> set old. t \<le> c"
      using Cons by auto
    then show ?thesis using False by (intro exI [of _ "x # old"]) auto
  qed
qed simp

lemma failures_inv_later:
  assumes "failures_inv now ts fs" "now \<le> now'"
  shows "failures_inv now' ts fs"
proof -
  obtain before where "ts = before @ fs" "length fs < 5 \<longrightarrow> (\<forall>t \<in> set before. t + Minute \<le> now)"
    using assms(1) by (auto simp: failures_inv_def)
  then have "\<exists>before. ts = before @ fs \<and> (length fs < 5 \<longrightarrow> (\<forall>t \<in> set before. t + Minute \<le> now'))"
    using assms(2) by (intro exI [of _ before]) force
  then show ?thesis using assms unfolding failures_inv_def by force
qed

lemma failures_inv_kept:
  assumes "failures_inv now ts fs"
  shows "failures_inv now ts (filter (\<lambda>f. now - Minute < f) fs)"
proof -
  obtain before where b: "ts = before @ fs" "length fs < 5 \<Longrightarrow> \<forall>t \<in> set before. t + Minute \<le> now"
    and sorted: "sorted ts" using assms by (auto simp: failures_inv_def)
  then obtain old where old: "fs = old @ filter (\<lambda>f. now - Minute < f) fs" "\<forall>t \<in> set old. t \<le> now - Minute"
    using sorted_filter_suffix [of fs "now - Minute"] by (auto simp: sorted_append)
  have "t + Minute \<le> now" if "length (filter (\<lambda>f. now - Minute < f) fs) < 5" "t \<in> set (before @ old)" for t
  proof (cases "old = []")
    case True
    then show ?thesis using that b(2) old(1) by simp
  next
    case False
    then have "hd old \<in> set old" "hd old \<in> set fs" using old(1) by (auto simp: hd_append intro: hd_in_set) (metis UnI1 hd_in_set set_append)
    then have "t \<le> hd old \<or> t \<in> set old" using that(2) b(1) sorted by (auto simp: sorted_append)
    then show ?thesis using old(2) \<open>hd old \<in> set old\<close> by force
  qed
  moreover have "ts = (before @ old) @ filter (\<lambda>f. now - Minute < f) fs" using b(1) old(1) by simp
  ultimately show ?thesis using assms unfolding failures_inv_def by blast
qed

lemma failures_inv_fail:
  assumes inv: "failures_inv now ts fs" and few: "length fs < 5" and later: "now \<le> later"
  shows "failures_inv later (ts @ [later]) (fs @ [later])"
proof -
  obtain before where b: "ts = before @ fs" "\<forall>t \<in> set before. t + Minute \<le> now"
    and sorted: "sorted ts" "\<forall>t \<in> set ts. t \<le> now"
    and apart: "\<And>i. i + 5 < length ts \<Longrightarrow> ts ! i + Minute \<le> ts ! (i + 5)"
    using inv few by (auto simp: failures_inv_def)
  have "(ts @ [later]) ! i + Minute \<le> (ts @ [later]) ! (i + 5)" if i: "i + 5 < length (ts @ [later])" for i
  proof (cases "i + 5 < length ts")
    case False
    then have "i + 5 = length ts" using i by simp
    moreover have "ts ! i \<in> set before" using calculation few b(1) by (auto simp: nth_append)
    ultimately show ?thesis using b(2) later by (auto simp: nth_append)
  qed (use apart in \<open>auto simp: nth_append\<close>)
  moreover have "\<forall>t \<in> set before. t + Minute \<le> later" using b(2) later by force
  moreover have "sorted (ts @ [later])" "\<forall>t \<in> set (ts @ [later]). t \<le> later"
    using sorted later by (force simp: sorted_append)+
  moreover have "ts @ [later] = before @ fs @ [later]" using b(1) by simp
  ultimately show ?thesis unfolding failures_inv_def by blast
qed

lemma login_failures:
  assumes "hn_humanAuth h = Some a" "\<not> verifySecret (lb_sha lb) a (rb_Secret (rq_Body r))" "login lb e r h = (es, h')"
  obtains a' where "hn_humanAuth h' = Some a'" "ha_secretDigest a' = ha_secretDigest a" "ha_recoveryEnabled a' = ha_recoveryEnabled a"
    "if Write 401 (ErrorPayload ''unauthorized'') \<in> set es
     then length (filter (\<lambda>f. ae_now e - Minute < f) (ha_failures a)) < 5 \<and>
       ha_failures a' = filter (\<lambda>f. ae_now e - Minute < f) (ha_failures a) @ [ae_later e]
     else ha_failures a' = ha_failures a \<or> ha_failures a' = filter (\<lambda>f. ae_now e - Minute < f) (ha_failures a)"
proof -
  have "\<not> verifySecret (lb_sha lb) (a\<lparr>ha_failures := fs\<rparr>) (rb_Secret (rq_Body r))" for fs
    using assms(2) by (simp add: verifySecret_def)
  then show ?thesis
    using assms(1,3) that unfolding login_def
    by (auto simp: rateLimited_def recordFailure_def decode_def writeError_def zeroBody_def Let_def
        split: if_splits option.splits decode_error.splits)
qed


lemma logins_inv:
  assumes "hn_humanAuth h = Some a" "\<forall>r \<in> snd ` set rs. \<not> verifySecret (lb_sha lb) a (rb_Secret (rq_Body r))"
    and "failures_inv now ts (ha_failures a)" "in_sequence now rs" "logins lb rs h = (ts', h')"
  shows "\<exists>now' fs. failures_inv now' (ts @ ts') fs"
  using assms
proof (induction rs arbitrary: h a now ts ts' h')
  case Nil
  then show ?case by auto
next
  case (Cons er rs)
  obtain e r where er: "er = (e, r)" by fastforce
  obtain es h1 where l: "login lb e r h = (es, h1)" by fastforce
  obtain ts2 h2 where rest: "logins lb rs h1 = (ts2, h2)" by fastforce
  have ts': "ts' = (if Write 401 (ErrorPayload ''unauthorized'') \<in> set es then [ae_later e] else []) @ ts2"
    using Cons.prems(5) by (simp add: er l rest)
  have seq: "now \<le> ae_now e" "ae_now e \<le> ae_later e" "in_sequence (ae_later e) rs"
    using Cons.prems(4) by (simp_all add: er)
  have wrong: "\<not> verifySecret (lb_sha lb) a (rb_Secret (rq_Body r))" using Cons.prems(2) er by auto
  let ?kept = "filter (\<lambda>f. ae_now e - Minute < f) (ha_failures a)"
  obtain a1 where a1: "hn_humanAuth h1 = Some a1" "ha_secretDigest a1 = ha_secretDigest a"
      "ha_recoveryEnabled a1 = ha_recoveryEnabled a"
    and fs: "if Write 401 (ErrorPayload ''unauthorized'') \<in> set es
     then length ?kept < 5 \<and> ha_failures a1 = ?kept @ [ae_later e]
     else ha_failures a1 = ha_failures a \<or> ha_failures a1 = ?kept"
    using login_failures [OF Cons.prems(1) wrong l] .
  have i1: "failures_inv (ae_now e) ts (ha_failures a)" by (rule failures_inv_later [OF Cons.prems(3) seq(1)])
  note i2 = failures_inv_kept [OF i1]
  have still: "\<forall>r \<in> snd ` set rs. \<not> verifySecret (lb_sha lb) a1 (rb_Secret (rq_Body r))"
    using Cons.prems(2) a1(2,3) by (auto simp: verifySecret_def)
  show ?case
  proof (cases "Write 401 (ErrorPayload ''unauthorized'') \<in> set es")
    case True
    then have "failures_inv (ae_later e) (ts @ [ae_later e]) (ha_failures a1)"
      using failures_inv_fail [OF i2 _ seq(2)] fs by simp
    from Cons.IH [OF a1(1) still this seq(3) rest] show ?thesis using True by (simp add: ts')
  next
    case False
    then have "failures_inv (ae_later e) ts (ha_failures a1)"
      using failures_inv_later [OF i1 seq(2)] failures_inv_later [OF i2 seq(2)] fs by auto
    from Cons.IH [OF a1(1) still this seq(3) rest] show ?thesis using False by (simp add: ts')
  qed
qed

text \<open>
  Property C28. Of logins served one after the other, none of them with the right secret, any six that are refused
  for the secret are spread over at least a minute. A login that succeeds clears the record of failures; logins that
  are served at the same time are not covered, since the limit is tested before the body is read.
\<close>

theorem login_rate_limited:
  assumes "hn_humanAuth h = Some a" "ha_failures a = []" "in_sequence now rs"
    and "\<forall>r \<in> snd ` set rs. \<not> verifySecret (lb_sha lb) a (rb_Secret (rq_Body r))"
    and "logins lb rs h = (ts, h')" "i + 5 < length ts"
  shows "ts ! i + Minute \<le> ts ! (i + 5)"
proof -
  have "failures_inv now [] (ha_failures a)" using assms(2) by (simp add: failures_inv_def)
  from logins_inv [OF assms(1,4) this assms(3,5)] show ?thesis using assms(6) by (auto simp: failures_inv_def)
qed

end
