(* ===== verification/Profile_Contract.thy ===== *)
theory Profile_Contract
  imports Auth_Handlers
begin

section \<open>The two checks of a profile\<close>

lemma trim_left_shorter: "length (trim_left s) \<le> length s"
  by (induction s rule: trim_left.induct) (auto intro: le_SucI)

lemma trim_left_idem: "trim_left (trim_left s) = trim_left s"
  by (induction s rule: trim_left.induct) auto

lemma trim_right_rev_idem: "trim_right_rev (trim_right_rev s) = trim_right_rev s"
  by (induction s rule: trim_right_rev.induct) auto

lemma trim_right_rev_suffix: "\<exists>p. s = p @ trim_right_rev s"
  by (induction s rule: trim_right_rev.induct) (auto, (metis append_Cons)+)

lemma trim_left_Cons: "trim_left s = s \<Longrightarrow> s = a # t \<Longrightarrow> \<not> space1 a"
  by (cases s rule: trim_left.cases) (auto split: if_splits, (metis Suc_n_not_le_n length_Cons trim_left_shorter)+)

lemma trim_left_take:
  assumes "trim_left s = s"
  shows "trim_left (take n s) = take n s"
proof (cases s rule: trim_left.cases)
  case (1 a b c t)
  have not: "\<not> space1 a" "\<not> space2 a b" "\<not> space3 a b c"
    using assms trim_left_shorter [of "c # t"] trim_left_shorter [of t] trim_left_Cons [OF assms 1] by (auto simp: 1 split: if_splits)
  consider "n = 0" | "n = 1" | "n = 2" | k where "n = Suc (Suc (Suc k))"
    by (metis One_nat_def not0_implies_Suc numeral_2_eq_2)
  then show ?thesis using not by cases (auto simp: 1 numeral_2_eq_2)
next
  case (2 a b)
  have "\<not> space1 a" "\<not> space2 a b"
    using assms trim_left_Cons [OF assms 2] by (auto simp: 2 split: if_splits)
  then show ?thesis by (cases n; cases "n - 1") (auto simp: 2 take_Cons')
next
  case (3 a)
  then show ?thesis using assms by (cases n) auto
qed auto

lemma TrimSpace_idem: "TrimSpace (TrimSpace s) = TrimSpace s"
proof -
  let ?x = "trim_left s" and ?y = "TrimSpace s"
  have y: "rev ?y = trim_right_rev (rev ?x)" by (simp add: TrimSpace_def)
  obtain p where "rev ?x = p @ rev ?y" using trim_right_rev_suffix [of "rev ?x"] y by auto
  then have "?x = ?y @ rev p" by (metis rev_append rev_rev_ident)
  then have "?y = take (length ?y) ?x" by simp
  then have "trim_left ?y = ?y" by (metis trim_left_idem trim_left_take)
  moreover have "trim_right_rev (rev ?y) = rev ?y" by (simp add: y trim_right_rev_idem)
  ultimately show ?thesis by (subst TrimSpace_def) simp
qed

lemma handle_pattern_iff:
  assumes "3 \<le> length h" "length h \<le> 64"
  shows "humanHandlePattern h \<longleftrightarrow>
    (\<forall>c \<in> set h. handleChar c \<or> c = CHR ''-'') \<and> handleChar (hd h) \<and> handleChar (List.last h)"
proof -
  obtain c r where h: "h = c # r" using assms(1) by (cases h) auto
  then have "r \<noteq> []" using assms(1) by auto
  note h = h this
  then have r: "set r = insert (List.last r) (set (butlast r))"
    by (metis append_butlast_last_id list.simps(15) rotate1.simps(2) set_rotate1)
  show ?thesis
    using assms h(2) unfolding h(1) humanHandlePattern_def
    by (auto simp: Let_def r list_all_iff)
qed

lemma profile_input_iff:
  "validHumanProfileInput u d h \<and> d = TrimSpace d \<longleftrightarrow> validHumanProfile u d h"
proof (cases "3 \<le> length h \<and> length h \<le> 64")
  case True
  have idx: "list_all (\<lambda>i. \<not> (\<not> is_lower (h ! i) \<and> \<not> is_digit (h ! i) \<and> h ! i \<noteq> CHR ''-'' \<or>
        i = 0 \<and> h ! i = CHR ''-'' \<or> i = length h - 1 \<and> h ! i = CHR ''-'')) [0 ..< length h] \<longleftrightarrow>
     (\<forall>c \<in> set h. handleChar c \<or> c = CHR ''-'') \<and> hd h \<noteq> CHR ''-'' \<and> List.last h \<noteq> CHR ''-''"
  proof -
    have ends: "hd h = h ! 0" "List.last h = h ! (length h - 1)" "0 < length h" "length h - 1 < length h"
      using True by (cases "h = []"; simp add: hd_conv_nth last_conv_nth)+
    show ?thesis
      unfolding list_all_iff ends all_set_conv_all_nth handleChar_def using ends(3,4)
      by auto (metis diff_Suc_less length_greater_0_conv)
  qed
  have ends: "hd h \<in> set h" "List.last h \<in> set h" "\<not> handleChar CHR ''-''"
    using True by (auto simp: handleChar_def is_lower_def is_digit_def in_range_def intro: hd_in_set last_in_set)
  have "\<not> handleChar CHR ''@''" by (simp add: handleChar_def is_lower_def is_digit_def in_range_def)
  then have at: "handleChar (hd h) \<Longrightarrow> \<not> HasPrefix h ''@''"
    by (cases h) (auto simp: HasPrefix_def)
  show ?thesis
    unfolding validHumanProfileInput_def validHumanProfile_def handle_pattern_iff [OF conjunct1 [OF True] conjunct2 [OF True]] idx
    using True ends at by (auto simp: Suc_le_eq)
qed (auto simp: validHumanProfileInput_def validHumanProfile_def)

text \<open>
  The handlers' own check of a display name and a handle accepts exactly what the store
  accepts, once surrounding space is removed, so a profile never passes one check and fails the other.
\<close>

lemma profile_checks_agree:
  "validHumanProfileInput u (TrimSpace d) h \<longleftrightarrow> validHumanProfile u (TrimSpace d) h"
  using profile_input_iff [of u "TrimSpace d" h] by (simp add: TrimSpace_idem)


section \<open>The account binding\<close>

text \<open>Every operation of the store on accounts, profiles, events and sessions.\<close>

inductive human_step :: "human_db \<Rightarrow> human_db \<Rightarrow> bool" where
  bind: "human_step s (snd (BindHumanAccount u e q s))"
| profile: "human_step s (snd (UpdateHumanProfile sha u e p s))"
| event: "human_step s (snd (RecordHumanAuthEvent e v s))"
| save: "human_step s (snd (SaveHumanBrowserSession b s))"
| revoke: "human_step s (snd (RevokeHumanBrowserSession d now s))"
| revoke_method: "human_step s (snd (RevokeHumanBrowserSessionsByMethod m now s))"
| csrf: "human_step s (snd (UpdateHumanBrowserSessionCSRF d c s))"
| revisions: "human_step s (snd (UpdateHumanBrowserSessionRevisions who k s))"
| latch: "human_step s (snd (SetCodexSessionRevocationPending pending s))"

definition profile_events :: "human_db \<Rightarrow> human_event_row list" where
  "profile_events s = filter (\<lambda>r. he_event_type r = ''profile_updated'') (hd_events s)"

text \<open>What an operation may do to the binding and the events.\<close>

lemma sqlInsertHumanEvent_rows:
  "sqlInsertHumanEvent r s = Inr t \<longleftrightarrow>
     \<not> hasRow (\<lambda>q. he_id q = he_id r \<or>
                 he_request_key r \<noteq> '''' \<and> he_principal q = he_principal r \<and> he_event_type q = he_event_type r \<and>
                 he_request_key q = he_request_key r) (hd_events s) \<and>
     t = s\<lparr>hd_events := hd_events s @ [r]\<rparr>"
  by (auto simp: sqlInsertHumanEvent_def)

lemma account_bind_effect:
  "snd (BindHumanAccount u e q s) = s \<or>
   hd_binding s = None \<and> length (bq_ProviderSubjectDigest q) = 32 \<and> (\<exists>b ev. snd (BindHumanAccount u e q s) = s\<lparr>hd_binding := Some b, hd_events := hd_events s @ [ev]\<rparr> \<and>
     he_event_type ev = ''account_bound'' \<and> bi_Revision b = 1 \<and> bi_ProviderSubjectDigest b = bq_ProviderSubjectDigest q \<and>
     fst (BindHumanAccount u e q s) = Inr b)"
  by (auto simp: BindHumanAccount_def Let_def GetHumanAccountBinding_def sqlInsertHumanEvent_def checked_def mapErrE_def
      split: option.splits sum.splits if_splits)

lemma profile_effect:
  "snd (UpdateHumanProfile sha u e q s) = s \<or>
   (\<exists>b ev. hd_binding s = Some b \<and> bi_Revision b = uq_BaseRevision q \<and>
     snd (UpdateHumanProfile sha u e q s) =
       s\<lparr>hd_binding := Some (b\<lparr>bi_DisplayName := uq_DisplayName q, bi_Handle := uq_Handle q,
            bi_Revision := bi_Revision b + 1, bi_UpdatedAt := env_now e\<rparr>), hd_events := hd_events s @ [ev]\<rparr> \<and>
     he_event_type ev = ''profile_updated'' \<and> he_principal ev = HumanLocalPrincipal \<and> he_request_key ev = uq_IdempotencyKey q \<and>
     he_request_digest ev = humanProfileRequestDigest sha q)"
  by (auto simp: UpdateHumanProfile_def Let_def GetHumanAccountBinding_def sqlInsertHumanEvent_def checked_def mapErrE_def someE_def
      split: option.splits sum.splits if_splits)


lemma event_effect:
  "snd (RecordHumanAuthEvent e q s) = s \<or>
   (\<exists>ev. snd (RecordHumanAuthEvent e q s) = s\<lparr>hd_events := hd_events s @ [ev]\<rparr> \<and> he_event_type ev = ''recovery_login'')"
  by (auto simp: RecordHumanAuthEvent_def sqlInsertHumanEvent_def checked_def mapErrE_def split: sum.splits if_splits)

lemma session_effects:
  "hd_binding (snd (SaveHumanBrowserSession v s)) = hd_binding s" "hd_events (snd (SaveHumanBrowserSession v s)) = hd_events s"
  "hd_binding (snd (RevokeHumanBrowserSession d now s)) = hd_binding s" "hd_events (snd (RevokeHumanBrowserSession d now s)) = hd_events s"
  "hd_binding (snd (RevokeHumanBrowserSessionsByMethod m now s)) = hd_binding s"
  "hd_events (snd (RevokeHumanBrowserSessionsByMethod m now s)) = hd_events s"
  "hd_binding (snd (UpdateHumanBrowserSessionCSRF d c s)) = hd_binding s" "hd_events (snd (UpdateHumanBrowserSessionCSRF d c s)) = hd_events s"
  "hd_binding (snd (UpdateHumanBrowserSessionRevisions who k s)) = hd_binding s"
  "hd_events (snd (UpdateHumanBrowserSessionRevisions who k s)) = hd_events s"
  "hd_binding (snd (SetCodexSessionRevocationPending p s)) = hd_binding s"
  "hd_events (snd (SetCodexSessionRevocationPending p s)) = hd_events s"
  by (simp_all add: SaveHumanBrowserSession_def RevokeHumanBrowserSession_def RevokeHumanBrowserSessionsByMethod_def
      UpdateHumanBrowserSessionCSRF_def UpdateHumanBrowserSessionRevisions_def SetCodexSessionRevocationPending_def
      updBrowserSessions_def Let_def split: option.split)

text \<open>A binding and what a later one may differ in.\<close>

definition same_account :: "HumanAccountBinding \<Rightarrow> HumanAccountBinding \<Rightarrow> bool" where
  "same_account b b' \<longleftrightarrow> bi_Principal b' = bi_Principal b \<and> bi_Provider b' = bi_Provider b \<and>
     bi_ProviderSubjectDigest b' = bi_ProviderSubjectDigest b \<and> bi_CreatedAt b' = bi_CreatedAt b \<and> bi_Revision b \<le> bi_Revision b'"

lemma human_step_cases:
  assumes "human_step s t"
  obtains (same) "hd_binding t = hd_binding s" "\<exists>evs. hd_events t = hd_events s @ evs \<and> (\<forall>ev \<in> set evs. he_event_type ev \<noteq> ''profile_updated'')"
  | (bound) b ev where "hd_binding s = None" "hd_binding t = Some b" "bi_Revision b = 1" "hd_events t = hd_events s @ [ev]"
      "he_event_type ev \<noteq> ''profile_updated''" "length (bi_ProviderSubjectDigest b) = 32"
  | (updated) b b' ev where "hd_binding s = Some b" "hd_binding t = Some b'" "same_account b b'" "bi_Revision b' = bi_Revision b + 1"
      "hd_events t = hd_events s @ [ev]" "he_event_type ev = ''profile_updated''"
  using assms
proof cases
  case (bind u e q)
  then show ?thesis using account_bind_effect [of u e q s] same bound by fastforce
next
  case (profile sha u e q)
  then show ?thesis using profile_effect [of sha u e q s] same updated by (fastforce simp: same_account_def)
next
  case (event e q)
  then show ?thesis using event_effect [of e q s] same by fastforce
qed (rule same; simp add: session_effects)+

definition binding_inv :: "human_db \<Rightarrow> bool" where
  "binding_inv s \<longleftrightarrow>
     (case hd_binding s of
        None \<Rightarrow> profile_events s = []
      | Some b \<Rightarrow> length (bi_ProviderSubjectDigest b) = 32 \<and> bi_Revision b = 1 + int (length (profile_events s)))"

interpretation binding: transition_invariant "\<lambda>s. s = empty_human_db" human_step binding_inv
proof
  show "s = empty_human_db \<Longrightarrow> binding_inv s" for s
    by (simp add: binding_inv_def profile_events_def empty_human_db_def)
  show "binding_inv t" if "binding_inv s" "human_step s t" for s t
    using that(2)
  proof (cases rule: human_step_cases)
    case same
    then have "profile_events t = profile_events s" by (auto simp: profile_events_def)
    then show ?thesis using that(1) same(1) by (auto simp: binding_inv_def split: option.splits)
  next
    case (bound b ev)
    then show ?thesis using that(1) by (simp add: binding_inv_def profile_events_def)
  next
    case (updated b b' ev)
    then show ?thesis using that(1) by (simp add: binding_inv_def profile_events_def same_account_def)
  qed
qed

lemma step_same_account:
  assumes "human_step s t" "hd_binding s = Some b"
  shows "\<exists>b'. hd_binding t = Some b' \<and> same_account b b'"
  using assms(1) by (cases rule: human_step_cases) (use assms(2) in \<open>auto simp: same_account_def\<close>)

lemma steps_same_account:
  assumes "human_step\<^sup>*\<^sup>* s t" "hd_binding s = Some b"
  shows "\<exists>b'. hd_binding t = Some b' \<and> same_account b b'"
  using assms(1)
proof induction
  case base
  then show ?case using assms(2) by (simp add: same_account_def)
next
  case (step t u)
  then obtain b1 b2 where "hd_binding t = Some b1" "same_account b b1" "hd_binding u = Some b2" "same_account b1 b2"
    using step_same_account by metis
  then show ?case by (auto simp: same_account_def)
qed

lemma steps_events: "human_step\<^sup>*\<^sup>* s t \<Longrightarrow> \<exists>evs. hd_events t = hd_events s @ evs"
proof (induction rule: rtranclp_induct)
  case (step t u)
  from step(2) have "\<exists>evs. hd_events u = hd_events t @ evs" by (cases rule: human_step_cases) auto
  then show ?case using step(3) by auto
qed simp

text \<open>
  An installation is bound to one account for good: once bound, every later state is bound to the
  same account since the same time, whatever requests came in between, and the revision of the profile is one more
  than the number of profile changes recorded.
\<close>

lemma account_binding_permanent:
  assumes "human_step\<^sup>*\<^sup>* empty_human_db s" "human_step\<^sup>*\<^sup>* s t" "hd_binding s = Some b"
  shows "\<exists>b'. hd_binding t = Some b' \<and> bi_ProviderSubjectDigest b' = bi_ProviderSubjectDigest b \<and>
    bi_Principal b' = bi_Principal b \<and> bi_CreatedAt b' = bi_CreatedAt b \<and> length (bi_ProviderSubjectDigest b') = 32 \<and>
    bi_Revision b \<le> bi_Revision b' \<and> bi_Revision b' = 1 + int (length (profile_events t))"
proof -
  have "binding_inv t" using binding.reachable_inv [OF refl] assms(1,2) by (meson rtranclp_trans)
  then show ?thesis using steps_same_account [OF assms(2,3)] by (auto simp: binding_inv_def same_account_def)
qed

section \<open>Repeating a change of the profile\<close>

lemma be64_inj:
  assumes "be64 m = be64 n" "m < 2 ^ 64" "n < 2 ^ 64"
  shows "m = n"
proof -
  have digits: "m div 256 ^ k mod 256 = n div 256 ^ k mod 256" if "k \<in> set [7, 6, 5, 4, 3, 2, 1, 0]" for k
  proof -
    have "char_of (m div 256 ^ k mod 256) = (char_of (n div 256 ^ k mod 256) :: char)"
      using assms(1) that unfolding be64_def map_eq_conv by (rule bspec)
    from arg_cong [OF this, of "of_char :: char \<Rightarrow> nat"] show ?thesis by (simp only: of_char_of mod_mod_trivial)
  qed
  have "k \<le> 8 \<Longrightarrow> m mod 256 ^ k = n mod 256 ^ k" for k
  proof (induction k)
    case (Suc k)
    have "x mod 256 ^ Suc k = x mod 256 ^ k + 256 ^ k * (x div 256 ^ k mod 256)" for x :: nat
      using mod_mult2_eq [of x "256 ^ k" 256] by (simp add: mult.commute add.commute)
    moreover have "k \<in> set [7, 6, 5, 4, 3, 2, 1, 0]" using Suc.prems by auto
    ultimately show ?case using Suc.IH Suc.prems digits [of k] by (simp only: Suc_leD)
  qed simp
  from this [of 8] show ?thesis using assms(2,3) by simp
qed

lemma be64_length: "length (be64 n) = 8"
  by (simp add: be64_def)

lemma framed_inj:
  assumes "framed v @ x = framed w @ y" "length v < 2 ^ 64" "length w < 2 ^ 64"
  shows "v = w \<and> x = y"
proof -
  have "be64 (length v) = be64 (length w)" "v @ x = w @ y"
    using assms(1) by (simp_all add: framed_def append_eq_append_conv [OF disjI1] be64_length)
  then show ?thesis using be64_inj assms(2,3) by auto
qed


lemma profilePreimage_inj:
  assumes "profilePreimage q = profilePreimage q'"
    and "length (uq_Principal q) < 2 ^ 64" "length (uq_DisplayName q) < 2 ^ 64" "length (uq_Handle q) < 2 ^ 64"
    and "length (uq_Principal q') < 2 ^ 64" "length (uq_DisplayName q') < 2 ^ 64" "length (uq_Handle q') < 2 ^ 64"
    and "0 \<le> uq_BaseRevision q" "uq_BaseRevision q < 2 ^ 63" "0 \<le> uq_BaseRevision q'" "uq_BaseRevision q' < 2 ^ 63"
  shows "uq_BaseRevision q = uq_BaseRevision q'" "uq_DisplayName q = uq_DisplayName q'" "uq_Handle q = uq_Handle q'"
proof -
  let ?rev = "\<lambda>p. be64 (nat (uq_BaseRevision p mod 2 ^ 64))"
  have rest: "?rev q @ framed (uq_DisplayName q) @ framed (uq_Handle q) @ [] = ?rev q' @ framed (uq_DisplayName q') @ framed (uq_Handle q') @ []"
    using framed_inj [OF _ assms(2,5)] assms(1) unfolding profilePreimage_def by fastforce
  then have rev: "?rev q = ?rev q'"
    and names: "framed (uq_DisplayName q) @ framed (uq_Handle q) @ [] = framed (uq_DisplayName q') @ framed (uq_Handle q') @ []"
    by (simp_all add: append_eq_append_conv [OF disjI1] be64_length)
  have small: "nat (uq_BaseRevision p mod 2 ^ 64) = nat (uq_BaseRevision p)" "nat (uq_BaseRevision p) < 2 ^ 64"
    if "0 \<le> uq_BaseRevision p" "uq_BaseRevision p < 2 ^ 63" for p :: UpdateHumanProfileRequest
    using that by (simp_all add: nat_less_iff)
  have "nat (uq_BaseRevision q) = nat (uq_BaseRevision q')"
    using be64_inj rev small [OF assms(8,9)] small [OF assms(10,11)] by simp
  then show "uq_BaseRevision q = uq_BaseRevision q'" using assms(8,10) by simp
  have "uq_DisplayName q = uq_DisplayName q'" "framed (uq_Handle q) @ [] = framed (uq_Handle q') @ []"
    using framed_inj [OF names assms(3,6)] by simp_all
  then show "uq_DisplayName q = uq_DisplayName q'" "uq_Handle q = uq_Handle q'"
    using framed_inj [OF _ assms(4,7)] by simp_all
qed

definition recordedUpdate :: "gostring \<Rightarrow> human_db \<Rightarrow> human_event_row option" where
  "recordedUpdate key s = find (\<lambda>r. he_principal r = HumanLocalPrincipal \<and> he_event_type r = ''profile_updated'' \<and>
     he_request_key r = key) (hd_events s)"

lemma update_recorded:
  assumes "UpdateHumanProfile sha u e q s = (Inr b, s1)"
  shows "\<exists>r. recordedUpdate (uq_IdempotencyKey q) s1 = Some r \<and> he_request_digest r = humanProfileRequestDigest sha q"
    and "\<exists>b. hd_binding s1 = Some b" "uq_Principal q = HumanLocalPrincipal" "1 \<le> uq_BaseRevision q"
      "validHumanProfile u (uq_DisplayName q) (uq_Handle q)" "uq_IdempotencyKey q \<noteq> ''''" "length (uq_IdempotencyKey q) \<le> 200"
      "TrimSpace (uq_IdempotencyKey q) = uq_IdempotencyKey q"
  using assms
  by (auto simp: UpdateHumanProfile_def Let_def recordedUpdate_def GetHumanAccountBinding_def sqlInsertHumanEvent_def
      checked_def mapErrE_def someE_def find_append split: option.splits sum.splits if_splits)

lemma update_again:
  assumes "recordedUpdate (uq_IdempotencyKey q) t = Some r" "hd_binding t = Some b" "length (he_request_digest r) = 32"
    and "uq_Principal q = HumanLocalPrincipal" "1 \<le> uq_BaseRevision q"
      "validHumanProfile u (uq_DisplayName q) (uq_Handle q)" "uq_IdempotencyKey q \<noteq> ''''" "length (uq_IdempotencyKey q) \<le> 200"
      "TrimSpace (uq_IdempotencyKey q) = uq_IdempotencyKey q"
  shows "UpdateHumanProfile sha u e q t =
    (if he_request_digest r = humanProfileRequestDigest sha q then Inr b else Inl ErrConflict, t)"
  using assms by (simp add: UpdateHumanProfile_def recordedUpdate_def GetHumanAccountBinding_def)

lemma update_refused_unchanged:
  "recordedUpdate (uq_IdempotencyKey q) t = Some r \<Longrightarrow> he_request_digest r \<noteq> humanProfileRequestDigest sha q \<Longrightarrow>
   \<exists>err. UpdateHumanProfile sha u e q t = (Inl err, t)"
  by (simp add: UpdateHumanProfile_def recordedUpdate_def)

text \<open>
  A change of the profile that was accepted may be repeated under its key at any later time: the
  current binding is returned and nothing changes. Another change under the same key is refused and changes nothing,
  provided the hash tells the two requests apart.
\<close>

lemma profile_update_replays:
  assumes "UpdateHumanProfile sha u e q s = (Inr b, s1)" "human_step\<^sup>*\<^sup>* s1 t" "\<And>x. length (sha x) = 32"
  shows "(\<exists>b'. hd_binding t = Some b' \<and> UpdateHumanProfile sha u e' q t = (Inr b', t)) \<and>
    (uq_IdempotencyKey q' = uq_IdempotencyKey q \<and> sha (profilePreimage q') \<noteq> sha (profilePreimage q) \<longrightarrow>
       (\<exists>err. UpdateHumanProfile sha u' e' q' t = (Inl err, t)))"
proof -
  note rec = update_recorded [OF assms(1)]
  obtain r where r: "recordedUpdate (uq_IdempotencyKey q) s1 = Some r" "he_request_digest r = humanProfileRequestDigest sha q"
    using rec(1) by blast
  obtain evs where "hd_events t = hd_events s1 @ evs" using steps_events [OF assms(2)] by blast
  then have found: "recordedUpdate (uq_IdempotencyKey q) t = Some r"
    using r(1) by (simp add: recordedUpdate_def find_append_Some)
  obtain b' where b': "hd_binding t = Some b'" using steps_same_account [OF assms(2)] rec(2) by blast
  have len: "length (he_request_digest r) = 32" using assms(3) r(2) by (simp add: humanProfileRequestDigest_def)
  have again: "\<exists>b'. hd_binding t = Some b' \<and> UpdateHumanProfile sha u e' q t = (Inr b', t)"
    using update_again [OF found b' len rec(3-8)] b' r(2) by simp
  have "\<exists>err. UpdateHumanProfile sha u' e' q' t = (Inl err, t)"
    if "uq_IdempotencyKey q' = uq_IdempotencyKey q" "sha (profilePreimage q') \<noteq> sha (profilePreimage q)"
    by (rule update_refused_unchanged [where r = r]) (use that found r(2) in \<open>simp_all add: humanProfileRequestDigest_def\<close>)
  with again show ?thesis by blast
qed

end
