(* ===== verification/Auth_Demo.thy ===== *)
theory Auth_Demo
  imports Admission_Contract Login_Contract Profile_Contract
begin

text \<open>
  Instances: the properties of human authentication applied to a small server.
\<close>

section \<open>Requests and answers\<close>

definition demo_body :: "gostring \<Rightarrow> request_body" where
  "demo_body secret = zeroBody\<lparr>rb_Secret := secret\<rparr>"

definition demo_post :: "gostring \<Rightarrow> gostring \<Rightarrow> http_request" where
  "demo_post path secret = demo_request\<lparr>rq_Method := ''POST'', rq_Path := path,
     rq_Header := (\<lambda>k. if k = ''Origin'' then ''commons'' else if k = ''Content-Type'' then ''application/json''
                       else if k = ''X-Commons-CSRF'' then ''csrf'' else if k = ''Idempotency-Key'' then ''key-1'' else ''''),
     rq_Body := demo_body secret\<rparr>"

definition demo_env :: "time \<Rightarrow> auth_env" where
  "demo_env now = \<lparr>ae_now = now, ae_later = now, ae_raw = (\<lambda>k. Some (replicate 3 (char_of (97 + k)))),
     ae_env = \<lparr>env_clock = (\<lambda>_. now), env_rand = (\<lambda>_. ''1'')\<rparr>\<rparr>"

definition demo_client :: client_answers where
  "demo_client = \<lparr>cl_available = True, cl_accountState = Inr ''connected'', cl_device = Inl ErrUnavailable,
     cl_polled = Inl ErrUnavailable\<rparr>"

definition demo_session :: humanSession where
  "demo_session = \<lparr>se_csrf = ''csrf'', se_createdAt = Second, se_expiresAt = 500 * Second, se_authMethod = ''recovery'',
     se_bindingRevision = 0\<rparr>"

definition demo_signed_in :: "'st HumanSessionStore \<Rightarrow> 'st \<Rightarrow> 'st handler" where
  "demo_signed_in st s = (demo_server st s)\<lparr>hn_humanAuth :=
     map_option (\<lambda>a. a\<lparr>ha_sessions := [(''tok'', demo_session)]\<rparr>) (hn_humanAuth (demo_server st s))\<rparr>"

section \<open>Logout\<close>

definition demo_logout :: "effect list \<times> human_db failing handler" where
  "demo_logout = logout demo_lib (demo_env (2 * Second)) (demo_post ''/v1/auth/logout'' '''')
     (demo_signed_in (failingStore sessionStore) ([], demo_db))"

section \<open>Failed logins\<close>

definition demo_logins :: "(auth_env \<times> http_request) list" where
  "demo_logins = map (\<lambda>t. (demo_env (t * Second), demo_post ''/v1/auth/login'' ''guess'')) [1, 2, 3, 4, 5, 6, 70]"

theorem login_rate_limited_witness:
  "fst (logins demo_lib demo_logins (demo_server sessionStore demo_db)) ! 0 + Minute
   \<le> fst (logins demo_lib demo_logins (demo_server sessionStore demo_db)) ! (0 + 5)"
proof -
  obtain a where a: "hn_humanAuth (demo_server sessionStore demo_db) = Some a" by (rule demo_auth)
  have fs: "ha_failures a = []" "ha_secretDigest a = lb_sha demo_lib ''secret''"
    using a by (auto simp: demo_server_auth newHumanAuth_def demo_config_def)
  have len: "0 + 5 < length (fst (logins demo_lib demo_logins (demo_server sessionStore demo_db)))" by code_simp
  have wrong: "lb_sha demo_lib ''guess'' \<noteq> lb_sha demo_lib ''secret''" by code_simp
  have seq: "in_sequence 0 demo_logins" by (simp add: demo_logins_def demo_env_def Second_def)
  show ?thesis
    by (rule login_rate_limited [OF a fs(1) seq _ prod.collapse [symmetric] len])
       (use wrong fs(2) in \<open>auto simp: demo_logins_def verifySecret_def demo_post_def demo_body_def\<close>)
qed

section \<open>Profiles\<close>

definition demo_bind :: "(go_error + HumanAccountBinding) \<times> human_db" where
  "demo_bind = BindHumanAccount (\<lambda>s. s) (ae_env (demo_env 0)) \<lparr>bq_ProviderSubjectDigest = lb_sha demo_lib ''subject'',
     bq_DisplayName = ''Ada'', bq_Handle = ''ada''\<rparr> empty_human_db"

definition demo_change :: "gostring \<Rightarrow> UpdateHumanProfileRequest" where
  "demo_change name = \<lparr>uq_Principal = HumanLocalPrincipal, uq_DisplayName = name, uq_Handle = ''ada'', uq_BaseRevision = 1,
     uq_IdempotencyKey = ''key-1''\<rparr>"

definition demo_sha :: "gostring \<Rightarrow> gostring" where
  "demo_sha s = take 32 (rev s @ replicate 32 (CHR ''#''))"

definition demo_update :: "(go_error + HumanAccountBinding) \<times> human_db" where
  "demo_update = UpdateHumanProfile demo_sha (\<lambda>s. s) \<lparr>env_clock = (\<lambda>_. 0), env_rand = (\<lambda>_. ''2'')\<rparr> (demo_change ''Ada L'') (snd demo_bind)"

section \<open>Admission\<close>

theorem request_admitted_witness:
  "map_option (\<lambda>m. mt_PrincipalKind m = ''human'')
     (case fst (ServeHTTP demo_lib demo_client (demo_env (2 * Second)) (demo_post ''/v1/posts'' '''') (demo_signed_in sessionStore demo_db)) of
        Routed m \<Rightarrow> Some m | _ \<Rightarrow> None) = Some True"
proof -
  let ?s = "ServeHTTP demo_lib demo_client (demo_env (2 * Second)) (demo_post ''/v1/posts'' '''') (demo_signed_in sessionStore demo_db)"
  have "case fst ?s of Routed _ \<Rightarrow> True | _ \<Rightarrow> False" by code_simp
  then obtain m where m: "?s = (Routed m, snd ?s)" by (cases "fst ?s") (auto simp: prod_eq_iff)
  have "cf_Credentials (hn_config (demo_signed_in sessionStore demo_db)) = []"
    by (simp add: demo_signed_in_def demo_server_def NewHandler_def)
  then have "mt_PrincipalKind m = ''human''" using request_admitted [OF m] by auto
  then show ?thesis by (subst m) simp
qed


section \<open>A session for the owner\<close>

definition demo_bound :: "human_db handler" where
  "demo_bound = (let h = demo_server sessionStore demo_db in
     h\<lparr>hn_config := (hn_config h)\<lparr>cf_HumanBindingStore := Some (bindingStore demo_sha (\<lambda>s. s))\<rparr>\<rparr>)"

definition demo_login :: "human_db served option" where
  "demo_login = authRoute demo_lib demo_client (demo_env (2 * Second)) (demo_post ''/v1/auth/login'' ''secret'') demo_bound"

theorem session_only_for_owner_witness:
  "map_option (issues_session \<circ> fst) demo_login = Some True \<and>
   sameOrigin demo_lib (demo_post ''/v1/auth/login'' ''secret'') (cf_PublicOrigin (hn_config demo_bound)) \<and>
   (\<exists>a. hn_humanAuth demo_bound = Some a \<and> verifySecret (lb_sha demo_lib) a ''secret'')"
proof -
  have "map_option (issues_session \<circ> fst) demo_login = Some True" by code_simp
  moreover from this obtain es h' where r: "demo_login = Some (es, h')" "issues_session es" by auto
  have "cf_HumanBindingStore (hn_config demo_bound) = Some (bindingStore demo_sha (\<lambda>s. s))"
    by (simp add: demo_bound_def Let_def)
  from session_only_for_owner [OF r(1) [unfolded demo_login_def] r(2) this]
  have "sameOrigin demo_lib (demo_post ''/v1/auth/login'' ''secret'') (cf_PublicOrigin (hn_config demo_bound)) \<and>
   (\<exists>a. hn_humanAuth demo_bound = Some a \<and> verifySecret (lb_sha demo_lib) a ''secret'')"
    by (simp add: demo_post_def demo_body_def)
  ultimately show ?thesis by blast
qed

end
