(* ===== verification/Runtime_Health.thy ===== *)
theory Runtime_Health
  imports Commons_Prelude "HOL-Library.Word"
begin

text \<open>
  The model of the runtime health, \<^verbatim>\<open>src/internal/runtimehealth/health.go\<close>: \<open>Evaluate\<close> turns one set of
  observations into a snapshot, which says of the service and of its seven components what state they are in,
  and decides the readiness, the liveness, the feeding of the watchdog and the running of the scheduler. The states and
  the reasons are strings, as in the source, so that an observation may carry a state that no constant names. \<open>Load\<close> and
  \<open>Store\<close> replace the published snapshot as a whole. The second half proves what the snapshot means.
\<close>

section \<open>Observations and snapshots\<close>

record ComponentStatus =
  co_Status :: gostring
  co_Reason :: gostring
  co_ObservedAt :: time
  co_LastSuccessAt :: time
  co_LastFailureAt :: time

record ComponentSet =
  cs_Database :: ComponentStatus
  cs_Codex :: ComponentStatus
  cs_Supervisor :: ComponentStatus
  cs_Account :: ComponentStatus
  cs_Model :: ComponentStatus
  cs_Reconciliation :: ComponentStatus
  cs_Persistence :: ComponentStatus

definition zero_component :: ComponentStatus where
  "zero_component = \<lparr>co_Status = '''', co_Reason = '''', co_ObservedAt = zeroTime, co_LastSuccessAt = zeroTime,
     co_LastFailureAt = zeroTime\<rparr>"

definition GetComponent :: "gostring \<Rightarrow> ComponentSet \<Rightarrow> ComponentStatus" where
  "GetComponent name c =
     (if name = ''database'' then cs_Database c
      else if name = ''codex'' then cs_Codex c
      else if name = ''supervisor'' then cs_Supervisor c
      else if name = ''account'' then cs_Account c
      else if name = ''model'' then cs_Model c
      else if name = ''reconciliation'' then cs_Reconciliation c
      else if name = ''persistence'' then cs_Persistence c
      else zero_component\<lparr>co_Status := ''unknown'', co_Reason := ''starting''\<rparr>)"

text \<open>The observations of the database, the account, the model, the reconciliation and the persistence have the same shape.\<close>

record Observation =
  ob_Status :: gostring
  ob_LastSuccessAt :: time
  ob_LastFailureAt :: time

record CodexObservation =
  cx_Configured :: bool
  cx_Required :: bool
  cx_Available :: bool
  cx_LastSuccessAt :: time
  cx_LastFailureAt :: time

record SupervisorObservation =
  sv_Status :: gostring
  sv_Generation :: "64 word"
  sv_LastSuccessAt :: time
  sv_LastFailureAt :: time

record Input =
  in_ObservedAt :: time
  in_Database :: Observation
  in_Codex :: CodexObservation
  in_Supervisor :: SupervisorObservation
  in_Account :: Observation
  in_Model :: Observation
  in_Reconciliation :: Observation
  in_Persistence :: Observation
  in_LastSuccessAt :: time
  in_LastFailureAt :: time

record HealthSnapshot =
  sh_State :: gostring
  sh_Status :: gostring
  sh_Ready :: bool
  sh_Live :: bool
  sh_Liveness :: bool
  sh_WatchdogEligible :: bool
  sh_SchedulerEligible :: bool
  sh_Generation :: "64 word"
  sh_Reason :: gostring
  sh_ObservedAt :: time
  sh_LastSuccessAt :: time
  sh_LastFailureAt :: time
  sh_Components :: ComponentSet

section \<open>Components\<close>

definition normalizeTime :: "time \<Rightarrow> time" where
  "normalizeTime value = (if value = zeroTime then zeroTime else value)"

definition normalizeEvidenceTime :: "time \<Rightarrow> time \<Rightarrow> time" where
  "normalizeEvidenceTime value observedAt =
     (let value = normalizeTime value in
      if value = zeroTime \<or> observedAt = zeroTime \<or> value < observedAt \<or> value = observedAt then value else zeroTime)"

definition latest :: "time \<Rightarrow> time \<Rightarrow> time" where
  "latest a b = (if a < b then b else a)"

definition component :: "gostring \<Rightarrow> gostring \<Rightarrow> time \<Rightarrow> time \<Rightarrow> time \<Rightarrow> ComponentStatus" where
  "component status reason observedAt lastSuccessAt lastFailureAt =
     \<lparr>co_Status = status, co_Reason = reason, co_ObservedAt = observedAt,
      co_LastSuccessAt = normalizeEvidenceTime lastSuccessAt observedAt,
      co_LastFailureAt = normalizeEvidenceTime lastFailureAt observedAt\<rparr>"

definition databaseComponent :: "Observation \<Rightarrow> time \<Rightarrow> ComponentStatus" where
  "databaseComponent i observedAt =
     (let result = (\<lambda>status reason. component status reason observedAt (ob_LastSuccessAt i) (ob_LastFailureAt i)) in
      if ob_Status i = ''healthy'' then result ''healthy'' ''healthy''
      else if ob_Status i = ''failed'' then result ''failed'' ''database_failed''
      else if ob_Status i = ''unavailable'' then result ''failed'' ''database_unavailable''
      else result ''unknown'' ''database_unknown'')"

definition accountReady :: "gostring \<Rightarrow> bool" where
  "accountReady status = (status = ''ready'' \<or> status = ''signed_in'')"

definition supervisorRunning :: "gostring \<Rightarrow> bool" where
  "supervisorRunning status = (status = ''running'' \<or> status = ''available'')"

definition codexNotConfiguredReason :: "bool \<Rightarrow> gostring" where
  "codexNotConfiguredReason required =
     (if required then ''codex_required_not_configured'' else ''codex_optional_not_configured'')"

definition codexReason :: "Input \<Rightarrow> gostring" where
  "codexReason i =
     (let required = cx_Required (in_Codex i); account = ob_Status (in_Account i); model = ob_Status (in_Model i) in
      if \<not> cx_Configured (in_Codex i) then codexNotConfiguredReason required
      else if \<not> cx_Available (in_Codex i) then
        (if required then ''codex_required_unavailable'' else ''codex_optional_unavailable'')
      else if \<not> accountReady account then
        (if account = ''unknown'' \<or> account = '''' then ''account_unknown''
         else if required then ''codex_required_not_ready''
         else ''codex_optional_not_ready'')
      else if model \<noteq> ''compatible'' then
        (if model = ''unknown'' \<or> model = '''' then ''model_unknown''
         else if model = ''unavailable'' then ''model_unavailable''
         else if required then ''codex_required_incompatible''
         else ''codex_optional_incompatible'')
      else ''healthy'')"

definition codexComponent :: "Input \<Rightarrow> bool \<Rightarrow> time \<Rightarrow> ComponentStatus" where
  "codexComponent i usable observedAt =
     (let codex = in_Codex i;
          result = (\<lambda>status reason. component status reason observedAt (cx_LastSuccessAt codex) (cx_LastFailureAt codex)) in
      if \<not> cx_Configured codex then
        (if cx_Required codex then result ''failed'' ''codex_required_not_configured''
         else result ''degraded'' ''codex_optional_not_configured'')
      else if \<not> cx_Available codex then
        (if cx_Required codex then result ''failed'' ''codex_required_unavailable''
         else result ''degraded'' ''codex_optional_unavailable'')
      else if \<not> usable then
        (if cx_Required codex then result ''failed'' (codexReason i) else result ''degraded'' (codexReason i))
      else result ''healthy'' ''healthy'')"

definition accountComponent :: "Input \<Rightarrow> time \<Rightarrow> ComponentStatus" where
  "accountComponent i observedAt =
     (let account = in_Account i;
          result = (\<lambda>status reason. component status reason observedAt (ob_LastSuccessAt account) (ob_LastFailureAt account)) in
      if \<not> cx_Configured (in_Codex i) then result ''disabled'' (codexNotConfiguredReason (cx_Required (in_Codex i)))
      else if ob_Status account = ''ready'' \<or> ob_Status account = ''signed_in'' then result ''healthy'' ''healthy''
      else if ob_Status account = ''not_ready'' \<or> ob_Status account = ''signed_out'' \<or> ob_Status account = ''failed'' then
        (if cx_Required (in_Codex i) then result ''failed'' ''account_not_ready'' else result ''degraded'' ''account_not_ready'')
      else result ''unknown'' ''account_unknown'')"

definition modelComponent :: "Input \<Rightarrow> time \<Rightarrow> ComponentStatus" where
  "modelComponent i observedAt =
     (let model = in_Model i;
          result = (\<lambda>status reason. component status reason observedAt (ob_LastSuccessAt model) (ob_LastFailureAt model)) in
      if \<not> cx_Configured (in_Codex i) then result ''disabled'' (codexNotConfiguredReason (cx_Required (in_Codex i)))
      else if ob_Status model = ''compatible'' then result ''healthy'' ''healthy''
      else if ob_Status model = ''incompatible'' then
        (if cx_Required (in_Codex i) then result ''failed'' ''model_incompatible'' else result ''degraded'' ''model_incompatible'')
      else if ob_Status model = ''unavailable'' then
        (if cx_Required (in_Codex i) then result ''failed'' ''model_unavailable'' else result ''degraded'' ''model_unavailable'')
      else result ''unknown'' ''model_unknown'')"

definition supervisorComponent :: "SupervisorObservation \<Rightarrow> time \<Rightarrow> ComponentStatus" where
  "supervisorComponent i observedAt =
     (let status = sv_Status i;
          result = (\<lambda>status reason. component status reason observedAt (sv_LastSuccessAt i) (sv_LastFailureAt i)) in
      if status = ''running'' \<or> status = ''available'' then result ''healthy'' ''healthy''
      else if status = ''starting'' then result ''starting'' ''supervisor_starting''
      else if status = ''degraded'' then result ''degraded'' ''supervisor_degraded''
      else if status = ''recovering'' then result ''recovering'' ''supervisor_recovering''
      else if status = ''exhausted'' then result ''exhausted'' ''supervisor_exhausted''
      else if status = ''stopping'' then result ''stopping'' ''supervisor_stopping''
      else if status = ''stopped'' \<or> status = ''closed'' then result ''stopping'' ''supervisor_stopped''
      else result ''unknown'' ''supervisor_unknown'')"

definition healthComponent :: "Observation \<Rightarrow> time \<Rightarrow> gostring \<Rightarrow> gostring \<Rightarrow> gostring \<Rightarrow> ComponentStatus" where
  "healthComponent i observedAt unknown attention failed =
     (let result = (\<lambda>status reason. component status reason observedAt (ob_LastSuccessAt i) (ob_LastFailureAt i)) in
      if ob_Status i = ''healthy'' then result ''healthy'' ''healthy''
      else if ob_Status i = ''attention'' then result ''degraded'' attention
      else if ob_Status i = ''failed'' then result ''failed'' failed
      else result ''unknown'' unknown)"

definition knownHealthStatus :: "gostring \<Rightarrow> bool" where
  "knownHealthStatus status = (status = ''healthy'' \<or> status = ''attention'' \<or> status = ''failed'')"

definition supervisorReason :: "gostring \<Rightarrow> gostring" where
  "supervisorReason status =
     (if status = ''starting'' then ''supervisor_starting''
      else if status = ''degraded'' then ''supervisor_degraded''
      else if status = ''recovering'' then ''supervisor_recovering''
      else if status = ''exhausted'' then ''supervisor_exhausted''
      else if status = ''stopping'' then ''supervisor_stopping''
      else if status = ''stopped'' \<or> status = ''closed'' then ''supervisor_stopped''
      else ''supervisor_unknown'')"

definition knownSupervisorStatus :: "gostring \<Rightarrow> bool" where
  "knownSupervisorStatus status =
     (status = ''starting'' \<or> status = ''running'' \<or> status = ''available'' \<or> status = ''degraded'' \<or> status = ''recovering'' \<or>
      status = ''exhausted'' \<or> status = ''stopping'' \<or> status = ''stopped'' \<or> status = ''closed'')"

definition firstDegradedReason :: "ComponentSet \<Rightarrow> gostring" where
  "firstDegradedReason c =
     (case find (\<lambda>s. co_Reason s \<noteq> ''healthy'' \<and> co_Reason s \<noteq> ''starting'')
       [cs_Database c, cs_Persistence c, cs_Reconciliation c, cs_Supervisor c, cs_Codex c, cs_Account c, cs_Model c] of
        Some s \<Rightarrow> co_Reason s
      | None \<Rightarrow> ''starting'')"

section \<open>The evaluation\<close>

definition overallState :: "Input \<Rightarrow> ComponentSet \<Rightarrow> bool \<Rightarrow> bool \<Rightarrow> bool \<Rightarrow> bool \<Rightarrow> bool \<Rightarrow> bool \<Rightarrow> bool \<Rightarrow> gostring \<times> gostring" where
  "overallState i components databaseHealthy databaseUnknown coreReady ready codexUsable stopping exhausted =
     (let database = ob_Status (in_Database i); persistence = ob_Status (in_Persistence i);
          reconciliation = ob_Status (in_Reconciliation i); supervisor = sv_Status (in_Supervisor i);
          configured = cx_Configured (in_Codex i) in
      if stopping then
        (if supervisor = ''stopped'' \<or> supervisor = ''closed'' then (''stopping'', ''supervisor_stopped'')
         else (''stopping'', ''supervisor_stopping''))
      else if exhausted \<and> cx_Required (in_Codex i) then (''exhausted'', ''supervisor_exhausted'')
      else if database = ''failed'' then (''degraded'', ''database_failed'')
      else if database = ''unavailable'' then (''degraded'', ''database_unavailable'')
      else if databaseUnknown then (''starting'', ''database_unknown'')
      else if persistence = ''failed'' then (''degraded'', ''persistence_failed'')
      else if \<not> knownHealthStatus persistence then (''starting'', ''persistence_unknown'')
      else if reconciliation = ''failed'' then (''degraded'', ''reconciliation_failed'')
      else if \<not> knownHealthStatus reconciliation then (''starting'', ''reconciliation_unknown'')
      else if configured \<and> (\<not> knownSupervisorStatus supervisor \<or> supervisor = ''starting'') then
        (''starting'', supervisorReason supervisor)
      else if configured \<and> supervisor = ''degraded'' then (''degraded'', ''supervisor_degraded'')
      else if configured \<and> supervisor = ''recovering'' then (''degraded'', ''supervisor_recovering'')
      else if configured \<and> exhausted then (''degraded'', ''supervisor_exhausted'')
      else if reconciliation = ''attention'' then (''degraded'', ''reconciliation_attention'')
      else if persistence = ''attention'' then (''degraded'', ''persistence_attention'')
      else if \<not> codexUsable then (''degraded'', codexReason i)
      else if \<not> coreReady \<or> \<not> ready \<or> \<not> databaseHealthy then (''degraded'', firstDegradedReason components)
      else (''ready'', ''healthy''))"

definition Evaluate :: "Input \<Rightarrow> HealthSnapshot" where
  "Evaluate i =
     (let observedAt = normalizeTime (in_ObservedAt i);
          database = databaseComponent (in_Database i) observedAt;
          persistence = healthComponent (in_Persistence i) observedAt ''persistence_unknown'' ''persistence_attention'' ''persistence_failed'';
          reconciliation = healthComponent (in_Reconciliation i) observedAt ''reconciliation_unknown'' ''reconciliation_attention'' ''reconciliation_failed'';
          supervisor = supervisorComponent (in_Supervisor i) observedAt;
          codexUsable = (cx_Configured (in_Codex i) \<and> cx_Available (in_Codex i) \<and> accountReady (ob_Status (in_Account i)) \<and>
            ob_Status (in_Model i) = ''compatible'');
          codex = codexComponent i codexUsable observedAt;
          account = accountComponent i observedAt;
          model = modelComponent i observedAt;
          components = \<lparr>cs_Database = database, cs_Codex = codex, cs_Supervisor = supervisor, cs_Account = account,
            cs_Model = model, cs_Reconciliation = reconciliation, cs_Persistence = persistence\<rparr>;
          all = [database, codex, supervisor, account, model, reconciliation, persistence];
          lastSuccessAt = foldl (\<lambda>t c. latest t (co_LastSuccessAt c)) (normalizeEvidenceTime (in_LastSuccessAt i) observedAt) all;
          lastFailureAt = foldl (\<lambda>t c. latest t (co_LastFailureAt c)) (normalizeEvidenceTime (in_LastFailureAt i) observedAt) all;
          status = sv_Status (in_Supervisor i);
          stopping = (status = ''stopping'' \<or> status = ''stopped'' \<or> status = ''closed'');
          exhausted = (status = ''exhausted'');
          db = ob_Status (in_Database i);
          databaseHealthy = (db = ''healthy'');
          databaseUnknown = (db \<noteq> ''healthy'' \<and> db \<noteq> ''failed'' \<and> db \<noteq> ''unavailable'');
          persistenceHealthy = (ob_Status (in_Persistence i) = ''healthy'');
          persistenceUnknown = (\<not> knownHealthStatus (ob_Status (in_Persistence i)));
          reconciliationUnknown = (\<not> knownHealthStatus (ob_Status (in_Reconciliation i)));
          reconciliationFailed = (ob_Status (in_Reconciliation i) = ''failed'');
          persistenceFailed = (ob_Status (in_Persistence i) = ''failed'');
          live = (databaseHealthy \<and> \<not> stopping \<and> \<not> persistenceFailed);
          coreReady = (databaseHealthy \<and> persistenceHealthy \<and> \<not> persistenceUnknown \<and> \<not> reconciliationUnknown \<and>
            \<not> reconciliationFailed \<and> \<not> stopping);
          required = cx_Required (in_Codex i);
          ready = coreReady;
          ready = (if required then ready \<and> codexUsable \<and> supervisorRunning status else ready);
          ready = (if required \<and> (status = ''starting'' \<or> status = ''recovering'' \<or> exhausted) then False else ready);
          ready = (if stopping \<or> databaseUnknown \<or> db = ''failed'' \<or> db = ''unavailable'' \<or> persistenceUnknown \<or> persistenceFailed \<or>
            reconciliationUnknown \<or> reconciliationFailed then False else ready);
          schedulerEligible = (ready \<and> live \<and> cx_Configured (in_Codex i) \<and> codexUsable \<and> supervisorRunning status \<and>
            ob_Status (in_Reconciliation i) = ''healthy'' \<and> ob_Status (in_Persistence i) = ''healthy'');
          watchdogEligible = (live \<and> coreReady);
          watchdogEligible = (if required then watchdogEligible \<and> supervisorRunning status else watchdogEligible);
          (state, reason) = overallState i components databaseHealthy databaseUnknown coreReady ready codexUsable stopping exhausted in
      \<lparr>sh_State = state, sh_Status = state, sh_Ready = ready, sh_Live = live, sh_Liveness = live,
       sh_WatchdogEligible = watchdogEligible, sh_SchedulerEligible = schedulerEligible,
       sh_Generation = sv_Generation (in_Supervisor i), sh_Reason = reason, sh_ObservedAt = observedAt,
       sh_LastSuccessAt = lastSuccessAt, sh_LastFailureAt = lastFailureAt, sh_Components = components\<rparr>)"

section \<open>The published snapshot\<close>

definition zero_snapshot :: HealthSnapshot where
  "zero_snapshot = \<lparr>sh_State = '''', sh_Status = '''', sh_Ready = False, sh_Live = False, sh_Liveness = False,
     sh_WatchdogEligible = False, sh_SchedulerEligible = False, sh_Generation = 0, sh_Reason = '''',
     sh_ObservedAt = zeroTime, sh_LastSuccessAt = zeroTime, sh_LastFailureAt = zeroTime,
     sh_Components = \<lparr>cs_Database = zero_component, cs_Codex = zero_component, cs_Supervisor = zero_component,
       cs_Account = zero_component, cs_Model = zero_component, cs_Reconciliation = zero_component, cs_Persistence = zero_component\<rparr>\<rparr>"

type_synonym SnapshotStore = "HealthSnapshot option"

definition StoreSnapshot :: "HealthSnapshot \<Rightarrow> SnapshotStore \<Rightarrow> SnapshotStore" where
  "StoreSnapshot snapshot s = Some snapshot"

definition NewSnapshotStore :: "HealthSnapshot \<Rightarrow> SnapshotStore" where
  "NewSnapshotStore initial = StoreSnapshot initial None"

definition Load :: "SnapshotStore \<Rightarrow> HealthSnapshot" where
  "Load s = (case s of None \<Rightarrow> zero_snapshot | Some value \<Rightarrow> value)"

section \<open>What a snapshot says\<close>

text \<open>The decisions of \<open>Evaluate\<close>, one equation for each field.\<close>

definition usable :: "Input \<Rightarrow> bool" where
  "usable i = (cx_Configured (in_Codex i) \<and> cx_Available (in_Codex i) \<and> accountReady (ob_Status (in_Account i)) \<and>
     ob_Status (in_Model i) = ''compatible'')"

definition isStopping :: "gostring \<Rightarrow> bool" where
  "isStopping status = (status = ''stopping'' \<or> status = ''stopped'' \<or> status = ''closed'')"

definition coreReady :: "Input \<Rightarrow> bool" where
  "coreReady i = (ob_Status (in_Database i) = ''healthy'' \<and> ob_Status (in_Persistence i) = ''healthy'' \<and>
     (ob_Status (in_Reconciliation i) = ''healthy'' \<or> ob_Status (in_Reconciliation i) = ''attention'') \<and>
     \<not> isStopping (sv_Status (in_Supervisor i)))"

lemma Evaluate_live:
  "sh_Live (Evaluate i) = (ob_Status (in_Database i) = ''healthy'' \<and> \<not> isStopping (sv_Status (in_Supervisor i)) \<and>
     ob_Status (in_Persistence i) \<noteq> ''failed'')"
  by (simp add: Evaluate_def Let_def isStopping_def split_def)

lemma Evaluate_ready:
  "sh_Ready (Evaluate i) = (coreReady i \<and> (cx_Required (in_Codex i) \<longrightarrow> usable i \<and> supervisorRunning (sv_Status (in_Supervisor i))))"
  by (auto simp: Evaluate_def Let_def isStopping_def coreReady_def usable_def knownHealthStatus_def supervisorRunning_def split_def)

lemma Evaluate_watchdog:
  "sh_WatchdogEligible (Evaluate i) = (coreReady i \<and> (cx_Required (in_Codex i) \<longrightarrow> supervisorRunning (sv_Status (in_Supervisor i))))"
  by (auto simp: Evaluate_def Let_def isStopping_def coreReady_def knownHealthStatus_def split_def)

lemma Evaluate_scheduler:
  "sh_SchedulerEligible (Evaluate i) = (coreReady i \<and> ob_Status (in_Reconciliation i) = ''healthy'' \<and> usable i \<and>
     supervisorRunning (sv_Status (in_Supervisor i)))"
  by (auto simp: Evaluate_def Let_def isStopping_def coreReady_def usable_def knownHealthStatus_def supervisorRunning_def split_def)

lemma Evaluate_components:
  "cs_Database (sh_Components (Evaluate i)) = databaseComponent (in_Database i) (in_ObservedAt i)"
  "cs_Codex (sh_Components (Evaluate i)) = codexComponent i (usable i) (in_ObservedAt i)"
  "cs_Supervisor (sh_Components (Evaluate i)) = supervisorComponent (in_Supervisor i) (in_ObservedAt i)"
  "cs_Account (sh_Components (Evaluate i)) = accountComponent i (in_ObservedAt i)"
  "cs_Model (sh_Components (Evaluate i)) = modelComponent i (in_ObservedAt i)"
  "cs_Reconciliation (sh_Components (Evaluate i)) =
     healthComponent (in_Reconciliation i) (in_ObservedAt i) ''reconciliation_unknown'' ''reconciliation_attention'' ''reconciliation_failed''"
  "cs_Persistence (sh_Components (Evaluate i)) =
     healthComponent (in_Persistence i) (in_ObservedAt i) ''persistence_unknown'' ''persistence_attention'' ''persistence_failed''"
  by (simp_all add: Evaluate_def Let_def usable_def normalizeTime_def split_def)

lemma Evaluate_fields:
  "sh_Status (Evaluate i) = sh_State (Evaluate i)" "sh_Liveness (Evaluate i) = sh_Live (Evaluate i)"
  "sh_Generation (Evaluate i) = sv_Generation (in_Supervisor i)" "sh_ObservedAt (Evaluate i) = in_ObservedAt i"
  by (simp_all add: Evaluate_def Let_def normalizeTime_def split_def)

lemma component_fields [simp]:
  "co_Status (component s r t a b) = s" "co_Reason (component s r t a b) = r" "co_ObservedAt (component s r t a b) = t"
  "co_LastSuccessAt (component s r t a b) = normalizeEvidenceTime a t" "co_LastFailureAt (component s r t a b) = normalizeEvidenceTime b t"
  by (simp_all add: component_def)

text \<open>A component is healthy exactly when its observation is, and then no reason is given.\<close>

lemma database_healthy: "co_Status (databaseComponent i t) = ''healthy'' \<longleftrightarrow> ob_Status i = ''healthy''"
  by (simp add: databaseComponent_def)

lemma health_healthy: "co_Status (healthComponent i t u a f) = ''healthy'' \<longleftrightarrow> ob_Status i = ''healthy''"
  by (simp add: healthComponent_def)

lemma supervisor_healthy: "co_Status (supervisorComponent i t) = ''healthy'' \<longleftrightarrow> supervisorRunning (sv_Status i)"
  by (simp add: supervisorComponent_def supervisorRunning_def Let_def)

lemma supervisor_stopping: "co_Status (supervisorComponent i t) = ''stopping'' \<longleftrightarrow> isStopping (sv_Status i)"
  by (auto simp: supervisorComponent_def isStopping_def Let_def)

lemma codex_healthy: "co_Status (codexComponent i (usable i) t) = ''healthy'' \<longleftrightarrow> usable i"
  by (auto simp: codexComponent_def usable_def Let_def)

lemma account_healthy: "co_Status (accountComponent i t) = ''healthy'' \<longleftrightarrow> cx_Configured (in_Codex i) \<and> accountReady (ob_Status (in_Account i))"
  by (simp add: accountComponent_def accountReady_def Let_def)

lemma model_healthy: "co_Status (modelComponent i t) = ''healthy'' \<longleftrightarrow> cx_Configured (in_Codex i) \<and> ob_Status (in_Model i) = ''compatible''"
  by (simp add: modelComponent_def Let_def)

lemma reconciliation_status:
  "co_Status (healthComponent i t u a f) = ''unknown'' \<longleftrightarrow> \<not> knownHealthStatus (ob_Status i)"
  "co_Status (healthComponent i t u a f) = ''failed'' \<longleftrightarrow> ob_Status i = ''failed''"
  "co_Status (healthComponent i t u a f) = ''degraded'' \<longleftrightarrow> ob_Status i = ''attention''"
  by (simp_all add: healthComponent_def knownHealthStatus_def)

lemma database_failed: "co_Status (databaseComponent i t) = ''failed'' \<longleftrightarrow> ob_Status i = ''failed'' \<or> ob_Status i = ''unavailable''"
  by (simp add: databaseComponent_def)

lemma supervisor_exhausted: "co_Status (supervisorComponent i t) = ''exhausted'' \<longleftrightarrow> sv_Status i = ''exhausted''"
  by (auto simp: supervisorComponent_def Let_def)

lemmas component_status = database_healthy database_failed health_healthy supervisor_healthy supervisor_stopping supervisor_exhausted
  codex_healthy account_healthy model_healthy reconciliation_status

lemma codexReason_component: "\<not> usable i \<Longrightarrow> co_Reason (codexComponent i (usable i) t) = codexReason i"
  by (simp add: codexComponent_def codexReason_def codexNotConfiguredReason_def Let_def)

lemma supervisorReason_component: "\<not> supervisorRunning (sv_Status i) \<Longrightarrow> co_Reason (supervisorComponent i t) = supervisorReason (sv_Status i)"
  by (auto simp: supervisorComponent_def supervisorReason_def supervisorRunning_def Let_def)

lemma Evaluate_state:
  "(sh_State (Evaluate i), sh_Reason (Evaluate i)) =
     overallState i (sh_Components (Evaluate i)) (ob_Status (in_Database i) = ''healthy'')
       (ob_Status (in_Database i) \<notin> {''healthy'', ''failed'', ''unavailable''}) (coreReady i) (sh_Ready (Evaluate i)) (usable i)
       (isStopping (sv_Status (in_Supervisor i))) (sv_Status (in_Supervisor i) = ''exhausted'')"
proof -
  have core: "coreReady i = (ob_Status (in_Database i) = ''healthy'' \<and> ob_Status (in_Persistence i) = ''healthy'' \<and>
      knownHealthStatus (ob_Status (in_Persistence i)) \<and> knownHealthStatus (ob_Status (in_Reconciliation i)) \<and>
      ob_Status (in_Reconciliation i) \<noteq> ''failed'' \<and> \<not> isStopping (sv_Status (in_Supervisor i)))"
    by (auto simp: coreReady_def knownHealthStatus_def)
  show ?thesis unfolding core
    by (simp add: Evaluate_def Let_def usable_def isStopping_def split_def split del: if_split)
qed

definition componentList :: "HealthSnapshot \<Rightarrow> ComponentStatus list" where
  "componentList s = (let c = sh_Components s in
     [cs_Database c, cs_Persistence c, cs_Reconciliation c, cs_Supervisor c, cs_Codex c, cs_Account c, cs_Model c])"

lemma usable_running_state:
  assumes "coreReady i" "ob_Status (in_Reconciliation i) = ''healthy''" "usable i" "supervisorRunning (sv_Status (in_Supervisor i))"
  shows "sh_State (Evaluate i) = ''ready'' \<and> sh_Reason (Evaluate i) = ''healthy''"
proof -
  have "sh_Ready (Evaluate i)" using assms by (simp add: Evaluate_ready)
  then show ?thesis using Evaluate_state [of i] assms
    by (auto simp: overallState_def coreReady_def usable_def supervisorRunning_def knownHealthStatus_def knownSupervisorStatus_def Let_def)
qed

lemma not_running_state:
  assumes "\<not> supervisorRunning s" "\<not> isStopping s" "s \<noteq> ''exhausted''" "s \<noteq> ''recovering''" "s \<noteq> ''degraded''"
  shows "\<not> knownSupervisorStatus s \<or> s = ''starting''"
  using assms by (auto simp: supervisorRunning_def isStopping_def knownSupervisorStatus_def)

text \<open>
  The component that is to blame when the supervisor neither stops the service nor exhausts a required Codex. The
  components are asked in the order of the source.
\<close>

definition serving :: "Input \<Rightarrow> bool" where
  "serving i = (\<not> isStopping (sv_Status (in_Supervisor i)) \<and> \<not> (sv_Status (in_Supervisor i) = ''exhausted'' \<and> cx_Required (in_Codex i)))"

definition passable :: "gostring \<Rightarrow> bool" where
  "passable status = (status = ''healthy'' \<or> status = ''attention'')"

lemma passable_known: "passable s \<Longrightarrow> knownHealthStatus s" "passable s \<Longrightarrow> s \<noteq> ''failed''"
  by (auto simp: passable_def knownHealthStatus_def)

lemma blamed_database:
  assumes "serving i" "ob_Status (in_Database i) \<noteq> ''healthy''"
  shows "sh_State (Evaluate i) \<noteq> ''ready'' \<and> sh_Reason (Evaluate i) = co_Reason (databaseComponent (in_Database i) t) \<and>
    sh_Reason (Evaluate i) \<noteq> ''healthy''"
  using Evaluate_state [of i] assms
  by (cases "sv_Status (in_Supervisor i) = ''exhausted''"; cases "ob_Status (in_Database i) = ''failed''"; cases "ob_Status (in_Database i) = ''unavailable''")
     (simp_all add: overallState_def serving_def databaseComponent_def Let_def)

lemma blamed_persistence:
  assumes "serving i" "ob_Status (in_Database i) = ''healthy''" "\<not> passable (ob_Status (in_Persistence i))"
  shows "sh_State (Evaluate i) \<noteq> ''ready'' \<and> sh_Reason (Evaluate i) =
    co_Reason (healthComponent (in_Persistence i) t ''persistence_unknown'' ''persistence_attention'' ''persistence_failed'') \<and>
    sh_Reason (Evaluate i) \<noteq> ''healthy''"
  using Evaluate_state [of i] assms
  by (cases "sv_Status (in_Supervisor i) = ''exhausted''"; cases "ob_Status (in_Persistence i) = ''failed''")
     (simp_all add: overallState_def serving_def healthComponent_def passable_def knownHealthStatus_def Let_def)

lemma blamed_reconciliation:
  assumes "serving i" "ob_Status (in_Database i) = ''healthy''" "passable (ob_Status (in_Persistence i))"
    "\<not> passable (ob_Status (in_Reconciliation i))"
  shows "sh_State (Evaluate i) \<noteq> ''ready'' \<and> sh_Reason (Evaluate i) =
    co_Reason (healthComponent (in_Reconciliation i) t ''reconciliation_unknown'' ''reconciliation_attention'' ''reconciliation_failed'') \<and>
    sh_Reason (Evaluate i) \<noteq> ''healthy''"
  using Evaluate_state [of i] assms passable_known [OF assms(3)]
  by (cases "sv_Status (in_Supervisor i) = ''exhausted''"; cases "ob_Status (in_Reconciliation i) = ''failed''")
     (simp_all add: overallState_def serving_def healthComponent_def passable_def [of "ob_Status (in_Reconciliation i)"]
        knownHealthStatus_def [of "ob_Status (in_Reconciliation i)"] Let_def)

lemma blamed_supervisor:
  assumes "serving i" "ob_Status (in_Database i) = ''healthy''" "passable (ob_Status (in_Persistence i))"
    "passable (ob_Status (in_Reconciliation i))" "cx_Configured (in_Codex i)" "\<not> supervisorRunning (sv_Status (in_Supervisor i))"
  shows "sh_State (Evaluate i) \<noteq> ''ready'' \<and> sh_Reason (Evaluate i) = supervisorReason (sv_Status (in_Supervisor i))"
proof -
  let ?sv = "sv_Status (in_Supervisor i)"
  have "\<not> isStopping ?sv" using assms(1) by (simp add: serving_def)
  from not_running_state [OF assms(6) this]
  consider "\<not> knownSupervisorStatus ?sv" | "?sv = ''starting''" | "?sv = ''exhausted''" | "?sv = ''recovering''" | "?sv = ''degraded''"
    by blast
  then show ?thesis
    using Evaluate_state [of i] assms(1,2,5) passable_known [OF assms(3)] passable_known [OF assms(4)]
    by cases (simp_all add: overallState_def serving_def supervisorReason_def knownSupervisorStatus_def Let_def)
qed

lemma running_settled:
  assumes "\<not> c \<or> supervisorRunning s"
  shows "\<not> (c \<and> (\<not> knownSupervisorStatus s \<or> s = ''starting''))" "\<not> (c \<and> s = ''degraded'')"
    "\<not> (c \<and> s = ''recovering'')" "\<not> (c \<and> s = ''exhausted'')"
  using assms by (auto simp: supervisorRunning_def knownSupervisorStatus_def)

lemma blamed_codex:
  assumes "serving i" "ob_Status (in_Database i) = ''healthy''" "passable (ob_Status (in_Persistence i))"
    "passable (ob_Status (in_Reconciliation i))" "\<not> cx_Configured (in_Codex i) \<or> supervisorRunning (sv_Status (in_Supervisor i))"
  shows "ob_Status (in_Reconciliation i) = ''attention'' \<Longrightarrow>
      sh_State (Evaluate i) = ''degraded'' \<and> sh_Reason (Evaluate i) = ''reconciliation_attention''"
    and "ob_Status (in_Reconciliation i) \<noteq> ''attention'' \<Longrightarrow> ob_Status (in_Persistence i) = ''attention'' \<Longrightarrow>
      sh_State (Evaluate i) = ''degraded'' \<and> sh_Reason (Evaluate i) = ''persistence_attention''"
    and "ob_Status (in_Reconciliation i) \<noteq> ''attention'' \<Longrightarrow> ob_Status (in_Persistence i) \<noteq> ''attention'' \<Longrightarrow> \<not> usable i \<Longrightarrow>
      sh_State (Evaluate i) = ''degraded'' \<and> sh_Reason (Evaluate i) = codexReason i"
  using Evaluate_state [of i] assms(1,2) passable_known [OF assms(3)] passable_known [OF assms(4)] running_settled [OF assms(5)]
  by (cases "sv_Status (in_Supervisor i) = ''exhausted''"; cases "cx_Configured (in_Codex i)";
      simp add: overallState_def serving_def Let_def)+

lemma unusable_reason: "\<not> usable i \<Longrightarrow> codexReason i \<noteq> ''healthy''"
  by (auto simp: codexReason_def usable_def codexNotConfiguredReason_def Let_def)

lemma blamed_serving:
  assumes "serving i"
    and "\<not> (coreReady i \<and> ob_Status (in_Reconciliation i) = ''healthy'' \<and> usable i \<and> supervisorRunning (sv_Status (in_Supervisor i)))"
  shows "sh_State (Evaluate i) \<noteq> ''ready'' \<and> (\<exists>c \<in> set (componentList (Evaluate i)).
    co_Status c \<noteq> ''healthy'' \<and> co_Reason c = sh_Reason (Evaluate i) \<and> sh_Reason (Evaluate i) \<noteq> ''healthy'')"
proof -
  let ?db = "ob_Status (in_Database i)" and ?p = "ob_Status (in_Persistence i)" and ?r = "ob_Status (in_Reconciliation i)"
  let ?sv = "sv_Status (in_Supervisor i)" and ?l = "set (componentList (Evaluate i))" and ?t = "in_ObservedAt i"
  let ?hp = "healthComponent (in_Persistence i) ?t ''persistence_unknown'' ''persistence_attention'' ''persistence_failed''"
  let ?hr = "healthComponent (in_Reconciliation i) ?t ''reconciliation_unknown'' ''reconciliation_attention'' ''reconciliation_failed''"
  have named: "databaseComponent (in_Database i) ?t \<in> ?l" "?hp \<in> ?l" "?hr \<in> ?l" "supervisorComponent (in_Supervisor i) ?t \<in> ?l"
    "codexComponent i (usable i) ?t \<in> ?l"
    by (simp_all add: componentList_def Evaluate_components Let_def)
  consider (db) "?db \<noteq> ''healthy''" | (p) "?db = ''healthy''" "\<not> passable ?p" | (r) "?db = ''healthy''" "passable ?p" "\<not> passable ?r"
    | (sv) "?db = ''healthy''" "passable ?p" "passable ?r" "cx_Configured (in_Codex i)" "\<not> supervisorRunning ?sv"
    | (cx) "?db = ''healthy''" "passable ?p" "passable ?r" "\<not> cx_Configured (in_Codex i) \<or> supervisorRunning ?sv"
    by blast
  then show ?thesis
  proof cases
    case db
    with blamed_database [OF assms(1) db, of ?t] show ?thesis by (intro conjI bexI [OF _ named(1)]) (auto simp: database_healthy)
  next
    case p
    with blamed_persistence [OF assms(1) p, of ?t] show ?thesis
      by (intro conjI bexI [OF _ named(2)]) (auto simp: health_healthy passable_def)
  next
    case r
    with blamed_reconciliation [OF assms(1) r, of ?t] show ?thesis
      by (intro conjI bexI [OF _ named(3)]) (auto simp: health_healthy passable_def)
  next
    case sv
    have "supervisorReason ?sv \<noteq> ''healthy''" by (simp add: supervisorReason_def)
    with blamed_supervisor [OF assms(1) sv] supervisorReason_component [OF sv(5)] sv(5) show ?thesis
      by (intro conjI bexI [OF _ named(4)]) (auto simp: supervisor_healthy)
  next
    case cx
    note st = blamed_codex [OF assms(1) cx]
    consider "?r = ''attention''" | "?r \<noteq> ''attention''" "?p = ''attention''" | "?r \<noteq> ''attention''" "?p \<noteq> ''attention''" by blast
    then show ?thesis
    proof cases
      case 1
      then have "co_Status ?hr \<noteq> ''healthy''" "co_Reason ?hr = ''reconciliation_attention''" by (simp_all add: healthComponent_def)
      with st(1) [OF 1] show ?thesis by (intro conjI bexI [OF _ named(3)]) auto
    next
      case 2
      then have "co_Status ?hp \<noteq> ''healthy''" "co_Reason ?hp = ''persistence_attention''" by (simp_all add: healthComponent_def)
      with st(2) [OF 2] show ?thesis by (intro conjI bexI [OF _ named(2)]) auto
    next
      case 3
      then have no: "\<not> usable i"
        using cx assms by (auto simp: coreReady_def passable_def serving_def usable_def)
      with st(3) [OF 3 no] unusable_reason [OF no] codexReason_component [OF no, of ?t] codex_healthy [of i ?t]
      show ?thesis by (intro conjI bexI [OF _ named(5)]) auto
    qed
  qed
qed

lemma blamed_component:
  assumes "\<not> (coreReady i \<and> ob_Status (in_Reconciliation i) = ''healthy'' \<and> usable i \<and> supervisorRunning (sv_Status (in_Supervisor i)))"
  shows "sh_State (Evaluate i) \<noteq> ''ready'' \<and> (\<exists>c \<in> set (componentList (Evaluate i)).
    co_Status c \<noteq> ''healthy'' \<and> co_Reason c = sh_Reason (Evaluate i) \<and> sh_Reason (Evaluate i) \<noteq> ''healthy'')"
proof (cases "serving i")
  case False
  let ?sv = "sv_Status (in_Supervisor i)"
  have "supervisorComponent (in_Supervisor i) (in_ObservedAt i) \<in> set (componentList (Evaluate i))"
    by (simp add: componentList_def Evaluate_components Let_def)
  moreover have "\<not> supervisorRunning ?sv" using False by (auto simp: serving_def isStopping_def supervisorRunning_def)
  moreover have "sh_State (Evaluate i) \<noteq> ''ready''" "sh_Reason (Evaluate i) = supervisorReason ?sv" "supervisorReason ?sv \<noteq> ''healthy''"
    using Evaluate_state [of i] False
    by (auto simp: overallState_def serving_def isStopping_def supervisorReason_def Let_def split: if_splits)
  ultimately show ?thesis by (metis supervisor_healthy supervisorReason_component)
qed (rule blamed_serving [OF _ assms])

text \<open>
  Property C40. The service is said to be ready exactly when all seven components are healthy, and exactly then the
  scheduler may start work; otherwise the reason that is given is that of a component that is not healthy.
\<close>

theorem ready_iff_all_healthy:
  "(sh_State (Evaluate i) = ''ready'') = list_all (\<lambda>c. co_Status c = ''healthy'') (componentList (Evaluate i)) \<and>
   sh_SchedulerEligible (Evaluate i) = (sh_State (Evaluate i) = ''ready'') \<and>
   (if sh_State (Evaluate i) = ''ready'' then sh_Reason (Evaluate i) = ''healthy''
    else \<exists>c \<in> set (componentList (Evaluate i)). co_Status c \<noteq> ''healthy'' \<and> co_Reason c = sh_Reason (Evaluate i) \<and>
           sh_Reason (Evaluate i) \<noteq> ''healthy'')"
proof -
  let ?all = "coreReady i \<and> ob_Status (in_Reconciliation i) = ''healthy'' \<and> usable i \<and> supervisorRunning (sv_Status (in_Supervisor i))"
  have "list_all (\<lambda>c. co_Status c = ''healthy'') (componentList (Evaluate i)) =
      (ob_Status (in_Database i) = ''healthy'' \<and> ob_Status (in_Persistence i) = ''healthy'' \<and> ob_Status (in_Reconciliation i) = ''healthy'' \<and>
       supervisorRunning (sv_Status (in_Supervisor i)) \<and> usable i)"
    by (auto simp: componentList_def Evaluate_components component_status Let_def) (simp_all add: usable_def)
  then have all: "?all = list_all (\<lambda>c. co_Status c = ''healthy'') (componentList (Evaluate i))"
    by (auto simp: coreReady_def isStopping_def supervisorRunning_def)
  show ?thesis
  proof (cases ?all)
    case True
    then show ?thesis using usable_running_state [of i] all by (simp add: Evaluate_scheduler)
  next
    case False
    from blamed_component [OF this] all False show ?thesis by (simp add: Evaluate_scheduler)
  qed
qed

text \<open>
  What a snapshot decides can be read off the states of its components. The service is live when the
  database is healthy, the supervisor is not stopping and the persistence has not failed. It is ready when moreover the
  persistence is healthy, the reconciliation healthy or in need of attention, and, if Codex is required, Codex and its
  supervisor are healthy: an optional Codex has no part in it, nor in the feeding of the watchdog.
\<close>

lemma readiness_from_components:
  fixes i :: Input
  defines "c \<equiv> \<lambda>name. co_Status (GetComponent name (sh_Components (Evaluate i)))"
  shows "sh_Live (Evaluate i) = (c ''database'' = ''healthy'' \<and> c ''supervisor'' \<noteq> ''stopping'' \<and> c ''persistence'' \<noteq> ''failed'') \<and>
    sh_Ready (Evaluate i) = (c ''database'' = ''healthy'' \<and> c ''persistence'' = ''healthy'' \<and>
      c ''reconciliation'' \<in> {''healthy'', ''degraded''} \<and> c ''supervisor'' \<noteq> ''stopping'' \<and>
      (if cx_Required (in_Codex i) then c ''codex'' = ''healthy'' \<and> c ''supervisor'' = ''healthy'' else True)) \<and>
    sh_WatchdogEligible (Evaluate i) = (c ''database'' = ''healthy'' \<and> c ''persistence'' = ''healthy'' \<and>
      c ''reconciliation'' \<in> {''healthy'', ''degraded''} \<and> c ''supervisor'' \<noteq> ''stopping'' \<and>
      (if cx_Required (in_Codex i) then c ''supervisor'' = ''healthy'' else True))"
  unfolding c_def
  by (simp add: GetComponent_def Evaluate_components component_status Evaluate_live Evaluate_ready Evaluate_watchdog coreReady_def)

text \<open>No time of a snapshot lies after the observation it belongs to.\<close>

lemma normalizeEvidenceTime_le: "zeroTime \<le> t \<Longrightarrow> t \<noteq> zeroTime \<Longrightarrow> normalizeEvidenceTime v t \<le> t"
  by (simp add: normalizeEvidenceTime_def normalizeTime_def)

lemma foldl_latest_le: "a \<le> t \<Longrightarrow> list_all (\<lambda>c. f c \<le> t) cs \<Longrightarrow> foldl (\<lambda>t c. latest t (f c)) a cs \<le> t"
  by (induction cs arbitrary: a) (simp_all add: latest_def)

lemma component_times [simp]:
  "co_ObservedAt (databaseComponent o1 t) = t" "co_ObservedAt (healthComponent o1 t u a f) = t"
  "co_ObservedAt (supervisorComponent o2 t) = t" "co_ObservedAt (codexComponent i b t) = t"
  "co_ObservedAt (accountComponent i t) = t" "co_ObservedAt (modelComponent i t) = t"
  "co_LastSuccessAt (databaseComponent o1 t) = normalizeEvidenceTime (ob_LastSuccessAt o1) t"
  "co_LastSuccessAt (healthComponent o1 t u a f) = normalizeEvidenceTime (ob_LastSuccessAt o1) t"
  "co_LastSuccessAt (supervisorComponent o2 t) = normalizeEvidenceTime (sv_LastSuccessAt o2) t"
  "co_LastSuccessAt (codexComponent i b t) = normalizeEvidenceTime (cx_LastSuccessAt (in_Codex i)) t"
  "co_LastSuccessAt (accountComponent i t) = normalizeEvidenceTime (ob_LastSuccessAt (in_Account i)) t"
  "co_LastSuccessAt (modelComponent i t) = normalizeEvidenceTime (ob_LastSuccessAt (in_Model i)) t"
  "co_LastFailureAt (databaseComponent o1 t) = normalizeEvidenceTime (ob_LastFailureAt o1) t"
  "co_LastFailureAt (healthComponent o1 t u a f) = normalizeEvidenceTime (ob_LastFailureAt o1) t"
  "co_LastFailureAt (supervisorComponent o2 t) = normalizeEvidenceTime (sv_LastFailureAt o2) t"
  "co_LastFailureAt (codexComponent i b t) = normalizeEvidenceTime (cx_LastFailureAt (in_Codex i)) t"
  "co_LastFailureAt (accountComponent i t) = normalizeEvidenceTime (ob_LastFailureAt (in_Account i)) t"
  "co_LastFailureAt (modelComponent i t) = normalizeEvidenceTime (ob_LastFailureAt (in_Model i)) t"
  by (simp_all add: databaseComponent_def healthComponent_def supervisorComponent_def codexComponent_def accountComponent_def
      modelComponent_def Let_def)

lemma evidence_not_later:
  assumes "zeroTime < in_ObservedAt i"
  shows "list_all (\<lambda>c. co_ObservedAt c = in_ObservedAt i \<and> co_LastSuccessAt c \<le> in_ObservedAt i \<and> co_LastFailureAt c \<le> in_ObservedAt i)
      (componentList (Evaluate i))"
    and "sh_LastSuccessAt (Evaluate i) \<le> in_ObservedAt i" "sh_LastFailureAt (Evaluate i) \<le> in_ObservedAt i"
proof -
  have le: "normalizeEvidenceTime v (in_ObservedAt i) \<le> in_ObservedAt i" for v
    using assms by (intro normalizeEvidenceTime_le) auto
  then show "list_all (\<lambda>c. co_ObservedAt c = in_ObservedAt i \<and> co_LastSuccessAt c \<le> in_ObservedAt i \<and> co_LastFailureAt c \<le> in_ObservedAt i)
      (componentList (Evaluate i))"
    by (simp add: componentList_def Evaluate_components Let_def)
  have n: "normalizeTime (in_ObservedAt i) = in_ObservedAt i" by (simp add: normalizeTime_def)
  show "sh_LastSuccessAt (Evaluate i) \<le> in_ObservedAt i" "sh_LastFailureAt (Evaluate i) \<le> in_ObservedAt i"
    unfolding Evaluate_def Let_def n split_def HealthSnapshot.select_convs
    by (intro foldl_latest_le le; simp add: le)+
qed

end
