(* ===== verification/Health_Monitor.thy ===== *)
theory Health_Monitor
  imports Runtime_Health Archaeology_Persistence
begin

text \<open>
  The monitor of the runtime health, \<^verbatim>\<open>src/internal/server/runtime_health.go\<close>. One goroutine probes the database, the
  ledger, the supervisor of Codex, the account and the model, evaluates the result and publishes it in one piece with the
  record of the recovery. What the probes answer is a record \<open>probe_answers\<close>, an argument of \<open>probe\<close>: \<open>None\<close> where
  the probe is not installed, \<open>Inl\<close> where it fails. The probe of the store reads the ledger of \<open>Archaeology_Persistence\<close>;
  the probe of the client reads the snapshot of the supervised process. The context and the time limit of a probe are part of the
  answers. The goroutines, their channels and the once-guards around them are not modelled; one turn of the watcher of
  state changes is \<open>watchStep\<close>.
\<close>

section \<open>Data\<close>

record runtimePersistenceResult =
  rp_Healthy :: bool
  rp_Reconciliation :: gostring
  rp_Uncertain :: nat
  rp_PersistenceAttention :: bool
  rp_PersistenceFault :: bool

record runtimeSupervisorResult =
  rs_Configured :: bool
  rs_Available :: bool
  rs_Generation :: "64 word"
  rs_State :: gostring
  rs_Attempts :: int
  rs_MaxAttempts :: int
  rs_NextRetryAt :: time
  rs_LastHealthyAt :: time
  rs_RecoveryActive :: bool
  rs_RecoverySince :: time
  rs_RecoveryExhausted :: bool

definition zero_supervisor :: runtimeSupervisorResult where
  "zero_supervisor = \<lparr>rs_Configured = False, rs_Available = False, rs_Generation = 0, rs_State = '''', rs_Attempts = 0,
     rs_MaxAttempts = 0, rs_NextRetryAt = zeroTime, rs_LastHealthyAt = zeroTime, rs_RecoveryActive = False,
     rs_RecoverySince = zeroTime, rs_RecoveryExhausted = False\<rparr>"

record runtimeHealthMeta =
  hm_readyLatched :: bool
  hm_recoverySince :: time
  hm_recoveryActive :: bool
  hm_recoveryExhausted :: bool

record runtimeHealthOptions =
  ho_RequiredCodex :: bool
  ho_CodexConfigured :: bool
  ho_Interval :: duration
  ho_ProbeTimeout :: duration
  ho_RecoveryGrace :: duration

record probe_answers =
  pw_DB :: "(unit + unit) option"
  pw_Persistence :: "(unit + runtimePersistenceResult) option"
  pw_Supervisor :: "(runtimeSupervisorResult \<times> bool) option" \<comment> \<open>the result, and whether there was an error\<close>
  pw_Account :: "(unit + gostring) option"
  pw_Compatibility :: "(unit + bool) option"

record runtimePublication =
  pb_snapshot :: HealthSnapshot
  pb_meta :: runtimeHealthMeta
  pb_supervisor :: runtimeSupervisorResult

record runtimeHealthMonitor =
  mo_options :: runtimeHealthOptions
  mo_publication :: runtimePublication
  mo_readyClosed :: bool
  mo_cacheGeneration :: "64 word"
  mo_cacheValid :: bool
  mo_cachedAccount :: gostring
  mo_cachedModel :: gostring

datatype callback = OnSnapshot HealthSnapshot | OnSchedulerReady

section \<open>Construction\<close>

definition MonitorSecond :: duration where
  "MonitorSecond = 1000000000"

definition zero_observation :: "gostring \<Rightarrow> Observation" where
  "zero_observation status = \<lparr>ob_Status = status, ob_LastSuccessAt = zeroTime, ob_LastFailureAt = zeroTime\<rparr>"

definition codexObservation :: "runtimeHealthOptions \<Rightarrow> CodexObservation" where
  "codexObservation options = \<lparr>cx_Configured = ho_CodexConfigured options, cx_Required = ho_RequiredCodex options, cx_Available = False,
     cx_LastSuccessAt = zeroTime, cx_LastFailureAt = zeroTime\<rparr>"

definition newRuntimeHealthMonitor :: "runtimeHealthOptions \<Rightarrow> runtimeHealthMonitor" where
  "newRuntimeHealthMonitor options =
     (let options = (if ho_Interval options \<le> 0 then options\<lparr>ho_Interval := 5 * MonitorSecond\<rparr> else options);
          options = (if ho_ProbeTimeout options \<le> 0 then options\<lparr>ho_ProbeTimeout := 2 * MonitorSecond\<rparr> else options);
          options = (if ho_RecoveryGrace options \<le> 0 then options\<lparr>ho_RecoveryGrace := 30 * MonitorSecond\<rparr> else options);
          initial = Evaluate \<lparr>in_ObservedAt = zeroTime, in_Database = zero_observation '''', in_Codex = codexObservation options,
            in_Supervisor = \<lparr>sv_Status = '''', sv_Generation = 0, sv_LastSuccessAt = zeroTime, sv_LastFailureAt = zeroTime\<rparr>,
            in_Account = zero_observation '''', in_Model = zero_observation '''', in_Reconciliation = zero_observation '''',
            in_Persistence = zero_observation '''', in_LastSuccessAt = zeroTime, in_LastFailureAt = zeroTime\<rparr> in
      \<lparr>mo_options = options,
       mo_publication = \<lparr>pb_snapshot = initial,
         pb_meta = \<lparr>hm_readyLatched = False, hm_recoverySince = zeroTime, hm_recoveryActive = False, hm_recoveryExhausted = False\<rparr>,
         pb_supervisor = zero_supervisor\<rparr>,
       mo_readyClosed = False, mo_cacheGeneration = 0, mo_cacheValid = False, mo_cachedAccount = '''', mo_cachedModel = ''''\<rparr>)"

section \<open>The watcher of state changes\<close>

definition defaultStateChangeBackoff :: duration where
  "defaultStateChangeBackoff = 10000000"

definition maxStateChangeBackoff :: duration where
  "maxStateChangeBackoff = MonitorSecond"

definition nextStateChangeBackoff :: "duration \<Rightarrow> duration" where
  "nextStateChangeBackoff delay =
     (if delay \<le> 0 then defaultStateChangeBackoff
      else if delay \<ge> maxStateChangeBackoff div 2 then maxStateChangeBackoff
      else delay * 2)"

text \<open>What the watcher finds of the channel it subscribed to: closed or with a value at once, or only after waiting.\<close>

datatype change_signal = Closed_at_once | Value_at_once | Signal_after_wait

text \<open>One turn of the loop triggers a probe; it yields how long it pauses before it subscribes again, and the next backoff.\<close>

definition watchStep :: "change_signal \<Rightarrow> duration \<Rightarrow> duration option \<times> duration" where
  "watchStep signal backoff =
     (case signal of
        Closed_at_once \<Rightarrow> (Some backoff, nextStateChangeBackoff backoff)
      | Value_at_once \<Rightarrow> (None, defaultStateChangeBackoff)
      | Signal_after_wait \<Rightarrow> (None, defaultStateChangeBackoff))"

section \<open>The probe\<close>

definition supervisorRunningObservation :: "gostring \<Rightarrow> bool" where
  "supervisorRunningObservation status = (status = ''running'' \<or> status = ''available'')"

definition clampRuntimeTimestamp :: "time \<Rightarrow> time \<Rightarrow> time" where
  "clampRuntimeTimestamp value observedAt =
     (if value = zeroTime then zeroTime else if observedAt \<noteq> zeroTime \<and> observedAt < value then observedAt else value)"

definition clampRecoveryTimestamp :: "time \<Rightarrow> time \<Rightarrow> gostring \<Rightarrow> time" where
  "clampRecoveryTimestamp value observedAt status =
     (let value = clampRuntimeTimestamp value observedAt in
      if value \<noteq> zeroTime then value
      else if observedAt \<noteq> zeroTime \<and> (status = ''degraded'' \<or> status = ''recovering'' \<or> status = ''exhausted'') then observedAt
      else zeroTime)"

definition runtimeSupervisorObservation :: "runtimeSupervisorResult \<Rightarrow> bool \<Rightarrow> time \<Rightarrow> SupervisorObservation" where
  "runtimeSupervisorObservation value probeErr observedAt =
     (let st = rs_State value;
          status = (if st = ''starting'' then ''starting''
            else if st = ''available'' then ''available''
            else if st = ''degraded'' then ''degraded''
            else if st = ''recovering'' then ''recovering''
            else if st = ''exhausted'' then ''exhausted''
            else if st = ''closed'' then ''closed''
            else if rs_RecoveryExhausted value then ''exhausted''
            else if rs_RecoveryActive value then ''recovering''
            else if rs_Available value then ''available''
            else if probeErr then ''recovering''
            else ''starting'') in
      \<lparr>sv_Status = status, sv_Generation = rs_Generation value,
       sv_LastSuccessAt = clampRuntimeTimestamp (rs_LastHealthyAt value) observedAt,
       sv_LastFailureAt = clampRecoveryTimestamp (rs_RecoverySince value) observedAt status\<rparr>)"

definition accountObservation :: "gostring \<Rightarrow> gostring" where
  "accountObservation state =
     (if state = ''signed_in'' then ''ready'' else if state = ''signed_out'' then ''not_ready'' else ''unknown'')"

definition modelObservation :: "gostring \<Rightarrow> gostring" where
  "modelObservation value =
     (if value = ''compatible'' then ''compatible''
      else if value = ''incompatible'' then ''incompatible''
      else if value = ''unavailable'' then ''unavailable''
      else ''unknown'')"

definition probeCodexForGeneration ::
  "probe_answers \<Rightarrow> 64 word \<Rightarrow> HealthSnapshot \<Rightarrow> runtimeHealthMonitor \<Rightarrow> (gostring \<times> gostring) \<times> runtimeHealthMonitor" where
  "probeCodexForGeneration w generation previous m =
     (let modelCached = (mo_cacheValid m \<and> mo_cacheGeneration m = generation \<and> sh_Generation previous = generation);
          m = (if modelCached then m else m\<lparr>mo_cacheGeneration := generation, mo_cacheValid := True, mo_cachedModel := ''unknown''\<rparr>);
          m = m\<lparr>mo_cachedAccount := ''unknown''\<rparr>;
          m = (case pw_Account w of Some (Inr state) \<Rightarrow> m\<lparr>mo_cachedAccount := state\<rparr> | _ \<Rightarrow> m);
          m = (if modelCached then m
               else case pw_Compatibility w of
                 None \<Rightarrow> m
               | Some (Inl _) \<Rightarrow> m\<lparr>mo_cachedModel := ''unavailable''\<rparr>
               | Some (Inr supported) \<Rightarrow> m\<lparr>mo_cachedModel := (if supported then ''compatible'' else ''incompatible'')\<rparr>) in
      ((accountObservation (mo_cachedAccount m), modelObservation (mo_cachedModel m)), m))"

definition databaseStatus :: "(unit + unit) option \<Rightarrow> gostring" where
  "databaseStatus a = (case a of None \<Rightarrow> ''unknown'' | Some (Inr _) \<Rightarrow> ''healthy'' | Some (Inl _) \<Rightarrow> ''unavailable'')"

definition persistenceStatus :: "(unit + runtimePersistenceResult) option \<Rightarrow> gostring \<times> gostring" where
  "persistenceStatus a =
     (case a of
        None \<Rightarrow> (''unknown'', ''unknown'')
      | Some (Inl _) \<Rightarrow> (''failed'', ''failed'')
      | Some (Inr value) \<Rightarrow>
          (let persistence = (if rp_PersistenceFault value then ''failed''
                 else if rp_PersistenceAttention value then ''attention''
                 else if rp_Healthy value then ''healthy''
                 else ''unknown'');
               reconciliation = (if rp_Reconciliation value = ''healthy'' then ''healthy''
                 else if rp_Reconciliation value = ''attention'' then ''attention''
                 else if rp_Reconciliation value = ''failed'' then ''failed''
                 else ''unknown'');
               reconciliation = (if 0 < rp_Uncertain value \<and> reconciliation = ''healthy'' then ''attention'' else reconciliation) in
           (persistence, reconciliation)))"

text \<open>The part of the probe that looks at Codex: the observations, the result that is published and the cache.\<close>

definition probeCodex :: "probe_answers \<Rightarrow> HealthSnapshot \<Rightarrow> time \<Rightarrow> runtimeHealthMonitor \<Rightarrow>
  (CodexObservation \<times> SupervisorObservation \<times> gostring \<times> gostring \<times> runtimeSupervisorResult) \<times> runtimeHealthMonitor" where
  "probeCodex w previous now m =
     (let options = mo_options m;
          codex = codexObservation options;
          supervisor = \<lparr>sv_Status = ''unknown'', sv_Generation = 0, sv_LastSuccessAt = zeroTime, sv_LastFailureAt = zeroTime\<rparr>;
          result = zero_supervisor\<lparr>rs_Configured := ho_CodexConfigured options\<rparr> in
      if \<not> ho_CodexConfigured options then
        ((codex, supervisor\<lparr>sv_Status := ''running''\<rparr>, ''unknown'', ''unknown'', result\<lparr>rs_State := ''available''\<rparr>), m)
      else
        (case pw_Supervisor w of
           None \<Rightarrow> ((codex, supervisor\<lparr>sv_Status := ''starting''\<rparr>, ''unknown'', ''unknown'', result), m\<lparr>mo_cacheValid := False\<rparr>)
         | Some (value, err) \<Rightarrow>
             (let supervisor = runtimeSupervisorObservation value err now;
                  result = value\<lparr>rs_RecoverySince := sv_LastFailureAt supervisor, rs_LastHealthyAt := sv_LastSuccessAt supervisor\<rparr>;
                  running = supervisorRunningObservation (sv_Status supervisor);
                  codex = codex\<lparr>cx_Available := running \<and> rs_Available value,
                    cx_LastSuccessAt := sv_LastSuccessAt supervisor, cx_LastFailureAt := sv_LastFailureAt supervisor\<rparr> in
              if running then
                (case probeCodexForGeneration w (sv_Generation supervisor) previous m of
                   ((account, model), m') \<Rightarrow> ((codex, supervisor, account, model, result), m'))
              else ((codex, supervisor, ''unknown'', ''unknown'', result), m\<lparr>mo_cacheValid := False\<rparr>))))"

definition probe :: "probe_answers \<Rightarrow> HealthSnapshot \<Rightarrow> time \<Rightarrow> runtimeHealthMonitor \<Rightarrow> (HealthSnapshot \<times> runtimeSupervisorResult) \<times> runtimeHealthMonitor" where
  "probe w previous now m =
     (let (persistence, reconciliation) = persistenceStatus (pw_Persistence w);
          ((codex, supervisor, account, model, result), m') = probeCodex w previous now m in
      ((Evaluate \<lparr>in_ObservedAt = now, in_Database = zero_observation (databaseStatus (pw_DB w)), in_Codex = codex,
          in_Supervisor = supervisor, in_Account = zero_observation account, in_Model = zero_observation model,
          in_Reconciliation = zero_observation reconciliation, in_Persistence = zero_observation persistence,
          in_LastSuccessAt = zeroTime, in_LastFailureAt = zeroTime\<rparr>, result), m'))"

section \<open>The publication\<close>

definition RuntimeSnapshot :: "runtimeHealthMonitor \<Rightarrow> HealthSnapshot" where
  "RuntimeSnapshot m = pb_snapshot (mo_publication m)"

definition metaSnapshot :: "runtimeHealthMonitor \<Rightarrow> runtimeHealthMeta" where
  "metaSnapshot m = pb_meta (mo_publication m)"

definition supervisorSnapshot :: "runtimeHealthMonitor \<Rightarrow> runtimeSupervisorResult" where
  "supervisorSnapshot m = pb_supervisor (mo_publication m)"

text \<open>The start of a recovery is kept once it is set; it is that of the supervisor, or else the time of the probe.\<close>

definition recoveryStart :: "time \<Rightarrow> runtimeSupervisorResult \<Rightarrow> time \<Rightarrow> time" where
  "recoveryStart since supervisor now =
     (if since = zeroTime then if rs_RecoverySince supervisor = zeroTime then now else rs_RecoverySince supervisor else since)"

definition nextMeta :: "runtimeHealthOptions \<Rightarrow> time \<Rightarrow> HealthSnapshot \<Rightarrow> runtimeSupervisorResult \<Rightarrow> runtimeHealthMeta \<Rightarrow> runtimeHealthMeta" where
  "nextMeta options now snapshot supervisor meta =
     (let meta = (if sh_Ready snapshot then meta\<lparr>hm_readyLatched := True\<rparr> else meta) in
      if co_Status (cs_Codex (sh_Components snapshot)) = ''healthy'' then
        meta\<lparr>hm_recoverySince := zeroTime, hm_recoveryActive := False, hm_recoveryExhausted := False\<rparr>
      else if sh_State snapshot = ''exhausted'' \<or> co_Status (cs_Supervisor (sh_Components snapshot)) = ''exhausted'' then
        meta\<lparr>hm_recoverySince := recoveryStart (hm_recoverySince meta) supervisor now,
          hm_recoveryActive := True, hm_recoveryExhausted := True\<rparr>
      else if hm_readyLatched meta \<and> ho_CodexConfigured options then
        (let since = recoveryStart (hm_recoverySince meta) supervisor now in
         meta\<lparr>hm_recoverySince := since, hm_recoveryActive := True,
           hm_recoveryExhausted := now - since \<ge> ho_RecoveryGrace options\<rparr>)
      else meta)"

definition probeAndPublish :: "probe_answers \<Rightarrow> time \<Rightarrow> runtimeHealthMonitor \<Rightarrow> callback list \<times> runtimeHealthMonitor" where
  "probeAndPublish w now m =
     (let previous = RuntimeSnapshot m;
          ((snapshot, supervisor), m') = probe w previous now m;
          meta = nextMeta (mo_options m) now snapshot supervisor (metaSnapshot m) in
      (OnSnapshot snapshot # (if \<not> sh_SchedulerEligible previous \<and> sh_SchedulerEligible snapshot then [OnSchedulerReady] else []),
       m'\<lparr>mo_publication := \<lparr>pb_snapshot = snapshot, pb_meta = meta, pb_supervisor = supervisor\<rparr>,
         mo_readyClosed := mo_readyClosed m' \<or> sh_Ready snapshot\<rparr>))"

definition ProbeOnce :: "probe_answers \<Rightarrow> time \<Rightarrow> runtimeHealthMonitor \<Rightarrow> HealthSnapshot \<times> runtimeHealthMonitor" where
  "ProbeOnce w now m = (case probe w (RuntimeSnapshot m) now m of ((snapshot, _), m') \<Rightarrow> (snapshot, m'))"

section \<open>The probes of the store and of the client\<close>

text \<open>The one statement the probe of the store runs; a missing row of \<^verbatim>\<open>installation_status\<close> is an error.\<close>

definition storePersistenceProbe :: "gostring option \<Rightarrow> arch \<Rightarrow> unit + runtimePersistenceResult" where
  "storePersistenceProbe status s =
     (case status of
        None \<Rightarrow> Inl ()
      | Some reconciliation \<Rightarrow>
          (let uncertain = countWhere (\<lambda>j. nj_state j = J_uncertain) (a_jobs s);
               pending = countWhere (\<lambda>r. in_state r = I_pending) (a_intents s);
               leased = countWhere (\<lambda>r. in_state r = I_leased) (a_intents s);
               blocked = countWhere (\<lambda>r. in_state r = I_blocked) (a_intents s);
               attention = (0 < pending \<or> 0 < leased \<or> 0 < blocked);
               healthy = (\<not> attention);
               reconciliation = (if reconciliation = ''attention'' \<and> uncertain = 0 \<and> healthy then ''healthy'' else reconciliation) in
           if reconciliation = '''' \<or> reconciliation = ''unknown'' then
             Inr \<lparr>rp_Healthy = False, rp_Reconciliation = reconciliation, rp_Uncertain = uncertain,
               rp_PersistenceAttention = attention, rp_PersistenceFault = False\<rparr>
           else
             Inr \<lparr>rp_Healthy = healthy, rp_Reconciliation = reconciliation, rp_Uncertain = uncertain,
               rp_PersistenceAttention = attention, rp_PersistenceFault = False\<rparr>))"

end
