(* ===== verification/Service_Notifier.thy ===== *)
theory Service_Notifier
  imports Commons_Prelude
begin

text \<open>
  The notifier that speaks to systemd, \<^verbatim>\<open>src/internal/server/notify.go\<close>. It looks at a projection of the runtime health,
  announces readiness once, sends a status when the state changes, feeds the watchdog, and ends the service with a static error
  when the health no longer permits it to run. What it sends is the list \<open>no_sent\<close>; a failure to send is only logged
  by the source. The snapshot and the reading of the clock are arguments of an observation. \<open>run\<close> takes the list of what its
  \<open>select\<close> receives; a call of \<open>ready\<close> from another goroutine is an observation without a ping.
\<close>

record NotifierHealthSnapshot =
  nh_Probed :: bool
  nh_Ready :: bool
  nh_DatabaseHealthy :: bool
  nh_CoreHealthy :: bool
  nh_CodexHealthy :: bool
  nh_RequiredCodex :: bool
  nh_WatchdogEligible :: bool
  nh_RecoverySince :: time
  nh_RequiredRecoveryActive :: bool
  nh_RecoveryExhausted :: bool

datatype notifier_error = ErrNotifierDatabaseFailure | ErrNotifierCoreFailure | ErrNotifierExhausted

datatype notifierState = notifierStateStarting | notifierStateReady | notifierStateRecovering | notifierStateDegraded
  | notifierStateExhausted

definition stateStatus :: "notifierState \<Rightarrow> gostring" where
  "stateStatus state =
     (case state of
        notifierStateStarting \<Rightarrow> ''Starting''
      | notifierStateReady \<Rightarrow> ''Ready''
      | notifierStateRecovering \<Rightarrow> ''Recovering''
      | notifierStateDegraded \<Rightarrow> ''Degraded''
      | notifierStateExhausted \<Rightarrow> ''Exhausted'')"

text \<open>The datagrams: a status, the readiness with its status, a ping of the watchdog, and the end.\<close>

datatype message = STATUS gostring | READY gostring | WATCHDOG | STOPPING

record serviceNotifier =
  no_sender :: bool \<comment> \<open>whether systemd listens\<close>
  no_sent :: "message list"
  no_watchdogInterval :: duration
  no_recoveryGrace :: duration
  no_readySent :: bool
  no_lastState :: notifierState
  no_haveState :: bool
  no_recoverySince :: time
  no_fatal :: "notifier_error option"
  no_fatalCh :: "notifier_error list"
  no_shutdowns :: nat \<comment> \<open>calls of \<open>onFatal\<close>\<close>
  no_closed :: bool

definition newServiceNotifierWithOptions :: "bool \<Rightarrow> duration \<Rightarrow> duration \<Rightarrow> serviceNotifier" where
  "newServiceNotifierWithOptions sender watchdogInterval recoveryGrace =
     \<lparr>no_sender = sender, no_sent = [],
      no_watchdogInterval = (if watchdogInterval \<le> 0 then 30 * 1000000000 else watchdogInterval),
      no_recoveryGrace = (if recoveryGrace \<le> 0 then 30 * 1000000000 else recoveryGrace),
      no_readySent = False, no_lastState = notifierStateStarting, no_haveState = False, no_recoverySince = zeroTime,
      no_fatal = None, no_fatalCh = [], no_shutdowns = 0, no_closed = False\<rparr>"

definition send :: "message \<Rightarrow> serviceNotifier \<Rightarrow> serviceNotifier" where
  "send msg n = (if no_sender n then n\<lparr>no_sent := no_sent n @ [msg]\<rparr> else n)"

definition requiredCodexWithinGrace :: "NotifierHealthSnapshot \<Rightarrow> time \<Rightarrow> serviceNotifier \<Rightarrow> bool \<times> serviceNotifier" where
  "requiredCodexWithinGrace snapshot now n =
     (if \<not> nh_RequiredCodex snapshot \<or> nh_CodexHealthy snapshot then (True, n\<lparr>no_recoverySince := zeroTime\<rparr>)
      else if \<not> nh_RequiredRecoveryActive snapshot \<and> nh_RecoverySince snapshot = zeroTime then (False, n)
      else
        (let n' = (if nh_RecoverySince snapshot = zeroTime \<and> no_recoverySince n = zeroTime then n\<lparr>no_recoverySince := now\<rparr> else n);
             since = (if nh_RecoverySince snapshot = zeroTime then no_recoverySince n' else nh_RecoverySince snapshot) in
         if now < since then (True, n') else (now - since < no_recoveryGrace n', n')))"

definition classify :: "NotifierHealthSnapshot \<Rightarrow> time \<Rightarrow> serviceNotifier \<Rightarrow> (notifierState \<times> gostring \<times> notifier_error option) \<times> serviceNotifier" where
  "classify snapshot now n =
     (if \<not> nh_Probed snapshot then ((notifierStateStarting, ''Starting'', None), n)
      else if nh_RequiredCodex snapshot \<and> nh_RecoveryExhausted snapshot then
        ((notifierStateExhausted, ''Exhausted'', Some ErrNotifierExhausted), n)
      else if \<not> nh_DatabaseHealthy snapshot then ((notifierStateDegraded, ''Degraded'', Some ErrNotifierDatabaseFailure), n)
      else if \<not> nh_CoreHealthy snapshot then ((notifierStateDegraded, ''Degraded'', Some ErrNotifierCoreFailure), n)
      else if nh_RequiredCodex snapshot \<and> \<not> nh_CodexHealthy snapshot then
        (if \<not> nh_Ready snapshot \<and> \<not> nh_RequiredRecoveryActive snapshot \<and> nh_RecoverySince snapshot = zeroTime then
           ((notifierStateStarting, ''Starting'', None), n)
         else case requiredCodexWithinGrace snapshot now n of
           (within, n') \<Rightarrow>
             (if \<not> within then ((notifierStateExhausted, ''Exhausted'', Some ErrNotifierExhausted), n')
              else ((notifierStateRecovering, ''Recovering'', None), n')))
      else if \<not> nh_CodexHealthy snapshot then ((notifierStateDegraded, ''Degraded'', None), n)
      else if \<not> nh_Ready snapshot then ((notifierStateStarting, ''Starting'', None), n)
      else ((notifierStateReady, ''Ready'', None), n))"

definition setState :: "notifierState \<Rightarrow> bool \<Rightarrow> serviceNotifier \<Rightarrow> serviceNotifier" where
  "setState state emitStatus n =
     (if no_haveState n \<and> no_lastState n = state then n
      else
        (let n = n\<lparr>no_lastState := state, no_haveState := True\<rparr> in
         if emitStatus then send (STATUS (stateStatus state)) n else n))"

definition setStatus :: "notifierState \<Rightarrow> serviceNotifier \<Rightarrow> serviceNotifier" where
  "setStatus state = setState state True"

definition emitReady :: "gostring \<Rightarrow> serviceNotifier \<Rightarrow> serviceNotifier" where
  "emitReady status n = (if no_readySent n then n else send (READY status) (n\<lparr>no_readySent := True\<rparr>))"

definition signalFatal :: "notifier_error \<Rightarrow> serviceNotifier \<Rightarrow> serviceNotifier" where
  "signalFatal err n =
     (if no_fatal n \<noteq> None then n
      else n\<lparr>no_fatal := Some err, no_fatalCh := (if no_closed n then no_fatalCh n else no_fatalCh n @ [err]),
             no_shutdowns := Suc (no_shutdowns n)\<rparr>)"

definition lastPingAllowed :: "time \<Rightarrow> bool" where
  "lastPingAllowed now = True"

text \<open>The end of an observation: the ping, which asks again whether the recovery is within its grace.\<close>

definition ping :: "NotifierHealthSnapshot \<Rightarrow> time \<Rightarrow> notifierState \<Rightarrow> serviceNotifier \<Rightarrow> serviceNotifier" where
  "ping snapshot now state n =
     (if state = notifierStateReady \<or> state = notifierStateRecovering \<or> state = notifierStateDegraded then
        (let (withinGrace, n') = (if nh_RequiredCodex snapshot \<and> \<not> nh_CodexHealthy snapshot then requiredCodexWithinGrace snapshot now n else (False, n));
             watchdogAllowed = (nh_WatchdogEligible snapshot \<or> withinGrace) in
         if nh_Probed snapshot \<and> nh_DatabaseHealthy snapshot \<and> nh_CoreHealthy snapshot \<and> watchdogAllowed \<and> lastPingAllowed now
         then send WATCHDOG n' else n')
      else n)"

definition observeAt :: "NotifierHealthSnapshot \<Rightarrow> time \<Rightarrow> bool \<Rightarrow> serviceNotifier \<Rightarrow> notifier_error option \<times> serviceNotifier" where
  "observeAt snapshot now withPing n =
     (let ((state, status, fatal), n1) = classify snapshot now n;
          (readyAuthorized, n2) =
            (if nh_Probed snapshot \<and> nh_Ready snapshot \<and> nh_DatabaseHealthy snapshot \<and> nh_CoreHealthy snapshot
             then requiredCodexWithinGrace snapshot now n1 else (False, n1));
          n3 = (if readyAuthorized then emitReady status (setState state (no_readySent n2) n2) else setState state True n2) in
      case fatal of
        Some err \<Rightarrow> (Some err, signalFatal err n3)
      | None \<Rightarrow> (None, if withPing then ping snapshot now state n3 else n3))"

definition ready :: "NotifierHealthSnapshot \<Rightarrow> time \<Rightarrow> serviceNotifier \<Rightarrow> serviceNotifier" where
  "ready snapshot now n = snd (observeAt snapshot now False n)"

definition observe :: "NotifierHealthSnapshot \<Rightarrow> time \<Rightarrow> serviceNotifier \<Rightarrow> notifier_error option \<times> serviceNotifier" where
  "observe snapshot now n = observeAt snapshot now True n"

text \<open>What \<open>run\<close> receives; a tick with the zero time is replaced by the reading of the clock.\<close>

datatype reception = ContextDone | StopClosed | TickerClosed | Tick time time NotifierHealthSnapshot

datatype run_result = ContextError | Stopped | Fatal notifier_error

fun runLoop :: "reception list \<Rightarrow> serviceNotifier \<Rightarrow> run_result option \<times> serviceNotifier" where
  "runLoop [] n = (None, n)"
| "runLoop (ContextDone # rs) n = (Some ContextError, n)"
| "runLoop (StopClosed # rs) n = (Some Stopped, n)"
| "runLoop (TickerClosed # rs) n = (Some Stopped, n)"
| "runLoop (Tick tick clock snapshot # rs) n =
     (case observe snapshot (if tick = zeroTime then clock else tick) n of
        (Some err, n') \<Rightarrow> (Some (Fatal err), n')
      | (None, n') \<Rightarrow> runLoop rs n')"

definition run :: "NotifierHealthSnapshot \<Rightarrow> time \<Rightarrow> reception list \<Rightarrow> serviceNotifier \<Rightarrow> run_result option \<times> serviceNotifier" where
  "run snapshot now rs n =
     (case observeAt snapshot now False (setStatus notifierStateStarting n) of
        (Some err, n') \<Rightarrow> (Some (Fatal err), n')
      | (None, n') \<Rightarrow> runLoop rs n')"

definition closeNotifier :: "serviceNotifier \<Rightarrow> serviceNotifier" where
  "closeNotifier n = (if no_closed n then n else (send STOPPING n)\<lparr>no_closed := True\<rparr>)"

text \<open>What \<open>Serve\<close> returns when the listener has stopped and the notifier has been taken down.\<close>

definition serveResult :: "('e \<Rightarrow> bool) \<Rightarrow> 'e option \<Rightarrow> run_result option \<Rightarrow> ('e + notifier_error) option" where
  "serveResult isServerClosed serverErr notifier =
     (let serverErr = (case serverErr of None \<Rightarrow> None | Some e \<Rightarrow> if isServerClosed e then None else Some e) in
      case notifier of Some (Fatal err) \<Rightarrow> Some (Inr err) | _ \<Rightarrow> map_option Inl serverErr)"

section \<open>What is sent\<close>

definition isReady :: "message \<Rightarrow> bool" where
  "isReady msg = (case msg of READY _ \<Rightarrow> True | _ \<Rightarrow> False)"

text \<open>The helpers send nothing but what their names say, and they remember that the readiness was announced.\<close>

lemma grace_sent:
  "requiredCodexWithinGrace h t n = (b, n') \<Longrightarrow> no_sent n' = no_sent n \<and> no_readySent n' = no_readySent n \<and> no_fatal n' = no_fatal n \<and>
     no_recoveryGrace n' = no_recoveryGrace n \<and> no_sender n' = no_sender n"
  by (auto simp: requiredCodexWithinGrace_def Let_def split: if_splits)

lemma classify_sent:
  "classify h t n = (r, n') \<Longrightarrow> no_sent n' = no_sent n \<and> no_readySent n' = no_readySent n \<and> no_fatal n' = no_fatal n \<and>
     no_recoveryGrace n' = no_recoveryGrace n \<and> no_sender n' = no_sender n"
  by (auto simp: classify_def dest: grace_sent split: if_splits prod.splits)

definition ready_inv :: "serviceNotifier \<Rightarrow> bool" where
  "ready_inv n = (length (filter isReady (no_sent n)) \<le> of_bool (no_readySent n))"

lemma setState_ready: "ready_inv n \<Longrightarrow> ready_inv (setState st b n)" "no_readySent (setState st b n) = no_readySent n"
  by (auto simp: setState_def send_def ready_inv_def isReady_def Let_def)

lemma emitReady_ready: "ready_inv n \<Longrightarrow> ready_inv (emitReady st n)"
  by (cases "no_readySent n") (auto simp: emitReady_def send_def ready_inv_def isReady_def)

lemma ping_ready: "ready_inv n \<Longrightarrow> ready_inv (ping h t st n)"
  by (auto simp: ping_def send_def ready_inv_def isReady_def lastPingAllowed_def Let_def dest: grace_sent split: prod.splits)

lemma signalFatal_ready: "ready_inv (signalFatal err n) = ready_inv n"
  by (simp add: signalFatal_def ready_inv_def)

text \<open>An observation, taken apart.\<close>

lemma observeAt_parts:
  obtains st status fatal n1 a n2 n3 where "classify h t n = ((st, status, fatal), n1)"
    "(if nh_Probed h \<and> nh_Ready h \<and> nh_DatabaseHealthy h \<and> nh_CoreHealthy h then requiredCodexWithinGrace h t n1 else (False, n1)) = (a, n2)"
    "n3 = (if a then emitReady status (setState st (no_readySent n2) n2) else setState st True n2)"
    "observeAt h t b n = (fatal, case fatal of Some err \<Rightarrow> signalFatal err n3 | None \<Rightarrow> if b then ping h t st n3 else n3)"
proof -
  obtain st status fatal n1 where c: "classify h t n = ((st, status, fatal), n1)" by (metis prod.exhaust)
  obtain a n2 where a: "(if nh_Probed h \<and> nh_Ready h \<and> nh_DatabaseHealthy h \<and> nh_CoreHealthy h then requiredCodexWithinGrace h t n1 else (False, n1)) = (a, n2)"
    by (metis prod.exhaust)
  show thesis by (rule that [OF c a refl]) (simp add: observeAt_def c a Let_def split: option.splits)
qed

lemma authorized_sent:
  assumes "(if p then requiredCodexWithinGrace h t n1 else (False, n1)) = (a, n2)"
  shows "no_sent n2 = no_sent n1 \<and> no_readySent n2 = no_readySent n1 \<and> no_recoveryGrace n2 = no_recoveryGrace n1 \<and> no_sender n2 = no_sender n1"
  using assms by (auto dest: grace_sent split: if_splits)

lemma observeAt_ready:
  assumes "ready_inv n"
  shows "ready_inv (snd (observeAt h t b n))"
proof -
  obtain st status fatal n1 a n2 n3 where o: "classify h t n = ((st, status, fatal), n1)"
    "(if nh_Probed h \<and> nh_Ready h \<and> nh_DatabaseHealthy h \<and> nh_CoreHealthy h then requiredCodexWithinGrace h t n1 else (False, n1)) = (a, n2)"
    "n3 = (if a then emitReady status (setState st (no_readySent n2) n2) else setState st True n2)"
    "observeAt h t b n = (fatal, case fatal of Some err \<Rightarrow> signalFatal err n3 | None \<Rightarrow> if b then ping h t st n3 else n3)"
    by (rule observeAt_parts)
  have "ready_inv n2" using classify_sent [OF o(1)] authorized_sent [OF o(2)] assms by (simp add: ready_inv_def)
  then have "ready_inv n3" by (simp add: o(3) emitReady_ready setState_ready)
  then show ?thesis by (simp add: o(4) ping_ready signalFatal_ready split: option.splits)
qed

text \<open>What the goroutines do with a notifier: observations of \<open>run\<close> and of \<open>ready\<close>, the first status, and the end.\<close>

datatype notifier_op = Op_observe NotifierHealthSnapshot time bool | Op_status notifierState | Op_close

fun notifierOp :: "notifier_op \<Rightarrow> serviceNotifier \<Rightarrow> serviceNotifier" where
  "notifierOp (Op_observe h t b) n = snd (observeAt h t b n)"
| "notifierOp (Op_status st) n = setStatus st n"
| "notifierOp Op_close n = closeNotifier n"

lemma closeNotifier_ready: "ready_inv n \<Longrightarrow> ready_inv (closeNotifier n)"
  by (auto simp: closeNotifier_def send_def ready_inv_def isReady_def)

lemma ops_ready: "ready_inv n \<Longrightarrow> ready_inv (fold notifierOp os n)"
proof (induction os arbitrary: n)
  case (Cons x os)
  have "ready_inv (notifierOp x n)" using Cons.prems
    by (cases x) (simp_all add: observeAt_ready setStatus_def setState_ready closeNotifier_ready)
  then show ?case using Cons.IH by simp
qed simp

text \<open>
  However many observations are made, by the loop and by the goroutine that waits for readiness, systemd is told
  at most once that the service is ready.
\<close>

lemma ready_sent_once:
  "length (filter isReady (no_sent (fold notifierOp os (newServiceNotifierWithOptions sender interval grace)))) \<le> 1"
proof -
  have "ready_inv (newServiceNotifierWithOptions sender interval grace)" by (simp add: newServiceNotifierWithOptions_def ready_inv_def)
  from ops_ready [OF this, of os] show ?thesis by (auto simp: ready_inv_def of_bool_def split: if_splits)
qed

text \<open>When the watchdog may be fed: never for a failing core, and for a required Codex that is down only during its grace.\<close>

definition mayFeed :: "NotifierHealthSnapshot \<Rightarrow> time \<Rightarrow> duration \<Rightarrow> bool" where
  "mayFeed h now grace =
     (nh_Probed h \<and> nh_DatabaseHealthy h \<and> nh_CoreHealthy h \<and>
      (if nh_RequiredCodex h then
         \<not> nh_RecoveryExhausted h \<and> (if nh_CodexHealthy h then nh_WatchdogEligible h
           else if nh_RecoverySince h = zeroTime then nh_RequiredRecoveryActive h else now < nh_RecoverySince h + grace)
       else nh_WatchdogEligible h))"

lemma grace_within:
  "requiredCodexWithinGrace h t n = (True, n') \<Longrightarrow> nh_RequiredCodex h \<Longrightarrow> \<not> nh_CodexHealthy h \<Longrightarrow> 0 < no_recoveryGrace n \<Longrightarrow>
     (if nh_RecoverySince h = zeroTime then nh_RequiredRecoveryActive h else t < nh_RecoverySince h + no_recoveryGrace n)"
  by (auto simp: requiredCodexWithinGrace_def Let_def split: if_splits)

lemma ping_sent:
  assumes "0 < no_recoveryGrace n" "WATCHDOG \<in> set (drop (length (no_sent n)) (no_sent (ping h t st n)))"
  shows "nh_Probed h \<and> nh_DatabaseHealthy h \<and> nh_CoreHealthy h \<and> st \<in> {notifierStateReady, notifierStateRecovering, notifierStateDegraded} \<and>
    (nh_WatchdogEligible h \<or> nh_RequiredCodex h \<and> \<not> nh_CodexHealthy h)"
  using assms by (auto simp: ping_def send_def Let_def dest: grace_sent split: if_splits prod.splits)

lemma classify_recovering:
  assumes "classify h t n = ((st, status, fatal), n1)" "st \<in> {notifierStateReady, notifierStateRecovering, notifierStateDegraded}"
    "nh_Probed h" "nh_DatabaseHealthy h" "nh_CoreHealthy h" "nh_RequiredCodex h" "0 < no_recoveryGrace n"
  shows "\<not> nh_RecoveryExhausted h \<and> (nh_CodexHealthy h \<or>
    (if nh_RecoverySince h = zeroTime then nh_RequiredRecoveryActive h else t < nh_RecoverySince h + no_recoveryGrace n))"
proof (cases "nh_CodexHealthy h")
  case True
  then show ?thesis using assms by (auto simp: classify_def split: if_splits)
next
  case False
  obtain w n' where g: "requiredCodexWithinGrace h t n = (w, n')" by (metis prod.exhaust)
  have "\<not> nh_RecoveryExhausted h" "w"
    using assms False g by (auto simp: classify_def split: if_splits)
  then show ?thesis using grace_within [of h t n n'] g False assms(6,7) by simp
qed

lemma drop_subset:
  assumes "no_sent n3 = no_sent n @ ms" "WATCHDOG \<notin> set ms" "WATCHDOG \<in> set (drop (length (no_sent n)) (no_sent n'))"
    "no_sent n' = no_sent n3 @ ms'"
  shows "WATCHDOG \<in> set (drop (length (no_sent n3)) (no_sent n'))"
  using assms by simp

lemma setState_sent: "\<exists>ms. no_sent (setState st b n) = no_sent n @ ms \<and> WATCHDOG \<notin> set ms"
  by (auto simp: setState_def send_def Let_def)

lemma emitReady_sent: "\<exists>ms. no_sent (emitReady st n) = no_sent n @ ms \<and> WATCHDOG \<notin> set ms"
  by (auto simp: emitReady_def send_def)

lemma ping_extends: "\<exists>ms. no_sent (ping h t st n) = no_sent n @ ms"
  by (auto simp: ping_def send_def Let_def dest: grace_sent split: prod.splits)

lemma setState_grace: "no_recoveryGrace (setState st b n) = no_recoveryGrace n" "no_recoveryGrace (emitReady s n) = no_recoveryGrace n"
  by (simp_all add: setState_def emitReady_def send_def Let_def)

lemma observeAt_feeds:
  assumes "0 < no_recoveryGrace n" "WATCHDOG \<in> set (drop (length (no_sent n)) (no_sent (snd (observeAt h t b n))))"
  shows "mayFeed h t (no_recoveryGrace n)"
proof -
  obtain st status fatal n1 a n2 n3 where o: "classify h t n = ((st, status, fatal), n1)"
    "(if nh_Probed h \<and> nh_Ready h \<and> nh_DatabaseHealthy h \<and> nh_CoreHealthy h then requiredCodexWithinGrace h t n1 else (False, n1)) = (a, n2)"
    "n3 = (if a then emitReady status (setState st (no_readySent n2) n2) else setState st True n2)"
    "observeAt h t b n = (fatal, case fatal of Some err \<Rightarrow> signalFatal err n3 | None \<Rightarrow> if b then ping h t st n3 else n3)"
    by (rule observeAt_parts)
  have n2: "no_sent n2 = no_sent n" "no_recoveryGrace n2 = no_recoveryGrace n"
    using classify_sent [OF o(1)] authorized_sent [OF o(2)] by simp_all
  obtain ms where n3: "no_sent n3 = no_sent n @ ms" "WATCHDOG \<notin> set ms"
  proof (cases a)
    case True
    obtain ms ms' where "no_sent (setState st (no_readySent n2) n2) = no_sent n @ ms" "WATCHDOG \<notin> set ms"
      "no_sent n3 = no_sent (setState st (no_readySent n2) n2) @ ms'" "WATCHDOG \<notin> set ms'"
      using setState_sent [of st "no_readySent n2" n2] emitReady_sent [of status "setState st (no_readySent n2) n2"] True o(3) n2(1) by auto
    then show thesis using that [of "ms @ ms'"] by simp
  next
    case False
    then show thesis using setState_sent [of st True n2] that o(3) n2(1) by auto
  qed
  have grace: "no_recoveryGrace n3 = no_recoveryGrace n" using n2(2) by (simp add: o(3) setState_grace)
  have "fatal = None \<and> b"
    using assms(2) n3 by (auto simp: o(4) signalFatal_def split: option.splits if_splits)
  then have "WATCHDOG \<in> set (drop (length (no_sent n)) (no_sent (ping h t st n3)))"
    using assms(2) unfolding o(4) by simp
  then have "WATCHDOG \<in> set (drop (length (no_sent n3)) (no_sent (ping h t st n3)))"
    using ping_extends [of h t st n3] drop_subset [OF n3] by blast
  from ping_sent [OF _ this] grace assms(1) have p: "nh_Probed h" "nh_DatabaseHealthy h" "nh_CoreHealthy h"
    "st \<in> {notifierStateReady, notifierStateRecovering, notifierStateDegraded}" "nh_WatchdogEligible h \<or> nh_RequiredCodex h \<and> \<not> nh_CodexHealthy h"
    by auto
  show ?thesis using p classify_recovering [OF o(1) p(4,1-3) _ assms(1)] by (auto simp: mayFeed_def)
qed

end
