(* ===== verification/Process_Supervisor.thy ===== *)
theory Process_Supervisor
  imports Commons_Prelude "HOL-Library.Word"
begin

text \<open>
  The supervisor of the Codex App Server, \<^verbatim>\<open>src/internal/codexauth/process.go\<close>. It keeps one child process, replaces
  it when it exits, waits longer before each attempt and gives up when the budget of attempts is spent; a child that has been
  healthy for long enough renews the budget. The children are numbered in the order of their creation, a pointer to a
  recovery is its position in the list of recoveries. Each definition of the second section is one critical section of the
  mutex, or the part of a function between two of them; \<open>supervised\<close> interleaves them: the supervisor goroutine is at a
  place in \<open>supervisorStep\<close>, \<open>spawnCandidate\<close> or \<open>handleSupervisorEvent\<close>, and any number of requests
  and of calls of \<open>Close\<close> are at places of their own. Readings of the clock, the delays of the backoff and what the
  factory returns are arguments. The instances without a supervisor (\<^verbatim>\<open>supervise\<close> false, a seam for older tests), the log
  and the forwarding of the calls to the child are not modelled.
\<close>

section \<open>Data\<close>

datatype process_error = ErrUnavailable | ErrProcessExited | ErrProtocol | ErrLineTooLarge | ErrEOF | ErrClosedPipe
  | ErrCanceled | ErrOther gostring

definition safeProcessReason :: "process_error option \<Rightarrow> gostring" where
  "safeProcessReason err =
     (case err of
        None \<Rightarrow> ''unknown''
      | Some ErrProcessExited \<Rightarrow> ''process_exited''
      | Some ErrEOF \<Rightarrow> ''process_exited''
      | Some ErrClosedPipe \<Rightarrow> ''process_exited''
      | Some ErrProtocol \<Rightarrow> ''protocol_failure''
      | Some ErrLineTooLarge \<Rightarrow> ''line_too_large''
      | Some ErrUnavailable \<Rightarrow> ''unavailable''
      | Some ErrCanceled \<Rightarrow> ''canceled''
      | Some (ErrOther _) \<Rightarrow> ''factory_failure'')"

definition retryableProcessError :: "process_error \<Rightarrow> bool" where
  "retryableProcessError err = (err \<in> {ErrUnavailable, ErrProcessExited, ErrProtocol, ErrLineTooLarge, ErrEOF, ErrClosedPipe})"

type_synonym child = nat

record managedRecovery =
  mr_generation :: "64 word"
  mr_client :: "child option"
  mr_err :: "process_error option"
  mr_doneClosed :: bool

record ManagedProcessClient =
  mp_client :: "child option"
  mp_closed :: bool
  mp_state :: gostring
  mp_initialReported :: bool
  mp_initialReady :: "process_error option option" \<comment> \<open>what was sent to the constructor, if anything\<close>
  mp_initialAttempted :: bool
  mp_changes :: nat \<comment> \<open>how often the state was announced\<close>
  mp_wake :: bool \<comment> \<open>the wake-up channel of capacity one\<close>
  mp_generation :: "64 word"
  mp_recoveryAttempts :: int
  mp_nextRecoveryAt :: time
  mp_maxRecoveryAttempts :: int
  mp_healthyInterval :: duration
  mp_healthySince :: time
  mp_lastExitReason :: gostring
  mp_lastFailureReason :: gostring
  mp_lastExitAt :: time
  mp_lastFailureAt :: time
  mp_lastHealthyAt :: time
  mp_pid :: int
  mp_recovery :: "nat option"
  mp_recoveries :: "managedRecovery list"

record ManagedProcessOptions =
  mo_MaxRestartAttempts :: int
  mo_MaxRecoveryAttempts :: int
  mo_MaxRestarts :: int
  mo_RestartBudget :: int
  mo_HealthyInterval :: duration
  mo_HealthInterval :: duration
  mo_SustainedHealthyInterval :: duration

definition Millisecond :: duration where
  "Millisecond = 1000000"

definition defaultRecoveryBackoff :: duration where
  "defaultRecoveryBackoff = 250 * Millisecond"

definition maxRecoveryBackoff :: duration where
  "maxRecoveryBackoff = 2000 * Millisecond"

text \<open>The loop doubles the delay once for each further attempt and stops at the maximum.\<close>

fun backoffLoop :: "nat \<Rightarrow> duration \<Rightarrow> duration" where
  "backoffLoop 0 delay = (if delay > maxRecoveryBackoff then maxRecoveryBackoff else delay)"
| "backoffLoop (Suc n) delay =
     (if delay < maxRecoveryBackoff then
        if delay > maxRecoveryBackoff div 2 then maxRecoveryBackoff else backoffLoop n (delay * 2)
      else if delay > maxRecoveryBackoff then maxRecoveryBackoff else delay)"

definition defaultRecoveryBackoffFor :: "int \<Rightarrow> duration" where
  "defaultRecoveryBackoffFor attempt = backoffLoop (nat ((if attempt < 1 then 1 else attempt) - 1)) defaultRecoveryBackoff"

definition boundedRecoveryBackoff :: "duration \<Rightarrow> duration" where
  "boundedRecoveryBackoff delay = (if delay < 0 then 0 else if delay > maxRecoveryBackoff then maxRecoveryBackoff else delay)"

definition newAutonomousManagedProcess :: "ManagedProcessOptions \<Rightarrow> ManagedProcessClient" where
  "newAutonomousManagedProcess options =
     (let maxAttempts = mo_MaxRestartAttempts options;
          maxAttempts = (if maxAttempts = 0 then mo_MaxRecoveryAttempts options else maxAttempts);
          maxAttempts = (if maxAttempts = 0 then mo_MaxRestarts options else maxAttempts);
          maxAttempts = (if maxAttempts = 0 then mo_RestartBudget options else maxAttempts);
          maxAttempts = (if maxAttempts = 0 then 3 else maxAttempts);
          interval = mo_HealthyInterval options;
          interval = (if interval = 0 then mo_HealthInterval options else interval);
          interval = (if interval = 0 then mo_SustainedHealthyInterval options else interval);
          interval = (if interval = 0 then 30000 * Millisecond else interval) in
      \<lparr>mp_client = None, mp_closed = False, mp_state = ''starting'', mp_initialReported = False, mp_initialReady = None,
       mp_initialAttempted = False, mp_changes = 0, mp_wake = True, mp_generation = 0, mp_recoveryAttempts = 0,
       mp_nextRecoveryAt = zeroTime, mp_maxRecoveryAttempts = maxAttempts, mp_healthyInterval = interval,
       mp_healthySince = zeroTime, mp_lastExitReason = '''', mp_lastFailureReason = '''', mp_lastExitAt = zeroTime,
       mp_lastFailureAt = zeroTime, mp_lastHealthyAt = zeroTime, mp_pid = 0, mp_recovery = None, mp_recoveries = []\<rparr>)"

section \<open>Critical sections\<close>

definition broadcastStateLocked :: "ManagedProcessClient \<Rightarrow> ManagedProcessClient" where
  "broadcastStateLocked m = m\<lparr>mp_changes := Suc (mp_changes m)\<rparr>"

definition signalSupervisor :: "ManagedProcessClient \<Rightarrow> ManagedProcessClient" where
  "signalSupervisor m = m\<lparr>mp_wake := True\<rparr>"

definition finishInitial :: "process_error option \<Rightarrow> ManagedProcessClient \<Rightarrow> ManagedProcessClient" where
  "finishInitial err m = (if mp_initialReported m then m else m\<lparr>mp_initialReported := True, mp_initialReady := Some err\<rparr>)"

definition finishRecovery :: "nat \<Rightarrow> child option \<Rightarrow> process_error option \<Rightarrow> ManagedProcessClient \<Rightarrow> ManagedProcessClient" where
  "finishRecovery pending client err m =
     (if mr_doneClosed (mp_recoveries m ! pending) then m
      else broadcastStateLocked
        (m\<lparr>mp_recoveries := (mp_recoveries m)[pending := (mp_recoveries m ! pending)\<lparr>mr_client := client, mr_err := err, mr_doneClosed := True\<rparr>],
           mp_recovery := (if mp_recovery m = Some pending then None else mp_recovery m)\<rparr>))"

definition newRecovery :: "64 word \<Rightarrow> ManagedProcessClient \<Rightarrow> ManagedProcessClient" where
  "newRecovery generation m =
     m\<lparr>mp_recovery := Some (length (mp_recoveries m)),
       mp_recoveries := mp_recoveries m @ [\<lparr>mr_generation = generation, mr_client = None, mr_err = None, mr_doneClosed = False\<rparr>]\<rparr>"

definition resetHealthyLocked :: "time \<Rightarrow> ManagedProcessClient \<Rightarrow> ManagedProcessClient" where
  "resetHealthyLocked now m =
     broadcastStateLocked
       (m\<lparr>mp_recoveryAttempts := 0, mp_nextRecoveryAt := zeroTime, mp_lastHealthyAt := now,
          mp_state := (if mp_state m = ''degraded'' \<or> mp_state m = ''recovering'' then ''available'' else mp_state m)\<rparr>)"

definition markHealthy :: "child \<Rightarrow> time \<Rightarrow> ManagedProcessClient \<Rightarrow> ManagedProcessClient" where
  "markHealthy client now m =
     (if mp_closed m \<or> mp_client m \<noteq> Some client then m
      else if mp_state m = ''available'' then
        (let since = (if mp_healthySince m = zeroTime then now else mp_healthySince m);
             m = m\<lparr>mp_healthySince := since, mp_lastHealthyAt := now\<rparr> in
         if mp_healthyInterval m \<le> 0 \<or> \<not> now < since + mp_healthyInterval m then resetHealthyLocked now m else m)
      else m)"

text \<open>How long the loop waits for its next step.\<close>

definition hourDelay :: duration where
  "hourDelay = 3600000 * Millisecond"

definition supervisorDelay :: "time \<Rightarrow> ManagedProcessClient \<Rightarrow> duration" where
  "supervisorDelay now m =
     (if mp_closed m then hourDelay
      else if \<not> mp_initialAttempted m \<and> mp_client m = None then 0
      else if mp_recovery m \<noteq> None then
        (if mp_nextRecoveryAt m = zeroTime \<or> \<not> now < mp_nextRecoveryAt m then 0 else mp_nextRecoveryAt m - now)
      else if mp_state m = ''available'' \<and> mp_healthySince m \<noteq> zeroTime \<and> 0 < mp_healthyInterval m then
        max 0 (mp_healthySince m + mp_healthyInterval m - now)
      else hourDelay)"

text \<open>Where a goroutine is, with the variables it holds there.\<close>

record supervisorEvent =
  se_generation :: "64 word"
  se_client :: child
  se_err :: "process_error option"
  se_pid :: int

record spawn_frame =
  sf_initial :: bool
  sf_pending :: "nat option"
  sf_old :: "child option"
  sf_oldGeneration :: "64 word"

datatype place =
    Idle
  | Committing int "child option" "64 word" time \<comment> \<open>between the two critical sections of \<open>supervisorStep\<close>\<close>
  | Spawning spawn_frame \<comment> \<open>about to close the old child and to call the factory\<close>
  | Spawned spawn_frame "process_error + child" \<comment> \<open>the factory has returned\<close>
  | Failing spawn_frame process_error int \<comment> \<open>the delay of the next attempt is computed\<close>
  | Installing spawn_frame child "child option" "64 word"
  | Announcing spawn_frame child \<comment> \<open>installed, the recovery not yet finished\<close>
  | Reporting supervisorEvent \<comment> \<open>in \<open>requestFailure\<close>, before it calls \<open>handleSupervisorEvent\<close>\<close>
  | Handling supervisorEvent nat int \<comment> \<open>between the two critical sections of \<open>handleSupervisorEvent\<close>\<close>
  | Finishing nat "child option" "process_error option"
  | Discarding child "nat option" \<comment> \<open>about to close a candidate that cannot be installed\<close>
  | Closing "child option" \<comment> \<open>in \<open>Close\<close>, after its critical section\<close>

definition supervisorStep :: "time \<Rightarrow> ManagedProcessClient \<Rightarrow> place \<times> ManagedProcessClient" where
  "supervisorStep now m =
     (if mp_closed m then (Idle, m)
      else if mp_state m = ''available'' \<and> mp_healthySince m \<noteq> zeroTime \<and>
        (mp_healthyInterval m \<le> 0 \<or> \<not> now < mp_healthySince m + mp_healthyInterval m) then (Idle, resetHealthyLocked now m)
      else if \<not> mp_initialAttempted m \<and> mp_client m = None then
        (Spawning \<lparr>sf_initial = True, sf_pending = None, sf_old = None, sf_oldGeneration = 0\<rparr>,
         broadcastStateLocked (m\<lparr>mp_initialAttempted := True, mp_state := ''starting''\<rparr>))
      else
        (case mp_recovery m of
           None \<Rightarrow> (Idle, m)
         | Some pending \<Rightarrow>
             if mp_state m = ''available'' then (Idle, m)
             else if mp_maxRecoveryAttempts m \<le> 0 \<or> mp_recoveryAttempts m \<ge> mp_maxRecoveryAttempts m then
               (Finishing pending None (Some ErrUnavailable),
                (broadcastStateLocked (m\<lparr>mp_state := ''exhausted'', mp_nextRecoveryAt := zeroTime\<rparr>))\<lparr>mp_recovery := None\<rparr>)
             else if mp_nextRecoveryAt m \<noteq> zeroTime \<and> now < mp_nextRecoveryAt m then (Idle, m)
             else (Committing (mp_recoveryAttempts m + 1) (mp_client m) (mp_generation m) now, m)))"

definition commitAttempt :: "int \<Rightarrow> child option \<Rightarrow> 64 word \<Rightarrow> time \<Rightarrow> ManagedProcessClient \<Rightarrow> place \<times> ManagedProcessClient" where
  "commitAttempt attempt old oldGeneration now m =
     (case mp_recovery m of
        None \<Rightarrow> (Idle, m)
      | Some pending \<Rightarrow>
          if mp_closed m \<or> mp_client m \<noteq> old \<or> mp_generation m \<noteq> oldGeneration \<or>
            (mp_nextRecoveryAt m \<noteq> zeroTime \<and> now < mp_nextRecoveryAt m) then (Idle, m)
          else
            (Spawning \<lparr>sf_initial = False, sf_pending = Some pending, sf_old = old, sf_oldGeneration = oldGeneration\<rparr>,
             broadcastStateLocked (m\<lparr>mp_recoveryAttempts := attempt, mp_state := ''recovering'', mp_nextRecoveryAt := zeroTime\<rparr>)))"

definition handleSupervisorEvent :: "supervisorEvent \<Rightarrow> ManagedProcessClient \<Rightarrow> place \<times> ManagedProcessClient" where
  "handleSupervisorEvent event m =
     (if mp_closed m \<or> mp_client m \<noteq> Some (se_client event) \<or> mp_generation m \<noteq> se_generation event \<or> mp_state m \<noteq> ''available'' then (Idle, m)
      else
        (let attempt = mp_recoveryAttempts m + 1;
             reason = safeProcessReason (se_err event);
             m = (if mp_recovery m = None then newRecovery (se_generation event) m else m) in
         (Handling event (the (mp_recovery m)) attempt,
          broadcastStateLocked (m\<lparr>mp_state := ''degraded'', mp_nextRecoveryAt := zeroTime, mp_healthySince := zeroTime,
            mp_lastExitReason := reason, mp_lastFailureReason := reason\<rparr>))))"

definition scheduleRecovery :: "supervisorEvent \<Rightarrow> nat \<Rightarrow> time \<Rightarrow> duration \<Rightarrow> ManagedProcessClient \<Rightarrow> place \<times> ManagedProcessClient" where
  "scheduleRecovery event pending now delay m =
     (if mp_closed m \<or> mp_client m \<noteq> Some (se_client event) \<or> mp_generation m \<noteq> se_generation event then (Idle, m)
      else
        (let m = m\<lparr>mp_lastExitAt := now, mp_lastFailureAt := now\<rparr> in
         if mp_maxRecoveryAttempts m \<le> 0 \<or> mp_recoveryAttempts m \<ge> mp_maxRecoveryAttempts m then
           (Finishing pending None (se_err event),
            broadcastStateLocked (m\<lparr>mp_recovery := None, mp_state := ''exhausted'', mp_nextRecoveryAt := zeroTime\<rparr>))
         else (Idle, signalSupervisor (broadcastStateLocked (m\<lparr>mp_nextRecoveryAt := now + boundedRecoveryBackoff delay\<rparr>)))))"

text \<open>The condition under which \<open>spawnCandidate\<close> drops what the factory returned; it is tested three times.\<close>

definition superseded :: "bool \<Rightarrow> child option \<Rightarrow> 64 word \<Rightarrow> ManagedProcessClient \<Rightarrow> bool" where
  "superseded initial old oldGeneration m =
     (mp_closed m \<or> (\<not> initial \<and> (mp_client m \<noteq> old \<or> mp_generation m \<noteq> oldGeneration)) \<or> (initial \<and> mp_client m \<noteq> None))"

definition discard :: "child option \<Rightarrow> nat option \<Rightarrow> place" where
  "discard candidate pending =
     (case candidate of Some c \<Rightarrow> Discarding c pending
      | None \<Rightarrow> (case pending of Some p \<Rightarrow> Finishing p None (Some ErrUnavailable) | None \<Rightarrow> Idle))"

definition checkCandidate :: "spawn_frame \<Rightarrow> process_error + child \<Rightarrow> ManagedProcessClient \<Rightarrow> place \<times> ManagedProcessClient" where
  "checkCandidate f result m =
     (if superseded (sf_initial f) (sf_old f) (sf_oldGeneration f) m then
        (discard (case result of Inl _ \<Rightarrow> None | Inr c \<Rightarrow> Some c) (sf_pending f), m)
      else
        (case result of
           Inl err \<Rightarrow> (Failing f err (mp_recoveryAttempts m + 1), m)
         | Inr candidate \<Rightarrow> (Installing f candidate (mp_client m) (mp_generation m), m)))"

definition failCandidate :: "spawn_frame \<Rightarrow> process_error \<Rightarrow> time \<Rightarrow> duration \<Rightarrow> ManagedProcessClient \<Rightarrow> place \<times> ManagedProcessClient" where
  "failCandidate f err now delay m =
     (if superseded (sf_initial f) (sf_old f) (sf_oldGeneration f) m then (Idle, m)
      else
        (let m = m\<lparr>mp_lastFailureReason := safeProcessReason (Some err), mp_lastFailureAt := now\<rparr>;
             retryAt = now + boundedRecoveryBackoff delay in
         if sf_initial f then
           (Idle, signalSupervisor (finishInitial (Some err) (broadcastStateLocked
              (newRecovery (mp_generation m) (m\<lparr>mp_state := ''degraded'', mp_nextRecoveryAt := retryAt, mp_recoveryAttempts := 1\<rparr>)))))
         else if mp_recoveryAttempts m \<ge> mp_maxRecoveryAttempts m then
           ((case sf_pending f of Some p \<Rightarrow> Finishing p None (Some err) | None \<Rightarrow> Idle),
            (broadcastStateLocked (m\<lparr>mp_state := ''exhausted'', mp_nextRecoveryAt := zeroTime\<rparr>))\<lparr>mp_recovery := None\<rparr>)
         else (Idle, signalSupervisor (broadcastStateLocked (m\<lparr>mp_state := ''degraded'', mp_nextRecoveryAt := retryAt\<rparr>)))))"

definition installCandidate :: "spawn_frame \<Rightarrow> child \<Rightarrow> child option \<Rightarrow> 64 word \<Rightarrow> time \<Rightarrow> int \<Rightarrow> ManagedProcessClient \<Rightarrow> place \<times> ManagedProcessClient" where
  "installCandidate f candidate oldClient oldGenerationNow now pid m =
     (if superseded (sf_initial f) oldClient oldGenerationNow m then (Discarding candidate (sf_pending f), m)
      else
        (Announcing f candidate,
         broadcastStateLocked (m\<lparr>mp_client := Some candidate, mp_generation := mp_generation m + 1, mp_pid := pid,
           mp_state := ''available'', mp_nextRecoveryAt := zeroTime, mp_lastHealthyAt := now, mp_healthySince := now\<rparr>)))"

definition announce :: "spawn_frame \<Rightarrow> child \<Rightarrow> ManagedProcessClient \<Rightarrow> place \<times> ManagedProcessClient" where
  "announce f candidate m =
     ((case sf_pending f of Some p \<Rightarrow> Finishing p (Some candidate) None | None \<Rightarrow> Idle),
      if sf_initial f then finishInitial None m else m)"

text \<open>The start of \<open>requestFailure\<close>, which a request calls whose call of the child failed.\<close>

definition requestFailure :: "child \<Rightarrow> process_error \<Rightarrow> int \<Rightarrow> ManagedProcessClient \<Rightarrow> supervisorEvent option" where
  "requestFailure client err pid m =
     (if mp_closed m \<or> mp_client m \<noteq> Some client \<or> mp_state m \<noteq> ''available'' then None
      else Some \<lparr>se_generation = mp_generation m, se_client = client, se_err = Some err, se_pid = pid\<rparr>)"

definition CloseManager :: "ManagedProcessClient \<Rightarrow> place \<times> ManagedProcessClient" where
  "CloseManager m =
     (if mp_closed m then (Idle, m)
      else
        (let m' = broadcastStateLocked (m\<lparr>mp_closed := True, mp_state := ''closed'', mp_client := None, mp_recovery := None\<rparr>) in
         (Closing (mp_client m),
          (case mp_recovery m of
             None \<Rightarrow> m'
           | Some p \<Rightarrow>
               if mr_doneClosed (mp_recoveries m ! p) then m'
               else m'\<lparr>mp_recoveries := (mp_recoveries m')[p := (mp_recoveries m' ! p)\<lparr>mr_err := Some ErrUnavailable, mr_doneClosed := True\<rparr>]\<rparr>))))"

section \<open>What the callers see\<close>

definition currentClient :: "ManagedProcessClient \<Rightarrow> child option" where
  "currentClient m = (if mp_closed m then None else if mp_state m \<noteq> ''available'' then None else mp_client m)"

definition AvailableManager :: "(child \<Rightarrow> bool) \<Rightarrow> ManagedProcessClient \<Rightarrow> bool" where
  "AvailableManager childAvailable m =
     (if mp_closed m \<or> mp_state m \<noteq> ''available'' then False
      else case mp_client m of None \<Rightarrow> False | Some c \<Rightarrow> childAvailable c)"

definition isCurrent :: "child \<Rightarrow> ManagedProcessClient \<Rightarrow> bool" where
  "isCurrent client m = (\<not> mp_closed m \<and> mp_client m = Some client \<and> mp_state m = ''available'')"

text \<open>One turn of the loops that wait for a child: \<open>Some\<close> the answer, or \<open>None\<close> to wait for the next announcement.\<close>

definition waitForClient :: "(child \<Rightarrow> bool) \<Rightarrow> child \<Rightarrow> ManagedProcessClient \<Rightarrow> child option option" where
  "waitForClient childAvailable failed m =
     (if mp_closed m \<or> mp_state m = ''exhausted'' \<or> mp_state m = ''closed'' then Some None
      else case mp_client m of
        Some c \<Rightarrow> if mp_state m = ''available'' \<and> c \<noteq> failed \<and> childAvailable c then Some (Some c) else None
      | None \<Rightarrow> None)"

definition waitForAvailable :: "(child \<Rightarrow> bool) \<Rightarrow> ManagedProcessClient \<Rightarrow> child option option" where
  "waitForAvailable childAvailable m =
     (if mp_closed m \<or> mp_state m = ''exhausted'' \<or> mp_state m = ''closed'' then Some None
      else case mp_client m of
        Some c \<Rightarrow> if mp_state m = ''available'' \<and> childAvailable c then Some (Some c) else None
      | None \<Rightarrow> None)"

record ProcessSnapshot =
  ps_State :: gostring
  ps_Generation :: "64 word"
  ps_PID :: int
  ps_Attempts :: int
  ps_MaxAttempts :: int
  ps_RestartBudget :: int
  ps_LastExitReason :: gostring
  ps_LastFailureReason :: gostring
  ps_Reason :: gostring
  ps_LastExitAt :: time
  ps_LastFailureAt :: time
  ps_LastHealthyAt :: time
  ps_HealthySince :: time
  ps_NextRetryAt :: time

definition snapshotReason :: "gostring \<Rightarrow> gostring \<Rightarrow> gostring" where
  "snapshotReason failure exit = (if failure \<noteq> '''' then failure else exit)"

definition ProcessSnapshotOf :: "(child \<Rightarrow> bool) \<Rightarrow> ManagedProcessClient \<Rightarrow> ProcessSnapshot" where
  "ProcessSnapshotOf childAvailable m =
     (let state = (if mp_state m = '''' then
            if mp_closed m then ''closed''
            else if (case mp_client m of None \<Rightarrow> False | Some c \<Rightarrow> childAvailable c) then ''available''
            else ''degraded''
          else mp_state m) in
      \<lparr>ps_State = state, ps_Generation = mp_generation m, ps_PID = mp_pid m, ps_Attempts = mp_recoveryAttempts m,
       ps_MaxAttempts = mp_maxRecoveryAttempts m, ps_RestartBudget = max 0 (mp_maxRecoveryAttempts m - mp_recoveryAttempts m),
       ps_LastExitReason = mp_lastExitReason m, ps_LastFailureReason = mp_lastFailureReason m,
       ps_Reason = snapshotReason (mp_lastFailureReason m) (mp_lastExitReason m), ps_LastExitAt = mp_lastExitAt m,
       ps_LastFailureAt = mp_lastFailureAt m, ps_LastHealthyAt = mp_lastHealthyAt m, ps_HealthySince = mp_healthySince m,
       ps_NextRetryAt = mp_nextRecoveryAt m\<rparr>)"

end
