(* ===== verification/Health_Service.thy ===== *)
theory Health_Service
  imports Health_Monitor Service_Notifier Process_Supervisor
begin

text \<open>
  Where the parts of the runtime health meet: the probe of the supervised process, the projection of a publication for the
  notifier (both \<^verbatim>\<open>src/internal/server/runtime_health.go\<close>) and the projection for HTTP clients
  (\<^verbatim>\<open>src/internal/httpapi/backend.go\<close>). A pointer to a time is an option; the Go map of the components is an
  association list.
\<close>

section \<open>The probe of the client\<close>

definition clientSupervisorProbe :: "bool \<Rightarrow> ProcessSnapshot option \<Rightarrow> runtimeSupervisorResult" where
  "clientSupervisorProbe available reporter =
     (let result = zero_supervisor\<lparr>rs_Configured := True, rs_Available := available\<rparr> in
      case reporter of
        None \<Rightarrow> result
      | Some snapshot \<Rightarrow>
          (let result = result\<lparr>rs_State := ps_State snapshot, rs_Attempts := ps_Attempts snapshot, rs_MaxAttempts := ps_MaxAttempts snapshot,
                 rs_NextRetryAt := ps_NextRetryAt snapshot, rs_LastHealthyAt := ps_LastHealthyAt snapshot,
                 rs_Generation := ps_Generation snapshot, rs_Available := ps_State snapshot = ''available'' \<and> available\<rparr>;
               result = (if ps_State snapshot = ''recovering'' \<or> ps_State snapshot = ''degraded'' then result\<lparr>rs_RecoveryActive := True\<rparr>
                 else if ps_State snapshot = ''exhausted'' then result\<lparr>rs_RecoveryActive := True, rs_RecoveryExhausted := True\<rparr>
                 else result) in
           result\<lparr>rs_RecoverySince := ps_LastFailureAt snapshot\<rparr>))"

section \<open>The projection for the notifier\<close>

definition watchdogSnapshot :: "runtimeHealthMonitor \<Rightarrow> NotifierHealthSnapshot" where
  "watchdogSnapshot m =
     (let snapshot = pb_snapshot (mo_publication m); meta = pb_meta (mo_publication m); c = sh_Components snapshot;
          coreHealthy = (sh_Live snapshot \<and> co_Status (cs_Persistence c) = ''healthy'' \<and>
            co_Status (cs_Reconciliation c) \<noteq> ''unknown'' \<and> co_Status (cs_Reconciliation c) \<noteq> ''failed'');
          terminal = (sh_ObservedAt snapshot \<noteq> zeroTime \<and>
            (co_Status (cs_Database c) = ''failed'' \<or> co_Status (cs_Persistence c) = ''failed'' \<or> co_Status (cs_Reconciliation c) = ''failed''));
          exhausted = (hm_recoveryExhausted meta \<or> sh_State snapshot = ''exhausted'' \<or> co_Status (cs_Supervisor c) = ''exhausted'');
          isready = (hm_readyLatched meta \<or> sh_Ready snapshot \<or> terminal);
          isready = (if exhausted then False else isready) in
      \<lparr>nh_Probed = (sh_ObservedAt snapshot \<noteq> zeroTime), nh_Ready = isready,
       nh_DatabaseHealthy = (co_Status (cs_Database c) = ''healthy''), nh_CoreHealthy = coreHealthy,
       nh_CodexHealthy = (co_Status (cs_Codex c) = ''healthy''), nh_RequiredCodex = ho_RequiredCodex (mo_options m),
       nh_WatchdogEligible = sh_WatchdogEligible snapshot, nh_RecoverySince = hm_recoverySince meta,
       nh_RequiredRecoveryActive = hm_recoveryActive meta, nh_RecoveryExhausted = exhausted\<rparr>)"

section \<open>The projection for HTTP\<close>

record RuntimeSupervisorSnapshot =
  hs_Generation :: "64 word"
  hs_State :: gostring
  hs_RetryCount :: int
  hs_RetryAt :: "time option"
  hs_LastHealthy :: "time option"
  hs_RecoveryActive :: bool
  hs_RecoveryExhausted :: bool
  hs_RecoverySince :: "time option"

record RuntimeComponentSnapshot =
  hc_State :: gostring
  hc_Ready :: bool
  hc_Required :: bool
  hc_Status :: gostring
  hc_Reason :: gostring

record RuntimeHealthSnapshot =
  hr_Mode :: gostring
  hr_Required :: bool
  hr_State :: gostring
  hr_Ready :: bool
  hr_Live :: bool
  hr_Liveness :: bool
  hr_WatchdogEligible :: bool
  hr_SchedulerEligible :: bool
  hr_Status :: gostring
  hr_Reason :: gostring
  hr_ObservedAt :: "time option"
  hr_LastSuccessAt :: "time option"
  hr_LastFailureAt :: "time option"
  hr_Generation :: "64 word"
  hr_Supervisor :: RuntimeSupervisorSnapshot
  hr_Components :: "(gostring \<times> RuntimeComponentSnapshot) list"

definition timePointer :: "time \<Rightarrow> time option" where
  "timePointer value = (if value = zeroTime then None else Some value)"

definition addComponent :: "ComponentStatus \<Rightarrow> bool \<Rightarrow> RuntimeComponentSnapshot" where
  "addComponent status componentRequired =
     \<lparr>hc_State = co_Status status, hc_Ready = (co_Status status = ''healthy''), hc_Required = componentRequired,
      hc_Status = co_Status status, hc_Reason = co_Reason status\<rparr>"

definition ProjectRuntimeHealth :: "HealthSnapshot \<Rightarrow> bool \<Rightarrow> RuntimeHealthSnapshot" where
  "ProjectRuntimeHealth snapshot required =
     (let c = sh_Components snapshot;
          status = co_Status (cs_Supervisor c);
          supervisorState = (if status = ''healthy'' then ''running''
            else if status = ''starting'' then ''starting''
            else if status = ''recovering'' then ''recovering''
            else if status = ''exhausted'' then ''exhausted''
            else if status = ''stopping'' then ''stopping''
            else status) in
      \<lparr>hr_Mode = (if required then ''required'' else ''optional''), hr_Required = required, hr_State = sh_State snapshot,
       hr_Ready = sh_Ready snapshot, hr_Live = sh_Live snapshot, hr_Liveness = sh_Liveness snapshot,
       hr_WatchdogEligible = sh_WatchdogEligible snapshot, hr_SchedulerEligible = sh_SchedulerEligible snapshot,
       hr_Status = sh_Status snapshot, hr_Reason = sh_Reason snapshot,
       hr_ObservedAt = timePointer (sh_ObservedAt snapshot), hr_LastSuccessAt = timePointer (sh_LastSuccessAt snapshot),
       hr_LastFailureAt = timePointer (sh_LastFailureAt snapshot), hr_Generation = sh_Generation snapshot,
       hr_Supervisor = \<lparr>hs_Generation = sh_Generation snapshot, hs_State = supervisorState, hs_RetryCount = 0, hs_RetryAt = None,
         hs_LastHealthy = None, hs_RecoveryActive = False, hs_RecoveryExhausted = False, hs_RecoverySince = None\<rparr>,
       hr_Components = [(''database'', addComponent (cs_Database c) True), (''codex'', addComponent (cs_Codex c) required),
         (''supervisor'', addComponent (cs_Supervisor c) required), (''account'', addComponent (cs_Account c) required),
         (''model'', addComponent (cs_Model c) required), (''reconciliation'', addComponent (cs_Reconciliation c) True),
         (''persistence'', addComponent (cs_Persistence c) True)]\<rparr>)"

definition runtimeHTTPSnapshot :: "HealthSnapshot \<Rightarrow> runtimeHealthMeta \<Rightarrow> runtimeSupervisorResult \<Rightarrow> bool \<Rightarrow> RuntimeHealthSnapshot" where
  "runtimeHTTPSnapshot snapshot meta supervisor required =
     (let out = ProjectRuntimeHealth snapshot required;
          recoverySince = timePointer (rs_RecoverySince supervisor);
          recoverySince = (if recoverySince = None \<and> hm_recoverySince meta \<noteq> zeroTime then Some (hm_recoverySince meta) else recoverySince);
          sup = hr_Supervisor out;
          generation = (if rs_Generation supervisor \<noteq> 0 \<or> sh_Generation snapshot = 0 then rs_Generation supervisor else sh_Generation snapshot);
          lastHealthy = timePointer (rs_LastHealthyAt supervisor);
          lastHealthy = (if lastHealthy = None then timePointer (co_LastSuccessAt (cs_Supervisor (sh_Components snapshot))) else lastHealthy) in
      out\<lparr>hr_Supervisor := \<lparr>hs_Generation = generation,
        hs_State = (if rs_State supervisor \<noteq> '''' then rs_State supervisor else hs_State sup),
        hs_RetryCount = rs_Attempts supervisor, hs_RetryAt = timePointer (rs_NextRetryAt supervisor), hs_LastHealthy = lastHealthy,
        hs_RecoveryActive = (hm_recoveryActive meta \<or> rs_RecoveryActive supervisor),
        hs_RecoveryExhausted = (hm_recoveryExhausted meta \<or> rs_RecoveryExhausted supervisor \<or> sh_State snapshot = ''exhausted''),
        hs_RecoverySince = recoverySince\<rparr>\<rparr>)"

definition MonitorSnapshot :: "runtimeHealthMonitor \<Rightarrow> RuntimeHealthSnapshot" where
  "MonitorSnapshot m =
     (let p = mo_publication m in runtimeHTTPSnapshot (pb_snapshot p) (pb_meta p) (pb_supervisor p) (ho_RequiredCodex (mo_options m)))"

definition CloneRuntimeHealthSnapshot :: "RuntimeHealthSnapshot \<Rightarrow> RuntimeHealthSnapshot" where
  "CloneRuntimeHealthSnapshot snapshot =
     (let out = snapshot;
          out = (if hr_Generation out = 0 then out\<lparr>hr_Generation := hs_Generation (hr_Supervisor out)\<rparr> else out) in
      if hs_Generation (hr_Supervisor out) = 0 then out\<lparr>hr_Supervisor := (hr_Supervisor out)\<lparr>hs_Generation := hr_Generation out\<rparr>\<rparr>
      else out)"

end
