(* ===== verification/Health_Contract.thy ===== *)
theory Health_Contract
  imports Health_Service
begin

text \<open>
  What the parts of the runtime health guarantee together: when the watchdog is fed, when the service is stopped, what a
  published verdict on the model rests on, and when the scheduler may run. The last sections show where the notifier and the
  monitor disagree with what is documented.
\<close>

section \<open>A probe and its publication\<close>

definition probeInput :: "probe_answers \<Rightarrow> time \<Rightarrow> runtimeHealthMonitor \<Rightarrow> Input" where
  "probeInput w now m =
     (let ((codex, supervisor, account, model, result), m') = probeCodex w (RuntimeSnapshot m) now m in
      \<lparr>in_ObservedAt = now, in_Database = zero_observation (databaseStatus (pw_DB w)), in_Codex = codex,
       in_Supervisor = supervisor, in_Account = zero_observation account, in_Model = zero_observation model,
       in_Reconciliation = zero_observation (snd (persistenceStatus (pw_Persistence w))),
       in_Persistence = zero_observation (fst (persistenceStatus (pw_Persistence w))),
       in_LastSuccessAt = zeroTime, in_LastFailureAt = zeroTime\<rparr>)"

lemma probeCodex_keeps:
  assumes "probeCodex w p now m = ((codex, supervisor, account, model, result), m')"
  shows "mo_options m' = mo_options m \<and> mo_publication m' = mo_publication m \<and> mo_readyClosed m' = mo_readyClosed m \<and>
    cx_Configured codex = ho_CodexConfigured (mo_options m) \<and> cx_Required codex = ho_RequiredCodex (mo_options m)"
  using assms
  by (auto simp: probeCodex_def probeCodexForGeneration_def codexObservation_def Let_def split: if_splits option.splits sum.splits prod.splits)

lemma clampRecovery_le: "zeroTime < now \<Longrightarrow> clampRecoveryTimestamp v now st \<le> now"
  by (auto simp: clampRecoveryTimestamp_def clampRuntimeTimestamp_def Let_def)

lemma probeCodex_since:
  assumes "probeCodex w p now m = ((codex, supervisor, account, model, result), m')" "zeroTime < now"
  shows "rs_RecoverySince result \<le> now"
  using assms clampRecovery_le [OF assms(2)]
  by (auto simp: probeCodex_def zero_supervisor_def runtimeSupervisorObservation_def Let_def split: if_splits option.splits prod.splits)

lemma publish_parts:
  assumes "probeAndPublish w now m = (cs, m')"
  obtains supervisor where
    "RuntimeSnapshot m' = Evaluate (probeInput w now m)"
    "metaSnapshot m' = nextMeta (mo_options m) now (RuntimeSnapshot m') supervisor (metaSnapshot m)"
    "mo_options m' = mo_options m" "zeroTime < now \<longrightarrow> rs_RecoverySince supervisor \<le> now"
proof -
  obtain codex sv account model result m1 where
    c: "probeCodex w (RuntimeSnapshot m) now m = ((codex, sv, account, model, result), m1)" by (metis prod.exhaust)
  have "probe w (RuntimeSnapshot m) now m = ((Evaluate (probeInput w now m), result), m1)"
    by (simp add: probe_def probeInput_def c split_def Let_def)
  then have "m' = m1\<lparr>mo_publication := \<lparr>pb_snapshot = Evaluate (probeInput w now m),
      pb_meta = nextMeta (mo_options m) now (Evaluate (probeInput w now m)) result (metaSnapshot m), pb_supervisor = result\<rparr>,
      mo_readyClosed := mo_readyClosed m1 \<or> sh_Ready (Evaluate (probeInput w now m))\<rparr>"
    using assms by (simp add: probeAndPublish_def Let_def)
  then show thesis using that [of result] probeCodex_keeps [OF c] probeCodex_since [OF c]
    by (simp add: RuntimeSnapshot_def metaSnapshot_def)
qed

lemma probeInput_fields:
  "in_ObservedAt (probeInput w now m) = now"
  "ob_Status (in_Database (probeInput w now m)) = databaseStatus (pw_DB w)"
  "ob_Status (in_Persistence (probeInput w now m)) = fst (persistenceStatus (pw_Persistence w))"
  "ob_Status (in_Reconciliation (probeInput w now m)) = snd (persistenceStatus (pw_Persistence w))"
  "cx_Configured (in_Codex (probeInput w now m)) = ho_CodexConfigured (mo_options m)"
  "cx_Required (in_Codex (probeInput w now m)) = ho_RequiredCodex (mo_options m)"
proof -
  obtain codex sv account model result m1 where
    c: "probeCodex w (RuntimeSnapshot m) now m = ((codex, sv, account, model, result), m1)" by (metis prod.exhaust)
  show "in_ObservedAt (probeInput w now m) = now"
    "ob_Status (in_Database (probeInput w now m)) = databaseStatus (pw_DB w)"
    "ob_Status (in_Persistence (probeInput w now m)) = fst (persistenceStatus (pw_Persistence w))"
    "ob_Status (in_Reconciliation (probeInput w now m)) = snd (persistenceStatus (pw_Persistence w))"
    "cx_Configured (in_Codex (probeInput w now m)) = ho_CodexConfigured (mo_options m)"
    "cx_Required (in_Codex (probeInput w now m)) = ho_RequiredCodex (mo_options m)"
    using probeCodex_keeps [OF c] by (simp_all add: probeInput_def c zero_observation_def)
qed

lemma databaseStatus_healthy: "databaseStatus a = ''healthy'' \<longleftrightarrow> a = Some (Inr ())"
  by (auto simp: databaseStatus_def split: option.splits sum.splits)

text \<open>The projection for the notifier, in terms of what was probed.\<close>

lemma watchdogSnapshot_fields:
  assumes "probeAndPublish w now m = (cs, m')"
  shows "nh_Probed (watchdogSnapshot m') = (now \<noteq> zeroTime)"
    "nh_DatabaseHealthy (watchdogSnapshot m') = (pw_DB w = Some (Inr ()))"
    "nh_RequiredCodex (watchdogSnapshot m') = ho_RequiredCodex (mo_options m)"
    "nh_CoreHealthy (watchdogSnapshot m') \<Longrightarrow> fst (persistenceStatus (pw_Persistence w)) = ''healthy'' \<and>
       passable (snd (persistenceStatus (pw_Persistence w)))"
    "nh_RecoverySince (watchdogSnapshot m') = hm_recoverySince (metaSnapshot m')"
    "nh_RequiredRecoveryActive (watchdogSnapshot m') = hm_recoveryActive (metaSnapshot m')"
    "nh_CodexHealthy (watchdogSnapshot m') = (co_Status (cs_Codex (sh_Components (RuntimeSnapshot m'))) = ''healthy'')"
proof -
  have p: "RuntimeSnapshot m' = Evaluate (probeInput w now m)" "mo_options m' = mo_options m"
    using publish_parts [OF assms] by metis+
  note [simp] = watchdogSnapshot_def RuntimeSnapshot_def [symmetric] metaSnapshot_def [symmetric] p Evaluate_fields Evaluate_components
    component_status probeInput_fields databaseStatus_healthy
  show "nh_Probed (watchdogSnapshot m') = (now \<noteq> zeroTime)"
    "nh_DatabaseHealthy (watchdogSnapshot m') = (pw_DB w = Some (Inr ()))"
    "nh_RequiredCodex (watchdogSnapshot m') = ho_RequiredCodex (mo_options m)"
    "nh_RecoverySince (watchdogSnapshot m') = hm_recoverySince (metaSnapshot m')"
    "nh_RequiredRecoveryActive (watchdogSnapshot m') = hm_recoveryActive (metaSnapshot m')"
    "nh_CodexHealthy (watchdogSnapshot m') = (co_Status (cs_Codex (sh_Components (RuntimeSnapshot m'))) = ''healthy'')"
    by (simp_all add: Let_def)
  show "nh_CoreHealthy (watchdogSnapshot m') \<Longrightarrow> fst (persistenceStatus (pw_Persistence w)) = ''healthy'' \<and>
       passable (snd (persistenceStatus (pw_Persistence w)))"
    by (auto simp: Let_def knownHealthStatus_def passable_def)
qed


section \<open>The watchdog\<close>

text \<open>
  Property C39. Whenever the watchdog is fed, the last probe found the database answering, no write of the ledger outstanding
  and the reconciliation not failed; and if Codex is required it was usable, or had been unusable for less than the grace.
\<close>

theorem watchdog_fed_when_healthy:
  assumes "probeAndPublish w now m = (cs, m')" "0 < no_recoveryGrace n"
    and "WATCHDOG \<in> set (drop (length (no_sent n)) (no_sent (snd (observeAt (watchdogSnapshot m') t b n))))"
  shows "pw_DB w = Some (Inr ()) \<and> fst (persistenceStatus (pw_Persistence w)) = ''healthy'' \<and>
    snd (persistenceStatus (pw_Persistence w)) \<in> {''healthy'', ''attention''} \<and>
    (ho_RequiredCodex (mo_options m) \<longrightarrow> co_Status (cs_Codex (sh_Components (RuntimeSnapshot m'))) = ''healthy'' \<or>
       (if hm_recoverySince (metaSnapshot m') = zeroTime then hm_recoveryActive (metaSnapshot m')
        else t < hm_recoverySince (metaSnapshot m') + no_recoveryGrace n))"
proof -
  have feed: "mayFeed (watchdogSnapshot m') t (no_recoveryGrace n)" by (rule observeAt_feeds [OF assms(2,3)])
  note f = watchdogSnapshot_fields [OF assms(1)]
  have "nh_CoreHealthy (watchdogSnapshot m')" using feed by (simp add: mayFeed_def)
  then show ?thesis using feed f(4) by (auto simp: mayFeed_def f(2,3,5,6,7) passable_def split: if_splits)
qed

lemma publish_options: "mo_options (snd (probeAndPublish w now m)) = mo_options m"
  using publish_parts [of w now m] by (metis prod.collapse)

section \<open>An outage\<close>

fun publishAll :: "(probe_answers \<times> time) list \<Rightarrow> runtimeHealthMonitor \<Rightarrow> runtimeHealthMonitor" where
  "publishAll [] m = m"
| "publishAll ((w, now) # ps) m = publishAll ps (snd (probeAndPublish w now m))"

text \<open>That every probe of a series finds Codex unusable.\<close>

fun codexDown :: "(probe_answers \<times> time) list \<Rightarrow> runtimeHealthMonitor \<Rightarrow> bool" where
  "codexDown [] m = True"
| "codexDown ((w, now) # ps) m =
     (let m' = snd (probeAndPublish w now m) in
      co_Status (cs_Codex (sh_Components (RuntimeSnapshot m'))) \<noteq> ''healthy'' \<and> codexDown ps m')"

definition outage :: "time \<Rightarrow> runtimeHealthMonitor \<Rightarrow> bool" where
  "outage since m = (ho_RequiredCodex (mo_options m) \<and> ho_CodexConfigured (mo_options m) \<and> hm_readyLatched (metaSnapshot m) \<and>
     hm_recoveryActive (metaSnapshot m) \<and> hm_recoverySince (metaSnapshot m) = since \<and>
     co_Status (cs_Codex (sh_Components (RuntimeSnapshot m))) \<noteq> ''healthy'' \<and> sh_ObservedAt (RuntimeSnapshot m) \<noteq> zeroTime)"

lemma nextMeta_down:
  assumes "co_Status (cs_Codex (sh_Components s)) \<noteq> ''healthy''" "ho_CodexConfigured options" "hm_readyLatched meta"
  shows "hm_readyLatched (nextMeta options now s sv meta) \<and> hm_recoveryActive (nextMeta options now s sv meta) \<and>
    hm_recoverySince (nextMeta options now s sv meta) = recoveryStart (hm_recoverySince meta) sv now"
  using assms by (auto simp: nextMeta_def Let_def)

lemma outage_begins:
  assumes "ho_RequiredCodex (mo_options m)" "ho_CodexConfigured (mo_options m)" "hm_readyLatched (metaSnapshot m)" "zeroTime < now"
    "hm_recoverySince (metaSnapshot m) \<le> now" "m' = snd (probeAndPublish w now m)"
    "co_Status (cs_Codex (sh_Components (RuntimeSnapshot m'))) \<noteq> ''healthy''"
  obtains since where "outage since m'" "since \<noteq> zeroTime" "since \<le> now"
    "hm_recoverySince (metaSnapshot m) \<noteq> zeroTime \<Longrightarrow> since = hm_recoverySince (metaSnapshot m)"
proof -
  obtain cs where "probeAndPublish w now m = (cs, m')" using assms(6) by (metis prod.collapse)
  then obtain sv where p: "RuntimeSnapshot m' = Evaluate (probeInput w now m)"
    "metaSnapshot m' = nextMeta (mo_options m) now (RuntimeSnapshot m') sv (metaSnapshot m)"
    "mo_options m' = mo_options m" "zeroTime < now \<longrightarrow> rs_RecoverySince sv \<le> now"
    by (rule publish_parts)
  let ?since = "recoveryStart (hm_recoverySince (metaSnapshot m)) sv now"
  have "sh_ObservedAt (RuntimeSnapshot m') = now" by (simp add: p(1) Evaluate_fields probeInput_fields)
  then have "outage ?since m'"
    using nextMeta_down [OF assms(7,2,3), of now sv] assms(1-5,7) by (simp add: outage_def p(2,3))
  moreover have "?since \<noteq> zeroTime" "?since \<le> now" using assms(4,5) p(4) by (auto simp: recoveryStart_def)
  ultimately show thesis using that by (auto simp: recoveryStart_def)
qed

lemma outage_continues:
  assumes "outage since m" "since \<noteq> zeroTime" "since \<le> now0" "codexDown ps m" "\<forall>(w, now) \<in> set ps. zeroTime < now \<and> now0 \<le> now"
  shows "outage since (publishAll ps m)"
  using assms
proof (induction ps arbitrary: m)
  case (Cons x ps)
  obtain w now where x: "x = (w, now)" by (metis prod.exhaust)
  let ?m = "snd (probeAndPublish w now m)"
  have "outage since ?m"
    by (rule outage_begins [of m now ?m w]) (use Cons.prems x in \<open>auto simp: outage_def Let_def\<close>)
  then show ?case using Cons.IH [of ?m] Cons.prems x by (simp add: Let_def)
qed simp

lemma outage_fatal:
  assumes "outage since m" "since \<noteq> zeroTime" "since + no_recoveryGrace n \<le> t" "0 < no_recoveryGrace n"
  shows "fst (observeAt (watchdogSnapshot m) t b n) \<noteq> None"
proof -
  let ?h = "watchdogSnapshot m"
  have h: "nh_Probed ?h" "nh_RequiredCodex ?h" "\<not> nh_CodexHealthy ?h" "nh_RecoverySince ?h = since" "nh_RequiredRecoveryActive ?h"
    using assms(1) by (simp_all add: outage_def watchdogSnapshot_def RuntimeSnapshot_def metaSnapshot_def Let_def)
  have "requiredCodexWithinGrace ?h t n = (False, n)"
    using h assms by (simp add: requiredCodexWithinGrace_def Let_def)
  then have "snd (snd (fst (classify ?h t n))) \<noteq> None"
    using h by (simp add: classify_def)
  then show ?thesis by (auto simp: observeAt_def split_def Let_def split: option.splits)
qed

text \<open>
  Property C38. Once the service has been ready, a required Codex that every later probe finds unusable ends it: as soon as the
  grace has passed since the first of these probes, the next observation returns a fatal error.
\<close>

theorem outage_ends_service:
  assumes "ho_RequiredCodex (mo_options m)" "ho_CodexConfigured (mo_options m)" "hm_readyLatched (metaSnapshot m)"
    and "hm_recoverySince (metaSnapshot m) \<le> now" "codexDown ((w, now) # ps) m"
    and "\<forall>(v, at) \<in> set ((w, now) # ps). zeroTime < at \<and> now \<le> at"
    and "0 < no_recoveryGrace n" "now + no_recoveryGrace n \<le> t"
  shows "\<exists>err. fst (observeAt (watchdogSnapshot (publishAll ((w, now) # ps) m)) t b n) = Some err"
proof -
  let ?m = "snd (probeAndPublish w now m)"
  obtain since where s: "outage since ?m" "since \<noteq> zeroTime" "since \<le> now"
    by (rule outage_begins [of m now ?m w]) (use assms in \<open>auto simp: Let_def\<close>)
  have "outage since (publishAll ps ?m)"
    by (rule outage_continues [OF s]) (use assms in \<open>auto simp: Let_def\<close>)
  from outage_fatal [OF this s(2) _ assms(7), of t b] s(3) assms(8) show ?thesis by auto
qed


section \<open>The verdict on the model\<close>

text \<open>The generation of the child that the supervisor reports as running.\<close>

definition observedStatus :: "runtimeSupervisorResult \<Rightarrow> bool \<Rightarrow> gostring" where
  "observedStatus value err = sv_Status (runtimeSupervisorObservation value err zeroTime)"

definition runningGeneration :: "probe_answers \<Rightarrow> 64 word option" where
  "runningGeneration w =
     (case pw_Supervisor w of
        None \<Rightarrow> None
      | Some (value, err) \<Rightarrow>
          if supervisorRunningObservation (observedStatus value err) then Some (rs_Generation value) else None)"

text \<open>In a series of probes, the latest first: a run of probes of one running generation begins with the answer that the model is supported.\<close>

fun supportedSince :: "64 word \<Rightarrow> probe_answers list \<Rightarrow> bool" where
  "supportedSince g [] = False"
| "supportedSince g (w # older) = (runningGeneration w = Some g \<and> (pw_Compatibility w = Some (Inr True) \<or> supportedSince g older))"

definition cache_inv :: "probe_answers list \<Rightarrow> runtimeHealthMonitor \<Rightarrow> bool" where
  "cache_inv ws m = (mo_cacheValid m \<and> mo_cachedModel m = ''compatible'' \<longrightarrow> supportedSince (mo_cacheGeneration m) ws)"

lemma observation_status: "sv_Status (runtimeSupervisorObservation v e t) = observedStatus v e"
  "sv_Generation (runtimeSupervisorObservation v e t) = rs_Generation v"
  by (simp_all add: runtimeSupervisorObservation_def observedStatus_def Let_def)

lemma probeCodexForGeneration_cache:
  assumes "probeCodexForGeneration w g previous m = ((account, model), m')" "cache_inv ws m" "runningGeneration w = Some g"
  shows "cache_inv (w # ws) m' \<and> mo_cacheGeneration m' = g \<and> mo_cacheValid m' \<and> model = modelObservation (mo_cachedModel m')"
proof (cases "mo_cacheValid m \<and> mo_cacheGeneration m = g \<and> sh_Generation previous = g")
  case True
  then have "mo_cachedModel m' = mo_cachedModel m \<and> mo_cacheGeneration m' = g \<and> mo_cacheValid m' \<and> model = modelObservation (mo_cachedModel m')"
    using assms(1) by (auto simp: probeCodexForGeneration_def Let_def split: option.splits sum.splits)
  then show ?thesis using assms(2,3) True by (auto simp: cache_inv_def)
next
  case False
  have "mo_cachedModel m' = (case pw_Compatibility w of None \<Rightarrow> ''unknown'' | Some (Inl _) \<Rightarrow> ''unavailable''
      | Some (Inr s) \<Rightarrow> if s then ''compatible'' else ''incompatible'') \<and> mo_cacheGeneration m' = g \<and> mo_cacheValid m' \<and>
      model = modelObservation (mo_cachedModel m')"
    using assms(1) False by (simp add: probeCodexForGeneration_def Let_def) (auto split: option.splits sum.splits)
  then show ?thesis using assms(3) by (auto simp: cache_inv_def split: option.splits sum.splits if_splits)
qed

lemma probeCodex_cache:
  assumes "probeCodex w previous now m = ((codex, supervisor, account, model, result), m')" "cache_inv ws m" "ho_CodexConfigured (mo_options m)"
  shows "cache_inv (w # ws) m' \<and> (model = ''compatible'' \<longrightarrow> supportedSince (sv_Generation supervisor) (w # ws))"
proof (cases "runningGeneration w")
  case None
  then show ?thesis using assms
    by (auto simp: probeCodex_def runningGeneration_def cache_inv_def observation_status(1) Let_def
        split: option.splits prod.splits if_splits)
next
  case (Some g)
  then obtain v e where v: "pw_Supervisor w = Some (v, e)" "rs_Generation v = g"
    "supervisorRunningObservation (sv_Status (runtimeSupervisorObservation v e now))"
    by (auto simp: runningGeneration_def observation_status(1) split: option.splits if_splits)
  obtain a md m1 where p: "probeCodexForGeneration w g previous m = ((a, md), m1)" by (metis prod.exhaust)
  have "supervisor = runtimeSupervisorObservation v e now" "model = md" "m' = m1"
    using assms(1,3) v p by (auto simp: probeCodex_def observation_status(2) Let_def)
  then show ?thesis using probeCodexForGeneration_cache [OF p assms(2) Some] v(2)
    by (auto simp: cache_inv_def modelObservation_def observation_status(2) split: if_splits)
qed

lemma publish_cache:
  assumes "cache_inv ws m" "ho_CodexConfigured (mo_options m)" "m' = snd (probeAndPublish w now m)"
  shows "cache_inv (w # ws) m' \<and> ho_CodexConfigured (mo_options m') \<and>
    (co_Status (cs_Model (sh_Components (RuntimeSnapshot m'))) = ''healthy'' \<longrightarrow> supportedSince (sh_Generation (RuntimeSnapshot m')) (w # ws))"
proof -
  obtain codex sv account model result m1 where
    c: "probeCodex w (RuntimeSnapshot m) now m = ((codex, sv, account, model, result), m1)" by (metis prod.exhaust)
  have snap: "RuntimeSnapshot m' = Evaluate (probeInput w now m)" "mo_options m' = mo_options m"
    using publish_parts [of w now m "fst (probeAndPublish w now m)" m'] assms(3) by (metis prod.collapse)+
  have cache: "mo_cacheValid m' = mo_cacheValid m1" "mo_cachedModel m' = mo_cachedModel m1" "mo_cacheGeneration m' = mo_cacheGeneration m1"
    by (simp_all add: assms(3) probeAndPublish_def probe_def c split_def Let_def)
  have input: "ob_Status (in_Model (probeInput w now m)) = model" "in_Supervisor (probeInput w now m) = sv"
    by (simp_all add: probeInput_def c zero_observation_def)
  show ?thesis using probeCodex_cache [OF c assms(1,2)] assms(2) cache
    by (auto simp: cache_inv_def snap Evaluate_components component_status Evaluate_fields input)
qed

lemma publishAll_cache:
  "cache_inv ws m \<Longrightarrow> ho_CodexConfigured (mo_options m) \<Longrightarrow> ps \<noteq> [] \<Longrightarrow> m' = publishAll ps m \<Longrightarrow>
   co_Status (cs_Model (sh_Components (RuntimeSnapshot m'))) = ''healthy'' \<Longrightarrow> supportedSince (sh_Generation (RuntimeSnapshot m')) (rev (map fst ps) @ ws)"
proof (induction ps arbitrary: ws m)
  case (Cons x ps)
  obtain w now where x: "x = (w, now)" by (metis prod.exhaust)
  let ?m = "snd (probeAndPublish w now m)"
  note step = publish_cache [OF Cons.prems(1,2), of ?m w now, OF refl]
  show ?case
  proof (cases "ps = []")
    case True
    then show ?thesis using step Cons.prems x by simp
  next
    case False
    then show ?thesis using Cons.IH [of "w # ws" ?m] step Cons.prems x by simp
  qed
qed simp

text \<open>
  The verdict on the model is cached for one generation of the process. When a snapshot calls the model compatible, the
  App Server of the published generation has been running in every probe since one in which it said that it supports the model.
\<close>

lemma model_verdict_current:
  assumes "ho_CodexConfigured options" "ps \<noteq> []" "m = publishAll ps (newRuntimeHealthMonitor options)"
    and "co_Status (cs_Model (sh_Components (RuntimeSnapshot m))) = ''healthy''"
  shows "supportedSince (sh_Generation (RuntimeSnapshot m)) (rev (map fst ps))"
proof -
  have "cache_inv [] (newRuntimeHealthMonitor options)" "ho_CodexConfigured (mo_options (newRuntimeHealthMonitor options))"
    using assms(1) by (simp_all add: newRuntimeHealthMonitor_def cache_inv_def Let_def)
  from publishAll_cache [OF this assms(2,3,4)] show ?thesis by simp
qed

section \<open>The scheduler\<close>

lemma usable_available: "usable (probeInput w now m) \<Longrightarrow> \<exists>v e. pw_Supervisor w = Some (v, e) \<and> rs_Available v"
  by (auto simp: usable_def probeInput_def probeCodex_def codexObservation_def Let_def split: option.splits prod.splits if_splits)

text \<open>
  When a probe of the supervised process lets the scheduler run, the manager serves a child that is available, and
  the ledger has no write outstanding.
\<close>

lemma scheduler_needs_child:
  assumes "pw_Supervisor w = Some (clientSupervisorProbe (AvailableManager av pm) (Some (ProcessSnapshotOf av pm)), False)"
    and "pw_Persistence w = Some (storePersistenceProbe status s)"
    and "sh_SchedulerEligible (RuntimeSnapshot (snd (probeAndPublish w now m)))"
  shows "(\<exists>c. currentClient pm = Some c \<and> av c) \<and> list_all (\<lambda>r. in_state r \<notin> {I_pending, I_leased, I_blocked}) (a_intents s)"
proof -
  have snap: "RuntimeSnapshot (snd (probeAndPublish w now m)) = Evaluate (probeInput w now m)"
    using publish_parts [of w now m "fst (probeAndPublish w now m)" "snd (probeAndPublish w now m)"] by (metis prod.collapse)
  have el: "coreReady (probeInput w now m)" "usable (probeInput w now m)" using assms(3) by (simp_all add: snap Evaluate_scheduler)
  have "AvailableManager av pm"
    using usable_available [OF el(2)] assms(1) by (auto simp: clientSupervisorProbe_def Let_def split: if_splits)
  moreover have "fst (persistenceStatus (pw_Persistence w)) = ''healthy''" using el(1) by (simp add: coreReady_def probeInput_fields)
  then have "list_all (\<lambda>r. in_state r \<notin> {I_pending, I_leased, I_blocked}) (a_intents s)"
    using assms(2) by (auto simp: persistenceStatus_def storePersistenceProbe_def countWhere_def list_all_iff filter_empty_conv Let_def
        split: option.splits if_splits)
  ultimately show ?thesis by (auto simp: AvailableManager_def currentClient_def split: if_splits option.splits)
qed


section \<open>Where the notifier is stricter than the monitor\<close>

lemma ledger_attention:
  assumes "pw_Persistence w = Some (storePersistenceProbe (Some status) s)" "r \<in> set (a_intents s)" "in_state r \<in> {I_pending, I_leased, I_blocked}"
  shows "fst (persistenceStatus (pw_Persistence w)) = ''attention''"
proof -
  have "0 < countWhere (\<lambda>r. in_state r = I_pending) (a_intents s) \<or> 0 < countWhere (\<lambda>r. in_state r = I_leased) (a_intents s) \<or>
      0 < countWhere (\<lambda>r. in_state r = I_blocked) (a_intents s)"
    using assms(2,3) by (auto simp: countWhere_def filter_empty_conv)
  then show ?thesis by (auto simp: persistenceStatus_def storePersistenceProbe_def assms(1) Let_def)
qed

text \<open>
  While the ledger holds a write that is not applied, the monitor reports the persistence as degraded, not as failed,
  which the documentation calls a warning; but the notifier takes it for a failure of the core, and its next observation stops the service.
\<close>

lemma attention_ends_service:
  assumes "pw_DB w = Some (Inr ())" "pw_Persistence w = Some (storePersistenceProbe (Some status) s)"
    and "r \<in> set (a_intents s)" "in_state r \<in> {I_pending, I_leased, I_blocked}" "now \<noteq> zeroTime" "\<not> ho_RequiredCodex (mo_options m)"
    and m': "m' = snd (probeAndPublish w now m)"
  shows "co_Status (cs_Persistence (sh_Components (RuntimeSnapshot m'))) = ''degraded'' \<and>
    fst (observeAt (watchdogSnapshot m') t b n) = Some ErrNotifierCoreFailure"
proof -
  obtain cs where p: "probeAndPublish w now m = (cs, m')" using m' by (metis prod.collapse)
  note att = ledger_attention [OF assms(2-4)]
  have snap: "RuntimeSnapshot m' = Evaluate (probeInput w now m)" using publish_parts [OF p] by metis
  let ?h = "watchdogSnapshot m'"
  have h: "nh_Probed ?h" "\<not> nh_RequiredCodex ?h" "nh_DatabaseHealthy ?h" "\<not> nh_CoreHealthy ?h"
    using watchdogSnapshot_fields(1-4) [OF p] assms(1,5,6) att by auto
  then have "classify ?h t n = ((notifierStateDegraded, ''Degraded'', Some ErrNotifierCoreFailure), n)" by (simp add: classify_def)
  then have "fst (observeAt ?h t b n) = Some ErrNotifierCoreFailure" by (simp add: observeAt_def split_def Let_def)
  then show ?thesis using att by (simp add: snap Evaluate_components component_status probeInput_fields)
qed

lemma ping_no_ready: "filter isReady (no_sent (ping h t st n)) = filter isReady (no_sent n)"
  by (auto simp: ping_def send_def isReady_def Let_def dest: grace_sent split: prod.splits)

text \<open>
  An optional Codex has no part in the readiness of the service, and the snapshot says ready. But when its supervisor is
  exhausted before the readiness was announced, the notifier withholds the announcement, as it should only for a required Codex.
\<close>

lemma optional_exhaustion_withholds_ready:
  assumes "ho_CodexConfigured (mo_options m)" "\<not> ho_RequiredCodex (mo_options m)" "pw_DB w = Some (Inr ())"
    and "persistenceStatus (pw_Persistence w) = (''healthy'', ''healthy'')" "pw_Supervisor w = Some (value, err)" "rs_State value = ''exhausted''"
    and m': "m' = snd (probeAndPublish w now m)"
  shows "sh_Ready (RuntimeSnapshot m') \<and>
    filter isReady (no_sent (snd (observeAt (watchdogSnapshot m') t b n))) = filter isReady (no_sent n)"
proof -
  obtain cs where p: "probeAndPublish w now m = (cs, m')" using m' by (metis prod.collapse)
  have snap: "RuntimeSnapshot m' = Evaluate (probeInput w now m)" using publish_parts [OF p] by metis
  have sv: "sv_Status (in_Supervisor (probeInput w now m)) = ''exhausted''"
    using assms(1,5,6) by (simp add: probeInput_def probeCodex_def runtimeSupervisorObservation_def supervisorRunningObservation_def Let_def)
  then have ready: "sh_Ready (RuntimeSnapshot m')"
    using assms(1-4) by (simp add: snap Evaluate_ready coreReady_def probeInput_fields databaseStatus_def isStopping_def)
  have "\<not> nh_Ready (watchdogSnapshot m')"
    using sv by (simp add: watchdogSnapshot_def RuntimeSnapshot_def [symmetric] snap Evaluate_components component_status Let_def)
  then obtain st status fatal n1 where o: "classify (watchdogSnapshot m') t n = ((st, status, fatal), n1)"
    "observeAt (watchdogSnapshot m') t b n = (fatal, case fatal of Some err \<Rightarrow> signalFatal err (setState st True n1)
       | None \<Rightarrow> if b then ping (watchdogSnapshot m') t st (setState st True n1) else setState st True n1)"
    by (rule_tac observeAt_parts [of "watchdogSnapshot m'" t n b]) auto
  have "filter isReady (no_sent (setState st True n1)) = filter isReady (no_sent n)"
    using classify_sent [OF o(1)] by (simp add: setState_def send_def isReady_def Let_def)
  then have "filter isReady (no_sent (snd (observeAt (watchdogSnapshot m') t b n))) = filter isReady (no_sent n)"
    unfolding o(2) by (cases fatal) (simp_all add: ping_no_ready signalFatal_def)
  with ready show ?thesis by blast
qed

section \<open>Examples\<close>

definition demo_options :: "bool \<Rightarrow> runtimeHealthOptions" where
  "demo_options required = \<lparr>ho_RequiredCodex = required, ho_CodexConfigured = True, ho_Interval = 0, ho_ProbeTimeout = 0, ho_RecoveryGrace = 0\<rparr>"

definition demo_process :: "gostring \<Rightarrow> runtimeSupervisorResult" where
  "demo_process st = zero_supervisor\<lparr>rs_Configured := True, rs_Available := st = ''available'', rs_Generation := 1, rs_State := st\<rparr>"

definition demo_intents :: "intent_state list \<Rightarrow> arch" where
  "demo_intents sts = empty_arch\<lparr>a_intents := map (\<lambda>st. \<lparr>in_id = ''i'', in_job_id = ''j'', in_operation = ''activate'', in_payload_digest = '''',
     in_payload_json = '''', in_state = st, in_attempts = 0, in_next_attempt_at = None, in_lease_owner = '''', in_lease_expires_at = None,
     in_last_error_code = '''', in_applied_at = None, in_created_at = 0, in_updated_at = 0\<rparr>) sts\<rparr>"

definition demo_answers :: "intent_state list \<Rightarrow> gostring \<Rightarrow> probe_answers" where
  "demo_answers sts st = \<lparr>pw_DB = Some (Inr ()), pw_Persistence = Some (storePersistenceProbe (Some ''healthy'') (demo_intents sts)),
     pw_Supervisor = Some (demo_process st, False), pw_Account = Some (Inr ''signed_in''), pw_Compatibility = Some (Inr True)\<rparr>"

definition demo_monitor :: "bool \<Rightarrow> runtimeHealthMonitor" where
  "demo_monitor required = publishAll [(demo_answers [] ''available'', 1)] (newRuntimeHealthMonitor (demo_options required))"

definition demo_notifier :: serviceNotifier where
  "demo_notifier = newServiceNotifierWithOptions True 0 0"

lemma demo_grace: "0 < no_recoveryGrace demo_notifier" "no_recoveryGrace demo_notifier = 30000000000" "no_sent demo_notifier = []"
  by (simp_all add: demo_notifier_def newServiceNotifierWithOptions_def)

lemma demo_required: "ho_RequiredCodex (mo_options (demo_monitor b)) = b" "ho_CodexConfigured (mo_options (demo_monitor b))"
  by (simp_all add: demo_monitor_def publish_options newRuntimeHealthMonitor_def demo_options_def Let_def)

theorem watchdog_fed_when_healthy_witness:
  "no_sent (snd (observeAt (watchdogSnapshot (demo_monitor True)) 2 True demo_notifier)) = [READY ''Ready'', WATCHDOG] \<and>
   pw_DB (demo_answers [] ''available'') = Some (Inr ()) \<and>
   fst (persistenceStatus (pw_Persistence (demo_answers [] ''available''))) = ''healthy''"
proof -
  have sent: "no_sent (snd (observeAt (watchdogSnapshot (demo_monitor True)) 2 True demo_notifier)) = [READY ''Ready'', WATCHDOG]"
    by code_simp
  let ?w = "demo_answers [] ''available''" and ?m = "newRuntimeHealthMonitor (demo_options True)"
  have "probeAndPublish ?w 1 ?m = (fst (probeAndPublish ?w 1 ?m), demo_monitor True)" by (simp add: demo_monitor_def)
  from watchdog_fed_when_healthy [OF this demo_grace(1), of 2 True] sent show ?thesis by (simp add: demo_grace(3))
qed

theorem outage_ends_service_witness:
  "\<exists>err. fst (observeAt (watchdogSnapshot (publishAll [(demo_answers [] ''recovering'', 2), (demo_answers [] ''degraded'', 3)] (demo_monitor True)))
     30000000002 True demo_notifier) = Some err"
proof (rule outage_ends_service [OF demo_required(1) [THEN iffD2, OF TrueI] demo_required(2)])
  show "hm_readyLatched (metaSnapshot (demo_monitor True))" "hm_recoverySince (metaSnapshot (demo_monitor True)) \<le> 2"
    "codexDown [(demo_answers [] ''recovering'', 2), (demo_answers [] ''degraded'', 3)] (demo_monitor True)"
    by code_simp+
qed (simp_all add: demo_grace zeroTime_def)

definition demo_manager :: ManagedProcessClient where
  "demo_manager = (newAutonomousManagedProcess \<lparr>mo_MaxRestartAttempts = 0, mo_MaxRecoveryAttempts = 0, mo_MaxRestarts = 0, mo_RestartBudget = 0,
     mo_HealthyInterval = 0, mo_HealthInterval = 0, mo_SustainedHealthyInterval = 0\<rparr>)\<lparr>mp_client := Some 0, mp_state := ''available'', mp_generation := 1\<rparr>"

definition demo_managed :: probe_answers where
  "demo_managed = (demo_answers [] ''available'')\<lparr>pw_Supervisor :=
     Some (clientSupervisorProbe (AvailableManager (\<lambda>_. True) demo_manager) (Some (ProcessSnapshotOf (\<lambda>_. True) demo_manager)), False)\<rparr>"

end
