(* ===== verification/Supervisor_Contract.thy ===== *)
theory Supervisor_Contract
  imports Process_Supervisor
begin

text \<open>
  What the supervisor of \<open>Process_Supervisor\<close> guarantees in every interleaving of its goroutine with requests and with
  \<open>Close\<close>: the factory is called no more often than the budget allows, at most one child is alive, none is left behind,
  and every turn of the loop ends.
  The last section shows an interleaving after which a child that failed is never replaced.
\<close>

section \<open>The supervised system\<close>

text \<open>
  Beside the manager and its goroutines the state has four records of what happened, which no section reads: the
  children that were started and those that were told to close, the calls of the factory, the times at which the child
  that is served was seen serving, and the sections of the present turn of the supervisor.
\<close>

record supervised =
  su_m :: ManagedProcessClient
  su_sup :: place \<comment> \<open>the supervisor goroutine\<close>
  su_others :: "place list" \<comment> \<open>requests and calls of \<open>Close\<close>\<close>
  su_created :: nat \<comment> \<open>the children that were started\<close>
  su_closed :: "child list" \<comment> \<open>the children that were told to close\<close>
  su_spawns :: nat \<comment> \<open>calls of the factory since a child last proved healthy\<close>
  su_seen :: "time list" \<comment> \<open>when the child served without a break was installed or reported healthy\<close>
  su_sections :: nat \<comment> \<open>sections of the supervisor since it woke\<close>

definition sightings :: "ManagedProcessClient \<Rightarrow> time list \<Rightarrow> time list" where
  "sightings m ts = (if mp_state m = ''available'' then ts else [])"

text \<open>A child proves healthy at \<open>now\<close> when it is served and was already seen serving one interval earlier.\<close>

definition proved :: "time \<Rightarrow> ManagedProcessClient \<Rightarrow> time list \<Rightarrow> bool" where
  "proved now m ts \<longleftrightarrow> mp_state m = ''available'' \<and> (mp_healthyInterval m \<le> 0 \<or> (\<exists>t \<in> set ts. t + mp_healthyInterval m \<le> now))"

definition counted :: "bool \<Rightarrow> nat \<Rightarrow> nat" where
  "counted healthy n = (if healthy then 0 else n)"

text \<open>A section of the supervisor, and one of another goroutine.\<close>

abbreviation moved :: "place \<Rightarrow> ManagedProcessClient \<Rightarrow> supervised \<Rightarrow> supervised" where
  "moved p m s \<equiv> s\<lparr>su_sup := p, su_m := m, su_seen := sightings m (su_seen s), su_sections := Suc (su_sections s)\<rparr>"

abbreviation touched :: "place list \<Rightarrow> ManagedProcessClient \<Rightarrow> supervised \<Rightarrow> supervised" where
  "touched ps m s \<equiv> s\<lparr>su_others := ps, su_m := m, su_seen := sightings m (su_seen s)\<rparr>"

abbreviation spawnedAs :: "spawn_frame \<Rightarrow> process_error + child \<Rightarrow> supervised \<Rightarrow> supervised" where
  "spawnedAs f r s \<equiv> s\<lparr>su_sup := Spawned f r, su_closed := (case sf_old f of None \<Rightarrow> su_closed s | Some c \<Rightarrow> c # su_closed s),
     su_spawns := Suc (su_spawns s), su_sections := Suc (su_sections s)\<rparr>"

inductive supervised_step :: "supervised \<Rightarrow> supervised \<Rightarrow> bool" where
  wake: "su_sup s = Idle \<Longrightarrow> (w \<Longrightarrow> mp_wake (su_m s)) \<Longrightarrow> supervisorStep now ((su_m s)\<lparr>mp_wake := w\<rparr>) = (p, m) \<Longrightarrow>
    supervised_step s ((moved p m s)\<lparr>su_spawns := counted (proved now (su_m s) (su_seen s)) (su_spawns s), su_sections := 0\<rparr>)"
| exit: "su_sup s = Idle \<Longrightarrow> handleSupervisorEvent e (su_m s) = (p, m) \<Longrightarrow> supervised_step s ((moved p m s)\<lparr>su_sections := 0\<rparr>)"
| commit: "su_sup s = Committing a old g now \<Longrightarrow> commitAttempt a old g now (su_m s) = (p, m) \<Longrightarrow> supervised_step s (moved p m s)"
| spawn: "su_sup s = Spawning f \<Longrightarrow> supervised_step s ((spawnedAs f (Inr (su_created s)) s)\<lparr>su_created := Suc (su_created s)\<rparr>)"
| spawn_unusable: "su_sup s = Spawning f \<Longrightarrow>
    supervised_step s ((spawnedAs f (Inl err) s)\<lparr>su_created := Suc (su_created s),
      su_closed := su_created s # (case sf_old f of None \<Rightarrow> su_closed s | Some c \<Rightarrow> c # su_closed s)\<rparr>)"
| spawn_fails: "su_sup s = Spawning f \<Longrightarrow> supervised_step s (spawnedAs f (Inl err) s)"
| check: "su_sup s = Spawned f r \<Longrightarrow> checkCandidate f r (su_m s) = (p, m) \<Longrightarrow> supervised_step s (moved p m s)"
| fail: "su_sup s = Failing f err a \<Longrightarrow> failCandidate f err now delay (su_m s) = (p, m) \<Longrightarrow> supervised_step s (moved p m s)"
| install: "su_sup s = Installing f c old g \<Longrightarrow> installCandidate f c old g now pid (su_m s) = (p, m) \<Longrightarrow>
    supervised_step s ((moved p m s)\<lparr>su_seen := (if p = Announcing f c then [now] else sightings m (su_seen s))\<rparr>)"
| announce: "su_sup s = Announcing f c \<Longrightarrow> announce f c (su_m s) = (p, m) \<Longrightarrow> supervised_step s (moved p m s)"
| discard: "su_sup s = Discarding c pending \<Longrightarrow>
    supervised_step s ((moved (discard None pending) (su_m s) s)\<lparr>su_closed := c # su_closed s\<rparr>)"
| schedule: "su_sup s = Handling e pending a \<Longrightarrow> scheduleRecovery e pending now delay (su_m s) = (p, m) \<Longrightarrow> supervised_step s (moved p m s)"
| finish: "su_sup s = Finishing pending c err \<Longrightarrow> supervised_step s (moved Idle (finishRecovery pending c err (su_m s)) s)"
| request: "requestFailure c err pid (su_m s) = Some e \<Longrightarrow> supervised_step s (s\<lparr>su_others := Reporting e # su_others s\<rparr>)"
| report: "su_others s = xs @ Reporting e # ys \<Longrightarrow> handleSupervisorEvent e (su_m s) = (p, m) \<Longrightarrow>
    supervised_step s (touched (xs @ p # ys) m s)"
| report_schedule: "su_others s = xs @ Handling e pending a # ys \<Longrightarrow> scheduleRecovery e pending now delay (su_m s) = (p, m) \<Longrightarrow>
    supervised_step s (touched (xs @ p # ys) m s)"
| report_finish: "su_others s = xs @ Finishing pending c err # ys \<Longrightarrow>
    supervised_step s (touched (xs @ ys) (finishRecovery pending c err (su_m s)) s)"
| healthy: "m = markHealthy c now (su_m s) \<Longrightarrow>
    supervised_step s (s\<lparr>su_m := m, su_seen := sightings m (if isCurrent c (su_m s) then now # su_seen s else su_seen s),
      su_spawns := counted (isCurrent c (su_m s) \<and> proved now (su_m s) (su_seen s)) (su_spawns s)\<rparr>)"
| close: "CloseManager (su_m s) = (p, m) \<Longrightarrow> supervised_step s (touched (p # su_others s) m s)"
| closing: "su_others s = xs @ Closing c # ys \<Longrightarrow>
    supervised_step s ((touched (xs @ ys) (signalSupervisor (finishInitial (Some ErrUnavailable) (su_m s))) s)
      \<lparr>su_closed := (case c of None \<Rightarrow> su_closed s | Some k \<Rightarrow> k # su_closed s)\<rparr>)"

definition supervised_start :: "supervised \<Rightarrow> bool" where
  "supervised_start s = (\<exists>options. s = \<lparr>su_m = newAutonomousManagedProcess options, su_sup = Idle, su_others = [],
     su_created = 0, su_closed = [], su_spawns = 0, su_seen = [], su_sections = 0\<rparr>)"

section \<open>The budget\<close>

text \<open>What the place of the supervisor adds: an attempt that is under way has not been counted by the factory yet.\<close>

fun place_budget :: "place \<Rightarrow> nat \<Rightarrow> ManagedProcessClient \<Rightarrow> bool" where
  "place_budget (Committing a old g now) n m =
     (a = mp_recoveryAttempts m + 1 \<and> a \<le> mp_maxRecoveryAttempts m \<and> mp_state m \<noteq> ''available'' \<and> mp_initialAttempted m)"
| "place_budget (Spawning f) n m =
     (int n \<le> mp_recoveryAttempts m \<and> mp_state m \<noteq> ''available'' \<and> (sf_initial f \<longrightarrow> mp_recoveryAttempts m = 0) \<and> mp_initialAttempted m)"
| "place_budget (Spawned f r) n m = ((sf_initial f \<longrightarrow> mp_recoveryAttempts m = 0) \<and> mp_initialAttempted m)"
| "place_budget (Failing f err a) n m = ((sf_initial f \<longrightarrow> mp_recoveryAttempts m = 0) \<and> mp_initialAttempted m)"
| "place_budget (Installing f c old g) n m = mp_initialAttempted m"
| "place_budget _ n m = True"

text \<open>Before the first attempt there is nothing to recover.\<close>

definition untried :: "ManagedProcessClient \<Rightarrow> bool" where
  "untried m = (mp_recoveryAttempts m = 0 \<and> mp_client m = None \<and> mp_recovery m = None)"

text \<open>The time from which the manager counts the interval is one at which the child was seen.\<close>

definition since_seen :: "ManagedProcessClient \<Rightarrow> time list \<Rightarrow> bool" where
  "since_seen m ts = (mp_state m = ''available'' \<and> mp_healthySince m \<noteq> zeroTime \<longrightarrow> mp_healthySince m \<in> set ts)"

definition budget_inv :: "supervised \<Rightarrow> bool" where
  "budget_inv s =
     (0 \<le> mp_recoveryAttempts (su_m s) \<and> mp_recoveryAttempts (su_m s) \<le> max 1 (mp_maxRecoveryAttempts (su_m s)) \<and>
      int (su_spawns s) \<le> mp_recoveryAttempts (su_m s) + 1 \<and> since_seen (su_m s) (su_seen s) \<and>
      (\<not> mp_initialAttempted (su_m s) \<longrightarrow> su_spawns s = 0 \<and> untried (su_m s)) \<and>
      place_budget (su_sup s) (su_spawns s) (su_m s))"

lemmas section_defs = supervisorStep_def commitAttempt_def handleSupervisorEvent_def scheduleRecovery_def checkCandidate_def
  failCandidate_def installCandidate_def announce_def CloseManager_def markHealthy_def finishRecovery_def resetHealthyLocked_def
  broadcastStateLocked_def signalSupervisor_def finishInitial_def newRecovery_def discard_def Let_def

lemmas seen_defs = since_seen_def sightings_def

lemma place_budget_mono: "place_budget p n m \<Longrightarrow> k \<le> n \<Longrightarrow> place_budget p k m"
  by (cases p) auto

definition interval_over :: "time \<Rightarrow> ManagedProcessClient \<Rightarrow> bool" where
  "interval_over now m \<longleftrightarrow> mp_state m = ''available'' \<and> mp_healthySince m \<noteq> zeroTime \<and>
     (mp_healthyInterval m \<le> 0 \<or> \<not> now < mp_healthySince m + mp_healthyInterval m)"

lemma interval_proved: "interval_over now m \<Longrightarrow> since_seen m ts \<Longrightarrow> proved now m ts"
  by (force simp: interval_over_def since_seen_def proved_def)

lemma supervisorStep_reset:
  "supervisorStep now m = (p, m') \<Longrightarrow> interval_over now m \<Longrightarrow> \<not> mp_closed m \<Longrightarrow> p = Idle \<and> m' = resetHealthyLocked now m"
  by (simp add: supervisorStep_def interval_over_def)

lemma supervisorStep_closed: "supervisorStep now m = (p, m') \<Longrightarrow> mp_closed m \<Longrightarrow> p = Idle \<and> m' = m"
  by (simp add: supervisorStep_def)

lemma supervisorStep_other:
  assumes "supervisorStep now m = (p, m')" "\<not> interval_over now m" "\<not> mp_closed m" "0 \<le> mp_recoveryAttempts m"
    "\<not> mp_initialAttempted m \<longrightarrow> n = 0 \<and> untried m" "int n \<le> mp_recoveryAttempts m + 1"
  shows "mp_recoveryAttempts m' = mp_recoveryAttempts m \<and> mp_maxRecoveryAttempts m' = mp_maxRecoveryAttempts m \<and>
    (mp_state m' = ''available'' \<longrightarrow> mp_state m = ''available'' \<and> mp_healthySince m' = mp_healthySince m) \<and>
    (\<not> mp_initialAttempted m' \<longrightarrow> n = 0 \<and> untried m') \<and> place_budget p n m'"
proof -
  note step = assms(1) [unfolded supervisorStep_def, folded interval_over_def, unfolded if_not_P [OF assms(2)] if_not_P [OF assms(3)]]
  show ?thesis
  proof (cases "\<not> mp_initialAttempted m \<and> mp_client m = None")
    case True
    with step assms(5) show ?thesis by (auto simp: broadcastStateLocked_def untried_def)
  next
    case False
    then have tried: "mp_initialAttempted m" using assms(5) by (auto simp: untried_def)
    show ?thesis
    proof (cases "mp_recovery m")
      case None
      with step False tried show ?thesis by simp
    next
      case (Some pending)
      with step False tried assms(4) show ?thesis by (auto simp: broadcastStateLocked_def split: if_splits)
    qed
  qed
qed

lemma supervisorStep_budget:
  assumes "supervisorStep now m = (p, m')" "0 \<le> mp_recoveryAttempts m" "mp_recoveryAttempts m \<le> max 1 (mp_maxRecoveryAttempts m)"
    "int n \<le> mp_recoveryAttempts m + 1" "\<not> mp_initialAttempted m \<longrightarrow> n = 0 \<and> untried m" "since_seen m ts"
    "k = counted (proved now m ts) n"
  shows "0 \<le> mp_recoveryAttempts m' \<and> mp_recoveryAttempts m' \<le> max 1 (mp_maxRecoveryAttempts m') \<and>
    int k \<le> mp_recoveryAttempts m' + 1 \<and> since_seen m' (sightings m' ts) \<and>
    (\<not> mp_initialAttempted m' \<longrightarrow> k = 0 \<and> untried m') \<and> place_budget p k m'"
proof -
  have k: "k \<le> n" "k = 0 \<or> k = n" using assms(7) by (simp_all add: counted_def)
  consider "mp_closed m" | "\<not> mp_closed m" "interval_over now m" | "\<not> mp_closed m" "\<not> interval_over now m" by blast
  then show ?thesis
  proof cases
    case 1
    with supervisorStep_closed [OF assms(1)] assms(2-6) k show ?thesis by (auto simp: seen_defs)
  next
    case 2
    have "k = 0" using interval_proved [OF 2(2) assms(6)] assms(7) by (simp add: counted_def)
    with supervisorStep_reset [OF assms(1) 2(2,1)] 2(2) [unfolded interval_over_def] assms(5,6) show ?thesis
      by (auto simp: resetHealthyLocked_def broadcastStateLocked_def seen_defs untried_def)
  next
    case 3
    note other = supervisorStep_other [OF assms(1) 3(2,1) assms(2,5,4)]
    then have "since_seen m' (sightings m' ts)" using assms(6) by (auto simp: seen_defs)
    with other assms(2-4) k place_budget_mono [of p n m' k] show ?thesis by auto
  qed
qed


text \<open>The sections that leave the budget alone; they make no child available that was not.\<close>

definition quietBudget :: "ManagedProcessClient \<Rightarrow> ManagedProcessClient \<Rightarrow> bool" where
  "quietBudget m m' = (mp_recoveryAttempts m' = mp_recoveryAttempts m \<and> mp_maxRecoveryAttempts m' = mp_maxRecoveryAttempts m \<and>
     mp_initialAttempted m' = mp_initialAttempted m \<and>
     (mp_state m' = ''available'' \<longrightarrow> mp_state m = ''available'' \<and> mp_healthySince m' = mp_healthySince m) \<and>
     (untried m \<longrightarrow> untried m'))"

fun neutral :: "place \<Rightarrow> bool" where
  "neutral (Committing a old g now) = False"
| "neutral (Spawning f) = False"
| "neutral (Spawned f r) = False"
| "neutral (Failing f err a) = False"
| "neutral (Installing f c old g) = False"
| "neutral _ = True"

lemma neutral_budget: "neutral p \<Longrightarrow> place_budget p n m"
  by (cases p) auto

lemma quiet_budget: "quietBudget m m' \<Longrightarrow> place_budget p n m \<Longrightarrow> place_budget p n m'"
  by (cases p) (auto simp: quietBudget_def)

lemma handle_quiet: "handleSupervisorEvent e m = (p, m') \<Longrightarrow> quietBudget m m' \<and> neutral p"
  by (auto simp: section_defs quietBudget_def untried_def split: if_splits)

lemma schedule_quiet: "scheduleRecovery e pending now delay m = (p, m') \<Longrightarrow> quietBudget m m' \<and> neutral p"
  by (auto simp: section_defs quietBudget_def untried_def split: if_splits)

lemma check_budget: "checkCandidate f r m = (p, m') \<Longrightarrow> place_budget (Spawned f r) n m \<Longrightarrow> m' = m \<and> place_budget p n m"
  by (auto simp: section_defs split: if_splits sum.splits option.splits)

lemma announce_quiet: "announce f c m = (p, m') \<Longrightarrow> quietBudget m m' \<and> neutral p"
  by (auto simp: section_defs quietBudget_def untried_def split: if_splits option.splits)

lemma finish_quiet: "quietBudget m (finishRecovery pending c err m)"
  by (auto simp: section_defs quietBudget_def untried_def)

lemma close_quiet: "CloseManager m = (p, m') \<Longrightarrow> quietBudget m m' \<and> neutral p"
  by (auto simp: section_defs quietBudget_def untried_def split: if_splits option.splits)

lemma closing_quiet: "quietBudget m (signalSupervisor (finishInitial err m))"
  by (auto simp: section_defs quietBudget_def untried_def)

lemma quiet_refl: "quietBudget m m"
  by (simp add: quietBudget_def)

lemma budget_inv_quiet:
  assumes "budget_inv s" "quietBudget (su_m s) m'" "place_budget p (su_spawns s) m'"
  shows "budget_inv (moved p m' s)" "budget_inv ((moved p m' s)\<lparr>su_sections := k\<rparr>)"
  using assms by (auto simp: budget_inv_def quietBudget_def seen_defs)

lemma budget_inv_others: "budget_inv (s\<lparr>su_others := ps\<rparr>) = budget_inv s" "budget_inv (s\<lparr>su_closed := cs\<rparr>) = budget_inv s"
  by (simp_all add: budget_inv_def)

lemma budget_inv_request:
  assumes "budget_inv s" "quietBudget (su_m s) m'"
  shows "budget_inv (touched ps m' s)"
  using assms quiet_budget [OF assms(2), of "su_sup s" "su_spawns s"] by (auto simp: budget_inv_def quietBudget_def seen_defs)

lemma commit_budget:
  assumes "commitAttempt a old g now m = (p, m')" "a = mp_recoveryAttempts m + 1" "a \<le> mp_maxRecoveryAttempts m" "0 \<le> mp_recoveryAttempts m"
    "mp_initialAttempted m"
    "int n \<le> mp_recoveryAttempts m + 1"
  shows "0 \<le> mp_recoveryAttempts m' \<and> mp_recoveryAttempts m' \<le> mp_maxRecoveryAttempts m' \<and> int n \<le> mp_recoveryAttempts m' + 1 \<and>
    mp_initialAttempted m' \<and> place_budget p n m' \<or> p = Idle \<and> m' = m"
  using assms by (auto simp: section_defs split: if_splits option.splits)

lemma unavailable_after:
  "commitAttempt a old g now m = (p, m') \<Longrightarrow> m' = m \<or> mp_state m' \<noteq> ''available''"
  "failCandidate f err now delay m = (p, m') \<Longrightarrow> m' = m \<or> mp_state m' \<noteq> ''available''"
  by (auto simp: commitAttempt_def failCandidate_def Let_def broadcastStateLocked_def signalSupervisor_def finishInitial_def newRecovery_def
      split: if_splits option.splits)

lemma failure_budget:
  assumes "failCandidate f err now delay m = (p, m')" "0 \<le> mp_recoveryAttempts m" "mp_recoveryAttempts m \<le> max 1 (mp_maxRecoveryAttempts m)"
    "int n \<le> mp_recoveryAttempts m + 1" "place_budget (Failing f err a) n m"
  shows "neutral p \<and> 0 \<le> mp_recoveryAttempts m' \<and> mp_recoveryAttempts m' \<le> max 1 (mp_maxRecoveryAttempts m') \<and>
    int n \<le> mp_recoveryAttempts m' + 1 \<and> mp_initialAttempted m'"
  using assms by (auto simp: section_defs split: if_splits option.splits)

lemma install_budget: "installCandidate f c old g now pid m = (p, m') \<Longrightarrow> neutral p \<and> mp_recoveryAttempts m' = mp_recoveryAttempts m \<and>
    mp_maxRecoveryAttempts m' = mp_maxRecoveryAttempts m \<and> mp_initialAttempted m' = mp_initialAttempted m \<and>
    (p = Announcing f c \<and> mp_healthySince m' = now \<or> p \<noteq> Announcing f c \<and> m' = m)"
  by (auto simp: section_defs split: if_splits)


lemma healthy_budget:
  assumes "0 \<le> mp_recoveryAttempts m" "mp_recoveryAttempts m \<le> max 1 (mp_maxRecoveryAttempts m)" "int n \<le> mp_recoveryAttempts m + 1"
    "\<not> mp_initialAttempted m \<longrightarrow> n = 0 \<and> untried m" "place_budget p n m" "m' = markHealthy c now m" "since_seen m ts"
    "k = counted (isCurrent c m \<and> proved now m ts) n"
  shows "0 \<le> mp_recoveryAttempts m' \<and> mp_recoveryAttempts m' \<le> max 1 (mp_maxRecoveryAttempts m') \<and>
    int k \<le> mp_recoveryAttempts m' + 1 \<and> since_seen m' (sightings m' (if isCurrent c m then now # ts else ts)) \<and>
    (\<not> mp_initialAttempted m' \<longrightarrow> k = 0 \<and> untried m') \<and> place_budget p k m'"
proof (cases "isCurrent c m")
  case False
  then have "m' = m" using assms(6) by (auto simp: markHealthy_def isCurrent_def)
  with False assms show ?thesis by (simp add: counted_def seen_defs)
next
  case True
  let ?since = "if mp_healthySince m = zeroTime then now else mp_healthySince m"
  have reset: "proved now m ts" if "mp_healthyInterval m \<le> 0 \<or> \<not> now < ?since + mp_healthyInterval m"
  proof (cases "mp_healthyInterval m \<le> 0")
    case False
    then have "mp_healthySince m \<noteq> zeroTime" "mp_healthySince m + mp_healthyInterval m \<le> now"
      using that by (auto split: if_splits)
    then show ?thesis using assms(7) True by (auto simp: proved_def since_seen_def isCurrent_def)
  qed (use True in \<open>simp add: proved_def isCurrent_def\<close>)
  have seen: "since_seen m' (sightings m' (now # ts))"
    using True assms(6,7) by (auto simp: section_defs seen_defs isCurrent_def)
  show ?thesis using assms(1-6,8) True reset seen
    by (cases p) (auto simp: section_defs counted_def untried_def isCurrent_def split: if_splits)
qed

lemma budget_inv_step:
  assumes "supervised_step s t" "budget_inv s"
  shows "budget_inv t"
  using assms
proof (induction rule: supervised_step.induct)
  case (wake s w now p m)
  let ?m = "(su_m s)\<lparr>mp_wake := w\<rparr>"
  have "proved now ?m = proved now (su_m s)" by (simp add: proved_def fun_eq_iff)
  then show ?case using supervisorStep_budget [OF wake(3), of "su_spawns s" "su_seen s"] wake(4)
    by (simp add: budget_inv_def untried_def since_seen_def)
next
  case (exit s e p m)
  then show ?case using handle_quiet [of e "su_m s" p m] by (intro budget_inv_quiet(2) neutral_budget) auto
next
  case (commit s a old g now p m)
  have "since_seen m (sightings m (su_seen s))" using unavailable_after(1) [OF commit(2)] commit(3) by (auto simp: budget_inv_def seen_defs)
  with commit commit_budget [of a old g now "su_m s" p m "su_spawns s"] show ?case by (auto simp: budget_inv_def)
next
  case (check s f r p m)
  then show ?case using check_budget [of f r "su_m s" p m "su_spawns s"] by (auto simp: budget_inv_def seen_defs)
next
  case (fail s f err a now delay p m)
  have "since_seen m (sightings m (su_seen s))" using unavailable_after(2) [OF fail(2)] fail(3) by (auto simp: budget_inv_def seen_defs)
  with fail failure_budget [of f err now delay "su_m s" p m "su_spawns s" a] neutral_budget [of p "su_spawns s" m]
  show ?case by (auto simp: budget_inv_def)
next
  case (install s f c old g now pid p m)
  then show ?case using install_budget [of f c old g now pid "su_m s" p m] neutral_budget [of p "su_spawns s" m]
    by (auto simp: budget_inv_def seen_defs)
next
  case (announce s f c p m)
  then show ?case using announce_quiet [of f c "su_m s" p m] by (intro budget_inv_quiet neutral_budget) auto
next
  case (discard s c pending)
  then show ?case by (auto simp: budget_inv_def discard_def seen_defs split: option.splits)
next
  case (schedule s e pending a now delay p m)
  then show ?case using schedule_quiet [of e pending now delay "su_m s" p m] by (intro budget_inv_quiet neutral_budget) auto
next
  case (finish s pending c err)
  then show ?case using finish_quiet [of "su_m s"] by (intro budget_inv_quiet) auto
next
  case (report s xs e ys p m)
  then show ?case using handle_quiet [of e "su_m s" p m] by (intro budget_inv_request) auto
next
  case (report_schedule s xs e pending a ys now delay p m)
  then show ?case using schedule_quiet [of e pending now delay "su_m s" p m] by (intro budget_inv_request) auto
next
  case (report_finish s xs pending c err ys)
  then show ?case using finish_quiet [of "su_m s"] by (intro budget_inv_request) auto
next
  case (healthy m c now s)
  then show ?case using healthy_budget [of "su_m s" "su_spawns s" "su_sup s" m c now "su_seen s"]
    by (simp add: budget_inv_def)
next
  case (close s p m)
  then show ?case using close_quiet [of "su_m s" p m] by (intro budget_inv_request) auto
next
  case (closing s xs c ys)
  then show ?case using budget_inv_request [OF closing(2) closing_quiet] by (simp add: budget_inv_def)
qed (auto simp: budget_inv_def)

interpretation budget: transition_invariant supervised_start supervised_step budget_inv
proof
  show "supervised_start s \<Longrightarrow> budget_inv s" for s
    by (auto simp: supervised_start_def budget_inv_def newAutonomousManagedProcess_def untried_def since_seen_def Let_def)
qed (rule budget_inv_step)


section \<open>The children\<close>

definition alive :: "supervised \<Rightarrow> child set" where
  "alive s = {c. c < su_created s \<and> c \<notin> set (su_closed s)}"

fun isClosing :: "place \<Rightarrow> bool" where
  "isClosing (Closing c) = True"
| "isClosing _ = False"

fun closes :: "place \<Rightarrow> child set" where
  "closes (Closing c) = set_option c"
| "closes _ = {}"

text \<open>The children that may be alive: those the supervisor holds, or else the one it serves and the one that \<open>Close\<close> took.\<close>

fun mayLive :: "place \<Rightarrow> ManagedProcessClient \<Rightarrow> place list \<Rightarrow> child set" where
  "mayLive (Spawning f) m ps = set_option (sf_old f)"
| "mayLive (Spawned f r) m ps = (case r of Inl _ \<Rightarrow> {} | Inr c \<Rightarrow> {c})"
| "mayLive (Failing f err a) m ps = {}"
| "mayLive (Installing f c old g) m ps = {c}"
| "mayLive (Discarding c pending) m ps = {c}"
| "mayLive _ m ps = set_option (mp_client m) \<union> \<Union> (closes ` set ps)"

definition children_inv :: "supervised \<Rightarrow> bool" where
  "children_inv s =
     (alive s \<subseteq> mayLive (su_sup s) (su_m s) (su_others s) \<and> \<not> isClosing (su_sup s) \<and>
      length (filter isClosing (su_others s)) \<le> of_bool (mp_closed (su_m s)) \<and> (mp_closed (su_m s) \<longrightarrow> mp_client (su_m s) = None))"

lemma closes_notClosing: "\<not> isClosing p \<Longrightarrow> closes p = {}"
  by (cases p) auto

lemma open_closes: "length (filter isClosing ps) = 0 \<Longrightarrow> \<Union> (closes ` set ps) = {}"
  using closes_notClosing by (auto simp: filter_empty_conv)

lemma closes_unique:
  assumes "length (filter isClosing ps) \<le> Suc 0" "c \<in> \<Union> (closes ` set ps)" "d \<in> \<Union> (closes ` set ps)"
  shows "c = d"
proof -
  have *: "\<Union> (closes ` set ps) = \<Union> (closes ` set (filter isClosing ps))"
    using closes_notClosing by fastforce
  obtain q where "filter isClosing ps = [q]"
    using assms(1,2) unfolding * by (cases "filter isClosing ps") auto
  then have "c \<in> closes q" "d \<in> closes q" using assms(2,3) unfolding * by auto
  then show ?thesis by (cases q) auto
qed

text \<open>The sections that keep the child and do not close the manager, and whose place is no call of \<open>Close\<close> and holds no candidate.\<close>

definition keeps_child :: "ManagedProcessClient \<Rightarrow> ManagedProcessClient \<Rightarrow> bool" where
  "keeps_child m m' = (mp_client m' = mp_client m \<and> mp_closed m' = mp_closed m)"

fun handsOff :: "place \<Rightarrow> bool" where
  "handsOff Idle = True"
| "handsOff (Reporting e) = True"
| "handsOff (Handling e p a) = True"
| "handsOff (Finishing p c err) = True"
| "handsOff (Committing a old g now) = True"
| "handsOff _ = False"

lemma handle_keeps: "handleSupervisorEvent e m = (p, m') \<Longrightarrow> keeps_child m m' \<and> handsOff p"
  by (auto simp: section_defs keeps_child_def split: if_splits)

lemma schedule_keeps: "scheduleRecovery e pending now delay m = (p, m') \<Longrightarrow> keeps_child m m' \<and> handsOff p"
  by (auto simp: section_defs keeps_child_def split: if_splits)

lemma announce_keeps: "announce f c m = (p, m') \<Longrightarrow> keeps_child m m' \<and> handsOff p"
  by (auto simp: section_defs keeps_child_def split: if_splits option.splits)

lemma failure_keeps: "failCandidate f err now delay m = (p, m') \<Longrightarrow> keeps_child m m' \<and> handsOff p"
  by (auto simp: section_defs keeps_child_def split: if_splits option.splits)

lemma finish_keeps: "keeps_child m (finishRecovery pending c err m)"
  by (auto simp: section_defs keeps_child_def)

lemma healthy_keeps: "keeps_child m (markHealthy c now m)"
  by (auto simp: section_defs keeps_child_def)

lemma closing_keeps: "keeps_child m (signalSupervisor (finishInitial err m))"
  by (auto simp: section_defs keeps_child_def)

lemma step_keeps:
  "supervisorStep now m = (p, m') \<Longrightarrow> keeps_child m m' \<and>
     (handsOff p \<or> \<not> mp_closed m \<and> (\<exists>f. p = Spawning f \<and> sf_old f = None \<and> mp_client m = None))"
  by (auto simp: section_defs keeps_child_def split: if_splits option.splits)

lemma commit_keeps:
  "commitAttempt a old g now m = (p, m') \<Longrightarrow> keeps_child m m' \<and>
     (handsOff p \<or> \<not> mp_closed m \<and> (\<exists>f. p = Spawning f \<and> sf_old f = mp_client m))"
  by (auto simp: section_defs keeps_child_def split: if_splits option.splits)

lemma handsOff_mayLive: "handsOff p \<Longrightarrow> mayLive p m ps = set_option (mp_client m) \<union> \<Union> (closes ` set ps)"
  by (cases p) auto

lemma handsOff_closes: "handsOff p \<Longrightarrow> \<not> isClosing p" "handsOff p \<Longrightarrow> closes p = {}"
  by (cases p; simp)+

lemma mayLive_mono:
  "mp_client m' = mp_client m \<Longrightarrow> \<Union> (closes ` set ps) \<subseteq> \<Union> (closes ` set qs) \<Longrightarrow> mayLive p m ps \<subseteq> mayLive p m' qs"
  by (cases p) auto

text \<open>A step of the supervisor that keeps the child, from a place where the child it serves may live.\<close>

lemma children_inv_handsOff:
  assumes "children_inv s" "keeps_child (su_m s) m'" "handsOff p"
    "alive s \<subseteq> set_option (mp_client (su_m s)) \<union> \<Union> (closes ` set (su_others s))"
  shows "children_inv (moved p m' s)" "children_inv ((moved p m' s)\<lparr>su_sections := k\<rparr>)"
  using assms by (auto simp: children_inv_def keeps_child_def handsOff_mayLive handsOff_closes alive_def)

lemma children_inv_request:
  assumes "children_inv s" "keeps_child (su_m s) m'" "su_others s = xs @ q # ys" "\<not> isClosing q" "handsOff p"
  shows "children_inv (touched (xs @ p # ys) m' s)" "children_inv (touched (xs @ ys) m' s)"
proof -
  have "closes q = {}" using assms(4) by (rule closes_notClosing)
  then have sub: "\<Union> (closes ` set (su_others s)) \<subseteq> \<Union> (closes ` set (xs @ p # ys))"
    "\<Union> (closes ` set (su_others s)) \<subseteq> \<Union> (closes ` set (xs @ ys))"
    using assms(3) by auto
  have client: "mp_client m' = mp_client (su_m s)" using assms(2) by (simp add: keeps_child_def)
  note mono = mayLive_mono [OF client sub(1), of "su_sup s"] mayLive_mono [OF client sub(2), of "su_sup s"]
  show "children_inv (touched (xs @ p # ys) m' s)" "children_inv (touched (xs @ ys) m' s)"
    using assms mono handsOff_closes(1) [OF assms(5)]
    by (auto simp: children_inv_def keeps_child_def alive_def split: if_splits)
qed


lemma check_children:
  "checkCandidate f r m = (p, m') \<Longrightarrow> m' = m \<and> \<not> isClosing p \<and> mayLive (Spawned f r) m ps \<subseteq> mayLive p m ps"
  by (auto simp: section_defs split: if_splits sum.splits option.splits)

lemma install_children:
  "installCandidate f c old g now pid m = (p, m') \<Longrightarrow> mp_closed m' = mp_closed m \<and>
     (p = Discarding c (sf_pending f) \<and> m' = m \<or> p = Announcing f c \<and> mp_client m' = Some c \<and> \<not> mp_closed m)"
  by (auto simp: section_defs superseded_def split: if_splits)

lemma close_children:
  assumes "CloseManager m = (p, m')"
  shows "mp_closed m \<and> p = Idle \<and> m' = m \<or> \<not> mp_closed m \<and> mp_closed m' \<and> mp_client m' = None \<and> p = Closing (mp_client m)"
  using assms by (auto simp: section_defs split: if_splits option.splits)

lemma mayLive_close: "mp_client m' = None \<Longrightarrow> mayLive q m ps \<subseteq> mayLive q m' (Closing (mp_client m) # ps)"
  by (cases q) auto

lemma children_inv_commit:
  assumes "children_inv s" "keeps_child (su_m s) m'" "\<not> mp_closed (su_m s)" "sf_old f = mp_client (su_m s)"
    "alive s \<subseteq> set_option (mp_client (su_m s)) \<union> \<Union> (closes ` set (su_others s))"
  shows "children_inv (moved (Spawning f) m' s)"
proof -
  have "\<Union> (closes ` set (su_others s)) = {}" using assms(1,3) by (intro open_closes) (simp add: children_inv_def)
  then show ?thesis using assms by (auto simp: children_inv_def keeps_child_def alive_def)
qed

lemma mayLive_closing:
  "mp_client m' = mp_client m \<Longrightarrow> mayLive q m (xs @ Closing c # ys) \<subseteq> mayLive q m' (xs @ ys) \<union> set_option c"
  by (cases q) auto

lemma children_inv_records: "children_inv (s\<lparr>su_spawns := n, su_sections := k\<rparr>) = children_inv s"
  by (simp add: children_inv_def alive_def)

lemma children_inv_step:
  assumes "supervised_step s t" "children_inv s"
  shows "children_inv t"
  using assms
proof (induction rule: supervised_step.induct)
  case (wake s w now p m)
  have live: "alive s \<subseteq> set_option (mp_client (su_m s)) \<union> \<Union> (closes ` set (su_others s))"
    using wake(1,4) by (simp add: children_inv_def)
  have keep: "keeps_child (su_m s) m" using step_keeps [OF wake(3)] by (simp add: keeps_child_def)
  have "children_inv (moved p m s)"
  proof (cases "handsOff p")
    case True
    then show ?thesis by (rule children_inv_handsOff(1) [OF wake(4) keep _ live])
  next
    case False
    then obtain f where "p = Spawning f" "sf_old f = mp_client (su_m s)" "\<not> mp_closed (su_m s)"
      using step_keeps [OF wake(3)] by auto
    then show ?thesis using children_inv_commit [OF wake(4) keep _ _ live] by simp
  qed
  then show ?case using children_inv_records [where s = "moved p m s"] by simp
next
  case (commit s a old g now p m)
  have live: "alive s \<subseteq> set_option (mp_client (su_m s)) \<union> \<Union> (closes ` set (su_others s))"
    using commit(1,3) by (simp add: children_inv_def)
  have keep: "keeps_child (su_m s) m" using commit_keeps [OF commit(2)] by simp
  show ?case
  proof (cases "handsOff p")
    case True
    then show ?thesis by (rule children_inv_handsOff(1) [OF commit(3) keep _ live])
  next
    case False
    then obtain f where "p = Spawning f" "sf_old f = mp_client (su_m s)" "\<not> mp_closed (su_m s)"
      using commit_keeps [OF commit(2)] by auto
    then show ?thesis using children_inv_commit [OF commit(3) keep _ _ live] by simp
  qed
next
  case (exit s e p m)
  then show ?case using handle_keeps [of e "su_m s" p m]
    by (intro children_inv_handsOff) (auto simp: children_inv_def)
next
  case (check s f r p m)
  then show ?case using check_children [of f r "su_m s" p m "su_others s"] by (auto simp: children_inv_def alive_def)
next
  case (fail s f err a now delay p m)
  then show ?case using failure_keeps [of f err now delay "su_m s" p m]
    by (intro children_inv_handsOff) (auto simp: children_inv_def)
next
  case (install s f c old g now pid p m)
  then show ?case using install_children [of f c old g now pid "su_m s" p m] by (auto simp: children_inv_def alive_def)
next
  case (announce s f c p m)
  then show ?case using announce_keeps [of f c "su_m s" p m]
    by (intro children_inv_handsOff) (auto simp: children_inv_def)
next
  case (schedule s e pending a now delay p m)
  then show ?case using schedule_keeps [of e pending now delay "su_m s" p m]
    by (intro children_inv_handsOff) (auto simp: children_inv_def)
next
  case (finish s pending c err)
  then show ?case using finish_keeps [of "su_m s"]
    by (intro children_inv_handsOff) (auto simp: children_inv_def)
next
  case (request c err pid s e)
  then show ?case using mayLive_mono [of "su_m s" "su_m s" "su_others s" "Reporting e # su_others s" "su_sup s"]
    by (auto simp: children_inv_def alive_def)
next
  case (report s xs e ys p m)
  then show ?case using handle_keeps [of e "su_m s" p m] by (intro children_inv_request(1)) auto
next
  case (report_schedule s xs e pending a ys now delay p m)
  then show ?case using schedule_keeps [of e pending now delay "su_m s" p m] by (intro children_inv_request(1)) auto
next
  case (report_finish s xs pending c err ys)
  then show ?case by (intro children_inv_request(2) [where p = Idle]) (auto simp: finish_keeps)
next
  case (healthy m c now s)
  have "mp_client (markHealthy c now (su_m s)) = mp_client (su_m s)" "mp_closed (markHealthy c now (su_m s)) = mp_closed (su_m s)"
    using healthy_keeps [of "su_m s"] by (simp_all add: keeps_child_def)
  then show ?case using healthy mayLive_mono [of "markHealthy c now (su_m s)" "su_m s" "su_others s" "su_others s" "su_sup s"]
    by (auto simp: children_inv_def alive_def)
next
  case (close s p m)
  from close_children [OF close(1)] show ?case
  proof
    assume "mp_closed (su_m s) \<and> p = Idle \<and> m = su_m s"
    then show ?thesis using close(2) mayLive_mono [of m "su_m s" "su_others s" "Idle # su_others s" "su_sup s"]
      by (auto simp: children_inv_def alive_def)
  next
    assume "\<not> mp_closed (su_m s) \<and> mp_closed m \<and> mp_client m = None \<and> p = Closing (mp_client (su_m s))"
    then show ?thesis using close(2) mayLive_close [of m "su_sup s" "su_m s" "su_others s"]
      by (auto simp: children_inv_def alive_def)
  qed
next
  case (closing s xs c ys)
  let ?m = "signalSupervisor (finishInitial (Some ErrUnavailable) (su_m s))"
  have keep: "mp_client ?m = mp_client (su_m s)" "mp_closed ?m = mp_closed (su_m s)"
    using closing_keeps [of "su_m s"] by (simp_all add: keeps_child_def)
  then show ?case using closing mayLive_closing [OF keep(1), of "su_sup s" xs c ys]
    by (cases c) (auto simp: children_inv_def alive_def split: if_splits)
qed (auto simp: children_inv_def alive_def discard_def less_Suc_eq split: option.splits)

interpretation children: transition_invariant supervised_start supervised_step children_inv
proof
  show "supervised_start s \<Longrightarrow> children_inv s" for s
    by (auto simp: supervised_start_def children_inv_def newAutonomousManagedProcess_def alive_def Let_def)
qed (rule children_inv_step)


section \<open>What the supervisor guarantees\<close>

lemma budget_fixed:
  assumes "supervised_step s t"
  shows "mp_maxRecoveryAttempts (su_m t) = mp_maxRecoveryAttempts (su_m s)"
  using assms by cases (auto simp: section_defs split: if_splits option.splits sum.splits)

lemma closed_stays:
  assumes "supervised_step s t" "mp_closed (su_m s)"
  shows "mp_closed (su_m t)"
  using assms by cases (auto simp: section_defs split: if_splits option.splits sum.splits)

text \<open>
  Property C36. The factory is called no more often than the budget of attempts allows, and once more for the first child,
  until a child has proved healthy: that it was served, and had already been seen serving, without a failure since, one
  required interval earlier. A report of success by itself renews nothing. This holds in every interleaving with requests,
  exits and \<open>Close\<close>.
\<close>

theorem restarts_within_budget:
  assumes "supervised_start s" "supervised_step\<^sup>*\<^sup>* s t"
  shows "int (su_spawns t) \<le> max 1 (mp_maxRecoveryAttempts (su_m s)) + 1 \<and>
    mp_recoveryAttempts (su_m t) \<in> {0..max 1 (mp_maxRecoveryAttempts (su_m s))}"
proof -
  have "mp_maxRecoveryAttempts (su_m t) = mp_maxRecoveryAttempts (su_m s)"
    using assms(2) by (induction rule: rtranclp_induct) (auto dest: budget_fixed)
  then show ?thesis using budget.reachable_inv [OF assms] by (auto simp: budget_inv_def)
qed

lemma served_single:
  assumes "children_inv t"
  shows "\<exists>c. set_option (mp_client (su_m t)) \<union> \<Union> (closes ` set (su_others t)) \<subseteq> {c}"
proof (cases "mp_closed (su_m t)")
  case True
  then have "length (filter isClosing (su_others t)) \<le> Suc 0" "mp_client (su_m t) = None"
    using assms by (auto simp: children_inv_def)
  moreover have "\<exists>c. X \<subseteq> {c}" if "\<And>c d. c \<in> X \<Longrightarrow> d \<in> X \<Longrightarrow> c = d" for X :: "child set" using that by blast
  ultimately have "\<exists>c. \<Union> (closes ` set (su_others t)) \<subseteq> {c}" using closes_unique [of "su_others t"] by blast
  then show ?thesis using \<open>mp_client (su_m t) = None\<close> by simp
next
  case False
  then have "\<Union> (closes ` set (su_others t)) = {}" using assms by (intro open_closes) (simp add: children_inv_def)
  then show ?thesis by (cases "mp_client (su_m t)") auto
qed

lemma mayLive_cases:
  obtains "mayLive p m ps = set_option (mp_client m) \<union> \<Union> (closes ` set ps)" | c where "mayLive p m ps \<subseteq> {c}"
proof (cases p)
  case (Spawning f)
  then show ?thesis by (cases "sf_old f") (auto intro: that(2))
next
  case (Spawned f r)
  then show ?thesis by (cases r) (auto intro: that(2))
qed (auto intro: that)

text \<open>
  Property C35. At most one child is alive at any time. Once the manager has been closed, the supervisor is at rest and no
  call of \<open>Close\<close> is under way, every child that was started has been told to close.
\<close>

theorem one_child_at_a_time:
  assumes "supervised_start s" "supervised_step\<^sup>*\<^sup>* s t"
  shows "card (alive t) \<le> 1 \<and> (mp_closed (su_m t) \<and> su_sup t = Idle \<and> filter isClosing (su_others t) = [] \<longrightarrow> alive t = {})"
proof -
  have inv: "children_inv t" by (rule children.reachable_inv [OF assms])
  have "\<exists>c. mayLive (su_sup t) (su_m t) (su_others t) \<subseteq> {c}"
    by (rule mayLive_cases [of "su_sup t" "su_m t" "su_others t"]) (use served_single [OF inv] in auto)
  then obtain c where "alive t \<subseteq> {c}" using inv by (auto simp: children_inv_def)
  then have "card (alive t) \<le> card {c}" by (intro card_mono) auto
  moreover have "alive t = {}" if "mp_closed (su_m t)" "su_sup t = Idle" "filter isClosing (su_others t) = []"
  proof -
    have "\<Union> (closes ` set (su_others t)) = {}" using that(3) by (intro open_closes) simp
    then show ?thesis using inv that by (auto simp: children_inv_def)
  qed
  ultimately show ?thesis by auto
qed

text \<open>How many critical sections a goroutine may still have before it rests.\<close>

fun placeRank :: "place \<Rightarrow> nat" where
  "placeRank Idle = 0"
| "placeRank (Closing c) = 0"
| "placeRank (Finishing p c err) = 1"
| "placeRank (Handling e p a) = 2"
| "placeRank (Announcing f c) = 2"
| "placeRank (Discarding c p) = 2"
| "placeRank (Failing f err a) = 3"
| "placeRank (Installing f c old g) = 3"
| "placeRank (Reporting e) = 3"
| "placeRank (Spawned f r) = 4"
| "placeRank (Spawning f) = 5"
| "placeRank (Committing a old g now) = 6"

definition turn_inv :: "supervised \<Rightarrow> bool" where
  "turn_inv s = (su_sections s + placeRank (su_sup s) \<le> 6 \<and> (placeRank (su_sup s) = 0 \<longrightarrow> su_sup s = Idle) \<and> (\<forall>e. su_sup s \<noteq> Reporting e))"

lemma supervisorStep_rank: "supervisorStep now m = (p, m') \<Longrightarrow> placeRank p \<le> 6 \<and> (placeRank p = 0 \<longrightarrow> p = Idle) \<and> (\<forall>e. p \<noteq> Reporting e)"
  by (auto simp: supervisorStep_def split: if_splits option.splits)

lemma handle_rank: "handleSupervisorEvent e m = (p, m') \<Longrightarrow> placeRank p \<le> 2 \<and> (placeRank p = 0 \<longrightarrow> p = Idle) \<and> (\<forall>e. p \<noteq> Reporting e)"
  by (auto simp: handleSupervisorEvent_def Let_def split: if_splits)

lemma commit_rank: "commitAttempt a old g now m = (p, m') \<Longrightarrow> placeRank p \<le> 5 \<and> (placeRank p = 0 \<longrightarrow> p = Idle) \<and> (\<forall>e. p \<noteq> Reporting e)"
  by (auto simp: commitAttempt_def split: if_splits option.splits)

lemma check_rank: "checkCandidate f r m = (p, m') \<Longrightarrow> placeRank p \<le> 3 \<and> (placeRank p = 0 \<longrightarrow> p = Idle) \<and> (\<forall>e. p \<noteq> Reporting e)"
  by (auto simp: checkCandidate_def discard_def split: if_splits option.splits sum.splits)

lemma failure_rank: "failCandidate f err now delay m = (p, m') \<Longrightarrow> placeRank p \<le> 1 \<and> (placeRank p = 0 \<longrightarrow> p = Idle) \<and> (\<forall>e. p \<noteq> Reporting e)"
  by (auto simp: failCandidate_def Let_def split: if_splits option.splits)

lemma install_rank: "installCandidate f c old g now pid m = (p, m') \<Longrightarrow> placeRank p = 2 \<and> (\<forall>e. p \<noteq> Reporting e)"
  by (auto simp: installCandidate_def split: if_splits)

lemma announce_rank: "announce f c m = (p, m') \<Longrightarrow> placeRank p \<le> 1 \<and> (placeRank p = 0 \<longrightarrow> p = Idle) \<and> (\<forall>e. p \<noteq> Reporting e)"
  by (auto simp: announce_def split: option.splits)

lemma schedule_rank: "scheduleRecovery e pending now delay m = (p, m') \<Longrightarrow> placeRank p \<le> 1 \<and> (placeRank p = 0 \<longrightarrow> p = Idle) \<and> (\<forall>e. p \<noteq> Reporting e)"
  by (auto simp: scheduleRecovery_def Let_def split: if_splits)

lemma discard_rank: "placeRank (discard None pending) \<le> 1 \<and> (placeRank (discard None pending) = 0 \<longrightarrow> discard None pending = Idle) \<and>
    (\<forall>e. discard None pending \<noteq> Reporting e)"
  by (auto simp: discard_def split: option.splits)

lemmas section_ranks = supervisorStep_rank handle_rank commit_rank check_rank failure_rank install_rank announce_rank schedule_rank

lemma turn_inv_step:
  assumes "supervised_step s t" "turn_inv s"
  shows "turn_inv t"
  using assms
proof cases
  case (discard c pending)
  then show ?thesis using assms(2) discard_rank [of pending] by (auto simp: turn_inv_def)
qed (auto simp: turn_inv_def dest!: section_ranks)

interpretation turns: transition_invariant supervised_start supervised_step turn_inv
proof
  show "supervised_start s \<Longrightarrow> turn_inv s" for s
    by (auto simp: supervised_start_def turn_inv_def)
qed (rule turn_inv_step)

text \<open>Away from rest the supervisor has a section to run, whatever the manager's state.\<close>

lemma supervisor_proceeds:
  assumes "su_sup s \<noteq> Idle" "\<And>e. su_sup s \<noteq> Reporting e" "\<And>c. su_sup s \<noteq> Closing c"
  shows "\<exists>u. supervised_step s u \<and> su_sections u = Suc (su_sections s)"
proof (cases "su_sup s")
  case (Committing a old g now)
  then show ?thesis using commit [of s a old g now "fst (commitAttempt a old g now (su_m s))" "snd (commitAttempt a old g now (su_m s))"] by fastforce
next
  case (Spawning f)
  then show ?thesis using spawn [of s f] by fastforce
next
  case (Spawned f r)
  then show ?thesis using check [of s f r "fst (checkCandidate f r (su_m s))" "snd (checkCandidate f r (su_m s))"] by fastforce
next
  case (Failing f err a)
  then show ?thesis using fail [of s f err a 0 0 "fst (failCandidate f err 0 0 (su_m s))" "snd (failCandidate f err 0 0 (su_m s))"] by fastforce
next
  case (Installing f c old g)
  then show ?thesis using install [of s f c old g 0 0 "fst (installCandidate f c old g 0 0 (su_m s))" "snd (installCandidate f c old g 0 0 (su_m s))"]
    by fastforce
next
  case (Announcing f c)
  then show ?thesis using announce [of s f c "fst (Process_Supervisor.announce f c (su_m s))" "snd (Process_Supervisor.announce f c (su_m s))"] by fastforce
next
  case (Handling e pending a)
  then show ?thesis
    using schedule [of s e pending a 0 0 "fst (scheduleRecovery e pending 0 0 (su_m s))" "snd (scheduleRecovery e pending 0 0 (su_m s))"] by fastforce
next
  case (Finishing pending c err)
  then show ?thesis using finish [of s pending c err] by fastforce
next
  case (Discarding c pending)
  then show ?thesis using discard [of s c pending] by fastforce
qed (use assms in auto)

text \<open>
  Property C37. Every turn of the supervisor loop ends, whatever the other goroutines do in between: the supervisor runs at
  most six critical sections after the one that woke it, it is at rest after the sixth at the latest, and as long as it is
  not at rest its next section can run.
\<close>

theorem turn_ends:
  assumes "supervised_start s" "supervised_step\<^sup>*\<^sup>* s t"
  shows "su_sections t \<le> 6 \<and> (su_sections t = 6 \<longrightarrow> su_sup t = Idle) \<and>
    (su_sup t \<noteq> Idle \<longrightarrow> (\<exists>u. supervised_step t u \<and> su_sections u = Suc (su_sections t)))"
proof -
  have inv: "turn_inv t" by (rule turns.reachable_inv [OF assms])
  then have "su_sup t \<noteq> Closing c" for c by (auto simp: turn_inv_def)
  with inv supervisor_proceeds [of t] show ?thesis by (auto simp: turn_inv_def)
qed

section \<open>A failure that is not repaired\<close>

text \<open>A scheduler that performs the named steps, for the construction of runs.\<close>

datatype action = A_wake time | A_commit | A_spawn | A_check | A_install time int | A_announce | A_finish
  | A_request child process_error int | A_report | A_schedule time duration

fun perform :: "action \<Rightarrow> supervised \<Rightarrow> supervised option" where
  "perform (A_wake now) s =
     (if su_sup s = Idle then
        case supervisorStep now ((su_m s)\<lparr>mp_wake := False\<rparr>) of
          (p, m) \<Rightarrow> Some ((moved p m s)\<lparr>su_spawns := counted (proved now (su_m s) (su_seen s)) (su_spawns s), su_sections := 0\<rparr>)
      else None)"
| "perform A_commit s =
     (case su_sup s of
        Committing a old g now \<Rightarrow> (case commitAttempt a old g now (su_m s) of (p, m) \<Rightarrow> Some (moved p m s))
      | _ \<Rightarrow> None)"
| "perform A_spawn s =
     (case su_sup s of
        Spawning f \<Rightarrow> Some ((spawnedAs f (Inr (su_created s)) s)\<lparr>su_created := Suc (su_created s)\<rparr>)
      | _ \<Rightarrow> None)"
| "perform A_check s =
     (case su_sup s of
        Spawned f r \<Rightarrow> (case checkCandidate f r (su_m s) of (p, m) \<Rightarrow> Some (moved p m s))
      | _ \<Rightarrow> None)"
| "perform (A_install now pid) s =
     (case su_sup s of
        Installing f c old g \<Rightarrow>
          (case installCandidate f c old g now pid (su_m s) of
             (p, m) \<Rightarrow> Some ((moved p m s)\<lparr>su_seen := (if p = Announcing f c then [now] else sightings m (su_seen s))\<rparr>))
      | _ \<Rightarrow> None)"
| "perform A_announce s =
     (case su_sup s of
        Announcing f c \<Rightarrow> (case announce f c (su_m s) of (p, m) \<Rightarrow> Some (moved p m s))
      | _ \<Rightarrow> None)"
| "perform A_finish s =
     (case su_sup s of
        Finishing pending c err \<Rightarrow> Some (moved Idle (finishRecovery pending c err (su_m s)) s)
      | _ \<Rightarrow> None)"
| "perform (A_request c err pid) s = map_option (\<lambda>e. s\<lparr>su_others := Reporting e # su_others s\<rparr>) (requestFailure c err pid (su_m s))"
| "perform A_report s =
     (case su_others s of
        Reporting e # ys \<Rightarrow> (case handleSupervisorEvent e (su_m s) of (p, m) \<Rightarrow> Some (touched (p # ys) m s))
      | _ \<Rightarrow> None)"
| "perform (A_schedule now delay) s =
     (case su_others s of
        Handling e pending a # ys \<Rightarrow>
          (case scheduleRecovery e pending now delay (su_m s) of (p, m) \<Rightarrow> Some (touched (p # ys) m s))
      | _ \<Rightarrow> None)"

lemma perform_step: "perform a s = Some t \<Longrightarrow> supervised_step s t"
proof (induction a s rule: perform.induct)
  case (1 now s)
  then show ?case using wake [of s False now] by (auto simp: split_def split: if_splits)
next
  case (5 now pid s)
  then obtain f c old g where at: "su_sup s = Installing f c old g" by (auto split: place.splits)
  obtain p m where run: "installCandidate f c old g now pid (su_m s) = (p, m)" by fastforce
  show ?case using 5 install [OF at run] at run by simp
next
  case (8 c err pid s)
  then show ?case by (auto intro: request)
next
  case (9 s)
  then show ?case by (auto split: list.splits place.splits prod.splits intro: report [where xs = "[]", simplified])
next
  case (10 now delay s)
  then show ?case by (auto split: list.splits place.splits prod.splits intro: report_schedule [where xs = "[]", simplified])
qed (auto split: place.splits prod.splits intro: supervised_step.intros)

fun performAll :: "action list \<Rightarrow> supervised \<Rightarrow> supervised option" where
  "performAll [] s = Some s"
| "performAll (a # as) s = (case perform a s of None \<Rightarrow> None | Some t \<Rightarrow> performAll as t)"

lemma performAll_steps: "performAll as s = Some t \<Longrightarrow> supervised_step\<^sup>*\<^sup>* s t"
  by (induction as arbitrary: s) (auto split: option.splits intro: perform_step converse_rtranclp_into_rtranclp)

fun harmless :: "place \<Rightarrow> bool" where
  "harmless Idle = True"
| "harmless (Reporting e) = True"
| "harmless (Closing c) = True"
| "harmless _ = False"

definition abandoned :: "supervised \<Rightarrow> bool" where
  "abandoned s = (mp_closed (su_m s) \<or> su_sup s = Idle \<and> mp_state (su_m s) = ''degraded'' \<and> mp_recovery (su_m s) = None \<and>
     mp_initialAttempted (su_m s) \<and> list_all harmless (su_others s))"

lemma abandoned_step:
  assumes "supervised_step s t" "abandoned s"
  shows "abandoned t"
proof (cases "mp_closed (su_m s)")
  case True
  then show ?thesis using closed_stays [OF assms(1)] by (simp add: abandoned_def)
next
  case False
  with assms show ?thesis
    by cases (auto simp: abandoned_def requestFailure_def section_defs split: if_splits option.splits)
qed

lemma abandoned_steps: "supervised_step\<^sup>*\<^sup>* s t \<Longrightarrow> abandoned s \<Longrightarrow> abandoned t"
  by (induction rule: rtranclp_induct) (auto intro: abandoned_step)

lemma abandoned_unserved: "abandoned s \<Longrightarrow> currentClient (su_m s) = None"
  by (auto simp: abandoned_def currentClient_def)

definition demo_start :: supervised where
  "demo_start = \<lparr>su_m = newAutonomousManagedProcess \<lparr>mo_MaxRestartAttempts = 0, mo_MaxRecoveryAttempts = 0, mo_MaxRestarts = 0,
     mo_RestartBudget = 0, mo_HealthyInterval = 0, mo_HealthInterval = 0, mo_SustainedHealthyInterval = 0\<rparr>, su_sup = Idle, su_others = [],
     su_created = 0, su_closed = [], su_spawns = 0, su_seen = [], su_sections = 0\<rparr>"

definition demo_run :: "action list" where
  "demo_run = [A_wake 1, A_spawn, A_check, A_install 2 10, A_announce,
     A_request 0 ErrProcessExited 10, A_report, A_schedule 3 0,
     A_wake 4, A_commit, A_spawn, A_check, A_install 5 11,
     A_request 1 ErrProcessExited 11, A_report, A_schedule 6 0, A_announce, A_finish]"

lemma demo_abandons: "\<exists>t. performAll demo_run demo_start = Some t \<and> abandoned t \<and> \<not> mp_closed (su_m t) \<and>
    mp_recoveryAttempts (su_m t) < mp_maxRecoveryAttempts (su_m t)"
proof -
  have "map_option (\<lambda>t. (abandoned t, mp_closed (su_m t), mp_recoveryAttempts (su_m t), mp_maxRecoveryAttempts (su_m t)))
      (performAll demo_run demo_start) = Some (True, False, 1, 3)"
    by code_simp
  then show ?thesis by auto
qed

text \<open>
  Property C34. The new child is served as soon as it is installed, but the recovery that made it is finished only afterwards.
  A request that fails in between joins that recovery, and finishing it discards the request's report: the manager stays
  degraded, with attempts left in its budget, and whatever happens later no child is ever served again.
\<close>

theorem recovery_lost:
  "\<exists>s t. supervised_start s \<and> supervised_step\<^sup>*\<^sup>* s t \<and> \<not> mp_closed (su_m t) \<and>
     mp_recoveryAttempts (su_m t) < mp_maxRecoveryAttempts (su_m t) \<and>
     {u. supervised_step\<^sup>*\<^sup>* t u} \<subseteq> {u. currentClient (su_m u) = None}"
proof -
  obtain t where t: "performAll demo_run demo_start = Some t" "abandoned t" "\<not> mp_closed (su_m t)"
    "mp_recoveryAttempts (su_m t) < mp_maxRecoveryAttempts (su_m t)" using demo_abandons by blast
  have "supervised_start demo_start" by (auto simp: supervised_start_def demo_start_def)
  moreover have "{u. supervised_step\<^sup>*\<^sup>* t u} \<subseteq> {u. currentClient (su_m u) = None}"
    using abandoned_steps [OF _ t(2)] abandoned_unserved by blast
  ultimately show ?thesis using performAll_steps [OF t(1)] t(3,4) by blast
qed


theorem restarts_within_budget_witness:
  "map_option (\<lambda>t. int (su_spawns t) \<le> 4 \<and> mp_recoveryAttempts (su_m t) \<le> 3) (performAll demo_run demo_start) = Some True"
proof -
  obtain t where t: "performAll demo_run demo_start = Some t" using demo_abandons by blast
  have "supervised_start demo_start" by (auto simp: supervised_start_def demo_start_def)
  moreover have "mp_maxRecoveryAttempts (su_m demo_start) = 3"
    by (simp add: demo_start_def newAutonomousManagedProcess_def)
  ultimately show ?thesis using restarts_within_budget [OF _ performAll_steps [OF t]] t by simp
qed

theorem one_child_at_a_time_witness:
  "map_option (\<lambda>t. card (alive t) \<le> 1) (performAll demo_run demo_start) = Some True"
proof -
  obtain t where t: "performAll demo_run demo_start = Some t" using demo_abandons by blast
  have "supervised_start demo_start" by (auto simp: supervised_start_def demo_start_def)
  then show ?thesis using one_child_at_a_time [OF _ performAll_steps [OF t]] t by simp
qed


theorem turn_ends_witness:
  "map_option (\<lambda>t. su_sections t \<le> 6 \<and> (\<exists>u. supervised_step t u \<and> su_sections u = Suc (su_sections t)))
     (perform (A_wake 1) demo_start) = Some True"
proof -
  obtain t where t: "perform (A_wake 1) demo_start = Some t" by (simp add: demo_start_def split_def)
  have "supervised_start demo_start" by (auto simp: supervised_start_def demo_start_def)
  moreover have "supervised_step\<^sup>*\<^sup>* demo_start t" using perform_step [OF t] by blast
  moreover have "su_sup t \<noteq> Idle"
    using t by (auto simp: demo_start_def newAutonomousManagedProcess_def supervisorStep_def split_def)
  ultimately show ?thesis using turn_ends t by simp
qed

end
