(* ===== verification/Forum_Schema.thy ===== *)
theory Forum_Schema
  imports Core_System
begin

text \<open>
  The tables of the forum (migrations 001, 003, 004, 007 and 008) beside those of the project core: sessions and
  their handles, posts with attachments, states and perspective scopes, comments, mentions, notifications of the
  human and their receipts. One record per row, one definition per SQL statement with the constraints and triggers
  of its table.
\<close>

section \<open>Rows\<close>

record session_row =
  ss_id :: gostring
  ss_host :: gostring
  ss_project_id :: "gostring option"
  ss_purpose :: gostring
  ss_created_at :: time

record handle_row =
  sh_session_id :: gostring
  sh_handle :: gostring
  sh_created_at :: time

record post_row =
  po_id :: gostring
  po_topic_id :: gostring
  po_project_id :: "gostring option"
  po_project_revision :: "int option"
  po_kind :: gostring
  po_title :: gostring
  po_body :: gostring
  po_basis :: gostring
  po_ref :: gostring
  po_session_id :: gostring
  po_request_id :: "gostring option"
  po_created_at :: time

record attachment_row =
  pa_post_id :: gostring
  pa_position :: nat
  pa_kind :: gostring
  pa_url :: gostring
  pa_title :: gostring

record comment_row =
  co_id :: gostring
  co_post_id :: gostring
  co_project_id :: "gostring option"
  co_project_revision :: "int option"
  co_body :: gostring
  co_intent :: gostring
  co_session_id :: gostring
  co_request_id :: "gostring option"
  co_created_at :: time

record state_event_row =
  sv_id :: gostring
  sv_post_id :: gostring
  sv_project_id :: "gostring option"
  sv_project_revision :: "int option"
  sv_state :: gostring
  sv_superseded_by :: "gostring option"
  sv_session_id :: gostring
  sv_request_id :: "gostring option"
  sv_created_at :: time

record scope_row =
  sc_post_id :: gostring
  sc_scope :: gostring
  sc_revision :: int
  sc_event_id :: "gostring option"
  sc_updated_at :: time

record scope_event_row =
  sp_id :: gostring
  sp_post_id :: gostring
  sp_scope :: gostring
  sp_base_revision :: int
  sp_revision :: int
  sp_actor_id :: gostring
  sp_session_id :: gostring
  sp_request_id :: gostring
  sp_created_at :: time

record mention_row =
  cm_source_kind :: gostring
  cm_source_id :: gostring
  cm_position :: nat
  cm_recipient_kind :: gostring
  cm_recipient_principal :: gostring
  cm_recipient_session_id :: "gostring option"
  cm_created_at :: time

record comment_mention_row =
  ct_comment_id :: gostring
  ct_recipient_session_id :: gostring
  ct_position :: nat
  ct_created_at :: time

record notification_row =
  hn_id :: gostring
  hn_recipient_principal :: gostring
  hn_source_kind :: gostring
  hn_post_id :: gostring
  hn_comment_id :: "gostring option"
  hn_actor_kind :: gostring
  hn_actor_principal :: gostring
  hn_actor_session_id :: gostring
  hn_snippet :: gostring
  hn_created_at :: time
  hn_read_at :: "time option"

record receipt_row =
  nr_id :: gostring
  nr_notification_id :: gostring
  nr_recipient_principal :: gostring
  nr_request_id :: gostring
  nr_read_at :: time
  nr_created_at :: time

record forum =
  fo_core :: db
  fo_sessions :: "session_row list"
  fo_handles :: "handle_row list"
  fo_posts :: "post_row list"
  fo_attachments :: "attachment_row list"
  fo_comments :: "comment_row list"
  fo_state_events :: "state_event_row list"
  fo_scopes :: "scope_row list"
  fo_scope_events :: "scope_event_row list"
  fo_mentions :: "mention_row list"
  fo_comment_mentions :: "comment_mention_row list"
  fo_notifications :: "notification_row list"
  fo_receipts :: "receipt_row list"

definition empty_forum :: forum where
  "empty_forum = \<lparr>fo_core = empty_db, fo_sessions = [], fo_handles = [], fo_posts = [], fo_attachments = [], fo_comments = [],
     fo_state_events = [], fo_scopes = [], fo_scope_events = [], fo_mentions = [], fo_comment_mentions = [],
     fo_notifications = [], fo_receipts = []\<rparr>"

definition HumanLocalPrincipal :: gostring where
  "HumanLocalPrincipal = ''human:local-admin''"

definition HumanLegacySession :: gostring where
  "HumanLegacySession = ''human-local-admin''"

definition PostKinds :: "gostring set" where
  "PostKinds = {''finding'', ''question'', ''notice'', ''decision'', ''topic_request''}"

definition CommentIntents :: "gostring set" where
  "CommentIntents = {''answer'', ''add_evidence'', ''challenge'', ''clarify''}"

section \<open>Lookups\<close>

definition postRow :: "forum \<Rightarrow> gostring \<Rightarrow> post_row option" where
  "postRow f k = find (\<lambda>p. po_id p = k) (fo_posts f)"

definition commentRow :: "forum \<Rightarrow> gostring \<Rightarrow> comment_row option" where
  "commentRow f k = find (\<lambda>c. co_id c = k) (fo_comments f)"

definition sessionRow :: "forum \<Rightarrow> gostring \<Rightarrow> session_row option" where
  "sessionRow f k = find (\<lambda>s. ss_id s = k) (fo_sessions f)"

definition handleRow :: "forum \<Rightarrow> gostring \<Rightarrow> handle_row option" where
  "handleRow f k = find (\<lambda>h. sh_session_id h = k) (fo_handles f)"

definition scopeRow :: "forum \<Rightarrow> gostring \<Rightarrow> scope_row option" where
  "scopeRow f k = find (\<lambda>s. sc_post_id s = k) (fo_scopes f)"

definition hasPost :: "forum \<Rightarrow> gostring \<Rightarrow> bool" where
  "hasPost f k = hasRow (\<lambda>p. po_id p = k) (fo_posts f)"

definition hasComment :: "forum \<Rightarrow> gostring \<Rightarrow> bool" where
  "hasComment f k = hasRow (\<lambda>c. co_id c = k) (fo_comments f)"

definition hasSession :: "forum \<Rightarrow> gostring \<Rightarrow> bool" where
  "hasSession f k = hasRow (\<lambda>s. ss_id s = k) (fo_sessions f)"

definition hasHandle :: "forum \<Rightarrow> gostring \<Rightarrow> bool" where
  "hasHandle f k = hasRow (\<lambda>h. sh_session_id h = k) (fo_handles f)"

section \<open>Statements\<close>

definition optProject :: "forum \<Rightarrow> gostring option \<Rightarrow> bool" where
  "optProject f k = (case k of None \<Rightarrow> True | Some p \<Rightarrow> hasProject (fo_core f) p)"

definition sqlUpsertSession :: "session_row \<Rightarrow> forum \<Rightarrow> go_error + forum" where
  "sqlUpsertSession r f =
     checked (optProject f (ss_project_id r))
       (if hasSession f (ss_id r)
        then f\<lparr>fo_sessions := updWhere (\<lambda>s. ss_id s = ss_id r)
               (\<lambda>s. s\<lparr>ss_host := ss_host r, ss_project_id := ss_project_id r, ss_purpose := ss_purpose r\<rparr>) (fo_sessions f)\<rparr>
        else f\<lparr>fo_sessions := fo_sessions f @ [r]\<rparr>)"

text \<open>
  The handle of a session: unique, of 3 to 64 characters among \<open>a-z\<close>, \<open>0-9\<close> and \<open>-\<close>, not beginning with \<open>-\<close>.
  Such handles have no upper-case letters, so \<^verbatim>\<open>COLLATE NOCASE\<close> compares them as they are.
\<close>

definition handle_char :: "char \<Rightarrow> bool" where
  "handle_char c \<longleftrightarrow> is_lower c \<or> is_digit c \<or> c = CHR ''-''"

definition handle_check :: "gostring \<Rightarrow> bool" where
  "handle_check h \<longleftrightarrow> 3 \<le> length h \<and> length h \<le> 64 \<and> list_all handle_char h \<and> (is_lower (hd h) \<or> is_digit (hd h))"

definition sqlInsertHandle :: "handle_row \<Rightarrow> forum \<Rightarrow> go_error + forum" where
  "sqlInsertHandle r f =
     checked (\<not> hasRow (\<lambda>h. sh_session_id h = sh_session_id r \<or> sh_handle h = sh_handle r) (fo_handles f) \<and>
              hasSession f (sh_session_id r) \<and> handle_check (sh_handle r))
       (f\<lparr>fo_handles := fo_handles f @ [r]\<rparr>)"

definition sqlInsertPost :: "post_row \<Rightarrow> forum \<Rightarrow> go_error + forum" where
  "sqlInsertPost r f =
     checked (\<not> hasRow (\<lambda>p. po_id p = po_id r \<or> po_request_id r \<noteq> None \<and> po_request_id p = po_request_id r) (fo_posts f) \<and>
              hasRow (\<lambda>t. tp_id t = po_topic_id r) (topics (fo_core f)) \<and> optProject f (po_project_id r) \<and> po_kind r \<in> PostKinds)
       (f\<lparr>fo_posts := fo_posts f @ [r]\<rparr>)"

definition sqlInsertScope :: "scope_row \<Rightarrow> forum \<Rightarrow> go_error + forum" where
  "sqlInsertScope r f =
     checked (\<not> hasRow (\<lambda>s. sc_post_id s = sc_post_id r) (fo_scopes f) \<and> hasPost f (sc_post_id r) \<and> 0 \<le> sc_revision r)
       (f\<lparr>fo_scopes := fo_scopes f @ [r]\<rparr>)"

definition sqlInsertPostSearch :: "search_row \<Rightarrow> forum \<Rightarrow> go_error + forum" where
  "sqlInsertPostSearch r f = bindE (sqlInsertSearch r (fo_core f)) (\<lambda>db. Inr (f\<lparr>fo_core := db\<rparr>))"

definition sqlInsertAttachment :: "attachment_row \<Rightarrow> forum \<Rightarrow> go_error + forum" where
  "sqlInsertAttachment r f =
     checked (\<not> hasRow (\<lambda>a. pa_post_id a = pa_post_id r \<and> pa_position a = pa_position r) (fo_attachments f) \<and>
              hasPost f (pa_post_id r) \<and> pa_position r < 8 \<and> pa_kind r \<in> {''link'', ''github'', ''image'', ''video''})
       (f\<lparr>fo_attachments := fo_attachments f @ [r]\<rparr>)"

definition sqlInsertComment :: "comment_row \<Rightarrow> forum \<Rightarrow> go_error + forum" where
  "sqlInsertComment r f =
     checked (\<not> hasRow (\<lambda>c. co_id c = co_id r \<or> co_request_id r \<noteq> None \<and> co_request_id c = co_request_id r) (fo_comments f) \<and>
              hasPost f (co_post_id r) \<and> optProject f (co_project_id r) \<and> co_intent r \<in> CommentIntents)
       (f\<lparr>fo_comments := fo_comments f @ [r]\<rparr>)"

definition sqlInsertStateEvent :: "state_event_row \<Rightarrow> forum \<Rightarrow> go_error + forum" where
  "sqlInsertStateEvent r f =
     checked (\<not> hasRow (\<lambda>e. sv_id e = sv_id r \<or> sv_request_id r \<noteq> None \<and> sv_request_id e = sv_request_id r) (fo_state_events f) \<and>
              hasPost f (sv_post_id r) \<and> optProject f (sv_project_id r) \<and> sv_state r \<in> {''open'', ''resolved'', ''superseded''} \<and>
              (case sv_superseded_by r of None \<Rightarrow> sv_state r \<noteq> ''superseded'' | Some k \<Rightarrow> sv_state r = ''superseded'' \<and> hasPost f k))
       (f\<lparr>fo_state_events := fo_state_events f @ [r]\<rparr>)"

definition sqlInsertScopeEvent :: "scope_event_row \<Rightarrow> forum \<Rightarrow> go_error + forum" where
  "sqlInsertScopeEvent r f =
     checked (\<not> hasRow (\<lambda>e. sp_id e = sp_id r \<or> sp_request_id e = sp_request_id r \<or>
                            sp_post_id e = sp_post_id r \<and> sp_revision e = sp_revision r) (fo_scope_events f) \<and>
              hasPost f (sp_post_id r) \<and> hasSession f (sp_session_id r) \<and> sp_scope r \<in> {''closed'', ''project'', ''commons''} \<and>
              0 \<le> sp_base_revision r \<and> 0 < sp_revision r)
       (f\<lparr>fo_scope_events := fo_scope_events f @ [r]\<rparr>)"

text \<open>\<^verbatim>\<open>UPDATE post_perspective_scopes ... WHERE post_id=? AND revision=?\<close> with the number of rows it changed.\<close>

definition sqlUpdateScope :: "gostring \<Rightarrow> int \<Rightarrow> (scope_row \<Rightarrow> scope_row) \<Rightarrow> forum \<Rightarrow> nat \<times> forum" where
  "sqlUpdateScope k revision g f =
     (countWhere (\<lambda>s. sc_post_id s = k \<and> sc_revision s = revision) (fo_scopes f),
      f\<lparr>fo_scopes := updWhere (\<lambda>s. sc_post_id s = k \<and> sc_revision s = revision) g (fo_scopes f)\<rparr>)"

definition sqlInsertMention :: "mention_row \<Rightarrow> forum \<Rightarrow> go_error + forum" where
  "sqlInsertMention r f =
     checked (\<not> hasRow (\<lambda>m. cm_source_kind m = cm_source_kind r \<and> cm_source_id m = cm_source_id r \<and>
                 (cm_recipient_principal m = cm_recipient_principal r \<or> cm_position m = cm_position r)) (fo_mentions f) \<and>
              cm_position r < 5 \<and>
              (case cm_recipient_session_id r of
                 None \<Rightarrow> cm_recipient_kind r = ''human'' \<and> cm_recipient_principal r = HumanLocalPrincipal
               | Some s \<Rightarrow> cm_recipient_kind r = ''agent'' \<and> cm_recipient_principal r = s \<and> hasHandle f s) \<and>
              (cm_source_kind r = ''post'' \<and> hasPost f (cm_source_id r) \<or>
               cm_source_kind r = ''comment'' \<and> hasComment f (cm_source_id r)))
       (f\<lparr>fo_mentions := fo_mentions f @ [r]\<rparr>)"

definition sqlInsertCommentMention :: "comment_mention_row \<Rightarrow> forum \<Rightarrow> go_error + forum" where
  "sqlInsertCommentMention r f =
     checked (\<not> hasRow (\<lambda>m. ct_comment_id m = ct_comment_id r \<and>
                 (ct_recipient_session_id m = ct_recipient_session_id r \<or> ct_position m = ct_position r)) (fo_comment_mentions f) \<and>
              hasComment f (ct_comment_id r) \<and> hasHandle f (ct_recipient_session_id r) \<and> ct_position r < 8)
       (f\<lparr>fo_comment_mentions := fo_comment_mentions f @ [r]\<rparr>)"

text \<open>SQLite's \<^verbatim>\<open>length\<close> of a text counts its bytes that begin a character.\<close>

definition charCount :: "gostring \<Rightarrow> nat" where
  "charCount s = length (filter (\<lambda>c. \<not> in_range 0x80 0xBF c) s)"

definition sqlInsertNotification :: "notification_row \<Rightarrow> forum \<Rightarrow> go_error + forum" where
  "sqlInsertNotification r f =
     checked (\<not> hasRow (\<lambda>n. hn_id n = hn_id r \<or> hn_recipient_principal n = hn_recipient_principal r \<and>
                 hn_source_kind n = hn_source_kind r \<and> hn_post_id n = hn_post_id r \<and> hn_comment_id n = hn_comment_id r)
                (fo_notifications f) \<and>
              hn_recipient_principal r = HumanLocalPrincipal \<and> charCount (hn_snippet r) \<le> 320 \<and> hasSession f (hn_actor_session_id r) \<and>
              (hn_actor_kind r = ''agent'' \<and> hn_actor_principal r = hn_actor_session_id r \<or>
               hn_actor_kind r = ''human'' \<and> hn_actor_principal r = HumanLocalPrincipal \<and> hn_actor_session_id r = HumanLegacySession) \<and>
              (hn_source_kind r = ''post'' \<and> hn_comment_id r = None \<and> hasPost f (hn_post_id r) \<or>
               hn_source_kind r = ''comment'' \<and>
                 (\<exists>c \<in> set (fo_comments f). hn_comment_id r = Some (co_id c) \<and> co_post_id c = hn_post_id r) \<and> hasPost f (hn_post_id r)))
       (f\<lparr>fo_notifications := fo_notifications f @ [r]\<rparr>)"

definition sqlInsertReceipt :: "receipt_row \<Rightarrow> forum \<Rightarrow> go_error + forum" where
  "sqlInsertReceipt r f =
     checked (\<not> hasRow (\<lambda>e. nr_id e = nr_id r \<or> nr_request_id e = nr_request_id r) (fo_receipts f) \<and>
              nr_recipient_principal r = HumanLocalPrincipal \<and>
              hasRow (\<lambda>n. hn_id n = nr_notification_id r \<and> hn_recipient_principal n = nr_recipient_principal r) (fo_notifications f))
       (f\<lparr>fo_receipts := fo_receipts f @ [r]\<rparr>)"

end
