(* ===== verification/Forum_Write.thy ===== *)
theory Forum_Write
  imports Forum_Schema
begin

text \<open>
  The writers of the forum: registration of sessions (\<^verbatim>\<open>store.go\<close>), posts and comments (\<^verbatim>\<open>write.go\<close>) with their mentions
  and notifications (\<^verbatim>\<open>notifications.go\<close>), the state of a post (\<^verbatim>\<open>posts.go\<close>), its perspective scope (\<^verbatim>\<open>addressability.go\<close>)
  and the predicate that decides who discovers a post (\<^verbatim>\<open>post_discovery.go\<close>). Reads that the code makes before its
  transaction use the state \<open>snap\<close>, those inside it and after it the state \<open>f\<close>.
\<close>

text \<open>The parts of Go's library that the forum calls: \<^verbatim>\<open>url.Parse\<close>, \<^verbatim>\<open>Hostname\<close> and \<^verbatim>\<open>strings.EqualFold\<close>.\<close>

record parsed_url =
  pu_Scheme :: gostring
  pu_Host :: gostring
  pu_HasUser :: bool
  pu_Fragment :: gostring
  pu_Hostname :: gostring

record url_lib =
  ul_Parse :: "gostring \<Rightarrow> parsed_url option"
  ul_EqualFold :: "gostring \<Rightarrow> gostring \<Rightarrow> bool"

section \<open>Transactions\<close>

definition commitForum :: "forum \<Rightarrow> go_error + ('a \<times> forum) \<Rightarrow> (go_error + 'a) \<times> forum" where
  "commitForum f m = (case m of Inl err \<Rightarrow> (Inl err, f) | Inr (y, f') \<Rightarrow> (Inr y, f'))"

text \<open>\<^verbatim>\<open>mutate\<close> of the store on the wider state; \<open>k\<close> and \<open>k'\<close> are the readings of the clock it makes.\<close>

definition mutateForum ::
  "env \<Rightarrow> nat \<Rightarrow> nat \<Rightarrow> gostring \<Rightarrow> gostring \<Rightarrow> gostring \<Rightarrow> gostring \<Rightarrow> (int \<Rightarrow> forum \<Rightarrow> go_error + forum) \<Rightarrow>
     forum \<Rightarrow> (go_error + int) \<times> forum" where
  "mutateForum e k k' projectID kind ref summary fn f =
     commitForum f (
       bindE (case projectRow (fo_core f) projectID of
                None \<Rightarrow> Inl ErrNotFound
              | Some p \<Rightarrow> Inr (p_revision p + 1,
                  f\<lparr>fo_core := (fo_core f)\<lparr>projects := updWhere (\<lambda>r. p_id r = projectID)
                       (\<lambda>r. r\<lparr>p_revision := p_revision r + 1, p_updated_at := env_clock e k\<rparr>) (projects (fo_core f))\<rparr>\<rparr>)) (\<lambda>(rev, f).
       bindE (mapErrE mapErr (fn rev f)) (\<lambda>f.
       bindE (mapErrE mapErr (sqlInsertChange \<lparr>ch_project_id = projectID, ch_revision = rev, ch_kind = kind, ch_ref = ref,
                ch_summary = summary, ch_created_at = env_clock e k'\<rparr> (fo_core f))) (\<lambda>db.
       Inr (rev, f\<lparr>fo_core := db\<rparr>)))))"

section \<open>Sessions\<close>

record Session =
  sn_ID :: gostring
  sn_Host :: gostring
  sn_ProjectID :: gostring
  sn_Purpose :: gostring

text \<open>
  \<^verbatim>\<open>handle GLOB 'agent-[0-9]*'\<close> and \<^verbatim>\<open>CAST(substr(handle,7) AS INTEGER)\<close>, which reads the leading digits, and the
  next handle with at least six digits.
\<close>

definition agentHandle :: "gostring \<Rightarrow> bool" where
  "agentHandle h \<longleftrightarrow> HasPrefix h ''agent-'' \<and> (case drop 6 h of [] \<Rightarrow> False | c # _ \<Rightarrow> is_digit c)"

definition handleNumber :: "gostring \<Rightarrow> nat" where
  "handleNumber h = atoi_acc 0 (takeWhile is_digit (drop 6 h))"

definition nextHandleNumber :: "handle_row list \<Rightarrow> nat" where
  "nextHandleNumber hs = foldr max (map handleNumber (filter agentHandle (map sh_handle hs))) 0 + 1"

definition formatHandle :: "nat \<Rightarrow> gostring" where
  "formatHandle n = ''agent-'' @ replicate (6 - length (itoa n)) (CHR ''0'') @ itoa n"

definition UpsertSession :: "env \<Rightarrow> Session \<Rightarrow> forum \<Rightarrow> (go_error + unit) \<times> forum" where
  "UpsertSession e v f =
     (if sn_ID v = '''' \<or> sn_Host v = '''' then (Inl ErrInvalid, f)
      else commitForum f (
        let created = env_now e in
        bindE (mapErrE mapErr (sqlUpsertSession \<lparr>ss_id = sn_ID v, ss_host = sn_Host v, ss_project_id = nullif (sn_ProjectID v),
                 ss_purpose = sn_Purpose v, ss_created_at = created\<rparr> f)) (\<lambda>f.
        if hasHandle f (sn_ID v) then Inr ((), f)
        else bindE (mapErrE mapErr (sqlInsertHandle \<lparr>sh_session_id = sn_ID v,
                 sh_handle = formatHandle (nextHandleNumber (fo_handles f)), sh_created_at = created\<rparr> f)) (\<lambda>f. Inr ((), f)))))"

section \<open>Discovery\<close>

text \<open>
  \<open>postDiscoveryPredicate\<close> returns the condition of a query and whether the viewer is admissible; here the condition
  on a row, or None.
\<close>

definition scopeOf :: "forum \<Rightarrow> gostring \<Rightarrow> gostring" where
  "scopeOf f k = (case scopeRow f k of None \<Rightarrow> ''closed'' | Some s \<Rightarrow> sc_scope s)"

definition discoverable :: "forum \<Rightarrow> gostring \<Rightarrow> post_row \<Rightarrow> bool" where
  "discoverable f viewerSession p \<longleftrightarrow>
     po_session_id p = viewerSession \<or>
     hasRow (\<lambda>m. cm_source_kind m = ''post'' \<and> cm_source_id m = po_id p \<and> cm_recipient_kind m = ''agent'' \<and>
       cm_recipient_principal m = viewerSession) (fo_mentions f) \<or>
     hasRow (\<lambda>m. cm_source_kind m = ''comment'' \<and> cm_recipient_kind m = ''agent'' \<and> cm_recipient_principal m = viewerSession \<and>
       hasRow (\<lambda>c. co_id c = cm_source_id m \<and> co_post_id c = po_id p) (fo_comments f)) (fo_mentions f) \<or>
     scopeOf f (po_id p) = ''commons'' \<or>
     scopeOf f (po_id p) = ''project'' \<and> po_project_id p \<noteq> None \<and>
       (case sessionRow f viewerSession of None \<Rightarrow> False | Some s \<Rightarrow> po_project_id p = ss_project_id s)"

definition postDiscoveryPredicate :: "forum \<Rightarrow> gostring \<Rightarrow> gostring \<Rightarrow> (post_row \<Rightarrow> bool) option" where
  "postDiscoveryPredicate f viewerKind viewerSession =
     (if viewerKind = '''' \<or> viewerKind = ''human'' then Some (\<lambda>_. True)
      else if viewerKind \<noteq> ''agent'' \<or> viewerSession = '''' then None
      else Some (discoverable f viewerSession))"

definition CanDiscoverPost :: "gostring \<Rightarrow> gostring \<Rightarrow> gostring \<Rightarrow> forum \<Rightarrow> go_error + bool" where
  "CanDiscoverPost viewerKind viewerSession postID f =
     (if postID = '''' then Inl ErrInvalid
      else case postDiscoveryPredicate f viewerKind viewerSession of
        None \<Rightarrow> Inl ErrInvalid
      | Some predicate \<Rightarrow> Inr (countWhere (\<lambda>p. po_id p = postID \<and> predicate p) (fo_posts f) = 1))"

definition PostForComment :: "gostring \<Rightarrow> forum \<Rightarrow> go_error + gostring" where
  "PostForComment commentID f =
     (if commentID = '''' then Inl ErrInvalid
      else mapErrE mapErr (bindE (someE (commentRow f commentID) SqlNoRows) (\<lambda>c. Inr (co_post_id c))))"

section \<open>Mentions\<close>

definition maxStructuredRecipients :: nat where
  "maxStructuredRecipients = 5"

fun normalizePrincipals :: "gostring list \<Rightarrow> gostring list \<Rightarrow> gostring list option" where
  "normalizePrincipals [] out = Some out"
| "normalizePrincipals (p # ps) out =
     (if p = '''' \<or> length p > 200 \<or> TrimSpace p \<noteq> p then None
      else if p \<in> set out then normalizePrincipals ps out
      else if length (out @ [p]) > maxStructuredRecipients then None
      else normalizePrincipals ps (out @ [p]))"

definition normalizeMentionPrincipals :: "gostring list \<Rightarrow> gostring list \<Rightarrow> gostring list option" where
  "normalizeMentionPrincipals principals legacySessions =
     (if principals \<noteq> [] \<and> legacySessions \<noteq> [] then None
      else let ps = (if principals = [] then legacySessions else principals) in
        if length ps > 20 then None else normalizePrincipals ps [])"

record MentionTarget =
  mt_Kind :: gostring
  mt_Principal :: gostring
  mt_SessionID :: gostring
  mt_Handle :: gostring
  mt_Purpose :: gostring

definition resolveMentionTarget :: "gostring \<Rightarrow> forum \<Rightarrow> go_error + MentionTarget" where
  "resolveMentionTarget p f =
     (if p = HumanLocalPrincipal
      then Inr \<lparr>mt_Kind = ''human'', mt_Principal = p, mt_SessionID = '''', mt_Handle = '''', mt_Purpose = ''''\<rparr>
      else if p = HumanLegacySession then Inl ErrInvalid
      else case (handleRow f p, sessionRow f p) of
        (Some h, Some s) \<Rightarrow> Inr \<lparr>mt_Kind = ''agent'', mt_Principal = p, mt_SessionID = p, mt_Handle = sh_handle h, mt_Purpose = ss_purpose s\<rparr>
      | _ \<Rightarrow> Inl ErrInvalid)"

text \<open>\<open>boundedUTF8\<close> of \<^verbatim>\<open>query.go\<close>; its suffix is a space and the ellipsis, four bytes.\<close>

fun boundedEnd :: "gostring \<Rightarrow> nat \<Rightarrow> nat" where
  "boundedEnd value 0 = 0"
| "boundedEnd value (Suc n) = (if utf8_valid (take (Suc n) value) then Suc n else boundedEnd value n)"

definition ellipsis :: gostring where
  "ellipsis = [CHR '' '', char_of (0xE2 :: nat), char_of (0x80 :: nat), char_of (0xA6 :: nat)]"

definition boundedUTF8 :: "gostring \<Rightarrow> nat \<Rightarrow> gostring" where
  "boundedUTF8 value maxBytes =
     (if length value \<le> maxBytes then value
      else TrimSpace (take (boundedEnd value (maxBytes - length ellipsis)) value) @ ellipsis)"

record mention_ctx =
  mc_sourceKind :: gostring
  mc_sourceID :: gostring
  mc_postID :: gostring
  mc_actorKind :: gostring
  mc_actorPrincipal :: gostring
  mc_actorSession :: gostring
  mc_body :: gostring
  mc_created :: time

definition insertMention :: "env \<Rightarrow> mention_ctx \<Rightarrow> nat \<times> gostring \<Rightarrow> forum \<Rightarrow> go_error + forum" where
  "insertMention e c item f =
     (case item of (position, p) \<Rightarrow>
       bindE (resolveMentionTarget p f) (\<lambda>target.
       bindE (sqlInsertMention \<lparr>cm_source_kind = mc_sourceKind c, cm_source_id = mc_sourceID c, cm_position = position,
                cm_recipient_kind = mt_Kind target, cm_recipient_principal = mt_Principal target,
                cm_recipient_session_id = nullif (mt_SessionID target), cm_created_at = mc_created c\<rparr> f) (\<lambda>f.
       bindE (if mc_sourceKind c = ''comment'' \<and> mt_Kind target = ''agent''
              then sqlInsertCommentMention \<lparr>ct_comment_id = mc_sourceID c, ct_recipient_session_id = mt_SessionID target,
                     ct_position = position, ct_created_at = mc_created c\<rparr> f
              else Inr f) (\<lambda>f.
       if mt_Kind target = ''human''
       then sqlInsertNotification \<lparr>hn_id = newID e (Suc position) ''N-'', hn_recipient_principal = mt_Principal target,
              hn_source_kind = mc_sourceKind c, hn_post_id = mc_postID c,
              hn_comment_id = (if mc_sourceKind c = ''comment'' then Some (mc_sourceID c) else None),
              hn_actor_kind = mc_actorKind c, hn_actor_principal = mc_actorPrincipal c, hn_actor_session_id = mc_actorSession c,
              hn_snippet = boundedUTF8 (TrimSpace (mc_body c)) 320, hn_created_at = mc_created c, hn_read_at = None\<rparr> f
       else Inr f))))"

definition insertContentMentions ::
  "env \<Rightarrow> gostring \<Rightarrow> gostring \<Rightarrow> gostring \<Rightarrow> gostring \<Rightarrow> gostring \<Rightarrow> gostring \<Rightarrow> gostring \<Rightarrow> time \<Rightarrow> gostring list \<Rightarrow>
     forum \<Rightarrow> go_error + forum" where
  "insertContentMentions e sourceKind sourceID postID actorKind actorPrincipal actorSession body created principals f =
     (let c = \<lparr>mc_sourceKind = sourceKind, mc_sourceID = sourceID, mc_postID = postID,
            mc_actorKind = (if actorKind = '''' then ''agent'' else actorKind),
            mc_actorPrincipal = (if actorPrincipal = '''' then actorSession else actorPrincipal),
            mc_actorSession = actorSession, mc_body = body, mc_created = created\<rparr> in
      foldE (insertMention e c) (enumerate 0 principals) f)"

definition readContentMentions :: "gostring \<Rightarrow> gostring \<Rightarrow> forum \<Rightarrow> MentionTarget list" where
  "readContentMentions sourceKind sourceID f =
     map (\<lambda>m. \<lparr>mt_Kind = cm_recipient_kind m, mt_Principal = cm_recipient_principal m,
            mt_SessionID = (case cm_recipient_session_id m of None \<Rightarrow> '''' | Some s \<Rightarrow> s),
            mt_Handle = (case Option.bind (cm_recipient_session_id m) (handleRow f) of None \<Rightarrow> '''' | Some h \<Rightarrow> sh_handle h),
            mt_Purpose = (case Option.bind (cm_recipient_session_id m) (sessionRow f) of None \<Rightarrow> '''' | Some s \<Rightarrow> ss_purpose s)\<rparr>)
       (sort_key cm_position (filter (\<lambda>m. cm_source_kind m = sourceKind \<and> cm_source_id m = sourceID) (fo_mentions f)))"

section \<open>Posts\<close>

record PostAttachment =
  at_Kind :: gostring
  at_URL :: gostring
  at_Title :: gostring

definition validPostAttachment :: "url_lib \<Rightarrow> PostAttachment \<Rightarrow> bool" where
  "validPostAttachment lb item \<longleftrightarrow>
     at_Kind item \<in> {''link'', ''github'', ''image'', ''video''} \<and> at_URL item \<noteq> '''' \<and> length (at_URL item) \<le> 2048 \<and>
     length (at_Title item) \<le> 200 \<and> TrimSpace (at_URL item) = at_URL item \<and> TrimSpace (at_Title item) = at_Title item \<and>
     (case ul_Parse lb (at_URL item) of
        None \<Rightarrow> False
      | Some parsed \<Rightarrow> pu_Scheme parsed = ''https'' \<and> pu_Host parsed \<noteq> '''' \<and> \<not> pu_HasUser parsed \<and> pu_Fragment parsed = '''' \<and>
          (at_Kind item = ''github'' \<longrightarrow> ul_EqualFold lb (pu_Hostname parsed) ''github.com''))"

definition validPostAttachments :: "url_lib \<Rightarrow> PostAttachment list \<Rightarrow> bool" where
  "validPostAttachments lb items \<longleftrightarrow> length items \<le> 8 \<and> list_all (validPostAttachment lb) items"

definition readPostAttachments :: "gostring \<Rightarrow> forum \<Rightarrow> PostAttachment list" where
  "readPostAttachments postID f =
     map (\<lambda>a. \<lparr>at_Kind = pa_kind a, at_URL = pa_url a, at_Title = pa_title a\<rparr>)
       (sort_key pa_position (filter (\<lambda>a. pa_post_id a = postID) (fo_attachments f)))"

record PostRequest =
  pq_TopicID :: gostring
  pq_Kind :: gostring
  pq_Title :: gostring
  pq_Body :: gostring
  pq_Basis :: gostring
  pq_Ref :: gostring
  pq_ActorID :: gostring
  pq_ActorKind :: gostring
  pq_ActorPrincipal :: gostring
  pq_SessionID :: gostring
  pq_RequestID :: gostring
  pq_Attachments :: "PostAttachment list"
  pq_MentionPrincipals :: "gostring list"

record PostRecord =
  ps_ID :: gostring
  ps_TopicID :: gostring
  ps_ProjectID :: gostring
  ps_Kind :: gostring
  ps_Title :: gostring
  ps_Body :: gostring
  ps_Basis :: gostring
  ps_Ref :: gostring
  ps_SessionID :: gostring
  ps_RequestID :: gostring
  ps_Revision :: int
  ps_CreatedAt :: time
  ps_Attachments :: "PostAttachment list"
  ps_MentionPrincipals :: "gostring list"

abbreviation orEmpty :: "gostring option \<Rightarrow> gostring" where
  "orEmpty v \<equiv> (case v of None \<Rightarrow> '''' | Some s \<Rightarrow> s)"

abbreviation orZero :: "int option \<Rightarrow> int" where
  "orZero v \<equiv> (case v of None \<Rightarrow> 0 | Some n \<Rightarrow> n)"

definition postByRequest :: "gostring \<Rightarrow> gostring \<Rightarrow> forum \<Rightarrow> PostRecord option" where
  "postByRequest storageKey requestID f =
     map_option (\<lambda>p. \<lparr>ps_ID = po_id p, ps_TopicID = po_topic_id p, ps_ProjectID = orEmpty (po_project_id p), ps_Kind = po_kind p,
         ps_Title = po_title p, ps_Body = po_body p, ps_Basis = po_basis p, ps_Ref = po_ref p, ps_SessionID = po_session_id p,
         ps_RequestID = requestID, ps_Revision = orZero (po_project_revision p), ps_CreatedAt = po_created_at p,
         ps_Attachments = readPostAttachments (po_id p) f,
         ps_MentionPrincipals = map mt_Principal (readContentMentions ''post'' (po_id p) f)\<rparr>)
       (find (\<lambda>p. po_request_id p = Some storageKey) (fo_posts f))"

definition samePost :: "PostRecord \<Rightarrow> PostRequest \<Rightarrow> bool" where
  "samePost a b \<longleftrightarrow> ps_TopicID a = pq_TopicID b \<and> ps_Kind a = pq_Kind b \<and> ps_Title a = pq_Title b \<and> ps_Body a = pq_Body b \<and>
     ps_Basis a = pq_Basis b \<and> ps_Ref a = pq_Ref b \<and> ps_SessionID a = pq_SessionID b \<and>
     ps_Attachments a = pq_Attachments b \<and> ps_MentionPrincipals a = pq_MentionPrincipals b"

definition topicProject :: "forum \<Rightarrow> gostring \<Rightarrow> go_error + gostring option" where
  "topicProject f k = bindE (someE (find (\<lambda>t. tp_id t = k) (topics (fo_core f))) SqlNoRows) (\<lambda>t. Inr (tp_project_id t))"

definition insertPost :: "env \<Rightarrow> PostRequest \<Rightarrow> gostring \<Rightarrow> gostring option \<Rightarrow> int option \<Rightarrow> forum \<Rightarrow> go_error + forum" where
  "insertPost e req storageKey project rv f =
     (let pid = newID e 0 ''P-''; created = env_clock e 0 in
      bindE (sqlInsertPost \<lparr>po_id = pid, po_topic_id = pq_TopicID req, po_project_id = project, po_project_revision = rv,
               po_kind = pq_Kind req, po_title = pq_Title req, po_body = pq_Body req, po_basis = pq_Basis req, po_ref = pq_Ref req,
               po_session_id = pq_SessionID req, po_request_id = nullif storageKey, po_created_at = created\<rparr> f) (\<lambda>f.
      bindE (sqlInsertScope \<lparr>sc_post_id = pid, sc_scope = ''closed'', sc_revision = 0, sc_event_id = None, sc_updated_at = created\<rparr> f) (\<lambda>f.
      bindE (sqlInsertPostSearch \<lparr>sd_project_id = project, sd_ref = pid, sd_kind = pq_Kind req, sd_revision = orZero rv,
               sd_title = pq_Title req, sd_body = pq_Body req @ '' '' @ pq_Basis req\<rparr> f) (\<lambda>f.
      bindE (foldE (\<lambda>(position, a) f. sqlInsertAttachment \<lparr>pa_post_id = pid, pa_position = position, pa_kind = at_Kind a,
               pa_url = at_URL a, pa_title = at_Title a\<rparr> f) (enumerate 0 (pq_Attachments req)) f) (\<lambda>f.
      insertContentMentions e ''post'' pid pid (pq_ActorKind req) (pq_ActorPrincipal req) (pq_SessionID req) (pq_Body req) created
        (pq_MentionPrincipals req) f)))))"

definition postReplay :: "gostring \<Rightarrow> PostRequest \<Rightarrow> go_error \<Rightarrow> forum \<Rightarrow> go_error + PostRecord" where
  "postReplay storageKey req err f =
     (case (if storageKey = '''' then None else postByRequest storageKey (pq_RequestID req) f) of
        Some prior \<Rightarrow> if samePost prior req then Inr prior else Inl err
      | None \<Rightarrow> Inl err)"

definition postTx :: "env \<Rightarrow> PostRequest \<Rightarrow> gostring \<Rightarrow> gostring option \<Rightarrow> forum \<Rightarrow> (go_error + int) \<times> forum" where
  "postTx e req storageKey project f =
     (case project of
        Some projectID \<Rightarrow> mutateForum e 1 2 projectID ''post'' (newID e 0 ''P-'') (pq_Title req)
          (\<lambda>r. insertPost e req storageKey project (Some r)) f
      | None \<Rightarrow> commitForum f (bindE (mapErrE mapErr (insertPost e req storageKey None None f)) (\<lambda>f. Inr (0, f))))"

definition postAdmitted :: "env \<Rightarrow> PostRequest \<Rightarrow> forum \<Rightarrow> forum \<Rightarrow> (go_error + PostRecord) \<times> forum" where
  "postAdmitted e req snap f =
     (let storageKey = requestStorageKey (pq_ActorID req) (pq_SessionID req) (pq_RequestID req) in
      case (if storageKey = '''' then None else postByRequest storageKey (pq_RequestID req) snap) of
        Some prior \<Rightarrow> (if samePost prior req then Inr prior else Inl ErrConflict, f)
      | None \<Rightarrow>
          (case mapErrE mapErr (topicProject snap (pq_TopicID req)) of
             Inl err \<Rightarrow> (Inl err, f)
           | Inr project \<Rightarrow>
               (case postTx e req storageKey project f of
                  (Inl err, f') \<Rightarrow> (postReplay storageKey req err f', f')
                | (Inr rv, f') \<Rightarrow>
                    (Inr \<lparr>ps_ID = newID e 0 ''P-'', ps_TopicID = pq_TopicID req, ps_ProjectID = orEmpty project,
                       ps_Kind = pq_Kind req, ps_Title = pq_Title req, ps_Body = pq_Body req, ps_Basis = pq_Basis req,
                       ps_Ref = pq_Ref req, ps_SessionID = pq_SessionID req, ps_RequestID = pq_RequestID req,
                       ps_Revision = rv, ps_CreatedAt = env_clock e 0, ps_Attachments = pq_Attachments req,
                       ps_MentionPrincipals = pq_MentionPrincipals req\<rparr>, f'))))"

definition Post :: "url_lib \<Rightarrow> env \<Rightarrow> PostRequest \<Rightarrow> forum \<Rightarrow> forum \<Rightarrow> (go_error + PostRecord) \<times> forum" where
  "Post lb e req0 snap f =
     (case normalizeMentionPrincipals (pq_MentionPrincipals req0) [] of
        None \<Rightarrow> (Inl ErrInvalid, f)
      | Some mentions \<Rightarrow>
          (let req = req0\<lparr>pq_MentionPrincipals := mentions\<rparr> in
           if pq_TopicID req = '''' \<or> pq_Kind req \<notin> PostKinds \<or> pq_Title req = '''' \<or> pq_Body req = '''' \<or> pq_Basis req = '''' \<or>
              pq_SessionID req = '''' \<or> pq_RequestID req = '''' \<or> \<not> validPostAttachments lb (pq_Attachments req) then (Inl ErrInvalid, f)
           else if pq_Kind req = ''topic_request'' \<and> pq_TopicID req \<noteq> TopicGeneral then (Inl ErrInvalid, f)
           else postAdmitted e req snap f))"

section \<open>Comments\<close>

record CommentRequest =
  cq_PostID :: gostring
  cq_Body :: gostring
  cq_Intent :: gostring
  cq_ActorID :: gostring
  cq_ActorKind :: gostring
  cq_ActorPrincipal :: gostring
  cq_SessionID :: gostring
  cq_RequestID :: gostring
  cq_MentionSessionIDs :: "gostring list"
  cq_MentionPrincipals :: "gostring list"

definition commentByRequest :: "gostring \<Rightarrow> forum \<Rightarrow> (comment_row \<times> gostring list \<times> WriteResult) option" where
  "commentByRequest storageKey f =
     map_option (\<lambda>c. (c, map mt_Principal (readContentMentions ''comment'' (co_id c) f),
         \<lparr>wr_ID = co_id c, wr_Revision = orZero (co_project_revision c)\<rparr>))
       (find (\<lambda>c. co_request_id c = Some storageKey) (fo_comments f))"

definition sameComment :: "comment_row \<Rightarrow> gostring list \<Rightarrow> CommentRequest \<Rightarrow> bool" where
  "sameComment a mentions b \<longleftrightarrow> co_post_id a = cq_PostID b \<and> co_body a = cq_Body b \<and> co_intent a = cq_Intent b \<and>
     co_session_id a = cq_SessionID b \<and> mentions = cq_MentionPrincipals b"

definition insertComment :: "env \<Rightarrow> CommentRequest \<Rightarrow> gostring \<Rightarrow> gostring option \<Rightarrow> int option \<Rightarrow> forum \<Rightarrow> go_error + forum" where
  "insertComment e req storageKey project rv f =
     (let cid = newID e 0 ''R-''; created = env_clock e 0 in
      bindE (sqlInsertComment \<lparr>co_id = cid, co_post_id = cq_PostID req, co_project_id = project, co_project_revision = rv,
               co_body = cq_Body req, co_intent = cq_Intent req, co_session_id = cq_SessionID req,
               co_request_id = nullif storageKey, co_created_at = created\<rparr> f) (\<lambda>f.
      insertContentMentions e ''comment'' cid (cq_PostID req) (cq_ActorKind req) (cq_ActorPrincipal req) (cq_SessionID req)
        (cq_Body req) created (cq_MentionPrincipals req) f))"

definition commentTx :: "env \<Rightarrow> CommentRequest \<Rightarrow> gostring \<Rightarrow> gostring option \<Rightarrow> forum \<Rightarrow> (go_error + int) \<times> forum" where
  "commentTx e req storageKey project f =
     (case project of
        Some projectID \<Rightarrow> mutateForum e 1 2 projectID ''comment'' (newID e 0 ''R-'') (''comment on '' @ cq_PostID req)
          (\<lambda>r. insertComment e req storageKey project (Some r)) f
      | None \<Rightarrow> commitForum f (bindE (insertComment e req storageKey None None f) (\<lambda>f. Inr (0, f))))"

definition commentReplay :: "gostring \<Rightarrow> CommentRequest \<Rightarrow> go_error \<Rightarrow> forum \<Rightarrow> go_error + WriteResult" where
  "commentReplay storageKey req err f =
     (case (if storageKey = '''' then None else commentByRequest storageKey f) of
        Some (prior, ms, replay) \<Rightarrow> if sameComment prior ms req then Inr replay else Inl err
      | None \<Rightarrow> Inl err)"

definition commentAdmitted :: "env \<Rightarrow> CommentRequest \<Rightarrow> forum \<Rightarrow> forum \<Rightarrow> (go_error + WriteResult) \<times> forum" where
  "commentAdmitted e req snap f =
     (let storageKey = requestStorageKey (cq_ActorID req) (cq_SessionID req) (cq_RequestID req) in
      case (if storageKey = '''' then None else commentByRequest storageKey snap) of
        Some (prior, ms, result) \<Rightarrow> (if sameComment prior ms req then Inr result else Inl ErrConflict, f)
      | None \<Rightarrow>
          (case postDiscoveryPredicate snap (cq_ActorKind req) (cq_SessionID req) of
             None \<Rightarrow> (Inl ErrInvalid, f)
           | Some predicate \<Rightarrow>
               (case find (\<lambda>p. po_id p = cq_PostID req \<and> predicate p) (fo_posts snap) of
                  None \<Rightarrow> (Inl ErrNotFound, f)
                | Some p \<Rightarrow>
                    (case commentTx e req storageKey (po_project_id p) f of
                       (Inl err, f') \<Rightarrow> (commentReplay storageKey req (mapErr err) f', f')
                     | (Inr rv, f') \<Rightarrow> (Inr \<lparr>wr_ID = newID e 0 ''R-'', wr_Revision = rv\<rparr>, f')))))"

definition Comment :: "env \<Rightarrow> CommentRequest \<Rightarrow> forum \<Rightarrow> forum \<Rightarrow> (go_error + WriteResult) \<times> forum" where
  "Comment e req0 snap f =
     (case normalizeMentionPrincipals (cq_MentionPrincipals req0) (cq_MentionSessionIDs req0) of
        None \<Rightarrow> (Inl ErrInvalid, f)
      | Some mentions \<Rightarrow>
          (let req = req0\<lparr>cq_MentionPrincipals := mentions, cq_MentionSessionIDs := []\<rparr> in
           if cq_PostID req = '''' \<or> cq_Body req = '''' \<or> cq_Intent req \<notin> CommentIntents \<or> cq_SessionID req = '''' \<or>
              cq_RequestID req = '''' then (Inl ErrInvalid, f)
           else commentAdmitted e req snap f))"

section \<open>The state of a post\<close>

record PostStateRequest =
  sq_PostID :: gostring
  sq_State :: gostring
  sq_SupersededBy :: gostring
  sq_ActorID :: gostring
  sq_SessionID :: gostring
  sq_RequestID :: gostring

definition postStateByRequest :: "gostring \<Rightarrow> forum \<Rightarrow> (state_event_row \<times> WriteResult) option" where
  "postStateByRequest storageKey f =
     map_option (\<lambda>r. (r, \<lparr>wr_ID = sv_id r, wr_Revision = orZero (sv_project_revision r)\<rparr>))
       (find (\<lambda>r. sv_request_id r = Some storageKey) (fo_state_events f))"

definition samePostState :: "state_event_row \<Rightarrow> PostStateRequest \<Rightarrow> bool" where
  "samePostState a b \<longleftrightarrow> sv_post_id a = sq_PostID b \<and> sv_state a = sq_State b \<and>
     orEmpty (sv_superseded_by a) = sq_SupersededBy b \<and> sv_session_id a = sq_SessionID b"

definition insertPostState :: "env \<Rightarrow> PostStateRequest \<Rightarrow> gostring \<Rightarrow> gostring option \<Rightarrow> int option \<Rightarrow> forum \<Rightarrow> go_error + forum" where
  "insertPostState e req storageKey project rv f =
     sqlInsertStateEvent \<lparr>sv_id = newID e 0 ''PS-'', sv_post_id = sq_PostID req, sv_project_id = project, sv_project_revision = rv,
       sv_state = sq_State req, sv_superseded_by = nullif (sq_SupersededBy req), sv_session_id = sq_SessionID req,
       sv_request_id = nullif storageKey, sv_created_at = env_clock e 0\<rparr> f"

definition postStateTx :: "env \<Rightarrow> PostStateRequest \<Rightarrow> gostring \<Rightarrow> gostring option \<Rightarrow> forum \<Rightarrow> (go_error + int) \<times> forum" where
  "postStateTx e req storageKey project f =
     (case project of
        Some projectID \<Rightarrow> mutateForum e 1 2 projectID ''post_state'' (sq_PostID req) (sq_State req)
          (\<lambda>r. insertPostState e req storageKey project (Some r)) f
      | None \<Rightarrow> commitForum f (bindE (insertPostState e req storageKey None None f) (\<lambda>f. Inr (0, f))))"

definition SetPostState :: "env \<Rightarrow> PostStateRequest \<Rightarrow> forum \<Rightarrow> forum \<Rightarrow> (go_error + WriteResult) \<times> forum" where
  "SetPostState e req snap f =
     (if sq_PostID req = '''' \<or> sq_SessionID req = '''' \<or> sq_State req \<notin> {''open'', ''resolved'', ''superseded''} \<or>
         (sq_State req = ''superseded'') \<noteq> (sq_SupersededBy req \<noteq> '''') \<or> sq_PostID req = sq_SupersededBy req then (Inl ErrInvalid, f)
      else
        (let storageKey = requestStorageKey (sq_ActorID req) (sq_SessionID req) (sq_RequestID req) in
         case (if storageKey = '''' then None else postStateByRequest storageKey snap) of
           Some (prior, result) \<Rightarrow> (if samePostState prior req then Inr result else Inl ErrConflict, f)
         | None \<Rightarrow>
             (case postRow snap (sq_PostID req) of
                None \<Rightarrow> (Inl ErrNotFound, f)
              | Some p \<Rightarrow>
                  if sq_SupersededBy req \<noteq> '''' \<and> countWhere (\<lambda>p. po_id p = sq_SupersededBy req) (fo_posts snap) \<noteq> 1 then (Inl ErrNotFound, f)
                  else
                    (case postStateTx e req storageKey (po_project_id p) f of
                       (Inl err, f') \<Rightarrow>
                         (case (if storageKey = '''' then None else postStateByRequest storageKey f') of
                            Some (prior, replay) \<Rightarrow> if samePostState prior req then Inr replay else Inl (mapErr err)
                          | None \<Rightarrow> Inl (mapErr err), f')
                     | (Inr rv, f') \<Rightarrow> (Inr \<lparr>wr_ID = newID e 0 ''PS-'', wr_Revision = rv\<rparr>, f')))))"

section \<open>The perspective scope of a post\<close>

record PerspectiveScopeRequest =
  xq_PostID :: gostring
  xq_Scope :: gostring
  xq_ActorID :: gostring
  xq_SessionID :: gostring
  xq_RequestID :: gostring
  xq_BaseRevision :: int
  xq_AuthorOnly :: bool

definition perspectiveScopeByRequest :: "gostring \<Rightarrow> forum \<Rightarrow> (scope_event_row \<times> WriteResult) option" where
  "perspectiveScopeByRequest storageKey f =
     map_option (\<lambda>r. (r, \<lparr>wr_ID = sp_id r, wr_Revision = sp_revision r\<rparr>))
       (find (\<lambda>r. sp_request_id r = storageKey) (fo_scope_events f))"

definition samePerspectiveScope :: "scope_event_row \<Rightarrow> PerspectiveScopeRequest \<Rightarrow> bool" where
  "samePerspectiveScope a b \<longleftrightarrow> sp_post_id a = xq_PostID b \<and> sp_scope a = xq_Scope b \<and>
     sp_base_revision a = xq_BaseRevision b \<and> sp_session_id a = xq_SessionID b"

definition scopeTx :: "env \<Rightarrow> PerspectiveScopeRequest \<Rightarrow> gostring \<Rightarrow> forum \<Rightarrow> go_error + (WriteResult \<times> forum)" where
  "scopeTx e req storageKey f =
     (case (scopeRow f (xq_PostID req), postRow f (xq_PostID req)) of
        (Some ps, Some p) \<Rightarrow>
          if xq_AuthorOnly req \<and> po_session_id p \<noteq> xq_SessionID req then Inl ErrForbidden
          else if xq_Scope req = ''project'' \<and> po_project_id p = None then Inl ErrInvalid
          else if sc_revision ps \<noteq> xq_BaseRevision req then Inl ErrConflict
          else
            (let eid = newID e 0 ''PSC-''; created = env_clock e 0; revision = sc_revision ps + 1 in
             bindE (mapErrE mapErr (sqlInsertScopeEvent \<lparr>sp_id = eid, sp_post_id = xq_PostID req, sp_scope = xq_Scope req,
                      sp_base_revision = sc_revision ps, sp_revision = revision, sp_actor_id = xq_ActorID req,
                      sp_session_id = xq_SessionID req, sp_request_id = storageKey, sp_created_at = created\<rparr> f)) (\<lambda>f.
             let (n, f) = sqlUpdateScope (xq_PostID req) (sc_revision ps)
                   (\<lambda>s. s\<lparr>sc_scope := xq_Scope req, sc_revision := revision, sc_event_id := Some eid, sc_updated_at := created\<rparr>) f in
             if n \<noteq> 1 then Inl ErrConflict else Inr (\<lparr>wr_ID = eid, wr_Revision = revision\<rparr>, f)))
      | _ \<Rightarrow> Inl ErrNotFound)"

definition SetPerspectiveScope :: "env \<Rightarrow> PerspectiveScopeRequest \<Rightarrow> forum \<Rightarrow> forum \<Rightarrow> (go_error + WriteResult) \<times> forum" where
  "SetPerspectiveScope e req snap f =
     (if xq_PostID req = '''' \<or> xq_SessionID req = '''' \<or> xq_Scope req \<notin> {''closed'', ''project'', ''commons''} \<or>
         xq_BaseRevision req < 0 \<or> xq_RequestID req = '''' then (Inl ErrInvalid, f)
      else
        (let storageKey = requestStorageKey (xq_ActorID req) (xq_SessionID req) (xq_RequestID req) in
         case perspectiveScopeByRequest storageKey snap of
           Some (prior, result) \<Rightarrow> (if samePerspectiveScope prior req then Inr result else Inl ErrConflict, f)
         | None \<Rightarrow> commitForum f (scopeTx e req storageKey f)))"

section \<open>Read receipts\<close>

record MarkNotificationReadRequest =
  mq_NotificationID :: gostring
  mq_RecipientPrincipal :: gostring
  mq_ActorID :: gostring
  mq_RequestID :: gostring

definition MarkHumanNotificationRead :: "env \<Rightarrow> MarkNotificationReadRequest \<Rightarrow> forum \<Rightarrow> (go_error + WriteResult) \<times> forum" where
  "MarkHumanNotificationRead e req f =
     (if mq_NotificationID req = '''' \<or> mq_RecipientPrincipal req \<noteq> HumanLocalPrincipal \<or> mq_ActorID req = '''' \<or>
         mq_RequestID req = '''' then (Inl ErrInvalid, f)
      else
        (let storageKey = requestStorageKey (mq_ActorID req) (mq_RecipientPrincipal req) (mq_RequestID req); now = env_clock e 0 in
         case find (\<lambda>r. nr_request_id r = storageKey) (fo_receipts f) of
           Some prior \<Rightarrow> (if nr_notification_id prior \<noteq> mq_NotificationID req then Inl ErrConflict
                          else Inr \<lparr>wr_ID = nr_id prior, wr_Revision = 0\<rparr>, f)
         | None \<Rightarrow>
             commitForum f (
               let f1 = f\<lparr>fo_notifications := updWhere (\<lambda>n. hn_id n = mq_NotificationID req \<and>
                     hn_recipient_principal n = mq_RecipientPrincipal req \<and> hn_read_at n = None)
                     (\<lambda>n. n\<lparr>hn_read_at := Some now\<rparr>) (fo_notifications f)\<rparr> in
               case find (\<lambda>n. hn_id n = mq_NotificationID req \<and> hn_recipient_principal n = mq_RecipientPrincipal req) (fo_notifications f1) of
                 None \<Rightarrow> Inl ErrNotFound
               | Some n \<Rightarrow>
                   bindE (mapErrE mapErr (sqlInsertReceipt \<lparr>nr_id = newID e 0 ''NR-'', nr_notification_id = mq_NotificationID req,
                            nr_recipient_principal = mq_RecipientPrincipal req, nr_request_id = storageKey,
                            nr_read_at = (case hn_read_at n of None \<Rightarrow> zeroTime | Some t \<Rightarrow> t), nr_created_at = now\<rparr> f1)) (\<lambda>f2.
                   Inr (\<lparr>wr_ID = newID e 0 ''NR-'', wr_Revision = 0\<rparr>, f2)))))"

end
