(* ===== verification/Forum_Effects.thy ===== *)
theory Forum_Effects
  imports Forum_Write
begin

text \<open>What each writer of the forum commits: it refuses and leaves the state, or it appends rows that are named here.\<close>

section \<open>Mentions\<close>

definition mentionRow :: "mention_ctx \<Rightarrow> nat \<times> gostring \<Rightarrow> mention_row" where
  "mentionRow c item = \<lparr>cm_source_kind = mc_sourceKind c, cm_source_id = mc_sourceID c, cm_position = fst item,
     cm_recipient_kind = (if snd item = HumanLocalPrincipal then ''human'' else ''agent''), cm_recipient_principal = snd item,
     cm_recipient_session_id = (if snd item = HumanLocalPrincipal then None else Some (snd item)), cm_created_at = mc_created c\<rparr>"

definition commentMentionRows :: "mention_ctx \<Rightarrow> nat \<times> gostring \<Rightarrow> comment_mention_row list" where
  "commentMentionRows c item =
     (if mc_sourceKind c = ''comment'' \<and> snd item \<noteq> HumanLocalPrincipal
      then [\<lparr>ct_comment_id = mc_sourceID c, ct_recipient_session_id = snd item, ct_position = fst item, ct_created_at = mc_created c\<rparr>]
      else [])"

definition notificationRows :: "env \<Rightarrow> mention_ctx \<Rightarrow> nat \<times> gostring \<Rightarrow> notification_row list" where
  "notificationRows e c item =
     (if snd item = HumanLocalPrincipal
      then [\<lparr>hn_id = newID e (Suc (fst item)) ''N-'', hn_recipient_principal = HumanLocalPrincipal,
              hn_source_kind = mc_sourceKind c, hn_post_id = mc_postID c,
              hn_comment_id = (if mc_sourceKind c = ''comment'' then Some (mc_sourceID c) else None),
              hn_actor_kind = mc_actorKind c, hn_actor_principal = mc_actorPrincipal c, hn_actor_session_id = mc_actorSession c,
              hn_snippet = boundedUTF8 (TrimSpace (mc_body c)) 320, hn_created_at = mc_created c, hn_read_at = None\<rparr>]
      else [])"

definition addMentions :: "env \<Rightarrow> mention_ctx \<Rightarrow> (nat \<times> gostring) list \<Rightarrow> forum \<Rightarrow> forum" where
  "addMentions e c items f = f\<lparr>fo_mentions := fo_mentions f @ map (mentionRow c) items,
     fo_comment_mentions := fo_comment_mentions f @ concat (map (commentMentionRows c) items),
     fo_notifications := fo_notifications f @ concat (map (notificationRows e c) items)\<rparr>"

lemma addMentions_fields [simp]:
  "fo_core (addMentions e c items f) = fo_core f" "fo_sessions (addMentions e c items f) = fo_sessions f"
  "fo_handles (addMentions e c items f) = fo_handles f" "fo_posts (addMentions e c items f) = fo_posts f"
  "fo_attachments (addMentions e c items f) = fo_attachments f" "fo_comments (addMentions e c items f) = fo_comments f"
  "fo_state_events (addMentions e c items f) = fo_state_events f" "fo_scopes (addMentions e c items f) = fo_scopes f"
  "fo_scope_events (addMentions e c items f) = fo_scope_events f" "fo_receipts (addMentions e c items f) = fo_receipts f"
  "fo_mentions (addMentions e c items f) = fo_mentions f @ map (mentionRow c) items"
  "fo_comment_mentions (addMentions e c items f) = fo_comment_mentions f @ concat (map (commentMentionRows c) items)"
  "fo_notifications (addMentions e c items f) = fo_notifications f @ concat (map (notificationRows e c) items)"
  by (simp_all add: addMentions_def)

lemma resolve_Inr:
  assumes "resolveMentionTarget p f = Inr t"
  shows "mt_Principal t = p" "mt_Kind t = (if p = HumanLocalPrincipal then ''human'' else ''agent'')"
    "mt_SessionID t = (if p = HumanLocalPrincipal then '''' else p)" "p = HumanLocalPrincipal \<or> hasHandle f p"
    "p \<noteq> HumanLegacySession"
proof -
  have "p = HumanLocalPrincipal \<Longrightarrow> p \<noteq> HumanLegacySession" by (simp add: HumanLocalPrincipal_def HumanLegacySession_def)
  with assms show "mt_Principal t = p" "mt_Kind t = (if p = HumanLocalPrincipal then ''human'' else ''agent'')"
    "mt_SessionID t = (if p = HumanLocalPrincipal then '''' else p)" "p = HumanLocalPrincipal \<or> hasHandle f p" "p \<noteq> HumanLegacySession"
    by (auto simp: resolveMentionTarget_def handleRow_def hasHandle_def split: if_splits option.splits dest: find_SomeD)
qed

lemma insertMention_Inr:
  assumes "insertMention e c (i, p) f = Inr f'"
  shows "f' = addMentions e c [(i, p)] f" "i < 5" "p = HumanLocalPrincipal \<or> hasHandle f p"
    "\<forall>m \<in> set (fo_mentions f). cm_source_kind m = mc_sourceKind c \<and> cm_source_id m = mc_sourceID c \<longrightarrow> cm_recipient_principal m \<noteq> p"
proof -
  from assms obtain t f1 f2 where t: "resolveMentionTarget p f = Inr t"
    and m: "sqlInsertMention \<lparr>cm_source_kind = mc_sourceKind c, cm_source_id = mc_sourceID c, cm_position = i,
                cm_recipient_kind = mt_Kind t, cm_recipient_principal = mt_Principal t,
                cm_recipient_session_id = nullif (mt_SessionID t), cm_created_at = mc_created c\<rparr> f = Inr f1"
    and cm: "(if mc_sourceKind c = ''comment'' \<and> mt_Kind t = ''agent''
              then sqlInsertCommentMention \<lparr>ct_comment_id = mc_sourceID c, ct_recipient_session_id = mt_SessionID t,
                     ct_position = i, ct_created_at = mc_created c\<rparr> f1 else Inr f1) = Inr f2"
    and n: "(if mt_Kind t = ''human''
       then sqlInsertNotification \<lparr>hn_id = newID e (Suc i) ''N-'', hn_recipient_principal = mt_Principal t,
              hn_source_kind = mc_sourceKind c, hn_post_id = mc_postID c,
              hn_comment_id = (if mc_sourceKind c = ''comment'' then Some (mc_sourceID c) else None),
              hn_actor_kind = mc_actorKind c, hn_actor_principal = mc_actorPrincipal c, hn_actor_session_id = mc_actorSession c,
              hn_snippet = boundedUTF8 (TrimSpace (mc_body c)) 320, hn_created_at = mc_created c, hn_read_at = None\<rparr> f2
       else Inr f2) = Inr f'"
    by (auto simp: insertMention_def)
  note r = resolve_Inr [OF t]
  show "p = HumanLocalPrincipal \<or> hasHandle f p" by (rule r(4))
  show "i < 5" using m by (simp add: sqlInsertMention_def)
  show "\<forall>m \<in> set (fo_mentions f). cm_source_kind m = mc_sourceKind c \<and> cm_source_id m = mc_sourceID c \<longrightarrow> cm_recipient_principal m \<noteq> p"
    using m r(1) by (auto simp: sqlInsertMention_def)
  show "f' = addMentions e c [(i, p)] f"
  proof (cases "p = HumanLocalPrincipal")
    case True
    with m cm n r show ?thesis
      by (auto simp: sqlInsertMention_def sqlInsertNotification_def addMentions_def mentionRow_def commentMentionRows_def notificationRows_def nullif_def)
  next
    case False
    then have "p \<noteq> ''''" using m r by (auto simp: sqlInsertMention_def nullif_def)
    with False m cm n r show ?thesis
      by (auto simp: sqlInsertMention_def sqlInsertCommentMention_def addMentions_def mentionRow_def commentMentionRows_def notificationRows_def nullif_def
          split: if_splits)
  qed
qed

lemma addMentions_append: "addMentions e c ys (addMentions e c xs f) = addMentions e c (xs @ ys) f"
  by (simp add: addMentions_def)

lemma addMentions_Nil: "addMentions e c [] f = f"
  by (simp add: addMentions_def)

lemma insertMentions_Inr:
  assumes "foldE (insertMention e c) items f = Inr f'"
  shows "f' = addMentions e c items f \<and> (\<forall>(i, p) \<in> set items. i < 5 \<and> (p = HumanLocalPrincipal \<or> hasHandle f p))"
  using assms
proof (induction items arbitrary: f)
  case (Cons item items)
  obtain i p where [simp]: "item = (i, p)" by fastforce
  from Cons.prems obtain f1 where f1: "insertMention e c (i, p) f = Inr f1" "foldE (insertMention e c) items f1 = Inr f'" by auto
  have eq: "f1 = addMentions e c [(i, p)] f" by (rule insertMention_Inr(1) [OF f1(1)])
  have "f' = addMentions e c items f1 \<and> (\<forall>(i, p) \<in> set items. i < 5 \<and> (p = HumanLocalPrincipal \<or> hasHandle f1 p))"
    by (rule Cons.IH [OF f1(2)])
  with insertMention_Inr(2,3) [OF f1(1)] show ?case by (auto simp: eq addMentions_append hasHandle_def)
qed (simp add: addMentions_Nil)

definition mentionCtx :: "gostring \<Rightarrow> gostring \<Rightarrow> gostring \<Rightarrow> gostring \<Rightarrow> gostring \<Rightarrow> gostring \<Rightarrow> gostring \<Rightarrow> time \<Rightarrow> mention_ctx" where
  "mentionCtx sourceKind sourceID postID actorKind actorPrincipal actorSession body created =
     \<lparr>mc_sourceKind = sourceKind, mc_sourceID = sourceID, mc_postID = postID,
      mc_actorKind = (if actorKind = '''' then ''agent'' else actorKind),
      mc_actorPrincipal = (if actorPrincipal = '''' then actorSession else actorPrincipal),
      mc_actorSession = actorSession, mc_body = body, mc_created = created\<rparr>"

lemma mentionCtx_fields [simp]:
  "mc_sourceKind (mentionCtx k s p a b c d t) = k" "mc_sourceID (mentionCtx k s p a b c d t) = s" "mc_postID (mentionCtx k s p a b c d t) = p"
  "mc_created (mentionCtx k s p a b c d t) = t"
  by (simp_all add: mentionCtx_def)

lemma insertContentMentions_eq:
  "insertContentMentions e k s p a b c d t ps f = foldE (insertMention e (mentionCtx k s p a b c d t)) (enumerate 0 ps) f"
  by (simp add: insertContentMentions_def mentionCtx_def Let_def)

lemma ball_enumerate: "(\<forall>x \<in> set (enumerate n ps). Q (snd x)) \<longleftrightarrow> (\<forall>p \<in> set ps. Q p)"
proof -
  have eq: "set ps = snd ` set (enumerate n ps)" by (metis list.set_map map_snd_enumerate)
  show ?thesis by (subst eq) simp
qed

section \<open>Recipients of a request\<close>

lemma normalizePrincipals_Some:
  assumes "normalizePrincipals ps out = Some out'" "distinct out" "length out \<le> 5"
  shows "distinct out' \<and> length out' \<le> 5 \<and> set out' = set out \<union> set ps"
  using assms
proof (induction ps arbitrary: out)
  case (Cons p ps)
  show ?case
  proof (cases "p \<in> set out")
    case True
    with Cons.prems have "normalizePrincipals ps out = Some out'" by (simp split: if_splits)
    from Cons.IH [OF this Cons.prems(2,3)] True show ?thesis by auto
  next
    case False
    with Cons.prems have n: "normalizePrincipals ps (out @ [p]) = Some out'" "length (out @ [p]) \<le> 5"
      by (auto simp: maxStructuredRecipients_def split: if_splits)
    from Cons.IH [OF n(1) _ n(2)] False Cons.prems(2) show ?thesis by auto
  qed
qed simp

lemma normalizeMentionPrincipals_Some:
  assumes "normalizeMentionPrincipals ps qs = Some out"
  shows "distinct out \<and> length out \<le> 5 \<and> set out = set (ps @ qs)"
  using assms normalizePrincipals_Some [of "ps" "[]" out] normalizePrincipals_Some [of "qs" "[]" out]
  by (auto simp: normalizeMentionPrincipals_def Let_def split: if_splits)

lemma normalizePrincipals_id:
  assumes "\<forall>p \<in> set ps. p \<noteq> '''' \<and> length p \<le> 200 \<and> TrimSpace p = p" "distinct (out @ ps)" "length (out @ ps) \<le> 5"
  shows "normalizePrincipals ps out = Some (out @ ps)"
  using assms by (induction ps arbitrary: out) (auto simp: maxStructuredRecipients_def)

section \<open>Transactions that bump a revision\<close>

definition bumpedCore :: "gostring \<Rightarrow> time \<Rightarrow> db \<Rightarrow> db" where
  "bumpedCore pid now db = db\<lparr>projects := bumped pid now (projects db)\<rparr>"

lemma mutateForum_cases:
  assumes "mutateForum e k k' pid kind ref summary fn f = (res, f')"
  obtains (refused) err where "res = Inl err" "f' = f"
  | (committed) p f1 ch where "res = Inr (p_revision p + 1)" "projectRow (fo_core f) pid = Some p"
      "fn (p_revision p + 1) (f\<lparr>fo_core := bumpedCore pid (env_clock e k) (fo_core f)\<rparr>) = Inr f1"
      "f' = f1\<lparr>fo_core := (fo_core f1)\<lparr>changes := changes (fo_core f1) @ [ch]\<rparr>\<rparr>" "ch_project_id ch = pid" "ch_revision ch = p_revision p + 1" "ch_ref ch = ref"
proof (cases res)
  case (Inl err)
  with assms that(1) show ?thesis by (auto simp: mutateForum_def commitForum_def split: sum.splits)
next
  case (Inr v)
  with assms that(2) show ?thesis
    by (auto simp: mutateForum_def commitForum_def bumped_def bumpedCore_def sqlInsertChange_def split: sum.splits option.splits)
qed

lemma commitForum_Inr [simp]: "commitForum f m = (Inr x, f') \<longleftrightarrow> m = Inr (x, f')"
  by (auto simp: commitForum_def split: sum.splits)

lemma commitForum_Inl: "commitForum f m = (Inl err, f') \<longleftrightarrow> m = Inl err \<and> f' = f"
  by (auto simp: commitForum_def split: sum.splits)

text \<open>
  What a write of the forum does to the tables of the core: it adds at most one search document, and either touches
  no project or bumps one and appends the change, whose revision is \<open>rv\<close> and whose reference is \<open>ref\<close>.
\<close>

definition core_touch :: "gostring option \<Rightarrow> int option \<Rightarrow> gostring \<Rightarrow> db \<Rightarrow> db \<Rightarrow> bool" where
  "core_touch project rv ref db db' \<longleftrightarrow>
     (\<exists>ps cs sd. db' = db\<lparr>projects := ps, changes := cs, search_documents := sd\<rparr> \<and>
        (case project of
           None \<Rightarrow> rv = None \<and> ps = projects db \<and> cs = changes db
         | Some pid \<Rightarrow> (\<exists>p now ch. projectRow db pid = Some p \<and> ps = bumped pid now (projects db) \<and> cs = changes db @ [ch] \<and>
             ch_project_id ch = pid \<and> ch_revision ch = p_revision p + 1 \<and> ch_ref ch = ref \<and> rv = Some (p_revision p + 1))))"

section \<open>Posts\<close>

definition newPost :: "env \<Rightarrow> PostRequest \<Rightarrow> gostring \<Rightarrow> gostring option \<Rightarrow> int option \<Rightarrow> post_row" where
  "newPost e req key project rv = \<lparr>po_id = newID e 0 ''P-'', po_topic_id = pq_TopicID req, po_project_id = project,
     po_project_revision = rv, po_kind = pq_Kind req, po_title = pq_Title req, po_body = pq_Body req, po_basis = pq_Basis req,
     po_ref = pq_Ref req, po_session_id = pq_SessionID req, po_request_id = nullif key, po_created_at = env_clock e 0\<rparr>"

definition newScope :: "env \<Rightarrow> scope_row" where
  "newScope e = \<lparr>sc_post_id = newID e 0 ''P-'', sc_scope = ''closed'', sc_revision = 0, sc_event_id = None, sc_updated_at = env_clock e 0\<rparr>"

definition attachmentRow :: "gostring \<Rightarrow> nat \<times> PostAttachment \<Rightarrow> attachment_row" where
  "attachmentRow pid item = \<lparr>pa_post_id = pid, pa_position = fst item, pa_kind = at_Kind (snd item), pa_url = at_URL (snd item),
     pa_title = at_Title (snd item)\<rparr>"

definition postCtx :: "env \<Rightarrow> PostRequest \<Rightarrow> mention_ctx" where
  "postCtx e req = mentionCtx ''post'' (newID e 0 ''P-'') (newID e 0 ''P-'') (pq_ActorKind req) (pq_ActorPrincipal req)
     (pq_SessionID req) (pq_Body req) (env_clock e 0)"

lemma postCtx_fields [simp]:
  "mc_sourceKind (postCtx e req) = ''post''" "mc_sourceID (postCtx e req) = newID e 0 ''P-''" "mc_postID (postCtx e req) = newID e 0 ''P-''"
  by (simp_all add: postCtx_def)

lemma newPost_fields [simp]:
  "po_id (newPost e req key project rv) = newID e 0 ''P-''" "po_session_id (newPost e req key project rv) = pq_SessionID req"
  "po_project_id (newPost e req key project rv) = project" "po_project_revision (newPost e req key project rv) = rv"
  "po_request_id (newPost e req key project rv) = nullif key" "po_topic_id (newPost e req key project rv) = pq_TopicID req"
  "sc_post_id (newScope e) = newID e 0 ''P-''" "sc_scope (newScope e) = ''closed''" "sc_revision (newScope e) = 0" "sc_event_id (newScope e) = None"
  by (simp_all add: newPost_def newScope_def)

lemma insertAttachments_Inr:
  assumes "foldE (\<lambda>(position, a) f. sqlInsertAttachment \<lparr>pa_post_id = pid, pa_position = position, pa_kind = at_Kind a,
             pa_url = at_URL a, pa_title = at_Title a\<rparr> f) items f = Inr f'"
  shows "f' = f\<lparr>fo_attachments := fo_attachments f @ map (attachmentRow pid) items\<rparr>"
  using assms
proof (induction items arbitrary: f)
  case (Cons item items)
  obtain i a where [simp]: "item = (i, a)" by fastforce
  from Cons.prems obtain f1 where f1: "sqlInsertAttachment \<lparr>pa_post_id = pid, pa_position = i, pa_kind = at_Kind a,
             pa_url = at_URL a, pa_title = at_Title a\<rparr> f = Inr f1"
    and rest: "foldE (\<lambda>(position, a) f. sqlInsertAttachment \<lparr>pa_post_id = pid, pa_position = position, pa_kind = at_Kind a,
             pa_url = at_URL a, pa_title = at_Title a\<rparr> f) items f1 = Inr f'" by auto
  have "f1 = f\<lparr>fo_attachments := fo_attachments f @ [attachmentRow pid item]\<rparr>"
    using f1 by (simp add: sqlInsertAttachment_def attachmentRow_def)
  with Cons.IH [OF rest] show ?case by simp
qed simp

lemma insertPost_Inr:
  assumes "insertPost e req key project rv f = Inr f'"
  shows "\<exists>sd. f' = addMentions e (postCtx e req) (enumerate 0 (pq_MentionPrincipals req))
      (f\<lparr>fo_core := (fo_core f)\<lparr>search_documents := sd\<rparr>, fo_posts := fo_posts f @ [newPost e req key project rv],
         fo_attachments := fo_attachments f @ map (attachmentRow (newID e 0 ''P-'')) (enumerate 0 (pq_Attachments req)),
         fo_scopes := fo_scopes f @ [newScope e]\<rparr>)"
    "\<not> hasPost f (newID e 0 ''P-'')" "optProject f project"
    "key \<noteq> '''' \<longrightarrow> (\<forall>p \<in> set (fo_posts f). po_request_id p \<noteq> Some key)"
    "\<forall>p \<in> set (pq_MentionPrincipals req). p = HumanLocalPrincipal \<or> hasHandle f p"
    "hasRow (\<lambda>t. tp_id t = pq_TopicID req) (topics (fo_core f))"
    "\<forall>m \<in> set (fo_mentions f). pq_MentionPrincipals req \<noteq> [] \<and> cm_source_kind m = ''post'' \<and> cm_source_id m = newID e 0 ''P-'' \<longrightarrow>
       cm_recipient_principal m \<noteq> hd (pq_MentionPrincipals req)"
proof -
  let ?c = "postCtx e req" and ?ps = "enumerate 0 (pq_MentionPrincipals req)"
  obtain f1 f2 f3 f4 where
    f1: "sqlInsertPost (newPost e req key project rv) f = Inr f1" and f2: "sqlInsertScope (newScope e) f1 = Inr f2"
    and f3: "\<exists>r. sqlInsertPostSearch r f2 = Inr f3"
    and f4: "f4 = f3\<lparr>fo_attachments := fo_attachments f3 @ map (attachmentRow (newID e 0 ''P-'')) (enumerate 0 (pq_Attachments req))\<rparr>"
    and f5: "foldE (insertMention e ?c) ?ps f4 = Inr f'"
    using assms
    unfolding insertPost_def Let_def insertContentMentions_eq bindE_Inr_iff newPost_def [symmetric] newScope_def [symmetric] postCtx_def [symmetric]
    by (elim exE conjE) (drule insertAttachments_Inr, erule that, assumption, erule exI, assumption+)
  from f3 obtain sd where f3': "f3 = f2\<lparr>fo_core := (fo_core f2)\<lparr>search_documents := sd\<rparr>\<rparr>"
    by (auto simp: sqlInsertPostSearch_def sqlInsertSearch_def)
  have f2': "f2 = f1\<lparr>fo_scopes := fo_scopes f1 @ [newScope e]\<rparr>" using f2 by (simp add: sqlInsertScope_def)
  have f1': "f1 = f\<lparr>fo_posts := fo_posts f @ [newPost e req key project rv]\<rparr>" using f1 by (simp add: sqlInsertPost_def)
  note m = insertMentions_Inr [OF f5]
  have "f' = addMentions e ?c ?ps (f\<lparr>fo_core := (fo_core f)\<lparr>search_documents := sd\<rparr>, fo_posts := fo_posts f @ [newPost e req key project rv],
         fo_attachments := fo_attachments f @ map (attachmentRow (newID e 0 ''P-'')) (enumerate 0 (pq_Attachments req)),
         fo_scopes := fo_scopes f @ [newScope e]\<rparr>)"
    using m by (simp add: f4 f3' f2' f1')
  then show "\<exists>sd. f' = addMentions e ?c ?ps (f\<lparr>fo_core := (fo_core f)\<lparr>search_documents := sd\<rparr>, fo_posts := fo_posts f @ [newPost e req key project rv],
         fo_attachments := fo_attachments f @ map (attachmentRow (newID e 0 ''P-'')) (enumerate 0 (pq_Attachments req)),
         fo_scopes := fo_scopes f @ [newScope e]\<rparr>)" ..
  show "\<not> hasPost f (newID e 0 ''P-'')" "optProject f project" "hasRow (\<lambda>t. tp_id t = pq_TopicID req) (topics (fo_core f))"
    using f1 by (simp_all add: sqlInsertPost_def hasPost_def)
  show "key \<noteq> '''' \<longrightarrow> (\<forall>p \<in> set (fo_posts f). po_request_id p \<noteq> Some key)"
    using f1 by (auto simp: sqlInsertPost_def nullif_def)
  have "hasHandle f4 = hasHandle f" by (auto simp: f4 f3' f2' f1' hasHandle_def)
  then have "\<forall>x \<in> set ?ps. snd x = HumanLocalPrincipal \<or> hasHandle f (snd x)" using m by (auto simp: case_prod_beta)
  then show "\<forall>p \<in> set (pq_MentionPrincipals req). p = HumanLocalPrincipal \<or> hasHandle f p"
    by (rule ball_enumerate [where Q = "\<lambda>p. p = HumanLocalPrincipal \<or> hasHandle f p", THEN iffD1])
  have ms: "fo_mentions f4 = fo_mentions f" by (simp add: f4 f3' f2' f1')
  show "\<forall>m \<in> set (fo_mentions f). pq_MentionPrincipals req \<noteq> [] \<and> cm_source_kind m = ''post'' \<and> cm_source_id m = newID e 0 ''P-'' \<longrightarrow>
       cm_recipient_principal m \<noteq> hd (pq_MentionPrincipals req)"
  proof (cases "pq_MentionPrincipals req")
    case (Cons p ps)
    then obtain g where "insertMention e ?c (0, p) f4 = Inr g" using f5 by auto
    from insertMention_Inr(4) [OF this] Cons ms show ?thesis by simp
  qed simp
qed


abbreviation postKey :: "PostRequest \<Rightarrow> gostring" where
  "postKey req \<equiv> requestStorageKey (pq_ActorID req) (pq_SessionID req) (pq_RequestID req)"

text \<open>The state a post leaves, but for the tables of the core.\<close>

definition postedForum :: "env \<Rightarrow> PostRequest \<Rightarrow> gostring option \<Rightarrow> int option \<Rightarrow> db \<Rightarrow> forum \<Rightarrow> forum" where
  "postedForum e req project rv db f =
     addMentions e (postCtx e req) (enumerate 0 (pq_MentionPrincipals req))
       (f\<lparr>fo_core := db, fo_posts := fo_posts f @ [newPost e req (postKey req) project rv],
          fo_attachments := fo_attachments f @ map (attachmentRow (newID e 0 ''P-'')) (enumerate 0 (pq_Attachments req)),
          fo_scopes := fo_scopes f @ [newScope e]\<rparr>)"

definition postedRecord :: "env \<Rightarrow> PostRequest \<Rightarrow> gostring option \<Rightarrow> int option \<Rightarrow> PostRecord" where
  "postedRecord e req project rv = \<lparr>ps_ID = newID e 0 ''P-'', ps_TopicID = pq_TopicID req, ps_ProjectID = orEmpty project,
     ps_Kind = pq_Kind req, ps_Title = pq_Title req, ps_Body = pq_Body req, ps_Basis = pq_Basis req, ps_Ref = pq_Ref req,
     ps_SessionID = pq_SessionID req, ps_RequestID = pq_RequestID req, ps_Revision = orZero rv, ps_CreatedAt = env_clock e 0,
     ps_Attachments = pq_Attachments req, ps_MentionPrincipals = pq_MentionPrincipals req\<rparr>"

lemma addMentions_core: "(addMentions e c items f)\<lparr>fo_core := db\<rparr> = addMentions e c items (f\<lparr>fo_core := db\<rparr>)"
  by (simp add: addMentions_def)

lemma hasX_core [simp]:
  "hasPost (f\<lparr>fo_core := db\<rparr>) = hasPost f" "hasHandle (f\<lparr>fo_core := db\<rparr>) = hasHandle f" "hasSession (f\<lparr>fo_core := db\<rparr>) = hasSession f"
  "hasComment (f\<lparr>fo_core := db\<rparr>) = hasComment f"
  by (auto simp: hasPost_def hasHandle_def hasSession_def hasComment_def)

lemma hasX_addMentions [simp]:
  "hasPost (addMentions e c items f) = hasPost f" "hasHandle (addMentions e c items f) = hasHandle f"
  "hasSession (addMentions e c items f) = hasSession f" "hasComment (addMentions e c items f) = hasComment f"
  by (auto simp: hasPost_def hasHandle_def hasSession_def hasComment_def)

text \<open>The effect of the part of \<open>Post\<close> that writes, on either path.\<close>

definition post_commits :: "env \<Rightarrow> PostRequest \<Rightarrow> gostring option \<Rightarrow> forum \<Rightarrow> int \<Rightarrow> forum \<Rightarrow> bool" where
  "post_commits e req project f v f' \<longleftrightarrow>
     (\<exists>rv db. v = orZero rv \<and> f' = postedForum e req project rv db f \<and> core_touch project rv (newID e 0 ''P-'') (fo_core f) db) \<and>
     \<not> hasPost f (newID e 0 ''P-'') \<and> (postKey req \<noteq> '''' \<longrightarrow> (\<forall>p \<in> set (fo_posts f). po_request_id p \<noteq> Some (postKey req))) \<and>
     (\<forall>p \<in> set (pq_MentionPrincipals req). p = HumanLocalPrincipal \<or> hasHandle f p) \<and>
     (\<forall>m \<in> set (fo_mentions f). pq_MentionPrincipals req \<noteq> [] \<and> cm_source_kind m = ''post'' \<and> cm_source_id m = newID e 0 ''P-'' \<longrightarrow>
        cm_recipient_principal m \<noteq> hd (pq_MentionPrincipals req))"

lemma post_general_commits:
  assumes "insertPost e req (postKey req) None None f = Inr f'"
  shows "post_commits e req None f 0 f'"
proof -
  note i = insertPost_Inr [OF assms]
  from i(1) obtain sd where "f' = postedForum e req None None ((fo_core f)\<lparr>search_documents := sd\<rparr>) f"
    by (auto simp: postedForum_def)
  then show ?thesis using i(2-) unfolding post_commits_def core_touch_def
    by (intro conjI exI [of _ None] exI [of _ "(fo_core f)\<lparr>search_documents := sd\<rparr>"]) (auto intro!: exI)
qed

lemma post_project_commits:
  assumes "mutateForum e k k' pid ''post'' (newID e 0 ''P-'') summary (\<lambda>rv. insertPost e req (postKey req) (Some pid) (Some rv)) f = (Inr v, f')"
  shows "post_commits e req (Some pid) f v f'"
  using assms
proof (cases rule: mutateForum_cases)
  case (committed p f1 ch)
  let ?core = "\<lambda>sd. (bumpedCore pid (env_clock e k) (fo_core f))\<lparr>search_documents := sd, changes := changes (fo_core f) @ [ch]\<rparr>"
  note i = insertPost_Inr [OF committed(3)]
  from i(1) obtain sd where f1: "f1 = addMentions e (postCtx e req) (enumerate 0 (pq_MentionPrincipals req))
      (f\<lparr>fo_core := (bumpedCore pid (env_clock e k) (fo_core f))\<lparr>search_documents := sd\<rparr>,
         fo_posts := fo_posts f @ [newPost e req (postKey req) (Some pid) (Some (p_revision p + 1))],
         fo_attachments := fo_attachments f @ map (attachmentRow (newID e 0 ''P-'')) (enumerate 0 (pq_Attachments req)),
         fo_scopes := fo_scopes f @ [newScope e]\<rparr>)" by auto
  have f': "f' = postedForum e req (Some pid) (Some (p_revision p + 1)) (?core sd) f"
    unfolding committed(4) f1 by (simp add: postedForum_def addMentions_def bumpedCore_def)
  have touch: "core_touch (Some pid) (Some (p_revision p + 1)) (newID e 0 ''P-'') (fo_core f) (?core sd)"
    unfolding core_touch_def
    by (intro exI [of _ "bumped pid (env_clock e k) (projects (fo_core f))"] exI [of _ "changes (fo_core f) @ [ch]"] exI [of _ sd])
      (use committed in \<open>auto simp: bumpedCore_def\<close>)
  show ?thesis unfolding post_commits_def
    using i(2,4,5,7) f' touch committed(1)
    by (intro conjI exI [of _ "Some (p_revision p + 1)"] exI [of _ "?core sd"]) auto
qed simp

lemma postTx_refused: "postTx e req key project f = (Inl err, f') \<Longrightarrow> f' = f"
  by (auto simp: postTx_def commitForum_Inl split: option.splits elim: mutateForum_cases)

lemma postTx_Inr:
  assumes "postTx e req (postKey req) project f = (Inr v, f')"
  shows "post_commits e req project f v f'"
proof (cases project)
  case None
  with assms have "insertPost e req (postKey req) None None f = Inr f'" "v = 0" by (auto simp: postTx_def)
  with None post_general_commits show ?thesis by simp
next
  case (Some pid)
  with assms post_project_commits show ?thesis by (simp add: postTx_def)
qed

lemma refusal_cases:
  assumes "(if c then x else if d then x else y) = z"
  obtains "z = x" | "\<not> c" "y = z"
  using assms by (auto split: if_splits)

lemma Post_cases:
  assumes "Post lb e req0 snap f = (res, f')"
  obtains (refused) err where "res = Inl err" "f' = f"
  | (replayed) ms prior s where "normalizeMentionPrincipals (pq_MentionPrincipals req0) [] = Some ms" "res = Inr prior" "f' = f" "s \<in> {snap, f}"
      "postByRequest (postKey req0) (pq_RequestID req0) s = Some prior" "samePost prior (req0\<lparr>pq_MentionPrincipals := ms\<rparr>)"
  | (committed) ms project v where "normalizeMentionPrincipals (pq_MentionPrincipals req0) [] = Some ms"
      "res = Inr (postedRecord e (req0\<lparr>pq_MentionPrincipals := ms\<rparr>) project (Some v))"
      "post_commits e (req0\<lparr>pq_MentionPrincipals := ms\<rparr>) project f v f'" "mapErrE mapErr (topicProject snap (pq_TopicID req0)) = Inr project"
      "pq_RequestID req0 \<noteq> ''''" "postByRequest (postKey req0) (pq_RequestID req0) snap = None"
proof (cases "normalizeMentionPrincipals (pq_MentionPrincipals req0) []")
  case None
  with assms that(1) [of ErrInvalid] show ?thesis by (auto simp: Post_def)
next
  case norm: (Some ms)
  let ?req = "req0\<lparr>pq_MentionPrincipals := ms\<rparr>"
  consider (invalid) "(res, f') = (Inl ErrInvalid, f)"
    | (valid) "pq_RequestID req0 \<noteq> ''''" "postAdmitted e ?req snap f = (res, f')"
    using assms [unfolded Post_def norm option.case Let_def] by (rule refusal_cases) simp_all
  then show ?thesis
  proof cases
    case invalid
    with that(1) show ?thesis by blast
  next
    case valid
    note admitted = valid(2) [unfolded postAdmitted_def Let_def postedRecord_def [symmetric]]
    have key: "postKey req0 \<noteq> ''''" using valid(1) by (simp add: requestStorageKey_def Let_def)
    show ?thesis
    proof (cases "postByRequest (postKey req0) (pq_RequestID req0) snap")
      case (Some prior)
      with admitted key norm that(1) that(2) [of ms prior snap] show ?thesis by (auto split: if_splits)
    next
      case none: None
      show ?thesis
      proof (cases "mapErrE mapErr (topicProject snap (pq_TopicID req0))")
        case (Inl err)
        with none admitted key that(1) show ?thesis by auto
      next
        case (Inr project)
        obtain r g where tx: "postTx e ?req (postKey req0) project f = (r, g)" by fastforce
        show ?thesis
        proof (cases r)
          case (Inl err)
          then have g: "g = f" using tx postTx_refused by blast
          with tx Inl Inr none admitted key have "(res, f') = (postReplay (postKey req0) ?req err f, f)" by auto
          with norm key that(1) that(2) [of ms _ f] show ?thesis by (auto simp: postReplay_def split: option.splits if_splits)
        next
          case (Inr v)
          have "post_commits e ?req project f v g" using tx Inr by (intro postTx_Inr) simp
          moreover have "(res, f') = (Inr (postedRecord e ?req project (Some v)), g)"
            using \<open>mapErrE _ _ = Inr project\<close> tx Inr none admitted key by (auto simp: postedRecord_def)
          ultimately show ?thesis using \<open>mapErrE _ _ = Inr project\<close> none valid(1) norm that(3) [of ms project v] by simp
        qed
      qed
    qed
  qed
qed


section \<open>Comments\<close>

abbreviation commentKey :: "CommentRequest \<Rightarrow> gostring" where
  "commentKey req \<equiv> requestStorageKey (cq_ActorID req) (cq_SessionID req) (cq_RequestID req)"

definition newComment :: "env \<Rightarrow> CommentRequest \<Rightarrow> gostring option \<Rightarrow> int option \<Rightarrow> comment_row" where
  "newComment e req project rv = \<lparr>co_id = newID e 0 ''R-'', co_post_id = cq_PostID req, co_project_id = project, co_project_revision = rv,
     co_body = cq_Body req, co_intent = cq_Intent req, co_session_id = cq_SessionID req,
     co_request_id = nullif (commentKey req), co_created_at = env_clock e 0\<rparr>"

definition commentCtx :: "env \<Rightarrow> CommentRequest \<Rightarrow> mention_ctx" where
  "commentCtx e req = mentionCtx ''comment'' (newID e 0 ''R-'') (cq_PostID req) (cq_ActorKind req) (cq_ActorPrincipal req)
     (cq_SessionID req) (cq_Body req) (env_clock e 0)"

lemma commentCtx_fields [simp]:
  "mc_sourceKind (commentCtx e req) = ''comment''" "mc_sourceID (commentCtx e req) = newID e 0 ''R-''" "mc_postID (commentCtx e req) = cq_PostID req"
  by (simp_all add: commentCtx_def)

lemma newComment_fields [simp]:
  "co_id (newComment e req project rv) = newID e 0 ''R-''" "co_post_id (newComment e req project rv) = cq_PostID req"
  "co_session_id (newComment e req project rv) = cq_SessionID req" "co_request_id (newComment e req project rv) = nullif (commentKey req)"
  "co_project_id (newComment e req project rv) = project" "co_project_revision (newComment e req project rv) = rv"
  by (simp_all add: newComment_def)

definition commentedForum :: "env \<Rightarrow> CommentRequest \<Rightarrow> gostring option \<Rightarrow> int option \<Rightarrow> db \<Rightarrow> forum \<Rightarrow> forum" where
  "commentedForum e req project rv db f =
     addMentions e (commentCtx e req) (enumerate 0 (cq_MentionPrincipals req))
       (f\<lparr>fo_core := db, fo_comments := fo_comments f @ [newComment e req project rv]\<rparr>)"

definition comment_commits :: "env \<Rightarrow> CommentRequest \<Rightarrow> gostring option \<Rightarrow> forum \<Rightarrow> int \<Rightarrow> forum \<Rightarrow> bool" where
  "comment_commits e req project f v f' \<longleftrightarrow>
     (\<exists>rv db. v = orZero rv \<and> f' = commentedForum e req project rv db f \<and> core_touch project rv (newID e 0 ''R-'') (fo_core f) db) \<and>
     \<not> hasComment f (newID e 0 ''R-'') \<and> hasPost f (cq_PostID req) \<and>
     (commentKey req \<noteq> '''' \<longrightarrow> (\<forall>c \<in> set (fo_comments f). co_request_id c \<noteq> Some (commentKey req))) \<and>
     (\<forall>p \<in> set (cq_MentionPrincipals req). p = HumanLocalPrincipal \<or> hasHandle f p)"

lemma insertComment_Inr:
  assumes "insertComment e req (commentKey req) project rv f = Inr f'"
  shows "f' = addMentions e (commentCtx e req) (enumerate 0 (cq_MentionPrincipals req))
      (f\<lparr>fo_comments := fo_comments f @ [newComment e req project rv]\<rparr>)"
    "\<not> hasComment f (newID e 0 ''R-'')" "hasPost f (cq_PostID req)"
    "commentKey req \<noteq> '''' \<longrightarrow> (\<forall>c \<in> set (fo_comments f). co_request_id c \<noteq> Some (commentKey req))"
    "\<forall>p \<in> set (cq_MentionPrincipals req). p = HumanLocalPrincipal \<or> hasHandle f p"
proof -
  let ?ps = "enumerate 0 (cq_MentionPrincipals req)"
  obtain f1 where f1: "sqlInsertComment (newComment e req project rv) f = Inr f1" and f2: "foldE (insertMention e (commentCtx e req)) ?ps f1 = Inr f'"
    using assms unfolding insertComment_def Let_def insertContentMentions_eq bindE_Inr_iff newComment_def [symmetric] commentCtx_def [symmetric]
    by (elim exE conjE) (erule that)
  have f1': "f1 = f\<lparr>fo_comments := fo_comments f @ [newComment e req project rv]\<rparr>" using f1 by (simp add: sqlInsertComment_def)
  note m = insertMentions_Inr [OF f2]
  show "f' = addMentions e (commentCtx e req) ?ps (f\<lparr>fo_comments := fo_comments f @ [newComment e req project rv]\<rparr>)" using m f1' by simp
  show "\<not> hasComment f (newID e 0 ''R-'')" "hasPost f (cq_PostID req)" using f1 by (simp_all add: sqlInsertComment_def hasComment_def)
  show "commentKey req \<noteq> '''' \<longrightarrow> (\<forall>c \<in> set (fo_comments f). co_request_id c \<noteq> Some (commentKey req))"
    using f1 by (auto simp: sqlInsertComment_def nullif_def)
  have "\<forall>x \<in> set ?ps. snd x = HumanLocalPrincipal \<or> hasHandle f (snd x)" using m f1' by (auto simp: case_prod_beta hasHandle_def)
  then show "\<forall>p \<in> set (cq_MentionPrincipals req). p = HumanLocalPrincipal \<or> hasHandle f p"
    by (rule ball_enumerate [where Q = "\<lambda>p. p = HumanLocalPrincipal \<or> hasHandle f p", THEN iffD1])
qed

text \<open>The tables of the core after a bump without a search document.\<close>

lemma core_touch_bumped:
  assumes "projectRow db pid = Some p" "ch_project_id ch = pid" "ch_revision ch = p_revision p + 1" "ch_ref ch = ref"
  shows "core_touch (Some pid) (Some (p_revision p + 1)) ref db ((bumpedCore pid now db)\<lparr>changes := changes db @ [ch]\<rparr>)"
  unfolding core_touch_def
  by (intro exI [of _ "bumped pid now (projects db)"] exI [of _ "changes db @ [ch]"] exI [of _ "search_documents db"])
    (use assms in \<open>auto simp: bumpedCore_def\<close>)

lemma core_touch_refl: "core_touch None None ref db db"
  unfolding core_touch_def by (intro exI [of _ "projects db"] exI [of _ "changes db"] exI [of _ "search_documents db"]) simp

lemma commentTx_refused: "commentTx e req key project f = (Inl err, f') \<Longrightarrow> f' = f"
  by (auto simp: commentTx_def commitForum_Inl split: option.splits elim: mutateForum_cases)

lemma commentTx_Inr:
  assumes "commentTx e req (commentKey req) project f = (Inr v, f')"
  shows "comment_commits e req project f v f'"
proof (cases project)
  case None
  with assms have i: "insertComment e req (commentKey req) None None f = Inr f'" "v = 0" by (auto simp: commentTx_def)
  have "f' = commentedForum e req None None (fo_core f) f" unfolding commentedForum_def using insertComment_Inr(1) [OF i(1)] by simp
  with insertComment_Inr(2-5) [OF i(1)] core_touch_refl None i(2) show ?thesis unfolding comment_commits_def
    by (intro conjI exI [of _ None] exI [of _ "fo_core f"]) auto
next
  case (Some pid)
  with assms have "mutateForum e 1 2 pid ''comment'' (newID e 0 ''R-'') (''comment on '' @ cq_PostID req)
      (\<lambda>r. insertComment e req (commentKey req) (Some pid) (Some r)) f = (Inr v, f')" by (simp add: commentTx_def)
  then show ?thesis
  proof (cases rule: mutateForum_cases)
    case (committed p f1 ch)
    let ?core = "(bumpedCore pid (env_clock e 1) (fo_core f))\<lparr>changes := changes (fo_core f) @ [ch]\<rparr>"
    note i = insertComment_Inr [OF committed(3)]
    have "f' = commentedForum e req (Some pid) (Some (p_revision p + 1)) ?core f"
      unfolding committed(4) i(1) by (simp add: commentedForum_def addMentions_def bumpedCore_def)
    with i(2-5) core_touch_bumped [OF committed(2,5,6,7)] committed(1) Some show ?thesis unfolding comment_commits_def
      by (intro conjI exI [of _ "Some (p_revision p + 1)"] exI [of _ ?core]) auto
  qed simp
qed

text \<open>The request as \<open>Comment\<close> goes on with it.\<close>

definition normalComment :: "gostring list \<Rightarrow> CommentRequest \<Rightarrow> CommentRequest" where
  "normalComment ms req = req\<lparr>cq_MentionPrincipals := ms, cq_MentionSessionIDs := []\<rparr>"

lemma normalComment_fields [simp]:
  "cq_PostID (normalComment ms req) = cq_PostID req" "cq_Body (normalComment ms req) = cq_Body req" "cq_Intent (normalComment ms req) = cq_Intent req"
  "cq_ActorID (normalComment ms req) = cq_ActorID req" "cq_ActorKind (normalComment ms req) = cq_ActorKind req"
  "cq_SessionID (normalComment ms req) = cq_SessionID req" "cq_RequestID (normalComment ms req) = cq_RequestID req"
  "cq_ActorPrincipal (normalComment ms req) = cq_ActorPrincipal req"
  "cq_MentionPrincipals (normalComment ms req) = ms"
  by (simp_all add: normalComment_def)

lemma Comment_cases:
  assumes "Comment e req0 snap f = (res, f')"
  obtains (refused) err where "res = Inl err" "f' = f"
  | (replayed) ms prior pms result s where "normalizeMentionPrincipals (cq_MentionPrincipals req0) (cq_MentionSessionIDs req0) = Some ms"
      "res = Inr result" "f' = f" "s \<in> {snap, f}" "commentByRequest (commentKey req0) s = Some (prior, pms, result)"
      "sameComment prior pms (normalComment ms req0)"
  | (committed) ms predicate p v where "normalizeMentionPrincipals (cq_MentionPrincipals req0) (cq_MentionSessionIDs req0) = Some ms"
      "res = Inr \<lparr>wr_ID = newID e 0 ''R-'', wr_Revision = v\<rparr>" "comment_commits e (normalComment ms req0) (po_project_id p) f v f'"
      "postDiscoveryPredicate snap (cq_ActorKind req0) (cq_SessionID req0) = Some predicate"
      "p \<in> set (fo_posts snap)" "po_id p = cq_PostID req0" "predicate p" "cq_RequestID req0 \<noteq> ''''"
      "commentByRequest (commentKey req0) snap = None"
proof (cases "normalizeMentionPrincipals (cq_MentionPrincipals req0) (cq_MentionSessionIDs req0)")
  case None
  with assms that(1) [of ErrInvalid] show ?thesis by (auto simp: Comment_def)
next
  case norm: (Some ms)
  let ?req = "normalComment ms req0"
  consider (invalid) "(res, f') = (Inl ErrInvalid, f)" | (valid) "cq_RequestID req0 \<noteq> ''''" "commentAdmitted e ?req snap f = (res, f')"
    using assms [unfolded Comment_def norm option.case Let_def normalComment_def [symmetric]] by (auto split: if_splits)
  then show ?thesis
  proof cases
    case invalid
    with that(1) show ?thesis by blast
  next
    case valid
    note admitted = valid(2) [unfolded commentAdmitted_def Let_def]
    have key: "commentKey req0 \<noteq> ''''" using valid(1) by (simp add: requestStorageKey_def Let_def)
    show ?thesis
    proof (cases "commentByRequest (commentKey req0) snap")
      case (Some prior)
      with admitted key norm that(1) that(2) [of ms _ snap] show ?thesis by (cases prior) (auto split: if_splits)
    next
      case none: None
      show ?thesis
      proof (cases "postDiscoveryPredicate snap (cq_ActorKind req0) (cq_SessionID req0)")
        case None
        with none admitted key that(1) show ?thesis by auto
      next
        case pred: (Some predicate)
        show ?thesis
        proof (cases "find (\<lambda>p. po_id p = cq_PostID req0 \<and> predicate p) (fo_posts snap)")
          case None
          with pred none admitted key that(1) show ?thesis by auto
        next
          case (Some p)
          obtain r g where tx: "commentTx e ?req (commentKey ?req) (po_project_id p) f = (r, g)" by fastforce
          show ?thesis
          proof (cases r)
            case (Inl err)
            then have "g = f" using tx commentTx_refused by blast
            with tx Inl Some pred none admitted key have "(res, f') = (commentReplay (commentKey req0) ?req (mapErr err) f, f)" by auto
            with norm key that(1) that(2) [of ms _ f] show ?thesis by (auto simp: commentReplay_def split: option.splits if_splits)
          next
            case (Inr v)
            have "comment_commits e ?req (po_project_id p) f v g" using tx Inr by (intro commentTx_Inr) simp
            moreover have "p \<in> set (fo_posts snap)" "po_id p = cq_PostID req0" "predicate p" using Some by (auto dest: find_SomeD)
            ultimately show ?thesis using Some tx Inr pred none admitted valid(1) key norm that(3) [of ms v p predicate] by simp
          qed
        qed
      qed
    qed
  qed
qed

section \<open>States, scopes, receipts and sessions\<close>

abbreviation stateKey :: "PostStateRequest \<Rightarrow> gostring" where
  "stateKey req \<equiv> requestStorageKey (sq_ActorID req) (sq_SessionID req) (sq_RequestID req)"

definition newState :: "env \<Rightarrow> PostStateRequest \<Rightarrow> gostring option \<Rightarrow> int option \<Rightarrow> state_event_row" where
  "newState e req project rv = \<lparr>sv_id = newID e 0 ''PS-'', sv_post_id = sq_PostID req, sv_project_id = project, sv_project_revision = rv,
     sv_state = sq_State req, sv_superseded_by = nullif (sq_SupersededBy req), sv_session_id = sq_SessionID req,
     sv_request_id = nullif (stateKey req), sv_created_at = env_clock e 0\<rparr>"

definition state_commits :: "env \<Rightarrow> PostStateRequest \<Rightarrow> gostring option \<Rightarrow> forum \<Rightarrow> int \<Rightarrow> forum \<Rightarrow> bool" where
  "state_commits e req project f v f' \<longleftrightarrow>
     (\<exists>rv db. v = orZero rv \<and> f' = f\<lparr>fo_core := db, fo_state_events := fo_state_events f @ [newState e req project rv]\<rparr> \<and>
        core_touch project rv (sq_PostID req) (fo_core f) db) \<and>
     hasPost f (sq_PostID req) \<and> (stateKey req \<noteq> '''' \<longrightarrow> (\<forall>r \<in> set (fo_state_events f). sv_request_id r \<noteq> Some (stateKey req)))"

lemma insertPostState_Inr:
  assumes "insertPostState e req (stateKey req) project rv f = Inr f'"
  shows "f' = f\<lparr>fo_state_events := fo_state_events f @ [newState e req project rv]\<rparr>" "hasPost f (sq_PostID req)"
    "stateKey req \<noteq> '''' \<longrightarrow> (\<forall>r \<in> set (fo_state_events f). sv_request_id r \<noteq> Some (stateKey req))"
  using assms by (auto simp: insertPostState_def sqlInsertStateEvent_def newState_def nullif_def)

lemma postStateTx_refused: "postStateTx e req key project f = (Inl err, f') \<Longrightarrow> f' = f"
  by (auto simp: postStateTx_def commitForum_Inl split: option.splits elim: mutateForum_cases)

lemma postStateTx_Inr:
  assumes "postStateTx e req (stateKey req) project f = (Inr v, f')"
  shows "state_commits e req project f v f'"
proof (cases project)
  case None
  with assms have i: "insertPostState e req (stateKey req) None None f = Inr f'" "v = 0" by (auto simp: postStateTx_def)
  have "f' = f\<lparr>fo_core := fo_core f, fo_state_events := fo_state_events f @ [newState e req None None]\<rparr>"
    using insertPostState_Inr(1) [OF i(1)] by simp
  with insertPostState_Inr(2-3) [OF i(1)] core_touch_refl None i(2) show ?thesis unfolding state_commits_def
    by (intro conjI exI [of _ None] exI [of _ "fo_core f"]) auto
next
  case (Some pid)
  with assms have "mutateForum e 1 2 pid ''post_state'' (sq_PostID req) (sq_State req)
      (\<lambda>r. insertPostState e req (stateKey req) (Some pid) (Some r)) f = (Inr v, f')" by (simp add: postStateTx_def)
  then show ?thesis
  proof (cases rule: mutateForum_cases)
    case (committed p f1 ch)
    let ?core = "(bumpedCore pid (env_clock e 1) (fo_core f))\<lparr>changes := changes (fo_core f) @ [ch]\<rparr>"
    note i = insertPostState_Inr [OF committed(3)]
    have "f' = f\<lparr>fo_core := ?core, fo_state_events := fo_state_events f @ [newState e req (Some pid) (Some (p_revision p + 1))]\<rparr>"
      unfolding committed(4) i(1) by (simp add: bumpedCore_def)
    with i(2-3) core_touch_bumped [OF committed(2,5,6,7)] committed(1) Some show ?thesis unfolding state_commits_def
      by (intro conjI exI [of _ "Some (p_revision p + 1)"] exI [of _ ?core]) auto
  qed simp
qed


lemma SetPostState_cases:
  assumes "SetPostState e req snap f = (res, f')"
  obtains (refused) err where "res = Inl err" "f' = f"
  | (replayed) prior result s where "res = Inr result" "f' = f" "s \<in> {snap, f}" "stateKey req \<noteq> ''''"
      "postStateByRequest (stateKey req) s = Some (prior, result)" "samePostState prior req"
  | (committed) p v where "res = Inr \<lparr>wr_ID = newID e 0 ''PS-'', wr_Revision = v\<rparr>" "state_commits e req (po_project_id p) f v f'"
      "postRow snap (sq_PostID req) = Some p"
proof (cases "sq_PostID req = '''' \<or> sq_SessionID req = '''' \<or> sq_State req \<notin> {''open'', ''resolved'', ''superseded''} \<or>
         (sq_State req = ''superseded'') \<noteq> (sq_SupersededBy req \<noteq> '''') \<or> sq_PostID req = sq_SupersededBy req")
  case True
  then have "SetPostState e req snap f = (Inl ErrInvalid, f)" unfolding SetPostState_def by (rule if_P)
  with assms that(1) [of ErrInvalid] show ?thesis by auto
next
  case False
  note admitted = assms [unfolded SetPostState_def if_not_P [OF False] Let_def]
  show ?thesis
  proof (cases "if stateKey req = '''' then None else postStateByRequest (stateKey req) snap")
    case (Some prior)
    obtain r w where pr: "prior = (r, w)" by fastforce
    show ?thesis
    proof (cases "samePostState r req")
      case True
      have "stateKey req \<noteq> ''''" "postStateByRequest (stateKey req) snap = Some (r, w)" using Some pr by (auto split: if_splits)
      with True Some pr admitted that(2) [of w snap r] show ?thesis by simp
    next
      case False
      with Some pr admitted that(1) [of ErrConflict] show ?thesis by (simp split: if_splits)
    qed
  next
    case none: None
    show ?thesis
    proof (cases "postRow snap (sq_PostID req)")
      case None
      with none admitted that(1) [of ErrNotFound] show ?thesis by simp
    next
      case (Some p)
      obtain r g where tx: "postStateTx e req (stateKey req) (po_project_id p) f = (r, g)" by fastforce
      show ?thesis
      proof (cases "sq_SupersededBy req \<noteq> '''' \<and> countWhere (\<lambda>p. po_id p = sq_SupersededBy req) (fo_posts snap) \<noteq> 1")
        case True
        with Some none admitted that(1) [of ErrNotFound] show ?thesis by simp
      next
        case no: False
        note rest = admitted [unfolded none Some option.case if_not_P [OF no] tx]
        show ?thesis
        proof (cases r)
          case (Inl err)
          then have "g = f" using tx postStateTx_refused by blast
          with rest Inl that(1) [of "mapErr err"] that(2) [of _ f] show ?thesis by (auto split: option.splits if_splits)
        next
          case (Inr v)
          have "state_commits e req (po_project_id p) f v g" using tx Inr by (intro postStateTx_Inr) simp
          with rest Inr Some that(3) [of v p] show ?thesis by simp
        qed
      qed
    qed
  qed
qed

abbreviation scopeKey :: "PerspectiveScopeRequest \<Rightarrow> gostring" where
  "scopeKey req \<equiv> requestStorageKey (xq_ActorID req) (xq_SessionID req) (xq_RequestID req)"

definition newScopeEvent :: "env \<Rightarrow> PerspectiveScopeRequest \<Rightarrow> int \<Rightarrow> scope_event_row" where
  "newScopeEvent e req revision = \<lparr>sp_id = newID e 0 ''PSC-'', sp_post_id = xq_PostID req, sp_scope = xq_Scope req,
     sp_base_revision = revision, sp_revision = revision + 1, sp_actor_id = xq_ActorID req,
     sp_session_id = xq_SessionID req, sp_request_id = scopeKey req, sp_created_at = env_clock e 0\<rparr>"

definition rescoped :: "env \<Rightarrow> PerspectiveScopeRequest \<Rightarrow> int \<Rightarrow> scope_row \<Rightarrow> scope_row" where
  "rescoped e req revision s = s\<lparr>sc_scope := xq_Scope req, sc_revision := revision + 1, sc_event_id := Some (newID e 0 ''PSC-''),
     sc_updated_at := env_clock e 0\<rparr>"

lemma rescoped_fields [simp]:
  "sc_post_id (rescoped e req v s) = sc_post_id s" "sc_scope (rescoped e req v s) = xq_Scope req" "sc_revision (rescoped e req v s) = v + 1"
  "sc_event_id (rescoped e req v s) = Some (newID e 0 ''PSC-'')"
  by (simp_all add: rescoped_def)

lemma newScopeEvent_fields [simp]:
  "sp_id (newScopeEvent e req v) = newID e 0 ''PSC-''" "sp_post_id (newScopeEvent e req v) = xq_PostID req" "sp_scope (newScopeEvent e req v) = xq_Scope req"
  "sp_base_revision (newScopeEvent e req v) = v" "sp_revision (newScopeEvent e req v) = v + 1" "sp_request_id (newScopeEvent e req v) = scopeKey req"
  "sp_session_id (newScopeEvent e req v) = xq_SessionID req"
  by (simp_all add: newScopeEvent_def)

text \<open>
  A committed change of scope: the stored revision is the one the request names, only its row changes, and one event
  is appended.
\<close>

definition scope_commits :: "env \<Rightarrow> PerspectiveScopeRequest \<Rightarrow> forum \<Rightarrow> forum \<Rightarrow> bool" where
  "scope_commits e req f f' \<longleftrightarrow>
     (\<exists>ps p. scopeRow f (xq_PostID req) = Some ps \<and> postRow f (xq_PostID req) = Some p \<and> sc_revision ps = xq_BaseRevision req \<and>
        (xq_AuthorOnly req \<longrightarrow> po_session_id p = xq_SessionID req) \<and> (xq_Scope req = ''project'' \<longrightarrow> po_project_id p \<noteq> None)) \<and>
     xq_Scope req \<in> {''closed'', ''project'', ''commons''} \<and>
     (\<forall>r \<in> set (fo_scope_events f). sp_request_id r \<noteq> scopeKey req) \<and>
     f' = f\<lparr>fo_scopes := updWhere (\<lambda>s. sc_post_id s = xq_PostID req \<and> sc_revision s = xq_BaseRevision req)
              (rescoped e req (xq_BaseRevision req)) (fo_scopes f),
            fo_scope_events := fo_scope_events f @ [newScopeEvent e req (xq_BaseRevision req)]\<rparr>"

lemma scopeTx_Inr:
  assumes "scopeTx e req (scopeKey req) f = Inr (w, f')"
  shows "scope_commits e req f f'" "w = \<lparr>wr_ID = newID e 0 ''PSC-'', wr_Revision = xq_BaseRevision req + 1\<rparr>"
proof -
  from assms obtain ps p where rows: "scopeRow f (xq_PostID req) = Some ps" "postRow f (xq_PostID req) = Some p"
    by (auto simp: scopeTx_def split: option.splits)
  have base: "sc_revision ps = xq_BaseRevision req"
    and author: "xq_AuthorOnly req \<longrightarrow> po_session_id p = xq_SessionID req" and proj: "xq_Scope req = ''project'' \<longrightarrow> po_project_id p \<noteq> None"
    using assms rows by (auto simp: scopeTx_def split: if_splits)
  note tx = assms [unfolded scopeTx_def rows prod.case option.case Let_def newScopeEvent_def [symmetric] rescoped_def [symmetric] base]
  from tx obtain f1 where f1: "sqlInsertScopeEvent (newScopeEvent e req (xq_BaseRevision req)) f = Inr f1"
    and f2: "(let (n, g) = sqlUpdateScope (xq_PostID req) (xq_BaseRevision req) (rescoped e req (xq_BaseRevision req)) f1 in
             if n \<noteq> 1 then Inl ErrConflict else Inr (\<lparr>wr_ID = newID e 0 ''PSC-'', wr_Revision = xq_BaseRevision req + 1\<rparr>, g)) = Inr (w, f')"
    by (auto split: if_splits)
  from f1 have f1': "f1 = f\<lparr>fo_scope_events := fo_scope_events f @ [newScopeEvent e req (xq_BaseRevision req)]\<rparr>"
    and fresh: "\<forall>r \<in> set (fo_scope_events f). sp_request_id r \<noteq> scopeKey req" "xq_Scope req \<in> {''closed'', ''project'', ''commons''}"
    by (auto simp: sqlInsertScopeEvent_def)
  show "w = \<lparr>wr_ID = newID e 0 ''PSC-'', wr_Revision = xq_BaseRevision req + 1\<rparr>" using f2 by (auto simp: sqlUpdateScope_def split: if_splits)
  have "f' = f\<lparr>fo_scopes := updWhere (\<lambda>s. sc_post_id s = xq_PostID req \<and> sc_revision s = xq_BaseRevision req)
              (rescoped e req (xq_BaseRevision req)) (fo_scopes f),
            fo_scope_events := fo_scope_events f @ [newScopeEvent e req (xq_BaseRevision req)]\<rparr>"
    using f2 by (auto simp: sqlUpdateScope_def f1' split: if_splits)
  with rows base author proj fresh show "scope_commits e req f f'" unfolding scope_commits_def by blast
qed

lemma SetPerspectiveScope_cases:
  assumes "SetPerspectiveScope e req snap f = (res, f')"
  obtains (refused) err where "res = Inl err" "f' = f"
  | (replayed) prior result where "res = Inr result" "f' = f"
      "perspectiveScopeByRequest (scopeKey req) snap = Some (prior, result)" "samePerspectiveScope prior req"
  | (committed) "res = Inr \<lparr>wr_ID = newID e 0 ''PSC-'', wr_Revision = xq_BaseRevision req + 1\<rparr>" "scope_commits e req f f'"
      "perspectiveScopeByRequest (scopeKey req) snap = None" "xq_RequestID req \<noteq> ''''"
proof (cases "xq_PostID req = '''' \<or> xq_SessionID req = '''' \<or> xq_Scope req \<notin> {''closed'', ''project'', ''commons''} \<or>
         xq_BaseRevision req < 0 \<or> xq_RequestID req = ''''")
  case True
  then have "SetPerspectiveScope e req snap f = (Inl ErrInvalid, f)" unfolding SetPerspectiveScope_def by (rule if_P)
  with assms that(1) [of ErrInvalid] show ?thesis by auto
next
  case False
  note admitted = assms [unfolded SetPerspectiveScope_def if_not_P [OF False] Let_def]
  show ?thesis
  proof (cases "perspectiveScopeByRequest (scopeKey req) snap")
    case (Some prior)
    obtain r w where "prior = (r, w)" by fastforce
    with Some admitted that(1) [of ErrConflict] that(2) [of w r] show ?thesis by (auto split: if_splits)
  next
    case None
    with admitted have c: "commitForum f (scopeTx e req (scopeKey req) f) = (res, f')" by simp
    show ?thesis
    proof (cases res)
      case (Inl err)
      with c that(1) show ?thesis by (simp add: commitForum_Inl)
    next
      case (Inr w)
      with c have "scopeTx e req (scopeKey req) f = Inr (w, f')" by simp
      from scopeTx_Inr [OF this] Inr None False that(3) show ?thesis by auto
    qed
  qed
qed

abbreviation readKey :: "MarkNotificationReadRequest \<Rightarrow> gostring" where
  "readKey req \<equiv> requestStorageKey (mq_ActorID req) (mq_RecipientPrincipal req) (mq_RequestID req)"

definition markRead :: "gostring \<Rightarrow> time \<Rightarrow> notification_row \<Rightarrow> notification_row" where
  "markRead k now n = (if hn_id n = k \<and> hn_recipient_principal n = HumanLocalPrincipal \<and> hn_read_at n = None
     then n\<lparr>hn_read_at := Some now\<rparr> else n)"

definition read_commits :: "env \<Rightarrow> MarkNotificationReadRequest \<Rightarrow> forum \<Rightarrow> forum \<Rightarrow> bool" where
  "read_commits e req f f' \<longleftrightarrow>
     (\<forall>r \<in> set (fo_receipts f). nr_request_id r \<noteq> readKey req) \<and>
     (\<exists>n r. find (\<lambda>n. hn_id n = mq_NotificationID req \<and> hn_recipient_principal n = HumanLocalPrincipal) (fo_notifications f) = Some n \<and>
        nr_id r = newID e 0 ''NR-'' \<and> nr_notification_id r = mq_NotificationID req \<and> nr_request_id r = readKey req \<and>
        nr_read_at r = (case hn_read_at n of None \<Rightarrow> env_clock e 0 | Some t \<Rightarrow> t) \<and>
        f' = f\<lparr>fo_notifications := map (markRead (mq_NotificationID req) (env_clock e 0)) (fo_notifications f), fo_receipts := fo_receipts f @ [r]\<rparr>)"

lemma find_map_markRead:
  "find (\<lambda>n. hn_id n = k \<and> hn_recipient_principal n = p) (map (markRead k' now) ns) =
     map_option (markRead k' now) (find (\<lambda>n. hn_id n = k \<and> hn_recipient_principal n = p) ns)"
  by (rule find_map_key) (simp add: markRead_def)

lemma MarkHumanNotificationRead_cases:
  assumes "MarkHumanNotificationRead e req f = (res, f')"
  obtains (refused) err where "res = Inl err" "f' = f"
  | (replayed) prior where "res = Inr \<lparr>wr_ID = nr_id prior, wr_Revision = 0\<rparr>" "f' = f"
      "find (\<lambda>r. nr_request_id r = readKey req) (fo_receipts f) = Some prior" "nr_notification_id prior = mq_NotificationID req"
  | (committed) "res = Inr \<lparr>wr_ID = newID e 0 ''NR-'', wr_Revision = 0\<rparr>" "read_commits e req f f'"
proof (cases "mq_NotificationID req = '''' \<or> mq_RecipientPrincipal req \<noteq> HumanLocalPrincipal \<or> mq_ActorID req = '''' \<or> mq_RequestID req = ''''")
  case True
  then have "MarkHumanNotificationRead e req f = (Inl ErrInvalid, f)" unfolding MarkHumanNotificationRead_def by (rule if_P)
  with assms that(1) [of ErrInvalid] show ?thesis by auto
next
  case False
  then have rp: "mq_RecipientPrincipal req = HumanLocalPrincipal" by simp
  note admitted = assms [unfolded MarkHumanNotificationRead_def if_not_P [OF False] Let_def]
  show ?thesis
  proof (cases "find (\<lambda>r. nr_request_id r = readKey req) (fo_receipts f)")
    case (Some prior)
    with admitted that(1) [of ErrConflict] that(2) [of prior] show ?thesis by (auto split: if_splits)
  next
    case None
    have upd: "updWhere (\<lambda>n. hn_id n = mq_NotificationID req \<and> hn_recipient_principal n = HumanLocalPrincipal \<and> hn_read_at n = None)
        (\<lambda>n. n\<lparr>hn_read_at := Some (env_clock e 0)\<rparr>) (fo_notifications f) = map (markRead (mq_NotificationID req) (env_clock e 0)) (fo_notifications f)"
      by (simp add: updWhere_def markRead_def)
    let ?f1 = "f\<lparr>fo_notifications := map (markRead (mq_NotificationID req) (env_clock e 0)) (fo_notifications f)\<rparr>"
    have tx: "commitForum f (case find (\<lambda>n. hn_id n = mq_NotificationID req \<and> hn_recipient_principal n = HumanLocalPrincipal) (fo_notifications ?f1) of
        None \<Rightarrow> Inl ErrNotFound
      | Some n \<Rightarrow> bindE (mapErrE mapErr (sqlInsertReceipt \<lparr>nr_id = newID e 0 ''NR-'', nr_notification_id = mq_NotificationID req,
           nr_recipient_principal = HumanLocalPrincipal, nr_request_id = readKey req,
           nr_read_at = (case hn_read_at n of None \<Rightarrow> zeroTime | Some t \<Rightarrow> t), nr_created_at = env_clock e 0\<rparr> ?f1))
             (\<lambda>f2. Inr (\<lparr>wr_ID = newID e 0 ''NR-'', wr_Revision = 0\<rparr>, f2))) = (res, f')"
      using admitted [unfolded rp upd None [unfolded rp] option.case] unfolding rp by simp
    show ?thesis
    proof (cases res)
      case (Inl err)
      with tx that(1) show ?thesis by (simp add: commitForum_Inl)
    next
      case (Inr w)
      note tx' = tx [unfolded Inr commitForum_Inr]
      from tx' obtain n where n: "find (\<lambda>n. hn_id n = mq_NotificationID req \<and> hn_recipient_principal n = HumanLocalPrincipal) (fo_notifications f) = Some n"
        by (auto simp: find_map_markRead split: option.splits)
      have key: "hn_id n = mq_NotificationID req" "hn_recipient_principal n = HumanLocalPrincipal" using n by (auto dest: find_SomeD)
      then have at: "(case hn_read_at (markRead (mq_NotificationID req) (env_clock e 0) n) of None \<Rightarrow> zeroTime | Some t \<Rightarrow> t) =
          (case hn_read_at n of None \<Rightarrow> env_clock e 0 | Some t \<Rightarrow> t)"
        by (simp add: markRead_def split: option.splits)
      have "read_commits e req f f'" "w = \<lparr>wr_ID = newID e 0 ''NR-'', wr_Revision = 0\<rparr>"
        using tx' None n unfolding read_commits_def
        by (auto simp: find_map_markRead at sqlInsertReceipt_def find_None_iff_all intro!: exI [of _ "\<lparr>nr_id = newID e 0 ''NR-'',
             nr_notification_id = mq_NotificationID req, nr_recipient_principal = HumanLocalPrincipal, nr_request_id = readKey req,
             nr_read_at = (case hn_read_at n of None \<Rightarrow> env_clock e 0 | Some t \<Rightarrow> t), nr_created_at = env_clock e 0\<rparr>"])
      with Inr that(3) show ?thesis by simp
    qed
  qed
qed

definition registered :: "env \<Rightarrow> Session \<Rightarrow> session_row list \<Rightarrow> session_row list" where
  "registered e v ss =
     (if sn_ID v \<in> ss_id ` set ss
      then updWhere (\<lambda>s. ss_id s = sn_ID v) (\<lambda>s. s\<lparr>ss_host := sn_Host v, ss_project_id := nullif (sn_ProjectID v), ss_purpose := sn_Purpose v\<rparr>) ss
      else ss @ [\<lparr>ss_id = sn_ID v, ss_host = sn_Host v, ss_project_id = nullif (sn_ProjectID v), ss_purpose = sn_Purpose v, ss_created_at = env_now e\<rparr>])"

definition session_commits :: "env \<Rightarrow> Session \<Rightarrow> forum \<Rightarrow> forum \<Rightarrow> bool" where
  "session_commits e v f f' \<longleftrightarrow>
     (\<exists>hs. f' = f\<lparr>fo_sessions := registered e v (fo_sessions f), fo_handles := fo_handles f @ hs\<rparr> \<and>
        (if hasHandle f (sn_ID v) then hs = []
         else hs = [\<lparr>sh_session_id = sn_ID v, sh_handle = formatHandle (nextHandleNumber (fo_handles f)), sh_created_at = env_now e\<rparr>] \<and>
           handle_check (formatHandle (nextHandleNumber (fo_handles f)))))"

lemma UpsertSession_cases:
  assumes "UpsertSession e v f = (res, f')"
  obtains (refused) err where "res = Inl err" "f' = f" | (committed) "res = Inr ()" "session_commits e v f f'"
proof (cases res)
  case (Inl err)
  with assms that(1) show ?thesis by (auto simp: UpsertSession_def commitForum_Inl split: if_splits)
next
  case (Inr u)
  let ?r = "\<lparr>ss_id = sn_ID v, ss_host = sn_Host v, ss_project_id = nullif (sn_ProjectID v), ss_purpose = sn_Purpose v, ss_created_at = env_now e\<rparr>"
  let ?f1 = "f\<lparr>fo_sessions := registered e v (fo_sessions f)\<rparr>"
  have up: "sqlUpsertSession ?r f = checked (optProject f (nullif (sn_ProjectID v))) ?f1"
    by (cases "hasSession f (sn_ID v)") (auto simp: sqlUpsertSession_def registered_def hasSession_def image_iff)
  have hh: "hasHandle ?f1 (sn_ID v) = hasHandle f (sn_ID v)" by (simp add: hasHandle_def)
  have "session_commits e v f f'"
    using assms Inr unfolding session_commits_def
    by (auto simp: UpsertSession_def Let_def up hh sqlInsertHandle_def split: if_splits)
  with Inr that(2) show ?thesis by simp
qed

end
