(* ===== verification/Forum_Invariants.thy ===== *)
theory Forum_Invariants
  imports Forum_Effects
begin

text \<open>
  The forum as a transition system over the project core, and what holds in every state it reaches: the invariant of
  the core, one scope per post with its history, the mentions of a source and what they route, the handles, the
  receipts, and the place of each write in the change log of its project.
\<close>

section \<open>Steps\<close>

datatype forum_op =
    CoreOp
  | PostOp env PostRequest forum
  | CommentOp env CommentRequest forum
  | StateOp env PostStateRequest forum
  | ScopeOp env PerspectiveScopeRequest forum
  | ReadOp env MarkNotificationReadRequest
  | SessionOp env Session

text \<open>An operation names the state \<open>snap\<close> its reads before the transaction saw; any state is allowed.\<close>

inductive forum_step :: "url_lib \<Rightarrow> (core_payload \<Rightarrow> gostring) \<Rightarrow> forum_op \<Rightarrow> forum \<Rightarrow> forum \<Rightarrow> bool" for lb hash where
  step_core: "core_step hash (fo_core f) db \<Longrightarrow> forum_step lb hash CoreOp f (f\<lparr>fo_core := db\<rparr>)"
| step_post: "Post lb e pq snap f = (r1, f') \<Longrightarrow> forum_step lb hash (PostOp e pq snap) f f'"
| step_comment: "Comment e cq snap f = (r2, f') \<Longrightarrow> forum_step lb hash (CommentOp e cq snap) f f'"
| step_state: "SetPostState e sq snap f = (r3, f') \<Longrightarrow> forum_step lb hash (StateOp e sq snap) f f'"
| step_scope: "SetPerspectiveScope e xq snap f = (r4, f') \<Longrightarrow> forum_step lb hash (ScopeOp e xq snap) f f'"
| step_read: "MarkHumanNotificationRead e mq f = (r5, f') \<Longrightarrow> forum_step lb hash (ReadOp e mq) f f'"
| step_session: "UpsertSession e v f = (r6, f') \<Longrightarrow> forum_step lb hash (SessionOp e v) f f'"

inductive_cases core_stepE: "forum_step lb hash CoreOp f f'"
inductive_cases post_stepE: "forum_step lb hash (PostOp e req snap) f f'"
inductive_cases comment_stepE: "forum_step lb hash (CommentOp e req snap) f f'"
inductive_cases state_stepE: "forum_step lb hash (StateOp e req snap) f f'"
inductive_cases scope_stepE: "forum_step lb hash (ScopeOp e req snap) f f'"
inductive_cases read_stepE: "forum_step lb hash (ReadOp e req) f f'"
inductive_cases session_stepE: "forum_step lb hash (SessionOp e v) f f'"

definition forum_steps :: "url_lib \<Rightarrow> (core_payload \<Rightarrow> gostring) \<Rightarrow> forum \<Rightarrow> forum \<Rightarrow> bool" where
  "forum_steps lb hash f f' \<longleftrightarrow> (\<exists>a. forum_step lb hash a f f')"

text \<open>The state after an operation, by what it commits.\<close>

lemma forum_step_cases [consumes 1, case_names same core post comment state scope read session]:
  assumes "forum_step lb hash a f f'"
  obtains (same) "f' = f"
  | (core) db where "a = CoreOp" "core_step hash (fo_core f) db" "f' = f\<lparr>fo_core := db\<rparr>"
  | (post) e req snap ms project rv db where "a = PostOp e req snap" "normalizeMentionPrincipals (pq_MentionPrincipals req) [] = Some ms"
      "post_commits e (req\<lparr>pq_MentionPrincipals := ms\<rparr>) project f (orZero rv) f'"
      "f' = postedForum e (req\<lparr>pq_MentionPrincipals := ms\<rparr>) project rv db f" "core_touch project rv (newID e 0 ''P-'') (fo_core f) db"
  | (comment) e req snap ms predicate p rv db where "a = CommentOp e req snap"
      "normalizeMentionPrincipals (cq_MentionPrincipals req) (cq_MentionSessionIDs req) = Some ms"
      "comment_commits e (normalComment ms req) (po_project_id p) f (orZero rv) f'"
      "postDiscoveryPredicate snap (cq_ActorKind req) (cq_SessionID req) = Some predicate" "p \<in> set (fo_posts snap)"
      "po_id p = cq_PostID req" "predicate p"
      "f' = commentedForum e (normalComment ms req) (po_project_id p) rv db f" "core_touch (po_project_id p) rv (newID e 0 ''R-'') (fo_core f) db"
  | (state) e req snap project rv db where "a = StateOp e req snap" "state_commits e req project f (orZero rv) f'"
      "f' = f\<lparr>fo_core := db, fo_state_events := fo_state_events f @ [newState e req project rv]\<rparr>"
      "core_touch project rv (sq_PostID req) (fo_core f) db"
  | (scope) e req snap where "a = ScopeOp e req snap" "scope_commits e req f f'"
  | (read) e req where "a = ReadOp e req" "read_commits e req f f'"
  | (session) e v where "a = SessionOp e v" "session_commits e v f f'"
proof (cases a)
  case CoreOp
  with assms core that(2) show ?thesis by (auto elim: core_stepE)
next
  case (PostOp e req snap)
  with assms obtain r where "Post lb e req snap f = (r, f')" by (auto elim: post_stepE)
  then show ?thesis
  proof (cases rule: Post_cases)
    case (committed ms project v)
    from committed(3) obtain rv db where "v = orZero rv" "f' = postedForum e (req\<lparr>pq_MentionPrincipals := ms\<rparr>) project rv db f"
      "core_touch project rv (newID e 0 ''P-'') (fo_core f) db" by (auto simp: post_commits_def)
    with committed PostOp that(3) show ?thesis by blast
  qed (use that(1) in auto)
next
  case (CommentOp e req snap)
  with assms obtain r where "Comment e req snap f = (r, f')" by (auto elim: comment_stepE)
  then show ?thesis
  proof (cases rule: Comment_cases)
    case (committed ms predicate p v)
    from committed(3) obtain rv db where "v = orZero rv" "f' = commentedForum e (normalComment ms req) (po_project_id p) rv db f"
      "core_touch (po_project_id p) rv (newID e 0 ''R-'') (fo_core f) db" by (auto simp: comment_commits_def)
    with committed CommentOp that(4) show ?thesis by blast
  qed (use that(1) in auto)
next
  case (StateOp e req snap)
  with assms obtain r where "SetPostState e req snap f = (r, f')" by (auto elim: state_stepE)
  then show ?thesis
  proof (cases rule: SetPostState_cases)
    case (committed p v)
    from committed(2) obtain rv db where "v = orZero rv" "f' = f\<lparr>fo_core := db, fo_state_events := fo_state_events f @ [newState e req (po_project_id p) rv]\<rparr>"
      "core_touch (po_project_id p) rv (sq_PostID req) (fo_core f) db" by (auto simp: state_commits_def)
    with committed StateOp that(5) show ?thesis by blast
  qed (use that(1) in auto)
next
  case (ScopeOp e req snap)
  with assms obtain r where "SetPerspectiveScope e req snap f = (r, f')" by (auto elim: scope_stepE)
  then show ?thesis by (cases rule: SetPerspectiveScope_cases) (use ScopeOp that(1,6) in auto)
next
  case (ReadOp e req)
  with assms obtain r where "MarkHumanNotificationRead e req f = (r, f')" by (auto elim: read_stepE)
  then show ?thesis by (cases rule: MarkHumanNotificationRead_cases) (use ReadOp that(1,7) in auto)
next
  case (SessionOp e v)
  with assms obtain r where "UpsertSession e v f = (r, f')" by (auto elim: session_stepE)
  then show ?thesis by (cases rule: UpsertSession_cases) (use SessionOp that(1,8) in auto)
qed

lemma has_iff:
  "hasPost f k \<longleftrightarrow> k \<in> po_id ` set (fo_posts f)" "hasComment f k \<longleftrightarrow> k \<in> co_id ` set (fo_comments f)"
  "hasSession f k \<longleftrightarrow> k \<in> ss_id ` set (fo_sessions f)" "hasHandle f k \<longleftrightarrow> k \<in> sh_session_id ` set (fo_handles f)"
  by (auto simp: hasPost_def hasComment_def hasSession_def hasHandle_def image_iff)

lemma postRow_SomeD: "postRow f k = Some p \<Longrightarrow> p \<in> set (fo_posts f) \<and> po_id p = k"
  by (auto simp: postRow_def dest: find_SomeD)

lemma scopeRow_SomeD: "scopeRow f k = Some s \<Longrightarrow> s \<in> set (fo_scopes f) \<and> sc_post_id s = k"
  by (auto simp: scopeRow_def dest: find_SomeD)

section \<open>The core\<close>

lemma core_touch_inv:
  assumes "core_touch project rv ref db db'" "core_inv db"
  shows "core_inv db'"
proof -
  from assms(1) obtain ps cs sd where db': "db' = db\<lparr>projects := ps, changes := cs, search_documents := sd\<rparr>"
    and log: "log_step (projects db, changes db) (ps, cs)"
    unfolding core_touch_def by (cases project) (auto intro!: that intro: log_stay log_bumped)
  have ok: "log_ok (ps, cs)" using log_step_ok [OF log] assms(2) by (simp add: core_inv_def)
  have "revision_bound ps pid v" if "revision_bound (projects db) pid v" for pid v using log_step_bound [OF log] that by simp
  then have "revisions_ok db'" using assms(2) by (auto simp: core_inv_def revisions_ok_def db')
  with ok assms(2) show ?thesis by (simp add: core_inv_def db' milestones_ok_def wiki_ok_def)
qed

lemma forum_step_core_inv:
  assumes "forum_step lb hash a f f'" "core_inv (fo_core f)"
  shows "core_inv (fo_core f')"
  using assms(1)
proof (cases rule: forum_step_cases)
  case (core db)
  with assms(2) core.step_inv [of "fo_core f" hash db] show ?thesis by simp
next
  case (post e req snap ms project rv db)
  with core_touch_inv assms(2) show ?thesis by (simp add: postedForum_def)
next
  case (comment e req snap ms predicate p rv db)
  with core_touch_inv assms(2) show ?thesis by (simp add: commentedForum_def)
next
  case (state e req snap project rv db)
  with core_touch_inv assms(2) show ?thesis by simp
qed (use assms(2) in \<open>auto simp: scope_commits_def read_commits_def session_commits_def\<close>)

section \<open>Identifiers\<close>

definition ids_ok :: "forum \<Rightarrow> bool" where
  "ids_ok f \<longleftrightarrow> distinct (map po_id (fo_posts f)) \<and> map sc_post_id (fo_scopes f) = map po_id (fo_posts f) \<and>
     distinct (map co_id (fo_comments f)) \<and> (\<forall>c \<in> set (fo_comments f). co_post_id c \<in> po_id ` set (fo_posts f)) \<and>
     (\<forall>a \<in> set (fo_attachments f). pa_post_id a \<in> po_id ` set (fo_posts f))"

lemma pa_post_id_row [simp]: "pa_post_id (attachmentRow k x) = k" "pa_position (attachmentRow k x) = fst x"
  by (simp_all add: attachmentRow_def)

lemma forum_step_ids:
  assumes "forum_step lb hash a f f'" "ids_ok f"
  shows "ids_ok f'"
  using assms(1)
proof (cases rule: forum_step_cases)
  case (post e req snap ms project rv db)
  with assms(2) show ?thesis by (auto simp: ids_ok_def post_commits_def postedForum_def has_iff)
next
  case (comment e req snap ms predicate p rv db)
  have "cq_PostID req \<in> po_id ` set (fo_posts f)" "newID e 0 ''R-'' \<notin> co_id ` set (fo_comments f)"
    using comment(3) by (simp_all add: comment_commits_def has_iff)
  with comment(8) assms(2) show ?thesis by (simp add: ids_ok_def commentedForum_def)
next
  case (scope e req snap)
  then have "map sc_post_id (fo_scopes f') = map sc_post_id (fo_scopes f)" by (auto simp: scope_commits_def intro: map_updWhere_frame)
  with scope assms(2) show ?thesis by (auto simp: ids_ok_def scope_commits_def)
qed (use assms(2) in \<open>auto simp: ids_ok_def read_commits_def session_commits_def\<close>)

section \<open>Scopes\<close>

definition scopeEvents :: "forum \<Rightarrow> gostring \<Rightarrow> scope_event_row list" where
  "scopeEvents f k = filter (\<lambda>e. sp_post_id e = k) (fo_scope_events f)"

definition scope_ok :: "scope_event_row list \<Rightarrow> scope_row \<Rightarrow> bool" where
  "scope_ok es s \<longleftrightarrow> 0 \<le> sc_revision s \<and> map sp_revision es = [1..sc_revision s] \<and> map sp_base_revision es = [0..sc_revision s - 1] \<and>
     sc_scope s = (if es = [] then ''closed'' else sp_scope (last es)) \<and>
     sc_event_id s = (if es = [] then None else Some (sp_id (last es)))"

definition scopes_ok :: "forum \<Rightarrow> bool" where
  "scopes_ok f \<longleftrightarrow> (\<forall>e \<in> set (fo_scope_events f). sp_post_id e \<in> po_id ` set (fo_posts f)) \<and>
     (\<forall>s \<in> set (fo_scopes f). scope_ok (scopeEvents f (sc_post_id s)) s)"

lemma scope_ok_new: "scope_ok [] (newScope e)"
  by (simp add: scope_ok_def)

lemma scope_ok_append:
  assumes "scope_ok es s" "sc_revision s = v"
  shows "scope_ok (es @ [newScopeEvent e req v]) (rescoped e req v s)"
  using assms by (simp add: scope_ok_def upto_snoc [of 1] upto_rec2 [of 0 v])

lemma scope_commits_rows:
  assumes "scope_commits e req f f'" "ids_ok f"
  obtains ps where "ps \<in> set (fo_scopes f)" "sc_post_id ps = xq_PostID req" "sc_revision ps = xq_BaseRevision req"
    "fo_scopes f' = updWhere (\<lambda>s. sc_post_id s = xq_PostID req) (rescoped e req (xq_BaseRevision req)) (fo_scopes f)"
    "fo_scope_events f' = fo_scope_events f @ [newScopeEvent e req (xq_BaseRevision req)]" "xq_PostID req \<in> po_id ` set (fo_posts f)"
proof -
  from assms(1) obtain ps p where ps: "scopeRow f (xq_PostID req) = Some ps" "sc_revision ps = xq_BaseRevision req"
    and p: "postRow f (xq_PostID req) = Some p" unfolding scope_commits_def by (elim conjE exE) (rule that)
  have mem: "ps \<in> set (fo_scopes f)" "sc_post_id ps = xq_PostID req" using scopeRow_SomeD [OF ps(1)] by simp_all
  have pmem: "xq_PostID req \<in> po_id ` set (fo_posts f)" using postRow_SomeD [OF p] by (metis image_eqI)
  have "s = ps" if "s \<in> set (fo_scopes f)" "sc_post_id s = xq_PostID req" for s
    using assms(2) that mem by (intro distinct_key_eq [of sc_post_id "fo_scopes f"]) (simp_all add: ids_ok_def)
  then have "updWhere (\<lambda>s. sc_post_id s = xq_PostID req \<and> sc_revision s = xq_BaseRevision req) (rescoped e req (xq_BaseRevision req)) (fo_scopes f)
      = updWhere (\<lambda>s. sc_post_id s = xq_PostID req) (rescoped e req (xq_BaseRevision req)) (fo_scopes f)"
    using ps(2) unfolding updWhere_def by (intro map_cong refl) auto
  with assms(1) have f': "fo_scopes f' = updWhere (\<lambda>s. sc_post_id s = xq_PostID req) (rescoped e req (xq_BaseRevision req)) (fo_scopes f)"
    "fo_scope_events f' = fo_scope_events f @ [newScopeEvent e req (xq_BaseRevision req)]" by (simp_all add: scope_commits_def)
  show ?thesis by (rule that [OF mem ps(2) f' pmem])
qed

lemma scopes_ok_scope:
  assumes "scope_commits e req f f'" "scopes_ok f" "ids_ok f"
  shows "scopes_ok f'"
proof -
  let ?k = "xq_PostID req" and ?v = "xq_BaseRevision req"
  obtain ps where ps: "ps \<in> set (fo_scopes f)" "sc_post_id ps = ?k" "sc_revision ps = ?v"
    and f': "fo_scopes f' = updWhere (\<lambda>s. sc_post_id s = ?k) (rescoped e req ?v) (fo_scopes f)"
      "fo_scope_events f' = fo_scope_events f @ [newScopeEvent e req ?v]" and k: "?k \<in> po_id ` set (fo_posts f)"
    by (rule scope_commits_rows [OF assms(1,3)])
  have posts: "fo_posts f' = fo_posts f" using assms(1) by (auto simp: scope_commits_def)
  have events: "scopeEvents f' j = scopeEvents f j @ (if j = ?k then [newScopeEvent e req ?v] else [])" for j
    by (simp add: scopeEvents_def f')
  have "scope_ok (scopeEvents f' (sc_post_id s)) s" if "s \<in> set (fo_scopes f')" for s
  proof -
    from that obtain s0 where s0: "s0 \<in> set (fo_scopes f)" "s = (if sc_post_id s0 = ?k then rescoped e req ?v s0 else s0)"
      by (auto simp: f' set_updWhere)
    have ok: "scope_ok (scopeEvents f (sc_post_id s0)) s0" using assms(2) s0(1) by (simp add: scopes_ok_def)
    show ?thesis
    proof (cases "sc_post_id s0 = ?k")
      case True
      then have "s0 = ps" using assms(3) s0(1) ps by (intro distinct_key_eq [of sc_post_id "fo_scopes f"]) (simp_all add: ids_ok_def)
      with ok True ps s0(2) show ?thesis by (simp add: events scope_ok_append)
    next
      case False
      with ok s0(2) show ?thesis by (simp add: events)
    qed
  qed
  moreover have "sp_post_id x \<in> po_id ` set (fo_posts f')" if "x \<in> set (fo_scope_events f')" for x
    using that k assms(2) by (auto simp: f' posts scopes_ok_def)
  ultimately show ?thesis by (simp add: scopes_ok_def)
qed

lemma scopes_ok_post:
  assumes "post_commits e req project f v f'" "scopes_ok f" "ids_ok f"
  shows "scopes_ok f'"
proof -
  let ?k = "newID e 0 ''P-''"
  from assms(1) have f': "fo_posts f' = fo_posts f @ [newPost e req (postKey req) project (po_project_revision (last (fo_posts f')))]"
    "fo_scopes f' = fo_scopes f @ [newScope e]" "fo_scope_events f' = fo_scope_events f" and new: "?k \<notin> po_id ` set (fo_posts f)"
    by (auto simp: post_commits_def postedForum_def has_iff)
  have none: "scopeEvents f ?k = []" using assms(2) new unfolding scopeEvents_def scopes_ok_def filter_empty_conv by metis
  have events: "scopeEvents f' = scopeEvents f" by (rule ext) (simp add: scopeEvents_def f')
  have ok: "\<forall>s \<in> set (fo_scopes f'). scope_ok (scopeEvents f' (sc_post_id s)) s"
    using assms(2) by (auto simp: f'(2) events none scope_ok_new scopes_ok_def)
  have "\<forall>x \<in> set (fo_scope_events f'). sp_post_id x \<in> po_id ` set (fo_posts f')"
    using assms(2) by (subst f'(1)) (auto simp: f'(3) scopes_ok_def)
  with ok show ?thesis by (simp add: scopes_ok_def)
qed

lemma scopes_ok_frame:
  assumes "fo_scopes f' = fo_scopes f" "fo_scope_events f' = fo_scope_events f" "fo_posts f' = fo_posts f"
  shows "scopes_ok f' = scopes_ok f"
  using assms by (simp add: scopes_ok_def scopeEvents_def)

lemma forum_step_scopes:
  assumes "forum_step lb hash a f f'" "scopes_ok f" "ids_ok f"
  shows "scopes_ok f'"
  using assms(1)
proof (cases rule: forum_step_cases)
  case (post e req snap ms project rv db)
  from scopes_ok_post [OF post(3) assms(2,3)] show ?thesis .
next
  case (comment e req snap ms predicate p rv db)
  with assms(2) scopes_ok_frame [of f' f] show ?thesis by (simp add: commentedForum_def)
next
  case (scope e req snap)
  from scopes_ok_scope [OF scope(2) assms(2,3)] show ?thesis .
next
  case (core db)
  with assms(2) scopes_ok_frame [of f' f] show ?thesis by simp
next
  case (state e req snap project rv db)
  with assms(2) scopes_ok_frame [of f' f] show ?thesis by simp
next
  case (read e req)
  then have "scopes_ok f' = scopes_ok f" by (intro scopes_ok_frame) (auto simp: read_commits_def)
  with assms(2) show ?thesis by simp
next
  case (session e v)
  then have "scopes_ok f' = scopes_ok f" by (intro scopes_ok_frame) (auto simp: session_commits_def)
  with assms(2) show ?thesis by simp
qed (use assms(2) in simp)

section \<open>Mentions and what they route\<close>

definition mentionsOf :: "gostring \<Rightarrow> gostring \<Rightarrow> mention_row list \<Rightarrow> mention_row list" where
  "mentionsOf kind k ms = filter (\<lambda>m. cm_source_kind m = kind \<and> cm_source_id m = k) ms"

definition recipient_ok :: "forum \<Rightarrow> mention_row \<Rightarrow> bool" where
  "recipient_ok f m \<longleftrightarrow>
     cm_recipient_kind m = ''human'' \<and> cm_recipient_principal m = HumanLocalPrincipal \<and> cm_recipient_session_id m = None \<or>
     cm_recipient_kind m = ''agent'' \<and> cm_recipient_principal m \<noteq> HumanLocalPrincipal \<and>
       cm_recipient_session_id m = Some (cm_recipient_principal m) \<and> hasHandle f (cm_recipient_principal m)"

definition sourceExists :: "forum \<Rightarrow> mention_row \<Rightarrow> bool" where
  "sourceExists f m \<longleftrightarrow> cm_source_kind m = ''post'' \<and> hasPost f (cm_source_id m) \<or> cm_source_kind m = ''comment'' \<and> hasComment f (cm_source_id m)"

text \<open>The comment mentions and the notifications that a list of mentions makes.\<close>

definition routedComments :: "mention_row list \<Rightarrow> (gostring \<times> gostring \<times> nat) list" where
  "routedComments ms = map (\<lambda>m. (cm_source_id m, cm_recipient_principal m, cm_position m))
     (filter (\<lambda>m. cm_source_kind m = ''comment'' \<and> cm_recipient_kind m = ''agent'') ms)"

definition notifiedSources :: "mention_row list \<Rightarrow> (gostring \<times> gostring) list" where
  "notifiedSources ms = map (\<lambda>m. (cm_source_kind m, cm_source_id m)) (filter (\<lambda>m. cm_recipient_kind m = ''human'') ms)"

definition notificationSource :: "notification_row \<Rightarrow> gostring \<times> gostring" where
  "notificationSource n = (hn_source_kind n, case hn_comment_id n of None \<Rightarrow> hn_post_id n | Some c \<Rightarrow> c)"

definition mentions_ok :: "forum \<Rightarrow> bool" where
  "mentions_ok f \<longleftrightarrow>
     (\<forall>m \<in> set (fo_mentions f). recipient_ok f m \<and> sourceExists f m) \<and>
     (\<forall>kind k. let ms = mentionsOf kind k (fo_mentions f) in
        map cm_position ms = [0..<length ms] \<and> length ms \<le> 5 \<and> distinct (map cm_recipient_principal ms)) \<and>
     map (\<lambda>m. (ct_comment_id m, ct_recipient_session_id m, ct_position m)) (fo_comment_mentions f) = routedComments (fo_mentions f) \<and>
     map notificationSource (fo_notifications f) = notifiedSources (fo_mentions f)"

lemma mentionRow_fields [simp]:
  "cm_source_kind (mentionRow c x) = mc_sourceKind c" "cm_source_id (mentionRow c x) = mc_sourceID c" "cm_position (mentionRow c x) = fst x"
  "cm_recipient_principal (mentionRow c x) = snd x" "cm_recipient_kind (mentionRow c x) = (if snd x = HumanLocalPrincipal then ''human'' else ''agent'')"
  "cm_recipient_session_id (mentionRow c x) = (if snd x = HumanLocalPrincipal then None else Some (snd x))"
  by (simp_all add: mentionRow_def)

lemma routed_rows:
  "map (\<lambda>m. (ct_comment_id m, ct_recipient_session_id m, ct_position m)) (concat (map (commentMentionRows c) items)) =
   routedComments (map (mentionRow c) items)"
  by (induction items) (auto simp: routedComments_def commentMentionRows_def)

lemma notified_rows:
  assumes "mc_sourceKind c \<in> {''post'', ''comment''}" "mc_sourceKind c = ''post'' \<longrightarrow> mc_sourceID c = mc_postID c"
  shows "map notificationSource (concat (map (notificationRows e c) items)) = notifiedSources (map (mentionRow c) items)"
  using assms by (induction items) (auto simp: notifiedSources_def notificationRows_def notificationSource_def)

lemma mentionsOf_append:
  "mentionsOf kind k (ms @ map (mentionRow c) items) =
     mentionsOf kind k ms @ (if kind = mc_sourceKind c \<and> k = mc_sourceID c then map (mentionRow c) items else [])"
  by (auto simp: mentionsOf_def filter_map o_def)

lemma mentions_ok_add:
  assumes ok: "mentions_ok f" and ps: "distinct ps" "length ps \<le> 5" "\<forall>p \<in> set ps. p = HumanLocalPrincipal \<or> hasHandle f p"
    and c: "mc_sourceKind c \<in> {''post'', ''comment''}" "mc_sourceKind c = ''post'' \<longrightarrow> mc_sourceID c = mc_postID c"
    and none: "mentionsOf (mc_sourceKind c) (mc_sourceID c) (fo_mentions f) = []"
    and grows: "\<And>m. sourceExists f m \<Longrightarrow> sourceExists g m"
    and exists: "\<And>m. cm_source_kind m = mc_sourceKind c \<Longrightarrow> cm_source_id m = mc_sourceID c \<Longrightarrow> sourceExists g m"
    and same: "fo_handles g = fo_handles f" "fo_mentions g = fo_mentions f" "fo_comment_mentions g = fo_comment_mentions f" "fo_notifications g = fo_notifications f"
  shows "mentions_ok (addMentions e c (enumerate 0 ps) g)"
proof -
  let ?g = "addMentions e c (enumerate 0 ps) g"
  have fst: "map cm_position (map (mentionRow c) (enumerate 0 ps)) = [0..<length ps]"
    by (simp add: comp_def map_fst_enumerate [unfolded comp_def])
  have snd: "map cm_recipient_principal (map (mentionRow c) (enumerate 0 ps)) = ps"
    by (simp add: comp_def map_snd_enumerate [unfolded comp_def])
  have src: "sourceExists ?g m = sourceExists g m" for m by (simp add: sourceExists_def)
  have rec: "recipient_ok ?g m = recipient_ok f m" for m by (simp add: recipient_ok_def hasHandle_def same)
  have new: "recipient_ok f (mentionRow c x)" if "x \<in> set (enumerate 0 ps)" for x
  proof -
    have "snd x \<in> set ps" using that by (metis image_eqI list.set_map map_snd_enumerate)
    then have "snd x = HumanLocalPrincipal \<or> hasHandle f (snd x)" using ps(3) by blast
    then show ?thesis by (cases "snd x = HumanLocalPrincipal") (simp_all add: recipient_ok_def)
  qed
  have one: "\<forall>m \<in> set (fo_mentions ?g). recipient_ok ?g m \<and> sourceExists ?g m"
    using ok grows exists new by (auto simp: mentions_ok_def src rec same)
  have two: "let ms = mentionsOf kind k (fo_mentions ?g) in
        map cm_position ms = [0..<length ms] \<and> length ms \<le> 5 \<and> distinct (map cm_recipient_principal ms)" for kind k
  proof (cases "kind = mc_sourceKind c \<and> k = mc_sourceID c")
    case True
    then have "mentionsOf kind k (fo_mentions ?g) = map (mentionRow c) (enumerate 0 ps)" using none by (simp add: same mentionsOf_append)
    then show ?thesis using fst snd ps(1,2) by (simp add: Let_def)
  next
    case False
    then have "mentionsOf kind k (fo_mentions ?g) = mentionsOf kind k (fo_mentions f)" by (auto simp: same mentionsOf_append)
    with ok show ?thesis by (simp add: mentions_ok_def)
  qed
  have "map (\<lambda>m. (ct_comment_id m, ct_recipient_session_id m, ct_position m)) (fo_comment_mentions ?g) = routedComments (fo_mentions ?g)"
    using ok routed_rows [of c "enumerate 0 ps"] by (simp add: mentions_ok_def same routedComments_def)
  moreover have "map notificationSource (fo_notifications ?g) = notifiedSources (fo_mentions ?g)"
    using ok notified_rows [OF c, of e "enumerate 0 ps"] by (simp add: mentions_ok_def same notifiedSources_def)
  ultimately show ?thesis unfolding mentions_ok_def using one two by blast
qed


lemma mentions_ok_frame:
  assumes "fo_mentions f' = fo_mentions f" "fo_comment_mentions f' = fo_comment_mentions f"
    "map notificationSource (fo_notifications f') = map notificationSource (fo_notifications f)" "fo_posts f' = fo_posts f" "fo_comments f' = fo_comments f"
    "\<And>k. hasHandle f k \<Longrightarrow> hasHandle f' k" "mentions_ok f"
  shows "mentions_ok f'"
proof -
  have "recipient_ok f m \<Longrightarrow> recipient_ok f' m" "sourceExists f m \<Longrightarrow> sourceExists f' m" for m
    using assms(4-6) by (auto simp: recipient_ok_def sourceExists_def hasPost_def hasComment_def)
  with assms show ?thesis by (simp add: mentions_ok_def)
qed

lemma no_mentions_of_new:
  assumes "mentions_ok f" "kind = ''post'' \<and> \<not> hasPost f k \<or> kind = ''comment'' \<and> \<not> hasComment f k"
  shows "mentionsOf kind k (fo_mentions f) = []"
  using assms by (fastforce simp: mentions_ok_def mentionsOf_def filter_empty_conv sourceExists_def)

lemma mentions_ok_post:
  assumes "post_commits e req project f v f'" "mentions_ok f" "distinct (pq_MentionPrincipals req)" "length (pq_MentionPrincipals req) \<le> 5"
  shows "mentions_ok f'"
proof -
  from assms(1) obtain rv db where f': "f' = postedForum e req project rv db f" and new: "\<not> hasPost f (newID e 0 ''P-'')"
    and ok: "\<forall>p \<in> set (pq_MentionPrincipals req). p = HumanLocalPrincipal \<or> hasHandle f p" unfolding post_commits_def by blast
  show ?thesis unfolding f' postedForum_def
    by (rule mentions_ok_add [OF assms(2-4) ok])
       (use no_mentions_of_new [OF assms(2)] new in \<open>auto simp: sourceExists_def hasPost_def hasComment_def\<close>)
qed

lemma mentions_ok_comment:
  assumes "comment_commits e req project f v f'" "mentions_ok f" "distinct (cq_MentionPrincipals req)" "length (cq_MentionPrincipals req) \<le> 5"
  shows "mentions_ok f'"
proof -
  from assms(1) obtain rv db where f': "f' = commentedForum e req project rv db f" and new: "\<not> hasComment f (newID e 0 ''R-'')"
    and ok: "\<forall>p \<in> set (cq_MentionPrincipals req). p = HumanLocalPrincipal \<or> hasHandle f p" unfolding comment_commits_def by blast
  show ?thesis unfolding f' commentedForum_def
    by (rule mentions_ok_add [OF assms(2-4) ok])
       (use no_mentions_of_new [OF assms(2)] new in \<open>auto simp: sourceExists_def hasPost_def hasComment_def\<close>)
qed

lemma notificationSource_markRead [simp]: "notificationSource (markRead k now n) = notificationSource n"
  by (simp add: notificationSource_def markRead_def split: option.splits)

lemma forum_step_mentions:
  assumes "forum_step lb hash a f f'" "mentions_ok f"
  shows "mentions_ok f'"
  using assms(1)
proof (cases rule: forum_step_cases)
  case (post e req snap ms project rv db)
  with mentions_ok_post [OF post(3) assms(2)] normalizeMentionPrincipals_Some [OF post(2)] show ?thesis by simp
next
  case (comment e req snap ms predicate p rv db)
  with mentions_ok_comment [OF comment(3) assms(2)] normalizeMentionPrincipals_Some [OF comment(2)] show ?thesis by simp
next
  case (core db)
  then show ?thesis by (intro mentions_ok_frame [OF _ _ _ _ _ _ assms(2)]) simp_all
next
  case (state e req snap project rv db)
  then show ?thesis by (intro mentions_ok_frame [OF _ _ _ _ _ _ assms(2)]) (simp_all add: hasHandle_def)
next
  case (scope e req snap)
  then show ?thesis by (intro mentions_ok_frame [OF _ _ _ _ _ _ assms(2)]) (auto simp: scope_commits_def hasHandle_def)
next
  case (read e req)
  then show ?thesis by (intro mentions_ok_frame [OF _ _ _ _ _ _ assms(2)]) (auto simp: read_commits_def hasHandle_def)
next
  case (session e v)
  then show ?thesis by (intro mentions_ok_frame [OF _ _ _ _ _ _ assms(2)]) (auto simp: session_commits_def hasHandle_def)
qed (use assms(2) in simp)

section \<open>Handles\<close>

text \<open>Every handle is \<open>agent-\<close> and a number in at least six digits; numbers and sessions occur once.\<close>

definition handles_ok :: "forum \<Rightarrow> bool" where
  "handles_ok f \<longleftrightarrow> (\<exists>ns. map sh_handle (fo_handles f) = map formatHandle ns \<and> distinct ns) \<and>
     distinct (map sh_session_id (fo_handles f)) \<and> distinct (map ss_id (fo_sessions f)) \<and>
     set (map sh_session_id (fo_handles f)) = set (map ss_id (fo_sessions f))"

lemma formatHandle_digits: "list_all is_digit (replicate k (CHR ''0'') @ itoa n)"
  using itoa_digits [of n] by (auto simp: list_all_iff is_digit_def in_range_def)

lemma atoi_zeros: "atoi_acc 0 (replicate k (CHR ''0'') @ s) = atoi_acc 0 s"
  by (induction k) (simp_all add: digit_val_def)

lemma handleNumber_format: "handleNumber (formatHandle n) = n"
proof -
  have "takeWhile is_digit (replicate (6 - length (itoa n)) (CHR ''0'') @ itoa n) = replicate (6 - length (itoa n)) (CHR ''0'') @ itoa n"
    using formatHandle_digits [of "6 - length (itoa n)" n] unfolding takeWhile_eq_all_conv list_all_iff .
  moreover have "drop 6 (formatHandle n) = replicate (6 - length (itoa n)) (CHR ''0'') @ itoa n" by (simp add: formatHandle_def)
  ultimately show ?thesis unfolding handleNumber_def by (simp only: atoi_zeros atoi_itoa)
qed

lemma agentHandle_format: "agentHandle (formatHandle n)"
proof -
  have "list_all is_digit (replicate (6 - length (itoa n)) (CHR ''0'') @ itoa n)" by (rule formatHandle_digits)
  moreover have "itoa n \<noteq> []" by (subst itoa.simps) simp
  ultimately show ?thesis
    by (cases "replicate (6 - length (itoa n)) (CHR ''0'') @ itoa n") (simp_all add: agentHandle_def formatHandle_def HasPrefix_def)
qed

lemma foldr_max_ge: "n \<in> set ns \<Longrightarrow> n \<le> foldr max ns (0::nat)"
  by (induction ns) (auto simp: le_max_iff_disj)

lemma nextHandleNumber_new:
  assumes "map sh_handle hs = map formatHandle ns"
  shows "nextHandleNumber hs \<notin> set ns"
proof
  assume "nextHandleNumber hs \<in> set ns"
  moreover have "map handleNumber (filter agentHandle (map sh_handle hs)) = ns"
    using assms by (simp add: filter_map o_def agentHandle_format handleNumber_format)
  ultimately have "nextHandleNumber hs \<le> foldr max (map handleNumber (filter agentHandle (map sh_handle hs))) 0" by (simp add: foldr_max_ge)
  then show False by (simp add: nextHandleNumber_def)
qed

lemma registered_ids: "map ss_id (registered e v ss) = (if sn_ID v \<in> ss_id ` set ss then map ss_id ss else map ss_id ss @ [sn_ID v])"
  by (auto simp: registered_def intro: map_updWhere_frame)

lemma handles_ok_session:
  assumes "session_commits e v f f'" "handles_ok f"
  shows "handles_ok f'"
proof -
  from assms(1) obtain hs where f': "fo_sessions f' = registered e v (fo_sessions f)" "fo_handles f' = fo_handles f @ hs"
    and hs: "hs = (if hasHandle f (sn_ID v) then [] else [\<lparr>sh_session_id = sn_ID v, sh_handle = formatHandle (nextHandleNumber (fo_handles f)), sh_created_at = env_now e\<rparr>])"
    by (auto simp: session_commits_def split: if_splits)
  from assms(2) obtain ns where ns: "map sh_handle (fo_handles f) = map formatHandle ns" "distinct ns"
    and ids: "distinct (map sh_session_id (fo_handles f))" "distinct (map ss_id (fo_sessions f))"
      "set (map sh_session_id (fo_handles f)) = set (map ss_id (fo_sessions f))" by (auto simp: handles_ok_def)
  show ?thesis
  proof (cases "hasHandle f (sn_ID v)")
    case True
    then have "sn_ID v \<in> ss_id ` set (fo_sessions f)" using ids(3) by (simp add: has_iff)
    then have same: "map ss_id (fo_sessions f') = map ss_id (fo_sessions f)" by (simp add: f' registered_ids)
    show ?thesis using ns ids True same by (auto simp: handles_ok_def f'(2) hs)
  next
    case False
    then have new: "sn_ID v \<notin> sh_session_id ` set (fo_handles f)" "sn_ID v \<notin> ss_id ` set (fo_sessions f)" using ids(3) by (auto simp: has_iff)
    have "map ss_id (fo_sessions f') = map ss_id (fo_sessions f) @ [sn_ID v]" using new by (simp add: f' registered_ids)
    moreover have "map sh_handle (fo_handles f') = map formatHandle (ns @ [nextHandleNumber (fo_handles f)])"
      "distinct (ns @ [nextHandleNumber (fo_handles f)])"
      using ns nextHandleNumber_new [OF ns(1)] False by (simp_all add: f'(2) hs)
    moreover have "map sh_session_id (fo_handles f') = map sh_session_id (fo_handles f) @ [sn_ID v]" using False by (simp add: f'(2) hs)
    ultimately show ?thesis using new ids unfolding handles_ok_def
      by (intro conjI exI [of _ "ns @ [nextHandleNumber (fo_handles f)]"]) simp_all
  qed
qed

lemma forum_step_handles:
  assumes "forum_step lb hash a f f'" "handles_ok f"
  shows "handles_ok f'"
  using assms(1)
proof (cases rule: forum_step_cases)
  case (session e v)
  from handles_ok_session [OF session(2) assms(2)] show ?thesis .
next
  case (scope e req snap)
  then have "fo_handles f' = fo_handles f" "fo_sessions f' = fo_sessions f" by (auto simp: scope_commits_def)
  with assms(2) show ?thesis by (simp add: handles_ok_def)
next
  case (read e req)
  then have "fo_handles f' = fo_handles f" "fo_sessions f' = fo_sessions f" by (auto simp: read_commits_def)
  with assms(2) show ?thesis by (simp add: handles_ok_def)
qed (use assms(2) in \<open>simp_all add: handles_ok_def postedForum_def commentedForum_def\<close>)


section \<open>Receipts\<close>

definition receipts_ok :: "forum \<Rightarrow> bool" where
  "receipts_ok f \<longleftrightarrow>
     (\<forall>n \<in> set (fo_notifications f). hn_recipient_principal n = HumanLocalPrincipal) \<and>
     (\<forall>r \<in> set (fo_receipts f). \<exists>n \<in> set (fo_notifications f). hn_id n = nr_notification_id r \<and> hn_read_at n = Some (nr_read_at r)) \<and>
     (\<forall>n \<in> set (fo_notifications f). hn_read_at n \<noteq> None \<longrightarrow> (\<exists>r \<in> set (fo_receipts f). nr_notification_id r = hn_id n))"

lemma notificationRows_fields:
  "n \<in> set (notificationRows e c x) \<Longrightarrow> hn_recipient_principal n = HumanLocalPrincipal \<and> hn_read_at n = None"
  by (auto simp: notificationRows_def split: if_splits)


lemma receipts_ok_add:
  assumes "receipts_ok f" "fo_notifications f' = fo_notifications f @ concat (map (notificationRows e c) items)" "fo_receipts f' = fo_receipts f"
  shows "receipts_ok f'"
  using assms by (auto simp: receipts_ok_def dest!: notificationRows_fields)

lemma receipts_ok_read:
  assumes "read_commits e req f f'" "receipts_ok f"
  shows "receipts_ok f'"
proof -
  let ?k = "mq_NotificationID req" and ?now = "env_clock e 0"
  from assms(1) obtain n r where n: "find (\<lambda>n. hn_id n = ?k \<and> hn_recipient_principal n = HumanLocalPrincipal) (fo_notifications f) = Some n"
    and r: "nr_notification_id r = ?k" "nr_read_at r = (case hn_read_at n of None \<Rightarrow> ?now | Some t \<Rightarrow> t)"
    and f': "fo_notifications f' = map (markRead ?k ?now) (fo_notifications f)" "fo_receipts f' = fo_receipts f @ [r]"
    by (auto simp: read_commits_def)
  have m: "n \<in> set (fo_notifications f)" "hn_id n = ?k" "hn_recipient_principal n = HumanLocalPrincipal" using n by (auto dest: find_SomeD)
  have marked: "hn_id (markRead ?k ?now x) = hn_id x" "hn_recipient_principal (markRead ?k ?now x) = hn_recipient_principal x"
    "hn_read_at x = Some t \<Longrightarrow> hn_read_at (markRead ?k ?now x) = Some t"
    "hn_read_at (markRead ?k ?now x) \<noteq> None \<Longrightarrow> hn_read_at x \<noteq> None \<or> hn_id x = ?k" for x t by (auto simp: markRead_def)
  have old: "\<exists>x \<in> set (fo_notifications f'). hn_id x = nr_notification_id q \<and> hn_read_at x = Some (nr_read_at q)" if q: "q \<in> set (fo_receipts f)" for q
  proof -
    obtain x where "x \<in> set (fo_notifications f)" "hn_id x = nr_notification_id q" "hn_read_at x = Some (nr_read_at q)"
      using assms(2) q by (auto simp: receipts_ok_def)
    then show ?thesis using marked by (auto simp: f' intro!: bexI [of _ x])
  qed
  have "hn_read_at (markRead ?k ?now n) = Some (nr_read_at r)" using m r(2) by (cases "hn_read_at n") (simp_all add: markRead_def)
  then have new: "\<exists>x \<in> set (fo_notifications f'). hn_id x = nr_notification_id r \<and> hn_read_at x = Some (nr_read_at r)"
    using m r(1) marked(1) by (auto simp: f' intro!: bexI [of _ n])
  have has: "\<exists>q \<in> set (fo_receipts f'). nr_notification_id q = hn_id y" if y: "y \<in> set (fo_notifications f')" "hn_read_at y \<noteq> None" for y
  proof -
    obtain x where x: "x \<in> set (fo_notifications f)" "y = markRead ?k ?now x" using y(1) by (auto simp: f')
    then consider "hn_read_at x \<noteq> None" | "hn_id x = ?k" using y(2) marked(4) by blast
    then show ?thesis
    proof cases
      case 1
      with assms(2) x obtain q where "q \<in> set (fo_receipts f)" "nr_notification_id q = hn_id x" unfolding receipts_ok_def by blast
      then show ?thesis using x marked(1) by (auto simp: f'(2))
    next
      case 2
      then show ?thesis using r(1) x marked(1) by (auto simp: f'(2))
    qed
  qed
  show ?thesis unfolding receipts_ok_def using assms(2) old new has marked(2) by (auto simp: f' receipts_ok_def)
qed

lemma forum_step_receipts:
  assumes "forum_step lb hash a f f'" "receipts_ok f"
  shows "receipts_ok f'"
  using assms(1)
proof (cases rule: forum_step_cases)
  case (post e req snap ms project rv db)
  show ?thesis by (rule receipts_ok_add [OF assms(2)]) (use post(4) in \<open>simp_all add: postedForum_def\<close>)
next
  case (comment e req snap ms predicate p rv db)
  show ?thesis by (rule receipts_ok_add [OF assms(2)]) (use comment(8) in \<open>simp_all add: commentedForum_def\<close>)
next
  case (scope e req snap)
  then have "fo_notifications f' = fo_notifications f" "fo_receipts f' = fo_receipts f" by (auto simp: scope_commits_def)
  with assms(2) show ?thesis by (simp add: receipts_ok_def)
next
  case (session e v)
  then have "fo_notifications f' = fo_notifications f" "fo_receipts f' = fo_receipts f" by (auto simp: session_commits_def)
  with assms(2) show ?thesis by (simp add: receipts_ok_def)
next
  case (read e req)
  from receipts_ok_read [OF read(2) assms(2)] show ?thesis .
qed (use assms(2) in \<open>simp_all add: receipts_ok_def\<close>)

section \<open>The change log\<close>

text \<open>A row of a project carries a revision, and the change of that revision refers to it.\<close>

definition logged :: "change_row list \<Rightarrow> gostring option \<Rightarrow> int option \<Rightarrow> gostring \<Rightarrow> bool" where
  "logged cs project rv ref \<longleftrightarrow> (case project of
     None \<Rightarrow> rv = None
   | Some pid \<Rightarrow> (\<exists>ch \<in> set cs. ch_project_id ch = pid \<and> rv = Some (ch_revision ch) \<and> ch_ref ch = ref))"

definition log_refs_ok :: "forum \<Rightarrow> bool" where
  "log_refs_ok f \<longleftrightarrow>
     (\<forall>p \<in> set (fo_posts f). logged (changes (fo_core f)) (po_project_id p) (po_project_revision p) (po_id p)) \<and>
     (\<forall>c \<in> set (fo_comments f). logged (changes (fo_core f)) (co_project_id c) (co_project_revision c) (co_id c)) \<and>
     (\<forall>e \<in> set (fo_state_events f). logged (changes (fo_core f)) (sv_project_id e) (sv_project_revision e) (sv_post_id e))"

lemma logged_mono: "logged cs project rv ref \<Longrightarrow> set cs \<subseteq> set cs' \<Longrightarrow> logged cs' project rv ref"
  by (auto simp: logged_def split: option.splits)

lemma log_refs_mono:
  assumes "log_refs_ok f" "set (changes (fo_core f)) \<subseteq> set (changes (fo_core f'))" "fo_posts f' = fo_posts f" "fo_comments f' = fo_comments f"
    "fo_state_events f' = fo_state_events f"
  shows "log_refs_ok f'"
  using assms by (auto simp: log_refs_ok_def intro: logged_mono)

lemma core_touch_log:
  assumes "core_touch project rv ref db db'"
  shows "logged (changes db') project rv ref" "set (changes db) \<subseteq> set (changes db')"
  using assms by (auto simp: core_touch_def logged_def split: option.splits)

lemma newState_fields [simp]:
  "sv_project_id (newState e req project rv) = project" "sv_project_revision (newState e req project rv) = rv"
  "sv_post_id (newState e req project rv) = sq_PostID req" "sv_request_id (newState e req project rv) = nullif (stateKey req)"
  by (simp_all add: newState_def)

lemma forum_step_logged:
  assumes "forum_step lb hash a f f'" "log_refs_ok f"
  shows "log_refs_ok f'"
  using assms(1)
proof (cases rule: forum_step_cases)
  case (core db)
  have "set (changes (fo_core f)) \<subseteq> set (changes db)" using core_step_grows [OF core(2)] by (auto simp: history_grows_def prefix_def)
  with core show ?thesis by (intro log_refs_mono [OF assms(2)]) simp_all
next
  case (post e req snap ms project rv db)
  note l = core_touch_log [OF post(5)]
  show ?thesis using post(4) l assms(2) by (auto simp: postedForum_def log_refs_ok_def intro: logged_mono)
next
  case (comment e req snap ms predicate p rv db)
  note l = core_touch_log [OF comment(9)]
  show ?thesis using comment(8) l assms(2) by (auto simp: commentedForum_def log_refs_ok_def intro: logged_mono)
next
  case (state e req snap project rv db)
  note l = core_touch_log [OF state(4)]
  show ?thesis using state(3) l assms(2) by (auto simp: log_refs_ok_def intro: logged_mono)
next
  case (scope e req snap)
  then show ?thesis by (intro log_refs_mono [OF assms(2)]) (auto simp: scope_commits_def)
next
  case (read e req)
  then show ?thesis by (intro log_refs_mono [OF assms(2)]) (auto simp: read_commits_def)
next
  case (session e v)
  then show ?thesis by (intro log_refs_mono [OF assms(2)]) (auto simp: session_commits_def)
qed (use assms(2) in simp)

section \<open>The invariant of the forum\<close>

definition forum_inv :: "forum \<Rightarrow> bool" where
  "forum_inv f \<longleftrightarrow> core_inv (fo_core f) \<and> ids_ok f \<and> scopes_ok f \<and> mentions_ok f \<and> handles_ok f \<and> receipts_ok f \<and> log_refs_ok f"

lemma forum_inv_empty: "forum_inv empty_forum"
  by (simp add: forum_inv_def empty_forum_def core_inv_empty ids_ok_def scopes_ok_def mentions_ok_def mentionsOf_def handles_ok_def
      receipts_ok_def log_refs_ok_def routedComments_def notifiedSources_def)

lemma forum_step_inv: "forum_step lb hash a f f' \<Longrightarrow> forum_inv f \<Longrightarrow> forum_inv f'"
  unfolding forum_inv_def
  by (elim conjE, intro conjI, erule (1) forum_step_core_inv, erule (1) forum_step_ids, erule (2) forum_step_scopes,
      erule (1) forum_step_mentions, erule (1) forum_step_handles, erule (1) forum_step_receipts, erule (1) forum_step_logged)

interpretation forum: transition_invariant "\<lambda>f. f = empty_forum" "forum_steps lb hash" forum_inv
  by unfold_locales (auto simp: forum_inv_empty forum_steps_def intro: forum_step_inv)

end
