(* ===== verification/Forum_Replay.thy ===== *)
theory Forum_Replay
  imports Forum_Invariants
begin

text \<open>
  Repeated writes of the forum. What a request key was answered with is found again in every later state, with its
  attachments and mentions, so that the same request gets the same answer and writes nothing.
\<close>

section \<open>What later writes leave alone\<close>

definition live_step :: "url_lib \<Rightarrow> (core_payload \<Rightarrow> gostring) \<Rightarrow> forum \<Rightarrow> forum \<Rightarrow> bool" where
  "live_step lb hash f f' \<longleftrightarrow> forum_inv f \<and> forum_steps lb hash f f'"

lemma live_steps:
  assumes "(forum_steps lb hash)\<^sup>*\<^sup>* f g" "forum_inv f"
  shows "(live_step lb hash)\<^sup>*\<^sup>* f g"
  using assms
proof (induction rule: rtranclp_induct)
  case (step g h)
  have "forum_inv g" by (rule forum.steps_inv [OF step.hyps(1) step.prems])
  with step show ?case by (auto simp: live_step_def intro: rtranclp.rtrancl_into_rtrancl)
qed simp

lemma step_tables:
  assumes "forum_step lb hash a f f'"
  obtains ps cs es xs rs where "fo_posts f' = fo_posts f @ ps" "fo_comments f' = fo_comments f @ cs" "fo_state_events f' = fo_state_events f @ es"
    "fo_scope_events f' = fo_scope_events f @ xs" "fo_receipts f' = fo_receipts f @ rs"
  using assms
proof (cases rule: forum_step_cases)
  case same
  with that [of "[]" "[]" "[]" "[]" "[]"] show ?thesis by simp
next
  case (core db)
  with that [of "[]" "[]" "[]" "[]" "[]"] show ?thesis by simp
next
  case (post e req snap ms project rv db)
  with that [of "[_]" "[]" "[]" "[]" "[]"] show ?thesis by (simp add: postedForum_def)
next
  case (comment e req snap ms predicate p rv db)
  with that [of "[]" "[_]" "[]" "[]" "[]"] show ?thesis by (simp add: commentedForum_def)
next
  case (state e req snap project rv db)
  with that [of "[]" "[]" "[_]" "[]" "[]"] show ?thesis by simp
next
  case (scope e req snap)
  with that [of "[]" "[]" "[]" "[_]" "[]"] show ?thesis by (auto simp: scope_commits_def)
next
  case (read e req)
  with that [of "[]" "[]" "[]" "[]" "[_]"] show ?thesis by (auto simp: read_commits_def)
next
  case (session e v)
  with that [of "[]" "[]" "[]" "[]" "[]"] show ?thesis by (auto simp: session_commits_def)
qed

definition sourceKnown :: "forum \<Rightarrow> gostring \<Rightarrow> gostring \<Rightarrow> bool" where
  "sourceKnown f kind k \<longleftrightarrow> kind = ''post'' \<and> hasPost f k \<or> kind = ''comment'' \<and> hasComment f k"

lemma step_keeps_mentions:
  assumes "forum_step lb hash a f f'" "sourceKnown f kind k"
  shows "mentionsOf kind k (fo_mentions f') = mentionsOf kind k (fo_mentions f)"
  using assms(1)
proof (cases rule: forum_step_cases)
  case (post e req snap ms project rv db)
  have "\<not> (kind = ''post'' \<and> k = newID e 0 ''P-'')" using post(3) assms(2) by (auto simp: post_commits_def sourceKnown_def)
  with post(4) show ?thesis by (auto simp: postedForum_def mentionsOf_append)
next
  case (comment e req snap ms predicate p rv db)
  have "\<not> (kind = ''comment'' \<and> k = newID e 0 ''R-'')" using comment(3) assms(2) by (auto simp: comment_commits_def sourceKnown_def)
  with comment(8) show ?thesis by (auto simp: commentedForum_def mentionsOf_append)
qed (auto simp: scope_commits_def read_commits_def session_commits_def)

lemma step_keeps_attachments:
  assumes "forum_step lb hash a f f'" "hasPost f k"
  shows "readPostAttachments k f' = readPostAttachments k f"
  using assms(1)
proof (cases rule: forum_step_cases)
  case (post e req snap ms project rv db)
  have "k \<noteq> newID e 0 ''P-''" using post(3) assms(2) by (auto simp: post_commits_def)
  with post(4) show ?thesis by (auto simp: postedForum_def readPostAttachments_def filter_map o_def)
qed (auto simp: commentedForum_def readPostAttachments_def scope_commits_def read_commits_def session_commits_def)

lemma read_principals:
  "map mt_Principal (readContentMentions kind k f) = map cm_recipient_principal (sort_key cm_position (mentionsOf kind k (fo_mentions f)))"
  by (simp add: readContentMentions_def mentionsOf_def)

section \<open>Ledgers of requests\<close>

text \<open>The look-up of each kind of request is a ledger: an entry is never changed.\<close>

interpretation posts: permanent_ledger "live_step lb hash" "\<lambda>f (k, rid). postByRequest k rid f"
proof unfold_locales
  fix f f' :: forum and k v
  assume step: "live_step lb hash f f'" and entry: "(case k of (k, rid) \<Rightarrow> postByRequest k rid f) = Some v"
  obtain key rid where k: "k = (key, rid)" by fastforce
  from step obtain a where a: "forum_step lb hash a f f'" by (auto simp: live_step_def forum_steps_def)
  from entry k obtain p where p: "find (\<lambda>p. po_request_id p = Some key) (fo_posts f) = Some p" by (auto simp: postByRequest_def)
  have "find (\<lambda>p. po_request_id p = Some key) (fo_posts f') = Some p"
    by (rule step_tables [OF a]) (simp add: p find_append_Some)
  moreover have has: "hasPost f (po_id p)" using p by (auto simp: hasPost_def dest: find_SomeD)
  moreover have "mentionsOf ''post'' (po_id p) (fo_mentions f') = mentionsOf ''post'' (po_id p) (fo_mentions f)"
    by (rule step_keeps_mentions [OF a]) (simp add: sourceKnown_def has)
  ultimately show "(case k of (k, rid) \<Rightarrow> postByRequest k rid f') = Some v"
    using entry p step_keeps_attachments [OF a has] by (simp add: k postByRequest_def read_principals)
qed

interpretation comments: permanent_ledger "live_step lb hash" "\<lambda>f k. commentByRequest k f"
proof unfold_locales
  fix f f' :: forum and k v
  assume step: "live_step lb hash f f'" and entry: "commentByRequest k f = Some v"
  from step obtain a where a: "forum_step lb hash a f f'" by (auto simp: live_step_def forum_steps_def)
  from entry obtain c where c: "find (\<lambda>c. co_request_id c = Some k) (fo_comments f) = Some c" by (auto simp: commentByRequest_def)
  have "find (\<lambda>c. co_request_id c = Some k) (fo_comments f') = Some c"
    by (rule step_tables [OF a]) (simp add: c find_append_Some)
  moreover have "mentionsOf ''comment'' (co_id c) (fo_mentions f') = mentionsOf ''comment'' (co_id c) (fo_mentions f)"
    by (rule step_keeps_mentions [OF a]) (use c in \<open>auto simp: sourceKnown_def hasComment_def dest: find_SomeD\<close>)
  ultimately show "commentByRequest k f' = Some v" using entry c by (simp add: commentByRequest_def read_principals)
qed

lemma find_step:
  assumes "forum_step lb hash a f f'"
  shows "find P (fo_state_events f) = Some x \<Longrightarrow> find P (fo_state_events f') = Some x"
    "find Q (fo_scope_events f) = Some y \<Longrightarrow> find Q (fo_scope_events f') = Some y"
    "find R (fo_receipts f) = Some z \<Longrightarrow> find R (fo_receipts f') = Some z"
  by (rule step_tables [OF assms]; simp add: find_append_Some)+

interpretation states: permanent_ledger "live_step lb hash" "\<lambda>f k. postStateByRequest k f"
  by unfold_locales (auto simp: live_step_def forum_steps_def postStateByRequest_def dest: find_step(1))

interpretation scopes: permanent_ledger "live_step lb hash" "\<lambda>f k. perspectiveScopeByRequest k f"
  by unfold_locales (auto simp: live_step_def forum_steps_def perspectiveScopeByRequest_def dest: find_step(2))

interpretation receipts: permanent_ledger "live_step lb hash" "\<lambda>f k. find (\<lambda>r. nr_request_id r = k) (fo_receipts f)"
  by unfold_locales (auto simp: live_step_def forum_steps_def dest: find_step(3))

section \<open>Requests and their answers\<close>

text \<open>An operation with a request key, what it answers (an identifier and a revision) and what it leaves.\<close>

fun perform :: "url_lib \<Rightarrow> forum_op \<Rightarrow> forum \<Rightarrow> (go_error + gostring \<times> int) \<times> forum" where
  "perform lb (PostOp e req snap) f = (case Post lb e req snap f of (r, f') \<Rightarrow> (map_sum id (\<lambda>p. (ps_ID p, ps_Revision p)) r, f'))"
| "perform lb (CommentOp e req snap) f = (case Comment e req snap f of (r, f') \<Rightarrow> (map_sum id (\<lambda>w. (wr_ID w, wr_Revision w)) r, f'))"
| "perform lb (StateOp e req snap) f = (case SetPostState e req snap f of (r, f') \<Rightarrow> (map_sum id (\<lambda>w. (wr_ID w, wr_Revision w)) r, f'))"
| "perform lb (ScopeOp e req snap) f = (case SetPerspectiveScope e req snap f of (r, f') \<Rightarrow> (map_sum id (\<lambda>w. (wr_ID w, wr_Revision w)) r, f'))"
| "perform lb (ReadOp e req) f = (case MarkHumanNotificationRead e req f of (r, f') \<Rightarrow> (map_sum id (\<lambda>w. (wr_ID w, wr_Revision w)) r, f'))"
| "perform lb (SessionOp e v) f = (case UpsertSession e v f of (r, f') \<Rightarrow> (map_sum id (\<lambda>_. ('''', 0)) r, f'))"
| "perform lb CoreOp f = (Inl ErrInvalid, f)"

text \<open>The same request, sent again: other readings of the clock and of the random source, and other reads.\<close>

fun again :: "env \<Rightarrow> forum \<Rightarrow> forum_op \<Rightarrow> forum_op" where
  "again e snap (PostOp _ req _) = PostOp e req snap"
| "again e snap (CommentOp _ req _) = CommentOp e req snap"
| "again e snap (StateOp _ req _) = StateOp e req snap"
| "again e snap (ScopeOp _ req _) = ScopeOp e req snap"
| "again e snap (ReadOp _ req) = ReadOp e req"
| "again e snap a = a"

fun keyed :: "forum_op \<Rightarrow> bool" where
  "keyed (PostOp _ _ _) = True"
| "keyed (CommentOp _ _ _) = True"
| "keyed (StateOp _ req _) = (sq_RequestID req \<noteq> '''')"
| "keyed (ScopeOp _ _ _) = True"
| "keyed (ReadOp _ _) = True"
| "keyed _ = False"

fun readBefore :: "forum_op \<Rightarrow> forum option" where
  "readBefore (PostOp _ _ snap) = Some snap"
| "readBefore (CommentOp _ _ snap) = Some snap"
| "readBefore (StateOp _ _ snap) = Some snap"
| "readBefore (ScopeOp _ _ snap) = Some snap"
| "readBefore _ = None"

lemma key_nonempty: "r \<noteq> '''' \<Longrightarrow> requestStorageKey a s r \<noteq> ''''"
  by (simp add: requestStorageKey_def Let_def)


section \<open>What a committed write records\<close>

lemma sort_positions:
  assumes "map pos xs = [0..<length xs]"
  shows "sort_key pos xs = xs"
  using assms by (intro sort_key_id_if_sorted) (metis sorted_upt)

lemma attachments_read:
  "map (\<lambda>a. \<lparr>at_Kind = pa_kind a, at_URL = pa_url a, at_Title = pa_title a\<rparr>) (map (attachmentRow k) (enumerate 0 as)) = as"
proof -
  have "(\<lambda>a. \<lparr>at_Kind = pa_kind a, at_URL = pa_url a, at_Title = pa_title a\<rparr>) \<circ> attachmentRow k = snd"
    by (rule ext) (simp add: attachmentRow_def)
  then show ?thesis by simp
qed

lemma positions_enumerate: "map pa_position (map (attachmentRow k) (enumerate 0 as)) = [0..<length (map (attachmentRow k) (enumerate 0 as))]"
  by (simp add: comp_def map_fst_enumerate [unfolded comp_def])

lemma mention_positions: "map cm_position (map (mentionRow c) (enumerate 0 ps)) = [0..<length (map (mentionRow c) (enumerate 0 ps))]"
  by (simp add: comp_def map_fst_enumerate [unfolded comp_def])

lemma mention_principals: "map cm_recipient_principal (map (mentionRow c) (enumerate 0 ps)) = ps"
  by (simp add: comp_def map_snd_enumerate [unfolded comp_def])

lemma post_recorded:
  assumes "post_commits e req project f v f'" "forum_inv f" "pq_RequestID req \<noteq> ''''"
  shows "postByRequest (postKey req) (pq_RequestID req) f' = Some (postedRecord e req project (Some v))"
proof -
  let ?k = "newID e 0 ''P-''" and ?key = "postKey req"
  from assms(1) obtain rv db where v: "v = orZero rv" and f': "f' = postedForum e req project rv db f"
    and new: "\<not> hasPost f ?k" and fresh: "?key \<noteq> '''' \<longrightarrow> (\<forall>p \<in> set (fo_posts f). po_request_id p \<noteq> Some ?key)"
    unfolding post_commits_def by blast
  have key: "?key \<noteq> ''''" by (rule key_nonempty [OF assms(3)])
  then have "find (\<lambda>p. po_request_id p = Some ?key) (fo_posts f) = None" using fresh by (simp add: find_None_iff_all)
  then have found: "find (\<lambda>p. po_request_id p = Some ?key) (fo_posts f') = Some (newPost e req ?key project rv)"
    using key by (simp add: f' postedForum_def find_append nullif_def)
  have "mentionsOf ''post'' ?k (fo_mentions f) = []" using assms(2) new by (intro no_mentions_of_new) (auto simp: forum_inv_def)
  then have "mentionsOf ''post'' ?k (fo_mentions f') = map (mentionRow (postCtx e req)) (enumerate 0 (pq_MentionPrincipals req))"
    by (simp add: f' postedForum_def mentionsOf_append)
  then have ms: "map mt_Principal (readContentMentions ''post'' ?k f') = pq_MentionPrincipals req"
    unfolding read_principals by (simp only: sort_positions [OF mention_positions] mention_principals)
  have "filter (\<lambda>a. pa_post_id a = ?k) (fo_attachments f) = []"
    using assms(2) new unfolding forum_inv_def ids_ok_def has_iff filter_empty_conv by metis
  then have "filter (\<lambda>a. pa_post_id a = ?k) (fo_attachments f') = map (attachmentRow ?k) (enumerate 0 (pq_Attachments req))"
    by (simp add: f' postedForum_def filter_map o_def)
  then have as: "readPostAttachments ?k f' = pq_Attachments req"
    unfolding readPostAttachments_def by (simp only: sort_positions [OF positions_enumerate] attachments_read)
  have at: "po_created_at (newPost e req ?key project rv) = env_clock e 0" "po_kind (newPost e req ?key project rv) = pq_Kind req"
    "po_title (newPost e req ?key project rv) = pq_Title req" "po_body (newPost e req ?key project rv) = pq_Body req"
    "po_basis (newPost e req ?key project rv) = pq_Basis req" "po_ref (newPost e req ?key project rv) = pq_Ref req"
    by (simp_all add: newPost_def)
  show ?thesis unfolding postByRequest_def found by (simp add: postedRecord_def at as ms v)
qed

lemma comment_recorded:
  assumes "comment_commits e req project f v f'" "forum_inv f" "cq_RequestID req \<noteq> ''''"
  shows "\<exists>c. commentByRequest (commentKey req) f' = Some (c, cq_MentionPrincipals req, \<lparr>wr_ID = newID e 0 ''R-'', wr_Revision = v\<rparr>) \<and>
    sameComment c (cq_MentionPrincipals req) req"
proof -
  let ?k = "newID e 0 ''R-''" and ?key = "commentKey req"
  from assms(1) obtain rv db where v: "v = orZero rv" and f': "f' = commentedForum e req project rv db f"
    and new: "\<not> hasComment f ?k" and fresh: "?key \<noteq> '''' \<longrightarrow> (\<forall>p \<in> set (fo_comments f). co_request_id p \<noteq> Some ?key)"
    unfolding comment_commits_def by blast
  have key: "?key \<noteq> ''''" by (rule key_nonempty [OF assms(3)])
  then have "find (\<lambda>p. co_request_id p = Some ?key) (fo_comments f) = None" using fresh by (simp add: find_None_iff_all)
  then have found: "find (\<lambda>p. co_request_id p = Some ?key) (fo_comments f') = Some (newComment e req project rv)"
    using key by (simp add: f' commentedForum_def find_append nullif_def)
  have "mentionsOf ''comment'' ?k (fo_mentions f) = []" using assms(2) new by (intro no_mentions_of_new) (auto simp: forum_inv_def)
  then have "mentionsOf ''comment'' ?k (fo_mentions f') = map (mentionRow (commentCtx e req)) (enumerate 0 (cq_MentionPrincipals req))"
    by (simp add: f' commentedForum_def mentionsOf_append)
  then have ms: "map mt_Principal (readContentMentions ''comment'' ?k f') = cq_MentionPrincipals req"
    unfolding read_principals by (simp only: sort_positions [OF mention_positions] mention_principals)
  have "sameComment (newComment e req project rv) (cq_MentionPrincipals req) req" by (simp add: sameComment_def newComment_def)
  then show ?thesis unfolding commentByRequest_def found using ms v by simp
qed

lemma state_recorded:
  assumes "state_commits e req project f v f'" "stateKey req \<noteq> ''''"
  shows "\<exists>r. postStateByRequest (stateKey req) f' = Some (r, \<lparr>wr_ID = newID e 0 ''PS-'', wr_Revision = v\<rparr>) \<and> samePostState r req"
proof -
  from assms obtain rv where v: "v = orZero rv" and f': "fo_state_events f' = fo_state_events f @ [newState e req project rv]"
    and fresh: "\<forall>r \<in> set (fo_state_events f). sv_request_id r \<noteq> Some (stateKey req)" unfolding state_commits_def by fastforce
  have "find (\<lambda>r. sv_request_id r = Some (stateKey req)) (fo_state_events f) = None" using fresh by (simp add: find_None_iff_all)
  then have "find (\<lambda>r. sv_request_id r = Some (stateKey req)) (fo_state_events f') = Some (newState e req project rv)"
    using assms(2) by (simp add: f' find_append nullif_def)
  moreover have "samePostState (newState e req project rv) req" by (simp add: samePostState_def newState_def nullif_def)
  moreover have "sv_id (newState e req project rv) = newID e 0 ''PS-''" by (simp add: newState_def)
  ultimately show ?thesis by (simp add: postStateByRequest_def v)
qed

lemma scope_recorded:
  assumes "scope_commits e req f f'"
  shows "perspectiveScopeByRequest (scopeKey req) f' =
      Some (newScopeEvent e req (xq_BaseRevision req), \<lparr>wr_ID = newID e 0 ''PSC-'', wr_Revision = xq_BaseRevision req + 1\<rparr>)"
    "samePerspectiveScope (newScopeEvent e req (xq_BaseRevision req)) req"
proof -
  have "find (\<lambda>r. sp_request_id r = scopeKey req) (fo_scope_events f) = None"
    using assms by (auto simp: scope_commits_def find_None_iff_all)
  moreover have "fo_scope_events f' = fo_scope_events f @ [newScopeEvent e req (xq_BaseRevision req)]" using assms by (simp add: scope_commits_def)
  ultimately show "perspectiveScopeByRequest (scopeKey req) f' =
      Some (newScopeEvent e req (xq_BaseRevision req), \<lparr>wr_ID = newID e 0 ''PSC-'', wr_Revision = xq_BaseRevision req + 1\<rparr>)"
    by (simp add: perspectiveScopeByRequest_def find_append)
qed (simp add: samePerspectiveScope_def)

lemma read_recorded:
  assumes "read_commits e req f f'"
  shows "\<exists>r. find (\<lambda>r. nr_request_id r = readKey req) (fo_receipts f') = Some r \<and> nr_id r = newID e 0 ''NR-'' \<and>
    nr_notification_id r = mq_NotificationID req"
proof -
  from assms obtain r where "fo_receipts f' = fo_receipts f @ [r]" "nr_id r = newID e 0 ''NR-''" "nr_notification_id r = mq_NotificationID req"
    "nr_request_id r = readKey req" "\<forall>r \<in> set (fo_receipts f). nr_request_id r \<noteq> readKey req" unfolding read_commits_def by auto
  moreover from this have "find (\<lambda>r. nr_request_id r = readKey req) (fo_receipts f) = None" by (simp add: find_None_iff_all)
  ultimately show ?thesis by (simp add: find_append)
qed

section \<open>The same request again\<close>

lemma Post_admitted:
  assumes "Post lb e req snap f = (Inr r, f')" "normalizeMentionPrincipals (pq_MentionPrincipals req) [] = Some ms"
  shows "Post lb e' req snap' g = postAdmitted e' (req\<lparr>pq_MentionPrincipals := ms\<rparr>) snap' g" "pq_RequestID req \<noteq> ''''"
proof -
  let ?bad = "pq_TopicID req = '''' \<or> pq_Kind req \<notin> PostKinds \<or> pq_Title req = '''' \<or> pq_Body req = '''' \<or> pq_Basis req = '''' \<or>
    pq_SessionID req = '''' \<or> pq_RequestID req = '''' \<or> \<not> validPostAttachments lb (pq_Attachments req)"
  let ?off = "pq_Kind req = ''topic_request'' \<and> pq_TopicID req \<noteq> TopicGeneral"
  have eq: "Post lb e'' req s h = (if ?bad then (Inl ErrInvalid, h) else if ?off then (Inl ErrInvalid, h)
      else postAdmitted e'' (req\<lparr>pq_MentionPrincipals := ms\<rparr>) s h)" for e'' s h by (simp add: Post_def assms(2) Let_def)
  have "\<not> ?bad" "\<not> ?off" using assms(1) unfolding eq by (auto split: if_split_asm)
  then show "Post lb e' req snap' g = postAdmitted e' (req\<lparr>pq_MentionPrincipals := ms\<rparr>) snap' g" "pq_RequestID req \<noteq> ''''"
    unfolding eq by (simp_all only: if_False simp_thms de_Morgan_disj)
qed

lemma Post_again:
  assumes first: "Post lb e req snap f = (Inr r, f')" and inv: "forum_inv f" "forum_inv snap" "(live_step lb hash)\<^sup>*\<^sup>* snap f"
    and later: "(live_step lb hash)\<^sup>*\<^sup>* f' s"
  shows "Post lb e' req s g = (Inr r, g)"
  using first
proof (cases rule: Post_cases)
  case (committed ms project v)
  let ?req = "req\<lparr>pq_MentionPrincipals := ms\<rparr>"
  note adm = Post_admitted [OF first committed(1)]
  have "postByRequest (postKey req) (pq_RequestID req) f' = Some (postedRecord e ?req project (Some v))"
    using post_recorded [OF committed(3) inv(1)] adm(2) by simp
  then have "postByRequest (postKey req) (pq_RequestID req) s = Some (postedRecord e ?req project (Some v))"
    using posts.entry_permanent [OF later, of "(postKey req, pq_RequestID req)"] by simp
  moreover have "samePost (postedRecord e ?req project (Some v)) ?req" by (simp add: samePost_def postedRecord_def)
  ultimately show ?thesis using committed(2) key_nonempty [OF adm(2)] unfolding adm(1) by (simp add: postAdmitted_def Let_def)
next
  case (replayed ms prior s0)
  note adm = Post_admitted [OF first replayed(1)]
  have "(live_step lb hash)\<^sup>*\<^sup>* s0 s" using replayed(3,4) inv(3) later by (auto intro: rtranclp_trans)
  then have "postByRequest (postKey req) (pq_RequestID req) s = Some prior"
    using posts.entry_permanent [of lb hash s0 s "(postKey req, pq_RequestID req)"] replayed(5) by simp
  then show ?thesis using replayed(2,6) key_nonempty [OF adm(2)] unfolding adm(1) by (simp add: postAdmitted_def Let_def)
qed simp

lemma Comment_admitted:
  assumes "Comment e req snap f = (Inr r, f')" "normalizeMentionPrincipals (cq_MentionPrincipals req) (cq_MentionSessionIDs req) = Some ms"
  shows "Comment e' req snap' g = commentAdmitted e' (normalComment ms req) snap' g" "cq_RequestID req \<noteq> ''''"
proof -
  let ?bad = "cq_PostID req = '''' \<or> cq_Body req = '''' \<or> cq_Intent req \<notin> CommentIntents \<or> cq_SessionID req = '''' \<or> cq_RequestID req = ''''"
  have eq: "Comment e'' req s h = (if ?bad then (Inl ErrInvalid, h) else commentAdmitted e'' (normalComment ms req) s h)" for e'' s h
    by (simp add: Comment_def assms(2) Let_def normalComment_def)
  have "\<not> ?bad" using assms(1) unfolding eq by (auto split: if_split_asm)
  then show "Comment e' req snap' g = commentAdmitted e' (normalComment ms req) snap' g" "cq_RequestID req \<noteq> ''''"
    unfolding eq by (simp_all only: if_False simp_thms de_Morgan_disj)
qed

lemma Comment_again:
  assumes first: "Comment e req snap f = (Inr r, f')" and inv: "forum_inv f" "(live_step lb hash)\<^sup>*\<^sup>* snap f"
    and later: "(live_step lb hash)\<^sup>*\<^sup>* f' s"
  shows "Comment e' req s g = (Inr r, g)"
  using first
proof (cases rule: Comment_cases)
  case (committed ms predicate p v)
  note adm = Comment_admitted [OF first committed(1)]
  from comment_recorded [OF committed(3) inv(1)] adm(2) obtain c where
    c: "commentByRequest (commentKey req) f' = Some (c, ms, r)" "sameComment c ms (normalComment ms req)" using committed(2) by auto
  have "commentByRequest (commentKey req) s = Some (c, ms, r)" by (rule comments.entry_permanent [OF later c(1)])
  with c(2) key_nonempty [OF adm(2)] show ?thesis unfolding adm(1) by (simp add: commentAdmitted_def Let_def)
next
  case (replayed ms prior pms result s0)
  note adm = Comment_admitted [OF first replayed(1)]
  have "(live_step lb hash)\<^sup>*\<^sup>* s0 s" using replayed(3,4) inv(2) later by (auto intro: rtranclp_trans)
  then have "commentByRequest (commentKey req) s = Some (prior, pms, result)" using comments.entry_permanent replayed(5) by blast
  then show ?thesis using replayed(2,6) key_nonempty [OF adm(2)] unfolding adm(1) by (simp add: commentAdmitted_def Let_def)
qed simp


lemma SetPostState_again:
  assumes first: "SetPostState e req snap f = (Inr r, f')" and key: "sq_RequestID req \<noteq> ''''" and inv: "(live_step lb hash)\<^sup>*\<^sup>* snap f"
    and later: "(live_step lb hash)\<^sup>*\<^sup>* f' s"
  shows "SetPostState e' req s g = (Inr r, g)"
proof -
  have key': "stateKey req \<noteq> ''''" by (rule key_nonempty [OF key])
  let ?bad = "sq_PostID req = '''' \<or> sq_SessionID req = '''' \<or> sq_State req \<notin> {''open'', ''resolved'', ''superseded''} \<or>
    (sq_State req = ''superseded'') \<noteq> (sq_SupersededBy req \<noteq> '''') \<or> sq_PostID req = sq_SupersededBy req"
  have ok: "\<not> ?bad"
  proof
    assume ?bad
    then have "SetPostState e req snap f = (Inl ErrInvalid, f)" unfolding SetPostState_def by (rule if_P)
    with first show False by simp
  qed
  have "\<exists>q. postStateByRequest (stateKey req) s = Some (q, r) \<and> samePostState q req"
    using first
  proof (cases rule: SetPostState_cases)
    case (committed p v)
    with state_recorded [OF committed(2) key'] states.entry_permanent [OF later] show ?thesis by auto
  next
    case (replayed prior result s0)
    have "(live_step lb hash)\<^sup>*\<^sup>* s0 s" using replayed(2,3) inv later by (auto intro: rtranclp_trans)
    then show ?thesis using states.entry_permanent replayed(1,5,6) by auto
  qed simp
  then show ?thesis using key' unfolding SetPostState_def if_not_P [OF ok] Let_def by auto
qed

lemma SetPerspectiveScope_again:
  assumes first: "SetPerspectiveScope e req snap f = (Inr r, f')" and inv: "(live_step lb hash)\<^sup>*\<^sup>* snap f"
    and later: "(live_step lb hash)\<^sup>*\<^sup>* f' s"
  shows "SetPerspectiveScope e' req s g = (Inr r, g)"
proof -
  let ?bad = "xq_PostID req = '''' \<or> xq_SessionID req = '''' \<or> xq_Scope req \<notin> {''closed'', ''project'', ''commons''} \<or>
    xq_BaseRevision req < 0 \<or> xq_RequestID req = ''''"
  have ok: "\<not> ?bad"
  proof
    assume ?bad
    then have "SetPerspectiveScope e req snap f = (Inl ErrInvalid, f)" unfolding SetPerspectiveScope_def by (rule if_P)
    with first show False by simp
  qed
  have "\<exists>q. perspectiveScopeByRequest (scopeKey req) s = Some (q, r) \<and> samePerspectiveScope q req"
    using first
  proof (cases rule: SetPerspectiveScope_cases)
    case committed
    with scope_recorded [OF committed(2)] scopes.entry_permanent [OF later] show ?thesis by auto
  next
    case (replayed prior result)
    have "(live_step lb hash)\<^sup>*\<^sup>* snap s" using replayed(2) inv later by (auto intro: rtranclp_trans)
    then show ?thesis using scopes.entry_permanent replayed(1,3,4) by auto
  qed simp
  then show ?thesis unfolding SetPerspectiveScope_def if_not_P [OF ok] Let_def by auto
qed

lemma MarkRead_again:
  assumes first: "MarkHumanNotificationRead e req f = (Inr r, f')" and later: "(live_step lb hash)\<^sup>*\<^sup>* f' g"
  shows "MarkHumanNotificationRead e' req g = (Inr r, g)"
proof -
  let ?bad = "mq_NotificationID req = '''' \<or> mq_RecipientPrincipal req \<noteq> HumanLocalPrincipal \<or> mq_ActorID req = '''' \<or> mq_RequestID req = ''''"
  have ok: "\<not> ?bad"
  proof
    assume ?bad
    then have "MarkHumanNotificationRead e req f = (Inl ErrInvalid, f)" unfolding MarkHumanNotificationRead_def by (rule if_P)
    with first show False by simp
  qed
  have "\<exists>q. find (\<lambda>x. nr_request_id x = readKey req) (fo_receipts g) = Some q \<and> nr_notification_id q = mq_NotificationID req \<and>
      r = \<lparr>wr_ID = nr_id q, wr_Revision = 0\<rparr>"
    using first
  proof (cases rule: MarkHumanNotificationRead_cases)
    case committed
    with read_recorded [OF committed(2)] receipts.entry_permanent [OF later] show ?thesis by auto
  next
    case (replayed prior)
    with receipts.entry_permanent [OF later] show ?thesis by auto
  qed simp
  then show ?thesis unfolding MarkHumanNotificationRead_def if_not_P [OF ok] Let_def by auto
qed

lemma map_sum_Inr: "map_sum id g x = Inr w \<longleftrightarrow> (\<exists>y. x = Inr y \<and> w = g y)"
  by (cases x) auto

text \<open>
  Property C10 (a repeated write answers as the first). In any reachable forum, when a post, a comment, a change of
  state or scope or a read receipt with a request key has been answered with an identifier and a revision, the same
  request sent after any further operations, whatever it read before its transaction, is given the same answer and
  changes nothing.
\<close>

theorem forum_write_replays:
  assumes "(forum_steps lb hash)\<^sup>*\<^sup>* empty_forum f" and "keyed a"
    and "case readBefore a of None \<Rightarrow> True | Some snap0 \<Rightarrow> (forum_steps lb hash)\<^sup>*\<^sup>* empty_forum snap0 \<and> (forum_steps lb hash)\<^sup>*\<^sup>* snap0 f"
    and "perform lb a f = (Inr w, f')"
    and "(forum_steps lb hash)\<^sup>*\<^sup>* f' snap" "(forum_steps lb hash)\<^sup>*\<^sup>* f' g"
  shows "perform lb (again e snap a) g = (Inr w, g)"
proof -
  have inv: "forum_inv f" by (rule forum.reachable_inv [OF refl assms(1)])
  have "forum_step lb hash a f f'" using assms(2,4)
    by (cases a) (auto split: prod.splits intro: step_post step_comment step_state step_scope step_read)
  then have inv': "forum_inv f'" using forum_step_inv inv by blast
  have s: "(live_step lb hash)\<^sup>*\<^sup>* f' snap" and g: "(live_step lb hash)\<^sup>*\<^sup>* f' g" using live_steps assms(5,6) inv' by blast+
  have before: "forum_inv snap0 \<and> (live_step lb hash)\<^sup>*\<^sup>* snap0 f" if "readBefore a = Some snap0" for snap0
    using assms(3) that forum.reachable_inv [OF refl, of lb hash snap0] live_steps [of lb hash snap0 f] by simp
  show ?thesis
  proof (cases a)
    case (PostOp e0 req snap0)
    with assms(4) obtain r where r: "Post lb e0 req snap0 f = (Inr r, f')" "w = (ps_ID r, ps_Revision r)"
      by (auto simp: map_sum_Inr split: prod.splits)
    with Post_again [OF r(1) inv _ _ s] before PostOp show ?thesis by simp
  next
    case (CommentOp e0 req snap0)
    with assms(4) obtain r where r: "Comment e0 req snap0 f = (Inr r, f')" "w = (wr_ID r, wr_Revision r)"
      by (auto simp: map_sum_Inr split: prod.splits)
    with Comment_again [OF r(1) inv _ s] before CommentOp show ?thesis by simp
  next
    case (StateOp e0 req snap0)
    with assms(4) obtain r where r: "SetPostState e0 req snap0 f = (Inr r, f')" "w = (wr_ID r, wr_Revision r)"
      by (auto simp: map_sum_Inr split: prod.splits)
    with SetPostState_again [OF r(1) _ _ s] before StateOp assms(2) show ?thesis by simp
  next
    case (ScopeOp e0 req snap0)
    with assms(4) obtain r where r: "SetPerspectiveScope e0 req snap0 f = (Inr r, f')" "w = (wr_ID r, wr_Revision r)"
      by (auto simp: map_sum_Inr split: prod.splits)
    with SetPerspectiveScope_again [OF r(1) _ s] before ScopeOp show ?thesis by simp
  next
    case (ReadOp e0 req)
    with assms(4) obtain r where r: "MarkHumanNotificationRead e0 req f = (Inr r, f')" "w = (wr_ID r, wr_Revision r)"
      by (auto simp: map_sum_Inr split: prod.splits)
    with MarkRead_again [OF r(1) g] ReadOp show ?thesis by simp
  qed (use assms(2) in simp_all)
qed

end
