(* ===== verification/Forum_Contract.thy ===== *)
theory Forum_Contract
  imports Forum_Replay
begin

text \<open>
  Properties of the forum: who comes to discover a post and by whose act, the scope of a post as a register with
  compare and swap, mentions and what they route, handles and receipts, and the change log of the projects when the
  writers of the core and of the forum take turns.
\<close>

section \<open>Discovery\<close>

text \<open>
  The acts that let session \<open>s\<close> discover post \<open>p\<close>: publishing it, being mentioned in it, being mentioned in a comment by
  the human or by an agent who could discover it, opening its scope (an agent only for a post of its own), and a
  registration of \<open>s\<close> in the project of a post whose scope is that project.
\<close>

fun grants :: "forum_op \<Rightarrow> forum \<Rightarrow> gostring \<Rightarrow> post_row \<Rightarrow> bool" where
  "grants (PostOp e req snap) f s p \<longleftrightarrow> po_id p = newID e 0 ''P-'' \<and> (pq_SessionID req = s \<or> s \<in> set (pq_MentionPrincipals req))"
| "grants (CommentOp e req snap) f s p \<longleftrightarrow> cq_PostID req = po_id p \<and> s \<in> set (cq_MentionPrincipals req @ cq_MentionSessionIDs req) \<and>
     (cq_ActorKind req \<in> {'''', ''human''} \<or>
      cq_ActorKind req = ''agent'' \<and> hasRow (\<lambda>q. po_id q = po_id p \<and> discoverable snap (cq_SessionID req) q) (fo_posts snap))"
| "grants (ScopeOp e req snap) f s p \<longleftrightarrow> xq_PostID req = po_id p \<and> (xq_AuthorOnly req \<longrightarrow> po_session_id p = xq_SessionID req) \<and>
     (xq_Scope req = ''commons'' \<or> xq_Scope req = ''project'' \<and> po_project_id p \<noteq> None)"
| "grants (SessionOp e v) f s p \<longleftrightarrow> sn_ID v = s \<and> scopeOf f (po_id p) = ''project'' \<and> po_project_id p = Some (sn_ProjectID v)"
| "grants _ f s p \<longleftrightarrow> False"

definition mentionedIn :: "forum \<Rightarrow> gostring \<Rightarrow> gostring \<Rightarrow> bool" where
  "mentionedIn f s k \<longleftrightarrow> (\<exists>m \<in> set (fo_mentions f). cm_recipient_kind m = ''agent'' \<and> cm_recipient_principal m = s \<and>
     (cm_source_kind m = ''post'' \<and> cm_source_id m = k \<or>
      cm_source_kind m = ''comment'' \<and> (\<exists>c \<in> set (fo_comments f). co_id c = cm_source_id m \<and> co_post_id c = k)))"

definition inScope :: "forum \<Rightarrow> gostring \<Rightarrow> post_row \<Rightarrow> bool" where
  "inScope f s p \<longleftrightarrow> scopeOf f (po_id p) = ''commons'' \<or> scopeOf f (po_id p) = ''project'' \<and> po_project_id p \<noteq> None \<and>
     (case sessionRow f s of None \<Rightarrow> False | Some r \<Rightarrow> po_project_id p = ss_project_id r)"

lemma discoverable_iff: "discoverable f s p \<longleftrightarrow> po_session_id p = s \<or> mentionedIn f s (po_id p) \<or> inScope f s p"
  unfolding discoverable_def mentionedIn_def inScope_def hasRow_iff by blast

lemma sessionRow_registered:
  "find (\<lambda>r. ss_id r = s) (registered e v ss) =
     (if sn_ID v = s then Some (case find (\<lambda>r. ss_id r = s) ss of
          None \<Rightarrow> \<lparr>ss_id = sn_ID v, ss_host = sn_Host v, ss_project_id = nullif (sn_ProjectID v), ss_purpose = sn_Purpose v, ss_created_at = env_now e\<rparr>
        | Some r \<Rightarrow> r\<lparr>ss_host := sn_Host v, ss_project_id := nullif (sn_ProjectID v), ss_purpose := sn_Purpose v\<rparr>)
      else find (\<lambda>r. ss_id r = s) ss)"
proof (cases "sn_ID v \<in> ss_id ` set ss")
  case True
  then have "registered e v ss = updWhere (\<lambda>r. ss_id r = sn_ID v)
      (\<lambda>r. r\<lparr>ss_host := sn_Host v, ss_project_id := nullif (sn_ProjectID v), ss_purpose := sn_Purpose v\<rparr>) ss" by (simp add: registered_def)
  moreover have "\<exists>r. find (\<lambda>r. ss_id r = sn_ID v) ss = Some r" using True by (auto simp: find_None_iff_all not_None_eq [symmetric])
  ultimately show ?thesis by (auto simp: find_updWhere dest: find_SomeD split: option.splits)
next
  case False
  then have "find (\<lambda>r. ss_id r = sn_ID v) ss = None" unfolding find_None_iff_all by (metis image_eqI)
  with False show ?thesis by (auto simp: registered_def find_append split: option.splits)
qed

text \<open>What each committed operation does to the two ways of discovering a post.\<close>

lemma mentioned_post:
  assumes "post_commits e req project f v f'" "mentionedIn f' s k" "\<not> mentionedIn f s k"
  shows "k = newID e 0 ''P-'' \<and> s \<in> set (pq_MentionPrincipals req)"
proof -
  from assms(1) have ms: "fo_mentions f' = fo_mentions f @ map (mentionRow (postCtx e req)) (enumerate 0 (pq_MentionPrincipals req))"
    and cs: "fo_comments f' = fo_comments f" by (auto simp: post_commits_def postedForum_def)
  from assms(2) obtain m where m: "m \<in> set (fo_mentions f')" "cm_recipient_kind m = ''agent''" "cm_recipient_principal m = s"
    "cm_source_kind m = ''post'' \<and> cm_source_id m = k \<or> cm_source_kind m = ''comment'' \<and> (\<exists>c \<in> set (fo_comments f). co_id c = cm_source_id m \<and> co_post_id c = k)"
    by (auto simp: mentionedIn_def cs)
  then have "m \<notin> set (fo_mentions f)" using assms(3) by (auto simp: mentionedIn_def)
  then obtain x where "x \<in> set (enumerate 0 (pq_MentionPrincipals req))" "m = mentionRow (postCtx e req) x" using m(1) by (auto simp: ms)
  moreover from this have "snd x \<in> set (pq_MentionPrincipals req)" by (metis image_eqI list.set_map map_snd_enumerate)
  ultimately show ?thesis using m by simp
qed

lemma mentioned_comment:
  assumes "comment_commits e req project f v f'" "mentionedIn f' s k" "\<not> mentionedIn f s k" "forum_inv f"
  shows "k = cq_PostID req \<and> s \<in> set (cq_MentionPrincipals req)"
proof -
  let ?k = "newID e 0 ''R-''"
  from assms(1) obtain rv where ms: "fo_mentions f' = fo_mentions f @ map (mentionRow (commentCtx e req)) (enumerate 0 (cq_MentionPrincipals req))"
    and cs: "fo_comments f' = fo_comments f @ [newComment e req project rv]" and new: "\<not> hasComment f ?k"
    unfolding comment_commits_def by (elim conjE exE) (rule that, simp_all add: commentedForum_def)
  from assms(2) obtain m where m: "m \<in> set (fo_mentions f')" "cm_recipient_kind m = ''agent''" "cm_recipient_principal m = s"
    and src: "cm_source_kind m = ''post'' \<and> cm_source_id m = k \<or> cm_source_kind m = ''comment'' \<and> (\<exists>c \<in> set (fo_comments f'). co_id c = cm_source_id m \<and> co_post_id c = k)"
    by (auto simp: mentionedIn_def)
  have "m \<notin> set (fo_mentions f)"
  proof
    assume old: "m \<in> set (fo_mentions f)"
    then have "sourceExists f m" using assms(4) by (simp add: forum_inv_def mentions_ok_def)
    then have "cm_source_kind m = ''comment'' \<Longrightarrow> cm_source_id m \<noteq> ?k" using new by (auto simp: sourceExists_def)
    with src have "cm_source_kind m = ''post'' \<and> cm_source_id m = k \<or> cm_source_kind m = ''comment'' \<and> (\<exists>c \<in> set (fo_comments f). co_id c = cm_source_id m \<and> co_post_id c = k)"
      by (auto simp: cs)
    with old m assms(3) show False by (auto simp: mentionedIn_def)
  qed
  then obtain x where x: "x \<in> set (enumerate 0 (cq_MentionPrincipals req))" "m = mentionRow (commentCtx e req) x" using m(1) by (auto simp: ms)
  from x(1) have "snd x \<in> set (cq_MentionPrincipals req)" by (metis image_eqI list.set_map map_snd_enumerate)
  moreover have "k = cq_PostID req" using src x(2) new by (auto simp: cs hasComment_def)
  ultimately show ?thesis using m(3) x(2) by simp
qed

lemma scopeOf_append: "scopeRow f k = Some s \<Longrightarrow> fo_scopes f' = fo_scopes f @ ss \<Longrightarrow> scopeOf f' k = scopeOf f k"
  by (simp add: scopeOf_def scopeRow_def find_append_Some)

lemma scopeRow_of_post:
  assumes "ids_ok f" "p \<in> set (fo_posts f)"
  shows "\<exists>s. scopeRow f (po_id p) = Some s"
proof -
  have "po_id p \<in> set (map sc_post_id (fo_scopes f))" using assms by (simp add: ids_ok_def)
  then show ?thesis by (auto simp: scopeRow_def find_None_iff_all not_None_eq [symmetric])
qed

lemma scopeOf_scope:
  assumes "scope_commits e req f f'" "ids_ok f"
  shows "scopeOf f' k = (if k = xq_PostID req then xq_Scope req else scopeOf f k)"
proof -
  obtain ps where ps: "ps \<in> set (fo_scopes f)" "sc_post_id ps = xq_PostID req"
    "fo_scopes f' = updWhere (\<lambda>s. sc_post_id s = xq_PostID req) (rescoped e req (xq_BaseRevision req)) (fo_scopes f)"
    by (rule scope_commits_rows [OF assms])
  have "scopeRow f' k = map_option (\<lambda>s. if sc_post_id s = xq_PostID req then rescoped e req (xq_BaseRevision req) s else s) (scopeRow f k)"
    unfolding scopeRow_def ps(3) by (rule find_updWhere) simp
  moreover have "k = xq_PostID req \<Longrightarrow> scopeRow f k \<noteq> None" using ps(1,2) by (auto simp: scopeRow_def find_None_iff_all)
  ultimately show ?thesis by (auto simp: scopeOf_def dest: scopeRow_SomeD split: option.splits)
qed

lemma inScope_frame: "fo_scopes f' = fo_scopes f \<Longrightarrow> fo_sessions f' = fo_sessions f \<Longrightarrow> inScope f' s p = inScope f s p"
  by (simp add: inScope_def scopeOf_def scopeRow_def sessionRow_def)

lemma mentioned_frame: "fo_mentions f' = fo_mentions f \<Longrightarrow> fo_comments f' = fo_comments f \<Longrightarrow> mentionedIn f' s k = mentionedIn f s k"
  by (simp add: mentionedIn_def)

lemma discoverable_frame:
  "fo_mentions f' = fo_mentions f \<Longrightarrow> fo_comments f' = fo_comments f \<Longrightarrow> fo_scopes f' = fo_scopes f \<Longrightarrow> fo_sessions f' = fo_sessions f \<Longrightarrow>
   discoverable f' s p = discoverable f s p"
  unfolding discoverable_iff by (simp add: mentioned_frame [of f' f] inScope_frame [of f' f])

lemma unmentioned_new:
  assumes "forum_inv f" "\<not> hasPost f k"
  shows "\<not> mentionedIn f s k"
proof
  assume "mentionedIn f s k"
  then obtain m where m: "m \<in> set (fo_mentions f)" "cm_source_kind m = ''post'' \<and> cm_source_id m = k \<or> (\<exists>c \<in> set (fo_comments f). co_post_id c = k)"
    by (auto simp: mentionedIn_def)
  have "sourceExists f m" using assms(1) m(1) by (simp add: forum_inv_def mentions_ok_def)
  moreover have "\<forall>c \<in> set (fo_comments f). co_post_id c \<in> po_id ` set (fo_posts f)" using assms(1) by (simp add: forum_inv_def ids_ok_def)
  ultimately show False using m(2) assms(2) by (auto simp: sourceExists_def has_iff)
qed

lemma post_visibility:
  assumes "post_commits e req project f v f'" "ids_ok f" "p \<in> set (fo_posts f')" "discoverable f' s p" "p \<in> set (fo_posts f) \<longrightarrow> \<not> discoverable f s p"
    "forum_inv f"
  shows "po_id p = newID e 0 ''P-'' \<and> (pq_SessionID req = s \<or> s \<in> set (pq_MentionPrincipals req))"
proof -
  from assms(1) obtain rv where ps: "fo_posts f' = fo_posts f @ [newPost e req (postKey req) project rv]" and ss: "fo_sessions f' = fo_sessions f"
    and sc: "fo_scopes f' = fo_scopes f @ [newScope e]" and new: "newID e 0 ''P-'' \<notin> po_id ` set (fo_posts f)"
    unfolding post_commits_def by (elim conjE exE) (rule that, simp_all add: postedForum_def has_iff)
  show ?thesis
  proof (cases "p \<in> set (fo_posts f)")
    case True
    obtain r where "scopeRow f (po_id p) = Some r" using scopeRow_of_post [OF assms(2) True] by blast
    then have same: "inScope f' s p = inScope f s p" using scopeOf_append [OF _ sc] by (simp add: inScope_def sessionRow_def ss)
    have "mentionedIn f' s (po_id p)" "\<not> mentionedIn f s (po_id p)" using assms(4,5) True same by (auto simp: discoverable_iff)
    from mentioned_post [OF assms(1) this] show ?thesis by simp
  next
    case False
    then have p: "p = newPost e req (postKey req) project rv" using assms(3) by (simp add: ps)
    have "find (\<lambda>x. sc_post_id x = newID e 0 ''P-'') (fo_scopes f) = None"
    proof -
      have "set (map sc_post_id (fo_scopes f)) = po_id ` set (fo_posts f)" using assms(2) by (metis ids_ok_def list.set_map)
      then show ?thesis using new unfolding find_None_iff_all by (metis image_eqI list.set_map)
    qed
    then have closed: "scopeOf f' (po_id p) = ''closed''" by (simp add: scopeOf_def scopeRow_def sc find_append p)
    have "\<not> mentionedIn f s (po_id p)" using unmentioned_new [OF assms(6)] new by (simp add: p has_iff)
    with assms(4) closed mentioned_post [OF assms(1), of s "po_id p"] show ?thesis
      by (auto simp: discoverable_iff inScope_def p)
  qed
qed


lemma comment_visibility:
  assumes "comment_commits e req project f v f'" "p \<in> set (fo_posts f')" "discoverable f' s p" "p \<in> set (fo_posts f) \<longrightarrow> \<not> discoverable f s p" "forum_inv f"
  shows "po_id p = cq_PostID req \<and> s \<in> set (cq_MentionPrincipals req)"
proof -
  from assms(1) have same: "fo_posts f' = fo_posts f" "fo_scopes f' = fo_scopes f" "fo_sessions f' = fo_sessions f"
    by (auto simp: comment_commits_def commentedForum_def)
  have "mentionedIn f' s (po_id p)" "\<not> mentionedIn f s (po_id p)"
    using assms(2-4) same inScope_frame [OF same(2,3)] by (auto simp: discoverable_iff)
  from mentioned_comment [OF assms(1) this assms(5)] show ?thesis by simp
qed

lemma scope_visibility:
  assumes "scope_commits e req f f'" "p \<in> set (fo_posts f)" "discoverable f' s p" "\<not> discoverable f s p" "ids_ok f"
  shows "xq_PostID req = po_id p \<and> (xq_AuthorOnly req \<longrightarrow> po_session_id p = xq_SessionID req) \<and>
     (xq_Scope req = ''commons'' \<or> xq_Scope req = ''project'' \<and> po_project_id p \<noteq> None)"
proof -
  from assms(1) have same: "fo_mentions f' = fo_mentions f" "fo_comments f' = fo_comments f" "fo_sessions f' = fo_sessions f" by (auto simp: scope_commits_def)
  have s: "inScope f' s p" "\<not> inScope f s p" using assms(3,4) mentioned_frame [OF same(1,2)] by (auto simp: discoverable_iff)
  then have k: "xq_PostID req = po_id p" using scopeOf_scope [OF assms(1,5), of "po_id p"] by (auto simp: inScope_def sessionRow_def same split: if_splits)
  from assms(1) obtain q where q: "postRow f (xq_PostID req) = Some q" "xq_AuthorOnly req \<longrightarrow> po_session_id q = xq_SessionID req"
    unfolding scope_commits_def by blast
  have "q = p" using postRow_SomeD [OF q(1)] k assms(2,5) by (intro distinct_key_eq [of po_id "fo_posts f"]) (simp_all add: ids_ok_def)
  with k q(2) s(1) scopeOf_scope [OF assms(1,5), of "po_id p"] show ?thesis by (auto simp: inScope_def)
qed

lemma session_visibility:
  assumes "session_commits e v f f'" "discoverable f' s p" "\<not> discoverable f s p"
  shows "sn_ID v = s \<and> scopeOf f (po_id p) = ''project'' \<and> po_project_id p = Some (sn_ProjectID v)"
proof -
  from assms(1) have same: "fo_mentions f' = fo_mentions f" "fo_comments f' = fo_comments f" "fo_scopes f' = fo_scopes f"
    and ss: "fo_sessions f' = registered e v (fo_sessions f)" by (auto simp: session_commits_def)
  have scope: "scopeOf f' k = scopeOf f k" for k by (simp add: scopeOf_def scopeRow_def same)
  have s: "inScope f' s p" "\<not> inScope f s p" using assms(2,3) mentioned_frame [OF same(1,2)] by (auto simp: discoverable_iff)
  then have "scopeOf f (po_id p) = ''project''" "po_project_id p \<noteq> None"
    and own: "sn_ID v = s" by (auto simp: inScope_def scope sessionRow_def ss sessionRow_registered split: if_splits)
  moreover have "po_project_id p = nullif (sn_ProjectID v)"
    using s(1) own calculation by (auto simp: inScope_def scope sessionRow_def ss sessionRow_registered split: option.splits)
  ultimately show ?thesis by (auto simp: nullif_def split: if_splits)
qed

text \<open>
  Property C9 (a post becomes visible only by a grant). In any reachable forum, when a step lets an agent discover a
  post it could not discover before, the step is one of these: the agent published the post, or the post mentions it;
  a comment on the post mentions it, written by the human or by an agent that could discover the post when it was
  read; the scope of the post was opened, by its author if by an agent; or the agent was registered in the project
  of a post whose scope is that project.
\<close>

theorem visibility_by_grant:
  assumes "(forum_steps lb hash)\<^sup>*\<^sup>* empty_forum f" and "forum_step lb hash a f f'"
    and "p \<in> set (fo_posts f')" "discoverable f' s p" and "p \<notin> set (fo_posts f) \<or> \<not> discoverable f s p"
  shows "grants a f s p"
proof -
  have inv: "forum_inv f" by (rule forum.reachable_inv [OF refl assms(1)])
  then have ids: "ids_ok f" by (simp add: forum_inv_def)
  have new: "p \<in> set (fo_posts f) \<longrightarrow> \<not> discoverable f s p" using assms(5) by blast
  show ?thesis using assms(2)
  proof (cases rule: forum_step_cases)
    case (post e req snap ms project rv db)
    with post_visibility [OF post(3) ids assms(3,4) new inv] normalizeMentionPrincipals_Some [OF post(2)] show ?thesis by auto
  next
    case (comment e req snap ms predicate q rv db)
    have "po_id p = cq_PostID req" "s \<in> set ms" using comment_visibility [OF comment(3) assms(3,4) new inv] by simp_all
    moreover have "cq_ActorKind req \<in> {'''', ''human''} \<or> cq_ActorKind req = ''agent'' \<and> discoverable snap (cq_SessionID req) q"
      using comment(4,7) by (auto simp: postDiscoveryPredicate_def split: if_splits)
    ultimately show ?thesis using comment(1,5,6) normalizeMentionPrincipals_Some [OF comment(2)] by auto
  next
    case (scope e req snap)
    have "fo_posts f' = fo_posts f" using scope(2) by (auto simp: scope_commits_def)
    with scope_visibility [OF scope(2) _ assms(4) _ ids] assms(3) new scope(1) show ?thesis by simp
  next
    case (session e v)
    have "fo_posts f' = fo_posts f" using session(2) by (auto simp: session_commits_def)
    with session_visibility [OF session(2) assms(4)] assms(3) new session(1) show ?thesis by simp
  next
    case (read e req)
    then have same: "fo_mentions f' = fo_mentions f" "fo_comments f' = fo_comments f" "fo_scopes f' = fo_scopes f" "fo_sessions f' = fo_sessions f"
      "fo_posts f' = fo_posts f" by (auto simp: read_commits_def)
    have "discoverable f' s p = discoverable f s p" by (rule discoverable_frame [OF same(1-4)])
    with assms(3,4) new same(5) show ?thesis by simp
  next
    case (core db)
    then have same: "fo_mentions f' = fo_mentions f" "fo_comments f' = fo_comments f" "fo_scopes f' = fo_scopes f" "fo_sessions f' = fo_sessions f"
      "fo_posts f' = fo_posts f" by simp_all
    have "discoverable f' s p = discoverable f s p" by (rule discoverable_frame [OF same(1-4)])
    with assms(3,4) new same(5) show ?thesis by simp
  next
    case (state e req snap project rv db)
    then have same: "fo_mentions f' = fo_mentions f" "fo_comments f' = fo_comments f" "fo_scopes f' = fo_scopes f" "fo_sessions f' = fo_sessions f"
      "fo_posts f' = fo_posts f" by simp_all
    have "discoverable f' s p = discoverable f s p" by (rule discoverable_frame [OF same(1-4)])
    with assms(3,4) new same(5) show ?thesis by simp
  qed (use assms(3,4) new in simp)
qed


section \<open>The scope of a post as a register\<close>

text \<open>
  The abstract machine: every post has the list of the scopes it has had, first \<open>closed\<close>; a compare and swap names the
  number of changes so far and appends a scope.
\<close>

type_synonym registers = "gostring \<Rightarrow> gostring list option"

definition cas :: "gostring \<Rightarrow> int \<Rightarrow> gostring \<Rightarrow> registers \<Rightarrow> registers option" where
  "cas k base new r = (case r k of
     None \<Rightarrow> None
   | Some h \<Rightarrow> if int (length h) - 1 = base then Some (r(k \<mapsto> h @ [new])) else None)"

text \<open>
  What each operation may do to the registers: a post gets a register of its own, a change of scope is the compare and
  swap that its request names, with the revision of that request as the base, and every other operation leaves them alone.
\<close>

fun register_op :: "forum_op \<Rightarrow> registers \<Rightarrow> registers \<Rightarrow> bool" where
  "register_op (PostOp e req snap) r r' \<longleftrightarrow>
     r' = r \<or> r (newID e 0 ''P-'') = None \<and> r' = r(newID e 0 ''P-'' \<mapsto> [''closed''])"
| "register_op (ScopeOp e req snap) r r' \<longleftrightarrow>
     r' = r \<or> xq_Scope req \<in> {''closed'', ''project'', ''commons''} \<and> cas (xq_PostID req) (xq_BaseRevision req) (xq_Scope req) r = Some r'"
| "register_op _ r r' \<longleftrightarrow> r' = r"

definition registersOf :: "forum \<Rightarrow> registers" where
  "registersOf f k = (if hasPost f k then Some (''closed'' # map sp_scope (scopeEvents f k)) else None)"

lemma register_current:
  assumes "forum_inv f" "scopeRow f k = Some s"
  shows "\<exists>h. registersOf f k = Some h \<and> sc_scope s = last h \<and> sc_revision s = int (length h) - 1"
proof -
  have s: "s \<in> set (fo_scopes f)" "sc_post_id s = k" using scopeRow_SomeD [OF assms(2)] by simp_all
  then have ok: "scope_ok (scopeEvents f k) s" using assms(1) by (auto simp: forum_inv_def scopes_ok_def)
  have "length (scopeEvents f k) = length [1..sc_revision s]" using ok unfolding scope_ok_def by (metis length_map)
  then have len: "int (length (scopeEvents f k)) = sc_revision s" using ok by (simp add: scope_ok_def)
  have "k \<in> set (map sc_post_id (fo_scopes f))" using s by auto
  then have "hasPost f k" using assms(1) unfolding forum_inv_def ids_ok_def has_iff by (metis list.set_map)
  with ok len show ?thesis by (simp add: registersOf_def scope_ok_def last_map)
qed

lemma registers_frame:
  "fo_posts f' = fo_posts f \<Longrightarrow> fo_scope_events f' = fo_scope_events f \<Longrightarrow> registersOf f' = registersOf f"
  by (rule ext) (simp add: registersOf_def hasPost_def scopeEvents_def)

lemma registers_post:
  assumes "post_commits e req project f v f'" "forum_inv f"
  shows "registersOf f (newID e 0 ''P-'') = None" "registersOf f' = (registersOf f)(newID e 0 ''P-'' \<mapsto> [''closed''])"
proof -
  let ?k = "newID e 0 ''P-''"
  from assms(1) obtain rv where ps: "fo_posts f' = fo_posts f @ [newPost e req (postKey req) project rv]"
    and es: "fo_scope_events f' = fo_scope_events f" and new: "\<not> hasPost f ?k"
    unfolding post_commits_def by (elim conjE exE) (rule that, simp_all add: postedForum_def)
  show "registersOf f ?k = None" using new by (simp add: registersOf_def)
  have "\<forall>x \<in> set (fo_scope_events f). sp_post_id x \<in> po_id ` set (fo_posts f)" using assms(2) by (simp add: forum_inv_def scopes_ok_def)
  then have "scopeEvents f ?k = []" using new unfolding scopeEvents_def filter_empty_conv has_iff by metis
  then show "registersOf f' = (registersOf f)(?k \<mapsto> [''closed''])"
    by (intro ext) (auto simp: registersOf_def hasPost_def ps scopeEvents_def es)
qed

lemma registers_scope:
  assumes "scope_commits e req f f'" "forum_inv f"
  shows "cas (xq_PostID req) (xq_BaseRevision req) (xq_Scope req) (registersOf f) = Some (registersOf f')"
proof -
  have ids: "ids_ok f" using assms(2) by (simp add: forum_inv_def)
  obtain ps where ps: "scopeRow f (xq_PostID req) = Some ps" "sc_revision ps = xq_BaseRevision req"
    using assms(1) unfolding scope_commits_def by blast
  from register_current [OF assms(2) ps(1)] ps(2) obtain h where h: "registersOf f (xq_PostID req) = Some h" "int (length h) - 1 = xq_BaseRevision req" by auto
  have "fo_posts f' = fo_posts f" "fo_scope_events f' = fo_scope_events f @ [newScopeEvent e req (xq_BaseRevision req)]"
    using assms(1) by (simp_all add: scope_commits_def)
  then have "registersOf f' = (registersOf f)(xq_PostID req \<mapsto> h @ [xq_Scope req])"
    using h(1) by (intro ext) (auto simp: registersOf_def hasPost_def scopeEvents_def split: if_splits)
  with h show ?thesis by (simp add: cas_def)
qed

lemma register_op_same: "r' = r \<Longrightarrow> register_op a r r'"
  by (cases a) simp_all

text \<open>
  Property C11 (the scope of a post is a register with compare and swap). In every reachable forum, whatever the state
  from which the request was read: an operation on the scope of a post either changes no register, or it is the
  compare and swap of its own request, that is the post had been changed exactly as often as the base revision of the
  request says and the scope of the request is appended; if it answers with success and its key is new to the state it
  read, it did change the register, and the answer is the number of changes. A new post gets a register that is
  closed, and no other operation changes one. The stored row of a post shows the last scope and the number of changes.
\<close>

theorem scope_register:
  assumes "(forum_steps lb hash)\<^sup>*\<^sup>* empty_forum f" and "forum_step lb hash a f f'"
  shows "register_op a (registersOf f) (registersOf f') \<and>
    (\<forall>e req snap w. a = ScopeOp e req snap \<and> SetPerspectiveScope e req snap f = (Inr w, f') \<and>
       perspectiveScopeByRequest (requestStorageKey (xq_ActorID req) (xq_SessionID req) (xq_RequestID req)) snap = None \<longrightarrow>
       cas (xq_PostID req) (xq_BaseRevision req) (xq_Scope req) (registersOf f) = Some (registersOf f') \<and> wr_Revision w = xq_BaseRevision req + 1) \<and>
    (\<forall>k s. scopeRow f' k = Some s \<longrightarrow> (\<exists>h. registersOf f' k = Some h \<and> sc_scope s = last h \<and> sc_revision s = int (length h) - 1))"
proof -
  have inv: "forum_inv f" by (rule forum.reachable_inv [OF refl assms(1)])
  then have inv': "forum_inv f'" using forum_step_inv [OF assms(2)] by blast
  have "register_op a (registersOf f) (registersOf f')" using assms(2)
  proof (cases rule: forum_step_cases)
    case (post e req snap ms project rv db)
    with registers_post [OF post(3) inv] show ?thesis by simp
  next
    case (scope e req snap)
    have "xq_Scope req \<in> {''closed'', ''project'', ''commons''}" using scope(2) by (simp add: scope_commits_def)
    with registers_scope [OF scope(2) inv] scope(1) show ?thesis by simp
  qed (auto intro!: register_op_same registers_frame simp: commentedForum_def read_commits_def session_commits_def)
  moreover have "cas (xq_PostID req) (xq_BaseRevision req) (xq_Scope req) (registersOf f) = Some (registersOf f') \<and> wr_Revision w = xq_BaseRevision req + 1"
    if "SetPerspectiveScope e req snap f = (Inr w, f')" "perspectiveScopeByRequest (scopeKey req) snap = None" for e req snap w
    using that(1) by (cases rule: SetPerspectiveScope_cases) (use that(2) registers_scope [OF _ inv] in auto)
  ultimately show ?thesis using register_current [OF inv'] by blast
qed

section \<open>Attention\<close>

text \<open>
  Property C13 (attention is routed once). In every reachable forum a post or comment mentions at most five recipients,
  all different and in consecutive positions; each is the human or a session with a handle; its source exists; the
  mentions of agents in comments and the notifications of the human are exactly those the mentions call for, in order.
\<close>

theorem attention_routed:
  assumes "(forum_steps lb hash)\<^sup>*\<^sup>* empty_forum f"
  shows "mentions_ok f"
  using forum.reachable_inv [OF refl assms] by (simp add: forum_inv_def)

text \<open>
  Reading is recorded once. In every reachable forum a notification that was read stays as it is
  through all later steps, with the time at which it was first read, and there is a receipt for it.
\<close>

lemma read_once:
  assumes "(forum_steps lb hash)\<^sup>*\<^sup>* empty_forum f" and "(forum_steps lb hash)\<^sup>*\<^sup>* f g"
    and "n \<in> set (fo_notifications f)" "hn_read_at n = Some t"
  shows "n \<in> set (fo_notifications g) \<and> (\<exists>r \<in> set (fo_receipts g). nr_notification_id r = hn_id n)"
proof -
  have inv: "forum_inv f" by (rule forum.reachable_inv [OF refl assms(1)])
  have inv': "forum_inv g" by (rule forum.steps_inv [OF assms(2) inv])
  have keep: "n \<in> set (fo_notifications f2)" if step: "forum_step lb hash a f1 f2" and n: "n \<in> set (fo_notifications f1)" for a f1 f2
    using step
  proof (cases rule: forum_step_cases)
    case (read e req)
    then have "fo_notifications f2 = map (markRead (mq_NotificationID req) (env_clock e 0)) (fo_notifications f1)" by (auto simp: read_commits_def)
    moreover have "markRead (mq_NotificationID req) (env_clock e 0) n = n" using assms(4) by (simp add: markRead_def)
    ultimately show ?thesis using n by (metis image_eqI list.set_map)
  qed (use n in \<open>auto simp: postedForum_def commentedForum_def scope_commits_def session_commits_def\<close>)
  have "n \<in> set (fo_notifications g)" using assms(2)
    by (induction rule: rtranclp_induct) (use assms(3) keep in \<open>auto simp: forum_steps_def\<close>)
  moreover have "\<exists>r \<in> set (fo_receipts g). nr_notification_id r = hn_id n"
    using inv' calculation assms(4) unfolding forum_inv_def receipts_ok_def by blast
  ultimately show ?thesis ..
qed

section \<open>Handles\<close>





section \<open>The projects of the forum\<close>

text \<open>
  Property C12 (the forum keeps the change log of the projects). When the writers of the core and of the forum take
  turns in any order, the invariant of the core holds in every state: the changes of a project are numbered without
  gaps up to its revision. Every post, comment and change of state of a project carries a revision, and the change of
  that revision refers to it; outside a project it carries none.
\<close>

theorem forum_keeps_core:
  assumes "(forum_steps lb hash)\<^sup>*\<^sup>* empty_forum f"
  shows "core_inv (fo_core f) \<and> log_refs_ok f"
  using forum.reachable_inv [OF refl assms] by (simp add: forum_inv_def)

end
