(* ===== verification/Forum_Feed.thy ===== *)
theory Forum_Feed
  imports Forum_Replay
begin

text \<open>
  The readers of the forum: the feed of posts, a thread with its comments, a single comment and the notifications of
  the human (\<^verbatim>\<open>store/posts.go\<close>, \<^verbatim>\<open>comments.go\<close>, \<^verbatim>\<open>notifications.go\<close>), and the service that hands them out in pages
  (\<^verbatim>\<open>application/posts.go\<close>, \<^verbatim>\<open>comments.go\<close>, \<^verbatim>\<open>notifications.go\<close>, the cursors of \<^verbatim>\<open>browse.go\<close>).
\<close>

section \<open>Library\<close>

text \<open>
  SQLite's \<^verbatim>\<open>julianday\<close> of a stored time, of which the queries use the order only (so an integer stands for it), the
  match of a search text, as \<^verbatim>\<open>ftsQuery\<close> quotes it, against a search document, and the encoding of a cursor (JSON and
  base64). A search text that is trimmed and not empty has a word, so \<^verbatim>\<open>ftsQuery\<close> does not refuse it. A query orders
  text by its bytes.
\<close>

record opaqueCursor =
  oc_Version :: int
  oc_Resource :: gostring
  oc_Time :: "time option"
  oc_Text :: gostring
  oc_ID :: gostring

record feed_lib =
  fl_julianday :: "time \<Rightarrow> int"
  fl_match :: "gostring \<Rightarrow> search_row \<Rightarrow> bool"
  fl_encode :: "opaqueCursor \<Rightarrow> gostring"
  fl_decode :: "gostring \<Rightarrow> opaqueCursor option"

record BrowseCursor =
  bc_Time :: time
  bc_Text :: gostring
  bc_ID :: gostring

definition encodeCursor :: "feed_lib \<Rightarrow> gostring \<Rightarrow> BrowseCursor \<Rightarrow> gostring" where
  "encodeCursor lb resource cursor =
     fl_encode lb \<lparr>oc_Version = 1, oc_Resource = resource, oc_Time = (if bc_Time cursor = zeroTime then None else Some (bc_Time cursor)),
       oc_Text = bc_Text cursor, oc_ID = bc_ID cursor\<rparr>"

definition decodeCursor :: "feed_lib \<Rightarrow> gostring \<Rightarrow> gostring \<Rightarrow> go_error + BrowseCursor option" where
  "decodeCursor lb resource raw =
     (if raw = '''' then Inr None
      else if length raw > 512 then Inl ErrInvalid
      else case fl_decode lb raw of
        None \<Rightarrow> Inl ErrInvalid
      | Some w \<Rightarrow>
          if oc_Version w \<noteq> 1 \<or> oc_Resource w \<noteq> resource \<or> oc_ID w = '''' then Inl ErrInvalid
          else Inr (Some \<lparr>bc_Time = (case oc_Time w of None \<Rightarrow> zeroTime | Some t \<Rightarrow> t), bc_Text = oc_Text w, bc_ID = oc_ID w\<rparr>))"

definition boundedHomeValue :: "gostring \<Rightarrow> nat \<Rightarrow> bool" where
  "boundedHomeValue value limit \<longleftrightarrow> value \<noteq> '''' \<and> length value \<le> limit \<and> TrimSpace value = value"

section \<open>The feed of the store\<close>

record PostFilters =
  pf_Search :: gostring
  pf_TopicID :: gostring
  pf_ProjectID :: gostring
  pf_Kind :: gostring
  pf_CreatedFrom :: "time option"
  pf_CreatedTo :: "time option"

record PostBrowseQuery =
  bq_Filters :: PostFilters
  bq_After :: "BrowseCursor option"
  bq_Limit :: int
  bq_ViewerKind :: gostring
  bq_ViewerSession :: gostring

definition validatePostBrowseQuery :: "forum \<Rightarrow> PostBrowseQuery \<Rightarrow> bool" where
  "validatePostBrowseQuery f q \<longleftrightarrow>
     postDiscoveryPredicate f (bq_ViewerKind q) (bq_ViewerSession q) \<noteq> None \<and> 1 \<le> bq_Limit q \<and> bq_Limit q \<le> 50 \<and>
     (let c = bq_Filters q in
      length (pf_Search c) \<le> 200 \<and> TrimSpace (pf_Search c) = pf_Search c \<and> length (pf_TopicID c) \<le> 200 \<and> length (pf_ProjectID c) \<le> 200 \<and>
      (pf_Kind c = '''' \<or> pf_Kind c \<in> PostKinds) \<and>
      (case (pf_CreatedFrom c, pf_CreatedTo c) of (Some a, Some b) \<Rightarrow> a \<le> b | _ \<Rightarrow> True)) \<and>
     (case bq_After q of None \<Rightarrow> True | Some a \<Rightarrow> bc_Time a \<noteq> zeroTime \<and> boundedHomeValue (bc_ID a) 200)"

definition postWhere :: "feed_lib \<Rightarrow> forum \<Rightarrow> PostFilters \<Rightarrow> BrowseCursor option \<Rightarrow> post_row \<Rightarrow> bool" where
  "postWhere lb f c after p \<longleftrightarrow>
     (pf_Search c = '''' \<or> hasRow (\<lambda>d. sd_ref d = po_id p \<and> fl_match lb (pf_Search c) d) (search_documents (fo_core f))) \<and>
     (pf_TopicID c = '''' \<or> po_topic_id p = pf_TopicID c) \<and> (pf_ProjectID c = '''' \<or> po_project_id p = Some (pf_ProjectID c)) \<and>
     (pf_Kind c = '''' \<or> po_kind p = pf_Kind c) \<and>
     (case pf_CreatedFrom c of None \<Rightarrow> True | Some t \<Rightarrow> fl_julianday lb t \<le> fl_julianday lb (po_created_at p)) \<and>
     (case pf_CreatedTo c of None \<Rightarrow> True | Some t \<Rightarrow> fl_julianday lb (po_created_at p) \<le> fl_julianday lb t) \<and>
     (case after of None \<Rightarrow> True
      | Some a \<Rightarrow> fl_julianday lb (po_created_at p) < fl_julianday lb (bc_Time a) \<or>
          fl_julianday lb (po_created_at p) = fl_julianday lb (bc_Time a) \<and> bc_ID a < po_id p)"

record PostAuthor =
  au_Kind :: gostring
  au_Principal :: gostring
  au_SessionID :: gostring
  au_Handle :: gostring
  au_Purpose :: gostring

definition setCanonicalAuthor :: "PostAuthor \<Rightarrow> PostAuthor" where
  "setCanonicalAuthor a =
     (if au_SessionID a = HumanLegacySession then a\<lparr>au_Kind := ''human'', au_Principal := HumanLocalPrincipal\<rparr>
      else a\<lparr>au_Kind := ''agent'', au_Principal := au_SessionID a\<rparr>)"

definition authorOf :: "forum \<Rightarrow> gostring \<Rightarrow> PostAuthor" where
  "authorOf f session = setCanonicalAuthor \<lparr>au_Kind = '''', au_Principal = '''', au_SessionID = session,
     au_Handle = (case handleRow f session of None \<Rightarrow> '''' | Some h \<Rightarrow> sh_handle h),
     au_Purpose = (case sessionRow f session of None \<Rightarrow> '''' | Some s \<Rightarrow> ss_purpose s)\<rparr>"

text \<open>The latest event of a post gives its state, none means \<open>open\<close>.\<close>

definition postState :: "forum \<Rightarrow> gostring \<Rightarrow> gostring \<times> gostring" where
  "postState f k = (case filter (\<lambda>e. sv_post_id e = k) (fo_state_events f) of
     [] \<Rightarrow> (''open'', '''')
   | es \<Rightarrow> (sv_state (last es), orEmpty (sv_superseded_by (last es))))"

definition topicName :: "forum \<Rightarrow> gostring \<Rightarrow> gostring" where
  "topicName f k = (case find (\<lambda>t. tp_id t = k) (topics (fo_core f)) of None \<Rightarrow> '''' | Some t \<Rightarrow> tp_name t)"

definition projectOf :: "forum \<Rightarrow> gostring option \<Rightarrow> (gostring \<times> gostring) option" where
  "projectOf f k = (case k of None \<Rightarrow> None | Some pid \<Rightarrow>
     map_option (\<lambda>r. (p_id r, p_name r)) (projectRow (fo_core f) pid))"

definition scopeView :: "forum \<Rightarrow> gostring \<Rightarrow> gostring \<times> int" where
  "scopeView f k = (case scopeRow f k of None \<Rightarrow> (''closed'', 0) | Some s \<Rightarrow> (sc_scope s, sc_revision s))"

record PostBrowseItem =
  pi_ID :: gostring
  pi_Kind :: gostring
  pi_Title :: gostring
  pi_Preview :: gostring
  pi_CreatedAt :: time
  pi_Topic :: "gostring \<times> gostring"
  pi_Project :: "(gostring \<times> gostring) option"
  pi_Author :: PostAuthor
  pi_CommentCount :: nat
  pi_State :: gostring
  pi_SupersededBy :: gostring
  pi_Scope :: "gostring \<times> int"
  pi_Attachments :: "PostAttachment list"
  pi_Mentions :: "MentionTarget list"

definition browseItem :: "forum \<Rightarrow> post_row \<Rightarrow> PostBrowseItem" where
  "browseItem f p =
     \<lparr>pi_ID = po_id p, pi_Kind = po_kind p, pi_Title = boundedUTF8 (po_title p) 200, pi_Preview = boundedUTF8 (TrimSpace (po_body p)) 320,
      pi_CreatedAt = po_created_at p, pi_Topic = (po_topic_id p, topicName f (po_topic_id p)), pi_Project = projectOf f (po_project_id p),
      pi_Author = authorOf f (po_session_id p), pi_CommentCount = countWhere (\<lambda>c. co_post_id c = po_id p) (fo_comments f),
      pi_State = fst (postState f (po_id p)), pi_SupersededBy = snd (postState f (po_id p)), pi_Scope = scopeView f (po_id p),
      pi_Attachments = readPostAttachments (po_id p) f, pi_Mentions = readContentMentions ''post'' (po_id p) f\<rparr>"

definition feedKey :: "feed_lib \<Rightarrow> post_row \<Rightarrow> int \<times> gostring" where
  "feedKey lb p = (- fl_julianday lb (po_created_at p), po_id p)"

text \<open>The total and one item more than the limit, newest first, within one day by identifier.\<close>

definition PostBrowseSnapshot :: "feed_lib \<Rightarrow> PostBrowseQuery \<Rightarrow> forum \<Rightarrow> go_error + nat \<times> PostBrowseItem list" where
  "PostBrowseSnapshot lb q f =
     (if \<not> validatePostBrowseQuery f q then Inl ErrInvalid
      else case postDiscoveryPredicate f (bq_ViewerKind q) (bq_ViewerSession q) of
        None \<Rightarrow> Inl ErrInvalid
      | Some discovery \<Rightarrow>
          Inr (countWhere (\<lambda>p. postWhere lb f (bq_Filters q) None p \<and> discovery p) (fo_posts f),
               map (browseItem f) (take (nat (bq_Limit q) + 1) (sort_key (feedKey lb)
                 (filter (\<lambda>p. postWhere lb f (bq_Filters q) (bq_After q) p \<and> discovery p \<and>
                    hasRow (\<lambda>t. tp_id t = po_topic_id p) (topics (fo_core f))) (fo_posts f))))))"

section \<open>A thread\<close>

record PostComment =
  pc_ID :: gostring
  pc_Body :: gostring
  pc_Intent :: gostring
  pc_Author :: PostAuthor
  pc_CreatedAt :: time
  pc_Mentions :: "MentionTarget list"

definition postComment :: "forum \<Rightarrow> comment_row \<Rightarrow> PostComment" where
  "postComment f c = \<lparr>pc_ID = co_id c, pc_Body = co_body c, pc_Intent = co_intent c, pc_Author = authorOf f (co_session_id c),
     pc_CreatedAt = co_created_at c, pc_Mentions = readContentMentions ''comment'' (co_id c) f\<rparr>"

record PostThreadQuery =
  tq_PostID :: gostring
  tq_After :: "BrowseCursor option"
  tq_Limit :: int
  tq_ViewerKind :: gostring
  tq_ViewerSession :: gostring

record PostThreadView =
  th_Post :: post_row
  th_Topic :: "gostring \<times> gostring"
  th_Project :: "(gostring \<times> gostring) option"
  th_Author :: PostAuthor
  th_State :: gostring
  th_SupersededBy :: gostring
  th_Attachments :: "PostAttachment list"
  th_CommentCount :: nat
  th_Comments :: "PostComment list"
  th_Scope :: "gostring \<times> int"
  th_Mentions :: "MentionTarget list"

definition commentKeyOf :: "feed_lib \<Rightarrow> comment_row \<Rightarrow> int \<times> gostring" where
  "commentKeyOf lb c = (fl_julianday lb (co_created_at c), co_id c)"

definition commentAfter :: "feed_lib \<Rightarrow> BrowseCursor option \<Rightarrow> comment_row \<Rightarrow> bool" where
  "commentAfter lb after c = (case after of None \<Rightarrow> True
     | Some a \<Rightarrow> fl_julianday lb (bc_Time a) < fl_julianday lb (co_created_at c) \<or>
         fl_julianday lb (co_created_at c) = fl_julianday lb (bc_Time a) \<and> bc_ID a < co_id c)"

definition PostThread :: "feed_lib \<Rightarrow> PostThreadQuery \<Rightarrow> forum \<Rightarrow> go_error + PostThreadView" where
  "PostThread lb q f =
     (if tq_PostID q = '''' \<or> tq_Limit q < 1 \<or> tq_Limit q > 50 \<or>
         (case tq_After q of None \<Rightarrow> False | Some a \<Rightarrow> bc_Time a = zeroTime \<or> \<not> boundedHomeValue (bc_ID a) 200) then Inl ErrInvalid
      else case postDiscoveryPredicate f (tq_ViewerKind q) (tq_ViewerSession q) of
        None \<Rightarrow> Inl ErrInvalid
      | Some discovery \<Rightarrow>
          (case find (\<lambda>p. po_id p = tq_PostID q \<and> discovery p \<and> hasRow (\<lambda>t. tp_id t = po_topic_id p) (topics (fo_core f))) (fo_posts f) of
             None \<Rightarrow> Inl ErrNotFound
           | Some p \<Rightarrow>
               Inr \<lparr>th_Post = p, th_Topic = (po_topic_id p, topicName f (po_topic_id p)), th_Project = projectOf f (po_project_id p),
                 th_Author = authorOf f (po_session_id p), th_State = fst (postState f (po_id p)), th_SupersededBy = snd (postState f (po_id p)),
                 th_Attachments = readPostAttachments (po_id p) f,
                 th_CommentCount = countWhere (\<lambda>c. co_post_id c = po_id p) (fo_comments f),
                 th_Comments = map (postComment f) (take (nat (tq_Limit q) + 1) (sort_key (commentKeyOf lb)
                   (filter (\<lambda>c. co_post_id c = tq_PostID q \<and> commentAfter lb (tq_After q) c) (fo_comments f)))),
                 th_Scope = scopeView f (po_id p), th_Mentions = readContentMentions ''post'' (po_id p) f\<rparr>))"

definition PostCommentByID :: "gostring \<Rightarrow> gostring \<Rightarrow> gostring \<Rightarrow> forum \<Rightarrow> go_error + gostring \<times> PostComment" where
  "PostCommentByID commentID viewerKind viewerSession f =
     (if commentID = '''' then Inl ErrInvalid
      else case postDiscoveryPredicate f viewerKind viewerSession of
        None \<Rightarrow> Inl ErrInvalid
      | Some discovery \<Rightarrow>
          (case find (\<lambda>c. co_id c = commentID \<and> hasRow (\<lambda>p. po_id p = co_post_id c \<and> discovery p) (fo_posts f)) (fo_comments f) of
             None \<Rightarrow> Inl ErrNotFound
           | Some c \<Rightarrow> Inr (co_post_id c, postComment f c)))"

section \<open>Notifications\<close>

record NotificationQuery =
  nq_RecipientPrincipal :: gostring
  nq_UnreadOnly :: bool
  nq_After :: "BrowseCursor option"
  nq_Limit :: int

record HumanNotification =
  no_Row :: notification_row
  no_ActorHandle :: gostring
  no_ActorPurpose :: gostring

definition humanNotification :: "forum \<Rightarrow> notification_row \<Rightarrow> HumanNotification" where
  "humanNotification f n = \<lparr>no_Row = n,
     no_ActorHandle = (case handleRow f (hn_actor_session_id n) of None \<Rightarrow> '''' | Some h \<Rightarrow> sh_handle h),
     no_ActorPurpose = (case sessionRow f (hn_actor_session_id n) of None \<Rightarrow> '''' | Some s \<Rightarrow> ss_purpose s)\<rparr>"

definition notificationKey :: "feed_lib \<Rightarrow> notification_row \<Rightarrow> int \<times> gostring" where
  "notificationKey lb n = (fl_julianday lb (hn_created_at n), hn_id n)"

definition notificationWhere :: "feed_lib \<Rightarrow> NotificationQuery \<Rightarrow> notification_row \<Rightarrow> bool" where
  "notificationWhere lb q n \<longleftrightarrow> hn_recipient_principal n = nq_RecipientPrincipal q \<and> (nq_UnreadOnly q \<longrightarrow> hn_read_at n = None) \<and>
     (case nq_After q of None \<Rightarrow> True
      | Some a \<Rightarrow> fl_julianday lb (hn_created_at n) < fl_julianday lb (bc_Time a) \<or>
          fl_julianday lb (hn_created_at n) = fl_julianday lb (bc_Time a) \<and> hn_id n < bc_ID a)"

definition HumanNotifications :: "feed_lib \<Rightarrow> NotificationQuery \<Rightarrow> forum \<Rightarrow> go_error + nat \<times> HumanNotification list" where
  "HumanNotifications lb q f =
     (if nq_RecipientPrincipal q \<noteq> HumanLocalPrincipal \<or> nq_Limit q < 1 \<or> nq_Limit q > 50 \<or>
         (case nq_After q of None \<Rightarrow> False | Some a \<Rightarrow> bc_Time a = zeroTime \<or> bc_ID a = '''') then Inl ErrInvalid
      else Inr (countWhere (\<lambda>n. hn_recipient_principal n = nq_RecipientPrincipal q \<and> hn_read_at n = None) (fo_notifications f),
                map (humanNotification f) (take (nat (nq_Limit q) + 1) (rev (sort_key (notificationKey lb)
                  (filter (notificationWhere lb q) (fo_notifications f)))))))"

section \<open>The service\<close>

text \<open>The identity of the human that the service shows: display name and handle.\<close>

record AppAuthor =
  aa_Kind :: gostring
  aa_Principal :: gostring
  aa_DisplayName :: gostring
  aa_Handle :: gostring
  aa_Session :: gostring
  aa_Purpose :: gostring
  aa_Provenance :: "(gostring \<times> gostring) option"

definition attestedProvenance :: "gostring \<Rightarrow> gostring \<Rightarrow> (gostring \<times> gostring) option" where
  "attestedProvenance session purpose = (if session = '''' then None else Some (session, purpose))"

definition appAuthor :: "gostring \<times> gostring \<Rightarrow> PostAuthor \<Rightarrow> AppAuthor" where
  "appAuthor identity item =
     (let out = \<lparr>aa_Kind = au_Kind item, aa_Principal = au_Principal item, aa_DisplayName = '''', aa_Handle = au_Handle item,
            aa_Session = au_SessionID item, aa_Purpose = au_Purpose item, aa_Provenance = attestedProvenance (au_SessionID item) (au_Purpose item)\<rparr> in
      if au_Kind item = ''human'' then out\<lparr>aa_Handle := snd identity, aa_DisplayName := fst identity, aa_Purpose := ''''\<rparr> else out)"

definition appMention :: "gostring \<times> gostring \<Rightarrow> MentionTarget \<Rightarrow> AppAuthor" where
  "appMention identity item =
     (let target = \<lparr>aa_Kind = mt_Kind item, aa_Principal = mt_Principal item, aa_DisplayName = '''', aa_Handle = mt_Handle item,
            aa_Session = mt_SessionID item, aa_Purpose = mt_Purpose item, aa_Provenance = None\<rparr> in
      if mt_Kind item = ''human'' then target\<lparr>aa_Handle := snd identity, aa_DisplayName := fst identity\<rparr>
      else target\<lparr>aa_Provenance := attestedProvenance (mt_SessionID item) (mt_Purpose item)\<rparr>)"

record PostFeedRequest =
  fr_ViewerKind :: gostring
  fr_ViewerSession :: gostring
  fr_Cursor :: gostring
  fr_Filters :: PostFilters
  fr_Limit :: int

record PostFeedItem =
  fi_Item :: PostBrowseItem
  fi_Author :: AppAuthor
  fi_Mentions :: "AppAuthor list"

record PostFeedResult =
  fs_Total :: nat
  fs_Limit :: int
  fs_Items :: "PostFeedItem list"
  fs_NextCursor :: gostring

definition postFeedLimit :: "int \<Rightarrow> int option" where
  "postFeedLimit value = (if value = 0 then Some 20 else if 1 \<le> value \<and> value \<le> 50 then Some value else None)"

definition BrowsePosts :: "feed_lib \<Rightarrow> gostring \<times> gostring \<Rightarrow> PostFeedRequest \<Rightarrow> forum \<Rightarrow> go_error + PostFeedResult" where
  "BrowsePosts lb identity r f =
     (let c = fr_Filters r in
      if length (pf_Search c) > 200 \<or> TrimSpace (pf_Search c) \<noteq> pf_Search c \<or> pf_Kind c \<noteq> '''' \<and> pf_Kind c \<notin> PostKinds \<or>
         (case (pf_CreatedFrom c, pf_CreatedTo c) of (Some a, Some b) \<Rightarrow> b < a | _ \<Rightarrow> False) then Inl ErrInvalid
      else case postFeedLimit (fr_Limit r) of
        None \<Rightarrow> Inl ErrInvalid
      | Some limit \<Rightarrow>
          bindE (decodeCursor lb ''posts'' (fr_Cursor r)) (\<lambda>after.
          if (case after of None \<Rightarrow> False | Some a \<Rightarrow> bc_Time a = zeroTime) then Inl ErrInvalid
          else bindE (PostBrowseSnapshot lb \<lparr>bq_Filters = c, bq_After = after, bq_Limit = limit, bq_ViewerKind = fr_ViewerKind r,
                 bq_ViewerSession = fr_ViewerSession r\<rparr> f) (\<lambda>(total, rows).
          let hasMore = int (length rows) > limit;
              items = (if hasMore then take (nat limit) rows else rows) in
          Inr \<lparr>fs_Total = total, fs_Limit = limit,
               fs_Items = map (\<lambda>item. \<lparr>fi_Item = item, fi_Author = appAuthor identity (pi_Author item),
                 fi_Mentions = map (appMention identity) (pi_Mentions item)\<rparr>) items,
               fs_NextCursor = (if hasMore \<and> items \<noteq> []
                 then encodeCursor lb ''posts'' \<lparr>bc_Time = pi_CreatedAt (last items), bc_Text = '''', bc_ID = pi_ID (last items)\<rparr>
                 else '''')\<rparr>)))"

record PostOpenRequest =
  or_Ref :: gostring
  or_CommentsCursor :: gostring
  or_CommentsLimit :: int
  or_ViewerKind :: gostring
  or_ViewerSession :: gostring

record AppComment =
  ac_Comment :: PostComment
  ac_Author :: AppAuthor
  ac_Mentions :: "AppAuthor list"

record PostOpenResult =
  os_Thread :: PostThreadView
  os_Author :: AppAuthor
  os_Mentions :: "AppAuthor list"
  os_Limit :: int
  os_Comments :: "AppComment list"
  os_NextCursor :: gostring

definition commentLimit :: "int \<Rightarrow> int option" where
  "commentLimit value = (if value = 0 then Some 10 else if 1 \<le> value \<and> value \<le> 20 then Some value else None)"

definition appComment :: "gostring \<times> gostring \<Rightarrow> PostComment \<Rightarrow> AppComment" where
  "appComment identity c = \<lparr>ac_Comment = c, ac_Author = appAuthor identity (pc_Author c), ac_Mentions = map (appMention identity) (pc_Mentions c)\<rparr>"

definition OpenPost :: "feed_lib \<Rightarrow> gostring \<times> gostring \<Rightarrow> PostOpenRequest \<Rightarrow> forum \<Rightarrow> go_error + PostOpenResult" where
  "OpenPost lb identity r f =
     (if or_Ref r = '''' then Inl ErrInvalid
      else case commentLimit (or_CommentsLimit r) of
        None \<Rightarrow> Inl ErrInvalid
      | Some limit \<Rightarrow>
          (let resource = ''post-comments:'' @ or_Ref r in
           bindE (decodeCursor lb resource (or_CommentsCursor r)) (\<lambda>after.
           if (case after of None \<Rightarrow> False | Some a \<Rightarrow> bc_Time a = zeroTime) then Inl ErrInvalid
           else bindE (PostThread lb \<lparr>tq_PostID = or_Ref r, tq_After = after, tq_Limit = limit, tq_ViewerKind = or_ViewerKind r,
                  tq_ViewerSession = or_ViewerSession r\<rparr> f) (\<lambda>thread.
           let rows = th_Comments thread; hasMore = int (length rows) > limit;
               items = (if hasMore then take (nat limit) rows else rows) in
           Inr \<lparr>os_Thread = thread\<lparr>th_Comments := items\<rparr>, os_Author = appAuthor identity (th_Author thread),
                os_Mentions = map (appMention identity) (th_Mentions thread), os_Limit = limit,
                os_Comments = map (appComment identity) items,
                os_NextCursor = (if hasMore \<and> items \<noteq> []
                  then encodeCursor lb resource \<lparr>bc_Time = pc_CreatedAt (last items), bc_Text = '''', bc_ID = pc_ID (last items)\<rparr>
                  else '''')\<rparr>))))"

definition OpenComment :: "gostring \<times> gostring \<Rightarrow> gostring \<Rightarrow> gostring \<Rightarrow> gostring \<Rightarrow> forum \<Rightarrow> go_error + gostring \<times> AppComment" where
  "OpenComment identity commentID viewerKind viewerSession f =
     (if commentID = '''' then Inl ErrInvalid
      else bindE (PostCommentByID commentID viewerKind viewerSession f) (\<lambda>(postID, item). Inr (postID, appComment identity item)))"

record NotificationListRequest =
  lr_Cursor :: gostring
  lr_UnreadOnly :: bool
  lr_Limit :: int

record NotificationListResult =
  ls_Items :: "(HumanNotification \<times> gostring \<times> gostring \<times> gostring) list"
  ls_NextCursor :: gostring
  ls_UnreadCount :: nat

text \<open>Beside the notification: handle, display name and purpose of its actor.\<close>

definition notificationActor :: "gostring \<times> gostring \<Rightarrow> HumanNotification \<Rightarrow> gostring \<times> gostring \<times> gostring" where
  "notificationActor identity n =
     (if hn_actor_kind (no_Row n) = ''human'' then (snd identity, fst identity, '''') else (no_ActorHandle n, '''', no_ActorPurpose n))"

definition Notifications :: "feed_lib \<Rightarrow> gostring \<times> gostring \<Rightarrow> NotificationListRequest \<Rightarrow> forum \<Rightarrow> go_error + NotificationListResult" where
  "Notifications lb identity r f =
     (let limit = (if lr_Limit r = 0 then 20 else lr_Limit r) in
      if limit < 1 \<or> limit > 50 then Inl ErrInvalid
      else bindE (decodeCursor lb ''human-notifications'' (lr_Cursor r)) (\<lambda>after.
        if (case after of None \<Rightarrow> False | Some a \<Rightarrow> bc_Time a = zeroTime) then Inl ErrInvalid
        else bindE (HumanNotifications lb \<lparr>nq_RecipientPrincipal = HumanLocalPrincipal, nq_UnreadOnly = lr_UnreadOnly r, nq_After = after, nq_Limit = limit\<rparr> f)
          (\<lambda>(unread, rows).
        let more = int (length rows) > limit;
            items = (if more then take (nat limit) rows else rows) in
        Inr \<lparr>ls_Items = map (\<lambda>n. (n, notificationActor identity n)) items,
             ls_NextCursor = (if more \<and> items \<noteq> []
               then encodeCursor lb ''human-notifications'' \<lparr>bc_Time = hn_created_at (no_Row (last items)), bc_Text = '''', bc_ID = hn_id (no_Row (last items))\<rparr>
               else ''''),
             ls_UnreadCount = unread\<rparr>)))"

end
