(* ===== verification/Forum_Paging.thy ===== *)
theory Forum_Paging
  imports Forum_Feed
begin

text \<open>
  Reading the forum page by page. The feed of posts, the comments of a thread and the notifications of the human are
  handed out a page at a time with a cursor to the next; the contract of such a reader is the locale
  \<open>paged_service\<close>, and a client that follows the cursors reads everything once and comes to an end.
\<close>

section \<open>The contract of a paged reader\<close>

text \<open>The client: ask with the empty cursor, then with every cursor it is given, until there is none.\<close>

fun follow :: "(gostring \<Rightarrow> go_error + 'i list \<times> gostring) \<Rightarrow> nat \<Rightarrow> gostring \<Rightarrow> (go_error + 'i list) option" where
  "follow serve 0 cursor = None"
| "follow serve (Suc n) cursor =
     (case serve cursor of
        Inl err \<Rightarrow> Some (Inl err)
      | Inr (items, nextCursor) \<Rightarrow>
          if nextCursor = '''' then Some (Inr items)
          else map_option (\<lambda>rest. bindE rest (\<lambda>more. Inr (items @ more))) (follow serve n nextCursor))"

definition pageOf :: "nat \<Rightarrow> ('i \<Rightarrow> gostring) \<Rightarrow> 'i list \<Rightarrow> 'i list \<times> gostring" where
  "pageOf limit mark xs = (take limit xs, if limit < length xs then mark (last (take limit xs)) else '''')"

locale paged_service =
  fixes ok :: "'s \<Rightarrow> bool"
    and serve :: "'s \<Rightarrow> gostring \<Rightarrow> go_error + 'i list \<times> gostring"
    and content :: "'s \<Rightarrow> 'i list"
    and mark :: "'s \<Rightarrow> 'i \<Rightarrow> gostring"
    and limit :: "'s \<Rightarrow> nat"
  assumes positive: "ok s \<Longrightarrow> 0 < limit s"
    and first_page: "ok s \<Longrightarrow> serve s '''' = Inr (pageOf (limit s) (mark s) (content s))"
    and later_page: "ok s \<Longrightarrow> content s = xs @ x # ys \<Longrightarrow> serve s (mark s x) = Inr (pageOf (limit s) (mark s) ys)"
    and marked: "ok s \<Longrightarrow> x \<in> set (content s) \<Longrightarrow> mark s x \<noteq> ''''"
begin

lemma follow_rest:
  assumes "ok s" "content s = xs @ ys" "serve s cursor = Inr (pageOf (limit s) (mark s) ys)" "length ys < n"
  shows "follow (serve s) n cursor = Some (Inr ys)"
  using assms(2-4)
proof (induction n arbitrary: xs ys cursor)
  case (Suc n)
  show ?case
  proof (cases "limit s < length ys")
    case False
    with Suc.prems(2) show ?thesis by (simp add: pageOf_def)
  next
    case True
    let ?page = "take (limit s) ys" and ?rest = "drop (limit s) ys"
    have page: "?page \<noteq> []" using True positive [OF assms(1)] by auto
    have "butlast ?page @ last ?page # ?rest = (butlast ?page @ [last ?page]) @ ?rest" by simp
    also have "\<dots> = ys" by (simp only: append_butlast_last_id [OF page] append_take_drop_id)
    finally have ys: "butlast ?page @ last ?page # ?rest = ys" .
    have "content s = (xs @ butlast ?page) @ last ?page # ?rest" by (simp only: append_assoc ys Suc.prems(1))
    then have serve: "serve s (mark s (last ?page)) = Inr (pageOf (limit s) (mark s) ?rest)" by (rule later_page [OF assms(1)])
    have "last ?page \<in> set (content s)" using last_in_set [OF page] set_take_subset [of "limit s" ys] by (auto simp: Suc.prems(1))
    then have "mark s (last ?page) \<noteq> ''''" by (rule marked [OF assms(1)])
    moreover have "follow (serve s) n (mark s (last ?page)) = Some (Inr ?rest)"
      using Suc.prems(1,3) positive [OF assms(1)] True by (intro Suc.IH [of "xs @ ?page", OF _ serve]) simp_all
    ultimately show ?thesis using Suc.prems(2) True by (simp add: pageOf_def)
  qed
qed simp

lemma follow_complete: "ok s \<Longrightarrow> length (content s) < n \<Longrightarrow> follow (serve s) n '''' = Some (Inr (content s))"
  using follow_rest [of s "[]" "content s" "''''" n] first_page by simp

end

section \<open>Pages of an ordered query\<close>

lemma filter_after:
  assumes "sorted_wrt R (xs @ x # ys)" "\<And>a b. R a b \<Longrightarrow> \<not> R b a"
  shows "filter (R x) (xs @ x # ys) = ys"
proof -
  have "\<forall>y \<in> set xs. \<not> R x y" "\<not> R x x" "\<forall>y \<in> set ys. R x y" using assms by (auto simp: sorted_wrt_append)
  then show ?thesis by simp
qed

text \<open>A query asks for one row more than the page holds; the page and its cursor are those of all the rows.\<close>

lemma page_take:
  assumes "rows = take (Suc n) zs" "0 < n" "\<And>x. cursorOf x = mark (g x)"
  shows "(let hasMore = n < length rows; items = (if hasMore then take n rows else rows) in
     (map g items, if hasMore \<and> items \<noteq> [] then cursorOf (last items) else '''')) = pageOf n mark (map g zs)"
proof (cases "n < length zs")
  case True
  then have "take n zs \<noteq> []" "n \<noteq> 0" using assms(2) by auto
  with True show ?thesis by (simp add: assms(1,3) pageOf_def take_map last_map min_def Let_def)
qed (simp add: assms pageOf_def)

lemma sorted_strict:
  assumes "distinct (map key xs)"
  shows "sorted_wrt (\<lambda>x y. key x < key y) (sort_key key xs)"
proof -
  have "distinct (map key (sort_key key xs))" using assms by (simp add: distinct_map)
  then have "sorted_wrt (<) (map key (sort_key key xs))" by (simp add: strict_sorted_iff)
  then show ?thesis by (simp add: sorted_wrt_map)
qed

section \<open>Cursors\<close>

text \<open>
  What the reader relies on of the encoding of cursors and of the rows they name: the cursor of a row is not empty,
  fits into the bound and decodes to itself, the row has a time and an identifier within the bounds.
\<close>

definition cursorKept :: "feed_lib \<Rightarrow> gostring \<Rightarrow> time \<Rightarrow> gostring \<Rightarrow> bool" where
  "cursorKept lb resource t k \<longleftrightarrow> t \<noteq> zeroTime \<and> boundedHomeValue k 200 \<and>
     (let w = \<lparr>oc_Version = 1, oc_Resource = resource, oc_Time = Some t, oc_Text = '''', oc_ID = k\<rparr> in
      fl_encode lb w \<noteq> '''' \<and> length (fl_encode lb w) \<le> 512 \<and> fl_decode lb (fl_encode lb w) = Some w)"

abbreviation rowCursor :: "time \<Rightarrow> gostring \<Rightarrow> BrowseCursor" where
  "rowCursor t k \<equiv> \<lparr>bc_Time = t, bc_Text = '''', bc_ID = k\<rparr>"

lemma cursor_kept:
  assumes "cursorKept lb resource t k"
  shows "decodeCursor lb resource (encodeCursor lb resource (rowCursor t k)) = Inr (Some (rowCursor t k))"
    "encodeCursor lb resource (rowCursor t k) \<noteq> ''''" "t \<noteq> zeroTime" "boundedHomeValue k 200" "k \<noteq> ''''"
  using assms by (simp_all add: cursorKept_def decodeCursor_def encodeCursor_def boundedHomeValue_def Let_def)

section \<open>The feed of posts\<close>

type_synonym feed_site = "feed_lib \<times> (gostring \<times> gostring) \<times> PostFeedRequest \<times> forum"

definition feedMatches :: "feed_lib \<Rightarrow> PostFeedRequest \<Rightarrow> forum \<Rightarrow> post_row \<Rightarrow> bool" where
  "feedMatches lb r f p \<longleftrightarrow> postWhere lb f (fr_Filters r) None p \<and> hasRow (\<lambda>t. tp_id t = po_topic_id p) (topics (fo_core f)) \<and>
     (case postDiscoveryPredicate f (fr_ViewerKind r) (fr_ViewerSession r) of None \<Rightarrow> False | Some discovery \<Rightarrow> discovery p)"

definition feedRows :: "feed_lib \<Rightarrow> PostFeedRequest \<Rightarrow> forum \<Rightarrow> post_row list" where
  "feedRows lb r f = sort_key (feedKey lb) (filter (feedMatches lb r f) (fo_posts f))"

definition feedItem :: "gostring \<times> gostring \<Rightarrow> forum \<Rightarrow> post_row \<Rightarrow> PostFeedItem" where
  "feedItem identity f p = (let item = browseItem f p in
     \<lparr>fi_Item = item, fi_Author = appAuthor identity (pi_Author item), fi_Mentions = map (appMention identity) (pi_Mentions item)\<rparr>)"

definition feedMark :: "feed_lib \<Rightarrow> PostFeedItem \<Rightarrow> gostring" where
  "feedMark lb x = encodeCursor lb ''posts'' (rowCursor (pi_CreatedAt (fi_Item x)) (pi_ID (fi_Item x)))"

definition feedServe :: "feed_site \<Rightarrow> gostring \<Rightarrow> go_error + PostFeedItem list \<times> gostring" where
  "feedServe s cursor = (case s of (lb, identity, r, f) \<Rightarrow>
     bindE (BrowsePosts lb identity (r\<lparr>fr_Cursor := cursor\<rparr>) f) (\<lambda>page. Inr (fs_Items page, fs_NextCursor page)))"

definition feedReady :: "feed_site \<Rightarrow> bool" where
  "feedReady s = (case s of (lb, identity, r, f) \<Rightarrow>
     distinct (map po_id (fo_posts f)) \<and> (\<forall>p \<in> set (fo_posts f). cursorKept lb ''posts'' (po_created_at p) (po_id p)) \<and>
     (\<exists>page. BrowsePosts lb identity (r\<lparr>fr_Cursor := ''''\<rparr>) f = Inr page))"

definition feedLimit :: "PostFeedRequest \<Rightarrow> nat" where
  "feedLimit r = nat (the (postFeedLimit (fr_Limit r)))"

lemma postWhere_after:
  "postWhere lb f c (Some (rowCursor (po_created_at q) (po_id q))) p \<longleftrightarrow> postWhere lb f c None p \<and> feedKey lb q < feedKey lb p"
  unfolding postWhere_def feedKey_def by (auto simp: less_prod_simp)

lemma feed_sorted:
  assumes "distinct (map po_id (fo_posts f))"
  shows "sorted_wrt (\<lambda>p q. feedKey lb p < feedKey lb q) (feedRows lb r f)"
proof -
  have "distinct (map po_id (filter P (fo_posts f)))" for P using assms by (rule distinct_map_filter)
  then have "distinct (map (feedKey lb) (filter P (fo_posts f)))" for P
    unfolding distinct_map inj_on_def feedKey_def by (metis distinct_map inj_on_def snd_conv)
  then show ?thesis unfolding feedRows_def by (rule sorted_strict)
qed

definition feedQuery :: "PostFeedRequest \<Rightarrow> int \<Rightarrow> BrowseCursor option \<Rightarrow> PostBrowseQuery" where
  "feedQuery r limit after = \<lparr>bq_Filters = fr_Filters r, bq_After = after, bq_Limit = limit, bq_ViewerKind = fr_ViewerKind r,
     bq_ViewerSession = fr_ViewerSession r\<rparr>"

definition goodCursor :: "BrowseCursor option \<Rightarrow> bool" where
  "goodCursor after = (case after of None \<Rightarrow> True | Some a \<Rightarrow> bc_Time a \<noteq> zeroTime \<and> boundedHomeValue (bc_ID a) 200)"

text \<open>A request that is answered with the empty cursor is answered with every cursor of a row.\<close>

lemma feed_page:
  assumes first: "BrowsePosts lb identity (r\<lparr>fr_Cursor := ''''\<rparr>) f = Inr page"
    and cursor: "decodeCursor lb ''posts'' cursor = Inr after" "goodCursor after"
  shows "0 < feedLimit r"
    "feedServe (lb, identity, r, f) cursor = Inr (pageOf (feedLimit r) (feedMark lb) (map (feedItem identity f)
       (sort_key (feedKey lb) (filter (\<lambda>p. feedMatches lb r f p \<and> postWhere lb f (fr_Filters r) after p) (fo_posts f)))))"
proof -
  let ?c = "fr_Filters r"
  let ?bad = "length (pf_Search ?c) > 200 \<or> TrimSpace (pf_Search ?c) \<noteq> pf_Search ?c \<or> pf_Kind ?c \<noteq> '''' \<and> pf_Kind ?c \<notin> PostKinds \<or>
    (case (pf_CreatedFrom ?c, pf_CreatedTo ?c) of (Some a, Some b) \<Rightarrow> b < a | _ \<Rightarrow> False)"
  have ok: "\<not> ?bad"
  proof
    assume ?bad
    then have "BrowsePosts lb identity (r\<lparr>fr_Cursor := ''''\<rparr>) f = Inl ErrInvalid" by (simp add: BrowsePosts_def)
    with first show False by simp
  qed
  have none: "decodeCursor lb ''posts'' '''' = Inr None" by (simp add: decodeCursor_def)
  obtain limit where limit: "postFeedLimit (fr_Limit r) = Some limit" using first ok by (auto simp: BrowsePosts_def Let_def split: option.splits if_splits)
  then have pos: "0 < limit" by (auto simp: postFeedLimit_def split: if_splits)
  have valid0: "validatePostBrowseQuery f (feedQuery r limit None)"
    using first ok none limit by (auto simp: BrowsePosts_def Let_def feedQuery_def PostBrowseSnapshot_def split: if_splits)
  have valid: "validatePostBrowseQuery f (feedQuery r limit after)"
    using valid0 cursor(2) by (simp add: validatePostBrowseQuery_def feedQuery_def goodCursor_def)
  obtain discovery where disc: "postDiscoveryPredicate f (fr_ViewerKind r) (fr_ViewerSession r) = Some discovery"
    using valid0 by (auto simp: validatePostBrowseQuery_def feedQuery_def)
  let ?zs = "sort_key (feedKey lb) (filter (\<lambda>p. feedMatches lb r f p \<and> postWhere lb f ?c after p) (fo_posts f))"
  have rows: "(\<lambda>p. postWhere lb f ?c after p \<and> discovery p \<and> hasRow (\<lambda>t. tp_id t = po_topic_id p) (topics (fo_core f))) =
      (\<lambda>p. feedMatches lb r f p \<and> postWhere lb f ?c after p)"
    by (rule ext) (auto simp: feedMatches_def disc postWhere_def)
  have snap: "PostBrowseSnapshot lb (feedQuery r limit after) f =
      Inr (countWhere (\<lambda>p. postWhere lb f ?c None p \<and> discovery p) (fo_posts f), map (browseItem f) (take (Suc (nat limit)) ?zs))"
    unfolding PostBrowseSnapshot_def using valid disc rows by (simp add: feedQuery_def)
  have time: "\<not> (case after of None \<Rightarrow> False | Some a \<Rightarrow> bc_Time a = zeroTime)" using cursor(2) by (auto simp: goodCursor_def split: option.splits)
  have n: "feedLimit r = nat limit" by (simp add: feedLimit_def limit)
  show "0 < feedLimit r" using pos by (simp add: n)
  let ?rows = "map (browseItem f) (take (Suc (nat limit)) ?zs)"
  have "feedServe (lb, identity, r, f) cursor =
      Inr (let hasMore = nat limit < length ?rows; items = (if hasMore then take (nat limit) ?rows else ?rows) in
        (map (\<lambda>item. \<lparr>fi_Item = item, fi_Author = appAuthor identity (pi_Author item), fi_Mentions = map (appMention identity) (pi_Mentions item)\<rparr>) items,
         if hasMore \<and> items \<noteq> [] then encodeCursor lb ''posts'' (rowCursor (pi_CreatedAt (last items)) (pi_ID (last items))) else ''''))"
    using ok limit cursor(1) time snap pos
    by (simp add: feedServe_def BrowsePosts_def Let_def feedQuery_def zless_nat_eq_int_zless nat_less_iff del: take_Suc)
  also have "\<dots> = Inr (pageOf (nat limit) (feedMark lb) (map (feedItem identity f) ?zs))"
    by (subst page_take [where mark = "feedMark lb" and zs = "map (browseItem f) ?zs"])
      (use pos in \<open>simp_all add: take_map feedMark_def o_def feedItem_def [abs_def] Let_def\<close>)
  finally show "feedServe (lb, identity, r, f) cursor = Inr (pageOf (feedLimit r) (feedMark lb) (map (feedItem identity f) ?zs))" by (simp add: n)
qed

lemma feed_after:
  assumes "distinct (map po_id (fo_posts f))" "feedRows lb r f = xs @ q # ys"
  shows "sort_key (feedKey lb) (filter (\<lambda>p. feedMatches lb r f p \<and>
     postWhere lb f (fr_Filters r) (Some (rowCursor (po_created_at q) (po_id q))) p) (fo_posts f)) = ys"
proof -
  have "(\<lambda>p. feedMatches lb r f p \<and> postWhere lb f (fr_Filters r) (Some (rowCursor (po_created_at q) (po_id q))) p) =
      (\<lambda>p. feedMatches lb r f p \<and> feedKey lb q < feedKey lb p)"
    by (rule ext) (auto simp: postWhere_after feedMatches_def)
  then have "sort_key (feedKey lb) (filter (\<lambda>p. feedMatches lb r f p \<and>
      postWhere lb f (fr_Filters r) (Some (rowCursor (po_created_at q) (po_id q))) p) (fo_posts f)) =
    filter (\<lambda>p. feedKey lb q < feedKey lb p) (feedRows lb r f)" by (simp add: feedRows_def filter_sort)
  also have "\<dots> = ys" using feed_sorted [OF assms(1), of lb r] unfolding assms(2) by (rule filter_after) auto
  finally show ?thesis .
qed

definition feedContent :: "feed_site \<Rightarrow> PostFeedItem list" where
  "feedContent s = (case s of (lb, identity, r, f) \<Rightarrow> map (feedItem identity f) (feedRows lb r f))"

lemma feedMark_item [simp]: "feedMark lb (feedItem identity f p) = encodeCursor lb ''posts'' (rowCursor (po_created_at p) (po_id p))"
  by (simp add: feedMark_def feedItem_def browseItem_def Let_def)

lemma feedRows_posts: "set (feedRows lb r f) = {p \<in> set (fo_posts f). feedMatches lb r f p}"
  by (auto simp: feedRows_def)

interpretation feed: paged_service feedReady feedServe feedContent "\<lambda>s. feedMark (fst s)" "\<lambda>s. feedLimit (fst (snd (snd s)))"
proof unfold_locales
  fix s :: feed_site assume ok: "feedReady s"
  obtain lb identity r f where s: "s = (lb, identity, r, f)" by (metis prod_cases4)
  obtain page where page: "BrowsePosts lb identity (r\<lparr>fr_Cursor := ''''\<rparr>) f = Inr page" using ok by (auto simp: feedReady_def s)
  have start: "decodeCursor lb ''posts'' '''' = Inr None" "goodCursor None" by (simp_all add: decodeCursor_def goodCursor_def)
  have ids: "distinct (map po_id (fo_posts f))" and kept: "\<And>p. p \<in> set (fo_posts f) \<Longrightarrow> cursorKept lb ''posts'' (po_created_at p) (po_id p)"
    using ok by (auto simp: feedReady_def s)
  show "0 < feedLimit (fst (snd (snd s)))" using feed_page(1) [OF page start] by (simp add: s)
  have "(\<lambda>p. feedMatches lb r f p \<and> postWhere lb f (fr_Filters r) None p) = feedMatches lb r f" by (rule ext) (auto simp: feedMatches_def)
  with feed_page(2) [OF page start] show "feedServe s '''' = Inr (pageOf (feedLimit (fst (snd (snd s)))) (feedMark (fst s)) (feedContent s))"
    by (simp add: s feedContent_def feedRows_def)
  show "feedMark (fst s) x \<noteq> ''''" if "x \<in> set (feedContent s)" for x
    using that cursor_kept(2) [OF kept] by (auto simp: s feedContent_def feedRows_posts)
  show "feedServe s (feedMark (fst s) x) = Inr (pageOf (feedLimit (fst (snd (snd s)))) (feedMark (fst s)) ys)"
    if content: "feedContent s = xs @ x # ys" for xs x ys
  proof -
    from content obtain ps q qs where rows: "feedRows lb r f = ps @ q # qs" and x: "x = feedItem identity f q" and ys: "ys = map (feedItem identity f) qs"
      by (auto simp: s feedContent_def map_eq_append_conv)
    then have "q \<in> set (fo_posts f)" using feedRows_posts [of lb r f] by auto
    note kept = cursor_kept [OF kept [OF this]]
    show ?thesis using feed_page(2) [OF page kept(1)] kept(3,4) feed_after [OF ids rows] by (simp add: s x ys goodCursor_def)
  qed
qed

section \<open>The comments of a thread\<close>

type_synonym thread_site = "feed_lib \<times> (gostring \<times> gostring) \<times> PostOpenRequest \<times> forum"

abbreviation threadResource :: "PostOpenRequest \<Rightarrow> gostring" where
  "threadResource r \<equiv> ''post-comments:'' @ or_Ref r"

definition threadRows :: "feed_lib \<Rightarrow> PostOpenRequest \<Rightarrow> forum \<Rightarrow> comment_row list" where
  "threadRows lb r f = sort_key (commentKeyOf lb) (filter (\<lambda>c. co_post_id c = or_Ref r) (fo_comments f))"

definition threadMark :: "feed_lib \<Rightarrow> PostOpenRequest \<Rightarrow> AppComment \<Rightarrow> gostring" where
  "threadMark lb r x = encodeCursor lb (threadResource r) (rowCursor (pc_CreatedAt (ac_Comment x)) (pc_ID (ac_Comment x)))"

definition threadServe :: "thread_site \<Rightarrow> gostring \<Rightarrow> go_error + AppComment list \<times> gostring" where
  "threadServe s cursor = (case s of (lb, identity, r, f) \<Rightarrow>
     bindE (OpenPost lb identity (r\<lparr>or_CommentsCursor := cursor\<rparr>) f) (\<lambda>page. Inr (os_Comments page, os_NextCursor page)))"

definition threadReady :: "thread_site \<Rightarrow> bool" where
  "threadReady s = (case s of (lb, identity, r, f) \<Rightarrow>
     distinct (map co_id (fo_comments f)) \<and>
     (\<forall>c \<in> set (fo_comments f). cursorKept lb (threadResource r) (co_created_at c) (co_id c)) \<and>
     (\<exists>page. OpenPost lb identity (r\<lparr>or_CommentsCursor := ''''\<rparr>) f = Inr page))"

definition threadLimit :: "PostOpenRequest \<Rightarrow> nat" where
  "threadLimit r = nat (the (commentLimit (or_CommentsLimit r)))"

definition threadContent :: "thread_site \<Rightarrow> AppComment list" where
  "threadContent s = (case s of (lb, identity, r, f) \<Rightarrow> map (\<lambda>c. appComment identity (postComment f c)) (threadRows lb r f))"

lemma thread_sorted:
  assumes "distinct (map co_id (fo_comments f))"
  shows "sorted_wrt (\<lambda>p q. commentKeyOf lb p < commentKeyOf lb q) (threadRows lb r f)"
proof -
  have "distinct (map co_id (filter P (fo_comments f)))" for P using assms by (rule distinct_map_filter)
  then have "distinct (map (commentKeyOf lb) (filter P (fo_comments f)))" for P
    unfolding distinct_map inj_on_def commentKeyOf_def by (metis distinct_map inj_on_def snd_conv)
  then show ?thesis unfolding threadRows_def by (rule sorted_strict)
qed

lemma thread_after:
  assumes "distinct (map co_id (fo_comments f))" "threadRows lb r f = xs @ q # ys"
  shows "sort_key (commentKeyOf lb) (filter (\<lambda>c. co_post_id c = or_Ref r \<and> commentAfter lb (Some (rowCursor (co_created_at q) (co_id q))) c)
     (fo_comments f)) = ys"
proof -
  have "commentAfter lb (Some (rowCursor (co_created_at q) (co_id q))) = (\<lambda>c. commentKeyOf lb q < commentKeyOf lb c)"
    by (rule ext) (auto simp: commentAfter_def commentKeyOf_def less_prod_simp)
  then have "sort_key (commentKeyOf lb) (filter (\<lambda>c. co_post_id c = or_Ref r \<and> commentAfter lb (Some (rowCursor (co_created_at q) (co_id q))) c)
      (fo_comments f)) = filter (\<lambda>c. commentKeyOf lb q < commentKeyOf lb c) (threadRows lb r f)" by (simp add: threadRows_def filter_sort)
  also have "\<dots> = ys" using thread_sorted [OF assms(1), of lb r] unfolding assms(2) by (rule filter_after) auto
  finally show ?thesis .
qed

lemma thread_page:
  assumes first: "OpenPost lb identity (r\<lparr>or_CommentsCursor := ''''\<rparr>) f = Inr page"
    and cursor: "decodeCursor lb (threadResource r) cursor = Inr after" "goodCursor after"
  shows "0 < threadLimit r"
    "threadServe (lb, identity, r, f) cursor = Inr (pageOf (threadLimit r) (threadMark lb r) (map (\<lambda>c. appComment identity (postComment f c))
       (sort_key (commentKeyOf lb) (filter (\<lambda>c. co_post_id c = or_Ref r \<and> commentAfter lb after c) (fo_comments f)))))"
proof -
  have ref: "or_Ref r \<noteq> ''''" using first by (auto simp: OpenPost_def)
  obtain limit where limit: "commentLimit (or_CommentsLimit r) = Some limit" using first ref by (auto simp: OpenPost_def split: option.splits)
  then have pos: "1 \<le> limit" "limit \<le> 50" by (auto simp: commentLimit_def split: if_splits)
  let ?q = "\<lambda>after. \<lparr>tq_PostID = or_Ref r, tq_After = after, tq_Limit = limit, tq_ViewerKind = or_ViewerKind r, tq_ViewerSession = or_ViewerSession r\<rparr>"
  obtain view0 where "PostThread lb (?q None) f = Inr view0" using first ref limit by (auto simp: OpenPost_def decodeCursor_def Let_def)
  then obtain discovery p where disc: "postDiscoveryPredicate f (or_ViewerKind r) (or_ViewerSession r) = Some discovery"
    and p: "find (\<lambda>p. po_id p = or_Ref r \<and> discovery p \<and> hasRow (\<lambda>t. tp_id t = po_topic_id p) (topics (fo_core f))) (fo_posts f) = Some p"
    by (auto simp: PostThread_def split: option.splits if_splits)
  let ?zs = "sort_key (commentKeyOf lb) (filter (\<lambda>c. co_post_id c = or_Ref r \<and> commentAfter lb after c) (fo_comments f))"
  let ?bad = "or_Ref r = '''' \<or> limit < 1 \<or> limit > 50 \<or>
    (case after of None \<Rightarrow> False | Some a \<Rightarrow> bc_Time a = zeroTime \<or> \<not> boundedHomeValue (bc_ID a) 200)"
  have good: "\<not> ?bad" using ref pos cursor(2) by (auto simp: goodCursor_def split: option.splits)
  have time: "\<not> (case after of None \<Rightarrow> False | Some a \<Rightarrow> bc_Time a = zeroTime)" using cursor(2) by (auto simp: goodCursor_def split: option.splits)
  obtain view where view: "PostThread lb (?q after) f = Inr view" "th_Comments view = map (postComment f) (take (Suc (nat limit)) ?zs)"
    using good disc p by (simp add: PostThread_def)
  have n: "threadLimit r = nat limit" by (simp add: threadLimit_def limit)
  show "0 < threadLimit r" using pos by (simp add: n)
  let ?rows = "map (postComment f) (take (Suc (nat limit)) ?zs)"
  have "threadServe (lb, identity, r, f) cursor =
      Inr (let hasMore = nat limit < length ?rows; items = (if hasMore then take (nat limit) ?rows else ?rows) in
        (map (appComment identity) items,
         if hasMore \<and> items \<noteq> [] then encodeCursor lb (threadResource r) (rowCursor (pc_CreatedAt (last items)) (pc_ID (last items))) else ''''))"
    using ref limit cursor(1) time view pos by (simp add: threadServe_def OpenPost_def Let_def nat_less_iff del: take_Suc)
  also have "\<dots> = Inr (pageOf (nat limit) (threadMark lb r) (map (\<lambda>c. appComment identity (postComment f c)) ?zs))"
    by (subst page_take [where mark = "threadMark lb r" and zs = "map (postComment f) ?zs"])
      (use pos in \<open>simp_all add: take_map threadMark_def o_def appComment_def\<close>)
  finally show "threadServe (lb, identity, r, f) cursor =
      Inr (pageOf (threadLimit r) (threadMark lb r) (map (\<lambda>c. appComment identity (postComment f c)) ?zs))" by (simp add: n)
qed

lemma threadMark_item [simp]:
  "threadMark lb r (appComment identity (postComment f c)) = encodeCursor lb (threadResource r) (rowCursor (co_created_at c) (co_id c))"
  by (simp add: threadMark_def appComment_def postComment_def)

lemma threadRows_comments: "set (threadRows lb r f) = {c \<in> set (fo_comments f). co_post_id c = or_Ref r}"
  by (auto simp: threadRows_def)

interpretation thread: paged_service threadReady threadServe threadContent "\<lambda>s. threadMark (fst s) (fst (snd (snd s)))"
  "\<lambda>s. threadLimit (fst (snd (snd s)))"
proof unfold_locales
  fix s :: thread_site assume ok: "threadReady s"
  obtain lb identity r f where s: "s = (lb, identity, r, f)" by (metis prod_cases4)
  obtain page where page: "OpenPost lb identity (r\<lparr>or_CommentsCursor := ''''\<rparr>) f = Inr page" using ok by (auto simp: threadReady_def s)
  have start: "decodeCursor lb (threadResource r) '''' = Inr None" "goodCursor None" by (simp_all add: decodeCursor_def goodCursor_def)
  have ids: "distinct (map co_id (fo_comments f))"
    and kept: "\<And>c. c \<in> set (fo_comments f) \<Longrightarrow> cursorKept lb (threadResource r) (co_created_at c) (co_id c)" using ok by (auto simp: threadReady_def s)
  show "0 < threadLimit (fst (snd (snd s)))" using thread_page(1) [OF page start] by (simp add: s)
  show "threadServe s '''' = Inr (pageOf (threadLimit (fst (snd (snd s)))) (threadMark (fst s) (fst (snd (snd s)))) (threadContent s))"
    using thread_page(2) [OF page start] by (simp add: s threadContent_def threadRows_def commentAfter_def)
  show "threadMark (fst s) (fst (snd (snd s))) x \<noteq> ''''" if "x \<in> set (threadContent s)" for x
    using that cursor_kept(2) [OF kept] by (auto simp: s threadContent_def threadRows_comments)
  show "threadServe s (threadMark (fst s) (fst (snd (snd s))) x) = Inr (pageOf (threadLimit (fst (snd (snd s)))) (threadMark (fst s) (fst (snd (snd s)))) ys)"
    if content: "threadContent s = xs @ x # ys" for xs x ys
  proof -
    from content obtain ps q qs where rows: "threadRows lb r f = ps @ q # qs" and x: "x = appComment identity (postComment f q)"
      and ys: "ys = map (\<lambda>c. appComment identity (postComment f c)) qs" by (auto simp: s threadContent_def map_eq_append_conv)
    then have "q \<in> set (fo_comments f)" using threadRows_comments [of lb r f] by auto
    note kept = cursor_kept [OF kept [OF this]]
    show ?thesis using thread_page(2) [OF page kept(1)] kept(3,4) thread_after [OF ids rows] by (simp add: s x ys goodCursor_def)
  qed
qed

section \<open>Everything once, and an end\<close>

text \<open>
  Property C14 (following the feed reads every post once). Take any reachable forum whose posts have usable cursors
  and a request the feed answers. A client that follows the cursors from the empty one comes to an end after at most
  one request per post and one more, and has then been given every post that matches the filters and that the viewer
  discovers, each once, newest first and within one time by identifier, and no other post.
\<close>

theorem feed_pages_complete:
  assumes "(forum_steps ul hash)\<^sup>*\<^sup>* empty_forum f"
    and "\<forall>p \<in> set (fo_posts f). cursorKept lb ''posts'' (po_created_at p) (po_id p)"
    and "BrowsePosts lb identity (r\<lparr>fr_Cursor := ''''\<rparr>) f = Inr page"
  shows "\<exists>rows. follow (feedServe (lb, identity, r, f)) (Suc (length (fo_posts f))) '''' = Some (Inr (map (feedItem identity f) rows)) \<and>
    sorted_wrt (\<lambda>p q. feedKey lb p < feedKey lb q) rows \<and> set rows = {p \<in> set (fo_posts f). feedMatches lb r f p}"
proof -
  have "forum_inv f" by (rule forum.reachable_inv [OF refl assms(1)])
  then have ids: "distinct (map po_id (fo_posts f))" by (simp add: forum_inv_def ids_ok_def)
  then have "feedReady (lb, identity, r, f)" using assms(2,3) by (auto simp: feedReady_def)
  moreover have "length (feedContent (lb, identity, r, f)) < Suc (length (fo_posts f))" by (simp add: feedContent_def feedRows_def le_imp_less_Suc)
  ultimately have "follow (feedServe (lb, identity, r, f)) (Suc (length (fo_posts f))) '''' = Some (Inr (feedContent (lb, identity, r, f)))"
    by (rule feed.follow_complete)
  with feed_sorted [OF ids, of lb r] feedRows_posts [of lb r f] show ?thesis by (auto simp: feedContent_def)
qed

text \<open>
  Following a thread reads every comment once. Take any reachable forum whose comments have usable
  cursors and a post that opens for the viewer. A client that follows the cursors of its comments comes to an end after
  at most one request per comment and one more, and has then been given every comment of the post once, oldest first.
\<close>

lemma thread_pages_complete:
  assumes "(forum_steps ul hash)\<^sup>*\<^sup>* empty_forum f"
    and "\<forall>c \<in> set (fo_comments f). cursorKept lb (threadResource r) (co_created_at c) (co_id c)"
    and "OpenPost lb identity (r\<lparr>or_CommentsCursor := ''''\<rparr>) f = Inr page"
  shows "\<exists>rows. follow (threadServe (lb, identity, r, f)) (Suc (length (fo_comments f))) '''' =
      Some (Inr (map (\<lambda>c. appComment identity (postComment f c)) rows)) \<and>
    sorted_wrt (\<lambda>c d. commentKeyOf lb c < commentKeyOf lb d) rows \<and> set rows = {c \<in> set (fo_comments f). co_post_id c = or_Ref r}"
proof -
  have "forum_inv f" by (rule forum.reachable_inv [OF refl assms(1)])
  then have ids: "distinct (map co_id (fo_comments f))" by (simp add: forum_inv_def ids_ok_def)
  then have "threadReady (lb, identity, r, f)" using assms(2,3) by (auto simp: threadReady_def)
  moreover have "length (threadContent (lb, identity, r, f)) < Suc (length (fo_comments f))"
    by (simp add: threadContent_def threadRows_def le_imp_less_Suc)
  ultimately have "follow (threadServe (lb, identity, r, f)) (Suc (length (fo_comments f))) '''' = Some (Inr (threadContent (lb, identity, r, f)))"
    by (rule thread.follow_complete)
  with thread_sorted [OF ids, of lb r] threadRows_comments [of lb r f] show ?thesis by (auto simp: threadContent_def)
qed

end
