(* ===== verification/Forum_Hidden.thy ===== *)
theory Forum_Hidden
  imports Forum_Feed
begin

text \<open>
  What an agent may do with a post it cannot discover: it cannot open it or comment on it, which are both answered as
  if the post did not exist, but it can set its state.
\<close>

section \<open>Refusals\<close>

text \<open>The two guards that consult the discovery predicate.\<close>

lemma hidden_not_found:
  assumes "distinct (map po_id (fo_posts f))" "p \<in> set (fo_posts f)" "\<not> discoverable f s p"
  shows "find (\<lambda>q. po_id q = po_id p \<and> discoverable f s q \<and> P q) (fo_posts f) = None"
proof -
  have "\<not> (po_id q = po_id p \<and> discoverable f s q \<and> P q)" if "q \<in> set (fo_posts f)" for q
    using distinct_key_eq [OF assms(1) that assms(2)] assms(3) by blast
  then show ?thesis unfolding find_None_iff_all by blast
qed

lemma hidden_OpenPost:
  assumes "distinct (map po_id (fo_posts f))" "p \<in> set (fo_posts f)" "\<not> discoverable f s p" "po_id p \<noteq> ''''" "s \<noteq> ''''"
    "or_Ref r = po_id p" "or_ViewerKind r = ''agent''" "or_ViewerSession r = s" "or_CommentsCursor r = ''''" "commentLimit (or_CommentsLimit r) = Some n"
  shows "OpenPost fl identity r f = Inl ErrNotFound"
proof -
  have n: "1 \<le> n" "n \<le> 50" using assms(10) by (auto simp: commentLimit_def split: if_splits)
  then have "PostThread fl \<lparr>tq_PostID = po_id p, tq_After = None, tq_Limit = n, tq_ViewerKind = ''agent'', tq_ViewerSession = s\<rparr> f = Inl ErrNotFound"
    using assms(4,5) hidden_not_found [OF assms(1-3)] by (simp add: PostThread_def postDiscoveryPredicate_def)
  then show ?thesis using assms(4,6-10) by (simp add: OpenPost_def decodeCursor_def)
qed

lemma hidden_Comment:
  assumes "distinct (map po_id (fo_posts f))" "p \<in> set (fo_posts f)" "\<not> discoverable f s p" "po_id p \<noteq> ''''" "s \<noteq> ''''"
    "cq_PostID c = po_id p" "cq_ActorKind c = ''agent''" "cq_SessionID c = s" "cq_Body c \<noteq> ''''" "cq_Intent c \<in> CommentIntents" "cq_RequestID c \<noteq> ''''"
    "normalizeMentionPrincipals (cq_MentionPrincipals c) (cq_MentionSessionIDs c) = Some ms"
    "\<forall>k \<in> set (fo_comments f). co_request_id k \<noteq> Some (requestStorageKey (cq_ActorID c) s (cq_RequestID c))"
  shows "Comment e c f f = (Inl ErrNotFound, f)"
proof -
  have "commentByRequest (requestStorageKey (cq_ActorID c) s (cq_RequestID c)) f = None"
    using assms(13) by (simp add: commentByRequest_def find_None_iff_all)
  then show ?thesis using assms(4-12) hidden_not_found [OF assms(1-3), of "\<lambda>_. True"]
    by (simp add: Comment_def commentAdmitted_def postDiscoveryPredicate_def Let_def)
qed

section \<open>A transaction that succeeds\<close>

lemma revision_unused:
  assumes "log_ok (ps, cs)" "p \<in> set ps"
  shows "\<not> hasRow (\<lambda>q. ch_project_id q = p_id p \<and> ch_revision q = p_revision p + 1) cs"
proof -
  obtain b where "changesOf cs (p_id p) = [b + 1..p_revision p]" using assms by (auto simp: log_ok_def contiguous_def)
  moreover have "ch_revision q \<in> set (changesOf cs (p_id p))" if "q \<in> set cs" "ch_project_id q = p_id p" for q
    using that by (simp add: changesOf_def)
  ultimately show ?thesis unfolding hasRow_iff by fastforce
qed

lemma bumped_has: "hasProject (bumpedCore pid now db) k = hasProject db k"
proof -
  have "map p_id (bumped pid now (projects db)) = map p_id (projects db)" unfolding bumped_def by (rule map_updWhere_frame) simp
  then have "p_id ` set (bumped pid now (projects db)) = p_id ` set (projects db)" by (metis list.set_map)
  moreover have "hasProject d k \<longleftrightarrow> k \<in> p_id ` set (projects d)" for d :: db by (auto simp: hasProject_def hasRow_iff)
  ultimately show ?thesis by (simp add: bumpedCore_def)
qed

lemma mutateForum_succeeds:
  assumes "log_ok (projects (fo_core f), changes (fo_core f))" "projectRow (fo_core f) pid = Some p"
    "fn (p_revision p + 1) (f\<lparr>fo_core := bumpedCore pid (env_clock e k) (fo_core f)\<rparr>) = Inr f1"
    "fo_core f1 = bumpedCore pid (env_clock e k) (fo_core f)"
  shows "\<exists>db. mutateForum e k k' pid kind ref summary fn f = (Inr (p_revision p + 1), f1\<lparr>fo_core := db\<rparr>)"
proof -
  have p: "p \<in> set (projects (fo_core f))" "p_id p = pid" using assms(2) by (auto simp: projectRow_def dest: find_SomeD)
  have "\<not> hasRow (\<lambda>q. ch_project_id q = pid \<and> ch_revision q = p_revision p + 1) (changes (fo_core f1))"
    using revision_unused [OF assms(1) p(1)] p(2) by (simp add: assms(4) bumpedCore_def)
  moreover have "hasProject (fo_core f1) pid" using p bumped_has [where db = "fo_core f"] by (auto simp: assms(4) hasProject_def hasRow_iff)
  ultimately show ?thesis using assms(2,3)
    by (simp add: mutateForum_def commitForum_def sqlInsertChange_def bumpedCore_def bumped_def) (rule exI, rule refl)
qed

section \<open>The state of a hidden post\<close>

lemma state_insert:
  assumes "hasPost f (sq_PostID q)" "optProject f project" "sq_State q \<in> {''open'', ''resolved''}" "sq_SupersededBy q = ''''"
    "\<forall>x \<in> set (fo_state_events f). sv_id x \<noteq> newID e 0 ''PS-'' \<and> sv_request_id x \<noteq> Some (stateKey q)"
  shows "insertPostState e q (stateKey q) project rv f = Inr (f\<lparr>fo_state_events := fo_state_events f @ [newState e q project rv]\<rparr>)"
  using assms by (auto simp: insertPostState_def sqlInsertStateEvent_def newState_def nullif_def checked_def hasRow_iff)

lemma postStateTx_succeeds:
  assumes "log_ok (projects (fo_core f), changes (fo_core f))" "hasPost f (sq_PostID q)"
    "project = None \<or> (\<exists>pid. project = Some pid \<and> hasProject (fo_core f) pid)"
    "sq_State q \<in> {''open'', ''resolved''}" "sq_SupersededBy q = ''''"
    "\<forall>x \<in> set (fo_state_events f). sv_id x \<noteq> newID e 0 ''PS-'' \<and> sv_request_id x \<noteq> Some (stateKey q)"
  shows "\<exists>v rv db. postStateTx e q (stateKey q) project f =
    (Inr v, f\<lparr>fo_state_events := fo_state_events f @ [newState e q project rv], fo_core := db\<rparr>)"
proof (cases project)
  case None
  have "postStateTx e q (stateKey q) project f = (Inr 0, f\<lparr>fo_state_events := fo_state_events f @ [newState e q project None]\<rparr>)"
    using state_insert [OF assms(2) _ assms(4-6), of None None] None by (simp add: postStateTx_def optProject_def)
  then show ?thesis by (intro exI [of _ 0] exI [of _ None] exI [of _ "fo_core f"]) simp
next
  case (Some pid)
  then have has: "hasProject (fo_core f) pid" using assms(3) by simp
  then obtain p where p: "projectRow (fo_core f) pid = Some p"
    by (cases "projectRow (fo_core f) pid") (auto simp: projectRow_def find_None_iff_all hasProject_def hasRow_iff)
  let ?g = "f\<lparr>fo_core := bumpedCore pid (env_clock e 1) (fo_core f)\<rparr>"
  let ?h = "?g\<lparr>fo_state_events := fo_state_events f @ [newState e q project (Some (p_revision p + 1))]\<rparr>"
  have "optProject ?g project" using has Some by (simp add: optProject_def bumped_has)
  then have "insertPostState e q (stateKey q) project (Some (p_revision p + 1)) ?g = Inr ?h"
    using state_insert [of ?g q project e "Some (p_revision p + 1)"] assms(2,4-6) by (simp add: hasPost_def)
  then obtain db where "mutateForum e 1 2 pid ''post_state'' (sq_PostID q) (sq_State q) (\<lambda>r. insertPostState e q (stateKey q) project (Some r)) f =
      (Inr (p_revision p + 1), ?h\<lparr>fo_core := db\<rparr>)"
    using mutateForum_succeeds [OF assms(1) p, of "\<lambda>r. insertPostState e q (stateKey q) project (Some r)" e 1 ?h 2 "''post_state''" "sq_PostID q" "sq_State q"]
    by auto
  then show ?thesis using Some by (auto simp: postStateTx_def)
qed

lemma post_project:
  assumes "forum_inv f" "p \<in> set (fo_posts f)"
  shows "po_project_id p = None \<or> (\<exists>pid. po_project_id p = Some pid \<and> hasProject (fo_core f) pid)"
proof (cases "po_project_id p")
  case (Some pid)
  have "logged (changes (fo_core f)) (po_project_id p) (po_project_revision p) (po_id p)" using assms by (simp add: forum_inv_def log_refs_ok_def)
  then obtain ch where "ch \<in> set (changes (fo_core f))" "ch_project_id ch = pid" by (auto simp: logged_def Some)
  moreover have "\<forall>c \<in> set (changes (fo_core f)). ch_project_id c \<in> p_id ` set (projects (fo_core f))"
    using assms(1) by (simp add: forum_inv_def core_inv_def log_ok_def)
  ultimately show ?thesis by (force simp: Some hasProject_def hasRow_iff)
qed simp

lemma postState_append:
  "fo_state_events f' = fo_state_events f @ [x] \<Longrightarrow> sv_post_id x = k \<Longrightarrow> postState f' k = (sv_state x, orEmpty (sv_superseded_by x))"
  by (cases "filter (\<lambda>e. sv_post_id e = k) (fo_state_events f)") (auto simp: postState_def)

lemma stateEvent_fields:
  "sv_post_id (newState e q project rv) = sq_PostID q" "sv_state (newState e q project rv) = sq_State q"
  "sv_superseded_by (newState e q project rv) = nullif (sq_SupersededBy q)"
  by (simp_all add: newState_def)

lemma SetPostState_succeeds:
  assumes "forum_inv f" "p \<in> set (fo_posts f)" "po_id p \<noteq> ''''" "sq_PostID q = po_id p" "sq_SessionID q \<noteq> ''''"
    "sq_State q \<in> {''open'', ''resolved''}" "sq_SupersededBy q = ''''"
    "\<forall>x \<in> set (fo_state_events f). sv_id x \<noteq> newID e 0 ''PS-'' \<and> sv_request_id x \<noteq> Some (stateKey q)"
  shows "\<exists>v f'. SetPostState e q f f = (Inr \<lparr>wr_ID = newID e 0 ''PS-'', wr_Revision = v\<rparr>, f') \<and> postState f' (po_id p) = (sq_State q, '''')"
proof -
  have ids: "distinct (map po_id (fo_posts f))" and log: "log_ok (projects (fo_core f), changes (fo_core f))"
    using assms(1) by (simp_all add: forum_inv_def ids_ok_def core_inv_def)
  have row: "postRow f (po_id p) = Some p" unfolding postRow_def by (rule find_key_unique [OF ids assms(2) refl])
  have has: "hasPost f (sq_PostID q)" using assms(2,4) by (auto simp: has_iff)
  obtain v rv db where tx: "postStateTx e q (stateKey q) (po_project_id p) f =
      (Inr v, f\<lparr>fo_state_events := fo_state_events f @ [newState e q (po_project_id p) rv], fo_core := db\<rparr>)"
    using postStateTx_succeeds [OF log has post_project [OF assms(1,2)] assms(6-8)] by blast
  have new: "postStateByRequest (stateKey q) f = None" using assms(8) by (simp add: postStateByRequest_def find_None_iff_all)
  have "SetPostState e q f f = (Inr \<lparr>wr_ID = newID e 0 ''PS-'', wr_Revision = v\<rparr>,
      f\<lparr>fo_state_events := fo_state_events f @ [newState e q (po_project_id p) rv], fo_core := db\<rparr>)"
    using assms(3-7) row new tx by (auto simp: SetPostState_def Let_def)
  then show ?thesis using assms(4,7) by (auto intro!: exI simp: postState_append stateEvent_fields nullif_def)
qed

text \<open>
  Property C15 (the state of a post is set by agents who cannot discover it). Take any reachable forum, any post in it
  and any agent who cannot discover the post. A well-formed request of the agent to open it, and one to comment on it,
  are answered as if the post did not exist, and change nothing. But a request of the same agent to open or to resolve
  it is accepted: the event is written and is from then on the state of the post.
\<close>

theorem state_ignores_discovery:
  assumes "(forum_steps lb hash)\<^sup>*\<^sup>* empty_forum f" and "p \<in> set (fo_posts f)" "po_id p \<noteq> ''''" "s \<noteq> ''''" and "\<not> discoverable f s p"
    and "or_Ref r = po_id p" "or_ViewerKind r = ''agent''" "or_ViewerSession r = s" "or_CommentsCursor r = ''''" "commentLimit (or_CommentsLimit r) = Some n"
    and "cq_PostID c = po_id p" "cq_ActorKind c = ''agent''" "cq_SessionID c = s" "cq_Body c \<noteq> ''''" "cq_Intent c \<in> CommentIntents" "cq_RequestID c \<noteq> ''''"
      "normalizeMentionPrincipals (cq_MentionPrincipals c) (cq_MentionSessionIDs c) = Some ms"
      "\<forall>k \<in> set (fo_comments f). co_request_id k \<noteq> Some (requestStorageKey (cq_ActorID c) s (cq_RequestID c))"
    and "sq_PostID q = po_id p" "sq_SessionID q = s" "sq_State q \<in> {''open'', ''resolved''}" "sq_SupersededBy q = ''''"
      "\<forall>x \<in> set (fo_state_events f). sv_id x \<noteq> newID e 0 ''PS-'' \<and> sv_request_id x \<noteq> Some (requestStorageKey (sq_ActorID q) s (sq_RequestID q))"
  shows "OpenPost fl identity r f = Inl ErrNotFound \<and> Comment e c f f = (Inl ErrNotFound, f) \<and>
    (\<exists>v f'. SetPostState e q f f = (Inr \<lparr>wr_ID = newID e 0 ''PS-'', wr_Revision = v\<rparr>, f') \<and> postState f' (po_id p) = (sq_State q, ''''))"
proof -
  have inv: "forum_inv f" by (rule forum.reachable_inv [OF refl assms(1)])
  then have ids: "distinct (map po_id (fo_posts f))" by (simp add: forum_inv_def ids_ok_def)
  show ?thesis
    using hidden_OpenPost [OF ids assms(2,5,3,4,6-10)] hidden_Comment [OF ids assms(2,5,3,4,11-18)]
      SetPostState_succeeds [OF inv assms(2,3,19) _ assms(21,22)] assms(4,20,23) by simp
qed

end
