(* ===== verification/Forum_Demo.thy ===== *)
theory Forum_Demo
  imports Forum_Contract Forum_Paging Forum_Hidden Core_Demo
begin

text \<open>
  A small run of the forum, evaluated by the simplifier: two sessions register in the project of the core's run, one
  of them publishes a post that mentions the human and a second post, a comment is written, the scope of the first
  post is opened and the notification is read.
\<close>

definition fdemo_url :: url_lib where
  "fdemo_url = \<lparr>ul_Parse = (\<lambda>_. None), ul_EqualFold = (=)\<rparr>"

definition fdemo_post :: "gostring \<Rightarrow> gostring \<Rightarrow> gostring list \<Rightarrow> PostRequest" where
  "fdemo_post title key mentions = \<lparr>pq_TopicID = ''p'', pq_Kind = ''finding'', pq_Title = title, pq_Body = ''b'', pq_Basis = ''c'', pq_Ref = '''',
     pq_ActorID = ''a'', pq_ActorKind = ''agent'', pq_ActorPrincipal = ''a'', pq_SessionID = ''a'', pq_RequestID = key, pq_Attachments = [],
     pq_MentionPrincipals = mentions\<rparr>"

definition fdemo_comment :: "gostring \<Rightarrow> gostring \<Rightarrow> CommentRequest" where
  "fdemo_comment session key = \<lparr>cq_PostID = ''P-40'', cq_Body = ''r'', cq_Intent = ''answer'', cq_ActorID = session, cq_ActorKind = ''agent'',
     cq_ActorPrincipal = session, cq_SessionID = session, cq_RequestID = key, cq_MentionSessionIDs = [], cq_MentionPrincipals = []\<rparr>"

definition fdemo_scope :: PerspectiveScopeRequest where
  "fdemo_scope = \<lparr>xq_PostID = ''P-40'', xq_Scope = ''commons'', xq_ActorID = ''a'', xq_SessionID = ''a'', xq_RequestID = ''4'',
     xq_BaseRevision = 0, xq_AuthorOnly = True\<rparr>"

definition fdemo_read :: MarkNotificationReadRequest where
  "fdemo_read = \<lparr>mq_NotificationID = ''N-41'', mq_RecipientPrincipal = HumanLocalPrincipal, mq_ActorID = ''u'', mq_RequestID = ''5''\<rparr>"

definition fdemo_state :: PostStateRequest where
  "fdemo_state = \<lparr>sq_PostID = ''P-40'', sq_State = ''resolved'', sq_SupersededBy = '''', sq_ActorID = ''d'', sq_SessionID = ''d'', sq_RequestID = ''6''\<rparr>"

definition fdemo_session :: "gostring \<Rightarrow> gostring \<Rightarrow> Session" where
  "fdemo_session k project = \<lparr>sn_ID = k, sn_Host = ''h'', sn_ProjectID = project, sn_Purpose = ''w''\<rparr>"

definition fdemo0 :: forum where
  "fdemo0 = empty_forum\<lparr>fo_core := demo1\<rparr>"

definition fdemo1 :: forum where
  "fdemo1 = snd (UpsertSession (demo_env 2) (fdemo_session ''a'' ''p'') fdemo0)"

definition fdemo2 :: forum where
  "fdemo2 = snd (UpsertSession (demo_env 3) (fdemo_session ''d'' '''') fdemo1)"

definition fdemo3 :: forum where
  "fdemo3 = snd (Post fdemo_url (demo_env 4) (fdemo_post ''t'' ''1'' [HumanLocalPrincipal]) fdemo2 fdemo2)"

definition fdemo4 :: forum where
  "fdemo4 = snd (Post fdemo_url (demo_env 5) (fdemo_post ''v'' ''2'' []) fdemo3 fdemo3)"

definition fdemo5 :: forum where
  "fdemo5 = snd (Comment (demo_env 6) (fdemo_comment ''a'' ''3'') fdemo4 fdemo4)"

definition fdemo6 :: forum where
  "fdemo6 = snd (SetPerspectiveScope (demo_env 7) fdemo_scope fdemo5 fdemo5)"

definition fdemo7 :: forum where
  "fdemo7 = snd (MarkHumanNotificationRead (demo_env 8) fdemo_read fdemo6)"


lemma fdemo1_code [code]: "fdemo1 =
  \<lparr>fo_core =
      \<lparr>projects =
         [\<lparr>p_id = ''p'', p_name = ''P'', p_status = ''active'',
             p_purpose = ''x'', p_milestone = [], p_now_text = [],
             p_revision = 1, p_created_at = 100, p_updated_at = 100\<rparr>],
         topics =
           [\<lparr>tp_id = ''general'', tp_project_id = None, tp_name = ''General'',
               tp_created_at = 0\<rparr>,
            \<lparr>tp_id = ''p'', tp_project_id = Some ''p'', tp_name = ''P'',
               tp_created_at = 100\<rparr>],
         milestones = [], tasks = [], task_dependencies = [],
         task_claims = [], task_current_claims = [], task_events = [],
         changes =
           [\<lparr>ch_project_id = ''p'', ch_revision = 1,
               ch_kind = ''project_created'', ch_ref = ''p'',
               ch_summary = ''P'', ch_created_at = 100\<rparr>],
         activity_events =
           [\<lparr>ac_id = ''A-10'', ac_kind = ''project_updated'',
               ac_project_id = Some ''p'', ac_actor_id = ''u'',
               ac_object_ref = ''p'', ac_object_title = ''P'',
               ac_outcome = ''created'', ac_untrusted = True,
               ac_occurred_at = 100, ac_recorded_at = 100\<rparr>],
         project_core_requests =
           [\<lparr>rq_request_key = ''1:u1'', rq_operation = ''project.create'',
               rq_payload_hash = ''h'', rq_result_id = ''p'',
               rq_result_revision = 1, rq_project_revision = 1,
               rq_created_at = 100\<rparr>],
         wiki_pages = [], wiki_revisions = [], search_documents = [],
         decisions = [], status_events = [], redactions = []\<rparr>,
      fo_sessions =
        [\<lparr>ss_id = ''a'', ss_host = ''h'', ss_project_id = Some ''p'',
            ss_purpose = ''w'', ss_created_at = 200\<rparr>],
      fo_handles =
        [\<lparr>sh_session_id = ''a'', sh_handle = ''agent-000001'',
            sh_created_at = 200\<rparr>],
      fo_posts = [], fo_attachments = [], fo_comments = [],
      fo_state_events = [], fo_scopes = [], fo_scope_events = [],
      fo_mentions = [], fo_comment_mentions = [], fo_notifications = [],
      fo_receipts = []\<rparr>"
  by code_simp

lemma fdemo2_code [code]: "fdemo2 =
  \<lparr>fo_core =
      \<lparr>projects =
         [\<lparr>p_id = ''p'', p_name = ''P'', p_status = ''active'',
             p_purpose = ''x'', p_milestone = [], p_now_text = [],
             p_revision = 1, p_created_at = 100, p_updated_at = 100\<rparr>],
         topics =
           [\<lparr>tp_id = ''general'', tp_project_id = None, tp_name = ''General'',
               tp_created_at = 0\<rparr>,
            \<lparr>tp_id = ''p'', tp_project_id = Some ''p'', tp_name = ''P'',
               tp_created_at = 100\<rparr>],
         milestones = [], tasks = [], task_dependencies = [],
         task_claims = [], task_current_claims = [], task_events = [],
         changes =
           [\<lparr>ch_project_id = ''p'', ch_revision = 1,
               ch_kind = ''project_created'', ch_ref = ''p'',
               ch_summary = ''P'', ch_created_at = 100\<rparr>],
         activity_events =
           [\<lparr>ac_id = ''A-10'', ac_kind = ''project_updated'',
               ac_project_id = Some ''p'', ac_actor_id = ''u'',
               ac_object_ref = ''p'', ac_object_title = ''P'',
               ac_outcome = ''created'', ac_untrusted = True,
               ac_occurred_at = 100, ac_recorded_at = 100\<rparr>],
         project_core_requests =
           [\<lparr>rq_request_key = ''1:u1'', rq_operation = ''project.create'',
               rq_payload_hash = ''h'', rq_result_id = ''p'',
               rq_result_revision = 1, rq_project_revision = 1,
               rq_created_at = 100\<rparr>],
         wiki_pages = [], wiki_revisions = [], search_documents = [],
         decisions = [], status_events = [], redactions = []\<rparr>,
      fo_sessions =
        [\<lparr>ss_id = ''a'', ss_host = ''h'', ss_project_id = Some ''p'',
            ss_purpose = ''w'', ss_created_at = 200\<rparr>,
         \<lparr>ss_id = ''d'', ss_host = ''h'', ss_project_id = None,
            ss_purpose = ''w'', ss_created_at = 300\<rparr>],
      fo_handles =
        [\<lparr>sh_session_id = ''a'', sh_handle = ''agent-000001'',
            sh_created_at = 200\<rparr>,
         \<lparr>sh_session_id = ''d'', sh_handle = ''agent-000002'',
            sh_created_at = 300\<rparr>],
      fo_posts = [], fo_attachments = [], fo_comments = [],
      fo_state_events = [], fo_scopes = [], fo_scope_events = [],
      fo_mentions = [], fo_comment_mentions = [], fo_notifications = [],
      fo_receipts = []\<rparr>"
  by code_simp

lemma fdemo3_code [code]: "fdemo3 =
  \<lparr>fo_core =
      \<lparr>projects =
         [\<lparr>p_id = ''p'', p_name = ''P'', p_status = ''active'',
             p_purpose = ''x'', p_milestone = [], p_now_text = [],
             p_revision = 2, p_created_at = 100, p_updated_at = 401\<rparr>],
         topics =
           [\<lparr>tp_id = ''general'', tp_project_id = None, tp_name = ''General'',
               tp_created_at = 0\<rparr>,
            \<lparr>tp_id = ''p'', tp_project_id = Some ''p'', tp_name = ''P'',
               tp_created_at = 100\<rparr>],
         milestones = [], tasks = [], task_dependencies = [],
         task_claims = [], task_current_claims = [], task_events = [],
         changes =
           [\<lparr>ch_project_id = ''p'', ch_revision = 1,
               ch_kind = ''project_created'', ch_ref = ''p'',
               ch_summary = ''P'', ch_created_at = 100\<rparr>,
            \<lparr>ch_project_id = ''p'', ch_revision = 2, ch_kind = ''post'',
               ch_ref = ''P-40'', ch_summary = ''t'', ch_created_at = 402\<rparr>],
         activity_events =
           [\<lparr>ac_id = ''A-10'', ac_kind = ''project_updated'',
               ac_project_id = Some ''p'', ac_actor_id = ''u'',
               ac_object_ref = ''p'', ac_object_title = ''P'',
               ac_outcome = ''created'', ac_untrusted = True,
               ac_occurred_at = 100, ac_recorded_at = 100\<rparr>],
         project_core_requests =
           [\<lparr>rq_request_key = ''1:u1'', rq_operation = ''project.create'',
               rq_payload_hash = ''h'', rq_result_id = ''p'',
               rq_result_revision = 1, rq_project_revision = 1,
               rq_created_at = 100\<rparr>],
         wiki_pages = [], wiki_revisions = [],
         search_documents =
           [\<lparr>sd_project_id = Some ''p'', sd_ref = ''P-40'',
               sd_kind = ''finding'', sd_revision = 2, sd_title = ''t'',
               sd_body = ''b c''\<rparr>],
         decisions = [], status_events = [], redactions = []\<rparr>,
      fo_sessions =
        [\<lparr>ss_id = ''a'', ss_host = ''h'', ss_project_id = Some ''p'',
            ss_purpose = ''w'', ss_created_at = 200\<rparr>,
         \<lparr>ss_id = ''d'', ss_host = ''h'', ss_project_id = None,
            ss_purpose = ''w'', ss_created_at = 300\<rparr>],
      fo_handles =
        [\<lparr>sh_session_id = ''a'', sh_handle = ''agent-000001'',
            sh_created_at = 200\<rparr>,
         \<lparr>sh_session_id = ''d'', sh_handle = ''agent-000002'',
            sh_created_at = 300\<rparr>],
      fo_posts =
        [\<lparr>po_id = ''P-40'', po_topic_id = ''p'', po_project_id = Some ''p'',
            po_project_revision = Some 2, po_kind = ''finding'',
            po_title = ''t'', po_body = ''b'', po_basis = ''c'', po_ref = [],
            po_session_id = ''a'', po_request_id = Some ''1:a1'',
            po_created_at = 400\<rparr>],
      fo_attachments = [], fo_comments = [], fo_state_events = [],
      fo_scopes =
        [\<lparr>sc_post_id = ''P-40'', sc_scope = ''closed'', sc_revision = 0,
            sc_event_id = None, sc_updated_at = 400\<rparr>],
      fo_scope_events = [],
      fo_mentions =
        [\<lparr>cm_source_kind = ''post'', cm_source_id = ''P-40'', cm_position = 0,
            cm_recipient_kind = ''human'',
            cm_recipient_principal = ''human:local-admin'',
            cm_recipient_session_id = None, cm_created_at = 400\<rparr>],
      fo_comment_mentions = [],
      fo_notifications =
        [\<lparr>hn_id = ''N-41'', hn_recipient_principal = ''human:local-admin'',
            hn_source_kind = ''post'', hn_post_id = ''P-40'',
            hn_comment_id = None, hn_actor_kind = ''agent'',
            hn_actor_principal = ''a'', hn_actor_session_id = ''a'',
            hn_snippet = ''b'', hn_created_at = 400, hn_read_at = None\<rparr>],
      fo_receipts = []\<rparr>"
  by code_simp

lemma fdemo4_code [code]: "fdemo4 =
  \<lparr>fo_core =
      \<lparr>projects =
         [\<lparr>p_id = ''p'', p_name = ''P'', p_status = ''active'',
             p_purpose = ''x'', p_milestone = [], p_now_text = [],
             p_revision = 3, p_created_at = 100, p_updated_at = 501\<rparr>],
         topics =
           [\<lparr>tp_id = ''general'', tp_project_id = None, tp_name = ''General'',
               tp_created_at = 0\<rparr>,
            \<lparr>tp_id = ''p'', tp_project_id = Some ''p'', tp_name = ''P'',
               tp_created_at = 100\<rparr>],
         milestones = [], tasks = [], task_dependencies = [],
         task_claims = [], task_current_claims = [], task_events = [],
         changes =
           [\<lparr>ch_project_id = ''p'', ch_revision = 1,
               ch_kind = ''project_created'', ch_ref = ''p'',
               ch_summary = ''P'', ch_created_at = 100\<rparr>,
            \<lparr>ch_project_id = ''p'', ch_revision = 2, ch_kind = ''post'',
               ch_ref = ''P-40'', ch_summary = ''t'', ch_created_at = 402\<rparr>,
            \<lparr>ch_project_id = ''p'', ch_revision = 3, ch_kind = ''post'',
               ch_ref = ''P-50'', ch_summary = ''v'', ch_created_at = 502\<rparr>],
         activity_events =
           [\<lparr>ac_id = ''A-10'', ac_kind = ''project_updated'',
               ac_project_id = Some ''p'', ac_actor_id = ''u'',
               ac_object_ref = ''p'', ac_object_title = ''P'',
               ac_outcome = ''created'', ac_untrusted = True,
               ac_occurred_at = 100, ac_recorded_at = 100\<rparr>],
         project_core_requests =
           [\<lparr>rq_request_key = ''1:u1'', rq_operation = ''project.create'',
               rq_payload_hash = ''h'', rq_result_id = ''p'',
               rq_result_revision = 1, rq_project_revision = 1,
               rq_created_at = 100\<rparr>],
         wiki_pages = [], wiki_revisions = [],
         search_documents =
           [\<lparr>sd_project_id = Some ''p'', sd_ref = ''P-40'',
               sd_kind = ''finding'', sd_revision = 2, sd_title = ''t'',
               sd_body = ''b c''\<rparr>,
            \<lparr>sd_project_id = Some ''p'', sd_ref = ''P-50'',
               sd_kind = ''finding'', sd_revision = 3, sd_title = ''v'',
               sd_body = ''b c''\<rparr>],
         decisions = [], status_events = [], redactions = []\<rparr>,
      fo_sessions =
        [\<lparr>ss_id = ''a'', ss_host = ''h'', ss_project_id = Some ''p'',
            ss_purpose = ''w'', ss_created_at = 200\<rparr>,
         \<lparr>ss_id = ''d'', ss_host = ''h'', ss_project_id = None,
            ss_purpose = ''w'', ss_created_at = 300\<rparr>],
      fo_handles =
        [\<lparr>sh_session_id = ''a'', sh_handle = ''agent-000001'',
            sh_created_at = 200\<rparr>,
         \<lparr>sh_session_id = ''d'', sh_handle = ''agent-000002'',
            sh_created_at = 300\<rparr>],
      fo_posts =
        [\<lparr>po_id = ''P-40'', po_topic_id = ''p'', po_project_id = Some ''p'',
            po_project_revision = Some 2, po_kind = ''finding'',
            po_title = ''t'', po_body = ''b'', po_basis = ''c'', po_ref = [],
            po_session_id = ''a'', po_request_id = Some ''1:a1'',
            po_created_at = 400\<rparr>,
         \<lparr>po_id = ''P-50'', po_topic_id = ''p'', po_project_id = Some ''p'',
            po_project_revision = Some 3, po_kind = ''finding'',
            po_title = ''v'', po_body = ''b'', po_basis = ''c'', po_ref = [],
            po_session_id = ''a'', po_request_id = Some ''1:a2'',
            po_created_at = 500\<rparr>],
      fo_attachments = [], fo_comments = [], fo_state_events = [],
      fo_scopes =
        [\<lparr>sc_post_id = ''P-40'', sc_scope = ''closed'', sc_revision = 0,
            sc_event_id = None, sc_updated_at = 400\<rparr>,
         \<lparr>sc_post_id = ''P-50'', sc_scope = ''closed'', sc_revision = 0,
            sc_event_id = None, sc_updated_at = 500\<rparr>],
      fo_scope_events = [],
      fo_mentions =
        [\<lparr>cm_source_kind = ''post'', cm_source_id = ''P-40'', cm_position = 0,
            cm_recipient_kind = ''human'',
            cm_recipient_principal = ''human:local-admin'',
            cm_recipient_session_id = None, cm_created_at = 400\<rparr>],
      fo_comment_mentions = [],
      fo_notifications =
        [\<lparr>hn_id = ''N-41'', hn_recipient_principal = ''human:local-admin'',
            hn_source_kind = ''post'', hn_post_id = ''P-40'',
            hn_comment_id = None, hn_actor_kind = ''agent'',
            hn_actor_principal = ''a'', hn_actor_session_id = ''a'',
            hn_snippet = ''b'', hn_created_at = 400, hn_read_at = None\<rparr>],
      fo_receipts = []\<rparr>"
  by code_simp

lemma fdemo5_code [code]: "fdemo5 =
  \<lparr>fo_core =
      \<lparr>projects =
         [\<lparr>p_id = ''p'', p_name = ''P'', p_status = ''active'',
             p_purpose = ''x'', p_milestone = [], p_now_text = [],
             p_revision = 4, p_created_at = 100, p_updated_at = 601\<rparr>],
         topics =
           [\<lparr>tp_id = ''general'', tp_project_id = None, tp_name = ''General'',
               tp_created_at = 0\<rparr>,
            \<lparr>tp_id = ''p'', tp_project_id = Some ''p'', tp_name = ''P'',
               tp_created_at = 100\<rparr>],
         milestones = [], tasks = [], task_dependencies = [],
         task_claims = [], task_current_claims = [], task_events = [],
         changes =
           [\<lparr>ch_project_id = ''p'', ch_revision = 1,
               ch_kind = ''project_created'', ch_ref = ''p'',
               ch_summary = ''P'', ch_created_at = 100\<rparr>,
            \<lparr>ch_project_id = ''p'', ch_revision = 2, ch_kind = ''post'',
               ch_ref = ''P-40'', ch_summary = ''t'', ch_created_at = 402\<rparr>,
            \<lparr>ch_project_id = ''p'', ch_revision = 3, ch_kind = ''post'',
               ch_ref = ''P-50'', ch_summary = ''v'', ch_created_at = 502\<rparr>,
            \<lparr>ch_project_id = ''p'', ch_revision = 4, ch_kind = ''comment'',
               ch_ref = ''R-60'', ch_summary = ''comment on P-40'',
               ch_created_at = 602\<rparr>],
         activity_events =
           [\<lparr>ac_id = ''A-10'', ac_kind = ''project_updated'',
               ac_project_id = Some ''p'', ac_actor_id = ''u'',
               ac_object_ref = ''p'', ac_object_title = ''P'',
               ac_outcome = ''created'', ac_untrusted = True,
               ac_occurred_at = 100, ac_recorded_at = 100\<rparr>],
         project_core_requests =
           [\<lparr>rq_request_key = ''1:u1'', rq_operation = ''project.create'',
               rq_payload_hash = ''h'', rq_result_id = ''p'',
               rq_result_revision = 1, rq_project_revision = 1,
               rq_created_at = 100\<rparr>],
         wiki_pages = [], wiki_revisions = [],
         search_documents =
           [\<lparr>sd_project_id = Some ''p'', sd_ref = ''P-40'',
               sd_kind = ''finding'', sd_revision = 2, sd_title = ''t'',
               sd_body = ''b c''\<rparr>,
            \<lparr>sd_project_id = Some ''p'', sd_ref = ''P-50'',
               sd_kind = ''finding'', sd_revision = 3, sd_title = ''v'',
               sd_body = ''b c''\<rparr>],
         decisions = [], status_events = [], redactions = []\<rparr>,
      fo_sessions =
        [\<lparr>ss_id = ''a'', ss_host = ''h'', ss_project_id = Some ''p'',
            ss_purpose = ''w'', ss_created_at = 200\<rparr>,
         \<lparr>ss_id = ''d'', ss_host = ''h'', ss_project_id = None,
            ss_purpose = ''w'', ss_created_at = 300\<rparr>],
      fo_handles =
        [\<lparr>sh_session_id = ''a'', sh_handle = ''agent-000001'',
            sh_created_at = 200\<rparr>,
         \<lparr>sh_session_id = ''d'', sh_handle = ''agent-000002'',
            sh_created_at = 300\<rparr>],
      fo_posts =
        [\<lparr>po_id = ''P-40'', po_topic_id = ''p'', po_project_id = Some ''p'',
            po_project_revision = Some 2, po_kind = ''finding'',
            po_title = ''t'', po_body = ''b'', po_basis = ''c'', po_ref = [],
            po_session_id = ''a'', po_request_id = Some ''1:a1'',
            po_created_at = 400\<rparr>,
         \<lparr>po_id = ''P-50'', po_topic_id = ''p'', po_project_id = Some ''p'',
            po_project_revision = Some 3, po_kind = ''finding'',
            po_title = ''v'', po_body = ''b'', po_basis = ''c'', po_ref = [],
            po_session_id = ''a'', po_request_id = Some ''1:a2'',
            po_created_at = 500\<rparr>],
      fo_attachments = [],
      fo_comments =
        [\<lparr>co_id = ''R-60'', co_post_id = ''P-40'', co_project_id = Some ''p'',
            co_project_revision = Some 4, co_body = ''r'',
            co_intent = ''answer'', co_session_id = ''a'',
            co_request_id = Some ''1:a3'', co_created_at = 600\<rparr>],
      fo_state_events = [],
      fo_scopes =
        [\<lparr>sc_post_id = ''P-40'', sc_scope = ''closed'', sc_revision = 0,
            sc_event_id = None, sc_updated_at = 400\<rparr>,
         \<lparr>sc_post_id = ''P-50'', sc_scope = ''closed'', sc_revision = 0,
            sc_event_id = None, sc_updated_at = 500\<rparr>],
      fo_scope_events = [],
      fo_mentions =
        [\<lparr>cm_source_kind = ''post'', cm_source_id = ''P-40'', cm_position = 0,
            cm_recipient_kind = ''human'',
            cm_recipient_principal = ''human:local-admin'',
            cm_recipient_session_id = None, cm_created_at = 400\<rparr>],
      fo_comment_mentions = [],
      fo_notifications =
        [\<lparr>hn_id = ''N-41'', hn_recipient_principal = ''human:local-admin'',
            hn_source_kind = ''post'', hn_post_id = ''P-40'',
            hn_comment_id = None, hn_actor_kind = ''agent'',
            hn_actor_principal = ''a'', hn_actor_session_id = ''a'',
            hn_snippet = ''b'', hn_created_at = 400, hn_read_at = None\<rparr>],
      fo_receipts = []\<rparr>"
  by code_simp

lemma fdemo6_code [code]: "fdemo6 =
  \<lparr>fo_core =
      \<lparr>projects =
         [\<lparr>p_id = ''p'', p_name = ''P'', p_status = ''active'',
             p_purpose = ''x'', p_milestone = [], p_now_text = [],
             p_revision = 4, p_created_at = 100, p_updated_at = 601\<rparr>],
         topics =
           [\<lparr>tp_id = ''general'', tp_project_id = None, tp_name = ''General'',
               tp_created_at = 0\<rparr>,
            \<lparr>tp_id = ''p'', tp_project_id = Some ''p'', tp_name = ''P'',
               tp_created_at = 100\<rparr>],
         milestones = [], tasks = [], task_dependencies = [],
         task_claims = [], task_current_claims = [], task_events = [],
         changes =
           [\<lparr>ch_project_id = ''p'', ch_revision = 1,
               ch_kind = ''project_created'', ch_ref = ''p'',
               ch_summary = ''P'', ch_created_at = 100\<rparr>,
            \<lparr>ch_project_id = ''p'', ch_revision = 2, ch_kind = ''post'',
               ch_ref = ''P-40'', ch_summary = ''t'', ch_created_at = 402\<rparr>,
            \<lparr>ch_project_id = ''p'', ch_revision = 3, ch_kind = ''post'',
               ch_ref = ''P-50'', ch_summary = ''v'', ch_created_at = 502\<rparr>,
            \<lparr>ch_project_id = ''p'', ch_revision = 4, ch_kind = ''comment'',
               ch_ref = ''R-60'', ch_summary = ''comment on P-40'',
               ch_created_at = 602\<rparr>],
         activity_events =
           [\<lparr>ac_id = ''A-10'', ac_kind = ''project_updated'',
               ac_project_id = Some ''p'', ac_actor_id = ''u'',
               ac_object_ref = ''p'', ac_object_title = ''P'',
               ac_outcome = ''created'', ac_untrusted = True,
               ac_occurred_at = 100, ac_recorded_at = 100\<rparr>],
         project_core_requests =
           [\<lparr>rq_request_key = ''1:u1'', rq_operation = ''project.create'',
               rq_payload_hash = ''h'', rq_result_id = ''p'',
               rq_result_revision = 1, rq_project_revision = 1,
               rq_created_at = 100\<rparr>],
         wiki_pages = [], wiki_revisions = [],
         search_documents =
           [\<lparr>sd_project_id = Some ''p'', sd_ref = ''P-40'',
               sd_kind = ''finding'', sd_revision = 2, sd_title = ''t'',
               sd_body = ''b c''\<rparr>,
            \<lparr>sd_project_id = Some ''p'', sd_ref = ''P-50'',
               sd_kind = ''finding'', sd_revision = 3, sd_title = ''v'',
               sd_body = ''b c''\<rparr>],
         decisions = [], status_events = [], redactions = []\<rparr>,
      fo_sessions =
        [\<lparr>ss_id = ''a'', ss_host = ''h'', ss_project_id = Some ''p'',
            ss_purpose = ''w'', ss_created_at = 200\<rparr>,
         \<lparr>ss_id = ''d'', ss_host = ''h'', ss_project_id = None,
            ss_purpose = ''w'', ss_created_at = 300\<rparr>],
      fo_handles =
        [\<lparr>sh_session_id = ''a'', sh_handle = ''agent-000001'',
            sh_created_at = 200\<rparr>,
         \<lparr>sh_session_id = ''d'', sh_handle = ''agent-000002'',
            sh_created_at = 300\<rparr>],
      fo_posts =
        [\<lparr>po_id = ''P-40'', po_topic_id = ''p'', po_project_id = Some ''p'',
            po_project_revision = Some 2, po_kind = ''finding'',
            po_title = ''t'', po_body = ''b'', po_basis = ''c'', po_ref = [],
            po_session_id = ''a'', po_request_id = Some ''1:a1'',
            po_created_at = 400\<rparr>,
         \<lparr>po_id = ''P-50'', po_topic_id = ''p'', po_project_id = Some ''p'',
            po_project_revision = Some 3, po_kind = ''finding'',
            po_title = ''v'', po_body = ''b'', po_basis = ''c'', po_ref = [],
            po_session_id = ''a'', po_request_id = Some ''1:a2'',
            po_created_at = 500\<rparr>],
      fo_attachments = [],
      fo_comments =
        [\<lparr>co_id = ''R-60'', co_post_id = ''P-40'', co_project_id = Some ''p'',
            co_project_revision = Some 4, co_body = ''r'',
            co_intent = ''answer'', co_session_id = ''a'',
            co_request_id = Some ''1:a3'', co_created_at = 600\<rparr>],
      fo_state_events = [],
      fo_scopes =
        [\<lparr>sc_post_id = ''P-40'', sc_scope = ''commons'', sc_revision = 1,
            sc_event_id = Some ''PSC-70'', sc_updated_at = 700\<rparr>,
         \<lparr>sc_post_id = ''P-50'', sc_scope = ''closed'', sc_revision = 0,
            sc_event_id = None, sc_updated_at = 500\<rparr>],
      fo_scope_events =
        [\<lparr>sp_id = ''PSC-70'', sp_post_id = ''P-40'', sp_scope = ''commons'',
            sp_base_revision = 0, sp_revision = 1, sp_actor_id = ''a'',
            sp_session_id = ''a'', sp_request_id = ''1:a4'',
            sp_created_at = 700\<rparr>],
      fo_mentions =
        [\<lparr>cm_source_kind = ''post'', cm_source_id = ''P-40'', cm_position = 0,
            cm_recipient_kind = ''human'',
            cm_recipient_principal = ''human:local-admin'',
            cm_recipient_session_id = None, cm_created_at = 400\<rparr>],
      fo_comment_mentions = [],
      fo_notifications =
        [\<lparr>hn_id = ''N-41'', hn_recipient_principal = ''human:local-admin'',
            hn_source_kind = ''post'', hn_post_id = ''P-40'',
            hn_comment_id = None, hn_actor_kind = ''agent'',
            hn_actor_principal = ''a'', hn_actor_session_id = ''a'',
            hn_snippet = ''b'', hn_created_at = 400, hn_read_at = None\<rparr>],
      fo_receipts = []\<rparr>"
  by code_simp

lemma fdemo7_code [code]: "fdemo7 =
  \<lparr>fo_core =
      \<lparr>projects =
         [\<lparr>p_id = ''p'', p_name = ''P'', p_status = ''active'',
             p_purpose = ''x'', p_milestone = [], p_now_text = [],
             p_revision = 4, p_created_at = 100, p_updated_at = 601\<rparr>],
         topics =
           [\<lparr>tp_id = ''general'', tp_project_id = None, tp_name = ''General'',
               tp_created_at = 0\<rparr>,
            \<lparr>tp_id = ''p'', tp_project_id = Some ''p'', tp_name = ''P'',
               tp_created_at = 100\<rparr>],
         milestones = [], tasks = [], task_dependencies = [],
         task_claims = [], task_current_claims = [], task_events = [],
         changes =
           [\<lparr>ch_project_id = ''p'', ch_revision = 1,
               ch_kind = ''project_created'', ch_ref = ''p'',
               ch_summary = ''P'', ch_created_at = 100\<rparr>,
            \<lparr>ch_project_id = ''p'', ch_revision = 2, ch_kind = ''post'',
               ch_ref = ''P-40'', ch_summary = ''t'', ch_created_at = 402\<rparr>,
            \<lparr>ch_project_id = ''p'', ch_revision = 3, ch_kind = ''post'',
               ch_ref = ''P-50'', ch_summary = ''v'', ch_created_at = 502\<rparr>,
            \<lparr>ch_project_id = ''p'', ch_revision = 4, ch_kind = ''comment'',
               ch_ref = ''R-60'', ch_summary = ''comment on P-40'',
               ch_created_at = 602\<rparr>],
         activity_events =
           [\<lparr>ac_id = ''A-10'', ac_kind = ''project_updated'',
               ac_project_id = Some ''p'', ac_actor_id = ''u'',
               ac_object_ref = ''p'', ac_object_title = ''P'',
               ac_outcome = ''created'', ac_untrusted = True,
               ac_occurred_at = 100, ac_recorded_at = 100\<rparr>],
         project_core_requests =
           [\<lparr>rq_request_key = ''1:u1'', rq_operation = ''project.create'',
               rq_payload_hash = ''h'', rq_result_id = ''p'',
               rq_result_revision = 1, rq_project_revision = 1,
               rq_created_at = 100\<rparr>],
         wiki_pages = [], wiki_revisions = [],
         search_documents =
           [\<lparr>sd_project_id = Some ''p'', sd_ref = ''P-40'',
               sd_kind = ''finding'', sd_revision = 2, sd_title = ''t'',
               sd_body = ''b c''\<rparr>,
            \<lparr>sd_project_id = Some ''p'', sd_ref = ''P-50'',
               sd_kind = ''finding'', sd_revision = 3, sd_title = ''v'',
               sd_body = ''b c''\<rparr>],
         decisions = [], status_events = [], redactions = []\<rparr>,
      fo_sessions =
        [\<lparr>ss_id = ''a'', ss_host = ''h'', ss_project_id = Some ''p'',
            ss_purpose = ''w'', ss_created_at = 200\<rparr>,
         \<lparr>ss_id = ''d'', ss_host = ''h'', ss_project_id = None,
            ss_purpose = ''w'', ss_created_at = 300\<rparr>],
      fo_handles =
        [\<lparr>sh_session_id = ''a'', sh_handle = ''agent-000001'',
            sh_created_at = 200\<rparr>,
         \<lparr>sh_session_id = ''d'', sh_handle = ''agent-000002'',
            sh_created_at = 300\<rparr>],
      fo_posts =
        [\<lparr>po_id = ''P-40'', po_topic_id = ''p'', po_project_id = Some ''p'',
            po_project_revision = Some 2, po_kind = ''finding'',
            po_title = ''t'', po_body = ''b'', po_basis = ''c'', po_ref = [],
            po_session_id = ''a'', po_request_id = Some ''1:a1'',
            po_created_at = 400\<rparr>,
         \<lparr>po_id = ''P-50'', po_topic_id = ''p'', po_project_id = Some ''p'',
            po_project_revision = Some 3, po_kind = ''finding'',
            po_title = ''v'', po_body = ''b'', po_basis = ''c'', po_ref = [],
            po_session_id = ''a'', po_request_id = Some ''1:a2'',
            po_created_at = 500\<rparr>],
      fo_attachments = [],
      fo_comments =
        [\<lparr>co_id = ''R-60'', co_post_id = ''P-40'', co_project_id = Some ''p'',
            co_project_revision = Some 4, co_body = ''r'',
            co_intent = ''answer'', co_session_id = ''a'',
            co_request_id = Some ''1:a3'', co_created_at = 600\<rparr>],
      fo_state_events = [],
      fo_scopes =
        [\<lparr>sc_post_id = ''P-40'', sc_scope = ''commons'', sc_revision = 1,
            sc_event_id = Some ''PSC-70'', sc_updated_at = 700\<rparr>,
         \<lparr>sc_post_id = ''P-50'', sc_scope = ''closed'', sc_revision = 0,
            sc_event_id = None, sc_updated_at = 500\<rparr>],
      fo_scope_events =
        [\<lparr>sp_id = ''PSC-70'', sp_post_id = ''P-40'', sp_scope = ''commons'',
            sp_base_revision = 0, sp_revision = 1, sp_actor_id = ''a'',
            sp_session_id = ''a'', sp_request_id = ''1:a4'',
            sp_created_at = 700\<rparr>],
      fo_mentions =
        [\<lparr>cm_source_kind = ''post'', cm_source_id = ''P-40'', cm_position = 0,
            cm_recipient_kind = ''human'',
            cm_recipient_principal = ''human:local-admin'',
            cm_recipient_session_id = None, cm_created_at = 400\<rparr>],
      fo_comment_mentions = [],
      fo_notifications =
        [\<lparr>hn_id = ''N-41'', hn_recipient_principal = ''human:local-admin'',
            hn_source_kind = ''post'', hn_post_id = ''P-40'',
            hn_comment_id = None, hn_actor_kind = ''agent'',
            hn_actor_principal = ''a'', hn_actor_session_id = ''a'',
            hn_snippet = ''b'', hn_created_at = 400, hn_read_at = Some 800\<rparr>],
      fo_receipts =
        [\<lparr>nr_id = ''NR-80'', nr_notification_id = ''N-41'',
            nr_recipient_principal = ''human:local-admin'',
            nr_request_id = ''1:u5'', nr_read_at = 800,
            nr_created_at = 800\<rparr>]\<rparr>"
  by code_simp

section \<open>Reachability\<close>

lemma fdemo_step:
  "forum_step fdemo_url demo_hash CoreOp empty_forum fdemo0"
  "forum_step fdemo_url demo_hash (SessionOp (demo_env 2) (fdemo_session ''a'' ''p'')) fdemo0 fdemo1"
  "forum_step fdemo_url demo_hash (SessionOp (demo_env 3) (fdemo_session ''d'' '''')) fdemo1 fdemo2"
  "forum_step fdemo_url demo_hash (PostOp (demo_env 4) (fdemo_post ''t'' ''1'' [HumanLocalPrincipal]) fdemo2) fdemo2 fdemo3"
  "forum_step fdemo_url demo_hash (PostOp (demo_env 5) (fdemo_post ''v'' ''2'' []) fdemo3) fdemo3 fdemo4"
  "forum_step fdemo_url demo_hash (CommentOp (demo_env 6) (fdemo_comment ''a'' ''3'') fdemo4) fdemo4 fdemo5"
  "forum_step fdemo_url demo_hash (ScopeOp (demo_env 7) fdemo_scope fdemo5) fdemo5 fdemo6"
  "forum_step fdemo_url demo_hash (ReadOp (demo_env 8) fdemo_read) fdemo6 fdemo7"
proof -
  have "core_step demo_hash (fo_core empty_forum) demo1"
    unfolding demo1_def empty_forum_def by simp (rule core_step.intros, rule surjective_pairing)
  then show "forum_step fdemo_url demo_hash CoreOp empty_forum fdemo0" unfolding fdemo0_def by (rule step_core)
qed (unfold fdemo1_def fdemo2_def fdemo3_def fdemo4_def fdemo5_def fdemo6_def fdemo7_def, (rule forum_step.intros, rule surjective_pairing)+)

lemma fdemo_steps:
  "forum_steps fdemo_url demo_hash empty_forum fdemo0" "forum_steps fdemo_url demo_hash fdemo0 fdemo1"
  "forum_steps fdemo_url demo_hash fdemo1 fdemo2" "forum_steps fdemo_url demo_hash fdemo2 fdemo3"
  "forum_steps fdemo_url demo_hash fdemo3 fdemo4" "forum_steps fdemo_url demo_hash fdemo4 fdemo5"
  "forum_steps fdemo_url demo_hash fdemo5 fdemo6" "forum_steps fdemo_url demo_hash fdemo6 fdemo7"
  unfolding forum_steps_def by (rule exI, rule fdemo_step)+

lemma fdemo_reaches:
  "(forum_steps fdemo_url demo_hash)\<^sup>*\<^sup>* empty_forum fdemo2" "(forum_steps fdemo_url demo_hash)\<^sup>*\<^sup>* fdemo2 fdemo5"
  "(forum_steps fdemo_url demo_hash)\<^sup>*\<^sup>* empty_forum fdemo5" "(forum_steps fdemo_url demo_hash)\<^sup>*\<^sup>* fdemo3 fdemo7"
  "(forum_steps fdemo_url demo_hash)\<^sup>*\<^sup>* fdemo2 fdemo7" "(forum_steps fdemo_url demo_hash)\<^sup>*\<^sup>* empty_forum fdemo7"
proof -
  note steps = fdemo_steps [THEN r_into_rtranclp [where r = "forum_steps fdemo_url demo_hash"]]
  show e2: "(forum_steps fdemo_url demo_hash)\<^sup>*\<^sup>* empty_forum fdemo2" by (rule rtranclp_trans [OF steps(1) rtranclp_trans [OF steps(2,3)]])
  show s5: "(forum_steps fdemo_url demo_hash)\<^sup>*\<^sup>* fdemo2 fdemo5" by (rule rtranclp_trans [OF steps(4) rtranclp_trans [OF steps(5,6)]])
  show e5: "(forum_steps fdemo_url demo_hash)\<^sup>*\<^sup>* empty_forum fdemo5" by (rule rtranclp_trans [OF e2 s5])
  show s7: "(forum_steps fdemo_url demo_hash)\<^sup>*\<^sup>* fdemo3 fdemo7"
    by (rule rtranclp_trans [OF steps(5) rtranclp_trans [OF steps(6) rtranclp_trans [OF steps(7,8)]]])
  show "(forum_steps fdemo_url demo_hash)\<^sup>*\<^sup>* fdemo2 fdemo7" by (rule rtranclp_trans [OF steps(4) s7])
  with e2 show "(forum_steps fdemo_url demo_hash)\<^sup>*\<^sup>* empty_forum fdemo7" by (rule rtranclp_trans)
qed

section \<open>The properties on the run\<close>

definition fdemo_p1 :: post_row where
  "fdemo_p1 = hd (fo_posts fdemo3)"

lemma fdemo_visible: "hasRow ((=) fdemo_p1) (fo_posts fdemo6)" "discoverable fdemo6 ''d'' fdemo_p1" "\<not> discoverable fdemo5 ''d'' fdemo_p1"
  by code_simp+

theorem visibility_by_grant_witness:
  "grants (ScopeOp (demo_env 7) fdemo_scope fdemo5) fdemo5 ''d'' fdemo_p1"
  using visibility_by_grant [OF fdemo_reaches(3) fdemo_step(7)] fdemo_visible by auto

theorem scope_register_witness: "register_op (ScopeOp (demo_env 7) fdemo_scope fdemo5) (registersOf fdemo5) (registersOf fdemo6)"
  using scope_register [OF fdemo_reaches(3) fdemo_step(7)] by (rule conjunct1)

theorem attention_routed_witness: "mentions_ok fdemo7"
  by (rule attention_routed [OF fdemo_reaches(6)])

theorem forum_keeps_core_witness: "core_inv (fo_core fdemo7) \<and> log_refs_ok fdemo7"
  by (rule forum_keeps_core [OF fdemo_reaches(6)])




definition fdemo_op :: forum_op where
  "fdemo_op = PostOp (demo_env 4) (fdemo_post ''t'' ''1'' [HumanLocalPrincipal]) fdemo2"

lemma fdemo_performs: "fst (perform fdemo_url fdemo_op fdemo2) = Inr (''P-40'', 2)"
  by code_simp

lemma fdemo_perform: "perform fdemo_url fdemo_op fdemo2 = (Inr (''P-40'', 2), fdemo3)"
  using fdemo_performs by (auto simp: fdemo_op_def fdemo3_def split: prod.splits)

theorem forum_write_replays_witness: "perform fdemo_url (again (demo_env 9) fdemo7 fdemo_op) fdemo7 = (Inr (''P-40'', 2), fdemo7)"
proof (rule forum_write_replays [OF fdemo_reaches(1) _ _ fdemo_perform fdemo_reaches(4,4)])
  show "keyed fdemo_op" by (simp add: fdemo_op_def)
  show "case readBefore fdemo_op of None \<Rightarrow> True
    | Some snap0 \<Rightarrow> (forum_steps fdemo_url demo_hash)\<^sup>*\<^sup>* empty_forum snap0 \<and> (forum_steps fdemo_url demo_hash)\<^sup>*\<^sup>* snap0 fdemo2"
    using fdemo_reaches(1) by (simp add: fdemo_op_def)
qed

definition fdemo_feed :: feed_lib where
  "fdemo_feed = \<lparr>fl_julianday = (\<lambda>t. t), fl_match = (\<lambda>_ _. True), fl_encode = oc_ID,
     fl_decode = (\<lambda>s. Some \<lparr>oc_Version = 1, oc_Resource = (if HasPrefix s ''P-'' then ''posts'' else ''post-comments:P-40''),
       oc_Time = Some (if s = ''P-40'' then 400 else if s = ''P-50'' then 500 else 600), oc_Text = '''', oc_ID = s\<rparr>)\<rparr>"

definition fdemo_browse :: PostFeedRequest where
  "fdemo_browse = \<lparr>fr_ViewerKind = ''agent'', fr_ViewerSession = ''a'', fr_Cursor = '''',
     fr_Filters = \<lparr>pf_Search = '''', pf_TopicID = ''p'', pf_ProjectID = '''', pf_Kind = '''', pf_CreatedFrom = None, pf_CreatedTo = None\<rparr>, fr_Limit = 1\<rparr>"

definition fdemo_open :: "gostring \<Rightarrow> PostOpenRequest" where
  "fdemo_open session = \<lparr>or_Ref = ''P-40'', or_CommentsCursor = '''', or_CommentsLimit = 1, or_ViewerKind = ''agent'', or_ViewerSession = session\<rparr>"

definition fdemo_name :: "gostring \<times> gostring" where
  "fdemo_name = (''N'', ''n'')"

lemma fdemo_cursors:
  "\<forall>p \<in> set (fo_posts fdemo7). cursorKept fdemo_feed ''posts'' (po_created_at p) (po_id p)"
  by code_simp

lemma fdemo_answers:
  "\<not> isl (BrowsePosts fdemo_feed fdemo_name (fdemo_browse\<lparr>fr_Cursor := ''''\<rparr>) fdemo7)"
  by code_simp

theorem feed_pages_complete_witness:
  "\<exists>rows. follow (feedServe (fdemo_feed, fdemo_name, fdemo_browse, fdemo7)) (Suc (length (fo_posts fdemo7))) '''' =
      Some (Inr (map (feedItem fdemo_name fdemo7) rows)) \<and>
    sorted_wrt (\<lambda>p q. feedKey fdemo_feed p < feedKey fdemo_feed q) rows \<and> set rows = {p \<in> set (fo_posts fdemo7). feedMatches fdemo_feed fdemo_browse fdemo7 p}"
proof -
  obtain page where "BrowsePosts fdemo_feed fdemo_name (fdemo_browse\<lparr>fr_Cursor := ''''\<rparr>) fdemo7 = Inr page"
    using fdemo_answers by (cases "BrowsePosts fdemo_feed fdemo_name (fdemo_browse\<lparr>fr_Cursor := []\<rparr>) fdemo7") auto
  then show ?thesis by (rule feed_pages_complete [OF fdemo_reaches(6) fdemo_cursors])
qed

section \<open>The state of a hidden post\<close>

text \<open>While the first post is closed the other agent can neither open it nor comment on it, but resolves it.\<close>

lemma fdemo_hidden:
  "hasRow ((=) fdemo_p1) (fo_posts fdemo5)" "po_id fdemo_p1 = ''P-40''" "commentLimit (or_CommentsLimit (fdemo_open ''d'')) = Some 1"
  "normalizeMentionPrincipals (cq_MentionPrincipals (fdemo_comment ''d'' ''7'')) (cq_MentionSessionIDs (fdemo_comment ''d'' ''7'')) = Some []"
  "\<forall>k \<in> set (fo_comments fdemo5). co_request_id k \<noteq> Some (requestStorageKey (cq_ActorID (fdemo_comment ''d'' ''7'')) ''d'' ''7'')"
  "\<forall>x \<in> set (fo_state_events fdemo5). sv_id x \<noteq> newID (demo_env 9) 0 ''PS-'' \<and>
     sv_request_id x \<noteq> Some (requestStorageKey (sq_ActorID fdemo_state) ''d'' (sq_RequestID fdemo_state))"
  by code_simp+

lemma fdemo_requests:
  "or_Ref (fdemo_open ''d'') = ''P-40''" "or_ViewerKind (fdemo_open ''d'') = ''agent''" "or_ViewerSession (fdemo_open ''d'') = ''d''"
  "or_CommentsCursor (fdemo_open ''d'') = ''''" "cq_PostID (fdemo_comment ''d'' ''7'') = ''P-40''" "cq_ActorKind (fdemo_comment ''d'' ''7'') = ''agent''"
  "cq_SessionID (fdemo_comment ''d'' ''7'') = ''d''" "cq_Body (fdemo_comment ''d'' ''7'') \<noteq> ''''" "cq_Intent (fdemo_comment ''d'' ''7'') \<in> CommentIntents"
  "cq_RequestID (fdemo_comment ''d'' ''7'') = ''7''" "sq_PostID fdemo_state = ''P-40''" "sq_SessionID fdemo_state = ''d''" "sq_State fdemo_state = ''resolved''"
  "sq_SupersededBy fdemo_state = ''''"
  by code_simp+

theorem state_ignores_discovery_witness:
  "OpenPost fdemo_feed fdemo_name (fdemo_open ''d'') fdemo5 = Inl ErrNotFound \<and>
   Comment (demo_env 9) (fdemo_comment ''d'' ''7'') fdemo5 fdemo5 = (Inl ErrNotFound, fdemo5) \<and>
   (\<exists>v f'. SetPostState (demo_env 9) fdemo_state fdemo5 fdemo5 = (Inr \<lparr>wr_ID = newID (demo_env 9) 0 ''PS-'', wr_Revision = v\<rparr>, f') \<and>
      postState f' ''P-40'' = (''resolved'', ''''))"
  using state_ignores_discovery [OF fdemo_reaches(3), where p = fdemo_p1 and s = "''d''" and r = "fdemo_open ''d''" and n = 1 and
      c = "fdemo_comment ''d'' ''7''" and ms = "[]" and q = fdemo_state and e = "demo_env 9" and fl = fdemo_feed and identity = fdemo_name]
    fdemo_hidden fdemo_requests fdemo_visible(3) by simp

end
