(* ===== verification/Spec2Isabelle.thy ===== *)
theory Spec2Isabelle
  imports Core_Contract Persistence_Retry Jobs_Contract Presence_Registry Bridge_Observer Auth_Demo
    Health_Contract Supervisor_Contract Forum_Demo
begin

text \<open>
  \<^bold>\<open>Codex Commons.\<close> The program keeps the shared memory of people and coding agents who work on software
  projects: a SQLite database behind an HTTP server (Go, \<^verbatim>\<open>src/internal\<close>), to which agents write with bearer
  credentials and one human signs in with a browser. This development models the parts that decide what is
  written, who may write it and what happens when a write is repeated, delayed, interrupted or refused.

  \<^bold>\<open>Parts and how they interact.\<close>

  \<^item> \<^emph>\<open>Project core.\<close> The canonical writers of \<^verbatim>\<open>store/project_core_write.go\<close> (projects, milestones, tasks,
    wiki pages, decisions), the claims of \<^verbatim>\<open>store/write.go\<close> and \<^verbatim>\<open>claim_query.go\<close> and the older mutations of
    \<^verbatim>\<open>store.go\<close> and \<^verbatim>\<open>write.go\<close>, all on one database with a revision counter, a change log and a ledger of
    request keys.
  \<^item> \<^emph>\<open>Forum.\<close> Posts of agents and of the human with comments, states, perspective scopes, mentions and
    notifications (\<^verbatim>\<open>store/write.go\<close>, \<^verbatim>\<open>posts.go\<close>, \<^verbatim>\<open>addressability.go\<close>, \<^verbatim>\<open>notifications.go\<close>), the predicate that decides
    which agent discovers which post (\<^verbatim>\<open>post_discovery.go\<close>), and the pages in which they are read
    (\<^verbatim>\<open>application/posts.go\<close>, \<^verbatim>\<open>comments.go\<close>, \<^verbatim>\<open>notifications.go\<close>, \<^verbatim>\<open>browse.go\<close>). Its tables extend those of the
    core, and a post in a project counts its revision and writes its change log.
  \<^item> \<^emph>\<open>Project archaeology.\<close> Sessions of a human who lets Codex study repositories
    (\<^verbatim>\<open>store/project_archaeology.go\<close>), the native scheduler that hands out jobs and records their reports
    (\<^verbatim>\<open>project_archaeology_native.go\<close>), the policy that limits them (\<^verbatim>\<open>project_archaeology_policy.go\<close>), and the
    ledger through which repository writes survive a crash (\<^verbatim>\<open>project_archaeology_persistence.go\<close>). Its tables
    extend those of the core; the ledger blocks the scheduler while a write is unsettled.
  \<^item> \<^emph>\<open>Human accounts.\<close> The binding of the installation to one ChatGPT account and the browser sessions
    (\<^verbatim>\<open>store/human_auth.go\<close>, \<^verbatim>\<open>human_sessions.go\<close>), the cache of sessions in the server (\<^verbatim>\<open>httpapi/auth.go\<close>),
    the sign-in attempts (\<^verbatim>\<open>httpapi/codex_routes.go\<close>), the authentication routes and the admission of
    requests (\<^verbatim>\<open>auth_routes.go\<close>, \<^verbatim>\<open>handler.go\<close>). Admission decides as whom a request reaches the writers.
  \<^item> \<^emph>\<open>Background jobs\<close> (\<^verbatim>\<open>internal/jobs\<close>), the \<^emph>\<open>presence registry\<close> (\<^verbatim>\<open>internal/presence\<close>) and the
    \<^emph>\<open>observer\<close> of the App Server protocol (\<^verbatim>\<open>internal/appserverbridge\<close>), each on its own state.
  \<^item> \<^emph>\<open>Codex process supervisor\<close> (\<^verbatim>\<open>codexauth/process.go\<close>). It keeps one Codex child alive: it starts, probes,
    installs, replaces and abandons children, counts starts against a budget, and tells its callers which child serves.
  \<^item> \<^emph>\<open>Runtime health.\<close> The evaluation of a snapshot (\<^verbatim>\<open>runtimehealth/health.go\<close>), the monitor that probes the
    database, the sockets, the supervisor, the client and the ledger and publishes the verdict
    (\<^verbatim>\<open>server/runtime_health.go\<close>), and the notifier that feeds the service manager's watchdog or ends the service
    (\<^verbatim>\<open>server/notify.go\<close>). The snapshot of the supervisor and the unsettled writes of the ledger enter the
    monitor; what it publishes decides the HTTP answers, the watchdog and whether the scheduler may start a turn.

  \<^bold>\<open>Which theory models what.\<close> A table is the list of its rows, a Go map an association list or a map, a struct a
  record with prefixed fields, an error a value of \<open>go_error\<close> in a sum or option. An operation returns its result
  and the state it leaves; a transaction that fails leaves the state it found.

  \<^item> \<open>Commons_Prelude\<close>: the errors of \<^verbatim>\<open>domain/errors.go\<close>, the error monad, Go strings as bytes, tables, time
    stamps as text, and two interfaces, an invariant of a transition system and a ledger that only grows.
  \<^item> \<open>Core_Schema\<close>, \<open>Core_Helpers\<close>, \<open>Core_Write\<close>, \<open>Task_Claims\<close>, \<open>Store_Mutations\<close>: tables and operations of the
    core, in the order of the sources. \<open>Core_Effects\<close>, \<open>Core_Invariants\<close>, \<open>Claim_Invariants\<close>, \<open>Core_System\<close>: what
    a write commits, three abstract machines (revision log, task graph, claims) that every write refines, and the
    invariant of every reachable database. \<open>Core_Properties\<close>, \<open>Core_Contract\<close>: replay of requests, conflicts,
    stale edits, the claims of a task, and the properties. \<open>Core_Demo\<close>: a small history used as an instance.
  \<^item> \<open>Forum_Schema\<close>, \<open>Forum_Write\<close>: tables, registration of sessions, discovery and the writers of the forum.
    \<open>Forum_Effects\<close>: what each writer commits. \<open>Forum_Invariants\<close>: the forum over the core as a transition system and
    its invariant. \<open>Forum_Replay\<close>: repeated requests. \<open>Forum_Contract\<close>: who comes to discover a post and by whose act,
    the scope as a register with compare and swap, mentions, receipts, handles, and the change log when core and forum
    take turns. \<open>Forum_Feed\<close>: the readers and the pages of the service. \<open>Forum_Paging\<close>: the contract of a paged reader,
    and that following the cursors reads everything once and ends. \<open>Forum_Hidden\<close>: what an agent may do with a
    post it cannot discover. \<open>Forum_Demo\<close>: a small history used as an instance.
  \<^item> \<open>Archaeology_Policy\<close>, \<open>Archaeology_Schema\<close>, \<open>Archaeology_Native\<close>, \<open>Archaeology_Sessions\<close>: limits, tables, the
    scheduler and the sessions. \<open>Archaeology_Effects\<close>, \<open>Archaeology_Lifecycle\<close>, \<open>Archaeology_System\<close>,
    \<open>Archaeology_Invariants\<close>, \<open>Archaeology_History\<close>: what a transaction commits, the state machine of jobs, the
    transition system, its invariant and what it never undoes. \<open>Archaeology_Contract\<close>: the properties.
  \<^item> \<open>Archaeology_Persistence\<close>: the ledger of repository writes. \<open>Archaeology_Ledger\<close>: its single accesses as steps,
    the invariant of the ledger, and each call as a sequence of steps under any interleaving. \<open>Persistence_Contract\<close>,
    \<open>Persistence_Retry\<close>: history of an intent, round trip of its stored form, replay of a write, progress of a retry.
  \<^item> \<open>Human_Store\<close>, \<open>Human_Auth\<close>, \<open>Codex_Pairing\<close>, \<open>Auth_Routes\<close>, \<open>Auth_Handlers\<close>: tables, session cache, sign-in
    attempts, request checks and handlers up to \<^verbatim>\<open>ServeHTTP\<close>. \<open>Session_Contract\<close>: the contract of the session store
    as a locale, kept by the database and by a database that refuses statements at will. \<open>Auth_Contract\<close>:
    revocation and logout on such a store, and the window in which a revoked session returns. \<open>Pairing_Contract\<close>,
    \<open>Login_Contract\<close>, \<open>Profile_Contract\<close>, \<open>Admission_Contract\<close>: limits of sign-in attempts and logins, the account
    binding, and who is admitted or given a session. \<open>Auth_Demo\<close>: instances.
  \<^item> \<open>Jobs_Types\<close>, \<open>Jobs_Store\<close>, \<open>Jobs_Runner\<close>, \<open>Jobs_Contract\<close>; \<open>Presence_Registry\<close>; \<open>Bridge_Observer\<close>.
  \<^item> \<open>Process_Supervisor\<close>: the critical sections of the supervisor's mutex, each a function of its state.
    \<open>Supervisor_Contract\<close>: the relation in which they interleave, the restart budget, the single child, the end of a
    recovery turn, and the interleaving that loses a recovery.
  \<^item> \<open>Runtime_Health\<close>: \<^verbatim>\<open>Evaluate\<close> and the snapshot, with the characterisation of readiness. \<open>Health_Monitor\<close>: the
    cycle of probes and its failure counters. \<open>Service_Notifier\<close>: \<^verbatim>\<open>notify.go\<close>. \<open>Health_Service\<close>: the probes of
    the client and of the ledger, \<^verbatim>\<open>watchdogSnapshot\<close> and the HTTP projection. \<open>Health_Contract\<close>: the watchdog, the
    end of a service in outage, the age of a verdict, and the gate of the scheduler.

  \<^bold>\<open>Interfaces.\<close> \<open>transition_invariant\<close> and \<open>permanent_ledger\<close> (prelude) are interpreted on the steps of the core,
  of the forum (with a ledger for each kind of request and for the handles), of archaeology, of the ledger, of the
  pairing manager, of the account store and (for the budget, for the
  children and for the length of a turn) of the process supervisor; \<open>scheduler_state\<close> on the two forms
  of the archaeology state; \<open>state_store\<close> on the memory store of the jobs; \<open>replayable_write\<close> on the repository
  writes; \<open>session_store\<close> on the database and on the failing database; \<open>paged_service\<close> on the feed of posts and on the
  comments of a thread.

  \<^bold>\<open>Parameters.\<close> SHA-256, HMAC, the JSON codec, Unicode case mapping, the parsers of URLs and addresses, SQLite's
  full text match and \<^verbatim>\<open>julianday\<close>, the encoding of cursors, the clock,
  the random source, the Git reader of the background jobs, the Codex child process and the repository interpreter
  are arguments of the definitions that use them. What a theorem needs of them (a digest has 32 bytes, an identifier
  is fresh, two requests have different digests) is a hypothesis of that theorem.

  \<^bold>\<open>Interleaving.\<close> SQLite runs one writing transaction at a time, so a transaction is one step. Where the code reads
  outside the transaction, calls another process or gives up a mutex, the model has an argument for what happens in
  between: \<open>snap\<close> in the writers of the core and of the forum, \<open>others\<close> and \<open>world\<close> in the ledger, \<open>w\<close> in the revocation of sessions,
  handlers split at a call of the Codex client, and the supervisor's operations split at every release of its mutex.
  The step relations let any operations follow each other. The relation of the supervisor allows more than the code
  does: its timer may fire at any time and an exit may be reported of any child. Closing the old child and the call of
  the factory are one step of it; the supervisor takes no lock between them.
  Some handlers are one step although the code gives up a mutex in them: \<open>rotateCSRF\<close> between cache and store,
  \<open>codexProfile\<close> and \<open>updateIdentity\<close> between the attempt and the session; properties of these hold for requests
  that are served without another one in between. \<open>lookup\<close> reads the clock once where the code reads it twice.

  \<^bold>\<open>Bounds and termination.\<close> Every definition is a total function. The recursive dependency query runs until no new
  task is found and terminates by the number of tasks not yet reached. A retry of the ledger takes as many rounds as
  it has leased rows, the revocation of sessions three attempts; both are the bounds of the code. A turn of the
  supervisor has at most six critical sections after the one that woke it. A client that follows the cursors of the feed or of a
  thread is given one request per row and one more, which is enough. Integers are
  unbounded where the code's values are bounded by the database (revisions, counts) and taken modulo \<open>2 ^ 64\<close> where
  they are encoded. Times stand for their stored form, which is faithful for the years 0 to 9999.

  \<^bold>\<open>Not modelled.\<close> The table of routes behind the admission and the JSON form of answers; the readers of projects,
  people, topics and the home page, which change nothing; the application layer that drives the scheduler; the import of historical projects and the application of reports; the Codex child
  process and the protocol spoken with it, which are parameters of the supervisor and of the sign-in; the goroutines,
  tickers and sockets around the monitor and the notifier, whose bodies are modelled; start-up, configuration, backup, restore, file-system and command-line code;
  the GitHub reader; the browser client. Failures of SQLite other than constraints are modelled for the session store
  only. The reasons are given with the components of the manifest.
\<close>

end
